(* ===== verification/Go_Strings.thy ===== *)
theory Go_Strings
  imports Main "HOL-Library.List_Lexorder" "HOL-Library.Char_ord"
begin

text \<open>
  Go strings and the operations of the packages \<open>strings\<close> and \<open>strconv\<close> that the code uses. A string
  is its sequence of bytes, one \<open>char\<close> each; \<open>TrimSpace\<close> trims the Unicode white space of its
  UTF-8 encoding, \<open>ToLower\<close> changes ASCII letters.
\<close>

section \<open>Strings\<close>

definition byte_of :: "char \<Rightarrow> nat" where
  "byte_of c = of_char c"

text \<open>
  The length in bytes of the white-space character (\<open>unicode.IsSpace\<close>) at the head of a byte
  sequence, 0 when there is none: the ASCII blanks, U+0085, U+00A0, U+1680, U+2000 to U+200A,
  U+2028, U+2029, U+202F, U+205F and U+3000 in UTF-8.
\<close>

fun space_width :: "nat list \<Rightarrow> nat" where
  "space_width [] = 0"
| "space_width (b # bs) =
     (if b \<in> {9, 10, 11, 12, 13, 32} then 1
      else case bs of
        [] \<Rightarrow> 0
      | c # cs \<Rightarrow>
          if b = 194 \<and> c \<in> {133, 160} then 2
          else (case cs of
            [] \<Rightarrow> 0
          | d # _ \<Rightarrow>
              if b = 225 \<and> c = 154 \<and> d = 128
                \<or> b = 226 \<and> c = 128 \<and> (128 \<le> d \<and> d \<le> 138 \<or> d \<in> {168, 169, 175})
                \<or> b = 226 \<and> c = 129 \<and> d = 159
                \<or> b = 227 \<and> c = 128 \<and> d = 128 then 3 else 0))"

text \<open>The same at the end: the argument is the reversed byte sequence.\<close>

definition space_width_rev :: "nat list \<Rightarrow> nat" where
  "space_width_rev bs =
     (if space_width (take 1 bs) = 1 then 1
      else if space_width (rev (take 2 bs)) = 2 then 2
      else if space_width (rev (take 3 bs)) = 3 then 3 else 0)"

function trim_left :: "string \<Rightarrow> string" where
  "trim_left s =
     (let w = space_width (map byte_of (take 3 s))
      in if w = 0 \<or> s = [] then s else trim_left (drop w s))"
  by pat_completeness auto
termination
  by (relation "measure length") auto

function trim_right_rev :: "string \<Rightarrow> string" where
  "trim_right_rev r =
     (let w = space_width_rev (map byte_of (take 3 r))
      in if w = 0 \<or> r = [] then r else trim_right_rev (drop w r))"
  by pat_completeness auto
termination
  by (relation "measure length") auto

declare trim_left.simps [simp del] trim_right_rev.simps [simp del]

definition TrimSpace :: "string \<Rightarrow> string" where
  "TrimSpace s = rev (trim_right_rev (rev (trim_left s)))"

text \<open>Letter case, for ASCII; other bytes are kept.\<close>

definition lower_byte :: "char \<Rightarrow> char" where
  "lower_byte c = (let b = byte_of c in if 65 \<le> b \<and> b \<le> 90 then char_of (b + 32) else c)"

definition ToLower :: "string \<Rightarrow> string" where
  "ToLower s = map lower_byte s"

definition ContainsAny :: "string \<Rightarrow> string \<Rightarrow> bool" where
  "ContainsAny s chars = list_ex (\<lambda>c. c \<in> set chars) s"

fun HasPrefix :: "string \<Rightarrow> string \<Rightarrow> bool" where
  "HasPrefix s [] = True"
| "HasPrefix [] (p # ps) = False"
| "HasPrefix (c # s) (p # ps) = (c = p \<and> HasPrefix s ps)"

definition TrimPrefix :: "string \<Rightarrow> string \<Rightarrow> string" where
  "TrimPrefix s p = (if HasPrefix s p then drop (length p) s else s)"

definition HasSuffix :: "string \<Rightarrow> string \<Rightarrow> bool" where
  "HasSuffix s p = HasPrefix (rev s) (rev p)"

fun Contains :: "string \<Rightarrow> string \<Rightarrow> bool" where
  "Contains [] p = (p = [])"
| "Contains (c # s) p = (HasPrefix (c # s) p \<or> Contains s p)"

text \<open>\<open>strings.Compare\<close> and \<open><\<close> on strings compare the bytes lexicographically.\<close>

definition strings_Compare :: "string \<Rightarrow> string \<Rightarrow> int" where
  "strings_Compare a b = (if a = b then 0 else if a < b then -1 else 1)"

fun strings_Join :: "string list \<Rightarrow> string \<Rightarrow> string" where
  "strings_Join [] sep = []"
| "strings_Join [a] sep = a"
| "strings_Join (a # b # xs) sep = a @ sep @ strings_Join (b # xs) sep"

abbreviation NUL :: string where "NUL \<equiv> [CHR 0x00]"
abbreviation NL :: string where "NL \<equiv> [CHR 0x0A]"

text \<open>Decimal notation, \<open>strconv.Itoa\<close>.\<close>

fun nat_digits :: "nat \<Rightarrow> string" where
  "nat_digits n = (if n < 10 then [char_of (48 + n)] else nat_digits (n div 10) @ [char_of (48 + n mod 10)])"

declare nat_digits.simps [simp del]

definition Itoa :: "int \<Rightarrow> string" where
  "Itoa i = (if i < 0 then ''-'' @ nat_digits (nat (- i)) else nat_digits (nat i))"

subsection \<open>Facts about trimming\<close>

lemma trim_left_Nil [simp]: "trim_left [] = []"
  by (simp add: trim_left.simps)

lemma trim_right_rev_Nil [simp]: "trim_right_rev [] = []"
  by (simp add: trim_right_rev.simps)

lemma TrimSpace_Nil [simp]: "TrimSpace [] = []"
  by (simp add: TrimSpace_def)

lemma trim_left_length: "length (trim_left s) \<le> length s"
proof (induction s rule: trim_left.induct)
  case (1 s)
  let ?w = "space_width (map byte_of (take 3 s))"
  show ?case
  proof (cases "?w = 0 \<or> s = []")
    case True
    then show ?thesis by (simp add: trim_left.simps [of s])
  next
    case False
    then have "length (trim_left (drop ?w s)) \<le> length (drop ?w s)"
      using "1.IH" by blast
    with False show ?thesis by (simp add: trim_left.simps [of s] Let_def)
  qed
qed

lemma trim_right_rev_length: "length (trim_right_rev r) \<le> length r"
proof (induction r rule: trim_right_rev.induct)
  case (1 r)
  let ?w = "space_width_rev (map byte_of (take 3 r))"
  show ?case
  proof (cases "?w = 0 \<or> r = []")
    case True
    then show ?thesis by (simp add: trim_right_rev.simps [of r])
  next
    case False
    then have "length (trim_right_rev (drop ?w r)) \<le> length (drop ?w r)"
      using "1.IH" by blast
    with False show ?thesis by (simp add: trim_right_rev.simps [of r] Let_def)
  qed
qed

lemma TrimSpace_length: "length (TrimSpace s) \<le> length s"
  using trim_right_rev_length [of "rev (trim_left s)"] trim_left_length [of s]
  by (simp add: TrimSpace_def)

lemma space_width_take:
  "space_width (take n bs) \<noteq> 0 \<Longrightarrow> space_width bs = space_width (take n bs)"
proof -
  assume a: "space_width (take n bs) \<noteq> 0"
  then obtain b bs' where b: "bs = b # bs'" and n: "n \<noteq> 0" by (cases bs; cases n) auto
  then obtain m where m: "n = Suc m" by (cases n) auto
  show ?thesis
  proof (cases "b \<in> {9, 10, 11, 12, 13, 32}")
    case True
    then show ?thesis by (auto simp: b m)
  next
    case False
    with a b m obtain c cs where c: "bs' = c # cs" and "m \<noteq> 0" by (cases bs'; cases m) auto
    then obtain k where k: "m = Suc k" by (cases m) auto
    show ?thesis
    proof (cases "b = 194 \<and> c \<in> {133, 160}")
      case True
      then show ?thesis by (auto simp: b m c k)
    next
      case nc: False
      with False a b m c k obtain d ds where d: "cs = d # ds" and "k \<noteq> 0" by (cases cs; cases k) auto
      then obtain j where "k = Suc j" by (cases k) auto
      then show ?thesis by (simp add: b m c d k)
    qed
  qed
qed

lemma space_width_take3: "space_width (take 3 bs) = space_width bs"
proof -
  consider "bs = []" | b where "bs = [b]" | b c where "bs = [b, c]" | b c d ds where "bs = b # c # d # ds"
    by (metis list.exhaust)
  then show ?thesis by cases simp_all
qed

lemma trim_left_fix: "space_width (map byte_of (trim_left s)) = 0"
proof (induction s rule: trim_left.induct)
  case (1 s)
  show ?case
  proof (cases "space_width (map byte_of (take 3 s)) = 0 \<or> s = []")
    case True
    then show ?thesis
      by (auto simp: trim_left.simps [of s] Let_def space_width_take3 simp flip: take_map)
  next
    case False
    with 1 show ?thesis by (simp add: trim_left.simps [of s] Let_def)
  qed
qed

lemma trim_left_id: "space_width (map byte_of s) = 0 \<Longrightarrow> trim_left s = s"
  by (simp add: trim_left.simps [of s] Let_def space_width_take3 flip: take_map)

lemma space_width_rev_take3: "space_width_rev (take 3 bs) = space_width_rev bs"
  by (simp add: space_width_rev_def)

lemma trim_right_fix: "space_width_rev (map byte_of (trim_right_rev r)) = 0"
proof (induction r rule: trim_right_rev.induct)
  case (1 r)
  show ?case
  proof (cases "space_width_rev (map byte_of (take 3 r)) = 0 \<or> r = []")
    case True
    then show ?thesis
      by (auto simp: trim_right_rev.simps [of r] Let_def space_width_rev_take3 space_width_rev_def [of "[]"] simp flip: take_map)
  next
    case False
    with 1 show ?thesis by (simp add: trim_right_rev.simps [of r] Let_def)
  qed
qed

lemma trim_right_id: "space_width_rev (map byte_of r) = 0 \<Longrightarrow> trim_right_rev r = r"
  by (simp add: trim_right_rev.simps [of r] Let_def space_width_rev_take3 flip: take_map)

lemma trim_right_drop: "\<exists>n. trim_right_rev r = drop n r"
proof (induction r rule: trim_right_rev.induct)
  case (1 r)
  let ?w = "space_width_rev (map byte_of (take 3 r))"
  show ?case
  proof (cases "?w = 0 \<or> r = []")
    case True
    then have "trim_right_rev r = drop 0 r" by (auto simp: trim_right_rev.simps [of r] Let_def)
    then show ?thesis by blast
  next
    case False
    with 1 obtain n where "trim_right_rev (drop ?w r) = drop n (drop ?w r)" by metis
    with False have "trim_right_rev r = drop (n + ?w) r"
      by (simp add: trim_right_rev.simps [of r] Let_def)
    then show ?thesis by blast
  qed
qed

lemma TrimSpace_idem [simp]: "TrimSpace (TrimSpace s) = TrimSpace s"
proof -
  obtain n where n: "trim_right_rev (rev (trim_left s)) = drop n (rev (trim_left s))"
    using trim_right_drop by blast
  then have "TrimSpace s = take (length (trim_left s) - n) (trim_left s)"
    by (simp add: TrimSpace_def rev_drop)
  then have "space_width (map byte_of (TrimSpace s)) = 0"
    using trim_left_fix [of s] space_width_take by (metis take_map)
  moreover have "space_width_rev (map byte_of (rev (TrimSpace s))) = 0"
    by (simp only: TrimSpace_def rev_rev_ident trim_right_fix)
  ultimately have "trim_left (TrimSpace s) = TrimSpace s" "trim_right_rev (rev (TrimSpace s)) = rev (TrimSpace s)"
    by (simp_all only: trim_left_id trim_right_id)
  then show ?thesis by (simp add: TrimSpace_def [of "TrimSpace s"])
qed

lemma byte_of_lower: "byte_of (lower_byte c) = (if 65 \<le> byte_of c \<and> byte_of c \<le> 90 then byte_of c + 32 else byte_of c)"
  by (simp add: lower_byte_def Let_def byte_of_def)

lemma lower_byte_idem [simp]: "lower_byte (lower_byte c) = lower_byte c"
  by (simp add: lower_byte_def Let_def byte_of_def)

lemma ToLower_idem [simp]: "ToLower (ToLower s) = ToLower s"
  by (simp add: ToLower_def)

lemma length_ToLower [simp]: "length (ToLower s) = length s"
  by (simp add: ToLower_def)

lemma space_width_lower:
  "space_width (map (\<lambda>b. if 65 \<le> b \<and> b \<le> 90 then b + 32 else b) bs) = space_width bs"
proof -
  consider "bs = []" | b where "bs = [b]" | b c where "bs = [b, c]" | b c d ds where "bs = b # c # d # ds"
    by (metis list.exhaust)
  then show ?thesis by cases (auto simp: Let_def)
qed

lemma map_byte_lower: "map byte_of (map lower_byte s) = map (\<lambda>b. if 65 \<le> b \<and> b \<le> 90 then b + 32 else b) (map byte_of s)"
  by (simp add: byte_of_lower)

lemma space_width_ToLower: "space_width (map byte_of (map lower_byte s)) = space_width (map byte_of s)"
  by (simp only: map_byte_lower space_width_lower)

lemma trim_left_ToLower: "trim_left (map lower_byte s) = map lower_byte (trim_left s)"
proof (induction s rule: trim_left.induct)
  case (1 s)
  let ?w = "space_width (map byte_of (take 3 s))"
  have w: "space_width (map byte_of (take 3 (map lower_byte s))) = ?w"
    by (simp only: take_map space_width_ToLower)
  show ?case
  proof (cases "?w = 0 \<or> s = []")
    case True
    then show ?thesis by (subst (1 2) trim_left.simps) (simp only: w Let_def, simp)
  next
    case False
    with 1 have "trim_left (map lower_byte (drop ?w s)) = map lower_byte (trim_left (drop ?w s))" by simp
    with False show ?thesis
      by (subst (1 2) trim_left.simps) (simp only: w Let_def, simp add: drop_map)
  qed
qed

lemma space_width_rev_ToLower:
  "space_width_rev (map byte_of (map lower_byte s)) = space_width_rev (map byte_of s)"
  by (simp only: space_width_rev_def take_map rev_map space_width_ToLower)

lemma trim_right_ToLower: "trim_right_rev (map lower_byte s) = map lower_byte (trim_right_rev s)"
proof (induction s rule: trim_right_rev.induct)
  case (1 s)
  let ?w = "space_width_rev (map byte_of (take 3 s))"
  have w: "space_width_rev (map byte_of (take 3 (map lower_byte s))) = ?w"
    by (simp only: take_map space_width_rev_ToLower)
  show ?case
  proof (cases "?w = 0 \<or> s = []")
    case True
    then show ?thesis by (subst (1 2) trim_right_rev.simps) (simp only: w Let_def, simp)
  next
    case False
    with 1 have "trim_right_rev (map lower_byte (drop ?w s)) = map lower_byte (trim_right_rev (drop ?w s))" by simp
    with False show ?thesis
      by (subst (1 2) trim_right_rev.simps) (simp only: w Let_def, simp add: drop_map)
  qed
qed

lemma TrimSpace_ToLower [simp]: "TrimSpace (ToLower s) = ToLower (TrimSpace s)"
  by (simp add: TrimSpace_def ToLower_def trim_left_ToLower trim_right_ToLower rev_map)

end
