(* ===== verification/Go_Prelude.thy ===== *)
theory Go_Prelude
  imports Go_Strings "HOL-Library.AList" "HOL-Library.Multiset"
begin

text \<open>
  What the Go code takes from the language and its standard library, shared by every
  component: integers at their width, instants and durations, maps, the list helpers of the code and \<open>sort.Slice\<close>.

  \<^item> A Go \<open>int\<close> or \<open>int64\<close> is an \<open>int\<close>; where an addition can leave the range, the
    model wraps it with \<open>wrap64\<close>. Version, fence and attempt counters count
    events and are not wrapped.
  \<^item> A \<open>time.Time\<close> is the number of nanoseconds since the zero time (so the zero time is 0,
    and \<open>UTC()\<close> is the identity); a \<open>time.Duration\<close> is a number of nanoseconds.
  \<^item> A Go string is its bytes, a \<open>string\<close>; \<open>length\<close> is \<open>len\<close>.
  \<^item> A Go map is an association list with distinct keys. The order of the list stands for
    the order in which \<open>range\<close> visits the map, which Go leaves open: a theorem about every
    association list holds for every visiting order.
\<close>

named_theorems go_defs \<open>definitions of the Go library model that a proof may unfold\<close>
named_theorems gmap_simps \<open>lookups in updated maps\<close>

section \<open>Integers\<close>

definition MaxInt64 :: int where
  "MaxInt64 = 9223372036854775807"

definition MinInt64 :: int where
  "MinInt64 = -9223372036854775808"

definition in64 :: "int \<Rightarrow> bool" where
  "in64 x \<longleftrightarrow> MinInt64 \<le> x \<and> x \<le> MaxInt64"

definition wrap64 :: "int \<Rightarrow> int" where
  "wrap64 x = (x + 9223372036854775808) mod 18446744073709551616 - 9223372036854775808"

lemmas int64_defs = MaxInt64_def MinInt64_def in64_def

lemma wrap64_in64: "in64 (wrap64 x)"
proof -
  have "0 \<le> (x + 9223372036854775808) mod 18446744073709551616"
    and "(x + 9223372036854775808) mod 18446744073709551616 < 18446744073709551616"
    by simp_all
  then show ?thesis unfolding in64_def MaxInt64_def MinInt64_def wrap64_def by linarith
qed

lemma wrap64_id [simp]: "in64 x \<Longrightarrow> wrap64 x = x"
  by (simp add: wrap64_def int64_defs)

lemma wrap64_overflow:
  assumes "MaxInt64 < x" "x \<le> 2 * MaxInt64 + 1"
  shows "wrap64 x = x - 18446744073709551616"
proof -
  have "(x + 9223372036854775808) mod 18446744073709551616
      = (x + 9223372036854775808 - 18446744073709551616) mod 18446744073709551616"
    by (simp only: minus_mod_self2)
  also have "\<dots> = x + 9223372036854775808 - 18446744073709551616"
    using assms by (intro mod_pos_pos_trivial) (simp_all add: MaxInt64_def)
  finally show ?thesis by (simp add: wrap64_def)
qed

text \<open>Go's integer division truncates towards zero.\<close>

definition quot64 :: "int \<Rightarrow> int \<Rightarrow> int" where
  "quot64 a b = sgn a * sgn b * (\<bar>a\<bar> div \<bar>b\<bar>)"

lemma quot64_nonneg [simp]: "0 \<le> a \<Longrightarrow> 0 < b \<Longrightarrow> quot64 a b = a div b"
  by (cases "a = 0") (simp_all add: quot64_def)

section \<open>Instants and durations\<close>

type_synonym gotime = int
type_synonym duration = int

abbreviation Second :: duration where "Second \<equiv> 1000000000"
abbreviation Minute :: duration where "Minute \<equiv> 60000000000"
abbreviation Hour :: duration where "Hour \<equiv> 3600000000000"

definition time_Sub :: "gotime \<Rightarrow> gotime \<Rightarrow> duration" where
  "time_Sub t u = (if t - u > MaxInt64 then MaxInt64 else if t - u < MinInt64 then MinInt64 else t - u)"

text \<open>
  The calendar of \<open>Time.Date\<close>, \<open>time.Date\<close> and \<open>Time.AddDate\<close> in UTC: days are counted
  from 1 January of year 1; the year is taken to start in March, so that the leap day is its
  last day.
\<close>

definition civil_of_days :: "int \<Rightarrow> int \<times> int \<times> int" where
  "civil_of_days n =
     (let z = n + 306;
          era = z div 146097;
          doe = z mod 146097;
          yoe = (doe - doe div 1460 + doe div 36524 - doe div 146096) div 365;
          doy = doe - (365 * yoe + yoe div 4 - yoe div 100);
          mp = (5 * doy + 2) div 153;
          d = doy - (153 * mp + 2) div 5 + 1;
          m = (if mp < 10 then mp + 3 else mp - 9);
          y = yoe + era * 400 + (if m \<le> 2 then 1 else 0)
      in (y, m, d))"

definition days_of_civil :: "int \<Rightarrow> int \<Rightarrow> int \<Rightarrow> int" where
  "days_of_civil y0 m0 d =
     (let y1 = y0 + (m0 - 1) div 12;
          m = (m0 - 1) mod 12 + 1;
          y = (if m \<le> 2 then y1 - 1 else y1);
          era = y div 400;
          yoe = y mod 400;
          mp = (if m > 2 then m - 3 else m + 9);
          doy = (153 * mp + 2) div 5 + d - 1;
          doe = 365 * yoe + yoe div 4 - yoe div 100 + doy
      in era * 146097 + doe - 306)"

abbreviation Day :: duration where "Day \<equiv> 86400000000000"

definition AddDate :: "gotime \<Rightarrow> int \<Rightarrow> int \<Rightarrow> int \<Rightarrow> gotime" where
  "AddDate t years months days =
     (case civil_of_days (t div Day) of (y, m, d) \<Rightarrow>
        days_of_civil (y + years) (m + months) (d + days) * Day + t mod Day)"

definition month_start :: "gotime \<Rightarrow> gotime" where
  "month_start t = (case civil_of_days (t div Day) of (y, m, d) \<Rightarrow> days_of_civil y m 1 * Day)"

text \<open>
  The days before 1 March of year \<open>y\<close>, with the leap days of the whole era counted at once;
  from it the length of a month, from the first of one to the first of the next.
\<close>

lemma div_shift: "0 < n \<Longrightarrow> (n * k * q + r) div n = k * q + r div (n::int)"
proof -
  assume "0 < n"
  then have "(r + (k * q) * n) div n = k * q + r div n" by (intro div_mult_self1) simp
  then show ?thesis by (simp add: algebra_simps)
qed

lemma era_days:
  "(y div 400) * 146097 + (365 * (y mod 400) + (y mod 400) div 4 - (y mod 400) div 100)
    = 365 * y + y div 4 - y div 100 + y div (400::int)"
proof -
  define q r where "q = y div 400" and "r = y mod 400"
  have y: "y = 400 * q + r" by (simp add: q_def r_def)
  have 4: "y div 4 = 100 * q + r div 4" using div_shift [of 4 100 q r] y by simp
  have 100: "y div 100 = 4 * q + r div 100" using div_shift [of 100 4 q r] y by simp
  have "365 * y = 146000 * q + 365 * r" using y by simp
  with 4 100 show ?thesis unfolding q_def [symmetric] r_def [symmetric] by linarith
qed

lemma div_pred: "0 < n \<Longrightarrow> (y - 1) div n = y div n - (if n dvd y then 1 else (0::int))"
proof (cases "n dvd y")
  case True
  assume "0 < n"
  from True obtain k where "y = n * k" by (auto simp: dvd_def)
  then have "y - 1 = n * (k - 1) + (n - 1)" by (simp add: algebra_simps)
  then have "(y - 1) div n = k - 1" using \<open>0 < n\<close> by (intro int_div_pos_eq [where r = "n - 1"]) simp_all
  with True \<open>y = n * k\<close> \<open>0 < n\<close> show ?thesis by simp
next
  case False
  assume "0 < n"
  from False have "y mod n \<noteq> 0" by (simp add: dvd_eq_mod_eq_0)
  with \<open>0 < n\<close> have r: "0 \<le> y mod n - 1" "y mod n - 1 < n"
    using pos_mod_bound [of n y] pos_mod_sign [of n y] by linarith+
  have "y - 1 = n * (y div n) + (y mod n - 1)" by simp
  then have "(y - 1) div n = y div n" using r by (intro int_div_pos_eq [where r = "y mod n - 1"])
  with False show ?thesis by simp
qed

lemma days_of_civil_month:
  assumes "1 \<le> m" "m \<le> 12"
  shows "days_of_civil y m d =
    (let z = (if m \<le> 2 then y - 1 else y)
     in 365 * z + z div 4 - z div 100 + z div 400
        + (153 * (if m > 2 then m - 3 else m + 9) + 2) div 5 + d - 1 - 306)"
proof -
  have m: "(m - 1) div 12 = 0" "(m - 1) mod 12 = m - 1" using assms by simp_all
  define z where "z = (if m \<le> 2 then y - 1 else y)"
  define e where "e = (153 * (if m > 2 then m - 3 else m + 9) + 2) div 5"
  have "days_of_civil y m d =
      (z div 400) * 146097 + (365 * (z mod 400) + (z mod 400) div 4 - (z mod 400) div 100 + (e + d - 1)) - 306"
    unfolding days_of_civil_def Let_def m z_def e_def by (simp only: add_0_right diff_add_cancel)
  with era_days [of z] show ?thesis unfolding Let_def z_def [symmetric] e_def [symmetric] by linarith
qed

lemma days_of_civil_month_length:
  assumes "1 \<le> m" "m \<le> 11"
  shows "28 \<le> days_of_civil y (m + 1) 1 - days_of_civil y m 1"
    and "days_of_civil y (m + 1) 1 - days_of_civil y m 1 \<le> 31"
proof -
  have dvds: "400 dvd y \<Longrightarrow> 100 dvd y" "100 dvd y \<Longrightarrow> 4 dvd y"
    using dvd_trans [of 100 400 y] dvd_trans [of 4 100 y] by simp_all
  define c where "c = (if 4 dvd y then 1 else (0::int)) - (if 100 dvd y then 1 else 0) + (if 400 dvd y then 1 else 0)"
  have c: "0 \<le> c" "c \<le> 1" using dvds by (simp_all add: c_def)
  have pred: "(y - 1) div 4 - (y - 1) div 100 + (y - 1) div 400 = y div 4 - y div 100 + y div 400 - c"
    by (simp add: div_pred c_def)
  have "m = 1 \<or> m = 2 \<or> m = 3 \<or> m = 4 \<or> m = 5 \<or> m = 6 \<or> m = 7 \<or> m = 8 \<or> m = 9 \<or> m = 10 \<or> m = 11"
    using assms by presburger
  then have "28 \<le> days_of_civil y (m + 1) 1 - days_of_civil y m 1
      \<and> days_of_civil y (m + 1) 1 - days_of_civil y m 1 \<le> 31"
  proof (cases "m = 2")
    case True
    have "days_of_civil y (m + 1) 1 - days_of_civil y m 1 = 28 + c"
      using pred by (simp add: True days_of_civil_month Let_def)
    with c show ?thesis by simp
  next
    case False
    assume "m = 1 \<or> m = 2 \<or> m = 3 \<or> m = 4 \<or> m = 5 \<or> m = 6 \<or> m = 7 \<or> m = 8 \<or> m = 9 \<or> m = 10 \<or> m = 11"
    with False show ?thesis by (elim disjE) (simp_all add: days_of_civil_month Let_def)
  qed
  then show "28 \<le> days_of_civil y (m + 1) 1 - days_of_civil y m 1"
    and "days_of_civil y (m + 1) 1 - days_of_civil y m 1 \<le> 31" by simp_all
qed

section \<open>Results with an error\<close>

text \<open>
  A Go function that returns a value and an error gives \<open>Inl\<close> the error or \<open>Inr\<close> the value; the usual
  \<open>if err != nil { return ..., err }\<close> is \<open>and_then\<close>.
\<close>

fun and_then :: "'e + 'a \<Rightarrow> ('a \<Rightarrow> 'e + 'b) \<Rightarrow> 'e + 'b" where
  "and_then (Inl err) f = Inl err"
| "and_then (Inr x) f = f x"

lemma and_then_Inr [simp]: "and_then r f = Inr y \<longleftrightarrow> (\<exists>x. r = Inr x \<and> f x = Inr y)"
  by (cases r) auto

lemma and_then_Inl [simp]: "and_then r f = Inl e \<longleftrightarrow> r = Inl e \<or> (\<exists>x. r = Inr x \<and> f x = Inl e)"
  by (cases r) auto

definition ok :: "'e + 'a \<Rightarrow> bool" where
  "ok r = (case r of Inl _ \<Rightarrow> False | Inr _ \<Rightarrow> True)"

lemma ok_simps [simp]: "\<not> ok (Inl e)" "ok (Inr x)"
  by (simp_all add: ok_def)

section \<open>Maps\<close>

type_synonym ('k, 'v) gmap = "('k \<times> 'v) list"

abbreviation mput :: "'k \<Rightarrow> 'v \<Rightarrow> ('k, 'v) gmap \<Rightarrow> ('k, 'v) gmap" where
  "mput \<equiv> AList.update"

abbreviation mdelete :: "'k \<Rightarrow> ('k, 'v) gmap \<Rightarrow> ('k, 'v) gmap" where
  "mdelete \<equiv> AList.delete"

definition mvalues :: "('k, 'v) gmap \<Rightarrow> 'v list" where
  "mvalues m = map snd m"

definition mhas :: "('k, 'v) gmap \<Rightarrow> 'k \<Rightarrow> bool" where
  "mhas m k = (map_of m k \<noteq> None)"

definition wf_gmap :: "('k, 'v) gmap \<Rightarrow> bool" where
  "wf_gmap m = distinct (map fst m)"

text \<open>Every value is stored under its own identifier, as the repository keeps its maps.\<close>

definition keyed :: "('v \<Rightarrow> 'k) \<Rightarrow> ('k, 'v) gmap \<Rightarrow> bool" where
  "keyed f m \<longleftrightarrow> wf_gmap m \<and> list_all (\<lambda>(k, v). f v = k) m"

lemma map_of_mput [gmap_simps, simp]: "map_of (mput k v m) = (map_of m)(k \<mapsto> v)"
  by (rule AList.update_conv')

lemma map_of_mdelete [gmap_simps]: "map_of (mdelete k m) = (map_of m)(k := None)"
  by (rule AList.delete_conv')

lemma mhas_mput [gmap_simps, simp]: "mhas (mput k v m) k' \<longleftrightarrow> k = k' \<or> mhas m k'"
  by (simp add: mhas_def)

lemma mhas_Nil [simp]: "\<not> mhas [] k"
  by (simp add: mhas_def)

lemma wf_gmap_Nil [simp, intro]: "wf_gmap []"
  by (simp add: wf_gmap_def)

lemma wf_gmap_mput [simp, intro]: "wf_gmap m \<Longrightarrow> wf_gmap (mput k v m)"
  by (simp add: wf_gmap_def AList.distinct_update)

lemma wf_gmap_mdelete [simp, intro]: "wf_gmap m \<Longrightarrow> wf_gmap (mdelete k m)"
  by (simp add: wf_gmap_def AList.distinct_delete)

lemma wf_gmap_filter [simp, intro]: "wf_gmap m \<Longrightarrow> wf_gmap (filter P m)"
  by (simp add: wf_gmap_def distinct_map inj_on_def)

lemma map_of_in_set: "wf_gmap m \<Longrightarrow> map_of m k = Some v \<longleftrightarrow> (k, v) \<in> set m"
  by (simp add: wf_gmap_def)

lemma map_of_Some_mvalues: "map_of m k = Some v \<Longrightarrow> v \<in> set (mvalues m)"
  by (force simp: mvalues_def dest: map_of_SomeD)

lemma mvalues_map_of: "wf_gmap m \<Longrightarrow> v \<in> set (mvalues m) \<Longrightarrow> \<exists>k. map_of m k = Some v"
  by (auto simp: mvalues_def map_of_in_set)

lemma mput_fresh: "map_of m k = None \<Longrightarrow> mput k v m = m @ [(k, v)]"
  by (induction m) (auto split: if_splits)

lemma mvalues_mput_fresh: "map_of m k = None \<Longrightarrow> mvalues (mput k v m) = mvalues m @ [v]"
  by (simp add: mput_fresh mvalues_def)

lemma set_mput: "wf_gmap m \<Longrightarrow> set (mput k v m) = insert (k, v) {p \<in> set m. fst p \<noteq> k}"
proof (induction m)
  case Nil
  then show ?case by simp
next
  case (Cons p m)
  then show ?case by (cases p) (force simp: wf_gmap_def)
qed

lemma set_mvalues_mput:
  assumes "wf_gmap m"
  shows "set (mvalues (mput k v m)) = insert v {w. \<exists>j. j \<noteq> k \<and> map_of m j = Some w}"
  using assms by (force simp: mvalues_def set_mput map_of_in_set)

lemma set_mdelete: "set (mdelete k m) = {p \<in> set m. fst p \<noteq> k}"
  by (auto simp: AList.delete_eq)

lemma keyed_Nil [simp, intro]: "keyed f []"
  by (simp add: keyed_def)

lemma keyed_wf: "keyed f m \<Longrightarrow> wf_gmap m"
  by (simp add: keyed_def)

lemma keyed_mput [intro]: "keyed f m \<Longrightarrow> f v = k \<Longrightarrow> keyed f (mput k v m)"
  by (auto simp: keyed_def list_all_iff set_mput)

lemma keyed_filter [intro]: "keyed f m \<Longrightarrow> keyed f (filter P m)"
  by (auto simp: keyed_def list_all_iff)

lemma keyed_mdelete [intro]: "keyed f m \<Longrightarrow> keyed f (mdelete k m)"
  by (auto simp: keyed_def list_all_iff set_mdelete)

lemma keyed_lookup: "keyed f m \<Longrightarrow> map_of m k = Some v \<Longrightarrow> f v = k"
  by (force simp: keyed_def list_all_iff dest: map_of_SomeD)

lemma keyed_value: "keyed f m \<Longrightarrow> v \<in> set (mvalues m) \<Longrightarrow> map_of m (f v) = Some v"
  by (force simp: keyed_def list_all_iff mvalues_def wf_gmap_def)

lemma keyed_mvalues: "keyed f m \<Longrightarrow> v \<in> set (mvalues m) \<longleftrightarrow> map_of m (f v) = Some v"
  using keyed_value map_of_Some_mvalues by metis

text \<open>The sum of a measure over the values of a map, under the updates of the map.\<close>

definition msum :: "('v \<Rightarrow> int) \<Rightarrow> ('k, 'v) gmap \<Rightarrow> int" where
  "msum f m = sum_list (map f (mvalues m))"

lemma msum_Nil [simp]: "msum f [] = 0"
  by (simp add: msum_def mvalues_def)

lemma msum_Cons [simp]: "msum f ((k, v) # m) = f v + msum f m"
  by (simp add: msum_def mvalues_def)

lemma msum_mput_fresh: "map_of m k = None \<Longrightarrow> msum f (mput k v m) = msum f m + f v"
  by (simp add: msum_def mvalues_mput_fresh)

lemma msum_mput_some: "wf_gmap m \<Longrightarrow> map_of m k = Some old \<Longrightarrow> msum f (mput k v m) = msum f m - f old + f v"
proof (induction m)
  case (Cons p m)
  then show ?case by (cases p) (auto simp: wf_gmap_def split: if_splits)
qed simp

lemma msum_mdelete: "wf_gmap m \<Longrightarrow> map_of m k = Some old \<Longrightarrow> msum f (mdelete k m) = msum f m - f old"
proof (induction m)
  case (Cons p m)
  then show ?case by (cases p) (auto simp: wf_gmap_def map_of_eq_None_iff split: if_splits)
qed simp

lemma msum_nonneg: "list_all (\<lambda>(k, v). 0 \<le> f v) m \<Longrightarrow> 0 \<le> msum f m"
  by (induction m) auto

lemma msum_filter_le: "list_all (\<lambda>(k, v). 0 \<le> f v) m \<Longrightarrow> msum f (filter P m) \<le> msum f m"
  by (induction m) auto

lemma msum_filter_same: "list_all (\<lambda>(k, v). P (k, v) \<or> f v = 0) m \<Longrightarrow> msum f (filter P m) = msum f m"
  by (induction m) auto

text \<open>
  A map keyed by identifier whose values also have a second key, which the code looks up by a search of the
  map: the search finds the value, and it follows insertions and updates of the map.
\<close>

definition indexed :: "('v \<Rightarrow> 'k) \<Rightarrow> ('v \<Rightarrow> 'i) \<Rightarrow> ('k, 'v) gmap \<Rightarrow> bool" where
  "indexed f g m \<longleftrightarrow> keyed f m \<and> (\<forall>a \<in> set (mvalues m). \<forall>b \<in> set (mvalues m). g a = g b \<longrightarrow> a = b)"

lemma indexed_keyed: "indexed f g m \<Longrightarrow> keyed f m"
  by (simp add: indexed_def)

lemma indexed_Nil [simp, intro]: "indexed f g []"
  by (simp add: indexed_def mvalues_def)

lemma find_value: "find (\<lambda>v. g v = i) xs = Some v \<Longrightarrow> v \<in> set xs \<and> g v = i"
  by (auto simp: find_Some_iff)

lemma indexed_find:
  assumes "indexed f g m"
  shows "find (\<lambda>v. g v = i) (mvalues m) = Some v \<longleftrightarrow> v \<in> set (mvalues m) \<and> g v = i"
proof
  assume v: "v \<in> set (mvalues m) \<and> g v = i"
  then obtain w where w: "find (\<lambda>v. g v = i) (mvalues m) = Some w"
    by (cases "find (\<lambda>v. g v = i) (mvalues m)") (auto simp: find_None_iff)
  with find_value [OF w] v assms show "find (\<lambda>v. g v = i) (mvalues m) = Some v" unfolding indexed_def by metis
qed (rule find_value)

lemma indexed_find_cong:
  assumes "indexed f g m" "indexed f g m'"
    and "\<And>v. v \<in> set (mvalues m') \<and> g v = i \<longleftrightarrow> v \<in> set (mvalues m) \<and> g v = i"
  shows "find (\<lambda>v. g v = i) (mvalues m') = find (\<lambda>v. g v = i) (mvalues m)"
  using indexed_find [OF assms(1), of i] indexed_find [OF assms(2), of i] assms(3) by (metis option.exhaust)

lemma indexed_insert:
  assumes "indexed f g m" "\<not> mhas m (f v)" "find (\<lambda>w. g w = g v) (mvalues m) = None"
  shows "indexed f g (mput (f v) v m)"
proof -
  have vals: "mvalues (mput (f v) v m) = mvalues m @ [v]" using assms(2) by (simp add: mvalues_mput_fresh mhas_def)
  have "g w \<noteq> g v" if "w \<in> set (mvalues m)" for w using assms(3) that by (auto simp: find_None_iff)
  with assms(1) show ?thesis unfolding indexed_def vals by force
qed

lemma indexed_insert_find:
  assumes "indexed f g m" "\<not> mhas m (f v)" "find (\<lambda>w. g w = g v) (mvalues m) = None"
  shows "find (\<lambda>w. g w = i) (mvalues (mput (f v) v m)) = (if i = g v then Some v else find (\<lambda>w. g w = i) (mvalues m))"
proof -
  have vals: "set (mvalues (mput (f v) v m)) = insert v (set (mvalues m))"
    using assms(2) by (simp add: mvalues_mput_fresh mhas_def)
  show ?thesis
  proof (cases "i = g v")
    case True
    then show ?thesis using indexed_find [OF indexed_insert [OF assms], of "g v" v] vals by simp
  next
    case False
    then show ?thesis using indexed_find_cong [OF assms(1) indexed_insert [OF assms], of i] vals by auto
  qed
qed

lemma mvalues_update:
  assumes "keyed f m" "v \<in> set (mvalues m)"
  shows "set (mvalues (mput (f v) v' m)) = insert v' (set (mvalues m) - {v})"
proof -
  have wf: "wf_gmap m" using assms(1) by (rule keyed_wf)
  have "(\<exists>j. j \<noteq> f v \<and> map_of m j = Some w) \<longleftrightarrow> w \<in> set (mvalues m) - {v}" for w
    using keyed_lookup [OF assms(1)] keyed_value [OF assms(1)] assms(2) map_of_Some_mvalues
    by (metis DiffE DiffI option.inject singletonI singletonD)
  then show ?thesis unfolding set_mvalues_mput [OF wf] by auto
qed

lemma indexed_update:
  assumes "indexed f g m" "v \<in> set (mvalues m)" "f v' = f v" "g v' = g v"
  shows "indexed f g (mput (f v) v' m)"
proof -
  have "keyed f (mput (f v) v' m)" using assms(1,3) by (auto simp: indexed_def)
  moreover have "a = b" if "a \<in> set (mvalues (mput (f v) v' m))" "b \<in> set (mvalues (mput (f v) v' m))" "g a = g b" for a b
    using that assms unfolding mvalues_update [OF indexed_keyed [OF assms(1)] assms(2)] indexed_def
    by (metis DiffE insertE singletonI)
  ultimately show ?thesis by (auto simp: indexed_def)
qed

lemma indexed_update_find:
  assumes "indexed f g m" "v \<in> set (mvalues m)" "f v' = f v" "g v' = g v"
  shows "find (\<lambda>w. g w = i) (mvalues (mput (f v) v' m)) = (if i = g v then Some v' else find (\<lambda>w. g w = i) (mvalues m))"
proof (cases "i = g v")
  case True
  then show ?thesis using indexed_find [OF indexed_update [OF assms], of "g v" v'] assms(4)
    by (simp add: mvalues_update [OF indexed_keyed [OF assms(1)] assms(2)])
next
  case False
  have "w \<in> set (mvalues (mput (f v) v' m)) \<and> g w = i \<longleftrightarrow> w \<in> set (mvalues m) \<and> g w = i" for w
    using False assms(4) unfolding mvalues_update [OF indexed_keyed [OF assms(1)] assms(2)] by auto
  from indexed_find_cong [OF assms(1) indexed_update [OF assms] this] False show ?thesis by simp
qed

section \<open>Helpers of the code\<close>

text \<open>\<open>oneOf(value, allowed...)\<close> of \<open>service.go\<close>.\<close>

fun oneOf :: "string \<Rightarrow> string list \<Rightarrow> bool" where
  "oneOf value [] = False"
| "oneOf value (item # items) = (if value = item then True else oneOf value items)"

lemma oneOf_set [simp]: "oneOf value items \<longleftrightarrow> value \<in> set items"
  by (induction items) auto

declare oneOf.simps [simp del]

definition nonNegative :: "int \<Rightarrow> int" where
  "nonNegative value = (if value < 0 then 0 else value)"

definition nonNegativeInt64 :: "int \<Rightarrow> int" where
  "nonNegativeInt64 value = (if value < 0 then 0 else value)"

definition prefix_str :: "string \<Rightarrow> nat \<Rightarrow> string" where
  "prefix_str value n = (if length value \<le> n then value else take n value)"

section \<open>Sorting with a comparison function\<close>

text \<open>
  \<open>sort.Slice\<close> and \<open>sort.SliceStable\<close> as insertion sort with the comparison of the call. \<open>sort.Slice\<close>
  leaves the order of equivalent elements open; here they stay in the order of the argument,
  which, where it comes from a map, is arbitrary already.
\<close>

fun insert_by :: "('a \<Rightarrow> 'a \<Rightarrow> bool) \<Rightarrow> 'a \<Rightarrow> 'a list \<Rightarrow> 'a list" where
  "insert_by lt x [] = [x]"
| "insert_by lt x (y # ys) = (if lt y x then y # insert_by lt x ys else x # y # ys)"

fun sort_slice :: "('a \<Rightarrow> 'a \<Rightarrow> bool) \<Rightarrow> 'a list \<Rightarrow> 'a list" where
  "sort_slice lt [] = []"
| "sort_slice lt (x # xs) = insert_by lt x (sort_slice lt xs)"

lemma mset_insert_by [simp]: "mset (insert_by lt x ys) = add_mset x (mset ys)"
  by (induction ys) auto

lemma mset_sort_slice [simp]: "mset (sort_slice lt xs) = mset xs"
  by (induction xs) auto

lemma set_sort_slice [simp]: "set (sort_slice lt xs) = set xs"
  by (metis mset_sort_slice set_mset_mset)

lemma length_sort_slice [simp]: "length (sort_slice lt xs) = length xs"
  by (metis mset_sort_slice size_mset)

lemma insert_by_cong: "\<forall>y \<in> set ys. lt y x = lt' y x \<Longrightarrow> insert_by lt x ys = insert_by lt' x ys"
  by (induction ys) auto

lemma sort_slice_cong:
  "(\<And>x y. x \<in> set xs \<Longrightarrow> y \<in> set xs \<Longrightarrow> lt x y = lt' x y) \<Longrightarrow> sort_slice lt xs = sort_slice lt' xs"
proof (induction xs)
  case (Cons x xs)
  then have "sort_slice lt xs = sort_slice lt' xs" by simp
  then show ?case using Cons.prems by (simp add: insert_by_cong)
qed simp

text \<open>
  The contract of a comparison function: a strict weak order. Then the result is sorted:
  no element precedes one that is less.
\<close>

locale comparison =
  fixes lt :: "'a \<Rightarrow> 'a \<Rightarrow> bool"
  assumes cmp_asym: "lt x y \<Longrightarrow> \<not> lt y x"
    and cmp_neg_trans: "lt x z \<Longrightarrow> lt x y \<or> lt y z"
begin

lemma cmp_irrefl: "\<not> lt x x"
  using cmp_asym by blast

lemma not_less_trans: "\<not> lt y x \<Longrightarrow> \<not> lt z y \<Longrightarrow> \<not> lt z x"
  using cmp_neg_trans by blast

lemma insert_by_sorted:
  "sorted_wrt (\<lambda>x y. \<not> lt y x) ys \<Longrightarrow> sorted_wrt (\<lambda>x y. \<not> lt y x) (insert_by lt x ys)"
proof (induction ys)
  case Nil
  then show ?case by simp
next
  case (Cons y ys)
  have in_set: "set (insert_by lt x ys) = insert x (set ys)"
    by (metis mset_insert_by set_mset_add_mset_insert set_mset_mset)
  show ?case
  proof (cases "lt y x")
    case True
    then show ?thesis using Cons in_set by (auto dest: cmp_asym)
  next
    case False
    then show ?thesis using Cons.prems by (auto dest: not_less_trans)
  qed
qed

lemma sort_sorted: "sorted_wrt (\<lambda>x y. \<not> lt y x) (sort_slice lt xs)"
  by (induction xs) (auto intro: insert_by_sorted)

lemma sort_take_least:
  assumes "x \<in> set (take n (sort_slice lt xs))" "y \<in> set (drop n (sort_slice lt xs))"
  shows "\<not> lt y x"
  using assms sort_sorted [of xs]
  by (metis append_take_drop_id sorted_wrt_append)

end


text \<open>A comparison by a key of a linear order keeps the contract.\<close>

lemma comparison_key: "comparison (\<lambda>x y. f x < f y)" for f :: "'a \<Rightarrow> 'k::linorder"
proof
  show "f x < f y \<Longrightarrow> \<not> f y < f x" for x y by (rule less_not_sym)
  show "f x < f z \<Longrightarrow> f x < f y \<or> f y < f z" for x y z by (rule disjCI) (metis le_less_trans not_less)
qed

section \<open>A resource within its limit\<close>

text \<open>
  The contract of an admission check on a shared resource: whatever a step does, the amount in use does
  not grow, or it is within the limit after the step. Then it stays within the limit along every run.
\<close>

locale bounded_resource =
  fixes step :: "'s \<Rightarrow> 's \<Rightarrow> bool"
    and wf :: "'s \<Rightarrow> bool"
    and used :: "'s \<Rightarrow> int"
    and limit :: int
  assumes step_wf: "wf s \<Longrightarrow> used s \<le> limit \<Longrightarrow> step s s' \<Longrightarrow> wf s'"
    and step_used: "wf s \<Longrightarrow> used s \<le> limit \<Longrightarrow> step s s' \<Longrightarrow> used s' \<le> used s \<or> used s' \<le> limit"
begin

lemma run_bounded: "step\<^sup>*\<^sup>* s s' \<Longrightarrow> wf s \<Longrightarrow> used s \<le> limit \<Longrightarrow> wf s' \<and> used s' \<le> limit"
proof (induction rule: rtranclp_induct)
  case (step t u)
  then show ?case using step_wf [of t u] step_used [of t u] by force
qed simp

end

end
