(* ===== verification/Go_Encoding.thy ===== *)
theory Go_Encoding
  imports Go_Strings "HOL-Library.Word"
begin

text \<open>
  The encodings the code takes from the standard library: \<open>crypto/sha256\<close> and
  \<open>encoding/hex\<close> (the identifiers of events and the hashes of pricing expressions and facts),
  and the string and map encodings of \<open>encoding/json\<close>.
\<close>

unbundle bit_operations_syntax

section \<open>SHA-256\<close>

type_synonym word32 = "32 word"

definition sha_K :: "word32 list" where
  "sha_K = [
    1116352408, 1899447441, 3049323471, 3921009573, 961987163, 1508970993, 2453635748, 2870763221,
    3624381080, 310598401, 607225278, 1426881987, 1925078388, 2162078206, 2614888103, 3248222580,
    3835390401, 4022224774, 264347078, 604807628, 770255983, 1249150122, 1555081692, 1996064986,
    2554220882, 2821834349, 2952996808, 3210313671, 3336571891, 3584528711, 113926993, 338241895,
    666307205, 773529912, 1294757372, 1396182291, 1695183700, 1986661051, 2177026350, 2456956037,
    2730485921, 2820302411, 3259730800, 3345764771, 3516065817, 3600352804, 4094571909, 275423344,
    430227734, 506948616, 659060556, 883997877, 958139571, 1322822218, 1537002063, 1747873779,
    1955562222, 2024104815, 2227730452, 2361852424, 2428436474, 2756734187, 3204031479, 3329325298]"

type_synonym sha_state = "word32 \<times> word32 \<times> word32 \<times> word32 \<times> word32 \<times> word32 \<times> word32 \<times> word32"

definition sha_H0 :: sha_state where
  "sha_H0 = (1779033703, 3144134277, 1013904242, 2773480762, 1359893119, 2600822924, 528734635, 1541459225)"

definition sha_s0 :: "word32 \<Rightarrow> word32" where
  "sha_s0 x = word_rotr 7 x XOR word_rotr 18 x XOR drop_bit 3 x"

definition sha_s1 :: "word32 \<Rightarrow> word32" where
  "sha_s1 x = word_rotr 17 x XOR word_rotr 19 x XOR drop_bit 10 x"

text \<open>The message schedule; the words computed so far are held newest first.\<close>

fun sha_schedule :: "nat \<Rightarrow> word32 list \<Rightarrow> word32 list" where
  "sha_schedule 0 rs = rev rs"
| "sha_schedule (Suc n) rs =
     sha_schedule n ((sha_s1 (rs ! 1) + rs ! 6 + sha_s0 (rs ! 14) + rs ! 15) # rs)"

fun sha_round :: "sha_state \<Rightarrow> word32 \<times> word32 \<Rightarrow> sha_state" where
  "sha_round (a, b, c, d, e, f, g, h) (k, w) =
     (let S1 = word_rotr 6 e XOR word_rotr 11 e XOR word_rotr 25 e;
          ch = (e AND f) XOR (NOT e AND g);
          t1 = h + S1 + ch + k + w;
          S0 = word_rotr 2 a XOR word_rotr 13 a XOR word_rotr 22 a;
          maj = (a AND b) XOR (a AND c) XOR (b AND c);
          t2 = S0 + maj
      in (t1 + t2, a, b, c, d + t1, e, f, g))"

fun sha_add :: "sha_state \<Rightarrow> sha_state \<Rightarrow> sha_state" where
  "sha_add (a, b, c, d, e, f, g, h) (a', b', c', d', e', f', g', h') =
     (a + a', b + b', c + c', d + d', e + e', f + f', g + g', h + h')"

definition sha_block :: "sha_state \<Rightarrow> word32 list \<Rightarrow> sha_state" where
  "sha_block st ws = sha_add st (foldl sha_round st (zip sha_K (sha_schedule 48 (rev ws))))"

fun be_words :: "nat list \<Rightarrow> word32 list" where
  "be_words (a # b # c # d # bs) = word_of_nat (((a * 256 + b) * 256 + c) * 256 + d) # be_words bs"
| "be_words _ = []"

definition be_bytes :: "nat \<Rightarrow> nat \<Rightarrow> nat list" where
  "be_bytes n x = map (\<lambda>i. x div 256 ^ i mod 256) (rev [0..<n])"

definition sha_pad :: "nat list \<Rightarrow> nat list" where
  "sha_pad bs = bs @ [128] @ replicate ((119 - length bs mod 64) mod 64) 0 @ be_bytes 8 (8 * length bs)"

fun sha_blocks :: "nat \<Rightarrow> sha_state \<Rightarrow> word32 list \<Rightarrow> sha_state" where
  "sha_blocks 0 st ws = st"
| "sha_blocks (Suc n) st ws = sha_blocks n (sha_block st (take 16 ws)) (drop 16 ws)"

fun sha_words :: "sha_state \<Rightarrow> word32 list" where
  "sha_words (a, b, c, d, e, f, g, h) = [a, b, c, d, e, f, g, h]"

definition sha256 :: "string \<Rightarrow> nat list" where
  "sha256 s =
     (let ws = be_words (sha_pad (map byte_of s))
      in concat (map (\<lambda>w. be_bytes 4 (unat w)) (sha_words (sha_blocks (length ws div 16) sha_H0 ws))))"

definition hex_digit :: "nat \<Rightarrow> char" where
  "hex_digit n = (if n < 10 then char_of (48 + n) else char_of (87 + n))"

definition hex_encode :: "nat list \<Rightarrow> string" where
  "hex_encode bs = concat (map (\<lambda>b. [hex_digit (b div 16), hex_digit (b mod 16)]) bs)"

text \<open>\<open>hex.EncodeToString(sha256.Sum256([]byte(s))[:])\<close>\<close>

definition sha256_hex :: "string \<Rightarrow> string" where
  "sha256_hex s = hex_encode (sha256 s)"

lemma length_be_bytes [simp]: "length (be_bytes n x) = n"
  by (simp add: be_bytes_def)

lemma length_sha256 [simp]: "length (sha256 s) = 32"
proof -
  have "length (sha_words st) = 8" for st by (cases st rule: sha_words.cases) simp
  then show ?thesis by (simp add: sha256_def Let_def length_concat comp_def sum_list_triv)
qed

lemma length_hex_encode [simp]: "length (hex_encode bs) = 2 * length bs"
  by (induction bs) (simp_all add: hex_encode_def)

lemma length_sha256_hex [simp]: "length (sha256_hex s) = 64"
  by (simp add: sha256_hex_def)

section \<open>JSON\<close>

text \<open>
  The length in bytes of the UTF-8 encoded character at the head of a byte sequence, 0 when
  the bytes are not one (\<open>utf8.DecodeRune\<close> then yields U+FFFD).
\<close>

definition cont :: "nat \<Rightarrow> bool" where
  "cont b \<longleftrightarrow> 128 \<le> b \<and> b \<le> 191"

fun utf8_width :: "nat list \<Rightarrow> nat" where
  "utf8_width [] = 0"
| "utf8_width (a # bs) =
     (if a < 128 then 1
      else if 194 \<le> a \<and> a \<le> 223 then
        (case bs of b # _ \<Rightarrow> if cont b then 2 else 0 | [] \<Rightarrow> 0)
      else if 224 \<le> a \<and> a \<le> 239 then
        (case bs of b # c # _ \<Rightarrow>
           if cont b \<and> cont c \<and> (a = 224 \<longrightarrow> 160 \<le> b) \<and> (a = 237 \<longrightarrow> b \<le> 159) then 3 else 0
         | _ \<Rightarrow> 0)
      else if 240 \<le> a \<and> a \<le> 244 then
        (case bs of b # c # d # _ \<Rightarrow>
           if cont b \<and> cont c \<and> cont d \<and> (a = 240 \<longrightarrow> 144 \<le> b) \<and> (a = 244 \<longrightarrow> b \<le> 143) then 4 else 0
         | _ \<Rightarrow> 0)
      else 0)"

text \<open>The escapes of \<open>json.Marshal\<close> for an ASCII byte (with HTML escaping, its default).\<close>

definition json_escape_ascii :: "char \<Rightarrow> string" where
  "json_escape_ascii c =
     (let b = byte_of c
      in if b = 34 then [CHR 0x5C, CHR 0x22]
         else if b = 92 then [CHR 0x5C, CHR 0x5C]
         else if b = 8 then CHR 0x5C # ''b''
         else if b = 12 then CHR 0x5C # ''f''
         else if b = 10 then CHR 0x5C # ''n''
         else if b = 13 then CHR 0x5C # ''r''
         else if b = 9 then CHR 0x5C # ''t''
         else if b < 32 \<or> b \<in> {38, 60, 62} then CHR 0x5C # ''u00'' @ [hex_digit (b div 16), hex_digit (b mod 16)]
         else [c])"

definition json_rune :: "nat \<Rightarrow> string \<Rightarrow> string" where
  "json_rune w s =
     (if w = 0 then CHR 0x5C # ''ufffd''
      else if w = 1 then concat (map json_escape_ascii (take 1 s))
      else if map byte_of (take 3 s) = [226, 128, 168] then CHR 0x5C # ''u2028''
      else if map byte_of (take 3 s) = [226, 128, 169] then CHR 0x5C # ''u2029''
      else take w s)"

function json_escape :: "string \<Rightarrow> string" where
  "json_escape [] = []"
| "json_escape (c # s) =
     (let w = utf8_width (map byte_of (take 4 (c # s)))
      in json_rune w (c # s) @ json_escape (drop (w - 1) s))"
  by pat_completeness auto
termination
  by (relation "measure length") auto

declare json_escape.simps(2) [simp del]

text \<open>A character that needs no escape, recognised by its bits, so that evaluation need not compute its number.\<close>

fun json_plain :: "char \<Rightarrow> bool" where
  "json_plain (Char b0 b1 b2 b3 b4 b5 b6 b7) \<longleftrightarrow> \<not> b7
     \<and> (if b6 then \<not> (\<not> b5 \<and> b4 \<and> b3 \<and> b2 \<and> \<not> b1 \<and> \<not> b0)
        else b5 \<and> \<not> (\<not> b4 \<and> \<not> b3 \<and> b1 \<and> \<not> b0) \<and> \<not> (b4 \<and> b3 \<and> b2 \<and> \<not> b0))"

lemma json_plain_byte:
  assumes "json_plain c"
  shows "byte_of c < 128 \<and> 32 \<le> byte_of c \<and> byte_of c \<notin> {34, 38, 60, 62, 92}"
proof (cases c)
  case (Char b0 b1 b2 b3 b4 b5 b6 b7)
  then show ?thesis using assms unfolding byte_of_def of_char_Char
    by (cases b0; cases b1; cases b2; cases b3; cases b4; cases b5; cases b6; cases b7) simp_all
qed

lemma json_escape_code [code]:
  "json_escape [] = []"
  "json_escape (c # s) =
     (if json_plain c then c # json_escape s
      else let w = utf8_width (map byte_of (take 4 (c # s))) in json_rune w (c # s) @ json_escape (drop (w - 1) s))"
proof -
  show "json_escape (c # s) =
     (if json_plain c then c # json_escape s
      else let w = utf8_width (map byte_of (take 4 (c # s))) in json_rune w (c # s) @ json_escape (drop (w - 1) s))"
    using json_plain_byte [of c] by (auto simp: json_escape.simps(2) json_rune_def json_escape_ascii_def Let_def)
qed simp

definition json_string :: "string \<Rightarrow> string" where
  "json_string s = CHR 0x22 # json_escape s @ [CHR 0x22]"

definition json_bool :: "bool \<Rightarrow> string" where
  "json_bool b = (if b then ''true'' else ''false'')"

text \<open>An object from its members, each a name and an already encoded value.\<close>

definition json_object :: "(string \<times> string) list \<Rightarrow> string" where
  "json_object ms = ''{'' @ strings_Join (map (\<lambda>(n, v). json_string n @ '':'' @ v) ms) '','' @ ''}''"

section \<open>Plain strings are trimmed, and digests are plain and in lower case\<close>

definition plain_char :: "char \<Rightarrow> bool" where
  "plain_char c \<longleftrightarrow> 33 \<le> byte_of c \<and> byte_of c < 128"

lemma space_width_plain: "33 \<le> b \<Longrightarrow> b < 128 \<Longrightarrow> space_width (b # bs) = 0"
  by (auto split: list.splits)

lemma space_width_rev_plain:
  assumes "33 \<le> c" "c < 128"
  shows "space_width_rev (c # bs) = 0"
proof -
  consider "bs = []" | b where "bs = [b]" | a b cs where "bs = b # a # cs" by (metis list.exhaust)
  then show ?thesis using assms by cases (auto simp: space_width_rev_def)
qed

lemma TrimSpace_plain:
  assumes "s \<noteq> []" "plain_char (hd s)" "plain_char (last s)"
  shows "TrimSpace s = s"
proof -
  have "space_width (map byte_of s) = 0" using assms(1,2) by (cases s) (simp_all add: plain_char_def space_width_plain del: space_width.simps)
  then have left: "trim_left s = s" by (rule trim_left_id)
  obtain r where r: "rev s = last s # r" using assms(1) by (cases s rule: rev_cases) auto
  have "space_width_rev (map byte_of (rev s)) = 0" using assms(3) unfolding r by (simp add: plain_char_def space_width_rev_plain)
  then show ?thesis using trim_right_id [of "rev s"] by (simp add: TrimSpace_def left)
qed

lemma plain_hex_digit: "n < 16 \<Longrightarrow> plain_char (hex_digit n)"
  by (auto simp: plain_char_def hex_digit_def byte_of_def)

lemma plain_hex: "c \<in> set (sha256_hex s) \<Longrightarrow> plain_char c"
proof -
  have "\<forall>b \<in> set (sha256 s). b < 256" by (auto simp: sha256_def Let_def be_bytes_def)
  then show "c \<in> set (sha256_hex s) \<Longrightarrow> plain_char c"
    by (auto simp: sha256_hex_def hex_encode_def intro!: plain_hex_digit)
qed

lemma lower_hex_digit: "n < 16 \<Longrightarrow> lower_byte (hex_digit n) = hex_digit n"
proof -
  assume "n < 16"
  then have "byte_of (hex_digit n) = (if n < 10 then 48 + n else 87 + n)" by (auto simp: hex_digit_def byte_of_def)
  with \<open>n < 16\<close> show ?thesis by (auto simp: lower_byte_def Let_def)
qed

lemma lower_hex_encode: "\<forall>b \<in> set bs. b < 256 \<Longrightarrow> map lower_byte (hex_encode bs) = hex_encode bs"
proof (induction bs)
  case (Cons b bs)
  then have "b div 16 < 16" by (simp add: div_less_iff_less_mult)
  with Cons show ?case by (simp add: hex_encode_def lower_hex_digit)
qed (simp add: hex_encode_def)

lemma sha256_hex_normal [simp]: "ToLower (TrimSpace (sha256_hex s)) = sha256_hex s" "TrimSpace (sha256_hex s) = sha256_hex s"
proof -
  have nonempty: "sha256_hex s \<noteq> []" using length_sha256_hex [of s] by (metis list.size(3) zero_neq_numeral)
  then show trimmed: "TrimSpace (sha256_hex s) = sha256_hex s" by (intro TrimSpace_plain plain_hex [of _ s]) simp_all
  have "\<forall>b \<in> set (sha256 s). b < 256" by (auto simp: sha256_def Let_def be_bytes_def)
  from lower_hex_encode [OF this]
  show "ToLower (TrimSpace (sha256_hex s)) = sha256_hex s" unfolding trimmed ToLower_def by (simp add: sha256_hex_def)
qed

end
