(* ===== verification/Pricing_Types.thy ===== *)
theory Pricing_Types
  imports Go_Prelude Go_Encoding
begin

text \<open>
  \<open>internal/pricing/types.go\<close>: the error codes, the facts of a request that a price can depend
  on, the lines and results of an evaluation, a compiled rule, and the hashes of expressions
  and facts. The type of a compiled program (\<open>vm.Program\<close> of the library \<open>expr\<close>) is a type
  parameter.
\<close>

named_theorems pricing_consts \<open>the string constants of the pricing package\<close>

definition EngineVersionV1 :: int where
  "EngineVersionV1 = 1"

definition CurrencyUSD :: string where
  "CurrencyUSD = ''USD''"

definition PhaseEstimate :: string where
  [pricing_consts]: "PhaseEstimate = ''estimate''"

definition PhaseSettlement :: string where
  [pricing_consts]: "PhaseSettlement = ''settlement''"

definition PhaseReplay :: string where
  [pricing_consts]: "PhaseReplay = ''replay''"

definition ErrorExpressionEmpty :: string where
  [pricing_consts]: "ErrorExpressionEmpty = ''pricing_expr_empty''"

definition ErrorExpressionTooLarge :: string where
  [pricing_consts]: "ErrorExpressionTooLarge = ''pricing_expr_too_large''"

definition ErrorVersionUnsupported :: string where
  [pricing_consts]: "ErrorVersionUnsupported = ''pricing_version_unsupported''"

definition ErrorCompileFailed :: string where
  [pricing_consts]: "ErrorCompileFailed = ''pricing_expr_compile_failed''"

definition ErrorForbiddenAST :: string where
  [pricing_consts]: "ErrorForbiddenAST = ''pricing_expr_forbidden_ast''"

definition ErrorHashMismatch :: string where
  [pricing_consts]: "ErrorHashMismatch = ''pricing_expr_hash_mismatch''"

definition ErrorFactMissing :: string where
  [pricing_consts]: "ErrorFactMissing = ''pricing_fact_missing''"

definition ErrorFactInvalid :: string where
  [pricing_consts]: "ErrorFactInvalid = ''pricing_fact_invalid''"

definition ErrorArithmeticOverflow :: string where
  [pricing_consts]: "ErrorArithmeticOverflow = ''pricing_arithmetic_overflow''"

definition ErrorAmountOutOfRange :: string where
  [pricing_consts]: "ErrorAmountOutOfRange = ''pricing_amount_out_of_range''"

definition ErrorTierInvalid :: string where
  [pricing_consts]: "ErrorTierInvalid = ''pricing_tier_invalid''"

definition ErrorBreakdownInvalid :: string where
  [pricing_consts]: "ErrorBreakdownInvalid = ''pricing_breakdown_invalid''"

definition ErrorRuleUnavailable :: string where
  [pricing_consts]: "ErrorRuleUnavailable = ''pricing_rule_unavailable''"

section \<open>Errors\<close>

record pricing_error =
  err_Code :: string
  err_Message :: string
  err_Line :: int
  err_Column :: int

text \<open>\<open>(*Error).Error\<close>; the nil pointer is the case \<open>None\<close>.\<close>

definition pricing_error_text :: "pricing_error option \<Rightarrow> string" where
  "pricing_error_text p =
     (case p of
        None \<Rightarrow> []
      | Some e \<Rightarrow>
          if err_Line e > 0 then err_Code e @ '' at '' @ Itoa (err_Line e) @ '':'' @ Itoa (err_Column e) @ '': '' @ err_Message e
          else err_Code e @ '': '' @ err_Message e)"

text \<open>
  A Go error: one of the package, one of another package (its text and what \<open>Unwrap\<close> gives),
  or a panic of the runtime.
\<close>

datatype go_error = PricingError pricing_error | ForeignError string "go_error option" | Panic string

definition errorf :: "string \<Rightarrow> string \<Rightarrow> pricing_error" where
  "errorf code message = \<lparr>err_Code = code, err_Message = message, err_Line = 0, err_Column = 0\<rparr>"

fun go_error_text :: "go_error \<Rightarrow> string" where
  "go_error_text (PricingError e) = pricing_error_text (Some e)"
| "go_error_text (ForeignError t u) = t"
| "go_error_text (Panic t) = t"

lemma err_Code_errorf [simp]: "err_Code (errorf c m) = c"
  by (simp add: errorf_def)

text \<open>
  \<open>%q\<close> of a string: Go quotes it with backslash escapes; printable text is kept, and bytes
  outside ASCII count as printable here.
\<close>

definition quote_byte :: "char \<Rightarrow> string" where
  "quote_byte c =
     (let b = byte_of c
      in if b = 34 then [CHR 0x5C, CHR 0x22]
         else if b = 92 then [CHR 0x5C, CHR 0x5C]
         else if b = 7 then CHR 0x5C # ''a''
         else if b = 8 then CHR 0x5C # ''b''
         else if b = 12 then CHR 0x5C # ''f''
         else if b = 10 then CHR 0x5C # ''n''
         else if b = 13 then CHR 0x5C # ''r''
         else if b = 9 then CHR 0x5C # ''t''
         else if b = 11 then CHR 0x5C # ''v''
         else if b < 32 \<or> b = 127 then CHR 0x5C # ''x'' @ [hex_digit (b div 16), hex_digit (b mod 16)]
         else [c])"

definition go_quote :: "string \<Rightarrow> string" where
  "go_quote s = CHR 0x22 # concat (map quote_byte s) @ [CHR 0x22]"

section \<open>Facts, lines, results and rules\<close>

record Facts =
  TotalInputTokens :: int
  UncachedInputTokens :: int
  CacheReadTokens :: int
  CacheWrite5mTokens :: int
  CacheWrite1hTokens :: int
  OutputTokens :: int
  CacheFieldsPresent :: bool
  InputImages :: int
  OutputImages :: int
  PartialImages :: int
  InputVideoMilliseconds :: int
  OutputVideoMilliseconds :: int
  InputAudioMilliseconds :: int
  OutputAudioMilliseconds :: int
  RealtimeAudioMilliseconds :: int
  InputCharacters :: int
  Actions :: int
  BatchItems :: int
  InputBytes :: int
  OutputBytes :: int
  TransferBytes :: int
  SessionMilliseconds :: int
  Protocol :: string
  Operation :: string
  Modality :: string
  Lane :: string
  Stream :: bool
  OutputCount :: int
  ServiceTier :: string
  AvailableFacts :: "(string, bool) gmap"
  NormalizationStatus :: string
  Phase :: string
  ObservedAt :: gotime

record PricingLine =
  line_Code :: string
  line_Quantity :: int
  line_Unit :: string
  line_UnitsPerBlock :: int
  line_RateMicros :: int
  line_MultiplierBPS :: int
  line_AmountMicros :: int

record pricing_result =
  res_AmountMicros :: int
  res_Currency :: string
  res_MatchedTier :: string
  res_Lines :: "PricingLine list"
  res_EngineVersion :: int
  res_ExpressionHash :: string
  res_FactsHash :: string

record TierAnalysis =
  tier_Name :: string
  tier_Conditions :: "string list"

record RuleAnalysis =
  an_EngineVersion :: int
  an_RequiredFacts :: "string list"
  an_Tiers :: "TierAnalysis list"
  an_LineCodes :: "string list"
  an_VisualEditable :: bool

text \<open>The program is a pointer; \<open>None\<close> is nil.\<close>

record 'p CompiledRule =
  rule_Source :: string
  rule_ExpressionHash :: string
  rule_EngineVersion :: int
  rule_Analysis :: RuleAnalysis
  rule_body :: string
  rule_program :: "'p option"

definition zero_RuleAnalysis :: RuleAnalysis where
  "zero_RuleAnalysis = \<lparr>an_EngineVersion = 0, an_RequiredFacts = [], an_Tiers = [], an_LineCodes = [], an_VisualEditable = False\<rparr>"

definition zero_Facts :: Facts where
  "zero_Facts = \<lparr>TotalInputTokens = 0, UncachedInputTokens = 0, CacheReadTokens = 0, CacheWrite5mTokens = 0,
     CacheWrite1hTokens = 0, OutputTokens = 0, CacheFieldsPresent = False, InputImages = 0, OutputImages = 0,
     PartialImages = 0, InputVideoMilliseconds = 0, OutputVideoMilliseconds = 0, InputAudioMilliseconds = 0,
     OutputAudioMilliseconds = 0, RealtimeAudioMilliseconds = 0, InputCharacters = 0, Actions = 0, BatchItems = 0,
     InputBytes = 0, OutputBytes = 0, TransferBytes = 0, SessionMilliseconds = 0, Protocol = [], Operation = [],
     Modality = [], Lane = [], Stream = False, OutputCount = 0, ServiceTier = [], AvailableFacts = [],
     NormalizationStatus = [], Phase = [], ObservedAt = 0\<rparr>"

section \<open>Hashes\<close>

definition ExpressionHash :: "string \<Rightarrow> string" where
  "ExpressionHash source = sha256_hex source"

text \<open>
  \<open>Facts.CanonicalJSON\<close>: the phase and the observation time are cleared, so the JSON holds the
  zero time; \<open>available_facts\<close> is left out when empty and its keys are sorted.
\<close>

definition facts_json_members :: "Facts \<Rightarrow> (string \<times> string) list" where
  "facts_json_members f =
     [(''total_input_tokens'', Itoa (TotalInputTokens f)),
      (''uncached_input_tokens'', Itoa (UncachedInputTokens f)),
      (''cache_read_tokens'', Itoa (CacheReadTokens f)),
      (''cache_write_5m_tokens'', Itoa (CacheWrite5mTokens f)),
      (''cache_write_1h_tokens'', Itoa (CacheWrite1hTokens f)),
      (''output_tokens'', Itoa (OutputTokens f)),
      (''cache_fields_present'', json_bool (CacheFieldsPresent f)),
      (''input_images'', Itoa (InputImages f)),
      (''output_images'', Itoa (OutputImages f)),
      (''partial_images'', Itoa (PartialImages f)),
      (''input_video_milliseconds'', Itoa (InputVideoMilliseconds f)),
      (''output_video_milliseconds'', Itoa (OutputVideoMilliseconds f)),
      (''input_audio_milliseconds'', Itoa (InputAudioMilliseconds f)),
      (''output_audio_milliseconds'', Itoa (OutputAudioMilliseconds f)),
      (''realtime_audio_milliseconds'', Itoa (RealtimeAudioMilliseconds f)),
      (''input_characters'', Itoa (InputCharacters f)),
      (''actions'', Itoa (Actions f)),
      (''batch_items'', Itoa (BatchItems f)),
      (''input_bytes'', Itoa (InputBytes f)),
      (''output_bytes'', Itoa (OutputBytes f)),
      (''transfer_bytes'', Itoa (TransferBytes f)),
      (''session_milliseconds'', Itoa (SessionMilliseconds f)),
      (''protocol'', json_string (Protocol f)),
      (''operation'', json_string (Operation f)),
      (''modality'', json_string (Modality f)),
      (''lane'', json_string (Lane f)),
      (''stream'', json_bool (Stream f)),
      (''output_count'', Itoa (OutputCount f)),
      (''service_tier'', json_string (ServiceTier f))]
     @ (if AvailableFacts f = [] then []
        else [(''available_facts'',
          json_object (map (\<lambda>(k, v). (k, json_bool v)) (sort_slice (\<lambda>a b. fst a < fst b) (AvailableFacts f))))])
     @ [(''normalization_status'', json_string (NormalizationStatus f)),
        (''phase'', json_string (Phase f)),
        (''observed_at'', json_string ''0001-01-01T00:00:00Z'')]"

definition CanonicalJSON :: "Facts \<Rightarrow> string" where
  "CanonicalJSON f = json_object (facts_json_members (f\<lparr>Phase := [], ObservedAt := 0\<rparr>))"

definition facts_Hash :: "Facts \<Rightarrow> string" where
  "facts_Hash f = sha256_hex (CanonicalJSON f)"

definition validShortString :: "string \<Rightarrow> bool" where
  "validShortString value \<longleftrightarrow> length value \<le> 128 \<and> \<not> ContainsAny value (CHR 0x0D # CHR 0x0A # NUL)"

text \<open>The phase and the time of an observation do not enter the hash of the facts.\<close>

lemma facts_Hash_phase_time: "facts_Hash (f\<lparr>Phase := p, ObservedAt := t\<rparr>) = facts_Hash f"
  by (simp add: facts_Hash_def CanonicalJSON_def)

end
