(* ===== verification/Pricing_Money.thy ===== *)
theory Pricing_Money
  imports Pricing_Types
begin

text \<open>
  \<open>internal/pricing/money.go\<close>: the checked arithmetic on micro-units. The products are taken in
  128 bits as two unsigned words (\<open>bits.Mul64\<close>, \<open>bits.Div64\<close>), here \<open>64 word\<close>s.
\<close>

text \<open>
  A value of type \<open>any\<close>, as the expression VM hands it to a function of the environment:
  the types the code distinguishes, and the name of any other type. Its integers are words of
  64 bits, read as signed.
\<close>

datatype any = AnyInt "64 word" | AnyInt64 "64 word" | AnyString string | AnyBool bool | AnyOther string

fun any_type :: "any \<Rightarrow> string" where
  "any_type (AnyInt _) = ''int''"
| "any_type (AnyInt64 _) = ''int64''"
| "any_type (AnyString _) = ''string''"
| "any_type (AnyBool _) = ''bool''"
| "any_type (AnyOther t) = t"

definition basisPointsOne :: int where
  "basisPointsOne = 10000"

fun pricingInteger :: "any \<Rightarrow> go_error + int" where
  "pricingInteger (AnyInt number) = Inr (sint number)"
| "pricingInteger (AnyInt64 number) = Inr (sint number)"
| "pricingInteger value = Inl (PricingError (errorf ErrorFactInvalid (''pricing operand has type '' @ any_type value)))"

definition numeric2 :: "(int \<Rightarrow> int \<Rightarrow> go_error + int) \<Rightarrow> any \<Rightarrow> any \<Rightarrow> go_error + int" where
  "numeric2 operation left right =
     and_then (pricingInteger left) (\<lambda>leftValue.
     and_then (pricingInteger right) (\<lambda>rightValue.
     operation leftValue rightValue))"

definition numeric3 :: "(int \<Rightarrow> int \<Rightarrow> int \<Rightarrow> go_error + int) \<Rightarrow> any \<Rightarrow> any \<Rightarrow> any \<Rightarrow> go_error + int" where
  "numeric3 operation first second third =
     and_then (pricingInteger first) (\<lambda>firstValue.
     and_then (pricingInteger second) (\<lambda>secondValue.
     and_then (pricingInteger third) (\<lambda>thirdValue.
     operation firstValue secondValue thirdValue)))"

definition checkedAdd :: "int \<Rightarrow> int \<Rightarrow> go_error + int" where
  "checkedAdd left right =
     (if left < 0 \<or> right < 0 \<or> left > wrap64 (MaxInt64 - right)
      then Inl (PricingError (errorf ErrorArithmeticOverflow ''integer addition overflow''))
      else Inr (wrap64 (left + right)))"

text \<open>The primitives of \<open>math/bits\<close>; \<open>Div64\<close> panics (here \<open>None\<close>) unless \<open>hi < y\<close>.\<close>

definition bits_Mul64 :: "64 word \<Rightarrow> 64 word \<Rightarrow> 64 word \<times> 64 word" where
  "bits_Mul64 x y = (word_of_nat (unat x * unat y div 2 ^ 64), word_of_nat (unat x * unat y mod 2 ^ 64))"

definition bits_Div64 :: "64 word \<Rightarrow> 64 word \<Rightarrow> 64 word \<Rightarrow> (64 word \<times> 64 word) option" where
  "bits_Div64 hi lo y =
     (if y \<le> hi then None
      else Some (word_of_nat ((unat hi * 2 ^ 64 + unat lo) div unat y),
                 word_of_nat ((unat hi * 2 ^ 64 + unat lo) mod unat y)))"

definition checkedMulDivRoundHalfUp :: "int \<Rightarrow> int \<Rightarrow> int \<Rightarrow> go_error + int" where
  "checkedMulDivRoundHalfUp left right divisor =
     (if left < 0 \<or> right < 0 \<or> divisor \<le> 0
      then Inl (PricingError (errorf ErrorFactInvalid ''pricing operands must be non-negative and divisor must be positive''))
      else
        let (hi, lo) = bits_Mul64 (word_of_int left) (word_of_int right);
            d = word_of_int divisor :: 64 word
        in if hi \<ge> d then Inl (PricingError (errorf ErrorArithmeticOverflow ''integer multiplication overflow''))
           else case bits_Div64 hi lo d of
             None \<Rightarrow> Inl (Panic ''runtime error: integer overflow'')
           | Some (quo, rest) \<Rightarrow>
               if rest \<ge> (d + 1) div 2 then
                 (if quo = - 1 then Inl (PricingError (errorf ErrorArithmeticOverflow ''rounded amount overflow''))
                  else let quo = quo + 1
                       in if quo > word_of_int MaxInt64 then Inl (PricingError (errorf ErrorArithmeticOverflow ''amount exceeds int64''))
                          else Inr (sint quo))
               else if quo > word_of_int MaxInt64 then Inl (PricingError (errorf ErrorArithmeticOverflow ''amount exceeds int64''))
               else Inr (sint quo))"

definition tokenCost :: "int \<Rightarrow> int \<Rightarrow> go_error + int" where
  "tokenCost quantity microsPerMillion = checkedMulDivRoundHalfUp quantity microsPerMillion 1000000"

definition unitCost :: "int \<Rightarrow> int \<Rightarrow> go_error + int" where
  "unitCost quantity microsPerUnit = checkedMulDivRoundHalfUp quantity microsPerUnit 1"

definition blockCost :: "int \<Rightarrow> int \<Rightarrow> int \<Rightarrow> go_error + int" where
  "blockCost quantity unitsPerBlock microsPerBlock = checkedMulDivRoundHalfUp quantity microsPerBlock unitsPerBlock"

definition multiplyBPS :: "int \<Rightarrow> int \<Rightarrow> go_error + int" where
  "multiplyBPS amount bps = checkedMulDivRoundHalfUp amount bps basisPointsOne"

section \<open>The rounding is exact\<close>

text \<open>The quotient rounded half up.\<close>

definition round_half_up :: "int \<Rightarrow> int \<Rightarrow> int" where
  "round_half_up n d = (2 * n + d) div (2 * d)"

lemma half_up: "(d + 1) div 2 \<le> m \<longleftrightarrow> d \<le> 2 * (m::int)"
  by presburger

lemma round_half_up_split:
  assumes "0 < d"
  shows "round_half_up n d = n div d + (if (d + 1) div 2 \<le> n mod d then 1 else 0)"
proof -
  have n: "2 * n + d = 2 * d * (n div d) + (2 * (n mod d) + d)"
    by (metis (no_types) distrib_left group_cancel.add1 mult.assoc mult_div_mod_eq)
  have m: "0 \<le> n mod d" "n mod d < d" using assms by simp_all
  show ?thesis
  proof (cases "(d + 1) div 2 \<le> n mod d")
    case True
    then have "d \<le> 2 * (n mod d)" using half_up by blast
    then have "2 * n + d = 2 * d * (n div d + 1) + (2 * (n mod d) - d)" "0 \<le> 2 * (n mod d) - d" "2 * (n mod d) - d < 2 * d"
      using n m by (simp_all add: algebra_simps)
    then have "(2 * n + d) div (2 * d) = n div d + 1" by (rule int_div_pos_eq)
    then show ?thesis unfolding round_half_up_def using True by simp
  next
    case False
    then have "2 * (n mod d) + d < 2 * d" using half_up by auto
    then show ?thesis unfolding round_half_up_def using False n m assms
      by (auto intro: int_div_pos_eq)
  qed
qed

lemma unat64: "n < 2 ^ 64 \<Longrightarrow> unat (word_of_nat n :: 64 word) = n"
  by (simp add: unat_of_nat take_bit_nat_eq_self)

lemma Mul64_Div64:
  assumes "l * r div d < 2 ^ 64" "0 < d" "d < 2 ^ 63" "l < 2 ^ 63" "r < (2::nat) ^ 63"
  shows "\<exists>hi lo. bits_Mul64 (word_of_nat l) (word_of_nat r) = (hi, lo) \<and> hi < word_of_nat d
    \<and> bits_Div64 hi lo (word_of_nat d) = Some (word_of_nat (l * r div d), word_of_nat (l * r mod d))"
proof -
  let ?n = "l * r"
  have hi: "?n div 2 ^ 64 < 2 ^ 64"
  proof -
    have "?n \<le> 2 ^ 63 * 2 ^ 63" using assms by (intro mult_le_mono) simp_all
    then show ?thesis by simp
  qed
  have lt: "?n div 2 ^ 64 < d"
  proof -
    have "?n < d * 2 ^ 64" using assms(1,2)
      by (metis div_less_iff_less_mult mult.commute)
    then show ?thesis by (simp add: less_mult_imp_div_less)
  qed
  have u: "unat (word_of_nat l :: 64 word) = l" "unat (word_of_nat r :: 64 word) = r" "unat (word_of_nat d :: 64 word) = d"
    using assms by (simp_all add: unat64)
  define hi lo where "hi = (word_of_nat (?n div 2 ^ 64) :: 64 word)" and "lo = (word_of_nat (?n mod 2 ^ 64) :: 64 word)"
  have uh: "unat hi = ?n div 2 ^ 64" unfolding hi_def by (rule unat64) (rule hi)
  have ul: "unat lo = ?n mod 2 ^ 64" unfolding lo_def by (rule unat64) simp
  have less: "hi < word_of_nat d"
    unfolding word_less_nat_alt uh u by (rule lt)
  have n: "?n div 2 ^ 64 * 2 ^ 64 + ?n mod 2 ^ 64 = ?n" by (rule div_mult_mod_eq)
  have "bits_Mul64 (word_of_nat l) (word_of_nat r) = (hi, lo)"
    unfolding bits_Mul64_def u hi_def lo_def by (rule refl)
  moreover have "bits_Div64 hi lo (word_of_nat d) = Some (word_of_nat (?n div d), word_of_nat (?n mod d))"
    unfolding bits_Div64_def uh ul u n using less by (simp add: not_le)
  ultimately show ?thesis using less by blast
qed

lemma Mul64_overflow:
  assumes "\<not> l * r div d < 2 ^ 64" "0 < d" "d < 2 ^ 63" "l < 2 ^ 63" "r < (2::nat) ^ 63"
  shows "word_of_nat d \<le> fst (bits_Mul64 (word_of_nat l) (word_of_nat r))"
proof -
  have "l * r \<le> 2 ^ 63 * 2 ^ 63" using assms by (intro mult_le_mono) simp_all
  then have hi: "l * r div 2 ^ 64 < 2 ^ 64" by simp
  have "d * 2 ^ 64 \<le> l * r" using assms(1,2)
    by (metis div_less_iff_less_mult linorder_not_less mult.commute)
  then have "d \<le> l * r div 2 ^ 64" by (simp add: less_eq_div_iff_mult_less_eq)
  moreover have "unat (word_of_nat l :: 64 word) = l" "unat (word_of_nat r :: 64 word) = r" "unat (word_of_nat d :: 64 word) = d"
    using assms by (simp_all add: unat64)
  moreover have "unat (word_of_nat (l * r div 2 ^ 64) :: 64 word) = l * r div 2 ^ 64"
    using hi by (simp add: unat64)
  ultimately show ?thesis by (simp add: bits_Mul64_def word_le_nat_alt)
qed

lemma word_of_nonneg: "0 \<le> x \<Longrightarrow> word_of_int x = word_of_nat (nat x)"
  by simp

lemma checkedMulDiv_exact:
  assumes l: "0 \<le> l" "l \<le> MaxInt64" and r: "0 \<le> r" "r \<le> MaxInt64" and d: "0 < d" "d \<le> MaxInt64"
  shows "(round_half_up (l * r) d \<le> MaxInt64 \<longrightarrow> checkedMulDivRoundHalfUp l r d = Inr (round_half_up (l * r) d))
    \<and> (MaxInt64 < round_half_up (l * r) d \<longrightarrow>
        (\<exists>m. checkedMulDivRoundHalfUp l r d = Inl (PricingError (errorf ErrorArithmeticOverflow m))))"
proof -
  define L R D where "L = nat l" and "R = nat r" and "D = nat d"
  have b: "0 < D" "D < 2 ^ 63" "L < 2 ^ 63" "R < 2 ^ 63"
    using assms by (simp_all add: L_def R_def D_def MaxInt64_def)
  have w: "word_of_int l = (word_of_nat L :: 64 word)" "word_of_int r = (word_of_nat R :: 64 word)"
    "word_of_int d = (word_of_nat D :: 64 word)" using assms by (simp_all add: L_def R_def D_def)
  have i: "l = int L" "r = int R" "d = int D" using assms by (simp_all add: L_def R_def D_def)
  define q m where "q = L * R div D" and "m = L * R mod D"
  have rq: "round_half_up (l * r) d = int (q + (if (D + 1) div 2 \<le> m then 1 else 0))"
  proof -
    have "l * r div d = int q" "l * r mod d = int m"
      unfolding i q_def m_def by (simp_all add: zdiv_int zmod_int)
    moreover have "(d + 1) div 2 \<le> int m \<longleftrightarrow> (D + 1) div 2 \<le> m"
      unfolding half_up i by presburger
    ultimately show ?thesis using round_half_up_split [of d "l * r"] d(1) by simp
  qed
  have nneg: "\<not> (l < 0 \<or> r < 0 \<or> d \<le> 0)" using assms by simp
  show ?thesis
  proof (cases "q < 2 ^ 64")
    case False
    have "word_of_nat D \<le> fst (bits_Mul64 (word_of_nat L) (word_of_nat R))"
      using Mul64_overflow False b unfolding q_def by blast
    then have "\<exists>m. checkedMulDivRoundHalfUp l r d = Inl (PricingError (errorf ErrorArithmeticOverflow m))"
      using nneg unfolding checkedMulDivRoundHalfUp_def w by (auto split: prod.splits)
    moreover have "MaxInt64 < round_half_up (l * r) d" using False unfolding rq MaxInt64_def by simp
    ultimately show ?thesis by simp
  next
    case True
    then obtain hi lo where mul: "bits_Mul64 (word_of_nat L) (word_of_nat R) = (hi, lo)" "hi < word_of_nat D"
      and dv: "bits_Div64 hi lo (word_of_nat D) = Some (word_of_nat q, word_of_nat m)"
      using Mul64_Div64 b unfolding q_def m_def by blast
    have ud: "unat (word_of_nat D + 1 :: 64 word) = D + 1"
      using b unat64 [of "D + 1"] by (simp add: add.commute)
    have m: "m < D" using b by (simp add: m_def)
    have um: "unat (word_of_nat m :: 64 word) = m" using m b by (simp add: unat64)
    have uq: "unat (word_of_nat q :: 64 word) = q" using True by (simp add: unat64)
    have half: "((word_of_nat D + 1) div 2 \<le> (word_of_nat m :: 64 word)) \<longleftrightarrow> (D + 1) div 2 \<le> m"
      by (simp add: word_le_nat_alt um unat_div_distrib ud)
    have maxw: "unat (word_of_int MaxInt64 :: 64 word) = 2 ^ 63 - 1" by (simp add: MaxInt64_def)
    have sq: "k < 2 ^ 63 \<Longrightarrow> sint (word_of_nat k :: 64 word) = int k" for k
      by (simp add: signed_of_nat signed_take_bit_int_eq_self)
    have gt: "k < 2 ^ 64 \<Longrightarrow> (word_of_int MaxInt64 < (word_of_nat k :: 64 word)) \<longleftrightarrow> 2 ^ 63 \<le> k" for k
      by (simp add: word_less_nat_alt maxw unat64) auto
    have eqv: "checkedMulDivRoundHalfUp l r d =
      (if (D + 1) div 2 \<le> m then
         (if word_of_nat q = (- 1 :: 64 word) then Inl (PricingError (errorf ErrorArithmeticOverflow ''rounded amount overflow''))
          else if word_of_int MaxInt64 < (word_of_nat (q + 1) :: 64 word) then Inl (PricingError (errorf ErrorArithmeticOverflow ''amount exceeds int64''))
          else Inr (sint (word_of_nat (q + 1) :: 64 word)))
       else if word_of_int MaxInt64 < (word_of_nat q :: 64 word) then Inl (PricingError (errorf ErrorArithmeticOverflow ''amount exceeds int64''))
       else Inr (sint (word_of_nat q :: 64 word)))"
    proof -
      have "\<not> word_of_nat D \<le> hi" using mul(2) by simp
      moreover have "word_of_nat q + 1 = (word_of_nat (q + 1) :: 64 word)" by simp
      ultimately show ?thesis
        unfolding checkedMulDivRoundHalfUp_def w
        by (simp only: nneg if_False mul(1) Let_def case_prod_conv dv option.case half)
    qed
    have allones: "word_of_nat q = (- 1 :: 64 word) \<longleftrightarrow> q = 2 ^ 64 - 1"
    proof -
      have "unat (- 1 :: 64 word) = 2 ^ 64 - 1" using unat_minus_one [of "0 :: 64 word"]
        by (simp add: unsigned_minus_1_eq_mask mask_eq_exp_minus_1)
      then show ?thesis using uq by (simp only: word_unat_eq_iff)
    qed
    show ?thesis
    proof (cases "(D + 1) div 2 \<le> m")
      case up: True
      show ?thesis
      proof (cases "q = 2 ^ 64 - 1")
        case True
        then show ?thesis using up eqv allones rq by (auto simp: MaxInt64_def)
      next
        case False
        with \<open>q < 2 ^ 64\<close> have "q + 1 < 2 ^ 64" by simp
        then show ?thesis using up eqv allones rq False gt [of "q + 1"] sq [of "q + 1"] by (auto simp: MaxInt64_def)
      qed
    next
      case False
      then show ?thesis using eqv rq gt [of q] sq [of q] True by (auto simp: MaxInt64_def)
    qed
  qed
qed

text \<open>What the quotient rounded half up is: the integer nearest to the ratio, the upper one of two.\<close>

lemma round_half_up_iff:
  assumes "0 < d"
  shows "round_half_up n d = q \<longleftrightarrow> 2 * n - d < 2 * d * q \<and> 2 * d * q \<le> 2 * n + d"
proof -
  have d2: "0 < 2 * d" using assms by simp
  have "2 * n + d = 2 * d * round_half_up n d + (2 * n + d) mod (2 * d)"
    by (simp add: round_half_up_def)
  moreover have "0 \<le> (2 * n + d) mod (2 * d)" "(2 * n + d) mod (2 * d) < 2 * d" using d2 by simp_all
  ultimately have bounds: "2 * n - d < 2 * d * round_half_up n d \<and> 2 * d * round_half_up n d \<le> 2 * n + d"
    by linarith
  have "q = round_half_up n d" if "2 * n - d < 2 * d * q" "2 * d * q \<le> 2 * n + d"
  proof -
    have "2 * n + d = 2 * d * q + (2 * n + d - 2 * d * q)" by simp
    then show ?thesis unfolding round_half_up_def
      using that by (intro int_div_pos_eq [symmetric, where r = "2 * n + d - 2 * d * q"]) simp_all
  qed
  with bounds show ?thesis by blast
qed

lemma round_half_up_nonneg: "0 \<le> n \<Longrightarrow> 0 < d \<Longrightarrow> 0 \<le> round_half_up n d"
  by (simp add: round_half_up_def pos_imp_zdiv_nonneg_iff)

lemma checkedMulDiv_nonneg:
  assumes "checkedMulDivRoundHalfUp l r d = Inr q" "l \<le> MaxInt64" "r \<le> MaxInt64" "d \<le> MaxInt64"
  shows "0 \<le> q" "q \<le> MaxInt64" "q = round_half_up (l * r) d" "0 \<le> l" "0 \<le> r" "0 < d"
proof -
  have nn: "0 \<le> l" "0 \<le> r" "0 < d"
    using assms(1) by (auto simp: checkedMulDivRoundHalfUp_def split: if_splits)
  then have "q = round_half_up (l * r) d \<and> q \<le> MaxInt64"
    using assms checkedMulDiv_exact [of l r d] by (cases "MaxInt64 < round_half_up (l * r) d") auto
  with nn show "0 \<le> q" "q \<le> MaxInt64" "q = round_half_up (l * r) d" "0 \<le> l" "0 \<le> r" "0 < d"
    by (auto intro: round_half_up_nonneg)
qed

lemma checkedAdd_Inr:
  assumes "in64 left" "in64 right"
  shows "checkedAdd left right = Inr s \<longleftrightarrow> 0 \<le> left \<and> 0 \<le> right \<and> left + right \<le> MaxInt64 \<and> s = left + right"
proof (cases "0 \<le> left \<and> 0 \<le> right")
  case True
  then have "wrap64 (MaxInt64 - right) = MaxInt64 - right" using assms
    by (intro wrap64_id) (simp add: int64_defs)
  moreover have "left + right \<le> MaxInt64 \<Longrightarrow> wrap64 (left + right) = left + right" using True
    by (intro wrap64_id) (simp add: int64_defs)
  ultimately show ?thesis using True unfolding checkedAdd_def by (auto simp: algebra_simps)
next
  case False
  then show ?thesis by (auto simp: checkedAdd_def)
qed


section \<open>The property of the arithmetic\<close>

text \<open>
  C37. The product and quotient of the pricing arithmetic is exact over all 64-bit operands: for
  non-negative operands and a positive divisor the result \<open>q\<close> is the integer nearest to
  \<open>left * right / divisor\<close> (the upper one of two), it is returned just where it fits 64 bits, and
  the call then neither wraps nor panics; other operands are refused as invalid.
\<close>

theorem checkedMulDiv_rounds:
  assumes "in64 left" "in64 right" "in64 divisor"
  shows "if left < 0 \<or> right < 0 \<or> divisor \<le> 0
    then \<exists>m. checkedMulDivRoundHalfUp left right divisor = Inl (PricingError (errorf ErrorFactInvalid m))
    else (\<forall>q. checkedMulDivRoundHalfUp left right divisor = Inr q \<longleftrightarrow>
            q \<le> MaxInt64 \<and> 2 * (left * right) - divisor < 2 * divisor * q \<and> 2 * divisor * q \<le> 2 * (left * right) + divisor)
      \<and> (\<forall>e. checkedMulDivRoundHalfUp left right divisor = Inl e \<longrightarrow> (\<exists>m. e = PricingError (errorf ErrorArithmeticOverflow m)))"
proof (cases "left < 0 \<or> right < 0 \<or> divisor \<le> 0")
  case True
  then show ?thesis unfolding checkedMulDivRoundHalfUp_def by (simp only: if_True) blast
next
  case False
  then have nn: "0 \<le> left" "0 \<le> right" "0 < divisor" by simp_all
  have mx: "left \<le> MaxInt64" "right \<le> MaxInt64" "divisor \<le> MaxInt64" using assms by (simp_all add: in64_def)
  note exact = checkedMulDiv_exact [OF nn(1) mx(1) nn(2) mx(2) nn(3) mx(3)]
  define X where "X = round_half_up (left * right) divisor"
  have nearest: "2 * (left * right) - divisor < 2 * divisor * q \<and> 2 * divisor * q \<le> 2 * (left * right) + divisor \<longleftrightarrow> X = q" for q
    unfolding X_def by (rule round_half_up_iff [OF nn(3), symmetric])
  have "checkedMulDivRoundHalfUp left right divisor = Inr q \<longleftrightarrow> q \<le> MaxInt64 \<and> X = q" for q
    using exact unfolding X_def [symmetric] by (cases "MaxInt64 < X") auto
  moreover have "\<exists>m. e = PricingError (errorf ErrorArithmeticOverflow m)"
    if "checkedMulDivRoundHalfUp left right divisor = Inl e" for e
    using exact that unfolding X_def [symmetric] by (cases "MaxInt64 < X") auto
  ultimately show ?thesis using False unfolding nearest by simp
qed

theorem checkedMulDiv_rounds_witness:
  "checkedMulDivRoundHalfUp 1500000 3 1000000 = Inr 5
    \<and> (\<forall>q. checkedMulDivRoundHalfUp 4611686018427387905 5 2 \<noteq> Inr q)"
  using checkedMulDiv_rounds [of 1500000 3 1000000] checkedMulDiv_rounds [of 4611686018427387905 5 2]
  by (simp add: int64_defs)

end
