(* ===== verification/Pricing_Compile.thy ===== *)
theory Pricing_Compile
  imports Pricing_Money
begin

text \<open>
  \<open>internal/pricing/compile.go\<close>: the version prefix, the analysis of the syntax tree that admits an
  expression, and the engine's cache of compiled rules with its least-recently-used order and its
  table of compilations in flight. The parser and the compiler of the library \<open>expr\<close> are the
  parameters \<open>parse\<close> and \<open>vm_compile\<close>; the nodes are the ones the analysis distinguishes.
\<close>

definition maxExpressionBytes :: nat where
  "maxExpressionBytes = 8192"

definition maxASTNodes :: nat where
  "maxASTNodes = 256"

definition maxASTDepth :: nat where
  "maxASTDepth = 32"

definition maxStaticTiers :: nat where
  "maxStaticTiers = 16"

definition maxStaticLines :: nat where
  "maxStaticLines = 32"

definition defaultCacheSize :: int where
  "defaultCacheSize = 512"

lemmas ast_limits = maxASTNodes_def maxASTDepth_def maxStaticTiers_def maxStaticLines_def

definition factNames :: "string list" where
  "factNames = [
    ''total_input_tokens'', ''uncached_input_tokens'', ''cache_read_tokens'',
    ''cache_write_5m_tokens'', ''cache_write_1h_tokens'', ''output_tokens'', ''cache_fields_present'',
    ''input_images'', ''output_images'', ''partial_images'', ''input_video_milliseconds'',
    ''output_video_milliseconds'', ''input_audio_milliseconds'', ''output_audio_milliseconds'',
    ''realtime_audio_milliseconds'', ''input_characters'', ''actions'', ''batch_items'',
    ''input_bytes'', ''output_bytes'', ''transfer_bytes'', ''session_milliseconds'',
    ''protocol'', ''operation'', ''modality'', ''lane'', ''stream'', ''output_count'', ''service_tier'']"

definition functionNames :: "string list" where
  "functionNames = [
    ''token_cost'', ''unit_cost'', ''block_cost'', ''multiply_bps'',
    ''token_line'', ''adjusted_token_line'', ''unit_line'', ''adjusted_unit_line'',
    ''block_line'', ''adjusted_block_line'', ''fixed_line'', ''tier'', ''min'', ''max'']"

text \<open>The parameter kinds of each function of the compile environment: \<open>string\<close> or \<open>any\<close>.\<close>

datatype param_kind = KString | KAny

definition compileEnvironment :: "(string \<times> param_kind list) list" where
  "compileEnvironment = [
    (''token_cost'', [KAny, KAny]),
    (''unit_cost'', [KAny, KAny]),
    (''block_cost'', [KAny, KAny, KAny]),
    (''multiply_bps'', [KAny, KAny]),
    (''token_line'', [KString, KAny, KAny]),
    (''adjusted_token_line'', [KString, KAny, KAny, KAny]),
    (''unit_line'', [KString, KAny, KString, KAny]),
    (''adjusted_unit_line'', [KString, KAny, KString, KAny, KAny]),
    (''block_line'', [KString, KAny, KString, KAny, KAny]),
    (''adjusted_block_line'', [KString, KAny, KString, KAny, KAny, KAny]),
    (''fixed_line'', [KString, KString, KAny]),
    (''tier'', [KString, KAny]),
    (''min'', [KAny, KAny]),
    (''max'', [KAny, KAny])]"

section \<open>Version prefix\<close>

definition parseVersion :: "string \<Rightarrow> pricing_error + int \<times> string" where
  "parseVersion source =
     (if TrimSpace source = [] then Inl (errorf ErrorExpressionEmpty ''expression is required'')
      else if length source > maxExpressionBytes
      then Inl (errorf ErrorExpressionTooLarge (''expression exceeds '' @ Itoa (int maxExpressionBytes) @ '' bytes''))
      else if \<not> HasPrefix source ''v1:'' then Inl (errorf ErrorVersionUnsupported ''expression must start with v1:'')
      else
        let body = TrimSpace (TrimPrefix source ''v1:'')
        in if body = [] then Inl (errorf ErrorExpressionEmpty ''expression body is required'')
           else Inr (EngineVersionV1, body))"

section \<open>The analysis of the syntax tree\<close>

datatype ast_node =
    NilNode
  | IntegerNode int
  | BoolNode bool
  | StringNode string
  | IdentifierNode string
  | UnaryNode string ast_node
  | BinaryNode string ast_node ast_node
  | ConditionalNode ast_node ast_node ast_node
  | CallNode ast_node "ast_node list"
  | OtherNode string

record astAnalyzer =
  an_nodes :: nat
  an_maxDepth :: nat
  an_tierCalls :: nat
  an_lineCalls :: nat
  an_requiredFacts :: "string list"
  an_tiers :: "string list"
  an_lineCodes :: "string list"
  an_visualEditable :: bool

definition newASTAnalyzer :: astAnalyzer where
  "newASTAnalyzer = \<lparr>an_nodes = 0, an_maxDepth = 0, an_tierCalls = 0, an_lineCalls = 0,
     an_requiredFacts = [], an_tiers = [], an_lineCodes = [], an_visualEditable = True\<rparr>"

definition allowedBinaryOperator :: "string \<Rightarrow> bool" where
  "allowedBinaryOperator operator =
     (operator \<in> {''+'', ''=='', ''!='', ''<'', ''<='', ''>'', ''>='', ''&&'', ''||''})"

text \<open>The first argument where it is a non-empty string literal.\<close>

definition literal_arg :: "ast_node list \<Rightarrow> string option" where
  "literal_arg arguments =
     (case arguments of
        StringNode v # _ \<Rightarrow> if v \<noteq> [] then Some v else None
      | _ \<Rightarrow> None)"

definition insert_opt :: "string option \<Rightarrow> string list \<Rightarrow> string list" where
  "insert_opt v xs = (case v of None \<Rightarrow> xs | Some x \<Rightarrow> List.insert x xs)"

definition is_line_function :: "string \<Rightarrow> bool" where
  "is_line_function name \<longleftrightarrow> HasSuffix name ''_line'' \<or> name = ''fixed_line''"

definition recordCall :: "string \<Rightarrow> ast_node list \<Rightarrow> astAnalyzer \<Rightarrow> astAnalyzer" where
  "recordCall name arguments a =
     (let a = (if name = ''tier''
               then a\<lparr>an_tierCalls := an_tierCalls a + 1, an_tiers := insert_opt (literal_arg arguments) (an_tiers a)\<rparr>
               else a);
          a = (if is_line_function name
               then a\<lparr>an_lineCalls := an_lineCalls a + 1, an_lineCodes := insert_opt (literal_arg arguments) (an_lineCodes a)\<rparr>
               else a)
      in if name = ''min'' \<or> name = ''max'' \<or> HasSuffix name ''_cost'' \<or> name = ''multiply_bps''
         then a\<lparr>an_visualEditable := False\<rparr> else a)"

text \<open>The entry of \<open>visit\<close>: count the node, note its depth, stop above the limits.\<close>

definition enter_node :: "nat \<Rightarrow> astAnalyzer \<Rightarrow> pricing_error + astAnalyzer" where
  "enter_node depth a =
     (let a = a\<lparr>an_nodes := an_nodes a + 1, an_maxDepth := (if depth > an_maxDepth a then depth else an_maxDepth a)\<rparr>
      in if an_nodes a > maxASTNodes \<or> depth > maxASTDepth
         then Inl (errorf ErrorForbiddenAST ''expression exceeds AST limits'')
         else Inr a)"

fun visit :: "ast_node \<Rightarrow> nat \<Rightarrow> bool \<Rightarrow> astAnalyzer \<Rightarrow> pricing_error + astAnalyzer"
  and visit_arguments :: "ast_node list \<Rightarrow> nat \<Rightarrow> astAnalyzer \<Rightarrow> pricing_error + astAnalyzer" where
  "visit NilNode depth callCallee a = Inl (errorf ErrorForbiddenAST ''nil AST node'')"
| "visit (IntegerNode _) depth callCallee a = enter_node depth a"
| "visit (BoolNode _) depth callCallee a = enter_node depth a"
| "visit (StringNode v) depth callCallee a =
     and_then (enter_node depth a) (\<lambda>a.
     if \<not> validShortString v then Inl (errorf ErrorForbiddenAST ''string literal is invalid or too long'') else Inr a)"
| "visit (IdentifierNode v) depth callCallee a =
     and_then (enter_node depth a) (\<lambda>a.
     if callCallee then
       (if v \<notin> set functionNames then Inl (errorf ErrorForbiddenAST (''function '' @ go_quote v @ '' is not allowed''))
        else Inr a)
     else if v \<notin> set factNames then Inl (errorf ErrorForbiddenAST (''identifier '' @ go_quote v @ '' is not allowed''))
     else Inr (a\<lparr>an_requiredFacts := List.insert v (an_requiredFacts a)\<rparr>))"
| "visit (UnaryNode operator n) depth callCallee a =
     and_then (enter_node depth a) (\<lambda>a.
     if operator \<noteq> ''!'' then Inl (errorf ErrorForbiddenAST (''unary operator '' @ go_quote operator @ '' is not allowed''))
     else visit n (depth + 1) False a)"
| "visit (BinaryNode operator l r) depth callCallee a =
     and_then (enter_node depth a) (\<lambda>a.
     if \<not> allowedBinaryOperator operator
     then Inl (errorf ErrorForbiddenAST (''binary operator '' @ go_quote operator @ '' is not allowed''))
     else and_then (visit l (depth + 1) False a) (visit r (depth + 1) False))"
| "visit (ConditionalNode c e1 e2) depth callCallee a =
     and_then (enter_node depth a) (\<lambda>a.
     and_then (visit c (depth + 1) False a) (\<lambda>a.
     and_then (visit e1 (depth + 1) False a) (visit e2 (depth + 1) False)))"
| "visit (CallNode callee arguments) depth callCallee a =
     and_then (enter_node depth a) (\<lambda>a.
     case callee of
       IdentifierNode name \<Rightarrow>
         and_then (visit (IdentifierNode name) (depth + 1) True a) (\<lambda>a.
         visit_arguments arguments (depth + 1) (recordCall name arguments a))
     | _ \<Rightarrow> Inl (errorf ErrorForbiddenAST ''dynamic function calls are not allowed''))"
| "visit (OtherNode t) depth callCallee a =
     and_then (enter_node depth a) (\<lambda>a.
     Inl (errorf ErrorForbiddenAST (''AST node '' @ t @ '' is not allowed'')))"
| "visit_arguments [] depth a = Inr a"
| "visit_arguments (n # ns) depth a = and_then (visit n depth False a) (visit_arguments ns depth)"

definition sortedKeys :: "string list \<Rightarrow> string list" where
  "sortedKeys values = sort_slice (<) values"

definition analysis :: "int \<Rightarrow> astAnalyzer \<Rightarrow> RuleAnalysis" where
  "analysis version a =
     \<lparr>an_EngineVersion = version, an_RequiredFacts = sortedKeys (an_requiredFacts a),
      an_Tiers = map (\<lambda>name. \<lparr>tier_Name = name, tier_Conditions = []\<rparr>) (sortedKeys (an_tiers a)),
      an_LineCodes = sortedKeys (an_lineCodes a), an_VisualEditable = an_visualEditable a\<rparr>"

section \<open>Compilation\<close>

definition compileV1 ::
  "(string \<Rightarrow> string + ast_node) \<Rightarrow> (string \<Rightarrow> string + 'p) \<Rightarrow> string \<Rightarrow> string
    \<Rightarrow> pricing_error + 'p CompiledRule" where
  "compileV1 parse vm_compile source hash =
     and_then (parseVersion source) (\<lambda>(version, body).
     case parse body of Inl err \<Rightarrow> Inl (errorf ErrorCompileFailed err) | Inr tree \<Rightarrow>
     and_then (visit tree 1 False newASTAnalyzer) (\<lambda>analyzer.
     if an_nodes analyzer > maxASTNodes \<or> an_maxDepth analyzer > maxASTDepth
     then Inl (errorf ErrorForbiddenAST ''expression exceeds AST limits'')
     else if an_tierCalls analyzer > maxStaticTiers \<or> an_lineCalls analyzer > maxStaticLines
     then Inl (errorf ErrorForbiddenAST ''expression exceeds tier or line limits'')
     else (case vm_compile body of Inl err \<Rightarrow> Inl (errorf ErrorCompileFailed err) | Inr program \<Rightarrow>
       Inr \<lparr>rule_Source = source, rule_ExpressionHash = hash, rule_EngineVersion = version,
            rule_Analysis = analysis version analyzer, rule_body = body, rule_program = Some program\<rparr>)))"

definition compiledProgram :: "'p CompiledRule \<Rightarrow> pricing_error + 'p" where
  "compiledProgram rule =
     (case rule_program rule of
        None \<Rightarrow> Inl (errorf ErrorHashMismatch ''compiled rule is invalid'')
      | Some program \<Rightarrow>
          if rule_EngineVersion rule \<noteq> EngineVersionV1 \<or> rule_ExpressionHash rule \<noteq> ExpressionHash (rule_Source rule)
          then Inl (errorf ErrorHashMismatch ''compiled rule is invalid'')
          else Inr program)"

section \<open>The engine's cache\<close>

text \<open>
  A list element of \<open>container/list\<close> has an address (\<open>elem_addr\<close>); the list is front first. The map
  \<open>entries\<close> holds the address of the element of a key. A compilation in flight is a key of
  \<open>inflight\<close>; goroutines that find one wait for its result.
\<close>

record 'p cacheElement =
  elem_addr :: nat
  elem_key :: string
  elem_rule :: "'p CompiledRule"

record 'p Engine =
  eng_capacity :: int
  eng_entries :: "(string, nat) gmap"
  eng_lru :: "'p cacheElement list"
  eng_inflight :: "string list"
  eng_next :: nat

definition NewEngine :: "int list \<Rightarrow> 'p Engine" where
  "NewEngine capacity =
     \<lparr>eng_capacity = (case capacity of [] \<Rightarrow> defaultCacheSize | c # _ \<Rightarrow> if c > 0 then c else defaultCacheSize),
      eng_entries = [], eng_lru = [], eng_inflight = [], eng_next = 0\<rparr>"

definition cache_key :: "string \<Rightarrow> string" where
  "cache_key hash = Itoa EngineVersionV1 @ '':'' @ hash"

definition MoveToFront :: "nat \<Rightarrow> 'p cacheElement list \<Rightarrow> 'p cacheElement list" where
  "MoveToFront addr lru =
     filter (\<lambda>el. elem_addr el = addr) lru @ filter (\<lambda>el. elem_addr el \<noteq> addr) lru"

text \<open>The three ways out of the first critical section of \<open>CompileByHash\<close>.\<close>

datatype 'p begin_outcome = CacheHit "'p CompiledRule" | JoinInflight | StartCompile

definition compile_begin :: "string \<Rightarrow> 'p Engine \<Rightarrow> 'p begin_outcome \<times> 'p Engine" where
  "compile_begin key e =
     (case map_of (eng_entries e) key of
        Some addr \<Rightarrow>
          (case find (\<lambda>el. elem_addr el = addr) (eng_lru e) of
             Some el \<Rightarrow> (CacheHit (elem_rule el), e\<lparr>eng_lru := MoveToFront addr (eng_lru e)\<rparr>)
           | None \<Rightarrow> (StartCompile, e))
      | None \<Rightarrow>
          if key \<in> set (eng_inflight e) then (JoinInflight, e)
          else (StartCompile, e\<lparr>eng_inflight := key # eng_inflight e\<rparr>))"

text \<open>The eviction loop of the second critical section.\<close>

function evict :: "'p Engine \<Rightarrow> 'p Engine" where
  "evict e =
     (if int (length (eng_lru e)) > eng_capacity e \<and> eng_lru e \<noteq> [] then
        evict (e\<lparr>eng_entries := mdelete (elem_key (last (eng_lru e))) (eng_entries e),
                 eng_lru := butlast (eng_lru e)\<rparr>)
      else e)"
  by pat_completeness auto
termination
  by (relation "measure (\<lambda>e. length (eng_lru e))") auto

declare evict.simps [simp del]

definition compile_finish :: "string \<Rightarrow> pricing_error + 'p CompiledRule \<Rightarrow> 'p Engine \<Rightarrow> 'p Engine" where
  "compile_finish key result e =
     (let e = e\<lparr>eng_inflight := removeAll key (eng_inflight e)\<rparr>
      in case result of
           Inl _ \<Rightarrow> e
         | Inr rule \<Rightarrow>
             evict (e\<lparr>eng_lru := \<lparr>elem_addr = eng_next e, elem_key = key, elem_rule = rule\<rparr> # eng_lru e,
                      eng_entries := mput key (eng_next e) (eng_entries e),
                      eng_next := eng_next e + 1\<rparr>))"

text \<open>
  \<open>CompileByHash\<close> as one goroutine runs it to the end. A goroutine that joins another one's
  compilation waits and returns that one's result, the result of \<open>compileV1\<close> for the same hash:
  \<open>joined\<close>.
\<close>

definition CompileByHash ::
  "(string \<Rightarrow> string + ast_node) \<Rightarrow> (string \<Rightarrow> string + 'p) \<Rightarrow> (pricing_error + 'p CompiledRule)
    \<Rightarrow> string \<Rightarrow> string \<Rightarrow> 'p Engine \<Rightarrow> (pricing_error + 'p CompiledRule) \<times> 'p Engine" where
  "CompileByHash parse vm_compile joined source expectedHash e =
     (let actualHash = ExpressionHash source
      in if actualHash \<noteq> ToLower (TrimSpace expectedHash)
         then (Inl (errorf ErrorHashMismatch ''expression hash does not match source''), e)
         else
           (case compile_begin (cache_key actualHash) e of
              (CacheHit rule, e1) \<Rightarrow> (Inr rule, e1)
            | (JoinInflight, e1) \<Rightarrow> (joined, e1)
            | (StartCompile, e1) \<Rightarrow>
                (let result = compileV1 parse vm_compile source actualHash
                 in (result, compile_finish (cache_key actualHash) result e1))))"

definition Compile ::
  "(string \<Rightarrow> string + ast_node) \<Rightarrow> (string \<Rightarrow> string + 'p) \<Rightarrow> (pricing_error + 'p CompiledRule)
    \<Rightarrow> string \<Rightarrow> 'p Engine \<Rightarrow> (pricing_error + 'p CompiledRule) \<times> 'p Engine" where
  "Compile parse vm_compile joined source e = CompileByHash parse vm_compile joined source (ExpressionHash source) e"


section \<open>What the analysis admits\<close>

text \<open>
  The reference: the nodes, the depth, the facts and the calls of a tree, and the trees of allowed
  nodes, without limits.
\<close>

fun tree_nodes :: "ast_node \<Rightarrow> nat" where
  "tree_nodes (UnaryNode operator n) = 1 + tree_nodes n"
| "tree_nodes (BinaryNode operator l r) = 1 + tree_nodes l + tree_nodes r"
| "tree_nodes (ConditionalNode c e1 e2) = 1 + tree_nodes c + tree_nodes e1 + tree_nodes e2"
| "tree_nodes (CallNode callee arguments) = 1 + tree_nodes callee + sum_list (map tree_nodes arguments)"
| "tree_nodes n = 1"

fun tree_depth :: "ast_node \<Rightarrow> nat" where
  "tree_depth (UnaryNode operator n) = 1 + tree_depth n"
| "tree_depth (BinaryNode operator l r) = 1 + max (tree_depth l) (tree_depth r)"
| "tree_depth (ConditionalNode c e1 e2) = 1 + max (tree_depth c) (max (tree_depth e1) (tree_depth e2))"
| "tree_depth (CallNode callee arguments) = 1 + foldr max (map tree_depth arguments) (tree_depth callee)"
| "tree_depth n = 1"

fun tree_facts :: "ast_node \<Rightarrow> string set" where
  "tree_facts (IdentifierNode v) = {v}"
| "tree_facts (UnaryNode operator n) = tree_facts n"
| "tree_facts (BinaryNode operator l r) = tree_facts l \<union> tree_facts r"
| "tree_facts (ConditionalNode c e1 e2) = tree_facts c \<union> tree_facts e1 \<union> tree_facts e2"
| "tree_facts (CallNode callee arguments) = \<Union> (set (map tree_facts arguments))"
| "tree_facts n = {}"

fun tree_calls :: "ast_node \<Rightarrow> string list" where
  "tree_calls (UnaryNode operator n) = tree_calls n"
| "tree_calls (BinaryNode operator l r) = tree_calls l @ tree_calls r"
| "tree_calls (ConditionalNode c e1 e2) = tree_calls c @ tree_calls e1 @ tree_calls e2"
| "tree_calls (CallNode (IdentifierNode name) arguments) = name # concat (map tree_calls arguments)"
| "tree_calls (CallNode callee arguments) = concat (map tree_calls arguments)"
| "tree_calls n = []"

fun tree_allowed :: "ast_node \<Rightarrow> bool" where
  "tree_allowed (IntegerNode _) = True"
| "tree_allowed (BoolNode _) = True"
| "tree_allowed (StringNode v) = validShortString v"
| "tree_allowed (IdentifierNode v) = (v \<in> set factNames)"
| "tree_allowed (UnaryNode operator n) = (operator = ''!'' \<and> tree_allowed n)"
| "tree_allowed (BinaryNode operator l r) = (allowedBinaryOperator operator \<and> tree_allowed l \<and> tree_allowed r)"
| "tree_allowed (ConditionalNode c e1 e2) = (tree_allowed c \<and> tree_allowed e1 \<and> tree_allowed e2)"
| "tree_allowed (CallNode (IdentifierNode name) arguments) = (name \<in> set functionNames \<and> list_all tree_allowed arguments)"
| "tree_allowed n = False"

definition calls_of :: "(string \<Rightarrow> bool) \<Rightarrow> ast_node \<Rightarrow> nat" where
  "calls_of P n = length (filter P (tree_calls n))"

text \<open>What a visit adds to the analyzer, for one tree and for a list of arguments.\<close>

definition adds :: "astAnalyzer \<Rightarrow> astAnalyzer \<Rightarrow> nat \<Rightarrow> nat \<Rightarrow> string set \<Rightarrow> string list \<Rightarrow> bool" where
  "adds a a' n d fs cs \<longleftrightarrow> an_nodes a' = an_nodes a + n \<and> an_maxDepth a' = max (an_maxDepth a) d
     \<and> set (an_requiredFacts a') = set (an_requiredFacts a) \<union> fs
     \<and> (distinct (an_requiredFacts a) \<longrightarrow> distinct (an_requiredFacts a'))
     \<and> an_tierCalls a' = an_tierCalls a + length (filter ((=) ''tier'') cs)
     \<and> an_lineCalls a' = an_lineCalls a + length (filter is_line_function cs)"

definition fits :: "astAnalyzer \<Rightarrow> nat \<Rightarrow> nat \<Rightarrow> bool" where
  "fits a n d \<longleftrightarrow> an_nodes a + n \<le> maxASTNodes \<and> d \<le> maxASTDepth"

lemma tree_depth_pos [simp]: "0 < tree_depth n" "tree_depth n \<noteq> 0"
  by (cases n; simp)+

lemma enter_node_iff:
  "enter_node depth a = Inr a' \<longleftrightarrow> fits a 1 depth
     \<and> a' = a\<lparr>an_nodes := an_nodes a + 1, an_maxDepth := max (an_maxDepth a) depth\<rparr>"
  by (auto simp: enter_node_def fits_def Let_def max_def)

text \<open>
  The outcome of a visit that admits trees with \<open>P\<close>: it succeeds exactly when \<open>P\<close> holds and the nodes and
  the depth fit, and then adds what it should. Outcomes compose along the visits of a node.
\<close>

definition visited ::
  "bool \<Rightarrow> nat \<Rightarrow> nat \<Rightarrow> string set \<Rightarrow> string list \<Rightarrow> astAnalyzer \<Rightarrow> pricing_error + astAnalyzer \<Rightarrow> bool" where
  "visited P n d fs cs a r \<longleftrightarrow> (an_nodes a \<le> maxASTNodes \<longrightarrow>
     (case r of Inr a' \<Rightarrow> P \<and> fits a n d \<and> adds a a' n d fs cs | Inl _ \<Rightarrow> \<not> (P \<and> fits a n d)))"

lemma visited_and_then:
  assumes "visited P n d fs cs a r" "\<And>a'. visited Q n' d' fs' cs' a' (f a')"
  shows "visited (P \<and> Q) (n + n') (max d d') (fs \<union> fs') (cs @ cs') a (and_then r f)"
proof (cases r)
  case (Inl e)
  then show ?thesis using assms(1) by (auto simp: visited_def fits_def)
next
  case (Inr a')
  then show ?thesis using assms(1) assms(2) [of a']
    by (cases "f a'") (auto simp: visited_def fits_def adds_def max.assoc)
qed

lemma visited_enter: "visited True 1 d {} [] a (enter_node d a)"
  by (cases "enter_node d a") (auto simp: visited_def enter_node_iff adds_def, auto simp: adds_def enter_node_def fits_def Let_def split: if_splits)

lemma visited_if: "visited P n d fs cs a r \<Longrightarrow> visited (c \<and> P) n d fs cs a (if \<not> c then Inl e else r)"
  by (cases r) (auto simp: visited_def)

lemma visited_done: "visited True 0 0 {} [] a (Inr a)"
  by (simp add: visited_def adds_def fits_def) 

lemma visited_recordCall:
  assumes "visited P n d fs cs (recordCall name arguments a) r"
  shows "visited P n d fs (name # cs) a r"
proof -
  have "adds a (recordCall name arguments a) 0 0 {} [name]" by (auto simp: adds_def recordCall_def Let_def)
  with assms show ?thesis by (cases r) (auto simp: visited_def fits_def adds_def)
qed

definition arguments_depth :: "nat \<Rightarrow> ast_node list \<Rightarrow> nat" where
  "arguments_depth d ns = foldr max (map (\<lambda>n. d + tree_depth n) ns) 0"

lemma arguments_depth_max: "max (d + k) (arguments_depth d ns) = d + foldr max (map tree_depth ns) k"
proof (induction ns)
  case (Cons n ns)
  then show ?case by (simp add: arguments_depth_def max.left_commute [of "d + k"] nat_add_max_right)
qed (simp add: arguments_depth_def)

definition visits_ok :: "ast_node \<Rightarrow> bool" where
  "visits_ok n \<longleftrightarrow> (\<forall>d a. visited (tree_allowed n) (tree_nodes n) (d + tree_depth n) (tree_facts n) (tree_calls n) a
     (visit n (Suc d) False a))"

lemma visit_arguments_visited:
  "\<forall>n \<in> set ns. visits_ok n \<Longrightarrow>
   visited (list_all tree_allowed ns) (sum_list (map tree_nodes ns)) (arguments_depth d ns)
     (\<Union> (set (map tree_facts ns))) (concat (map tree_calls ns)) a (visit_arguments ns (Suc d) a)"
proof (induction ns arbitrary: a)
  case Nil
  show ?case using visited_done by (simp add: arguments_depth_def)
next
  case (Cons n ns)
  have "visited (tree_allowed n) (tree_nodes n) (d + tree_depth n) (tree_facts n) (tree_calls n) a (visit n (Suc d) False a)"
    using Cons.prems by (simp add: visits_ok_def)
  from visited_and_then [OF this Cons.IH] Cons.prems show ?case by (simp add: arguments_depth_def)
qed

lemma visited_cong:
  "visited P n d fs cs a r \<Longrightarrow> P = P' \<Longrightarrow> n = n' \<Longrightarrow> d = d' \<Longrightarrow> fs = fs' \<Longrightarrow> cs = cs' \<Longrightarrow> visited P' n' d' fs' cs' a r"
  by simp

lemma visits_call:
  assumes "\<forall>n \<in> set arguments. visits_ok n"
  shows "visits_ok (CallNode (IdentifierNode name) arguments)"
proof -
  have "visited (name \<in> set functionNames) 1 (Suc (Suc d)) {} [] a (visit (IdentifierNode name) (Suc (Suc d)) True a)" for d a
  proof -
    have "visited (True \<and> name \<in> set functionNames \<and> True) (1 + 0) (max (Suc (Suc d)) 0) ({} \<union> {}) ([] @ []) a
        (and_then (enter_node (Suc (Suc d)) a) (\<lambda>a. if \<not> name \<in> set functionNames
           then Inl (errorf ErrorForbiddenAST (''function '' @ go_quote name @ '' is not allowed'')) else Inr a))"
      by (intro visited_and_then visited_enter visited_if visited_done)
    then show ?thesis by simp
  qed
  note callee = this
  have "visited (name \<in> set functionNames \<and> list_all tree_allowed arguments) (1 + sum_list (map tree_nodes arguments))
      (max (Suc (Suc d)) (arguments_depth (Suc d) arguments)) (\<Union> (set (map tree_facts arguments)))
      (name # concat (map tree_calls arguments)) a
      (and_then (visit (IdentifierNode name) (Suc (Suc d)) True a)
        (\<lambda>a. visit_arguments arguments (Suc (Suc d)) (recordCall name arguments a)))" for d a
    using visited_and_then [OF callee visited_recordCall [OF visit_arguments_visited [OF assms, of "Suc d"]]] by simp
  note body = this
  show ?thesis unfolding visits_ok_def
  proof (intro allI)
    fix d a
    have depth: "max (Suc d) (max (Suc (Suc d)) (arguments_depth (Suc d) arguments))
        = d + tree_depth (CallNode (IdentifierNode name) arguments)"
      using arguments_depth_max [of "Suc d" 1 arguments] by simp
    show "visited (tree_allowed (CallNode (IdentifierNode name) arguments)) (tree_nodes (CallNode (IdentifierNode name) arguments))
        (d + tree_depth (CallNode (IdentifierNode name) arguments)) (tree_facts (CallNode (IdentifierNode name) arguments))
        (tree_calls (CallNode (IdentifierNode name) arguments)) a (visit (CallNode (IdentifierNode name) arguments) (Suc d) False a)"
      unfolding visit.simps(9) ast_node.case Suc_eq_plus1 [symmetric]
      by (rule visited_cong [OF visited_and_then [OF visited_enter body]]) (simp_all add: depth)
  qed
qed

lemma visits_okD:
  "visits_ok n \<Longrightarrow> visited (tree_allowed n) (tree_nodes n) (Suc d + tree_depth n) (tree_facts n) (tree_calls n) a
     (visit n (Suc d + 1) False a)"
  unfolding visits_ok_def by (drule spec [of _ "Suc d"]) simp

lemma visits_refused:
  "\<not> tree_allowed n \<Longrightarrow> (\<And>d a. \<exists>e. visit n d False a = Inl e) \<Longrightarrow> visits_ok n"
  unfolding visits_ok_def visited_def by (metis (no_types, lifting) old.sum.simps(5))

lemma visits: "visits_ok n"
proof (induction n)
  case NilNode
  show ?case by (simp add: visits_ok_def visited_def)
next
  case (StringNode v)
  have "visited (True \<and> validShortString v \<and> True) (1 + 0) (max (Suc d) 0) ({} \<union> {}) ([] @ []) a
      (and_then (enter_node (Suc d) a) (\<lambda>a. if \<not> validShortString v
         then Inl (errorf ErrorForbiddenAST ''string literal is invalid or too long'') else Inr a))" for d a
    by (intro visited_and_then visited_enter visited_if visited_done)
  then show ?case by (simp add: visits_ok_def)
next
  case (IdentifierNode v)
  have add: "visited True 0 0 {v} [] a (Inr (a\<lparr>an_requiredFacts := List.insert v (an_requiredFacts a)\<rparr>))" for a
    by (auto simp: visited_def fits_def adds_def)
  have "visited (True \<and> v \<in> set factNames \<and> True) (1 + 0) (max (Suc d) 0) ({} \<union> {v}) ([] @ []) a
      (and_then (enter_node (Suc d) a) (\<lambda>a. if v \<notin> set factNames
         then Inl (errorf ErrorForbiddenAST (''identifier '' @ go_quote v @ '' is not allowed''))
         else Inr (a\<lparr>an_requiredFacts := List.insert v (an_requiredFacts a)\<rparr>)))" for d a
    by (intro visited_and_then visited_enter visited_if add)
  then show ?case by (simp add: visits_ok_def)
next
  case (UnaryNode operator n)
  show ?case unfolding visits_ok_def visit.simps
    by (intro allI, rule visited_cong, rule visited_and_then [OF visited_enter visited_if [OF visits_okD [OF UnaryNode]]]) simp_all
next
  case (BinaryNode operator l r)
  note sub = visited_and_then [OF visits_okD [OF BinaryNode(1)] visits_okD [OF BinaryNode(2)]]
  show ?case unfolding visits_ok_def visit.simps
    by (intro allI, rule visited_cong, rule visited_and_then [OF visited_enter visited_if [OF sub]]) auto
next
  case (ConditionalNode c e1 e2)
  note sub = visited_and_then [OF visits_okD [OF ConditionalNode(1)]
      visited_and_then [OF visits_okD [OF ConditionalNode(2)] visits_okD [OF ConditionalNode(3)]]]
  show ?case unfolding visits_ok_def visit.simps
    by (intro allI, rule visited_cong, rule visited_and_then [OF visited_enter sub]) (auto simp: ac_simps)
next
  case (CallNode callee arguments)
  show ?case
  proof (cases "\<exists>name. callee = IdentifierNode name")
    case True
    then show ?thesis using visits_call CallNode by blast
  next
    case False
    show ?thesis
    proof (rule visits_refused)
      show "\<not> tree_allowed (CallNode callee arguments)" using False by (cases callee) simp_all
      show "\<exists>e. visit (CallNode callee arguments) d False a = Inl e" for d a
        using False by (cases callee; cases "enter_node d a"; simp)
    qed
  qed
next
  case (OtherNode t)
  show ?case
  proof (rule visits_refused)
    show "\<exists>e. visit (OtherNode t) d False a = Inl e" for d a by (cases "enter_node d a") simp_all
  qed simp
qed (use visited_enter in \<open>simp_all add: visits_ok_def\<close>)

lemma visit_new_iff:
  "(\<exists>a. visit tree 1 False newASTAnalyzer = Inr a)
    \<longleftrightarrow> tree_allowed tree \<and> tree_nodes tree \<le> maxASTNodes \<and> tree_depth tree \<le> maxASTDepth"
proof -
  have "visited (tree_allowed tree) (tree_nodes tree) (0 + tree_depth tree) (tree_facts tree) (tree_calls tree) newASTAnalyzer
      (visit tree 1 False newASTAnalyzer)"
    using visits [of tree] unfolding visits_ok_def by (metis One_nat_def)
  then show ?thesis by (cases "visit tree 1 False newASTAnalyzer") (auto simp: visited_def fits_def newASTAnalyzer_def)
qed

lemma visit_new_adds:
  assumes "visit tree 1 False newASTAnalyzer = Inr a"
  shows "an_nodes a = tree_nodes tree \<and> an_maxDepth a = tree_depth tree \<and> set (an_requiredFacts a) = tree_facts tree
    \<and> distinct (an_requiredFacts a)
    \<and> an_tierCalls a = calls_of ((=) ''tier'') tree \<and> an_lineCalls a = calls_of is_line_function tree"
proof -
  have "visited (tree_allowed tree) (tree_nodes tree) (0 + tree_depth tree) (tree_facts tree) (tree_calls tree) newASTAnalyzer (Inr a)"
    using visits [of tree] assms unfolding visits_ok_def by (metis One_nat_def)
  then show ?thesis by (simp add: visited_def adds_def newASTAnalyzer_def calls_of_def)
qed

lemma ok_iff: "ok r \<longleftrightarrow> (\<exists>x. r = Inr x)"
  by (cases r) simp_all

interpretation strings: comparison "(<) :: string \<Rightarrow> string \<Rightarrow> bool"
  by unfold_locales (metis order.asym, metis le_less_trans not_less)

lemma sortedKeys_simps [simp]:
  "sorted (sortedKeys xs)" "set (sortedKeys xs) = set xs" "distinct (sortedKeys xs) \<longleftrightarrow> distinct xs"
proof -
  show "sorted (sortedKeys xs)" using strings.sort_sorted [of xs] by (simp add: sortedKeys_def not_less)
  show "set (sortedKeys xs) = set xs" by (simp add: sortedKeys_def)
  show "distinct (sortedKeys xs) \<longleftrightarrow> distinct xs" unfolding sortedKeys_def by (rule mset_eq_imp_distinct_iff) simp
qed

lemma parseVersion_Inr:
  "parseVersion source = Inr (v, body) \<longleftrightarrow> TrimSpace source \<noteq> [] \<and> length source \<le> maxExpressionBytes
     \<and> HasPrefix source ''v1:'' \<and> v = EngineVersionV1 \<and> body = TrimSpace (TrimPrefix source ''v1:'') \<and> body \<noteq> []"
  by (auto simp: parseVersion_def Let_def)

lemma compileV1_Inr:
  "compileV1 parse vm_compile source hash = Inr rule \<longleftrightarrow>
     (\<exists>body tree a p. parseVersion source = Inr (EngineVersionV1, body) \<and> parse body = Inr tree
       \<and> visit tree 1 False newASTAnalyzer = Inr a
       \<and> an_nodes a \<le> maxASTNodes \<and> an_maxDepth a \<le> maxASTDepth \<and> an_tierCalls a \<le> maxStaticTiers \<and> an_lineCalls a \<le> maxStaticLines
       \<and> vm_compile body = Inr p
       \<and> rule = \<lparr>rule_Source = source, rule_ExpressionHash = hash, rule_EngineVersion = EngineVersionV1,
            rule_Analysis = analysis EngineVersionV1 a, rule_body = body, rule_program = Some p\<rparr>)"
proof (cases "parseVersion source")
  case (Inl e)
  then show ?thesis by (simp add: compileV1_def)
next
  case (Inr vb)
  then obtain body where v: "parseVersion source = Inr (EngineVersionV1, body)" by (cases vb) (auto simp: parseVersion_Inr)
  show ?thesis
  proof (cases "parse body")
    case (Inl e)
    then show ?thesis by (simp add: compileV1_def v)
  next
    case tree: (Inr tree)
    show ?thesis
      by (cases "visit tree 1 False newASTAnalyzer"; cases "vm_compile body")
        (auto simp: compileV1_def v tree not_less simp del: One_nat_def)
  qed
qed

lemma compileV1_ok:
  "ok (compileV1 parse vm_compile source hash) \<longleftrightarrow>
      TrimSpace source \<noteq> [] \<and> length source \<le> 8192 \<and> HasPrefix source ''v1:''
      \<and> TrimSpace (TrimPrefix source ''v1:'') \<noteq> []
      \<and> (\<exists>tree. parse (TrimSpace (TrimPrefix source ''v1:'')) = Inr tree \<and> tree_allowed tree \<and> tree_nodes tree \<le> 256
           \<and> tree_depth tree \<le> 32 \<and> calls_of ((=) ''tier'') tree \<le> 16 \<and> calls_of is_line_function tree \<le> 32)
      \<and> ok (vm_compile (TrimSpace (TrimPrefix source ''v1:'')))" (is "?L = ?R")
proof
  let ?body = "TrimSpace (TrimPrefix source ''v1:'')"
  assume ?L
  then obtain rule where "compileV1 parse vm_compile source hash = Inr rule" by (auto simp: ok_iff)
  then obtain tree a p where t: "parseVersion source = Inr (EngineVersionV1, ?body)" "parse ?body = Inr tree"
    "visit tree 1 False newASTAnalyzer = Inr a" "an_tierCalls a \<le> maxStaticTiers" "an_lineCalls a \<le> maxStaticLines"
    "vm_compile ?body = Inr p"
    by (auto simp: compileV1_Inr parseVersion_Inr)
  with visit_new_iff [of tree] visit_new_adds [OF t(3)] show ?R
    by (auto simp: ok_iff parseVersion_Inr ast_limits maxExpressionBytes_def)
next
  let ?body = "TrimSpace (TrimPrefix source ''v1:'')"
  assume r: ?R
  then obtain tree p where t: "parse ?body = Inr tree" "tree_allowed tree" "tree_nodes tree \<le> 256" "tree_depth tree \<le> 32"
    "calls_of ((=) ''tier'') tree \<le> 16" "calls_of is_line_function tree \<le> 32" "vm_compile ?body = Inr p" by (auto simp: ok_iff)
  then obtain a where a: "visit tree 1 False newASTAnalyzer = Inr a" using visit_new_iff [of tree] by (auto simp: ast_limits)
  have "parseVersion source = Inr (EngineVersionV1, ?body)" using r by (simp add: parseVersion_Inr maxExpressionBytes_def)
  with t a visit_new_adds [OF a] show ?L unfolding ok_iff compileV1_Inr by (auto simp: ast_limits)
qed

text \<open>
  C9. \<open>compileV1\<close> admits exactly the expressions it should: it succeeds if and only if the source has
  the version prefix, a body and at most 8192 bytes, the body parses to a tree of allowed nodes,
  functions and facts with at most 256 nodes, depth 32, 16 tiers and 32 lines, and the VM
  compiles it. The rule then requires exactly the facts that occur in the tree, sorted and
  without repetition, and \<open>compiledProgram\<close> accepts the rule under its own hash.
\<close>

theorem compileV1_admits:
  "(ok (compileV1 parse vm_compile source hash) \<longleftrightarrow>
      TrimSpace source \<noteq> [] \<and> length source \<le> 8192 \<and> HasPrefix source ''v1:''
      \<and> TrimSpace (TrimPrefix source ''v1:'') \<noteq> []
      \<and> (\<exists>tree. parse (TrimSpace (TrimPrefix source ''v1:'')) = Inr tree \<and> tree_allowed tree \<and> tree_nodes tree \<le> 256
           \<and> tree_depth tree \<le> 32 \<and> calls_of ((=) ''tier'') tree \<le> 16 \<and> calls_of is_line_function tree \<le> 32)
      \<and> ok (vm_compile (TrimSpace (TrimPrefix source ''v1:''))))
   \<and> (\<forall>rule. compileV1 parse vm_compile source hash = Inr rule \<longrightarrow>
      (\<exists>tree p. parse (TrimSpace (TrimPrefix source ''v1:'')) = Inr tree
        \<and> vm_compile (TrimSpace (TrimPrefix source ''v1:'')) = Inr p
        \<and> set (an_RequiredFacts (rule_Analysis rule)) = tree_facts tree
        \<and> sorted (an_RequiredFacts (rule_Analysis rule)) \<and> distinct (an_RequiredFacts (rule_Analysis rule))
        \<and> rule_Source rule = source
        \<and> (hash = ExpressionHash source \<longrightarrow> compiledProgram rule = Inr p)))"
proof (intro conjI allI impI)
  let ?body = "TrimSpace (TrimPrefix source ''v1:'')"
  show "ok (compileV1 parse vm_compile source hash) \<longleftrightarrow>
      TrimSpace source \<noteq> [] \<and> length source \<le> 8192 \<and> HasPrefix source ''v1:'' \<and> ?body \<noteq> []
      \<and> (\<exists>tree. parse ?body = Inr tree \<and> tree_allowed tree \<and> tree_nodes tree \<le> 256
           \<and> tree_depth tree \<le> 32 \<and> calls_of ((=) ''tier'') tree \<le> 16 \<and> calls_of is_line_function tree \<le> 32)
      \<and> ok (vm_compile ?body)"
    by (rule compileV1_ok)
next
  fix rule
  let ?body = "TrimSpace (TrimPrefix source ''v1:'')"
  assume "compileV1 parse vm_compile source hash = Inr rule"
  then obtain tree a p where t: "parse ?body = Inr tree" "visit tree 1 False newASTAnalyzer = Inr a" "vm_compile ?body = Inr p"
    and rule: "rule = \<lparr>rule_Source = source, rule_ExpressionHash = hash, rule_EngineVersion = EngineVersionV1,
            rule_Analysis = analysis EngineVersionV1 a, rule_body = ?body, rule_program = Some p\<rparr>"
    by (auto simp: compileV1_Inr parseVersion_Inr)
  have "compiledProgram rule = Inr p" if "hash = ExpressionHash source" using that by (simp add: rule compiledProgram_def)
  then show "\<exists>tree p. parse ?body = Inr tree \<and> vm_compile ?body = Inr p \<and> set (an_RequiredFacts (rule_Analysis rule)) = tree_facts tree
        \<and> sorted (an_RequiredFacts (rule_Analysis rule)) \<and> distinct (an_RequiredFacts (rule_Analysis rule))
        \<and> rule_Source rule = source \<and> (hash = ExpressionHash source \<longrightarrow> compiledProgram rule = Inr p)"
    using t visit_new_adds [OF t(2)] by (intro exI [of _ tree] exI [of _ p]) (simp add: rule analysis_def)
qed

definition demo_parse :: "string \<Rightarrow> string + ast_node" where
  "demo_parse body = Inr (CallNode (IdentifierNode ''token_line'') [StringNode ''input'', IdentifierNode ''output_tokens'', IntegerNode 3])"

theorem compileV1_admits_witness:
  "ok (compileV1 demo_parse (\<lambda>body. Inr ()) ''v1: x'' []) \<and> (\<exists>rule. compileV1 demo_parse (\<lambda>body. Inr ()) ''v1: x'' [] = Inr rule
    \<and> set (an_RequiredFacts (rule_Analysis rule)) = {''output_tokens''})"
proof -
  have trim: "TrimSpace ''v1: x'' = ''v1: x''" "TrimPrefix ''v1: x'' ''v1:'' = '' x''" "TrimSpace '' x'' = ''x''" "HasPrefix ''v1: x'' ''v1:''"
    by code_simp+
  have short: "validShortString ''input''" by code_simp
  have okr: "ok (compileV1 demo_parse (\<lambda>body. Inr ()) ''v1: x'' [])"
    unfolding compileV1_admits [THEN conjunct1]
    by (simp add: trim short demo_parse_def functionNames_def factNames_def calls_of_def is_line_function_def HasSuffix_def)
  then obtain rule where "compileV1 demo_parse (\<lambda>body. Inr ()) ''v1: x'' [] = Inr rule" by (auto simp: ok_iff)
  with okr compileV1_admits [of demo_parse "\<lambda>body. Inr ()" "''v1: x''" "[]"] show ?thesis
    by (auto simp: trim demo_parse_def)
qed

section \<open>The cache under interleaved compilations\<close>

abbreviation source_key :: "string \<Rightarrow> string" where
  "source_key source \<equiv> cache_key (ExpressionHash source)"

text \<open>
  The two critical sections of \<open>CompileByHash\<close>, of any number of goroutines in any order: \<open>run\<close> holds the
  sources whose compilation has begun and not finished.
\<close>

inductive engine_step ::
  "(string \<Rightarrow> string + ast_node) \<Rightarrow> (string \<Rightarrow> string + 'p) \<Rightarrow> 'p Engine \<times> string list \<Rightarrow> 'p Engine \<times> string list \<Rightarrow> bool"
  for parse vm_compile where
  begin_start: "compile_begin (source_key source) e = (StartCompile, e') \<Longrightarrow>
     engine_step parse vm_compile (e, run) (e', source # run)"
| begin_hit: "compile_begin (source_key source) e = (CacheHit rule, e') \<Longrightarrow>
     engine_step parse vm_compile (e, run) (e', run)"
| begin_join: "compile_begin (source_key source) e = (JoinInflight, e') \<Longrightarrow>
     engine_step parse vm_compile (e, run) (e', run)"
| finish: "source \<in> set run \<Longrightarrow>
     engine_step parse vm_compile (e, run)
       (compile_finish (source_key source) (compileV1 parse vm_compile source (ExpressionHash source)) e, remove1 source run)"

inductive engine_reachable ::
  "(string \<Rightarrow> string + ast_node) \<Rightarrow> (string \<Rightarrow> string + 'p) \<Rightarrow> 'p Engine \<times> string list \<Rightarrow> bool"
  for parse vm_compile where
  new: "engine_reachable parse vm_compile (NewEngine capacity, [])"
| step: "engine_reachable parse vm_compile s \<Longrightarrow> engine_step parse vm_compile s s' \<Longrightarrow> engine_reachable parse vm_compile s'"

inductive_cases engine_stepE: "engine_step parse vm_compile (e, run) s'"

definition lru_ok :: "'p Engine \<Rightarrow> bool" where
  "lru_ok e \<longleftrightarrow> distinct (map elem_addr (eng_lru e)) \<and> distinct (map elem_key (eng_lru e))
     \<and> (\<forall>k a. map_of (eng_entries e) k = Some a \<longleftrightarrow> (\<exists>el \<in> set (eng_lru e). elem_key el = k \<and> elem_addr el = a))
     \<and> (\<forall>el \<in> set (eng_lru e). elem_addr el < eng_next e)"

text \<open>A cached rule is what \<open>compileV1\<close> gives for a source with the hash it is stored under.\<close>

definition compiled_from :: "(string \<Rightarrow> string + ast_node) \<Rightarrow> (string \<Rightarrow> string + 'p) \<Rightarrow> 'p cacheElement \<Rightarrow> bool" where
  "compiled_from parse vm_compile el \<longleftrightarrow> (\<exists>source. elem_key el = source_key source
     \<and> compileV1 parse vm_compile source (ExpressionHash source) = Inr (elem_rule el))"

definition engine_ok ::
  "(string \<Rightarrow> string + ast_node) \<Rightarrow> (string \<Rightarrow> string + 'p) \<Rightarrow> 'p Engine \<times> string list \<Rightarrow> bool" where
  "engine_ok parse vm_compile s = (case s of (e, run) \<Rightarrow>
     lru_ok e \<and> 0 < eng_capacity e \<and> int (length (eng_lru e)) \<le> eng_capacity e
     \<and> mset (eng_inflight e) = mset (map source_key run) \<and> distinct (eng_inflight e)
     \<and> (\<forall>el \<in> set (eng_lru e). elem_key el \<notin> set (eng_inflight e))
     \<and> (\<forall>el \<in> set (eng_lru e). compiled_from parse vm_compile el))"

lemma cache_key_inject [simp]: "cache_key h = cache_key h' \<longleftrightarrow> h = h'"
  by (simp add: cache_key_def)

lemma map_of_entries_None: "lru_ok e \<Longrightarrow> map_of (eng_entries e) k = None \<longleftrightarrow> k \<notin> elem_key ` set (eng_lru e)"
  unfolding lru_ok_def by (metis (no_types, lifting) image_iff not_None_eq)

lemma find_addr:
  assumes "distinct (map elem_addr lru)" "el \<in> set lru"
  shows "find (\<lambda>x. elem_addr x = elem_addr el) lru = Some el"
  using assms by (induction lru) auto

lemma compile_begin_cases:
  assumes "lru_ok e"
  shows "(\<exists>el \<in> set (eng_lru e). elem_key el = key
      \<and> compile_begin key e = (CacheHit (elem_rule el), e\<lparr>eng_lru := MoveToFront (elem_addr el) (eng_lru e)\<rparr>))
    \<or> (key \<notin> elem_key ` set (eng_lru e) \<and> key \<in> set (eng_inflight e) \<and> compile_begin key e = (JoinInflight, e))
    \<or> (key \<notin> elem_key ` set (eng_lru e) \<and> key \<notin> set (eng_inflight e)
        \<and> compile_begin key e = (StartCompile, e\<lparr>eng_inflight := key # eng_inflight e\<rparr>))"
proof (cases "map_of (eng_entries e) key")
  case None
  then have "key \<notin> elem_key ` set (eng_lru e)" using map_of_entries_None [OF assms] by blast
  with None show ?thesis by (simp add: compile_begin_def)
next
  case (Some addr)
  then obtain el where el: "el \<in> set (eng_lru e)" "elem_key el = key" "elem_addr el = addr"
    using assms unfolding lru_ok_def by metis
  moreover have "find (\<lambda>x. elem_addr x = addr) (eng_lru e) = Some el"
    using assms el find_addr unfolding lru_ok_def by metis
  ultimately show ?thesis using Some by (auto simp: compile_begin_def)
qed

lemma MoveToFront_mset [simp]: "mset (MoveToFront addr lru) = mset lru"
  by (simp add: MoveToFront_def)

lemma MoveToFront_set [simp]: "set (MoveToFront addr lru) = set lru"
  by (auto simp: MoveToFront_def)

lemma MoveToFront_length [simp]: "length (MoveToFront addr lru) = length lru"
  using MoveToFront_mset [of addr lru] by (metis size_mset)

lemma distinct_map_mset: "mset xs = mset ys \<Longrightarrow> distinct (map f xs) \<longleftrightarrow> distinct (map f ys)"
  by (rule mset_eq_imp_distinct_iff) simp

lemma lru_ok_hit: "lru_ok e \<Longrightarrow> lru_ok (e\<lparr>eng_lru := MoveToFront addr (eng_lru e)\<rparr>)"
  using distinct_map_mset [OF MoveToFront_mset, of elem_addr addr "eng_lru e"]
    distinct_map_mset [OF MoveToFront_mset, of elem_key addr "eng_lru e"]
  by (simp add: lru_ok_def)

lemma evict_lru: "0 < eng_capacity e \<Longrightarrow> eng_lru (evict e) = take (nat (eng_capacity e)) (eng_lru e)"
proof (induction e rule: evict.induct)
  case (1 e)
  then show ?case
    by (subst evict.simps) (auto simp: take_butlast not_less)
qed

lemma evict_frame [simp]:
  "eng_capacity (evict e) = eng_capacity e" "eng_inflight (evict e) = eng_inflight e" "eng_next (evict e) = eng_next e"
  by (induction e rule: evict.induct; subst evict.simps; simp)+

lemma compile_finish_capacity [simp]: "eng_capacity (compile_finish key result e) = eng_capacity e"
  by (cases result) (simp_all add: compile_finish_def Let_def)

lemma lru_ok_drop:
  assumes "lru_ok e" "eng_lru e = xs @ [el]"
  shows "lru_ok (e\<lparr>eng_entries := mdelete (elem_key el) (eng_entries e), eng_lru := xs\<rparr>)"
  using assms unfolding lru_ok_def by (auto simp: map_of_mdelete image_iff)

lemma lru_ok_evict: "lru_ok e \<Longrightarrow> lru_ok (evict e)"
proof (induction e rule: evict.induct)
  case (1 e)
  show ?case
  proof (cases "int (length (eng_lru e)) > eng_capacity e \<and> eng_lru e \<noteq> []")
    case True
    have "lru_ok (e\<lparr>eng_entries := mdelete (elem_key (last (eng_lru e))) (eng_entries e), eng_lru := butlast (eng_lru e)\<rparr>)"
      using lru_ok_drop [OF "1.prems"] True by simp
    with 1 True show ?thesis by (subst evict.simps) simp
  next
    case False
    with 1 show ?thesis by (subst evict.simps) auto
  qed
qed

lemma lru_ok_push:
  assumes "lru_ok e" "key \<notin> elem_key ` set (eng_lru e)"
  shows "lru_ok (e\<lparr>eng_inflight := fl, eng_lru := \<lparr>elem_addr = eng_next e, elem_key = key, elem_rule = rule\<rparr> # eng_lru e,
      eng_entries := mput key (eng_next e) (eng_entries e), eng_next := eng_next e + 1\<rparr>)"
  using assms unfolding lru_ok_def by (auto simp: less_Suc_eq)

lemma engine_ok_begin:
  assumes "engine_ok parse vm_compile (e, run)" "compile_begin (source_key source) e = (out, e')"
  shows "engine_ok parse vm_compile (e', if out = StartCompile then source # run else run)"
proof -
  have "lru_ok e" using assms(1) by (simp add: engine_ok_def)
  from compile_begin_cases [OF this, of "source_key source"] assms show ?thesis
  proof (elim disjE bexE conjE)
    fix el
    assume "el \<in> set (eng_lru e)"
      "compile_begin (source_key source) e = (CacheHit (elem_rule el), e\<lparr>eng_lru := MoveToFront (elem_addr el) (eng_lru e)\<rparr>)"
    then show ?thesis using assms lru_ok_hit [of e "elem_addr el"] by (auto simp: engine_ok_def)
  qed (auto simp: engine_ok_def lru_ok_def image_iff; metis)+
qed

lemma engine_ok_finish:
  assumes "engine_ok parse vm_compile (e, run)" "source \<in> set run"
  shows "engine_ok parse vm_compile
    (compile_finish (source_key source) (compileV1 parse vm_compile source (ExpressionHash source)) e, remove1 source run)"
proof -
  let ?k = "source_key source"
  have e: "lru_ok e" "0 < eng_capacity e" "int (length (eng_lru e)) \<le> eng_capacity e"
    "mset (eng_inflight e) = mset (map source_key run)" "distinct (eng_inflight e)"
    "\<forall>el \<in> set (eng_lru e). elem_key el \<notin> set (eng_inflight e)"
    and rules: "\<forall>el \<in> set (eng_lru e). compiled_from parse vm_compile el"
    using assms(1) by (simp_all add: engine_ok_def)
  have k: "?k \<in> set (eng_inflight e)" using e(4) assms(2) by (metis image_eqI list.set_map set_mset_mset)
  then have fresh: "?k \<notin> elem_key ` set (eng_lru e)" using e(6) by (metis (no_types) image_iff)
  have fld: "distinct (removeAll ?k (eng_inflight e))" using e(5) by (simp add: distinct_removeAll)
  have fl: "mset (removeAll ?k (eng_inflight e)) = mset (map source_key (remove1 source run))"
  proof -
    have "image_mset source_key (mset run) - {#?k#} = image_mset source_key (mset run - {#source#})"
      using assms(2) by (subst image_mset_Diff) (simp_all add: mset_subset_eq_single)
    then show ?thesis using e(4,5) by (simp add: distinct_remove1_removeAll [symmetric])
  qed
  show ?thesis
  proof (cases "compileV1 parse vm_compile source (ExpressionHash source)")
    case (Inl err)
    then show ?thesis using e rules fl fld by (auto simp: engine_ok_def compile_finish_def lru_ok_def)
  next
    case (Inr rule)
    define e1 where "e1 = e\<lparr>eng_inflight := removeAll ?k (eng_inflight e),
      eng_lru := \<lparr>elem_addr = eng_next e, elem_key = ?k, elem_rule = rule\<rparr> # eng_lru e,
      eng_entries := mput ?k (eng_next e) (eng_entries e), eng_next := eng_next e + 1\<rparr>"
    have fin: "compile_finish ?k (Inr rule) e = evict e1" by (simp add: compile_finish_def e1_def)
    have "lru_ok (evict e1)" unfolding e1_def by (intro lru_ok_evict lru_ok_push e(1) fresh)
    moreover have lru: "eng_lru (evict e1) = take (nat (eng_capacity e)) (eng_lru e1)" using evict_lru [of e1] e(2) by (simp add: e1_def)
    moreover have "set (eng_lru (evict e1)) \<subseteq> set (eng_lru e1)" unfolding lru by (rule set_take_subset)
    moreover have "compiled_from parse vm_compile \<lparr>elem_addr = eng_next e, elem_key = ?k, elem_rule = rule\<rparr>"
      unfolding compiled_from_def using Inr by (intro exI [of _ source]) simp
    ultimately show ?thesis using Inr e(2,3,6) fl fld rules fin
      by (fastforce simp: engine_ok_def e1_def)
  qed
qed

lemma engine_reachable_ok: "engine_reachable parse vm_compile s \<Longrightarrow> engine_ok parse vm_compile s"
proof (induction rule: engine_reachable.induct)
  case (new capacity)
  show ?case by (auto simp: engine_ok_def lru_ok_def NewEngine_def defaultCacheSize_def split: list.split)
next
  case (step s s')
  then show ?case
    by (cases s) (auto elim!: engine_stepE intro: engine_ok_finish dest: engine_ok_begin)
qed

lemma engine_ok_inflight:
  assumes "engine_ok parse vm_compile (e, run)"
  shows "set (eng_inflight e) = source_key ` set run \<and> distinct (map source_key run)"
proof -
  have m: "mset (eng_inflight e) = mset (map source_key run)" and d: "distinct (eng_inflight e)"
    using assms by (simp_all add: engine_ok_def)
  show ?thesis using mset_eq_setD [OF m] mset_eq_imp_distinct_iff [OF m] d by simp
qed

text \<open>
  C10. The cache of the engine under any interleaving of the critical sections of concurrent \<open>Compile\<close> calls:
  the map and the recency list describe the same elements, at most as many as the capacity; a key is
  compiled by at most one goroutine at a time, and never while it is cached; and every cached rule
  is what \<open>compileV1\<close> gives for a source with the hash it is stored under.
\<close>

theorem engine_cache:
  assumes "engine_reachable parse vm_compile (e, run)"
  shows "int (length (eng_lru e)) \<le> eng_capacity e
    \<and> (\<forall>k a. map_of (eng_entries e) k = Some a \<longleftrightarrow> (\<exists>el \<in> set (eng_lru e). elem_key el = k \<and> elem_addr el = a))
    \<and> distinct (map elem_key (eng_lru e))
    \<and> set (eng_inflight e) = source_key ` set run \<and> distinct (map source_key run)
    \<and> (\<forall>source \<in> set run. source_key source \<notin> elem_key ` set (eng_lru e))
    \<and> (\<forall>el \<in> set (eng_lru e). compiled_from parse vm_compile el)"
proof -
  have e: "engine_ok parse vm_compile (e, run)" using assms by (rule engine_reachable_ok)
  note fl = engine_ok_inflight [OF e]
  have "\<forall>el \<in> set (eng_lru e). elem_key el \<notin> source_key ` set run"
    using e fl by (simp add: engine_ok_def)
  then have "\<forall>source \<in> set run. source_key source \<notin> elem_key ` set (eng_lru e)"
    by (metis (no_types, lifting) image_iff)
  moreover have "lru_ok e" using e by (simp add: engine_ok_def)
  ultimately show ?thesis using fl e by (simp add: engine_ok_def lru_ok_def)
qed

lemma engine_example:
  "engine_reachable demo_parse (\<lambda>body. Inr ())
     (compile_finish (source_key ''v1: x'') (compileV1 demo_parse (\<lambda>body. Inr ()) ''v1: x'' (ExpressionHash ''v1: x''))
       ((NewEngine [1])\<lparr>eng_inflight := [source_key ''v1: x'']\<rparr>), [])"
proof -
  have "compile_begin (source_key ''v1: x'') (NewEngine [1] :: unit Engine)
      = (StartCompile, (NewEngine [1])\<lparr>eng_inflight := [source_key ''v1: x'']\<rparr>)"
    by (simp add: compile_begin_def NewEngine_def)
  from engine_reachable.step [OF engine_reachable.new engine_step.begin_start [OF this]]
  have "engine_reachable demo_parse (\<lambda>body. Inr ()) ((NewEngine [1])\<lparr>eng_inflight := [source_key ''v1: x'']\<rparr>, [''v1: x''])" .
  from engine_reachable.step [OF this engine_step.finish [of "''v1: x''"]] show ?thesis by simp
qed

theorem engine_cache_witness:
  "length (eng_lru (compile_finish (source_key ''v1: x'') (compileV1 demo_parse (\<lambda>body. Inr ()) ''v1: x'' (ExpressionHash ''v1: x''))
       ((NewEngine [1])\<lparr>eng_inflight := [source_key ''v1: x'']\<rparr>))) \<le> 1"
  using engine_cache [OF engine_example, THEN conjunct1] by (simp add: NewEngine_def)

text \<open>
  A call that is answered from the cache: whatever the parser, the compiler of the VM and the goroutines it might join would give, it returns the
  cached rule, and the only change is that the rule is the most recently used one.
\<close>

definition served_from_cache :: "string \<Rightarrow> string \<Rightarrow> 'p CompiledRule \<Rightarrow> 'p Engine \<Rightarrow> bool" where
  "served_from_cache source expectedHash rule e \<longleftrightarrow>
     (\<exists>el lru. elem_rule el = rule \<and> elem_key el = source_key source \<and> mset (el # lru) = mset (eng_lru e)
       \<and> (\<forall>parse vm_compile joined. CompileByHash parse vm_compile joined source expectedHash e = (Inr rule, e\<lparr>eng_lru := el # lru\<rparr>)))"

lemma MoveToFront_head:
  assumes "el \<in> set lru" "distinct (map elem_addr lru)"
  shows "\<exists>rest. MoveToFront (elem_addr el) lru = el # rest"
proof -
  have "x = el" if "x \<in> set lru" "elem_addr x = elem_addr el" for x using assms that by (metis distinct_map inj_on_def)
  moreover have "el \<in> set (filter (\<lambda>x. elem_addr x = elem_addr el) lru)" using assms(1) by simp
  ultimately show ?thesis unfolding MoveToFront_def
    by (cases "filter (\<lambda>x. elem_addr x = elem_addr el) lru") (auto simp: filter_eq_Cons_iff)
qed

lemma served_from_cache:
  assumes "lru_ok e" "el \<in> set (eng_lru e)" "elem_key el = source_key source" "elem_rule el = rule"
    "ToLower (TrimSpace expectedHash) = ExpressionHash source"
  shows "served_from_cache source expectedHash rule e"
proof -
  have "el' = el" if "el' \<in> set (eng_lru e)" "elem_key el' = source_key source" for el'
    using that assms(1-3) unfolding lru_ok_def by (metis distinct_map inj_on_def)
  moreover have "source_key source \<in> elem_key ` set (eng_lru e)" using assms(2,3) by (metis image_eqI)
  ultimately have hit: "compile_begin (source_key source) e = (CacheHit rule, e\<lparr>eng_lru := MoveToFront (elem_addr el) (eng_lru e)\<rparr>)"
    using compile_begin_cases [OF assms(1), of "source_key source"] assms(4) by metis
  obtain rest where rest: "MoveToFront (elem_addr el) (eng_lru e) = el # rest"
    using MoveToFront_head [OF assms(2)] assms(1) by (auto simp: lru_ok_def)
  have "mset (el # rest) = mset (eng_lru e)" by (simp only: rest [symmetric] MoveToFront_mset)
  moreover have "CompileByHash parse vm_compile joined source expectedHash e = (Inr rule, e\<lparr>eng_lru := el # rest\<rparr>)" for parse vm_compile joined
    unfolding CompileByHash_def Let_def assms(5) by (simp add: hit rest)
  ultimately show ?thesis using assms(3,4) unfolding served_from_cache_def by blast
qed

text \<open>
  C20. The cache is transparent and is used: in a reachable state, a \<open>CompileByHash\<close> that does not join another goroutine
  returns a rule only for a source whose hash is the expected one, and the rule is one that \<open>compileV1\<close>
  gives for a source of that hash. The next call with this source and hash is answered from the cache: it finds the rule at once,
  so it returns it whatever a parser and a compiler would give now, changes no entry of the cache and puts the rule first in the order of
  use. An error is the mismatch of the hash or the error of \<open>compileV1\<close>, and what failed is not cached.
\<close>

theorem CompileByHash_transparent:
  assumes "engine_reachable parse vm_compile (e, run)" "source_key source \<notin> source_key ` set run"
    and "CompileByHash parse vm_compile joined source expectedHash e = (result, e')"
  shows "case result of
      Inr rule \<Rightarrow> ToLower (TrimSpace expectedHash) = ExpressionHash source
        \<and> (\<exists>source'. ExpressionHash source' = ExpressionHash source
             \<and> compileV1 parse vm_compile source' (ExpressionHash source) = Inr rule)
        \<and> served_from_cache source expectedHash rule e'
    | Inl err \<Rightarrow> (ToLower (TrimSpace expectedHash) \<noteq> ExpressionHash source \<and> err_Code err = ErrorHashMismatch \<and> e' = e)
        \<or> (compileV1 parse vm_compile source (ExpressionHash source) = Inl err
          \<and> eng_entries e' = eng_entries e \<and> eng_lru e' = eng_lru e \<and> source_key source \<notin> set (eng_inflight e'))"
proof (cases "ToLower (TrimSpace expectedHash) = ExpressionHash source")
  case False
  then show ?thesis using assms(3) by (auto simp: CompileByHash_def Let_def)
next
  case True
  let ?k = "source_key source"
  have e: "engine_ok parse vm_compile (e, run)" using assms(1) by (rule engine_reachable_ok)
  then have lru: "lru_ok e" by (simp add: engine_ok_def)
  have again: "served_from_cache source expectedHash rule e'"
    if "lru_ok e'" "el \<in> set (eng_lru e')" "elem_key el = ?k" "elem_rule el = rule" for el rule
    using served_from_cache [OF that True] .
  from compile_begin_cases [OF lru, of ?k] show ?thesis
  proof (elim disjE bexE conjE)
    fix el
    assume el: "el \<in> set (eng_lru e)" "elem_key el = ?k"
      and b: "compile_begin ?k e = (CacheHit (elem_rule el), e\<lparr>eng_lru := MoveToFront (elem_addr el) (eng_lru e)\<rparr>)"
    then have r: "result = Inr (elem_rule el)" "e' = e\<lparr>eng_lru := MoveToFront (elem_addr el) (eng_lru e)\<rparr>"
      using assms(3) True by (auto simp: CompileByHash_def Let_def)
    moreover have "served_from_cache source expectedHash (elem_rule el) e'"
      using again [of el] lru_ok_hit [OF lru] el r by simp
    moreover obtain source' where "?k = source_key source'"
      "compileV1 parse vm_compile source' (ExpressionHash source') = Inr (elem_rule el)"
      using e el unfolding engine_ok_def prod.case compiled_from_def by metis
    ultimately show ?thesis using True by auto
  next
    assume "?k \<in> set (eng_inflight e)"
    moreover have "set (eng_inflight e) = source_key ` set run"
      using engine_ok_inflight [OF e] by simp
    ultimately show ?thesis using assms(2) by simp
  next
    assume b: "compile_begin ?k e = (StartCompile, e\<lparr>eng_inflight := ?k # eng_inflight e\<rparr>)"
    have ok1: "engine_ok parse vm_compile (e\<lparr>eng_inflight := ?k # eng_inflight e\<rparr>, source # run)"
      using engine_ok_begin [OF e b] by simp
    have r: "result = compileV1 parse vm_compile source (ExpressionHash source)"
      "e' = compile_finish ?k result (e\<lparr>eng_inflight := ?k # eng_inflight e\<rparr>)"
      using assms(3) True b by (auto simp: CompileByHash_def Let_def)
    have ok2: "engine_ok parse vm_compile (e', run)" using engine_ok_finish [OF ok1, of source] r by simp
    show ?thesis
    proof (cases result)
      case (Inl err)
      then have "e' = e\<lparr>eng_inflight := removeAll ?k (eng_inflight e)\<rparr>" using r(2) by (simp add: compile_finish_def)
      moreover have "compileV1 parse vm_compile source (ExpressionHash source) = Inl err" using r(1) Inl by simp
      ultimately show ?thesis using Inl by simp
    next
      case (Inr rule)
      have cap: "0 < eng_capacity e" using e by (simp add: engine_ok_def)
      then have "nat (eng_capacity e) = Suc (nat (eng_capacity e - 1))" by simp
      then have "\<lparr>elem_addr = eng_next e, elem_key = ?k, elem_rule = rule\<rparr> \<in> set (eng_lru e')"
        using r(2) Inr cap by (simp add: compile_finish_def evict_lru)
      then have "served_from_cache source expectedHash rule e'"
        using again [of "\<lparr>elem_addr = eng_next e, elem_key = ?k, elem_rule = rule\<rparr>" rule] ok2 by (simp add: engine_ok_def)
      then show ?thesis using Inr True r by auto
    qed
  qed
qed

lemma demo_compiles: "ok (compileV1 demo_parse (\<lambda>body. Inr ()) ''v1: x'' hash)"
proof -
  have trim: "TrimSpace ''v1: x'' = ''v1: x''" "TrimPrefix ''v1: x'' ''v1:'' = '' x''" "TrimSpace '' x'' = ''x''" "HasPrefix ''v1: x'' ''v1:''"
    by code_simp+
  have short: "validShortString ''input''" by code_simp
  show ?thesis unfolding compileV1_ok
    by (simp add: trim short demo_parse_def functionNames_def factNames_def calls_of_def is_line_function_def HasSuffix_def)
qed

theorem CompileByHash_transparent_witness:
  "\<exists>rule e'. CompileByHash demo_parse (\<lambda>body. Inr ()) (Inl (errorf [] [])) ''v1: x'' (ExpressionHash ''v1: x'') (NewEngine [1]) = (Inr rule, e')
    \<and> fst (CompileByHash (\<lambda>text. Inl ''no parser'') (\<lambda>body. Inl ''no compiler'') (Inl (errorf [] [])) ''v1: x'' (ExpressionHash ''v1: x'') e') = Inr rule"
proof -
  let ?call = "CompileByHash demo_parse (\<lambda>body. Inr ()) (Inl (errorf [] [])) ''v1: x'' (ExpressionHash ''v1: x'') (NewEngine [1])"
  have hash: "ToLower (TrimSpace (ExpressionHash ''v1: x'')) = ExpressionHash ''v1: x''"
    using sha256_hex_normal(1) [of "''v1: x''"] by (simp add: ExpressionHash_def)
  obtain result e' where call: "?call = (result, e')" by fastforce
  obtain rule where "compileV1 demo_parse (\<lambda>body. Inr ()) ''v1: x'' (ExpressionHash ''v1: x'') = Inr rule"
    using demo_compiles by (auto simp: ok_iff)
  moreover have "result = compileV1 demo_parse (\<lambda>body. Inr ()) ''v1: x'' (ExpressionHash ''v1: x'')"
    using call unfolding CompileByHash_def Let_def hash by (auto simp: compile_begin_def NewEngine_def)
  ultimately have result: "result = Inr rule" by simp
  from CompileByHash_transparent [OF engine_reachable.new _ call] result
  have "served_from_cache ''v1: x'' (ExpressionHash ''v1: x'') rule e'" by simp
  then show ?thesis using call result by (auto simp: served_from_cache_def)
qed

end
