(* ===== verification/Pricing_Evaluate.thy ===== *)
theory Pricing_Evaluate
  imports Pricing_Compile
begin

text \<open>
  \<open>internal/pricing/evaluate.go\<close>: the environment of an evaluation with the functions that charge
  lines and select a tier, the validation of the facts, the run of the program, and the checks
  on its result.
\<close>

section \<open>The trace of an evaluation\<close>

record evaluationTrace =
  tr_matchedTier :: string
  tr_tierAmount :: int
  tr_lines :: "PricingLine list"
  tr_lineCodes :: "string list"

definition newEvaluationTrace :: evaluationTrace where
  "newEvaluationTrace = \<lparr>tr_matchedTier = [], tr_tierAmount = 0, tr_lines = [], tr_lineCodes = []\<rparr>"

type_synonym call_result = "(go_error + int) \<times> evaluationTrace"

text \<open>A pure function of the environment in the place of one that changes the trace, and its errors.\<close>

definition with_trace :: "evaluationTrace \<Rightarrow> go_error + 'a \<Rightarrow> ('a \<Rightarrow> call_result) \<Rightarrow> call_result" where
  "with_trace t r f = (case r of Inl e \<Rightarrow> (Inl e, t) | Inr x \<Rightarrow> f x)"

definition addLine :: "evaluationTrace \<Rightarrow> PricingLine \<Rightarrow> call_result" where
  "addLine t line0 =
     (let line = line0\<lparr>line_Code := TrimSpace (line_Code line0), line_Unit := TrimSpace (line_Unit line0)\<rparr>
      in if line_Code line = [] \<or> line_Unit line = [] \<or> \<not> validShortString (line_Code line) \<or> \<not> validShortString (line_Unit line)
         then (Inl (PricingError (errorf ErrorBreakdownInvalid ''line code and unit are required'')), t)
         else if length (tr_lines t) \<ge> maxStaticLines
         then (Inl (PricingError (errorf ErrorBreakdownInvalid ''too many line items'')), t)
         else if line_Code line \<in> set (tr_lineCodes t)
         then (Inl (PricingError (errorf ErrorBreakdownInvalid (''duplicate line code '' @ go_quote (line_Code line)))), t)
         else if line_Quantity line < 0 \<or> line_UnitsPerBlock line \<le> 0 \<or> line_RateMicros line < 0
           \<or> line_MultiplierBPS line < 0 \<or> line_AmountMicros line < 0
         then (Inl (PricingError (errorf ErrorBreakdownInvalid ''line item contains invalid values'')), t)
         else (Inr (line_AmountMicros line),
               t\<lparr>tr_lineCodes := line_Code line # tr_lineCodes t, tr_lines := tr_lines t @ [line]\<rparr>))"

section \<open>The functions of the environment\<close>

definition token_line :: "evaluationTrace \<Rightarrow> string \<Rightarrow> any \<Rightarrow> any \<Rightarrow> call_result" where
  "token_line t code quantityValue rateValue =
     with_trace t (pricingInteger quantityValue) (\<lambda>quantity.
     with_trace t (pricingInteger rateValue) (\<lambda>rate.
     with_trace t (tokenCost quantity rate) (\<lambda>amount.
     addLine t \<lparr>line_Code = code, line_Quantity = quantity, line_Unit = ''token'', line_UnitsPerBlock = 1000000,
       line_RateMicros = rate, line_MultiplierBPS = basisPointsOne, line_AmountMicros = amount\<rparr>)))"

definition adjusted_token_line :: "evaluationTrace \<Rightarrow> string \<Rightarrow> any \<Rightarrow> any \<Rightarrow> any \<Rightarrow> call_result" where
  "adjusted_token_line t code quantityValue rateValue bpsValue =
     with_trace t (pricingInteger quantityValue) (\<lambda>quantity.
     with_trace t (pricingInteger rateValue) (\<lambda>rate.
     with_trace t (pricingInteger bpsValue) (\<lambda>bps.
     with_trace t (tokenCost quantity rate) (\<lambda>base.
     with_trace t (multiplyBPS base bps) (\<lambda>amount.
     addLine t \<lparr>line_Code = code, line_Quantity = quantity, line_Unit = ''token'', line_UnitsPerBlock = 1000000,
       line_RateMicros = rate, line_MultiplierBPS = bps, line_AmountMicros = amount\<rparr>)))))"

definition unit_line :: "evaluationTrace \<Rightarrow> string \<Rightarrow> any \<Rightarrow> string \<Rightarrow> any \<Rightarrow> call_result" where
  "unit_line t code quantityValue unit rateValue =
     with_trace t (pricingInteger quantityValue) (\<lambda>quantity.
     with_trace t (pricingInteger rateValue) (\<lambda>rate.
     with_trace t (unitCost quantity rate) (\<lambda>amount.
     addLine t \<lparr>line_Code = code, line_Quantity = quantity, line_Unit = unit, line_UnitsPerBlock = 1,
       line_RateMicros = rate, line_MultiplierBPS = basisPointsOne, line_AmountMicros = amount\<rparr>)))"

definition adjusted_unit_line :: "evaluationTrace \<Rightarrow> string \<Rightarrow> any \<Rightarrow> string \<Rightarrow> any \<Rightarrow> any \<Rightarrow> call_result" where
  "adjusted_unit_line t code quantityValue unit rateValue bpsValue =
     with_trace t (pricingInteger quantityValue) (\<lambda>quantity.
     with_trace t (pricingInteger rateValue) (\<lambda>rate.
     with_trace t (pricingInteger bpsValue) (\<lambda>bps.
     with_trace t (unitCost quantity rate) (\<lambda>base.
     with_trace t (multiplyBPS base bps) (\<lambda>amount.
     addLine t \<lparr>line_Code = code, line_Quantity = quantity, line_Unit = unit, line_UnitsPerBlock = 1,
       line_RateMicros = rate, line_MultiplierBPS = bps, line_AmountMicros = amount\<rparr>)))))"

definition block_line :: "evaluationTrace \<Rightarrow> string \<Rightarrow> any \<Rightarrow> string \<Rightarrow> any \<Rightarrow> any \<Rightarrow> call_result" where
  "block_line t code quantityValue unit unitsPerBlockValue rateValue =
     with_trace t (pricingInteger quantityValue) (\<lambda>quantity.
     with_trace t (pricingInteger unitsPerBlockValue) (\<lambda>unitsPerBlock.
     with_trace t (pricingInteger rateValue) (\<lambda>rate.
     with_trace t (blockCost quantity unitsPerBlock rate) (\<lambda>amount.
     addLine t \<lparr>line_Code = code, line_Quantity = quantity, line_Unit = unit, line_UnitsPerBlock = unitsPerBlock,
       line_RateMicros = rate, line_MultiplierBPS = basisPointsOne, line_AmountMicros = amount\<rparr>))))"

definition adjusted_block_line ::
  "evaluationTrace \<Rightarrow> string \<Rightarrow> any \<Rightarrow> string \<Rightarrow> any \<Rightarrow> any \<Rightarrow> any \<Rightarrow> call_result" where
  "adjusted_block_line t code quantityValue unit unitsPerBlockValue rateValue bpsValue =
     with_trace t (pricingInteger quantityValue) (\<lambda>quantity.
     with_trace t (pricingInteger unitsPerBlockValue) (\<lambda>unitsPerBlock.
     with_trace t (pricingInteger rateValue) (\<lambda>rate.
     with_trace t (pricingInteger bpsValue) (\<lambda>bps.
     with_trace t (blockCost quantity unitsPerBlock rate) (\<lambda>base.
     with_trace t (multiplyBPS base bps) (\<lambda>amount.
     addLine t \<lparr>line_Code = code, line_Quantity = quantity, line_Unit = unit, line_UnitsPerBlock = unitsPerBlock,
       line_RateMicros = rate, line_MultiplierBPS = bps, line_AmountMicros = amount\<rparr>))))))"

definition fixed_line :: "evaluationTrace \<Rightarrow> string \<Rightarrow> string \<Rightarrow> any \<Rightarrow> call_result" where
  "fixed_line t code unit amountValue =
     with_trace t (pricingInteger amountValue) (\<lambda>amount.
     addLine t \<lparr>line_Code = code, line_Quantity = 1, line_Unit = unit, line_UnitsPerBlock = 1,
       line_RateMicros = amount, line_MultiplierBPS = basisPointsOne, line_AmountMicros = amount\<rparr>)"

definition select_tier :: "evaluationTrace \<Rightarrow> string \<Rightarrow> any \<Rightarrow> call_result" where
  "select_tier t name0 amountValue =
     with_trace t (pricingInteger amountValue) (\<lambda>amount.
     let name = TrimSpace name0
     in if name = [] \<or> \<not> validShortString name \<or> tr_matchedTier t \<noteq> []
        then (Inl (PricingError (errorf ErrorTierInvalid ''exactly one valid tier may be selected'')), t)
        else if amount < 0
        then (Inl (PricingError (errorf ErrorTierInvalid ''tier amount must be non-negative'')), t)
        else (Inr amount, t\<lparr>tr_matchedTier := name, tr_tierAmount := amount\<rparr>))"

definition env_min :: "any \<Rightarrow> any \<Rightarrow> go_error + int" where
  "env_min leftValue rightValue =
     and_then (pricingInteger leftValue) (\<lambda>left.
     and_then (pricingInteger rightValue) (\<lambda>right.
     if left < right then Inr left else Inr right))"

definition env_max :: "any \<Rightarrow> any \<Rightarrow> go_error + int" where
  "env_max leftValue rightValue =
     and_then (pricingInteger leftValue) (\<lambda>left.
     and_then (pricingInteger rightValue) (\<lambda>right.
     if left > right then Inr left else Inr right))"

section \<open>The environment\<close>

text \<open>
  A function value of the environment, by the Go types of its parameters; \<open>call\<close> applies it to
  the arguments the VM passes. Arguments of other types are a type error of the VM, which
  recovers it and returns it as an error of its own.
\<close>

datatype env_fun =
    FunAA "evaluationTrace \<Rightarrow> any \<Rightarrow> any \<Rightarrow> call_result"
  | FunAAA "evaluationTrace \<Rightarrow> any \<Rightarrow> any \<Rightarrow> any \<Rightarrow> call_result"
  | FunSA "evaluationTrace \<Rightarrow> string \<Rightarrow> any \<Rightarrow> call_result"
  | FunSAA "evaluationTrace \<Rightarrow> string \<Rightarrow> any \<Rightarrow> any \<Rightarrow> call_result"
  | FunSAAA "evaluationTrace \<Rightarrow> string \<Rightarrow> any \<Rightarrow> any \<Rightarrow> any \<Rightarrow> call_result"
  | FunSSA "evaluationTrace \<Rightarrow> string \<Rightarrow> string \<Rightarrow> any \<Rightarrow> call_result"
  | FunSASA "evaluationTrace \<Rightarrow> string \<Rightarrow> any \<Rightarrow> string \<Rightarrow> any \<Rightarrow> call_result"
  | FunSASAA "evaluationTrace \<Rightarrow> string \<Rightarrow> any \<Rightarrow> string \<Rightarrow> any \<Rightarrow> any \<Rightarrow> call_result"
  | FunSASAAA "evaluationTrace \<Rightarrow> string \<Rightarrow> any \<Rightarrow> string \<Rightarrow> any \<Rightarrow> any \<Rightarrow> any \<Rightarrow> call_result"

fun fun_params :: "env_fun \<Rightarrow> param_kind list" where
  "fun_params (FunAA f) = [KAny, KAny]"
| "fun_params (FunAAA f) = [KAny, KAny, KAny]"
| "fun_params (FunSA f) = [KString, KAny]"
| "fun_params (FunSAA f) = [KString, KAny, KAny]"
| "fun_params (FunSAAA f) = [KString, KAny, KAny, KAny]"
| "fun_params (FunSSA f) = [KString, KString, KAny]"
| "fun_params (FunSASA f) = [KString, KAny, KString, KAny]"
| "fun_params (FunSASAA f) = [KString, KAny, KString, KAny, KAny]"
| "fun_params (FunSASAAA f) = [KString, KAny, KString, KAny, KAny, KAny]"

definition bad_call :: "evaluationTrace \<Rightarrow> call_result" where
  "bad_call t = (Inl (ForeignError ''reflect: call with wrong argument types'' None), t)"

definition str_arg :: "any \<Rightarrow> evaluationTrace \<Rightarrow> (string \<Rightarrow> call_result) \<Rightarrow> call_result" where
  "str_arg a t f = (case a of AnyString s \<Rightarrow> f s | _ \<Rightarrow> bad_call t)"

primrec call :: "env_fun \<Rightarrow> any list \<Rightarrow> evaluationTrace \<Rightarrow> call_result" where
  "call (FunAA f) args t = (case args of [a, b] \<Rightarrow> f t a b | _ \<Rightarrow> bad_call t)"
| "call (FunAAA f) args t = (case args of [a, b, c] \<Rightarrow> f t a b c | _ \<Rightarrow> bad_call t)"
| "call (FunSA f) args t = (case args of [a, b] \<Rightarrow> str_arg a t (\<lambda>s. f t s b) | _ \<Rightarrow> bad_call t)"
| "call (FunSAA f) args t = (case args of [a, b, c] \<Rightarrow> str_arg a t (\<lambda>s. f t s b c) | _ \<Rightarrow> bad_call t)"
| "call (FunSAAA f) args t = (case args of [a, b, c, d] \<Rightarrow> str_arg a t (\<lambda>s. f t s b c d) | _ \<Rightarrow> bad_call t)"
| "call (FunSSA f) args t =
     (case args of [a, b, c] \<Rightarrow> str_arg a t (\<lambda>s. str_arg b t (\<lambda>u. f t s u c)) | _ \<Rightarrow> bad_call t)"
| "call (FunSASA f) args t =
     (case args of [a, b, c, d] \<Rightarrow> str_arg a t (\<lambda>s. str_arg c t (\<lambda>u. f t s b u d)) | _ \<Rightarrow> bad_call t)"
| "call (FunSASAA f) args t =
     (case args of [a, b, c, d, e] \<Rightarrow> str_arg a t (\<lambda>s. str_arg c t (\<lambda>u. f t s b u d e)) | _ \<Rightarrow> bad_call t)"
| "call (FunSASAAA f) args t =
     (case args of [a, b, c, d, e, g] \<Rightarrow> str_arg a t (\<lambda>s. str_arg c t (\<lambda>u. f t s b u d e g)) | _ \<Rightarrow> bad_call t)"

definition env_functions :: "(string, env_fun) gmap" where
  "env_functions = [
    (''token_cost'', FunAA (\<lambda>t a b. (numeric2 tokenCost a b, t))),
    (''unit_cost'', FunAA (\<lambda>t a b. (numeric2 unitCost a b, t))),
    (''block_cost'', FunAAA (\<lambda>t a b c. (numeric3 blockCost a b c, t))),
    (''multiply_bps'', FunAA (\<lambda>t a b. (numeric2 multiplyBPS a b, t))),
    (''token_line'', FunSAA token_line),
    (''adjusted_token_line'', FunSAAA adjusted_token_line),
    (''unit_line'', FunSASA unit_line),
    (''adjusted_unit_line'', FunSASAA adjusted_unit_line),
    (''block_line'', FunSASAA block_line),
    (''adjusted_block_line'', FunSASAAA adjusted_block_line),
    (''fixed_line'', FunSSA fixed_line),
    (''tier'', FunSA select_tier),
    (''min'', FunAA (\<lambda>t a b. (env_min a b, t))),
    (''max'', FunAA (\<lambda>t a b. (env_max a b, t)))]"

abbreviation fact_int :: "int \<Rightarrow> any" where
  "fact_int x \<equiv> AnyInt64 (word_of_int x)"

definition factsEnvironment :: "Facts \<Rightarrow> (string, any) gmap" where
  "factsEnvironment f = [
    (''total_input_tokens'', fact_int (TotalInputTokens f)), (''uncached_input_tokens'', fact_int (UncachedInputTokens f)),
    (''cache_read_tokens'', fact_int (CacheReadTokens f)), (''cache_write_5m_tokens'', fact_int (CacheWrite5mTokens f)),
    (''cache_write_1h_tokens'', fact_int (CacheWrite1hTokens f)), (''output_tokens'', fact_int (OutputTokens f)),
    (''cache_fields_present'', AnyBool (CacheFieldsPresent f)), (''input_images'', fact_int (InputImages f)),
    (''output_images'', fact_int (OutputImages f)), (''partial_images'', fact_int (PartialImages f)),
    (''input_video_milliseconds'', fact_int (InputVideoMilliseconds f)),
    (''output_video_milliseconds'', fact_int (OutputVideoMilliseconds f)),
    (''input_audio_milliseconds'', fact_int (InputAudioMilliseconds f)),
    (''output_audio_milliseconds'', fact_int (OutputAudioMilliseconds f)),
    (''realtime_audio_milliseconds'', fact_int (RealtimeAudioMilliseconds f)),
    (''input_characters'', fact_int (InputCharacters f)), (''actions'', fact_int (Actions f)),
    (''batch_items'', fact_int (BatchItems f)), (''input_bytes'', fact_int (InputBytes f)),
    (''output_bytes'', fact_int (OutputBytes f)), (''transfer_bytes'', fact_int (TransferBytes f)),
    (''session_milliseconds'', fact_int (SessionMilliseconds f)), (''protocol'', AnyString (Protocol f)),
    (''operation'', AnyString (Operation f)), (''modality'', AnyString (Modality f)), (''lane'', AnyString (Lane f)),
    (''stream'', AnyBool (Stream f)), (''output_count'', fact_int (OutputCount f)), (''service_tier'', AnyString (ServiceTier f))]"

section \<open>The validation of the facts\<close>

definition validateFacts :: "Facts \<Rightarrow> string list \<Rightarrow> pricing_error option" where
  "validateFacts f required =
     (let values = [TotalInputTokens f, UncachedInputTokens f, CacheReadTokens f, CacheWrite5mTokens f, CacheWrite1hTokens f,
        OutputTokens f, InputImages f, OutputImages f, PartialImages f, InputVideoMilliseconds f,
        OutputVideoMilliseconds f, InputAudioMilliseconds f, OutputAudioMilliseconds f, RealtimeAudioMilliseconds f,
        InputCharacters f, Actions f, BatchItems f, InputBytes f, OutputBytes f, TransferBytes f, SessionMilliseconds f, OutputCount f]
      in if list_ex (\<lambda>value. value < 0) values
         then Some (errorf ErrorFactInvalid ''pricing facts must be non-negative'')
         else if UncachedInputTokens f > TotalInputTokens f \<and> TotalInputTokens f > 0
         then Some (errorf ErrorFactInvalid ''uncached input exceeds total input'')
         else if list_ex (\<lambda>value. \<not> validShortString value)
                [Protocol f, Operation f, Modality f, Lane f, ServiceTier f, NormalizationStatus f]
         then Some (errorf ErrorFactInvalid ''pricing fact string is invalid or too long'')
         else if Phase f \<noteq> [] \<and> Phase f \<noteq> PhaseEstimate \<and> Phase f \<noteq> PhaseSettlement \<and> Phase f \<noteq> PhaseReplay
         then Some (errorf ErrorFactInvalid ''pricing phase is invalid'')
         else if AvailableFacts f \<noteq> []
         then (case find (\<lambda>name. map_of (AvailableFacts f) name \<noteq> Some True) required of
                 None \<Rightarrow> None
               | Some name \<Rightarrow> Some (errorf ErrorFactMissing (''required fact '' @ go_quote name @ '' is unavailable'')))
         else None)"

section \<open>The run of a program\<close>

text \<open>
  The VM of the library \<open>expr\<close> sees the facts and calls functions of the environment by name; it
  ends with a value or an error. A run is the tree of what it does next for each answer it gets,
  so that a theorem about every run assumes nothing of the VM.
\<close>

datatype vm_run = VMReturn any | VMFail go_error | VMCall string "any list" "go_error + int \<Rightarrow> vm_run"

primrec expr_Run :: "vm_run \<Rightarrow> evaluationTrace \<Rightarrow> (go_error + any) \<times> evaluationTrace" where
  "expr_Run (VMReturn v) t = (Inr v, t)"
| "expr_Run (VMFail e) t = (Inl e, t)"
| "expr_Run (VMCall name arguments k) t =
     (case map_of env_functions name of
        None \<Rightarrow> (Inl (ForeignError ''reflect: call of nil function'' None), t)
      | Some f \<Rightarrow> (case call f arguments t of (r, t') \<Rightarrow> expr_Run (k r) t'))"

fun asPricingError :: "go_error option \<Rightarrow> pricing_error option" where
  "asPricingError None = None"
| "asPricingError (Some (PricingError e)) = Some e"
| "asPricingError (Some (ForeignError t u)) = asPricingError u"
| "asPricingError (Some (Panic t)) = None"

definition classifyRuntimeError :: "go_error \<Rightarrow> pricing_error" where
  "classifyRuntimeError err =
     (if Contains (go_error_text err) ErrorArithmeticOverflow then errorf ErrorArithmeticOverflow (go_error_text err)
      else if Contains (go_error_text err) ErrorBreakdownInvalid then errorf ErrorBreakdownInvalid (go_error_text err)
      else if Contains (go_error_text err) ErrorTierInvalid then errorf ErrorTierInvalid (go_error_text err)
      else (case asPricingError (Some err) of
              Some e \<Rightarrow> e
            | None \<Rightarrow> errorf ErrorAmountOutOfRange (''expression execution failed: '' @ go_error_text err)))"

fun line_total :: "int \<Rightarrow> PricingLine list \<Rightarrow> go_error + int" where
  "line_total lineTotal [] = Inr lineTotal"
| "line_total lineTotal (line # ls) =
     and_then (checkedAdd lineTotal (line_AmountMicros line)) (\<lambda>lineTotal. line_total lineTotal ls)"

text \<open>The checks on the value and the trace after the run.\<close>

definition check_result :: "'p CompiledRule \<Rightarrow> Facts \<Rightarrow> any \<Rightarrow> evaluationTrace \<Rightarrow> go_error + pricing_result" where
  "check_result rule facts out trace =
     (case out of
        AnyInt64 w \<Rightarrow>
          (let amount = sint w
           in if amount < 0
              then Inl (PricingError (errorf ErrorAmountOutOfRange ''expression returned a negative amount''))
              else if tr_matchedTier trace \<noteq> [] \<and> tr_tierAmount trace \<noteq> amount
              then Inl (PricingError (errorf ErrorTierInvalid ''tier amount does not equal expression result''))
              else and_then (line_total 0 (tr_lines trace)) (\<lambda>lineTotal.
                if lineTotal \<noteq> amount \<or> (amount > 0 \<and> tr_lines trace = [])
                then Inl (PricingError (errorf ErrorBreakdownInvalid
                       (''line item total '' @ Itoa lineTotal @ '' does not equal result '' @ Itoa amount)))
                else Inr \<lparr>res_AmountMicros = amount, res_Currency = CurrencyUSD,
                       res_MatchedTier = (if tr_matchedTier trace = [] then ''base'' else tr_matchedTier trace),
                       res_Lines = tr_lines trace, res_EngineVersion = rule_EngineVersion rule,
                       res_ExpressionHash = rule_ExpressionHash rule, res_FactsHash = facts_Hash facts\<rparr>))
      | _ \<Rightarrow> Inl (PricingError (errorf ErrorAmountOutOfRange
               (''expression returned '' @ any_type out @ '' instead of int64''))))"

definition Evaluate ::
  "('p \<Rightarrow> (string, any) gmap \<Rightarrow> vm_run) \<Rightarrow> 'p CompiledRule \<Rightarrow> Facts \<Rightarrow> go_error + pricing_result" where
  "Evaluate vm rule facts =
     (case compiledProgram rule of
        Inl err \<Rightarrow> Inl (PricingError err)
      | Inr program \<Rightarrow>
          (case validateFacts facts (an_RequiredFacts (rule_Analysis rule)) of
             Some err \<Rightarrow> Inl (PricingError err)
           | None \<Rightarrow>
               (case expr_Run (vm program (factsEnvironment facts)) newEvaluationTrace of
                  (Inl err, trace) \<Rightarrow> Inl (PricingError (classifyRuntimeError err))
                | (Inr out, trace) \<Rightarrow> check_result rule facts out trace)))"

section \<open>What every call keeps of the trace\<close>

text \<open>The amount a line should have, from its own quantity, block size, rate and multiplier.\<close>

definition line_price :: "PricingLine \<Rightarrow> int" where
  "line_price l =
     round_half_up (round_half_up (line_Quantity l * line_RateMicros l) (line_UnitsPerBlock l) * line_MultiplierBPS l) basisPointsOne"

definition line_ok :: "PricingLine \<Rightarrow> bool" where
  "line_ok l \<longleftrightarrow> line_Code l \<noteq> [] \<and> line_Unit l \<noteq> [] \<and> validShortString (line_Code l) \<and> validShortString (line_Unit l)
     \<and> 0 \<le> line_Quantity l \<and> 0 < line_UnitsPerBlock l \<and> 0 \<le> line_RateMicros l \<and> 0 \<le> line_MultiplierBPS l
     \<and> 0 \<le> line_AmountMicros l \<and> line_AmountMicros l \<le> MaxInt64 \<and> line_AmountMicros l = line_price l"

definition trace_ok :: "evaluationTrace \<Rightarrow> bool" where
  "trace_ok t \<longleftrightarrow> list_all line_ok (tr_lines t) \<and> distinct (map line_Code (tr_lines t))
     \<and> set (tr_lineCodes t) = set (map line_Code (tr_lines t)) \<and> length (tr_lines t) \<le> maxStaticLines
     \<and> (tr_matchedTier t = [] \<or> 0 \<le> tr_tierAmount t)"

lemma sint64_bounds: "sint (w :: 64 word) \<le> MaxInt64" "MinInt64 \<le> sint w"
  using sint_lt [of w] sint_ge [of w] by (simp_all add: MaxInt64_def MinInt64_def)

lemma pricingInteger_bounds: "pricingInteger v = Inr x \<Longrightarrow> x \<le> MaxInt64"
  using sint64_bounds by (cases v) auto

lemma round_half_up_one [simp]: "round_half_up n 1 = n"
  by (simp add: round_half_up_def)

lemma round_half_up_same [simp]: "0 < d \<Longrightarrow> round_half_up (n * d) d = n"
  by (subst round_half_up_iff) (simp_all add: mult.commute mult.left_commute)

lemma basisPointsOne_simps [simp]: "0 < basisPointsOne" "basisPointsOne \<le> MaxInt64"
  by (simp_all add: basisPointsOne_def MaxInt64_def)

lemma cost_priced:
  assumes "checkedMulDivRoundHalfUp q r u = Inr a" "q \<le> MaxInt64" "r \<le> MaxInt64" "u \<le> MaxInt64"
  shows "a \<le> MaxInt64 \<and> a = round_half_up (round_half_up (q * r) u * basisPointsOne) basisPointsOne"
  using checkedMulDiv_nonneg [OF assms] by simp

lemma adjusted_priced:
  assumes "checkedMulDivRoundHalfUp q r u = Inr b" "multiplyBPS b bps = Inr a"
    "q \<le> MaxInt64" "r \<le> MaxInt64" "u \<le> MaxInt64" "bps \<le> MaxInt64"
  shows "a \<le> MaxInt64 \<and> a = round_half_up (round_half_up (q * r) u * bps) basisPointsOne"
  using checkedMulDiv_nonneg [OF assms(1,3-5)] checkedMulDiv_nonneg [OF assms(2) [unfolded multiplyBPS_def]] assms(6)
  by simp

lemma with_trace_keeps:
  assumes "Inv t" "\<And>x. r = Inr x \<Longrightarrow> Inv (snd (f x))"
  shows "Inv (snd (with_trace t r f))"
  using assms by (cases r) (simp_all add: with_trace_def)

lemma addLine_ok:
  assumes "trace_ok t" "line_AmountMicros l \<le> MaxInt64" "line_AmountMicros l = line_price l"
  shows "trace_ok (snd (addLine t l))"
  using assms by (auto simp: addLine_def Let_def trace_ok_def line_ok_def line_price_def)

lemma addLine_tier [simp]:
  "tr_matchedTier (snd (addLine t l)) = tr_matchedTier t" "tr_tierAmount (snd (addLine t l)) = tr_tierAmount t"
  by (auto simp: addLine_def Let_def)

lemmas line_functions = token_line_def adjusted_token_line_def unit_line_def adjusted_unit_line_def
  block_line_def adjusted_block_line_def fixed_line_def tokenCost_def unitCost_def blockCost_def

lemma line_function_keeps:
  assumes "\<And>l. line_AmountMicros l \<le> MaxInt64 \<Longrightarrow> line_AmountMicros l = line_price l \<Longrightarrow> Inv (snd (addLine t l))" and "Inv t"
  shows "Inv (snd (token_line t code a b))" "Inv (snd (adjusted_token_line t code a b c))"
    "Inv (snd (unit_line t code a u b))" "Inv (snd (adjusted_unit_line t code a u b c))"
    "Inv (snd (block_line t code a u b c))" "Inv (snd (adjusted_block_line t code a u b c d))"
    "Inv (snd (fixed_line t code u a))"
proof -
  note keep = with_trace_keeps [where Inv = Inv and t = t]
  have million: "1000000 \<le> MaxInt64" "1 \<le> MaxInt64" by (simp_all add: MaxInt64_def)
  show "Inv (snd (token_line t code a b))" "Inv (snd (unit_line t code a u b))" "Inv (snd (block_line t code a u b c))"
    unfolding line_functions
    by (intro keep assms; drule cost_priced; simp add: line_price_def pricingInteger_bounds million)+
  show "Inv (snd (adjusted_token_line t code a b c))" "Inv (snd (adjusted_unit_line t code a u b c))"
    "Inv (snd (adjusted_block_line t code a u b c d))"
    unfolding line_functions
    by (intro keep assms; drule (1) adjusted_priced; simp add: line_price_def pricingInteger_bounds million)+
  show "Inv (snd (fixed_line t code u a))"
    unfolding line_functions
    by (intro keep assms) (simp_all add: line_price_def pricingInteger_bounds)
qed

text \<open>
  The contract of an invariant of the trace: a new line with the amount of its price keeps it, and so
  does selecting a tier. Then every function of the environment keeps it, and every run.
\<close>

locale trace_invariant =
  fixes Inv :: "evaluationTrace \<Rightarrow> bool"
  assumes inv_addLine:
    "Inv t \<Longrightarrow> line_AmountMicros l \<le> MaxInt64 \<Longrightarrow> line_AmountMicros l = line_price l \<Longrightarrow> Inv (snd (addLine t l))"
    and inv_tier: "Inv t \<Longrightarrow> Inv (snd (select_tier t name v))"
begin

lemma call_inv:
  assumes "map_of env_functions name = Some f" "Inv t"
  shows "Inv (snd (call f args t))"
proof -
  have bad: "Inv (snd (bad_call t))" using assms by (simp add: bad_call_def)
  have str: "Inv (snd (str_arg a t g))" if "\<And>s. Inv (snd (g s))" for a g
    using that bad by (auto simp: str_arg_def split: any.splits)
  note fns = line_function_keeps [where t = t and Inv = Inv, OF inv_addLine [OF assms(2)] assms(2)] inv_tier [OF assms(2)]
  have "f \<in> snd ` set env_functions" using assms(1) by (force dest: map_of_SomeD)
  then show ?thesis
    unfolding env_functions_def
    by (auto split: list.split intro!: str bad fns simp: assms(2))
qed

lemma run_inv: "Inv t \<Longrightarrow> Inv (snd (expr_Run run t))"
proof (induction run arbitrary: t)
  case (VMCall name args k)
  show ?case
  proof (cases "map_of env_functions name")
    case None
    then show ?thesis using VMCall.prems by simp
  next
    case (Some f)
    obtain r t' where c: "call f args t = (r, t')" by (cases "call f args t")
    with call_inv [OF Some VMCall.prems, of args] have "Inv t'" by simp
    with VMCall.IH [of "k r" t'] show ?thesis using Some c by simp
  qed
qed simp_all

end

lemma select_tier_ok: "trace_ok t \<Longrightarrow> trace_ok (snd (select_tier t name v))"
  by (cases "pricingInteger v") (auto simp: select_tier_def Let_def trace_ok_def with_trace_def)

interpretation trace: trace_invariant trace_ok
  by unfold_locales (fact addLine_ok, fact select_tier_ok)

text \<open>The second invariant: a tier, once selected, stays.\<close>

definition tier_kept :: "string \<Rightarrow> int \<Rightarrow> evaluationTrace \<Rightarrow> bool" where
  "tier_kept name amount t \<longleftrightarrow> tr_matchedTier t = name \<and> tr_tierAmount t = amount"

lemma select_tier_kept:
  "name \<noteq> [] \<Longrightarrow> tier_kept name amount t \<Longrightarrow> tier_kept name amount (snd (select_tier t n v))"
  by (cases "pricingInteger v") (auto simp: select_tier_def Let_def tier_kept_def with_trace_def)

interpretation tier: trace_invariant "\<lambda>t. name = [] \<or> tier_kept name amount t" for name amount
  by unfold_locales (use select_tier_kept in \<open>auto simp: tier_kept_def\<close>)

lemma run_keeps_tier: "name \<noteq> [] \<Longrightarrow> tier_kept name amount t \<Longrightarrow> tier_kept name amount (snd (expr_Run run t))"
  using tier.run_inv [of name amount t run] by simp

lemma newEvaluationTrace_ok: "trace_ok newEvaluationTrace"
  by (simp add: trace_ok_def newEvaluationTrace_def)

lemma line_total_sum:
  assumes "list_all line_ok ls" "0 \<le> n" "n \<le> MaxInt64" "line_total n ls = Inr s"
  shows "s = n + sum_list (map line_AmountMicros ls)"
  using assms
proof (induction ls arbitrary: n)
  case (Cons l ls)
  then have l: "0 \<le> line_AmountMicros l" "line_AmountMicros l \<le> MaxInt64" by (simp_all add: line_ok_def)
  from Cons.prems obtain m where m: "checkedAdd n (line_AmountMicros l) = Inr m" "line_total m ls = Inr s" by auto
  with l Cons.prems have "m = n + line_AmountMicros l" "m \<le> MaxInt64"
    by (subst (asm) checkedAdd_Inr; simp add: int64_defs)+
  with Cons.IH [of m] Cons.prems m l show ?case by simp
qed simp

lemma check_result_Inr:
  assumes "check_result rule facts out t = Inr r"
  obtains w where "out = AnyInt64 w" "0 \<le> sint w" "tr_matchedTier t = [] \<or> tr_tierAmount t = sint w"
    "line_total 0 (tr_lines t) = Inr (sint w)"
    "r = \<lparr>res_AmountMicros = sint w, res_Currency = CurrencyUSD,
       res_MatchedTier = (if tr_matchedTier t = [] then ''base'' else tr_matchedTier t),
       res_Lines = tr_lines t, res_EngineVersion = rule_EngineVersion rule,
       res_ExpressionHash = rule_ExpressionHash rule, res_FactsHash = facts_Hash facts\<rparr>"
  using assms by (cases out) (auto simp: check_result_def Let_def split: if_splits)

lemma Evaluate_Inr:
  assumes "Evaluate vm rule facts = Inr r"
  obtains program out t where "compiledProgram rule = Inr program"
    "validateFacts facts (an_RequiredFacts (rule_Analysis rule)) = None"
    "expr_Run (vm program (factsEnvironment facts)) newEvaluationTrace = (Inr out, t)"
    "check_result rule facts out t = Inr r"
  using assms by (auto simp: Evaluate_def split: sum.splits option.splits prod.splits)

lemma compiledProgram_Inr:
  "compiledProgram rule = Inr p \<longleftrightarrow> rule_program rule = Some p \<and> rule_EngineVersion rule = EngineVersionV1
     \<and> rule_ExpressionHash rule = ExpressionHash (rule_Source rule)"
  by (auto simp: compiledProgram_def split: option.splits)

section \<open>The properties of an evaluation\<close>

text \<open>
  C8. Whatever the program and the VM do, a price that \<open>Evaluate\<close> returns is not negative, is the sum of its
  lines, and each line can be audited: it has a code and a unit, no code occurs twice, there are
  at most 32 lines, and its amount is the rounded product of its own quantity, rate, block size
  and multiplier. The result carries the hash of the rule's source and of the facts.
\<close>

theorem Evaluate_breakdown:
  assumes "Evaluate vm rule facts = Inr r"
  shows "0 \<le> res_AmountMicros r \<and> res_AmountMicros r \<le> MaxInt64
    \<and> sum_list (map line_AmountMicros (res_Lines r)) = res_AmountMicros r
    \<and> list_all line_ok (res_Lines r) \<and> distinct (map line_Code (res_Lines r)) \<and> length (res_Lines r) \<le> 32
    \<and> res_EngineVersion r = EngineVersionV1 \<and> res_ExpressionHash r = ExpressionHash (rule_Source rule)
    \<and> res_FactsHash r = facts_Hash facts"
proof -
  from assms obtain program out t where p: "compiledProgram rule = Inr program"
    and run: "expr_Run (vm program (factsEnvironment facts)) newEvaluationTrace = (Inr out, t)"
    and chk: "check_result rule facts out t = Inr r" by (rule Evaluate_Inr)
  have t: "trace_ok t" using trace.run_inv [OF newEvaluationTrace_ok, of "vm program (factsEnvironment facts)"] run by simp
  then have "s = sum_list (map line_AmountMicros (tr_lines t))" if "line_total 0 (tr_lines t) = Inr s" for s
    using line_total_sum [of "tr_lines t" 0 s] that by (simp add: trace_ok_def MaxInt64_def)
  then show ?thesis
    using chk t p
    by (elim check_result_Inr)
      (simp add: trace_ok_def maxStaticLines_def compiledProgram_Inr, metis sint64_bounds(1))
qed

definition demo_rule :: "unit CompiledRule" where
  "demo_rule = \<lparr>rule_Source = ''v1: tier(x)'', rule_ExpressionHash = ExpressionHash ''v1: tier(x)'', rule_EngineVersion = 1,
     rule_Analysis = zero_RuleAnalysis, rule_body = ''tier(x)'', rule_program = Some ()\<rparr>"

text \<open>A program that charges 1500000 tokens at 3 micro-units a million and selects a tier with the amount.\<close>

definition demo_vm :: "unit \<Rightarrow> (string, any) gmap \<Rightarrow> vm_run" where
  "demo_vm p env =
     VMCall ''token_line'' [AnyString ''input'', AnyInt64 1500000, AnyInt 3] (\<lambda>r1. case r1 of
       Inl e \<Rightarrow> VMFail e
     | Inr x \<Rightarrow> VMCall ''tier'' [AnyString ''standard'', AnyInt64 (word_of_int x)] (\<lambda>r2. case r2 of
         Inl e \<Rightarrow> VMFail e
       | Inr y \<Rightarrow> VMReturn (AnyInt64 (word_of_int y))))"

lemma demo_cost: "tokenCost 1500000 3 = Inr 5"
proof -
  have "round_half_up (1500000 * 3) 1000000 = 5" by (simp add: round_half_up_def)
  then show ?thesis unfolding tokenCost_def using checkedMulDiv_exact [of 1500000 3 1000000] by (simp add: MaxInt64_def)
qed

lemma demo_short: "TrimSpace ''input'' = ''input''" "TrimSpace ''token'' = ''token''" "TrimSpace ''standard'' = ''standard''"
  "validShortString ''input''" "validShortString ''token''" "validShortString ''standard''"
  by code_simp+

lemma demo_run:
  "expr_Run (demo_vm () env) newEvaluationTrace = (Inr (AnyInt64 5),
     \<lparr>tr_matchedTier = ''standard'', tr_tierAmount = 5,
      tr_lines = [\<lparr>line_Code = ''input'', line_Quantity = 1500000, line_Unit = ''token'', line_UnitsPerBlock = 1000000,
        line_RateMicros = 3, line_MultiplierBPS = 10000, line_AmountMicros = 5\<rparr>], tr_lineCodes = [''input'']\<rparr>)"
  by (simp add: demo_vm_def env_functions_def str_arg_def token_line_def with_trace_def demo_cost addLine_def Let_def
      demo_short newEvaluationTrace_def maxStaticLines_def basisPointsOne_def select_tier_def)

lemma demo_Evaluate:
  "Evaluate demo_vm demo_rule zero_Facts = Inr \<lparr>res_AmountMicros = 5, res_Currency = CurrencyUSD, res_MatchedTier = ''standard'',
     res_Lines = [\<lparr>line_Code = ''input'', line_Quantity = 1500000, line_Unit = ''token'', line_UnitsPerBlock = 1000000,
        line_RateMicros = 3, line_MultiplierBPS = 10000, line_AmountMicros = 5\<rparr>],
     res_EngineVersion = 1, res_ExpressionHash = ExpressionHash ''v1: tier(x)'', res_FactsHash = facts_Hash zero_Facts\<rparr>"
proof -
  have "compiledProgram demo_rule = Inr ()" by (simp add: compiledProgram_Inr demo_rule_def EngineVersionV1_def)
  moreover have "validateFacts zero_Facts [] = None"
    by (simp add: validateFacts_def zero_Facts_def validShortString_def ContainsAny_def)
  moreover have "checkedAdd 0 5 = Inr 5" by (simp add: checkedAdd_def wrap64_def MaxInt64_def)
  ultimately show ?thesis
    by (simp add: Evaluate_def demo_run check_result_def demo_rule_def zero_RuleAnalysis_def)
qed

theorem Evaluate_breakdown_witness:
  "\<exists>r. Evaluate demo_vm demo_rule zero_Facts = Inr r \<and> res_AmountMicros r = 5
    \<and> sum_list (map line_AmountMicros (res_Lines r)) = res_AmountMicros r"
  using Evaluate_breakdown [OF demo_Evaluate] demo_Evaluate by simp

text \<open>
  The price of a rule with tiers is the amount of the one tier the run selected: a result names either that
  tier, and then its amount is the tier's, or \<open>base\<close> when the run selected none; and a call of \<open>tier\<close> once
  a tier is selected fails and leaves the trace as it is.
\<close>

lemma Evaluate_tier:
  assumes "Evaluate vm rule facts = Inr r"
  shows "\<exists>program t out. rule_program rule = Some program
    \<and> expr_Run (vm program (factsEnvironment facts)) newEvaluationTrace = (Inr out, t)
    \<and> (if tr_matchedTier t = [] then res_MatchedTier r = ''base''
       else res_MatchedTier r = tr_matchedTier t \<and> res_AmountMicros r = tr_tierAmount t
         \<and> (\<forall>name v. \<exists>e. select_tier t name v = (Inl e, t)))"
proof -
  from assms obtain program out t where p: "compiledProgram rule = Inr program"
    and run: "expr_Run (vm program (factsEnvironment facts)) newEvaluationTrace = (Inr out, t)"
    and chk: "check_result rule facts out t = Inr r" by (rule Evaluate_Inr)
  have "\<exists>e. select_tier t name v = (Inl e, t)" if "tr_matchedTier t \<noteq> []" for name v
    using that by (cases "pricingInteger v") (simp_all add: select_tier_def with_trace_def Let_def)
  with chk have "if tr_matchedTier t = [] then res_MatchedTier r = ''base''
      else res_MatchedTier r = tr_matchedTier t \<and> res_AmountMicros r = tr_tierAmount t
        \<and> (\<forall>name v. \<exists>e. select_tier t name v = (Inl e, t))"
    by (elim check_result_Inr) auto
  with p run show ?thesis by (auto simp: compiledProgram_Inr)
qed

text \<open>
  The tables agree: the names the analysis allows, the functions the compiler types expressions with and the
  functions an evaluation provides are the same, with the same parameters in the same order, and the facts
  an evaluation provides are the ones the analysis allows.
\<close>

lemma environment_tables:
  "map (\<lambda>(name, f). (name, fun_params f)) env_functions = compileEnvironment
    \<and> map fst compileEnvironment = functionNames \<and> map fst (factsEnvironment facts) = factNames
    \<and> distinct (functionNames @ factNames)"
  by (simp add: env_functions_def compileEnvironment_def functionNames_def factNames_def factsEnvironment_def)

text \<open>
  A rule is not run on facts that cannot price it: with a required fact that the caller says is not
  available, or with a negative quantity, \<open>Evaluate\<close> gives an error, whatever the program would do.
\<close>

lemma Evaluate_needs_facts:
  assumes "(AvailableFacts facts \<noteq> [] \<and> name \<in> set (an_RequiredFacts (rule_Analysis rule))
      \<and> map_of (AvailableFacts facts) name \<noteq> Some True)
    \<or> TotalInputTokens facts < 0 \<or> OutputTokens facts < 0 \<or> OutputCount facts < 0"
  shows "\<exists>err. Evaluate vm rule facts = Inl (PricingError err)
    \<and> err_Code err \<in> {ErrorHashMismatch, ErrorFactInvalid, ErrorFactMissing}"
proof -
  have "validateFacts facts (an_RequiredFacts (rule_Analysis rule)) \<noteq> None"
  proof -
    have "\<exists>n. find (\<lambda>n. map_of (AvailableFacts facts) n \<noteq> Some True) (an_RequiredFacts (rule_Analysis rule)) = Some n"
      if "name \<in> set (an_RequiredFacts (rule_Analysis rule))" "map_of (AvailableFacts facts) name \<noteq> Some True"
      using that by (metis (mono_tags, lifting) find_None_iff not_None_eq)
    then show ?thesis using assms by (auto simp: validateFacts_def Let_def)
  qed
  moreover have "err_Code e \<in> {ErrorFactInvalid, ErrorFactMissing}" if "validateFacts facts req = Some e" for e req
    using that by (auto simp: validateFacts_def Let_def split: if_splits option.splits)
  moreover have "err_Code e = ErrorHashMismatch" if "compiledProgram rule = Inl e" for e
    using that by (auto simp: compiledProgram_def split: if_splits option.splits)
  ultimately show ?thesis
    by (cases "compiledProgram rule") (auto simp: Evaluate_def split: option.splits)
qed

end
