(* ===== verification/CP_Base.thy ===== *)
theory CP_Base
  imports Pricing_Types
begin

text \<open>
  What the components of the control plane share: the errors of the package (a sentinel is an
  error without a wrapped one, known by its text; \<open>fmt.Errorf\<close> with \<open>%w\<close> wraps one) and small helpers.
\<close>

section \<open>Errors\<close>

definition errors_New :: "string \<Rightarrow> go_error" where
  "errors_New text = ForeignError text None"

text \<open>\<open>fmt.Errorf("%w: detail", err)\<close>\<close>

definition errors_Wrap :: "go_error \<Rightarrow> string \<Rightarrow> go_error" where
  "errors_Wrap err detail = ForeignError (go_error_text err @ '': '' @ detail) (Some err)"

text \<open>\<open>fmt.Errorf("text: %w", err)\<close>\<close>

definition errors_Prefix :: "string \<Rightarrow> go_error \<Rightarrow> go_error" where
  "errors_Prefix text err = ForeignError (text @ '': '' @ go_error_text err) (Some err)"

text \<open>\<open>errors.Join\<close> of an error that may be absent and one that is there; the wrapped error kept is the first.\<close>

definition errors_Join :: "go_error option \<Rightarrow> go_error \<Rightarrow> go_error" where
  "errors_Join a b =
     (case a of None \<Rightarrow> ForeignError (go_error_text b) (Some b)
      | Some err \<Rightarrow> ForeignError (go_error_text err @ NL @ go_error_text b) (Some err))"

fun errors_Is :: "go_error \<Rightarrow> go_error \<Rightarrow> bool" where
  "errors_Is (ForeignError text (Some inner)) target \<longleftrightarrow> ForeignError text (Some inner) = target \<or> errors_Is inner target"
| "errors_Is err target \<longleftrightarrow> err = target"

lemma errors_Is_refl [simp]: "errors_Is err err"
  by (cases "(err, err)" rule: errors_Is.cases) auto

lemma errors_Is_Wrap [simp]: "errors_Is (errors_Wrap err detail) err"
  by (simp add: errors_Wrap_def)

section \<open>Tokens\<close>

definition is_lower_or_digit :: "char \<Rightarrow> bool" where
  "is_lower_or_digit c \<longleftrightarrow> (97 \<le> byte_of c \<and> byte_of c \<le> 122) \<or> (48 \<le> byte_of c \<and> byte_of c \<le> 57)"

text \<open>The characters after the first: \<open>_\<close>, \<open>-\<close> and \<open>:\<close> are allowed too.\<close>

definition is_token_char :: "char \<Rightarrow> bool" where
  "is_token_char c \<longleftrightarrow> is_lower_or_digit c \<or> c \<in> {CHR ''_'', CHR ''-'', CHR '':''}"

definition validGatewayPolicyToken :: "string \<Rightarrow> bool" where
  "validGatewayPolicyToken value \<longleftrightarrow> value \<noteq> [] \<and> length value \<le> 64
     \<and> is_lower_or_digit (hd value) \<and> list_all is_token_char (tl value)"

section \<open>Copies of maps\<close>

definition copy_into :: "('k, 'v) gmap \<Rightarrow> ('k, 'v) gmap \<Rightarrow> ('k, 'v) gmap" where
  "copy_into target source = foldl (\<lambda>m (k, v). mput k v m) target source"

lemma copy_into_append:
  "distinct (map fst (target @ source)) \<Longrightarrow> copy_into target source = target @ source"
proof (induction source arbitrary: target)
  case Nil
  then show ?case by (simp add: copy_into_def)
next
  case (Cons p source)
  obtain k v where p: "p = (k, v)" by (cases p)
  with Cons.prems have "map_of target k = None" by (auto simp: map_of_eq_None_iff)
  then have "mput k v target = target @ [(k, v)]" by (rule mput_fresh)
  then have "copy_into target (p # source) = copy_into (target @ [p]) source" by (simp add: copy_into_def p)
  with Cons show ?case by simp
qed

lemma copy_into_Nil [simp]: "wf_gmap source \<Longrightarrow> copy_into [] source = source"
  using copy_into_append [of "[]" source] by (simp add: wf_gmap_def)

lemma map_of_copy_into: "wf_gmap source \<Longrightarrow> map_of (copy_into target source) = map_of target ++ map_of source"
proof (induction source arbitrary: target)
  case Nil
  then show ?case by (simp add: copy_into_def)
next
  case (Cons p source)
  obtain k v where p: "p = (k, v)" by (cases p)
  have "map_of (copy_into target (p # source)) = map_of (mput k v target) ++ map_of source"
    using Cons by (simp add: copy_into_def p wf_gmap_def)
  moreover have "map_of source k = None" using Cons.prems p by (simp add: wf_gmap_def map_of_eq_None_iff)
  ultimately show ?case by (auto simp: p map_add_def fun_eq_iff split: option.splits)
qed

lemma wf_copy_into: "wf_gmap target \<Longrightarrow> wf_gmap (copy_into target source)"
proof (induction source arbitrary: target)
  case (Cons p source)
  then show ?case by (cases p) (simp add: copy_into_def)
qed (simp add: copy_into_def)

end
