(* ===== verification/Provider_Capacity.thy ===== *)
theory Provider_Capacity
  imports CP_Base
begin

text \<open>
  \<open>internal/controlplane/provider_capacity.go\<close>: leases of the concurrency of a provider account and the
  samples of its request and token rates over the last minute, in memory. The clock is a parameter of
  each operation. A store's lock makes each operation one step.
\<close>

definition ErrProviderCapacityConfig :: go_error where
  "ErrProviderCapacityConfig = errors_New ''invalid provider capacity configuration''"

definition ErrProviderCapacityConflict :: go_error where
  "ErrProviderCapacityConflict = errors_New ''provider capacity lease conflicts with existing state''"

definition providerCapacityRateWindow :: duration where "providerCapacityRateWindow = Minute"
definition providerCapacityLeaseTTL :: duration where "providerCapacityLeaseTTL = 2 * Minute"
definition providerCapacityLeaseGrace :: duration where "providerCapacityLeaseGrace = 2 * Minute"

record ProviderCapacityRequest =
  req_LeaseID :: string
  req_ProviderAccountID :: string
  req_CapacityUnits :: int
  req_ConcurrencyLimit :: int
  req_RPMLimit :: int
  req_TPMLimit :: int
  req_EstimatedTokens :: int
  req_LeaseDuration :: duration

record ProviderCapacityLease =
  lease_ID :: string
  lease_ProviderAccountID :: string
  lease_CapacityUnits :: int
  lease_ExpiresAt :: gotime

definition zero_ProviderCapacityLease :: ProviderCapacityLease where
  "zero_ProviderCapacityLease = \<lparr>lease_ID = [], lease_ProviderAccountID = [], lease_CapacityUnits = 0, lease_ExpiresAt = 0\<rparr>"

record ProviderCapacitySnapshot =
  snap_CapacityUnits :: int
  snap_Requests :: int
  snap_Tokens :: int

record providerCapacityRateSample =
  sample_LeaseID :: string
  sample_At :: gotime
  sample_EstimatedTokens :: int

record MemoryProviderCapacityStore =
  leases :: "(string, ProviderCapacityLease) gmap"
  samples :: "(string, providerCapacityRateSample list) gmap"

definition NewMemoryProviderCapacityStore :: MemoryProviderCapacityStore where
  "NewMemoryProviderCapacityStore = \<lparr>leases = [], samples = []\<rparr>"

definition samples_of :: "MemoryProviderCapacityStore \<Rightarrow> string \<Rightarrow> providerCapacityRateSample list" where
  "samples_of store account = (case map_of (samples store) account of None \<Rightarrow> [] | Some xs \<Rightarrow> xs)"

section \<open>Validation\<close>

definition validateProviderCapacityRequest :: "ProviderCapacityRequest \<Rightarrow> go_error option" where
  "validateProviderCapacityRequest request =
     (if TrimSpace (req_LeaseID request) = [] \<or> TrimSpace (req_ProviderAccountID request) = []
        \<or> req_CapacityUnits request \<le> 0 \<or> req_LeaseDuration request \<le> 0 \<or> req_ConcurrencyLimit request < 0
        \<or> req_RPMLimit request < 0 \<or> req_TPMLimit request < 0 \<or> req_EstimatedTokens request < 0
      then Some ErrProviderCapacityConfig else None)"

definition validateProviderCapacityLease :: "ProviderCapacityLease \<Rightarrow> go_error option" where
  "validateProviderCapacityLease lease =
     (if TrimSpace (lease_ID lease) = [] \<or> TrimSpace (lease_ProviderAccountID lease) = [] \<or> lease_CapacityUnits lease \<le> 0
      then Some ErrProviderCapacityConfig else None)"

section \<open>Pruning and the snapshot\<close>

definition pruneLocked :: "string \<Rightarrow> gotime \<Rightarrow> MemoryProviderCapacityStore \<Rightarrow> MemoryProviderCapacityStore" where
  "pruneLocked providerAccountID now store =
     (let cutoff = now - providerCapacityRateWindow
      in store\<lparr>leases := filter (\<lambda>(id, lease). \<not> (lease_ProviderAccountID lease = providerAccountID \<and> \<not> lease_ExpiresAt lease > now))
                 (leases store),
               samples := mput providerAccountID
                 (filter (\<lambda>sample. sample_At sample > cutoff) (samples_of store providerAccountID)) (samples store)\<rparr>)"

fun sum_units :: "string \<Rightarrow> int \<Rightarrow> ProviderCapacityLease list \<Rightarrow> int" where
  "sum_units account acc [] = acc"
| "sum_units account acc (lease # ls) =
     sum_units account
       (if lease_ProviderAccountID lease = account then wrap64 (acc + lease_CapacityUnits lease) else acc) ls"

fun sum_tokens :: "int \<Rightarrow> providerCapacityRateSample list \<Rightarrow> int" where
  "sum_tokens acc [] = acc"
| "sum_tokens acc (sample # ss) = sum_tokens (wrap64 (acc + sample_EstimatedTokens sample)) ss"

definition snapshotLocked :: "string \<Rightarrow> MemoryProviderCapacityStore \<Rightarrow> ProviderCapacitySnapshot" where
  "snapshotLocked providerAccountID store =
     \<lparr>snap_CapacityUnits = sum_units providerAccountID 0 (mvalues (leases store)),
      snap_Requests = int (length (samples_of store providerAccountID)),
      snap_Tokens = sum_tokens 0 (samples_of store providerAccountID)\<rparr>"

section \<open>The operations\<close>

text \<open>The results in the order of the code: the lease, the reason, whether it was granted, the error.\<close>

definition Acquire ::
  "gotime \<Rightarrow> ProviderCapacityRequest \<Rightarrow> MemoryProviderCapacityStore
    \<Rightarrow> (ProviderCapacityLease \<times> string \<times> bool \<times> go_error option) \<times> MemoryProviderCapacityStore" where
  "Acquire now request0 store0 =
     (case validateProviderCapacityRequest request0 of
        Some err \<Rightarrow> ((zero_ProviderCapacityLease, [], False, Some err), store0)
      | None \<Rightarrow>
          (let request = request0\<lparr>req_LeaseID := TrimSpace (req_LeaseID request0),
                 req_ProviderAccountID := TrimSpace (req_ProviderAccountID request0)\<rparr>;
               account = req_ProviderAccountID request;
               store = pruneLocked account now store0
           in case map_of (leases store) (req_LeaseID request) of
                Some current \<Rightarrow>
                  if lease_ProviderAccountID current \<noteq> account \<or> lease_CapacityUnits current \<noteq> req_CapacityUnits request
                  then ((zero_ProviderCapacityLease, [], False, Some ErrProviderCapacityConflict), store)
                  else if now + req_LeaseDuration request > lease_ExpiresAt current
                  then (let current = current\<lparr>lease_ExpiresAt := now + req_LeaseDuration request\<rparr>
                        in ((current, [], True, None), store\<lparr>leases := mput (lease_ID current) current (leases store)\<rparr>))
                  else ((current, [], True, None), store)
              | None \<Rightarrow>
                  (let snapshot = snapshotLocked account store
                   in if req_ConcurrencyLimit request > 0
                        \<and> wrap64 (snap_CapacityUnits snapshot + req_CapacityUnits request) > req_ConcurrencyLimit request
                      then ((zero_ProviderCapacityLease, ''concurrency_exhausted'', False, None), store)
                      else if req_RPMLimit request > 0 \<and> snap_Requests snapshot \<ge> req_RPMLimit request
                      then ((zero_ProviderCapacityLease, ''rpm_exhausted'', False, None), store)
                      else if req_TPMLimit request > 0
                        \<and> wrap64 (snap_Tokens snapshot + req_EstimatedTokens request) > req_TPMLimit request
                      then ((zero_ProviderCapacityLease, ''tpm_exhausted'', False, None), store)
                      else
                        (let lease = \<lparr>lease_ID = req_LeaseID request, lease_ProviderAccountID = account,
                               lease_CapacityUnits = req_CapacityUnits request, lease_ExpiresAt = now + req_LeaseDuration request\<rparr>;
                             store1 = store\<lparr>leases := mput (lease_ID lease) lease (leases store)\<rparr>;
                             store2 = (if req_RPMLimit request > 0 \<or> req_TPMLimit request > 0
                               then store1\<lparr>samples := mput account (samples_of store1 account @
                                 [\<lparr>sample_LeaseID = lease_ID lease, sample_At = now, sample_EstimatedTokens = req_EstimatedTokens request\<rparr>])
                                 (samples store1)\<rparr>
                               else store1)
                         in ((lease, [], True, None), store2)))))"

definition Extend ::
  "gotime \<Rightarrow> ProviderCapacityLease \<Rightarrow> duration \<Rightarrow> MemoryProviderCapacityStore
    \<Rightarrow> (ProviderCapacityLease \<times> bool \<times> go_error option) \<times> MemoryProviderCapacityStore" where
  "Extend now lease duration store0 =
     (if validateProviderCapacityLease lease \<noteq> None \<or> duration \<le> 0
      then ((zero_ProviderCapacityLease, False, Some ErrProviderCapacityConfig), store0)
      else
        (let store = pruneLocked (lease_ProviderAccountID lease) now store0
         in case map_of (leases store) (lease_ID lease) of
              None \<Rightarrow> ((zero_ProviderCapacityLease, False, None), store)
            | Some current \<Rightarrow>
                if lease_ProviderAccountID current \<noteq> lease_ProviderAccountID lease \<or> lease_CapacityUnits current \<noteq> lease_CapacityUnits lease
                then ((current, False, None), store)
                else if now + duration > lease_ExpiresAt current
                then (let current = current\<lparr>lease_ExpiresAt := now + duration\<rparr>
                      in ((current, True, None), store\<lparr>leases := mput (lease_ID current) current (leases store)\<rparr>))
                else ((current, True, None), store)))"

definition Restore ::
  "gotime \<Rightarrow> ProviderCapacityLease \<Rightarrow> duration \<Rightarrow> MemoryProviderCapacityStore
    \<Rightarrow> (ProviderCapacityLease \<times> go_error option) \<times> MemoryProviderCapacityStore" where
  "Restore now lease duration store0 =
     (if validateProviderCapacityLease lease \<noteq> None \<or> duration \<le> 0
      then ((zero_ProviderCapacityLease, Some ErrProviderCapacityConfig), store0)
      else
        (let store = pruneLocked (lease_ProviderAccountID lease) now store0
         in if (case map_of (leases store) (lease_ID lease) of
                  None \<Rightarrow> False
                | Some current \<Rightarrow> lease_ProviderAccountID current \<noteq> lease_ProviderAccountID lease
                    \<or> lease_CapacityUnits current \<noteq> lease_CapacityUnits lease)
            then ((zero_ProviderCapacityLease, Some ErrProviderCapacityConflict), store)
            else (let lease = lease\<lparr>lease_ExpiresAt := now + duration\<rparr>
                  in ((lease, None), store\<lparr>leases := mput (lease_ID lease) lease (leases store)\<rparr>))))"

definition Release ::
  "ProviderCapacityLease \<Rightarrow> MemoryProviderCapacityStore \<Rightarrow> go_error option \<times> MemoryProviderCapacityStore" where
  "Release lease store =
     (case validateProviderCapacityLease lease of
        Some err \<Rightarrow> (Some err, store)
      | None \<Rightarrow>
          (case map_of (leases store) (lease_ID lease) of
             None \<Rightarrow> (None, store)
           | Some current \<Rightarrow>
               if lease_ProviderAccountID current \<noteq> lease_ProviderAccountID lease \<or> lease_CapacityUnits current \<noteq> lease_CapacityUnits lease
               then (Some ErrProviderCapacityConflict, store)
               else (None, store\<lparr>leases := mdelete (lease_ID lease) (leases store)\<rparr>)))"

definition Snapshot ::
  "gotime \<Rightarrow> string \<Rightarrow> MemoryProviderCapacityStore
    \<Rightarrow> (ProviderCapacitySnapshot \<times> go_error option) \<times> MemoryProviderCapacityStore" where
  "Snapshot now providerAccountID0 store0 =
     (let providerAccountID = TrimSpace providerAccountID0
      in if providerAccountID = []
         then ((\<lparr>snap_CapacityUnits = 0, snap_Requests = 0, snap_Tokens = 0\<rparr>, Some ErrProviderCapacityConfig), store0)
         else (let store = pruneLocked providerAccountID now store0
               in ((snapshotLocked providerAccountID store, None), store)))"


section \<open>The units in use\<close>

definition units_at :: "string \<Rightarrow> ProviderCapacityLease \<Rightarrow> int" where
  "units_at account lease = (if lease_ProviderAccountID lease = account then lease_CapacityUnits lease else 0)"

definition units_in :: "string \<Rightarrow> MemoryProviderCapacityStore \<Rightarrow> int" where
  "units_in account store = msum (units_at account) (leases store)"

definition store_ok :: "MemoryProviderCapacityStore \<Rightarrow> bool" where
  "store_ok store \<longleftrightarrow> keyed lease_ID (leases store) \<and> list_all (\<lambda>(id, lease). 0 < lease_CapacityUnits lease) (leases store)"

lemma wf_leases: "store_ok store \<Longrightarrow> wf_gmap (leases store)"
  by (auto simp: store_ok_def dest: keyed_wf)

lemma store_ok_units: "store_ok store \<Longrightarrow> list_all (\<lambda>(id, lease). 0 \<le> units_at account lease) (leases store)"
  by (auto simp: store_ok_def list_all_iff units_at_def)

lemma store_ok_prune: "store_ok store \<Longrightarrow> store_ok (pruneLocked account now store)"
  by (auto simp: store_ok_def pruneLocked_def Let_def list_all_iff)

lemma units_prune: "store_ok store \<Longrightarrow> units_in a (pruneLocked account now store) \<le> units_in a store"
  unfolding units_in_def pruneLocked_def Let_def by (simp add: msum_filter_le store_ok_units)

lemma store_ok_put:
  "store_ok store \<Longrightarrow> 0 < lease_CapacityUnits lease \<Longrightarrow> store_ok (store\<lparr>leases := mput (lease_ID lease) lease (leases store)\<rparr>)"
  by (auto simp: store_ok_def list_all_iff set_mput keyed_wf)

lemma store_ok_lookup:
  "store_ok store \<Longrightarrow> map_of (leases store) k = Some lease \<Longrightarrow> lease_ID lease = k \<and> 0 < lease_CapacityUnits lease"
  by (auto simp: store_ok_def list_all_iff dest: keyed_lookup map_of_SomeD)

lemma units_put_fresh:
  "map_of (leases store) (lease_ID lease) = None \<Longrightarrow>
     units_in a (store\<lparr>leases := mput (lease_ID lease) lease (leases store)\<rparr>) = units_in a store + units_at a lease"
  by (simp add: units_in_def msum_mput_fresh)

lemma units_put_same:
  assumes "store_ok store" "map_of (leases store) k = Some current" "units_at a lease = units_at a current"
  shows "units_in a (store\<lparr>leases := mput k lease (leases store)\<rparr>) = units_in a store"
  using assms by (simp add: units_in_def wf_leases msum_mput_some)

lemma store_ok_put_same:
  assumes "store_ok store" "map_of (leases store) k = Some current" "lease_ID lease = lease_ID current"
    "lease_CapacityUnits lease = lease_CapacityUnits current"
  shows "store_ok (store\<lparr>leases := mput k lease (leases store)\<rparr>)"
  using store_ok_put [of store lease] store_ok_lookup [OF assms(1,2)] assms by simp

text \<open>The wrapping sum of the code is the sum, as long as the sum is in range.\<close>

lemma sum_units_exact:
  assumes "list_all (\<lambda>(id, lease). 0 \<le> units_at account lease) m" "0 \<le> acc" "acc + msum (units_at account) m \<le> MaxInt64"
  shows "sum_units account acc (mvalues m) = acc + msum (units_at account) m"
  using assms
proof (induction m arbitrary: acc)
  case Nil
  then show ?case by (simp add: mvalues_def)
next
  case (Cons p m)
  obtain id lease where p: "p = (id, lease)" by (cases p)
  have nn: "0 \<le> units_at account lease" "0 \<le> msum (units_at account) m" using Cons.prems by (auto simp: p msum_nonneg)
  then have "wrap64 (acc + units_at account lease) = acc + units_at account lease"
    using Cons.prems by (intro wrap64_id) (simp add: p int64_defs)
  then have "sum_units account acc (mvalues (p # m)) = sum_units account (acc + units_at account lease) (mvalues m)"
    by (auto simp: p mvalues_def units_at_def)
  with Cons nn show ?case by (simp add: p)
qed

lemma snapshot_exact:
  assumes "store_ok store" "units_in account store \<le> MaxInt64"
  shows "snap_CapacityUnits (snapshotLocked account store) = units_in account store"
  using sum_units_exact [OF store_ok_units [OF assms(1)], of 0 account] assms(2)
  by (simp add: snapshotLocked_def units_in_def)

lemma units_nonneg: "store_ok store \<Longrightarrow> 0 \<le> units_in account store"
  unfolding units_in_def by (rule msum_nonneg) (rule store_ok_units)

section \<open>What the operations keep\<close>

lemmas capacity_defs = Acquire_def Extend_def Release_def Snapshot_def Let_def

lemma Release_ok:
  assumes "store_ok store" "Release lease store = (err, store')"
  shows "store_ok store' \<and> units_in a store' \<le> units_in a store"
proof -
  have "store_ok (store\<lparr>leases := mdelete k (leases store)\<rparr>) \<and> units_in a (store\<lparr>leases := mdelete k (leases store)\<rparr>) \<le> units_in a store"
    if "map_of (leases store) k = Some current" for k current
    using store_ok_lookup [OF assms(1) that] assms(1) that wf_leases [OF assms(1)]
    by (auto simp: store_ok_def units_in_def msum_mdelete list_all_iff set_mdelete units_at_def)
  with assms show ?thesis by (auto simp: Release_def split: option.splits if_splits)
qed

lemma Extend_ok:
  assumes "store_ok store" "Extend now lease d store = (out, store')"
  shows "store_ok store' \<and> units_in a store' \<le> units_in a store"
proof -
  define s where "s = pruneLocked (lease_ProviderAccountID lease) now store"
  have s: "store_ok s" "units_in a s \<le> units_in a store" using assms(1) by (simp_all add: s_def store_ok_prune units_prune)
  have "store_ok (s\<lparr>leases := mput (lease_ID c) (c\<lparr>lease_ExpiresAt := t\<rparr>) (leases s)\<rparr>)
      \<and> units_in a (s\<lparr>leases := mput (lease_ID c) (c\<lparr>lease_ExpiresAt := t\<rparr>) (leases s)\<rparr>) = units_in a s"
    if "map_of (leases s) (lease_ID lease) = Some c" for c t
    using store_ok_put_same [OF s(1), of "lease_ID c" c] units_put_same [OF s(1), of "lease_ID c" c] store_ok_lookup [OF s(1) that] that
    by (simp add: units_at_def)
  then show ?thesis using assms s unfolding Extend_def Let_def s_def [symmetric]
    by (auto split: if_splits option.splits)
qed

lemma Snapshot_ok: "store_ok store \<Longrightarrow> Snapshot now account store = (out, store') \<Longrightarrow> store_ok store' \<and> units_in a store' \<le> units_in a store"
  by (auto simp: Snapshot_def Let_def store_ok_prune units_prune split: if_splits)

lemma validate_request_None:
  "validateProviderCapacityRequest r = None \<Longrightarrow> 0 < req_CapacityUnits r \<and> 0 < req_LeaseDuration r
     \<and> 0 \<le> req_ConcurrencyLimit r \<and> 0 \<le> req_RPMLimit r \<and> 0 \<le> req_TPMLimit r \<and> TrimSpace (req_LeaseID r) \<noteq> []
     \<and> TrimSpace (req_ProviderAccountID r) \<noteq> []"
  by (auto simp: validateProviderCapacityRequest_def split: if_splits)

text \<open>The ways out of \<open>Acquire\<close>: refused, granted again, granted anew.\<close>

lemma Acquire_cases:
  assumes "store_ok store" "Acquire now r store = ((lease, reason, granted, err), store')"
  obtains (refused) "\<not> granted" "store' = store \<or> store' = pruneLocked (TrimSpace (req_ProviderAccountID r)) now store"
  | (again) s current where "granted" "err = None" "s = pruneLocked (TrimSpace (req_ProviderAccountID r)) now store"
      "map_of (leases s) (TrimSpace (req_LeaseID r)) = Some current" "lease_ID current = TrimSpace (req_LeaseID r)"
      "lease_ProviderAccountID current = TrimSpace (req_ProviderAccountID r)" "lease_CapacityUnits current = req_CapacityUnits r"
      "lease = current\<lparr>lease_ExpiresAt := max (lease_ExpiresAt current) (now + req_LeaseDuration r)\<rparr>"
      "store' = s\<lparr>leases := mput (TrimSpace (req_LeaseID r)) lease (leases s)\<rparr> \<or> (store' = s \<and> lease = current)"
  | (fresh) s account where "granted" "err = None" "account = TrimSpace (req_ProviderAccountID r)" "s = pruneLocked account now store"
      "map_of (leases s) (TrimSpace (req_LeaseID r)) = None"
      "lease = \<lparr>lease_ID = TrimSpace (req_LeaseID r), lease_ProviderAccountID = account,
         lease_CapacityUnits = req_CapacityUnits r, lease_ExpiresAt = now + req_LeaseDuration r\<rparr>"
      "0 < req_ConcurrencyLimit r \<longrightarrow> wrap64 (snap_CapacityUnits (snapshotLocked account s) + req_CapacityUnits r) \<le> req_ConcurrencyLimit r"
      "0 < req_RPMLimit r \<longrightarrow> snap_Requests (snapshotLocked account s) < req_RPMLimit r"
      "0 < req_TPMLimit r \<longrightarrow> wrap64 (snap_Tokens (snapshotLocked account s) + req_EstimatedTokens r) \<le> req_TPMLimit r"
      "leases store' = mput (TrimSpace (req_LeaseID r)) lease (leases s)"
      "samples store' = (if 0 < req_RPMLimit r \<or> 0 < req_TPMLimit r then mput account (samples_of s account @
         [\<lparr>sample_LeaseID = TrimSpace (req_LeaseID r), sample_At = now, sample_EstimatedTokens = req_EstimatedTokens r\<rparr>]) (samples s)
         else samples s)"
proof (cases "validateProviderCapacityRequest r")
  case (Some e)
  then show thesis using assms(2) by (intro refused) (auto simp: Acquire_def)
next
  case None
  let ?id = "TrimSpace (req_LeaseID r)" and ?account = "TrimSpace (req_ProviderAccountID r)"
  define s where "s = pruneLocked ?account now store"
  have s: "store_ok s" using assms(1) by (simp add: s_def store_ok_prune)
  note acq = assms(2) [unfolded Acquire_def, simplified None option.case Let_def, simplified, folded s_def]
  show thesis
  proof (cases "map_of (leases s) ?id")
    case (Some current)
    have id: "lease_ID current = ?id" using store_ok_lookup [OF s Some] by simp
    show thesis
    proof (cases "lease_ProviderAccountID current \<noteq> ?account \<or> lease_CapacityUnits current \<noteq> req_CapacityUnits r")
      case True
      with acq Some show thesis by (intro refused) (auto simp: s_def)
    next
      case False
      with acq Some show thesis
        by (intro again [of s current]) (auto simp: id s_def max_def split: if_splits)
    qed
  next
    case new: None
    show thesis
    proof (cases granted)
      case False
      with acq new show thesis by (intro refused) (auto simp: s_def split: if_splits)
    next
      case True
      with acq new show thesis
        by (intro fresh [of ?account s]) (auto simp: s_def samples_of_def split: if_splits)
    qed
  qed
qed


lemma Acquire_ok:
  assumes "store_ok store" "Acquire now r store = ((lease, reason, granted, err), store')" "0 < req_CapacityUnits r \<or> \<not> granted"
  shows "store_ok store' \<and> (units_in a store' \<le> units_in a store
      \<or> (granted \<and> TrimSpace (req_ProviderAccountID r) = a
         \<and> units_in a store' = units_in a (pruneLocked a now store) + req_CapacityUnits r
         \<and> (0 < req_ConcurrencyLimit r \<longrightarrow>
              wrap64 (snap_CapacityUnits (snapshotLocked a (pruneLocked a now store)) + req_CapacityUnits r) \<le> req_ConcurrencyLimit r)))"
  using assms(1,2)
proof (cases rule: Acquire_cases)
  case refused
  then show ?thesis using assms(1) store_ok_prune units_prune by blast
next
  case (again s current)
  have s: "store_ok s" "units_in a s \<le> units_in a store" using assms(1) again by (simp_all add: store_ok_prune units_prune)
  have cur: "map_of (leases s) (TrimSpace (req_LeaseID r)) = Some current" "units_at a lease = units_at a current"
    "lease_ID lease = lease_ID current" "lease_CapacityUnits lease = lease_CapacityUnits current"
    using again by (simp_all add: units_at_def)
  have "store_ok store' \<and> units_in a store' = units_in a s"
    using again(9) s(1) units_put_same [OF s(1) cur(1,2)] store_ok_put_same [OF s(1) cur(1,3,4)] by (elim disjE conjE) simp_all
  with s show ?thesis by simp
next
  case (fresh s account)
  have s: "store_ok s" "units_in a s \<le> units_in a store" using assms(1) fresh by (simp_all add: store_ok_prune units_prune)
  have id: "lease_ID lease = TrimSpace (req_LeaseID r)" using fresh by simp
  have "store_ok (s\<lparr>leases := mput (lease_ID lease) lease (leases s)\<rparr>)"
    using s(1) assms(3) fresh by (intro store_ok_put) simp_all
  then have "store_ok store'" using fresh id by (simp add: store_ok_def)
  moreover have "units_in a store' = units_in a s + units_at a lease"
    using units_put_fresh [of s lease a] fresh id by (simp add: units_in_def)
  ultimately show ?thesis using fresh s by (auto simp: units_at_def)
qed

section \<open>Acquired and restored leases\<close>

text \<open>The units of the leases whose identifiers are not in \<open>E\<close>, the identifiers of the restored leases.\<close>

definition counted :: "string set \<Rightarrow> string \<Rightarrow> ProviderCapacityLease \<Rightarrow> int" where
  "counted E account lease = (if lease_ID lease \<in> E then 0 else units_at account lease)"

definition acquired_units :: "string set \<Rightarrow> string \<Rightarrow> MemoryProviderCapacityStore \<Rightarrow> int" where
  "acquired_units E account store = msum (counted E account) (leases store)"

definition restored_units :: "string set \<Rightarrow> string \<Rightarrow> MemoryProviderCapacityStore \<Rightarrow> int" where
  "restored_units E account store = msum (\<lambda>lease. if lease_ID lease \<in> E then units_at account lease else 0) (leases store)"

lemma units_split: "units_in a store = acquired_units E a store + restored_units E a store"
proof -
  have "msum (units_at a) m = msum (counted E a) m + msum (\<lambda>lease. if lease_ID lease \<in> E then units_at a lease else 0) m" for m :: "(string, ProviderCapacityLease) gmap"
    by (induction m) (auto simp: counted_def)
  then show ?thesis by (simp add: units_in_def acquired_units_def restored_units_def)
qed

lemma counted_pos: "store_ok store \<Longrightarrow> list_all (\<lambda>(id, lease). 0 \<le> counted E a lease) (leases store)"
  using store_ok_units [of store a] by (auto simp: list_all_iff counted_def)

lemma acquired_le: "store_ok store \<Longrightarrow> 0 \<le> acquired_units E a store \<and> acquired_units E a store \<le> units_in a store"
proof -
  assume ok: "store_ok store"
  have "0 \<le> restored_units E a store" unfolding restored_units_def
    using store_ok_units [OF ok, of a] by (intro msum_nonneg) (auto simp: list_all_iff)
  then show ?thesis using units_split [of a store E] msum_nonneg [OF counted_pos [OF ok, of E a]] by (simp add: acquired_units_def)
qed

lemma acquired_prune: "store_ok store \<Longrightarrow> acquired_units E a (pruneLocked account now store) \<le> acquired_units E a store"
  unfolding acquired_units_def pruneLocked_def Let_def by (simp add: msum_filter_le counted_pos)

lemma acquired_put_same:
  assumes "store_ok store" "map_of (leases store) k = Some current" "lease_ID lease = lease_ID current"
    "lease_ProviderAccountID lease = lease_ProviderAccountID current" "lease_CapacityUnits lease = lease_CapacityUnits current"
  shows "acquired_units E a (store\<lparr>leases := mput k lease (leases store)\<rparr>) = acquired_units E a store"
  using assms by (simp add: acquired_units_def wf_leases msum_mput_some counted_def units_at_def)

lemma acquired_put_restored:
  assumes "store_ok store" "map_of (leases store) (lease_ID lease) = None"
  shows "acquired_units (insert (lease_ID lease) E) a (store\<lparr>leases := mput (lease_ID lease) lease (leases store)\<rparr>) \<le> acquired_units E a store"
proof -
  have "msum (counted (insert k E) a) m \<le> msum (counted E a) m" if "list_all (\<lambda>(id, lease). 0 \<le> units_at a lease) m"
    for k and m :: "(string, ProviderCapacityLease) gmap"
    using that by (induction m) (auto simp: counted_def)
  from this [OF store_ok_units [OF assms(1)]] show ?thesis
    using assms(2) by (simp add: acquired_units_def msum_mput_fresh counted_def)
qed

lemma acquired_forget:
  assumes "store_ok store" "map_of (leases store) k = None"
  shows "acquired_units (E - {k}) a store = acquired_units E a store"
proof -
  have "msum (counted (E - {k}) a) m = msum (counted E a) m" if "\<forall>(i, lease) \<in> set m. lease_ID lease \<noteq> k" for m :: "(string, ProviderCapacityLease) gmap"
    using that by (induction m) (auto simp: counted_def)
  moreover have "lease_ID lease \<noteq> k" if "(i, lease) \<in> set (leases store)" for i lease
  proof -
    have "map_of (leases store) i = Some lease" using that wf_leases [OF assms(1)] by (simp add: map_of_in_set)
    then show ?thesis using store_ok_lookup [OF assms(1)] assms(2) by fastforce
  qed
  ultimately show ?thesis by (fastforce simp: acquired_units_def)
qed

lemma Release_acquired:
  assumes "store_ok store" "Release lease store = (err, store')"
  shows "acquired_units E a store' \<le> acquired_units E a store"
proof -
  have "acquired_units E a (store\<lparr>leases := mdelete k (leases store)\<rparr>) \<le> acquired_units E a store"
    if "map_of (leases store) k = Some current" for k current
    using store_ok_lookup [OF assms(1) that] that wf_leases [OF assms(1)]
    by (simp add: acquired_units_def msum_mdelete counted_def units_at_def)
  with assms show ?thesis by (auto simp: Release_def split: option.splits if_splits)
qed

lemma Extend_acquired:
  assumes "store_ok store" "Extend now lease d store = (out, store')"
  shows "acquired_units E a store' \<le> acquired_units E a store"
proof -
  define s where "s = pruneLocked (lease_ProviderAccountID lease) now store"
  have s: "store_ok s" "acquired_units E a s \<le> acquired_units E a store" using assms(1) by (simp_all add: s_def store_ok_prune acquired_prune)
  have "acquired_units E a (s\<lparr>leases := mput (lease_ID c) (c\<lparr>lease_ExpiresAt := t\<rparr>) (leases s)\<rparr>) = acquired_units E a s"
    if "map_of (leases s) (lease_ID lease) = Some c" for c t
    using acquired_put_same [OF s(1), of "lease_ID c" c] store_ok_lookup [OF s(1) that] that by simp
  then show ?thesis using assms s unfolding Extend_def Let_def s_def [symmetric]
    by (auto split: if_splits option.splits)
qed

lemma Snapshot_acquired: "store_ok store \<Longrightarrow> Snapshot now account store = (out, store') \<Longrightarrow> acquired_units E a store' \<le> acquired_units E a store"
  by (auto simp: Snapshot_def Let_def acquired_prune split: if_splits)

text \<open>
  The operations on a store, in any order and at any times, and the identifiers of the leases that \<open>Restore\<close> brought in: it takes back a
  lease of the durable state whatever the limit. A lease that is acquired anew is not a restored one any more. The requests of account
  \<open>a\<close> have limits of their own, none above \<open>limit\<close>, and ask for no more than what the 64-bit sum of the code can hold.
\<close>

inductive capacity_step ::
  "string \<Rightarrow> int \<Rightarrow> MemoryProviderCapacityStore \<times> string set \<Rightarrow> MemoryProviderCapacityStore \<times> string set \<Rightarrow> bool"
  for a limit where
  acquire: "Acquire now r store = ((lease, reason, granted, err), store') \<Longrightarrow>
     (TrimSpace (req_ProviderAccountID r) = a \<Longrightarrow>
        0 < req_ConcurrencyLimit r \<and> req_ConcurrencyLimit r \<le> limit \<and> units_in a store + req_CapacityUnits r \<le> MaxInt64) \<Longrightarrow>
     capacity_step a limit (store, E) (store', if granted
         \<and> map_of (leases (pruneLocked (TrimSpace (req_ProviderAccountID r)) now store)) (TrimSpace (req_LeaseID r)) = None
       then E - {TrimSpace (req_LeaseID r)} else E)"
| restore: "Restore now lease d store = ((lease', err), store') \<Longrightarrow>
     capacity_step a limit (store, E) (store', if err = None
         \<and> map_of (leases (pruneLocked (lease_ProviderAccountID lease) now store)) (lease_ID lease) = None
       then insert (lease_ID lease) E else E)"
| extend: "Extend now lease d store = (out, store') \<Longrightarrow> capacity_step a limit (store, E) (store', E)"
| release: "Release lease store = (err, store') \<Longrightarrow> capacity_step a limit (store, E) (store', E)"
| snapshot: "Snapshot now account store = (out, store') \<Longrightarrow> capacity_step a limit (store, E) (store', E)"

lemma Acquire_units_pos: "Acquire now r store = ((lease, reason, True, err), store') \<Longrightarrow> 0 < req_CapacityUnits r"
  using validate_request_None [of r] by (auto simp: Acquire_def split: option.splits)

text \<open>A lease that is granted anew fits under the limit of its request, with everything that is leased, restored leases included.\<close>

lemma fresh_grant_fits:
  assumes "store_ok store" "Acquire now r store = ((lease, reason, True, err), store')" "TrimSpace (req_ProviderAccountID r) = a"
    "map_of (leases (pruneLocked a now store)) (TrimSpace (req_LeaseID r)) = None"
    "0 < req_ConcurrencyLimit r" "units_in a store + req_CapacityUnits r \<le> MaxInt64"
  shows "units_in a store' \<le> req_ConcurrencyLimit r"
  using assms(1,2)
proof (cases rule: Acquire_cases)
  case (fresh s account)
  note pos = Acquire_units_pos [OF assms(2)]
  have s: "store_ok s" "units_in a s \<le> units_in a store" using assms(1,3) fresh(4) by (simp_all add: store_ok_prune units_prune)
  have "wrap64 (units_in a s + req_CapacityUnits r) = units_in a s + req_CapacityUnits r"
    using pos s assms(6) units_nonneg [OF s(1), of a] by (intro wrap64_id) (simp add: int64_defs)
  moreover have "snap_CapacityUnits (snapshotLocked a s) = units_in a s" using s assms(6) pos by (intro snapshot_exact) linarith+
  ultimately have "units_in a s + req_CapacityUnits r \<le> req_ConcurrencyLimit r" using fresh(3,7) assms(3,5) by simp
  moreover have "units_in a store' = units_in a s + req_CapacityUnits r"
    using fresh(3,5,6,10) assms(3) by (simp add: units_in_def msum_mput_fresh units_at_def)
  ultimately show ?thesis by simp
qed (use assms(3,4) in auto)

lemma Acquire_acquired:
  assumes "store_ok store" "Acquire now r store = ((lease, reason, granted, err), store')"
    "TrimSpace (req_ProviderAccountID r) = a \<Longrightarrow>
        0 < req_ConcurrencyLimit r \<and> req_ConcurrencyLimit r \<le> limit \<and> units_in a store + req_CapacityUnits r \<le> MaxInt64"
    "E' = (if granted \<and> map_of (leases (pruneLocked (TrimSpace (req_ProviderAccountID r)) now store)) (TrimSpace (req_LeaseID r)) = None
       then E - {TrimSpace (req_LeaseID r)} else E)"
  shows "store_ok store' \<and> (acquired_units E' a store' \<le> acquired_units E a store \<or> acquired_units E' a store' \<le> limit)"
proof
  have "0 < req_CapacityUnits r \<or> \<not> granted" using assms(2) Acquire_units_pos by (cases granted) auto
  then show ok': "store_ok store'" using Acquire_ok [OF assms(1,2)] by blast
  from assms(1,2) show "acquired_units E' a store' \<le> acquired_units E a store \<or> acquired_units E' a store' \<le> limit"
  proof (cases rule: Acquire_cases)
    case refused
    then show ?thesis using assms(1,4) acquired_prune by auto
  next
    case (again s current)
    have s: "store_ok s" "acquired_units E a s \<le> acquired_units E a store" using assms(1) again(3) by (simp_all add: store_ok_prune acquired_prune)
    have "acquired_units E a store' = acquired_units E a s"
      using again(9) acquired_put_same [OF s(1) again(4), of lease E a] again(8) by auto
    then show ?thesis using s assms(4) again(3,4) by simp
  next
    case (fresh s account)
    have s: "store_ok s" "acquired_units E a s \<le> acquired_units E a store" using assms(1) fresh(4) by (simp_all add: store_ok_prune acquired_prune)
    have E': "E' = E - {TrimSpace (req_LeaseID r)}" using assms(4) fresh(1,3,4,5) by simp
    show ?thesis
    proof (cases "account = a")
      case True
      have "units_in a store' \<le> req_ConcurrencyLimit r"
        using fresh_grant_fits [OF assms(1), of now r lease reason err store' a] assms(2,3) fresh(1,3,4,5) True by auto
      then show ?thesis using assms(3) fresh(3) True acquired_le [OF ok', of E' a] by auto
    next
      case False
      have "acquired_units E' a store' = acquired_units E' a s"
        using fresh(5,6,10) False by (simp add: acquired_units_def msum_mput_fresh counted_def units_at_def)
      then show ?thesis using s acquired_forget [OF s(1) fresh(5)] E' by simp
    qed
  qed
qed

lemma Restore_acquired:
  assumes "store_ok store" "Restore now lease d store = ((lease', err), store')"
    "E' = (if err = None \<and> map_of (leases (pruneLocked (lease_ProviderAccountID lease) now store)) (lease_ID lease) = None
       then insert (lease_ID lease) E else E)"
  shows "store_ok store' \<and> acquired_units E' a store' \<le> acquired_units E a store"
proof -
  define s where "s = pruneLocked (lease_ProviderAccountID lease) now store"
  have s: "store_ok s" "acquired_units E a s \<le> acquired_units E a store" using assms(1) by (simp_all add: s_def store_ok_prune acquired_prune)
  define l where "l = lease\<lparr>lease_ExpiresAt := now + d\<rparr>"
  consider "store' = store" "err \<noteq> None" | "store' = s" "err \<noteq> None"
    | "store' = s\<lparr>leases := mput (lease_ID l) l (leases s)\<rparr>" "0 < lease_CapacityUnits lease" "err = None"
      "\<forall>c. map_of (leases s) (lease_ID lease) = Some c \<longrightarrow> lease_ProviderAccountID c = lease_ProviderAccountID lease
         \<and> lease_CapacityUnits c = lease_CapacityUnits lease"
    using assms(2) unfolding Restore_def Let_def s_def [symmetric] l_def [symmetric]
    by (auto simp: validateProviderCapacityLease_def split: if_splits option.splits)
  then show ?thesis
  proof cases
    case 3
    have ok': "store_ok store'" using store_ok_put [OF s(1), of l] 3(1,2) by (simp add: l_def)
    show ?thesis
    proof (cases "map_of (leases s) (lease_ID lease)")
      case None
      then have "acquired_units E' a store' \<le> acquired_units E a s"
        using acquired_put_restored [OF s(1), of l E a] 3(1,3) assms(3) by (simp add: s_def l_def)
      then show ?thesis using s ok' by simp
    next
      case (Some c)
      have same: "lease_ID l = lease_ID c" "lease_ProviderAccountID l = lease_ProviderAccountID c" "lease_CapacityUnits l = lease_CapacityUnits c"
        using store_ok_lookup [OF s(1) Some] 3(4) Some by (simp_all add: l_def)
      moreover have "lease_ID l = lease_ID lease" by (simp add: l_def)
      ultimately have "acquired_units E a store' = acquired_units E a s"
        using acquired_put_same [OF s(1) Some same, of E a] 3(1) by simp
      then show ?thesis using s ok' assms(3) Some by (simp add: s_def)
    qed
  qed (use s assms(1,3) in auto)
qed

lemma capacity_step_ok:
  assumes "capacity_step a limit p p'" "store_ok (fst p)"
  shows "store_ok (fst p') \<and> (acquired_units (snd p') a (fst p') \<le> acquired_units (snd p) a (fst p) \<or> acquired_units (snd p') a (fst p') \<le> limit)"
  using assms(1)
proof cases
  case (acquire now r store lease reason granted err store' E)
  then show ?thesis using Acquire_acquired [OF _ acquire(3,4) refl] assms(2) by simp
next
  case (restore now lease d store lease' err store' E)
  then show ?thesis using Restore_acquired [OF _ restore(3) refl] assms(2) by simp
next
  case (extend now lease d store out store' E)
  then show ?thesis using Extend_ok [OF _ extend(3), of a] Extend_acquired [OF _ extend(3), of E a] assms(2) by simp
next
  case (release lease store err store' E)
  then show ?thesis using Release_ok [OF _ release(3), of a] Release_acquired [OF _ release(3), of E a] assms(2) by simp
next
  case (snapshot now account store out store' E)
  then show ?thesis using Snapshot_ok [OF _ snapshot(3), of a] Snapshot_acquired [OF _ snapshot(3), of E a] assms(2) by simp
qed

interpretation capacity: bounded_resource "capacity_step a limit" "\<lambda>p. store_ok (fst p)" "\<lambda>p. acquired_units (snd p) a (fst p)" limit for a limit
  by unfold_locales (blast dest: capacity_step_ok)+

lemma new_store_ok: "store_ok NewMemoryProviderCapacityStore" "acquired_units E a NewMemoryProviderCapacityStore = 0"
  by (simp_all add: store_ok_def NewMemoryProviderCapacityStore_def acquired_units_def)

section \<open>The properties of the capacity store\<close>

text \<open>
  C21. The concurrency limit holds for everything but restored leases: from an empty store, along any sequence of acquisitions,
  restorations, extensions, releases and snapshots of any accounts at any times, where no request of the account has a limit above \<open>limit\<close>
  and none overflows the 64-bit sum, the units leased on the account exceed \<open>limit\<close> at most by those of its leases that \<open>Restore\<close> took back.
  In every state reached so, a lease is granted anew only if all the units then leased, restored ones included, are within the limit of its
  own request; and while the sum is in range the snapshot of the code counts exactly the units leased.
\<close>

theorem capacity_within_limit:
  assumes "0 \<le> limit" "(capacity_step a limit)\<^sup>*\<^sup>* (NewMemoryProviderCapacityStore, {}) (store, E)"
  shows "0 \<le> units_in a store \<and> units_in a store \<le> limit + restored_units E a store
    \<and> (units_in a store \<le> MaxInt64 \<longrightarrow> snap_CapacityUnits (snapshotLocked a store) = units_in a store)
    \<and> (\<forall>now r lease reason err store'. Acquire now r store = ((lease, reason, True, err), store') \<and> TrimSpace (req_ProviderAccountID r) = a
         \<and> map_of (leases (pruneLocked a now store)) (TrimSpace (req_LeaseID r)) = None
         \<and> 0 < req_ConcurrencyLimit r \<and> units_in a store + req_CapacityUnits r \<le> MaxInt64
         \<longrightarrow> units_in a store' \<le> req_ConcurrencyLimit r)"
proof -
  have "store_ok store \<and> acquired_units E a store \<le> limit"
    using capacity.run_bounded [OF assms(2)] assms(1) by (simp add: new_store_ok)
  moreover from this have "units_in a store \<le> limit + restored_units E a store" using units_split [of a store E] by simp
  ultimately show ?thesis using snapshot_exact [of store a] units_nonneg [of store a] fresh_grant_fits by blast
qed

definition demo_request :: ProviderCapacityRequest where
  "demo_request = \<lparr>req_LeaseID = ''lease-1'', req_ProviderAccountID = ''acct'', req_CapacityUnits = 1, req_ConcurrencyLimit = 1,
     req_RPMLimit = 2, req_TPMLimit = 0, req_EstimatedTokens = 10, req_LeaseDuration = Minute\<rparr>"

definition demo_lease :: ProviderCapacityLease where
  "demo_lease = \<lparr>lease_ID = ''lease-1'', lease_ProviderAccountID = ''acct'', lease_CapacityUnits = 1, lease_ExpiresAt = Minute\<rparr>"

definition demo_store :: MemoryProviderCapacityStore where
  "demo_store = \<lparr>leases = [(''lease-1'', demo_lease)],
     samples = [(''acct'', [\<lparr>sample_LeaseID = ''lease-1'', sample_At = 0, sample_EstimatedTokens = 10\<rparr>])]\<rparr>"

lemma demo_Acquire: "Acquire 0 demo_request NewMemoryProviderCapacityStore = ((demo_lease, [], True, None), demo_store)"
  by code_simp

definition demo_durable :: ProviderCapacityLease where
  "demo_durable = \<lparr>lease_ID = ''lease-2'', lease_ProviderAccountID = ''acct'', lease_CapacityUnits = 1, lease_ExpiresAt = 0\<rparr>"

definition demo_restored :: MemoryProviderCapacityStore where
  "demo_restored = demo_store\<lparr>leases := [(''lease-1'', demo_lease), (''lease-2'', demo_durable\<lparr>lease_ExpiresAt := Minute\<rparr>)]\<rparr>"

lemma demo_Restore: "Restore 0 demo_durable Minute demo_store = ((demo_durable\<lparr>lease_ExpiresAt := Minute\<rparr>, None), demo_restored)"
  by code_simp

text \<open>A lease is acquired under the limit 1 and another one is restored: two units are leased, one of them restored.\<close>

theorem capacity_within_limit_witness:
  "units_in ''acct'' demo_restored = 2 \<and> restored_units {''lease-2''} ''acct'' demo_restored = 1
    \<and> units_in ''acct'' demo_restored \<le> 1 + restored_units {''lease-2''} ''acct'' demo_restored
    \<and> snap_CapacityUnits (snapshotLocked ''acct'' demo_restored) = units_in ''acct'' demo_restored"
proof -
  have found: "map_of (leases (pruneLocked ''acct'' 0 demo_store)) ''lease-2'' = None" by code_simp
  have none: "units_in ''acct'' NewMemoryProviderCapacityStore = 0" by (simp add: units_in_def NewMemoryProviderCapacityStore_def)
  have "capacity_step ''acct'' 1 (NewMemoryProviderCapacityStore, {}) (demo_store, {})"
    using capacity_step.acquire [OF demo_Acquire, of "''acct''" 1 "{}"]
    by (simp add: demo_request_def MaxInt64_def none cong: if_cong)
  moreover have "capacity_step ''acct'' 1 (demo_store, {}) (demo_restored, {''lease-2''})"
    using capacity_step.restore [OF demo_Restore, of "''acct''" 1 "{}"] found by (simp add: demo_durable_def)
  ultimately have "(capacity_step ''acct'' 1)\<^sup>*\<^sup>* (NewMemoryProviderCapacityStore, {}) (demo_restored, {''lease-2''})"
    by (meson rtranclp.rtrancl_refl rtranclp.rtrancl_into_rtrancl)
  note run = capacity_within_limit [OF _ this]
  have units: "units_in ''acct'' demo_restored = 2" "restored_units {''lease-2''} ''acct'' demo_restored = 1"
    by (simp_all add: units_in_def restored_units_def demo_restored_def units_at_def demo_lease_def demo_durable_def)
  show ?thesis using run units by (simp add: MaxInt64_def)
qed

text \<open>
  A lease is held once and given back: a granted lease is in the store with the units asked for; asking for it
  again before it expires grants the same lease, with the later expiry, and counts no unit twice; and its release takes exactly
  its units away and nothing else.
\<close>

lemma Acquire_again_Release:
  assumes "store_ok store" "Acquire now r store = ((lease, reason, True, err), store')"
  shows "err = None \<and> map_of (leases store') (TrimSpace (req_LeaseID r)) = Some lease
    \<and> lease_CapacityUnits lease = req_CapacityUnits r
    \<and> (\<forall>t. t < lease_ExpiresAt lease \<longrightarrow>
        (\<exists>store2. Acquire t r store' = ((lease\<lparr>lease_ExpiresAt := max (lease_ExpiresAt lease) (t + req_LeaseDuration r)\<rparr>, [], True, None), store2)
           \<and> units_in (TrimSpace (req_ProviderAccountID r)) store2 \<le> units_in (TrimSpace (req_ProviderAccountID r)) store'))
    \<and> (\<exists>store3. Release lease store' = (None, store3) \<and> map_of (leases store3) = (map_of (leases store'))(lease_ID lease := None)
        \<and> units_in (TrimSpace (req_ProviderAccountID r)) store3
            = units_in (TrimSpace (req_ProviderAccountID r)) store' - req_CapacityUnits r)"
proof -
  let ?id = "TrimSpace (req_LeaseID r)" and ?a = "TrimSpace (req_ProviderAccountID r)"
  have valid: "validateProviderCapacityRequest r = None" using assms(2) by (auto simp: Acquire_def split: option.splits)
  have pos: "0 < req_CapacityUnits r" using assms(2) by (rule Acquire_units_pos)
  have ok': "store_ok store'" using Acquire_ok [OF assms] pos by blast
  have lease: "err = None \<and> map_of (leases store') ?id = Some lease \<and> lease_ID lease = ?id
      \<and> lease_ProviderAccountID lease = ?a \<and> lease_CapacityUnits lease = req_CapacityUnits r"
    using assms by (cases rule: Acquire_cases) auto
  have "\<exists>store2. Acquire t r store' = ((lease\<lparr>lease_ExpiresAt := max (lease_ExpiresAt lease) (t + req_LeaseDuration r)\<rparr>, [], True, None), store2)
      \<and> units_in ?a store2 \<le> units_in ?a store'" if t: "t < lease_ExpiresAt lease" for t
  proof -
    have kept: "map_of (leases (pruneLocked ?a t store')) ?id = Some lease"
      using lease t wf_leases [OF ok'] by (simp add: pruneLocked_def map_of_in_set)
    define s where "s = pruneLocked ?a t store'"
    have s: "store_ok s" "units_in ?a s \<le> units_in ?a store'" using ok' by (simp_all add: s_def store_ok_prune units_prune)
    have "units_in ?a (s\<lparr>leases := mput ?id (lease\<lparr>lease_ExpiresAt := e\<rparr>) (leases s)\<rparr>) = units_in ?a s" for e
      using kept by (intro units_put_same [OF s(1)]) (auto simp: s_def units_at_def)
    with s kept lease show ?thesis
      unfolding Acquire_def valid Let_def s_def by (simp add: max_def)
  qed
  moreover have "\<exists>store3. Release lease store' = (None, store3) \<and> map_of (leases store3) = (map_of (leases store'))(lease_ID lease := None)
      \<and> units_in ?a store3 = units_in ?a store' - req_CapacityUnits r"
  proof -
    have "validateProviderCapacityLease lease = None"
      using lease pos validate_request_None [OF valid] by (simp add: validateProviderCapacityLease_def)
    then show ?thesis using lease wf_leases [OF ok']
      by (simp add: Release_def map_of_mdelete units_in_def msum_mdelete units_at_def)
  qed
  ultimately show ?thesis using lease by blast
qed

text \<open>
  The rate limits hold: after a lease is granted anew under a request limit, the account has at most that many samples in the
  window, all of the last minute; and under a token limit the tokens of the window, as the code sums
  them, are within it.
\<close>

lemma Acquire_rate_limits:
  assumes "Acquire now r store = ((lease, reason, True, err), store')" "store_ok store"
    and "map_of (leases (pruneLocked (TrimSpace (req_ProviderAccountID r)) now store)) (TrimSpace (req_LeaseID r)) = None"
  shows "let a = TrimSpace (req_ProviderAccountID r) in
    (0 < req_RPMLimit r \<longrightarrow> snap_Requests (snapshotLocked a store') \<le> req_RPMLimit r)
    \<and> (0 < req_TPMLimit r \<longrightarrow> snap_Tokens (snapshotLocked a store') \<le> req_TPMLimit r)
    \<and> list_all (\<lambda>sample. now - Minute < sample_At sample) (samples_of store' a)"
proof -
  have tokens: "sum_tokens acc (xs @ [x]) = wrap64 (sum_tokens acc xs + sample_EstimatedTokens x)" for acc xs x
    by (induction xs arbitrary: acc) auto
  have window: "list_all (\<lambda>sample. now - Minute < sample_At sample) (samples_of (pruneLocked a now store) a)" for a
    by (simp add: pruneLocked_def samples_of_def Let_def providerCapacityRateWindow_def list_all_iff)
  from assms(2,1) show ?thesis
  proof (cases rule: Acquire_cases)
    case (fresh s account)
    then show ?thesis using window [of account]
      by (auto simp: snapshotLocked_def samples_of_def tokens Let_def)
  qed (use assms(3) in auto)
qed

end
