(* ===== verification/AI_Job_Model.thy ===== *)
theory AI_Job_Model
  imports CP_Base
begin

text \<open>
  \<open>internal/controlplane/ai_job_model.go\<close> and \<open>ai_job_admission.go\<close>: durable jobs, their statuses and
  events, the transitions between statuses, the ownership check, and the limits on queued jobs.
\<close>

named_theorems job_consts \<open>the string constants of jobs\<close>

definition ErrAIJobIdempotencyRequired :: go_error where
  "ErrAIJobIdempotencyRequired = errors_New ''durable job creation requires an idempotency key''"
definition ErrAIJobNotCancelable :: go_error where
  "ErrAIJobNotCancelable = errors_New ''ai job is not cancelable''"
definition ErrAIJobStateConflict :: go_error where
  "ErrAIJobStateConflict = errors_New ''ai job state changed concurrently''"
definition ErrAIJobCapabilityMismatch :: go_error where
  "ErrAIJobCapabilityMismatch = errors_New ''gateway model does not support the requested job capability''"

definition AIJobStatusAccepted :: string where
  [job_consts]: "AIJobStatusAccepted = ''accepted''"
definition AIJobStatusQueued :: string where
  [job_consts]: "AIJobStatusQueued = ''queued''"
definition AIJobStatusDispatching :: string where
  [job_consts]: "AIJobStatusDispatching = ''dispatching''"
definition AIJobStatusRunning :: string where
  [job_consts]: "AIJobStatusRunning = ''running''"
definition AIJobStatusCanceling :: string where
  [job_consts]: "AIJobStatusCanceling = ''canceling''"
definition AIJobStatusCanceled :: string where
  [job_consts]: "AIJobStatusCanceled = ''canceled''"
definition AIJobStatusSucceeded :: string where
  [job_consts]: "AIJobStatusSucceeded = ''succeeded''"
definition AIJobStatusFailed :: string where
  [job_consts]: "AIJobStatusFailed = ''failed''"
definition AIJobStatusUnknown :: string where
  [job_consts]: "AIJobStatusUnknown = ''unknown''"
definition AIJobStatusExpired :: string where
  [job_consts]: "AIJobStatusExpired = ''expired''"

definition AIJobEventQueued :: string where
  [job_consts]: "AIJobEventQueued = ''job.queued''"
definition AIJobEventScheduled :: string where
  [job_consts]: "AIJobEventScheduled = ''job.scheduled''"
definition AIJobEventRunning :: string where
  [job_consts]: "AIJobEventRunning = ''job.running''"
definition AIJobEventCancelling :: string where
  [job_consts]: "AIJobEventCancelling = ''job.cancelling''"
definition AIJobEventCancelled :: string where
  [job_consts]: "AIJobEventCancelled = ''job.cancelled''"
definition AIJobEventCompleted :: string where
  [job_consts]: "AIJobEventCompleted = ''job.completed''"
definition AIJobEventFailed :: string where
  [job_consts]: "AIJobEventFailed = ''job.failed''"
definition AIJobEventUnknown :: string where
  [job_consts]: "AIJobEventUnknown = ''job.unknown''"
definition AIJobEventExpired :: string where
  [job_consts]: "AIJobEventExpired = ''job.expired''"
definition AIJobEventLeaseReassigned :: string where
  [job_consts]: "AIJobEventLeaseReassigned = ''job.lease.reassigned''"
definition AIJobEventProgress :: string where
  [job_consts]: "AIJobEventProgress = ''job.progress''"

definition AIJobOutboxAggregate :: string where
  [job_consts]: "AIJobOutboxAggregate = ''ai_job''"
definition AIJobDefaultTTL :: duration where "AIJobDefaultTTL = 24 * Hour"
definition AIJobDefaultPollAfter :: int where "AIJobDefaultPollAfter = 2"
definition AIJobDefaultRetryAfter :: duration where "AIJobDefaultRetryAfter = 5 * Second"

definition AIJobStatuses :: "string list" where
  "AIJobStatuses = [AIJobStatusAccepted, AIJobStatusQueued, AIJobStatusDispatching, AIJobStatusRunning, AIJobStatusCanceling, AIJobStatusCanceled, AIJobStatusSucceeded, AIJobStatusFailed, AIJobStatusUnknown, AIJobStatusExpired]"

lemma AIJobStatuses_distinct: "distinct AIJobStatuses"
  by (simp add: AIJobStatuses_def job_consts)

lemma job_status_distinct [simp]:
  "AIJobStatusAccepted \<noteq> AIJobStatusQueued"
  "AIJobStatusAccepted \<noteq> AIJobStatusDispatching"
  "AIJobStatusAccepted \<noteq> AIJobStatusRunning"
  "AIJobStatusAccepted \<noteq> AIJobStatusCanceling"
  "AIJobStatusAccepted \<noteq> AIJobStatusCanceled"
  "AIJobStatusAccepted \<noteq> AIJobStatusSucceeded"
  "AIJobStatusAccepted \<noteq> AIJobStatusFailed"
  "AIJobStatusAccepted \<noteq> AIJobStatusUnknown"
  "AIJobStatusAccepted \<noteq> AIJobStatusExpired"
  "AIJobStatusQueued \<noteq> AIJobStatusAccepted"
  "AIJobStatusQueued \<noteq> AIJobStatusDispatching"
  "AIJobStatusQueued \<noteq> AIJobStatusRunning"
  "AIJobStatusQueued \<noteq> AIJobStatusCanceling"
  "AIJobStatusQueued \<noteq> AIJobStatusCanceled"
  "AIJobStatusQueued \<noteq> AIJobStatusSucceeded"
  "AIJobStatusQueued \<noteq> AIJobStatusFailed"
  "AIJobStatusQueued \<noteq> AIJobStatusUnknown"
  "AIJobStatusQueued \<noteq> AIJobStatusExpired"
  "AIJobStatusDispatching \<noteq> AIJobStatusAccepted"
  "AIJobStatusDispatching \<noteq> AIJobStatusQueued"
  "AIJobStatusDispatching \<noteq> AIJobStatusRunning"
  "AIJobStatusDispatching \<noteq> AIJobStatusCanceling"
  "AIJobStatusDispatching \<noteq> AIJobStatusCanceled"
  "AIJobStatusDispatching \<noteq> AIJobStatusSucceeded"
  "AIJobStatusDispatching \<noteq> AIJobStatusFailed"
  "AIJobStatusDispatching \<noteq> AIJobStatusUnknown"
  "AIJobStatusDispatching \<noteq> AIJobStatusExpired"
  "AIJobStatusRunning \<noteq> AIJobStatusAccepted"
  "AIJobStatusRunning \<noteq> AIJobStatusQueued"
  "AIJobStatusRunning \<noteq> AIJobStatusDispatching"
  "AIJobStatusRunning \<noteq> AIJobStatusCanceling"
  "AIJobStatusRunning \<noteq> AIJobStatusCanceled"
  "AIJobStatusRunning \<noteq> AIJobStatusSucceeded"
  "AIJobStatusRunning \<noteq> AIJobStatusFailed"
  "AIJobStatusRunning \<noteq> AIJobStatusUnknown"
  "AIJobStatusRunning \<noteq> AIJobStatusExpired"
  "AIJobStatusCanceling \<noteq> AIJobStatusAccepted"
  "AIJobStatusCanceling \<noteq> AIJobStatusQueued"
  "AIJobStatusCanceling \<noteq> AIJobStatusDispatching"
  "AIJobStatusCanceling \<noteq> AIJobStatusRunning"
  "AIJobStatusCanceling \<noteq> AIJobStatusCanceled"
  "AIJobStatusCanceling \<noteq> AIJobStatusSucceeded"
  "AIJobStatusCanceling \<noteq> AIJobStatusFailed"
  "AIJobStatusCanceling \<noteq> AIJobStatusUnknown"
  "AIJobStatusCanceling \<noteq> AIJobStatusExpired"
  "AIJobStatusCanceled \<noteq> AIJobStatusAccepted"
  "AIJobStatusCanceled \<noteq> AIJobStatusQueued"
  "AIJobStatusCanceled \<noteq> AIJobStatusDispatching"
  "AIJobStatusCanceled \<noteq> AIJobStatusRunning"
  "AIJobStatusCanceled \<noteq> AIJobStatusCanceling"
  "AIJobStatusCanceled \<noteq> AIJobStatusSucceeded"
  "AIJobStatusCanceled \<noteq> AIJobStatusFailed"
  "AIJobStatusCanceled \<noteq> AIJobStatusUnknown"
  "AIJobStatusCanceled \<noteq> AIJobStatusExpired"
  "AIJobStatusSucceeded \<noteq> AIJobStatusAccepted"
  "AIJobStatusSucceeded \<noteq> AIJobStatusQueued"
  "AIJobStatusSucceeded \<noteq> AIJobStatusDispatching"
  "AIJobStatusSucceeded \<noteq> AIJobStatusRunning"
  "AIJobStatusSucceeded \<noteq> AIJobStatusCanceling"
  "AIJobStatusSucceeded \<noteq> AIJobStatusCanceled"
  "AIJobStatusSucceeded \<noteq> AIJobStatusFailed"
  "AIJobStatusSucceeded \<noteq> AIJobStatusUnknown"
  "AIJobStatusSucceeded \<noteq> AIJobStatusExpired"
  "AIJobStatusFailed \<noteq> AIJobStatusAccepted"
  "AIJobStatusFailed \<noteq> AIJobStatusQueued"
  "AIJobStatusFailed \<noteq> AIJobStatusDispatching"
  "AIJobStatusFailed \<noteq> AIJobStatusRunning"
  "AIJobStatusFailed \<noteq> AIJobStatusCanceling"
  "AIJobStatusFailed \<noteq> AIJobStatusCanceled"
  "AIJobStatusFailed \<noteq> AIJobStatusSucceeded"
  "AIJobStatusFailed \<noteq> AIJobStatusUnknown"
  "AIJobStatusFailed \<noteq> AIJobStatusExpired"
  "AIJobStatusUnknown \<noteq> AIJobStatusAccepted"
  "AIJobStatusUnknown \<noteq> AIJobStatusQueued"
  "AIJobStatusUnknown \<noteq> AIJobStatusDispatching"
  "AIJobStatusUnknown \<noteq> AIJobStatusRunning"
  "AIJobStatusUnknown \<noteq> AIJobStatusCanceling"
  "AIJobStatusUnknown \<noteq> AIJobStatusCanceled"
  "AIJobStatusUnknown \<noteq> AIJobStatusSucceeded"
  "AIJobStatusUnknown \<noteq> AIJobStatusFailed"
  "AIJobStatusUnknown \<noteq> AIJobStatusExpired"
  "AIJobStatusExpired \<noteq> AIJobStatusAccepted"
  "AIJobStatusExpired \<noteq> AIJobStatusQueued"
  "AIJobStatusExpired \<noteq> AIJobStatusDispatching"
  "AIJobStatusExpired \<noteq> AIJobStatusRunning"
  "AIJobStatusExpired \<noteq> AIJobStatusCanceling"
  "AIJobStatusExpired \<noteq> AIJobStatusCanceled"
  "AIJobStatusExpired \<noteq> AIJobStatusSucceeded"
  "AIJobStatusExpired \<noteq> AIJobStatusFailed"
  "AIJobStatusExpired \<noteq> AIJobStatusUnknown"
  using AIJobStatuses_distinct by (simp_all add: AIJobStatuses_def eq_commute)

section \<open>Jobs and events\<close>

record AIJob =
  job_ID :: string
  job_OperationID :: string
  job_ProfileScope :: string
  job_TenantID :: string
  job_CredentialID :: string
  job_CredentialSource :: string
  job_IntegrationID :: string
  job_PrincipalType :: string
  job_PrincipalID :: string
  job_ExternalSubjectReference :: string
  job_RequestFingerprint :: string
  job_IdempotencyKey :: string
  job_Protocol :: string
  job_Operation :: string
  job_Modality :: string
  job_Model :: string
  job_ArtifactPolicy :: string
  job_ArtifactSinkID :: string
  job_RequestPayload :: string
  job_RequestPayloadCiphertext :: string
  job_Status :: string
  job_StatusVersion :: int
  job_Priority :: int
  job_NextEligibleAt :: gotime
  job_QueueLeaseUntil :: "gotime option"
  job_QueueLeaseToken :: string
  job_QueueWorkerID :: string
  job_FenceToken :: int
  job_ErrorType :: string
  job_CreatedAt :: gotime
  job_UpdatedAt :: gotime
  job_CompletedAt :: "gotime option"
  job_ExpiresAt :: gotime

definition zero_AIJob :: AIJob where
  "zero_AIJob = \<lparr>job_ID = [], job_OperationID = [], job_ProfileScope = [], job_TenantID = [], job_CredentialID = [],
     job_CredentialSource = [], job_IntegrationID = [], job_PrincipalType = [], job_PrincipalID = [],
     job_ExternalSubjectReference = [], job_RequestFingerprint = [], job_IdempotencyKey = [], job_Protocol = [],
     job_Operation = [], job_Modality = [], job_Model = [], job_ArtifactPolicy = [], job_ArtifactSinkID = [],
     job_RequestPayload = [], job_RequestPayloadCiphertext = [], job_Status = [], job_StatusVersion = 0, job_Priority = 0,
     job_NextEligibleAt = 0, job_QueueLeaseUntil = None, job_QueueLeaseToken = [], job_QueueWorkerID = [],
     job_FenceToken = 0, job_ErrorType = [], job_CreatedAt = 0, job_UpdatedAt = 0, job_CompletedAt = None, job_ExpiresAt = 0\<rparr>"

record AIJobEvent =
  event_ID :: string
  event_JobID :: string
  event_Version :: int
  event_EventType :: string
  event_FromStatus :: string
  event_ToStatus :: string
  event_Reason :: string
  event_CreatedAt :: gotime

record AIJobOwner =
  owner_ProfileScope :: string
  owner_TenantID :: string
  owner_IntegrationID :: string
  owner_PrincipalType :: string
  owner_PrincipalID :: string
  owner_ExternalSubjectReference :: string

definition aiJobOwnerMatches :: "AIJob \<Rightarrow> AIJobOwner \<Rightarrow> bool" where
  "aiJobOwnerMatches job owner \<longleftrightarrow>
     job_ProfileScope job = owner_ProfileScope owner \<and>
     job_TenantID job = owner_TenantID owner \<and>
     job_IntegrationID job = owner_IntegrationID owner \<and>
     job_PrincipalType job = owner_PrincipalType owner \<and>
     job_PrincipalID job = owner_PrincipalID owner \<and>
     job_ExternalSubjectReference job = owner_ExternalSubjectReference owner"

definition aiJobStatusTransitionAllowed :: "string \<Rightarrow> string \<Rightarrow> string \<Rightarrow> bool" where
  "aiJobStatusTransitionAllowed fromStatus toStatus reason =
     (if fromStatus = AIJobStatusAccepted then toStatus = AIJobStatusQueued \<or> toStatus = AIJobStatusCanceled
      else if fromStatus = AIJobStatusQueued then toStatus = AIJobStatusDispatching \<or> toStatus = AIJobStatusCanceled
      else if fromStatus = AIJobStatusDispatching
      then oneOf toStatus [AIJobStatusQueued, AIJobStatusRunning, AIJobStatusUnknown, AIJobStatusCanceling]
      else if fromStatus = AIJobStatusRunning
      then oneOf toStatus [AIJobStatusSucceeded, AIJobStatusFailed, AIJobStatusCanceling, AIJobStatusUnknown]
      else if fromStatus = AIJobStatusCanceling
      then oneOf toStatus [AIJobStatusCanceled, AIJobStatusSucceeded, AIJobStatusFailed]
      else if fromStatus = AIJobStatusUnknown
      then (if toStatus = AIJobStatusQueued then TrimSpace reason = ''proven_not_created''
            else oneOf toStatus [AIJobStatusRunning, AIJobStatusSucceeded, AIJobStatusFailed])
      else if fromStatus = AIJobStatusSucceeded \<or> fromStatus = AIJobStatusFailed \<or> fromStatus = AIJobStatusCanceled
      then toStatus = AIJobStatusExpired
      else False)"

definition aiJobEventType :: "string \<Rightarrow> string" where
  "aiJobEventType status =
     (if status = AIJobStatusQueued then AIJobEventQueued
      else if status = AIJobStatusDispatching then AIJobEventScheduled
      else if status = AIJobStatusRunning then AIJobEventRunning
      else if status = AIJobStatusCanceling then AIJobEventCancelling
      else if status = AIJobStatusCanceled then AIJobEventCancelled
      else if status = AIJobStatusSucceeded then AIJobEventCompleted
      else if status = AIJobStatusFailed then AIJobEventFailed
      else if status = AIJobStatusUnknown then AIJobEventUnknown
      else if status = AIJobStatusExpired then AIJobEventExpired
      else [])"

definition aiJobTerminalStatus :: "string \<Rightarrow> bool" where
  "aiJobTerminalStatus status = oneOf status [AIJobStatusSucceeded, AIJobStatusFailed, AIJobStatusCanceled, AIJobStatusExpired]"

section \<open>The keys of fairness\<close>

definition aiJobProfileFairKey :: "AIJob \<Rightarrow> string" where
  "aiJobProfileFairKey job = TrimSpace (job_ProfileScope job)"

definition aiJobTenantFairKey :: "AIJob \<Rightarrow> string" where
  "aiJobTenantFairKey job = strings_Join [aiJobProfileFairKey job, TrimSpace (job_TenantID job)] NUL"

definition aiJobPrincipalFairKey :: "AIJob \<Rightarrow> string" where
  "aiJobPrincipalFairKey job = strings_Join [
     aiJobTenantFairKey job, TrimSpace (job_CredentialSource job), TrimSpace (job_IntegrationID job),
     TrimSpace (job_PrincipalType job), TrimSpace (job_PrincipalID job), TrimSpace (job_ExternalSubjectReference job)] NUL"

section \<open>Admission to the queue\<close>

definition ErrAIJobQueueCapacityExceeded :: go_error where
  "ErrAIJobQueueCapacityExceeded = errors_New ''durable ai job queue capacity exceeded''"

record AIJobAdmissionLimits =
  limit_Profile :: int
  limit_Tenant :: int
  limit_Principal :: int

definition limits_validate :: "AIJobAdmissionLimits \<Rightarrow> go_error option" where
  "limits_validate limits =
     (if limit_Profile limits < 0 \<or> limit_Tenant limits < 0 \<or> limit_Principal limits < 0
      then Some (errors_New ''ai job admission limits must be non-negative'') else None)"

definition limits_enabled :: "AIJobAdmissionLimits \<Rightarrow> bool" where
  "limits_enabled limits \<longleftrightarrow> limit_Profile limits > 0 \<or> limit_Tenant limits > 0 \<or> limit_Principal limits > 0"

record aiJobAdmissionCounts =
  count_Profile :: int
  count_Tenant :: int
  count_Principal :: int

definition enforceAIJobAdmissionLimits :: "AIJobAdmissionLimits \<Rightarrow> aiJobAdmissionCounts \<Rightarrow> go_error option" where
  "enforceAIJobAdmissionLimits limits counts =
     (if limit_Profile limits > 0 \<and> count_Profile counts \<ge> limit_Profile limits
      then Some (errors_Wrap ErrAIJobQueueCapacityExceeded ''profile'')
      else if limit_Tenant limits > 0 \<and> count_Tenant counts \<ge> limit_Tenant limits
      then Some (errors_Wrap ErrAIJobQueueCapacityExceeded ''tenant'')
      else if limit_Principal limits > 0 \<and> count_Principal counts \<ge> limit_Principal limits
      then Some (errors_Wrap ErrAIJobQueueCapacityExceeded ''principal'')
      else None)"

definition aiJobCountsTowardQueueAdmission :: "AIJob \<Rightarrow> bool" where
  "aiJobCountsTowardQueueAdmission job = oneOf (job_Status job) [AIJobStatusQueued, AIJobStatusDispatching]"

definition count_job :: "AIJob \<Rightarrow> AIJob \<Rightarrow> aiJobAdmissionCounts \<Rightarrow> aiJobAdmissionCounts" where
  "count_job candidate job counts =
     (if \<not> aiJobCountsTowardQueueAdmission job \<or> TrimSpace (job_ProfileScope job) \<noteq> TrimSpace (job_ProfileScope candidate)
      then counts
      else
        let counts = counts\<lparr>count_Profile := count_Profile counts + 1\<rparr>
        in if TrimSpace (job_TenantID job) \<noteq> TrimSpace (job_TenantID candidate) then counts
           else
             let counts = counts\<lparr>count_Tenant := count_Tenant counts + 1\<rparr>
             in if aiJobPrincipalFairKey job = aiJobPrincipalFairKey candidate
                then counts\<lparr>count_Principal := count_Principal counts + 1\<rparr> else counts)"

definition aiJobAdmissionCountsForJobs :: "(string, AIJob) gmap \<Rightarrow> AIJob \<Rightarrow> aiJobAdmissionCounts" where
  "aiJobAdmissionCountsForJobs jobs candidate =
     foldl (\<lambda>counts job. count_job candidate job counts)
       \<lparr>count_Profile = 0, count_Tenant = 0, count_Principal = 0\<rparr> (mvalues jobs)"

section \<open>The life of a job\<close>

lemma transition_terminal:
  "aiJobTerminalStatus s \<Longrightarrow> aiJobStatusTransitionAllowed s t reason \<longleftrightarrow> t = AIJobStatusExpired \<and> s \<noteq> AIJobStatusExpired"
  by (auto simp: aiJobTerminalStatus_def aiJobStatusTransitionAllowed_def)

lemma transition_no_loop: "\<not> aiJobStatusTransitionAllowed s s reason"
  by (auto simp: aiJobStatusTransitionAllowed_def)

lemma transition_event: "aiJobStatusTransitionAllowed s t reason \<Longrightarrow> aiJobEventType t \<noteq> []"
  by (auto simp: aiJobStatusTransitionAllowed_def aiJobEventType_def job_consts split: if_splits)

text \<open>The statuses a job can reach from a status, by transitions with any reasons.\<close>

inductive status_run :: "string \<Rightarrow> string \<Rightarrow> bool" where
  start: "status_run s s"
| move: "status_run s t \<Longrightarrow> aiJobStatusTransitionAllowed t u reason \<Longrightarrow> status_run s u"

lemma status_run_terminal: "status_run s t \<Longrightarrow> aiJobTerminalStatus s \<Longrightarrow> t = s \<or> t = AIJobStatusExpired"
proof (induction rule: status_run.induct)
  case (move s t u reason)
  then have "aiJobTerminalStatus t" by (auto simp: aiJobTerminalStatus_def)
  with move show ?case using transition_terminal by blast
qed simp

lemma status_run_canceling:
  "status_run s t \<Longrightarrow> s = AIJobStatusCanceling \<Longrightarrow> t = AIJobStatusCanceling \<or> aiJobTerminalStatus t"
proof (induction rule: status_run.induct)
  case (move s t u reason)
  then show ?case
    using transition_terminal [of t u reason] by (auto simp: aiJobStatusTransitionAllowed_def aiJobTerminalStatus_def)
qed simp

text \<open>
  The state machine of a job: no transition leaves a terminal status but to \<open>expired\<close>, and none leaves
  \<open>expired\<close>, so that along any run a job that has succeeded, failed or been cancelled never runs, is queued or
  completes differently; a job being cancelled ends in a terminal status or stays; a job of unknown outcome is queued again only
  when it was proven not to have been created; and each transition has its event.
\<close>

lemma job_lifecycle:
  "(status_run s t \<longrightarrow> aiJobTerminalStatus s \<longrightarrow> t = s \<or> t = AIJobStatusExpired)
    \<and> (status_run AIJobStatusExpired t \<longrightarrow> t = AIJobStatusExpired)
    \<and> (status_run AIJobStatusCanceling t \<longrightarrow> t = AIJobStatusCanceling \<or> aiJobTerminalStatus t)
    \<and> (aiJobStatusTransitionAllowed AIJobStatusUnknown AIJobStatusQueued reason \<longleftrightarrow> TrimSpace reason = ''proven_not_created'')
    \<and> (aiJobStatusTransitionAllowed s t reason \<longrightarrow> s \<noteq> t \<and> aiJobEventType t \<noteq> [])
    \<and> status_run AIJobStatusAccepted AIJobStatusSucceeded"
proof (intro conjI impI)
  show "status_run s t \<Longrightarrow> aiJobTerminalStatus s \<Longrightarrow> t = s \<or> t = AIJobStatusExpired" by (rule status_run_terminal)
  show "status_run AIJobStatusExpired t \<Longrightarrow> t = AIJobStatusExpired"
    using status_run_terminal [of AIJobStatusExpired t] by (simp add: aiJobTerminalStatus_def)
  show "status_run AIJobStatusCanceling t \<Longrightarrow> t = AIJobStatusCanceling \<or> aiJobTerminalStatus t"
    by (drule status_run_canceling) simp_all
  show "aiJobStatusTransitionAllowed AIJobStatusUnknown AIJobStatusQueued reason \<longleftrightarrow> TrimSpace reason = ''proven_not_created''"
    by (simp add: aiJobStatusTransitionAllowed_def)
  show "aiJobStatusTransitionAllowed s t reason \<Longrightarrow> s \<noteq> t" using transition_no_loop by blast
  show "aiJobStatusTransitionAllowed s t reason \<Longrightarrow> aiJobEventType t \<noteq> []" by (rule transition_event)
  have "aiJobStatusTransitionAllowed AIJobStatusAccepted AIJobStatusQueued []"
    "aiJobStatusTransitionAllowed AIJobStatusQueued AIJobStatusDispatching []"
    "aiJobStatusTransitionAllowed AIJobStatusDispatching AIJobStatusRunning []"
    "aiJobStatusTransitionAllowed AIJobStatusRunning AIJobStatusSucceeded []"
    by (simp_all add: aiJobStatusTransitionAllowed_def)
  then show "status_run AIJobStatusAccepted AIJobStatusSucceeded"
    by (meson status_run.start status_run.move)
qed

section \<open>Counting for admission\<close>

definition same_profile :: "AIJob \<Rightarrow> AIJob \<Rightarrow> bool" where
  "same_profile c job \<longleftrightarrow> aiJobCountsTowardQueueAdmission job \<and> TrimSpace (job_ProfileScope job) = TrimSpace (job_ProfileScope c)"

definition same_tenant :: "AIJob \<Rightarrow> AIJob \<Rightarrow> bool" where
  "same_tenant c job \<longleftrightarrow> same_profile c job \<and> TrimSpace (job_TenantID job) = TrimSpace (job_TenantID c)"

definition same_principal :: "AIJob \<Rightarrow> AIJob \<Rightarrow> bool" where
  "same_principal c job \<longleftrightarrow> same_tenant c job \<and> aiJobPrincipalFairKey job = aiJobPrincipalFairKey c"

lemma count_foldl:
  "foldl (\<lambda>counts job. count_job c job counts) counts js =
     \<lparr>count_Profile = count_Profile counts + int (length (filter (same_profile c) js)),
      count_Tenant = count_Tenant counts + int (length (filter (same_tenant c) js)),
      count_Principal = count_Principal counts + int (length (filter (same_principal c) js))\<rparr>"
proof (induction js arbitrary: counts)
  case (Cons job js)
  show ?case
    by (simp add: Cons.IH) (auto simp: count_job_def Let_def same_profile_def same_tenant_def same_principal_def)
qed simp

lemma admission_counts:
  "aiJobAdmissionCountsForJobs jobs c =
     \<lparr>count_Profile = int (length (filter (same_profile c) (mvalues jobs))),
      count_Tenant = int (length (filter (same_tenant c) (mvalues jobs))),
      count_Principal = int (length (filter (same_principal c) (mvalues jobs)))\<rparr>"
  by (simp add: aiJobAdmissionCountsForJobs_def count_foldl)

lemma enforce_None:
  "enforceAIJobAdmissionLimits limits counts = None \<longleftrightarrow>
     (0 < limit_Profile limits \<longrightarrow> count_Profile counts < limit_Profile limits)
     \<and> (0 < limit_Tenant limits \<longrightarrow> count_Tenant counts < limit_Tenant limits)
     \<and> (0 < limit_Principal limits \<longrightarrow> count_Principal counts < limit_Principal limits)"
  by (auto simp: enforceAIJobAdmissionLimits_def)

end
