(* ===== verification/Usage_Dimension.thy ===== *)
theory Usage_Dimension
  imports CP_Base
begin

text \<open>
  \<open>internal/controlplane/usage_dimension.go\<close>: the dimensions of metered usage (images, milliseconds,
  characters, bytes), their normalisation, totals and merge. \<open>nil\<close> and the empty map are both \<open>[]\<close>.
\<close>

definition UsageDimensionInputImages :: string where "UsageDimensionInputImages = ''input_images''"
definition UsageDimensionOutputImages :: string where "UsageDimensionOutputImages = ''output_images''"
definition UsageDimensionPartialImages :: string where "UsageDimensionPartialImages = ''partial_images''"
definition UsageDimensionInputVideoMilliseconds :: string where "UsageDimensionInputVideoMilliseconds = ''input_video_milliseconds''"
definition UsageDimensionOutputVideoMilliseconds :: string where "UsageDimensionOutputVideoMilliseconds = ''output_video_milliseconds''"
definition UsageDimensionInputAudioMilliseconds :: string where "UsageDimensionInputAudioMilliseconds = ''input_audio_milliseconds''"
definition UsageDimensionOutputAudioMilliseconds :: string where "UsageDimensionOutputAudioMilliseconds = ''output_audio_milliseconds''"
definition UsageDimensionRealtimeAudioMilliseconds :: string where "UsageDimensionRealtimeAudioMilliseconds = ''realtime_audio_milliseconds''"
definition UsageDimensionInputCharacters :: string where "UsageDimensionInputCharacters = ''input_characters''"
definition UsageDimensionActions :: string where "UsageDimensionActions = ''actions''"
definition UsageDimensionBatchItems :: string where "UsageDimensionBatchItems = ''batch_items''"
definition UsageDimensionInputBytes :: string where "UsageDimensionInputBytes = ''input_bytes''"
definition UsageDimensionOutputBytes :: string where "UsageDimensionOutputBytes = ''output_bytes''"
definition UsageDimensionTransferBytes :: string where "UsageDimensionTransferBytes = ''transfer_bytes''"
definition UsageDimensionSessionMilliseconds :: string where "UsageDimensionSessionMilliseconds = ''session_milliseconds''"

definition UsageUnitCount :: string where "UsageUnitCount = ''count''"
definition UsageUnitMillisecond :: string where "UsageUnitMillisecond = ''millisecond''"
definition UsageUnitCharacter :: string where "UsageUnitCharacter = ''character''"
definition UsageUnitByte :: string where "UsageUnitByte = ''byte''"

definition UsageConfidenceEstimated :: string where "UsageConfidenceEstimated = ''estimated''"
definition UsageConfidenceObserved :: string where "UsageConfidenceObserved = ''observed''"
definition UsageConfidenceReported :: string where "UsageConfidenceReported = ''reported''"
definition UsageConfidenceReconciled :: string where "UsageConfidenceReconciled = ''reconciled''"

definition ErrUsageDimensionsInvalid :: go_error where
  "ErrUsageDimensionsInvalid = errors_New ''usage dimensions are invalid''"

definition usageDimensionUnits :: "(string, string) gmap" where
  "usageDimensionUnits = [
    (UsageDimensionInputImages, UsageUnitCount),
    (UsageDimensionOutputImages, UsageUnitCount),
    (UsageDimensionPartialImages, UsageUnitCount),
    (UsageDimensionInputVideoMilliseconds, UsageUnitMillisecond),
    (UsageDimensionOutputVideoMilliseconds, UsageUnitMillisecond),
    (UsageDimensionInputAudioMilliseconds, UsageUnitMillisecond),
    (UsageDimensionOutputAudioMilliseconds, UsageUnitMillisecond),
    (UsageDimensionRealtimeAudioMilliseconds, UsageUnitMillisecond),
    (UsageDimensionInputCharacters, UsageUnitCharacter),
    (UsageDimensionActions, UsageUnitCount),
    (UsageDimensionBatchItems, UsageUnitCount),
    (UsageDimensionInputBytes, UsageUnitByte),
    (UsageDimensionOutputBytes, UsageUnitByte),
    (UsageDimensionTransferBytes, UsageUnitByte),
    (UsageDimensionSessionMilliseconds, UsageUnitMillisecond)]"

record UsageDimension =
  dim_Quantity :: int
  dim_Unit :: string
  dim_Source :: string
  dim_Confidence :: string
  dim_ProcurementPriceSnapshotID :: string
  dim_Attributes :: "(string, string) gmap"

type_synonym UsageDimensions = "(string, UsageDimension) gmap"

record UsageDimensionTotals =
  tot_OutputImages :: int
  tot_VideoMilliseconds :: int
  tot_AudioMilliseconds :: int

section \<open>Normalisation\<close>

definition validUsageDimensionToken :: "string \<Rightarrow> bool" where
  "validUsageDimensionToken value \<longleftrightarrow> value \<noteq> [] \<and> length value \<le> 64
     \<and> is_lower_or_digit (hd value) \<and> list_all is_token_char (tl value)"

fun attributes_loop :: "(string, string) gmap \<Rightarrow> (string, string) gmap \<Rightarrow> go_error + (string, string) gmap" where
  "attributes_loop [] normalized = Inr normalized"
| "attributes_loop ((rawKey, rawValue) # values) normalized =
     (let key = ToLower (TrimSpace rawKey);
          value = TrimSpace rawValue
      in if \<not> validUsageDimensionToken key \<or> value = [] \<or> length value > 128 \<or> ContainsAny value (CHR 0x0D # CHR 0x0A # NUL)
         then Inl ErrUsageDimensionsInvalid
         else if mhas normalized key then Inl ErrUsageDimensionsInvalid
         else attributes_loop values (mput key value normalized))"

definition normalizeUsageDimensionAttributes :: "(string, string) gmap \<Rightarrow> go_error + (string, string) gmap" where
  "normalizeUsageDimensionAttributes values =
     (if values = [] then Inr []
      else if length values > 16 then Inl ErrUsageDimensionsInvalid
      else attributes_loop values [])"

text \<open>The body of the loop of \<open>NormalizeUsageDimensions\<close> after the test for a duplicate.\<close>

definition normalize_value :: "string \<Rightarrow> UsageDimension \<Rightarrow> go_error + UsageDimension" where
  "normalize_value name rawValue =
     (let expectedUnit = map_of usageDimensionUnits name;
          value = rawValue\<lparr>dim_Unit := ToLower (TrimSpace (dim_Unit rawValue)),
            dim_Source := ToLower (TrimSpace (dim_Source rawValue)),
            dim_Confidence := ToLower (TrimSpace (dim_Confidence rawValue)),
            dim_ProcurementPriceSnapshotID := TrimSpace (dim_ProcurementPriceSnapshotID rawValue)\<rparr>
      in if expectedUnit = None \<or> dim_Quantity value < 0 \<or> Some (dim_Unit value) \<noteq> expectedUnit
           \<or> \<not> validUsageDimensionToken (dim_Source value)
           \<or> \<not> oneOf (dim_Confidence value)
                [UsageConfidenceEstimated, UsageConfidenceObserved, UsageConfidenceReported, UsageConfidenceReconciled]
           \<or> length (dim_ProcurementPriceSnapshotID value) > 160
         then Inl ErrUsageDimensionsInvalid
         else and_then (normalizeUsageDimensionAttributes (dim_Attributes value)) (\<lambda>attributes.
              Inr (value\<lparr>dim_Attributes := attributes\<rparr>)))"

fun normalize_loop :: "UsageDimensions \<Rightarrow> UsageDimensions \<Rightarrow> go_error + UsageDimensions" where
  "normalize_loop [] normalized = Inr normalized"
| "normalize_loop ((rawName, rawValue) # values) normalized =
     (let name = ToLower (TrimSpace rawName)
      in if mhas normalized name then Inl ErrUsageDimensionsInvalid
         else and_then (normalize_value name rawValue) (\<lambda>value. normalize_loop values (mput name value normalized)))"

definition NormalizeUsageDimensions :: "UsageDimensions \<Rightarrow> go_error + UsageDimensions" where
  "NormalizeUsageDimensions values = (if values = [] then Inr [] else normalize_loop values [])"

section \<open>JSON\<close>

definition dimension_json :: "UsageDimension \<Rightarrow> string" where
  "dimension_json v = json_object (
     [(''quantity'', Itoa (dim_Quantity v)), (''unit'', json_string (dim_Unit v)),
      (''source'', json_string (dim_Source v)), (''confidence'', json_string (dim_Confidence v))]
     @ (if dim_ProcurementPriceSnapshotID v = [] then []
        else [(''procurement_price_snapshot_id'', json_string (dim_ProcurementPriceSnapshotID v))])
     @ (if dim_Attributes v = [] then []
        else [(''attributes'', json_object (map (\<lambda>(k, a). (k, json_string a))
                (sort_slice (\<lambda>a b. fst a < fst b) (dim_Attributes v))))]))"

definition UsageDimensionsJSON :: "UsageDimensions \<Rightarrow> go_error + string" where
  "UsageDimensionsJSON values =
     and_then (NormalizeUsageDimensions values) (\<lambda>normalized.
     Inr (json_object (map (\<lambda>(k, v). (k, dimension_json v)) (sort_slice (\<lambda>a b. fst a < fst b) normalized))))"

definition usageDimensionsEqual :: "UsageDimensions \<Rightarrow> UsageDimensions \<Rightarrow> bool" where
  "usageDimensionsEqual left right =
     (case (UsageDimensionsJSON left, UsageDimensionsJSON right) of
        (Inr leftJSON, Inr rightJSON) \<Rightarrow> leftJSON = rightJSON
      | _ \<Rightarrow> False)"

text \<open>\<open>json.Unmarshal\<close> into a map of dimensions is the parameter \<open>unmarshal\<close>.\<close>

definition ParseUsageDimensionsJSON :: "(string \<Rightarrow> UsageDimensions option) \<Rightarrow> string \<Rightarrow> go_error + UsageDimensions" where
  "ParseUsageDimensionsJSON unmarshal payload0 =
     (let payload = TrimSpace payload0
      in if payload = [] \<or> payload = ''null'' then Inr []
         else (case unmarshal payload of
                 None \<Rightarrow> Inl ErrUsageDimensionsInvalid
               | Some values \<Rightarrow> NormalizeUsageDimensions values))"

section \<open>Totals and merge\<close>

definition usageDimensionQuantity :: "UsageDimensions \<Rightarrow> string \<Rightarrow> int" where
  "usageDimensionQuantity values name =
     (case map_of values name of
        None \<Rightarrow> 0
      | Some value \<Rightarrow> if dim_Quantity value < 0 then 0 else dim_Quantity value)"

definition saturatingUsageAdd :: "int \<Rightarrow> int \<Rightarrow> int" where
  "saturatingUsageAdd left0 right0 =
     (let left = (if left0 < 0 then 0 else left0);
          right = (if right0 < 0 then 0 else right0)
      in if left > wrap64 (MaxInt64 - right) then MaxInt64 else wrap64 (left + right))"

definition UsageDimensionsTotals :: "UsageDimensions \<Rightarrow> UsageDimensionTotals" where
  "UsageDimensionsTotals values =
     \<lparr>tot_OutputImages = usageDimensionQuantity values UsageDimensionOutputImages,
      tot_VideoMilliseconds = saturatingUsageAdd
        (usageDimensionQuantity values UsageDimensionInputVideoMilliseconds)
        (usageDimensionQuantity values UsageDimensionOutputVideoMilliseconds),
      tot_AudioMilliseconds = saturatingUsageAdd
        (saturatingUsageAdd
          (usageDimensionQuantity values UsageDimensionInputAudioMilliseconds)
          (usageDimensionQuantity values UsageDimensionOutputAudioMilliseconds))
        (usageDimensionQuantity values UsageDimensionRealtimeAudioMilliseconds)\<rparr>"

definition cloneUsageDimension :: "UsageDimension \<Rightarrow> UsageDimension" where
  "cloneUsageDimension value =
     (if dim_Attributes value = [] then value\<lparr>dim_Attributes := []\<rparr>
      else value\<lparr>dim_Attributes := copy_into [] (dim_Attributes value)\<rparr>)"

fun merge_loop :: "UsageDimensions \<Rightarrow> UsageDimensions \<Rightarrow> go_error + UsageDimensions" where
  "merge_loop [] merged = Inr merged"
| "merge_loop ((name, value) # values) merged =
     (if (case map_of merged name of Some current \<Rightarrow> dim_Unit current \<noteq> dim_Unit value | None \<Rightarrow> False)
      then Inl ErrUsageDimensionsInvalid
      else merge_loop values (mput name (cloneUsageDimension value) merged))"

definition MergeUsageDimensions :: "UsageDimensions \<Rightarrow> UsageDimensions \<Rightarrow> go_error + UsageDimensions" where
  "MergeUsageDimensions left0 right0 =
     and_then (NormalizeUsageDimensions left0) (\<lambda>left.
     and_then (NormalizeUsageDimensions right0) (\<lambda>right.
     merge_loop right (copy_into [] (map (\<lambda>(name, value). (name, cloneUsageDimension value)) left))))"


section \<open>Normal forms\<close>

definition attribute_ok :: "string \<times> string \<Rightarrow> bool" where
  "attribute_ok p = (case p of (key, w) \<Rightarrow> ToLower (TrimSpace key) = key \<and> TrimSpace w = w
     \<and> validUsageDimensionToken key \<and> w \<noteq> [] \<and> length w \<le> 128 \<and> \<not> ContainsAny w (CHR 0x0D # CHR 0x0A # NUL))"

definition attributes_ok :: "(string, string) gmap \<Rightarrow> bool" where
  "attributes_ok vs \<longleftrightarrow> wf_gmap vs \<and> list_all attribute_ok vs \<and> length vs \<le> 16"

definition dimension_ok :: "string \<times> UsageDimension \<Rightarrow> bool" where
  "dimension_ok p = (case p of (name, w) \<Rightarrow> ToLower (TrimSpace name) = name
     \<and> map_of usageDimensionUnits name = Some (dim_Unit w) \<and> 0 \<le> dim_Quantity w
     \<and> ToLower (TrimSpace (dim_Unit w)) = dim_Unit w
     \<and> ToLower (TrimSpace (dim_Source w)) = dim_Source w \<and> validUsageDimensionToken (dim_Source w)
     \<and> ToLower (TrimSpace (dim_Confidence w)) = dim_Confidence w
     \<and> dim_Confidence w \<in> {UsageConfidenceEstimated, UsageConfidenceObserved, UsageConfidenceReported, UsageConfidenceReconciled}
     \<and> TrimSpace (dim_ProcurementPriceSnapshotID w) = dim_ProcurementPriceSnapshotID w
     \<and> length (dim_ProcurementPriceSnapshotID w) \<le> 160 \<and> attributes_ok (dim_Attributes w))"

definition dimensions_ok :: "UsageDimensions \<Rightarrow> bool" where
  "dimensions_ok vs \<longleftrightarrow> wf_gmap vs \<and> list_all dimension_ok vs"

lemma mput_absent: "\<not> mhas m k \<Longrightarrow> mput k v m = m @ [(k, v)]"
  by (rule mput_fresh) (simp add: mhas_def)

lemma wf_gmap_append1: "wf_gmap (m @ [(k, v)]) \<longleftrightarrow> wf_gmap m \<and> \<not> mhas m k"
  by (auto simp: wf_gmap_def mhas_def map_of_eq_None_iff)

lemma wf_gmap_absent: "wf_gmap (m @ (k, v) # n) \<Longrightarrow> \<not> mhas m k"
  by (auto simp: wf_gmap_def mhas_def map_of_eq_None_iff)

lemma attributes_loop_ok:
  "attributes_loop vs acc = Inr r \<Longrightarrow> wf_gmap acc \<Longrightarrow> list_all attribute_ok acc \<Longrightarrow>
     wf_gmap r \<and> list_all attribute_ok r \<and> length r = length acc + length vs"
  by (induction vs acc rule: attributes_loop.induct)
    (auto simp: Let_def mput_absent wf_gmap_append1 attribute_ok_def split: if_splits)

lemma attributes_loop_fix:
  "wf_gmap (acc @ vs) \<Longrightarrow> list_all attribute_ok vs \<Longrightarrow> attributes_loop vs acc = Inr (acc @ vs)"
proof (induction vs arbitrary: acc)
  case (Cons p vs)
  obtain key w where p: "p = (key, w)" by (cases p)
  have absent: "\<not> mhas acc key" using Cons.prems(1) unfolding p by (rule wf_gmap_absent)
  have "attributes_loop vs (acc @ [(key, w)]) = Inr ((acc @ [(key, w)]) @ vs)"
    using Cons.prems by (intro Cons.IH) (simp_all add: p)
  then show ?case using Cons.prems(2) absent by (simp add: p attribute_ok_def Let_def mput_absent)
qed simp

lemma normalizeAttributes_ok: "normalizeUsageDimensionAttributes vs = Inr r \<Longrightarrow> attributes_ok r"
  using attributes_loop_ok [of vs "[]" r]
  by (auto simp: normalizeUsageDimensionAttributes_def attributes_ok_def split: if_splits)

lemma normalizeAttributes_fix: "attributes_ok vs \<Longrightarrow> normalizeUsageDimensionAttributes vs = Inr vs"
  using attributes_loop_fix [of "[]" vs]
  by (auto simp: normalizeUsageDimensionAttributes_def attributes_ok_def)

lemma confidences [simp]:
  "ToLower (TrimSpace UsageConfidenceEstimated) = UsageConfidenceEstimated"
  "ToLower (TrimSpace UsageConfidenceObserved) = UsageConfidenceObserved"
  "ToLower (TrimSpace UsageConfidenceReported) = UsageConfidenceReported"
  "ToLower (TrimSpace UsageConfidenceReconciled) = UsageConfidenceReconciled"
  by code_simp+

lemma normalize_value_ok:
  "normalize_value name v = Inr r \<Longrightarrow> ToLower (TrimSpace name) = name \<Longrightarrow> dimension_ok (name, r)"
  by (auto simp: normalize_value_def Let_def dimension_ok_def dest: normalizeAttributes_ok split: if_splits)

lemma normalize_value_fix: "dimension_ok (name, v) \<Longrightarrow> normalize_value name v = Inr v"
  by (auto simp: normalize_value_def Let_def dimension_ok_def normalizeAttributes_fix)

lemma normalize_loop_ok:
  "normalize_loop vs acc = Inr r \<Longrightarrow> wf_gmap acc \<Longrightarrow> list_all dimension_ok acc \<Longrightarrow> dimensions_ok r"
proof (induction vs acc rule: normalize_loop.induct)
  case (2 rawName rawValue vs acc)
  from 2(2) obtain w where v: "\<not> mhas acc (ToLower (TrimSpace rawName))"
    "normalize_value (ToLower (TrimSpace rawName)) rawValue = Inr w"
    "normalize_loop vs (mput (ToLower (TrimSpace rawName)) w acc) = Inr r"
    by (auto simp: Let_def split: if_splits)
  have "dimension_ok (ToLower (TrimSpace rawName), w)" using normalize_value_ok [OF v(2)] by simp
  with 2(1) [OF refl v(1,3)] 2(3,4) v show ?case by (auto simp: mput_absent wf_gmap_append1)
qed (simp add: dimensions_ok_def)

lemma normalize_loop_fix:
  "wf_gmap (acc @ vs) \<Longrightarrow> list_all dimension_ok vs \<Longrightarrow> normalize_loop vs acc = Inr (acc @ vs)"
proof (induction vs arbitrary: acc)
  case (Cons p vs)
  obtain name w where p: "p = (name, w)" by (cases p)
  have absent: "\<not> mhas acc name" using Cons.prems(1) unfolding p by (rule wf_gmap_absent)
  have v: "normalize_value name w = Inr w" using Cons.prems(2) by (intro normalize_value_fix) (simp add: p)
  have name: "ToLower (TrimSpace name) = name" using Cons.prems(2) by (simp add: p dimension_ok_def)
  have "normalize_loop vs (acc @ [(name, w)]) = Inr ((acc @ [(name, w)]) @ vs)"
    using Cons.prems by (intro Cons.IH) (simp_all add: p)
  then show ?case using absent v name by (simp add: p Let_def mput_absent)
qed simp

lemma Normalize_ok: "NormalizeUsageDimensions vs = Inr r \<Longrightarrow> dimensions_ok r"
  using normalize_loop_ok [of vs "[]" r] by (auto simp: NormalizeUsageDimensions_def dimensions_ok_def split: if_splits)

lemma Normalize_fix: "dimensions_ok vs \<Longrightarrow> NormalizeUsageDimensions vs = Inr vs"
  using normalize_loop_fix [of "[]" vs] by (auto simp: NormalizeUsageDimensions_def dimensions_ok_def)

lemma clone_id [simp]: "dimension_ok (name, v) \<Longrightarrow> cloneUsageDimension v = v"
  by (auto simp: cloneUsageDimension_def dimension_ok_def attributes_ok_def)

lemma dimensions_ok_mput: "dimensions_ok m \<Longrightarrow> dimension_ok (k, v) \<Longrightarrow> dimensions_ok (mput k v m)"
  by (auto simp: dimensions_ok_def list_all_iff set_mput)

lemma dimensions_ok_clone: "dimensions_ok vs \<Longrightarrow> map (\<lambda>(name, w). (name, cloneUsageDimension w)) vs = vs"
  by (rule map_idI) (auto simp: dimensions_ok_def list_all_iff)

lemma merge_loop_ok:
  assumes "wf_gmap vs" "list_all dimension_ok vs" "dimensions_ok merged"
  shows "merge_loop vs merged = Inr (copy_into merged vs) \<and> dimensions_ok (copy_into merged vs)"
  using assms
proof (induction vs arbitrary: merged)
  case Nil
  then show ?case by (simp add: copy_into_def)
next
  case (Cons p vs)
  obtain name w where p: "p = (name, w)" by (cases p)
  have ok: "dimension_ok (name, w)" using Cons.prems by (simp add: p)
  have unit: "dim_Unit current = dim_Unit w" if "map_of merged name = Some current" for current
  proof -
    have "dimension_ok (name, current)" using that Cons.prems(3) by (auto simp: dimensions_ok_def list_all_iff dest: map_of_SomeD)
    with ok show ?thesis by (simp add: dimension_ok_def)
  qed
  have "copy_into merged (p # vs) = copy_into (mput name w merged) vs" by (simp add: copy_into_def p)
  moreover have "merge_loop vs (mput name w merged) = Inr (copy_into (mput name w merged) vs)
      \<and> dimensions_ok (copy_into (mput name w merged) vs)"
    using Cons.prems ok by (intro Cons.IH dimensions_ok_mput) (simp_all add: p wf_gmap_def)
  ultimately show ?case using unit ok by (auto simp: p split: option.split)
qed

lemma saturatingUsageAdd_exact:
  assumes "left \<le> MaxInt64" "right \<le> MaxInt64"
  shows "saturatingUsageAdd left right = min MaxInt64 (max 0 left + max 0 right)"
proof -
  define a b where "a = max 0 left" and "b = max 0 right"
  have b: "0 \<le> a" "a \<le> MaxInt64" "0 \<le> b" "b \<le> MaxInt64" using assms by (auto simp: a_def b_def MaxInt64_def)
  have "saturatingUsageAdd left right = (if a > wrap64 (MaxInt64 - b) then MaxInt64 else wrap64 (a + b))"
    by (simp add: saturatingUsageAdd_def a_def b_def max_def)
  also have "wrap64 (MaxInt64 - b) = MaxInt64 - b" using b by (intro wrap64_id) (simp add: int64_defs)
  also have "(if a > MaxInt64 - b then MaxInt64 else wrap64 (a + b)) = min MaxInt64 (a + b)"
  proof (cases "a + b \<le> MaxInt64")
    case True
    then have "wrap64 (a + b) = a + b" using b by (intro wrap64_id) (simp add: int64_defs)
    with True show ?thesis by simp
  qed simp
  finally show ?thesis by (simp add: a_def b_def)
qed

lemma saturating_sum:
  assumes "0 \<le> a" "a \<le> MaxInt64" "0 \<le> b" "b \<le> MaxInt64"
  shows "saturatingUsageAdd a b = min MaxInt64 (a + b)" "0 \<le> min MaxInt64 (a + b)"
  using assms by (simp_all add: saturatingUsageAdd_exact)

section \<open>The properties of usage dimensions\<close>

text \<open>
  C40. \<open>NormalizeUsageDimensions\<close> gives a normal form and is idempotent: what it accepts has only known
  dimensions in their unit with non-negative quantities, known confidences, tokens as sources and at most
  16 attributes each, each name once; and normalising that again, in any order of visit that keeps the keys
  distinct, changes nothing.
\<close>

theorem NormalizeUsageDimensions_idempotent:
  assumes "NormalizeUsageDimensions vs = Inr normalized"
  shows "dimensions_ok normalized \<and> NormalizeUsageDimensions normalized = Inr normalized
    \<and> (\<forall>other. mset other = mset normalized \<longrightarrow> NormalizeUsageDimensions other = Inr other)"
proof -
  have n: "dimensions_ok normalized" using assms by (rule Normalize_ok)
  have "dimensions_ok other" if "mset other = mset normalized" for other
  proof -
    have "mset (map fst other) = mset (map fst normalized)" using that by simp
    then have "distinct (map fst other)" using n by (metis dimensions_ok_def mset_eq_imp_distinct_iff wf_gmap_def)
    then show ?thesis using n mset_eq_setD [OF that] by (simp add: dimensions_ok_def list_all_iff wf_gmap_def)
  qed
  with n show ?thesis using Normalize_fix by blast
qed

definition demo_dimensions :: UsageDimensions where
  "demo_dimensions = [('' Output_Images'', \<lparr>dim_Quantity = 2, dim_Unit = ''Count'', dim_Source = ''provider'',
     dim_Confidence = ''reported'', dim_ProcurementPriceSnapshotID = [], dim_Attributes = []\<rparr>)]"

lemma demo_dimensions_normalized:
  "NormalizeUsageDimensions demo_dimensions = Inr [(''output_images'', \<lparr>dim_Quantity = 2, dim_Unit = ''count'',
     dim_Source = ''provider'', dim_Confidence = ''reported'', dim_ProcurementPriceSnapshotID = [], dim_Attributes = []\<rparr>)]"
  by code_simp

theorem NormalizeUsageDimensions_idempotent_witness:
  "\<exists>normalized. NormalizeUsageDimensions demo_dimensions = Inr normalized \<and> length normalized = 1
    \<and> NormalizeUsageDimensions normalized = Inr normalized"
  using NormalizeUsageDimensions_idempotent [OF demo_dimensions_normalized] demo_dimensions_normalized by simp

text \<open>
  The totals are exact or saturate: with the quantities in 64 bits, each total of
  \<open>UsageDimensionsTotals\<close> is the sum of its dimensions, or the largest 64-bit integer where the sum is larger; it never wraps.
\<close>

lemma UsageDimensionsTotals_saturate:
  assumes "list_all (\<lambda>(name, v). in64 (dim_Quantity v)) vs"
  shows "let q = usageDimensionQuantity vs; t = UsageDimensionsTotals vs in
      tot_OutputImages t = q UsageDimensionOutputImages
    \<and> tot_VideoMilliseconds t = min MaxInt64 (q UsageDimensionInputVideoMilliseconds + q UsageDimensionOutputVideoMilliseconds)
    \<and> tot_AudioMilliseconds t = min MaxInt64 (q UsageDimensionInputAudioMilliseconds + q UsageDimensionOutputAudioMilliseconds
         + q UsageDimensionRealtimeAudioMilliseconds)"
proof -
  have q: "0 \<le> usageDimensionQuantity vs n" "usageDimensionQuantity vs n \<le> MaxInt64" for n
    using assms by (auto simp: usageDimensionQuantity_def list_all_iff int64_defs dest!: map_of_SomeD split: option.splits)
  have three: "saturatingUsageAdd (saturatingUsageAdd (usageDimensionQuantity vs a) (usageDimensionQuantity vs b)) (usageDimensionQuantity vs c)
      = min MaxInt64 (usageDimensionQuantity vs a + usageDimensionQuantity vs b + usageDimensionQuantity vs c)" for a b c
    using q [of a] q [of b] q [of c] by (simp add: saturating_sum)
  show ?thesis unfolding Let_def UsageDimensionsTotals_def using q three by (simp add: saturating_sum)
qed

text \<open>
  \<open>MergeUsageDimensions\<close> of accepted dimensions always succeeds, since a dimension has one unit; the result is
  normal, has the dimensions of both sides, and where both have one, the right side's value.
\<close>

lemma MergeUsageDimensions_right_wins:
  assumes "NormalizeUsageDimensions left = Inr l" "NormalizeUsageDimensions right = Inr r"
  shows "\<exists>m. MergeUsageDimensions left right = Inr m \<and> dimensions_ok m \<and> map_of m = map_of l ++ map_of r
    \<and> NormalizeUsageDimensions m = Inr m"
proof -
  have lr: "dimensions_ok l" "dimensions_ok r" using assms by (auto dest: Normalize_ok)
  then have wf: "wf_gmap l" "wf_gmap r" "list_all dimension_ok r" by (simp_all add: dimensions_ok_def)
  have "MergeUsageDimensions left right = merge_loop r (copy_into [] l)"
    using assms lr by (simp add: MergeUsageDimensions_def dimensions_ok_clone)
  with merge_loop_ok [OF wf(2,3), of l] lr wf show ?thesis
    by (auto simp: map_of_copy_into Normalize_fix)
qed

end
