(* ===== verification/CP_Model.thy ===== *)
theory CP_Model
  imports AI_Job_Model Usage_Dimension
begin

text \<open>
  The records of the control plane (\<open>operation_model.go\<close>, \<open>billing_hold.go\<close>, \<open>pricing_model.go\<close>,
  \<open>model.go\<close>), the constants of their statuses, and the maps of the in-memory repository
  (\<open>repository.go\<close>) that the modelled operations use. A method of the repository holds its lock, so it is one step
  on this state. \<open>zero_\<close>-records are Go's zero values, what a read of an absent key gives.
\<close>

named_theorems cp_consts \<open>the string constants of operations, attempts, holds and events\<close>

section \<open>Constants\<close>

definition AIOperationStatusAccepted :: string where
  [cp_consts]: "AIOperationStatusAccepted = ''accepted''"
definition AIOperationStatusRunning :: string where
  [cp_consts]: "AIOperationStatusRunning = ''running''"
definition AIOperationStatusSucceeded :: string where
  [cp_consts]: "AIOperationStatusSucceeded = ''succeeded''"
definition AIOperationStatusFailed :: string where
  [cp_consts]: "AIOperationStatusFailed = ''failed''"
definition AIOperationStatusCanceled :: string where
  [cp_consts]: "AIOperationStatusCanceled = ''canceled''"
definition AIAttemptStatusRunning :: string where
  [cp_consts]: "AIAttemptStatusRunning = ''running''"
definition AIAttemptStatusSucceeded :: string where
  [cp_consts]: "AIAttemptStatusSucceeded = ''succeeded''"
definition AIAttemptStatusFailed :: string where
  [cp_consts]: "AIAttemptStatusFailed = ''failed''"
definition AIAttemptStatusSkipped :: string where
  [cp_consts]: "AIAttemptStatusSkipped = ''skipped''"
definition AIAttemptStatusCanceled :: string where
  [cp_consts]: "AIAttemptStatusCanceled = ''canceled''"
definition AIAttemptDispatchPending :: string where
  [cp_consts]: "AIAttemptDispatchPending = ''pending''"
definition AIAttemptDispatchPrepared :: string where
  [cp_consts]: "AIAttemptDispatchPrepared = ''prepared''"
definition AIAttemptDispatchSubmitted :: string where
  [cp_consts]: "AIAttemptDispatchSubmitted = ''submitted''"
definition AIAttemptDispatchAccepted :: string where
  [cp_consts]: "AIAttemptDispatchAccepted = ''accepted''"
definition AIAttemptDispatchUnknown :: string where
  [cp_consts]: "AIAttemptDispatchUnknown = ''unknown''"
definition AIAttemptDispatchProvenNotCreated :: string where
  [cp_consts]: "AIAttemptDispatchProvenNotCreated = ''proven_not_created''"
definition BillingLedgerStatusApplied :: string where
  [cp_consts]: "BillingLedgerStatusApplied = ''applied''"
definition OutboxStatusPending :: string where
  [cp_consts]: "OutboxStatusPending = ''pending''"
definition OutboxStatusPublishing :: string where
  [cp_consts]: "OutboxStatusPublishing = ''publishing''"
definition OutboxStatusPublished :: string where
  [cp_consts]: "OutboxStatusPublished = ''published''"
definition OutboxStatusDeadLetter :: string where
  [cp_consts]: "OutboxStatusDeadLetter = ''dead_letter''"
definition OutboxEventUsageRecorded :: string where
  [cp_consts]: "OutboxEventUsageRecorded = ''usage.recorded.v1''"
definition OutboxEventCustomerChargePosted :: string where
  [cp_consts]: "OutboxEventCustomerChargePosted = ''customer_charge.posted.v1''"
definition BillingHoldStatusReserved :: string where
  [cp_consts]: "BillingHoldStatusReserved = ''reserved''"
definition BillingHoldStatusCommitted :: string where
  [cp_consts]: "BillingHoldStatusCommitted = ''committed''"
definition BillingHoldStatusSettled :: string where
  [cp_consts]: "BillingHoldStatusSettled = ''settled''"
definition BillingHoldStatusReleased :: string where
  [cp_consts]: "BillingHoldStatusReleased = ''released''"
definition BillingHoldStatusDisputed :: string where
  [cp_consts]: "BillingHoldStatusDisputed = ''disputed''"
definition PricingPurposeUsageCost :: string where
  [cp_consts]: "PricingPurposeUsageCost = ''usage_cost''"
definition PricingPurposeCustomerCharge :: string where
  [cp_consts]: "PricingPurposeCustomerCharge = ''customer_charge''"
definition PricingScopeGlobal :: string where
  [cp_consts]: "PricingScopeGlobal = ''global''"
definition PricingScopeOperatorPlan :: string where
  [cp_consts]: "PricingScopeOperatorPlan = ''operator_plan''"
definition PricingRuleStatusActive :: string where
  [cp_consts]: "PricingRuleStatusActive = ''active''"
definition PricingRuleStatusDisabled :: string where
  [cp_consts]: "PricingRuleStatusDisabled = ''disabled''"
definition PricingVersionStateDraft :: string where
  [cp_consts]: "PricingVersionStateDraft = ''draft''"
definition PricingVersionStatePublished :: string where
  [cp_consts]: "PricingVersionStatePublished = ''published''"
definition PricingAuthoringVisual :: string where
  [cp_consts]: "PricingAuthoringVisual = ''visual''"
definition PricingAuthoringRaw :: string where
  [cp_consts]: "PricingAuthoringRaw = ''raw''"
definition PricingEvaluationStatusSuccess :: string where
  [cp_consts]: "PricingEvaluationStatusSuccess = ''succeeded''"
definition PricingEvaluationStatusFailed :: string where
  [cp_consts]: "PricingEvaluationStatusFailed = ''failed''"
definition PricingEvaluationStatusDisputed :: string where
  [cp_consts]: "PricingEvaluationStatusDisputed = ''disputed''"
definition ArtifactRoleInput :: string where
  [cp_consts]: "ArtifactRoleInput = ''input''"
definition ArtifactRolePreview :: string where
  [cp_consts]: "ArtifactRolePreview = ''preview''"
definition ArtifactRoleFinal :: string where
  [cp_consts]: "ArtifactRoleFinal = ''final''"
definition ArtifactRoleDerived :: string where
  [cp_consts]: "ArtifactRoleDerived = ''derived''"
definition ArtifactRoleProviderReference :: string where
  [cp_consts]: "ArtifactRoleProviderReference = ''provider_reference''"
definition ArtifactRoleMetadata :: string where
  [cp_consts]: "ArtifactRoleMetadata = ''metadata''"
definition ArtifactStatusPending :: string where
  [cp_consts]: "ArtifactStatusPending = ''pending''"
definition ArtifactStatusUploading :: string where
  [cp_consts]: "ArtifactStatusUploading = ''uploading''"
definition ArtifactStatusReady :: string where
  [cp_consts]: "ArtifactStatusReady = ''ready''"
definition ArtifactStatusFailed :: string where
  [cp_consts]: "ArtifactStatusFailed = ''failed''"
definition ArtifactStatusDelivering :: string where
  [cp_consts]: "ArtifactStatusDelivering = ''delivering''"
definition ArtifactStatusDelivered :: string where
  [cp_consts]: "ArtifactStatusDelivered = ''delivered''"
definition ArtifactStatusDeliveryFailed :: string where
  [cp_consts]: "ArtifactStatusDeliveryFailed = ''delivery_failed''"
definition ArtifactStatusDeleteRequested :: string where
  [cp_consts]: "ArtifactStatusDeleteRequested = ''delete_requested''"
definition ArtifactStatusDeleting :: string where
  [cp_consts]: "ArtifactStatusDeleting = ''deleting''"
definition ArtifactStatusDeleted :: string where
  [cp_consts]: "ArtifactStatusDeleted = ''deleted''"
definition ArtifactStatusDeleteFailed :: string where
  [cp_consts]: "ArtifactStatusDeleteFailed = ''delete_failed''"
definition ArtifactStatusExpired :: string where
  [cp_consts]: "ArtifactStatusExpired = ''expired''"
definition ArtifactOutboxAggregate :: string where
  [cp_consts]: "ArtifactOutboxAggregate = ''artifact''"
definition GatewayArtifactPolicyProxyOnly :: string where
  [cp_consts]: "GatewayArtifactPolicyProxyOnly = ''proxy_only''"
definition GatewayArtifactPolicyTemporary :: string where
  [cp_consts]: "GatewayArtifactPolicyTemporary = ''temporary''"
definition GatewayArtifactPolicyManaged :: string where
  [cp_consts]: "GatewayArtifactPolicyManaged = ''managed''"
definition GatewayArtifactPolicyCustomerSink :: string where
  [cp_consts]: "GatewayArtifactPolicyCustomerSink = ''customer_sink''"
definition GatewayArtifactPolicyMetadataOnly :: string where
  [cp_consts]: "GatewayArtifactPolicyMetadataOnly = ''metadata_only''"
definition LaneDirect :: string where
  [cp_consts]: "LaneDirect = ''direct''"
definition LaneDurable :: string where
  [cp_consts]: "LaneDurable = ''durable''"

definition OutboxDefaultMaxAttempts :: int where "OutboxDefaultMaxAttempts = 20"
definition BillingHoldDefaultTTL :: duration where "BillingHoldDefaultTTL = AIJobDefaultTTL"
definition billingHoldDefaultMaxOutputTokens :: int where "billingHoldDefaultMaxOutputTokens = 4096"

lemma operation_status_distinct [simp]:
  "AIOperationStatusAccepted \<noteq> AIOperationStatusRunning"
  "AIOperationStatusAccepted \<noteq> AIOperationStatusSucceeded"
  "AIOperationStatusAccepted \<noteq> AIOperationStatusFailed"
  "AIOperationStatusAccepted \<noteq> AIOperationStatusCanceled"
  "AIOperationStatusRunning \<noteq> AIOperationStatusAccepted"
  "AIOperationStatusRunning \<noteq> AIOperationStatusSucceeded"
  "AIOperationStatusRunning \<noteq> AIOperationStatusFailed"
  "AIOperationStatusRunning \<noteq> AIOperationStatusCanceled"
  "AIOperationStatusSucceeded \<noteq> AIOperationStatusAccepted"
  "AIOperationStatusSucceeded \<noteq> AIOperationStatusRunning"
  "AIOperationStatusSucceeded \<noteq> AIOperationStatusFailed"
  "AIOperationStatusSucceeded \<noteq> AIOperationStatusCanceled"
  "AIOperationStatusFailed \<noteq> AIOperationStatusAccepted"
  "AIOperationStatusFailed \<noteq> AIOperationStatusRunning"
  "AIOperationStatusFailed \<noteq> AIOperationStatusSucceeded"
  "AIOperationStatusFailed \<noteq> AIOperationStatusCanceled"
  "AIOperationStatusCanceled \<noteq> AIOperationStatusAccepted"
  "AIOperationStatusCanceled \<noteq> AIOperationStatusRunning"
  "AIOperationStatusCanceled \<noteq> AIOperationStatusSucceeded"
  "AIOperationStatusCanceled \<noteq> AIOperationStatusFailed"
  by (simp_all add: cp_consts)

lemma attempt_status_distinct [simp]:
  "AIAttemptStatusRunning \<noteq> AIAttemptStatusSucceeded"
  "AIAttemptStatusRunning \<noteq> AIAttemptStatusFailed"
  "AIAttemptStatusRunning \<noteq> AIAttemptStatusSkipped"
  "AIAttemptStatusRunning \<noteq> AIAttemptStatusCanceled"
  "AIAttemptStatusSucceeded \<noteq> AIAttemptStatusRunning"
  "AIAttemptStatusSucceeded \<noteq> AIAttemptStatusFailed"
  "AIAttemptStatusSucceeded \<noteq> AIAttemptStatusSkipped"
  "AIAttemptStatusSucceeded \<noteq> AIAttemptStatusCanceled"
  "AIAttemptStatusFailed \<noteq> AIAttemptStatusRunning"
  "AIAttemptStatusFailed \<noteq> AIAttemptStatusSucceeded"
  "AIAttemptStatusFailed \<noteq> AIAttemptStatusSkipped"
  "AIAttemptStatusFailed \<noteq> AIAttemptStatusCanceled"
  "AIAttemptStatusSkipped \<noteq> AIAttemptStatusRunning"
  "AIAttemptStatusSkipped \<noteq> AIAttemptStatusSucceeded"
  "AIAttemptStatusSkipped \<noteq> AIAttemptStatusFailed"
  "AIAttemptStatusSkipped \<noteq> AIAttemptStatusCanceled"
  "AIAttemptStatusCanceled \<noteq> AIAttemptStatusRunning"
  "AIAttemptStatusCanceled \<noteq> AIAttemptStatusSucceeded"
  "AIAttemptStatusCanceled \<noteq> AIAttemptStatusFailed"
  "AIAttemptStatusCanceled \<noteq> AIAttemptStatusSkipped"
  by (simp_all add: cp_consts)

lemma dispatch_distinct [simp]:
  "AIAttemptDispatchPending \<noteq> AIAttemptDispatchPrepared"
  "AIAttemptDispatchPending \<noteq> AIAttemptDispatchSubmitted"
  "AIAttemptDispatchPending \<noteq> AIAttemptDispatchAccepted"
  "AIAttemptDispatchPending \<noteq> AIAttemptDispatchUnknown"
  "AIAttemptDispatchPending \<noteq> AIAttemptDispatchProvenNotCreated"
  "AIAttemptDispatchPrepared \<noteq> AIAttemptDispatchPending"
  "AIAttemptDispatchPrepared \<noteq> AIAttemptDispatchSubmitted"
  "AIAttemptDispatchPrepared \<noteq> AIAttemptDispatchAccepted"
  "AIAttemptDispatchPrepared \<noteq> AIAttemptDispatchUnknown"
  "AIAttemptDispatchPrepared \<noteq> AIAttemptDispatchProvenNotCreated"
  "AIAttemptDispatchSubmitted \<noteq> AIAttemptDispatchPending"
  "AIAttemptDispatchSubmitted \<noteq> AIAttemptDispatchPrepared"
  "AIAttemptDispatchSubmitted \<noteq> AIAttemptDispatchAccepted"
  "AIAttemptDispatchSubmitted \<noteq> AIAttemptDispatchUnknown"
  "AIAttemptDispatchSubmitted \<noteq> AIAttemptDispatchProvenNotCreated"
  "AIAttemptDispatchAccepted \<noteq> AIAttemptDispatchPending"
  "AIAttemptDispatchAccepted \<noteq> AIAttemptDispatchPrepared"
  "AIAttemptDispatchAccepted \<noteq> AIAttemptDispatchSubmitted"
  "AIAttemptDispatchAccepted \<noteq> AIAttemptDispatchUnknown"
  "AIAttemptDispatchAccepted \<noteq> AIAttemptDispatchProvenNotCreated"
  "AIAttemptDispatchUnknown \<noteq> AIAttemptDispatchPending"
  "AIAttemptDispatchUnknown \<noteq> AIAttemptDispatchPrepared"
  "AIAttemptDispatchUnknown \<noteq> AIAttemptDispatchSubmitted"
  "AIAttemptDispatchUnknown \<noteq> AIAttemptDispatchAccepted"
  "AIAttemptDispatchUnknown \<noteq> AIAttemptDispatchProvenNotCreated"
  "AIAttemptDispatchProvenNotCreated \<noteq> AIAttemptDispatchPending"
  "AIAttemptDispatchProvenNotCreated \<noteq> AIAttemptDispatchPrepared"
  "AIAttemptDispatchProvenNotCreated \<noteq> AIAttemptDispatchSubmitted"
  "AIAttemptDispatchProvenNotCreated \<noteq> AIAttemptDispatchAccepted"
  "AIAttemptDispatchProvenNotCreated \<noteq> AIAttemptDispatchUnknown"
  by (simp_all add: cp_consts)

lemma hold_status_distinct [simp]:
  "BillingHoldStatusReserved \<noteq> BillingHoldStatusCommitted"
  "BillingHoldStatusReserved \<noteq> BillingHoldStatusSettled"
  "BillingHoldStatusReserved \<noteq> BillingHoldStatusReleased"
  "BillingHoldStatusReserved \<noteq> BillingHoldStatusDisputed"
  "BillingHoldStatusCommitted \<noteq> BillingHoldStatusReserved"
  "BillingHoldStatusCommitted \<noteq> BillingHoldStatusSettled"
  "BillingHoldStatusCommitted \<noteq> BillingHoldStatusReleased"
  "BillingHoldStatusCommitted \<noteq> BillingHoldStatusDisputed"
  "BillingHoldStatusSettled \<noteq> BillingHoldStatusReserved"
  "BillingHoldStatusSettled \<noteq> BillingHoldStatusCommitted"
  "BillingHoldStatusSettled \<noteq> BillingHoldStatusReleased"
  "BillingHoldStatusSettled \<noteq> BillingHoldStatusDisputed"
  "BillingHoldStatusReleased \<noteq> BillingHoldStatusReserved"
  "BillingHoldStatusReleased \<noteq> BillingHoldStatusCommitted"
  "BillingHoldStatusReleased \<noteq> BillingHoldStatusSettled"
  "BillingHoldStatusReleased \<noteq> BillingHoldStatusDisputed"
  "BillingHoldStatusDisputed \<noteq> BillingHoldStatusReserved"
  "BillingHoldStatusDisputed \<noteq> BillingHoldStatusCommitted"
  "BillingHoldStatusDisputed \<noteq> BillingHoldStatusSettled"
  "BillingHoldStatusDisputed \<noteq> BillingHoldStatusReleased"
  by (simp_all add: cp_consts)

lemma outbox_status_distinct [simp]:
  "OutboxStatusPending \<noteq> OutboxStatusPublishing"
  "OutboxStatusPending \<noteq> OutboxStatusPublished"
  "OutboxStatusPending \<noteq> OutboxStatusDeadLetter"
  "OutboxStatusPublishing \<noteq> OutboxStatusPending"
  "OutboxStatusPublishing \<noteq> OutboxStatusPublished"
  "OutboxStatusPublishing \<noteq> OutboxStatusDeadLetter"
  "OutboxStatusPublished \<noteq> OutboxStatusPending"
  "OutboxStatusPublished \<noteq> OutboxStatusPublishing"
  "OutboxStatusPublished \<noteq> OutboxStatusDeadLetter"
  "OutboxStatusDeadLetter \<noteq> OutboxStatusPending"
  "OutboxStatusDeadLetter \<noteq> OutboxStatusPublishing"
  "OutboxStatusDeadLetter \<noteq> OutboxStatusPublished"
  by (simp_all add: cp_consts)

lemma artifact_status_distinct [simp]:
  "ArtifactStatusPending \<noteq> ArtifactStatusUploading"
  "ArtifactStatusPending \<noteq> ArtifactStatusReady"
  "ArtifactStatusPending \<noteq> ArtifactStatusFailed"
  "ArtifactStatusPending \<noteq> ArtifactStatusDelivering"
  "ArtifactStatusPending \<noteq> ArtifactStatusDelivered"
  "ArtifactStatusPending \<noteq> ArtifactStatusDeliveryFailed"
  "ArtifactStatusPending \<noteq> ArtifactStatusDeleteRequested"
  "ArtifactStatusPending \<noteq> ArtifactStatusDeleting"
  "ArtifactStatusPending \<noteq> ArtifactStatusDeleted"
  "ArtifactStatusPending \<noteq> ArtifactStatusDeleteFailed"
  "ArtifactStatusPending \<noteq> ArtifactStatusExpired"
  "ArtifactStatusUploading \<noteq> ArtifactStatusPending"
  "ArtifactStatusUploading \<noteq> ArtifactStatusReady"
  "ArtifactStatusUploading \<noteq> ArtifactStatusFailed"
  "ArtifactStatusUploading \<noteq> ArtifactStatusDelivering"
  "ArtifactStatusUploading \<noteq> ArtifactStatusDelivered"
  "ArtifactStatusUploading \<noteq> ArtifactStatusDeliveryFailed"
  "ArtifactStatusUploading \<noteq> ArtifactStatusDeleteRequested"
  "ArtifactStatusUploading \<noteq> ArtifactStatusDeleting"
  "ArtifactStatusUploading \<noteq> ArtifactStatusDeleted"
  "ArtifactStatusUploading \<noteq> ArtifactStatusDeleteFailed"
  "ArtifactStatusUploading \<noteq> ArtifactStatusExpired"
  "ArtifactStatusReady \<noteq> ArtifactStatusPending"
  "ArtifactStatusReady \<noteq> ArtifactStatusUploading"
  "ArtifactStatusReady \<noteq> ArtifactStatusFailed"
  "ArtifactStatusReady \<noteq> ArtifactStatusDelivering"
  "ArtifactStatusReady \<noteq> ArtifactStatusDelivered"
  "ArtifactStatusReady \<noteq> ArtifactStatusDeliveryFailed"
  "ArtifactStatusReady \<noteq> ArtifactStatusDeleteRequested"
  "ArtifactStatusReady \<noteq> ArtifactStatusDeleting"
  "ArtifactStatusReady \<noteq> ArtifactStatusDeleted"
  "ArtifactStatusReady \<noteq> ArtifactStatusDeleteFailed"
  "ArtifactStatusReady \<noteq> ArtifactStatusExpired"
  "ArtifactStatusFailed \<noteq> ArtifactStatusPending"
  "ArtifactStatusFailed \<noteq> ArtifactStatusUploading"
  "ArtifactStatusFailed \<noteq> ArtifactStatusReady"
  "ArtifactStatusFailed \<noteq> ArtifactStatusDelivering"
  "ArtifactStatusFailed \<noteq> ArtifactStatusDelivered"
  "ArtifactStatusFailed \<noteq> ArtifactStatusDeliveryFailed"
  "ArtifactStatusFailed \<noteq> ArtifactStatusDeleteRequested"
  "ArtifactStatusFailed \<noteq> ArtifactStatusDeleting"
  "ArtifactStatusFailed \<noteq> ArtifactStatusDeleted"
  "ArtifactStatusFailed \<noteq> ArtifactStatusDeleteFailed"
  "ArtifactStatusFailed \<noteq> ArtifactStatusExpired"
  "ArtifactStatusDelivering \<noteq> ArtifactStatusPending"
  "ArtifactStatusDelivering \<noteq> ArtifactStatusUploading"
  "ArtifactStatusDelivering \<noteq> ArtifactStatusReady"
  "ArtifactStatusDelivering \<noteq> ArtifactStatusFailed"
  "ArtifactStatusDelivering \<noteq> ArtifactStatusDelivered"
  "ArtifactStatusDelivering \<noteq> ArtifactStatusDeliveryFailed"
  "ArtifactStatusDelivering \<noteq> ArtifactStatusDeleteRequested"
  "ArtifactStatusDelivering \<noteq> ArtifactStatusDeleting"
  "ArtifactStatusDelivering \<noteq> ArtifactStatusDeleted"
  "ArtifactStatusDelivering \<noteq> ArtifactStatusDeleteFailed"
  "ArtifactStatusDelivering \<noteq> ArtifactStatusExpired"
  "ArtifactStatusDelivered \<noteq> ArtifactStatusPending"
  "ArtifactStatusDelivered \<noteq> ArtifactStatusUploading"
  "ArtifactStatusDelivered \<noteq> ArtifactStatusReady"
  "ArtifactStatusDelivered \<noteq> ArtifactStatusFailed"
  "ArtifactStatusDelivered \<noteq> ArtifactStatusDelivering"
  "ArtifactStatusDelivered \<noteq> ArtifactStatusDeliveryFailed"
  "ArtifactStatusDelivered \<noteq> ArtifactStatusDeleteRequested"
  "ArtifactStatusDelivered \<noteq> ArtifactStatusDeleting"
  "ArtifactStatusDelivered \<noteq> ArtifactStatusDeleted"
  "ArtifactStatusDelivered \<noteq> ArtifactStatusDeleteFailed"
  "ArtifactStatusDelivered \<noteq> ArtifactStatusExpired"
  "ArtifactStatusDeliveryFailed \<noteq> ArtifactStatusPending"
  "ArtifactStatusDeliveryFailed \<noteq> ArtifactStatusUploading"
  "ArtifactStatusDeliveryFailed \<noteq> ArtifactStatusReady"
  "ArtifactStatusDeliveryFailed \<noteq> ArtifactStatusFailed"
  "ArtifactStatusDeliveryFailed \<noteq> ArtifactStatusDelivering"
  "ArtifactStatusDeliveryFailed \<noteq> ArtifactStatusDelivered"
  "ArtifactStatusDeliveryFailed \<noteq> ArtifactStatusDeleteRequested"
  "ArtifactStatusDeliveryFailed \<noteq> ArtifactStatusDeleting"
  "ArtifactStatusDeliveryFailed \<noteq> ArtifactStatusDeleted"
  "ArtifactStatusDeliveryFailed \<noteq> ArtifactStatusDeleteFailed"
  "ArtifactStatusDeliveryFailed \<noteq> ArtifactStatusExpired"
  "ArtifactStatusDeleteRequested \<noteq> ArtifactStatusPending"
  "ArtifactStatusDeleteRequested \<noteq> ArtifactStatusUploading"
  "ArtifactStatusDeleteRequested \<noteq> ArtifactStatusReady"
  "ArtifactStatusDeleteRequested \<noteq> ArtifactStatusFailed"
  "ArtifactStatusDeleteRequested \<noteq> ArtifactStatusDelivering"
  "ArtifactStatusDeleteRequested \<noteq> ArtifactStatusDelivered"
  "ArtifactStatusDeleteRequested \<noteq> ArtifactStatusDeliveryFailed"
  "ArtifactStatusDeleteRequested \<noteq> ArtifactStatusDeleting"
  "ArtifactStatusDeleteRequested \<noteq> ArtifactStatusDeleted"
  "ArtifactStatusDeleteRequested \<noteq> ArtifactStatusDeleteFailed"
  "ArtifactStatusDeleteRequested \<noteq> ArtifactStatusExpired"
  "ArtifactStatusDeleting \<noteq> ArtifactStatusPending"
  "ArtifactStatusDeleting \<noteq> ArtifactStatusUploading"
  "ArtifactStatusDeleting \<noteq> ArtifactStatusReady"
  "ArtifactStatusDeleting \<noteq> ArtifactStatusFailed"
  "ArtifactStatusDeleting \<noteq> ArtifactStatusDelivering"
  "ArtifactStatusDeleting \<noteq> ArtifactStatusDelivered"
  "ArtifactStatusDeleting \<noteq> ArtifactStatusDeliveryFailed"
  "ArtifactStatusDeleting \<noteq> ArtifactStatusDeleteRequested"
  "ArtifactStatusDeleting \<noteq> ArtifactStatusDeleted"
  "ArtifactStatusDeleting \<noteq> ArtifactStatusDeleteFailed"
  "ArtifactStatusDeleting \<noteq> ArtifactStatusExpired"
  "ArtifactStatusDeleted \<noteq> ArtifactStatusPending"
  "ArtifactStatusDeleted \<noteq> ArtifactStatusUploading"
  "ArtifactStatusDeleted \<noteq> ArtifactStatusReady"
  "ArtifactStatusDeleted \<noteq> ArtifactStatusFailed"
  "ArtifactStatusDeleted \<noteq> ArtifactStatusDelivering"
  "ArtifactStatusDeleted \<noteq> ArtifactStatusDelivered"
  "ArtifactStatusDeleted \<noteq> ArtifactStatusDeliveryFailed"
  "ArtifactStatusDeleted \<noteq> ArtifactStatusDeleteRequested"
  "ArtifactStatusDeleted \<noteq> ArtifactStatusDeleting"
  "ArtifactStatusDeleted \<noteq> ArtifactStatusDeleteFailed"
  "ArtifactStatusDeleted \<noteq> ArtifactStatusExpired"
  "ArtifactStatusDeleteFailed \<noteq> ArtifactStatusPending"
  "ArtifactStatusDeleteFailed \<noteq> ArtifactStatusUploading"
  "ArtifactStatusDeleteFailed \<noteq> ArtifactStatusReady"
  "ArtifactStatusDeleteFailed \<noteq> ArtifactStatusFailed"
  "ArtifactStatusDeleteFailed \<noteq> ArtifactStatusDelivering"
  "ArtifactStatusDeleteFailed \<noteq> ArtifactStatusDelivered"
  "ArtifactStatusDeleteFailed \<noteq> ArtifactStatusDeliveryFailed"
  "ArtifactStatusDeleteFailed \<noteq> ArtifactStatusDeleteRequested"
  "ArtifactStatusDeleteFailed \<noteq> ArtifactStatusDeleting"
  "ArtifactStatusDeleteFailed \<noteq> ArtifactStatusDeleted"
  "ArtifactStatusDeleteFailed \<noteq> ArtifactStatusExpired"
  "ArtifactStatusExpired \<noteq> ArtifactStatusPending"
  "ArtifactStatusExpired \<noteq> ArtifactStatusUploading"
  "ArtifactStatusExpired \<noteq> ArtifactStatusReady"
  "ArtifactStatusExpired \<noteq> ArtifactStatusFailed"
  "ArtifactStatusExpired \<noteq> ArtifactStatusDelivering"
  "ArtifactStatusExpired \<noteq> ArtifactStatusDelivered"
  "ArtifactStatusExpired \<noteq> ArtifactStatusDeliveryFailed"
  "ArtifactStatusExpired \<noteq> ArtifactStatusDeleteRequested"
  "ArtifactStatusExpired \<noteq> ArtifactStatusDeleting"
  "ArtifactStatusExpired \<noteq> ArtifactStatusDeleted"
  "ArtifactStatusExpired \<noteq> ArtifactStatusDeleteFailed"
  by (simp_all add: cp_consts)

lemma artifact_policy_distinct [simp]:
  "GatewayArtifactPolicyProxyOnly \<noteq> GatewayArtifactPolicyTemporary"
  "GatewayArtifactPolicyProxyOnly \<noteq> GatewayArtifactPolicyManaged"
  "GatewayArtifactPolicyProxyOnly \<noteq> GatewayArtifactPolicyCustomerSink"
  "GatewayArtifactPolicyProxyOnly \<noteq> GatewayArtifactPolicyMetadataOnly"
  "GatewayArtifactPolicyTemporary \<noteq> GatewayArtifactPolicyProxyOnly"
  "GatewayArtifactPolicyTemporary \<noteq> GatewayArtifactPolicyManaged"
  "GatewayArtifactPolicyTemporary \<noteq> GatewayArtifactPolicyCustomerSink"
  "GatewayArtifactPolicyTemporary \<noteq> GatewayArtifactPolicyMetadataOnly"
  "GatewayArtifactPolicyManaged \<noteq> GatewayArtifactPolicyProxyOnly"
  "GatewayArtifactPolicyManaged \<noteq> GatewayArtifactPolicyTemporary"
  "GatewayArtifactPolicyManaged \<noteq> GatewayArtifactPolicyCustomerSink"
  "GatewayArtifactPolicyManaged \<noteq> GatewayArtifactPolicyMetadataOnly"
  "GatewayArtifactPolicyCustomerSink \<noteq> GatewayArtifactPolicyProxyOnly"
  "GatewayArtifactPolicyCustomerSink \<noteq> GatewayArtifactPolicyTemporary"
  "GatewayArtifactPolicyCustomerSink \<noteq> GatewayArtifactPolicyManaged"
  "GatewayArtifactPolicyCustomerSink \<noteq> GatewayArtifactPolicyMetadataOnly"
  "GatewayArtifactPolicyMetadataOnly \<noteq> GatewayArtifactPolicyProxyOnly"
  "GatewayArtifactPolicyMetadataOnly \<noteq> GatewayArtifactPolicyTemporary"
  "GatewayArtifactPolicyMetadataOnly \<noteq> GatewayArtifactPolicyManaged"
  "GatewayArtifactPolicyMetadataOnly \<noteq> GatewayArtifactPolicyCustomerSink"
  by (simp_all add: cp_consts)

definition ErrGatewayIdempotencyConflict :: go_error where
  "ErrGatewayIdempotencyConflict = errors_New ''idempotency key was already used for a different request''"
definition ErrGatewayIdempotencyReplay :: go_error where
  "ErrGatewayIdempotencyReplay = errors_New ''direct request with this idempotency key was already accepted''"
definition ErrUsageLedgerConflict :: go_error where
  "ErrUsageLedgerConflict = errors_New ''usage ledger identity conflicts with an existing entry''"
definition ErrAIAttemptNotFound :: go_error where
  "ErrAIAttemptNotFound = errors_New ''ai attempt not found''"
definition ErrAIAttemptDispatchConflict :: go_error where
  "ErrAIAttemptDispatchConflict = errors_New ''ai attempt dispatch intent conflicts with existing state''"
definition ErrAIAttemptDispatchState :: go_error where
  "ErrAIAttemptDispatchState = errors_New ''ai attempt dispatch state changed concurrently''"
definition ErrBillingHoldBudgetExceeded :: go_error where
  "ErrBillingHoldBudgetExceeded = errors_New ''billing hold exceeds available monthly budget''"
definition ErrBillingHoldEstimateUnavailable :: go_error where
  "ErrBillingHoldEstimateUnavailable = errors_New ''billing hold cost estimate is unavailable''"
definition ErrBillingHoldImageQuotaExceeded :: go_error where
  "ErrBillingHoldImageQuotaExceeded = errors_New ''billing hold exceeds the monthly image quota''"
definition ErrBillingHoldVideoQuotaExceeded :: go_error where
  "ErrBillingHoldVideoQuotaExceeded = errors_New ''billing hold exceeds the monthly video quota''"
definition ErrBillingHoldAudioQuotaExceeded :: go_error where
  "ErrBillingHoldAudioQuotaExceeded = errors_New ''billing hold exceeds the monthly audio quota''"
definition ErrBillingHoldUsageEstimate :: go_error where
  "ErrBillingHoldUsageEstimate = errors_New ''billing hold requires a media usage estimate''"
definition ErrBillingHoldStateConflict :: go_error where
  "ErrBillingHoldStateConflict = errors_New ''billing hold state changed concurrently''"
definition ErrArtifactNotFound :: go_error where
  "ErrArtifactNotFound = errors_New ''artifact not found''"
definition ErrArtifactStateConflict :: go_error where
  "ErrArtifactStateConflict = errors_New ''artifact state changed concurrently''"
definition ErrArtifactStoreRequired :: go_error where
  "ErrArtifactStoreRequired = errors_New ''artifact store is required''"
definition ErrArtifactTooLarge :: go_error where
  "ErrArtifactTooLarge = errors_New ''artifact exceeds the configured size limit''"
definition ErrArtifactIntegrity :: go_error where
  "ErrArtifactIntegrity = errors_New ''artifact integrity verification failed''"
definition ErrArtifactUnavailable :: go_error where
  "ErrArtifactUnavailable = errors_New ''artifact content is unavailable''"
definition ErrArtifactIngestInProgress :: go_error where
  "ErrArtifactIngestInProgress = errors_New ''artifact ingest is already in progress''"

section \<open>Records\<close>

record AIOperation =
  op_ID :: string
  op_ProfileScope :: string
  op_TenantID :: string
  op_CredentialID :: string
  op_CredentialSource :: string
  op_IntegrationID :: string
  op_PrincipalType :: string
  op_PrincipalID :: string
  op_ExternalSubjectReference :: string
  op_ClientRequestID :: string
  op_RequestFingerprint :: string
  op_IdempotencyKey :: string
  op_Protocol :: string
  op_Operation :: string
  op_Modality :: string
  op_Lane :: string
  op_Model :: string
  op_ArtifactPolicy :: string
  op_ArtifactSinkID :: string
  op_Status :: string
  op_ErrorType :: string
  op_CreatedAt :: gotime
  op_UpdatedAt :: gotime
  op_CompletedAt :: "gotime option"

definition zero_AIOperation :: AIOperation where
  "zero_AIOperation =
     \<lparr>op_ID = [], op_ProfileScope = [], op_TenantID = [], op_CredentialID = [], op_CredentialSource = [],
      op_IntegrationID = [], op_PrincipalType = [], op_PrincipalID = [], op_ExternalSubjectReference = [],
      op_ClientRequestID = [], op_RequestFingerprint = [], op_IdempotencyKey = [], op_Protocol = [],
      op_Operation = [], op_Modality = [], op_Lane = [], op_Model = [], op_ArtifactPolicy = [],
      op_ArtifactSinkID = [], op_Status = [], op_ErrorType = [], op_CreatedAt = 0, op_UpdatedAt = 0,
      op_CompletedAt = None\<rparr>"

record AIAttempt =
  att_ID :: string
  att_OperationID :: string
  att_AttemptNumber :: int
  att_ProviderID :: string
  att_ProviderAccountID :: string
  att_ProviderAdapterID :: string
  att_RouteID :: string
  att_UpstreamModel :: string
  att_Status :: string
  att_ErrorType :: string
  att_DispatchState :: string
  att_DispatchVersion :: int
  att_DispatchKey :: string
  att_DispatchIntentJSON :: string
  att_DispatchSubmittedAt :: "gotime option"
  att_ProviderTaskID :: string
  att_ProviderRequestID :: string
  att_ProviderTaskStatus :: string
  att_ProviderAcceptedAt :: "gotime option"
  att_LastReconciledAt :: "gotime option"
  att_ReconcileAfter :: "gotime option"
  att_CreatedAt :: gotime
  att_UpdatedAt :: gotime
  att_CompletedAt :: "gotime option"

definition zero_AIAttempt :: AIAttempt where
  "zero_AIAttempt =
     \<lparr>att_ID = [], att_OperationID = [], att_AttemptNumber = 0, att_ProviderID = [],
      att_ProviderAccountID = [], att_ProviderAdapterID = [], att_RouteID = [], att_UpstreamModel = [],
      att_Status = [], att_ErrorType = [], att_DispatchState = [], att_DispatchVersion = 0, att_DispatchKey = [],
      att_DispatchIntentJSON = [], att_DispatchSubmittedAt = None, att_ProviderTaskID = [],
      att_ProviderRequestID = [], att_ProviderTaskStatus = [], att_ProviderAcceptedAt = None,
      att_LastReconciledAt = None, att_ReconcileAfter = None, att_CreatedAt = 0, att_UpdatedAt = 0,
      att_CompletedAt = None\<rparr>"

record ProviderTaskReference =
  task_ProviderTaskID :: string
  task_ProviderRequestID :: string
  task_Status :: string
  task_AcceptedAt :: gotime

definition zero_ProviderTaskReference :: ProviderTaskReference where
  "zero_ProviderTaskReference =
     \<lparr>task_ProviderTaskID = [], task_ProviderRequestID = [], task_Status = [], task_AcceptedAt = 0\<rparr>"

record BillingLedgerEntry =
  ledger_ID :: string
  ledger_OperationID :: string
  ledger_AttemptID :: string
  ledger_UsageVersion :: int
  ledger_UsageRecordID :: string
  ledger_RequestFingerprint :: string
  ledger_Purpose :: string
  ledger_AmountMicros :: int
  ledger_Currency :: string
  ledger_PricingEvaluationID :: string
  ledger_PricingRuleVersionID :: string
  ledger_Status :: string
  ledger_CreatedAt :: gotime

definition zero_BillingLedgerEntry :: BillingLedgerEntry where
  "zero_BillingLedgerEntry =
     \<lparr>ledger_ID = [], ledger_OperationID = [], ledger_AttemptID = [], ledger_UsageVersion = 0,
      ledger_UsageRecordID = [], ledger_RequestFingerprint = [], ledger_Purpose = [], ledger_AmountMicros = 0,
      ledger_Currency = [], ledger_PricingEvaluationID = [], ledger_PricingRuleVersionID = [], ledger_Status = [],
      ledger_CreatedAt = 0\<rparr>"

record TransactionalOutboxEvent =
  outbox_ID :: string
  outbox_AggregateType :: string
  outbox_AggregateID :: string
  outbox_EventType :: string
  outbox_EventVersion :: int
  outbox_Status :: string
  outbox_AvailableAt :: gotime
  outbox_AttemptCount :: int
  outbox_MaxAttempts :: int
  outbox_LeaseUntil :: "gotime option"
  outbox_LeaseToken :: string
  outbox_LastError :: string
  outbox_PublishedAt :: "gotime option"
  outbox_CreatedAt :: gotime
  outbox_UpdatedAt :: gotime
  outbox_PayloadJSON :: string

definition zero_TransactionalOutboxEvent :: TransactionalOutboxEvent where
  "zero_TransactionalOutboxEvent =
     \<lparr>outbox_ID = [], outbox_AggregateType = [], outbox_AggregateID = [], outbox_EventType = [],
      outbox_EventVersion = 0, outbox_Status = [], outbox_AvailableAt = 0, outbox_AttemptCount = 0,
      outbox_MaxAttempts = 0, outbox_LeaseUntil = None, outbox_LeaseToken = [], outbox_LastError = [],
      outbox_PublishedAt = None, outbox_CreatedAt = 0, outbox_UpdatedAt = 0, outbox_PayloadJSON = []\<rparr>"

record BillingHold =
  hold_ID :: string
  hold_OperationID :: string
  hold_ProfileScope :: string
  hold_TenantID :: string
  hold_CredentialID :: string
  hold_CredentialSource :: string
  hold_IntegrationID :: string
  hold_PrincipalType :: string
  hold_PrincipalID :: string
  hold_ExternalSubjectReference :: string
  hold_RequestFingerprint :: string
  hold_Status :: string
  hold_Version :: int
  hold_ReservedAmountMicros :: int
  hold_ReservedUsageDimensions :: UsageDimensions
  hold_SettledAmountMicros :: int
  hold_Currency :: string
  hold_EstimateSource :: string
  hold_Reason :: string
  hold_BudgetPeriodStart :: gotime
  hold_ExpiresAt :: gotime
  hold_CreatedAt :: gotime
  hold_UpdatedAt :: gotime
  hold_SettledAt :: "gotime option"
  hold_ReleasedAt :: "gotime option"

definition zero_BillingHold :: BillingHold where
  "zero_BillingHold =
     \<lparr>hold_ID = [], hold_OperationID = [], hold_ProfileScope = [], hold_TenantID = [], hold_CredentialID = [],
      hold_CredentialSource = [], hold_IntegrationID = [], hold_PrincipalType = [], hold_PrincipalID = [],
      hold_ExternalSubjectReference = [], hold_RequestFingerprint = [], hold_Status = [], hold_Version = 0,
      hold_ReservedAmountMicros = 0, hold_ReservedUsageDimensions = [], hold_SettledAmountMicros = 0,
      hold_Currency = [], hold_EstimateSource = [], hold_Reason = [], hold_BudgetPeriodStart = 0, hold_ExpiresAt = 0,
      hold_CreatedAt = 0, hold_UpdatedAt = 0, hold_SettledAt = None, hold_ReleasedAt = None\<rparr>"

record BillingHoldPricingVersion =
  hpv_HoldID :: string
  hpv_Purpose :: string
  hpv_PricingRuleVersionID :: string
  hpv_EstimateEvaluationID :: string
  hpv_SettlementEvaluationID :: string

definition zero_BillingHoldPricingVersion :: BillingHoldPricingVersion where
  "zero_BillingHoldPricingVersion =
     \<lparr>hpv_HoldID = [], hpv_Purpose = [], hpv_PricingRuleVersionID = [], hpv_EstimateEvaluationID = [],
      hpv_SettlementEvaluationID = []\<rparr>"

record PricingEvaluation =
  eval_ID :: string
  eval_Purpose :: string
  eval_Phase :: string
  eval_OperationID :: string
  eval_AttemptID :: string
  eval_UsageRecordID :: string
  eval_UsageVersion :: int
  eval_PricingRuleID :: string
  eval_PricingRuleVersionID :: string
  eval_EngineVersion :: int
  eval_ExpressionHash :: string
  eval_FactsHash :: string
  eval_Facts :: Facts
  eval_AmountMicros :: "int option"
  eval_Currency :: string
  eval_MatchedTier :: string
  eval_Lines :: "PricingLine list"
  eval_NormalizationStatus :: string
  eval_Status :: string
  eval_FailureCode :: string
  eval_ReplayOfID :: string
  eval_CreatedAt :: gotime

definition zero_PricingEvaluation :: PricingEvaluation where
  "zero_PricingEvaluation =
     \<lparr>eval_ID = [], eval_Purpose = [], eval_Phase = [], eval_OperationID = [], eval_AttemptID = [],
      eval_UsageRecordID = [], eval_UsageVersion = 0, eval_PricingRuleID = [], eval_PricingRuleVersionID = [],
      eval_EngineVersion = 0, eval_ExpressionHash = [], eval_FactsHash = [], eval_Facts = zero_Facts,
      eval_AmountMicros = None, eval_Currency = [], eval_MatchedTier = [], eval_Lines = [],
      eval_NormalizationStatus = [], eval_Status = [], eval_FailureCode = [], eval_ReplayOfID = [],
      eval_CreatedAt = 0\<rparr>"

record UsageRecord =
  usage_ID :: string
  usage_OperationID :: string
  usage_AttemptID :: string
  usage_UsageVersion :: int
  usage_UsageSource :: string
  usage_RequestFingerprint :: string
  usage_APIKeyID :: string
  usage_CustomerID :: string
  usage_ProfileScope :: string
  usage_PlatformTenantID :: string
  usage_PlatformTenantName :: string
  usage_GatewayPrincipalID :: string
  usage_GatewayPrincipalName :: string
  usage_ExternalAuthIntegrationID :: string
  usage_ExternalSubjectReference :: string
  usage_APIFingerprint :: string
  usage_Model :: string
  usage_UpstreamModel :: string
  usage_Protocol :: string
  usage_ProviderID :: string
  usage_ProviderAccountID :: string
  usage_Status :: string
  usage_ErrorType :: string
  usage_LatencyMS :: int
  usage_TTFTMS :: "int option"
  usage_InputTokens :: int
  usage_OutputTokens :: int
  usage_TotalInputTokens :: "int option"
  usage_UncachedInputTokens :: "int option"
  usage_CacheReadTokens :: "int option"
  usage_CacheWrite5mTokens :: "int option"
  usage_CacheWrite1hTokens :: "int option"
  usage_CacheFieldsPresent :: bool
  usage_UsageDimensions :: UsageDimensions
  usage_UsageNormalizationStatus :: string
  usage_UpstreamRequestID :: string
  usage_ProcurementCostMicros :: "int option"
  usage_ProcurementCostCurrency :: string
  usage_ProcurementCostSource :: string
  usage_ProcurementCostConfidence :: string
  usage_ProcurementPriceID :: string
  usage_ProviderBillingLineID :: string
  usage_UsageCostMicros :: "int option"
  usage_UsageCostCurrency :: string
  usage_UsagePricingEvaluationID :: string
  usage_PricingStatus :: string
  usage_CreatedAt :: gotime

definition zero_UsageRecord :: UsageRecord where
  "zero_UsageRecord =
     \<lparr>usage_ID = [], usage_OperationID = [], usage_AttemptID = [], usage_UsageVersion = 0,
      usage_UsageSource = [], usage_RequestFingerprint = [], usage_APIKeyID = [], usage_CustomerID = [],
      usage_ProfileScope = [], usage_PlatformTenantID = [], usage_PlatformTenantName = [],
      usage_GatewayPrincipalID = [], usage_GatewayPrincipalName = [], usage_ExternalAuthIntegrationID = [],
      usage_ExternalSubjectReference = [], usage_APIFingerprint = [], usage_Model = [], usage_UpstreamModel = [],
      usage_Protocol = [], usage_ProviderID = [], usage_ProviderAccountID = [], usage_Status = [],
      usage_ErrorType = [], usage_LatencyMS = 0, usage_TTFTMS = None, usage_InputTokens = 0, usage_OutputTokens = 0,
      usage_TotalInputTokens = None, usage_UncachedInputTokens = None, usage_CacheReadTokens = None,
      usage_CacheWrite5mTokens = None, usage_CacheWrite1hTokens = None, usage_CacheFieldsPresent = False,
      usage_UsageDimensions = [], usage_UsageNormalizationStatus = [], usage_UpstreamRequestID = [],
      usage_ProcurementCostMicros = None, usage_ProcurementCostCurrency = [], usage_ProcurementCostSource = [],
      usage_ProcurementCostConfidence = [], usage_ProcurementPriceID = [], usage_ProviderBillingLineID = [],
      usage_UsageCostMicros = None, usage_UsageCostCurrency = [], usage_UsagePricingEvaluationID = [],
      usage_PricingStatus = [], usage_CreatedAt = 0\<rparr>"

record PlatformUsageDeliveryEvent =
  delivery_ID :: string
  delivery_SinkID :: string
  delivery_UsageRecordID :: string
  delivery_EventID :: string
  delivery_Status :: string
  delivery_AttemptCount :: int
  delivery_MaxAttempts :: int
  delivery_NextAttemptAt :: gotime
  delivery_LeaseUntil :: "gotime option"
  delivery_DeliveredAt :: "gotime option"
  delivery_LastHTTPStatus :: int
  delivery_LastError :: string
  delivery_TargetHint :: string
  delivery_CreatedAt :: gotime
  delivery_UpdatedAt :: gotime
  delivery_PayloadJSON :: string
  delivery_LeaseToken :: string

definition zero_PlatformUsageDeliveryEvent :: PlatformUsageDeliveryEvent where
  "zero_PlatformUsageDeliveryEvent =
     \<lparr>delivery_ID = [], delivery_SinkID = [], delivery_UsageRecordID = [], delivery_EventID = [],
      delivery_Status = [], delivery_AttemptCount = 0, delivery_MaxAttempts = 0, delivery_NextAttemptAt = 0,
      delivery_LeaseUntil = None, delivery_DeliveredAt = None, delivery_LastHTTPStatus = 0, delivery_LastError = [],
      delivery_TargetHint = [], delivery_CreatedAt = 0, delivery_UpdatedAt = 0, delivery_PayloadJSON = [],
      delivery_LeaseToken = []\<rparr>"

record AuditLog =
  audit_ID :: string
  audit_Actor :: string
  audit_Action :: string
  audit_ResourceType :: string
  audit_ResourceID :: string
  audit_Summary :: string
  audit_ProfileScope :: string
  audit_PlatformTenantID :: string
  audit_PlatformTenantName :: string
  audit_GatewayPrincipalID :: string
  audit_GatewayPrincipalName :: string
  audit_ExternalAuthIntegrationID :: string
  audit_ExternalSubjectReference :: string
  audit_CreatedAt :: gotime

definition zero_AuditLog :: AuditLog where
  "zero_AuditLog =
     \<lparr>audit_ID = [], audit_Actor = [], audit_Action = [], audit_ResourceType = [], audit_ResourceID = [],
      audit_Summary = [], audit_ProfileScope = [], audit_PlatformTenantID = [], audit_PlatformTenantName = [],
      audit_GatewayPrincipalID = [], audit_GatewayPrincipalName = [], audit_ExternalAuthIntegrationID = [],
      audit_ExternalSubjectReference = [], audit_CreatedAt = 0\<rparr>"

record Artifact =
  art_ID :: string
  art_OperationID :: string
  art_JobID :: string
  art_AttemptID :: string
  art_SourceArtifactID :: string
  art_ProfileScope :: string
  art_TenantID :: string
  art_IntegrationID :: string
  art_PrincipalType :: string
  art_PrincipalID :: string
  art_ExternalSubjectReference :: string
  art_Role :: string
  art_Policy :: string
  art_Status :: string
  art_StatusVersion :: int
  art_MediaType :: string
  art_SizeBytes :: int
  art_SHA256 :: string
  art_StoreDriver :: string
  art_StoreKey :: string
  art_ExternalReference :: string
  art_ErrorType :: string
  art_RetainUntil :: gotime
  art_CreatedAt :: gotime
  art_UpdatedAt :: gotime
  art_ReadyAt :: "gotime option"
  art_DeliveredAt :: "gotime option"
  art_DeletedAt :: "gotime option"

definition zero_Artifact :: Artifact where
  "zero_Artifact =
     \<lparr>art_ID = [], art_OperationID = [], art_JobID = [], art_AttemptID = [], art_SourceArtifactID = [],
      art_ProfileScope = [], art_TenantID = [], art_IntegrationID = [], art_PrincipalType = [], art_PrincipalID = [],
      art_ExternalSubjectReference = [], art_Role = [], art_Policy = [], art_Status = [], art_StatusVersion = 0,
      art_MediaType = [], art_SizeBytes = 0, art_SHA256 = [], art_StoreDriver = [], art_StoreKey = [],
      art_ExternalReference = [], art_ErrorType = [], art_RetainUntil = 0, art_CreatedAt = 0, art_UpdatedAt = 0,
      art_ReadyAt = None, art_DeliveredAt = None, art_DeletedAt = None\<rparr>"

record ArtifactEvent =
  artev_ID :: string
  artev_ArtifactID :: string
  artev_Version :: int
  artev_EventType :: string
  artev_FromStatus :: string
  artev_ToStatus :: string
  artev_Reason :: string
  artev_CreatedAt :: gotime

definition zero_ArtifactEvent :: ArtifactEvent where
  "zero_ArtifactEvent =
     \<lparr>artev_ID = [], artev_ArtifactID = [], artev_Version = 0, artev_EventType = [], artev_FromStatus = [],
      artev_ToStatus = [], artev_Reason = [], artev_CreatedAt = 0\<rparr>"

record UsageSettlement =
  settle_Record :: UsageRecord
  settle_Evaluations :: "PricingEvaluation list"
  settle_Ledgers :: "BillingLedgerEntry list"
  settle_OutboxEvents :: "TransactionalOutboxEvent list"
  settle_PlatformEvents :: "PlatformUsageDeliveryEvent list"

section \<open>The repository\<close>

record MemoryRepository =
  aiOperations :: "(string, AIOperation) gmap"
  aiJobs :: "(string, AIJob) gmap"
  aiJobEvents :: "(string, AIJobEvent) gmap"
  aiAttempts :: "(string, AIAttempt) gmap"
  billingHolds :: "(string, BillingHold) gmap"
  billingHoldPricingVersions :: "(string, BillingHoldPricingVersion) gmap"
  billingLedgerEntries :: "(string, BillingLedgerEntry) gmap"
  transactionalOutboxEvents :: "(string, TransactionalOutboxEvent) gmap"
  pricingEvaluations :: "(string, PricingEvaluation) gmap"
  usageRecords :: "(string, UsageRecord) gmap"
  auditLogs :: "(string, AuditLog) gmap"
  platformUsageDeliveryEvents :: "(string, PlatformUsageDeliveryEvent) gmap"
  artifacts :: "(string, Artifact) gmap"
  artifactEvents :: "(string, ArtifactEvent) gmap"

definition NewMemoryRepository :: MemoryRepository where
  "NewMemoryRepository = \<lparr>aiOperations = [], aiJobs = [], aiJobEvents = [], aiAttempts = [], billingHolds = [],
     billingHoldPricingVersions = [], billingLedgerEntries = [], transactionalOutboxEvents = [], pricingEvaluations = [],
     usageRecords = [], auditLogs = [], platformUsageDeliveryEvents = [], artifacts = [],
     artifactEvents = []\<rparr>"

end
