(* ===== verification/Versioned_Store.thy ===== *)
theory Versioned_Store
  imports Go_Prelude
begin

text \<open>
  The contract of an update guarded by an expected version, which transitions of billing holds and jobs
  and updates of attempts share: it succeeds only on the version it expects, and then the version is one larger;
  otherwise it changes nothing. What follows from it is proved once: of two updates that expect the same
  version at most one succeeds, versions never fall, and the successes are counted by the version.
\<close>

locale versioned_store =
  fixes wf :: "'s \<Rightarrow> bool"
    and lookup :: "'s \<Rightarrow> 'k \<Rightarrow> 'v option"
    and version :: "'v \<Rightarrow> int"
    and cas :: "'k \<Rightarrow> int \<Rightarrow> 'a \<Rightarrow> 's \<Rightarrow> bool \<times> 's"
  assumes cas_fail: "wf s \<Longrightarrow> cas k n a s = (False, s') \<Longrightarrow> s' = s"
    and cas_wf: "wf s \<Longrightarrow> cas k n a s = (True, s') \<Longrightarrow> wf s'"
    and cas_ok: "wf s \<Longrightarrow> cas k n a s = (True, s') \<Longrightarrow>
      \<exists>v v'. lookup s k = Some v \<and> version v = n \<and> lookup s' k = Some v' \<and> version v' = n + 1"
    and cas_frame: "wf s \<Longrightarrow> cas k n a s = (True, s') \<Longrightarrow> lookup s j \<noteq> lookup s k \<Longrightarrow> lookup s' j = lookup s j"
    and cas_alias: "wf s \<Longrightarrow> cas k n a s = (True, s') \<Longrightarrow> lookup s j = lookup s k \<Longrightarrow> lookup s' j = lookup s' k"
begin

lemma one_winner:
  assumes "wf s" "cas k n a s = (True, s')"
  shows "\<not> fst (cas k n b s')"
proof
  assume "fst (cas k n b s')"
  then obtain s'' where s'': "cas k n b s' = (True, s'')" by (cases "cas k n b s'") auto
  have "wf s'" using assms by (rule cas_wf)
  from cas_ok [OF assms] cas_ok [OF this s''] show False by auto
qed

lemma stale_fails:
  assumes "wf s" "lookup s k = Some v" "version v \<noteq> n"
  shows "cas k n a s = (False, s)"
proof -
  obtain b s' where c: "cas k n a s = (b, s')" by (cases "cas k n a s")
  show ?thesis
  proof (cases b)
    case True
    then show ?thesis using cas_ok [of s k n a s'] c assms by auto
  next
    case False
    then show ?thesis using cas_fail [of s k n a s'] c assms(1) by auto
  qed
qed

lemma version_step:
  assumes "wf s" "cas k n a s = (b, s')" "lookup s j = Some v"
  shows "\<exists>v'. lookup s' j = Some v' \<and> version v' = version v + (if b \<and> lookup s j = lookup s k then 1 else 0)"
proof (cases b)
  case True
  with assms(2) have c: "cas k n a s = (True, s')" by simp
  show ?thesis
  proof (cases "lookup s j = lookup s k")
    case True
    with cas_ok [OF assms(1) c] cas_alias [OF assms(1) c True] assms(3) \<open>b\<close> show ?thesis by auto
  next
    case False
    with cas_frame [OF assms(1) c False] assms(3) show ?thesis by auto
  qed
next
  case False
  then show ?thesis using assms cas_fail [of s k n a s'] by simp
qed

end

text \<open>A sequence of updates, with the results in order.\<close>

fun run_updates :: "('k \<Rightarrow> int \<Rightarrow> 'a \<Rightarrow> 's \<Rightarrow> bool \<times> 's) \<Rightarrow> ('k \<times> int \<times> 'a) list \<Rightarrow> 's \<Rightarrow> bool list \<times> 's" where
  "run_updates cas [] s = ([], s)"
| "run_updates cas ((k, n, a) # us) s =
     (case cas k n a s of (b, s') \<Rightarrow> case run_updates cas us s' of (bs, s'') \<Rightarrow> (b # bs, s''))"

definition wins :: "'k \<Rightarrow> ('k \<times> int \<times> 'a) list \<Rightarrow> bool list \<Rightarrow> nat" where
  "wins k us bs = length (filter (\<lambda>(u, b). b \<and> fst u = k) (zip us bs))"

context versioned_store
begin

lemma run_wf: "wf s \<Longrightarrow> run_updates cas us s = (bs, s') \<Longrightarrow> wf s' \<and> length bs = length us"
proof (induction us arbitrary: s bs)
  case (Cons u us)
  obtain k n a where u: "u = (k, n, a)" by (cases u)
  obtain b t where c: "cas k n a s = (b, t)" by (cases "cas k n a s")
  obtain cs where r: "run_updates cas us t = (cs, s')" and bs: "bs = b # cs"
    using Cons.prems(2) c by (auto simp: u split: prod.splits)
  have "wf t" using c Cons.prems(1) cas_wf [of s k n a t] cas_fail [of s k n a t] by (cases b) auto
  from Cons.IH [OF this r] show ?case by (simp add: bs)
qed simp

text \<open>Where the keys of the updates are told apart by the store, the version counts the successes.\<close>

lemma version_counts_wins:
  assumes "wf s" "run_updates cas us s = (bs, s')" "lookup s k = Some v"
    and "\<forall>t j. wf t \<longrightarrow> j \<in> fst ` set us \<longrightarrow> j \<noteq> k \<longrightarrow> lookup t j \<noteq> lookup t k \<or> lookup t k = None"
  shows "\<exists>v'. lookup s' k = Some v' \<and> version v' = version v + int (wins k us bs)"
  using assms
proof (induction us arbitrary: s bs v)
  case Nil
  then show ?case by (simp add: wins_def)
next
  case (Cons u us)
  obtain j n a where u: "u = (j, n, a)" by (cases u)
  obtain b t where c: "cas j n a s = (b, t)" by (cases "cas j n a s")
  obtain cs where r: "run_updates cas us t = (cs, s')" and bs: "bs = b # cs"
    using Cons.prems(2) c by (auto simp: u split: prod.splits)
  have t: "wf t" using c Cons.prems(1) cas_wf [of s j n a t] cas_fail [of s j n a t] by (cases b) auto
  have same: "lookup s k = lookup s j \<longleftrightarrow> k = j" using Cons.prems(1,3,4) u by fastforce
  obtain v1 where v1: "lookup t k = Some v1" "version v1 = version v + (if b \<and> k = j then 1 else 0)"
    using version_step [OF Cons.prems(1) c Cons.prems(3)] same by auto
  from Cons.IH [OF t r v1(1)] Cons.prems(4) obtain v' where "lookup s' k = Some v'" "version v' = version v1 + int (wins k us cs)"
    by auto
  then show ?case using v1(2) by (auto simp: bs wins_def u)
qed

end

end
