(* ===== verification/Operation_Repo.thy ===== *)
theory Operation_Repo
  imports CP_Model Versioned_Store
begin

text \<open>
  The in-memory repository's methods on operations and attempts (\<open>operation_repository.go\<close>), with the
  normalisations of \<open>artifact_model.go\<close>. A method is a function of its arguments and the repository; where it changes the
  repository, it gives the results and the new repository. \<open>range\<close> over a map visits the association list in order.
\<close>

section \<open>Normalisation\<close>

definition validArtifactRole :: "string \<Rightarrow> bool" where
  "validArtifactRole role = oneOf role [ArtifactRoleInput, ArtifactRolePreview, ArtifactRoleFinal, ArtifactRoleDerived,
     ArtifactRoleProviderReference, ArtifactRoleMetadata]"

definition validArtifactPolicy :: "string \<Rightarrow> bool" where
  "validArtifactPolicy policy = oneOf policy [GatewayArtifactPolicyProxyOnly, GatewayArtifactPolicyTemporary,
     GatewayArtifactPolicyManaged, GatewayArtifactPolicyCustomerSink, GatewayArtifactPolicyMetadataOnly]"

definition artifactPolicySnapshot :: "string \<Rightarrow> string" where
  "artifactPolicySnapshot policy0 =
     (let policy = TrimSpace policy0 in if \<not> validArtifactPolicy policy then GatewayArtifactPolicyProxyOnly else policy)"

definition artifactSinkSnapshot :: "string \<Rightarrow> string \<Rightarrow> string" where
  "artifactSinkSnapshot policy sinkID =
     (if artifactPolicySnapshot policy \<noteq> GatewayArtifactPolicyCustomerSink then [] else TrimSpace sinkID)"

definition normalizeAIAttempt :: "AIAttempt \<Rightarrow> AIAttempt" where
  "normalizeAIAttempt attempt =
     (let attempt = (if att_DispatchState attempt = [] then attempt\<lparr>att_DispatchState := AIAttemptDispatchPending\<rparr> else attempt)
      in if att_DispatchKey attempt = [] then attempt\<lparr>att_DispatchKey := att_ID attempt\<rparr> else attempt)"

definition normalizeAIOperation :: "AIOperation \<Rightarrow> AIOperation" where
  "normalizeAIOperation operation =
     (let operation = operation\<lparr>op_ArtifactPolicy := artifactPolicySnapshot (op_ArtifactPolicy operation)\<rparr>
      in operation\<lparr>op_ArtifactSinkID := artifactSinkSnapshot (op_ArtifactPolicy operation) (op_ArtifactSinkID operation)\<rparr>)"

definition applyAIAttemptDispatchUpdate :: "AIAttempt \<Rightarrow> AIAttempt \<Rightarrow> AIAttempt" where
  "applyAIAttemptDispatchUpdate current requested =
     current\<lparr>att_DispatchState := att_DispatchState requested,
       att_DispatchVersion := att_DispatchVersion current + 1,
       att_DispatchKey := att_DispatchKey requested,
       att_DispatchIntentJSON := att_DispatchIntentJSON requested,
       att_DispatchSubmittedAt := att_DispatchSubmittedAt requested,
       att_ProviderTaskID := att_ProviderTaskID requested,
       att_ProviderRequestID := att_ProviderRequestID requested,
       att_ProviderTaskStatus := att_ProviderTaskStatus requested,
       att_ProviderAcceptedAt := att_ProviderAcceptedAt requested,
       att_LastReconciledAt := att_LastReconciledAt requested,
       att_ReconcileAfter := att_ReconcileAfter requested,
       att_UpdatedAt := att_UpdatedAt requested\<rparr>"

definition aiAttemptReconciliationTime :: "AIAttempt \<Rightarrow> gotime" where
  "aiAttemptReconciliationTime attempt =
     (case att_ReconcileAfter attempt of Some t \<Rightarrow> t | None \<Rightarrow> att_UpdatedAt attempt)"

definition aiAttemptDueForReconciliation :: "AIAttempt \<Rightarrow> gotime \<Rightarrow> bool" where
  "aiAttemptDueForReconciliation attempt now =
     (if att_Status attempt \<noteq> AIAttemptStatusRunning
        \<or> \<not> oneOf (att_DispatchState attempt) [AIAttemptDispatchSubmitted, AIAttemptDispatchAccepted, AIAttemptDispatchUnknown]
      then False
      else (case att_ReconcileAfter attempt of None \<Rightarrow> True | Some t \<Rightarrow> \<not> t > now))"

definition normalizeTransactionalOutboxEvent :: "TransactionalOutboxEvent \<Rightarrow> TransactionalOutboxEvent" where
  "normalizeTransactionalOutboxEvent event =
     (if outbox_MaxAttempts event \<le> 0 then event\<lparr>outbox_MaxAttempts := OutboxDefaultMaxAttempts\<rparr> else event)"

definition clonePricingEvaluation :: "PricingEvaluation \<Rightarrow> PricingEvaluation" where
  "clonePricingEvaluation v = v\<lparr>eval_Lines := [] @ eval_Lines v\<rparr>"

section \<open>Operations\<close>

definition sameAIOperationIdempotencyScope :: "AIOperation \<Rightarrow> AIOperation \<Rightarrow> bool" where
  "sameAIOperationIdempotencyScope left right \<longleftrightarrow>
     op_IdempotencyKey left \<noteq> [] \<and> op_ProfileScope left = op_ProfileScope right \<and> op_TenantID left = op_TenantID right \<and>
     op_CredentialSource left = op_CredentialSource right \<and> op_CredentialID left = op_CredentialID right \<and>
     op_IntegrationID left = op_IntegrationID right \<and> op_PrincipalType left = op_PrincipalType right \<and>
     op_PrincipalID left = op_PrincipalID right \<and>
     op_ExternalSubjectReference left = op_ExternalSubjectReference right \<and> op_Operation left = op_Operation right \<and>
     op_IdempotencyKey left = op_IdempotencyKey right"

definition existing_err :: "string \<Rightarrow> string \<Rightarrow> string \<Rightarrow> go_error" where
  "existing_err kind ident what = errors_New (kind @ '' '' @ go_quote ident @ '' '' @ what)"

definition CreateAIOperation ::
  "AIOperation \<Rightarrow> MemoryRepository \<Rightarrow> (AIOperation \<times> bool \<times> go_error option) \<times> MemoryRepository" where
  "CreateAIOperation operation0 r =
     (let operation = normalizeAIOperation operation0;
          current = (if op_IdempotencyKey operation \<noteq> []
            then find (\<lambda>current. sameAIOperationIdempotencyScope current operation) (mvalues (aiOperations r)) else None)
      in case current of
           Some current \<Rightarrow> ((current, False, None), r)
         | None \<Rightarrow>
             if mhas (aiOperations r) (op_ID operation)
             then ((zero_AIOperation, False, Some (existing_err ''ai operation'' (op_ID operation) ''already exists'')), r)
             else ((operation, True, None), r\<lparr>aiOperations := mput (op_ID operation) operation (aiOperations r)\<rparr>))"

definition FindAIOperation :: "string \<Rightarrow> MemoryRepository \<Rightarrow> AIOperation option" where
  "FindAIOperation ident r = map_of (aiOperations r) ident"

definition MarkAIOperationRunning :: "string \<Rightarrow> gotime \<Rightarrow> MemoryRepository \<Rightarrow> bool \<times> MemoryRepository" where
  "MarkAIOperationRunning ident updatedAt r =
     (case map_of (aiOperations r) ident of
        None \<Rightarrow> (False, r)
      | Some operation \<Rightarrow>
          if op_Status operation \<noteq> AIOperationStatusAccepted then (False, r)
          else (True, r\<lparr>aiOperations := mput ident
            (operation\<lparr>op_Status := AIOperationStatusRunning, op_UpdatedAt := updatedAt\<rparr>) (aiOperations r)\<rparr>))"

definition CompleteAIOperation ::
  "string \<Rightarrow> string \<Rightarrow> string \<Rightarrow> gotime \<Rightarrow> MemoryRepository \<Rightarrow> bool \<times> MemoryRepository" where
  "CompleteAIOperation ident status errorType completedAt r =
     (case map_of (aiOperations r) ident of
        None \<Rightarrow> (False, r)
      | Some operation \<Rightarrow>
          if op_Status operation \<noteq> AIOperationStatusAccepted \<and> op_Status operation \<noteq> AIOperationStatusRunning then (False, r)
          else (True, r\<lparr>aiOperations := mput ident
            (operation\<lparr>op_Status := status, op_ErrorType := errorType, op_UpdatedAt := completedAt,
              op_CompletedAt := Some completedAt\<rparr>) (aiOperations r)\<rparr>))"

section \<open>Attempts\<close>

definition CreateOrGetAIAttempt ::
  "AIAttempt \<Rightarrow> MemoryRepository \<Rightarrow> (AIAttempt \<times> bool \<times> go_error option) \<times> MemoryRepository" where
  "CreateOrGetAIAttempt attempt0 r =
     (let attempt = normalizeAIAttempt attempt0
      in if \<not> mhas (aiOperations r) (att_OperationID attempt)
         then ((zero_AIAttempt, False, Some (existing_err ''ai operation'' (att_OperationID attempt) ''not found'')), r)
         else (case find (\<lambda>current. att_OperationID current = att_OperationID attempt
                 \<and> att_AttemptNumber current = att_AttemptNumber attempt) (mvalues (aiAttempts r)) of
             Some current \<Rightarrow> ((current, False, None), r)
           | None \<Rightarrow>
               if mhas (aiAttempts r) (att_ID attempt)
               then ((zero_AIAttempt, False, Some (existing_err ''ai attempt'' (att_ID attempt) ''already exists'')), r)
               else ((attempt, True, None), r\<lparr>aiAttempts := mput (att_ID attempt) attempt (aiAttempts r)\<rparr>)))"

definition CreateAIAttempt :: "AIAttempt \<Rightarrow> MemoryRepository \<Rightarrow> go_error option \<times> MemoryRepository" where
  "CreateAIAttempt attempt r =
     (case CreateOrGetAIAttempt attempt r of
        ((_, created, Some err), r') \<Rightarrow> (Some err, r')
      | ((_, created, None), r') \<Rightarrow>
          if \<not> created then (Some (errors_New ''ai attempt number already exists''), r') else (None, r'))"

definition FindAIAttempt :: "string \<Rightarrow> MemoryRepository \<Rightarrow> AIAttempt option" where
  "FindAIAttempt ident r = map_of (aiAttempts r) (TrimSpace ident)"

definition attempt_order :: "AIAttempt \<Rightarrow> AIAttempt \<Rightarrow> bool" where
  "attempt_order a b =
     (if att_AttemptNumber a = att_AttemptNumber b then att_ID a < att_ID b else att_AttemptNumber a < att_AttemptNumber b)"

definition ListAIAttemptsByOperationID :: "string \<Rightarrow> MemoryRepository \<Rightarrow> AIAttempt list" where
  "ListAIAttemptsByOperationID operationID r =
     sort_slice attempt_order (filter (\<lambda>attempt. att_OperationID attempt = TrimSpace operationID) (mvalues (aiAttempts r)))"

text \<open>A read of an absent key gives the zero attempt, which the methods return with \<open>false\<close>.\<close>

definition attempt_at :: "MemoryRepository \<Rightarrow> string \<Rightarrow> AIAttempt" where
  "attempt_at r ident = (case map_of (aiAttempts r) ident of None \<Rightarrow> zero_AIAttempt | Some attempt \<Rightarrow> attempt)"

definition UpdateAIAttemptDispatch ::
  "AIAttempt \<Rightarrow> int \<Rightarrow> MemoryRepository \<Rightarrow> (AIAttempt \<times> bool \<times> go_error option) \<times> MemoryRepository" where
  "UpdateAIAttemptDispatch requested expectedVersion r =
     (let current = attempt_at r (att_ID requested)
      in if \<not> mhas (aiAttempts r) (att_ID requested) \<or> att_Status current \<noteq> AIAttemptStatusRunning
           \<or> att_DispatchVersion current \<noteq> expectedVersion
         then ((current, False, None), r)
         else if att_ProviderTaskID requested \<noteq> [] \<and> list_ex (\<lambda>other. att_ID other \<noteq> att_ID current
             \<and> att_ProviderTaskID other = att_ProviderTaskID requested
             \<and> att_ProviderAccountID other = att_ProviderAccountID requested) (mvalues (aiAttempts r))
         then ((current, False, Some ErrAIAttemptDispatchConflict), r)
         else (let current = applyAIAttemptDispatchUpdate current requested
               in ((current, True, None), r\<lparr>aiAttempts := mput (att_ID current) current (aiAttempts r)\<rparr>)))"

definition ScheduleAIAttemptReconciliation ::
  "string \<Rightarrow> int \<Rightarrow> gotime \<Rightarrow> AuditLog \<Rightarrow> MemoryRepository \<Rightarrow> (AIAttempt \<times> bool \<times> go_error option) \<times> MemoryRepository" where
  "ScheduleAIAttemptReconciliation ident expectedVersion scheduledAt audit r =
     (let current = attempt_at r (TrimSpace ident)
      in if \<not> mhas (aiAttempts r) (TrimSpace ident) \<or> att_Status current \<noteq> AIAttemptStatusRunning
           \<or> att_DispatchVersion current \<noteq> expectedVersion
           \<or> \<not> oneOf (att_DispatchState current) [AIAttemptDispatchSubmitted, AIAttemptDispatchAccepted, AIAttemptDispatchUnknown]
         then ((current, False, None), r)
         else if mhas (auditLogs r) (audit_ID audit)
         then ((current, False, Some (existing_err ''audit log'' (audit_ID audit) ''already exists'')), r)
         else (let requested = current\<lparr>att_ReconcileAfter := Some scheduledAt, att_UpdatedAt := scheduledAt\<rparr>;
                   current = applyAIAttemptDispatchUpdate current requested
               in ((current, True, None),
                   r\<lparr>aiAttempts := mput (att_ID current) current (aiAttempts r),
                     auditLogs := mput (audit_ID audit) audit (auditLogs r)\<rparr>)))"

definition ScheduleArtifactDeliveryRetry ::
  "string \<Rightarrow> AIAttempt \<Rightarrow> int \<Rightarrow> AuditLog \<Rightarrow> MemoryRepository \<Rightarrow> (AIAttempt \<times> bool \<times> go_error option) \<times> MemoryRepository" where
  "ScheduleArtifactDeliveryRetry artifactID requested expectedVersion audit r =
     (let current = attempt_at r (att_ID requested)
      in if (case map_of (artifacts r) (TrimSpace artifactID) of
               None \<Rightarrow> True
             | Some artifact \<Rightarrow> art_Status artifact \<noteq> ArtifactStatusDeliveryFailed
                 \<or> art_Policy artifact \<noteq> GatewayArtifactPolicyCustomerSink \<or> art_AttemptID artifact \<noteq> att_ID requested)
           \<or> \<not> mhas (aiAttempts r) (att_ID requested) \<or> att_Status current \<noteq> AIAttemptStatusRunning
           \<or> att_DispatchVersion current \<noteq> expectedVersion
         then ((current, False, None), r)
         else if mhas (auditLogs r) (audit_ID audit)
         then ((current, False, Some (existing_err ''audit log'' (audit_ID audit) ''already exists'')), r)
         else (let current = applyAIAttemptDispatchUpdate current requested
               in ((current, True, None),
                   r\<lparr>aiAttempts := mput (att_ID current) current (aiAttempts r),
                     auditLogs := mput (audit_ID audit) audit (auditLogs r)\<rparr>)))"

definition reconciliation_order :: "AIAttempt \<Rightarrow> AIAttempt \<Rightarrow> bool" where
  "reconciliation_order a b \<longleftrightarrow> aiAttemptReconciliationTime a < aiAttemptReconciliationTime b"

definition limit_list :: "int \<Rightarrow> 'a list \<Rightarrow> 'a list" where
  "limit_list limit xs = (if int (length xs) > limit then take (nat limit) xs else xs)"

definition ListAIAttemptsForReconciliation :: "gotime \<Rightarrow> int \<Rightarrow> MemoryRepository \<Rightarrow> AIAttempt list" where
  "ListAIAttemptsForReconciliation now limit r =
     (if limit \<le> 0 then []
      else limit_list limit (sort_slice reconciliation_order
        (filter (\<lambda>attempt. aiAttemptDueForReconciliation attempt now) (mvalues (aiAttempts r)))))"

definition ListDirectAIAttemptsForReconciliation :: "gotime \<Rightarrow> int \<Rightarrow> MemoryRepository \<Rightarrow> AIAttempt list" where
  "ListDirectAIAttemptsForReconciliation now limit r =
     (if limit \<le> 0 then []
      else limit_list limit (sort_slice reconciliation_order
        (filter (\<lambda>attempt. aiAttemptDueForReconciliation attempt now
            \<and> (case map_of (aiOperations r) (att_OperationID attempt) of
                 None \<Rightarrow> False | Some operation \<Rightarrow> op_Lane operation = LaneDirect)) (mvalues (aiAttempts r)))))"

definition memoryAIJobByOperationID :: "(string, AIJob) gmap \<Rightarrow> string \<Rightarrow> AIJob option" where
  "memoryAIJobByOperationID jobs operationID = find (\<lambda>job. job_OperationID job = TrimSpace operationID) (mvalues jobs)"

definition ListDurableAIAttemptsForReconciliation :: "gotime \<Rightarrow> int \<Rightarrow> MemoryRepository \<Rightarrow> AIAttempt list" where
  "ListDurableAIAttemptsForReconciliation now limit r =
     (if limit \<le> 0 then []
      else limit_list limit (sort_slice reconciliation_order
        (filter (\<lambda>attempt. aiAttemptDueForReconciliation attempt now
            \<and> memoryAIJobByOperationID (aiJobs r) (att_OperationID attempt) \<noteq> None) (mvalues (aiAttempts r)))))"

definition CompleteAIAttempt ::
  "string \<Rightarrow> string \<Rightarrow> string \<Rightarrow> gotime \<Rightarrow> MemoryRepository \<Rightarrow> bool \<times> MemoryRepository" where
  "CompleteAIAttempt ident status errorType completedAt r =
     (case map_of (aiAttempts r) ident of
        None \<Rightarrow> (False, r)
      | Some attempt \<Rightarrow>
          if att_Status attempt \<noteq> AIAttemptStatusRunning then (False, r)
          else (True, r\<lparr>aiAttempts := mput ident
            (attempt\<lparr>att_Status := status, att_ErrorType := errorType, att_UpdatedAt := completedAt,
              att_CompletedAt := Some completedAt\<rparr>) (aiAttempts r)\<rparr>))"


section \<open>Repository invariants on operations and attempts\<close>

definition operations_ok :: "MemoryRepository \<Rightarrow> bool" where
  "operations_ok r \<longleftrightarrow> keyed op_ID (aiOperations r)
     \<and> (\<forall>a \<in> set (mvalues (aiOperations r)). \<forall>b \<in> set (mvalues (aiOperations r)). sameAIOperationIdempotencyScope a b \<longrightarrow> a = b)"

definition attempts_ok :: "MemoryRepository \<Rightarrow> bool" where
  "attempts_ok r \<longleftrightarrow> keyed att_ID (aiAttempts r)
     \<and> (\<forall>a \<in> set (mvalues (aiAttempts r)). mhas (aiOperations r) (att_OperationID a))
     \<and> (\<forall>a \<in> set (mvalues (aiAttempts r)). \<forall>b \<in> set (mvalues (aiAttempts r)).
          att_OperationID a = att_OperationID b \<longrightarrow> att_AttemptNumber a = att_AttemptNumber b \<longrightarrow> a = b)"

lemma sameScope_sym: "sameAIOperationIdempotencyScope a b \<longleftrightarrow> sameAIOperationIdempotencyScope b a"
  unfolding sameAIOperationIdempotencyScope_def by metis

lemma sameScope_trans:
  "sameAIOperationIdempotencyScope a b \<Longrightarrow> sameAIOperationIdempotencyScope b c \<Longrightarrow> sameAIOperationIdempotencyScope a c"
  unfolding sameAIOperationIdempotencyScope_def by metis

lemma sameScope_key: "sameAIOperationIdempotencyScope a b \<Longrightarrow> op_IdempotencyKey a \<noteq> [] \<and> op_IdempotencyKey b \<noteq> []"
  unfolding sameAIOperationIdempotencyScope_def by metis

lemma normalizeAIOperation_fields [simp]:
  "op_ID (normalizeAIOperation a) = op_ID a" "op_IdempotencyKey (normalizeAIOperation a) = op_IdempotencyKey a"
  "sameAIOperationIdempotencyScope (normalizeAIOperation a) b \<longleftrightarrow> sameAIOperationIdempotencyScope a b"
  "sameAIOperationIdempotencyScope b (normalizeAIOperation a) \<longleftrightarrow> sameAIOperationIdempotencyScope b a"
  by (simp_all add: normalizeAIOperation_def Let_def sameAIOperationIdempotencyScope_def)

text \<open>Insertion of an operation whose scope is not taken yet.\<close>

lemma operations_ok_insert:
  assumes "operations_ok r" "\<not> mhas (aiOperations r) (op_ID a)"
    and "\<forall>b \<in> set (mvalues (aiOperations r)). \<not> sameAIOperationIdempotencyScope b a"
  shows "operations_ok (r\<lparr>aiOperations := mput (op_ID a) a (aiOperations r)\<rparr>)"
proof -
  have fresh: "map_of (aiOperations r) (op_ID a) = None" using assms(2) by (simp add: mhas_def)
  have "\<not> sameAIOperationIdempotencyScope a b" if "b \<in> set (mvalues (aiOperations r))" for b
    using assms(3) that sameScope_sym by blast
  then show ?thesis using assms(1,3)
    by (auto simp: operations_ok_def mvalues_mput_fresh [OF fresh])
qed

lemma operations_ok_update:
  assumes "operations_ok r" "map_of (aiOperations r) k = Some a" "op_ID b = op_ID a"
    and "\<And>c. sameAIOperationIdempotencyScope b c \<longleftrightarrow> sameAIOperationIdempotencyScope a c"
  shows "operations_ok (r\<lparr>aiOperations := mput k b (aiOperations r)\<rparr>)"
proof -
  have key: "keyed op_ID (aiOperations r)" using assms(1) by (simp add: operations_ok_def)
  have k: "op_ID a = k" using keyed_lookup [OF key assms(2)] .
  have av: "a \<in> set (mvalues (aiOperations r))" using assms(2) by (rule map_of_Some_mvalues)
  have uniq: "c = a" if "c \<in> set (mvalues (aiOperations r))" "sameAIOperationIdempotencyScope a c \<or> sameAIOperationIdempotencyScope c a" for c
    using assms(1) av that unfolding operations_ok_def by blast
  have vals: "c = b \<or> (c \<noteq> a \<and> c \<in> set (mvalues (aiOperations r)))"
    if "c \<in> set (mvalues (mput k b (aiOperations r)))" for c
  proof -
    from that consider "c = b" | j where "j \<noteq> k" "map_of (aiOperations r) j = Some c"
      using set_mvalues_mput [OF keyed_wf [OF key], of k b] by auto
    then show ?thesis
    proof cases
      case 2
      then have "op_ID c = j" using keyed_lookup [OF key] by blast
      with 2 k show ?thesis using map_of_Some_mvalues [OF 2(2)] by auto
    qed simp
  qed
  have "c = d" if c: "c \<in> set (mvalues (mput k b (aiOperations r)))" and d: "d \<in> set (mvalues (mput k b (aiOperations r)))"
    and scope: "sameAIOperationIdempotencyScope c d" for c d
    using vals [OF c] vals [OF d]
  proof (elim disjE conjE)
    assume "c = b" "d \<noteq> a" "d \<in> set (mvalues (aiOperations r))"
    then show ?thesis using uniq scope assms(4) by blast
  next
    assume "c \<noteq> a" "c \<in> set (mvalues (aiOperations r))" "d = b"
    then show ?thesis using uniq scope assms(4) sameScope_sym by blast
  next
    assume "c \<in> set (mvalues (aiOperations r))" "d \<in> set (mvalues (aiOperations r))"
    then show ?thesis using assms(1) scope unfolding operations_ok_def by blast
  qed simp
  moreover have "keyed op_ID (mput k b (aiOperations r))" using key assms(3) k by auto
  ultimately show ?thesis by (simp add: operations_ok_def)
qed

text \<open>The check for an earlier operation in the scope, common to every way an operation is created.\<close>

definition operation_in_scope :: "AIOperation \<Rightarrow> MemoryRepository \<Rightarrow> AIOperation option" where
  "operation_in_scope operation r =
     (if op_IdempotencyKey operation \<noteq> []
      then find (\<lambda>current. sameAIOperationIdempotencyScope current operation) (mvalues (aiOperations r)) else None)"

lemma operation_in_scope_None:
  "operation_in_scope operation r = None \<longleftrightarrow>
     (\<forall>b \<in> set (mvalues (aiOperations r)). \<not> sameAIOperationIdempotencyScope b operation)"
  by (auto simp: operation_in_scope_def find_None_iff dest: sameScope_key)

lemma operation_in_scope_Some:
  assumes "operation_in_scope operation r = Some current"
  shows "current \<in> set (mvalues (aiOperations r)) \<and> sameAIOperationIdempotencyScope current operation"
proof -
  have "find (\<lambda>current. sameAIOperationIdempotencyScope current operation) (mvalues (aiOperations r)) = Some current"
    using assms by (simp add: operation_in_scope_def split: if_splits)
  then show ?thesis by (auto simp: find_Some_iff)
qed

lemma operation_in_scope_eq:
  assumes "operations_ok r" "current \<in> set (mvalues (aiOperations r))" "sameAIOperationIdempotencyScope current operation"
  shows "operation_in_scope operation r = Some current"
proof (cases "operation_in_scope operation r")
  case None
  then show ?thesis using operation_in_scope_None assms(2,3) by blast
next
  case (Some c)
  from operation_in_scope_Some [OF Some] assms have "sameAIOperationIdempotencyScope c current"
    using sameScope_trans sameScope_sym by blast
  with operation_in_scope_Some [OF Some] assms have "c = current" by (auto simp: operations_ok_def)
  with Some show ?thesis by simp
qed

lemma CreateAIOperation_scope:
  "CreateAIOperation operation r =
     (case operation_in_scope (normalizeAIOperation operation) r of
        Some current \<Rightarrow> ((current, False, None), r)
      | None \<Rightarrow>
          if mhas (aiOperations r) (op_ID operation)
          then ((zero_AIOperation, False, Some (existing_err ''ai operation'' (op_ID operation) ''already exists'')), r)
          else ((normalizeAIOperation operation, True, None),
            r\<lparr>aiOperations := mput (op_ID operation) (normalizeAIOperation operation) (aiOperations r)\<rparr>))"
proof -
  have "CreateAIOperation operation r =
    (case operation_in_scope (normalizeAIOperation operation) r of
       Some current \<Rightarrow> ((current, False, None), r)
     | None \<Rightarrow>
         if mhas (aiOperations r) (op_ID (normalizeAIOperation operation))
         then ((zero_AIOperation, False,
           Some (existing_err ''ai operation'' (op_ID (normalizeAIOperation operation)) ''already exists'')), r)
         else ((normalizeAIOperation operation, True, None), r\<lparr>aiOperations :=
           mput (op_ID (normalizeAIOperation operation)) (normalizeAIOperation operation) (aiOperations r)\<rparr>))"
    unfolding CreateAIOperation_def operation_in_scope_def Let_def ..
  then show ?thesis by (simp only: normalizeAIOperation_fields)
qed

section \<open>Dispatch updates as a versioned store\<close>

definition dispatch_cas :: "string \<Rightarrow> int \<Rightarrow> AIAttempt \<Rightarrow> MemoryRepository \<Rightarrow> bool \<times> MemoryRepository" where
  "dispatch_cas k expectedVersion requested r =
     (case UpdateAIAttemptDispatch (requested\<lparr>att_ID := k\<rparr>) expectedVersion r of ((_, updated, _), r') \<Rightarrow> (updated, r'))"

lemma apply_update_fields [simp]:
  "att_ID (applyAIAttemptDispatchUpdate c q) = att_ID c"
  "att_OperationID (applyAIAttemptDispatchUpdate c q) = att_OperationID c"
  "att_AttemptNumber (applyAIAttemptDispatchUpdate c q) = att_AttemptNumber c"
  "att_Status (applyAIAttemptDispatchUpdate c q) = att_Status c"
  "att_ProviderAccountID (applyAIAttemptDispatchUpdate c q) = att_ProviderAccountID c"
  "att_DispatchVersion (applyAIAttemptDispatchUpdate c q) = att_DispatchVersion c + 1"
  by (simp_all add: applyAIAttemptDispatchUpdate_def)

lemma dispatch_cas_cases:
  assumes "keyed att_ID (aiAttempts r)" "dispatch_cas k n a r = (b, r')"
  shows "if b then \<exists>v. map_of (aiAttempts r) k = Some v \<and> att_DispatchVersion v = n \<and> att_Status v = AIAttemptStatusRunning
      \<and> r' = r\<lparr>aiAttempts := mput k (applyAIAttemptDispatchUpdate v (a\<lparr>att_ID := k\<rparr>)) (aiAttempts r)\<rparr>
    else r' = r"
proof (cases "map_of (aiAttempts r) k")
  case None
  then show ?thesis using assms(2) by (auto simp: dispatch_cas_def UpdateAIAttemptDispatch_def mhas_def Let_def)
next
  case (Some v)
  then have "att_ID v = k" using keyed_lookup [OF assms(1)] by blast
  with Some show ?thesis using assms(2)
    by (auto simp: dispatch_cas_def UpdateAIAttemptDispatch_def mhas_def attempt_at_def Let_def split: if_splits)
qed

interpretation attempts: versioned_store "\<lambda>r. keyed att_ID (aiAttempts r)" "\<lambda>r. map_of (aiAttempts r)" att_DispatchVersion dispatch_cas
proof
  fix r r' :: MemoryRepository and k j n a
  assume wf: "keyed att_ID (aiAttempts r)"
  show "dispatch_cas k n a r = (False, r') \<Longrightarrow> r' = r" using dispatch_cas_cases [OF wf, of k n a False r'] by simp
  assume c: "dispatch_cas k n a r = (True, r')"
  then obtain v where v: "map_of (aiAttempts r) k = Some v" "att_DispatchVersion v = n"
    and r': "r' = r\<lparr>aiAttempts := mput k (applyAIAttemptDispatchUpdate v (a\<lparr>att_ID := k\<rparr>)) (aiAttempts r)\<rparr>"
    using dispatch_cas_cases [OF wf c] by auto
  have id: "att_ID v = k" using keyed_lookup [OF wf v(1)] .
  show "keyed att_ID (aiAttempts r')" using wf id by (auto simp: r')
  show "\<exists>v v'. map_of (aiAttempts r) k = Some v \<and> att_DispatchVersion v = n
      \<and> map_of (aiAttempts r') k = Some v' \<and> att_DispatchVersion v' = n + 1" using v by (simp add: r')
  show "map_of (aiAttempts r) j \<noteq> map_of (aiAttempts r) k \<Longrightarrow> map_of (aiAttempts r') j = map_of (aiAttempts r) j" by (auto simp: r')
  show "map_of (aiAttempts r) j = map_of (aiAttempts r) k \<Longrightarrow> map_of (aiAttempts r') j = map_of (aiAttempts r') k"
    using v id keyed_lookup [OF wf, of j v] by (auto simp: r')
qed

interpretation reconciliation: comparison reconciliation_order
  unfolding reconciliation_order_def by (rule comparison_key)

lemma limit_list_take: "limit_list limit xs = take (nat limit) xs"
  by (auto simp: limit_list_def)

section \<open>The properties of operations and attempts\<close>

text \<open>
  Creating an operation is idempotent: in a repository where each idempotency scope has one operation, \<open>CreateAIOperation\<close>
  keeps that so; when it creates nothing it changes nothing; and once it has answered a request with an idempotency key,
  every later request in the same scope gets the same operation and creates nothing, whatever else it asks for.
\<close>

lemma CreateAIOperation_idempotent:
  assumes "operations_ok r" "CreateAIOperation operation r = ((result, created, err), r')"
  shows "operations_ok r' \<and> (\<not> created \<longrightarrow> r' = r)
    \<and> (created \<longrightarrow> err = None \<and> map_of (aiOperations r') (op_ID operation) = Some (normalizeAIOperation operation))
    \<and> (err = None \<longrightarrow> op_IdempotencyKey operation \<noteq> [] \<longrightarrow>
        (\<forall>again. sameAIOperationIdempotencyScope operation again \<longrightarrow> CreateAIOperation again r' = ((result, False, None), r')))"
proof (cases "operation_in_scope (normalizeAIOperation operation) r")
  case (Some current)
  then have res: "result = current" "\<not> created" "err = None" "r' = r" using assms(2) by (simp_all add: CreateAIOperation_scope)
  have "CreateAIOperation again r = ((current, False, None), r)" if "sameAIOperationIdempotencyScope operation again" for again
  proof -
    have "sameAIOperationIdempotencyScope current again"
      using operation_in_scope_Some [OF Some] that sameScope_trans [of current operation again] by auto
    then show ?thesis using operation_in_scope_eq [OF assms(1), of current "normalizeAIOperation again"] operation_in_scope_Some [OF Some]
      by (simp add: CreateAIOperation_scope)
  qed
  with res assms(1) show ?thesis by simp
next
  case None
  show ?thesis
  proof (cases "mhas (aiOperations r) (op_ID operation)")
    case True
    then show ?thesis using None assms by (auto simp: CreateAIOperation_scope)
  next
    case False
    define n where "n = normalizeAIOperation operation"
    have res: "result = n" "created" "err = None" "r' = r\<lparr>aiOperations := mput (op_ID n) n (aiOperations r)\<rparr>"
      using None False assms(2) by (auto simp: CreateAIOperation_scope n_def)
    have ok': "operations_ok r'" unfolding res(4)
      using None False by (intro operations_ok_insert assms(1)) (simp_all add: n_def operation_in_scope_None)
    have nv: "n \<in> set (mvalues (aiOperations r'))" using map_of_Some_mvalues [of "aiOperations r'" "op_ID n" n] by (simp add: res)
    have "CreateAIOperation again r' = ((n, False, None), r')" if "sameAIOperationIdempotencyScope operation again" for again
    proof -
      have "operation_in_scope (normalizeAIOperation again) r' = Some n"
        using that by (intro operation_in_scope_eq ok' nv) (simp add: n_def)
      then show ?thesis by (simp add: CreateAIOperation_scope)
    qed
    with res ok' show ?thesis by (simp add: n_def)
  qed
qed

definition demo_operation :: AIOperation where
  "demo_operation = zero_AIOperation\<lparr>op_ID := ''op_1'', op_IdempotencyKey := ''k'', op_Status := AIOperationStatusAccepted\<rparr>"

lemma operations_ok_new: "operations_ok NewMemoryRepository"
  by (simp add: operations_ok_def NewMemoryRepository_def mvalues_def)

text \<open>
  Concurrent dispatch updates of an attempt do not overwrite each other: along any sequence of updates of any
  attempts with any expected versions, the dispatch version of an attempt grows by exactly the number of updates of it that
  succeeded, and of two updates with the same expected version at most one succeeds.
\<close>

lemma dispatch_updates_counted:
  assumes "keyed att_ID (aiAttempts r)" "run_updates dispatch_cas updates r = (results, r')"
    and "map_of (aiAttempts r) ident = Some attempt"
  shows "(\<exists>attempt'. map_of (aiAttempts r') ident = Some attempt'
      \<and> att_DispatchVersion attempt' = att_DispatchVersion attempt + int (wins ident updates results))
    \<and> (\<forall>n a b s. dispatch_cas ident n a r = (True, s) \<longrightarrow> \<not> fst (dispatch_cas ident n b s))"
proof (intro conjI allI impI)
  have "\<forall>(t :: MemoryRepository) j. keyed att_ID (aiAttempts t) \<longrightarrow> j \<in> fst ` set updates \<longrightarrow> j \<noteq> ident
      \<longrightarrow> map_of (aiAttempts t) j \<noteq> map_of (aiAttempts t) ident \<or> map_of (aiAttempts t) ident = None"
  proof (intro allI impI)
    fix t :: MemoryRepository and j
    assume "keyed att_ID (aiAttempts t)" "j \<noteq> ident"
    then show "map_of (aiAttempts t) j \<noteq> map_of (aiAttempts t) ident \<or> map_of (aiAttempts t) ident = None"
      using keyed_lookup [of att_ID "aiAttempts t"] by (metis option.exhaust)
  qed
  from attempts.version_counts_wins [OF assms this]
  show "\<exists>attempt'. map_of (aiAttempts r') ident = Some attempt'
      \<and> att_DispatchVersion attempt' = att_DispatchVersion attempt + int (wins ident updates results)" .
  show "\<not> fst (dispatch_cas ident n b s)" if "dispatch_cas ident n a r = (True, s)" for n a b s
    using attempts.one_winner [OF assms(1) that] .
qed

definition demo_attempt :: AIAttempt where
  "demo_attempt = zero_AIAttempt\<lparr>att_ID := ''att_1'', att_Status := AIAttemptStatusRunning\<rparr>"

text \<open>
  The reconciliation list gives the attempts that wait longest: every listed attempt is due, at most \<open>limit\<close> are
  listed, in the order of their times, and no due attempt that is left out is earlier than a listed one.
\<close>

lemma reconciliation_list_earliest:
  assumes "0 < limit"
  shows "let due = filter (\<lambda>attempt. aiAttemptDueForReconciliation attempt now) (mvalues (aiAttempts r));
             out = ListAIAttemptsForReconciliation now limit r in
    length out = min (nat limit) (length due) \<and> mset out \<subseteq># mset due
    \<and> sorted (map aiAttemptReconciliationTime out)
    \<and> (\<forall>a b. a \<in> set out \<longrightarrow> b \<in># mset due - mset out \<longrightarrow> aiAttemptReconciliationTime a \<le> aiAttemptReconciliationTime b)"
proof -
  define due where "due = filter (\<lambda>attempt. aiAttemptDueForReconciliation attempt now) (mvalues (aiAttempts r))"
  define xs where "xs = sort_slice reconciliation_order due"
  have out: "ListAIAttemptsForReconciliation now limit r = take (nat limit) xs"
    using assms by (simp add: ListAIAttemptsForReconciliation_def limit_list_take xs_def due_def)
  have split: "mset due = mset (take (nat limit) xs) + mset (drop (nat limit) xs)"
    unfolding xs_def by (metis append_take_drop_id mset_append mset_sort_slice)
  have "sorted_wrt (\<lambda>x y. aiAttemptReconciliationTime x \<le> aiAttemptReconciliationTime y) xs"
    using reconciliation.sort_sorted [of due] by (simp add: xs_def reconciliation_order_def not_less)
  then have "sorted (map aiAttemptReconciliationTime xs)" by (simp add: sorted_wrt_map)
  then have "sorted (map aiAttemptReconciliationTime (take (nat limit) xs))" by (metis sorted_wrt_take take_map)
  moreover have "aiAttemptReconciliationTime a \<le> aiAttemptReconciliationTime b"
    if "a \<in> set (take (nat limit) xs)" "b \<in># mset due - mset (take (nat limit) xs)" for a b
  proof -
    have "b \<in> set (drop (nat limit) xs)" using that(2) split by simp
    then show ?thesis using reconciliation.sort_take_least [of a "nat limit" due b] that(1)
      by (simp add: xs_def reconciliation_order_def not_less)
  qed
  moreover have "length xs = length due" by (simp add: xs_def)
  ultimately have "length (take (nat limit) xs) = min (nat limit) (length due) \<and> mset (take (nat limit) xs) \<subseteq># mset due
    \<and> sorted (map aiAttemptReconciliationTime (take (nat limit) xs))
    \<and> (\<forall>a b. a \<in> set (take (nat limit) xs) \<longrightarrow> b \<in># mset due - mset (take (nat limit) xs)
        \<longrightarrow> aiAttemptReconciliationTime a \<le> aiAttemptReconciliationTime b)"
    using split by (metis length_take min.commute mset_subset_eq_add_left)
  then show ?thesis unfolding Let_def due_def [symmetric] out .
qed

end
