(* ===== verification/Billing_Hold.thy ===== *)
theory Billing_Hold
  imports Operation_Repo
begin

text \<open>
  Billing holds: the reservation that admits an operation against the monthly budget and the usage quotas of its
  credential, and its life until it is settled or released (\<open>billing_hold.go\<close>, \<open>billing_hold_repository.go\<close>).
\<close>

section \<open>Admission records\<close>

record BillingHoldAdmission =
  adm_Hold :: BillingHold
  adm_PricingVersions :: "BillingHoldPricingVersion list"
  adm_PricingEvaluations :: "PricingEvaluation list"
  adm_MonthlyBudgetMicros :: int
  adm_MonthlyImageLimit :: int
  adm_MonthlyVideoSecondsLimit :: int
  adm_MonthlyAudioSecondsLimit :: int

definition hold_matches_operation :: "AIOperation \<Rightarrow> BillingHold \<Rightarrow> bool" where
  "hold_matches_operation operation hold \<longleftrightarrow>
     TrimSpace (hold_ID hold) \<noteq> [] \<and> hold_OperationID hold = op_ID operation
     \<and> hold_CredentialID hold = op_CredentialID operation \<and> hold_ProfileScope hold = op_ProfileScope operation
     \<and> hold_TenantID hold = op_TenantID operation \<and> hold_CredentialSource hold = op_CredentialSource operation
     \<and> hold_IntegrationID hold = op_IntegrationID operation \<and> hold_PrincipalType hold = op_PrincipalType operation
     \<and> hold_PrincipalID hold = op_PrincipalID operation
     \<and> hold_ExternalSubjectReference hold = op_ExternalSubjectReference operation
     \<and> hold_RequestFingerprint hold \<noteq> [] \<and> hold_RequestFingerprint hold = op_RequestFingerprint operation"

definition hold_is_new :: "BillingHold \<Rightarrow> bool" where
  "hold_is_new hold \<longleftrightarrow> hold_Status hold = BillingHoldStatusReserved \<and> hold_Version hold = 1
     \<and> \<not> hold_ReservedAmountMicros hold < 0 \<and> hold_SettledAmountMicros hold = 0
     \<and> length (TrimSpace (hold_Currency hold)) = 3 \<and> hold_BudgetPeriodStart hold \<noteq> 0 \<and> hold_CreatedAt hold \<noteq> 0
     \<and> hold_ExpiresAt hold > hold_CreatedAt hold"

definition limits_nonnegative :: "BillingHoldAdmission \<Rightarrow> bool" where
  "limits_nonnegative admission \<longleftrightarrow> \<not> adm_MonthlyBudgetMicros admission < 0 \<and> \<not> adm_MonthlyImageLimit admission < 0
     \<and> \<not> adm_MonthlyVideoSecondsLimit admission < 0 \<and> \<not> adm_MonthlyAudioSecondsLimit admission < 0"

fun validate_evaluations ::
  "AIOperation \<Rightarrow> PricingEvaluation list \<Rightarrow> (string, PricingEvaluation) gmap \<Rightarrow> go_error + (string, PricingEvaluation) gmap" where
  "validate_evaluations operation [] evaluations = Inr evaluations"
| "validate_evaluations operation (evaluation # rest) evaluations =
     (if eval_ID evaluation = [] \<or> eval_OperationID evaluation \<noteq> op_ID operation \<or> eval_Phase evaluation \<noteq> PhaseEstimate
        \<or> eval_Status evaluation \<noteq> PricingEvaluationStatusSuccess \<or> eval_AmountMicros evaluation = None
      then Inl (errors_New ''invalid billing hold pricing evaluation'')
      else validate_evaluations operation rest (mput (eval_ID evaluation) evaluation evaluations))"

fun validate_versions ::
  "string \<Rightarrow> (string, PricingEvaluation) gmap \<Rightarrow> BillingHoldPricingVersion list \<Rightarrow> string list \<Rightarrow> go_error option" where
  "validate_versions holdID evaluations [] purposes = None"
| "validate_versions holdID evaluations (version # rest) purposes =
     (if (case map_of evaluations (hpv_EstimateEvaluationID version) of
            None \<Rightarrow> True
          | Some evaluation \<Rightarrow> hpv_HoldID version \<noteq> holdID \<or> hpv_Purpose version \<noteq> eval_Purpose evaluation
              \<or> hpv_PricingRuleVersionID version \<noteq> eval_PricingRuleVersionID evaluation \<or> hpv_SettlementEvaluationID version \<noteq> [])
      then Some (errors_New ''invalid billing hold pricing version'')
      else if hpv_Purpose version \<in> set purposes then Some (errors_New ''duplicate billing hold pricing purpose'')
      else validate_versions holdID evaluations rest (hpv_Purpose version # purposes))"

definition validateBillingHoldAdmission :: "AIOperation \<Rightarrow> BillingHoldAdmission \<Rightarrow> go_error option" where
  "validateBillingHoldAdmission operation admission =
     (let hold = adm_Hold admission
      in case NormalizeUsageDimensions (hold_ReservedUsageDimensions hold) of
           Inl err \<Rightarrow> Some err
         | Inr _ \<Rightarrow>
             if \<not> (hold_matches_operation operation hold \<and> hold_is_new hold \<and> limits_nonnegative admission)
             then Some (errors_New ''invalid billing hold admission'')
             else (case validate_evaluations operation (adm_PricingEvaluations admission) [] of
                 Inl err \<Rightarrow> Some err
               | Inr evaluations \<Rightarrow>
                   (case validate_versions (hold_ID hold) evaluations (adm_PricingVersions admission) [] of
                      Some err \<Rightarrow> Some err
                    | None \<Rightarrow> if length evaluations \<noteq> length (adm_PricingVersions admission)
                        then Some (errors_New ''orphan billing hold pricing evaluation'') else None)))"

section \<open>Transitions of a hold\<close>

definition billingHoldCountsAgainstBudget :: "string \<Rightarrow> bool" where
  "billingHoldCountsAgainstBudget status =
     oneOf status [BillingHoldStatusReserved, BillingHoldStatusCommitted, BillingHoldStatusDisputed]"

definition billingHoldTransitionAllowed :: "string \<Rightarrow> string \<Rightarrow> bool" where
  "billingHoldTransitionAllowed fromStatus toStatus =
     (if fromStatus = BillingHoldStatusReserved
      then oneOf toStatus [BillingHoldStatusCommitted, BillingHoldStatusSettled, BillingHoldStatusReleased, BillingHoldStatusDisputed]
      else if fromStatus = BillingHoldStatusCommitted then oneOf toStatus [BillingHoldStatusSettled, BillingHoldStatusDisputed]
      else if fromStatus = BillingHoldStatusDisputed then oneOf toStatus [BillingHoldStatusSettled, BillingHoldStatusReleased]
      else False)"

definition prepareBillingHoldTransition ::
  "BillingHold \<Rightarrow> string \<Rightarrow> int \<Rightarrow> string \<Rightarrow> gotime \<Rightarrow> go_error + BillingHold" where
  "prepareBillingHoldTransition hold toStatus0 settledAmount reason at =
     (let toStatus = TrimSpace toStatus0
      in if hold_Status hold = toStatus then Inr hold
         else if \<not> billingHoldTransitionAllowed (hold_Status hold) toStatus \<or> settledAmount < 0
         then Inl (errors_New (''invalid billing hold transition '' @ hold_Status hold @ '' -> '' @ toStatus))
         else (let hold = hold\<lparr>hold_Status := toStatus, hold_Version := hold_Version hold + 1,
                     hold_Reason := TrimSpace reason, hold_UpdatedAt := at\<rparr>;
                   hold = (if toStatus = BillingHoldStatusSettled
                     then hold\<lparr>hold_SettledAmountMicros := settledAmount, hold_SettledAt := Some at\<rparr> else hold)
               in Inr (if toStatus = BillingHoldStatusReleased then hold\<lparr>hold_ReleasedAt := Some at\<rparr> else hold)))"

section \<open>Repository operations on holds\<close>

definition memoryBillingHoldForOperation :: "(string, BillingHold) gmap \<Rightarrow> string \<Rightarrow> BillingHold option" where
  "memoryBillingHoldForOperation holds operationID = find (\<lambda>hold. hold_OperationID hold = operationID) (mvalues holds)"

definition FindBillingHoldByOperationID :: "string \<Rightarrow> MemoryRepository \<Rightarrow> BillingHold option" where
  "FindBillingHoldByOperationID operationID r = memoryBillingHoldForOperation (billingHolds r) (TrimSpace operationID)"

definition purpose_order :: "BillingHoldPricingVersion \<Rightarrow> BillingHoldPricingVersion \<Rightarrow> bool" where
  "purpose_order a b \<longleftrightarrow> hpv_Purpose a < hpv_Purpose b"

definition ListBillingHoldPricingVersions :: "string \<Rightarrow> MemoryRepository \<Rightarrow> BillingHoldPricingVersion list" where
  "ListBillingHoldPricingVersions holdID r =
     sort_slice purpose_order (filter (\<lambda>version. hpv_HoldID version = TrimSpace holdID) (mvalues (billingHoldPricingVersions r)))"

definition hold_order :: "BillingHold \<Rightarrow> BillingHold \<Rightarrow> bool" where
  "hold_order a b =
     (if hold_CreatedAt a = hold_CreatedAt b then hold_ID a < hold_ID b else hold_CreatedAt a < hold_CreatedAt b)"

definition ListBillingHolds :: "MemoryRepository \<Rightarrow> BillingHold list" where
  "ListBillingHolds r = sort_slice hold_order (mvalues (billingHolds r))"

definition TransitionBillingHold ::
  "string \<Rightarrow> int \<Rightarrow> string \<Rightarrow> int \<Rightarrow> string \<Rightarrow> gotime \<Rightarrow> MemoryRepository
     \<Rightarrow> (BillingHold \<times> bool \<times> go_error option) \<times> MemoryRepository" where
  "TransitionBillingHold operationID expectedVersion toStatus settledAmount reason transitionedAt r =
     (case memoryBillingHoldForOperation (billingHolds r) (TrimSpace operationID) of
        None \<Rightarrow> ((zero_BillingHold, False, None), r)
      | Some hold \<Rightarrow>
          if hold_Version hold \<noteq> expectedVersion then ((hold, False, None), r)
          else (case prepareBillingHoldTransition hold toStatus settledAmount reason transitionedAt of
              Inl err \<Rightarrow> ((zero_BillingHold, False, Some err), r)
            | Inr updated \<Rightarrow>
                if hold_Version updated = hold_Version hold then ((hold, False, None), r)
                else ((updated, True, None), r\<lparr>billingHolds := mput (hold_ID hold) updated (billingHolds r)\<rparr>)))"

definition releaseMemoryBillingHoldForOperation ::
  "string \<Rightarrow> string \<Rightarrow> gotime \<Rightarrow> MemoryRepository \<Rightarrow> go_error option \<times> MemoryRepository" where
  "releaseMemoryBillingHoldForOperation operationID reason transitionedAt r =
     (case memoryBillingHoldForOperation (billingHolds r) operationID of
        None \<Rightarrow> (None, r)
      | Some hold \<Rightarrow>
          if oneOf (hold_Status hold) [BillingHoldStatusSettled, BillingHoldStatusReleased, BillingHoldStatusCommitted] then (None, r)
          else (case prepareBillingHoldTransition hold BillingHoldStatusReleased 0 reason transitionedAt of
              Inl err \<Rightarrow> (Some err, r)
            | Inr updated \<Rightarrow> (None, r\<lparr>billingHolds := mput (hold_ID hold) updated (billingHolds r)\<rparr>)))"

section \<open>Service operations on holds\<close>

text \<open>\<open>now\<close> is the service's clock; the repository's methods give no other error here than that of the transition.\<close>

definition transitionBillingHold ::
  "gotime \<Rightarrow> string \<Rightarrow> string \<Rightarrow> int \<Rightarrow> string \<Rightarrow> MemoryRepository \<Rightarrow> go_error option \<times> MemoryRepository" where
  "transitionBillingHold now operationID status settledAmount reason r =
     (case FindBillingHoldByOperationID (TrimSpace operationID) r of
        None \<Rightarrow> (None, r)
      | Some hold \<Rightarrow>
          if hold_Status hold = status \<or> oneOf (hold_Status hold) [BillingHoldStatusSettled, BillingHoldStatusReleased]
             \<or> (hold_Status hold = BillingHoldStatusDisputed \<and> status = BillingHoldStatusCommitted)
          then (None, r)
          else (case TransitionBillingHold (hold_OperationID hold) (hold_Version hold) status settledAmount (TrimSpace reason) now r of
              ((_, _, Some err), r') \<Rightarrow> (Some err, r')
            | ((_, updated, None), r') \<Rightarrow> (if \<not> updated then Some ErrBillingHoldStateConflict else None, r')))"

definition BillingHoldForOperation :: "string \<Rightarrow> MemoryRepository \<Rightarrow> BillingHold option" where
  "BillingHoldForOperation operationID r = FindBillingHoldByOperationID (TrimSpace operationID) r"

definition CommitBillingHold :: "gotime \<Rightarrow> string \<Rightarrow> string \<Rightarrow> MemoryRepository \<Rightarrow> go_error option \<times> MemoryRepository" where
  "CommitBillingHold now operationID reason r = transitionBillingHold now operationID BillingHoldStatusCommitted 0 reason r"

definition DisputeBillingHold :: "gotime \<Rightarrow> string \<Rightarrow> string \<Rightarrow> MemoryRepository \<Rightarrow> go_error option \<times> MemoryRepository" where
  "DisputeBillingHold now operationID reason r = transitionBillingHold now operationID BillingHoldStatusDisputed 0 reason r"

definition ReleaseBillingHold :: "gotime \<Rightarrow> string \<Rightarrow> string \<Rightarrow> MemoryRepository \<Rightarrow> go_error option \<times> MemoryRepository" where
  "ReleaseBillingHold now operationID reason r = transitionBillingHold now operationID BillingHoldStatusReleased 0 reason r"

section \<open>The budget and the quotas\<close>

definition sameBillingCredentialScope :: "string \<Rightarrow> string \<Rightarrow> string \<Rightarrow> BillingHold \<Rightarrow> bool" where
  "sameBillingCredentialScope profileScope tenantID credentialID hold \<longleftrightarrow>
     profileScope = hold_ProfileScope hold \<and> tenantID = hold_TenantID hold \<and> credentialID = hold_CredentialID hold"

definition billingHoldAdmissionHasLimits :: "BillingHoldAdmission \<Rightarrow> bool" where
  "billingHoldAdmissionHasLimits admission \<longleftrightarrow>
     adm_MonthlyBudgetMicros admission > 0 \<or> adm_MonthlyImageLimit admission > 0 \<or>
     adm_MonthlyVideoSecondsLimit admission > 0 \<or> adm_MonthlyAudioSecondsLimit admission > 0"

definition usageSecondsLimitMilliseconds :: "int \<Rightarrow> int" where
  "usageSecondsLimitMilliseconds seconds =
     (if seconds \<le> 0 then 0 else if seconds > quot64 MaxInt64 1000 then MaxInt64 else wrap64 (seconds * 1000))"

definition addUsageDimensionTotals :: "UsageDimensionTotals \<Rightarrow> UsageDimensionTotals \<Rightarrow> UsageDimensionTotals" where
  "addUsageDimensionTotals left right =
     \<lparr>tot_OutputImages = saturatingUsageAdd (tot_OutputImages left) (tot_OutputImages right),
      tot_VideoMilliseconds = saturatingUsageAdd (tot_VideoMilliseconds left) (tot_VideoMilliseconds right),
      tot_AudioMilliseconds = saturatingUsageAdd (tot_AudioMilliseconds left) (tot_AudioMilliseconds right)\<rparr>"

definition enforceUsageDimensionLimits :: "BillingHoldAdmission \<Rightarrow> UsageDimensionTotals \<Rightarrow> go_error option" where
  "enforceUsageDimensionLimits admission current =
     (let requested = UsageDimensionsTotals (hold_ReservedUsageDimensions (adm_Hold admission))
      in if adm_MonthlyImageLimit admission > 0
           \<and> saturatingUsageAdd (tot_OutputImages current) (tot_OutputImages requested) > adm_MonthlyImageLimit admission
         then Some ErrBillingHoldImageQuotaExceeded
         else if adm_MonthlyVideoSecondsLimit admission > 0
           \<and> saturatingUsageAdd (tot_VideoMilliseconds current) (tot_VideoMilliseconds requested)
               > usageSecondsLimitMilliseconds (adm_MonthlyVideoSecondsLimit admission)
         then Some ErrBillingHoldVideoQuotaExceeded
         else if adm_MonthlyAudioSecondsLimit admission > 0
           \<and> saturatingUsageAdd (tot_AudioMilliseconds current) (tot_AudioMilliseconds requested)
               > usageSecondsLimitMilliseconds (adm_MonthlyAudioSecondsLimit admission)
         then Some ErrBillingHoldAudioQuotaExceeded
         else None)"

definition zero_totals :: UsageDimensionTotals where
  "zero_totals = \<lparr>tot_OutputImages = 0, tot_VideoMilliseconds = 0, tot_AudioMilliseconds = 0\<rparr>"

text \<open>The three conditions of the loops: which ledger entries, usage records and holds count for the hold.\<close>

definition operation_in_hold_scope :: "MemoryRepository \<Rightarrow> string \<Rightarrow> BillingHold \<Rightarrow> bool" where
  "operation_in_hold_scope r operationID hold =
     (case map_of (aiOperations r) operationID of
        None \<Rightarrow> False
      | Some operation \<Rightarrow> sameBillingCredentialScope (op_ProfileScope operation) (op_TenantID operation) (op_CredentialID operation) hold)"

definition ledger_counts :: "MemoryRepository \<Rightarrow> BillingHold \<Rightarrow> BillingLedgerEntry \<Rightarrow> bool" where
  "ledger_counts r hold entry \<longleftrightarrow>
     \<not> (ledger_Purpose entry \<noteq> PricingPurposeUsageCost \<or> ledger_Status entry \<noteq> BillingLedgerStatusApplied
        \<or> ledger_CreatedAt entry < hold_BudgetPeriodStart hold
        \<or> \<not> ledger_CreatedAt entry < AddDate (hold_BudgetPeriodStart hold) 0 1 0)
     \<and> operation_in_hold_scope r (ledger_OperationID entry) hold"

definition record_counts :: "MemoryRepository \<Rightarrow> BillingHold \<Rightarrow> UsageRecord \<Rightarrow> bool" where
  "record_counts r hold record \<longleftrightarrow>
     \<not> (usage_CreatedAt record < hold_BudgetPeriodStart hold
        \<or> \<not> usage_CreatedAt record < AddDate (hold_BudgetPeriodStart hold) 0 1 0)
     \<and> operation_in_hold_scope r (usage_OperationID record) hold"

definition hold_counts :: "BillingHold \<Rightarrow> BillingHold \<Rightarrow> bool" where
  "hold_counts hold current \<longleftrightarrow> billingHoldCountsAgainstBudget (hold_Status current)
     \<and> hold_BudgetPeriodStart current = hold_BudgetPeriodStart hold
     \<and> sameBillingCredentialScope (hold_ProfileScope current) (hold_TenantID current) (hold_CredentialID current) hold"

definition billing_exposure :: "MemoryRepository \<Rightarrow> BillingHold \<Rightarrow> int" where
  "billing_exposure r hold =
     foldl (\<lambda>exposure current. if hold_counts hold current
         then wrap64 (exposure + nonNegativeInt64 (hold_ReservedAmountMicros current)) else exposure)
       (foldl (\<lambda>exposure entry. if ledger_counts r hold entry \<and> ledger_AmountMicros entry > 0
           then wrap64 (exposure + ledger_AmountMicros entry) else exposure) 0 (mvalues (billingLedgerEntries r)))
       (mvalues (billingHolds r))"

definition settled_usage :: "MemoryRepository \<Rightarrow> BillingHold \<Rightarrow> UsageDimensionTotals" where
  "settled_usage r hold =
     foldl (\<lambda>usage record. if record_counts r hold record
         then addUsageDimensionTotals usage (UsageDimensionsTotals (usage_UsageDimensions record)) else usage)
       zero_totals (mvalues (usageRecords r))"

definition active_usage :: "MemoryRepository \<Rightarrow> BillingHold \<Rightarrow> UsageDimensionTotals" where
  "active_usage r hold =
     foldl (\<lambda>usage current. if hold_counts hold current
         then addUsageDimensionTotals usage (UsageDimensionsTotals (hold_ReservedUsageDimensions current)) else usage)
       zero_totals (mvalues (billingHolds r))"

definition enforceMemoryBillingHoldBudget :: "MemoryRepository \<Rightarrow> BillingHoldAdmission \<Rightarrow> go_error option" where
  "enforceMemoryBillingHoldBudget r admission =
     (if \<not> billingHoldAdmissionHasLimits admission then None
      else (let hold = adm_Hold admission
            in if adm_MonthlyBudgetMicros admission > 0
                 \<and> wrap64 (billing_exposure r hold + hold_ReservedAmountMicros hold) > adm_MonthlyBudgetMicros admission
               then Some ErrBillingHoldBudgetExceeded
               else enforceUsageDimensionLimits admission (addUsageDimensionTotals (settled_usage r hold) (active_usage r hold))))"

section \<open>Creating an operation with its hold\<close>

definition hpv_key :: "BillingHoldPricingVersion \<Rightarrow> string" where
  "hpv_key version = hpv_HoldID version @ CHR 0x0A # hpv_Purpose version"

fun check_versions ::
  "string \<Rightarrow> (string, BillingHoldPricingVersion) gmap \<Rightarrow> BillingHoldPricingVersion list \<Rightarrow> go_error option" where
  "check_versions holdID stored [] = None"
| "check_versions holdID stored (version # rest) =
     (if hpv_HoldID version \<noteq> holdID \<or> hpv_PricingRuleVersionID version = [] \<or> hpv_EstimateEvaluationID version = []
      then Some (errors_New ''invalid billing hold pricing version'')
      else if mhas stored (hpv_key version) then Some (errors_New ''billing hold pricing purpose already exists'')
      else check_versions holdID stored rest)"

definition insert_hold :: "AIOperation \<Rightarrow> BillingHoldAdmission \<Rightarrow> MemoryRepository \<Rightarrow> MemoryRepository" where
  "insert_hold operation admission r =
     r\<lparr>aiOperations := mput (op_ID operation) operation (aiOperations r),
       billingHolds := mput (hold_ID (adm_Hold admission)) (adm_Hold admission) (billingHolds r),
       pricingEvaluations := foldl (\<lambda>m evaluation. mput (eval_ID evaluation) (clonePricingEvaluation evaluation) m)
         (pricingEvaluations r) (adm_PricingEvaluations admission),
       billingHoldPricingVersions := foldl (\<lambda>m version. mput (hpv_key version) version m)
         (billingHoldPricingVersions r) (adm_PricingVersions admission)\<rparr>"

definition CreateAIOperationWithBillingHold ::
  "AIOperation \<Rightarrow> BillingHoldAdmission \<Rightarrow> MemoryRepository \<Rightarrow> (AIOperation \<times> bool \<times> go_error option) \<times> MemoryRepository" where
  "CreateAIOperationWithBillingHold operation0 admission r =
     (let operation = normalizeAIOperation operation0;
          holdID = hold_ID (adm_Hold admission);
          fail = (\<lambda>err. ((zero_AIOperation, False, Some err), r))
      in case validateBillingHoldAdmission operation admission of
           Some err \<Rightarrow> fail err
         | None \<Rightarrow>
             (case (if op_IdempotencyKey operation \<noteq> []
                 then find (\<lambda>current. sameAIOperationIdempotencyScope current operation) (mvalues (aiOperations r)) else None) of
                Some current \<Rightarrow> ((current, False, None), r)
              | None \<Rightarrow>
                  if mhas (aiOperations r) (op_ID operation)
                  then fail (existing_err ''ai operation'' (op_ID operation) ''already exists'')
                  else if mhas (billingHolds r) holdID
                  then fail (existing_err ''billing hold'' holdID ''already exists'')
                  else if memoryBillingHoldForOperation (billingHolds r) (op_ID operation) \<noteq> None
                  then fail (existing_err ''billing hold for operation'' (op_ID operation) ''already exists'')
                  else (case find (\<lambda>evaluation. mhas (pricingEvaluations r) (eval_ID evaluation)) (adm_PricingEvaluations admission) of
                      Some evaluation \<Rightarrow> fail (existing_err ''pricing evaluation'' (eval_ID evaluation) ''already exists'')
                    | None \<Rightarrow>
                        (case check_versions holdID (billingHoldPricingVersions r) (adm_PricingVersions admission) of
                           Some err \<Rightarrow> fail err
                         | None \<Rightarrow>
                             (case enforceMemoryBillingHoldBudget r admission of
                                Some err \<Rightarrow> fail err
                              | None \<Rightarrow> ((operation, True, None), insert_hold operation admission r))))))"

section \<open>Settlement of a hold\<close>

definition billingHoldUsageIsFinal :: "UsageRecord \<Rightarrow> bool" where
  "billingHoldUsageIsFinal record =
     oneOf (ToLower (TrimSpace (usage_UsageSource record))) [''gateway_final'', ''upstream_final'', ''provider_final'', ''provider_billing'']"

definition err_cumulative :: go_error where
  "err_cumulative = errors_New ''cumulative billing amount exceeds supported range''"

fun cumulative_loop :: "string \<Rightarrow> BillingLedgerEntry list \<Rightarrow> int \<Rightarrow> go_error + int" where
  "cumulative_loop operationID [] acc = Inr acc"
| "cumulative_loop operationID (entry # entries) acc =
     (if ledger_OperationID entry = operationID \<and> ledger_Purpose entry = PricingPurposeUsageCost
        \<and> ledger_Status entry = BillingLedgerStatusApplied
      then (if ledger_AmountMicros entry > wrap64 (MaxInt64 - acc) then Inl err_cumulative
            else cumulative_loop operationID entries (wrap64 (acc + ledger_AmountMicros entry)))
      else cumulative_loop operationID entries acc)"

definition cumulativeMemoryBillingAmount :: "MemoryRepository \<Rightarrow> BillingLedgerEntry \<Rightarrow> go_error + int" where
  "cumulativeMemoryBillingAmount r current =
     and_then (cumulative_loop (ledger_OperationID current) (mvalues (billingLedgerEntries r)) (ledger_AmountMicros current))
       (\<lambda>acc. if acc < 0 then Inl err_cumulative else Inr acc)"

definition settleMemoryBillingHoldForUsage ::
  "UsageRecord \<Rightarrow> BillingLedgerEntry \<Rightarrow> MemoryRepository \<Rightarrow> go_error option \<times> MemoryRepository" where
  "settleMemoryBillingHoldForUsage record billing r =
     (if \<not> billingHoldUsageIsFinal record then (None, r)
      else (case memoryBillingHoldForOperation (billingHolds r) (usage_OperationID record) of
          None \<Rightarrow> (None, r)
        | Some hold \<Rightarrow>
            if oneOf (hold_Status hold) [BillingHoldStatusSettled, BillingHoldStatusReleased] then (None, r)
            else (case cumulativeMemoryBillingAmount r billing of
                Inl err \<Rightarrow> (Some err, r)
              | Inr settledAmount \<Rightarrow>
                  (case prepareBillingHoldTransition hold BillingHoldStatusSettled settledAmount ''usage_ledger_applied''
                      (usage_CreatedAt record) of
                     Inl err \<Rightarrow> (Some err, r)
                   | Inr updated \<Rightarrow> (None, r\<lparr>billingHolds := mput (hold_ID hold) updated (billingHolds r)\<rparr>)))))"

section \<open>The holds of the repository\<close>

text \<open>An operation has at most one hold; a transition changes only the fields of the hold's life.\<close>

definition holds_ok :: "MemoryRepository \<Rightarrow> bool" where
  "holds_ok r = indexed hold_ID hold_OperationID (billingHolds r)"

definition same_hold :: "BillingHold \<Rightarrow> BillingHold \<Rightarrow> bool" where
  "same_hold a b \<longleftrightarrow> b = a\<lparr>hold_Status := hold_Status b, hold_Version := hold_Version b,
     hold_SettledAmountMicros := hold_SettledAmountMicros b, hold_Reason := hold_Reason b, hold_UpdatedAt := hold_UpdatedAt b,
     hold_SettledAt := hold_SettledAt b, hold_ReleasedAt := hold_ReleasedAt b\<rparr>"

lemma same_hold_refl [simp]: "same_hold a a"
  by (simp add: same_hold_def)

lemma same_hold_fields:
  assumes "same_hold a b"
  shows "hold_ID b = hold_ID a" "hold_OperationID b = hold_OperationID a" "hold_ProfileScope b = hold_ProfileScope a"
    "hold_TenantID b = hold_TenantID a" "hold_CredentialID b = hold_CredentialID a"
    "hold_ReservedAmountMicros b = hold_ReservedAmountMicros a" "hold_ReservedUsageDimensions b = hold_ReservedUsageDimensions a"
    "hold_BudgetPeriodStart b = hold_BudgetPeriodStart a"
  by (subst assms [unfolded same_hold_def], simp)+

lemma same_hold_trans: "same_hold a b \<Longrightarrow> same_hold b c \<Longrightarrow> same_hold a c"
  unfolding same_hold_def by (cases a; cases b; cases c) simp

definition hold_rank :: "string \<Rightarrow> int" where
  "hold_rank status = (if status = BillingHoldStatusReserved then 3 else if status = BillingHoldStatusCommitted then 2
     else if status = BillingHoldStatusDisputed then 1 else 0)"

lemma hold_rank_bounds: "0 \<le> hold_rank status" "hold_rank status \<le> 3"
  by (simp_all add: hold_rank_def)

lemma allowed_rank: "billingHoldTransitionAllowed from to \<Longrightarrow> hold_rank to < hold_rank from"
  by (auto simp: billingHoldTransitionAllowed_def hold_rank_def split: if_splits)

lemma allowed_counts: "billingHoldTransitionAllowed from to \<Longrightarrow> billingHoldCountsAgainstBudget from"
  by (auto simp: billingHoldTransitionAllowed_def billingHoldCountsAgainstBudget_def split: if_splits)

lemma allowed_to:
  "billingHoldTransitionAllowed from to \<Longrightarrow> to \<in> {BillingHoldStatusCommitted, BillingHoldStatusSettled,
     BillingHoldStatusReleased, BillingHoldStatusDisputed} \<and> from \<notin> {BillingHoldStatusSettled, BillingHoldStatusReleased}"
  by (auto simp: billingHoldTransitionAllowed_def split: if_splits)

lemma prepare_cases:
  assumes "prepareBillingHoldTransition hold toStatus amount reason at = Inr hold'"
  shows "(hold' = hold \<and> hold_Status hold = TrimSpace toStatus) \<or>
    (hold_Version hold' = hold_Version hold + 1 \<and> same_hold hold hold' \<and> hold_Status hold' = TrimSpace toStatus \<and> 0 \<le> amount
     \<and> billingHoldTransitionAllowed (hold_Status hold) (hold_Status hold')
     \<and> hold_SettledAmountMicros hold' = (if hold_Status hold' = BillingHoldStatusSettled then amount else hold_SettledAmountMicros hold))"
  using assms by (auto simp: prepareBillingHoldTransition_def Let_def same_hold_def split: if_splits)

lemma prepare_moves:
  assumes "prepareBillingHoldTransition hold toStatus amount reason at = Inr hold'" "hold_Version hold' \<noteq> hold_Version hold"
  shows "hold_Version hold' = hold_Version hold + 1" "same_hold hold hold'" "hold_Status hold' = TrimSpace toStatus"
    "billingHoldTransitionAllowed (hold_Status hold) (hold_Status hold')"
    "hold_SettledAmountMicros hold' = (if hold_Status hold' = BillingHoldStatusSettled then amount else hold_SettledAmountMicros hold)"
  using prepare_cases [OF assms(1)] assms(2) by auto

definition hold_set :: "BillingHold \<Rightarrow> BillingHold \<Rightarrow> MemoryRepository \<Rightarrow> MemoryRepository" where
  "hold_set hold hold' r = r\<lparr>billingHolds := mput (hold_ID hold) hold' (billingHolds r)\<rparr>"

lemma hold_find:
  "holds_ok r \<Longrightarrow> memoryBillingHoldForOperation (billingHolds r) i = Some hold \<longleftrightarrow>
     hold \<in> set (mvalues (billingHolds r)) \<and> hold_OperationID hold = i"
  unfolding holds_ok_def memoryBillingHoldForOperation_def by (rule indexed_find)

lemma hold_set_ok:
  assumes "holds_ok r" "memoryBillingHoldForOperation (billingHolds r) i = Some hold" "same_hold hold hold'"
  shows "holds_ok (hold_set hold hold' r)"
    and "memoryBillingHoldForOperation (billingHolds (hold_set hold hold' r)) j =
      (if j = i then Some hold' else memoryBillingHoldForOperation (billingHolds r) j)"
  using assms hold_find [OF assms(1), of i hold] same_hold_fields(1,2) [OF assms(3)]
  by (auto simp: holds_ok_def hold_set_def memoryBillingHoldForOperation_def indexed_update indexed_update_find)

lemma Transition_cases:
  assumes "TransitionBillingHold i n toStatus amount reason at r = ((hold', updated, err), r')"
  shows "if updated then err = None \<and> (\<exists>hold. memoryBillingHoldForOperation (billingHolds r) (TrimSpace i) = Some hold
      \<and> hold_Version hold = n \<and> hold_Version hold' = n + 1 \<and> same_hold hold hold' \<and> hold_Status hold' = TrimSpace toStatus
      \<and> billingHoldTransitionAllowed (hold_Status hold) (hold_Status hold') \<and> r' = hold_set hold hold' r)
    else r' = r"
  using assms by (auto simp: TransitionBillingHold_def hold_set_def split: option.splits if_splits sum.splits dest: prepare_moves)

definition hold_cas :: "string \<Rightarrow> int \<Rightarrow> string \<times> int \<times> string \<times> gotime \<Rightarrow> MemoryRepository \<Rightarrow> bool \<times> MemoryRepository" where
  "hold_cas operationID n a r = (case a of (toStatus, amount, reason, at) \<Rightarrow>
     case TransitionBillingHold operationID n toStatus amount reason at r of ((_, updated, _), r') \<Rightarrow> (updated, r'))"

lemma hold_cas_cases:
  assumes "hold_cas k n a r = (b, r')"
  shows "if b then \<exists>hold hold'. FindBillingHoldByOperationID k r = Some hold \<and> hold_Version hold = n
      \<and> hold_Version hold' = n + 1 \<and> same_hold hold hold'
      \<and> billingHoldTransitionAllowed (hold_Status hold) (hold_Status hold') \<and> r' = hold_set hold hold' r
    else r' = r"
proof -
  obtain s m t u where a: "a = (s, m, t, u)" by (cases a)
  obtain h e where c: "TransitionBillingHold k n s m t u r = ((h, b, e), r')"
    using assms by (auto simp: a hold_cas_def split: prod.splits)
  from Transition_cases [OF c] show ?thesis unfolding FindBillingHoldByOperationID_def by (auto split: if_splits)
qed

lemma Find_hold_set:
  assumes "holds_ok r" "FindBillingHoldByOperationID k r = Some hold" "same_hold hold hold'"
  shows "FindBillingHoldByOperationID j (hold_set hold hold' r) =
    (if TrimSpace j = TrimSpace k then Some hold' else FindBillingHoldByOperationID j r)"
  using hold_set_ok(2) [OF assms(1) _ assms(3)] assms(2) by (simp add: FindBillingHoldByOperationID_def)

lemma Find_alias:
  assumes "holds_ok r" "FindBillingHoldByOperationID k r = Some hold"
  shows "FindBillingHoldByOperationID j r = Some hold \<longleftrightarrow> TrimSpace j = TrimSpace k"
  using assms by (auto simp: FindBillingHoldByOperationID_def hold_find)

interpretation holds: versioned_store holds_ok "\<lambda>r k. FindBillingHoldByOperationID k r" hold_Version hold_cas
proof
  fix r r' :: MemoryRepository and k j n a
  assume wf: "holds_ok r"
  show "hold_cas k n a r = (False, r') \<Longrightarrow> r' = r" using hold_cas_cases [of k n a r False r'] by simp
  assume c: "hold_cas k n a r = (True, r')"
  then obtain hold hold' where h: "FindBillingHoldByOperationID k r = Some hold" "hold_Version hold = n"
      "hold_Version hold' = n + 1" "same_hold hold hold'" and r': "r' = hold_set hold hold' r"
    using hold_cas_cases [OF c] by auto
  show "holds_ok r'" using hold_set_ok(1) [OF wf _ h(4)] h(1) by (simp add: r' FindBillingHoldByOperationID_def)
  note find = Find_hold_set [OF wf h(1,4), folded r'] and same = Find_alias [OF wf h(1)]
  show "\<exists>v v'. FindBillingHoldByOperationID k r = Some v \<and> hold_Version v = n
      \<and> FindBillingHoldByOperationID k r' = Some v' \<and> hold_Version v' = n + 1" using find h by simp
  show "FindBillingHoldByOperationID j r \<noteq> FindBillingHoldByOperationID k r
      \<Longrightarrow> FindBillingHoldByOperationID j r' = FindBillingHoldByOperationID j r" using find h(1) same by auto
  show "FindBillingHoldByOperationID j r = FindBillingHoldByOperationID k r
      \<Longrightarrow> FindBillingHoldByOperationID j r' = FindBillingHoldByOperationID k r'" using find h(1) same by auto
qed

definition hold_moved :: "BillingHold \<Rightarrow> BillingHold \<Rightarrow> bool" where
  "hold_moved a b \<longleftrightarrow> same_hold a b \<and> billingHoldTransitionAllowed\<^sup>*\<^sup>* (hold_Status a) (hold_Status b)
     \<and> hold_Version a \<le> hold_Version b \<and> hold_Version b + hold_rank (hold_Status b) \<le> hold_Version a + hold_rank (hold_Status a)
     \<and> (hold_Version a = hold_Version b \<longrightarrow> a = b)"

lemma hold_moved_refl [simp]: "hold_moved a a"
  by (simp add: hold_moved_def)

lemma hold_moved_trans:
  assumes "hold_moved a b" "hold_moved b c"
  shows "hold_moved a c"
proof -
  have "billingHoldTransitionAllowed\<^sup>*\<^sup>* (hold_Status a) (hold_Status c)" using assms by (auto simp: hold_moved_def)
  moreover have "same_hold a c" using assms same_hold_trans by (auto simp: hold_moved_def)
  moreover have "hold_Version a = hold_Version c \<longrightarrow> a = c" using assms by (auto simp: hold_moved_def)
  ultimately show ?thesis using assms unfolding hold_moved_def by linarith
qed

lemma hold_cas_moved:
  assumes "holds_ok r" "hold_cas k n a r = (b, r')" "FindBillingHoldByOperationID j r = Some hold"
  shows "\<exists>hold'. FindBillingHoldByOperationID j r' = Some hold' \<and> hold_moved hold hold'"
proof (cases b)
  case True
  from hold_cas_cases [OF assms(2)] True obtain h h' where h: "FindBillingHoldByOperationID k r = Some h"
      "hold_Version h' = hold_Version h + 1" "same_hold h h'" "billingHoldTransitionAllowed (hold_Status h) (hold_Status h')"
    and r': "r' = hold_set h h' r" by auto
  have "hold_moved h h'" using h allowed_rank [OF h(4)] by (auto simp: hold_moved_def)
  then show ?thesis using Find_hold_set [OF assms(1) h(1,3), of j] assms(3) Find_alias [OF assms(1) h(1), of j] h(1) r' by auto
next
  case False
  then show ?thesis using hold_cas_cases [OF assms(2)] assms(3) by auto
qed

lemma run_holds_moved:
  assumes "holds_ok r" "run_updates hold_cas us r = (bs, r')" "FindBillingHoldByOperationID j r = Some hold"
  shows "\<exists>hold'. FindBillingHoldByOperationID j r' = Some hold' \<and> hold_moved hold hold'"
  using assms
proof (induction us arbitrary: r bs hold)
  case (Cons u us)
  obtain k n a where u: "u = (k, n, a)" by (cases u)
  obtain b t where c: "hold_cas k n a r = (b, t)" by (cases "hold_cas k n a r")
  obtain cs where run: "run_updates hold_cas us t = (cs, r')" using Cons.prems(2) c by (auto simp: u split: prod.splits)
  have t: "holds_ok t" using Cons.prems(1) c holds.cas_wf [of r k n a t] holds.cas_fail [of r k n a t] by (cases b) auto
  from hold_cas_moved [OF Cons.prems(1) c Cons.prems(3)] obtain h where
    h: "FindBillingHoldByOperationID j t = Some h" "hold_moved hold h" by auto
  from Cons.IH [OF t run h(1)] h(2) hold_moved_trans show ?case by blast
qed auto

section \<open>The exposure without wrap-around\<close>

lemma wrap64_add_left [simp]: "wrap64 (wrap64 a + b) = wrap64 (a + b)"
  by (simp add: wrap64_def mod_simps algebra_simps)

lemma foldl_wrap:
  "foldl (\<lambda>acc x. if P x then wrap64 (acc + f x) else acc) (wrap64 a) xs = wrap64 (a + sum_list (map f (filter P xs)))"
  by (induction xs arbitrary: a) (simp_all add: add.assoc)

definition ledger_exposure :: "MemoryRepository \<Rightarrow> BillingHold \<Rightarrow> int" where
  "ledger_exposure r hold = sum_list (map ledger_AmountMicros
     (filter (\<lambda>entry. ledger_counts r hold entry \<and> ledger_AmountMicros entry > 0) (mvalues (billingLedgerEntries r))))"

definition reserved_amount :: "BillingHold \<Rightarrow> BillingHold \<Rightarrow> int" where
  "reserved_amount hold current = (if hold_counts hold current then nonNegativeInt64 (hold_ReservedAmountMicros current) else 0)"

definition reserved_exposure :: "MemoryRepository \<Rightarrow> BillingHold \<Rightarrow> int" where
  "reserved_exposure r hold = msum (reserved_amount hold) (billingHolds r)"

lemma sum_list_filter: "sum_list (map f (filter P xs)) = sum_list (map (\<lambda>x. if P x then f x else 0) xs)" for f :: "'a \<Rightarrow> int"
  by (induction xs) auto

lemma billing_exposure_exact: "billing_exposure r hold = wrap64 (ledger_exposure r hold + reserved_exposure r hold)"
proof -
  have zero: "0 = wrap64 0" by (simp add: int64_defs)
  show ?thesis unfolding billing_exposure_def
    by (subst zero, subst foldl_wrap, subst foldl_wrap)
      (simp add: ledger_exposure_def reserved_exposure_def msum_def reserved_amount_def [abs_def] sum_list_filter add.commute)
qed

lemma nonNegativeInt64_nonneg [simp]: "0 \<le> nonNegativeInt64 x"
  by (simp add: nonNegativeInt64_def)

lemma ledger_exposure_nonneg: "0 \<le> ledger_exposure r hold"
  unfolding ledger_exposure_def by (rule sum_list_nonneg) auto

lemma reserved_exposure_nonneg: "0 \<le> reserved_exposure r hold"
  unfolding reserved_exposure_def by (rule msum_nonneg) (auto simp: list_all_iff reserved_amount_def)

lemma budget_check_exact:
  assumes "adm_MonthlyBudgetMicros adm > 0" "0 \<le> hold_ReservedAmountMicros (adm_Hold adm)"
    and "ledger_exposure r (adm_Hold adm) + reserved_exposure r (adm_Hold adm) + hold_ReservedAmountMicros (adm_Hold adm) \<le> MaxInt64"
    and "enforceMemoryBillingHoldBudget r adm = None"
  shows "ledger_exposure r (adm_Hold adm) + reserved_exposure r (adm_Hold adm) + hold_ReservedAmountMicros (adm_Hold adm)
    \<le> adm_MonthlyBudgetMicros adm"
proof -
  let ?total = "ledger_exposure r (adm_Hold adm) + reserved_exposure r (adm_Hold adm) + hold_ReservedAmountMicros (adm_Hold adm)"
  have "in64 ?total" using assms(2,3) ledger_exposure_nonneg [of r "adm_Hold adm"] reserved_exposure_nonneg [of r "adm_Hold adm"]
    by (simp add: int64_defs)
  then have w: "wrap64 (billing_exposure r (adm_Hold adm) + hold_ReservedAmountMicros (adm_Hold adm)) = ?total"
    by (simp add: billing_exposure_exact)
  have "\<not> adm_MonthlyBudgetMicros adm < wrap64 (billing_exposure r (adm_Hold adm) + hold_ReservedAmountMicros (adm_Hold adm))"
    using assms(1,4) by (auto simp: enforceMemoryBillingHoldBudget_def billingHoldAdmissionHasLimits_def Let_def split: if_splits)
  then show ?thesis unfolding w by simp
qed

section \<open>Creation\<close>

lemma Create_hold_cases:
  assumes "CreateAIOperationWithBillingHold operation adm r = ((res, created, err), r')"
  shows "if created then res = normalizeAIOperation operation \<and> err = None
      \<and> validateBillingHoldAdmission (normalizeAIOperation operation) adm = None
      \<and> operation_in_scope (normalizeAIOperation operation) r = None \<and> \<not> mhas (aiOperations r) (op_ID operation)
      \<and> \<not> mhas (billingHolds r) (hold_ID (adm_Hold adm)) \<and> memoryBillingHoldForOperation (billingHolds r) (op_ID operation) = None
      \<and> enforceMemoryBillingHoldBudget r adm = None \<and> r' = insert_hold (normalizeAIOperation operation) adm r
    else r' = r"
  using assms unfolding CreateAIOperationWithBillingHold_def Let_def operation_in_scope_def [symmetric]
  by (auto split: option.splits if_splits)

lemma validate_None:
  assumes "validateBillingHoldAdmission operation adm = None"
  shows "hold_matches_operation operation (adm_Hold adm)" "hold_is_new (adm_Hold adm)" "limits_nonnegative adm"
  using assms by (auto simp: validateBillingHoldAdmission_def Let_def split: sum.splits if_splits)

lemma insert_hold_maps [simp]:
  "aiOperations (insert_hold operation adm r) = mput (op_ID operation) operation (aiOperations r)"
  "billingHolds (insert_hold operation adm r) = mput (hold_ID (adm_Hold adm)) (adm_Hold adm) (billingHolds r)"
  "billingLedgerEntries (insert_hold operation adm r) = billingLedgerEntries r"
  by (simp_all add: insert_hold_def)

lemma Create_hold_ok:
  assumes "holds_ok r" "CreateAIOperationWithBillingHold operation adm r = ((res, True, err), r')"
  shows "holds_ok r'"
    and "memoryBillingHoldForOperation (billingHolds r') i =
      (if i = op_ID operation then Some (adm_Hold adm) else memoryBillingHoldForOperation (billingHolds r) i)"
    and "reserved_exposure r' h = reserved_exposure r h + reserved_amount h (adm_Hold adm)"
proof -
  note c = Create_hold_cases [OF assms(2), simplified]
  have idn: "hold_OperationID (adm_Hold adm) = op_ID operation" using validate_None(1) [of "normalizeAIOperation operation" adm] c
    by (simp add: hold_matches_operation_def)
  have fresh: "\<not> mhas (billingHolds r) (hold_ID (adm_Hold adm))"
      "find (\<lambda>w. hold_OperationID w = hold_OperationID (adm_Hold adm)) (mvalues (billingHolds r)) = None"
    using c idn by (simp_all add: memoryBillingHoldForOperation_def)
  show "holds_ok r'" using indexed_insert [of hold_ID hold_OperationID "billingHolds r" "adm_Hold adm"] fresh assms(1) c
    by (simp add: holds_ok_def)
  show "memoryBillingHoldForOperation (billingHolds r') i =
      (if i = op_ID operation then Some (adm_Hold adm) else memoryBillingHoldForOperation (billingHolds r) i)"
    using indexed_insert_find [of hold_ID hold_OperationID "billingHolds r" "adm_Hold adm" i] fresh assms(1) c idn
    by (simp add: holds_ok_def memoryBillingHoldForOperation_def)
  show "reserved_exposure r' h = reserved_exposure r h + reserved_amount h (adm_Hold adm)"
    using c by (simp add: reserved_exposure_def msum_mput_fresh mhas_def)
qed

section \<open>The budget along a run\<close>

text \<open>
  The steps of a credential's month: \<open>h\<close> names the scope and the period. Operations are created by anyone, with an admission of
  budget \<open>B\<close> where it is this scope and this month, and a reservation of at most \<open>R\<close>; holds move by any transition.
\<close>

definition ledger_total :: "MemoryRepository \<Rightarrow> int" where
  "ledger_total r = msum (\<lambda>entry. nonNegativeInt64 (ledger_AmountMicros entry)) (billingLedgerEntries r)"

inductive budget_step :: "BillingHold \<Rightarrow> int \<Rightarrow> int \<Rightarrow> MemoryRepository \<Rightarrow> MemoryRepository \<Rightarrow> bool" for h B R where
  create: "CreateAIOperationWithBillingHold operation adm r = (result, r') \<Longrightarrow>
    (hold_counts h (adm_Hold adm) \<longrightarrow> adm_MonthlyBudgetMicros adm = B \<and> hold_ReservedAmountMicros (adm_Hold adm) \<le> R) \<Longrightarrow>
    budget_step h B R r r'"
| transition: "TransitionBillingHold i n toStatus amount reason at r = (result, r') \<Longrightarrow> budget_step h B R r r'"

lemma ledger_exposure_le: "ledger_exposure r h \<le> ledger_total r"
  unfolding ledger_exposure_def ledger_total_def msum_def sum_list_filter
  by (intro sum_list_mono) (simp add: nonNegativeInt64_def)

lemma same_scope_counts:
  assumes "hold_counts h a"
  shows "hold_counts a = hold_counts h"
  using assms by (intro ext) (auto simp: hold_counts_def sameBillingCredentialScope_def)

lemma transition_reserved:
  assumes "holds_ok r" "memoryBillingHoldForOperation (billingHolds r) i = Some hold" "same_hold hold hold'"
    and "billingHoldTransitionAllowed (hold_Status hold) (hold_Status hold')"
  shows "reserved_exposure (hold_set hold hold' r) h \<le> reserved_exposure r h"
proof -
  have keyed: "keyed hold_ID (billingHolds r)" using assms(1) by (simp add: holds_ok_def indexed_keyed)
  have "map_of (billingHolds r) (hold_ID hold) = Some hold"
    using assms(1,2) keyed_value [OF keyed] by (simp add: hold_find)
  from msum_mput_some [OF keyed_wf [OF keyed] this]
  have "reserved_exposure (hold_set hold hold' r) h = reserved_exposure r h - reserved_amount h hold + reserved_amount h hold'"
    by (simp add: reserved_exposure_def hold_set_def)
  moreover have "reserved_amount h hold' \<le> reserved_amount h hold"
    using allowed_counts [OF assms(4)] same_hold_fields [OF assms(3)] by (simp add: reserved_amount_def hold_counts_def)
  ultimately show ?thesis by simp
qed

lemma budget_bounded:
  assumes "0 < B" "L + B + R \<le> MaxInt64"
  shows "bounded_resource (budget_step h B R) (\<lambda>r. holds_ok r \<and> ledger_total r \<le> L) (\<lambda>r. reserved_exposure r h) B"
proof
  fix r r'
  assume wf: "holds_ok r \<and> ledger_total r \<le> L" and used: "reserved_exposure r h \<le> B" and step: "budget_step h B R r r'"
  have "(holds_ok r' \<and> ledger_total r' \<le> L) \<and> (reserved_exposure r' h \<le> reserved_exposure r h \<or> reserved_exposure r' h \<le> B)"
    using step
  proof (cases rule: budget_step.cases)
    case (create operation adm result)
    obtain res created err where result: "result = (res, created, err)" by (cases result)
    show ?thesis
    proof (cases created)
      case True
      then have c: "CreateAIOperationWithBillingHold operation adm r = ((res, True, err), r')" using create(1) result by simp
      note cs = Create_hold_cases [OF c, simplified]
      have ledger: "ledger_total r' = ledger_total r" using cs by (simp add: ledger_total_def)
      have "reserved_exposure r' h \<le> reserved_exposure r h \<or> reserved_exposure r' h \<le> B"
      proof (cases "hold_counts h (adm_Hold adm)")
        case True
        let ?a = "hold_ReservedAmountMicros (adm_Hold adm)"
        have nonneg: "0 \<le> ?a" using validate_None(2) [of "normalizeAIOperation operation" adm] cs by (simp add: hold_is_new_def)
        have eq: "reserved_exposure r (adm_Hold adm) = reserved_exposure r h"
          by (simp add: reserved_exposure_def reserved_amount_def [abs_def] same_scope_counts [OF True])
        have "ledger_exposure r (adm_Hold adm) \<le> L" using ledger_exposure_le wf order_trans by blast
        with create(2) True used assms eq have "ledger_exposure r (adm_Hold adm) + reserved_exposure r (adm_Hold adm) + ?a \<le> MaxInt64"
          by auto
        from budget_check_exact [OF _ nonneg this] create(2) True assms(1) cs
        have "reserved_exposure r h + ?a \<le> B" using ledger_exposure_nonneg [of r "adm_Hold adm"] eq by auto
        then show ?thesis using Create_hold_ok(3) [OF _ c, of h] wf nonneg True by (simp add: reserved_amount_def nonNegativeInt64_def)
      next
        case False
        then show ?thesis using Create_hold_ok(3) [OF _ c, of h] wf by (simp add: reserved_amount_def)
      qed
      then show ?thesis using Create_hold_ok(1) [OF _ c] wf ledger by simp
    next
      case False
      then show ?thesis using Create_hold_cases [of operation adm r res created err r'] create(1) result wf by simp
    qed
  next
    case (transition i n toStatus amount reason at result)
    obtain hold' updated err where result: "result = (hold', updated, err)" by (cases result)
    show ?thesis
    proof (cases updated)
      case True
      with Transition_cases [of i n toStatus amount reason at r hold' updated err r'] transition result obtain hold where
        hold: "memoryBillingHoldForOperation (billingHolds r) (TrimSpace i) = Some hold" "same_hold hold hold'"
          "billingHoldTransitionAllowed (hold_Status hold) (hold_Status hold')" and r': "r' = hold_set hold hold' r" by auto
      then show ?thesis using hold_set_ok(1) [OF _ hold(1,2)] transition_reserved [OF _ hold, of h] wf
        by (simp add: ledger_total_def hold_set_def)
    next
      case False
      then show ?thesis using Transition_cases [of i n toStatus amount reason at r hold' updated err r'] transition result wf by simp
    qed
  qed
  then show "holds_ok r' \<and> ledger_total r' \<le> L" "reserved_exposure r' h \<le> reserved_exposure r h \<or> reserved_exposure r' h \<le> B"
    by auto
qed

section \<open>The quotas without saturation\<close>

definition totals_ok :: "UsageDimensionTotals \<Rightarrow> bool" where
  "totals_ok t \<longleftrightarrow> 0 \<le> tot_OutputImages t \<and> tot_OutputImages t \<le> MaxInt64 \<and> 0 \<le> tot_VideoMilliseconds t
     \<and> tot_VideoMilliseconds t \<le> MaxInt64 \<and> 0 \<le> tot_AudioMilliseconds t \<and> tot_AudioMilliseconds t \<le> MaxInt64"

definition quantities64 :: "UsageDimensions \<Rightarrow> bool" where
  "quantities64 vs \<longleftrightarrow> list_all (\<lambda>(name, d). dim_Quantity d \<le> MaxInt64) vs"

lemma quantity_le: "quantities64 vs \<Longrightarrow> usageDimensionQuantity vs name \<le> MaxInt64"
  by (auto simp: quantities64_def usageDimensionQuantity_def list_all_iff int64_defs split: option.split dest!: map_of_SomeD)

lemma totals_ok_sum: "quantities64 vs \<Longrightarrow> totals_ok (UsageDimensionsTotals vs)"
  by (simp add: totals_ok_def UsageDimensionsTotals_def saturatingUsageAdd_exact quantity_le)
    (simp add: usageDimensionQuantity_def int64_defs split: option.split)

definition usage_field :: "nat \<Rightarrow> UsageDimensionTotals \<Rightarrow> int" where
  "usage_field k t = [tot_OutputImages t, tot_VideoMilliseconds t, tot_AudioMilliseconds t] ! k"

lemma add_totals:
  assumes "totals_ok a" "totals_ok b"
  shows "totals_ok (addUsageDimensionTotals a b)"
    and "k < 3 \<Longrightarrow> usage_field k (addUsageDimensionTotals a b) = min MaxInt64 (usage_field k a + usage_field k b)"
  using assms by (auto simp: totals_ok_def addUsageDimensionTotals_def saturating_sum usage_field_def less_Suc_eq numeral_3_eq_3)

lemma fold_totals:
  assumes "\<forall>x \<in> set xs. P x \<longrightarrow> totals_ok (f x)" "totals_ok t" "k < 3"
  shows "totals_ok (foldl (\<lambda>u x. if P x then addUsageDimensionTotals u (f x) else u) t xs)
    \<and> usage_field k (foldl (\<lambda>u x. if P x then addUsageDimensionTotals u (f x) else u) t xs)
      = min MaxInt64 (usage_field k t + sum_list (map (\<lambda>x. usage_field k (f x)) (filter P xs)))"
  using assms(1,2)
proof (induction xs arbitrary: t)
  case Nil
  then show ?case using \<open>k < 3\<close> by (auto simp: totals_ok_def usage_field_def less_Suc_eq numeral_3_eq_3)
next
  case (Cons x xs)
  have field: "0 \<le> usage_field k (f y)" if "totals_ok (f y)" for y
    using that \<open>k < 3\<close> by (auto simp: totals_ok_def usage_field_def less_Suc_eq numeral_3_eq_3)
  have "0 \<le> sum_list (map (\<lambda>x. usage_field k (f x)) (filter P xs))"
    using Cons.prems(1) by (intro sum_list_nonneg) (auto intro: field)
  then show ?case using Cons add_totals(1) [of t "f x"] add_totals(2) [of t "f x" k] \<open>k < 3\<close> by auto
qed

definition usage_sum :: "nat \<Rightarrow> MemoryRepository \<Rightarrow> BillingHold \<Rightarrow> int" where
  "usage_sum k r hold =
     sum_list (map (\<lambda>record. usage_field k (UsageDimensionsTotals (usage_UsageDimensions record)))
       (filter (record_counts r hold) (mvalues (usageRecords r))))
     + sum_list (map (\<lambda>current. usage_field k (UsageDimensionsTotals (hold_ReservedUsageDimensions current)))
       (filter (hold_counts hold) (mvalues (billingHolds r))))"

definition repository_quantities64 :: "MemoryRepository \<Rightarrow> bool" where
  "repository_quantities64 r \<longleftrightarrow> (\<forall>record \<in> set (mvalues (usageRecords r)). quantities64 (usage_UsageDimensions record))
     \<and> (\<forall>current \<in> set (mvalues (billingHolds r)). quantities64 (hold_ReservedUsageDimensions current))"

lemma current_usage:
  assumes "repository_quantities64 r" "k < 3"
  shows "usage_field k (addUsageDimensionTotals (settled_usage r hold) (active_usage r hold)) = min MaxInt64 (usage_sum k r hold)
    \<and> totals_ok (addUsageDimensionTotals (settled_usage r hold) (active_usage r hold)) \<and> 0 \<le> usage_sum k r hold"
proof -
  have z: "totals_ok zero_totals" "usage_field k zero_totals = 0"
    using assms(2) by (auto simp: totals_ok_def zero_totals_def usage_field_def less_Suc_eq numeral_3_eq_3 int64_defs)
  define a where "a = sum_list (map (\<lambda>record. usage_field k (UsageDimensionsTotals (usage_UsageDimensions record)))
       (filter (record_counts r hold) (mvalues (usageRecords r))))"
  define b where "b = sum_list (map (\<lambda>current. usage_field k (UsageDimensionsTotals (hold_ReservedUsageDimensions current)))
       (filter (hold_counts hold) (mvalues (billingHolds r))))"
  have field: "0 \<le> usage_field k t" if "totals_ok t" for t
    using that \<open>k < 3\<close> by (auto simp: totals_ok_def usage_field_def less_Suc_eq numeral_3_eq_3)
  have pos: "0 \<le> a" "0 \<le> b" unfolding a_def b_def using assms(1)
    by (auto simp: repository_quantities64_def intro!: sum_list_nonneg field totals_ok_sum)
  have s: "totals_ok (settled_usage r hold)" "usage_field k (settled_usage r hold) = min MaxInt64 a"
    using fold_totals [of "mvalues (usageRecords r)" "record_counts r hold" "\<lambda>record. UsageDimensionsTotals (usage_UsageDimensions record)"
        zero_totals k] assms z
    by (auto simp: settled_usage_def repository_quantities64_def a_def intro: totals_ok_sum)
  have t: "totals_ok (active_usage r hold)" "usage_field k (active_usage r hold) = min MaxInt64 b"
    using fold_totals [of "mvalues (billingHolds r)" "hold_counts hold" "\<lambda>current. UsageDimensionsTotals (hold_ReservedUsageDimensions current)"
        zero_totals k] assms z
    by (auto simp: active_usage_def repository_quantities64_def b_def intro: totals_ok_sum)
  have "usage_sum k r hold = a + b" by (simp add: usage_sum_def a_def b_def)
  then show ?thesis using add_totals(1) [OF s(1) t(1)] add_totals(2) [OF s(1) t(1), of k] s(2) t(2) pos assms(2)
    by (auto simp: min_def int64_defs)
qed

lemma usageSecondsLimit:
  "0 < seconds \<Longrightarrow> usageSecondsLimitMilliseconds seconds = min MaxInt64 (seconds * 1000)"
  by (auto simp: usageSecondsLimitMilliseconds_def quot64_def int64_defs min_def)

definition usage_limit :: "nat \<Rightarrow> BillingHoldAdmission \<Rightarrow> int" where
  "usage_limit k adm = [adm_MonthlyImageLimit adm, adm_MonthlyVideoSecondsLimit adm * 1000, adm_MonthlyAudioSecondsLimit adm * 1000] ! k"

lemma enforce_usage:
  assumes "enforceUsageDimensionLimits adm current = None" "totals_ok current"
    and "quantities64 (hold_ReservedUsageDimensions (adm_Hold adm))" "k < 3" "0 < usage_limit k adm" "usage_limit k adm < MaxInt64"
  shows "min MaxInt64 (usage_field k current + usage_field k (UsageDimensionsTotals (hold_ReservedUsageDimensions (adm_Hold adm))))
    \<le> usage_limit k adm"
  using assms totals_ok_sum [OF assms(3)]
  by (auto simp: enforceUsageDimensionLimits_def Let_def usage_limit_def usage_field_def totals_ok_def saturating_sum
      usageSecondsLimit less_Suc_eq numeral_3_eq_3 split: if_splits)

section \<open>The properties of billing holds\<close>

text \<open>
  The life of a hold: along any sequence of transitions of any holds, an operation's hold stays its hold, with the same
  scope, period and reservation, its status moves only along the allowed transitions, its version counts at most three moves, and once it is
  settled or released nothing changes it.
\<close>

lemma hold_lifecycle:
  assumes "holds_ok r" "FindBillingHoldByOperationID operationID r = Some hold" "run_updates hold_cas updates r = (results, r')"
  shows "\<exists>hold'. FindBillingHoldByOperationID operationID r' = Some hold' \<and> same_hold hold hold'
    \<and> billingHoldTransitionAllowed\<^sup>*\<^sup>* (hold_Status hold) (hold_Status hold')
    \<and> hold_Version hold \<le> hold_Version hold' \<and> hold_Version hold' \<le> hold_Version hold + 3
    \<and> (hold_Status hold \<in> {BillingHoldStatusSettled, BillingHoldStatusReleased} \<longrightarrow> hold' = hold)"
proof -
  obtain hold' where hold': "FindBillingHoldByOperationID operationID r' = Some hold'" "hold_moved hold hold'"
    using run_holds_moved [OF assms(1,3,2)] by auto
  have "hold_rank (hold_Status hold) = 0" if "hold_Status hold \<in> {BillingHoldStatusSettled, BillingHoldStatusReleased}"
    using that by (auto simp: hold_rank_def)
  then show ?thesis using hold' hold_rank_bounds(1) [of "hold_Status hold'"] hold_rank_bounds(2) [of "hold_Status hold"]
    by (intro exI [of _ hold']) (auto simp: hold_moved_def)
qed

definition demo_hold :: BillingHold where
  "demo_hold = zero_BillingHold\<lparr>hold_ID := ''hold_1'', hold_OperationID := ''op_1'', hold_Status := BillingHoldStatusReserved,
     hold_Version := 1, hold_ReservedAmountMicros := 60, hold_RequestFingerprint := ''f'', hold_Currency := ''USD'',
     hold_BudgetPeriodStart := 1, hold_CreatedAt := 1, hold_ExpiresAt := 2\<rparr>"

definition demo_holds :: MemoryRepository where
  "demo_holds = NewMemoryRepository\<lparr>billingHolds := [(''hold_1'', demo_hold)]\<rparr>"

lemma demo_holds_ok: "holds_ok demo_holds"
  by (simp add: holds_ok_def indexed_def demo_holds_def demo_hold_def mvalues_def keyed_def wf_gmap_def)

lemma hold_lifecycle_witness:
  "\<exists>results r' hold'. run_updates hold_cas [(''op_1'', 1, (BillingHoldStatusReleased, 0, [], 5)), (''op_1'', 1, (BillingHoldStatusCommitted, 0, [], 6))]
      demo_holds = (results, r') \<and> FindBillingHoldByOperationID ''op_1'' r' = Some hold' \<and> same_hold demo_hold hold'"
proof -
  let ?us = "[(''op_1'', 1, (BillingHoldStatusReleased, 0, [], 5)), (''op_1'', 1, (BillingHoldStatusCommitted, 0, [], 6))]"
  obtain results r' where run: "run_updates hold_cas ?us demo_holds = (results, r')" by (cases "run_updates hold_cas ?us demo_holds")
  have "FindBillingHoldByOperationID ''op_1'' demo_holds = Some demo_hold" by code_simp
  from hold_lifecycle [OF demo_holds_ok this run] run show ?thesis by blast
qed

text \<open>
  Two transitions of a hold that were decided on the same version: after the first has moved the hold, the second changes nothing
  and reports the hold as the first left it, whatever the two transitions are.
\<close>

lemma TransitionBillingHold_one_winner:
  assumes "holds_ok r" "TransitionBillingHold operationID version toStatus amount reason at r = ((hold, True, err), r')"
  shows "TransitionBillingHold operationID version toStatus' amount' reason' at' r' = ((hold, False, None), r')"
proof -
  have cas: "hold_cas operationID version (toStatus, amount, reason, at) r = (True, r')" using assms(2) by (simp add: hold_cas_def)
  obtain old where old: "memoryBillingHoldForOperation (billingHolds r) (TrimSpace operationID) = Some old"
      "hold_Version hold = version + 1" "same_hold old hold" "r' = hold_set old hold r"
    using Transition_cases [OF assms(2)] by auto
  have found: "FindBillingHoldByOperationID operationID r' = Some hold"
    using hold_set_ok(2) [OF assms(1) old(1,3)] old(4) by (simp add: FindBillingHoldByOperationID_def)
  have "\<not> fst (hold_cas operationID version (toStatus', amount', reason', at') r')" using holds.one_winner [OF assms(1) cas] .
  then show ?thesis using found old(2)
    by (simp add: hold_cas_def TransitionBillingHold_def FindBillingHoldByOperationID_def)
qed

text \<open>
  C36. Creating an operation with its hold is atomic and idempotent: when it does not create, it changes nothing; when it creates,
  the operation and its hold of the same scope and fingerprint, reserved and in version 1, are there together, the other holds stay, and a later request in the
  same scope gets the same operation and no second hold. Each operation has at most one hold, each scope one operation.
\<close>

theorem CreateAIOperationWithBillingHold_atomic:
  assumes "holds_ok r" "operations_ok r" "CreateAIOperationWithBillingHold operation admission r = ((result, created, err), r')"
  shows "holds_ok r' \<and> operations_ok r' \<and> (\<not> created \<longrightarrow> r' = r)
    \<and> (created \<longrightarrow> err = None \<and> map_of (aiOperations r') (op_ID operation) = Some result
        \<and> memoryBillingHoldForOperation (billingHolds r') (op_ID operation) = Some (adm_Hold admission)
        \<and> hold_matches_operation result (adm_Hold admission) \<and> hold_is_new (adm_Hold admission)
        \<and> (\<forall>i. i \<noteq> op_ID operation \<longrightarrow>
            memoryBillingHoldForOperation (billingHolds r') i = memoryBillingHoldForOperation (billingHolds r) i)
        \<and> (\<forall>again other. sameAIOperationIdempotencyScope operation again \<longrightarrow>
            validateBillingHoldAdmission (normalizeAIOperation again) other = None \<longrightarrow>
            CreateAIOperationWithBillingHold again other r' = ((result, False, None), r')))"
proof (cases created)
  case False
  then show ?thesis using assms Create_hold_cases [OF assms(3)] by simp
next
  case True
  with assms(3) have c: "CreateAIOperationWithBillingHold operation admission r = ((result, True, err), r')" by simp
  note cs = Create_hold_cases [OF c, simplified]
  have res: "result = normalizeAIOperation operation" and err: "err = None"
    and r': "aiOperations r' = mput (op_ID operation) result (aiOperations r)" using cs by simp_all
  have free: "\<not> mhas (aiOperations r) (op_ID result)" "\<forall>b \<in> set (mvalues (aiOperations r)). \<not> sameAIOperationIdempotencyScope b result"
    using cs operation_in_scope_None [of result r] by (simp, metis)
  have ok: "operations_ok r'" using operations_ok_insert [OF assms(2) free] r' res by (simp add: operations_ok_def)
  have "result \<in> set (mvalues (aiOperations r'))" using map_of_Some_mvalues [of "aiOperations r'" "op_ID operation" result] r' by simp
  then have scope: "operation_in_scope (normalizeAIOperation again) r' = Some result"
    if "sameAIOperationIdempotencyScope operation again" for again
    using operation_in_scope_eq [OF ok, of result "normalizeAIOperation again"] that res by simp
  have "CreateAIOperationWithBillingHold again other r' = ((result, False, None), r')"
    if "sameAIOperationIdempotencyScope operation again" "validateBillingHoldAdmission (normalizeAIOperation again) other = None" for again other
    unfolding CreateAIOperationWithBillingHold_def Let_def operation_in_scope_def [symmetric] using scope [OF that(1)] that(2) by simp
  moreover have "validateBillingHoldAdmission result admission = None" using cs res by simp
  ultimately show ?thesis using True err r' ok Create_hold_ok(1,2) [OF assms(1) c] validate_None [of result admission] by simp
qed

definition demo_funded :: AIOperation where
  "demo_funded = zero_AIOperation\<lparr>op_ID := ''op_1'', op_IdempotencyKey := ''k'', op_RequestFingerprint := ''f''\<rparr>"

definition demo_admission :: BillingHoldAdmission where
  "demo_admission = \<lparr>adm_Hold = demo_hold, adm_PricingVersions = [], adm_PricingEvaluations = [], adm_MonthlyBudgetMicros = 100,
     adm_MonthlyImageLimit = 5, adm_MonthlyVideoSecondsLimit = 0, adm_MonthlyAudioSecondsLimit = 0\<rparr>"

lemma demo_created: "fst (CreateAIOperationWithBillingHold demo_funded demo_admission NewMemoryRepository)
    = (normalizeAIOperation demo_funded, True, None)"
  by code_simp

lemma demo_created_eq: "CreateAIOperationWithBillingHold demo_funded demo_admission NewMemoryRepository
    = ((normalizeAIOperation demo_funded, True, None),
       snd (CreateAIOperationWithBillingHold demo_funded demo_admission NewMemoryRepository))"
  using demo_created by (metis prod.collapse)

lemma new_repository_ok [simp]: "holds_ok NewMemoryRepository" "operations_ok NewMemoryRepository"
  by (simp_all add: holds_ok_def NewMemoryRepository_def operations_ok_def mvalues_def)

theorem CreateAIOperationWithBillingHold_atomic_witness:
  "memoryBillingHoldForOperation (billingHolds (snd (CreateAIOperationWithBillingHold demo_funded demo_admission NewMemoryRepository))) ''op_1''
    = Some demo_hold"
  using CreateAIOperationWithBillingHold_atomic [OF new_repository_ok demo_created_eq]
  by (simp add: demo_funded_def demo_admission_def)

text \<open>
  An admitted reservation is within the budget: as long as the sums stay in 64 bits, an operation is created only if the applied
  ledger amounts and the reservations of the credential in the month, its own included, are within its budget.
\<close>

lemma admission_within_budget:
  assumes "holds_ok r" "CreateAIOperationWithBillingHold operation admission r = ((result, True, err), r')"
    and "adm_MonthlyBudgetMicros admission > 0"
    and "ledger_exposure r (adm_Hold admission) + reserved_exposure r (adm_Hold admission)
      + hold_ReservedAmountMicros (adm_Hold admission) \<le> MaxInt64"
  shows "ledger_exposure r (adm_Hold admission) + reserved_exposure r' (adm_Hold admission) \<le> adm_MonthlyBudgetMicros admission"
proof -
  note cs = Create_hold_cases [OF assms(2), simplified]
  have new: "hold_is_new (adm_Hold admission)" using validate_None(2) [of "normalizeAIOperation operation" admission] cs by simp
  then have "reserved_amount (adm_Hold admission) (adm_Hold admission) = hold_ReservedAmountMicros (adm_Hold admission)"
    by (simp add: hold_is_new_def reserved_amount_def hold_counts_def billingHoldCountsAgainstBudget_def
        sameBillingCredentialScope_def nonNegativeInt64_def)
  with budget_check_exact [OF assms(3) _ assms(4)] new cs Create_hold_ok(3) [OF assms(1,2), of "adm_Hold admission"]
  show ?thesis by (simp add: hold_is_new_def)
qed

text \<open>
  C4. The reservations of a month stay within the budget along every interleaving of creations and transitions: with budget \<open>B\<close> for
  every admission of the scope, reservations up to \<open>R\<close> and ledger amounts up to \<open>L\<close> that together fit 64 bits, the
  reservations that count never exceed \<open>B\<close>.
\<close>

theorem reservations_within_budget:
  assumes "0 < B" "L + B + R \<le> MaxInt64" "holds_ok r" "ledger_total r \<le> L" "reserved_exposure r scope \<le> B"
    and "(budget_step scope B R)\<^sup>*\<^sup>* r r'"
  shows "holds_ok r' \<and> reserved_exposure r' scope \<le> B"
  using bounded_resource.run_bounded [OF budget_bounded [OF assms(1,2)] assms(6)] assms(3-5) by blast

theorem reservations_within_budget_witness:
  "reserved_exposure (snd (CreateAIOperationWithBillingHold demo_funded demo_admission NewMemoryRepository)) demo_hold \<le> 100"
proof -
  let ?r = "snd (CreateAIOperationWithBillingHold demo_funded demo_admission NewMemoryRepository)"
  have "budget_step demo_hold 100 60 NewMemoryRepository ?r"
    using demo_created_eq by (intro budget_step.create) (auto simp: demo_admission_def demo_hold_def)
  then have "(budget_step demo_hold 100 60)\<^sup>*\<^sup>* NewMemoryRepository ?r" by (rule r_into_rtranclp)
  from reservations_within_budget [OF _ _ new_repository_ok(1) _ _ this, of 0] show ?thesis
    by (simp add: int64_defs ledger_total_def reserved_exposure_def NewMemoryRepository_def)
qed

text \<open>
  C39. Without that bound the check can be passed by overflow: an admission with a budget and no quotas that reserves the largest 64-bit amount
  is let through whenever anything of the month is already used or reserved, although the exposure is then far beyond the budget.
\<close>

theorem budget_check_overflows:
  assumes "0 < ledger_exposure r (adm_Hold admission) + reserved_exposure r (adm_Hold admission)"
    and "ledger_exposure r (adm_Hold admission) + reserved_exposure r (adm_Hold admission) \<le> MaxInt64"
    and "adm_MonthlyBudgetMicros admission > 0" "hold_ReservedAmountMicros (adm_Hold admission) = MaxInt64"
    and "adm_MonthlyImageLimit admission = 0" "adm_MonthlyVideoSecondsLimit admission = 0" "adm_MonthlyAudioSecondsLimit admission = 0"
  shows "enforceMemoryBillingHoldBudget r admission = None"
proof -
  let ?e = "ledger_exposure r (adm_Hold admission) + reserved_exposure r (adm_Hold admission)"
  have "wrap64 (?e + MaxInt64) = ?e + MaxInt64 - 18446744073709551616"
    using assms(1,2) by (intro wrap64_overflow) (simp_all add: int64_defs)
  then have "wrap64 (billing_exposure r (adm_Hold admission) + MaxInt64) < 0"
    using assms(2) by (simp add: billing_exposure_exact int64_defs)
  then show ?thesis using assms(3-7)
    by (simp add: enforceMemoryBillingHoldBudget_def Let_def billingHoldAdmissionHasLimits_def enforceUsageDimensionLimits_def)
qed

theorem budget_check_overflows_witness:
  "enforceMemoryBillingHoldBudget demo_holds
     (demo_admission\<lparr>adm_Hold := demo_hold\<lparr>hold_ReservedAmountMicros := MaxInt64\<rparr>, adm_MonthlyImageLimit := 0\<rparr>) = None"
proof -
  let ?h = "demo_hold\<lparr>hold_ReservedAmountMicros := MaxInt64\<rparr>"
  have "ledger_exposure demo_holds ?h = 0" by (simp add: ledger_exposure_def demo_holds_def NewMemoryRepository_def mvalues_def)
  moreover have "reserved_exposure demo_holds ?h = 60" by code_simp
  ultimately show ?thesis
    using budget_check_overflows [of demo_holds "demo_admission\<lparr>adm_Hold := ?h, adm_MonthlyImageLimit := 0\<rparr>"]
    by (simp add: demo_admission_def int64_defs)
qed

text \<open>
  C38. The quotas hold: for images, video and audio milliseconds, an operation is created only if the recorded usage of the credential in the
  month and the usage reserved by its holds, its own included, is within the quota; the saturating sums never hide an excess.
\<close>

theorem admission_within_quota:
  assumes "holds_ok r" "CreateAIOperationWithBillingHold operation admission r = ((result, True, err), r')"
    and "repository_quantities64 r" "quantities64 (hold_ReservedUsageDimensions (adm_Hold admission))"
    and "k < 3" "0 < usage_limit k admission" "usage_limit k admission < MaxInt64"
  shows "usage_sum k r (adm_Hold admission)
      + usage_field k (UsageDimensionsTotals (hold_ReservedUsageDimensions (adm_Hold admission))) \<le> usage_limit k admission"
proof -
  let ?h = "adm_Hold admission"
  let ?current = "addUsageDimensionTotals (settled_usage r ?h) (active_usage r ?h)"
  note cs = Create_hold_cases [OF assms(2), simplified]
  have "billingHoldAdmissionHasLimits admission" using assms(5,6)
    by (auto simp: billingHoldAdmissionHasLimits_def usage_limit_def less_Suc_eq numeral_3_eq_3)
  then have e: "enforceUsageDimensionLimits admission ?current = None"
    using cs by (auto simp: enforceMemoryBillingHoldBudget_def Let_def split: if_splits)
  have cur: "usage_field k ?current = min MaxInt64 (usage_sum k r ?h)" "totals_ok ?current" "0 \<le> usage_sum k r ?h"
    using current_usage [OF assms(3,5), of ?h] by auto
  have "0 \<le> usage_field k (UsageDimensionsTotals (hold_ReservedUsageDimensions ?h))"
    using totals_ok_sum [OF assms(4)] assms(5) by (auto simp: totals_ok_def usage_field_def less_Suc_eq numeral_3_eq_3)
  with enforce_usage [OF e cur(2) assms(4-7)] cur assms(7) show ?thesis by (auto simp: min_def split: if_splits)
qed

theorem admission_within_quota_witness:
  "usage_sum 0 NewMemoryRepository demo_hold \<le> 5"
proof -
  have h: "adm_Hold demo_admission = demo_hold" "hold_ReservedUsageDimensions demo_hold = []" "usage_limit 0 demo_admission = 5"
    by (simp_all add: demo_admission_def demo_hold_def zero_BillingHold_def usage_limit_def)
  have z: "usage_field 0 (UsageDimensionsTotals []) = 0" by code_simp
  show ?thesis using admission_within_quota [OF new_repository_ok(1) demo_created_eq, of 0]
    by (simp add: h z quantities64_def repository_quantities64_def NewMemoryRepository_def mvalues_def int64_defs)
qed

end
