(* ===== verification/AI_Job_Fair.thy ===== *)
theory AI_Job_Fair
  imports AI_Job_Model "HOL-Library.Product_Lexorder"
begin

text \<open>
  \<open>internal/controlplane/ai_job_fair_queue.go\<close>: the order in which ready jobs are dispatched. Expired
  dispatches come first, then the least loaded profile, tenant and principal, then the priority, which
  grows with the time a job waits. \<open>fairStats\<close> inserts zero statistics for a key it does not find; reading
  gives the same values without the insertion, so that the comparison is a function.
\<close>

definition aiJobMaxPriority :: int where "aiJobMaxPriority = 9"
definition aiJobPriorityAgingInterval :: duration where "aiJobPriorityAgingInterval = Minute"

record aiJobDispatchActivity =
  act_Job :: AIJob
  act_DispatchedAt :: gotime

record aiJobFairLevelStats =
  stat_InFlight :: int
  stat_Selected :: int
  stat_LastDispatchAt :: gotime
  stat_HasDispatch :: bool

record aiJobFairCandidate =
  cand_Job :: AIJob
  cand_ProfileKey :: string
  cand_TenantKey :: string
  cand_PrincipalKey :: string
  cand_EffectivePriority :: int

type_synonym level_stats = "(string, aiJobFairLevelStats) gmap"

definition effectiveAIJobPriority :: "AIJob \<Rightarrow> gotime \<Rightarrow> int" where
  "effectiveAIJobPriority job now =
     (let priority = job_Priority job;
          priority = (if priority < 0 then 0 else priority);
          priority = (if priority > aiJobMaxPriority then aiJobMaxPriority else priority);
          waitStartedAt = job_NextEligibleAt job;
          waitStartedAt = (if waitStartedAt = 0 \<or> waitStartedAt < job_CreatedAt job then job_CreatedAt job else waitStartedAt);
          priority = (if now > waitStartedAt
            then priority + quot64 (time_Sub now waitStartedAt) aiJobPriorityAgingInterval else priority)
      in if priority > aiJobMaxPriority then aiJobMaxPriority else priority)"

definition aiJobInFlightForFairness :: "string \<Rightarrow> bool" where
  "aiJobInFlightForFairness status =
     oneOf status [AIJobStatusDispatching, AIJobStatusRunning, AIJobStatusCanceling, AIJobStatusUnknown]"

definition aiJobReadyForClaim :: "AIJob \<Rightarrow> gotime \<Rightarrow> bool" where
  "aiJobReadyForClaim job now =
     (if job_Status job = AIJobStatusQueued
      then \<not> job_NextEligibleAt job > now \<and> (case job_QueueLeaseUntil job of None \<Rightarrow> True | Some until \<Rightarrow> \<not> until > now)
      else job_Status job = AIJobStatusDispatching
        \<and> (case job_QueueLeaseUntil job of None \<Rightarrow> False | Some until \<Rightarrow> \<not> until > now))"

definition newAIJobFairCandidate :: "AIJob \<Rightarrow> gotime \<Rightarrow> aiJobFairCandidate" where
  "newAIJobFairCandidate job now =
     \<lparr>cand_Job = job, cand_ProfileKey = aiJobProfileFairKey job, cand_TenantKey = aiJobTenantFairKey job,
      cand_PrincipalKey = aiJobPrincipalFairKey job, cand_EffectivePriority = effectiveAIJobPriority job now\<rparr>"

definition fairStats :: "level_stats \<Rightarrow> string \<Rightarrow> aiJobFairLevelStats" where
  "fairStats vals key = (case map_of vals key of
     None \<Rightarrow> \<lparr>stat_InFlight = 0, stat_Selected = 0, stat_LastDispatchAt = 0, stat_HasDispatch = False\<rparr>
   | Some stats \<Rightarrow> stats)"

definition updateAIJobLastDispatch :: "aiJobFairLevelStats \<Rightarrow> gotime \<Rightarrow> aiJobFairLevelStats" where
  "updateAIJobLastDispatch stats dispatchedAt =
     (if \<not> stat_HasDispatch stats \<or> dispatchedAt > stat_LastDispatchAt stats
      then stats\<lparr>stat_LastDispatchAt := dispatchedAt, stat_HasDispatch := True\<rparr> else stats)"

definition compareAIJobFairLevel :: "aiJobFairLevelStats \<Rightarrow> aiJobFairLevelStats \<Rightarrow> string \<Rightarrow> string \<Rightarrow> int" where
  "compareAIJobFairLevel left right leftKey rightKey =
     (let leftLoad = stat_InFlight left + stat_Selected left;
          rightLoad = stat_InFlight right + stat_Selected right
      in if leftLoad < rightLoad then -1
         else if leftLoad > rightLoad then 1
         else if stat_HasDispatch left \<noteq> stat_HasDispatch right then (if \<not> stat_HasDispatch left then -1 else 1)
         else if stat_HasDispatch left \<and> stat_LastDispatchAt left \<noteq> stat_LastDispatchAt right
         then (if stat_LastDispatchAt left < stat_LastDispatchAt right then -1 else 1)
         else strings_Compare leftKey rightKey)"

text \<open>The statistics of the three levels: profiles, tenants, principals.\<close>

type_synonym fair_stats = "level_stats \<times> level_stats \<times> level_stats"

fun aiJobFairCandidateLess :: "fair_stats \<Rightarrow> aiJobFairCandidate \<Rightarrow> aiJobFairCandidate \<Rightarrow> bool" where
  "aiJobFairCandidateLess (profileStats, tenantStats, principalStats) left right =
     (let leftReclaim = (job_Status (cand_Job left) = AIJobStatusDispatching);
          rightReclaim = (job_Status (cand_Job right) = AIJobStatusDispatching);
          profile = compareAIJobFairLevel (fairStats profileStats (cand_ProfileKey left)) (fairStats profileStats (cand_ProfileKey right))
            (cand_ProfileKey left) (cand_ProfileKey right);
          tenant = compareAIJobFairLevel (fairStats tenantStats (cand_TenantKey left)) (fairStats tenantStats (cand_TenantKey right))
            (cand_TenantKey left) (cand_TenantKey right);
          principal = compareAIJobFairLevel (fairStats principalStats (cand_PrincipalKey left)) (fairStats principalStats (cand_PrincipalKey right))
            (cand_PrincipalKey left) (cand_PrincipalKey right)
      in if leftReclaim \<noteq> rightReclaim then leftReclaim
         else if profile \<noteq> 0 then profile < 0
         else if tenant \<noteq> 0 then tenant < 0
         else if principal \<noteq> 0 then principal < 0
         else if cand_EffectivePriority left \<noteq> cand_EffectivePriority right
         then cand_EffectivePriority left > cand_EffectivePriority right
         else if job_NextEligibleAt (cand_Job left) \<noteq> job_NextEligibleAt (cand_Job right)
         then job_NextEligibleAt (cand_Job left) < job_NextEligibleAt (cand_Job right)
         else if job_CreatedAt (cand_Job left) \<noteq> job_CreatedAt (cand_Job right)
         then job_CreatedAt (cand_Job left) < job_CreatedAt (cand_Job right)
         else job_ID (cand_Job left) < job_ID (cand_Job right))"

definition bump_InFlight :: "string \<Rightarrow> level_stats \<Rightarrow> level_stats" where
  "bump_InFlight key m = mput key ((fairStats m key)\<lparr>stat_InFlight := stat_InFlight (fairStats m key) + 1\<rparr>) m"

definition bump_Selected :: "string \<Rightarrow> level_stats \<Rightarrow> level_stats" where
  "bump_Selected key m = mput key ((fairStats m key)\<lparr>stat_Selected := stat_Selected (fairStats m key) + 1\<rparr>) m"

definition note_dispatch :: "string \<Rightarrow> gotime \<Rightarrow> level_stats \<Rightarrow> level_stats" where
  "note_dispatch key dispatchedAt m = mput key (updateAIJobLastDispatch (fairStats m key) dispatchedAt) m"

fun count_in_flight :: "AIJob list \<Rightarrow> fair_stats \<Rightarrow> fair_stats" where
  "count_in_flight [] st = st"
| "count_in_flight (job # jobs) (profileStats, tenantStats, principalStats) =
     count_in_flight jobs
       (if \<not> aiJobInFlightForFairness (job_Status job) then (profileStats, tenantStats, principalStats)
        else (bump_InFlight (aiJobProfileFairKey job) profileStats, bump_InFlight (aiJobTenantFairKey job) tenantStats,
              bump_InFlight (aiJobPrincipalFairKey job) principalStats))"

fun note_activities :: "aiJobDispatchActivity list \<Rightarrow> fair_stats \<Rightarrow> fair_stats" where
  "note_activities [] st = st"
| "note_activities (activity # activities) (profileStats, tenantStats, principalStats) =
     note_activities activities
       (if act_DispatchedAt activity = 0 then (profileStats, tenantStats, principalStats)
        else (note_dispatch (aiJobProfileFairKey (act_Job activity)) (act_DispatchedAt activity) profileStats,
              note_dispatch (aiJobTenantFairKey (act_Job activity)) (act_DispatchedAt activity) tenantStats,
              note_dispatch (aiJobPrincipalFairKey (act_Job activity)) (act_DispatchedAt activity) principalStats))"

text \<open>The inner loop: the index of the first least candidate; \<open>index\<close> runs from 1 to the end.\<close>

fun best_index :: "fair_stats \<Rightarrow> aiJobFairCandidate list \<Rightarrow> nat \<Rightarrow> nat \<Rightarrow> aiJobFairCandidate list \<Rightarrow> nat" where
  "best_index st remaining best index [] = best"
| "best_index st remaining best index (c # cs) =
     best_index st remaining (if aiJobFairCandidateLess st c (remaining ! best) then index else best) (index + 1) cs"

text \<open>\<open>remaining[best] = remaining[len-1]; remaining = remaining[:len-1]\<close>\<close>

definition swap_remove :: "'a list \<Rightarrow> nat \<Rightarrow> 'a list" where
  "swap_remove xs i = butlast (xs[i := last xs])"

fun select_candidate :: "aiJobFairCandidate \<Rightarrow> fair_stats \<Rightarrow> fair_stats" where
  "select_candidate c (profileStats, tenantStats, principalStats) =
     (bump_Selected (cand_ProfileKey c) profileStats, bump_Selected (cand_TenantKey c) tenantStats,
      bump_Selected (cand_PrincipalKey c) principalStats)"

fun rank_loop :: "nat \<Rightarrow> fair_stats \<Rightarrow> aiJobFairCandidate list \<Rightarrow> AIJob list" where
  "rank_loop 0 st remaining = []"
| "rank_loop (Suc n) st [] = []"
| "rank_loop (Suc n) st (c # cs) =
     (let remaining = c # cs;
          best = best_index st remaining 0 1 cs;
          selected = remaining ! best
      in cand_Job selected # rank_loop n (select_candidate selected st) (swap_remove remaining best))"

definition rankAIJobFairCandidates ::
  "AIJob list \<Rightarrow> AIJob list \<Rightarrow> aiJobDispatchActivity list \<Rightarrow> gotime \<Rightarrow> int \<Rightarrow> AIJob list" where
  "rankAIJobFairCandidates candidates jobs activities now limit =
     (if limit \<le> 0 \<or> candidates = [] then []
      else rank_loop (nat limit) (note_activities activities (count_in_flight jobs ([], [], [])))
             (map (\<lambda>job. newAIJobFairCandidate job now) candidates))"

section \<open>The comparison is a total order\<close>

type_synonym level_key = "int \<times> bool \<times> int \<times> string"

definition level_key :: "level_stats \<Rightarrow> string \<Rightarrow> level_key" where
  "level_key m key =
     (let st = fairStats m key
      in (stat_InFlight st + stat_Selected st, stat_HasDispatch st, if stat_HasDispatch st then stat_LastDispatchAt st else 0, key))"

definition fair_key ::
  "fair_stats \<Rightarrow> aiJobFairCandidate \<Rightarrow> bool \<times> level_key \<times> level_key \<times> level_key \<times> int \<times> int \<times> int \<times> string" where
  "fair_key st c = (case st of (profileStats, tenantStats, principalStats) \<Rightarrow>
     (job_Status (cand_Job c) \<noteq> AIJobStatusDispatching, level_key profileStats (cand_ProfileKey c),
      level_key tenantStats (cand_TenantKey c), level_key principalStats (cand_PrincipalKey c),
      - cand_EffectivePriority c, job_NextEligibleAt (cand_Job c), job_CreatedAt (cand_Job c), job_ID (cand_Job c)))"

lemma compare_level:
  "compareAIJobFairLevel (fairStats m k) (fairStats m k') k k' < 0 \<longleftrightarrow> level_key m k < level_key m k'"
  "compareAIJobFairLevel (fairStats m k) (fairStats m k') k k' = 0 \<longleftrightarrow> level_key m k = level_key m k'"
  by (auto simp: compareAIJobFairLevel_def level_key_def Let_def strings_Compare_def)

lemma lex_step: "(a, x) < (b, y) \<longleftrightarrow> (if a \<noteq> b then a < b else x < y)" for a b :: "'a::linorder" and x y :: "'b::order"
  by auto

lemma fair_Less_key: "aiJobFairCandidateLess st l r \<longleftrightarrow> fair_key st l < fair_key st r"
proof (cases st)
  case (fields profileStats tenantStats principalStats)
  show ?thesis
    unfolding fields aiJobFairCandidateLess.simps fair_key_def prod.case Let_def compare_level lex_step
    by (cases "job_Status (cand_Job l) = AIJobStatusDispatching"; cases "job_Status (cand_Job r) = AIJobStatusDispatching")
      simp_all
qed

declare aiJobFairCandidateLess.simps [simp del]

lemma fair_Less_reclaim:
  "job_Status (cand_Job l) = AIJobStatusDispatching \<Longrightarrow> job_Status (cand_Job r) \<noteq> AIJobStatusDispatching \<Longrightarrow>
     aiJobFairCandidateLess st l r"
  by (cases st) (simp add: aiJobFairCandidateLess.simps Let_def)

lemma fair_Less_eq: "aiJobFairCandidateLess st = (\<lambda>l r. fair_key st l < fair_key st r)"
  by (intro ext) (rule fair_Less_key)

interpretation fair: comparison "aiJobFairCandidateLess st" for st
  unfolding fair_Less_eq by (rule comparison_key)

section \<open>The greedy selection\<close>

lemma best_index_least:
  assumes "r = visited @ rest" "b < length visited" "\<forall>y \<in> set visited. \<not> aiJobFairCandidateLess st y (r ! b)"
  shows "best_index st r b (length visited) rest < length r
    \<and> (\<forall>y \<in> set r. \<not> aiJobFairCandidateLess st y (r ! best_index st r b (length visited) rest))"
  using assms
proof (induction rest arbitrary: visited b)
  case (Cons c rest)
  define b' where "b' = (if aiJobFairCandidateLess st c (r ! b) then length visited else b)"
  have c: "r ! length visited = c" using Cons.prems(1) by simp
  have "\<not> aiJobFairCandidateLess st y (r ! b')" if "y \<in> set (visited @ [c])" for y
    using that Cons.prems(3) c fair.cmp_irrefl [of st c] fair.cmp_neg_trans [of st y c "r ! b"]
      fair.cmp_asym [of st c "r ! b"]
    by (auto simp: b'_def)
  then have "best_index st r b' (length (visited @ [c])) rest < length r
    \<and> (\<forall>y \<in> set r. \<not> aiJobFairCandidateLess st y (r ! best_index st r b' (length (visited @ [c])) rest))"
    using Cons.prems by (intro Cons.IH) (auto simp: b'_def)
  then show ?case by (simp add: b'_def)
qed auto

lemma best_least:
  "best_index st (c # cs) 0 1 cs < length (c # cs)
    \<and> (\<forall>y \<in> set (c # cs). \<not> aiJobFairCandidateLess st y ((c # cs) ! best_index st (c # cs) 0 1 cs))"
  using best_index_least [of "c # cs" "[c]" cs 0 st] fair.cmp_irrefl by simp

lemma mset_swap_remove:
  assumes "i < length xs"
  shows "add_mset (xs ! i) (mset (swap_remove xs i)) = mset xs"
proof -
  have "xs \<noteq> []" using assms by auto
  then obtain ys y where xs: "xs = ys @ [y]" by (metis rev_exhaust)
  show ?thesis
  proof (cases "i = length ys")
    case True
    then show ?thesis by (simp add: xs swap_remove_def)
  next
    case False
    then have i: "i < length ys" using assms xs by simp
    then have "swap_remove xs i = ys[i := y]" by (simp add: xs swap_remove_def list_update_append butlast_append)
    moreover have "add_mset (ys ! i) (mset (ys[i := y])) = add_mset y (mset ys)"
      using i by (simp add: mset_update)
    ultimately show ?thesis using i by (simp add: xs nth_append)
  qed
qed

lemma rank_loop_Cons:
  assumes "r \<noteq> []"
  obtains x r' where "rank_loop (Suc n) st r = cand_Job x # rank_loop n (select_candidate x st) r'"
    "mset r = add_mset x (mset r')" "\<forall>y \<in> set r. \<not> aiJobFairCandidateLess st y x"
proof -
  obtain c cs where r: "r = c # cs" using assms by (cases r) auto
  define i where "i = best_index st (c # cs) 0 1 cs"
  have i: "i < length r" "\<forall>y \<in> set r. \<not> aiJobFairCandidateLess st y (r ! i)" using best_least [of st c cs] by (simp_all add: r i_def)
  show thesis
    using i mset_swap_remove [OF i(1)] that [of "r ! i" "swap_remove r i"] by (simp add: r i_def Let_def)
qed

lemma rank_loop_mset:
  "length (rank_loop n st r) = min n (length r) \<and> mset (rank_loop n st r) \<subseteq># mset (map cand_Job r)"
proof (induction n arbitrary: st r)
  case (Suc n)
  show ?case
  proof (cases "r = []")
    case False
    then obtain x r' where x: "rank_loop (Suc n) st r = cand_Job x # rank_loop n (select_candidate x st) r'"
      "mset r = add_mset x (mset r')" by (rule rank_loop_Cons)
    have "length r = Suc (length r')" using x(2) by (metis size_add_mset size_mset)
    moreover have "mset (map cand_Job r) = add_mset (cand_Job x) (mset (map cand_Job r'))" using x(2) by simp
    ultimately show ?thesis using Suc.IH [of "select_candidate x st" r'] x(1) by simp
  qed simp
qed simp

lemma rank_loop_reclaim:
  "sorted_wrt (\<lambda>x y. job_Status y = AIJobStatusDispatching \<longrightarrow> job_Status x = AIJobStatusDispatching) (rank_loop n st r)
   \<and> (\<forall>x \<in> set (rank_loop n st r). job_Status x \<noteq> AIJobStatusDispatching \<longrightarrow>
        (\<forall>c. c \<in># mset (map cand_Job r) - mset (rank_loop n st r) \<longrightarrow> job_Status c \<noteq> AIJobStatusDispatching))"
proof (induction n arbitrary: st r)
  case (Suc n)
  show ?case
  proof (cases "r = []")
    case False
    then obtain x r' where x: "rank_loop (Suc n) st r = cand_Job x # rank_loop n (select_candidate x st) r'"
      "mset r = add_mset x (mset r')" "\<forall>y \<in> set r. \<not> aiJobFairCandidateLess st y x" by (rule rank_loop_Cons)
    have first: "job_Status (cand_Job y) = AIJobStatusDispatching \<Longrightarrow> job_Status (cand_Job x) = AIJobStatusDispatching"
      if "y \<in> set r" for y
      using x(3) that fair_Less_reclaim by blast
    have sub: "set (rank_loop n (select_candidate x st) r') \<subseteq> cand_Job ` set r'"
      using rank_loop_mset [of n "select_candidate x st" r'] by (metis mset_subset_eqD set_mset_mset list.set_map subsetI)
    have set: "set r = insert x (set r')" using x(2) by (metis set_mset_add_mset_insert set_mset_mset)
    have diff: "mset (map cand_Job r) - mset (rank_loop (Suc n) st r)
        = mset (map cand_Job r') - mset (rank_loop n (select_candidate x st) r')" using x by simp
    have rest: "job_Status c \<noteq> AIJobStatusDispatching"
      if "job_Status (cand_Job x) \<noteq> AIJobStatusDispatching" "c \<in># mset (map cand_Job r') - mset (rank_loop n (select_candidate x st) r')" for c
    proof -
      have "c \<in> cand_Job ` set r'" using in_diffD [OF that(2)] by simp
      then show ?thesis using first that(1) set by auto
    qed
    define out where "out = rank_loop n (select_candidate x st) r'"
    have ih: "sorted_wrt (\<lambda>x y. job_Status y = AIJobStatusDispatching \<longrightarrow> job_Status x = AIJobStatusDispatching) out"
      "\<forall>x \<in> set out. job_Status x \<noteq> AIJobStatusDispatching \<longrightarrow>
        (\<forall>c. c \<in># mset (map cand_Job r') - mset out \<longrightarrow> job_Status c \<noteq> AIJobStatusDispatching)"
      using Suc.IH [of "select_candidate x st" r'] by (simp_all add: out_def)
    have head: "\<forall>y \<in> set out. job_Status y = AIJobStatusDispatching \<longrightarrow> job_Status (cand_Job x) = AIJobStatusDispatching"
      using sub set first by (fastforce simp: out_def)
    show ?thesis
    proof (intro conjI ballI impI allI)
      show "sorted_wrt (\<lambda>x y. job_Status y = AIJobStatusDispatching \<longrightarrow> job_Status x = AIJobStatusDispatching) (rank_loop (Suc n) st r)"
        unfolding x(1) out_def [symmetric] using ih(1) head by simp
    next
      fix z c
      assume z: "z \<in> set (rank_loop (Suc n) st r)" "job_Status z \<noteq> AIJobStatusDispatching"
        and "c \<in># mset (map cand_Job r) - mset (rank_loop (Suc n) st r)"
      then have c: "c \<in># mset (map cand_Job r') - mset out" unfolding diff out_def by simp
      show "job_Status c \<noteq> AIJobStatusDispatching"
      proof (cases "z = cand_Job x")
        case True
        then show ?thesis using rest z(2) c unfolding out_def by blast
      next
        case False
        then have "z \<in> set out" using z(1) unfolding x(1) out_def by simp
        then show ?thesis using ih(2) z(2) c by blast
      qed
    qed
  qed simp
qed simp

lemma select_unique:
  assumes "distinct (map (\<lambda>c. job_ID (cand_Job c)) r)" "x \<in> set r" "y \<in> set r"
    "\<forall>z \<in> set r. \<not> aiJobFairCandidateLess st z x" "\<forall>z \<in> set r. \<not> aiJobFairCandidateLess st z y"
  shows "x = y"
proof -
  have "fair_key st x = fair_key st y" using assms(2-5) by (meson fair_Less_key linorder_neqE)
  then have "job_ID (cand_Job x) = job_ID (cand_Job y)" by (cases st) (simp add: fair_key_def)
  with assms(1-3) show ?thesis by (simp add: distinct_map inj_on_def)
qed

lemma rank_loop_order:
  "mset r = mset s \<Longrightarrow> distinct (map (\<lambda>c. job_ID (cand_Job c)) r) \<Longrightarrow> rank_loop n st r = rank_loop n st s"
proof (induction n arbitrary: st r s)
  case (Suc n)
  show ?case
  proof (cases "r = []")
    case True
    then show ?thesis using Suc.prems by simp
  next
    case False
    then have "s \<noteq> []" using Suc.prems by auto
    obtain x r' where x: "rank_loop (Suc n) st r = cand_Job x # rank_loop n (select_candidate x st) r'"
      "mset r = add_mset x (mset r')" "\<forall>y \<in> set r. \<not> aiJobFairCandidateLess st y x" using False by (rule rank_loop_Cons)
    obtain y s' where y: "rank_loop (Suc n) st s = cand_Job y # rank_loop n (select_candidate y st) s'"
      "mset s = add_mset y (mset s')" "\<forall>z \<in> set s. \<not> aiJobFairCandidateLess st z y" using \<open>s \<noteq> []\<close> by (rule rank_loop_Cons)
    have sets: "set r = set s" using Suc.prems(1) by (rule mset_eq_setD)
    have "x \<in> set r" "y \<in> set r" using x(2) y(2) sets by (metis set_mset_add_mset_insert set_mset_mset insertI1)+
    then have eq: "x = y" using select_unique [OF Suc.prems(2)] x(3) y(3) sets by blast
    then have r': "mset r' = mset s'" using x(2) y(2) Suc.prems(1) by simp
    have "image_mset (\<lambda>c. job_ID (cand_Job c)) (mset r)
        = add_mset (job_ID (cand_Job x)) (mset (map (\<lambda>c. job_ID (cand_Job c)) r'))" using x(2) by simp
    then have "mset (map (\<lambda>c. job_ID (cand_Job c)) r) = mset (job_ID (cand_Job x) # map (\<lambda>c. job_ID (cand_Job c)) r')" by simp
    then have "distinct (job_ID (cand_Job x) # map (\<lambda>c. job_ID (cand_Job c)) r')"
      using Suc.prems(2) by (metis mset_eq_imp_distinct_iff)
    then have "distinct (map (\<lambda>c. job_ID (cand_Job c)) r')" by simp
    from Suc.IH [OF r' this] show ?thesis unfolding x(1) y(1) eq by simp
  qed
qed simp

lemma cand_Job_new [simp]: "cand_Job (newAIJobFairCandidate job now) = job"
  by (simp add: newAIJobFairCandidate_def)

lemma rank_mset:
  "mset (rankAIJobFairCandidates candidates jobs activities now limit) \<subseteq># mset candidates
    \<and> length (rankAIJobFairCandidates candidates jobs activities now limit) \<le> nat limit"
proof -
  have "map cand_Job (map (\<lambda>job. newAIJobFairCandidate job now) candidates) = candidates" by (simp add: comp_def)
  then show ?thesis
    using rank_loop_mset [of "nat limit" "note_activities activities (count_in_flight jobs ([], [], []))"
        "map (\<lambda>job. newAIJobFairCandidate job now) candidates"]
    by (simp add: rankAIJobFairCandidates_def)
qed

section \<open>The properties of the ranking\<close>

text \<open>
  The ranking selects as many candidates as the limit allows and each at most once; the first one is least
  in the fair order; and expired dispatches come first: none is ranked after, or left out for, a queued job.
\<close>

lemma rank_selects:
  assumes "0 < limit"
  shows "let out = rankAIJobFairCandidates candidates jobs activities now limit;
             st = note_activities activities (count_in_flight jobs ([], [], [])) in
    length out = min (nat limit) (length candidates) \<and> mset out \<subseteq># mset candidates
    \<and> (\<forall>x \<in> set (take 1 out). \<forall>y \<in> set candidates.
         \<not> aiJobFairCandidateLess st (newAIJobFairCandidate y now) (newAIJobFairCandidate x now))
    \<and> sorted_wrt (\<lambda>x y. job_Status y = AIJobStatusDispatching \<longrightarrow> job_Status x = AIJobStatusDispatching) out
    \<and> (\<forall>x \<in> set out. job_Status x \<noteq> AIJobStatusDispatching \<longrightarrow>
         (\<forall>c. c \<in># mset candidates - mset out \<longrightarrow> job_Status c \<noteq> AIJobStatusDispatching))"
proof -
  define st where "st = note_activities activities (count_in_flight jobs ([], [], []))"
  define r where "r = map (\<lambda>job. newAIJobFairCandidate job now) candidates"
  have out: "rankAIJobFairCandidates candidates jobs activities now limit = rank_loop (nat limit) st r"
    using assms by (cases "nat limit") (auto simp: rankAIJobFairCandidates_def st_def r_def)
  have jobs: "map cand_Job r = candidates" by (simp add: r_def comp_def)
  have least: "\<not> aiJobFairCandidateLess st (newAIJobFairCandidate y now) (newAIJobFairCandidate x now)"
    if "x \<in> set (take 1 (rank_loop (nat limit) st r))" "y \<in> set candidates" for x y
  proof -
    have "r \<noteq> []" using that(2) by (auto simp: r_def)
    obtain n where n: "nat limit = Suc n" using assms by (cases "nat limit") auto
    obtain c r' where c: "rank_loop (Suc n) st r = cand_Job c # rank_loop n (select_candidate c st) r'"
      "mset r = add_mset c (mset r')" "\<forall>y \<in> set r. \<not> aiJobFairCandidateLess st y c" using \<open>r \<noteq> []\<close> by (rule rank_loop_Cons)
    have "c \<in> set r" using c(2) by (metis set_mset_add_mset_insert set_mset_mset insertI1)
    then have "newAIJobFairCandidate (cand_Job c) now = c" by (auto simp: r_def)
    moreover have "x = cand_Job c" using that(1) c(1) n by simp
    moreover have "newAIJobFairCandidate y now \<in> set r" using that(2) by (simp add: r_def)
    ultimately show ?thesis using c(3) by auto
  qed
  show ?thesis unfolding Let_def st_def [symmetric] out
    using rank_loop_mset [of "nat limit" st r] rank_loop_reclaim [of "nat limit" st r] least
    unfolding jobs by (simp add: r_def)
qed

definition demo_queued :: AIJob where
  "demo_queued = zero_AIJob\<lparr>job_ID := ''j1'', job_Status := AIJobStatusQueued\<rparr>"

definition demo_expired_dispatch :: AIJob where
  "demo_expired_dispatch = zero_AIJob\<lparr>job_ID := ''j2'', job_Status := AIJobStatusDispatching, job_QueueLeaseUntil := Some 0\<rparr>"

lemma rank_selects_witness:
  "length (rankAIJobFairCandidates [demo_queued, demo_expired_dispatch] [] [] Minute 1) = 1"
  using rank_selects [of 1 "[demo_queued, demo_expired_dispatch]" "[]" "[]" Minute] by (simp add: Let_def)

text \<open>
  The ranking is a function of the set of candidates: for candidates with distinct identifiers, the order in
  which they are visited (a Go map has none) does not change the result.
\<close>

lemma rank_order_independent:
  assumes "mset candidates = mset candidates'" "distinct (map job_ID candidates)"
  shows "rankAIJobFairCandidates candidates jobs activities now limit
    = rankAIJobFairCandidates candidates' jobs activities now limit"
proof -
  let ?new = "\<lambda>job. newAIJobFairCandidate job now"
  have "mset (map ?new candidates) = mset (map ?new candidates')" using assms(1) by simp
  moreover have "map (\<lambda>c. job_ID (cand_Job c)) (map ?new candidates) = map job_ID candidates" by simp
  ultimately have "rank_loop n st (map ?new candidates) = rank_loop n st (map ?new candidates')" for n st
    using assms(2) by (metis rank_loop_order)
  moreover have "candidates = [] \<longleftrightarrow> candidates' = []" using assms(1) by (metis mset_zero_iff)
  ultimately show ?thesis by (simp add: rankAIJobFairCandidates_def)
qed

text \<open>
  No priority starves another: the effective priority is between 0 and 9 and at least the clamped priority of the job,
  it never falls while time passes, and nine minutes after a job became eligible it is 9, the largest one.
\<close>

lemma priority_ages:
  "0 \<le> effectiveAIJobPriority job now \<and> effectiveAIJobPriority job now \<le> 9
    \<and> min 9 (job_Priority job) \<le> effectiveAIJobPriority job now
    \<and> (now \<le> later \<longrightarrow> effectiveAIJobPriority job now \<le> effectiveAIJobPriority job later)
    \<and> (job_CreatedAt job + 9 * Minute \<le> now \<longrightarrow> job_NextEligibleAt job + 9 * Minute \<le> now \<longrightarrow> effectiveAIJobPriority job now = 9)"
proof -
  define w where "w = (if job_NextEligibleAt job = 0 \<or> job_NextEligibleAt job < job_CreatedAt job then job_CreatedAt job else job_NextEligibleAt job)"
  define p where "p = max 0 (min 9 (job_Priority job))"
  define age where "age t = (if t > w then time_Sub t w div Minute else 0)" for t
  have sub: "0 \<le> time_Sub t w" if "t > w" for t using that by (auto simp: time_Sub_def int64_defs)
  have age: "0 \<le> age t" for t using sub by (auto simp: age_def pos_imp_zdiv_nonneg_iff)
  have eff: "effectiveAIJobPriority job t = min 9 (p + age t)" for t
  proof -
    have "quot64 (time_Sub t w) Minute = time_Sub t w div Minute" if "t > w" using sub [OF that] by simp
    then show ?thesis
      unfolding effectiveAIJobPriority_def Let_def w_def [symmetric] aiJobMaxPriority_def aiJobPriorityAgingInterval_def p_def age_def
      by (auto simp: min_def max_def)
  qed
  have mono: "age t \<le> age u" if "t \<le> u" for t u
  proof (cases "t > w")
    case True
    then have "time_Sub t w \<le> time_Sub u w" using that by (auto simp: time_Sub_def int64_defs)
    then show ?thesis using True that by (simp add: age_def zdiv_mono1)
  next
    case False
    then show ?thesis using age [of u] by (simp add: age_def)
  qed
  have nine: "9 \<le> age now" if "job_CreatedAt job + 9 * Minute \<le> now" "job_NextEligibleAt job + 9 * Minute \<le> now"
  proof -
    have "w + 9 * Minute \<le> now" using that by (auto simp: w_def)
    then have "9 * Minute \<le> time_Sub now w" by (auto simp: time_Sub_def int64_defs)
    then have "9 * Minute div Minute \<le> time_Sub now w div Minute" by (intro zdiv_mono1) simp_all
    then show ?thesis using \<open>w + 9 * Minute \<le> now\<close> by (simp add: age_def)
  qed
  have p: "0 \<le> p" "p \<le> 9" "min 9 (job_Priority job) \<le> p" by (auto simp: p_def)
  show ?thesis unfolding eff using age [of now] mono [of now later] nine p by (auto simp: min_def)
qed

end
