(* ===== verification/AI_Job_Repo.thy ===== *)
theory AI_Job_Repo
  imports Billing_Hold AI_Job_Fair Go_Encoding
begin

text \<open>
  The in-memory repository's methods on durable jobs (\<open>ai_job_repository.go\<close>): admission of a job together with its
  operation, event, outbox record and hold; claims by workers under a lease and a fence; transitions, requeues and
  cancellations; the queries of the administration (\<open>ai_job_admin.go\<close>). Each change of a job's status writes the
  operation, the job, one event of the job's next version and one outbox record in one step.
\<close>

section \<open>Records of a transition\<close>

definition hashAPIKey :: "string \<Rightarrow> string" where
  "hashAPIKey text = sha256_hex text"

definition newAIJobEventRecords ::
  "AIJob \<Rightarrow> string \<Rightarrow> string \<Rightarrow> string \<Rightarrow> gotime \<Rightarrow> go_error + (AIJobEvent \<times> TransactionalOutboxEvent)" where
  "newAIJobEventRecords job fromStatus reason eventType occurredAt =
     (if eventType = [] \<or> job_StatusVersion job \<le> 0 then Inl (errors_New ''invalid ai job event state'')
      else
        let identity = job_ID job @ NUL @ Itoa (job_StatusVersion job);
            digest = prefix_str (hashAPIKey identity) 24;
            event = \<lparr>event_ID = ''job_event_'' @ digest, event_JobID = job_ID job, event_Version = job_StatusVersion job,
              event_EventType = eventType, event_FromStatus = fromStatus, event_ToStatus = job_Status job,
              event_Reason = TrimSpace reason, event_CreatedAt = occurredAt\<rparr>;
            payload = json_object [(''event_id'', json_string (event_ID event)), (''job_id'', json_string (job_ID job)),
              (''operation_id'', json_string (job_OperationID job)), (''version'', Itoa (job_StatusVersion job)),
              (''event_type'', json_string eventType), (''status'', json_string (job_Status job))]
        in Inr (event, zero_TransactionalOutboxEvent\<lparr>outbox_ID := ''outbox_'' @ digest, outbox_AggregateType := AIJobOutboxAggregate,
             outbox_AggregateID := job_ID job, outbox_EventType := eventType, outbox_EventVersion := job_StatusVersion job,
             outbox_PayloadJSON := payload, outbox_Status := OutboxStatusPending, outbox_AvailableAt := occurredAt,
             outbox_MaxAttempts := OutboxDefaultMaxAttempts, outbox_CreatedAt := occurredAt, outbox_UpdatedAt := occurredAt\<rparr>))"

definition newAIJobTransitionRecords ::
  "AIJob \<Rightarrow> string \<Rightarrow> string \<Rightarrow> gotime \<Rightarrow> go_error + (AIJobEvent \<times> TransactionalOutboxEvent)" where
  "newAIJobTransitionRecords job fromStatus reason occurredAt =
     newAIJobEventRecords job fromStatus reason (aiJobEventType (job_Status job)) occurredAt"

type_synonym job_change = "AIJob \<times> AIJobEvent \<times> TransactionalOutboxEvent"

definition with_records :: "AIJob \<Rightarrow> go_error + (AIJobEvent \<times> TransactionalOutboxEvent) \<Rightarrow> go_error + job_change" where
  "with_records job records = and_then records (\<lambda>(event, outbox). Inr (job, event, outbox))"

definition transition_job :: "AIJob \<Rightarrow> string \<Rightarrow> string \<Rightarrow> gotime \<Rightarrow> AIJob" where
  "transition_job job toStatus reason transitionedAt =
     (let job = job\<lparr>job_Status := toStatus, job_StatusVersion := job_StatusVersion job + 1, job_UpdatedAt := transitionedAt\<rparr>;
          job = (if toStatus \<noteq> AIJobStatusDispatching
            then job\<lparr>job_QueueLeaseUntil := None, job_QueueLeaseToken := [], job_QueueWorkerID := []\<rparr> else job);
          job = (if toStatus = AIJobStatusQueued then job\<lparr>job_NextEligibleAt := transitionedAt\<rparr> else job);
          job = job\<lparr>job_ErrorType := (if toStatus = AIJobStatusFailed \<or> toStatus = AIJobStatusUnknown then TrimSpace reason else [])\<rparr>
      in if aiJobTerminalStatus toStatus \<and> toStatus \<noteq> AIJobStatusExpired then job\<lparr>job_CompletedAt := Some transitionedAt\<rparr> else job)"

definition prepareAIJobTransition :: "AIJob \<Rightarrow> string \<Rightarrow> string \<Rightarrow> gotime \<Rightarrow> go_error + job_change" where
  "prepareAIJobTransition job toStatus reason transitionedAt =
     (if \<not> aiJobStatusTransitionAllowed (job_Status job) toStatus reason
      then Inl (errors_New (''invalid ai job transition '' @ job_Status job @ '' -> '' @ toStatus))
      else with_records (transition_job job toStatus reason transitionedAt)
        (newAIJobTransitionRecords (transition_job job toStatus reason transitionedAt) (job_Status job) reason transitionedAt))"

definition prepareAIJobLeaseReassignment :: "AIJob \<Rightarrow> gotime \<Rightarrow> go_error + job_change" where
  "prepareAIJobLeaseReassignment job transitionedAt =
     (if job_Status job \<noteq> AIJobStatusDispatching
        \<or> (case job_QueueLeaseUntil job of None \<Rightarrow> True | Some until \<Rightarrow> until > transitionedAt)
      then Inl (errors_New ''ai job dispatch lease is not reclaimable'')
      else
        let job = job\<lparr>job_StatusVersion := job_StatusVersion job + 1, job_UpdatedAt := transitionedAt\<rparr>
        in with_records job
             (newAIJobEventRecords job AIJobStatusDispatching ''lease_expired'' AIJobEventLeaseReassigned transitionedAt))"

definition prepareAIJobClaim :: "AIJob \<Rightarrow> gotime \<Rightarrow> go_error + job_change" where
  "prepareAIJobClaim job claimedAt =
     (if job_Status job = AIJobStatusDispatching then prepareAIJobLeaseReassignment job claimedAt
      else prepareAIJobTransition job AIJobStatusDispatching [] claimedAt)"

definition mapAIJobToOperationStatus :: "string \<Rightarrow> string" where
  "mapAIJobToOperationStatus status =
     (if status = AIJobStatusSucceeded then AIOperationStatusSucceeded
      else if status = AIJobStatusCanceled then AIOperationStatusCanceled else AIOperationStatusFailed)"

definition applyMemoryOperationJobStatus :: "AIOperation \<Rightarrow> string \<Rightarrow> string \<Rightarrow> gotime \<Rightarrow> AIOperation" where
  "applyMemoryOperationJobStatus operation jobStatus errorType at =
     (if op_ID operation = [] then operation
      else if oneOf jobStatus [AIJobStatusDispatching, AIJobStatusRunning, AIJobStatusCanceling, AIJobStatusUnknown]
      then (if op_Status operation = AIOperationStatusAccepted
        then operation\<lparr>op_Status := AIOperationStatusRunning, op_UpdatedAt := at\<rparr> else operation)
      else if oneOf jobStatus [AIJobStatusSucceeded, AIJobStatusFailed, AIJobStatusCanceled]
      then (if op_Status operation \<noteq> AIOperationStatusAccepted \<and> op_Status operation \<noteq> AIOperationStatusRunning then operation
        else operation\<lparr>op_Status := mapAIJobToOperationStatus jobStatus, op_ErrorType := errorType, op_UpdatedAt := at,
          op_CompletedAt := Some at\<rparr>)
      else operation)"

section \<open>The checks and the writes of a change\<close>

definition validateMemoryOutboxInsert ::
  "(string, TransactionalOutboxEvent) gmap \<Rightarrow> TransactionalOutboxEvent \<Rightarrow> go_error option" where
  "validateMemoryOutboxInsert events candidate =
     (if mhas events (outbox_ID candidate)
      then Some (existing_err ''transactional outbox event'' (outbox_ID candidate) ''already exists'')
      else if list_ex (\<lambda>event. outbox_AggregateType event = outbox_AggregateType candidate
          \<and> outbox_AggregateID event = outbox_AggregateID candidate \<and> outbox_EventType event = outbox_EventType candidate
          \<and> outbox_EventVersion event = outbox_EventVersion candidate) (mvalues events)
      then Some (errors_New ''transactional outbox event is not unique'') else None)"

definition check_records :: "AIJobEvent \<Rightarrow> TransactionalOutboxEvent \<Rightarrow> MemoryRepository \<Rightarrow> go_error option" where
  "check_records event outbox r =
     (if mhas (aiJobEvents r) (event_ID event) then Some (existing_err ''ai job event'' (event_ID event) ''already exists'')
      else validateMemoryOutboxInsert (transactionalOutboxEvents r) outbox)"

definition write_job ::
  "AIOperation \<Rightarrow> string \<Rightarrow> AIJob \<Rightarrow> AIJobEvent \<Rightarrow> TransactionalOutboxEvent \<Rightarrow> MemoryRepository \<Rightarrow> MemoryRepository" where
  "write_job operation ident job event outbox r =
     r\<lparr>aiOperations := mput (op_ID operation) operation (aiOperations r), aiJobs := mput ident job (aiJobs r),
       aiJobEvents := mput (event_ID event) event (aiJobEvents r),
       transactionalOutboxEvents := mput (outbox_ID outbox) outbox (transactionalOutboxEvents r)\<rparr>"

section \<open>Admission of a job\<close>

definition is_sink_char :: "char \<Rightarrow> bool" where
  "is_sink_char c \<longleftrightarrow> is_lower_or_digit c \<or> (65 \<le> byte_of c \<and> byte_of c \<le> 90) \<or> c \<in> set ''-_.:''"

definition validArtifactSinkID :: "string \<Rightarrow> bool" where
  "validArtifactSinkID ident0 =
     (let ident = TrimSpace ident0
      in if ident = [] \<or> length ident > 160 then False else list_all is_sink_char ident)"

definition validArtifactSinkBinding :: "string \<Rightarrow> string \<Rightarrow> bool" where
  "validArtifactSinkBinding policy sinkID0 =
     (let sinkID = TrimSpace sinkID0
      in if artifactPolicySnapshot policy \<noteq> GatewayArtifactPolicyCustomerSink then sinkID = [] else validArtifactSinkID sinkID)"

definition validateDurableAIJobAdmission ::
  "AIOperation \<Rightarrow> AIJob \<Rightarrow> AIJobEvent \<Rightarrow> TransactionalOutboxEvent \<Rightarrow> go_error option" where
  "validateDurableAIJobAdmission operation job event outbox =
     (if op_ID operation = [] \<or> op_ID operation \<noteq> job_OperationID job \<or> op_Lane operation \<noteq> ''durable''
        \<or> op_IdempotencyKey operation = [] \<or> job_ID job = [] \<or> job_Status job \<noteq> AIJobStatusQueued \<or> job_StatusVersion job \<noteq> 1
        \<or> job_RequestFingerprint job = [] \<or> job_RequestFingerprint job \<noteq> op_RequestFingerprint operation
        \<or> job_IdempotencyKey job \<noteq> op_IdempotencyKey operation \<or> job_RequestPayloadCiphertext job = []
        \<or> \<not> validArtifactPolicy (op_ArtifactPolicy operation)
        \<or> \<not> validArtifactSinkBinding (op_ArtifactPolicy operation) (op_ArtifactSinkID operation)
        \<or> job_ArtifactPolicy job \<noteq> op_ArtifactPolicy operation \<or> job_ArtifactSinkID job \<noteq> op_ArtifactSinkID operation
        \<or> event_JobID event \<noteq> job_ID job \<or> event_Version event \<noteq> job_StatusVersion job
        \<or> event_EventType event \<noteq> AIJobEventQueued \<or> outbox_AggregateType outbox \<noteq> AIJobOutboxAggregate
        \<or> outbox_AggregateID outbox \<noteq> job_ID job \<or> outbox_EventVersion outbox \<noteq> job_StatusVersion job
        \<or> outbox_EventType outbox \<noteq> event_EventType event
      then Some (errors_New ''invalid durable ai job admission records'') else None)"

definition sameAIJobIdempotencyScope :: "AIJob \<Rightarrow> AIJob \<Rightarrow> bool" where
  "sameAIJobIdempotencyScope left right \<longleftrightarrow>
     job_IdempotencyKey left \<noteq> [] \<and> job_ProfileScope left = job_ProfileScope right \<and> job_TenantID left = job_TenantID right
     \<and> job_CredentialSource left = job_CredentialSource right \<and> job_CredentialID left = job_CredentialID right
     \<and> job_IntegrationID left = job_IntegrationID right \<and> job_PrincipalType left = job_PrincipalType right
     \<and> job_PrincipalID left = job_PrincipalID right
     \<and> job_ExternalSubjectReference left = job_ExternalSubjectReference right
     \<and> job_Operation left = job_Operation right \<and> job_IdempotencyKey left = job_IdempotencyKey right"

definition check_new_job ::
  "AIOperation \<Rightarrow> AIJob \<Rightarrow> AIJobEvent \<Rightarrow> TransactionalOutboxEvent \<Rightarrow> AIJobAdmissionLimits \<Rightarrow> BillingHoldAdmission
     \<Rightarrow> MemoryRepository \<Rightarrow> go_error option" where
  "check_new_job operation job event outbox limits billing r =
     (case enforceAIJobAdmissionLimits limits (aiJobAdmissionCountsForJobs (aiJobs r) job) of
        Some err \<Rightarrow> Some err
      | None \<Rightarrow>
          if mhas (aiOperations r) (op_ID operation) then Some (existing_err ''ai operation'' (op_ID operation) ''already exists'')
          else if mhas (aiJobs r) (job_ID job) then Some (existing_err ''ai job'' (job_ID job) ''already exists'')
          else (case check_records event outbox r of
              Some err \<Rightarrow> Some err
            | None \<Rightarrow>
                if mhas (billingHolds r) (hold_ID (adm_Hold billing))
                then Some (existing_err ''billing hold'' (hold_ID (adm_Hold billing)) ''already exists'')
                else if memoryBillingHoldForOperation (billingHolds r) (op_ID operation) \<noteq> None
                then Some (existing_err ''billing hold for operation'' (op_ID operation) ''already exists'')
                else (case find (\<lambda>evaluation. mhas (pricingEvaluations r) (eval_ID evaluation)) (adm_PricingEvaluations billing) of
                    Some evaluation \<Rightarrow> Some (existing_err ''pricing evaluation'' (eval_ID evaluation) ''already exists'')
                  | None \<Rightarrow>
                      (case check_versions (hold_ID (adm_Hold billing)) (billingHoldPricingVersions r) (adm_PricingVersions billing) of
                         Some err \<Rightarrow> Some err
                       | None \<Rightarrow> enforceMemoryBillingHoldBudget r billing))))"

definition CreateDurableAIJob ::
  "AIOperation \<Rightarrow> AIJob \<Rightarrow> AIJobEvent \<Rightarrow> TransactionalOutboxEvent \<Rightarrow> AIJobAdmissionLimits \<Rightarrow> BillingHoldAdmission
     \<Rightarrow> MemoryRepository \<Rightarrow> (AIJob \<times> bool \<times> go_error option) \<times> MemoryRepository" where
  "CreateDurableAIJob operation0 job event outbox limits billing r =
     (let operation = normalizeAIOperation operation0;
          fail = (\<lambda>err. ((zero_AIJob, False, Some err), r))
      in case validateDurableAIJobAdmission operation job event outbox of
           Some err \<Rightarrow> fail err
         | None \<Rightarrow>
             (case validateBillingHoldAdmission operation billing of
                Some err \<Rightarrow> fail err
              | None \<Rightarrow>
                  (case limits_validate limits of
                     Some err \<Rightarrow> fail err
                   | None \<Rightarrow>
                       (case find (\<lambda>current. sameAIJobIdempotencyScope current job) (mvalues (aiJobs r)) of
                          Some current \<Rightarrow> ((current, False, None), r)
                        | None \<Rightarrow>
                            (case check_new_job operation job event outbox limits billing r of
                               Some err \<Rightarrow> fail err
                             | None \<Rightarrow> ((job, True, None),
                                 write_job operation (job_ID job) job event outbox (insert_hold operation billing r)))))))"

section \<open>Lookup\<close>

definition FindAIJob :: "string \<Rightarrow> MemoryRepository \<Rightarrow> AIJob option" where
  "FindAIJob ident r = map_of (aiJobs r) ident"

definition FindAIJobByOperationID :: "string \<Rightarrow> MemoryRepository \<Rightarrow> AIJob option" where
  "FindAIJobByOperationID operationID r = memoryAIJobByOperationID (aiJobs r) operationID"

definition FindOwnedAIJob :: "string \<Rightarrow> AIJobOwner \<Rightarrow> MemoryRepository \<Rightarrow> AIJob option" where
  "FindOwnedAIJob ident owner r =
     (case map_of (aiJobs r) ident of
        None \<Rightarrow> None
      | Some job \<Rightarrow> if \<not> aiJobOwnerMatches job owner then None else Some job)"

definition job_at :: "MemoryRepository \<Rightarrow> string \<Rightarrow> AIJob" where
  "job_at r ident = (case map_of (aiJobs r) ident of None \<Rightarrow> zero_AIJob | Some job \<Rightarrow> job)"

section \<open>Transitions, requeues and leases\<close>

text \<open>
  \<open>change_job\<close> is the common end of the methods that change a job: the checks of the new records, the job's operation, and the
  writes; \<open>prepare\<close> is the change that the method has prepared.
\<close>

definition change_job ::
  "AIJob \<Rightarrow> string \<Rightarrow> go_error + job_change \<Rightarrow> gotime \<Rightarrow> MemoryRepository \<Rightarrow> (AIJob \<times> bool \<times> go_error option) \<times> MemoryRepository" where
  "change_job job ident prepared at r =
     (let fail = (\<lambda>err. ((zero_AIJob, False, Some err), r))
      in case prepared of
           Inl err \<Rightarrow> fail err
         | Inr (updated, event, outbox) \<Rightarrow>
             (case check_records event outbox r of
                Some err \<Rightarrow> fail err
              | None \<Rightarrow>
                  (case map_of (aiOperations r) (job_OperationID job) of
                     None \<Rightarrow> fail (existing_err ''ai operation'' (job_OperationID job) ''not found'')
                   | Some operation \<Rightarrow> ((updated, True, None),
                       write_job (applyMemoryOperationJobStatus operation (job_Status updated) (job_ErrorType updated) at)
                         ident updated event outbox r))))"

definition job_is_stale :: "string \<Rightarrow> int \<Rightarrow> int \<Rightarrow> MemoryRepository \<Rightarrow> bool" where
  "job_is_stale ident expectedVersion fenceToken r =
     (case map_of (aiJobs r) ident of
        None \<Rightarrow> True
      | Some job \<Rightarrow> job_StatusVersion job \<noteq> expectedVersion \<or> (job_FenceToken job > 0 \<and> job_FenceToken job \<noteq> fenceToken))"

definition TransitionAIJob ::
  "string \<Rightarrow> int \<Rightarrow> int \<Rightarrow> string \<Rightarrow> string \<Rightarrow> gotime \<Rightarrow> MemoryRepository
     \<Rightarrow> (AIJob \<times> bool \<times> go_error option) \<times> MemoryRepository" where
  "TransitionAIJob ident expectedVersion fenceToken toStatus reason transitionedAt r =
     (if job_is_stale ident expectedVersion fenceToken r then ((job_at r ident, False, None), r)
      else change_job (job_at r ident) ident (prepareAIJobTransition (job_at r ident) toStatus reason transitionedAt) transitionedAt r)"

definition RequeueAIJob ::
  "string \<Rightarrow> int \<Rightarrow> int \<Rightarrow> string \<Rightarrow> gotime \<Rightarrow> gotime \<Rightarrow> MemoryRepository
     \<Rightarrow> (AIJob \<times> bool \<times> go_error option) \<times> MemoryRepository" where
  "RequeueAIJob ident expectedVersion fenceToken reason nextEligibleAt transitionedAt r =
     (if job_is_stale ident expectedVersion fenceToken r then ((job_at r ident, False, None), r)
      else change_job (job_at r ident) ident
        (and_then (prepareAIJobTransition (job_at r ident) AIJobStatusQueued reason transitionedAt) (\<lambda>(updated, event, outbox).
           Inr (updated\<lparr>job_NextEligibleAt := (if nextEligibleAt > transitionedAt then nextEligibleAt else transitionedAt)\<rparr>, event, outbox)))
        transitionedAt r)"

definition ExtendAIJobQueueLease ::
  "string \<Rightarrow> int \<Rightarrow> int \<Rightarrow> string \<Rightarrow> gotime \<Rightarrow> gotime \<Rightarrow> MemoryRepository \<Rightarrow> (AIJob \<times> bool) \<times> MemoryRepository" where
  "ExtendAIJobQueueLease ident expectedVersion fenceToken leaseToken leaseUntil extendedAt r =
     (if \<not> leaseUntil > extendedAt \<or> TrimSpace leaseToken = [] then ((zero_AIJob, False), r)
      else
        let job = job_at r ident
        in case (if mhas (aiJobs r) ident then job_QueueLeaseUntil job else None) of
             None \<Rightarrow> ((job, False), r)
           | Some until \<Rightarrow>
               if job_Status job \<noteq> AIJobStatusDispatching \<or> job_StatusVersion job \<noteq> expectedVersion
                  \<or> job_FenceToken job \<noteq> fenceToken \<or> \<not> until > extendedAt \<or> job_QueueLeaseToken job \<noteq> leaseToken
               then ((job, False), r)
               else if \<not> leaseUntil > until then ((job, True), r)
               else
                 let job = job\<lparr>job_QueueLeaseUntil := Some leaseUntil\<rparr>;
                     job = (if extendedAt > job_UpdatedAt job then job\<lparr>job_UpdatedAt := extendedAt\<rparr> else job)
                 in ((job, True), r\<lparr>aiJobs := mput ident job (aiJobs r)\<rparr>))"

section \<open>Cancellation\<close>

text \<open>
  Results of a cancellation: the job, whether it changed, whether it was found, and the error. \<open>guard\<close> is the extra check of the
  administrator's cancellation, which also writes an audit record.
\<close>

definition cancel_job ::
  "AIJob \<Rightarrow> string \<Rightarrow> string \<Rightarrow> gotime \<Rightarrow> AuditLog option \<Rightarrow> MemoryRepository
     \<Rightarrow> (AIJob \<times> bool \<times> bool \<times> go_error option) \<times> MemoryRepository" where
  "cancel_job job ident reason requestedAt audit r =
     (let fail = (\<lambda>err. ((zero_AIJob, False, True, Some err), r));
          status = job_Status job
      in if oneOf status [AIJobStatusCanceling, AIJobStatusCanceled] then ((job, False, True, None), r)
         else if oneOf status [AIJobStatusSucceeded, AIJobStatusFailed, AIJobStatusUnknown, AIJobStatusExpired]
         then ((job, False, True, Some ErrAIJobNotCancelable), r)
         else
           let toStatus = (if status = AIJobStatusAccepted \<or> status = AIJobStatusQueued then AIJobStatusCanceled else AIJobStatusCanceling)
           in case prepareAIJobTransition job toStatus reason requestedAt of
                Inl err \<Rightarrow> fail err
              | Inr (updated0, event, outbox) \<Rightarrow>
                  let updated = (if status = AIJobStatusDispatching
                        then updated0\<lparr>job_FenceToken := job_FenceToken updated0 + 1\<rparr> else updated0)
                  in (case check_records event outbox r of
                       Some err \<Rightarrow> fail err
                     | None \<Rightarrow>
                         (case (case audit of None \<Rightarrow> None | Some a \<Rightarrow> if mhas (auditLogs r) (audit_ID a)
                             then Some (existing_err ''audit log'' (audit_ID a) ''already exists'') else None) of
                            Some err \<Rightarrow> fail err
                          | None \<Rightarrow>
                              (case map_of (aiOperations r) (job_OperationID job) of
                                 None \<Rightarrow> fail (existing_err ''ai operation'' (job_OperationID job) ''not found'')
                               | Some operation \<Rightarrow>
                                   (case (if toStatus = AIJobStatusCanceled
                                       then releaseMemoryBillingHoldForOperation (job_OperationID job) ''job_canceled_before_dispatch'' requestedAt r
                                       else (None, r)) of
                                      (Some err, r1) \<Rightarrow> ((zero_AIJob, False, True, Some err), r1)
                                    | (None, r1) \<Rightarrow>
                                        let r2 = write_job (applyMemoryOperationJobStatus operation (job_Status updated) (job_ErrorType updated) requestedAt)
                                              ident updated event outbox r1
                                        in ((updated, True, True, None),
                                            (case audit of None \<Rightarrow> r2 | Some a \<Rightarrow> r2\<lparr>auditLogs := mput (audit_ID a) a (auditLogs r2)\<rparr>)))))))"

definition RequestAIJobCancellation ::
  "string \<Rightarrow> AIJobOwner \<Rightarrow> gotime \<Rightarrow> MemoryRepository \<Rightarrow> (AIJob \<times> bool \<times> bool \<times> go_error option) \<times> MemoryRepository" where
  "RequestAIJobCancellation ident owner requestedAt r =
     (case map_of (aiJobs r) ident of
        None \<Rightarrow> ((zero_AIJob, False, False, None), r)
      | Some job \<Rightarrow>
          if \<not> aiJobOwnerMatches job owner then ((zero_AIJob, False, False, None), r)
          else cancel_job job ident ''client_requested'' requestedAt None r)"

definition RequestAIJobAdminCancellation ::
  "string \<Rightarrow> gotime \<Rightarrow> AuditLog \<Rightarrow> MemoryRepository \<Rightarrow> (AIJob \<times> bool \<times> bool \<times> go_error option) \<times> MemoryRepository" where
  "RequestAIJobAdminCancellation ident requestedAt audit r =
     (case map_of (aiJobs r) (TrimSpace ident) of
        None \<Rightarrow> ((zero_AIJob, False, False, None), r)
      | Some job \<Rightarrow> cancel_job job (job_ID job) ''admin_requested'' requestedAt (Some audit) r)"

section \<open>Claims\<close>

record AIJobReadyReference =
  ref_JobID :: string
  ref_StatusVersion :: int

definition operation_at :: "MemoryRepository \<Rightarrow> string \<Rightarrow> AIOperation" where
  "operation_at r ident = (case map_of (aiOperations r) ident of None \<Rightarrow> zero_AIOperation | Some operation \<Rightarrow> operation)"

definition claimed_job :: "AIJob \<Rightarrow> gotime \<Rightarrow> string \<Rightarrow> string \<Rightarrow> AIJob" where
  "claimed_job updated leaseUntil workerID leaseToken =
     updated\<lparr>job_FenceToken := job_FenceToken updated + 1, job_QueueLeaseUntil := Some leaseUntil,
       job_QueueLeaseToken := leaseToken, job_QueueWorkerID := workerID\<rparr>"

fun claim_loop ::
  "AIJob list \<Rightarrow> gotime \<Rightarrow> gotime \<Rightarrow> string \<Rightarrow> string \<Rightarrow> int \<Rightarrow> AIJob list \<Rightarrow> MemoryRepository
     \<Rightarrow> (go_error + AIJob list) \<times> MemoryRepository" where
  "claim_loop [] now leaseUntil workerID leaseToken limit claimed r = (Inr claimed, r)"
| "claim_loop (candidate # rest) now leaseUntil workerID leaseToken limit claimed r =
     (if int (length claimed) \<ge> limit then (Inr claimed, r)
      else (case prepareAIJobClaim candidate now of
          Inl err \<Rightarrow> (Inl err, r)
        | Inr (updated0, event, outbox) \<Rightarrow>
            let updated = claimed_job updated0 leaseUntil workerID leaseToken
            in (case check_records event outbox r of
                 Some err \<Rightarrow> (Inl err, r)
               | None \<Rightarrow>
                   claim_loop rest now leaseUntil workerID leaseToken limit (claimed @ [updated])
                     (write_job (applyMemoryOperationJobStatus (operation_at r (job_OperationID candidate)) (job_Status updated)
                        (job_ErrorType updated) now) (job_ID updated) updated event outbox r))))"

definition claimAIJobCandidatesLocked ::
  "AIJob list \<Rightarrow> gotime \<Rightarrow> gotime \<Rightarrow> string \<Rightarrow> string \<Rightarrow> int \<Rightarrow> MemoryRepository \<Rightarrow> (go_error + AIJob list) \<times> MemoryRepository" where
  "claimAIJobCandidatesLocked candidates now leaseUntil workerID leaseToken limit r =
     claim_loop candidates now leaseUntil workerID leaseToken limit [] r"

definition dispatch_activities :: "MemoryRepository \<Rightarrow> aiJobDispatchActivity list" where
  "dispatch_activities r = List.map_filter (\<lambda>event.
     if event_EventType event \<noteq> AIJobEventScheduled then None
     else (case map_of (aiJobs r) (event_JobID event) of
         None \<Rightarrow> None | Some job \<Rightarrow> Some \<lparr>act_Job = job, act_DispatchedAt = event_CreatedAt event\<rparr>)) (mvalues (aiJobEvents r))"

definition ClaimQueuedAIJobs ::
  "gotime \<Rightarrow> gotime \<Rightarrow> string \<Rightarrow> string \<Rightarrow> int \<Rightarrow> MemoryRepository \<Rightarrow> (go_error + AIJob list) \<times> MemoryRepository" where
  "ClaimQueuedAIJobs now leaseUntil workerID leaseToken limit r =
     (if limit \<le> 0 \<or> TrimSpace workerID = [] \<or> TrimSpace leaseToken = [] \<or> \<not> leaseUntil > now then (Inr [], r)
      else
        let jobs = mvalues (aiJobs r);
            candidates = filter (\<lambda>job. aiJobReadyForClaim job now) jobs
        in claimAIJobCandidatesLocked (rankAIJobFairCandidates candidates jobs (dispatch_activities r) now limit)
             now leaseUntil workerID leaseToken limit r)"

definition wanted_versions :: "AIJobReadyReference list \<Rightarrow> (string, int) gmap" where
  "wanted_versions references = foldl (\<lambda>wanted reference.
     if TrimSpace (ref_JobID reference) \<noteq> [] \<and> ref_StatusVersion reference > 0
     then mput (ref_JobID reference) (ref_StatusVersion reference) wanted else wanted) [] references"

definition ClaimAIJobsByReadyReferences ::
  "AIJobReadyReference list \<Rightarrow> gotime \<Rightarrow> gotime \<Rightarrow> string \<Rightarrow> string \<Rightarrow> int \<Rightarrow> MemoryRepository
     \<Rightarrow> (go_error + AIJob list) \<times> MemoryRepository" where
  "ClaimAIJobsByReadyReferences references now leaseUntil workerID leaseToken limit r =
     (if limit \<le> 0 \<or> references = [] \<or> TrimSpace workerID = [] \<or> TrimSpace leaseToken = [] \<or> \<not> leaseUntil > now then (Inr [], r)
      else
        let wanted = wanted_versions references;
            jobs = mvalues (aiJobs r);
            candidates = filter (\<lambda>job. (case map_of wanted (job_ID job) of None \<Rightarrow> 0 | Some version \<Rightarrow> version) = job_StatusVersion job
              \<and> aiJobReadyForClaim job now) jobs
        in claimAIJobCandidatesLocked (rankAIJobFairCandidates candidates jobs (dispatch_activities r) now limit)
             now leaseUntil workerID leaseToken limit r)"

section \<open>Lists\<close>

definition aiJobReadyAt :: "AIJob \<Rightarrow> gotime" where
  "aiJobReadyAt job =
     (case (if job_Status job = AIJobStatusDispatching then job_QueueLeaseUntil job else None) of
        Some until \<Rightarrow> until | None \<Rightarrow> job_NextEligibleAt job)"

definition ready_order :: "AIJob \<Rightarrow> AIJob \<Rightarrow> bool" where
  "ready_order a b = (if aiJobReadyAt a \<noteq> aiJobReadyAt b then aiJobReadyAt a < aiJobReadyAt b else job_ID a < job_ID b)"

definition ListAIJobsForReadyIndex :: "int \<Rightarrow> MemoryRepository \<Rightarrow> AIJob list" where
  "ListAIJobsForReadyIndex limit r =
     (if limit \<le> 0 then []
      else limit_list limit (sort_slice ready_order (filter (\<lambda>job. job_Status job = AIJobStatusQueued
        \<or> (job_Status job = AIJobStatusDispatching \<and> job_QueueLeaseUntil job \<noteq> None)) (mvalues (aiJobs r)))))"

definition updated_order :: "AIJob \<Rightarrow> AIJob \<Rightarrow> bool" where
  "updated_order a b = (if job_UpdatedAt a \<noteq> job_UpdatedAt b then job_UpdatedAt a < job_UpdatedAt b else job_ID a < job_ID b)"

definition ListAIJobsForDeliveryRebuild :: "gotime \<Rightarrow> int \<Rightarrow> MemoryRepository \<Rightarrow> AIJob list" where
  "ListAIJobsForDeliveryRebuild now limit r =
     (if limit \<le> 0 then []
      else limit_list limit (sort_slice updated_order (filter (\<lambda>job. job_Status job = AIJobStatusDispatching
        \<and> (case job_QueueLeaseUntil job of None \<Rightarrow> False | Some until \<Rightarrow> until > now)
        \<and> TrimSpace (job_QueueLeaseToken job) \<noteq> []) (mvalues (aiJobs r)))))"

definition event_order :: "AIJobEvent \<Rightarrow> AIJobEvent \<Rightarrow> bool" where
  "event_order a b =
     (if event_JobID a = event_JobID b then event_Version a < event_Version b else event_CreatedAt a < event_CreatedAt b)"

definition ListAIJobEvents :: "string \<Rightarrow> MemoryRepository \<Rightarrow> AIJobEvent list" where
  "ListAIJobEvents jobID r =
     sort_slice event_order (filter (\<lambda>event. jobID = [] \<or> event_JobID event = jobID) (mvalues (aiJobEvents r)))"

section \<open>Queries of the administration\<close>

record AIJobQuery =
  query_Search :: string
  query_ProfileScope :: string
  query_TenantID :: string
  query_Model :: string
  query_Modality :: string
  query_Operation :: string
  query_Status :: string
  query_ArtifactPolicy :: string
  query_Limit :: int
  query_Offset :: int

record AIJobSummary =
  summary_Total :: int
  summary_ByStatus :: "(string, int) gmap"

definition field_matches :: "string \<Rightarrow> string \<Rightarrow> bool" where
  "field_matches wanted value = (TrimSpace wanted = [] \<or> value = TrimSpace wanted)"

definition aiJobMatchesQuery :: "AIJob \<Rightarrow> AIJobQuery \<Rightarrow> bool" where
  "aiJobMatchesQuery job query =
     (let search = ToLower (TrimSpace (query_Search query))
      in if search \<noteq> [] \<and> \<not> Contains (ToLower (job_ID job)) search \<and> \<not> Contains (ToLower (job_OperationID job)) search
           \<and> \<not> Contains (ToLower (job_TenantID job)) search \<and> \<not> Contains (ToLower (job_Model job)) search
         then False
         else field_matches (query_ProfileScope query) (job_ProfileScope job) \<and> field_matches (query_TenantID query) (job_TenantID job)
           \<and> field_matches (query_Model query) (job_Model job) \<and> field_matches (query_Modality query) (job_Modality job)
           \<and> field_matches (query_Operation query) (job_Operation job) \<and> field_matches (query_Status query) (job_Status job)
           \<and> field_matches (query_ArtifactPolicy query) (job_ArtifactPolicy job))"

definition admin_order :: "AIJob \<Rightarrow> AIJob \<Rightarrow> bool" where
  "admin_order a b = (if job_CreatedAt a = job_CreatedAt b then job_ID a > job_ID b else job_CreatedAt a > job_CreatedAt b)"

definition sortAIJobsForAdmin :: "AIJob list \<Rightarrow> AIJob list" where
  "sortAIJobsForAdmin jobs = sort_slice admin_order jobs"

definition aiJobAdminQueryLimit :: "int \<Rightarrow> int" where
  "aiJobAdminQueryLimit limit = (if limit \<le> 0 \<or> limit > 100 then 100 else limit)"

definition paginateAIJobs :: "AIJob list \<Rightarrow> int \<Rightarrow> int \<Rightarrow> AIJob list" where
  "paginateAIJobs jobs limit0 offset0 =
     (let offset = nonNegative offset0
      in if offset \<ge> int (length jobs) then []
         else
           let limit = aiJobAdminQueryLimit limit0;
               end = min (offset + limit) (int (length jobs))
           in drop (nat offset) (take (nat end) jobs))"

definition QueryAIJobs :: "AIJobQuery \<Rightarrow> MemoryRepository \<Rightarrow> AIJob list" where
  "QueryAIJobs query r =
     paginateAIJobs (sortAIJobsForAdmin (filter (\<lambda>job. aiJobMatchesQuery job query) (mvalues (aiJobs r)))) (query_Limit query) (query_Offset query)"

fun summarize :: "AIJobQuery \<Rightarrow> AIJob list \<Rightarrow> AIJobSummary \<Rightarrow> AIJobSummary" where
  "summarize query [] summary = summary"
| "summarize query (job # jobs) summary =
     (if \<not> aiJobMatchesQuery job query then summarize query jobs summary
      else summarize query jobs (summary\<lparr>summary_Total := summary_Total summary + 1,
        summary_ByStatus := mput (job_Status job)
          ((case map_of (summary_ByStatus summary) (job_Status job) of None \<Rightarrow> 0 | Some n \<Rightarrow> n) + 1) (summary_ByStatus summary)\<rparr>))"

definition newAIJobSummary :: AIJobSummary where
  "newAIJobSummary = \<lparr>summary_Total = 0, summary_ByStatus = []\<rparr>"

definition SummarizeAIJobs :: "AIJobQuery \<Rightarrow> MemoryRepository \<Rightarrow> AIJobSummary" where
  "SummarizeAIJobs query r = summarize query (mvalues (aiJobs r)) newAIJobSummary"

definition validAIJobStatus :: "string \<Rightarrow> bool" where
  "validAIJobStatus status = oneOf status [AIJobStatusAccepted, AIJobStatusQueued, AIJobStatusDispatching, AIJobStatusRunning,
     AIJobStatusCanceling, AIJobStatusCanceled, AIJobStatusSucceeded, AIJobStatusFailed, AIJobStatusUnknown, AIJobStatusExpired]"

definition ErrAIJobAdminQueryInvalid :: go_error where
  "ErrAIJobAdminQueryInvalid = errors_New ''invalid ai job admin query''"

definition validateAIJobAdminQuery :: "AIJobQuery \<Rightarrow> go_error option" where
  "validateAIJobAdminQuery query =
     (if TrimSpace (query_Status query) \<noteq> [] \<and> \<not> validAIJobStatus (TrimSpace (query_Status query))
      then Some ErrAIJobAdminQueryInvalid
      else if TrimSpace (query_ArtifactPolicy query) \<noteq> [] \<and> \<not> validArtifactPolicy (TrimSpace (query_ArtifactPolicy query))
      then Some ErrAIJobAdminQueryInvalid
      else if query_Limit query < 0 \<or> query_Offset query < 0 then Some ErrAIJobAdminQueryInvalid
      else None)"

definition AIJobSummaryAdmin :: "AIJobQuery \<Rightarrow> MemoryRepository \<Rightarrow> go_error + AIJobSummary" where
  "AIJobSummaryAdmin query r =
     (case validateAIJobAdminQuery query of
        Some err \<Rightarrow> Inl err
      | None \<Rightarrow> Inr (SummarizeAIJobs (query\<lparr>query_Limit := 0, query_Offset := 0\<rparr>) r))"

end
