(* ===== verification/Event_Log.thy ===== *)
theory Event_Log
  imports Go_Prelude
begin

text \<open>
  The contract of a store that keeps, beside each object with a version and a status, one event per version, as jobs and artifacts
  do: the object and the event of its new version are written together. Then the events of an object are its complete history.
\<close>

definition complete_log :: "('o \<Rightarrow> int) \<Rightarrow> ('o \<Rightarrow> string) \<Rightarrow> ('e \<Rightarrow> string) \<Rightarrow> ('e \<Rightarrow> int) \<Rightarrow> ('e \<Rightarrow> string) \<Rightarrow> ('e \<Rightarrow> string)
    \<Rightarrow> ('e \<Rightarrow> bool) \<Rightarrow> (string \<Rightarrow> 'o option) \<Rightarrow> 'e set \<Rightarrow> bool" where
  "complete_log ver status eobject ever efrom eto legal objects events \<longleftrightarrow>
     (\<forall>e \<in> events. \<exists>v. objects (eobject e) = Some v \<and> 1 \<le> ever e \<and> ever e \<le> ver v)
     \<and> (\<forall>e \<in> events. \<forall>f \<in> events. eobject e = eobject f \<longrightarrow> ever e = ever f \<longrightarrow> e = f)
     \<and> (\<forall>e \<in> events. \<forall>f \<in> events. eobject e = eobject f \<longrightarrow> ever f = ever e + 1 \<longrightarrow> efrom f = eto e \<and> legal f)
     \<and> (\<forall>k v. objects k = Some v \<longrightarrow> 1 \<le> ver v
          \<and> (\<forall>n. 1 \<le> n \<longrightarrow> n \<le> ver v \<longrightarrow> (\<exists>e \<in> events. eobject e = k \<and> ever e = n))
          \<and> (\<forall>e \<in> events. eobject e = k \<longrightarrow> ever e = ver v \<longrightarrow> eto e = status v))"

locale event_log =
  fixes objects :: "'s \<Rightarrow> string \<Rightarrow> 'o option"
    and events :: "'s \<Rightarrow> 'e set"
    and ver :: "'o \<Rightarrow> int"
    and status :: "'o \<Rightarrow> string"
    and eobject :: "'e \<Rightarrow> string"
    and ever :: "'e \<Rightarrow> int"
    and efrom :: "'e \<Rightarrow> string"
    and eto :: "'e \<Rightarrow> string"
    and legal :: "'e \<Rightarrow> bool"
    and unused :: "'e \<Rightarrow> 's \<Rightarrow> bool"
    and store :: "'x \<Rightarrow> string \<Rightarrow> 'o \<Rightarrow> 'e \<Rightarrow> 's \<Rightarrow> 's"
  assumes objects_store: "objects (store x k v e s) = (objects s)(k \<mapsto> v)"
    and events_store: "unused e s \<Longrightarrow> events (store x k v e s) = insert e (events s)"
begin

abbreviation complete :: "'s \<Rightarrow> bool" where
  "complete s \<equiv> complete_log ver status eobject ever efrom eto legal (objects s) (events s)"

lemma event_bound:
  "complete s \<Longrightarrow> e \<in> events s \<Longrightarrow> \<exists>v. objects s (eobject e) = Some v \<and> 1 \<le> ever e \<and> ever e \<le> ver v"
  by (simp add: complete_log_def)

lemma event_unique:
  "complete s \<Longrightarrow> e \<in> events s \<Longrightarrow> f \<in> events s \<Longrightarrow> eobject e = eobject f \<Longrightarrow> ever e = ever f \<Longrightarrow> e = f"
  by (simp add: complete_log_def)

lemma event_chain:
  "complete s \<Longrightarrow> e \<in> events s \<Longrightarrow> f \<in> events s \<Longrightarrow> eobject e = eobject f \<Longrightarrow> ever f = ever e + 1 \<Longrightarrow> efrom f = eto e \<and> legal f"
  by (simp add: complete_log_def)

lemma object_history:
  assumes "complete s" "objects s k = Some v"
  shows "1 \<le> ver v" "1 \<le> n \<Longrightarrow> n \<le> ver v \<Longrightarrow> \<exists>e \<in> events s. eobject e = k \<and> ever e = n"
    "e \<in> events s \<Longrightarrow> eobject e = k \<Longrightarrow> ever e = ver v \<Longrightarrow> eto e = status v"
  using assms by (simp_all add: complete_log_def)

text \<open>An object under an identifier, with the event of its version, in place of the object before it, which had all earlier events.\<close>

lemma store_complete:
  assumes ok: "complete s" and k: "eobject e = k" "ever e = ver v" "eto e = status v" and unused: "unused e s"
    and pre: "case objects s k of None \<Rightarrow> ver v = 1 | Some u \<Rightarrow> ver v = ver u + 1 \<and> efrom e = status u \<and> legal e"
  shows "complete (store x k v e s)"
proof -
  note ev = events_store [OF unused, of x k v] and objs = objects_store [of x k v e s]
  have old: "1 \<le> ever f \<and> ever f < ver v \<and> (\<exists>u. objects s k = Some u \<and> ever f \<le> ver u)"
    if "f \<in> events s" "eobject f = k" for f
    using event_bound [OF ok that(1)] that(2) pre by (auto split: option.splits)
  have versions: "1 \<le> ver v" using pre object_history(1) [OF ok, of k] by (auto split: option.splits)
  have all: "\<exists>f \<in> insert e (events s). eobject f = k \<and> ever f = n" if n: "1 \<le> n" "n \<le> ver v" for n
  proof (cases "n = ver v")
    case True
    then show ?thesis using k by auto
  next
    case False
    then obtain u where "objects s k = Some u" "n \<le> ver u" using pre n False by (cases "objects s k") auto
    then show ?thesis using object_history(2) [OF ok] n(1) by blast
  qed
  have bound: "\<exists>u. objects (store x k v e s) (eobject f) = Some u \<and> 1 \<le> ever f \<and> ever f \<le> ver u"
    if "f \<in> insert e (events s)" for f
  proof (cases "f = e")
    case True
    then show ?thesis using k versions by (simp add: objs)
  next
    case False
    then show ?thesis using that old [of f] event_bound [OF ok, of f] by (cases "eobject f = k") (auto simp: objs)
  qed
  have unique: "f = g" if "f \<in> insert e (events s)" "g \<in> insert e (events s)" "eobject f = eobject g" "ever f = ever g" for f g
    using that old [of f] old [of g] k event_unique [OF ok, of f g] by auto
  have chain: "efrom g = eto f \<and> legal g" if "f \<in> insert e (events s)" "g \<in> insert e (events s)" "eobject f = eobject g"
      "ever g = ever f + 1" for f g
  proof (cases "g = e")
    case True
    then have f: "f \<in> events s" "eobject f = k" using that k by auto
    then obtain u where u: "objects s k = Some u" using old [OF f] by auto
    with pre True that(4) k have "ever f = ver u" by simp
    with object_history(3) [OF ok u f] pre u True show ?thesis by simp
  next
    case False
    then have g: "g \<in> events s" using that by auto
    have "f \<noteq> e" using old [OF g] that k by auto
    with g that show ?thesis using event_chain [OF ok, of f g] by auto
  qed
  have history: "1 \<le> ver u \<and> (\<forall>n. 1 \<le> n \<longrightarrow> n \<le> ver u \<longrightarrow> (\<exists>f \<in> insert e (events s). eobject f = j \<and> ever f = n))
      \<and> (\<forall>f \<in> insert e (events s). eobject f = j \<longrightarrow> ever f = ver u \<longrightarrow> eto f = status u)"
    if j: "objects (store x k v e s) j = Some u" for j u
  proof (cases "j = k")
    case True
    then have "u = v" using j by (simp add: objs)
    moreover have "ever f \<noteq> ver v" if "f \<in> events s" "eobject f = k" for f using old [OF that] by auto
    ultimately show ?thesis using True versions all k by auto
  next
    case False
    then have j': "objects s j = Some u" using j by (simp add: objs)
    show ?thesis using object_history [OF ok j'] False k by auto
  qed
  show ?thesis unfolding complete_log_def ev using bound unique chain history by meson
qed

text \<open>The events of an object, in the order of their versions.\<close>

lemma listing_versions:
  assumes ok: "complete s" and v: "objects s k = Some v"
    and xs: "set xs = {e \<in> events s. eobject e = k}" "distinct xs" "sorted (map ever xs)"
  shows "map ever xs = [1..ver v]"
proof -
  have "inj_on ever (set xs)" unfolding xs(1) using event_unique [OF ok] by (auto intro: inj_onI)
  then have distinct: "distinct (map ever xs)" using xs(2) by (simp add: distinct_map)
  have "ever ` set xs = {1..ver v}"
  proof
    show "ever ` set xs \<subseteq> {1..ver v}" using event_bound [OF ok] v by (fastforce simp: xs(1))
    show "{1..ver v} \<subseteq> ever ` set xs" using object_history(2) [OF ok v] by (fastforce simp: xs(1))
  qed
  then have "set (map ever xs) = set [1..ver v]" by simp
  then show ?thesis using xs(3) distinct by (intro sorted_distinct_set_unique) simp_all
qed

lemma listing_history:
  assumes ok: "complete s" and v: "objects s k = Some v"
    and xs: "set xs = {e \<in> events s. eobject e = k}" "distinct xs" "sorted (map ever xs)"
  shows "map ever xs = [1..ver v] \<and> xs \<noteq> [] \<and> eto (last xs) = status v
    \<and> (\<forall>n. Suc n < length xs \<longrightarrow> efrom (xs ! Suc n) = eto (xs ! n) \<and> legal (xs ! Suc n))"
proof -
  note versions = listing_versions [OF assms]
  have pos: "1 \<le> ver v" using object_history(1) [OF ok v] .
  have len: "int (length xs) = ver v" using arg_cong [OF versions, of length] pos by simp
  then have nonempty: "xs \<noteq> []" using pos by auto
  have version: "ever (xs ! n) = 1 + int n" if "n < length xs" for n
  proof -
    have "ever (xs ! n) = [1..ver v] ! n" using that by (simp add: versions [symmetric])
    then show ?thesis using that len by simp
  qed
  have elem: "xs ! n \<in> events s \<and> eobject (xs ! n) = k" if "n < length xs" for n
    using nth_mem [OF that] xs(1) by auto
  have "ever (last xs) = ver v"
    using version [of "length xs - 1"] nonempty len by (simp add: last_conv_nth of_nat_diff Suc_le_eq)
  then have "eto (last xs) = status v"
    using object_history(3) [OF ok v] elem [of "length xs - 1"] nonempty by (simp add: last_conv_nth)
  moreover have "efrom (xs ! Suc n) = eto (xs ! n) \<and> legal (xs ! Suc n)" if "Suc n < length xs" for n
    using event_chain [OF ok, of "xs ! n" "xs ! Suc n"] elem [of n] elem [of "Suc n"] version [of n] version [of "Suc n"] that by simp
  ultimately show ?thesis using nonempty versions by blast
qed

lemma complete_none: "events s = {} \<Longrightarrow> (\<And>k. objects s k = None) \<Longrightarrow> complete s"
  by (simp add: complete_log_def)

end

lemma mvalues_ids:
  assumes "keyed f m"
  shows "map f (mvalues m) = map fst m"
  using assms by (induction m) (auto simp: keyed_def mvalues_def wf_gmap_def)

lemma keyed_distinct: "keyed f m \<Longrightarrow> distinct (map f (mvalues m))"
  by (simp add: mvalues_ids) (simp add: keyed_def wf_gmap_def)

text \<open>The list of the events of one object, which the repository sorts by version.\<close>

lemma listing_sorted:
  assumes "keyed eid events" "\<And>e. e \<in> set (mvalues events) \<Longrightarrow> P e \<longleftrightarrow> eobject e = k"
    and "\<And>x y. x \<in> set (mvalues events) \<Longrightarrow> y \<in> set (mvalues events) \<Longrightarrow> P x \<Longrightarrow> P y \<Longrightarrow> before x y \<longleftrightarrow> (ever x :: int) < ever y"
    and "xs = sort_slice before (filter P (mvalues events))"
  shows "set xs = {e \<in> set (mvalues events). eobject e = k}" "distinct xs" "sorted (map ever xs)"
proof -
  have key: "xs = sort_slice (\<lambda>x y. ever x < ever y) (filter P (mvalues events))"
    unfolding assms(4) by (rule sort_slice_cong) (auto simp: assms(3))
  have "sorted_wrt (\<lambda>x y. ever x \<le> ever y) xs"
    using comparison.sort_sorted [OF comparison_key, of ever "filter P (mvalues events)"] by (simp add: key not_less)
  then show "sorted (map ever xs)" by (simp add: sorted_wrt_map)
  show "set xs = {e \<in> set (mvalues events). eobject e = k}" using assms(2) by (auto simp: assms(4))
  have "distinct (mvalues events)" using keyed_distinct [OF assms(1)] by (simp add: distinct_map)
  then show "distinct xs" unfolding assms(4) by (metis distinct_filter mset_sort_slice mset_eq_imp_distinct_iff)
qed

end
