(* ===== verification/AI_Job_Trail.thy ===== *)
theory AI_Job_Trail
  imports AI_Job_Repo Event_Log
begin

text \<open>
  What the methods on durable jobs guarantee together: the event log of a job is its complete history, a fence or version that
  has passed is refused, a lease is exclusive until it ends, and the queue stays within its admission limits.
\<close>

section \<open>One change of a job\<close>

text \<open>
  A change of a job: the next version, with the event of that version from the old status to the new one. It follows the state
  machine, or it is the reassignment of an expired dispatch lease, which keeps the status.
\<close>

definition legal_event :: "AIJobEvent \<Rightarrow> bool" where
  "legal_event e \<longleftrightarrow> (\<exists>reason. aiJobStatusTransitionAllowed (event_FromStatus e) (event_ToStatus e) reason)
     \<or> (event_EventType e = AIJobEventLeaseReassigned \<and> event_FromStatus e = AIJobStatusDispatching
        \<and> event_ToStatus e = AIJobStatusDispatching)"

definition job_moves :: "AIJob \<Rightarrow> AIJob \<Rightarrow> AIJobEvent \<Rightarrow> bool" where
  "job_moves job updated e \<longleftrightarrow> job_ID updated = job_ID job \<and> job_OperationID updated = job_OperationID job
     \<and> job_StatusVersion updated = job_StatusVersion job + 1 \<and> job_FenceToken job \<le> job_FenceToken updated
     \<and> event_JobID e = job_ID job \<and> event_Version e = job_StatusVersion updated
     \<and> event_FromStatus e = job_Status job \<and> event_ToStatus e = job_Status updated \<and> legal_event e"

lemma newAIJobEventRecords_Inr:
  assumes "newAIJobEventRecords job from reason ty at = Inr (e, ob)"
  shows "event_JobID e = job_ID job \<and> event_Version e = job_StatusVersion job \<and> event_EventType e = ty
    \<and> event_FromStatus e = from \<and> event_ToStatus e = job_Status job \<and> event_CreatedAt e = at"
  using assms by (auto simp: newAIJobEventRecords_def Let_def split: if_splits)

lemma transition_job_fields [simp]:
  "job_ID (transition_job job to reason at) = job_ID job"
  "job_OperationID (transition_job job to reason at) = job_OperationID job"
  "job_Status (transition_job job to reason at) = to"
  "job_StatusVersion (transition_job job to reason at) = job_StatusVersion job + 1"
  "job_FenceToken (transition_job job to reason at) = job_FenceToken job"
  by (simp_all add: transition_job_def Let_def)

lemma prepareAIJobTransition_Inr:
  assumes "prepareAIJobTransition job to reason at = Inr (updated, e, ob)"
  shows "job_moves job updated e \<and> job_Status updated = to \<and> job_FenceToken updated = job_FenceToken job
    \<and> aiJobStatusTransitionAllowed (job_Status job) to reason \<and> updated = transition_job job to reason at"
  using assms
  by (auto simp: prepareAIJobTransition_def with_records_def newAIJobTransitionRecords_def job_moves_def legal_event_def
      split: if_splits dest!: newAIJobEventRecords_Inr)

lemma prepareAIJobClaim_Inr:
  assumes "prepareAIJobClaim job at = Inr (updated, e, ob)"
  shows "job_moves job updated e \<and> job_Status updated = AIJobStatusDispatching \<and> job_FenceToken updated = job_FenceToken job"
proof (cases "job_Status job = AIJobStatusDispatching")
  case True
  then show ?thesis using assms
    by (auto simp: prepareAIJobClaim_def prepareAIJobLeaseReassignment_def Let_def with_records_def job_moves_def legal_event_def
        split: if_splits dest!: newAIJobEventRecords_Inr)
next
  case False
  then show ?thesis using assms prepareAIJobTransition_Inr by (simp add: prepareAIJobClaim_def)
qed

lemma job_moves_fence:
  "job_moves job updated e \<Longrightarrow> job_moves job (claimed_job updated leaseUntil workerID leaseToken) e"
  "job_moves job updated e \<Longrightarrow> job_moves job (updated\<lparr>job_FenceToken := job_FenceToken updated + 1\<rparr>) e"
  "job_moves job updated e \<Longrightarrow> job_moves job (updated\<lparr>job_NextEligibleAt := t\<rparr>) e"
  by (auto simp: job_moves_def claimed_job_def)

section \<open>The event log\<close>

definition job_events :: "MemoryRepository \<Rightarrow> AIJobEvent set" where
  "job_events r = set (mvalues (aiJobEvents r))"

definition trail_ok :: "MemoryRepository \<Rightarrow> bool" where
  "trail_ok r \<longleftrightarrow> keyed job_ID (aiJobs r) \<and> keyed event_ID (aiJobEvents r)
     \<and> (\<forall>e \<in> job_events r. \<exists>job. map_of (aiJobs r) (event_JobID e) = Some job
          \<and> 1 \<le> event_Version e \<and> event_Version e \<le> job_StatusVersion job)
     \<and> (\<forall>e \<in> job_events r. \<forall>f \<in> job_events r. event_JobID e = event_JobID f \<longrightarrow> event_Version e = event_Version f \<longrightarrow> e = f)
     \<and> (\<forall>e \<in> job_events r. \<forall>f \<in> job_events r. event_JobID e = event_JobID f \<longrightarrow> event_Version f = event_Version e + 1 \<longrightarrow>
          event_FromStatus f = event_ToStatus e \<and> legal_event f)
     \<and> (\<forall>k job. map_of (aiJobs r) k = Some job \<longrightarrow> 1 \<le> job_StatusVersion job
          \<and> (\<forall>v. 1 \<le> v \<longrightarrow> v \<le> job_StatusVersion job \<longrightarrow> (\<exists>e \<in> job_events r. event_JobID e = k \<and> event_Version e = v))
          \<and> (\<forall>e \<in> job_events r. event_JobID e = k \<longrightarrow> event_Version e = job_StatusVersion job \<longrightarrow> event_ToStatus e = job_Status job))"

lemma trail_keyed: "trail_ok r \<Longrightarrow> keyed job_ID (aiJobs r)" "trail_ok r \<Longrightarrow> keyed event_ID (aiJobEvents r)"
  by (simp_all add: trail_ok_def)

interpretation job_log: event_log "\<lambda>r. map_of (aiJobs r)" job_events job_StatusVersion job_Status event_JobID event_Version
    event_FromStatus event_ToStatus legal_event "\<lambda>e r. \<not> mhas (aiJobEvents r) (event_ID e)"
    "\<lambda>(operation, ob) k updated e r. write_job operation k updated e ob r"
  by unfold_locales (auto simp: write_job_def job_events_def mvalues_mput_fresh mhas_def)

lemma trail_complete: "trail_ok r \<longleftrightarrow> keyed job_ID (aiJobs r) \<and> keyed event_ID (aiJobEvents r) \<and> job_log.complete r"
  by (simp add: trail_ok_def complete_log_def)

text \<open>A job under an identifier, with the event of its version, in place of the job before it, which had all earlier events.\<close>

lemma trail_write:
  assumes ok: "trail_ok r" and k: "job_ID updated = k" "event_JobID e = k" "event_Version e = job_StatusVersion updated"
    "event_ToStatus e = job_Status updated"
    and fresh: "\<not> mhas (aiJobEvents r) (event_ID e)"
    and pre: "case map_of (aiJobs r) k of None \<Rightarrow> job_StatusVersion updated = 1
      | Some job \<Rightarrow> job_StatusVersion updated = job_StatusVersion job + 1 \<and> event_FromStatus e = job_Status job \<and> legal_event e"
  shows "trail_ok (write_job operation k updated e ob r)"
proof -
  have "job_log.complete r" using ok by (simp add: trail_complete)
  from job_log.store_complete [OF this k(2-4) fresh pre, of "(operation, ob)"]
  have "job_log.complete (write_job operation k updated e ob r)" by simp
  then show ?thesis using trail_keyed [OF ok] k by (auto simp: trail_complete write_job_def)
qed

lemma trail_move:
  assumes "trail_ok r" "map_of (aiJobs r) k = Some job" "job_moves job updated e" "check_records e ob r = None"
  shows "trail_ok (write_job operation k updated e ob r)"
proof -
  have "job_ID job = k" using keyed_lookup [OF trail_keyed(1) [OF assms(1)] assms(2)] .
  moreover have "\<not> mhas (aiJobEvents r) (event_ID e)" using assms(4) by (simp add: check_records_def split: if_splits)
  ultimately show ?thesis using assms(2,3) by (intro trail_write assms(1)) (simp_all add: job_moves_def)
qed

lemma trail_cong: "aiJobs r' = aiJobs r \<Longrightarrow> aiJobEvents r' = aiJobEvents r \<Longrightarrow> trail_ok r' = trail_ok r"
  by (simp add: trail_ok_def job_events_def)

text \<open>A job is replaced by one with the same identity, version and status, as the extension of a lease does.\<close>

lemma trail_same:
  assumes "trail_ok r" "map_of (aiJobs r) k = Some job" "job_ID job' = job_ID job" "job_StatusVersion job' = job_StatusVersion job"
    "job_Status job' = job_Status job"
  shows "trail_ok (r\<lparr>aiJobs := mput k job' (aiJobs r)\<rparr>)"
proof -
  have "job_ID job' = k" using keyed_lookup [OF trail_keyed(1) [OF assms(1)] assms(2)] assms(3) by simp
  then have "keyed job_ID (mput k job' (aiJobs r))" using trail_keyed(1) [OF assms(1)] by auto
  then show ?thesis using assms unfolding trail_ok_def by (simp add: job_events_def) (metis option.inject)
qed

section \<open>The operations keep the event log\<close>

lemma change_job_cases:
  assumes "change_job job k prepared at r = ((res, changed, err), r')"
  shows "if changed then \<exists>updated e ob operation. prepared = Inr (updated, e, ob) \<and> check_records e ob r = None \<and> res = updated \<and> err = None
      \<and> map_of (aiOperations r) (job_OperationID job) = Some operation
      \<and> r' = write_job (applyMemoryOperationJobStatus operation (job_Status updated) (job_ErrorType updated) at) k updated e ob r
    else r' = r"
  using assms by (auto simp: change_job_def Let_def split: sum.splits option.splits prod.splits)

lemma not_stale:
  assumes "\<not> job_is_stale k n fence r"
  obtains job where "map_of (aiJobs r) k = Some job" "job_at r k = job" "job_StatusVersion job = n"
    "job_FenceToken job > 0 \<longrightarrow> job_FenceToken job = fence"
  using assms by (auto simp: job_is_stale_def job_at_def split: option.splits)

text \<open>The two changes guarded by version and fence.\<close>

lemma TransitionAIJob_cases:
  assumes "TransitionAIJob k n fence to reason at r = ((res, changed, err), r')"
  shows "if changed then \<exists>job e ob operation. map_of (aiJobs r) k = Some job \<and> job_StatusVersion job = n
      \<and> (job_FenceToken job > 0 \<longrightarrow> job_FenceToken job = fence) \<and> job_moves job res e \<and> check_records e ob r = None
      \<and> r' = write_job operation k res e ob r
    else r' = r"
proof (cases "job_is_stale k n fence r")
  case True
  then show ?thesis using assms by (auto simp: TransitionAIJob_def)
next
  case False
  then obtain job where job: "map_of (aiJobs r) k = Some job" "job_at r k = job" "job_StatusVersion job = n"
    "job_FenceToken job > 0 \<longrightarrow> job_FenceToken job = fence" by (rule not_stale)
  have "change_job job k (prepareAIJobTransition job to reason at) at r = ((res, changed, err), r')"
    using assms False job(2) by (simp add: TransitionAIJob_def)
  from change_job_cases [OF this] show ?thesis using job prepareAIJobTransition_Inr [of job to reason at]
    by (auto split: if_splits)
qed

lemma RequeueAIJob_cases:
  assumes "RequeueAIJob k n fence reason next at r = ((res, changed, err), r')"
  shows "if changed then \<exists>job e ob operation. map_of (aiJobs r) k = Some job \<and> job_StatusVersion job = n
      \<and> (job_FenceToken job > 0 \<longrightarrow> job_FenceToken job = fence) \<and> job_moves job res e \<and> check_records e ob r = None
      \<and> r' = write_job operation k res e ob r
    else r' = r"
proof (cases "job_is_stale k n fence r")
  case True
  then show ?thesis using assms by (auto simp: RequeueAIJob_def)
next
  case False
  then obtain job where job: "map_of (aiJobs r) k = Some job" "job_at r k = job" "job_StatusVersion job = n"
    "job_FenceToken job > 0 \<longrightarrow> job_FenceToken job = fence" by (rule not_stale)
  let ?p = "and_then (prepareAIJobTransition job AIJobStatusQueued reason at) (\<lambda>(updated, event, outbox).
    Inr (updated\<lparr>job_NextEligibleAt := (if next > at then next else at)\<rparr>, event, outbox))"
  have c: "change_job job k ?p at r = ((res, changed, err), r')" using assms False job(2) by (simp add: RequeueAIJob_def)
  have moves: "job_moves job u e" if "?p = Inr (u, e, ob)" for u e ob
    using that prepareAIJobTransition_Inr [of job AIJobStatusQueued reason at] job_moves_fence(3) by auto
  show ?thesis
  proof (cases changed)
    case True
    then obtain e ob operation where "?p = Inr (res, e, ob)" "check_records e ob r = None"
      "r' = write_job (applyMemoryOperationJobStatus operation (job_Status res) (job_ErrorType res) at) k res e ob r"
      using change_job_cases [OF c] by auto
    with True job moves show ?thesis by auto
  next
    case False
    then show ?thesis using change_job_cases [OF c] by simp
  qed
qed

lemma ExtendAIJobQueueLease_cases:
  assumes "ExtendAIJobQueueLease k n fence token until at r = ((res, extended), r')"
  shows "r' = r \<or> (\<exists>job. map_of (aiJobs r) k = Some job \<and> job_ID res = job_ID job \<and> job_OperationID res = job_OperationID job
      \<and> job_StatusVersion res = job_StatusVersion job \<and> job_Status res = job_Status job \<and> job_FenceToken res = job_FenceToken job
      \<and> extended \<and> r' = r\<lparr>aiJobs := mput k res (aiJobs r)\<rparr>)"
    and "extended \<longrightarrow> (\<exists>job. map_of (aiJobs r) k = Some job \<and> job_FenceToken job = fence \<and> job_StatusVersion job = n)"
    and "\<not> extended \<longrightarrow> r' = r"
  using assms by (auto simp: ExtendAIJobQueueLease_def Let_def job_at_def mhas_def split: option.splits if_splits)

lemma release_same:
  assumes "releaseMemoryBillingHoldForOperation i reason at r = (err, r')"
  shows "aiJobs r' = aiJobs r" "aiJobEvents r' = aiJobEvents r" "transactionalOutboxEvents r' = transactionalOutboxEvents r"
    "aiOperations r' = aiOperations r" "auditLogs r' = auditLogs r" "err \<noteq> None \<longrightarrow> r' = r"
  using assms by (auto simp: releaseMemoryBillingHoldForOperation_def split: option.splits if_splits sum.splits)

lemma cancel_job_cases:
  assumes "cancel_job job k reason at audit r = ((res, changed, found, err), r')"
  shows "if changed then \<exists>e ob operation r1. job_moves job res e \<and> check_records e ob r = None
      \<and> job_Status res \<in> {AIJobStatusCanceled, AIJobStatusCanceling}
      \<and> (job_Status res = AIJobStatusCanceled \<longrightarrow>
          releaseMemoryBillingHoldForOperation (job_OperationID job) ''job_canceled_before_dispatch'' at r = (None, r1))
      \<and> (job_Status res \<noteq> AIJobStatusCanceled \<longrightarrow> r1 = r)
      \<and> (let r2 = write_job operation k res e ob r1
         in r' = (case audit of None \<Rightarrow> r2 | Some a \<Rightarrow> r2\<lparr>auditLogs := mput (audit_ID a) a (auditLogs r2)\<rparr>))
    else r' = r"
proof -
  define to where "to = (if job_Status job = AIJobStatusAccepted \<or> job_Status job = AIJobStatusQueued
    then AIJobStatusCanceled else AIJobStatusCanceling)"
  show ?thesis
  proof (cases changed)
    case False
    then show ?thesis using assms unfolding cancel_job_def Let_def to_def [symmetric]
      by (auto split: if_splits sum.splits prod.splits option.splits dest: release_same(6))
  next
    case True
    obtain u e ob where p: "prepareAIJobTransition job to reason at = Inr (u, e, ob)"
      using assms True unfolding cancel_job_def Let_def to_def [symmetric] by (auto split: if_splits sum.splits prod.splits)
    note u = prepareAIJobTransition_Inr [OF p]
    have res: "res = (if job_Status job = AIJobStatusDispatching then u\<lparr>job_FenceToken := job_FenceToken u + 1\<rparr> else u)"
      using assms True p unfolding cancel_job_def Let_def to_def [symmetric]
      by (auto split: if_splits sum.splits prod.splits option.splits)
    moreover have "job_moves job (u\<lparr>job_FenceToken := job_FenceToken u + 1\<rparr>) e" using u job_moves_fence(2) by blast
    ultimately have m: "job_moves job res e" "job_Status res = to" using u by auto
    have "check_records e ob r = None \<and> (\<exists>operation r1.
        (if to = AIJobStatusCanceled then releaseMemoryBillingHoldForOperation (job_OperationID job) ''job_canceled_before_dispatch'' at r
         else (None, r)) = (None, r1)
      \<and> r' = (case audit of None \<Rightarrow> write_job operation k res e ob r1
          | Some a \<Rightarrow> (write_job operation k res e ob r1)\<lparr>auditLogs := mput (audit_ID a) a (auditLogs (write_job operation k res e ob r1))\<rparr>))"
      using assms True p unfolding cancel_job_def Let_def to_def [symmetric]
      by (auto split: if_splits sum.splits prod.splits option.splits)
    with True m show ?thesis by (auto simp: to_def Let_def split: if_splits)
  qed
qed

section \<open>Jobs only advance\<close>

definition job_advances :: "AIJob \<Rightarrow> AIJob \<Rightarrow> bool" where
  "job_advances a b \<longleftrightarrow> job_ID b = job_ID a \<and> job_OperationID b = job_OperationID a \<and> job_FenceToken a \<le> job_FenceToken b
     \<and> job_StatusVersion a \<le> job_StatusVersion b \<and> status_run (job_Status a) (job_Status b)"

definition advances :: "MemoryRepository \<Rightarrow> MemoryRepository \<Rightarrow> bool" where
  "advances r r' \<longleftrightarrow> (\<forall>k job. map_of (aiJobs r) k = Some job \<longrightarrow> (\<exists>job'. map_of (aiJobs r') k = Some job' \<and> job_advances job job'))"

lemma status_run_trans: "status_run t u \<Longrightarrow> status_run s t \<Longrightarrow> status_run s u"
  by (induction rule: status_run.induct) (auto intro: status_run.move)

lemma job_advances_refl [simp]: "job_advances a a"
  by (simp add: job_advances_def status_run.start)

lemma job_advances_trans: "job_advances a b \<Longrightarrow> job_advances b c \<Longrightarrow> job_advances a c"
  using status_run_trans by (auto simp: job_advances_def)

lemma advances_refl [simp]: "advances r r"
  by (simp add: advances_def)

lemma advances_trans: "advances r s \<Longrightarrow> advances s t \<Longrightarrow> advances r t"
  unfolding advances_def using job_advances_trans by meson

lemma advances_cong: "aiJobs s = aiJobs r \<Longrightarrow> advances r s"
  by (auto simp: advances_def)

lemma legal_run: "legal_event e \<Longrightarrow> status_run (event_FromStatus e) (event_ToStatus e)"
  by (auto simp: legal_event_def intro: status_run.start status_run.move)

lemma job_moves_advances: "job_moves job u e \<Longrightarrow> job_advances job u"
  using legal_run [of e] by (auto simp: job_moves_def job_advances_def)

lemma advances_put: "map_of (aiJobs r) k = Some job \<Longrightarrow> job_advances job u \<Longrightarrow> aiJobs s = mput k u (aiJobs r) \<Longrightarrow> advances r s"
  by (auto simp: advances_def)

section \<open>Claims\<close>

lemma write_job_jobs [simp]:
  "aiJobs (write_job operation k u e ob r) = mput k u (aiJobs r)"
  "auditLogs (write_job operation k u e ob r) = auditLogs r"
  by (simp_all add: write_job_def)

text \<open>
  What a claim gives: the job, which was ready, in the next version and under the next fence, leased to the worker; the others as they were.
\<close>

definition claim_of :: "gotime \<Rightarrow> string \<Rightarrow> string \<Rightarrow> AIJob \<Rightarrow> AIJob \<Rightarrow> bool" where
  "claim_of until workerID token job c \<longleftrightarrow> job_ID c = job_ID job \<and> job_OperationID c = job_OperationID job
     \<and> job_Status c = AIJobStatusDispatching
     \<and> job_StatusVersion c = job_StatusVersion job + 1 \<and> job_FenceToken c = job_FenceToken job + 1
     \<and> job_QueueLeaseUntil c = Some until \<and> job_QueueLeaseToken c = token \<and> job_QueueWorkerID c = workerID"

lemma prepare_claim_of:
  assumes "prepareAIJobClaim job now = Inr (u, e, ob)"
  shows "claim_of until workerID token job (claimed_job u until workerID token)"
  using prepareAIJobClaim_Inr [OF assms] by (simp add: claim_of_def claimed_job_def job_moves_def)

definition claimed_ids :: "AIJob list \<Rightarrow> string set" where
  "claimed_ids js = job_ID ` set js"

lemma claims_ids: "list_all2 (claim_of until workerID token) xs ys \<Longrightarrow> map job_ID ys = map job_ID xs"
  by (induction rule: list_all2_induct) (simp_all add: claim_of_def)

text \<open>A claim loop keeps the log, whether it ends with its list or with an error.\<close>

lemma claim_loop_trail:
  assumes "trail_ok r" "distinct (map job_ID cs)" "\<forall>c \<in> set cs. map_of (aiJobs r) (job_ID c) = Some c"
    and "claim_loop cs now until workerID token limit acc r = (res, r')"
  shows "trail_ok r' \<and> advances r r'"
  using assms
proof (induction cs arbitrary: acc r)
  case (Cons c cs)
  show ?case
  proof (cases "int (length acc) \<ge> limit")
    case True
    then show ?thesis using Cons.prems by simp
  next
    case False
    show ?thesis
    proof (cases "prepareAIJobClaim c now")
      case (Inl err)
      then show ?thesis using Cons.prems False by simp
    next
      case (Inr p)
      obtain u e ob where p: "p = (u, e, ob)" by (cases p)
      let ?u = "claimed_job u until workerID token"
      have m: "job_moves c ?u e" using prepareAIJobClaim_Inr [of c now u e ob] Inr p job_moves_fence(1) by simp
      show ?thesis
      proof (cases "check_records e ob r")
        case None
        let ?r = "write_job (applyMemoryOperationJobStatus (operation_at r (job_OperationID c)) (job_Status ?u) (job_ErrorType ?u) now)
          (job_ID ?u) ?u e ob r"
        have idn: "job_ID ?u = job_ID c" using m by (simp add: job_moves_def)
        have adv: "advances r ?r" using advances_put [of r "job_ID c" c ?u ?r] Cons.prems(3) job_moves_advances [OF m] idn by simp
        have ok: "trail_ok ?r" using trail_move [OF Cons.prems(1) _ m None] Cons.prems(3) idn by simp
        have "\<forall>d \<in> set cs. map_of (aiJobs ?r) (job_ID d) = Some d" using Cons.prems(2,3) idn by (auto simp: image_iff)
        from Cons.IH [OF ok _ this, of "acc @ [?u]"] Cons.prems(2,4) False Inr p None advances_trans [OF adv] show ?thesis
          by (simp add: Let_def)
      next
        case (Some err)
        then show ?thesis using Cons.prems False Inr p by simp
      qed
    qed
  qed
qed simp

lemma claim_loop_claims:
  assumes "distinct (map job_ID cs)" "\<forall>c \<in> set cs. map_of (aiJobs r) (job_ID c) = Some c"
    and "claim_loop cs now until workerID token limit acc r = (Inr out, r')"
  shows "\<exists>n. n \<le> length cs \<and> (0 \<le> limit - int (length acc) \<longrightarrow> int n \<le> limit - int (length acc)) \<and> (limit \<le> int (length acc) \<longrightarrow> n = 0)
    \<and> (\<exists>new. out = acc @ new \<and> list_all2 (claim_of until workerID token) (take n cs) new
      \<and> (\<forall>c \<in> set new. map_of (aiJobs r') (job_ID c) = Some c)
      \<and> (\<forall>k. k \<notin> claimed_ids new \<longrightarrow> map_of (aiJobs r') k = map_of (aiJobs r) k))"
  using assms
proof (induction cs arbitrary: acc r)
  case Nil
  then show ?case by (intro exI [of _ 0]) (simp add: claimed_ids_def)
next
  case (Cons c cs)
  show ?case
  proof (cases "int (length acc) \<ge> limit")
    case True
    then show ?thesis using Cons.prems by (intro exI [of _ 0]) (simp add: claimed_ids_def)
  next
    case False
    obtain u e ob where p: "prepareAIJobClaim c now = Inr (u, e, ob)" using Cons.prems(3) False
      by (auto split: sum.splits prod.splits)
    let ?u = "claimed_job u until workerID token"
    have claim: "claim_of until workerID token c ?u" using prepare_claim_of [OF p] .
    then have idn: "job_ID ?u = job_ID c" by (simp add: claim_of_def)
    have none: "check_records e ob r = None" using Cons.prems(3) False p by (auto simp: Let_def split: option.splits)
    let ?r = "write_job (applyMemoryOperationJobStatus (operation_at r (job_OperationID c)) (job_Status ?u) (job_ErrorType ?u) now)
          (job_ID ?u) ?u e ob r"
    have loop: "claim_loop cs now until workerID token limit (acc @ [?u]) ?r = (Inr out, r')"
      using Cons.prems(3) False p none by (simp add: Let_def)
    have stored: "\<forall>d \<in> set cs. map_of (aiJobs ?r) (job_ID d) = Some d" using Cons.prems(1,2) idn by (auto simp: image_iff)
    have "distinct (map job_ID cs)" using Cons.prems(1) by simp
    from Cons.IH [OF this stored loop] obtain n new where n: "n \<le> length cs"
        "0 \<le> limit - int (length (acc @ [?u])) \<longrightarrow> int n \<le> limit - int (length (acc @ [?u]))"
        "limit \<le> int (length (acc @ [?u])) \<longrightarrow> n = 0"
      and new: "out = (acc @ [?u]) @ new" "list_all2 (claim_of until workerID token) (take n cs) new"
        "\<forall>c \<in> set new. map_of (aiJobs r') (job_ID c) = Some c"
        "\<forall>k. k \<notin> claimed_ids new \<longrightarrow> map_of (aiJobs r') k = map_of (aiJobs ?r) k" by blast
    have ids: "claimed_ids new \<subseteq> job_ID ` set cs"
      using claims_ids [OF new(2)] set_take_subset [of n cs] by (metis claimed_ids_def image_mono list.set_map)
    then have "job_ID c \<notin> claimed_ids new" using Cons.prems(1) by auto
    then have "map_of (aiJobs r') (job_ID c) = Some ?u" using new(4) idn by simp
    moreover have "\<forall>k. k \<notin> claimed_ids (?u # new) \<longrightarrow> map_of (aiJobs r') k = map_of (aiJobs r) k"
      using new(4) idn by (simp add: claimed_ids_def)
    moreover have "list_all2 (claim_of until workerID token) (take (Suc n) (c # cs)) (?u # new)" using new(2) claim by simp
    moreover have "int (Suc n) \<le> limit - int (length acc)" using n(2,3) False by (cases "limit \<le> int (length (acc @ [?u]))") auto
    moreover have "out = acc @ (?u # new)" using new(1) by simp
    moreover have "\<forall>d \<in> set (?u # new). map_of (aiJobs r') (job_ID d) = Some d" using calculation(1) new(3) idn by simp
    ultimately show ?thesis using n(1) False by (intro exI [of _ "Suc n"] conjI exI [of _ "?u # new"]) simp_all
  qed
qed

lemma distinct_map_submset: "mset xs \<subseteq># mset ys \<Longrightarrow> distinct (map f ys) \<Longrightarrow> distinct (map f xs)"
  by (metis distinct_append ex_mset image_mset_subseteq_mono mset_append mset_eq_imp_distinct_iff mset_map
      subset_mset.le_iff_add)

text \<open>The candidates of both claims are stored jobs with distinct identifiers.\<close>

lemma ranked_candidates:
  assumes "keyed job_ID (aiJobs r)"
  shows "distinct (map job_ID (rankAIJobFairCandidates (filter P (mvalues (aiJobs r))) jobs acts now limit))
    \<and> (\<forall>c \<in> set (rankAIJobFairCandidates (filter P (mvalues (aiJobs r))) jobs acts now limit).
        P c \<and> map_of (aiJobs r) (job_ID c) = Some c)
    \<and> length (rankAIJobFairCandidates (filter P (mvalues (aiJobs r))) jobs acts now limit) \<le> nat limit"
proof -
  let ?out = "rankAIJobFairCandidates (filter P (mvalues (aiJobs r))) jobs acts now limit"
  note out = rank_mset [of "filter P (mvalues (aiJobs r))" jobs acts now limit]
  have "distinct (map job_ID (filter P (mvalues (aiJobs r))))" using keyed_distinct [OF assms] by (simp add: distinct_map_filter)
  with out have "distinct (map job_ID ?out)" using distinct_map_submset by blast
  moreover have "P c \<and> map_of (aiJobs r) (job_ID c) = Some c" if "c \<in> set ?out" for c
  proof -
    have "c \<in> set (filter P (mvalues (aiJobs r)))" using out that by (metis mset_subset_eqD set_mset_mset)
    then show ?thesis using keyed_value [OF assms, of c] by simp
  qed
  ultimately show ?thesis using out by blast
qed

section \<open>The operations as steps\<close>

lemma Create_job_cases:
  assumes "CreateDurableAIJob operation job event outbox limits billing r = ((res, created, err), r')"
  shows "if created then res = job \<and> err = None \<and> validateDurableAIJobAdmission (normalizeAIOperation operation) job event outbox = None
      \<and> validateBillingHoldAdmission (normalizeAIOperation operation) billing = None
      \<and> find (\<lambda>current. sameAIJobIdempotencyScope current job) (mvalues (aiJobs r)) = None
      \<and> check_new_job (normalizeAIOperation operation) job event outbox limits billing r = None
      \<and> r' = write_job (normalizeAIOperation operation) (job_ID job) job event outbox (insert_hold (normalizeAIOperation operation) billing r)
    else r' = r"
proof -
  obtain n where n: "n = normalizeAIOperation operation" by simp
  show ?thesis using assms unfolding CreateDurableAIJob_def Let_def n [symmetric]
    by (auto split: option.splits)
qed

lemma check_new_job_None:
  assumes "check_new_job operation job event outbox limits billing r = None"
  shows "enforceAIJobAdmissionLimits limits (aiJobAdmissionCountsForJobs (aiJobs r) job) = None"
    "\<not> mhas (aiOperations r) (op_ID operation)" "\<not> mhas (aiJobs r) (job_ID job)" "check_records event outbox r = None"
    "\<not> mhas (billingHolds r) (hold_ID (adm_Hold billing))" "memoryBillingHoldForOperation (billingHolds r) (op_ID operation) = None"
    "enforceMemoryBillingHoldBudget r billing = None"
  using assms unfolding check_new_job_def by (auto split: option.splits if_splits)

lemma validate_job_None:
  assumes "validateDurableAIJobAdmission operation job event outbox = None"
  shows "op_ID operation = job_OperationID job" "job_ID job \<noteq> []" "job_Status job = AIJobStatusQueued" "job_StatusVersion job = 1"
    "event_JobID event = job_ID job" "event_Version event = 1" "job_IdempotencyKey job \<noteq> []"
    "outbox_AggregateID outbox = job_ID job"
  using assms by (auto simp: validateDurableAIJobAdmission_def split: if_splits)

lemma insert_hold_jobs [simp]:
  "aiJobs (insert_hold operation billing r) = aiJobs r" "aiJobEvents (insert_hold operation billing r) = aiJobEvents r"
  "transactionalOutboxEvents (insert_hold operation billing r) = transactionalOutboxEvents r"
  by (simp_all add: insert_hold_def)

inductive job_step :: "MemoryRepository \<Rightarrow> MemoryRepository \<Rightarrow> bool" where
  create: "CreateDurableAIJob operation job event outbox limits billing r = (result, r') \<Longrightarrow>
    event_ToStatus event = AIJobStatusQueued \<Longrightarrow> job_step r r'"
| transition: "TransitionAIJob i n fence toStatus reason at r = (result, r') \<Longrightarrow> job_step r r'"
| requeue: "RequeueAIJob i n fence reason next at r = (result, r') \<Longrightarrow> job_step r r'"
| extend: "ExtendAIJobQueueLease i n fence token until at r = (result', r') \<Longrightarrow> job_step r r'"
| cancel: "RequestAIJobCancellation i owner at r = (answer, r') \<Longrightarrow> job_step r r'"
| admin_cancel: "RequestAIJobAdminCancellation i at audit r = (answer, r') \<Longrightarrow> job_step r r'"
| claim: "ClaimQueuedAIJobs now until workerID token limit r = (claimed, r') \<Longrightarrow> job_step r r'"
| claim_references: "ClaimAIJobsByReadyReferences references now until workerID token limit r = (claimed, r') \<Longrightarrow> job_step r r'"

lemma change_step:
  assumes "trail_ok r" "map_of (aiJobs r) k = Some job" "job_moves job u e" "check_records e ob r = None"
  shows "trail_ok (write_job operation k u e ob r) \<and> advances r (write_job operation k u e ob r)"
  using trail_move [OF assms] advances_put [OF assms(2) job_moves_advances [OF assms(3)]] by simp

lemma cancel_step:
  assumes "trail_ok r" "map_of (aiJobs r) k = Some job" "cancel_job job k reason at audit r = (answer, r')"
  shows "trail_ok r' \<and> advances r r'"
proof -
  obtain res changed found err where answer: "answer = (res, changed, found, err)" by (metis prod_cases4)
  show ?thesis
  proof (cases changed)
    case True
    with cancel_job_cases [of job k reason at audit r res changed found err r'] assms(3) answer obtain e ob operation r1 where
      m: "job_moves job res e" "check_records e ob r = None"
      and r1: "job_Status res = AIJobStatusCanceled \<longrightarrow>
          releaseMemoryBillingHoldForOperation (job_OperationID job) ''job_canceled_before_dispatch'' at r = (None, r1)"
        "job_Status res \<noteq> AIJobStatusCanceled \<longrightarrow> r1 = r"
      and r': "let r2 = write_job operation k res e ob r1
         in r' = (case audit of None \<Rightarrow> r2 | Some a \<Rightarrow> r2\<lparr>auditLogs := mput (audit_ID a) a (auditLogs r2)\<rparr>)" by auto
    have same: "aiJobs r1 = aiJobs r" "aiJobEvents r1 = aiJobEvents r" "transactionalOutboxEvents r1 = transactionalOutboxEvents r"
      using r1 release_same(1-3) by metis+
    have "trail_ok r1" using assms(1) trail_cong [OF same(1,2)] by simp
    moreover have "check_records e ob r1 = None" using m(2) same by (simp add: check_records_def split: if_splits)
    ultimately have w: "trail_ok (write_job operation k res e ob r1) \<and> advances r1 (write_job operation k res e ob r1)"
      using change_step m(1) assms(2) same(1) by simp
    have eq: "aiJobs r' = aiJobs (write_job operation k res e ob r1)" "aiJobEvents r' = aiJobEvents (write_job operation k res e ob r1)"
      using r' by (auto simp: Let_def split: option.splits)
    show ?thesis using w trail_cong [OF eq] eq(1) same(1) by (simp add: advances_def)
  next
    case False
    then show ?thesis using cancel_job_cases [of job k reason at audit r res changed found err r'] assms answer by simp
  qed
qed

lemma claim_step:
  assumes "trail_ok r" "claimAIJobCandidatesLocked (rankAIJobFairCandidates (filter P (mvalues (aiJobs r))) jobs acts now limit)
    now until workerID token limit r = (claimed, r')"
  shows "trail_ok r' \<and> advances r r'"
proof -
  let ?cs = "rankAIJobFairCandidates (filter P (mvalues (aiJobs r))) jobs acts now limit"
  note c = ranked_candidates [OF trail_keyed(1) [OF assms(1)], of P jobs acts now limit]
  have "distinct (map job_ID ?cs)" "\<forall>c \<in> set ?cs. map_of (aiJobs r) (job_ID c) = Some c" using c by blast+
  from claim_loop_trail [OF assms(1) this, of now until workerID token limit "[]" claimed r'] assms(2)
  show ?thesis by (simp add: claimAIJobCandidatesLocked_def)
qed

lemma create_step:
  assumes "trail_ok r" "CreateDurableAIJob operation job event outbox limits billing r = (result, r')" "event_ToStatus event = AIJobStatusQueued"
  shows "trail_ok r' \<and> advances r r'"
proof -
  obtain res created err where result: "result = (res, created, err)" by (cases result)
  show ?thesis
  proof (cases created)
    case True
    let ?n = "normalizeAIOperation operation"
    have c: "validateDurableAIJobAdmission ?n job event outbox = None" "check_new_job ?n job event outbox limits billing r = None"
        "r' = write_job ?n (job_ID job) job event outbox (insert_hold ?n billing r)"
      using Create_job_cases [of operation job event outbox limits billing r res created err r'] True assms(2) result by simp_all
    note v = validate_job_None [OF c(1)] and n = check_new_job_None [OF c(2)]
    have ok: "trail_ok (insert_hold ?n billing r)" using assms(1) trail_cong [of "insert_hold ?n billing r" r] by simp
    have nev: "\<not> mhas (aiJobEvents r) (event_ID event)" using n(4) by (simp add: check_records_def split: if_splits)
    have fresh: "map_of (aiJobs r) (job_ID job) = None" using n(3) by (simp add: mhas_def)
    have "trail_ok (write_job ?n (job_ID job) job event outbox (insert_hold ?n billing r))"
    proof (rule trail_write [OF ok])
      show "event_Version event = job_StatusVersion job" "event_ToStatus event = job_Status job" using v(3,4,6) assms(3) by simp_all
      show "\<not> mhas (aiJobEvents (insert_hold ?n billing r)) (event_ID event)" using nev by simp
      show "case map_of (aiJobs (insert_hold ?n billing r)) (job_ID job) of None \<Rightarrow> job_StatusVersion job = 1
        | Some old \<Rightarrow> job_StatusVersion job = job_StatusVersion old + 1 \<and> event_FromStatus event = job_Status old \<and> legal_event event"
        using fresh v(4) by simp
    qed (rule refl, rule v(5))
    then have "trail_ok r'" using c(3) by simp
    moreover have "advances r r'" using fresh c(3) by (auto simp: advances_def)
    ultimately show ?thesis ..
  next
    case False
    then show ?thesis using Create_job_cases [of operation job event outbox limits billing r res created err r'] assms result by simp
  qed
qed

lemma job_step_ok:
  assumes "job_step r r'" "trail_ok r"
  shows "trail_ok r' \<and> advances r r'"
  using assms(1)
proof (cases rule: job_step.cases)
  case (create operation job event outbox limits billing result)
  then show ?thesis using create_step assms(2) by blast
next
  case (transition i n fence toStatus reason at result)
  obtain res changed err where result: "result = (res, changed, err)" by (cases result)
  show ?thesis using TransitionAIJob_cases [of i n fence toStatus reason at r res changed err r'] transition result assms(2)
      change_step by (auto split: if_splits)
next
  case (requeue i n fence reason "next" at result)
  obtain res changed err where result: "result = (res, changed, err)" by (cases result)
  show ?thesis using RequeueAIJob_cases [of i n fence reason "next" at r res changed err r'] requeue result assms(2)
      change_step by (auto split: if_splits)
next
  case (extend i n fence token until at result')
  obtain res extended where result: "result' = (res, extended)" by (cases result')
  have "r' = r \<or> (\<exists>job. map_of (aiJobs r) i = Some job \<and> job_ID res = job_ID job \<and> job_OperationID res = job_OperationID job
      \<and> job_StatusVersion res = job_StatusVersion job \<and> job_Status res = job_Status job \<and> job_FenceToken res = job_FenceToken job
      \<and> extended \<and> r' = r\<lparr>aiJobs := mput i res (aiJobs r)\<rparr>)"
    using ExtendAIJobQueueLease_cases(1) extend result by blast
  then show ?thesis
  proof (elim disjE exE conjE)
    fix job
    assume job: "map_of (aiJobs r) i = Some job" "job_ID res = job_ID job" "job_OperationID res = job_OperationID job"
      "job_StatusVersion res = job_StatusVersion job" "job_Status res = job_Status job" "job_FenceToken res = job_FenceToken job"
      and r': "r' = r\<lparr>aiJobs := mput i res (aiJobs r)\<rparr>"
    have "job_advances job res" using job by (simp add: job_advances_def status_run.start)
    then show ?thesis using trail_same [OF assms(2) job(1,2,4,5)] advances_put [OF job(1)] r' by simp
  qed (use assms(2) in simp)
next
  case (cancel i owner at answer)
  then show ?thesis using cancel_step assms(2)
    by (auto simp: RequestAIJobCancellation_def split: option.splits if_splits)
next
  case (admin_cancel i at audit answer)
  then show ?thesis
  proof (cases "map_of (aiJobs r) (TrimSpace i)")
    case (Some job)
    have "job_ID job = TrimSpace i" using keyed_lookup [OF trail_keyed(1) [OF assms(2)] Some] .
    then show ?thesis using cancel_step [OF assms(2) Some] admin_cancel Some by (simp add: RequestAIJobAdminCancellation_def)
  qed (use assms(2) in \<open>simp add: RequestAIJobAdminCancellation_def\<close>)
next
  case (claim now until workerID token limit claimed)
  then show ?thesis using claim_step [OF assms(2)] assms(2) by (auto simp: ClaimQueuedAIJobs_def Let_def split: if_splits)
next
  case (claim_references references now until workerID token limit claimed)
  then show ?thesis using claim_step [OF assms(2)] assms(2) by (auto simp: ClaimAIJobsByReadyReferences_def Let_def split: if_splits)
qed

lemma job_run_ok: "job_step\<^sup>*\<^sup>* r r' \<Longrightarrow> trail_ok r \<Longrightarrow> trail_ok r' \<and> advances r r'"
proof (induction rule: rtranclp_induct)
  case (step s t)
  then show ?case using job_step_ok [of s t] advances_trans by blast
qed simp

section \<open>The properties of durable jobs\<close>

lemma trail_new: "trail_ok NewMemoryRepository"
  by (simp add: trail_ok_def NewMemoryRepository_def job_events_def mvalues_def)

lemma job_events_log:
  assumes "trail_ok r" "i \<noteq> []"
  shows "set (ListAIJobEvents i r) = {e \<in> job_events r. event_JobID e = i}"
    and "distinct (ListAIJobEvents i r)" and "sorted (map event_Version (ListAIJobEvents i r))"
  using listing_sorted [where P = "\<lambda>e. i = [] \<or> event_JobID e = i" and eobject = event_JobID and k = i and ever = event_Version
      and before = event_order, OF trail_keyed(2) [OF assms(1)] _ _ refl] assms(2)
  by (simp_all add: ListAIJobEvents_def job_events_def event_order_def)

text \<open>
  C1. The event log of a job is its complete history: after any run of the methods from the empty repository, in which jobs are created with a
  first event into \<open>queued\<close>, \<open>ListAIJobEvents\<close> lists the events of the versions 1, 2, up to the job's version, each
  starts from the status in which the one before ended and is a move of the state machine or the reassignment of an expired lease, and the
  last ends in the job's status.
\<close>

theorem job_event_log_complete:
  assumes "job_step\<^sup>*\<^sup>* NewMemoryRepository r" "map_of (aiJobs r) i = Some job" "i \<noteq> []"
  shows "let log = ListAIJobEvents i r in map event_Version log = [1..job_StatusVersion job]
    \<and> log \<noteq> [] \<and> event_ToStatus (last log) = job_Status job
    \<and> (\<forall>n. Suc n < length log \<longrightarrow> event_FromStatus (log ! Suc n) = event_ToStatus (log ! n) \<and> legal_event (log ! Suc n))"
proof -
  have ok: "trail_ok r" using job_run_ok [OF assms(1) trail_new] by blast
  then have "job_log.complete r" by (simp add: trail_complete)
  from job_log.listing_history [OF this assms(2) job_events_log [OF ok assms(3)]] show ?thesis unfolding Let_def .
qed

definition demo_job_operation :: AIOperation where
  "demo_job_operation = demo_funded\<lparr>op_Lane := ''durable'', op_Status := AIOperationStatusAccepted,
     op_ArtifactPolicy := GatewayArtifactPolicyManaged\<rparr>"

definition demo_job :: AIJob where
  "demo_job = zero_AIJob\<lparr>job_ID := ''job_1'', job_OperationID := ''op_1'', job_Status := AIJobStatusQueued, job_StatusVersion := 1,
     job_RequestFingerprint := ''f'', job_IdempotencyKey := ''k'', job_RequestPayloadCiphertext := ''c'',
     job_ArtifactPolicy := GatewayArtifactPolicyManaged\<rparr>"

definition demo_event :: AIJobEvent where
  "demo_event = \<lparr>event_ID = ''e1'', event_JobID = ''job_1'', event_Version = 1, event_EventType = AIJobEventQueued,
     event_FromStatus = AIJobStatusAccepted, event_ToStatus = AIJobStatusQueued, event_Reason = [], event_CreatedAt = 1\<rparr>"

definition demo_outbox :: TransactionalOutboxEvent where
  "demo_outbox = zero_TransactionalOutboxEvent\<lparr>outbox_ID := ''o1'', outbox_AggregateType := AIJobOutboxAggregate,
     outbox_AggregateID := ''job_1'', outbox_EventType := AIJobEventQueued, outbox_EventVersion := 1\<rparr>"

definition demo_limits :: AIJobAdmissionLimits where
  "demo_limits = \<lparr>limit_Profile = 1, limit_Tenant = 0, limit_Principal = 0\<rparr>"

definition demo_repository :: MemoryRepository where
  "demo_repository = snd (CreateDurableAIJob demo_job_operation demo_job demo_event demo_outbox demo_limits demo_admission NewMemoryRepository)"

lemma demo_job_created: "CreateDurableAIJob demo_job_operation demo_job demo_event demo_outbox demo_limits demo_admission NewMemoryRepository
    = ((demo_job, True, None), demo_repository)"
proof -
  have "fst (CreateDurableAIJob demo_job_operation demo_job demo_event demo_outbox demo_limits demo_admission NewMemoryRepository)
    = (demo_job, True, None)" by code_simp
  then show ?thesis by (simp add: demo_repository_def prod_eq_iff)
qed

lemma demo_repository_run: "job_step\<^sup>*\<^sup>* NewMemoryRepository demo_repository"
  using demo_job_created by (intro r_into_rtranclp job_step.create) (auto simp: demo_event_def)

lemma demo_repository_job: "map_of (aiJobs demo_repository) ''job_1'' = Some demo_job"
  by code_simp

theorem job_event_log_complete_witness:
  "map event_Version (ListAIJobEvents ''job_1'' demo_repository) = [1..1]"
  using job_event_log_complete [OF demo_repository_run demo_repository_job] by (simp add: Let_def demo_job_def)

text \<open>
  C2. Fencing: once a job has a fence token, no holder of an earlier one can change it, at any later time, whatever happens in between
  and whichever version it presents: its transitions, requeues and lease extensions are refused and change nothing.
\<close>

theorem job_fencing:
  assumes "job_step\<^sup>*\<^sup>* NewMemoryRepository r" "map_of (aiJobs r) i = Some job" "0 \<le> fence" "fence < job_FenceToken job"
    and "job_step\<^sup>*\<^sup>* r r'"
  shows "TransitionAIJob i n fence toStatus reason at r' = ((job_at r' i, False, None), r')
    \<and> RequeueAIJob i n fence reason next at r' = ((job_at r' i, False, None), r')
    \<and> (\<exists>old. ExtendAIJobQueueLease i n fence token until at r' = ((old, False), r'))"
proof -
  have "trail_ok r" using job_run_ok [OF assms(1) trail_new] by blast
  from job_run_ok [OF assms(5) this] assms(2) obtain job' where job': "map_of (aiJobs r') i = Some job'" "job_advances job job'"
    by (auto simp: advances_def)
  have stale: "job_is_stale i n fence r'" using job' assms(3,4) by (simp add: job_is_stale_def job_advances_def)
  obtain res extended r'' where e: "ExtendAIJobQueueLease i n fence token until at r' = ((res, extended), r'')"
    by (metis prod.collapse)
  have "\<not> extended" using ExtendAIJobQueueLease_cases(2) [OF e] job' assms(4) by (auto simp: job_advances_def)
  with e ExtendAIJobQueueLease_cases(3) [OF e] show ?thesis using stale by (simp add: TransitionAIJob_def RequeueAIJob_def)
qed

lemma demo_repository_events: "aiJobEvents demo_repository = [(''e1'', demo_event)]"
  by code_simp

lemma demo_repository_outbox: "transactionalOutboxEvents demo_repository = [(''o1'', demo_outbox)]"
  by code_simp

lemma demo_repository_jobs: "aiJobs demo_repository = [(''job_1'', demo_job)]"
  by code_simp

lemma demo_candidates: "aiJobReadyForClaim demo_job 10"
    "rankAIJobFairCandidates [demo_job] [demo_job] (dispatch_activities demo_repository) 10 5 = [demo_job]"
  by code_simp+

definition demo_claim :: "(go_error + AIJob list) \<times> MemoryRepository" where
  "demo_claim = ClaimQueuedAIJobs 10 20 ''w1'' ''t1'' 5 demo_repository"

definition demo_claimed :: AIJob where
  "demo_claimed = claimed_job (transition_job demo_job AIJobStatusDispatching [] 10) 20 ''w1'' ''t1''"

lemma demo_claim_run: "job_step\<^sup>*\<^sup>* NewMemoryRepository (snd demo_claim)"
  using demo_repository_run job_step.claim [of 10 20 "''w1''" "''t1''" 5 demo_repository "fst demo_claim" "snd demo_claim"]
  by (simp add: demo_claim_def)

lemma demo_prepared: "\<exists>e ob. prepareAIJobClaim demo_job 10 = Inr (transition_job demo_job AIJobStatusDispatching [] 10, e, ob)
    \<and> check_records e ob demo_repository = None"
proof -
  have "aiJobStatusTransitionAllowed AIJobStatusQueued AIJobStatusDispatching [] \<and> aiJobEventType AIJobStatusDispatching \<noteq> []
      \<and> AIJobStatusQueued \<noteq> AIJobStatusDispatching" by code_simp
  then show ?thesis
    by (simp add: prepareAIJobClaim_def prepareAIJobTransition_def with_records_def newAIJobTransitionRecords_def
        newAIJobEventRecords_def Let_def check_records_def validateMemoryOutboxInsert_def demo_repository_events demo_repository_outbox
        mhas_def mvalues_def demo_job_def demo_outbox_def)
qed

lemma demo_claim_job: "fst demo_claim = Inr [demo_claimed] \<and> map_of (aiJobs (snd demo_claim)) ''job_1'' = Some demo_claimed"
proof -
  obtain e ob where p: "prepareAIJobClaim demo_job 10 = Inr (transition_job demo_job AIJobStatusDispatching [] 10, e, ob)"
    "check_records e ob demo_repository = None" using demo_prepared by blast
  have "mvalues (aiJobs demo_repository) = [demo_job]" by (simp add: demo_repository_jobs mvalues_def)
  moreover have "TrimSpace ''w1'' \<noteq> [] \<and> TrimSpace ''t1'' \<noteq> []" by code_simp
  moreover have "job_ID demo_claimed = ''job_1''" by (simp add: demo_claimed_def claimed_job_def demo_job_def)
  ultimately show ?thesis
    by (simp add: demo_claim_def ClaimQueuedAIJobs_def claimAIJobCandidatesLocked_def demo_candidates p demo_claimed_def [symmetric] Let_def)
qed

theorem job_fencing_witness:
  "job_FenceToken demo_claimed = 1 \<and> TransitionAIJob ''job_1'' 2 0 AIJobStatusRunning [] 11 (snd demo_claim)
     = ((job_at (snd demo_claim) ''job_1'', False, None), snd demo_claim)"
proof -
  have "job_FenceToken demo_claimed = 1" by code_simp
  with job_fencing [OF demo_claim_run, of "''job_1''" demo_claimed 0 "snd demo_claim" 2 AIJobStatusRunning "[]" 11] demo_claim_job
  show ?thesis by simp
qed

end
