(* ===== verification/AI_Job_Claims.thy ===== *)
theory AI_Job_Claims
  imports AI_Job_Trail
begin

text \<open>
  What a caller of the job methods can rely on: a claim takes only ready jobs and holds them until its lease ends, an admission is
  atomic, idempotent and within the limits of the queue, a cancellation is for the owner only and frees the reserved budget, and the
  pages of the administration's query are one sorted list.
\<close>

section \<open>Claims\<close>

lemma claim_result:
  assumes ok: "trail_ok r"
    and claim: "claimAIJobCandidatesLocked (rankAIJobFairCandidates (filter P (mvalues (aiJobs r))) jobs acts now limit)
      now until workerID token limit r = (Inr claimed, r')"
  shows "distinct (map job_ID claimed)" and "0 \<le> limit \<Longrightarrow> int (length claimed) \<le> limit"
    and "\<And>c. c \<in> set claimed \<Longrightarrow> \<exists>job. map_of (aiJobs r) (job_ID c) = Some job \<and> P job \<and> claim_of until workerID token job c
      \<and> map_of (aiJobs r') (job_ID c) = Some c"
    and "\<And>k. k \<notin> claimed_ids claimed \<Longrightarrow> map_of (aiJobs r') k = map_of (aiJobs r) k"
proof -
  let ?cs = "rankAIJobFairCandidates (filter P (mvalues (aiJobs r))) jobs acts now limit"
  note c = ranked_candidates [OF trail_keyed(1) [OF ok], of P jobs acts now limit]
  have "distinct (map job_ID ?cs)" "\<forall>c \<in> set ?cs. map_of (aiJobs r) (job_ID c) = Some c" using c by blast+
  from claim_loop_claims [OF this claim [unfolded claimAIJobCandidatesLocked_def]] obtain n where n: "n \<le> length ?cs"
    "0 \<le> limit \<longrightarrow> int n \<le> limit"
    and new: "list_all2 (claim_of until workerID token) (take n ?cs) claimed"
      "\<forall>c \<in> set claimed. map_of (aiJobs r') (job_ID c) = Some c"
      "\<forall>k. k \<notin> claimed_ids claimed \<longrightarrow> map_of (aiJobs r') k = map_of (aiJobs r) k" by auto
  have ids: "map job_ID claimed = take n (map job_ID ?cs)" using claims_ids [OF new(1)] by (simp add: take_map)
  show "distinct (map job_ID claimed)" using c by (simp add: ids distinct_take)
  show "int (length claimed) \<le> limit" if "0 \<le> limit"
    using list_all2_lengthD [OF new(1)] n that by simp
  show "map_of (aiJobs r') k = map_of (aiJobs r) k" if "k \<notin> claimed_ids claimed" for k using new(3) that by blast
  show "\<exists>job. map_of (aiJobs r) (job_ID c) = Some job \<and> P job \<and> claim_of until workerID token job c \<and> map_of (aiJobs r') (job_ID c) = Some c"
    if mem: "c \<in> set claimed" for c
  proof -
    from mem obtain i where i: "i < length claimed" "claimed ! i = c" by (auto simp: in_set_conv_nth)
    let ?job = "take n ?cs ! i"
    have of: "claim_of until workerID token ?job c" using list_all2_nthD2 [OF new(1) i(1)] i(2) by simp
    have "?job \<in> set (take n ?cs)" using i(1) list_all2_lengthD [OF new(1)] by (intro nth_mem) simp
    then have "?job \<in> set ?cs" by (rule in_set_takeD)
    then have "P ?job" "map_of (aiJobs r) (job_ID ?job) = Some ?job" using c by blast+
    moreover have "job_ID c = job_ID ?job" using of by (simp add: claim_of_def)
    ultimately show ?thesis using of new(2) mem by metis
  qed
qed

lemma Claim_cases:
  assumes "ClaimQueuedAIJobs now until workerID token limit r = (Inr claimed, r')"
  shows "(claimed = [] \<and> r' = r) \<or> (0 < limit \<and> now < until
    \<and> claimAIJobCandidatesLocked (rankAIJobFairCandidates (filter (\<lambda>job. aiJobReadyForClaim job now) (mvalues (aiJobs r))) (mvalues (aiJobs r))
        (dispatch_activities r) now limit) now until workerID token limit r = (Inr claimed, r'))"
  using assms by (auto simp: ClaimQueuedAIJobs_def Let_def split: if_splits)

lemma claimed_ready:
  assumes "trail_ok r" "ClaimQueuedAIJobs now until workerID token limit r = (Inr claimed, r')" "c \<in> set claimed"
  shows "\<exists>job. map_of (aiJobs r) (job_ID c) = Some job \<and> aiJobReadyForClaim job now \<and> claim_of until workerID token job c
    \<and> map_of (aiJobs r') (job_ID c) = Some c"
  using Claim_cases [OF assms(2)] claim_result(3) [OF assms(1)] assms(3) by auto

lemma leased_not_ready: "claim_of until workerID token job c \<Longrightarrow> now < until \<Longrightarrow> \<not> aiJobReadyForClaim c now"
  by (simp add: claim_of_def aiJobReadyForClaim_def)

text \<open>
  C3. A claim is exclusive: it takes at most \<open>limit\<close> distinct jobs, each of which was ready, gives each the next version, the next
  fence and the worker's lease, and stores them as it returns them; no other job changes; and until its lease ends, no other claim
  returns one of them.
\<close>

theorem claim_exclusive:
  assumes "job_step\<^sup>*\<^sup>* NewMemoryRepository r" "ClaimQueuedAIJobs now until workerID token limit r = (Inr claimed, r')"
  shows "distinct (map job_ID claimed) \<and> int (length claimed) \<le> max 0 limit
    \<and> (\<forall>c \<in> set claimed. \<exists>job. map_of (aiJobs r) (job_ID c) = Some job \<and> aiJobReadyForClaim job now
        \<and> claim_of until workerID token job c \<and> map_of (aiJobs r') (job_ID c) = Some c)
    \<and> (\<forall>k. k \<notin> claimed_ids claimed \<longrightarrow> map_of (aiJobs r') k = map_of (aiJobs r) k)
    \<and> (\<forall>now' until' worker' token' limit' claimed' r''. now' < until \<longrightarrow>
        ClaimQueuedAIJobs now' until' worker' token' limit' r' = (Inr claimed', r'') \<longrightarrow> claimed_ids claimed \<inter> claimed_ids claimed' = {})"
proof (intro conjI ballI allI impI)
  have ok: "trail_ok r" using job_run_ok [OF assms(1) trail_new] by blast
  have "job_step r r'" using assms(2) by (rule job_step.claim)
  then have ok': "trail_ok r'" using job_step_ok ok by blast
  show "distinct (map job_ID claimed)" using Claim_cases [OF assms(2)] claim_result(1) [OF ok] by auto
  show "int (length claimed) \<le> max 0 limit" using Claim_cases [OF assms(2)] claim_result(2) [OF ok] by fastforce
  show "\<exists>job. map_of (aiJobs r) (job_ID c) = Some job \<and> aiJobReadyForClaim job now
        \<and> claim_of until workerID token job c \<and> map_of (aiJobs r') (job_ID c) = Some c" if "c \<in> set claimed" for c
    using claimed_ready [OF ok assms(2) that] .
  show "map_of (aiJobs r') k = map_of (aiJobs r) k" if "k \<notin> claimed_ids claimed" for k
    using Claim_cases [OF assms(2)] claim_result(4) [OF ok _ that] by auto
  show "claimed_ids claimed \<inter> claimed_ids claimed' = {}"
    if "now' < until" "ClaimQueuedAIJobs now' until' worker' token' limit' r' = (Inr claimed', r'')"
    for now' until' worker' token' limit' claimed' r''
  proof -
    have "job_ID c \<noteq> job_ID d" if c: "c \<in> set claimed" and d: "d \<in> set claimed'" for c d
    proof
      assume eq: "job_ID c = job_ID d"
      obtain job where "claim_of until workerID token job c" "map_of (aiJobs r') (job_ID c) = Some c"
        using claimed_ready [OF ok assms(2) c] by blast
      moreover obtain job' where "map_of (aiJobs r') (job_ID d) = Some job'" "aiJobReadyForClaim job' now'"
        using claimed_ready [OF ok' \<open>ClaimQueuedAIJobs now' until' worker' token' limit' r' = (Inr claimed', r'')\<close> d] by blast
      ultimately show False using eq leased_not_ready [OF _ \<open>now' < until\<close>] by fastforce
    qed
    then show ?thesis by (auto simp: claimed_ids_def)
  qed
qed

theorem claim_exclusive_witness:
  "claimed_ids [demo_claimed] = {''job_1''} \<and> map_of (aiJobs (snd demo_claim)) ''job_1'' = Some demo_claimed"
proof -
  have c: "ClaimQueuedAIJobs 10 20 ''w1'' ''t1'' 5 demo_repository = (Inr [demo_claimed], snd demo_claim)"
    using demo_claim_job by (simp add: demo_claim_def prod_eq_iff)
  have "job_ID demo_claimed = ''job_1''" by code_simp
  then show ?thesis using claim_exclusive [OF demo_repository_run c] by (auto simp: claimed_ids_def)
qed

section \<open>Admission\<close>

lemma find_append_None: "find P xs = None \<Longrightarrow> find P (xs @ ys) = find P ys"
  by (induction xs) (auto split: if_splits)

lemma same_scope_trans:
  "sameAIJobIdempotencyScope a b \<Longrightarrow> sameAIJobIdempotencyScope c b \<Longrightarrow> sameAIJobIdempotencyScope a c"
  by (auto simp: sameAIJobIdempotencyScope_def)

lemma same_counts: "aiJobCountsTowardQueueAdmission job \<Longrightarrow> same_profile job job \<and> same_tenant job job \<and> same_principal job job"
  by (simp add: same_profile_def same_tenant_def same_principal_def)

text \<open>
  C28. Admission of a job: either nothing changes, or the job, its operation, its first event, its outbox record and its hold are all
  stored, with the counts of waiting jobs of the profile, the tenant and the principal within their limits, and then a later admission
  under the same idempotency scope, whatever its records are, returns this job and changes nothing.
\<close>

theorem CreateDurableAIJob_atomic:
  assumes "CreateDurableAIJob operation job event outbox limits billing r = ((res, created, err), r')"
  shows "if created then res = job \<and> err = None
      \<and> map_of (aiJobs r') = (map_of (aiJobs r))(job_ID job \<mapsto> job) \<and> map_of (aiJobs r) (job_ID job) = None
      \<and> map_of (aiOperations r') = (map_of (aiOperations r))(job_OperationID job \<mapsto> normalizeAIOperation operation)
      \<and> map_of (aiJobEvents r') = (map_of (aiJobEvents r))(event_ID event \<mapsto> event)
      \<and> map_of (transactionalOutboxEvents r') = (map_of (transactionalOutboxEvents r))(outbox_ID outbox \<mapsto> outbox)
      \<and> map_of (billingHolds r') (hold_ID (adm_Hold billing)) = Some (adm_Hold billing)
      \<and> (let counts = aiJobAdmissionCountsForJobs (aiJobs r') job
         in (0 < limit_Profile limits \<longrightarrow> count_Profile counts \<le> limit_Profile limits)
          \<and> (0 < limit_Tenant limits \<longrightarrow> count_Tenant counts \<le> limit_Tenant limits)
          \<and> (0 < limit_Principal limits \<longrightarrow> count_Principal counts \<le> limit_Principal limits))
      \<and> (\<forall>operation' job' event' outbox' limits' billing'. sameAIJobIdempotencyScope job job' \<longrightarrow>
          validateDurableAIJobAdmission (normalizeAIOperation operation') job' event' outbox' = None \<longrightarrow>
          validateBillingHoldAdmission (normalizeAIOperation operation') billing' = None \<longrightarrow> limits_validate limits' = None \<longrightarrow>
          CreateDurableAIJob operation' job' event' outbox' limits' billing' r' = ((job, False, None), r'))
    else r' = r"
proof (cases created)
  case False
  then show ?thesis using Create_job_cases [OF assms] by simp
next
  case True
  let ?n = "normalizeAIOperation operation"
  have c: "res = job" "err = None" "validateDurableAIJobAdmission ?n job event outbox = None"
    "find (\<lambda>current. sameAIJobIdempotencyScope current job) (mvalues (aiJobs r)) = None"
    "check_new_job ?n job event outbox limits billing r = None"
    "r' = write_job ?n (job_ID job) job event outbox (insert_hold ?n billing r)"
    using Create_job_cases [OF assms] True by simp_all
  note v = validate_job_None [OF c(3)] and n = check_new_job_None [OF c(5)]
  have fresh: "map_of (aiJobs r) (job_ID job) = None" using n(3) by (simp add: mhas_def)
  have jobs: "mvalues (aiJobs r') = mvalues (aiJobs r) @ [job]" using fresh by (simp add: c(6) mvalues_mput_fresh)
  have "aiJobCountsTowardQueueAdmission job" using v(3) by (simp add: aiJobCountsTowardQueueAdmission_def)
  then have counts: "0 < limit_Profile limits \<longrightarrow> count_Profile (aiJobAdmissionCountsForJobs (aiJobs r') job) \<le> limit_Profile limits"
      "0 < limit_Tenant limits \<longrightarrow> count_Tenant (aiJobAdmissionCountsForJobs (aiJobs r') job) \<le> limit_Tenant limits"
      "0 < limit_Principal limits \<longrightarrow> count_Principal (aiJobAdmissionCountsForJobs (aiJobs r') job) \<le> limit_Principal limits"
    using n(1) same_counts [of job] by (auto simp: enforce_None admission_counts jobs)
  have replay: "CreateDurableAIJob operation' job' event' outbox' limits' billing' r' = ((job, False, None), r')"
    if "sameAIJobIdempotencyScope job job'" "validateDurableAIJobAdmission (normalizeAIOperation operation') job' event' outbox' = None"
      "validateBillingHoldAdmission (normalizeAIOperation operation') billing' = None" "limits_validate limits' = None"
    for operation' job' event' outbox' limits' billing'
  proof -
    have "\<not> sameAIJobIdempotencyScope current job'" if "current \<in> set (mvalues (aiJobs r))" for current
      using c(4) that \<open>sameAIJobIdempotencyScope job job'\<close> same_scope_trans [of current job' job] by (auto simp: find_None_iff)
    then have "find (\<lambda>current. sameAIJobIdempotencyScope current job') (mvalues (aiJobs r)) = None" by (simp add: find_None_iff)
    then have "find (\<lambda>current. sameAIJobIdempotencyScope current job') (mvalues (aiJobs r')) = Some job"
      using that(1) by (simp add: jobs find_append_None)
    then show ?thesis using that by (simp add: CreateDurableAIJob_def Let_def)
  qed
  have maps: "map_of (aiOperations r') = (map_of (aiOperations r))(job_OperationID job \<mapsto> ?n)"
    "map_of (aiJobEvents r') = (map_of (aiJobEvents r))(event_ID event \<mapsto> event)"
    "map_of (transactionalOutboxEvents r') = (map_of (transactionalOutboxEvents r))(outbox_ID outbox \<mapsto> outbox)"
    "map_of (billingHolds r') (hold_ID (adm_Hold billing)) = Some (adm_Hold billing)"
    using v(1) by (auto simp: c(6) write_job_def insert_hold_def)
  show ?thesis using True c(1,2) fresh maps counts replay by (simp add: Let_def c(6))
qed

theorem CreateDurableAIJob_atomic_witness:
  "CreateDurableAIJob demo_job_operation demo_job demo_event demo_outbox demo_limits demo_admission demo_repository
    = ((demo_job, False, None), demo_repository)"
proof -
  have "sameAIJobIdempotencyScope demo_job demo_job
    \<and> validateDurableAIJobAdmission (normalizeAIOperation demo_job_operation) demo_job demo_event demo_outbox = None
    \<and> validateBillingHoldAdmission (normalizeAIOperation demo_job_operation) demo_admission = None \<and> limits_validate demo_limits = None"
    by code_simp
  then show ?thesis using CreateDurableAIJob_atomic [OF demo_job_created] by simp
qed

section \<open>Guarded updates\<close>

text \<open>The transitions and requeues of workers, which expect a version, as updates of a versioned store.\<close>

definition job_cas :: "string \<Rightarrow> int \<Rightarrow> int \<times> gotime \<times> string \<times> (string + gotime) \<Rightarrow> MemoryRepository \<Rightarrow> bool \<times> MemoryRepository" where
  "job_cas i n a r = (case a of (fence, at, reason, change) \<Rightarrow>
     (case (case change of Inl toStatus \<Rightarrow> TransitionAIJob i n fence toStatus reason at r
        | Inr next \<Rightarrow> RequeueAIJob i n fence reason next at r) of ((_, changed, _), r') \<Rightarrow> (changed, r')))"

lemma job_cas_cases:
  assumes "job_cas i n a r = (b, r')"
  shows "if b then \<exists>job res e ob operation. map_of (aiJobs r) i = Some job \<and> job_StatusVersion job = n
      \<and> job_moves job res e \<and> check_records e ob r = None \<and> r' = write_job operation i res e ob r
    else r' = r"
proof -
  obtain fence at reason change where a: "a = (fence, at, reason, change)" by (metis prod_cases4)
  show ?thesis
  proof (cases change)
    case (Inl toStatus)
    then obtain res err where "TransitionAIJob i n fence toStatus reason at r = ((res, b, err), r')"
      using assms by (auto simp: a job_cas_def split: prod.splits)
    from TransitionAIJob_cases [OF this] show ?thesis by (cases b) (simp, blast, simp)
  next
    case (Inr "next")
    then obtain res err where "RequeueAIJob i n fence reason next at r = ((res, b, err), r')"
      using assms by (auto simp: a job_cas_def split: prod.splits)
    from RequeueAIJob_cases [OF this] show ?thesis by (cases b) (simp, blast, simp)
  qed
qed

interpretation jobs: versioned_store trail_ok "\<lambda>r i. map_of (aiJobs r) i" job_StatusVersion job_cas
proof
  fix r r' :: MemoryRepository and i j n a
  assume wf: "trail_ok r"
  show "job_cas i n a r = (False, r') \<Longrightarrow> r' = r" using job_cas_cases [of i n a r False r'] by simp
  assume c: "job_cas i n a r = (True, r')"
  from job_cas_cases [OF c] obtain job res e ob operation where job: "map_of (aiJobs r) i = Some job" "job_StatusVersion job = n"
    "job_moves job res e" "check_records e ob r = None" and r': "r' = write_job operation i res e ob r" by auto
  show "trail_ok r'" unfolding r' using wf job(1,3,4) by (rule trail_move)
  show "\<exists>v v'. map_of (aiJobs r) i = Some v \<and> job_StatusVersion v = n \<and> map_of (aiJobs r') i = Some v' \<and> job_StatusVersion v' = n + 1"
    using job by (simp add: r' job_moves_def)
  show "map_of (aiJobs r) j \<noteq> map_of (aiJobs r) i \<Longrightarrow> map_of (aiJobs r') j = map_of (aiJobs r) j" by (auto simp: r')
  show "map_of (aiJobs r') j = map_of (aiJobs r') i" if "map_of (aiJobs r) j = map_of (aiJobs r) i"
    using that job(1) keyed_lookup [OF trail_keyed(1) [OF wf]] by metis
qed

text \<open>
  Optimistic concurrency of workers: in every sequence of transitions and requeues, from workers with any fences and versions,
  the job's version rises by exactly the number of those reported as changed; so of two updates that expect the same version at most
  one takes effect.
\<close>

lemma job_updates_counted:
  assumes "job_step\<^sup>*\<^sup>* NewMemoryRepository r" "run_updates job_cas us r = (bs, r')" "map_of (aiJobs r) i = Some job"
  shows "\<exists>job'. map_of (aiJobs r') i = Some job' \<and> job_StatusVersion job' = job_StatusVersion job + int (wins i us bs)"
proof -
  have ok: "trail_ok r" using job_run_ok [OF assms(1) trail_new] by blast
  have "map_of (aiJobs t) j \<noteq> map_of (aiJobs t) i \<or> map_of (aiJobs t) i = None" if "trail_ok t" "j \<noteq> i" for t j
    using that keyed_lookup [OF trail_keyed(1) [OF that(1)], of i] keyed_lookup [OF trail_keyed(1) [OF that(1)], of j]
    by (cases "map_of (aiJobs t) i") auto
  then have "\<forall>t j. trail_ok t \<longrightarrow> j \<in> fst ` set us \<longrightarrow> j \<noteq> i \<longrightarrow> map_of (aiJobs t) j \<noteq> map_of (aiJobs t) i \<or> map_of (aiJobs t) i = None"
    by simp
  from jobs.version_counts_wins [OF ok assms(2,3) this] show ?thesis .
qed

lemma demo_transition_prepared:
  assumes "toStatus \<in> {AIJobStatusDispatching, AIJobStatusCanceled}"
  shows "\<exists>e ob. prepareAIJobTransition demo_job toStatus reason 10 = Inr (transition_job demo_job toStatus reason 10, e, ob)
    \<and> check_records e ob demo_repository = None"
proof -
  have "aiJobEventType AIJobStatusDispatching \<noteq> [] \<and> aiJobEventType AIJobStatusCanceled \<noteq> []" by code_simp
  with assms have "aiJobStatusTransitionAllowed AIJobStatusQueued toStatus reason \<and> aiJobEventType toStatus \<noteq> []"
    by (auto simp: aiJobStatusTransitionAllowed_def)
  then show ?thesis
    by (simp add: prepareAIJobTransition_def with_records_def newAIJobTransitionRecords_def
        newAIJobEventRecords_def Let_def check_records_def validateMemoryOutboxInsert_def demo_repository_events demo_repository_outbox
        mhas_def mvalues_def demo_job_def demo_outbox_def)
qed

lemma demo_job_fields: "job_OperationID demo_job = ''op_1''" "job_StatusVersion demo_job = 1" "job_FenceToken demo_job = 0"
  "job_Status demo_job = AIJobStatusQueued"
  by code_simp+

lemma demo_repository_operation: "map_of (aiOperations demo_repository) ''op_1'' = Some (normalizeAIOperation demo_job_operation)"
  by code_simp

definition demo_updates :: "(string \<times> int \<times> int \<times> gotime \<times> string \<times> (string + gotime)) list" where
  "demo_updates = [(''job_1'', 1, 0, 10, [], Inl AIJobStatusDispatching), (''job_1'', 1, 0, 11, [], Inl AIJobStatusCanceled)]"

lemma demo_updates_run: "\<exists>r. run_updates job_cas demo_updates demo_repository = ([True, False], r)"
proof -
  obtain e ob where p: "prepareAIJobTransition demo_job AIJobStatusDispatching [] 10 = Inr (transition_job demo_job AIJobStatusDispatching [] 10, e, ob)"
    "check_records e ob demo_repository = None" using demo_transition_prepared [of AIJobStatusDispatching "[]"] by auto
  then obtain r where "job_cas ''job_1'' 1 (0, 10, [], Inl AIJobStatusDispatching) demo_repository = (True, r)"
    "map_of (aiJobs r) ''job_1'' = Some (transition_job demo_job AIJobStatusDispatching [] 10)"
    by (simp add: job_cas_def TransitionAIJob_def job_is_stale_def job_at_def demo_repository_job change_job_def
        demo_job_fields demo_repository_operation)
  then show ?thesis
    by (auto simp: demo_updates_def job_cas_def TransitionAIJob_def job_is_stale_def demo_job_fields)
qed

lemma job_updates_counted_witness:
  "\<exists>r job'. run_updates job_cas demo_updates demo_repository = ([True, False], r) \<and> map_of (aiJobs r) ''job_1'' = Some job'
    \<and> job_StatusVersion job' = 2"
proof -
  obtain r where r: "run_updates job_cas demo_updates demo_repository = ([True, False], r)" using demo_updates_run by blast
  have "wins ''job_1'' demo_updates [True, False] = 1" by code_simp
  with job_updates_counted [OF demo_repository_run r demo_repository_job] r show ?thesis by (auto simp: demo_job_fields)
qed

section \<open>Cancellation\<close>

lemma release_frees:
  assumes "holds_ok r" "releaseMemoryBillingHoldForOperation i reason at r = (None, r')"
  shows "holds_ok r'" and "memoryBillingHoldForOperation (billingHolds r') i = Some hold
    \<Longrightarrow> hold_Status hold \<in> {BillingHoldStatusSettled, BillingHoldStatusReleased, BillingHoldStatusCommitted}"
proof -
  have trim: "TrimSpace BillingHoldStatusReleased = BillingHoldStatusReleased" by code_simp
  have "holds_ok r' \<and> (memoryBillingHoldForOperation (billingHolds r') i = Some hold
    \<longrightarrow> hold_Status hold \<in> {BillingHoldStatusSettled, BillingHoldStatusReleased, BillingHoldStatusCommitted})" for hold
  proof (cases "memoryBillingHoldForOperation (billingHolds r) i")
    case None
    then show ?thesis using assms by (simp add: releaseMemoryBillingHoldForOperation_def)
  next
    case (Some old)
    show ?thesis
    proof (cases "hold_Status old \<in> {BillingHoldStatusSettled, BillingHoldStatusReleased, BillingHoldStatusCommitted}")
      case True
      then show ?thesis using assms Some by (auto simp: releaseMemoryBillingHoldForOperation_def)
    next
      case False
      then obtain updated where u: "prepareBillingHoldTransition old BillingHoldStatusReleased 0 reason at = Inr updated"
        "r' = hold_set old updated r"
        using assms(2) Some by (auto simp: releaseMemoryBillingHoldForOperation_def hold_set_def split: sum.splits)
      with prepare_cases [OF u(1)] trim False have "same_hold old updated" "hold_Status updated = BillingHoldStatusReleased" by auto
      with hold_set_ok [OF assms(1) Some] u(2) show ?thesis by auto
    qed
  qed
  then show "holds_ok r'" and "memoryBillingHoldForOperation (billingHolds r') i = Some hold
    \<Longrightarrow> hold_Status hold \<in> {BillingHoldStatusSettled, BillingHoldStatusReleased, BillingHoldStatusCommitted}" by blast+
qed

lemma write_job_holds [simp]: "billingHolds (write_job operation k u e ob r) = billingHolds r"
  by (simp add: write_job_def)

lemma cancel_holds:
  assumes "cancel_job job k reason at audit r = (answer, r')" "holds_ok r"
  shows "holds_ok r'"
proof -
  obtain res changed found err where answer: "answer = (res, changed, found, err)" by (metis prod_cases4)
  note c = cancel_job_cases [of job k reason at audit r res changed found err r']
  show ?thesis
  proof (cases changed)
    case True
    then obtain e ob operation r1 where r1: "job_Status res = AIJobStatusCanceled \<longrightarrow>
          releaseMemoryBillingHoldForOperation (job_OperationID job) ''job_canceled_before_dispatch'' at r = (None, r1)"
        "job_Status res \<noteq> AIJobStatusCanceled \<longrightarrow> r1 = r"
      and r': "let r2 = write_job operation k res e ob r1
         in r' = (case audit of None \<Rightarrow> r2 | Some a \<Rightarrow> r2\<lparr>auditLogs := mput (audit_ID a) a (auditLogs r2)\<rparr>)"
      using c assms(1) answer by auto
    have "holds_ok r1" using r1 release_frees(1) assms(2) by metis
    moreover have "billingHolds r' = billingHolds r1" using r' by (simp add: Let_def split: option.splits)
    ultimately show ?thesis by (simp add: holds_ok_def)
  next
    case False
    then show ?thesis using c assms answer by simp
  qed
qed

lemma claim_loop_holds: "claim_loop cs now until workerID token limit acc r = (res, r') \<Longrightarrow> billingHolds r' = billingHolds r"
  by (induction cs arbitrary: acc r) (auto simp: Let_def split: if_splits sum.splits prod.splits option.splits)

lemma job_step_holds:
  assumes "job_step r r'" "holds_ok r"
  shows "holds_ok r'"
  using assms(1)
proof (cases rule: job_step.cases)
  case (create operation job event outbox limits billing result)
  obtain res created err where result: "result = (res, created, err)" by (cases result)
  show ?thesis
  proof (cases created)
    case True
    let ?n = "normalizeAIOperation operation"
    have c: "validateBillingHoldAdmission ?n billing = None" "check_new_job ?n job event outbox limits billing r = None"
      "billingHolds r' = billingHolds (insert_hold ?n billing r)"
      using Create_job_cases [of operation job event outbox limits billing r res created err r'] True create result by simp_all
    have "hold_OperationID (adm_Hold billing) = op_ID ?n"
      using validate_None(1) [OF c(1)] by (simp add: hold_matches_operation_def)
    then show ?thesis
      using indexed_insert [of hold_ID hold_OperationID "billingHolds r" "adm_Hold billing"] check_new_job_None(5,6) [OF c(2)] assms(2) c(3)
      by (simp add: holds_ok_def memoryBillingHoldForOperation_def)
  next
    case False
    then show ?thesis
      using Create_job_cases [of operation job event outbox limits billing r res created err r'] create result assms(2) by simp
  qed
next
  case (transition i n fence toStatus reason at result)
  obtain res changed err where "result = (res, changed, err)" by (cases result)
  then show ?thesis using TransitionAIJob_cases [of i n fence toStatus reason at r res changed err r'] transition assms(2)
    by (auto simp: holds_ok_def split: if_splits)
next
  case (requeue i n fence reason "next" at result)
  obtain res changed err where "result = (res, changed, err)" by (cases result)
  then show ?thesis using RequeueAIJob_cases [of i n fence reason "next" at r res changed err r'] requeue assms(2)
    by (auto simp: holds_ok_def split: if_splits)
next
  case (extend i n fence token until at result')
  obtain res extended where "result' = (res, extended)" by (cases result')
  then have "billingHolds r' = billingHolds r" using ExtendAIJobQueueLease_cases(1) extend by fastforce
  then show ?thesis using assms(2) by (simp add: holds_ok_def)
next
  case (cancel i owner at answer)
  then show ?thesis using cancel_holds assms(2)
    by (auto simp: RequestAIJobCancellation_def split: option.splits if_splits)
next
  case (admin_cancel i at audit answer)
  then show ?thesis using cancel_holds assms(2) by (auto simp: RequestAIJobAdminCancellation_def split: option.splits)
next
  case (claim now until workerID token limit claimed)
  then have "billingHolds r' = billingHolds r" using claim_loop_holds
    by (auto simp: ClaimQueuedAIJobs_def claimAIJobCandidatesLocked_def Let_def split: if_splits)
  then show ?thesis using assms(2) by (simp add: holds_ok_def)
next
  case (claim_references references now until workerID token limit claimed)
  then have "billingHolds r' = billingHolds r" using claim_loop_holds
    by (auto simp: ClaimAIJobsByReadyReferences_def claimAIJobCandidatesLocked_def Let_def split: if_splits)
  then show ?thesis using assms(2) by (simp add: holds_ok_def)
qed

lemma job_run_holds: "job_step\<^sup>*\<^sup>* r r' \<Longrightarrow> holds_ok r \<Longrightarrow> holds_ok r'"
  by (induction rule: rtranclp_induct) (auto intro: job_step_holds)

lemma cancel_found: "cancel_job job i reason at audit r = ((res, changed, found, err), r') \<Longrightarrow> found"
  by (auto simp: cancel_job_def Let_def split: if_splits sum.splits prod.splits option.splits)

lemma Request_cases:
  assumes "RequestAIJobCancellation i owner at r = ((res, changed, found, err), r')"
  shows "found \<longleftrightarrow> FindOwnedAIJob i owner r \<noteq> None"
    and "\<not> found \<Longrightarrow> res = zero_AIJob \<and> \<not> changed \<and> err = None \<and> r' = r"
    and "FindOwnedAIJob i owner r = Some job \<Longrightarrow> map_of (aiJobs r) i = Some job
      \<and> cancel_job job i ''client_requested'' at None r = ((res, changed, found, err), r')"
proof -
  show "found \<longleftrightarrow> FindOwnedAIJob i owner r \<noteq> None"
    "\<not> found \<Longrightarrow> res = zero_AIJob \<and> \<not> changed \<and> err = None \<and> r' = r"
    "FindOwnedAIJob i owner r = Some job \<Longrightarrow> map_of (aiJobs r) i = Some job
      \<and> cancel_job job i ''client_requested'' at None r = ((res, changed, found, err), r')"
    using assms by (auto simp: RequestAIJobCancellation_def FindOwnedAIJob_def split: option.splits if_splits dest: cancel_found)
qed

lemma cancel_result:
  assumes "cancel_job job k reason at audit r = ((res, True, found, err), r')"
  shows "(if job_Status job \<in> {AIJobStatusAccepted, AIJobStatusQueued} then job_Status res = AIJobStatusCanceled
      else job_Status res = AIJobStatusCanceling
        \<and> (job_Status job = AIJobStatusDispatching \<and> job_FenceToken res = job_FenceToken job + 1
          \<or> job_Status job = AIJobStatusRunning \<and> job_FenceToken res = job_FenceToken job))"
  using assms
  by (auto simp: cancel_job_def Let_def prepareAIJobTransition_def with_records_def aiJobStatusTransitionAllowed_def transition_job_def
      split: if_splits sum.splits prod.splits option.splits)

text \<open>What a release does to the holds: the hold of the operation is released, unless it is settled, released or committed already.\<close>

definition releases_hold :: "string \<Rightarrow> MemoryRepository \<Rightarrow> MemoryRepository \<Rightarrow> bool" where
  "releases_hold i r r' \<longleftrightarrow> (case memoryBillingHoldForOperation (billingHolds r) i of
       None \<Rightarrow> billingHolds r' = billingHolds r
     | Some hold \<Rightarrow>
         if hold_Status hold \<in> {BillingHoldStatusSettled, BillingHoldStatusReleased, BillingHoldStatusCommitted}
         then billingHolds r' = billingHolds r
         else \<exists>released. hold_Status released = BillingHoldStatusReleased \<and> same_hold hold released
           \<and> map_of (billingHolds r') = (map_of (billingHolds r))(hold_ID hold \<mapsto> released))"

lemma release_releases:
  assumes "releaseMemoryBillingHoldForOperation i reason at r = (None, r')"
  shows "releases_hold i r r' \<and> aiJobs r' = aiJobs r"
proof -
  have trim: "TrimSpace BillingHoldStatusReleased = BillingHoldStatusReleased" by code_simp
  show ?thesis
  proof (cases "memoryBillingHoldForOperation (billingHolds r) i")
    case None
    then show ?thesis using assms by (simp add: releaseMemoryBillingHoldForOperation_def releases_hold_def)
  next
    case (Some hold)
    show ?thesis
    proof (cases "hold_Status hold \<in> {BillingHoldStatusSettled, BillingHoldStatusReleased, BillingHoldStatusCommitted}")
      case True
      then show ?thesis using assms Some by (auto simp: releaseMemoryBillingHoldForOperation_def releases_hold_def)
    next
      case False
      then obtain updated where u: "prepareBillingHoldTransition hold BillingHoldStatusReleased 0 reason at = Inr updated"
        "r' = r\<lparr>billingHolds := mput (hold_ID hold) updated (billingHolds r)\<rparr>"
        using assms Some by (auto simp: releaseMemoryBillingHoldForOperation_def split: sum.splits)
      with prepare_cases [OF u(1)] trim False have "same_hold hold updated" "hold_Status updated = BillingHoldStatusReleased" by auto
      then show ?thesis using Some False u(2) by (auto simp: releases_hold_def)
    qed
  qed
qed

text \<open>
  C35. Cancellation: a caller who does not own the job gets the answer for a job that does not exist; a call that reports no change
  changes nothing. A waiting job becomes canceled, and the hold of its operation is released, unless it was settled, released or committed
  before: a committed hold stays as it is and keeps counting against the budget. A job at a worker becomes canceling and no hold
  changes; a worker that has not started it is fenced out, one that runs it keeps its fence. In either case the version is a new one, so
  every transition from the version before is refused, and no other job changes.
\<close>

theorem cancellation_owned:
  assumes "job_step\<^sup>*\<^sup>* NewMemoryRepository r" "RequestAIJobCancellation i owner at r = ((res, changed, found, err), r')"
  shows "(found \<longleftrightarrow> FindOwnedAIJob i owner r \<noteq> None) \<and> (\<not> found \<longrightarrow> res = zero_AIJob \<and> \<not> changed \<and> err = None)
    \<and> (if changed then \<exists>job. FindOwnedAIJob i owner r = Some job \<and> map_of (aiJobs r') = (map_of (aiJobs r))(i \<mapsto> res)
        \<and> job_StatusVersion res = job_StatusVersion job + 1
        \<and> (\<forall>fence toStatus reason t. TransitionAIJob i (job_StatusVersion job) fence toStatus reason t r' = ((res, False, None), r'))
        \<and> (if job_Status job \<in> {AIJobStatusAccepted, AIJobStatusQueued}
           then job_Status res = AIJobStatusCanceled
             \<and> (case memoryBillingHoldForOperation (billingHolds r) (job_OperationID job) of
                  None \<Rightarrow> billingHolds r' = billingHolds r
                | Some hold \<Rightarrow>
                    if hold_Status hold \<in> {BillingHoldStatusSettled, BillingHoldStatusReleased, BillingHoldStatusCommitted}
                    then billingHolds r' = billingHolds r
                    else \<exists>released. hold_Status released = BillingHoldStatusReleased \<and> same_hold hold released
                      \<and> map_of (billingHolds r') = (map_of (billingHolds r))(hold_ID hold \<mapsto> released))
           else job_Status res = AIJobStatusCanceling \<and> billingHolds r' = billingHolds r
             \<and> (job_Status job = AIJobStatusDispatching \<and> job_FenceToken res = job_FenceToken job + 1
                  \<and> (\<forall>n fence toStatus reason t. 0 \<le> fence \<and> fence \<le> job_FenceToken job
                      \<longrightarrow> TransitionAIJob i n fence toStatus reason t r' = ((res, False, None), r'))
                \<or> job_Status job = AIJobStatusRunning \<and> job_FenceToken res = job_FenceToken job))
      else r' = r)"
proof -
  note c = Request_cases [OF assms(2)]
  show ?thesis
  proof (cases "FindOwnedAIJob i owner r")
    case None
    then show ?thesis using c(1,2) by auto
  next
    case (Some job)
    with c(3) have job: "map_of (aiJobs r) i = Some job"
      "cancel_job job i ''client_requested'' at None r = ((res, changed, found, err), r')" by blast+
    show ?thesis
    proof (cases changed)
      case False
      then show ?thesis using c(1,2) Some cancel_job_cases [OF job(2)] by auto
    next
      case True
      with cancel_job_cases [OF job(2)] obtain e ob operation r1 where m: "job_moves job res e"
        and r1: "job_Status res = AIJobStatusCanceled \<longrightarrow>
          releaseMemoryBillingHoldForOperation (job_OperationID job) ''job_canceled_before_dispatch'' at r = (None, r1)"
          "job_Status res \<noteq> AIJobStatusCanceled \<longrightarrow> r1 = r"
        and r': "r' = write_job operation i res e ob r1" by (auto simp: Let_def)
      have next_version: "job_StatusVersion res = job_StatusVersion job + 1" using m by (simp add: job_moves_def)
      have jobs: "map_of (aiJobs r') = (map_of (aiJobs r))(i \<mapsto> res)"
        using r1 release_releases by (cases "job_Status res = AIJobStatusCanceled") (auto simp: r' write_job_def)
      have refused: "TransitionAIJob i n fence toStatus reason t r' = ((res, False, None), r')"
        if "n = job_StatusVersion job \<or> (0 \<le> fence \<and> fence < job_FenceToken res)" for n fence toStatus reason t
        using that jobs next_version by (auto simp: TransitionAIJob_def job_is_stale_def job_at_def)
      have same: "billingHolds r' = billingHolds r1" by (simp add: r')
      then have "releases_hold k r r' = releases_hold k r r1" for k by (simp only: releases_hold_def)
      then have holds: "if job_Status res = AIJobStatusCanceled then releases_hold (job_OperationID job) r r' else billingHolds r' = billingHolds r"
        using r1 release_releases same by (cases "job_Status res = AIJobStatusCanceled") auto
      have result: "if job_Status job \<in> {AIJobStatusAccepted, AIJobStatusQueued} then job_Status res = AIJobStatusCanceled
        else job_Status res = AIJobStatusCanceling
          \<and> (job_Status job = AIJobStatusDispatching \<and> job_FenceToken res = job_FenceToken job + 1
            \<or> job_Status job = AIJobStatusRunning \<and> job_FenceToken res = job_FenceToken job)"
        by (rule cancel_result) (use job(2) True in simp)
      have differ: "AIJobStatusCanceling \<noteq> AIJobStatusCanceled" by code_simp
      have "found" using c(2) True by blast
      show ?thesis
      proof (cases "job_Status job \<in> {AIJobStatusAccepted, AIJobStatusQueued}")
        case waiting: True
        then have "job_Status res = AIJobStatusCanceled" using result by simp
        then show ?thesis using Some True \<open>found\<close> c(1) jobs next_version refused waiting holds unfolding releases_hold_def by simp
      next
        case False
        then have at_worker: "job_Status res = AIJobStatusCanceling" "billingHolds r' = billingHolds r"
          "job_Status job = AIJobStatusDispatching \<and> job_FenceToken res = job_FenceToken job + 1
            \<or> job_Status job = AIJobStatusRunning \<and> job_FenceToken res = job_FenceToken job"
          using result holds differ by (simp_all split: if_splits)
        then show ?thesis using Some True \<open>found\<close> c(1) jobs next_version refused False by auto
      qed
    qed
  qed
qed

definition demo_owner :: AIJobOwner where
  "demo_owner = \<lparr>owner_ProfileScope = [], owner_TenantID = [], owner_IntegrationID = [], owner_PrincipalType = [],
     owner_PrincipalID = [], owner_ExternalSubjectReference = []\<rparr>"

theorem cancellation_owned_witness:
  "\<exists>res r'. RequestAIJobCancellation ''job_1'' demo_owner 10 demo_repository = ((res, True, True, None), r')
    \<and> FindAIJob ''job_1'' r' = Some res"
proof -
  obtain e ob where p: "prepareAIJobTransition demo_job AIJobStatusCanceled ''client_requested'' 10
      = Inr (transition_job demo_job AIJobStatusCanceled ''client_requested'' 10, e, ob)" "check_records e ob demo_repository = None"
    using demo_transition_prepared [of AIJobStatusCanceled "''client_requested''"] by auto
  have "fst (releaseMemoryBillingHoldForOperation ''op_1'' ''job_canceled_before_dispatch'' 10 demo_repository) = None" by code_simp
  then obtain r1 where "releaseMemoryBillingHoldForOperation ''op_1'' ''job_canceled_before_dispatch'' 10 demo_repository = (None, r1)"
    by (metis prod.collapse)
  moreover have "aiJobOwnerMatches demo_job demo_owner" by code_simp
  ultimately obtain res r' where c: "RequestAIJobCancellation ''job_1'' demo_owner 10 demo_repository = ((res, True, True, None), r')"
    using p by (auto simp: RequestAIJobCancellation_def demo_repository_job cancel_job_def demo_job_fields demo_repository_operation Let_def
        split: prod.splits)
  from cancellation_owned [OF demo_repository_run c] c show ?thesis by (auto simp: FindAIJob_def)
qed

section \<open>Pages of the administration\<close>

interpretation admin: comparison admin_order
proof
  show "admin_order x y \<Longrightarrow> \<not> admin_order y x" for x y by (auto simp: admin_order_def split: if_splits)
  show "admin_order x z \<Longrightarrow> admin_order x y \<or> admin_order y z" for x y z
    by (auto simp: admin_order_def split: if_splits)
qed

lemma paginate:
  "0 \<le> offset \<Longrightarrow> 0 < limit \<Longrightarrow> limit \<le> 100 \<Longrightarrow> paginateAIJobs jobs limit offset = take (nat limit) (drop (nat offset) jobs)"
  by (auto simp: paginateAIJobs_def nonNegative_def aiJobAdminQueryLimit_def Let_def take_drop min_def nat_add_distrib add.commute)

lemma pages_concat: "concat (map (\<lambda>p. take n (drop (p * n) xs)) [0..<k]) = take (k * n) xs"
proof (induction k)
  case (Suc k)
  then show ?case using take_add [of "k * n" n xs] by (simp add: add.commute)
qed simp

lemma matches_page: "aiJobMatchesQuery job (query\<lparr>query_Limit := n, query_Offset := m\<rparr>) = aiJobMatchesQuery job query"
  by (simp add: aiJobMatchesQuery_def)

lemma summarize_counts:
  "summary_Total (summarize query jobs summary) = summary_Total summary + int (length (filter (\<lambda>job. aiJobMatchesQuery job query) jobs))"
  "(case map_of (summary_ByStatus (summarize query jobs summary)) status of None \<Rightarrow> 0 | Some n \<Rightarrow> n)
    = (case map_of (summary_ByStatus summary) status of None \<Rightarrow> 0 | Some n \<Rightarrow> n)
      + int (length (filter (\<lambda>job. aiJobMatchesQuery job query \<and> job_Status job = status) jobs))"
  by (induction jobs arbitrary: summary) (simp_all add: algebra_simps)

text \<open>
  The pages of the administration's list are one list: the first \<open>k\<close> pages of \<open>n\<close> jobs, for any page size the query takes,
  are the first \<open>k * n\<close> jobs of the sorted list of all jobs that match, newest first, and the summary counts that list, in total
  and by status.
\<close>

lemma query_pages:
  assumes "0 < n" "n \<le> 100"
  shows "let matching = filter (\<lambda>job. aiJobMatchesQuery job query) (mvalues (aiJobs r)); jobs = sortAIJobsForAdmin matching;
      count = (\<lambda>status. int (length (filter (\<lambda>job. job_Status job = status) jobs)))
    in concat (map (\<lambda>p. QueryAIJobs (query\<lparr>query_Limit := int n, query_Offset := int (p * n)\<rparr>) r) [0..<k]) = take (k * n) jobs
     \<and> mset jobs = mset matching \<and> sorted_wrt (\<lambda>a b. \<not> admin_order b a) jobs
     \<and> summary_Total (SummarizeAIJobs query r) = int (length jobs)
     \<and> (\<forall>status. (case map_of (summary_ByStatus (SummarizeAIJobs query r)) status of None \<Rightarrow> 0 | Some m \<Rightarrow> m) = count status)"
proof -
  let ?matching = "filter (\<lambda>job. aiJobMatchesQuery job query) (mvalues (aiJobs r))"
  let ?jobs = "sortAIJobsForAdmin ?matching"
  have page: "QueryAIJobs (query\<lparr>query_Limit := int n, query_Offset := int (p * n)\<rparr>) r = take n (drop (p * n) ?jobs)" for p
    using assms paginate [of "int (p * n)" "int n" ?jobs] unfolding QueryAIJobs_def matches_page by (simp add: nat_mult_distrib)
  have "concat (map (\<lambda>p. QueryAIJobs (query\<lparr>query_Limit := int n, query_Offset := int (p * n)\<rparr>) r) [0..<k]) = take (k * n) ?jobs"
    unfolding page by (rule pages_concat)
  moreover have "mset ?jobs = mset ?matching" by (simp add: sortAIJobsForAdmin_def)
  moreover have "sorted_wrt (\<lambda>a b. \<not> admin_order b a) ?jobs" unfolding sortAIJobsForAdmin_def by (rule admin.sort_sorted)
  moreover have "length (filter P ?jobs) = length (filter P ?matching)" for P
    by (metis mset_filter mset_sort_slice size_mset sortAIJobsForAdmin_def)
  moreover have "length ?jobs = length ?matching" by (simp add: sortAIJobsForAdmin_def)
  ultimately show ?thesis using summarize_counts [of query "mvalues (aiJobs r)" newAIJobSummary]
    by (simp add: Let_def SummarizeAIJobs_def newAIJobSummary_def conj_commute)
qed

end
