(* ===== verification/Ready_Index.thy ===== *)
theory Ready_Index
  imports AI_Job_Repo
begin

text \<open>
  The in-memory ready index (\<open>ai_job_ready_index.go\<close>): a rebuildable index of the jobs that can be dispatched, from which the scheduler
  takes candidates, one principal after the other.
\<close>

section \<open>Entries\<close>

definition ErrAIJobReadyIndexConfig :: go_error where
  "ErrAIJobReadyIndexConfig = errors_New ''invalid ai job ready index configuration''"
definition ErrAIJobReadyIndexConflict :: go_error where
  "ErrAIJobReadyIndexConflict = errors_New ''ai job ready index version conflict''"

definition AIJobReadyScopeAll :: string where "AIJobReadyScopeAll = ''all''"
definition AIJobReadyScopeProfile :: string where "AIJobReadyScopeProfile = ''profile''"
definition AIJobReadyScopeTenant :: string where "AIJobReadyScopeTenant = ''tenant''"
definition AIJobReadyScopePrincipal :: string where "AIJobReadyScopePrincipal = ''principal''"

record AIJobReadyEntry =
  ready_JobID :: string
  ready_Status :: string
  ready_StatusVersion :: int
  ready_FenceToken :: int
  ready_ProfileScope :: string
  ready_TenantID :: string
  ready_CredentialSource :: string
  ready_IntegrationID :: string
  ready_PrincipalType :: string
  ready_PrincipalID :: string
  ready_ExternalSubjectReference :: string
  ready_Priority :: int
  ready_ReadyAt :: gotime
  ready_CreatedAt :: gotime

record AIJobReadyQuery =
  rq_ReadyAt :: gotime
  rq_Limit :: int

record AIJobReadyScope =
  scope_Level :: string
  scope_ProfileScope :: string
  scope_TenantID :: string
  scope_CredentialSource :: string
  scope_IntegrationID :: string
  scope_PrincipalType :: string
  scope_PrincipalID :: string
  scope_ExternalSubjectReference :: string

definition normalizeAIJobReadyEntry :: "AIJobReadyEntry \<Rightarrow> AIJobReadyEntry" where
  "normalizeAIJobReadyEntry entry =
     entry\<lparr>ready_JobID := TrimSpace (ready_JobID entry), ready_Status := TrimSpace (ready_Status entry),
       ready_ProfileScope := TrimSpace (ready_ProfileScope entry), ready_TenantID := TrimSpace (ready_TenantID entry),
       ready_CredentialSource := TrimSpace (ready_CredentialSource entry), ready_IntegrationID := TrimSpace (ready_IntegrationID entry),
       ready_PrincipalType := TrimSpace (ready_PrincipalType entry), ready_PrincipalID := TrimSpace (ready_PrincipalID entry),
       ready_ExternalSubjectReference := TrimSpace (ready_ExternalSubjectReference entry)\<rparr>"

definition validateAIJobReadyEntry :: "AIJobReadyEntry \<Rightarrow> go_error option" where
  "validateAIJobReadyEntry entry =
     (if TrimSpace (ready_JobID entry) = [] \<or> ready_StatusVersion entry \<le> 0 \<or> TrimSpace (ready_TenantID entry) = []
        \<or> TrimSpace (ready_PrincipalID entry) = [] \<or> ready_ReadyAt entry = 0 \<or> ready_CreatedAt entry = 0
        \<or> \<not> oneOf (ready_Status entry) [AIJobStatusQueued, AIJobStatusDispatching]
      then Some ErrAIJobReadyIndexConfig else None)"

definition newAIJobReadyEntry :: "AIJob \<Rightarrow> go_error + AIJobReadyEntry" where
  "newAIJobReadyEntry job =
     (let readyAt = aiJobReadyAt job
      in if job_Status job = AIJobStatusDispatching \<and> job_QueueLeaseUntil job = None then Inl ErrAIJobReadyIndexConfig
         else (let entry = normalizeAIJobReadyEntry
                 \<lparr>ready_JobID = job_ID job, ready_Status = job_Status job, ready_StatusVersion = job_StatusVersion job,
                  ready_FenceToken = job_FenceToken job, ready_ProfileScope = job_ProfileScope job, ready_TenantID = job_TenantID job,
                  ready_CredentialSource = job_CredentialSource job, ready_IntegrationID = job_IntegrationID job,
                  ready_PrincipalType = job_PrincipalType job, ready_PrincipalID = job_PrincipalID job,
                  ready_ExternalSubjectReference = job_ExternalSubjectReference job, ready_Priority = job_Priority job,
                  ready_ReadyAt = readyAt, ready_CreatedAt = job_CreatedAt job\<rparr>
               in case validateAIJobReadyEntry entry of Some err \<Rightarrow> Inl err | None \<Rightarrow> Inr entry))"

definition entry_reference :: "AIJobReadyEntry \<Rightarrow> AIJobReadyReference" where
  "entry_reference entry = \<lparr>ref_JobID = ready_JobID entry, ref_StatusVersion = ready_StatusVersion entry\<rparr>"

definition aiJobReadyScopeForEntry :: "string \<Rightarrow> AIJobReadyEntry \<Rightarrow> AIJobReadyScope" where
  "aiJobReadyScopeForEntry level entry =
     \<lparr>scope_Level = level, scope_ProfileScope = ready_ProfileScope entry, scope_TenantID = ready_TenantID entry,
      scope_CredentialSource = ready_CredentialSource entry, scope_IntegrationID = ready_IntegrationID entry,
      scope_PrincipalType = ready_PrincipalType entry, scope_PrincipalID = ready_PrincipalID entry,
      scope_ExternalSubjectReference = ready_ExternalSubjectReference entry\<rparr>"

definition validateAIJobReadyScope :: "AIJobReadyScope \<Rightarrow> go_error option" where
  "validateAIJobReadyScope scope =
     (if scope_Level scope = AIJobReadyScopeAll then None
      else if scope_Level scope = AIJobReadyScopeProfile then None
      else if scope_Level scope = AIJobReadyScopeTenant
      then (if TrimSpace (scope_TenantID scope) \<noteq> [] then None else Some ErrAIJobReadyIndexConfig)
      else if scope_Level scope = AIJobReadyScopePrincipal
      then (if TrimSpace (scope_TenantID scope) \<noteq> [] \<and> TrimSpace (scope_PrincipalID scope) \<noteq> [] then None
            else Some ErrAIJobReadyIndexConfig)
      else Some ErrAIJobReadyIndexConfig)"

definition aiJobReadyScopeKey :: "AIJobReadyScope \<Rightarrow> string" where
  "aiJobReadyScopeKey scope =
     (if scope_Level scope = AIJobReadyScopeAll then AIJobReadyScopeAll
      else if scope_Level scope = AIJobReadyScopeProfile then TrimSpace (scope_ProfileScope scope)
      else if scope_Level scope = AIJobReadyScopeTenant
      then strings_Join [TrimSpace (scope_ProfileScope scope), TrimSpace (scope_TenantID scope)] [CHR 0x00]
      else if scope_Level scope = AIJobReadyScopePrincipal
      then strings_Join [TrimSpace (scope_ProfileScope scope), TrimSpace (scope_TenantID scope), TrimSpace (scope_CredentialSource scope),
        TrimSpace (scope_IntegrationID scope), TrimSpace (scope_PrincipalType scope), TrimSpace (scope_PrincipalID scope),
        TrimSpace (scope_ExternalSubjectReference scope)] [CHR 0x00]
      else [])"

section \<open>The index\<close>

type_synonym MemoryAIJobReadyIndex = "(string, AIJobReadyEntry) gmap"

definition NewMemoryAIJobReadyIndex :: MemoryAIJobReadyIndex where
  "NewMemoryAIJobReadyIndex = []"

definition index_Register :: "AIJobReadyEntry \<Rightarrow> MemoryAIJobReadyIndex \<Rightarrow> go_error option \<times> MemoryAIJobReadyIndex" where
  "index_Register entry0 index =
     (let entry = normalizeAIJobReadyEntry entry0
      in case validateAIJobReadyEntry entry of
           Some err \<Rightarrow> (Some err, index)
         | None \<Rightarrow>
             (case map_of index (ready_JobID entry) of
                None \<Rightarrow> (None, mput (ready_JobID entry) entry index)
              | Some current \<Rightarrow>
                  if ready_StatusVersion current > ready_StatusVersion entry then (None, index)
                  else if ready_StatusVersion current = ready_StatusVersion entry \<and> current \<noteq> entry
                  then (Some ErrAIJobReadyIndexConflict, index)
                  else (None, mput (ready_JobID entry) entry index)))"

definition index_Remove :: "AIJobReadyReference \<Rightarrow> MemoryAIJobReadyIndex \<Rightarrow> go_error option \<times> MemoryAIJobReadyIndex" where
  "index_Remove reference index =
     (if TrimSpace (ref_JobID reference) = [] \<or> ref_StatusVersion reference \<le> 0 then (Some ErrAIJobReadyIndexConfig, index)
      else (case map_of index (ref_JobID reference) of
          None \<Rightarrow> (None, index)
        | Some current \<Rightarrow>
            (None, if ready_StatusVersion current = ref_StatusVersion reference then mdelete (ref_JobID reference) index else index)))"

definition index_Count :: "AIJobReadyScope \<Rightarrow> MemoryAIJobReadyIndex \<Rightarrow> go_error + int" where
  "index_Count scope index =
     (case validateAIJobReadyScope scope of
        Some err \<Rightarrow> Inl err
      | None \<Rightarrow>
          let want = aiJobReadyScopeKey scope
          in Inr (int (length (filter (\<lambda>entry. scope_Level scope = AIJobReadyScopeAll
               \<or> aiJobReadyScopeKey (aiJobReadyScopeForEntry (scope_Level scope) entry) = want) (mvalues index)))))"

section \<open>Candidates\<close>

definition ready_entry_order :: "AIJobReadyEntry \<Rightarrow> AIJobReadyEntry \<Rightarrow> bool" where
  "ready_entry_order a b =
     (if ready_ReadyAt a \<noteq> ready_ReadyAt b then ready_ReadyAt a < ready_ReadyAt b
      else if ready_Priority a \<noteq> ready_Priority b then ready_Priority a > ready_Priority b
      else if ready_CreatedAt a \<noteq> ready_CreatedAt b then ready_CreatedAt a < ready_CreatedAt b
      else ready_JobID a < ready_JobID b)"

type_synonym ready_groups = "(string, AIJobReadyEntry list) gmap"

definition group_at :: "ready_groups \<Rightarrow> string \<Rightarrow> AIJobReadyEntry list" where
  "group_at groups key = (case map_of groups key of None \<Rightarrow> [] | Some entries \<Rightarrow> entries)"

definition principal_key :: "AIJobReadyEntry \<Rightarrow> string" where
  "principal_key entry = aiJobReadyScopeKey (aiJobReadyScopeForEntry AIJobReadyScopePrincipal entry)"

definition group_ready :: "gotime \<Rightarrow> MemoryAIJobReadyIndex \<Rightarrow> ready_groups" where
  "group_ready readyAt index =
     foldl (\<lambda>groups entry.
       if \<not> ready_ReadyAt entry > readyAt
       then mput (principal_key entry) (group_at groups (principal_key entry) @ [entry]) groups else groups) [] (mvalues index)"

definition group_order :: "ready_groups \<Rightarrow> string \<Rightarrow> string \<Rightarrow> bool" where
  "group_order groups a b =
     (let left = hd (group_at groups a); right = hd (group_at groups b)
      in if ready_ReadyAt left \<noteq> ready_ReadyAt right then ready_ReadyAt left < ready_ReadyAt right else a < b)"

text \<open>One round over the groups, which ends early when the limit is reached, and the rounds.\<close>

fun rr_round :: "ready_groups \<Rightarrow> nat \<Rightarrow> int \<Rightarrow> string list \<Rightarrow> AIJobReadyEntry list \<Rightarrow> bool \<Rightarrow> AIJobReadyEntry list \<times> bool" where
  "rr_round groups round limit [] out added = (out, added)"
| "rr_round groups round limit (key # keys) out added =
     (if round \<ge> length (group_at groups key) then rr_round groups round limit keys out added
      else (let out = out @ [group_at groups key ! round]
            in if int (length out) = limit then (out, True) else rr_round groups round limit keys out True))"

lemma rr_round_length: "length out \<le> length (fst (rr_round groups round limit keys out added))"
proof (induction keys arbitrary: out added)
  case (Cons key keys)
  show ?case using Cons [of out added] Cons [of "out @ [group_at groups key ! round]" True] by (auto simp: Let_def)
qed simp

lemma rr_round_grows: "snd (rr_round groups round limit keys out False) \<Longrightarrow> length out < length (fst (rr_round groups round limit keys out False))"
proof (induction keys)
  case (Cons key keys)
  then show ?case using rr_round_length [of "out @ [group_at groups key ! round]" groups round limit keys True]
    by (auto simp: Let_def split: if_splits)
qed simp

function rr_loop :: "ready_groups \<Rightarrow> string list \<Rightarrow> int \<Rightarrow> nat \<Rightarrow> AIJobReadyEntry list \<Rightarrow> AIJobReadyEntry list" where
  "rr_loop groups keys limit round out =
     (if \<not> int (length out) < limit then out
      else (case rr_round groups round limit keys out False of
          (out', added) \<Rightarrow> if \<not> added then out' else rr_loop groups keys limit (round + 1) out'))"
  by auto

termination
proof (relation "measure (\<lambda>(groups, keys, limit, round, out). nat (limit - int (length out)))", goal_cases)
  case (2 groups keys limit round out out' added)
  then have "rr_round groups round limit keys out False = (out', True)" by simp
  then have "length out < length out'" using rr_round_grows [of groups round limit keys out] by simp
  with 2 show ?case by auto
qed simp

declare rr_loop.simps [simp del]

definition roundRobinAIJobReadyCandidates :: "ready_groups \<Rightarrow> int \<Rightarrow> AIJobReadyEntry list" where
  "roundRobinAIJobReadyCandidates groups0 limit =
     (if limit \<le> 0 \<or> groups0 = [] then []
      else (let groups = map (\<lambda>(key, entries). (key, sort_slice ready_entry_order entries)) groups0;
                keys = sort_slice (group_order groups) (map fst groups)
            in rr_loop groups keys limit 0 []))"

definition index_Candidates :: "AIJobReadyQuery \<Rightarrow> MemoryAIJobReadyIndex \<Rightarrow> AIJobReadyEntry list" where
  "index_Candidates query index =
     (if rq_ReadyAt query = 0 \<or> rq_Limit query \<le> 0 then []
      else roundRobinAIJobReadyCandidates (group_ready (rq_ReadyAt query) index) (rq_Limit query))"

end
