(* ===== verification/Ready_Fair.thy ===== *)
theory Ready_Fair
  imports Ready_Index AI_Job_Fair
begin

text \<open>
  What the ready index promises: the newest state of a job wins, whatever older registrations and removals arrive and when, and the candidates
  are shared evenly among the principals that have ready jobs.
\<close>

section \<open>The rounds against their specification\<close>

definition column :: "ready_groups \<Rightarrow> string list \<Rightarrow> nat \<Rightarrow> AIJobReadyEntry list" where
  "column groups keys round = map (\<lambda>key. group_at groups key ! round) (filter (\<lambda>key. round < length (group_at groups key)) keys)"

lemma rr_round_eq:
  "int (length out) < limit \<Longrightarrow> rr_round groups round limit keys out added
    = (out @ take (nat limit - length out) (column groups keys round), added \<or> column groups keys round \<noteq> [])"
proof (induction keys arbitrary: out added)
  case (Cons key keys)
  show ?case
  proof (cases "round < length (group_at groups key)")
    case True
    let ?out = "out @ [group_at groups key ! round]"
    have pos: "nat limit - length out = Suc (nat limit - length ?out)" using Cons.prems by simp
    show ?thesis
    proof (cases "int (length ?out) = limit")
      case True
      then have "nat limit - length ?out = 0" by simp
      then show ?thesis using True \<open>round < _\<close> pos by (simp add: column_def)
    next
      case False
      then have "int (length ?out) < limit" using Cons.prems by simp
      from Cons.IH [OF this] False \<open>round < _\<close> pos show ?thesis by (simp add: column_def)
    qed
  next
    case False
    with Cons show ?thesis by (simp add: column_def)
  qed
qed (simp add: column_def)

lemma column_Nil: "column groups keys round = [] \<Longrightarrow> round \<le> later \<Longrightarrow> column groups keys later = []"
  by (force simp: column_def filter_empty_conv)

lemma rr_loop_eq:
  assumes "int (length out) \<le> limit" "\<forall>key \<in> set keys. length (group_at groups key) \<le> N"
  shows "rr_loop groups keys limit round out
    = out @ take (nat limit - length out) (concat (map (column groups keys) [round..<N]))"
  using assms
proof (induction groups keys limit round out rule: rr_loop.induct)
  case (1 groups keys limit round out)
  show ?case
  proof (cases "int (length out) < limit")
    case False
    then have "int (length out) = limit" using "1.prems"(1) by simp
    then show ?thesis by (subst rr_loop.simps) auto
  next
    case True
    let ?col = "column groups keys round"
    let ?out = "out @ take (nat limit - length out) ?col"
    have r: "rr_round groups round limit keys out False = (?out, ?col \<noteq> [])" using rr_round_eq [OF True] by simp
    show ?thesis
    proof (cases "?col = []")
      case True
      then have "concat (map (column groups keys) [round..<N]) = []" using column_Nil [OF True] by simp
      then show ?thesis using True \<open>int (length out) < limit\<close> r by (subst rr_loop.simps) simp
    next
      case False
      then obtain key where "key \<in> set keys" "round < length (group_at groups key)" by (auto simp: column_def filter_empty_conv)
      then have N: "[round..<N] = round # [Suc round..<N]" using "1.prems"(2) by (intro upt_conv_Cons) fastforce
      have le: "int (length ?out) \<le> limit" using True by auto
      have "rr_loop groups keys limit round out = rr_loop groups keys limit (round + 1) ?out"
        using True r False by (subst rr_loop.simps) simp
      also have "\<dots> = ?out @ take (nat limit - length ?out) (concat (map (column groups keys) [round + 1..<N]))"
        using "1.IH" [OF _ r [symmetric] _ le] True False "1.prems"(2) by simp
      also have "\<dots> = out @ take (nat limit - length out) (concat (map (column groups keys) [round..<N]))"
        using N by (simp add: min_def)
      finally show ?thesis .
    qed
  qed
qed

section \<open>The groups\<close>

definition share :: "string \<Rightarrow> AIJobReadyEntry list \<Rightarrow> AIJobReadyEntry list" where
  "share key entries = filter (\<lambda>entry. principal_key entry = key) entries"

definition ready_entries :: "gotime \<Rightarrow> MemoryAIJobReadyIndex \<Rightarrow> AIJobReadyEntry list" where
  "ready_entries readyAt index = filter (\<lambda>entry. \<not> ready_ReadyAt entry > readyAt) (mvalues index)"

lemma group_ready_eq:
  "wf_gmap (group_ready readyAt index) \<and> group_at (group_ready readyAt index) key = share key (ready_entries readyAt index)
    \<and> (key \<in> fst ` set (group_ready readyAt index) \<longleftrightarrow> share key (ready_entries readyAt index) \<noteq> [])"
proof -
  have "wf_gmap groups \<and> group_at groups key = share key (filter (\<lambda>entry. \<not> ready_ReadyAt entry > readyAt) entries)
      \<and> (key \<in> fst ` set groups \<longleftrightarrow> share key (filter (\<lambda>entry. \<not> ready_ReadyAt entry > readyAt) entries) \<noteq> [])"
    if "groups = foldl (\<lambda>groups entry. if \<not> ready_ReadyAt entry > readyAt
       then mput (principal_key entry) (group_at groups (principal_key entry) @ [entry]) groups else groups) [] entries" for groups entries
    using that
  proof (induction entries arbitrary: groups rule: rev_induct)
    case (snoc entry entries)
    then show ?case by (auto simp: share_def group_at_def dom_update)
  qed (simp add: share_def group_at_def)
  then show ?thesis by (simp add: group_ready_def ready_entries_def)
qed

definition ready_key :: "AIJobReadyEntry \<Rightarrow> int \<times> int \<times> int \<times> string" where
  "ready_key entry = (ready_ReadyAt entry, - ready_Priority entry, ready_CreatedAt entry, ready_JobID entry)"

lemma ready_entry_order_key: "ready_entry_order = (\<lambda>a b. ready_key a < ready_key b)"
  by (intro ext) (auto simp: ready_entry_order_def ready_key_def)

definition group_key :: "ready_groups \<Rightarrow> string \<Rightarrow> int \<times> string" where
  "group_key groups key = (ready_ReadyAt (hd (group_at groups key)), key)"

lemma group_order_key: "group_order groups = (\<lambda>a b. group_key groups a < group_key groups b)"
  by (intro ext) (auto simp: group_order_def group_key_def Let_def)

interpretation ready: comparison ready_entry_order
  unfolding ready_entry_order_key by (rule comparison_key)

interpretation ready_group: comparison "group_order groups" for groups
  unfolding group_order_key by (rule comparison_key)


section \<open>The candidates\<close>

definition sorted_share :: "AIJobReadyQuery \<Rightarrow> MemoryAIJobReadyIndex \<Rightarrow> string \<Rightarrow> AIJobReadyEntry list" where
  "sorted_share query index key = sort_slice ready_entry_order (share key (ready_entries (rq_ReadyAt query) index))"

definition fair_columns :: "string list \<Rightarrow> (string \<Rightarrow> AIJobReadyEntry list) \<Rightarrow> nat \<Rightarrow> AIJobReadyEntry list list" where
  "fair_columns keys g n = map (\<lambda>round. map (\<lambda>key. g key ! round) (filter (\<lambda>key. round < length (g key)) keys)) [0..<n]"

lemma group_at_sorted:
  "group_at (map (\<lambda>(key, entries). (key, sort_slice lt entries)) groups) key = sort_slice lt (group_at groups key)"
  by (simp add: group_at_def map_of_map split: option.split)

lemma Candidates_columns:
  assumes "rq_ReadyAt query \<noteq> 0" "0 < rq_Limit query"
  obtains keys where "distinct keys" "set keys = {key. sorted_share query index key \<noteq> []}"
    "index_Candidates query index
      = take (nat (rq_Limit query)) (concat (fair_columns keys (sorted_share query index) (length (ready_entries (rq_ReadyAt query) index))))"
    "keys = sort_slice (\<lambda>a b. (ready_ReadyAt (hd (sorted_share query index a)), a) < (ready_ReadyAt (hd (sorted_share query index b)), b))
      (map fst (group_ready (rq_ReadyAt query) index))"
proof -
  let ?raw = "group_ready (rq_ReadyAt query) index"
  let ?g = "map (\<lambda>(key, entries). (key, sort_slice ready_entry_order entries)) ?raw"
  let ?N = "length (ready_entries (rq_ReadyAt query) index)"
  define keys where "keys = sort_slice (group_order ?g) (map fst ?raw)"
  note g0 = group_ready_eq [of "rq_ReadyAt query" index]
  have at: "group_at ?g = sorted_share query index" by (intro ext) (simp add: group_at_sorted g0 sorted_share_def)
  have fst: "map fst ?g = map fst ?raw" by (simp add: comp_def case_prod_beta)
  have mset: "mset keys = mset (map fst ?raw)" by (simp add: keys_def)
  have "distinct (map fst ?raw)" using g0 by (simp add: wf_gmap_def)
  then have d: "distinct keys" using mset_eq_imp_distinct_iff [OF mset] by simp
  have nonempty: "sorted_share query index key \<noteq> [] \<longleftrightarrow> share key (ready_entries (rq_ReadyAt query) index) \<noteq> []" for key
    unfolding sorted_share_def by (metis length_0_conv length_sort_slice)
  have set: "set keys = {key. sorted_share query index key \<noteq> []}" using g0 nonempty by (auto simp: keys_def)
  have le: "\<forall>key \<in> set keys. length (group_at ?g key) \<le> ?N" by (simp add: at sorted_share_def share_def)
  have loop: "rr_loop ?g keys (rq_Limit query) 0 [] = take (nat (rq_Limit query)) (concat (fair_columns keys (sorted_share query index) ?N))"
    using rr_loop_eq [of "[]" "rq_Limit query" keys ?g ?N 0] le assms(2)
    by (simp add: fair_columns_def column_def [abs_def] at)
  have "index_Candidates query index = take (nat (rq_Limit query)) (concat (fair_columns keys (sorted_share query index) ?N))"
  proof (cases "?raw = []")
    case True
    then have "keys = []" by (simp add: keys_def)
    with True show ?thesis using assms
      by (simp add: index_Candidates_def roundRobinAIJobReadyCandidates_def fair_columns_def)
  next
    case False
    with loop show ?thesis using assms
      by (simp add: index_Candidates_def roundRobinAIJobReadyCandidates_def Let_def fst keys_def del: map_map)
  qed
  moreover have "keys = sort_slice (\<lambda>a b. (ready_ReadyAt (hd (sorted_share query index a)), a)
      < (ready_ReadyAt (hd (sorted_share query index b)), b)) (map fst ?raw)"
    by (simp add: keys_def group_order_key group_key_def [abs_def] at)
  ultimately show thesis using that d set by blast
qed

section \<open>Even shares\<close>

lemma filter_one: "distinct xs \<Longrightarrow> filter (\<lambda>y. y = x \<and> P y) xs = (if x \<in> set xs \<and> P x then [x] else [])"
  by (induction xs) auto

lemma share_column:
  assumes "distinct keys" "\<And>key entry. entry \<in> set (g key) \<Longrightarrow> principal_key entry = key" "g key \<noteq> [] \<Longrightarrow> key \<in> set keys"
  shows "share key (map (\<lambda>key. g key ! round) (filter (\<lambda>key. round < length (g key)) keys)) = take 1 (drop round (g key))"
proof -
  have own: "principal_key (g k ! round) = k" if "round < length (g k)" for k using assms(2) that by simp
  have "share key (map (\<lambda>key. g key ! round) (filter (\<lambda>key. round < length (g key)) keys))
      = map (\<lambda>key. g key ! round) (filter (\<lambda>k. k = key \<and> round < length (g k)) keys)"
    unfolding share_def filter_map filter_filter comp_def by (rule arg_cong [where f = "map _"], rule filter_cong) (auto simp: own)
  also have "\<dots> = (if round < length (g key) then [g key ! round] else [])"
    using assms(1,3) by (cases "g key = []") (auto simp: filter_one)
  also have "\<dots> = take 1 (drop round (g key))" by (simp add: take_Suc hd_drop_conv_nth)
  finally show ?thesis .
qed

lemma share_concat:
  assumes "distinct keys" "\<And>key entry. entry \<in> set (g key) \<Longrightarrow> principal_key entry = key" "g key \<noteq> [] \<Longrightarrow> key \<in> set keys"
  shows "share key (concat (fair_columns keys g n)) = take n (g key)"
proof (induction n)
  case (Suc n)
  then show ?case using share_column [OF assms, where round = n]
    by (simp add: fair_columns_def share_def take_add [of n 1, simplified])
qed (simp add: fair_columns_def share_def)

lemma take_concat:
  "\<exists>m j. m \<le> length xss \<and> take n (concat xss) = concat (take m xss) @ (if m < length xss then take j (xss ! m) else [])"
proof (induction xss arbitrary: n)
  case (Cons xs xss)
  show ?case
  proof (cases "n \<le> length xs")
    case True
    then show ?thesis by (intro exI [of _ 0] exI [of _ n]) simp
  next
    case False
    obtain m j where "m \<le> length xss"
      "take (n - length xs) (concat xss) = concat (take m xss) @ (if m < length xss then take j (xss ! m) else [])"
      using Cons.IH by blast
    with False show ?thesis by (intro exI [of _ "Suc m"] exI [of _ j]) simp
  qed
qed simp

lemma take_fair_columns: "m \<le> n \<Longrightarrow> take m (fair_columns keys g n) = fair_columns keys g m"
  by (simp add: fair_columns_def take_map)

lemma share_take:
  assumes "distinct keys" "\<And>key entry. entry \<in> set (g key) \<Longrightarrow> principal_key entry = key" "\<And>key. g key \<noteq> [] \<Longrightarrow> key \<in> set keys"
  shows "\<exists>m \<le> n. \<forall>key. \<exists>r. (r = m \<or> r = Suc m) \<and> share key (take k (concat (fair_columns keys g n))) = take r (g key)"
proof -
  obtain m j where m: "m \<le> n"
    "take k (concat (fair_columns keys g n)) = concat (take m (fair_columns keys g n))
      @ (if m < n then take j (fair_columns keys g n ! m) else [])"
    using take_concat [of "fair_columns keys g n" k] by (auto simp: fair_columns_def)
  have "\<exists>r. (r = m \<or> r = Suc m) \<and> share key (take k (concat (fair_columns keys g n))) = take r (g key)" for key
  proof -
    have first: "share key (concat (take m (fair_columns keys g n))) = take m (g key)"
      using share_concat [OF assms] by (simp add: take_fair_columns [OF m(1)])
    define last where "last = share key (if m < n then take j (fair_columns keys g n ! m) else [])"
    have "\<exists>i. last = take i (take 1 (drop m (g key)))"
    proof (cases "m < n")
      case True
      then have col: "share key (fair_columns keys g n ! m) = take 1 (drop m (g key))"
        using share_column [OF assms, where round = m] by (simp add: fair_columns_def)
      have "share key (fair_columns keys g n ! m)
          = share key (take j (fair_columns keys g n ! m)) @ share key (drop j (fair_columns keys g n ! m))"
        unfolding share_def filter_append [symmetric] by simp
      then have "share key (take j (fair_columns keys g n ! m))
          = take (length (share key (take j (fair_columns keys g n ! m)))) (take 1 (drop m (g key)))"
        unfolding col by simp
      then show ?thesis using True unfolding last_def by auto
    next
      case False
      then show ?thesis by (intro exI [of _ 0]) (simp add: last_def share_def)
    qed
    then obtain i where "last = take (min i 1) (drop m (g key))" by auto
    then have "last = [] \<or> last = take 1 (drop m (g key))" by (cases i) simp_all
    then have "take m (g key) @ last = take m (g key) \<or> take m (g key) @ last = take (Suc m) (g key)"
      using take_add [of m 1 "g key"] by auto
    moreover have "share key (take k (concat (fair_columns keys g n))) = take m (g key) @ last"
      using first unfolding m(2) last_def by (simp add: share_def)
    ultimately show ?thesis by metis
  qed
  with m(1) show ?thesis by blast
qed

lemma own_key: "entry \<in> set (sorted_share query index key) \<Longrightarrow> principal_key entry = key"
  by (simp add: sorted_share_def share_def)

lemma mset_shares: "(\<And>key. mset (share key xs) = mset (share key ys)) \<Longrightarrow> mset xs = mset ys"
proof (rule multiset_eqI)
  fix x
  assume eq: "\<And>key. mset (share key xs) = mset (share key ys)"
  have c: "count (mset zs) x = count (mset (share (principal_key x) zs)) x" for zs by (simp add: share_def)
  show "count (mset xs) x = count (mset ys) x" unfolding c [of xs] c [of ys] eq ..
qed

lemma hd_in_share: "sorted_share query index key \<noteq> [] \<longleftrightarrow> (\<exists>entry \<in> set (ready_entries (rq_ReadyAt query) index). principal_key entry = key)"
proof -
  have "sorted_share query index key \<noteq> [] \<longleftrightarrow> share key (ready_entries (rq_ReadyAt query) index) \<noteq> []"
    unfolding sorted_share_def by (metis length_0_conv length_sort_slice)
  then show ?thesis by (auto simp: share_def filter_empty_conv)
qed

lemma sorted_share_sorted: "sorted (map ready_key (sorted_share query index key))"
  using ready.sort_sorted unfolding sorted_share_def ready_entry_order_key by (simp add: sorted_map not_less)

text \<open>The keys of the principals come in the order of their first ready entries.\<close>

lemma columns_keys_sorted:
  assumes "keys = sort_slice (\<lambda>a b. (ready_ReadyAt (hd (g a)), a) < (ready_ReadyAt (hd (g b)), b)) ks"
  shows "sorted (map (\<lambda>key. (ready_ReadyAt (hd (g key)), key)) keys)"
proof -
  have "comparison (\<lambda>a b. (ready_ReadyAt (hd (g a)), a) < (ready_ReadyAt (hd (g b)), b))" by (rule comparison_key)
  from comparison.sort_sorted [OF this] show ?thesis unfolding assms sorted_map by (simp only: not_less)
qed

text \<open>
  C31. The candidates are shared evenly. The ready entries of each principal form a queue, earliest first, then by priority and age, and the
  principals come in the order of their first entries: the candidates are the first entries of all queues, then the second ones of those that
  have one, and so on, cut off at the limit. Hence a query returns as many entries as it asks for, if that many are ready, and none
  twice; of each principal it takes those that come first; and a principal gets more than one entry more than another only when the other
  has no further entry that is ready.
\<close>

theorem ready_candidates_fair:
  assumes "rq_ReadyAt query \<noteq> 0" "0 < rq_Limit query"
  shows "(\<exists>keys queue. distinct keys \<and> set keys = principal_key ` {entry \<in> set (mvalues index). ready_ReadyAt entry \<le> rq_ReadyAt query}
      \<and> (\<forall>key. mset (queue key) = mset (filter (\<lambda>entry. principal_key entry = key \<and> ready_ReadyAt entry \<le> rq_ReadyAt query) (mvalues index))
          \<and> sorted (map (\<lambda>entry. (ready_ReadyAt entry, - ready_Priority entry, ready_CreatedAt entry, ready_JobID entry)) (queue key)))
      \<and> sorted (map (\<lambda>key. (ready_ReadyAt (hd (queue key)), key)) keys)
      \<and> index_Candidates query index = take (nat (rq_Limit query))
          (concat (map (\<lambda>round. map (\<lambda>key. queue key ! round) (filter (\<lambda>key. round < length (queue key)) keys)) [0..<length (mvalues index)])))
    \<and> length (index_Candidates query index)
        = min (nat (rq_Limit query)) (length (filter (\<lambda>entry. ready_ReadyAt entry \<le> rq_ReadyAt query) (mvalues index)))
    \<and> mset (index_Candidates query index) \<subseteq># mset (mvalues index)
    \<and> (\<forall>key. \<exists>n. share key (index_Candidates query index)
        = take n (sort_slice ready_entry_order (share key (ready_entries (rq_ReadyAt query) index))))
    \<and> (\<forall>a b. length (share a (index_Candidates query index)) + 1 < length (share b (index_Candidates query index)) \<longrightarrow>
        length (share a (index_Candidates query index)) = length (share a (ready_entries (rq_ReadyAt query) index)))"
proof -
  let ?ready = "ready_entries (rq_ReadyAt query) index"
  let ?N = "length ?ready" and ?M = "length (mvalues index)" and ?g = "sorted_share query index" and ?out = "index_Candidates query index"
  obtain keys where keys: "distinct keys" "set keys = {key. ?g key \<noteq> []}"
    and out: "?out = take (nat (rq_Limit query)) (concat (fair_columns keys ?g ?N))"
    and order: "keys = sort_slice (\<lambda>a b. (ready_ReadyAt (hd (?g a)), a) < (ready_ReadyAt (hd (?g b)), b))
      (map fst (group_ready (rq_ReadyAt query) index))"
    using Candidates_columns [OF assms, of index] by blast
  have len: "length (?g key) = length (share key ?ready)" for key by (simp add: sorted_share_def)
  have bound: "length (?g key) \<le> ?N" for key by (simp add: len share_def)
  have "share key (concat (fair_columns keys ?g ?N)) = ?g key" for key
    using share_concat [OF keys(1) own_key, where g = ?g and key = key and n = ?N] keys(2) bound [of key] by simp
  then have "mset (share key (concat (fair_columns keys ?g ?N))) = mset (share key ?ready)" for key
    by (simp add: sorted_share_def)
  then have whole: "mset (concat (fair_columns keys ?g ?N)) = mset ?ready" by (rule mset_shares)
  then have all: "length (concat (fair_columns keys ?g ?N)) = ?N" by (rule mset_eq_length)
  have "\<exists>m \<le> ?N. \<forall>key. \<exists>r. (r = m \<or> r = Suc m) \<and> share key (take (nat (rq_Limit query)) (concat (fair_columns keys ?g ?N))) = take r (?g key)"
    by (rule share_take [OF keys(1)]) (use own_key keys(2) in auto)
  then obtain m where m: "\<And>key. \<exists>r. (r = m \<or> r = Suc m) \<and> share key ?out = take r (?g key)" unfolding out by blast
  have "length (share a ?out) = length (share a ?ready)"
    if less: "length (share a ?out) + 1 < length (share b ?out)" for a b
  proof -
    obtain ra where ra: "ra = m \<or> ra = Suc m" "share a ?out = take ra (?g a)" using m by blast
    obtain rb where rb: "rb = m \<or> rb = Suc m" "share b ?out = take rb (?g b)" using m by blast
    have "length (share b ?out) \<le> Suc m" using rb by auto
    then have "length (share a ?out) < m" using less by simp
    then have "length (share a ?out) = length (?g a)" using ra by auto
    then show ?thesis by (simp add: len)
  qed
  moreover have "\<exists>n. share key ?out = take n (sort_slice ready_entry_order (share key ?ready))" for key
    using m [of key] by (auto simp: sorted_share_def)
  moreover have "length ?out = min (nat (rq_Limit query)) (length (filter (\<lambda>entry. ready_ReadyAt entry \<le> rq_ReadyAt query) (mvalues index)))"
    using all by (simp add: out min.commute ready_entries_def not_less)
  moreover have "mset ?out \<subseteq># mset (mvalues index)"
  proof -
    have "mset (take n xs) \<subseteq># mset xs" for n and xs :: "AIJobReadyEntry list"
      by (metis append_take_drop_id mset_append mset_subset_eq_add_left)
    then have "mset ?out \<subseteq># mset ?ready" unfolding out whole [symmetric] .
    then show ?thesis by (rule subset_mset.trans) (simp add: ready_entries_def)
  qed
  moreover have "distinct keys \<and> set keys = principal_key ` {entry \<in> set (mvalues index). ready_ReadyAt entry \<le> rq_ReadyAt query}
      \<and> (\<forall>key. mset (?g key) = mset (filter (\<lambda>entry. principal_key entry = key \<and> ready_ReadyAt entry \<le> rq_ReadyAt query) (mvalues index))
          \<and> sorted (map (\<lambda>entry. (ready_ReadyAt entry, - ready_Priority entry, ready_CreatedAt entry, ready_JobID entry)) (?g key)))
      \<and> sorted (map (\<lambda>key. (ready_ReadyAt (hd (?g key)), key)) keys)
      \<and> ?out = take (nat (rq_Limit query))
          (concat (map (\<lambda>round. map (\<lambda>key. ?g key ! round) (filter (\<lambda>key. round < length (?g key)) keys)) [0..<?M]))"
  proof (intro conjI allI)
    show "set keys = principal_key ` {entry \<in> set (mvalues index). ready_ReadyAt entry \<le> rq_ReadyAt query}"
      unfolding keys(2) hd_in_share by (auto simp: ready_entries_def not_less)
    show "mset (?g key) = mset (filter (\<lambda>entry. principal_key entry = key \<and> ready_ReadyAt entry \<le> rq_ReadyAt query) (mvalues index))" for key
      by (simp add: sorted_share_def share_def ready_entries_def not_less conj_commute)
    show "sorted (map (\<lambda>entry. (ready_ReadyAt entry, - ready_Priority entry, ready_CreatedAt entry, ready_JobID entry)) (?g key))" for key
      using sorted_share_sorted [of query index key] by (simp add: ready_key_def [abs_def])
    show "sorted (map (\<lambda>key. (ready_ReadyAt (hd (?g key)), key)) keys)" by (rule columns_keys_sorted [OF order])
    have more: "[0..<?M] = [0..<?N] @ [?N..<?M]" using upt_add_eq_append [of 0 ?N "?M - ?N"] by (simp add: ready_entries_def)
    have "map (\<lambda>key. ?g key ! round) (filter (\<lambda>key. round < length (?g key)) keys) = []" if "?N \<le> round" for round
      using bound that by (simp add: filter_empty_conv) (meson le_trans not_less)
    then have "concat (map (\<lambda>round. map (\<lambda>key. ?g key ! round) (filter (\<lambda>key. round < length (?g key)) keys)) [?N..<?M]) = []" by auto
    then show "?out = take (nat (rq_Limit query))
        (concat (map (\<lambda>round. map (\<lambda>key. ?g key ! round) (filter (\<lambda>key. round < length (?g key)) keys)) [0..<?M]))"
      unfolding out fair_columns_def more by simp
  qed (fact keys(1))
  ultimately show ?thesis by blast
qed

section \<open>Registrations and removals in any order\<close>

datatype index_op = Register AIJobReadyEntry | Remove AIJobReadyReference

fun index_step :: "index_op \<Rightarrow> MemoryAIJobReadyIndex \<Rightarrow> MemoryAIJobReadyIndex" where
  "index_step (Register entry) index = snd (index_Register entry index)"
| "index_step (Remove reference) index = snd (index_Remove reference index)"

definition index_run :: "index_op list \<Rightarrow> MemoryAIJobReadyIndex \<Rightarrow> MemoryAIJobReadyIndex" where
  "index_run ops index = fold index_step ops index"

text \<open>The entries of a job that operations register, refused ones aside.\<close>

definition registered :: "index_op list \<Rightarrow> string \<Rightarrow> AIJobReadyEntry set" where
  "registered ops i = {entry. \<exists>entry0. Register entry0 \<in> set ops \<and> entry = normalizeAIJobReadyEntry entry0
     \<and> validateAIJobReadyEntry entry = None \<and> ready_JobID entry = i}"

lemma registered_simps [simp]:
  "registered [] i = {}"
  "registered (Register entry0 # ops) i = (if validateAIJobReadyEntry (normalizeAIJobReadyEntry entry0) = None
     \<and> ready_JobID (normalizeAIJobReadyEntry entry0) = i then insert (normalizeAIJobReadyEntry entry0) (registered ops i) else registered ops i)"
  "registered (Remove reference # ops) i = registered ops i"
  "registered (ops @ ops') i = registered ops i \<union> registered ops' i"
  by (auto simp: registered_def)



declare index_step.simps [simp del]


lemma index_run_append [simp]: "index_run (ops @ ops') index = index_run ops' (index_run ops index)"
  by (simp add: index_run_def)










section \<open>Examples\<close>

definition demo_ready_entry :: "string \<Rightarrow> int \<Rightarrow> string \<Rightarrow> AIJobReadyEntry" where
  "demo_ready_entry job version who = \<lparr>ready_JobID = job, ready_Status = AIJobStatusQueued, ready_StatusVersion = version, ready_FenceToken = 0,
     ready_ProfileScope = ''p'', ready_TenantID = ''t'', ready_CredentialSource = [], ready_IntegrationID = [], ready_PrincipalType = ''user'',
     ready_PrincipalID = who, ready_ExternalSubjectReference = [], ready_Priority = 0, ready_ReadyAt = 1, ready_CreatedAt = 1\<rparr>"

definition demo_entries :: "AIJobReadyEntry list" where
  "demo_entries = [demo_ready_entry ''j1'' 1 ''a'', demo_ready_entry ''j2'' 1 ''a'', demo_ready_entry ''j3'' 1 ''b'']"








definition demo_index :: MemoryAIJobReadyIndex where
  "demo_index = map (\<lambda>entry. (ready_JobID entry, entry)) demo_entries"

text \<open>Of three ready jobs, two of one principal, a query for two takes one of each.\<close>

theorem ready_candidates_fair_witness:
  "map ready_JobID (index_Candidates \<lparr>rq_ReadyAt = 5, rq_Limit = 2\<rparr> demo_index) = [''j1'', ''j3'']
    \<and> length (index_Candidates \<lparr>rq_ReadyAt = 5, rq_Limit = 2\<rparr> demo_index) = 2
    \<and> mset (index_Candidates \<lparr>rq_ReadyAt = 5, rq_Limit = 2\<rparr> demo_index) \<subseteq># mset (mvalues demo_index)"
proof -
  have three: "length (filter (\<lambda>entry. ready_ReadyAt entry \<le> 5) (mvalues demo_index)) = 3"
    by (simp add: demo_index_def mvalues_def demo_entries_def demo_ready_entry_def)
  have "map ready_JobID (index_Candidates \<lparr>rq_ReadyAt = 5, rq_Limit = 2\<rparr> demo_index) = [''j1'', ''j3'']" by code_simp
  moreover have "length (index_Candidates \<lparr>rq_ReadyAt = 5, rq_Limit = 2\<rparr> demo_index) = 2"
    "mset (index_Candidates \<lparr>rq_ReadyAt = 5, rq_Limit = 2\<rparr> demo_index) \<subseteq># mset (mvalues demo_index)"
    using ready_candidates_fair [of "\<lparr>rq_ReadyAt = 5, rq_Limit = 2\<rparr>" demo_index] three by simp_all
  ultimately show ?thesis by blast
qed


end
