(* ===== verification/Delivery_Queue.thy ===== *)
theory Delivery_Queue
  imports AI_Job_Repo
begin

text \<open>
  The in-memory delivery queue between the scheduler and the workers (\<open>ai_job_delivery_queue.go\<close>): envelopes are published once under a
  dedupe key, handed to a consumer under a lease, and extended, acknowledged, returned or dead-lettered with the lease's token.
  The queue's clock and the random lease tokens are arguments; each call is one step under the queue's mutex. A call that waits
  repeats \<open>Receive\<close> at each wake-up.
\<close>

section \<open>Envelopes\<close>

definition ErrAIJobDeliveryEnvelopeInvalid :: go_error where
  "ErrAIJobDeliveryEnvelopeInvalid = errors_New ''invalid ai job delivery envelope''"
definition ErrAIJobDeliveryDedupeConflict :: go_error where
  "ErrAIJobDeliveryDedupeConflict = errors_New ''ai job delivery dedupe key conflicts with an existing envelope''"
definition ErrAIJobDeliveryNotFound :: go_error where
  "ErrAIJobDeliveryNotFound = errors_New ''ai job delivery was not found''"
definition ErrAIJobDeliveryLeaseConflict :: go_error where
  "ErrAIJobDeliveryLeaseConflict = errors_New ''ai job delivery lease does not match''"
definition ErrAIJobDeliveryLeaseExpired :: go_error where
  "ErrAIJobDeliveryLeaseExpired = errors_New ''ai job delivery lease has expired''"
definition ErrAIJobDeliveryLeaseDurationInvalid :: go_error where
  "ErrAIJobDeliveryLeaseDurationInvalid = errors_New ''ai job delivery lease duration must be positive''"

definition aiJobDeliveryEnvelopeSchemaVersion :: int where
  "aiJobDeliveryEnvelopeSchemaVersion = 1"

record AIJobDeliveryEnvelope =
  env_SchemaVersion :: int
  env_DeliveryID :: string
  env_JobID :: string
  env_OperationID :: string
  env_StatusVersion :: int
  env_FenceToken :: int
  env_QueueLeaseToken :: string

definition envelope_reference :: "AIJobDeliveryEnvelope \<Rightarrow> AIJobReadyReference" where
  "envelope_reference envelope = \<lparr>ref_JobID = env_JobID envelope, ref_StatusVersion = env_StatusVersion envelope\<rparr>"

definition DedupeKey :: "AIJobDeliveryEnvelope \<Rightarrow> string" where
  "DedupeKey e = TrimSpace (env_DeliveryID e)"

definition durableAIJobDeliveryIDParts :: "string \<Rightarrow> string \<Rightarrow> int \<Rightarrow> int \<Rightarrow> string" where
  "durableAIJobDeliveryIDParts jobID operationID statusVersion fenceToken =
     (if TrimSpace jobID = [] \<or> TrimSpace operationID = [] \<or> statusVersion \<le> 0 \<or> fenceToken \<le> 0 then []
      else ''job_delivery_'' @ prefix_str (hashAPIKey (jobID @ NUL @ operationID @ NUL @ Itoa statusVersion @ NUL @ Itoa fenceToken)) 32)"

definition durableAIJobDeliveryID :: "AIJob \<Rightarrow> string" where
  "durableAIJobDeliveryID job =
     durableAIJobDeliveryIDParts (job_ID job) (job_OperationID job) (job_StatusVersion job) (job_FenceToken job)"

definition validateAIJobDeliveryEnvelope :: "AIJobDeliveryEnvelope \<Rightarrow> go_error option" where
  "validateAIJobDeliveryEnvelope envelope =
     (if env_SchemaVersion envelope \<noteq> aiJobDeliveryEnvelopeSchemaVersion
        \<or> TrimSpace (env_DeliveryID envelope) = [] \<or> TrimSpace (env_JobID envelope) = [] \<or> TrimSpace (env_OperationID envelope) = []
        \<or> env_StatusVersion envelope \<le> 0 \<or> env_FenceToken envelope \<le> 0 \<or> TrimSpace (env_QueueLeaseToken envelope) = []
      then Some ErrAIJobDeliveryEnvelopeInvalid
      else if env_DeliveryID envelope \<noteq> durableAIJobDeliveryIDParts (env_JobID envelope) (env_OperationID envelope)
        (env_StatusVersion envelope) (env_FenceToken envelope)
      then Some ErrAIJobDeliveryEnvelopeInvalid
      else None)"

definition NewAIJobDeliveryEnvelope :: "AIJob \<Rightarrow> go_error + AIJobDeliveryEnvelope" where
  "NewAIJobDeliveryEnvelope job =
     (let envelope = \<lparr>env_SchemaVersion = aiJobDeliveryEnvelopeSchemaVersion, env_DeliveryID = durableAIJobDeliveryID job,
            env_JobID = TrimSpace (job_ID job), env_OperationID = TrimSpace (job_OperationID job),
            env_StatusVersion = job_StatusVersion job, env_FenceToken = job_FenceToken job,
            env_QueueLeaseToken = TrimSpace (job_QueueLeaseToken job)\<rparr>
      in case validateAIJobDeliveryEnvelope envelope of Some err \<Rightarrow> Inl err | None \<Rightarrow> Inr envelope)"

section \<open>Delivery identifiers are trimmed\<close>

lemma delivery_id_trimmed:
  assumes "validateAIJobDeliveryEnvelope envelope = None"
  shows "TrimSpace (env_DeliveryID envelope) = env_DeliveryID envelope"
proof -
  let ?h = "prefix_str (hashAPIKey (env_JobID envelope @ NUL @ env_OperationID envelope @ NUL @ Itoa (env_StatusVersion envelope) @ NUL
    @ Itoa (env_FenceToken envelope))) 32"
  have idn: "env_DeliveryID envelope = ''job_delivery_'' @ ?h"
    using assms by (auto simp: validateAIJobDeliveryEnvelope_def durableAIJobDeliveryIDParts_def split: if_splits)
  have "length ?h = 32" by (simp add: prefix_str_def hashAPIKey_def)
  then have "?h \<noteq> []" by auto
  then have "last ?h \<in> set ?h" by (rule last_in_set)
  moreover have "plain_char c" if "c \<in> set ?h" for c
    using that plain_hex by (auto simp: prefix_str_def hashAPIKey_def dest!: in_set_takeD)
  moreover have "plain_char (CHR ''j'')" by (simp add: plain_char_def byte_of_def)
  ultimately show ?thesis unfolding idn using \<open>?h \<noteq> []\<close> by (intro TrimSpace_plain) simp_all
qed

lemma NewEnvelope_Inr:
  assumes "TrimSpace (job_ID job) = job_ID job" "job_ID job \<noteq> []" "TrimSpace (job_OperationID job) = job_OperationID job"
    "job_OperationID job \<noteq> []" "0 < job_StatusVersion job" "0 < job_FenceToken job" "TrimSpace (job_QueueLeaseToken job) \<noteq> []"
  shows "\<exists>envelope. NewAIJobDeliveryEnvelope job = Inr envelope \<and> validateAIJobDeliveryEnvelope envelope = None
    \<and> env_DeliveryID envelope = durableAIJobDeliveryID job \<and> env_JobID envelope = job_ID job"
proof -
  let ?h = "prefix_str (hashAPIKey (job_ID job @ NUL @ job_OperationID job @ NUL @ Itoa (job_StatusVersion job) @ NUL
    @ Itoa (job_FenceToken job))) 32"
  have idn: "durableAIJobDeliveryID job = ''job_delivery_'' @ ?h"
    using assms by (simp add: durableAIJobDeliveryID_def durableAIJobDeliveryIDParts_def)
  have "length ?h = 32" by (simp add: prefix_str_def hashAPIKey_def)
  then have "?h \<noteq> []" by auto
  then have "last ?h \<in> set ?h" by (rule last_in_set)
  moreover have "plain_char c" if "c \<in> set ?h" for c
    using that plain_hex by (auto simp: prefix_str_def hashAPIKey_def dest!: in_set_takeD)
  moreover have "plain_char (CHR ''j'')" by (simp add: plain_char_def byte_of_def)
  ultimately have "TrimSpace (durableAIJobDeliveryID job) = durableAIJobDeliveryID job"
    unfolding idn using \<open>?h \<noteq> []\<close> by (intro TrimSpace_plain) simp_all
  then show ?thesis using assms idn
    by (simp add: NewAIJobDeliveryEnvelope_def validateAIJobDeliveryEnvelope_def Let_def durableAIJobDeliveryID_def)
qed

section \<open>The queue\<close>

record AIJobDelivery =
  delivery_ID :: string
  delivery_Envelope :: AIJobDeliveryEnvelope
  delivery_Consumer :: string
  delivery_Attempt :: int
  delivery_LeaseUntil :: gotime
  delivery_LeaseToken :: string

definition memoryAIJobDeliveryPending :: string where "memoryAIJobDeliveryPending = ''pending''"
definition memoryAIJobDeliveryInflight :: string where "memoryAIJobDeliveryInflight = ''inflight''"
definition memoryAIJobDeliveryAcked :: string where "memoryAIJobDeliveryAcked = ''acked''"
definition memoryAIJobDeliveryDead :: string where "memoryAIJobDeliveryDead = ''dead''"

lemma delivery_status_distinct [simp]:
  "memoryAIJobDeliveryPending \<noteq> memoryAIJobDeliveryInflight" "memoryAIJobDeliveryPending \<noteq> memoryAIJobDeliveryAcked"
  "memoryAIJobDeliveryPending \<noteq> memoryAIJobDeliveryDead" "memoryAIJobDeliveryInflight \<noteq> memoryAIJobDeliveryAcked"
  "memoryAIJobDeliveryInflight \<noteq> memoryAIJobDeliveryDead" "memoryAIJobDeliveryInflight \<noteq> memoryAIJobDeliveryPending"
  "memoryAIJobDeliveryAcked \<noteq> memoryAIJobDeliveryPending" "memoryAIJobDeliveryAcked \<noteq> memoryAIJobDeliveryInflight"
  "memoryAIJobDeliveryDead \<noteq> memoryAIJobDeliveryPending" "memoryAIJobDeliveryDead \<noteq> memoryAIJobDeliveryInflight"
  by (simp_all add: memoryAIJobDeliveryPending_def memoryAIJobDeliveryInflight_def memoryAIJobDeliveryAcked_def
      memoryAIJobDeliveryDead_def)

record memoryAIJobDeliveryEntry =
  entry_envelope :: AIJobDeliveryEnvelope
  entry_dedupeKey :: string
  entry_status :: string
  entry_availableAt :: gotime
  entry_leaseUntil :: gotime
  entry_leaseToken :: string
  entry_consumer :: string
  entry_attempt :: int
  entry_sequence :: int
  entry_lastError :: string

text \<open>\<open>dq_notify\<close> counts the channels closed by \<open>signalLocked\<close>: a waiting call wakes when it changes.\<close>

record MemoryAIJobDeliveryQueue =
  dq_entries :: "(string, memoryAIJobDeliveryEntry) gmap"
  dq_byDedupe :: "(string, string) gmap"
  dq_notify :: nat
  dq_deliveryLease :: duration
  dq_nextSequence :: int

definition NewMemoryAIJobDeliveryQueue :: "duration \<Rightarrow> go_error + MemoryAIJobDeliveryQueue" where
  "NewMemoryAIJobDeliveryQueue deliveryLease =
     (if deliveryLease \<le> 0 then Inl ErrAIJobDeliveryLeaseDurationInvalid
      else Inr \<lparr>dq_entries = [], dq_byDedupe = [], dq_notify = 0, dq_deliveryLease = deliveryLease, dq_nextSequence = 0\<rparr>)"

definition signalLocked :: "MemoryAIJobDeliveryQueue \<Rightarrow> MemoryAIJobDeliveryQueue" where
  "signalLocked q = q\<lparr>dq_notify := dq_notify q + 1\<rparr>"

definition put_entry :: "memoryAIJobDeliveryEntry \<Rightarrow> MemoryAIJobDeliveryQueue \<Rightarrow> MemoryAIJobDeliveryQueue" where
  "put_entry entry q = q\<lparr>dq_entries := mput (env_DeliveryID (entry_envelope entry)) entry (dq_entries q)\<rparr>"

text \<open>\<open>ctx\<close> is the result of \<open>contextErr\<close>: the error of a context that is done.\<close>

definition queue_Publish ::
  "go_error option \<Rightarrow> gotime \<Rightarrow> AIJobDeliveryEnvelope \<Rightarrow> string \<Rightarrow> gotime \<Rightarrow> MemoryAIJobDeliveryQueue
     \<Rightarrow> go_error option \<times> MemoryAIJobDeliveryQueue" where
  "queue_Publish ctx now envelope dedupeKey0 availableAt0 q =
     (case ctx of
        Some err \<Rightarrow> (Some err, q)
      | None \<Rightarrow>
          (case validateAIJobDeliveryEnvelope envelope of
             Some err \<Rightarrow> (Some err, q)
           | None \<Rightarrow>
               let dedupeKey = (if TrimSpace dedupeKey0 = [] then DedupeKey envelope else TrimSpace dedupeKey0);
                   availableAt = (if availableAt0 = 0 then now else availableAt0)
               in if dedupeKey = [] then (Some ErrAIJobDeliveryEnvelopeInvalid, q)
                  else (case map_of (dq_byDedupe q) dedupeKey of
                      Some existingID \<Rightarrow>
                        (case map_of (dq_entries q) existingID of
                           Some existing \<Rightarrow> (if entry_envelope existing \<noteq> envelope then Some ErrAIJobDeliveryDedupeConflict else None, q)
                         | None \<Rightarrow> (None, q))
                    | None \<Rightarrow>
                        (case map_of (dq_entries q) (env_DeliveryID envelope) of
                           Some existing \<Rightarrow>
                             (if entry_envelope existing \<noteq> envelope \<or> entry_dedupeKey existing \<noteq> dedupeKey
                              then Some ErrAIJobDeliveryDedupeConflict else None, q)
                         | None \<Rightarrow>
                             let q = q\<lparr>dq_nextSequence := dq_nextSequence q + 1\<rparr>;
                                 entry = \<lparr>entry_envelope = envelope, entry_dedupeKey = dedupeKey, entry_status = memoryAIJobDeliveryPending,
                                   entry_availableAt = availableAt, entry_leaseUntil = 0, entry_leaseToken = [], entry_consumer = [],
                                   entry_attempt = 0, entry_sequence = dq_nextSequence q, entry_lastError = []\<rparr>;
                                 q = put_entry entry q
                             in (None, signalLocked (q\<lparr>dq_byDedupe := mput dedupeKey (env_DeliveryID envelope) (dq_byDedupe q)\<rparr>))))))"

section \<open>Receiving\<close>

definition reclaim_entry :: "gotime \<Rightarrow> memoryAIJobDeliveryEntry \<Rightarrow> memoryAIJobDeliveryEntry" where
  "reclaim_entry now entry =
     (if entry_status entry \<noteq> memoryAIJobDeliveryInflight \<or> entry_leaseUntil entry > now then entry
      else entry\<lparr>entry_status := memoryAIJobDeliveryPending, entry_availableAt := now, entry_leaseUntil := 0,
        entry_leaseToken := [], entry_consumer := []\<rparr>)"

definition reclaimExpiredLocked :: "gotime \<Rightarrow> MemoryAIJobDeliveryQueue \<Rightarrow> MemoryAIJobDeliveryQueue" where
  "reclaimExpiredLocked now q =
     (let q' = q\<lparr>dq_entries := map (\<lambda>(k, entry). (k, reclaim_entry now entry)) (dq_entries q)\<rparr>
      in if list_ex (\<lambda>entry. entry_status entry = memoryAIJobDeliveryInflight \<and> \<not> entry_leaseUntil entry > now) (mvalues (dq_entries q))
         then signalLocked q' else q')"

definition available_order :: "memoryAIJobDeliveryEntry \<Rightarrow> memoryAIJobDeliveryEntry \<Rightarrow> bool" where
  "available_order a b =
     (if entry_availableAt a \<noteq> entry_availableAt b then entry_availableAt a < entry_availableAt b
      else entry_sequence a < entry_sequence b)"

definition readyEntriesLocked :: "gotime \<Rightarrow> int \<Rightarrow> MemoryAIJobDeliveryQueue \<Rightarrow> memoryAIJobDeliveryEntry list" where
  "readyEntriesLocked now limit q =
     (let ready = sort_slice available_order (filter (\<lambda>entry. entry_status entry = memoryAIJobDeliveryPending
            \<and> \<not> entry_availableAt entry > now) (mvalues (dq_entries q)))
      in if int (length ready) > limit then take (nat limit) ready else ready)"

definition wake_candidate :: "memoryAIJobDeliveryEntry \<Rightarrow> gotime" where
  "wake_candidate entry =
     (if entry_status entry = memoryAIJobDeliveryPending then entry_availableAt entry
      else if entry_status entry = memoryAIJobDeliveryInflight then entry_leaseUntil entry else 0)"

definition nextWakeLocked :: "gotime \<Rightarrow> MemoryAIJobDeliveryQueue \<Rightarrow> gotime" where
  "nextWakeLocked now q = foldl (\<lambda>next entry.
     let candidate = wake_candidate entry
     in if \<not> candidate > now then next else if next = 0 \<or> candidate < next then candidate else next) 0 (mvalues (dq_entries q))"

definition leased_entry :: "gotime \<Rightarrow> string \<Rightarrow> string \<Rightarrow> duration \<Rightarrow> memoryAIJobDeliveryEntry \<Rightarrow> memoryAIJobDeliveryEntry" where
  "leased_entry now consumer token lease entry =
     entry\<lparr>entry_status := memoryAIJobDeliveryInflight, entry_attempt := entry_attempt entry + 1, entry_consumer := consumer,
       entry_leaseToken := ''delivery_lease_'' @ token, entry_leaseUntil := now + lease\<rparr>"

definition delivery_of :: "memoryAIJobDeliveryEntry \<Rightarrow> AIJobDelivery" where
  "delivery_of entry = \<lparr>delivery_ID = env_DeliveryID (entry_envelope entry), delivery_Envelope = entry_envelope entry,
     delivery_Consumer = entry_consumer entry, delivery_Attempt = entry_attempt entry, delivery_LeaseUntil = entry_leaseUntil entry,
     delivery_LeaseToken = entry_leaseToken entry\<rparr>"

fun hand_out ::
  "gotime \<Rightarrow> string \<Rightarrow> (nat \<Rightarrow> string) \<Rightarrow> memoryAIJobDeliveryEntry list \<Rightarrow> nat \<Rightarrow> MemoryAIJobDeliveryQueue
     \<Rightarrow> AIJobDelivery list \<times> MemoryAIJobDeliveryQueue" where
  "hand_out now consumer token [] n q = ([], q)"
| "hand_out now consumer token (entry # ready) n q =
     (let entry = leased_entry now consumer (token n) (dq_deliveryLease q) entry
      in case hand_out now consumer token ready (n + 1) (put_entry entry q) of (out, q') \<Rightarrow> (delivery_of entry # out, q'))"

datatype receive_outcome = Returned "go_error + AIJobDelivery list" | Waiting duration

text \<open>
  One pass of the loop of \<open>Receive\<close>: \<open>remaining\<close> is the time until the call's deadline, for a call that waits. With nothing ready it
  returns, or it waits for a signal or for at most the given time and passes again.
\<close>

definition queue_Receive ::
  "go_error option \<Rightarrow> gotime \<Rightarrow> duration option \<Rightarrow> string \<Rightarrow> int \<Rightarrow> (nat \<Rightarrow> string) \<Rightarrow> MemoryAIJobDeliveryQueue
     \<Rightarrow> receive_outcome \<times> MemoryAIJobDeliveryQueue" where
  "queue_Receive ctx now remaining consumer0 maxItems token q =
     (let consumer = TrimSpace consumer0
      in if consumer = [] \<or> maxItems \<le> 0 then (Returned (Inr []), q)
         else (case ctx of
             Some err \<Rightarrow> (Returned (Inl err), q)
           | None \<Rightarrow>
               let q = reclaimExpiredLocked now q;
                   ready = readyEntriesLocked now maxItems q
               in if ready \<noteq> []
                  then (case hand_out now consumer token ready 0 q of (out, q') \<Rightarrow> (Returned (Inr out), q'))
                  else (case remaining of
                      None \<Rightarrow> (Returned (Inr []), q)
                    | Some waitFor \<Rightarrow>
                        if waitFor \<le> 0 then (Returned (Inr []), q)
                        else
                          let nextWake = nextWakeLocked now q
                          in (Waiting (if nextWake \<noteq> 0 \<and> time_Sub nextWake now < waitFor then time_Sub nextWake now else waitFor), q))))"

section \<open>Holding a delivery\<close>

definition validateLeaseLocked :: "gotime \<Rightarrow> AIJobDelivery \<Rightarrow> MemoryAIJobDeliveryQueue \<Rightarrow> go_error + memoryAIJobDeliveryEntry" where
  "validateLeaseLocked now delivery q =
     (case map_of (dq_entries q) (TrimSpace (delivery_ID delivery)) of
        None \<Rightarrow> Inl ErrAIJobDeliveryNotFound
      | Some entry \<Rightarrow>
          if entry_status entry \<noteq> memoryAIJobDeliveryInflight \<or> entry_leaseToken entry = [] \<or> entry_leaseToken entry \<noteq> delivery_LeaseToken delivery
          then Inl ErrAIJobDeliveryLeaseConflict
          else if \<not> entry_leaseUntil entry > now then Inl ErrAIJobDeliveryLeaseExpired
          else Inr entry)"

definition with_lease ::
  "go_error option \<Rightarrow> gotime \<Rightarrow> AIJobDelivery \<Rightarrow> (memoryAIJobDeliveryEntry \<Rightarrow> MemoryAIJobDeliveryQueue \<Rightarrow> MemoryAIJobDeliveryQueue)
     \<Rightarrow> MemoryAIJobDeliveryQueue \<Rightarrow> go_error option \<times> MemoryAIJobDeliveryQueue" where
  "with_lease ctx now delivery change q =
     (case ctx of
        Some err \<Rightarrow> (Some err, q)
      | None \<Rightarrow> (case validateLeaseLocked now delivery q of Inl err \<Rightarrow> (Some err, q) | Inr entry \<Rightarrow> (None, change entry q)))"

definition queue_Extend ::
  "go_error option \<Rightarrow> gotime \<Rightarrow> gotime \<Rightarrow> AIJobDelivery \<Rightarrow> gotime \<Rightarrow> MemoryAIJobDeliveryQueue
     \<Rightarrow> go_error option \<times> MemoryAIJobDeliveryQueue" where
  "queue_Extend ctx now0 now delivery leaseUntil q =
     (case ctx of
        Some err \<Rightarrow> (Some err, q)
      | None \<Rightarrow>
          if \<not> leaseUntil > now0 then (Some ErrAIJobDeliveryLeaseExpired, q)
          else with_lease None now delivery (\<lambda>entry. put_entry (entry\<lparr>entry_leaseUntil := leaseUntil\<rparr>)) q)"

definition released_entry :: "string \<Rightarrow> memoryAIJobDeliveryEntry \<Rightarrow> memoryAIJobDeliveryEntry" where
  "released_entry status entry =
     entry\<lparr>entry_status := status, entry_leaseUntil := 0, entry_leaseToken := [], entry_consumer := []\<rparr>"

definition queue_Ack ::
  "go_error option \<Rightarrow> gotime \<Rightarrow> AIJobDelivery \<Rightarrow> MemoryAIJobDeliveryQueue \<Rightarrow> go_error option \<times> MemoryAIJobDeliveryQueue" where
  "queue_Ack ctx now delivery =
     with_lease ctx now delivery (\<lambda>entry q. signalLocked (put_entry (released_entry memoryAIJobDeliveryAcked entry) q))"

definition queue_Nack ::
  "go_error option \<Rightarrow> gotime \<Rightarrow> gotime \<Rightarrow> AIJobDelivery \<Rightarrow> gotime \<Rightarrow> string \<Rightarrow> MemoryAIJobDeliveryQueue
     \<Rightarrow> go_error option \<times> MemoryAIJobDeliveryQueue" where
  "queue_Nack ctx now0 now delivery retryAt reason =
     with_lease ctx now delivery (\<lambda>entry q. signalLocked (put_entry ((released_entry memoryAIJobDeliveryPending entry)
       \<lparr>entry_availableAt := (if retryAt = 0 \<or> retryAt < now0 then now0 else retryAt), entry_lastError := TrimSpace reason\<rparr>) q))"

definition queue_DeadLetter ::
  "go_error option \<Rightarrow> gotime \<Rightarrow> AIJobDelivery \<Rightarrow> string \<Rightarrow> MemoryAIJobDeliveryQueue \<Rightarrow> go_error option \<times> MemoryAIJobDeliveryQueue" where
  "queue_DeadLetter ctx now delivery reason =
     with_lease ctx now delivery (\<lambda>entry q.
       signalLocked (put_entry ((released_entry memoryAIJobDeliveryDead entry)\<lparr>entry_lastError := TrimSpace reason\<rparr>) q))"

end
