(* ===== verification/Delivery_Lease.thy ===== *)
theory Delivery_Lease
  imports Delivery_Queue AI_Job_Trail
begin

text \<open>
  What the delivery queue promises: an envelope is published once under its dedupe key, a lease protects an entry until it ends,
  and an entry that is due is delivered again and again until a holder acknowledges or dead-letters it.
\<close>

section \<open>The operations as one machine\<close>

datatype queue_op =
    Publish_op "go_error option" gotime AIJobDeliveryEnvelope string gotime
  | Receive_op "go_error option" gotime "duration option" string int "nat \<Rightarrow> string"
  | Extend_op "go_error option" gotime gotime AIJobDelivery gotime
  | Ack_op "go_error option" gotime AIJobDelivery
  | Nack_op "go_error option" gotime gotime AIJobDelivery gotime string
  | Dead_op "go_error option" gotime AIJobDelivery string

fun run_op :: "queue_op \<Rightarrow> MemoryAIJobDeliveryQueue \<Rightarrow> MemoryAIJobDeliveryQueue" where
  "run_op (Publish_op ctx now envelope key at) q = snd (queue_Publish ctx now envelope key at q)"
| "run_op (Receive_op ctx now remaining consumer maxItems token) q = snd (queue_Receive ctx now remaining consumer maxItems token q)"
| "run_op (Extend_op ctx now0 now delivery until) q = snd (queue_Extend ctx now0 now delivery until q)"
| "run_op (Ack_op ctx now delivery) q = snd (queue_Ack ctx now delivery q)"
| "run_op (Nack_op ctx now0 now delivery at reason) q = snd (queue_Nack ctx now0 now delivery at reason q)"
| "run_op (Dead_op ctx now delivery reason) q = snd (queue_DeadLetter ctx now delivery reason q)"

definition run_ops :: "queue_op list \<Rightarrow> MemoryAIJobDeliveryQueue \<Rightarrow> MemoryAIJobDeliveryQueue" where
  "run_ops ops q = foldl (\<lambda>q op. run_op op q) q ops"

abbreviation entry_id :: "memoryAIJobDeliveryEntry \<Rightarrow> string" where
  "entry_id entry \<equiv> env_DeliveryID (entry_envelope entry)"

abbreviation entry_at :: "MemoryAIJobDeliveryQueue \<Rightarrow> string \<Rightarrow> memoryAIJobDeliveryEntry option" where
  "entry_at q \<equiv> map_of (dq_entries q)"

section \<open>Well-formed queues\<close>

definition delivery_statuses :: "string set" where
  "delivery_statuses = {memoryAIJobDeliveryPending, memoryAIJobDeliveryInflight, memoryAIJobDeliveryAcked, memoryAIJobDeliveryDead}"

lemma delivery_statuses [simp]: "memoryAIJobDeliveryPending \<in> delivery_statuses" "memoryAIJobDeliveryInflight \<in> delivery_statuses"
  "memoryAIJobDeliveryAcked \<in> delivery_statuses" "memoryAIJobDeliveryDead \<in> delivery_statuses"
  by (simp_all add: delivery_statuses_def)

definition queue_ok :: "MemoryAIJobDeliveryQueue \<Rightarrow> bool" where
  "queue_ok q \<longleftrightarrow> keyed entry_id (dq_entries q)
     \<and> (\<forall>k i. map_of (dq_byDedupe q) k = Some i \<longrightarrow> (\<exists>entry. entry_at q i = Some entry \<and> entry_dedupeKey entry = k))
     \<and> (\<forall>i entry. entry_at q i = Some entry \<longrightarrow> map_of (dq_byDedupe q) (entry_dedupeKey entry) = Some i
         \<and> entry_status entry \<in> delivery_statuses \<and> TrimSpace i = i)"

lemma queue_ok_keyed: "queue_ok q \<Longrightarrow> keyed entry_id (dq_entries q)"
  by (simp add: queue_ok_def)

text \<open>What every operation keeps of an entry: its envelope, its dedupe key, its place in the sequence, and its end.\<close>

definition terminal :: "memoryAIJobDeliveryEntry \<Rightarrow> bool" where
  "terminal entry \<longleftrightarrow> entry_status entry \<in> {memoryAIJobDeliveryAcked, memoryAIJobDeliveryDead}"

definition due :: "gotime \<Rightarrow> memoryAIJobDeliveryEntry \<Rightarrow> bool" where
  "due now entry \<longleftrightarrow> (entry_status entry = memoryAIJobDeliveryPending \<and> entry_availableAt entry \<le> now)
     \<or> (entry_status entry = memoryAIJobDeliveryInflight \<and> entry_leaseUntil entry \<le> now)"

definition presents :: "AIJobDelivery \<Rightarrow> string \<Rightarrow> memoryAIJobDeliveryEntry \<Rightarrow> bool" where
  "presents delivery i entry \<longleftrightarrow> TrimSpace (delivery_ID delivery) = i \<and> delivery_LeaseToken delivery = entry_leaseToken entry"

text \<open>An operation may change the entry under \<open>i\<close>: a receive when the entry is due, and a call that presents the lease's token.\<close>

fun may_change :: "queue_op \<Rightarrow> string \<Rightarrow> memoryAIJobDeliveryEntry \<Rightarrow> bool" where
  "may_change (Publish_op ctx now envelope key at) i entry = False"
| "may_change (Receive_op ctx now remaining consumer maxItems token) i entry = due now entry"
| "may_change (Extend_op ctx now0 now delivery until) i entry = presents delivery i entry"
| "may_change (Ack_op ctx now delivery) i entry = presents delivery i entry"
| "may_change (Nack_op ctx now0 now delivery at reason) i entry = presents delivery i entry"
| "may_change (Dead_op ctx now delivery reason) i entry = presents delivery i entry"

definition same_entry :: "memoryAIJobDeliveryEntry \<Rightarrow> memoryAIJobDeliveryEntry \<Rightarrow> bool" where
  "same_entry a b \<longleftrightarrow> entry_envelope b = entry_envelope a \<and> entry_dedupeKey b = entry_dedupeKey a
     \<and> entry_sequence b = entry_sequence a \<and> entry_attempt a \<le> entry_attempt b \<and> (terminal a \<longrightarrow> b = a)
     \<and> (entry_status a \<in> delivery_statuses \<longrightarrow> entry_status b \<in> delivery_statuses)"

lemma same_entry_refl [simp]: "same_entry a a"
  by (simp add: same_entry_def)

lemma same_entry_trans: "same_entry a b \<Longrightarrow> same_entry b c \<Longrightarrow> same_entry a c"
  by (auto simp: same_entry_def)

definition queue_keeps :: "MemoryAIJobDeliveryQueue \<Rightarrow> MemoryAIJobDeliveryQueue \<Rightarrow> (string \<Rightarrow> memoryAIJobDeliveryEntry \<Rightarrow> bool) \<Rightarrow> bool" where
  "queue_keeps q q' may \<longleftrightarrow> queue_ok q' \<and> (\<forall>i entry. entry_at q i = Some entry \<longrightarrow>
     (\<exists>entry'. entry_at q' i = Some entry' \<and> same_entry entry entry' \<and> (entry' \<noteq> entry \<longrightarrow> may i entry)))"

lemma queue_keeps_refl: "queue_ok q \<Longrightarrow> queue_keeps q q may"
  by (simp add: queue_keeps_def)

lemma queue_ok_cong: "dq_entries q' = dq_entries q \<Longrightarrow> dq_byDedupe q' = dq_byDedupe q \<Longrightarrow> queue_ok q' = queue_ok q"
  by (simp add: queue_ok_def)

lemma signal_fields [simp]:
  "dq_entries (signalLocked q) = dq_entries q" "dq_byDedupe (signalLocked q) = dq_byDedupe q"
  "dq_deliveryLease (signalLocked q) = dq_deliveryLease q" "queue_ok (signalLocked q) = queue_ok q"
  by (simp_all add: signalLocked_def queue_ok_def)

lemma put_entry_fields [simp]:
  "dq_entries (put_entry entry q) = mput (entry_id entry) entry (dq_entries q)" "dq_byDedupe (put_entry entry q) = dq_byDedupe q"
  "dq_deliveryLease (put_entry entry q) = dq_deliveryLease q"
  by (simp_all add: put_entry_def)

text \<open>An entry is replaced by one that keeps it.\<close>

lemma put_keeps:
  assumes "queue_ok q" "entry_at q i = Some entry" "same_entry entry entry'" "may i entry"
  shows "queue_keeps q (put_entry entry' q) may"
proof -
  have i: "entry_id entry = i" using keyed_lookup [OF queue_ok_keyed [OF assms(1)] assms(2)] .
  have key: "keyed entry_id (mput i entry' (dq_entries q))"
    using queue_ok_keyed [OF assms(1)] assms(3) i by (auto simp: same_entry_def)
  have "queue_ok (put_entry entry' q)"
    using assms(1-3) i key unfolding queue_ok_def same_entry_def by (auto simp: map_upd_Some_unfold) (metis option.inject)+
  then show ?thesis using assms(2-4) i by (auto simp: queue_keeps_def same_entry_def)
qed

lemma keeps_signal: "queue_keeps q q' may \<Longrightarrow> queue_keeps q (signalLocked q') may"
  by (simp add: queue_keeps_def)

lemma with_lease_keeps:
  assumes "queue_ok q" "\<And>entry. \<not> terminal entry \<Longrightarrow> same_entry entry (f entry)"
    "\<And>entry. change entry q = put_entry (f entry) q \<or> change entry q = signalLocked (put_entry (f entry) q)"
  shows "queue_keeps q (snd (with_lease ctx now delivery change q)) (presents delivery)"
proof (cases "ctx = None \<and> (\<exists>entry. validateLeaseLocked now delivery q = Inr entry)")
  case True
  then obtain entry where v: "ctx = None" "validateLeaseLocked now delivery q = Inr entry" by blast
  let ?i = "TrimSpace (delivery_ID delivery)"
  from v(2) have e: "entry_at q ?i = Some entry" "entry_status entry = memoryAIJobDeliveryInflight"
      "entry_leaseToken entry = delivery_LeaseToken delivery"
    by (auto simp: validateLeaseLocked_def split: option.splits if_splits)
  have "\<not> terminal entry" using e(2) by (simp add: terminal_def)
  then have "queue_keeps q (put_entry (f entry) q) (presents delivery)"
    using put_keeps [OF assms(1) e(1) assms(2)] e(3) by (simp add: presents_def)
  then show ?thesis using assms(3) [of entry] v keeps_signal by (auto simp: with_lease_def)
next
  case False
  then show ?thesis using queue_keeps_refl [OF assms(1)] by (auto simp: with_lease_def split: option.splits sum.splits)
qed

lemma Publish_keeps:
  assumes "queue_ok q"
  shows "queue_keeps q (snd (queue_Publish ctx now envelope key at q)) may"
proof -
  define k where "k = (if TrimSpace key = [] then DedupeKey envelope else TrimSpace key)"
  show ?thesis
  proof (cases "ctx = None \<and> validateAIJobDeliveryEnvelope envelope = None \<and> k \<noteq> [] \<and> map_of (dq_byDedupe q) k = None
      \<and> entry_at q (env_DeliveryID envelope) = None")
    case False
    then have "snd (queue_Publish ctx now envelope key at q) = q"
      by (auto simp: queue_Publish_def Let_def k_def split: option.splits)
    then show ?thesis using queue_keeps_refl [OF assms] by simp
  next
    case True
    let ?q = "snd (queue_Publish ctx now envelope key at q)"
    obtain entry where e: "dq_entries ?q = mput (env_DeliveryID envelope) entry (dq_entries q)" "entry_envelope entry = envelope"
        "entry_dedupeKey entry = k" "entry_status entry \<in> delivery_statuses" "dq_byDedupe ?q = mput k (env_DeliveryID envelope) (dq_byDedupe q)"
      using True by (auto simp: queue_Publish_def Let_def k_def [symmetric])
    have "keyed entry_id (dq_entries ?q)" using queue_ok_keyed [OF assms] e(1,2) by auto
    moreover have "entry_dedupeKey e' \<noteq> k" if "entry_at q i = Some e'" for i e'
      using assms that True by (auto simp: queue_ok_def)
    ultimately have "queue_ok ?q" using assms e True delivery_id_trimmed [of envelope] unfolding queue_ok_def
      by (auto simp: map_upd_Some_unfold) (metis option.distinct(1))
    then show ?thesis using e(1) True by (auto simp: queue_keeps_def)
  qed
qed

section \<open>Receiving\<close>

lemma map_of_reclaim: "entry_at (reclaimExpiredLocked now q) i = map_option (reclaim_entry now) (entry_at q i)"
  by (simp add: reclaimExpiredLocked_def Let_def map_of_map)

lemma reclaim_fields [simp]:
  "dq_byDedupe (reclaimExpiredLocked now q) = dq_byDedupe q" "dq_deliveryLease (reclaimExpiredLocked now q) = dq_deliveryLease q"
  by (simp_all add: reclaimExpiredLocked_def Let_def)

lemma reclaim_entry_same [simp]: "same_entry entry (reclaim_entry now entry)" "entry_envelope (reclaim_entry now entry) = entry_envelope entry"
  "entry_dedupeKey (reclaim_entry now entry) = entry_dedupeKey entry"
  by (auto simp: same_entry_def reclaim_entry_def terminal_def)

lemma reclaim_status [simp]: "entry_status entry \<in> delivery_statuses \<Longrightarrow> entry_status (reclaim_entry now entry) \<in> delivery_statuses"
  by (simp add: reclaim_entry_def)

lemma reclaim_ok:
  assumes "queue_ok q"
  shows "queue_ok (reclaimExpiredLocked now q)"
proof -
  have "keyed entry_id (map (\<lambda>(k, entry). (k, reclaim_entry now entry)) (dq_entries q))"
    using queue_ok_keyed [OF assms] by (auto simp: keyed_def wf_gmap_def list_all_iff case_prod_unfold comp_def)
  then have "keyed entry_id (dq_entries (reclaimExpiredLocked now q))" by (simp add: reclaimExpiredLocked_def Let_def)
  moreover have "\<exists>entry. map_option (reclaim_entry now) (entry_at q i) = Some entry \<and> entry_dedupeKey entry = k"
    if k: "map_of (dq_byDedupe q) k = Some i" for k i
  proof -
    from assms k obtain e where "entry_at q i = Some e" "entry_dedupeKey e = k" unfolding queue_ok_def by blast
    then show ?thesis by simp
  qed
  moreover have "map_of (dq_byDedupe q) (entry_dedupeKey entry) = Some i \<and> entry_status entry \<in> delivery_statuses \<and> TrimSpace i = i"
    if "map_option (reclaim_entry now) (entry_at q i) = Some entry" for i entry using assms that by (auto simp: queue_ok_def)
  ultimately show ?thesis unfolding queue_ok_def map_of_reclaim by simp
qed

lemma due_reclaim: "due now entry \<longleftrightarrow> entry_status (reclaim_entry now entry) = memoryAIJobDeliveryPending
    \<and> \<not> entry_availableAt (reclaim_entry now entry) > now"
  by (auto simp: due_def reclaim_entry_def)

lemma due_not_terminal: "due now entry \<Longrightarrow> \<not> terminal entry"
  by (auto simp: due_def terminal_def)

lemma reclaim_due: "reclaim_entry now entry \<noteq> entry \<Longrightarrow> due now entry"
  by (auto simp: reclaim_entry_def due_def split: if_splits)

interpretation available: comparison available_order
proof
  show "available_order x y \<Longrightarrow> \<not> available_order y x" for x y by (auto simp: available_order_def split: if_splits)
  show "available_order x z \<Longrightarrow> available_order x y \<or> available_order y z" for x y z
    by (auto simp: available_order_def split: if_splits)
qed

lemma leased_fields [simp]:
  "entry_envelope (leased_entry now consumer token lease entry) = entry_envelope entry"
  "entry_dedupeKey (leased_entry now consumer token lease entry) = entry_dedupeKey entry"
  "entry_status (leased_entry now consumer token lease entry) = memoryAIJobDeliveryInflight"
  "entry_leaseUntil (leased_entry now consumer token lease entry) = now + lease"
  by (simp_all add: leased_entry_def)

text \<open>Handing out the ready entries leases each of them and no other.\<close>

lemma hand_out_spec:
  assumes "hand_out now consumer token ready n q = (out, q')" "distinct (map entry_id ready)"
    "\<forall>entry \<in> set ready. entry_at q (entry_id entry) = Some entry"
  shows "out = map (\<lambda>(j, entry). delivery_of (leased_entry now consumer (token j) (dq_deliveryLease q) entry)) (enumerate n ready)
    \<and> (\<forall>(j, entry) \<in> set (enumerate n ready). entry_at q' (entry_id entry) = Some (leased_entry now consumer (token j) (dq_deliveryLease q) entry))
    \<and> (\<forall>i. i \<notin> entry_id ` set ready \<longrightarrow> entry_at q' i = entry_at q i)"
  using assms
proof (induction ready arbitrary: n q out)
  case Nil
  then show ?case by simp
next
  case (Cons entry ready)
  let ?e = "leased_entry now consumer (token n) (dq_deliveryLease q) entry"
  obtain out' where h: "hand_out now consumer token ready (Suc n) (put_entry ?e q) = (out', q')" "out = delivery_of ?e # out'"
    using Cons.prems(1) by (auto simp: Let_def split: prod.splits)
  have "\<forall>x \<in> set ready. entry_at (put_entry ?e q) (entry_id x) = Some x" using Cons.prems(2,3) by (auto simp: image_iff)
  from Cons.IH [OF h(1) _ this] Cons.prems(2) have ih:
    "out' = map (\<lambda>(j, x). delivery_of (leased_entry now consumer (token j) (dq_deliveryLease q) x)) (enumerate (Suc n) ready)"
    "\<forall>(j, x) \<in> set (enumerate (Suc n) ready). entry_at q' (entry_id x) = Some (leased_entry now consumer (token j) (dq_deliveryLease q) x)"
    "\<forall>i. i \<notin> entry_id ` set ready \<longrightarrow> entry_at q' i = entry_at (put_entry ?e q) i" by auto
  have "entry_at q' (entry_id entry) = Some ?e" using ih(3) Cons.prems(2) by auto
  then show ?case using ih h(2) by (auto simp: case_prod_unfold)
qed

lemma hand_out_ids: "hand_out now consumer token ready n q = (out, q') \<Longrightarrow> map delivery_ID out = map entry_id ready"
  by (induction ready arbitrary: n q out) (auto simp: Let_def delivery_of_def split: prod.splits)

lemma ready_entries:
  fixes now :: gotime and limit :: int
  assumes "queue_ok q"
  defines "ready \<equiv> readyEntriesLocked now limit (reclaimExpiredLocked now q)"
  shows "distinct (map entry_id ready)"
    and "\<forall>entry \<in> set ready. entry_at (reclaimExpiredLocked now q) (entry_id entry) = Some entry
      \<and> (\<exists>old. entry_at q (entry_id entry) = Some old \<and> due now old \<and> entry = reclaim_entry now old)"
    and "sorted_wrt (\<lambda>a b. \<not> available_order b a) ready"
    and "0 \<le> limit \<Longrightarrow> int (length ready) \<le> limit"
    and "\<lbrakk>entry_at q i = Some old; due now old; i \<notin> entry_id ` set ready; entry \<in> set ready\<rbrakk> \<Longrightarrow> \<not> available_order (reclaim_entry now old) entry"
    and "\<lbrakk>entry_at q i = Some old; due now old; i \<notin> entry_id ` set ready; 0 \<le> limit\<rbrakk> \<Longrightarrow> int (length ready) = limit"
proof -
  let ?q = "reclaimExpiredLocked now q"
  let ?P = "\<lambda>entry. entry_status entry = memoryAIJobDeliveryPending \<and> \<not> entry_availableAt entry > now"
  let ?all = "sort_slice available_order (filter ?P (mvalues (dq_entries ?q)))"
  note key = queue_ok_keyed [OF reclaim_ok [OF assms(1)], of now]
  have ready: "ready = (if int (length ?all) > limit then take (nat limit) ?all else ?all)"
    by (simp add: ready_def readyEntriesLocked_def Let_def)
  have mem: "entry \<in> set ?all \<longleftrightarrow> entry_at ?q (entry_id entry) = Some entry \<and> ?P entry" for entry
    using keyed_mvalues [OF key, of entry] by auto
  have sub: "set ready \<subseteq> set ?all" using set_take_subset [of "nat limit" ?all] by (simp add: ready)
  have "distinct (map entry_id (filter ?P (mvalues (dq_entries ?q))))" using keyed_distinct [OF key] by (simp add: distinct_map_filter)
  then have "distinct (map entry_id ?all)" by (rule distinct_map_submset [rotated]) simp
  then show "distinct (map entry_id ready)" by (simp add: ready distinct_take flip: take_map)
  show "\<forall>entry \<in> set ready. entry_at ?q (entry_id entry) = Some entry
      \<and> (\<exists>old. entry_at q (entry_id entry) = Some old \<and> due now old \<and> entry = reclaim_entry now old)"
    using sub mem by (fastforce simp: map_of_reclaim due_reclaim)
  have sorted: "sorted_wrt (\<lambda>a b. \<not> available_order b a) ?all" by (rule available.sort_sorted)
  then show "sorted_wrt (\<lambda>a b. \<not> available_order b a) ready" by (simp add: ready sorted_wrt_take)
  show "0 \<le> limit \<Longrightarrow> int (length ready) \<le> limit" by (simp add: ready)
  assume old: "entry_at q i = Some old" "due now old" "i \<notin> entry_id ` set ready"
  let ?e = "reclaim_entry now old"
  have i: "entry_id ?e = i" using keyed_lookup [OF queue_ok_keyed [OF assms(1)] old(1)] by simp
  have "entry_at ?q i = Some ?e" using old(1) by (simp add: map_of_reclaim)
  moreover have "?P ?e" using old(2) unfolding due_reclaim .
  ultimately have "?e \<in> set ?all" unfolding mem i by blast
  moreover have "?e \<notin> set ready" using old(3) i by (metis imageI)
  ultimately have e: "?e \<in> set ?all" "?e \<notin> set ready" by blast+
  then have cut: "ready = take (nat limit) ?all" "int (length ?all) > limit" by (auto simp: ready split: if_splits)
  have "set ?all = set ready \<union> set (drop (nat limit) ?all)" unfolding cut(1) by (metis append_take_drop_id set_append)
  then have "?e \<in> set (drop (nat limit) ?all)" using e by blast
  then show "\<not> available_order ?e entry" if "entry \<in> set ready" using available.sort_take_least that cut(1) by blast
  show "0 \<le> limit \<Longrightarrow> int (length ready) = limit" using cut by simp
qed

text \<open>A receive that leases: what it returns and the queue it leaves.\<close>

lemma Receive_cases:
  assumes "queue_Receive ctx now remaining consumer maxItems token q = (outcome, q')"
  shows "(q' = q \<and> (ctx \<noteq> None \<or> TrimSpace consumer = [] \<or> maxItems \<le> 0))
    \<or> (ctx = None \<and> TrimSpace consumer \<noteq> [] \<and> 0 < maxItems \<and> (let q1 = reclaimExpiredLocked now q; ready = readyEntriesLocked now maxItems q1
        in if ready = [] then q' = q1 \<and> (\<forall>out. outcome = Returned (Inr out) \<longrightarrow> out = [])
           else \<exists>out. hand_out now (TrimSpace consumer) token ready 0 q1 = (out, q') \<and> outcome = Returned (Inr out)))"
  using assms by (auto simp: queue_Receive_def Let_def split: if_splits option.splits prod.splits)

lemma hand_out_fields:
  "hand_out now consumer token ready n q = (out, q') \<Longrightarrow> keyed entry_id (dq_entries q)
    \<Longrightarrow> keyed entry_id (dq_entries q') \<and> dq_byDedupe q' = dq_byDedupe q \<and> dq_deliveryLease q' = dq_deliveryLease q"
proof (induction ready arbitrary: n q out)
  case (Cons entry ready)
  let ?e = "leased_entry now consumer (token n) (dq_deliveryLease q) entry"
  have "keyed entry_id (dq_entries (put_entry ?e q))" using Cons.prems(2) by auto
  with Cons show ?case by (auto simp: Let_def split: prod.splits)
qed simp

lemma Receive_keeps:
  assumes "queue_ok q"
  shows "queue_keeps q (snd (queue_Receive ctx now remaining consumer maxItems token q)) (\<lambda>i entry. due now entry)"
proof -
  obtain outcome q' where rcv: "queue_Receive ctx now remaining consumer maxItems token q = (outcome, q')"
    by (metis prod.collapse)
  let ?q = "reclaimExpiredLocked now q"
  let ?ready = "readyEntriesLocked now maxItems ?q"
  note ready = ready_entries [OF assms, where now = now and limit = maxItems]
  have reclaimed: "queue_keeps q ?q (\<lambda>i entry. due now entry)"
    unfolding queue_keeps_def map_of_reclaim using reclaim_ok [OF assms] by (auto dest: reclaim_due)
  have "queue_keeps q q' (\<lambda>i entry. due now entry)" if h: "hand_out now (TrimSpace consumer) token ?ready 0 ?q = (out, q')" for out
  proof -
    note spec = hand_out_spec [OF h ready(1)] and fields = hand_out_fields [OF h queue_ok_keyed [OF reclaim_ok [OF assms]]]
    have leased: "\<exists>t. entry_at q' (entry_id entry) = Some (leased_entry now (TrimSpace consumer) t (dq_deliveryLease q) entry)"
      if "entry \<in> set ?ready" for entry
    proof -
      from that obtain j where "(j, entry) \<in> set (enumerate 0 ?ready)" by (auto simp: in_set_conv_nth enumerate_eq_zip set_zip)
      then show ?thesis using spec ready(2) by fastforce
    qed
    have kept: "\<exists>entry'. entry_at q' i = Some entry' \<and> same_entry entry entry' \<and> (entry' \<noteq> entry \<longrightarrow> due now entry)
        \<and> entry_dedupeKey entry' = entry_dedupeKey entry \<and> entry_status entry' \<in> delivery_statuses" if e: "entry_at q i = Some entry" for i entry
    proof (cases "i \<in> entry_id ` set ?ready")
      case True
      then obtain x where x: "x \<in> set ?ready" "entry_id x = i" by auto
      with ready(2) e have d: "due now entry" "x = reclaim_entry now entry" by auto
      obtain t where "entry_at q' i = Some (leased_entry now (TrimSpace consumer) t (dq_deliveryLease q) x)"
        using leased [OF x(1)] x(2) by auto
      moreover have "same_entry entry (leased_entry now (TrimSpace consumer) t (dq_deliveryLease q) x)"
        using d(2) due_not_terminal [OF d(1)] by (auto simp: same_entry_def leased_entry_def reclaim_entry_def)
      ultimately show ?thesis using d by (auto simp: same_entry_def)
    next
      case False
      then have "entry_at q' i = Some (reclaim_entry now entry)" using spec ready(2) e by (simp add: map_of_reclaim)
      moreover have "entry_status entry \<in> delivery_statuses" using assms e by (auto simp: queue_ok_def)
      ultimately show ?thesis using reclaim_due [of now entry] by auto
    qed
    have known: "entry_at q i \<noteq> None" if at: "entry_at q' i \<noteq> None" for i
    proof (cases "i \<in> entry_id ` set ?ready")
      case True
      then show ?thesis using ready(2) by auto
    next
      case False
      then show ?thesis using at spec ready(2) by (auto simp: map_of_reclaim)
    qed
    have "queue_ok q'" unfolding queue_ok_def
    proof (intro conjI allI impI)
      show "keyed entry_id (dq_entries q')" using fields by simp
      show "\<exists>entry. entry_at q' i = Some entry \<and> entry_dedupeKey entry = k" if "map_of (dq_byDedupe q') k = Some i" for k i
        using that fields assms kept unfolding queue_ok_def by fastforce
      fix i entry
      assume at: "entry_at q' i = Some entry"
      obtain old where old: "entry_at q i = Some old" using known [of i] at by auto
      with kept [OF old] at fields assms show "map_of (dq_byDedupe q') (entry_dedupeKey entry) = Some i"
        and "entry_status entry \<in> delivery_statuses" and "TrimSpace i = i" by (auto simp: queue_ok_def)
    qed
    with kept show ?thesis by (auto simp: queue_keeps_def)
  qed
  then show ?thesis using Receive_cases [OF rcv] rcv reclaimed queue_keeps_refl [OF assms] by (auto simp: Let_def split: if_splits)
qed

section \<open>Runs\<close>

lemma released_keeps [simp]:
  "status \<in> delivery_statuses \<Longrightarrow> \<not> terminal entry \<Longrightarrow> same_entry entry (released_entry status entry)"
  "status \<in> delivery_statuses \<Longrightarrow> \<not> terminal entry \<Longrightarrow> same_entry entry ((released_entry status entry)\<lparr>entry_lastError := e\<rparr>)"
  "status \<in> delivery_statuses \<Longrightarrow> \<not> terminal entry \<Longrightarrow>
    same_entry entry ((released_entry status entry)\<lparr>entry_availableAt := t, entry_lastError := e\<rparr>)"
  "\<not> terminal entry \<Longrightarrow> same_entry entry (entry\<lparr>entry_leaseUntil := t\<rparr>)"
  by (auto simp: same_entry_def released_entry_def)

lemma op_keeps:
  assumes "queue_ok q"
  shows "queue_keeps q (run_op op q) (may_change op)"
proof (cases op)
  case (Publish_op ctx now envelope key at)
  then show ?thesis using Publish_keeps [OF assms] by simp
next
  case (Receive_op ctx now remaining consumer maxItems token)
  then have "may_change op = (\<lambda>i entry. due now entry)" by (simp add: fun_eq_iff)
  with Receive_op show ?thesis using Receive_keeps [OF assms] by simp
next
  case (Extend_op ctx now0 now delivery until)
  then have may: "may_change op = presents delivery" by (simp add: fun_eq_iff)
  have "queue_keeps q (snd (with_lease None now delivery (\<lambda>entry. put_entry (entry\<lparr>entry_leaseUntil := until\<rparr>)) q)) (presents delivery)"
    by (rule with_lease_keeps [OF assms, where f = "\<lambda>entry. entry\<lparr>entry_leaseUntil := until\<rparr>"]) simp_all
  then show ?thesis unfolding may using Extend_op queue_keeps_refl [OF assms] by (auto simp: queue_Extend_def split: option.splits)
next
  case (Ack_op ctx now delivery)
  then have may: "may_change op = presents delivery" by (simp add: fun_eq_iff)
  show ?thesis unfolding may using Ack_op
    by (simp add: queue_Ack_def with_lease_keeps [OF assms, where f = "released_entry memoryAIJobDeliveryAcked"])
next
  case (Nack_op ctx now0 now delivery at reason)
  then have may: "may_change op = presents delivery" by (simp add: fun_eq_iff)
  show ?thesis unfolding may using Nack_op
    by (simp add: queue_Nack_def with_lease_keeps [OF assms, where f = "\<lambda>entry. (released_entry memoryAIJobDeliveryPending entry)
       \<lparr>entry_availableAt := (if at = 0 \<or> at < now0 then now0 else at), entry_lastError := TrimSpace reason\<rparr>"])
next
  case (Dead_op ctx now delivery reason)
  then have may: "may_change op = presents delivery" by (simp add: fun_eq_iff)
  show ?thesis unfolding may using Dead_op
    by (simp add: queue_DeadLetter_def with_lease_keeps [OF assms, where f = "\<lambda>entry. (released_entry memoryAIJobDeliveryDead entry)
       \<lparr>entry_lastError := TrimSpace reason\<rparr>"])
qed

lemma run_ops_simps [simp]: "run_ops [] q = q" "run_ops (op # ops) q = run_ops ops (run_op op q)"
  by (simp_all add: run_ops_def)

lemma run_ops_ok: "queue_ok q \<Longrightarrow> queue_ok (run_ops ops q)"
  by (induction ops arbitrary: q) (use op_keeps in \<open>auto simp: queue_keeps_def\<close>)

lemma run_ops_same:
  assumes "queue_ok q" "entry_at q i = Some entry"
  shows "\<exists>entry'. entry_at (run_ops ops q) i = Some entry' \<and> same_entry entry entry'"
  using assms
proof (induction ops arbitrary: q entry)
  case (Cons op ops)
  from op_keeps [OF Cons.prems(1)] Cons.prems(2) obtain e where "queue_ok (run_op op q)" "entry_at (run_op op q) i = Some e" "same_entry entry e"
    unfolding queue_keeps_def by meson
  with Cons.IH [of "run_op op q" e] same_entry_trans show ?case by auto
qed simp

lemma run_ops_unchanged:
  assumes "queue_ok q" "entry_at q i = Some entry" "\<forall>op \<in> set ops. \<not> may_change op i entry"
  shows "entry_at (run_ops ops q) i = Some entry"
  using assms
proof (induction ops arbitrary: q)
  case (Cons op ops)
  from op_keeps [OF Cons.prems(1)] Cons.prems(2,3) have "queue_ok (run_op op q)" "entry_at (run_op op q) i = Some entry"
    unfolding queue_keeps_def by fastforce+
  with Cons show ?case by simp
qed simp

lemma new_queue_ok: "NewMemoryAIJobDeliveryQueue lease = Inr q \<Longrightarrow> queue_ok q"
  by (auto simp: NewMemoryAIJobDeliveryQueue_def queue_ok_def split: if_splits)

section \<open>The properties of the queue\<close>

text \<open>
  C24. An envelope is published once: after a call that accepts it, whatever operations follow, the queue has one entry for its
  dedupe key, with this envelope; publishing under the key again changes nothing, and is refused unless the envelope is the same.
\<close>

theorem publish_once:
  assumes "NewMemoryAIJobDeliveryQueue lease = Inr q0" "queue_Publish ctx now envelope key at (run_ops ops q0) = (None, q)"
  shows "let k = (if TrimSpace key = [] then DedupeKey envelope else TrimSpace key); q' = run_ops ops' q
    in (\<exists>entry. entry_at q' (env_DeliveryID envelope) = Some entry \<and> entry_envelope entry = envelope \<and> entry_dedupeKey entry = k)
     \<and> (\<forall>i entry. entry_at q' i = Some entry \<longrightarrow> entry_dedupeKey entry = k \<longrightarrow> i = env_DeliveryID envelope)
     \<and> (\<forall>now' key' at' envelope'. TrimSpace key' = k \<longrightarrow> validateAIJobDeliveryEnvelope envelope' = None \<longrightarrow>
         queue_Publish None now' envelope' key' at' q' = (if envelope' = envelope then None else Some ErrAIJobDeliveryDedupeConflict, q'))"
proof -
  define k where "k = (if TrimSpace key = [] then DedupeKey envelope else TrimSpace key)"
  let ?i = "env_DeliveryID envelope" and ?q' = "run_ops ops' q"
  have ok0: "queue_ok (run_ops ops q0)" using new_queue_ok [OF assms(1)] by (rule run_ops_ok)
  with Publish_keeps [OF ok0, of ctx now envelope key at] assms(2) have ok: "queue_ok q" by (simp add: queue_keeps_def)
  have k: "k \<noteq> []" using assms(2) by (auto simp: queue_Publish_def Let_def k_def split: option.splits if_splits)
  have "\<exists>entry. entry_at q ?i = Some entry \<and> entry_envelope entry = envelope \<and> entry_dedupeKey entry = k"
  proof (cases "map_of (dq_byDedupe (run_ops ops q0)) k")
    case None
    then show ?thesis using assms(2)
      by (auto simp: queue_Publish_def Let_def k_def [symmetric] split: option.splits if_splits)
  next
    case (Some j)
    with ok0 obtain entry where e: "entry_at (run_ops ops q0) j = Some entry" "entry_dedupeKey entry = k" by (auto simp: queue_ok_def)
    with Some assms(2) have "entry_envelope entry = envelope" "q = run_ops ops q0"
      by (auto simp: queue_Publish_def Let_def k_def [symmetric] split: option.splits if_splits)
    then show ?thesis using e keyed_lookup [OF queue_ok_keyed [OF ok0] e(1)] by auto
  qed
  with run_ops_same [OF ok] obtain entry where e: "entry_at ?q' ?i = Some entry" "entry_envelope entry = envelope" "entry_dedupeKey entry = k"
    unfolding same_entry_def by metis
  have ok': "queue_ok ?q'" using ok by (rule run_ops_ok)
  have d: "map_of (dq_byDedupe ?q') k = Some ?i" using ok' e by (auto simp: queue_ok_def)
  have "queue_Publish None now' envelope' key' at' ?q' = (if envelope' = envelope then None else Some ErrAIJobDeliveryDedupeConflict, ?q')"
    if "TrimSpace key' = k" "validateAIJobDeliveryEnvelope envelope' = None" for now' key' at' envelope'
    using that k d e by (auto simp: queue_Publish_def Let_def)
  moreover have "j = ?i" if "entry_at ?q' j = Some x" "entry_dedupeKey x = k" for j x
    using ok' that d by (auto simp: queue_ok_def)
  ultimately show ?thesis using e unfolding Let_def k_def [symmetric] by blast
qed

text \<open>
  C22. A lease protects an entry: as long as no receive comes after the lease's end and no call presents the lease's token, no sequence
  of operations changes the entry, and a call with another token is refused and changes nothing.
\<close>

theorem lease_protects:
  assumes "NewMemoryAIJobDeliveryQueue lease = Inr q0" "q = run_ops ops q0"
    and "entry_at q i = Some entry" "entry_status entry = memoryAIJobDeliveryInflight"
    and "\<forall>op \<in> set ops'. \<not> may_change op i entry"
  shows "entry_at (run_ops ops' q) i = Some entry
    \<and> (\<forall>delivery now now0 ctx reason at until. TrimSpace (delivery_ID delivery) = i \<longrightarrow> delivery_LeaseToken delivery \<noteq> entry_leaseToken entry \<longrightarrow>
        (\<exists>err. queue_Ack ctx now delivery (run_ops ops' q) = (Some err, run_ops ops' q))
        \<and> (\<exists>err. queue_Nack ctx now0 now delivery at reason (run_ops ops' q) = (Some err, run_ops ops' q))
        \<and> (\<exists>err. queue_DeadLetter ctx now delivery reason (run_ops ops' q) = (Some err, run_ops ops' q))
        \<and> (\<exists>err. queue_Extend ctx now0 now delivery until (run_ops ops' q) = (Some err, run_ops ops' q)))"
proof -
  have "queue_ok q" using run_ops_ok [OF new_queue_ok [OF assms(1)]] assms(2) by simp
  from run_ops_unchanged [OF this assms(3,5)] have e: "entry_at (run_ops ops' q) i = Some entry" .
  have "\<exists>err. with_lease ctx now delivery change (run_ops ops' q) = (Some err, run_ops ops' q)"
    if "TrimSpace (delivery_ID delivery) = i" "delivery_LeaseToken delivery \<noteq> entry_leaseToken entry" for ctx now delivery change
    using that e by (auto simp: with_lease_def validateLeaseLocked_def split: option.splits)
  then show ?thesis using e by (auto simp: queue_Ack_def queue_Nack_def queue_DeadLetter_def queue_Extend_def split: option.splits)
qed

text \<open>
  C23. At-least-once delivery: an entry that no holder has acknowledged or dead-lettered is delivered again once its time has come, which
  is when it is available or when its lease has ended; a receive leases distinct due entries, each with its next attempt, which its holder can
  acknowledge until the lease ends, and leaves a due entry out only when it returns as many as asked for, all of which were available no later.
\<close>

theorem due_delivered:
  assumes "NewMemoryAIJobDeliveryQueue lease = Inr q0" "q = run_ops ops q0"
    and "entry_at q i = Some entry" "\<not> terminal entry" "wake_candidate entry \<le> now"
    and "queue_Receive None now remaining consumer maxItems token q = (outcome, q')" "TrimSpace consumer \<noteq> []" "0 < maxItems"
  shows "\<exists>out. outcome = Returned (Inr out) \<and> out \<noteq> [] \<and> int (length out) \<le> maxItems \<and> distinct (map delivery_ID out)
    \<and> (\<forall>d \<in> set out. \<exists>old leased. entry_at q (delivery_ID d) = Some old \<and> due now old \<and> entry_at q' (delivery_ID d) = Some leased
        \<and> d = delivery_of leased \<and> entry_status leased = memoryAIJobDeliveryInflight \<and> entry_envelope leased = entry_envelope old
        \<and> entry_attempt leased = entry_attempt old + 1 \<and> entry_leaseUntil leased = now + dq_deliveryLease q
        \<and> (\<forall>now'. now' < now + dq_deliveryLease q \<longrightarrow> fst (queue_Ack None now' d q') = None))
    \<and> (i \<in> delivery_ID ` set out \<or> (int (length out) = maxItems \<and> (\<forall>d \<in> set out. \<exists>old. entry_at q (delivery_ID d) = Some old
        \<and> \<not> available_order (reclaim_entry now entry) (reclaim_entry now old))))"
proof -
  have ok: "queue_ok q" using run_ops_ok [OF new_queue_ok [OF assms(1)]] assms(2) by simp
  then have "entry_status entry \<in> delivery_statuses" using assms(3) by (auto simp: queue_ok_def)
  then have due: "due now entry" using assms(4,5) by (auto simp: due_def terminal_def wake_candidate_def delivery_statuses_def)
  let ?q = "reclaimExpiredLocked now q"
  let ?ready = "readyEntriesLocked now maxItems ?q"
  note ready = ready_entries [OF ok, where now = now and limit = maxItems]
  have nonempty: "?ready \<noteq> []" using ready(6) [OF assms(3) due] assms(8) by (cases ?ready) auto
  with Receive_cases [OF assms(6)] assms(7,8) obtain out where
    h: "hand_out now (TrimSpace consumer) token ?ready 0 ?q = (out, q')" "outcome = Returned (Inr out)" by (auto simp: Let_def)
  have "\<forall>entry \<in> set ?ready. entry_at ?q (entry_id entry) = Some entry" using ready(2) by blast
  note spec = hand_out_spec [OF h(1) ready(1) this]
  let ?leased = "\<lambda>(j, x). leased_entry now (TrimSpace consumer) (token j) (dq_deliveryLease q) x"
  have out: "out = map (\<lambda>p. delivery_of (?leased p)) (enumerate 0 ?ready)" using spec by (simp add: case_prod_unfold)
  have ids: "map delivery_ID out = map entry_id ?ready" using h(1) by (rule hand_out_ids)
  have len: "length out = length ?ready" using arg_cong [OF ids, of length] by simp
  have each: "\<exists>old leased. entry_at q (delivery_ID d) = Some old \<and> due now old \<and> entry_at q' (delivery_ID d) = Some leased
        \<and> d = delivery_of leased \<and> entry_status leased = memoryAIJobDeliveryInflight \<and> entry_envelope leased = entry_envelope old
        \<and> entry_attempt leased = entry_attempt old + 1 \<and> entry_leaseUntil leased = now + dq_deliveryLease q
        \<and> (\<forall>now'. now' < now + dq_deliveryLease q \<longrightarrow> fst (queue_Ack None now' d q') = None)" if d: "d \<in> set out" for d
  proof -
    from d out obtain j x where x: "(j, x) \<in> set (enumerate 0 ?ready)" "d = delivery_of (?leased (j, x))" by auto
    then have mem: "x \<in> set ?ready" by (auto simp: enumerate_eq_zip dest: set_zip_rightD)
    with ready(2) obtain old where old: "entry_at q (entry_id x) = Some old" "due now old" "x = reclaim_entry now old" by blast
    have stored: "entry_at q' (entry_id x) = Some (?leased (j, x))" using spec x(1) by fastforce
    moreover have "fst (queue_Ack None now' d q') = None" if "now' < now + dq_deliveryLease q" for now'
    proof -
      have "TrimSpace (entry_id x) = entry_id x" using ok old(1) by (auto simp: queue_ok_def)
      then have "validateLeaseLocked now' d q' = Inr (?leased (j, x))"
        using stored \<open>now' < now + dq_deliveryLease q\<close> unfolding x(2)
        by (simp add: validateLeaseLocked_def delivery_of_def) (simp add: leased_entry_def)
      then show ?thesis by (simp add: queue_Ack_def with_lease_def)
    qed
    moreover have "delivery_ID d = entry_id x" using x(2) by (simp add: delivery_of_def)
    moreover have "entry_attempt x = entry_attempt old" using old(3) by (simp add: reclaim_entry_def)
    ultimately show ?thesis using old x(2) by (auto simp: leased_entry_def)
  qed
  have "i \<in> delivery_ID ` set out \<or> (int (length out) = maxItems \<and> (\<forall>d \<in> set out. \<exists>old. entry_at q (delivery_ID d) = Some old
        \<and> \<not> available_order (reclaim_entry now entry) (reclaim_entry now old)))"
  proof (cases "i \<in> entry_id ` set ?ready")
    case True
    then show ?thesis using arg_cong [OF ids, of set] by auto
  next
    case False
    have "\<exists>old. entry_at q (delivery_ID d) = Some old \<and> \<not> available_order (reclaim_entry now entry) (reclaim_entry now old)"
      if d: "d \<in> set out" for d
    proof -
      have "delivery_ID d \<in> entry_id ` set ?ready" using arg_cong [OF ids, of set] d by auto
      then obtain x where x: "x \<in> set ?ready" "entry_id x = delivery_ID d" by auto
      with ready(2) obtain old where "entry_at q (delivery_ID d) = Some old" "x = reclaim_entry now old" by metis
      then show ?thesis using ready(5) [OF assms(3) due False x(1)] by auto
    qed
    then show ?thesis using ready(6) [OF assms(3) due False] assms(8) len by auto
  qed
  moreover have "distinct (map delivery_ID out)" using ids ready(1) by simp
  moreover have "out \<noteq> [] \<and> int (length out) \<le> maxItems" using len nonempty ready(4) assms(8) by auto
  ultimately show ?thesis using h(2) each by blast
qed

section \<open>A queue with one envelope\<close>

definition demo_envelope :: AIJobDeliveryEnvelope where
  "demo_envelope = \<lparr>env_SchemaVersion = 1, env_DeliveryID = durableAIJobDeliveryIDParts ''job_1'' ''op_1'' 2 1, env_JobID = ''job_1'',
     env_OperationID = ''op_1'', env_StatusVersion = 2, env_FenceToken = 1, env_QueueLeaseToken = ''t1''\<rparr>"

definition demo_queue :: MemoryAIJobDeliveryQueue where
  "demo_queue = \<lparr>dq_entries = [], dq_byDedupe = [], dq_notify = 0, dq_deliveryLease = 10, dq_nextSequence = 0\<rparr>"

definition demo_publish :: queue_op where
  "demo_publish = Publish_op None 5 demo_envelope [] 0"

definition demo_receive :: queue_op where
  "demo_receive = Receive_op None 6 None ''w1'' 1 (\<lambda>n. ''r'')"

definition demo_entry :: memoryAIJobDeliveryEntry where
  "demo_entry = \<lparr>entry_envelope = demo_envelope, entry_dedupeKey = env_DeliveryID demo_envelope, entry_status = memoryAIJobDeliveryPending,
     entry_availableAt = 5, entry_leaseUntil = 0, entry_leaseToken = [], entry_consumer = [], entry_attempt = 0, entry_sequence = 1,
     entry_lastError = []\<rparr>"

lemma demo_new: "NewMemoryAIJobDeliveryQueue 10 = Inr demo_queue"
  by (simp add: NewMemoryAIJobDeliveryQueue_def demo_queue_def)

lemma demo_valid: "validateAIJobDeliveryEnvelope demo_envelope = None \<and> TrimSpace (env_DeliveryID demo_envelope) = env_DeliveryID demo_envelope
  \<and> env_DeliveryID demo_envelope \<noteq> []"
proof -
  let ?job = "zero_AIJob\<lparr>job_ID := ''job_1'', job_OperationID := ''op_1'', job_StatusVersion := 2, job_FenceToken := 1, job_QueueLeaseToken := ''t1''\<rparr>"
  have t: "TrimSpace ''job_1'' = ''job_1''" "TrimSpace ''op_1'' = ''op_1''" "TrimSpace ''t1'' = ''t1''" by code_simp+
  from NewEnvelope_Inr [of ?job] t have "NewAIJobDeliveryEnvelope ?job = Inr demo_envelope"
    by (auto simp: NewAIJobDeliveryEnvelope_def Let_def demo_envelope_def durableAIJobDeliveryID_def aiJobDeliveryEnvelopeSchemaVersion_def
        split: option.splits)
  with NewEnvelope_Inr [of ?job] t have v: "validateAIJobDeliveryEnvelope demo_envelope = None" by auto
  then show ?thesis using delivery_id_trimmed [OF v] by (auto simp: validateAIJobDeliveryEnvelope_def split: if_splits)
qed

lemma demo_published: "queue_Publish None 5 demo_envelope [] 0 demo_queue = (None, \<lparr>dq_entries = [(env_DeliveryID demo_envelope, demo_entry)],
    dq_byDedupe = [(env_DeliveryID demo_envelope, env_DeliveryID demo_envelope)], dq_notify = 1, dq_deliveryLease = 10, dq_nextSequence = 1\<rparr>)"
  using demo_valid by (simp add: queue_Publish_def Let_def DedupeKey_def demo_queue_def put_entry_def signalLocked_def demo_entry_def)

theorem publish_once_witness:
  "queue_Publish None 9 demo_envelope (env_DeliveryID demo_envelope) 0 (run_ops [demo_publish, demo_receive] demo_queue)
     = (None, run_ops [demo_publish, demo_receive] demo_queue)"
proof -
  from publish_once [OF demo_new, of None 5 demo_envelope "[]" 0 "[]" _ "[demo_receive]"] demo_published demo_valid show ?thesis
    by (simp add: Let_def DedupeKey_def demo_publish_def)
qed

lemma demo_received: "entry_at (run_ops [demo_publish, demo_receive] demo_queue) (env_DeliveryID demo_envelope)
    = Some (leased_entry 6 ''w1'' ''r'' 10 demo_entry)"
proof -
  have "TrimSpace ''w1'' = ''w1''" by code_simp
  then show ?thesis using demo_valid demo_published
    by (simp add: demo_publish_def demo_receive_def queue_Receive_def Let_def reclaimExpiredLocked_def mvalues_def demo_entry_def
        reclaim_entry_def readyEntriesLocked_def put_entry_def leased_entry_def)
qed

theorem lease_protects_witness:
  "entry_at (run_ops [demo_publish, demo_receive, Receive_op None 15 None ''w2'' 5 (\<lambda>n. ''s'')] demo_queue) (env_DeliveryID demo_envelope)
     = Some (leased_entry 6 ''w1'' ''r'' 10 demo_entry)"
proof -
  have "\<not> due 15 (leased_entry 6 ''w1'' ''r'' 10 demo_entry)" by (simp add: due_def)
  with lease_protects [OF demo_new refl demo_received, of "[Receive_op None 15 None ''w2'' 5 (\<lambda>n. ''s'')]"] show ?thesis by simp
qed

theorem due_delivered_witness:
  "\<exists>out. fst (queue_Receive None 6 None ''w1'' 1 (\<lambda>n. ''r'') (run_ops [demo_publish] demo_queue)) = Returned (Inr out) \<and> length out = 1"
proof -
  let ?q = "run_ops [demo_publish] demo_queue"
  obtain outcome q' where r: "queue_Receive None 6 None ''w1'' 1 (\<lambda>n. ''r'') ?q = (outcome, q')" by (metis prod.collapse)
  have "entry_at ?q (env_DeliveryID demo_envelope) = Some demo_entry" using demo_published by (simp add: demo_publish_def)
  moreover have "\<not> terminal demo_entry" "wake_candidate demo_entry \<le> 6" by (simp_all add: demo_entry_def terminal_def wake_candidate_def)
  moreover have "TrimSpace ''w1'' \<noteq> []" by code_simp
  ultimately obtain out where "outcome = Returned (Inr out)" "out \<noteq> []" "int (length out) \<le> 1"
    using due_delivered [OF demo_new refl, of "[demo_publish]" "env_DeliveryID demo_envelope" demo_entry 6 None "''w1''" 1 "\<lambda>n. ''r''" outcome q'] r
    by auto
  then show ?thesis using r by (cases out) auto
qed

end
