(* ===== verification/Usage_Settlement.thy ===== *)
theory Usage_Settlement
  imports Billing_Hold AI_Job_Repo
begin

text \<open>
  Applying the settlement of a request's usage (\<open>operation_repository.go\<close>): the usage record, its pricing evaluations, the billing
  ledger entries, the outbox and platform events are stored together, once, and the hold of the operation is settled.
\<close>

section \<open>Validation\<close>

definition evaluation_matches :: "UsageRecord \<Rightarrow> PricingEvaluation \<Rightarrow> bool" where
  "evaluation_matches record evaluation \<longleftrightarrow>
     eval_ID evaluation \<noteq> [] \<and> eval_OperationID evaluation = usage_OperationID record \<and> eval_AttemptID evaluation = usage_AttemptID record
     \<and> eval_UsageRecordID evaluation = usage_ID record \<and> eval_UsageVersion evaluation = usage_UsageVersion record
     \<and> eval_Phase evaluation = PhaseSettlement"

definition ledger_matches :: "UsageRecord \<Rightarrow> BillingLedgerEntry \<Rightarrow> bool" where
  "ledger_matches record billing \<longleftrightarrow>
     usage_OperationID record = ledger_OperationID billing \<and> usage_AttemptID record = ledger_AttemptID billing
     \<and> usage_UsageVersion record = ledger_UsageVersion billing \<and> usage_ID record = ledger_UsageRecordID billing
     \<and> usage_RequestFingerprint record = ledger_RequestFingerprint billing \<and> ledger_Status billing = BillingLedgerStatusApplied
     \<and> ledger_Currency billing = CurrencyUSD \<and> \<not> ledger_AmountMicros billing < 0"

definition evaluation_prices :: "PricingEvaluation option \<Rightarrow> BillingLedgerEntry \<Rightarrow> bool" where
  "evaluation_prices found billing =
     (case found of
        None \<Rightarrow> False
      | Some evaluation \<Rightarrow> eval_Status evaluation = PricingEvaluationStatusSuccess
          \<and> eval_AmountMicros evaluation = Some (ledger_AmountMicros billing) \<and> eval_Purpose evaluation = ledger_Purpose billing
          \<and> eval_PricingRuleVersionID evaluation = ledger_PricingRuleVersionID billing)"

fun validate_ledgers ::
  "UsageRecord \<Rightarrow> (string, PricingEvaluation) gmap \<Rightarrow> BillingLedgerEntry list \<Rightarrow> string list \<Rightarrow> go_error option" where
  "validate_ledgers record evaluations [] purposes = None"
| "validate_ledgers record evaluations (billing # rest) purposes =
     (if \<not> ledger_matches record billing then Some ErrUsageLedgerConflict
      else if \<not> evaluation_prices (map_of evaluations (ledger_PricingEvaluationID billing)) billing then Some ErrUsageLedgerConflict
      else if ledger_Purpose billing \<in> set purposes then Some ErrUsageLedgerConflict
      else validate_ledgers record evaluations rest (ledger_Purpose billing # purposes))"

definition validateUsageSettlement :: "UsageSettlement \<Rightarrow> go_error option" where
  "validateUsageSettlement settlement =
     (let record = settle_Record settlement
      in if TrimSpace (usage_OperationID record) = [] \<or> usage_UsageVersion record \<le> 0 \<or> usage_ID record = []
           \<or> usage_RequestFingerprint record = []
         then Some ErrUsageLedgerConflict
         else if list_ex (\<lambda>evaluation. \<not> evaluation_matches record evaluation) (settle_Evaluations settlement)
         then Some ErrUsageLedgerConflict
         else validate_ledgers record
           (foldl (\<lambda>m evaluation. mput (eval_ID evaluation) evaluation m) [] (settle_Evaluations settlement))
           (settle_Ledgers settlement) [])"

definition sameBillingLedgerIdentity :: "BillingLedgerEntry \<Rightarrow> BillingLedgerEntry \<Rightarrow> bool" where
  "sameBillingLedgerIdentity left right \<longleftrightarrow>
     ledger_OperationID left = ledger_OperationID right \<and> ledger_AttemptID left = ledger_AttemptID right
     \<and> ledger_UsageVersion left = ledger_UsageVersion right \<and> ledger_Purpose left = ledger_Purpose right"

definition sameBillingLedgerContent :: "BillingLedgerEntry \<Rightarrow> BillingLedgerEntry \<Rightarrow> bool" where
  "sameBillingLedgerContent left right \<longleftrightarrow>
     sameBillingLedgerIdentity left right \<and> ledger_UsageRecordID left = ledger_UsageRecordID right
     \<and> ledger_RequestFingerprint left = ledger_RequestFingerprint right \<and> ledger_AmountMicros left = ledger_AmountMicros right
     \<and> ledger_Currency left = ledger_Currency right \<and> ledger_PricingEvaluationID left = ledger_PricingEvaluationID right
     \<and> ledger_PricingRuleVersionID left = ledger_PricingRuleVersionID right"

definition optionalMoneyEqual :: "int option \<Rightarrow> int option \<Rightarrow> bool" where
  "optionalMoneyEqual left right \<longleftrightarrow> (left = None \<and> right = None) \<or> (left \<noteq> None \<and> right \<noteq> None \<and> the left = the right)"

section \<open>Replays and conflicts\<close>

fun count_existing :: "BillingLedgerEntry list \<Rightarrow> BillingLedgerEntry list \<Rightarrow> int \<Rightarrow> go_error + int" where
  "count_existing stored [] n = Inr n"
| "count_existing stored (billing # rest) n =
     (let same = filter (\<lambda>current. sameBillingLedgerIdentity current billing) stored
      in if list_ex (\<lambda>current. \<not> sameBillingLedgerContent current billing) same then Inl ErrUsageLedgerConflict
         else count_existing stored rest (n + int (length same)))"

definition same_usage :: "UsageRecord option \<Rightarrow> UsageRecord \<Rightarrow> bool" where
  "same_usage found record =
     (case found of
        None \<Rightarrow> False
      | Some existing \<Rightarrow> usageDimensionsEqual (usage_UsageDimensions existing) (usage_UsageDimensions record)
          \<and> usage_PricingStatus existing = usage_PricingStatus record
          \<and> optionalMoneyEqual (usage_UsageCostMicros existing) (usage_UsageCostMicros record))"

fun check_outbox :: "(string, TransactionalOutboxEvent) gmap \<Rightarrow> TransactionalOutboxEvent list \<Rightarrow> go_error option" where
  "check_outbox stored [] = None"
| "check_outbox stored (event # rest) =
     (case validateMemoryOutboxInsert stored event of Some err \<Rightarrow> Some err | None \<Rightarrow> check_outbox stored rest)"

fun check_platform :: "(string, PlatformUsageDeliveryEvent) gmap \<Rightarrow> PlatformUsageDeliveryEvent list \<Rightarrow> go_error option" where
  "check_platform stored [] = None"
| "check_platform stored (event # rest) =
     (if mhas stored (delivery_ID event) then Some (existing_err ''platform usage delivery event'' (delivery_ID event) ''already exists'')
      else if list_ex (\<lambda>current. delivery_EventID current = delivery_EventID event
          \<or> (delivery_SinkID current = delivery_SinkID event \<and> delivery_UsageRecordID current = delivery_UsageRecordID event)) (mvalues stored)
      then Some (errors_New ''platform usage delivery event is not unique'')
      else check_platform stored rest)"

text \<open>The checks of a settlement that is not a replay, in the code's order.\<close>

definition check_settlement :: "UsageSettlement \<Rightarrow> MemoryRepository \<Rightarrow> go_error option" where
  "check_settlement settlement r =
     (if mhas (usageRecords r) (usage_ID (settle_Record settlement))
      then Some (existing_err ''usage record'' (usage_ID (settle_Record settlement)) ''already exists'')
      else (case find (\<lambda>evaluation. mhas (pricingEvaluations r) (eval_ID evaluation)) (settle_Evaluations settlement) of
          Some evaluation \<Rightarrow> Some (existing_err ''pricing evaluation'' (eval_ID evaluation) ''already exists'')
        | None \<Rightarrow>
            (case find (\<lambda>billing. mhas (billingLedgerEntries r) (ledger_ID billing)) (settle_Ledgers settlement) of
               Some billing \<Rightarrow> Some (existing_err ''billing ledger entry'' (ledger_ID billing) ''already exists'')
             | None \<Rightarrow>
                 (case check_outbox (transactionalOutboxEvents r) (settle_OutboxEvents settlement) of
                    Some err \<Rightarrow> Some err
                  | None \<Rightarrow> check_platform (platformUsageDeliveryEvents r) (settle_PlatformEvents settlement)))))"

section \<open>Settling the hold\<close>

fun settle_ledgers :: "UsageRecord \<Rightarrow> BillingLedgerEntry list \<Rightarrow> MemoryRepository \<Rightarrow> go_error option \<times> MemoryRepository" where
  "settle_ledgers record [] r = (None, r)"
| "settle_ledgers record (billing # rest) r =
     (if ledger_Purpose billing \<noteq> PricingPurposeUsageCost then settle_ledgers record rest r
      else (case settleMemoryBillingHoldForUsage record billing r of
          (Some err, r') \<Rightarrow> (Some err, r')
        | (None, r') \<Rightarrow> settle_ledgers record rest r'))"

definition memoryBillingHoldPricingVersionKeyForEvaluation :: "MemoryRepository \<Rightarrow> string \<Rightarrow> string \<Rightarrow> string \<Rightarrow> string" where
  "memoryBillingHoldPricingVersionKeyForEvaluation r versionID purpose operationID =
     (case memoryBillingHoldForOperation (billingHolds r) operationID of
        None \<Rightarrow> []
      | Some hold \<Rightarrow>
          let key = hold_ID hold @ [CHR 0x0A] @ purpose
          in (case map_of (billingHoldPricingVersions r) key of
               None \<Rightarrow> []
             | Some version \<Rightarrow> if hpv_PricingRuleVersionID version \<noteq> versionID then [] else key))"

definition note_evaluation :: "UsageRecord \<Rightarrow> PricingEvaluation \<Rightarrow> MemoryRepository \<Rightarrow> MemoryRepository" where
  "note_evaluation record evaluation r =
     (let key = memoryBillingHoldPricingVersionKeyForEvaluation r (eval_PricingRuleVersionID evaluation) (eval_Purpose evaluation)
            (usage_OperationID record)
      in case (if key = [] then None else map_of (billingHoldPricingVersions r) key) of
           None \<Rightarrow> r
         | Some version \<Rightarrow> r\<lparr>billingHoldPricingVersions :=
             mput key (version\<lparr>hpv_SettlementEvaluationID := eval_ID evaluation\<rparr>) (billingHoldPricingVersions r)\<rparr>)"

text \<open>The hold of the record's operation moves to \<open>status\<close>, unless it is in one of the statuses \<open>except\<close>.\<close>

definition move_hold ::
  "UsageRecord \<Rightarrow> string list \<Rightarrow> string \<Rightarrow> string \<Rightarrow> MemoryRepository \<Rightarrow> go_error option \<times> MemoryRepository" where
  "move_hold record except status reason r =
     (case memoryBillingHoldForOperation (billingHolds r) (usage_OperationID record) of
        None \<Rightarrow> (None, r)
      | Some hold \<Rightarrow>
          if oneOf (hold_Status hold) except then (None, r)
          else (case prepareBillingHoldTransition hold status 0 reason (usage_CreatedAt record) of
              Inl err \<Rightarrow> (Some err, r)
            | Inr updated \<Rightarrow> (None, r\<lparr>billingHolds := mput (hold_ID hold) updated (billingHolds r)\<rparr>)))"

fun settle_evaluations :: "UsageRecord \<Rightarrow> PricingEvaluation list \<Rightarrow> MemoryRepository \<Rightarrow> go_error option \<times> MemoryRepository" where
  "settle_evaluations record [] r = (None, r)"
| "settle_evaluations record (evaluation # rest) r =
     (let r = note_evaluation record evaluation r
      in if eval_Purpose evaluation = PricingPurposeUsageCost \<and> eval_Status evaluation = PricingEvaluationStatusDisputed
           \<and> billingHoldUsageIsFinal record
         then (case move_hold record [BillingHoldStatusSettled, BillingHoldStatusReleased, BillingHoldStatusDisputed]
             BillingHoldStatusDisputed ''pricing_evaluation_failed'' r of
             (Some err, r') \<Rightarrow> (Some err, r')
           | (None, r') \<Rightarrow> settle_evaluations record rest r')
         else settle_evaluations record rest r)"

definition settle_unpriced :: "UsageRecord \<Rightarrow> MemoryRepository \<Rightarrow> go_error option \<times> MemoryRepository" where
  "settle_unpriced record r =
     (if usage_PricingStatus record = ''unpriced'' \<and> billingHoldUsageIsFinal record
      then move_hold record [BillingHoldStatusSettled, BillingHoldStatusReleased] BillingHoldStatusSettled ''usage_unpriced'' r
      else (None, r))"

section \<open>The settlement\<close>

definition store_settlement :: "UsageSettlement \<Rightarrow> MemoryRepository \<Rightarrow> MemoryRepository" where
  "store_settlement settlement r =
     r\<lparr>usageRecords := mput (usage_ID (settle_Record settlement)) (settle_Record settlement) (usageRecords r),
       pricingEvaluations := foldl (\<lambda>m evaluation. mput (eval_ID evaluation) (clonePricingEvaluation evaluation) m)
         (pricingEvaluations r) (settle_Evaluations settlement),
       billingLedgerEntries := foldl (\<lambda>m billing. mput (ledger_ID billing) billing m) (billingLedgerEntries r) (settle_Ledgers settlement),
       transactionalOutboxEvents := foldl (\<lambda>m event. mput (outbox_ID event) event m)
         (transactionalOutboxEvents r) (settle_OutboxEvents settlement),
       platformUsageDeliveryEvents := foldl (\<lambda>m event. mput (delivery_ID event) event m)
         (platformUsageDeliveryEvents r) (settle_PlatformEvents settlement)\<rparr>"

text \<open>The operation must exist, and the attempt must belong to it.\<close>

definition check_references :: "UsageRecord \<Rightarrow> MemoryRepository \<Rightarrow> go_error option" where
  "check_references record r =
     (if \<not> mhas (aiOperations r) (usage_OperationID record)
      then Some (existing_err ''ai operation'' (usage_OperationID record) ''not found'')
      else if usage_AttemptID record \<noteq> [] \<and> (case map_of (aiAttempts r) (usage_AttemptID record) of
          None \<Rightarrow> True | Some attempt \<Rightarrow> att_OperationID attempt \<noteq> usage_OperationID record)
      then Some (existing_err ''ai attempt'' (usage_AttemptID record) ''not found for operation'')
      else None)"

definition apply_new :: "UsageSettlement \<Rightarrow> MemoryRepository \<Rightarrow> (bool \<times> go_error option) \<times> MemoryRepository" where
  "apply_new settlement r =
     (case check_settlement settlement r of
        Some err \<Rightarrow> ((False, Some err), r)
      | None \<Rightarrow>
          (case settle_ledgers (settle_Record settlement) (settle_Ledgers settlement) r of
             (Some err, r) \<Rightarrow> ((False, Some err), r)
           | (None, r) \<Rightarrow>
               (case settle_evaluations (settle_Record settlement) (settle_Evaluations settlement) r of
                  (Some err, r) \<Rightarrow> ((False, Some err), r)
                | (None, r) \<Rightarrow>
                    (case settle_unpriced (settle_Record settlement) r of
                       (Some err, r) \<Rightarrow> ((False, Some err), r)
                     | (None, r) \<Rightarrow> ((True, None), store_settlement settlement r)))))"

text \<open>The settlement with the normalised dimensions, and then with the defaults of its outbox events.\<close>

definition normal_settlement :: "UsageDimensions \<Rightarrow> UsageSettlement \<Rightarrow> UsageSettlement" where
  "normal_settlement dims settlement = settlement\<lparr>settle_Record := (settle_Record settlement)\<lparr>usage_UsageDimensions := dims\<rparr>\<rparr>"

definition with_outbox :: "UsageSettlement \<Rightarrow> UsageSettlement" where
  "with_outbox settlement = settlement\<lparr>settle_OutboxEvents := map normalizeTransactionalOutboxEvent (settle_OutboxEvents settlement)\<rparr>"

definition settle_checked :: "UsageSettlement \<Rightarrow> MemoryRepository \<Rightarrow> (bool \<times> go_error option) \<times> MemoryRepository" where
  "settle_checked settlement r =
     (case count_existing (mvalues (billingLedgerEntries r)) (settle_Ledgers settlement) 0 of
        Inl err \<Rightarrow> ((False, Some err), r)
      | Inr existingCount \<Rightarrow>
          let record = settle_Record settlement;
              replay = same_usage (map_of (usageRecords r) (usage_ID record)) record
          in if existingCount > 0
             then (if existingCount \<noteq> int (length (settle_Ledgers settlement)) \<or> \<not> replay
               then ((False, Some ErrUsageLedgerConflict), r) else ((False, None), r))
             else if settle_Ledgers settlement = [] \<and> mhas (usageRecords r) (usage_ID record)
             then (if replay then ((False, None), r) else ((False, Some ErrUsageLedgerConflict), r))
             else apply_new settlement r)"

definition ApplyUsageSettlement :: "UsageSettlement \<Rightarrow> MemoryRepository \<Rightarrow> (bool \<times> go_error option) \<times> MemoryRepository" where
  "ApplyUsageSettlement settlement0 r =
     (case NormalizeUsageDimensions (usage_UsageDimensions (settle_Record settlement0)) of
        Inl err \<Rightarrow> ((False, Some err), r)
      | Inr usageDimensions \<Rightarrow>
          let settlement = normal_settlement usageDimensions settlement0
          in (case validateUsageSettlement settlement of
               Some err \<Rightarrow> ((False, Some err), r)
             | None \<Rightarrow>
                 (case check_references (settle_Record settlement) r of
                    Some err \<Rightarrow> ((False, Some err), r)
                  | None \<Rightarrow> settle_checked (with_outbox settlement) r)))"

definition ledger_order :: "BillingLedgerEntry \<Rightarrow> BillingLedgerEntry \<Rightarrow> bool" where
  "ledger_order a b \<longleftrightarrow> ledger_CreatedAt a < ledger_CreatedAt b"

definition ListBillingLedgerEntries :: "string \<Rightarrow> MemoryRepository \<Rightarrow> BillingLedgerEntry list" where
  "ListBillingLedgerEntries operationID r =
     sort_slice ledger_order (filter (\<lambda>entry. operationID = [] \<or> ledger_OperationID entry = operationID) (mvalues (billingLedgerEntries r)))"

end
