(* ===== verification/Settlement_Once.thy ===== *)
theory Settlement_Once
  imports Usage_Settlement
begin

text \<open>
  What a settlement guarantees: it is applied as a whole or not at all, each ledger identity is charged at most once, and the hold of
  the operation ends with the sum of the operation's applied charges.
\<close>

section \<open>Validated settlements\<close>

lemma validate_ledgers_None:
  assumes "validate_ledgers record evaluations ledgers purposes = None"
  shows "distinct (map ledger_Purpose ledgers) \<and> set (map ledger_Purpose ledgers) \<inter> set purposes = {}
    \<and> (\<forall>billing \<in> set ledgers. ledger_matches record billing)"
  using assms
proof (induction ledgers arbitrary: purposes)
  case (Cons billing ledgers)
  then have "validate_ledgers record evaluations ledgers (ledger_Purpose billing # purposes) = None"
    "ledger_Purpose billing \<notin> set purposes" "ledger_matches record billing" by (auto split: if_splits)
  with Cons.IH [OF this(1)] show ?case by auto
qed simp

lemma validateUsageSettlement_None:
  assumes "validateUsageSettlement settlement = None"
  shows "distinct (map ledger_Purpose (settle_Ledgers settlement))"
    "\<And>billing. billing \<in> set (settle_Ledgers settlement) \<Longrightarrow> ledger_matches (settle_Record settlement) billing"
  using assms validate_ledgers_None by (auto simp: validateUsageSettlement_def Let_def split: if_splits dest: validate_ledgers_None)

lemma same_identity_refl [simp]: "sameBillingLedgerIdentity a a" "sameBillingLedgerContent a a"
  by (simp_all add: sameBillingLedgerIdentity_def sameBillingLedgerContent_def)

lemma optionalMoneyEqual_iff [simp]: "optionalMoneyEqual a b \<longleftrightarrow> a = b"
  by (auto simp: optionalMoneyEqual_def)

lemma same_usage_refl: "dimensions_ok (usage_UsageDimensions record) \<Longrightarrow> same_usage (Some record) record"
  by (simp add: same_usage_def usageDimensionsEqual_def UsageDimensionsJSON_def Normalize_fix)

section \<open>Counting replays\<close>

definition same_entries :: "BillingLedgerEntry list \<Rightarrow> BillingLedgerEntry \<Rightarrow> nat" where
  "same_entries stored billing = length (filter (\<lambda>current. sameBillingLedgerIdentity current billing) stored)"

lemma count_existing_Inr:
  assumes "count_existing stored ledgers n = Inr m"
  shows "m = n + (\<Sum>billing \<leftarrow> ledgers. int (same_entries stored billing))"
  using assms
proof (induction ledgers arbitrary: n)
  case (Cons billing ledgers)
  then have "count_existing stored ledgers (n + int (same_entries stored billing)) = Inr m"
    by (auto simp: Let_def same_entries_def split: if_splits)
  from Cons.IH [OF this] show ?case by simp
qed simp

lemma count_existing_ok:
  assumes "\<And>billing current. billing \<in> set ledgers \<Longrightarrow> current \<in> set stored \<Longrightarrow> sameBillingLedgerIdentity current billing
    \<Longrightarrow> sameBillingLedgerContent current billing"
  shows "count_existing stored ledgers n = Inr (n + (\<Sum>billing \<leftarrow> ledgers. int (same_entries stored billing)))"
  using assms by (induction ledgers arbitrary: n) (auto simp: Let_def same_entries_def list_ex_iff)

text \<open>Entries with distinct purposes, none of which was stored before, are each found once.\<close>

lemma same_entries_own:
  assumes "distinct (map ledger_Purpose ledgers)" "billing \<in> set ledgers" "same_entries stored billing = 0"
  shows "filter (\<lambda>current. sameBillingLedgerIdentity current billing) (stored @ ledgers) = [billing]"
proof -
  have "filter (\<lambda>current. sameBillingLedgerIdentity current billing) ledgers = [billing]" using assms(1,2)
  proof (induction ledgers)
    case (Cons b ledgers)
    show ?case
    proof (cases "b = billing")
      case True
      then have "\<not> sameBillingLedgerIdentity c billing" if "c \<in> set ledgers" for c
        using Cons.prems(1) that by (auto simp: sameBillingLedgerIdentity_def image_iff)
      then show ?thesis using True by (simp add: filter_empty_conv)
    next
      case False
      then have "billing \<in> set ledgers" using Cons.prems(2) by simp
      moreover from this have "\<not> sameBillingLedgerIdentity b billing"
        using Cons.prems(1) by (auto simp: sameBillingLedgerIdentity_def image_iff)
      ultimately show ?thesis using Cons by simp
    qed
  qed simp
  then show ?thesis using assms(3) by (simp add: same_entries_def)
qed

lemma mput_all_fresh:
  assumes "distinct (map f xs)" "\<forall>x \<in> set xs. map_of m (f x) = None"
  shows "foldl (\<lambda>m x. mput (f x) x m) m xs = m @ map (\<lambda>x. (f x, x)) xs"
  using assms
proof (induction xs arbitrary: m)
  case (Cons x xs)
  have "\<forall>y \<in> set xs. map_of (m @ [(f x, x)]) (f y) = None" using Cons.prems by (auto simp: map_add_def image_iff)
  with Cons show ?case by (simp add: mput_fresh)
qed simp

section \<open>Settling the hold\<close>

definition hold_statuses :: "string list" where
  "hold_statuses = [BillingHoldStatusReserved, BillingHoldStatusCommitted, BillingHoldStatusSettled, BillingHoldStatusReleased,
     BillingHoldStatusDisputed]"

definition holds_valid :: "MemoryRepository \<Rightarrow> bool" where
  "holds_valid r \<longleftrightarrow> (\<forall>hold \<in> set (mvalues (billingHolds r)). hold_Status hold \<in> set hold_statuses)"

lemma hold_trim [simp]: "TrimSpace BillingHoldStatusSettled = BillingHoldStatusSettled"
  "TrimSpace BillingHoldStatusDisputed = BillingHoldStatusDisputed"
  by code_simp+

text \<open>The steps of a settlement touch holds and their pricing versions only.\<close>

definition settles :: "MemoryRepository \<Rightarrow> MemoryRepository \<Rightarrow> bool" where
  "settles r r' \<longleftrightarrow> (\<exists>holds versions. r' = r\<lparr>billingHolds := holds, billingHoldPricingVersions := versions\<rparr>)"

lemma settles_holds: "settles r (r\<lparr>billingHolds := holds\<rparr>)"
  unfolding settles_def by (rule exI [of _ holds], rule exI [of _ "billingHoldPricingVersions r"]) simp

lemma settles_versions: "settles r (r\<lparr>billingHoldPricingVersions := versions\<rparr>)"
  unfolding settles_def by (rule exI [of _ "billingHolds r"], rule exI [of _ versions]) simp

lemma settles_refl [simp]: "settles r r"
  using settles_holds [of r "billingHolds r"] by simp

lemma settles_trans: "settles r s \<Longrightarrow> settles s t \<Longrightarrow> settles r t"
  unfolding settles_def by (elim exE) (simp, blast)

lemma settles_fields:
  "settles r r' \<Longrightarrow> aiOperations r' = aiOperations r" "settles r r' \<Longrightarrow> aiAttempts r' = aiAttempts r"
  "settles r r' \<Longrightarrow> usageRecords r' = usageRecords r" "settles r r' \<Longrightarrow> billingLedgerEntries r' = billingLedgerEntries r"
  "settles r r' \<Longrightarrow> pricingEvaluations r' = pricingEvaluations r"
  "settles r r' \<Longrightarrow> transactionalOutboxEvents r' = transactionalOutboxEvents r"
  "settles r r' \<Longrightarrow> platformUsageDeliveryEvents r' = platformUsageDeliveryEvents r"
  by (auto simp: settles_def)

lemma settle_hold_cases:
  assumes "settleMemoryBillingHoldForUsage record billing r = (err, r')"
  shows "settles r r'" and "err \<noteq> None \<longrightarrow> r' = r"
  using assms settles_holds
  by (auto simp: settleMemoryBillingHoldForUsage_def split: if_splits option.splits sum.splits)

text \<open>Purposes are distinct, so at most one entry charges the usage.\<close>

lemma settle_ledgers_one:
  assumes "distinct (map ledger_Purpose ledgers)"
  shows "settle_ledgers record ledgers r =
    (case find (\<lambda>billing. ledger_Purpose billing = PricingPurposeUsageCost) ledgers of
       None \<Rightarrow> (None, r) | Some billing \<Rightarrow> settleMemoryBillingHoldForUsage record billing r)"
  using assms
proof (induction ledgers)
  case (Cons b ledgers)
  show ?case
  proof (cases "ledger_Purpose b = PricingPurposeUsageCost")
    case True
    then have "\<forall>c \<in> set ledgers. ledger_Purpose c \<noteq> PricingPurposeUsageCost"
      using Cons.prems by (metis distinct.simps(2) image_eqI list.set_map list.simps(9))
    then have "find (\<lambda>billing. ledger_Purpose billing = PricingPurposeUsageCost) ledgers = None" by (simp add: find_None_iff)
    then have "settle_ledgers record ledgers s = (None, s)" for s
      using \<open>\<forall>c \<in> set ledgers. ledger_Purpose c \<noteq> PricingPurposeUsageCost\<close> by (induction ledgers arbitrary: s) auto
    then show ?thesis using True by (auto split: prod.splits option.splits)
  next
    case False
    then show ?thesis using Cons by simp
  qed
qed simp

lemma move_hold_cases:
  assumes "move_hold record except status reason r = (err, r')"
  shows "settles r r'" and "err \<noteq> None \<longrightarrow> r' = r"
  using assms settles_holds by (auto simp: move_hold_def split: if_splits option.splits sum.splits)

lemma hold_value: "memoryBillingHoldForOperation (billingHolds r) i = Some hold \<Longrightarrow> hold \<in> set (mvalues (billingHolds r))"
  by (auto simp: memoryBillingHoldForOperation_def find_Some_iff)

lemma set_mput_subset: "set (mvalues (mput k v m)) \<subseteq> insert v (set (mvalues m))"
  by (induction m) (auto simp: mvalues_def)

text \<open>Of holds with the code's statuses, the two moves of a settlement never fail.\<close>

lemma move_hold_ok:
  assumes "holds_valid r" "status \<in> {BillingHoldStatusSettled, BillingHoldStatusDisputed}"
    "set except = {BillingHoldStatusSettled, BillingHoldStatusReleased, status}"
    "move_hold record except status reason r = (err, r')"
  shows "err = None \<and> holds_valid r'"
proof (cases "memoryBillingHoldForOperation (billingHolds r) (usage_OperationID record)")
  case None
  then show ?thesis using assms by (simp add: move_hold_def)
next
  case (Some hold)
  have valid: "hold_Status hold \<in> set hold_statuses" using assms(1) hold_value [OF Some] by (simp add: holds_valid_def)
  show ?thesis
  proof (cases "hold_Status hold \<in> set except")
    case True
    then show ?thesis using assms(1,4) Some by (simp add: move_hold_def)
  next
    case False
    then have s: "hold_Status hold \<noteq> BillingHoldStatusSettled" "hold_Status hold \<noteq> BillingHoldStatusReleased" "hold_Status hold \<noteq> status"
      using assms(3) by auto
    then have "billingHoldTransitionAllowed (hold_Status hold) status"
      using valid assms(2) by (auto simp: billingHoldTransitionAllowed_def hold_statuses_def)
    moreover have trim: "TrimSpace status = status" using assms(2) by auto
    ultimately obtain updated where u: "prepareBillingHoldTransition hold status 0 reason (usage_CreatedAt record) = Inr updated"
      using s(3) by (auto simp: prepareBillingHoldTransition_def Let_def)
    have "hold_Status updated = status" using prepare_cases [OF u] trim by auto
    then have "hold_Status updated \<in> set hold_statuses" using assms(2) by (auto simp: hold_statuses_def)
    moreover have "(err, r') = (None, r\<lparr>billingHolds := mput (hold_ID hold) updated (billingHolds r)\<rparr>)"
      using assms(4) Some u False by (simp add: move_hold_def)
    ultimately show ?thesis using assms(1) set_mput_subset [of "hold_ID hold" updated "billingHolds r"] by (auto simp: holds_valid_def)
  qed
qed

lemma note_evaluation_settles: "settles r (note_evaluation record evaluation r)" "billingHolds (note_evaluation record evaluation r) = billingHolds r"
  using settles_versions by (auto simp: note_evaluation_def Let_def split: option.splits)

lemma settle_evaluations_ok:
  assumes "settle_evaluations record evaluations r = (err, r')" "holds_valid r"
  shows "settles r r' \<and> err = None \<and> holds_valid r'"
  using assms
proof (induction evaluations arbitrary: r)
  case (Cons e evaluations)
  let ?r = "note_evaluation record e r"
  have v: "holds_valid ?r" using Cons.prems(2) by (simp add: holds_valid_def note_evaluation_settles)
  show ?case
  proof (cases "eval_Purpose e = PricingPurposeUsageCost \<and> eval_Status e = PricingEvaluationStatusDisputed \<and> billingHoldUsageIsFinal record")
    case True
    obtain err1 s where m: "move_hold record [BillingHoldStatusSettled, BillingHoldStatusReleased, BillingHoldStatusDisputed]
        BillingHoldStatusDisputed ''pricing_evaluation_failed'' ?r = (err1, s)" by (metis prod.collapse)
    have ok: "err1 = None \<and> holds_valid s" using move_hold_ok [OF v _ _ m] by auto
    with Cons.prems(1) True m have "settle_evaluations record evaluations s = (err, r')" by (simp add: Let_def)
    with Cons.IH [OF this] ok show ?thesis
      using settles_trans [OF note_evaluation_settles(1) move_hold_cases(1) [OF m]] settles_trans by blast
  next
    case False
    then have "settle_evaluations record evaluations ?r = (err, r')" using Cons.prems(1) by (auto simp: Let_def)
    with Cons.IH [OF this v] show ?thesis using settles_trans [OF note_evaluation_settles(1)] by blast
  qed
qed simp

lemma settle_unpriced_ok:
  assumes "settle_unpriced record r = (err, r')" "holds_valid r"
  shows "settles r r' \<and> err = None \<and> holds_valid r'"
  using assms move_hold_ok [OF assms(2), of BillingHoldStatusSettled "[BillingHoldStatusSettled, BillingHoldStatusReleased]" "record" "''usage_unpriced''" err r']
    move_hold_cases(1) [of "record" "[BillingHoldStatusSettled, BillingHoldStatusReleased]" BillingHoldStatusSettled "''usage_unpriced''" r err r']
  by (auto simp: settle_unpriced_def split: if_splits)

lemma settle_ledgers_valid:
  assumes "settle_ledgers record ledgers r = (err, r')" "holds_valid r" "distinct (map ledger_Purpose ledgers)"
  shows "holds_valid r'"
proof -
  have "holds_valid s" if s: "settleMemoryBillingHoldForUsage record billing r = (err, s)" for billing s
  proof (cases "billingHolds s = billingHolds r")
    case True
    then show ?thesis using assms(2) by (simp add: holds_valid_def)
  next
    case False
    with s obtain hold amount updated where u: "prepareBillingHoldTransition hold BillingHoldStatusSettled amount ''usage_ledger_applied''
        (usage_CreatedAt record) = Inr updated" "s = r\<lparr>billingHolds := mput (hold_ID hold) updated (billingHolds r)\<rparr>"
      by (auto simp: settleMemoryBillingHoldForUsage_def split: if_splits option.splits sum.splits)
    have "hold_Status updated = BillingHoldStatusSettled" using prepare_cases [OF u(1)] by auto
    then show ?thesis using assms(2) u(2) set_mput_subset [of "hold_ID hold" updated "billingHolds r"]
      by (auto simp: holds_valid_def hold_statuses_def)
  qed
  then show ?thesis using assms(1,2) unfolding settle_ledgers_one [OF assms(3)] by (auto split: option.splits)
qed

section \<open>A settlement is applied once\<close>

lemma settlement_fields [simp]:
  "settle_Ledgers (normal_settlement dims settlement) = settle_Ledgers settlement"
  "settle_Evaluations (normal_settlement dims settlement) = settle_Evaluations settlement"
  "settle_Ledgers (with_outbox settlement) = settle_Ledgers settlement"
  "settle_Evaluations (with_outbox settlement) = settle_Evaluations settlement"
  "settle_Record (with_outbox settlement) = settle_Record settlement"
  "usage_ID (settle_Record (normal_settlement dims settlement)) = usage_ID (settle_Record settlement)"
  "usage_OperationID (settle_Record (normal_settlement dims settlement)) = usage_OperationID (settle_Record settlement)"
  "usage_UsageDimensions (settle_Record (normal_settlement dims settlement)) = dims"
  by (simp_all add: normal_settlement_def with_outbox_def)

lemma apply_new_cases:
  assumes "apply_new settlement r = ((applied, err), r')" "holds_valid r" "distinct (map ledger_Purpose (settle_Ledgers settlement))"
  shows "if applied then err = None \<and> check_settlement settlement r = None
      \<and> (\<exists>s t. settle_ledgers (settle_Record settlement) (settle_Ledgers settlement) r = (None, s)
          \<and> settle_evaluations (settle_Record settlement) (settle_Evaluations settlement) s = (None, t)
          \<and> (\<exists>u. settle_unpriced (settle_Record settlement) t = (None, u) \<and> settles r u \<and> holds_valid u \<and> r' = store_settlement settlement u))
    else err \<noteq> None \<and> r' = r"
proof (cases "check_settlement settlement r")
  case (Some e)
  then show ?thesis using assms(1) by (cases applied) (auto simp: apply_new_def Some)
next
  case None
  let ?rec = "settle_Record settlement"
  obtain e1 s where l: "settle_ledgers ?rec (settle_Ledgers settlement) r = (e1, s)" by (metis prod.collapse)
  have ls: "settles r s \<and> (e1 \<noteq> None \<longrightarrow> s = r)"
    using l settle_hold_cases unfolding settle_ledgers_one [OF assms(3)] by (auto split: option.splits)
  show ?thesis
  proof (cases e1)
    case (Some e)
    then show ?thesis using assms(1) None l ls by (auto simp: apply_new_def)
  next
    case e1: None
    have valid: "holds_valid s" using settle_ledgers_valid [OF l assms(2,3)] .
    obtain e2 t where ev: "settle_evaluations ?rec (settle_Evaluations settlement) s = (e2, t)" by (metis prod.collapse)
    note evo = settle_evaluations_ok [OF ev valid]
    obtain e3 u where up: "settle_unpriced ?rec t = (e3, u)" by (metis prod.collapse)
    have u: "settles t u \<and> e3 = None \<and> holds_valid u" using settle_unpriced_ok [OF up] evo by blast
    have "settles r u" using ls evo u settles_trans by blast
    then show ?thesis using assms(1) None l e1 ev evo up u by (auto simp: apply_new_def)
  qed
qed

lemma count_existing_nonneg:
  assumes "count_existing stored ledgers 0 = Inr m"
  shows "0 \<le> m"
proof -
  have "0 \<le> (\<Sum>billing \<leftarrow> ledgers. int (same_entries stored billing))" by (rule sum_list_nonneg) auto
  then show ?thesis using count_existing_Inr [OF assms] by simp
qed

lemma Apply_cases:
  assumes "ApplyUsageSettlement settlement r = ((applied, err), r')" "holds_valid r"
  shows "if applied then \<exists>dims. NormalizeUsageDimensions (usage_UsageDimensions (settle_Record settlement)) = Inr dims
      \<and> validateUsageSettlement (normal_settlement dims settlement) = None
      \<and> check_references (settle_Record (normal_settlement dims settlement)) r = None
      \<and> count_existing (mvalues (billingLedgerEntries r)) (settle_Ledgers settlement) 0 = Inr 0
      \<and> apply_new (with_outbox (normal_settlement dims settlement)) r = ((True, err), r')
    else r' = r"
proof -
  have new: "if applied then count_existing (mvalues (billingLedgerEntries r)) (settle_Ledgers s) 0 = Inr 0
        \<and> apply_new s r = ((True, err), r') else r' = r"
    if s: "settle_checked s r = ((applied, err), r')" "distinct (map ledger_Purpose (settle_Ledgers s))" for s
  proof (cases "apply_new s r = ((applied, err), r') \<and> count_existing (mvalues (billingLedgerEntries r)) (settle_Ledgers s) 0 = Inr 0")
    case True
    then show ?thesis using apply_new_cases [of s r applied err r'] assms(2) s(2) by (auto split: if_splits)
  next
    case False
    then have "\<not> applied \<and> r' = r" using s(1) count_existing_nonneg [of "mvalues (billingLedgerEntries r)" "settle_Ledgers s"]
      by (auto simp: settle_checked_def Let_def split: sum.splits if_splits)
    then show ?thesis by simp
  qed
  show ?thesis
  proof (cases "NormalizeUsageDimensions (usage_UsageDimensions (settle_Record settlement))")
    case (Inl e)
    then show ?thesis using assms(1) by (auto simp: ApplyUsageSettlement_def)
  next
    case (Inr dims)
    show ?thesis
    proof (cases "validateUsageSettlement (normal_settlement dims settlement) = None
        \<and> check_references (settle_Record (normal_settlement dims settlement)) r = None")
      case True
      then have "settle_checked (with_outbox (normal_settlement dims settlement)) r = ((applied, err), r')"
        using assms(1) Inr by (simp add: ApplyUsageSettlement_def Let_def)
      from new [OF this] True Inr validateUsageSettlement_None(1) [of "normal_settlement dims settlement"] show ?thesis by auto
    next
      case False
      then show ?thesis using assms(1) Inr by (auto simp: ApplyUsageSettlement_def Let_def split: option.splits)
    qed
  qed
qed

lemma Apply_replay:
  assumes "NormalizeUsageDimensions (usage_UsageDimensions (settle_Record settlement)) = Inr dims"
    "validateUsageSettlement (normal_settlement dims settlement) = None"
    "check_references (settle_Record (normal_settlement dims settlement)) r = None"
    "count_existing (mvalues (billingLedgerEntries r)) (settle_Ledgers settlement) 0 = Inr (int (length (settle_Ledgers settlement)))"
    "map_of (usageRecords r) (usage_ID (settle_Record settlement)) = Some (settle_Record (normal_settlement dims settlement))"
  shows "ApplyUsageSettlement settlement r = ((False, None), r)"
proof -
  have "dimensions_ok dims" using Normalize_ok assms(1) by blast
  then have "same_usage (Some (settle_Record (normal_settlement dims settlement))) (settle_Record (normal_settlement dims settlement))"
    by (intro same_usage_refl) simp
  then show ?thesis using assms by (simp add: ApplyUsageSettlement_def settle_checked_def Let_def mhas_def)
qed

lemma Apply_charged:
  assumes "current \<in> set (mvalues (billingLedgerEntries r))" "billing \<in> set (settle_Ledgers settlement)"
    "sameBillingLedgerIdentity current billing"
  shows "\<not> fst (fst (ApplyUsageSettlement settlement r)) \<and> snd (ApplyUsageSettlement settlement r) = r"
proof -
  have "0 < m" if "count_existing (mvalues (billingLedgerEntries r)) (settle_Ledgers settlement) 0 = Inr m" for m
  proof -
    have "current \<in> set (filter (\<lambda>c. sameBillingLedgerIdentity c billing) (mvalues (billingLedgerEntries r)))" using assms by simp
    then have "0 < same_entries (mvalues (billingLedgerEntries r)) billing" unfolding same_entries_def by (rule length_pos_if_in_set)
    moreover have "int (same_entries (mvalues (billingLedgerEntries r)) billing)
        \<le> (\<Sum>b \<leftarrow> settle_Ledgers settlement. int (same_entries (mvalues (billingLedgerEntries r)) b))"
      using assms(2) by (intro member_le_sum_list) auto
    ultimately show ?thesis using count_existing_Inr [OF that] by simp
  qed
  then show ?thesis by (auto simp: ApplyUsageSettlement_def settle_checked_def Let_def split: sum.splits option.splits)
qed

lemma count_existing_zero:
  assumes "count_existing stored ledgers 0 = Inr 0" "billing \<in> set ledgers"
  shows "same_entries stored billing = 0"
proof -
  have "(\<Sum>b \<leftarrow> ledgers. int (same_entries stored b)) = 0" using count_existing_Inr [OF assms(1)] by simp
  then have "int (same_entries stored billing) = 0" using assms(2)
    by (subst (asm) sum_list_nonneg_eq_0_iff) auto
  then show ?thesis by simp
qed

text \<open>After a settlement every one of its entries is found once, with its content.\<close>

lemma count_existing_again:
  assumes "count_existing stored ledgers 0 = Inr 0" "distinct (map ledger_Purpose ledgers)"
  shows "count_existing (stored @ ledgers) ledgers 0 = Inr (int (length ledgers))"
proof -
  have own: "filter (\<lambda>current. sameBillingLedgerIdentity current billing) (stored @ ledgers) = [billing]" if "billing \<in> set ledgers" for billing
    using same_entries_own [OF assms(2) that count_existing_zero [OF assms(1) that]] .
  have "sameBillingLedgerContent current billing"
    if "billing \<in> set ledgers" "current \<in> set (stored @ ledgers)" "sameBillingLedgerIdentity current billing" for billing current
  proof -
    have "current \<in> set (filter (\<lambda>current. sameBillingLedgerIdentity current billing) (stored @ ledgers))" using that(2,3) by simp
    then show ?thesis unfolding own [OF that(1)] by simp
  qed
  then have "count_existing (stored @ ledgers) ledgers 0 = Inr (0 + (\<Sum>billing \<leftarrow> ledgers. int (same_entries (stored @ ledgers) billing)))"
    by (rule count_existing_ok)
  moreover have "map (\<lambda>billing. int (same_entries (stored @ ledgers) billing)) ledgers = map (\<lambda>billing. 1) ledgers"
    unfolding same_entries_def by (rule map_cong [OF refl]) (simp only: own length_Cons list.size(3) of_nat_1 One_nat_def [symmetric] add_0)
  ultimately show ?thesis by (simp add: sum_list_triv)
qed

lemma mhas_foldl: "mhas (foldl (\<lambda>m x. mput (f x) (g x) m) m xs) k \<longleftrightarrow> mhas m k \<or> k \<in> f ` set xs"
  by (induction xs arbitrary: m) (auto simp: mhas_def)

lemma check_settlement_None:
  assumes "check_settlement settlement r = None"
  shows "\<not> mhas (usageRecords r) (usage_ID (settle_Record settlement))"
    "\<And>billing. billing \<in> set (settle_Ledgers settlement) \<Longrightarrow> map_of (billingLedgerEntries r) (ledger_ID billing) = None"
  using assms by (auto simp: check_settlement_def mhas_def find_None_iff split: if_splits option.splits)

text \<open>The repository after an applied settlement.\<close>

lemma applied_settlement:
  assumes "holds_valid r" "distinct (map ledger_ID (settle_Ledgers settlement))"
    and "ApplyUsageSettlement settlement r = ((True, err), r')"
  obtains dims u where "NormalizeUsageDimensions (usage_UsageDimensions (settle_Record settlement)) = Inr dims"
    "validateUsageSettlement (normal_settlement dims settlement) = None"
    "check_references (settle_Record (normal_settlement dims settlement)) r = None"
    "count_existing (mvalues (billingLedgerEntries r)) (settle_Ledgers settlement) 0 = Inr 0"
    "distinct (map ledger_Purpose (settle_Ledgers settlement))"
    "settles r u" "err = None" "r' = store_settlement (with_outbox (normal_settlement dims settlement)) u"
    "\<not> mhas (usageRecords r) (usage_ID (settle_Record settlement))"
    "mvalues (billingLedgerEntries r') = mvalues (billingLedgerEntries r) @ settle_Ledgers settlement"
    "\<exists>s t. settle_ledgers (settle_Record (normal_settlement dims settlement)) (settle_Ledgers settlement) r = (None, s)
        \<and> settle_evaluations (settle_Record (normal_settlement dims settlement)) (settle_Evaluations settlement) s = (None, t)
        \<and> settle_unpriced (settle_Record (normal_settlement dims settlement)) t = (None, u)"
proof -
  from Apply_cases [OF assms(3,1)] obtain dims where a: "NormalizeUsageDimensions (usage_UsageDimensions (settle_Record settlement)) = Inr dims"
    "validateUsageSettlement (normal_settlement dims settlement) = None"
    "check_references (settle_Record (normal_settlement dims settlement)) r = None"
    "count_existing (mvalues (billingLedgerEntries r)) (settle_Ledgers settlement) 0 = Inr 0"
    "apply_new (with_outbox (normal_settlement dims settlement)) r = ((True, err), r')" by auto
  let ?s = "with_outbox (normal_settlement dims settlement)"
  have d: "distinct (map ledger_Purpose (settle_Ledgers settlement))"
    using validateUsageSettlement_None(1) [OF a(2)] by simp
  from apply_new_cases [OF a(5) assms(1)] d obtain u where u: "err = None" "check_settlement ?s r = None" "settles r u" "r' = store_settlement ?s u"
    "\<exists>s t. settle_ledgers (settle_Record ?s) (settle_Ledgers ?s) r = (None, s)
        \<and> settle_evaluations (settle_Record ?s) (settle_Evaluations ?s) s = (None, t) \<and> settle_unpriced (settle_Record ?s) t = (None, u)" by auto
  note c = check_settlement_None [OF u(2)]
  have "billingLedgerEntries r' = billingLedgerEntries r @ map (\<lambda>b. (ledger_ID b, b)) (settle_Ledgers settlement)"
    using mput_all_fresh [OF assms(2), of "billingLedgerEntries r"] c(2) u(3,4)
    by (simp add: store_settlement_def settles_fields [OF u(3)])
  then have "mvalues (billingLedgerEntries r') = mvalues (billingLedgerEntries r) @ settle_Ledgers settlement"
    by (simp add: mvalues_def comp_def)
  with a d u c(1) show ?thesis by (intro that) (simp_all)
qed

text \<open>
  C5. A settlement is applied once and as a whole: a call that does not apply it changes nothing; one that does stores the usage record, the
  ledger entries, the evaluations and the outbox events together, the same call again then changes nothing and gives no error, and no later
  settlement can charge the same operation, attempt, usage version and purpose again.
\<close>

theorem settlement_once:
  assumes "holds_valid r" "distinct (map ledger_ID (settle_Ledgers settlement))"
    and "ApplyUsageSettlement settlement r = ((applied, err), r')"
  shows "if applied then err = None \<and> map_of (usageRecords r) (usage_ID (settle_Record settlement)) = None
      \<and> (\<exists>stored. map_of (usageRecords r') = (map_of (usageRecords r))(usage_ID (settle_Record settlement) \<mapsto> stored))
      \<and> mvalues (billingLedgerEntries r') = mvalues (billingLedgerEntries r) @ settle_Ledgers settlement
      \<and> (\<forall>evaluation \<in> set (settle_Evaluations settlement). mhas (pricingEvaluations r') (eval_ID evaluation))
      \<and> (\<forall>event \<in> set (settle_OutboxEvents settlement). mhas (transactionalOutboxEvents r') (outbox_ID event))
      \<and> ApplyUsageSettlement settlement r' = ((False, None), r')
      \<and> (\<forall>other b c. b \<in> set (settle_Ledgers settlement) \<longrightarrow> c \<in> set (settle_Ledgers other) \<longrightarrow> sameBillingLedgerIdentity b c \<longrightarrow>
          \<not> fst (fst (ApplyUsageSettlement other r')) \<and> snd (ApplyUsageSettlement other r') = r')
    else r' = r"
proof (cases applied)
  case False
  then show ?thesis using Apply_cases [OF assms(3,1)] by simp
next
  case True
  with assms(3) have a: "ApplyUsageSettlement settlement r = ((True, err), r')" by simp
  from applied_settlement [OF assms(1,2) this] obtain dims u where
    n: "NormalizeUsageDimensions (usage_UsageDimensions (settle_Record settlement)) = Inr dims"
    "validateUsageSettlement (normal_settlement dims settlement) = None"
    "check_references (settle_Record (normal_settlement dims settlement)) r = None"
    "count_existing (mvalues (billingLedgerEntries r)) (settle_Ledgers settlement) 0 = Inr 0"
    "distinct (map ledger_Purpose (settle_Ledgers settlement))"
    and u: "settles r u" "err = None" "r' = store_settlement (with_outbox (normal_settlement dims settlement)) u"
    "\<not> mhas (usageRecords r) (usage_ID (settle_Record settlement))"
    "mvalues (billingLedgerEntries r') = mvalues (billingLedgerEntries r) @ settle_Ledgers settlement" by blast
  note same = settles_fields [OF u(1)]
  have rec: "map_of (usageRecords r') = (map_of (usageRecords r))(usage_ID (settle_Record settlement)
      \<mapsto> settle_Record (normal_settlement dims settlement))" by (simp add: u(3) store_settlement_def same)
  have "aiOperations r' = aiOperations r" "aiAttempts r' = aiAttempts r" by (simp_all add: u(3) store_settlement_def same)
  then have "check_references (settle_Record (normal_settlement dims settlement)) r' = None"
    using n(3) by (simp only: check_references_def)
  then have "ApplyUsageSettlement settlement r' = ((False, None), r')"
    using Apply_replay [OF n(1,2)] count_existing_again [OF n(4,5)] u(5) rec by simp
  moreover have "\<not> fst (fst (ApplyUsageSettlement other r')) \<and> snd (ApplyUsageSettlement other r') = r'"
    if "b \<in> set (settle_Ledgers settlement)" "c \<in> set (settle_Ledgers other)" "sameBillingLedgerIdentity b c" for other b c
    using Apply_charged [OF _ that(2,3), of r'] that(1) u(5) by simp
  moreover have "mhas (pricingEvaluations r') (eval_ID evaluation)" if "evaluation \<in> set (settle_Evaluations settlement)" for evaluation
    using that by (simp add: u(3) store_settlement_def mhas_foldl)
  moreover have "mhas (transactionalOutboxEvents r') (outbox_ID event)" if "event \<in> set (settle_OutboxEvents settlement)" for event
  proof -
    have "outbox_ID (normalizeTransactionalOutboxEvent e) = outbox_ID e" for e by (simp add: normalizeTransactionalOutboxEvent_def)
    then show ?thesis using that
      by (simp add: u(3) store_settlement_def mhas_foldl with_outbox_def normal_settlement_def image_image)
  qed
  ultimately show ?thesis using True u(2,4,5) rec by (auto simp: mhas_def)
qed

section \<open>The settled amount\<close>

text \<open>What an operation has been charged for its usage.\<close>

definition charges :: "string \<Rightarrow> BillingLedgerEntry \<Rightarrow> bool" where
  "charges operationID entry \<longleftrightarrow> ledger_OperationID entry = operationID \<and> ledger_Purpose entry = PricingPurposeUsageCost
     \<and> ledger_Status entry = BillingLedgerStatusApplied"

definition charged :: "string \<Rightarrow> BillingLedgerEntry list \<Rightarrow> int" where
  "charged operationID entries = (\<Sum>entry \<leftarrow> filter (charges operationID) entries. ledger_AmountMicros entry)"

lemma cumulative_exact:
  assumes "\<forall>entry \<in> set entries. 0 \<le> ledger_AmountMicros entry" "0 \<le> acc" "acc \<le> MaxInt64"
    "cumulative_loop operationID entries acc = Inr m"
  shows "m = acc + charged operationID entries \<and> m \<le> MaxInt64"
  using assms
proof (induction entries arbitrary: acc)
  case (Cons entry entries)
  show ?case
  proof (cases "charges operationID entry")
    case True
    have w: "wrap64 (MaxInt64 - acc) = MaxInt64 - acc" using Cons.prems(2,3) by (intro wrap64_id) (simp add: int64_defs)
    have le: "ledger_AmountMicros entry \<le> MaxInt64 - acc" using True Cons.prems(4) by (auto simp: charges_def w split: if_splits)
    have w2: "wrap64 (acc + ledger_AmountMicros entry) = acc + ledger_AmountMicros entry"
      using Cons.prems(1,2) le by (intro wrap64_id) (simp add: int64_defs)
    have "cumulative_loop operationID entries (acc + ledger_AmountMicros entry) = Inr m"
      using True Cons.prems(4) le by (auto simp: charges_def w w2 split: if_splits)
    from Cons.IH [OF _ _ _ this] Cons.prems(1,2) le True show ?thesis by (simp add: charged_def)
  next
    case False
    then have "cumulative_loop operationID entries acc = Inr m" using Cons.prems(4) by (auto simp: charges_def)
    from Cons.IH [OF _ Cons.prems(2,3) this] Cons.prems(1) False show ?thesis by (simp add: charged_def)
  qed
qed (simp add: charged_def)

lemma filter_eq_single: "distinct xs \<Longrightarrow> x \<in> set xs \<Longrightarrow> filter (\<lambda>y. y = x) xs = [x]"
  by (induction xs) (auto simp: filter_empty_conv)

lemma only_charge:
  assumes "distinct (map ledger_Purpose ledgers)" "billing \<in> set ledgers" "ledger_Purpose billing = PricingPurposeUsageCost"
    "ledger_OperationID billing = i" "ledger_Status billing = BillingLedgerStatusApplied"
  shows "filter (charges i) ledgers = [billing]"
proof -
  have "filter (charges i) ledgers = filter (\<lambda>b. b = billing) ledgers"
  proof (rule filter_cong [OF refl])
    fix b assume "b \<in> set ledgers"
    with assms(1,2) have "b = billing" if "ledger_Purpose b = ledger_Purpose billing" using that by (auto simp: distinct_map dest: inj_onD)
    then show "charges i b = (b = billing)" using assms(3-5) by (auto simp: charges_def)
  qed
  moreover have "distinct ledgers" using assms(1) by (simp add: distinct_map)
  ultimately show ?thesis using assms(2) by (simp add: filter_eq_single)
qed

text \<open>A hold that is settled is not moved by the rest of the settlement.\<close>

definition settled_at :: "string \<Rightarrow> BillingHold \<Rightarrow> MemoryRepository \<Rightarrow> bool" where
  "settled_at i hold r \<longleftrightarrow> memoryBillingHoldForOperation (billingHolds r) i = Some hold \<and> hold_Status hold = BillingHoldStatusSettled"

lemma move_hold_settled:
  "settled_at (usage_OperationID record) hold r \<Longrightarrow> BillingHoldStatusSettled \<in> set except \<Longrightarrow> move_hold record except status reason r = (None, r)"
  by (simp add: settled_at_def move_hold_def)

lemma settle_evaluations_settled:
  assumes "settled_at (usage_OperationID record) hold r" "settle_evaluations record evaluations r = (err, r')"
  shows "settled_at (usage_OperationID record) hold r'"
  using assms
proof (induction evaluations arbitrary: r)
  case (Cons e evaluations)
  let ?r = "note_evaluation record e r"
  have s: "settled_at (usage_OperationID record) hold ?r" using Cons.prems(1) by (simp add: settled_at_def note_evaluation_settles)
  have "settle_evaluations record evaluations ?r = (err, r')"
    using Cons.prems(2) move_hold_settled [OF s, of "[BillingHoldStatusSettled, BillingHoldStatusReleased, BillingHoldStatusDisputed]"]
    by (auto simp: Let_def split: if_splits)
  with Cons.IH [OF s] show ?case .
qed simp

text \<open>
  C6. After a final usage is settled, the hold of its operation, unless it had ended before, is settled with exactly what the operation has been
  charged, this settlement's charge included, and the sum has not wrapped.
\<close>

theorem settled_amount_is_charged:
  assumes "holds_ok r" "holds_valid r" "distinct (map ledger_ID (settle_Ledgers settlement))"
    and "\<forall>entry \<in> set (mvalues (billingLedgerEntries r)). 0 \<le> ledger_AmountMicros entry"
    and "\<forall>entry \<in> set (settle_Ledgers settlement). ledger_AmountMicros entry \<le> MaxInt64"
    and "ApplyUsageSettlement settlement r = ((True, err), r')" "billingHoldUsageIsFinal (settle_Record settlement)"
    and "\<exists>billing \<in> set (settle_Ledgers settlement). ledger_Purpose billing = PricingPurposeUsageCost"
    and "memoryBillingHoldForOperation (billingHolds r) (usage_OperationID (settle_Record settlement)) = Some hold"
    and "hold_Status hold \<notin> {BillingHoldStatusSettled, BillingHoldStatusReleased}"
  shows "\<exists>settled. memoryBillingHoldForOperation (billingHolds r') (usage_OperationID (settle_Record settlement)) = Some settled
    \<and> hold_ID settled = hold_ID hold \<and> hold_Status settled = BillingHoldStatusSettled
    \<and> hold_SettledAmountMicros settled = charged (usage_OperationID (settle_Record settlement)) (mvalues (billingLedgerEntries r'))
    \<and> hold_SettledAmountMicros settled \<le> MaxInt64"
proof -
  let ?op = "usage_OperationID (settle_Record settlement)"
  from applied_settlement [OF assms(2,3,6)] obtain dims u s t where n: "validateUsageSettlement (normal_settlement dims settlement) = None"
    "distinct (map ledger_Purpose (settle_Ledgers settlement))" "r' = store_settlement (with_outbox (normal_settlement dims settlement)) u"
    "mvalues (billingLedgerEntries r') = mvalues (billingLedgerEntries r) @ settle_Ledgers settlement"
    and l: "settle_ledgers (settle_Record (normal_settlement dims settlement)) (settle_Ledgers settlement) r = (None, s)"
    and ev: "settle_evaluations (settle_Record (normal_settlement dims settlement)) (settle_Evaluations settlement) s = (None, t)"
    and up: "settle_unpriced (settle_Record (normal_settlement dims settlement)) t = (None, u)" by metis
  let ?rec = "settle_Record (normal_settlement dims settlement)"
  have final: "billingHoldUsageIsFinal ?rec" using assms(7) by (simp add: billingHoldUsageIsFinal_def normal_settlement_def)
  obtain billing where b: "find (\<lambda>billing. ledger_Purpose billing = PricingPurposeUsageCost) (settle_Ledgers settlement) = Some billing"
    using assms(8) by (cases "find (\<lambda>billing. ledger_Purpose billing = PricingPurposeUsageCost) (settle_Ledgers settlement)") (auto simp: find_None_iff)
  then have bm: "billing \<in> set (settle_Ledgers settlement)" "ledger_Purpose billing = PricingPurposeUsageCost" by (auto simp: find_Some_iff)
  with validateUsageSettlement_None(2) [OF n(1)] have "ledger_matches ?rec billing" by simp
  then have bl: "ledger_OperationID billing = ?op" "ledger_Status billing = BillingLedgerStatusApplied" "0 \<le> ledger_AmountMicros billing"
    by (auto simp: ledger_matches_def normal_settlement_def)
  have "settleMemoryBillingHoldForUsage ?rec billing r = (None, s)" using l unfolding settle_ledgers_one [OF n(2)] b by simp
  then obtain amount updated where amount: "cumulativeMemoryBillingAmount r billing = Inr amount"
    "prepareBillingHoldTransition hold BillingHoldStatusSettled amount ''usage_ledger_applied'' (usage_CreatedAt ?rec) = Inr updated"
    "s = hold_set hold updated r"
    using assms(9,10) final by (auto simp: settleMemoryBillingHoldForUsage_def hold_set_def split: sum.splits)
  have upd: "same_hold hold updated" "hold_Status updated = BillingHoldStatusSettled" "hold_SettledAmountMicros updated = amount"
    using prepare_cases [OF amount(2)] assms(10) by auto
  have "settled_at ?op updated s" using hold_set_ok(2) [OF assms(1,9) upd(1), of ?op] amount(3) upd(2) by (simp add: settled_at_def)
  then have "settled_at ?op updated t" using settle_evaluations_settled [of ?rec updated s] ev by simp
  then have "settled_at ?op updated u"
    using up move_hold_settled [of ?rec updated t "[BillingHoldStatusSettled, BillingHoldStatusReleased]" BillingHoldStatusSettled "''usage_unpriced''"]
    by (auto simp: settle_unpriced_def split: if_splits)
  then have found: "memoryBillingHoldForOperation (billingHolds r') ?op = Some updated" using n(3) by (simp add: settled_at_def store_settlement_def)
  have m: "amount = ledger_AmountMicros billing + charged ?op (mvalues (billingLedgerEntries r)) \<and> amount \<le> MaxInt64"
    using amount(1) cumulative_exact [OF assms(4) bl(3)] assms(5) bm(1) bl(1)
    by (auto simp: cumulativeMemoryBillingAmount_def split: if_splits)
  have "filter (charges ?op) (settle_Ledgers settlement) = [billing]"
    using n(2) bm bl(1,2) by (rule only_charge)
  then have "charged ?op (mvalues (billingLedgerEntries r')) = charged ?op (mvalues (billingLedgerEntries r)) + ledger_AmountMicros billing"
    by (simp add: n(4) charged_def)
  with found upd m same_hold_fields(1) [OF upd(1)] show ?thesis by auto
qed

section \<open>A settled operation\<close>

definition demo_evaluation :: PricingEvaluation where
  "demo_evaluation = zero_PricingEvaluation\<lparr>eval_ID := ''ev1'', eval_Purpose := PricingPurposeUsageCost, eval_Phase := PhaseSettlement,
     eval_OperationID := ''op_1'', eval_UsageRecordID := ''u1'', eval_UsageVersion := 1, eval_PricingRuleVersionID := ''v1'',
     eval_AmountMicros := Some 7, eval_Status := PricingEvaluationStatusSuccess\<rparr>"

definition demo_usage :: UsageRecord where
  "demo_usage = zero_UsageRecord\<lparr>usage_ID := ''u1'', usage_OperationID := ''op_1'', usage_UsageVersion := 1, usage_UsageSource := ''gateway_final'',
     usage_RequestFingerprint := ''f'', usage_UsageCostMicros := Some 7, usage_CreatedAt := 9\<rparr>"

definition demo_charge :: BillingLedgerEntry where
  "demo_charge = zero_BillingLedgerEntry\<lparr>ledger_ID := ''l1'', ledger_OperationID := ''op_1'', ledger_UsageVersion := 1, ledger_UsageRecordID := ''u1'',
     ledger_RequestFingerprint := ''f'', ledger_Purpose := PricingPurposeUsageCost, ledger_AmountMicros := 7, ledger_Currency := CurrencyUSD,
     ledger_PricingEvaluationID := ''ev1'', ledger_PricingRuleVersionID := ''v1'', ledger_Status := BillingLedgerStatusApplied\<rparr>"

definition demo_settlement :: UsageSettlement where
  "demo_settlement = \<lparr>settle_Record = demo_usage, settle_Evaluations = [demo_evaluation], settle_Ledgers = [demo_charge],
     settle_OutboxEvents = [], settle_PlatformEvents = []\<rparr>"

definition demo_funded_repository :: MemoryRepository where
  "demo_funded_repository = snd (CreateAIOperationWithBillingHold demo_funded demo_admission NewMemoryRepository)"

definition demo_settled_repository :: MemoryRepository where
  "demo_settled_repository = snd (ApplyUsageSettlement demo_settlement demo_funded_repository)"

lemma demo_applied: "ApplyUsageSettlement demo_settlement demo_funded_repository = ((True, None), demo_settled_repository)"
proof -
  have "fst (ApplyUsageSettlement demo_settlement demo_funded_repository) = (True, None)" by code_simp
  then show ?thesis by (simp add: demo_settled_repository_def prod_eq_iff)
qed

lemma demo_holds_valid: "holds_valid demo_funded_repository"
  by code_simp

theorem settlement_once_witness:
  "ApplyUsageSettlement demo_settlement demo_settled_repository = ((False, None), demo_settled_repository)"
  using settlement_once [OF demo_holds_valid _ demo_applied] by (simp add: demo_settlement_def)

lemma demo_funded_repository:
  "holds_ok demo_funded_repository" "billingLedgerEntries demo_funded_repository = []"
  "memoryBillingHoldForOperation (billingHolds demo_funded_repository) ''op_1'' = Some demo_hold"
proof -
  show "holds_ok demo_funded_repository"
    using Create_hold_ok(1) [OF new_repository_ok(1) demo_created_eq] by (simp add: demo_funded_repository_def)
  show "billingLedgerEntries demo_funded_repository = []" by code_simp
  show "memoryBillingHoldForOperation (billingHolds demo_funded_repository) ''op_1'' = Some demo_hold"
    using Create_hold_ok(2) [OF new_repository_ok(1) demo_created_eq, of "''op_1''"]
    by (simp add: demo_funded_repository_def demo_funded_def) (simp add: demo_admission_def)
qed

theorem settled_amount_is_charged_witness:
  "\<exists>settled. memoryBillingHoldForOperation (billingHolds demo_settled_repository) ''op_1'' = Some settled
     \<and> hold_Status settled = BillingHoldStatusSettled \<and> hold_SettledAmountMicros settled = 7"
proof -
  have final: "billingHoldUsageIsFinal demo_usage" by code_simp
  have s: "settle_Record demo_settlement = demo_usage" "settle_Ledgers demo_settlement = [demo_charge]" "usage_OperationID demo_usage = ''op_1''"
    "ledger_ID demo_charge = ''l1''" "ledger_AmountMicros demo_charge = 7" "ledger_Purpose demo_charge = PricingPurposeUsageCost"
    by (simp_all add: demo_settlement_def demo_usage_def demo_charge_def)
  have c: "charged ''op_1'' (mvalues (billingLedgerEntries demo_settled_repository)) = 7" by code_simp
  have "hold_Status demo_hold = BillingHoldStatusReserved" by (simp add: demo_hold_def)
  then show ?thesis
    using settled_amount_is_charged [OF demo_funded_repository(1) demo_holds_valid _ _ _ demo_applied, of demo_hold] final
    by (simp add: s c demo_funded_repository mvalues_def [of "[]"] int64_defs) auto
qed

end
