(* ===== verification/Outbox.thy ===== *)
theory Outbox
  imports AI_Job_Repo
begin

text \<open>
  The transactional outbox: events that were stored together with the state they report are leased by a worker, given to the publisher,
  and completed, retried later or given up (\<open>operation_repository.go\<close>, \<open>transactional_outbox.go\<close>).
\<close>

section \<open>Repository operations on the outbox\<close>

definition outbox_created_order :: "TransactionalOutboxEvent \<Rightarrow> TransactionalOutboxEvent \<Rightarrow> bool" where
  "outbox_created_order a b \<longleftrightarrow> outbox_CreatedAt a < outbox_CreatedAt b"

definition ListTransactionalOutboxEvents :: "string \<Rightarrow> MemoryRepository \<Rightarrow> TransactionalOutboxEvent list" where
  "ListTransactionalOutboxEvents aggregateID r =
     sort_slice outbox_created_order
       (filter (\<lambda>event. aggregateID = [] \<or> outbox_AggregateID event = aggregateID) (mvalues (transactionalOutboxEvents r)))"

definition hasEarlierUnpublishedOutboxEvent ::
  "(string, TransactionalOutboxEvent) gmap \<Rightarrow> TransactionalOutboxEvent \<Rightarrow> bool" where
  "hasEarlierUnpublishedOutboxEvent events candidate =
     list_ex (\<lambda>event. outbox_AggregateType event = outbox_AggregateType candidate
       \<and> outbox_AggregateID event = outbox_AggregateID candidate \<and> outbox_EventVersion event < outbox_EventVersion candidate
       \<and> outbox_Status event \<noteq> OutboxStatusPublished \<and> outbox_Status event \<noteq> OutboxStatusDeadLetter) (mvalues events)"

text \<open>The filter of the claim's loop.\<close>

definition outbox_claimable :: "(string, TransactionalOutboxEvent) gmap \<Rightarrow> gotime \<Rightarrow> TransactionalOutboxEvent \<Rightarrow> bool" where
  "outbox_claimable events now event =
     (if outbox_AvailableAt event > now \<or> outbox_Status event = OutboxStatusPublished \<or> outbox_Status event = OutboxStatusDeadLetter
      then False
      else if outbox_Status event = OutboxStatusPublishing
        \<and> (case outbox_LeaseUntil event of None \<Rightarrow> False | Some leaseUntil \<Rightarrow> leaseUntil > now) then False
      else if outbox_Status event \<noteq> OutboxStatusPending \<and> outbox_Status event \<noteq> OutboxStatusPublishing then False
      else \<not> hasEarlierUnpublishedOutboxEvent events event)"

definition outbox_order :: "TransactionalOutboxEvent \<Rightarrow> TransactionalOutboxEvent \<Rightarrow> bool" where
  "outbox_order a b =
     (if outbox_AvailableAt a = outbox_AvailableAt b then outbox_CreatedAt a < outbox_CreatedAt b
      else outbox_AvailableAt a < outbox_AvailableAt b)"

definition lease_outbox :: "gotime \<Rightarrow> gotime \<Rightarrow> string \<Rightarrow> TransactionalOutboxEvent \<Rightarrow> TransactionalOutboxEvent" where
  "lease_outbox now leaseUntil leaseToken event0 =
     (let event = normalizeTransactionalOutboxEvent event0
      in event\<lparr>outbox_Status := OutboxStatusPublishing, outbox_AttemptCount := outbox_AttemptCount event + 1,
           outbox_LeaseUntil := Some leaseUntil, outbox_LeaseToken := leaseToken, outbox_UpdatedAt := now\<rparr>)"

definition ClaimDueTransactionalOutboxEvents ::
  "gotime \<Rightarrow> gotime \<Rightarrow> string \<Rightarrow> int \<Rightarrow> MemoryRepository \<Rightarrow> TransactionalOutboxEvent list \<times> MemoryRepository" where
  "ClaimDueTransactionalOutboxEvents now leaseUntil leaseToken limit r =
     (if limit \<le> 0 \<or> TrimSpace leaseToken = [] then ([], r)
      else (let candidates = sort_slice outbox_order (filter (outbox_claimable (transactionalOutboxEvents r) now)
                  (mvalues (transactionalOutboxEvents r)));
                candidates = (if int (length candidates) > limit then take (nat limit) candidates else candidates);
                claimed = map (lease_outbox now leaseUntil leaseToken) candidates
            in (claimed, r\<lparr>transactionalOutboxEvents :=
                 foldl (\<lambda>m event. mput (outbox_ID event) event m) (transactionalOutboxEvents r) claimed\<rparr>)))"

definition err_not_leased :: go_error where
  "err_not_leased = errors_New ''transactional outbox event is not leased''"

definition published_outbox :: "gotime \<Rightarrow> TransactionalOutboxEvent \<Rightarrow> TransactionalOutboxEvent" where
  "published_outbox publishedAt event =
     event\<lparr>outbox_Status := OutboxStatusPublished, outbox_PublishedAt := Some publishedAt, outbox_LeaseUntil := None,
       outbox_LeaseToken := [], outbox_LastError := [], outbox_UpdatedAt := publishedAt\<rparr>"

definition CompleteTransactionalOutboxEvent ::
  "string \<Rightarrow> string \<Rightarrow> gotime \<Rightarrow> MemoryRepository \<Rightarrow> go_error option \<times> MemoryRepository" where
  "CompleteTransactionalOutboxEvent ident leaseToken publishedAt r =
     (case map_of (transactionalOutboxEvents r) ident of
        None \<Rightarrow> (Some err_not_leased, r)
      | Some event \<Rightarrow>
          if outbox_Status event \<noteq> OutboxStatusPublishing \<or> outbox_LeaseToken event \<noteq> leaseToken then (Some err_not_leased, r)
          else (None, r\<lparr>transactionalOutboxEvents :=
            mput ident (published_outbox publishedAt event) (transactionalOutboxEvents r)\<rparr>))"

definition trimTransactionalOutboxError :: "string \<Rightarrow> string" where
  "trimTransactionalOutboxError value0 = (let value = TrimSpace value0 in if length value > 1024 then take 1024 value else value)"

definition rescheduled_outbox ::
  "gotime \<Rightarrow> string \<Rightarrow> bool \<Rightarrow> gotime \<Rightarrow> TransactionalOutboxEvent \<Rightarrow> TransactionalOutboxEvent" where
  "rescheduled_outbox nextAttemptAt lastError deadLetter updatedAt event =
     event\<lparr>outbox_Status := (if deadLetter then OutboxStatusDeadLetter else OutboxStatusPending),
       outbox_AvailableAt := nextAttemptAt, outbox_LeaseUntil := None, outbox_LeaseToken := [],
       outbox_LastError := trimTransactionalOutboxError lastError, outbox_UpdatedAt := updatedAt\<rparr>"

definition RescheduleTransactionalOutboxEvent ::
  "string \<Rightarrow> string \<Rightarrow> gotime \<Rightarrow> string \<Rightarrow> bool \<Rightarrow> gotime \<Rightarrow> MemoryRepository \<Rightarrow> go_error option \<times> MemoryRepository" where
  "RescheduleTransactionalOutboxEvent ident leaseToken nextAttemptAt lastError deadLetter updatedAt r =
     (case map_of (transactionalOutboxEvents r) ident of
        None \<Rightarrow> (Some err_not_leased, r)
      | Some event \<Rightarrow>
          if outbox_Status event \<noteq> OutboxStatusPublishing \<or> outbox_LeaseToken event \<noteq> leaseToken then (Some err_not_leased, r)
          else (None, r\<lparr>transactionalOutboxEvents :=
            mput ident (rescheduled_outbox nextAttemptAt lastError deadLetter updatedAt event) (transactionalOutboxEvents r)\<rparr>))"

definition RequeueTransactionalOutboxEvent :: "string \<Rightarrow> gotime \<Rightarrow> MemoryRepository \<Rightarrow> go_error option \<times> MemoryRepository" where
  "RequeueTransactionalOutboxEvent ident nextAttemptAt r =
     (case map_of (transactionalOutboxEvents r) ident of
        None \<Rightarrow> (Some (errors_New ''transactional outbox event not found or not dead-lettered''), r)
      | Some event \<Rightarrow>
          if outbox_Status event \<noteq> OutboxStatusDeadLetter
          then (Some (errors_New ''transactional outbox event not found or not dead-lettered''), r)
          else (None, r\<lparr>transactionalOutboxEvents := mput ident
            (event\<lparr>outbox_Status := OutboxStatusPending, outbox_AvailableAt := nextAttemptAt, outbox_AttemptCount := 0,
               outbox_LeaseUntil := None, outbox_LeaseToken := [], outbox_LastError := [], outbox_UpdatedAt := nextAttemptAt\<rparr>)
            (transactionalOutboxEvents r)\<rparr>))"

section \<open>The service\<close>

definition ErrTransactionalOutboxPublisherUnavailable :: go_error where
  "ErrTransactionalOutboxPublisherUnavailable = errors_New ''transactional outbox publisher is not configured''"

definition transactionalOutboxLease :: duration where
  "transactionalOutboxLease = 30 * Second"

definition transactionalOutboxRetryDelay :: "int \<Rightarrow> duration" where
  "transactionalOutboxRetryDelay attempt0 =
     (let attempt = (if attempt0 < 1 then 1 else attempt0);
          shift = attempt - 1;
          shift = (if shift > 8 then 8 else shift);
          delay = 5 * Second * 2 ^ nat shift
      in if delay > 15 * Minute then 15 * Minute else delay)"

text \<open>
  One event of a round. The publisher is code outside the repository: its answer for an event is an error or none.
  \<open>at\<close> is the clock when the answer is recorded; the accumulated first error is the last argument.
\<close>

definition first_err :: "go_error option \<Rightarrow> go_error option \<Rightarrow> go_error option" where
  "first_err firstErr err = (if firstErr = None then err else firstErr)"

definition publish_one ::
  "(TransactionalOutboxEvent \<Rightarrow> go_error option) \<Rightarrow> string \<Rightarrow> gotime \<Rightarrow> gotime \<Rightarrow> TransactionalOutboxEvent \<Rightarrow> MemoryRepository
     \<Rightarrow> go_error option \<Rightarrow> go_error option \<times> MemoryRepository" where
  "publish_one publisher leaseToken now at event r firstErr =
     (case publisher event of
        None \<Rightarrow>
          (case CompleteTransactionalOutboxEvent (outbox_ID event) leaseToken at r of (err, r') \<Rightarrow> (first_err firstErr err, r'))
      | Some publishErr \<Rightarrow>
          let deadLetter = (outbox_AttemptCount event \<ge> outbox_MaxAttempts event);
              nextAttemptAt = (if deadLetter then now else now + transactionalOutboxRetryDelay (outbox_AttemptCount event))
          in (case RescheduleTransactionalOutboxEvent (outbox_ID event) leaseToken nextAttemptAt (go_error_text publishErr) deadLetter at r of
              (err, r') \<Rightarrow>
                (first_err (first_err firstErr err)
                   (Some (ForeignError (''publish transactional outbox event '' @ outbox_ID event @ '': '' @ go_error_text publishErr)
                     (Some publishErr))), r')))"

fun publish_events ::
  "(TransactionalOutboxEvent \<Rightarrow> go_error option) \<Rightarrow> string \<Rightarrow> gotime \<Rightarrow> gotime list \<Rightarrow> TransactionalOutboxEvent list \<Rightarrow> MemoryRepository
     \<Rightarrow> go_error option \<Rightarrow> go_error option \<times> MemoryRepository" where
  "publish_events publisher leaseToken now clock [] r firstErr = (firstErr, r)"
| "publish_events publisher leaseToken now clock (event # events) r firstErr =
     (case publish_one publisher leaseToken now (case clock of [] \<Rightarrow> now | at # _ \<Rightarrow> at) event r firstErr of
        (err, r') \<Rightarrow> publish_events publisher leaseToken now (tl clock) events r' err)"

text \<open>
  A round: \<open>now\<close> and \<open>clock\<close> are the readings of the service's clock, \<open>random\<close> the text of \<open>randomID(12)\<close>.
\<close>

definition PublishDueTransactionalOutbox ::
  "(TransactionalOutboxEvent \<Rightarrow> go_error option) option \<Rightarrow> gotime \<Rightarrow> gotime list \<Rightarrow> string \<Rightarrow> int \<Rightarrow> MemoryRepository
     \<Rightarrow> go_error option \<times> MemoryRepository" where
  "PublishDueTransactionalOutbox outboxPublisher now clock random limit r =
     (case outboxPublisher of
        None \<Rightarrow> (Some ErrTransactionalOutboxPublisherUnavailable, r)
      | Some publisher \<Rightarrow>
          if limit \<le> 0 then (None, r)
          else (let leaseToken = ''outbox_lease_'' @ random
                in case ClaimDueTransactionalOutboxEvents now (now + transactionalOutboxLease) leaseToken limit r of
                     (events, r') \<Rightarrow> publish_events publisher leaseToken now clock events r' None))"

definition requeue_outbox_event :: "gotime \<Rightarrow> string \<Rightarrow> MemoryRepository \<Rightarrow> go_error option \<times> MemoryRepository" where
  "requeue_outbox_event now ident0 r =
     (let ident = TrimSpace ident0
      in if ident = [] then (Some (errors_New ''transactional outbox event id is required''), r)
         else RequeueTransactionalOutboxEvent ident now r)"

end
