(* ===== verification/Outbox_Order.thy ===== *)
theory Outbox_Order
  imports Outbox
begin

text \<open>
  What the outbox guarantees: the events of an aggregate reach the publisher in the order of their versions, one at a time, only the worker
  that holds the lease of an event can settle it, and every round settles what it claimed.
\<close>

section \<open>Claims\<close>

type_synonym outbox_map = "(string, TransactionalOutboxEvent) gmap"

definition outbox_done :: "TransactionalOutboxEvent \<Rightarrow> bool" where
  "outbox_done event \<longleftrightarrow> outbox_Status event = OutboxStatusPublished \<or> outbox_Status event = OutboxStatusDeadLetter"

definition same_aggregate :: "TransactionalOutboxEvent \<Rightarrow> TransactionalOutboxEvent \<Rightarrow> bool" where
  "same_aggregate a b \<longleftrightarrow> outbox_AggregateType a = outbox_AggregateType b \<and> outbox_AggregateID a = outbox_AggregateID b"

definition earlier :: "TransactionalOutboxEvent \<Rightarrow> TransactionalOutboxEvent \<Rightarrow> bool" where
  "earlier a b \<longleftrightarrow> same_aggregate a b \<and> outbox_EventVersion a < outbox_EventVersion b"

definition same_event :: "TransactionalOutboxEvent \<Rightarrow> TransactionalOutboxEvent \<Rightarrow> bool" where
  "same_event a b \<longleftrightarrow> outbox_ID a = outbox_ID b \<and> same_aggregate a b \<and> outbox_EventVersion a = outbox_EventVersion b"

lemma same_event_earlier: "same_event a a' \<Longrightarrow> same_event b b' \<Longrightarrow> earlier a' b' \<longleftrightarrow> earlier a b"
  by (simp add: same_event_def earlier_def same_aggregate_def)

lemma same_event_refl [simp]: "same_event a a"
  by (simp add: same_event_def same_aggregate_def)

lemma same_event_trans: "same_event a b \<Longrightarrow> same_event b c \<Longrightarrow> same_event a c"
  by (simp add: same_event_def same_aggregate_def)

lemma lease_outbox [simp]:
  "same_event e (lease_outbox now until token e)" "outbox_ID (lease_outbox now until token e) = outbox_ID e"
  "outbox_Status (lease_outbox now until token e) = OutboxStatusPublishing"
  "outbox_LeaseUntil (lease_outbox now until token e) = Some until" "outbox_LeaseToken (lease_outbox now until token e) = token"
  by (simp_all add: lease_outbox_def Let_def normalizeTransactionalOutboxEvent_def same_event_def same_aggregate_def)

lemma claimable_open: "outbox_claimable m now e \<Longrightarrow> \<not> outbox_done e"
  by (auto simp: outbox_claimable_def outbox_done_def split: if_splits)

lemma claimable_first:
  "outbox_claimable m now e \<Longrightarrow> map_of m k = Some a \<Longrightarrow> earlier a e \<Longrightarrow> outbox_done a"
  by (auto simp: outbox_claimable_def hasEarlierUnpublishedOutboxEvent_def list_ex_iff earlier_def same_aggregate_def outbox_done_def
      dest: map_of_Some_mvalues split: if_splits)

lemma claimable_lease_over:
  "outbox_claimable m now e \<Longrightarrow> outbox_Status e = OutboxStatusPublishing \<Longrightarrow> outbox_LeaseUntil e = Some until \<Longrightarrow> until \<le> now"
  by (auto simp: outbox_claimable_def split: if_splits)

lemma map_of_foldl_mput:
  "distinct (map f xs) \<Longrightarrow> map_of (foldl (\<lambda>m x. mput (f x) x m) m xs) = map_of m ++ map_of (map (\<lambda>x. (f x, x)) xs)"
proof (induction xs arbitrary: m)
  case (Cons x xs)
  then have "map_of (map (\<lambda>x. (f x, x)) xs) (f x) = None" by (simp add: map_of_eq_None_iff image_image)
  with Cons show ?case by (auto simp: map_add_def split: option.split)
qed simp

lemma keyed_foldl_mput: "keyed f m \<Longrightarrow> keyed f (foldl (\<lambda>m x. mput (f x) x m) m xs)"
  by (induction xs arbitrary: m) (simp_all add: keyed_mput)

lemma map_of_own: "distinct (map f xs) \<Longrightarrow> x \<in> set xs \<Longrightarrow> map_of (map (\<lambda>x. (f x, x)) xs) (f x) = Some x"
  by (rule map_of_is_SomeI) (simp_all add: comp_def)

definition outbox_ok :: "MemoryRepository \<Rightarrow> bool" where
  "outbox_ok r \<longleftrightarrow> keyed outbox_ID (transactionalOutboxEvents r)"

lemma distinct_candidates:
  assumes "keyed outbox_ID m"
  shows "distinct (map outbox_ID (sort_slice outbox_order (filter P (mvalues m))))"
proof -
  have "map outbox_ID (mvalues m) = map fst m" using assms by (auto simp: keyed_def list_all_iff mvalues_def)
  then have "distinct (map outbox_ID (mvalues m))" using assms by (simp add: keyed_def wf_gmap_def)
  then have "distinct (map outbox_ID (filter P (mvalues m)))" by (rule distinct_map_filter)
  moreover have "mset (map outbox_ID (sort_slice outbox_order xs)) = mset (map outbox_ID xs)" for xs by simp
  ultimately show ?thesis by (metis mset_eq_imp_distinct_iff)
qed

lemma claim_cases:
  assumes "outbox_ok r" "ClaimDueTransactionalOutboxEvents now until token limit r = (es, r')"
  shows "outbox_ok r'" "distinct (map outbox_ID es)"
    "\<And>e. e \<in> set es \<Longrightarrow> map_of (transactionalOutboxEvents r') (outbox_ID e) = Some e \<and>
       (\<exists>old. map_of (transactionalOutboxEvents r) (outbox_ID e) = Some old \<and> e = lease_outbox now until token old
         \<and> outbox_claimable (transactionalOutboxEvents r) now old)"
    "\<And>k. k \<notin> outbox_ID ` set es \<Longrightarrow> map_of (transactionalOutboxEvents r') k = map_of (transactionalOutboxEvents r) k"
proof -
  let ?m = "transactionalOutboxEvents r"
  let ?all = "sort_slice outbox_order (filter (outbox_claimable ?m now) (mvalues ?m))"
  have keyed: "keyed outbox_ID ?m" using assms(1) by (simp add: outbox_ok_def)
  obtain n where es: "(es = map (lease_outbox now until token) (take n ?all)
      \<and> transactionalOutboxEvents r' = foldl (\<lambda>m event. mput (outbox_ID event) event m) ?m es)"
  proof (cases "limit \<le> 0 \<or> TrimSpace token = []")
    case True
    then show thesis using that [of 0] assms(2) by (auto simp: ClaimDueTransactionalOutboxEvents_def)
  next
    case False
    define n where "n = (if int (length ?all) > limit then nat limit else length ?all)"
    have "(if int (length ?all) > limit then take (nat limit) ?all else ?all) = take n ?all" by (simp add: n_def)
    then show thesis using that [of n] False assms(2) by (auto simp: ClaimDueTransactionalOutboxEvents_def Let_def)
  qed
  have "distinct (map outbox_ID (take n ?all))" using distinct_candidates [OF keyed] by (simp only: take_map [symmetric] distinct_take)
  then show d: "distinct (map outbox_ID es)" using es by (simp add: comp_def)
  show "outbox_ok r'" using es keyed_foldl_mput [OF keyed] by (simp add: outbox_ok_def)
  have m': "map_of (transactionalOutboxEvents r') = map_of ?m ++ map_of (map (\<lambda>x. (outbox_ID x, x)) es)"
    using es map_of_foldl_mput [OF d] by simp
  show "map_of (transactionalOutboxEvents r') (outbox_ID e) = Some e \<and>
       (\<exists>old. map_of ?m (outbox_ID e) = Some old \<and> e = lease_outbox now until token old \<and> outbox_claimable ?m now old)"
    if e: "e \<in> set es" for e
  proof
    show "map_of (transactionalOutboxEvents r') (outbox_ID e) = Some e" using map_of_own [OF d e] m' by simp
    obtain old where old: "old \<in> set (take n ?all)" "e = lease_outbox now until token old" using e es by auto
    then have "old \<in> set ?all" by (meson in_set_takeD)
    then show "\<exists>old. map_of ?m (outbox_ID e) = Some old \<and> e = lease_outbox now until token old \<and> outbox_claimable ?m now old"
      using old(2) keyed_value [OF keyed] by auto
  qed
  show "map_of (transactionalOutboxEvents r') k = map_of ?m k" if "k \<notin> outbox_ID ` set es" for k
  proof -
    have "map_of (map (\<lambda>x. (outbox_ID x, x)) es) k = None" using that by (simp add: map_of_eq_None_iff image_image)
    then show ?thesis using m' by (simp add: map_add_def)
  qed
qed

section \<open>The order within an aggregate\<close>

text \<open>
  An event leaves its initial status only after every earlier event of the aggregate is published or given up. An event that was given up may be
  put back later; \<open>Q\<close> holds the identifiers of the events this has happened to.
\<close>

definition in_order :: "string set \<Rightarrow> (string \<rightharpoonup> TransactionalOutboxEvent) \<Rightarrow> bool" where
  "in_order Q f \<longleftrightarrow> (\<forall>i j a b. f i = Some a \<longrightarrow> f j = Some b \<longrightarrow> earlier a b \<longrightarrow> outbox_Status b \<noteq> OutboxStatusPending \<longrightarrow>
     outbox_done a \<or> i \<in> Q)"

lemma in_orderD:
  "in_order Q f \<Longrightarrow> f i = Some a \<Longrightarrow> f j = Some b \<Longrightarrow> earlier a b \<Longrightarrow> outbox_Status b \<noteq> OutboxStatusPending \<Longrightarrow> outbox_done a \<or> i \<in> Q"
  unfolding in_order_def by blast

lemma not_earlier_self: "same_event a b \<Longrightarrow> \<not> earlier a b"
  by (simp add: same_event_def earlier_def)

text \<open>The events after a claim, and what they were before it.\<close>

lemma claim_origin:
  assumes "outbox_ok r" "ClaimDueTransactionalOutboxEvents now until token limit r = (es, r')" "map_of (transactionalOutboxEvents r') k = Some x"
  obtains old where "map_of (transactionalOutboxEvents r) k = Some old" "same_event old x"
    "if k \<in> outbox_ID ` set es then outbox_claimable (transactionalOutboxEvents r) now old else old = x"
proof (cases "k \<in> outbox_ID ` set es")
  case True
  then obtain e where e: "e \<in> set es" "k = outbox_ID e" by auto
  with claim_cases(3) [OF assms(1,2) e(1)] assms(3) that show thesis by auto
next
  case False
  with claim_cases(4) [OF assms(1,2) False] assms(3) that show thesis by simp
qed

text \<open>Whatever has happened before, a claim takes an event only when every earlier one of its aggregate is settled, and leaves those settled.\<close>

lemma claimed_first:
  assumes "outbox_ok r" "ClaimDueTransactionalOutboxEvents now until token limit r = (es, r')" "e \<in> set es"
    "map_of (transactionalOutboxEvents r') i = Some a" "earlier a e"
  shows "outbox_done a"
proof -
  obtain a0 where a0: "map_of (transactionalOutboxEvents r) i = Some a0" "same_event a0 a"
    "if i \<in> outbox_ID ` set es then outbox_claimable (transactionalOutboxEvents r) now a0 else a0 = a"
    using claim_origin [OF assms(1,2,4)] .
  obtain old where old: "e = lease_outbox now until token old" "outbox_claimable (transactionalOutboxEvents r) now old"
    using claim_cases(3) [OF assms(1-3)] by blast
  have "earlier a0 old" using same_event_earlier [OF a0(2), of old e] old(1) assms(5) by simp
  then have "outbox_done a0" using claimable_first [OF old(2) a0(1)] by simp
  then show ?thesis using a0(3) claimable_open by (auto split: if_splits)
qed

lemma claim_in_order:
  assumes "outbox_ok r" "in_order Q (map_of (transactionalOutboxEvents r))"
    "ClaimDueTransactionalOutboxEvents now until token limit r = (es, r')"
  shows "in_order Q (map_of (transactionalOutboxEvents r'))"
  unfolding in_order_def
proof (intro allI impI)
  fix i j a b
  let ?m = "transactionalOutboxEvents r" and ?m' = "transactionalOutboxEvents r'"
  assume ab: "map_of ?m' i = Some a" "map_of ?m' j = Some b" "earlier a b" "outbox_Status b \<noteq> OutboxStatusPending"
  show "outbox_done a \<or> i \<in> Q"
  proof (cases "j \<in> outbox_ID ` set es")
    case True
    then obtain e where e: "e \<in> set es" "j = outbox_ID e" by auto
    then have "b = e" using claim_cases(3) [OF assms(1,3) e(1)] ab(2) by simp
    then show ?thesis using claimed_first [OF assms(1,3) e(1) ab(1)] ab(3) by simp
  next
    case False
    then have b: "map_of ?m j = Some b" using claim_cases(4) [OF assms(1,3)] ab(2) by simp
    obtain a0 where a0: "map_of ?m i = Some a0" "same_event a0 a" "if i \<in> outbox_ID ` set es then outbox_claimable ?m now a0 else a0 = a"
      using claim_origin [OF assms(1,3) ab(1)] .
    have "earlier a0 b" using same_event_earlier [OF a0(2) same_event_refl] ab(3) by blast
    from in_orderD [OF assms(2) a0(1) b this ab(4)] a0(3) show ?thesis using claimable_open by (auto split: if_splits)
  qed
qed

text \<open>An event that is not pending any more, or that is named in \<open>Q\<close>, may be replaced by another state of it.\<close>

lemma in_order_update:
  assumes "in_order Q f" "f i = Some old" "outbox_Status old = OutboxStatusPublishing \<or> i \<in> Q" "outbox_Status old \<noteq> OutboxStatusPending"
    "same_event old new"
  shows "in_order Q (f(i \<mapsto> new))"
  unfolding in_order_def
proof (intro allI impI)
  fix j k a b
  assume ab: "(f(i \<mapsto> new)) j = Some a" "(f(i \<mapsto> new)) k = Some b" "earlier a b" "outbox_Status b \<noteq> OutboxStatusPending"
  have open_old: "outbox_done old \<Longrightarrow> i \<in> Q" using assms(3) by (auto simp: outbox_done_def)
  have eq: "earlier old x \<longleftrightarrow> earlier new x" "earlier x old \<longleftrightarrow> earlier x new" for x
    using same_event_earlier [OF assms(5) same_event_refl] same_event_earlier [OF same_event_refl assms(5)] by simp_all
  have self: "\<not> earlier new new" by (simp add: not_earlier_self)
  show "outbox_done a \<or> j \<in> Q"
  proof (cases "j = i")
    case True
    with ab self have "f k = Some b" "earlier old b" by (auto simp: eq split: if_splits)
    with in_orderD [OF assms(1,2)] ab(4) open_old True show ?thesis by blast
  next
    case False
    then have a: "f j = Some a" using ab(1) by simp
    show ?thesis
    proof (cases "k = i")
      case True
      then have "earlier a old" using ab(2,3) by (simp add: eq)
      with in_orderD [OF assms(1) a assms(2)] assms(4) show ?thesis by blast
    next
      case False
      then show ?thesis using in_orderD [OF assms(1) a _ ab(3,4)] ab(2) by simp
    qed
  qed
qed

text \<open>
  The steps of workers, of the code that reports new events and of the operator: claims, answers of the publisher, each by any worker at any
  time, the insertion of the newest event of an aggregate, and the requeue of an event that was given up. The second component collects
  the identifiers that were requeued.
\<close>

inductive outbox_step :: "MemoryRepository \<times> string set \<Rightarrow> MemoryRepository \<times> string set \<Rightarrow> bool" where
  claim: "ClaimDueTransactionalOutboxEvents now until token limit r = (es, r') \<Longrightarrow> outbox_step (r, Q) (r', Q)"
| complete: "CompleteTransactionalOutboxEvent i token at r = (err, r') \<Longrightarrow> outbox_step (r, Q) (r', Q)"
| reschedule: "RescheduleTransactionalOutboxEvent i token next_at error dead at r = (err, r') \<Longrightarrow> outbox_step (r, Q) (r', Q)"
| requeue: "RequeueTransactionalOutboxEvent i at r = (err, r') \<Longrightarrow> outbox_step (r, Q) (r', if err = None then insert i Q else Q)"
| report: "validateMemoryOutboxInsert (transactionalOutboxEvents r) event = None \<Longrightarrow> outbox_Status event = OutboxStatusPending \<Longrightarrow>
    (\<And>b. b \<in> set (mvalues (transactionalOutboxEvents r)) \<Longrightarrow> \<not> earlier event b) \<Longrightarrow>
    outbox_step (r, Q) (r\<lparr>transactionalOutboxEvents := mput (outbox_ID event) event (transactionalOutboxEvents r)\<rparr>, Q)"

lemma published_outbox [simp]:
  "same_event e (published_outbox at e)" "outbox_Status (published_outbox at e) = OutboxStatusPublished"
  "outbox_LeaseUntil (published_outbox at e) = None" "outbox_LeaseToken (published_outbox at e) = []"
  by (simp_all add: published_outbox_def same_event_def same_aggregate_def)

lemma rescheduled_outbox [simp]:
  "same_event e (rescheduled_outbox next_at error dead at e)"
  "outbox_Status (rescheduled_outbox next_at error dead at e) = (if dead then OutboxStatusDeadLetter else OutboxStatusPending)"
  "outbox_AvailableAt (rescheduled_outbox next_at error dead at e) = next_at"
  "outbox_LeaseUntil (rescheduled_outbox next_at error dead at e) = None" "outbox_LeaseToken (rescheduled_outbox next_at error dead at e) = []"
  by (simp_all add: rescheduled_outbox_def same_event_def same_aggregate_def)

definition leased_to :: "string \<Rightarrow> string \<Rightarrow> TransactionalOutboxEvent \<Rightarrow> MemoryRepository \<Rightarrow> bool" where
  "leased_to i token event r \<longleftrightarrow> map_of (transactionalOutboxEvents r) i = Some event \<and> outbox_Status event = OutboxStatusPublishing
     \<and> outbox_LeaseToken event = token"

text \<open>An answer of the publisher replaces the event leased under the token, or it is an error and nothing changes.\<close>

definition answers ::
  "string \<Rightarrow> string \<Rightarrow> (TransactionalOutboxEvent \<Rightarrow> TransactionalOutboxEvent) \<Rightarrow> MemoryRepository \<Rightarrow> go_error option \<times> MemoryRepository \<Rightarrow> bool" where
  "answers i token g r result \<longleftrightarrow>
     (if \<exists>event. leased_to i token event r
      then result = (None, r\<lparr>transactionalOutboxEvents :=
        mput i (g (the (map_of (transactionalOutboxEvents r) i))) (transactionalOutboxEvents r)\<rparr>)
      else result = (Some err_not_leased, r))"

lemma complete_answers: "answers i token (published_outbox at) r (CompleteTransactionalOutboxEvent i token at r)"
  by (auto simp: answers_def leased_to_def CompleteTransactionalOutboxEvent_def split: option.splits)

lemma reschedule_answers:
  "answers i token (rescheduled_outbox next_at error dead at) r (RescheduleTransactionalOutboxEvent i token next_at error dead at r)"
  by (auto simp: answers_def leased_to_def RescheduleTransactionalOutboxEvent_def split: option.splits)

definition outbox_inv :: "string set \<Rightarrow> MemoryRepository \<Rightarrow> bool" where
  "outbox_inv Q r \<longleftrightarrow> outbox_ok r \<and> in_order Q (map_of (transactionalOutboxEvents r))"

lemma put_inv:
  assumes "outbox_inv Q r" "map_of (transactionalOutboxEvents r) i = Some old" "outbox_Status old = OutboxStatusPublishing \<or> i \<in> Q"
    "outbox_Status old \<noteq> OutboxStatusPending" "same_event old new"
  shows "outbox_inv Q (r\<lparr>transactionalOutboxEvents := mput i new (transactionalOutboxEvents r)\<rparr>)"
proof -
  have k: "keyed outbox_ID (transactionalOutboxEvents r)" and o: "in_order Q (map_of (transactionalOutboxEvents r))"
    using assms(1) by (simp_all add: outbox_inv_def outbox_ok_def)
  have "outbox_ID new = i" using keyed_lookup [OF k assms(2)] assms(5) by (simp add: same_event_def)
  then have "keyed outbox_ID (mput i new (transactionalOutboxEvents r))" using k by auto
  moreover have "in_order Q (map_of (mput i new (transactionalOutboxEvents r)))"
    unfolding map_of_mput by (rule in_order_update [OF o assms(2-5)])
  ultimately show ?thesis by (simp add: outbox_inv_def outbox_ok_def)
qed

lemma answer_inv:
  assumes "outbox_inv Q r" "answers i token g r (err, r')" "\<And>e. same_event e (g e)"
  shows "outbox_inv Q r'"
proof (cases "\<exists>event. leased_to i token event r")
  case True
  then obtain old where old: "map_of (transactionalOutboxEvents r) i = Some old" "outbox_Status old = OutboxStatusPublishing"
    by (auto simp: leased_to_def)
  then have "r' = r\<lparr>transactionalOutboxEvents := mput i (g old) (transactionalOutboxEvents r)\<rparr>" using True assms(2) by (simp add: answers_def)
  then show ?thesis using put_inv [OF assms(1) old(1) _ _ assms(3)] old(2) by simp
next
  case False
  then show ?thesis using assms(1,2) by (simp add: answers_def)
qed

lemma outbox_inv_mono: "outbox_inv Q r \<Longrightarrow> Q \<subseteq> Q' \<Longrightarrow> outbox_inv Q' r"
  unfolding outbox_inv_def in_order_def by blast

lemma requeue_inv:
  assumes "outbox_inv Q r" "RequeueTransactionalOutboxEvent i at r = (err, r')"
  shows "outbox_inv (if err = None then insert i Q else Q) r'"
proof (cases err)
  case (Some e)
  then show ?thesis using assms by (auto simp: RequeueTransactionalOutboxEvent_def split: option.splits if_splits)
next
  case None
  let ?new = "\<lambda>event. event\<lparr>outbox_Status := OutboxStatusPending, outbox_AvailableAt := at, outbox_AttemptCount := 0,
     outbox_LeaseUntil := None, outbox_LeaseToken := [], outbox_LastError := [], outbox_UpdatedAt := at\<rparr>"
  obtain old where old: "map_of (transactionalOutboxEvents r) i = Some old" "outbox_Status old = OutboxStatusDeadLetter"
    "r' = r\<lparr>transactionalOutboxEvents := mput i (?new old) (transactionalOutboxEvents r)\<rparr>"
    using assms(2) None by (auto simp: RequeueTransactionalOutboxEvent_def split: option.splits if_splits)
  have same: "same_event old (?new old)" by (simp add: same_event_def same_aggregate_def)
  have "outbox_inv (insert i Q) r" using outbox_inv_mono [OF assms(1)] by blast
  from put_inv [OF this old(1) _ _ same] show ?thesis using None old(2,3) by simp
qed

lemma report_inv:
  assumes "outbox_inv Q r" "outbox_Status event = OutboxStatusPending"
    "\<And>b. b \<in> set (mvalues (transactionalOutboxEvents r)) \<Longrightarrow> \<not> earlier event b"
  shows "outbox_inv Q (r\<lparr>transactionalOutboxEvents := mput (outbox_ID event) event (transactionalOutboxEvents r)\<rparr>)"
proof -
  have k: "keyed outbox_ID (mput (outbox_ID event) event (transactionalOutboxEvents r))"
    using assms(1) by (intro keyed_mput) (simp_all add: outbox_inv_def outbox_ok_def)
  have "in_order Q ((map_of (transactionalOutboxEvents r))(outbox_ID event \<mapsto> event))"
    unfolding in_order_def
  proof (intro allI impI)
    fix i j a b
    assume ab: "((map_of (transactionalOutboxEvents r))(outbox_ID event \<mapsto> event)) i = Some a"
      "((map_of (transactionalOutboxEvents r))(outbox_ID event \<mapsto> event)) j = Some b" "earlier a b" "outbox_Status b \<noteq> OutboxStatusPending"
    have b: "map_of (transactionalOutboxEvents r) j = Some b" using ab(2,4) assms(2) by (auto split: if_splits)
    have "a \<noteq> event" using assms(3) [OF map_of_Some_mvalues [OF b]] ab(3) by auto
    then have "map_of (transactionalOutboxEvents r) i = Some a" using ab(1) by (auto split: if_splits)
    from in_orderD [OF _ this b ab(3,4)] assms(1) show "outbox_done a \<or> i \<in> Q" by (simp add: outbox_inv_def)
  qed
  with k show ?thesis by (simp add: outbox_inv_def outbox_ok_def)
qed

lemma outbox_step_inv: "outbox_step p p' \<Longrightarrow> outbox_inv (snd p) (fst p) \<Longrightarrow> outbox_inv (snd p') (fst p')"
proof (induction rule: outbox_step.induct)
  case (claim now until token limit r es r' Q)
  then show ?case using claim_cases(1) claim_in_order unfolding outbox_inv_def by auto
next
  case (complete i token at r err r' Q)
  then show ?case using answer_inv [of Q r i token "published_outbox at" err r'] complete_answers [of i token at r] by simp
next
  case (reschedule i token next_at error dead at r err r' Q)
  then show ?case using answer_inv [of Q r i token "rescheduled_outbox next_at error dead at" err r']
      reschedule_answers [of i token next_at error dead at r] by simp
next
  case (requeue i at r err r' Q)
  then show ?case using requeue_inv by simp
next
  case (report r event Q)
  then show ?case using report_inv [of Q r event] by simp
qed

lemma outbox_run_inv: "outbox_step\<^sup>*\<^sup>* p p' \<Longrightarrow> outbox_inv (snd p) (fst p) \<Longrightarrow> outbox_inv (snd p') (fst p')"
  by (induction rule: rtranclp_induct) (auto dest: outbox_step_inv)

text \<open>
  C25. Order of publication: along any interleaving of claims and answers of any workers, of the report of new events and of the requeue of
  events that were given up, a claim hands out an event only when every earlier event of its aggregate is published or given up. No other
  version of the aggregate is then being published, with one exception: when the event handed out is one that was given up and then requeued, a
  later version may be. Until the lease ends no claim hands the event out again, and an answer under any other token is refused and changes
  nothing.
\<close>

theorem outbox_ordered:
  assumes "outbox_inv {} r0" "outbox_step\<^sup>*\<^sup>* (r0, {}) (r, Q)"
    and "ClaimDueTransactionalOutboxEvents now until token limit r = (es, r')" "e \<in> set es"
  shows "leased_to (outbox_ID e) token e r'
    \<and> (\<forall>a \<in> set (mvalues (transactionalOutboxEvents r')). earlier a e \<longrightarrow> outbox_done a)
    \<and> (\<forall>b \<in> set (mvalues (transactionalOutboxEvents r')). same_aggregate b e \<longrightarrow> outbox_Status b = OutboxStatusPublishing
        \<longrightarrow> outbox_EventVersion b = outbox_EventVersion e \<or> (earlier e b \<and> outbox_ID e \<in> Q))
    \<and> (\<forall>now' until' token' limit'. now' < until \<longrightarrow>
        outbox_ID e \<notin> outbox_ID ` set (fst (ClaimDueTransactionalOutboxEvents now' until' token' limit' r')))
    \<and> (\<forall>token' at. token' \<noteq> token \<longrightarrow> CompleteTransactionalOutboxEvent (outbox_ID e) token' at r' = (Some err_not_leased, r'))
    \<and> (\<forall>token' next_at error dead at. token' \<noteq> token \<longrightarrow>
        RescheduleTransactionalOutboxEvent (outbox_ID e) token' next_at error dead at r' = (Some err_not_leased, r'))"
proof -
  let ?m = "transactionalOutboxEvents r'"
  have inv: "outbox_inv Q r" using outbox_run_inv [OF assms(2)] assms(1) by simp
  then have ok: "outbox_ok r" by (simp add: outbox_inv_def)
  note cs = claim_cases [OF ok assms(3)]
  have inv': "outbox_inv Q r'" using outbox_step_inv [OF outbox_step.claim [OF assms(3), of Q]] inv by simp
  then have k: "keyed outbox_ID ?m" and o: "in_order Q (map_of ?m)" by (simp_all add: outbox_inv_def outbox_ok_def)
  obtain old where old: "map_of ?m (outbox_ID e) = Some e" "e = lease_outbox now until token old" using cs(3) [OF assms(4)] by blast
  have e: "outbox_Status e = OutboxStatusPublishing" "outbox_LeaseToken e = token" "outbox_LeaseUntil e = Some until"
    unfolding old(2) by simp_all
  have leased: "leased_to (outbox_ID e) token e r'" using old(1) e by (simp add: leased_to_def)
  moreover have earlier_done: "outbox_done a" if "a \<in> set (mvalues ?m)" "earlier a e" for a
    using claimed_first [OF ok assms(3,4) keyed_value [OF k that(1)] that(2)] .
  moreover have "outbox_EventVersion b = outbox_EventVersion e \<or> (earlier e b \<and> outbox_ID e \<in> Q)"
    if b: "b \<in> set (mvalues ?m)" "same_aggregate b e" "outbox_Status b = OutboxStatusPublishing" for b
  proof -
    have "\<not> outbox_done b" "\<not> outbox_done e" using b(3) e(1) by (auto simp: outbox_done_def)
    then have "\<not> earlier b e" "earlier e b \<Longrightarrow> outbox_ID e \<in> Q"
      using earlier_done [OF b(1)] in_orderD [OF o old(1) keyed_value [OF k b(1)]] b(3) by auto
    moreover have "earlier b e \<or> outbox_EventVersion b = outbox_EventVersion e \<or> earlier e b"
      using b(2) by (auto simp: earlier_def same_aggregate_def)
    ultimately show ?thesis by blast
  qed
  moreover have "outbox_ID e \<notin> outbox_ID ` set (fst (ClaimDueTransactionalOutboxEvents now' until' token' limit' r'))"
    if "now' < until" for now' until' token' limit'
  proof
    obtain es' r2 where c: "ClaimDueTransactionalOutboxEvents now' until' token' limit' r' = (es', r2)" by force
    assume "outbox_ID e \<in> outbox_ID ` set (fst (ClaimDueTransactionalOutboxEvents now' until' token' limit' r'))"
    then obtain e' where e': "e' \<in> set es'" "outbox_ID e' = outbox_ID e" unfolding c by auto
    have "outbox_ok r'" using inv' by (simp add: outbox_inv_def)
    from claim_cases(3) [OF this c e'(1)] have "outbox_claimable ?m now' e" using old(1) e'(2) by auto
    from claimable_lease_over [OF this e(1,3)] that show False by simp
  qed
  moreover have "CompleteTransactionalOutboxEvent (outbox_ID e) token' at r' = (Some err_not_leased, r')" if "token' \<noteq> token" for token' at
    using that leased by (simp add: CompleteTransactionalOutboxEvent_def leased_to_def)
  moreover have "RescheduleTransactionalOutboxEvent (outbox_ID e) token' next_at error dead at r' = (Some err_not_leased, r')"
    if "token' \<noteq> token" for token' next_at error dead at
    using that leased by (simp add: RescheduleTransactionalOutboxEvent_def leased_to_def)
  ultimately show ?thesis by blast
qed

definition demo_event :: "string \<Rightarrow> int \<Rightarrow> TransactionalOutboxEvent" where
  "demo_event i version = zero_TransactionalOutboxEvent\<lparr>outbox_ID := i, outbox_AggregateType := ''ai_job'', outbox_AggregateID := ''job_1'',
     outbox_EventVersion := version, outbox_Status := OutboxStatusPending, outbox_AvailableAt := 1\<rparr>"

definition demo_outbox_repository :: MemoryRepository where
  "demo_outbox_repository =
     NewMemoryRepository\<lparr>transactionalOutboxEvents := [(''e2'', demo_event ''e2'' 2), (''e1'', demo_event ''e1'' 1)]\<rparr>"

lemma demo_outbox_inv: "outbox_inv {} demo_outbox_repository"
  by (auto simp: outbox_inv_def outbox_ok_def in_order_def demo_outbox_repository_def demo_event_def keyed_def wf_gmap_def split: if_splits)

lemma demo_claim: "fst (ClaimDueTransactionalOutboxEvents 5 9 ''w'' 10 demo_outbox_repository)
    = [lease_outbox 5 9 ''w'' (demo_event ''e1'' 1)]"
  by code_simp

text \<open>
  The first event was given up, the second one is being published when the first is requeued: the next claim hands out the first one, so both are
  being published at once.
\<close>

definition demo_given_up :: MemoryRepository where
  "demo_given_up = NewMemoryRepository\<lparr>transactionalOutboxEvents := [(''e2'', demo_event ''e2'' 2),
     (''e1'', (demo_event ''e1'' 1)\<lparr>outbox_Status := OutboxStatusDeadLetter\<rparr>)]\<rparr>"

definition demo_requeued :: MemoryRepository where
  "demo_requeued = snd (RequeueTransactionalOutboxEvent ''e1'' 6 (snd (ClaimDueTransactionalOutboxEvents 5 90 ''w'' 10 demo_given_up)))"

lemma demo_given_up_inv: "outbox_inv {} demo_given_up"
  by (auto simp: outbox_inv_def outbox_ok_def in_order_def demo_given_up_def demo_event_def keyed_def wf_gmap_def earlier_def outbox_done_def
      split: if_splits)

lemma demo_requeued_run: "outbox_step\<^sup>*\<^sup>* (demo_given_up, {}) (demo_requeued, {''e1''})"
proof -
  let ?r = "snd (ClaimDueTransactionalOutboxEvents 5 90 ''w'' 10 demo_given_up)"
  have "outbox_step (demo_given_up, {}) (?r, {})" by (rule outbox_step.claim [OF prod.collapse [symmetric]])
  moreover have "fst (RequeueTransactionalOutboxEvent ''e1'' 6 ?r) = None" by code_simp
  then have "RequeueTransactionalOutboxEvent ''e1'' 6 ?r = (None, demo_requeued)" unfolding demo_requeued_def by (metis prod.collapse)
  from outbox_step.requeue [OF this, of "{}"] have "outbox_step (?r, {}) (demo_requeued, {''e1''})" by simp
  ultimately show ?thesis by (meson rtranclp.rtrancl_refl rtranclp.rtrancl_into_rtrancl)
qed

theorem outbox_ordered_witness:
  "\<exists>e r'. ClaimDueTransactionalOutboxEvents 7 20 ''v'' 10 demo_requeued = ([e], r') \<and> outbox_ID e = ''e1''
    \<and> map_option outbox_Status (map_of (transactionalOutboxEvents r') ''e2'') = Some OutboxStatusPublishing
    \<and> CompleteTransactionalOutboxEvent ''e1'' ''w'' 8 r' = (Some err_not_leased, r')"
proof -
  obtain es r' where c: "ClaimDueTransactionalOutboxEvents 7 20 ''v'' 10 demo_requeued = (es, r')" by force
  have "map outbox_ID (fst (ClaimDueTransactionalOutboxEvents 7 20 ''v'' 10 demo_requeued)) = [''e1'']"
    "map_option outbox_Status (map_of (transactionalOutboxEvents (snd (ClaimDueTransactionalOutboxEvents 7 20 ''v'' 10 demo_requeued))) ''e2'')
      = Some OutboxStatusPublishing" by code_simp+
  then have ids: "map outbox_ID es = [''e1'']" and other: "map_option outbox_Status (map_of (transactionalOutboxEvents r') ''e2'')
      = Some OutboxStatusPublishing" unfolding c by simp_all
  from ids obtain e where e: "es = [e]" "outbox_ID e = ''e1''" by (auto simp: map_eq_Cons_conv)
  then have "e \<in> set es" by simp
  from outbox_ordered [OF demo_given_up_inv demo_requeued_run c this] c e other show ?thesis by simp
qed

section \<open>A round of publication\<close>

lemma retry_delay_bounds:
  "5 * Second \<le> transactionalOutboxRetryDelay attempt" "transactionalOutboxRetryDelay attempt \<le> 15 * Minute"
proof -
  have "(1::int) \<le> 2 ^ n" for n :: nat by simp
  then show "5 * Second \<le> transactionalOutboxRetryDelay attempt" "transactionalOutboxRetryDelay attempt \<le> 15 * Minute"
    by (auto simp: transactionalOutboxRetryDelay_def Let_def)
qed

definition settled_as ::
  "(TransactionalOutboxEvent \<Rightarrow> go_error option) \<Rightarrow> gotime \<Rightarrow> TransactionalOutboxEvent \<Rightarrow> TransactionalOutboxEvent \<Rightarrow> bool" where
  "settled_as publisher now e new \<longleftrightarrow> same_event e new \<and> outbox_LeaseUntil new = None \<and> outbox_LeaseToken new = []
     \<and> (if publisher e = None then outbox_Status new = OutboxStatusPublished
        else if outbox_MaxAttempts e \<le> outbox_AttemptCount e then outbox_Status new = OutboxStatusDeadLetter
        else outbox_Status new = OutboxStatusPending \<and> now + 5 * Second \<le> outbox_AvailableAt new
          \<and> outbox_AvailableAt new \<le> now + 15 * Minute)"

lemma publish_one_settles:
  assumes "leased_to (outbox_ID e) token e r" "publish_one publisher token now at e r err0 = (err, r')"
  shows "\<exists>new. r' = r\<lparr>transactionalOutboxEvents := mput (outbox_ID e) new (transactionalOutboxEvents r)\<rparr> \<and> settled_as publisher now e new"
    and "err = None \<longleftrightarrow> err0 = None \<and> publisher e = None"
proof -
  have e: "map_of (transactionalOutboxEvents r) (outbox_ID e) = Some e" "\<exists>event. leased_to (outbox_ID e) token event r"
    using assms(1) by (auto simp: leased_to_def)
  have "(\<exists>new. r' = r\<lparr>transactionalOutboxEvents := mput (outbox_ID e) new (transactionalOutboxEvents r)\<rparr> \<and> settled_as publisher now e new)
    \<and> (err = None \<longleftrightarrow> err0 = None \<and> publisher e = None)"
  proof (cases "publisher e")
    case None
    have "CompleteTransactionalOutboxEvent (outbox_ID e) token at r
        = (None, r\<lparr>transactionalOutboxEvents := mput (outbox_ID e) (published_outbox at e) (transactionalOutboxEvents r)\<rparr>)"
      using complete_answers [of "outbox_ID e" token at r] e by (simp add: answers_def)
    then have "r' = r\<lparr>transactionalOutboxEvents := mput (outbox_ID e) (published_outbox at e) (transactionalOutboxEvents r)\<rparr>" "err = err0"
      using assms(2) None by (auto simp: publish_one_def first_err_def)
    moreover have "settled_as publisher now e (published_outbox at e)" using None by (simp add: settled_as_def)
    ultimately show ?thesis using None by blast
  next
    case (Some publishErr)
    let ?dead = "outbox_MaxAttempts e \<le> outbox_AttemptCount e"
    let ?at = "if ?dead then now else now + transactionalOutboxRetryDelay (outbox_AttemptCount e)"
    let ?new = "rescheduled_outbox ?at (go_error_text publishErr) ?dead at e"
    have "RescheduleTransactionalOutboxEvent (outbox_ID e) token ?at (go_error_text publishErr) ?dead at r
        = (None, r\<lparr>transactionalOutboxEvents := mput (outbox_ID e) ?new (transactionalOutboxEvents r)\<rparr>)"
      using reschedule_answers [of "outbox_ID e" token ?at "go_error_text publishErr" ?dead at r] e by (simp add: answers_def)
    then have "r' = r\<lparr>transactionalOutboxEvents := mput (outbox_ID e) ?new (transactionalOutboxEvents r)\<rparr>" "err \<noteq> None"
      using assms(2) Some by (auto simp: publish_one_def first_err_def Let_def split: if_splits)
    moreover have "settled_as publisher now e ?new"
      using Some retry_delay_bounds [of "outbox_AttemptCount e"] by (simp add: settled_as_def)
    ultimately show ?thesis using Some by (intro conjI exI [of _ ?new]) simp_all
  qed
  then show "\<exists>new. r' = r\<lparr>transactionalOutboxEvents := mput (outbox_ID e) new (transactionalOutboxEvents r)\<rparr> \<and> settled_as publisher now e new"
    and "err = None \<longleftrightarrow> err0 = None \<and> publisher e = None" by simp_all
qed

lemma publish_events_settle:
  assumes "publish_events publisher token now clock es r err0 = (err, r')" "distinct (map outbox_ID es)"
    and "\<And>e. e \<in> set es \<Longrightarrow> leased_to (outbox_ID e) token e r"
  shows "(\<forall>e \<in> set es. \<exists>new. map_of (transactionalOutboxEvents r') (outbox_ID e) = Some new \<and> settled_as publisher now e new)
    \<and> (\<forall>k. k \<notin> outbox_ID ` set es \<longrightarrow> map_of (transactionalOutboxEvents r') k = map_of (transactionalOutboxEvents r) k)
    \<and> (err = None \<longleftrightarrow> err0 = None \<and> (\<forall>e \<in> set es. publisher e = None))"
  using assms
proof (induction es arbitrary: clock r err0)
  case (Cons e es)
  obtain err1 r1 where one: "publish_one publisher token now (case clock of [] \<Rightarrow> now | at # _ \<Rightarrow> at) e r err0 = (err1, r1)" by force
  then have rest: "publish_events publisher token now (tl clock) es r1 err1 = (err, r')" using Cons.prems(1) by simp
  obtain new where new: "r1 = r\<lparr>transactionalOutboxEvents := mput (outbox_ID e) new (transactionalOutboxEvents r)\<rparr>" "settled_as publisher now e new"
    and err1: "err1 = None \<longleftrightarrow> err0 = None \<and> publisher e = None"
    using publish_one_settles [OF _ one] Cons.prems(3) by auto
  have "leased_to (outbox_ID e') token e' r1" if "e' \<in> set es" for e'
    using that Cons.prems(2) Cons.prems(3) [of e'] new(1) by (auto simp: leased_to_def image_iff)
  note ih = Cons.IH [OF rest _ this]
  have d: "distinct (map outbox_ID es)" "outbox_ID e \<notin> outbox_ID ` set es" using Cons.prems(2) by simp_all
  have "map_of (transactionalOutboxEvents r') (outbox_ID e) = Some new" using ih [OF d(1)] d(2) new(1) by simp
  then show ?case using ih [OF d(1)] new err1 by auto
qed simp

text \<open>
  A round of publication settles exactly what it claims: an event the publisher takes is published; one it refuses waits between five seconds
  and fifteen minutes for its next attempt, or is given up once it has had its attempts; nothing stays leased to the round, no other event
  changes, and the round reports an error exactly if the publisher refused something.
\<close>

lemma outbox_round_settles:
  assumes "outbox_ok r" "ClaimDueTransactionalOutboxEvents now (now + transactionalOutboxLease) (''outbox_lease_'' @ random) limit r = (es, claimed)"
    and "PublishDueTransactionalOutbox (Some publisher) now clock random limit r = (err, r')"
  shows "(\<forall>e \<in> set es. \<exists>new. map_of (transactionalOutboxEvents r') (outbox_ID e) = Some new \<and> settled_as publisher now e new)
    \<and> (\<forall>k. k \<notin> outbox_ID ` set es \<longrightarrow> map_of (transactionalOutboxEvents r') k = map_of (transactionalOutboxEvents r) k)
    \<and> (err = None \<longleftrightarrow> (\<forall>e \<in> set es. publisher e = None))"
proof (cases "limit \<le> 0")
  case True
  then show ?thesis using assms(2,3) by (auto simp: PublishDueTransactionalOutbox_def ClaimDueTransactionalOutboxEvents_def)
next
  case False
  then have p: "publish_events publisher (''outbox_lease_'' @ random) now clock es claimed None = (err, r')"
    using assms(2,3) by (simp add: PublishDueTransactionalOutbox_def Let_def)
  note cs = claim_cases [OF assms(1,2)]
  have "leased_to (outbox_ID e) (''outbox_lease_'' @ random) e claimed" if "e \<in> set es" for e
    using cs(3) [OF that] by (auto simp: leased_to_def)
  from publish_events_settle [OF p cs(2) this] cs(4) show ?thesis by auto
qed

lemma outbox_round_settles_witness:
  "\<exists>new. map_of (transactionalOutboxEvents (snd (PublishDueTransactionalOutbox (Some (\<lambda>e. None)) 5 [] ''x'' 10 demo_outbox_repository))) ''e1''
    = Some new \<and> outbox_Status new = OutboxStatusPublished"
proof -
  obtain es claimed where c: "ClaimDueTransactionalOutboxEvents 5 (5 + transactionalOutboxLease) (''outbox_lease_'' @ ''x'') 10 demo_outbox_repository
      = (es, claimed)" by force
  obtain err r' where p: "PublishDueTransactionalOutbox (Some (\<lambda>e. None)) 5 [] ''x'' 10 demo_outbox_repository = (err, r')" by force
  have "fst (ClaimDueTransactionalOutboxEvents 5 (5 + transactionalOutboxLease) (''outbox_lease_'' @ ''x'') 10 demo_outbox_repository)
      = [lease_outbox 5 (5 + transactionalOutboxLease) (''outbox_lease_'' @ ''x'') (demo_event ''e1'' 1)]" by code_simp
  then have "es = [lease_outbox 5 (5 + transactionalOutboxLease) (''outbox_lease_'' @ ''x'') (demo_event ''e1'' 1)]" using c by simp
  moreover have "outbox_ok demo_outbox_repository" using demo_outbox_inv by (simp add: outbox_inv_def)
  ultimately show ?thesis using outbox_round_settles [OF _ c p] p by (auto simp: settled_as_def demo_event_def)
qed

end
