(* ===== verification/Go_Path.thy ===== *)
theory Go_Path
  imports Go_Strings
begin

text \<open>
  Slash-separated paths of the Go standard library: \<open>path.Clean\<close>, which resolves \<open>.\<close>, \<open>..\<close> and repeated slashes
  without looking at the file system, and \<open>filepath.Join\<close> on Unix.
\<close>

fun split_slash :: "string \<Rightarrow> string list" where
  "split_slash [] = [[]]"
| "split_slash (c # cs) =
     (if c = CHR ''/'' then [] # split_slash cs
      else (case split_slash cs of [] \<Rightarrow> [[c]] | part # parts \<Rightarrow> (c # part) # parts))"

text \<open>The parts kept so far, the last first; \<open>..\<close> removes the last one, and is kept only where nothing precedes it.\<close>

fun clean_part :: "bool \<Rightarrow> string list \<Rightarrow> string \<Rightarrow> string list" where
  "clean_part rooted kept part =
     (if part = [] \<or> part = ''.'' then kept
      else if part = ''..'' then
        (case kept of [] \<Rightarrow> if rooted then [] else [''..'']
         | upper # rest \<Rightarrow> if upper = ''..'' then ''..'' # kept else rest)
      else part # kept)"

definition clean_parts :: "string \<Rightarrow> string list" where
  "clean_parts p = rev (foldl (clean_part (HasPrefix p ''/'')) [] (split_slash p))"

definition path_Clean :: "string \<Rightarrow> string" where
  "path_Clean p =
     (if HasPrefix p ''/'' then ''/'' @ strings_Join (clean_parts p) ''/''
      else if clean_parts p = [] then ''.'' else strings_Join (clean_parts p) ''/'')"

definition filepath_Join :: "string \<Rightarrow> string \<Rightarrow> string" where
  "filepath_Join a b = (if a \<noteq> [] then path_Clean (a @ ''/'' @ b) else if b \<noteq> [] then path_Clean b else [])"

section \<open>Splitting and joining\<close>

definition proper_part :: "string \<Rightarrow> bool" where
  "proper_part part \<longleftrightarrow> part \<noteq> [] \<and> part \<noteq> ''.'' \<and> part \<noteq> ''..'' \<and> CHR ''/'' \<notin> set part"

lemma split_slash_not_Nil [simp]: "split_slash p \<noteq> []"
  by (induction p) (auto split: list.splits)

lemma split_slash_no_slash: "part \<in> set (split_slash p) \<Longrightarrow> CHR ''/'' \<notin> set part"
proof (induction p arbitrary: part)
  case (Cons c cs)
  then show ?case by (cases "split_slash cs") (auto split: if_splits)
qed simp

lemma join_Cons: "xs \<noteq> [] \<Longrightarrow> strings_Join (x # xs) sep = x @ sep @ strings_Join xs sep"
  by (cases xs) simp_all

lemma join_append: "xs \<noteq> [] \<Longrightarrow> ys \<noteq> [] \<Longrightarrow> strings_Join (xs @ ys) sep = strings_Join xs sep @ sep @ strings_Join ys sep"
proof (induction xs)
  case (Cons x xs)
  then show ?case by (cases "xs = []") (simp_all add: join_Cons)
qed simp

lemma split_slash_part: "CHR ''/'' \<notin> set part \<Longrightarrow> split_slash part = [part]"
  by (induction part) auto

lemma split_slash_append: "split_slash (a @ ''/'' @ b) = split_slash a @ split_slash b"
  by (induction a) (auto split: list.splits)

lemma split_join: "parts \<noteq> [] \<Longrightarrow> \<forall>part \<in> set parts. CHR ''/'' \<notin> set part \<Longrightarrow> split_slash (strings_Join parts ''/'') = parts"
proof (induction parts)
  case (Cons part parts)
  then show ?case
    by (cases parts) (simp_all add: split_slash_part split_slash_append [of part, simplified])
qed simp

lemma HasPrefix_append: "HasPrefix (p @ s) p"
  by (induction p) auto

lemma HasPrefix_iff: "HasPrefix s p \<longleftrightarrow> (\<exists>t. s = p @ t)"
  by (induction s p rule: HasPrefix.induct) auto

section \<open>Clean paths\<close>

text \<open>In the parts of a clean path only leading \<open>..\<close> occur, and in those of a rooted one none.\<close>

definition kept_ok :: "bool \<Rightarrow> string list \<Rightarrow> bool" where
  "kept_ok rooted kept \<longleftrightarrow> (\<exists>proper ups. kept = proper @ ups \<and> (\<forall>part \<in> set proper. proper_part part)
     \<and> (\<forall>up \<in> set ups. up = ''..'') \<and> (rooted \<longrightarrow> ups = []))"

lemma kept_ok_part:
  assumes "kept_ok rooted kept" "CHR ''/'' \<notin> set part"
  shows "kept_ok rooted (clean_part rooted kept part)"
proof -
  obtain proper ups where k: "kept = proper @ ups" "\<forall>part \<in> set proper. proper_part part" "\<forall>up \<in> set ups. up = ''..''"
    "rooted \<longrightarrow> ups = []" using assms(1) by (auto simp: kept_ok_def)
  consider "part = [] \<or> part = ''.''" | "part = ''..''" "proper = []" | p ps where "part = ''..''" "proper = p # ps"
    | "part \<notin> {[], ''.'', ''..''}" by (cases proper) auto
  then show ?thesis
  proof cases
    case 1
    then show ?thesis using assms(1) by auto
  next
    case 2
    then have "clean_part rooted kept part = [] @ (if rooted then [] else ''..'' # ups)" using k by (cases ups) auto
    then show ?thesis using k(3) unfolding kept_ok_def
      by (intro exI [of _ "[]"] exI [of _ "if rooted then [] else ''..'' # ups"]) (simp split: if_splits)
  next
    case 3
    then have "clean_part rooted kept part = ps @ ups" using k by (auto simp: proper_part_def)
    then show ?thesis using 3 k unfolding kept_ok_def by (intro exI [of _ ps] exI [of _ ups]) auto
  next
    case 4
    then have "clean_part rooted kept part = (part # proper) @ ups" using k by simp
    moreover have "proper_part part" using 4 assms(2) by (simp add: proper_part_def)
    ultimately show ?thesis using k unfolding kept_ok_def by (intro exI [of _ "part # proper"] exI [of _ ups]) auto
  qed
qed

lemma kept_ok_foldl:
  "\<forall>part \<in> set parts. CHR ''/'' \<notin> set part \<Longrightarrow> kept_ok rooted kept \<Longrightarrow> kept_ok rooted (foldl (clean_part rooted) kept parts)"
proof (induction parts arbitrary: kept)
  case (Cons part parts)
  then show ?case using kept_ok_part [of rooted kept part] by simp
qed simp

lemma clean_parts_ok:
  "\<exists>ups proper. clean_parts p = ups @ proper \<and> (\<forall>part \<in> set proper. proper_part part)
    \<and> (\<forall>up \<in> set ups. up = ''..'') \<and> (HasPrefix p ''/'' \<longrightarrow> ups = [])"
proof -
  have "kept_ok (HasPrefix p ''/'') []" unfolding kept_ok_def by (intro exI [of _ "[]"]) simp
  then have "kept_ok (HasPrefix p ''/'') (rev (clean_parts p))"
    unfolding clean_parts_def rev_rev_ident by (intro kept_ok_foldl) (auto dest: split_slash_no_slash)
  then obtain proper ups where "rev (clean_parts p) = proper @ ups" "\<forall>part \<in> set proper. proper_part part"
    "\<forall>up \<in> set ups. up = ''..''" "HasPrefix p ''/'' \<longrightarrow> ups = []" by (auto simp: kept_ok_def)
  then have "clean_parts p = rev ups @ rev proper" "\<forall>part \<in> set (rev proper). proper_part part"
    "\<forall>up \<in> set (rev ups). up = ''..''" "HasPrefix p ''/'' \<longrightarrow> rev ups = []" by (metis rev_append rev_rev_ident, auto)
  then show ?thesis by blast
qed

lemma clean_proper: "\<forall>part \<in> set parts. proper_part part \<Longrightarrow> foldl (clean_part rooted) kept parts = rev parts @ kept"
  by (induction parts arbitrary: kept) (auto simp: proper_part_def)

text \<open>A clean relative path that does not start with \<open>..\<close> consists of proper parts.\<close>

lemma clean_relative_parts:
  assumes "path_Clean p = p" "\<not> HasPrefix p ''/''" "p \<noteq> ''.''" "p \<noteq> ''..''" "\<not> HasPrefix p ''../''"
  shows "split_slash p \<noteq> []" "\<forall>part \<in> set (split_slash p). proper_part part"
proof -
  have nonempty: "clean_parts p \<noteq> []" using assms by (auto simp: path_Clean_def)
  then have p: "p = strings_Join (clean_parts p) ''/''" using assms by (simp add: path_Clean_def)
  obtain ups proper where u: "clean_parts p = ups @ proper" "\<forall>part \<in> set proper. proper_part part"
    "\<forall>up \<in> set ups. up = ''..''" using clean_parts_ok [of p] by blast
  have "ups = []"
  proof (rule ccontr)
    assume "ups \<noteq> []"
    then obtain rest where rest: "clean_parts p = ''..'' # rest" using u by (cases ups) auto
    show False
    proof (cases "rest = []")
      case True
      then show ?thesis using p rest assms(4) by simp
    next
      case False
      then have "p = ''../'' @ strings_Join rest ''/''" using p rest by (simp add: join_Cons)
      then show ?thesis using assms(5) by (metis HasPrefix_append)
    qed
  qed
  then have parts: "\<forall>part \<in> set (clean_parts p). proper_part part" using u by simp
  then have "split_slash p = clean_parts p" using nonempty by (subst p) (intro split_join, auto simp: proper_part_def)
  then show "\<forall>part \<in> set (split_slash p). proper_part part" using parts by simp
qed simp

lemma join_split: "strings_Join (split_slash p) ''/'' = p"
proof (induction p)
  case (Cons c cs)
  obtain part parts where split: "split_slash cs = part # parts" by (cases "split_slash cs") auto
  with Cons show ?case by (cases "parts = []") (auto simp: join_Cons)
qed simp

text \<open>Joining a path of proper parts to a root only puts it behind the root, whatever the root is.\<close>

definition join_root :: "string \<Rightarrow> string" where
  "join_root root = (if root = [] then []
     else (if HasPrefix root ''/'' then ''/'' else []) @ (if clean_parts root = [] then [] else strings_Join (clean_parts root) ''/'' @ ''/''))"

lemma join_proper:
  assumes parts: "\<forall>part \<in> set (split_slash key). proper_part part"
  shows "filepath_Join root key = join_root root @ key"
proof -
  have key: "key \<noteq> []"
  proof
    assume "key = []"
    with parts show False by (simp add: proper_part_def)
  qed
  have foldl: "foldl (clean_part rooted) kept (split_slash key) = rev (split_slash key) @ kept" for rooted kept
    using clean_proper [OF parts] .
  show ?thesis
  proof (cases "root = []")
    case True
    have relative: "\<not> HasPrefix key ''/''"
    proof
      assume "HasPrefix key ''/''"
      then obtain rest where "key = CHR ''/'' # rest" by (auto simp: HasPrefix_iff)
      with parts show False by (simp add: proper_part_def)
    qed
    have "clean_parts key = split_slash key" unfolding clean_parts_def foldl by simp
    then have "path_Clean key = key" using relative by (simp add: path_Clean_def join_split)
    then show ?thesis using True key by (simp add: filepath_Join_def join_root_def)
  next
    case False
    let ?path = "root @ ''/'' @ key"
    have rooted: "HasPrefix ?path ''/'' = HasPrefix root ''/''" using False by (cases root) auto
    have "clean_parts ?path = clean_parts root @ split_slash key"
      unfolding clean_parts_def rooted split_slash_append foldl_append foldl by simp
    then have "path_Clean ?path = join_root root @ key" using False
      unfolding path_Clean_def rooted join_root_def
      by (cases "clean_parts root = []") (simp_all add: join_append join_split)
    then show ?thesis using False by (simp add: filepath_Join_def)
  qed
qed

lemma join_root_clean: "path_Clean root = root \<Longrightarrow> HasPrefix root ''/'' \<Longrightarrow> root \<noteq> ''/'' \<Longrightarrow> join_root root = root @ ''/''"
  by (auto simp: join_root_def path_Clean_def)

end
