(* ===== verification/Artifact_Store.thy ===== *)
theory Artifact_Store
  imports Go_Path CP_Model
begin

text \<open>
  The content stores of artifacts (\<open>artifact_store.go\<close>): keys, byte ranges, the store in memory and the store on the local disk. A
  reader is what it delivers and the error it ends with (none at the end of the input); the context reader's error is that error. The
  calls of the operating system succeed or fail as \<open>os_results\<close> says, one record for each operation of the local store.
\<close>

section \<open>Keys and ranges\<close>

definition ArtifactStoreDriverNone :: string where [cp_consts]: "ArtifactStoreDriverNone = ''none''"
definition ArtifactStoreDriverMemory :: string where [cp_consts]: "ArtifactStoreDriverMemory = ''memory''"
definition ArtifactStoreDriverLocal :: string where [cp_consts]: "ArtifactStoreDriverLocal = ''local''"
definition ArtifactStoreDriverS3 :: string where [cp_consts]: "ArtifactStoreDriverS3 = ''s3''"
definition ArtifactStoreDriverOSS :: string where [cp_consts]: "ArtifactStoreDriverOSS = ''oss''"

type_synonym io_Reader = "string \<times> go_error option"

record ArtifactByteRange =
  range_Offset :: int
  range_Length :: int

record ArtifactRead =
  read_Body :: string
  read_Offset :: int
  read_SizeBytes :: int
  read_TotalBytes :: int

definition validArtifactStoreKey :: "string \<Rightarrow> bool" where
  "validArtifactStoreKey key \<longleftrightarrow>
     \<not> (key = [] \<or> HasPrefix key ''/'' \<or> ContainsAny key [CHR 0x00, CHR 0x0D, CHR 0x0A, CHR 0x5C])
     \<and> path_Clean key = key \<and> path_Clean key \<noteq> ''.'' \<and> path_Clean key \<noteq> ''..'' \<and> \<not> HasPrefix (path_Clean key) ''../''"

definition validateArtifactStoreWrite :: "string \<Rightarrow> io_Reader option \<Rightarrow> int \<Rightarrow> go_error option" where
  "validateArtifactStoreWrite key body sizeBytes =
     (if \<not> validArtifactStoreKey key \<or> body = None \<or> sizeBytes < -1 then Some (errors_New ''invalid artifact store write'') else None)"

definition normalizeArtifactByteRange :: "int \<Rightarrow> ArtifactByteRange option \<Rightarrow> go_error + (int \<times> int)" where
  "normalizeArtifactByteRange bytes requested =
     (if bytes < 0 then Inl ErrArtifactUnavailable
      else (case requested of
          None \<Rightarrow> Inr (0, bytes)
        | Some rng \<Rightarrow>
            if range_Offset rng < 0 \<or> range_Offset rng \<ge> bytes \<or> range_Length rng < 0 then Inl ErrArtifactUnavailable
            else Inr (range_Offset rng,
              if range_Length rng = 0 \<or> range_Length rng > bytes - range_Offset rng then bytes - range_Offset rng else range_Length rng)))"

text \<open>The bytes of the range.\<close>

definition read_range :: "string \<Rightarrow> ArtifactByteRange option \<Rightarrow> go_error + ArtifactRead" where
  "read_range content byteRange =
     and_then (normalizeArtifactByteRange (int (length content)) byteRange) (\<lambda>(offset, bytes).
       Inr \<lparr>read_Body = take (nat bytes) (drop (nat offset) content), read_Offset = offset, read_SizeBytes = bytes,
         read_TotalBytes = int (length content)\<rparr>)"

section \<open>The store in memory\<close>

record MemoryArtifactStore =
  mem_objects :: "(string, string) gmap"

definition NewMemoryArtifactStore :: MemoryArtifactStore where
  "NewMemoryArtifactStore = \<lparr>mem_objects = []\<rparr>"

definition memory_Put ::
  "string \<Rightarrow> io_Reader option \<Rightarrow> int \<Rightarrow> MemoryArtifactStore \<Rightarrow> (int \<times> go_error option) \<times> MemoryArtifactStore" where
  "memory_Put key body sizeBytes s =
     (case validateArtifactStoreWrite key body sizeBytes of
        Some err \<Rightarrow> ((0, Some err), s)
      | None \<Rightarrow>
          (case the body of
             (_, Some err) \<Rightarrow> ((0, Some err), s)
           | (content, None) \<Rightarrow>
               if sizeBytes \<ge> 0 \<and> int (length content) \<noteq> sizeBytes then ((0, Some ErrArtifactIntegrity), s)
               else ((int (length content), None), s\<lparr>mem_objects := mput key content (mem_objects s)\<rparr>)))"

definition memory_Open ::
  "string \<Rightarrow> ArtifactByteRange option \<Rightarrow> MemoryArtifactStore \<Rightarrow> (go_error + ArtifactRead) \<times> MemoryArtifactStore" where
  "memory_Open key byteRange s =
     (if \<not> validArtifactStoreKey key then Inl ErrArtifactUnavailable
      else (case map_of (mem_objects s) key of
          None \<Rightarrow> Inl ErrArtifactUnavailable
        | Some content \<Rightarrow> read_range content byteRange), s)"

definition memory_Delete :: "string \<Rightarrow> MemoryArtifactStore \<Rightarrow> go_error option \<times> MemoryArtifactStore" where
  "memory_Delete key s =
     (if \<not> validArtifactStoreKey key then (Some ErrArtifactUnavailable, s)
      else (None, s\<lparr>mem_objects := mdelete key (mem_objects s)\<rparr>))"

section \<open>The store on the local disk\<close>

text \<open>
  The calls of one operation: \<open>os_CreateTemp\<close> is the number in the name of the temporary file, \<open>os_Copy\<close> a write error after so many
  bytes, \<open>os_Remove\<close> of \<open>Put\<close> is the removal of the temporary file;
  any other error stands for a failed call. \<open>os.CreateTemp\<close> takes a number whose name is not in use.
\<close>

record os_results =
  os_MkdirAll :: "go_error option"
  os_CreateTemp :: "go_error + nat"
  os_Chmod :: "go_error option"
  os_Copy :: "(nat \<times> go_error) option"
  os_Sync :: "go_error option"
  os_Close :: "go_error option"
  os_Rename :: "go_error option"
  os_Remove :: "go_error option"
  os_Open :: "go_error option"
  os_Stat :: "go_error option"
  os_Seek :: "go_error option"

text \<open>The files by their paths, and the results of the calls to come.\<close>

record local_disk =
  disk_files :: "(string, string) gmap"
  disk_results :: "os_results list"

definition next_results :: "local_disk \<Rightarrow> os_results \<times> local_disk" where
  "next_results disk =
     (case disk_results disk of
        [] \<Rightarrow> (\<lparr>os_MkdirAll = None, os_CreateTemp = Inr 0, os_Chmod = None, os_Copy = None, os_Sync = None, os_Close = None,
            os_Rename = None, os_Remove = None, os_Open = None, os_Stat = None, os_Seek = None\<rparr>, disk)
      | os # later \<Rightarrow> (os, disk\<lparr>disk_results := later\<rparr>))"

definition objectPath :: "string \<Rightarrow> string \<Rightarrow> string" where
  "objectPath root key = filepath_Join root key"

definition filepath_Dir :: "string \<Rightarrow> string" where
  "filepath_Dir p = path_Clean (rev (dropWhile (\<lambda>c. c \<noteq> CHR ''/'') (rev p)))"

definition temporary_name :: "string \<Rightarrow> nat \<Rightarrow> string" where
  "temporary_name target n = filepath_Dir target @ ''/.artifact-'' @ nat_digits n"

text \<open>The steps that fill the temporary file: the bytes it holds in the end, and the error of the step that failed, if any.\<close>

definition fill_temporary :: "os_results \<Rightarrow> io_Reader \<Rightarrow> int \<Rightarrow> string \<times> go_error option" where
  "fill_temporary os body sizeBytes =
     (case os_Chmod os of
        Some err \<Rightarrow> ([], Some (errors_Prefix ''secure artifact temporary file'' err))
      | None \<Rightarrow>
          (case os_Copy os of
             Some (n, err) \<Rightarrow> (take n (fst body), Some (errors_Prefix ''write local artifact'' err))
           | None \<Rightarrow>
               (case body of
                  (content, Some err) \<Rightarrow> (content, Some (errors_Prefix ''write local artifact'' err))
                | (content, None) \<Rightarrow>
                    (content,
                      if sizeBytes \<ge> 0 \<and> int (length content) \<noteq> sizeBytes then Some ErrArtifactIntegrity
                      else (case os_Sync os of
                          Some err \<Rightarrow> Some (errors_Prefix ''sync local artifact'' err)
                        | None \<Rightarrow>
                            (case os_Close os of
                               Some err \<Rightarrow> Some (errors_Prefix ''close local artifact'' err)
                             | None \<Rightarrow>
                                 (case os_Rename os of
                                    Some err \<Rightarrow> Some (errors_Prefix ''commit local artifact'' err)
                                  | None \<Rightarrow> None)))))))"

definition local_Put ::
  "string \<Rightarrow> string \<Rightarrow> io_Reader option \<Rightarrow> int \<Rightarrow> local_disk \<Rightarrow> (int \<times> go_error option) \<times> local_disk" where
  "local_Put root key body sizeBytes disk =
     (case validateArtifactStoreWrite key body sizeBytes of
        Some err \<Rightarrow> ((0, Some err), disk)
      | None \<Rightarrow>
          (case next_results disk of (os, disk) \<Rightarrow>
             let target = objectPath root key
             in (case os_MkdirAll os of
                  Some err \<Rightarrow> ((0, Some (errors_Prefix ''create artifact directory'' err)), disk)
                | None \<Rightarrow>
                    (case os_CreateTemp os of
                       Inl err \<Rightarrow> ((0, Some (errors_Prefix ''create artifact temporary file'' err)), disk)
                     | Inr n \<Rightarrow>
                         let temporary = temporary_name target n
                         in (case fill_temporary os (the body) sizeBytes of
                              (content, Some err) \<Rightarrow>
                                ((0, Some err), disk\<lparr>disk_files :=
                                   (if os_Remove os = None then mdelete temporary (disk_files disk)
                                    else mput temporary content (disk_files disk))\<rparr>)
                            | (content, None) \<Rightarrow>
                                ((int (length content), None),
                                 disk\<lparr>disk_files := mput target content (mdelete temporary (disk_files disk))\<rparr>))))))"

definition local_Open ::
  "string \<Rightarrow> string \<Rightarrow> ArtifactByteRange option \<Rightarrow> local_disk \<Rightarrow> (go_error + ArtifactRead) \<times> local_disk" where
  "local_Open root key byteRange disk =
     (if \<not> validArtifactStoreKey key then (Inl ErrArtifactUnavailable, disk)
      else (case next_results disk of (os, disk) \<Rightarrow>
        (case os_Open os of
           Some err \<Rightarrow> Inl (errors_Prefix ''open local artifact'' err)
         | None \<Rightarrow>
             (case map_of (disk_files disk) (objectPath root key) of
                None \<Rightarrow> Inl ErrArtifactUnavailable
              | Some content \<Rightarrow>
                  (case os_Stat os of
                     Some err \<Rightarrow> Inl (errors_Prefix ''stat local artifact'' err)
                   | None \<Rightarrow>
                       and_then (read_range content byteRange) (\<lambda>opened.
                         case os_Seek os of
                           Some err \<Rightarrow> Inl (errors_Prefix ''seek local artifact'' err)
                         | None \<Rightarrow> Inr opened))), disk)))"

definition local_Delete :: "string \<Rightarrow> string \<Rightarrow> local_disk \<Rightarrow> go_error option \<times> local_disk" where
  "local_Delete root key disk =
     (if \<not> validArtifactStoreKey key then (Some ErrArtifactUnavailable, disk)
      else (case next_results disk of (os, disk) \<Rightarrow>
        if \<not> mhas (disk_files disk) (objectPath root key) then (None, disk)
        else (case os_Remove os of
            Some err \<Rightarrow> (Some (errors_Prefix ''delete local artifact'' err), disk)
          | None \<Rightarrow> (None, disk\<lparr>disk_files := mdelete (objectPath root key) (disk_files disk)\<rparr>))))"

end
