(* ===== verification/Artifact_Repo.thy ===== *)
theory Artifact_Repo
  imports AI_Job_Repo Artifact_Store
begin

text \<open>
  Artifacts: their state machine and records (\<open>artifact_model.go\<close>), the methods of the in-memory repository on them
  (\<open>artifact_repository.go\<close>) and the queries of the administration (\<open>artifact_admin.go\<close>). The random parts of the
  identifiers of an event and its outbox event are arguments.
\<close>

section \<open>Model\<close>

definition ArtifactDefaultMaxBytes :: int where "ArtifactDefaultMaxBytes = 10 * 2 ^ 30"
definition ArtifactDefaultTTL :: duration where "ArtifactDefaultTTL = 24 * 3600 * 10 ^ 9"

type_synonym ArtifactOwner = AIJobOwner

record ArtifactQuery =
  aq_Owner :: "ArtifactOwner option"
  aq_ProfileScope :: string
  aq_TenantID :: string
  aq_Search :: string
  aq_OperationID :: string
  aq_JobID :: string
  aq_AttemptID :: string
  aq_SourceArtifactID :: string
  aq_Role :: string
  aq_Policy :: string
  aq_Status :: string
  aq_RetainBefore :: "gotime option"
  aq_Limit :: int
  aq_Offset :: int

record ArtifactContentUpdate =
  upd_MediaType :: string
  upd_SizeBytes :: int
  upd_SHA256 :: string
  upd_StoreDriver :: string
  upd_StoreKey :: string
  upd_ExternalReference :: string

record ArtifactTransitionInput =
  ati_ArtifactID :: string
  ati_ExpectedVersion :: int
  ati_ToStatus :: string
  ati_Reason :: string
  ati_Content :: "ArtifactContentUpdate option"

definition artifactOwnerFromOperation :: "AIOperation \<Rightarrow> ArtifactOwner" where
  "artifactOwnerFromOperation operation =
     \<lparr>owner_ProfileScope = op_ProfileScope operation, owner_TenantID = op_TenantID operation,
      owner_IntegrationID = op_IntegrationID operation, owner_PrincipalType = op_PrincipalType operation,
      owner_PrincipalID = op_PrincipalID operation, owner_ExternalSubjectReference = op_ExternalSubjectReference operation\<rparr>"

definition artifactOwnerMatches :: "Artifact \<Rightarrow> ArtifactOwner \<Rightarrow> bool" where
  "artifactOwnerMatches artifact owner \<longleftrightarrow>
     art_ProfileScope artifact = owner_ProfileScope owner \<and> art_TenantID artifact = owner_TenantID owner
     \<and> art_IntegrationID artifact = owner_IntegrationID owner \<and> art_PrincipalType artifact = owner_PrincipalType owner
     \<and> art_PrincipalID artifact = owner_PrincipalID owner
     \<and> art_ExternalSubjectReference artifact = owner_ExternalSubjectReference owner"

definition artifactStatusTransitionAllowed :: "string \<Rightarrow> string \<Rightarrow> bool" where
  "artifactStatusTransitionAllowed fromStatus toStatus =
     (if fromStatus = ArtifactStatusPending
      then oneOf toStatus [ArtifactStatusUploading, ArtifactStatusReady, ArtifactStatusFailed, ArtifactStatusDeleteRequested]
      else if fromStatus = ArtifactStatusUploading
      then oneOf toStatus [ArtifactStatusUploading, ArtifactStatusReady, ArtifactStatusFailed, ArtifactStatusDeleteRequested]
      else if fromStatus = ArtifactStatusReady
      then oneOf toStatus [ArtifactStatusDelivering, ArtifactStatusDeleteRequested, ArtifactStatusExpired]
      else if fromStatus = ArtifactStatusDelivering
      then oneOf toStatus [ArtifactStatusDelivering, ArtifactStatusDelivered, ArtifactStatusDeliveryFailed, ArtifactStatusDeleteRequested]
      else if fromStatus = ArtifactStatusDeliveryFailed
      then oneOf toStatus [ArtifactStatusDelivering, ArtifactStatusDeleteRequested, ArtifactStatusExpired]
      else if fromStatus = ArtifactStatusFailed then oneOf toStatus [ArtifactStatusUploading, ArtifactStatusDeleteRequested]
      else if fromStatus = ArtifactStatusDelivered \<or> fromStatus = ArtifactStatusExpired then toStatus = ArtifactStatusDeleteRequested
      else if fromStatus = ArtifactStatusDeleteRequested \<or> fromStatus = ArtifactStatusDeleteFailed then toStatus = ArtifactStatusDeleting
      else if fromStatus = ArtifactStatusDeleting then oneOf toStatus [ArtifactStatusDeleted, ArtifactStatusDeleteFailed]
      else False)"

definition underscores_to_dots :: "string \<Rightarrow> string" where
  "underscores_to_dots s = map (\<lambda>c. if c = CHR ''_'' then CHR ''.'' else c) s"

definition newArtifactEventRecords ::
  "string \<Rightarrow> string \<Rightarrow> Artifact \<Rightarrow> string \<Rightarrow> string \<Rightarrow> gotime \<Rightarrow> go_error + (ArtifactEvent \<times> TransactionalOutboxEvent)" where
  "newArtifactEventRecords eventRandom outboxRandom artifact fromStatus reason at =
     (if TrimSpace (art_ID artifact) = [] \<or> art_StatusVersion artifact \<le> 0 \<or> TrimSpace (art_Status artifact) = []
      then Inl (errors_New ''invalid artifact event state'')
      else
        let eventType = ''artifact.'' @ underscores_to_dots (art_Status artifact);
            event = \<lparr>artev_ID = ''artifact_event_'' @ eventRandom, artev_ArtifactID = art_ID artifact,
              artev_Version = art_StatusVersion artifact, artev_EventType = eventType, artev_FromStatus = fromStatus,
              artev_ToStatus = art_Status artifact, artev_Reason = TrimSpace reason, artev_CreatedAt = at\<rparr>;
            payload = json_object [(''artifact_id'', json_string (art_ID artifact)), (''status'', json_string (art_Status artifact)),
              (''version'', Itoa (art_StatusVersion artifact))]
        in Inr (event, zero_TransactionalOutboxEvent\<lparr>outbox_ID := ''outbox_'' @ outboxRandom,
             outbox_AggregateType := ArtifactOutboxAggregate, outbox_AggregateID := art_ID artifact, outbox_EventType := eventType,
             outbox_EventVersion := art_StatusVersion artifact, outbox_PayloadJSON := payload, outbox_Status := OutboxStatusPending,
             outbox_AvailableAt := at, outbox_MaxAttempts := OutboxDefaultMaxAttempts, outbox_CreatedAt := at,
             outbox_UpdatedAt := at\<rparr>))"

type_synonym artifact_change = "Artifact \<times> ArtifactEvent \<times> TransactionalOutboxEvent"

definition transition_artifact :: "Artifact \<Rightarrow> string \<Rightarrow> string \<Rightarrow> gotime \<Rightarrow> Artifact" where
  "transition_artifact artifact toStatus reason at =
     (let artifact = artifact\<lparr>art_Status := toStatus, art_StatusVersion := art_StatusVersion artifact + 1,
            art_ErrorType := (if oneOf toStatus [ArtifactStatusFailed, ArtifactStatusDeliveryFailed, ArtifactStatusDeleteFailed]
              then TrimSpace reason else []),
            art_UpdatedAt := at\<rparr>;
          artifact = (if toStatus = ArtifactStatusReady then artifact\<lparr>art_ReadyAt := Some at\<rparr> else artifact);
          artifact = (if toStatus = ArtifactStatusDelivered then artifact\<lparr>art_DeliveredAt := Some at\<rparr> else artifact)
      in if toStatus = ArtifactStatusDeleted
         then artifact\<lparr>art_DeletedAt := Some at, art_StoreKey := [], art_ExternalReference := []\<rparr> else artifact)"

definition prepareArtifactTransition ::
  "string \<Rightarrow> string \<Rightarrow> Artifact \<Rightarrow> string \<Rightarrow> string \<Rightarrow> gotime \<Rightarrow> go_error + artifact_change" where
  "prepareArtifactTransition eventRandom outboxRandom artifact toStatus0 reason at =
     (let toStatus = TrimSpace toStatus0
      in if \<not> artifactStatusTransitionAllowed (art_Status artifact) toStatus
         then Inl (errors_New (''invalid artifact transition '' @ art_Status artifact @ '' -> '' @ toStatus))
         else (let updated = transition_artifact artifact toStatus reason at
               in and_then (newArtifactEventRecords eventRandom outboxRandom updated (art_Status artifact) reason at)
                    (\<lambda>(event, outbox). Inr (updated, event, outbox))))"

definition applyArtifactContentUpdate :: "Artifact \<Rightarrow> ArtifactContentUpdate \<Rightarrow> go_error + Artifact" where
  "applyArtifactContentUpdate artifact update =
     (let driver = TrimSpace (upd_StoreDriver update);
          key = TrimSpace (upd_StoreKey update)
      in if upd_SizeBytes update < 0
           \<or> \<not> oneOf driver [ArtifactStoreDriverNone, ArtifactStoreDriverMemory, ArtifactStoreDriverLocal, ArtifactStoreDriverS3, ArtifactStoreDriverOSS]
         then Inl (errors_New ''invalid artifact content update'')
         else if driver = ArtifactStoreDriverNone \<and> key \<noteq> []
         then Inl (errors_New ''artifact without a store driver cannot have a store key'')
         else if driver \<noteq> ArtifactStoreDriverNone \<and> \<not> validArtifactStoreKey key
         then Inl (errors_New ''stored artifact requires a valid store key'')
         else Inr (artifact\<lparr>art_MediaType := TrimSpace (upd_MediaType update), art_SizeBytes := upd_SizeBytes update,
           art_SHA256 := ToLower (TrimSpace (upd_SHA256 update)), art_StoreDriver := driver, art_StoreKey := key,
           art_ExternalReference := TrimSpace (upd_ExternalReference update)\<rparr>))"

definition validateArtifactAdmission :: "Artifact \<Rightarrow> ArtifactEvent \<Rightarrow> TransactionalOutboxEvent \<Rightarrow> go_error option" where
  "validateArtifactAdmission artifact event outbox =
     (if TrimSpace (art_ID artifact) = [] \<or> TrimSpace (art_OperationID artifact) = [] \<or> \<not> validArtifactRole (art_Role artifact)
        \<or> \<not> validArtifactPolicy (art_Policy artifact) \<or> art_Status artifact \<noteq> ArtifactStatusPending \<or> art_StatusVersion artifact \<noteq> 1
        \<or> art_SizeBytes artifact < 0 \<or> art_RetainUntil artifact = 0 \<or> art_CreatedAt artifact = 0 \<or> art_UpdatedAt artifact = 0
        \<or> artev_ArtifactID event \<noteq> art_ID artifact \<or> artev_Version event \<noteq> art_StatusVersion artifact
        \<or> artev_ToStatus event \<noteq> art_Status artifact \<or> outbox_AggregateType outbox \<noteq> ArtifactOutboxAggregate
        \<or> outbox_AggregateID outbox \<noteq> art_ID artifact \<or> outbox_EventVersion outbox \<noteq> art_StatusVersion artifact
      then Some (errors_New ''invalid artifact admission records'') else None)"

definition artifactDownloadable :: "Artifact \<Rightarrow> gotime \<Rightarrow> bool" where
  "artifactDownloadable artifact now \<longleftrightarrow>
     oneOf (art_Status artifact) [ArtifactStatusReady, ArtifactStatusDelivered] \<and> art_RetainUntil artifact > now
     \<and> art_StoreDriver artifact \<noteq> ArtifactStoreDriverNone \<and> TrimSpace (art_StoreKey artifact) \<noteq> []"

section \<open>Creation and transition\<close>

definition validateMemoryArtifactReferences :: "MemoryRepository \<Rightarrow> Artifact \<Rightarrow> go_error option" where
  "validateMemoryArtifactReferences r artifact =
     (case map_of (aiOperations r) (art_OperationID artifact) of
        None \<Rightarrow> Some (errors_New ''artifact operation ownership does not match'')
      | Some operation \<Rightarrow>
          let owner = artifactOwnerFromOperation operation
          in if \<not> artifactOwnerMatches artifact owner \<or> art_Policy artifact \<noteq> artifactPolicySnapshot (op_ArtifactPolicy operation)
             then Some (errors_New ''artifact operation ownership does not match'')
             else if art_JobID artifact \<noteq> [] \<and> (case map_of (aiJobs r) (art_JobID artifact) of
                 None \<Rightarrow> True
               | Some job \<Rightarrow> job_OperationID job \<noteq> art_OperationID artifact \<or> \<not> aiJobOwnerMatches job owner
                   \<or> job_ArtifactPolicy job \<noteq> art_Policy artifact)
             then Some (errors_New ''artifact job reference does not match'')
             else if art_AttemptID artifact \<noteq> [] \<and> (case map_of (aiAttempts r) (art_AttemptID artifact) of
                 None \<Rightarrow> True
               | Some attempt \<Rightarrow> att_OperationID attempt \<noteq> art_OperationID artifact)
             then Some (errors_New ''artifact attempt reference does not match'')
             else if art_SourceArtifactID artifact \<noteq> [] \<and> (case map_of (artifacts r) (art_SourceArtifactID artifact) of
                 None \<Rightarrow> True
               | Some source \<Rightarrow> \<not> artifactOwnerMatches source owner)
             then Some (errors_New ''source artifact ownership does not match'')
             else None)"

definition write_artifact :: "string \<Rightarrow> Artifact \<Rightarrow> ArtifactEvent \<Rightarrow> TransactionalOutboxEvent \<Rightarrow> MemoryRepository \<Rightarrow> MemoryRepository" where
  "write_artifact ident artifact event outbox r =
     r\<lparr>artifacts := mput ident artifact (artifacts r), artifactEvents := mput (artev_ID event) event (artifactEvents r),
       transactionalOutboxEvents := mput (outbox_ID outbox) outbox (transactionalOutboxEvents r)\<rparr>"

definition check_artifact_records :: "ArtifactEvent \<Rightarrow> TransactionalOutboxEvent \<Rightarrow> MemoryRepository \<Rightarrow> go_error option" where
  "check_artifact_records event outbox r =
     (if mhas (artifactEvents r) (artev_ID event) then Some (existing_err ''artifact event'' (artev_ID event) ''already exists'')
      else validateMemoryOutboxInsert (transactionalOutboxEvents r) outbox)"

definition CreateArtifact ::
  "Artifact \<Rightarrow> ArtifactEvent \<Rightarrow> TransactionalOutboxEvent \<Rightarrow> MemoryRepository \<Rightarrow> go_error option \<times> MemoryRepository" where
  "CreateArtifact artifact event outbox r =
     (case validateArtifactAdmission artifact event outbox of
        Some err \<Rightarrow> (Some err, r)
      | None \<Rightarrow>
          (case validateMemoryArtifactReferences r artifact of
             Some err \<Rightarrow> (Some err, r)
           | None \<Rightarrow>
               if mhas (artifacts r) (art_ID artifact) then (Some (existing_err ''artifact'' (art_ID artifact) ''already exists''), r)
               else (case check_artifact_records event outbox r of
                   Some err \<Rightarrow> (Some err, r)
                 | None \<Rightarrow> (None, write_artifact (art_ID artifact) artifact event outbox r))))"

definition FindArtifact :: "string \<Rightarrow> MemoryRepository \<Rightarrow> Artifact option" where
  "FindArtifact ident r = map_of (artifacts r) (TrimSpace ident)"

definition FindOwnedArtifact :: "string \<Rightarrow> ArtifactOwner \<Rightarrow> MemoryRepository \<Rightarrow> Artifact option" where
  "FindOwnedArtifact ident owner r =
     (case map_of (artifacts r) (TrimSpace ident) of
        None \<Rightarrow> None
      | Some artifact \<Rightarrow> if \<not> artifactOwnerMatches artifact owner then None else Some artifact)"

definition prepareArtifactRepositoryTransition ::
  "string \<Rightarrow> string \<Rightarrow> Artifact \<Rightarrow> ArtifactTransitionInput \<Rightarrow> gotime \<Rightarrow> go_error + artifact_change" where
  "prepareArtifactRepositoryTransition eventRandom outboxRandom artifact input transitionedAt =
     and_then
       (case ati_Content input of
          None \<Rightarrow> Inr artifact
        | Some content \<Rightarrow>
            let toStatus = TrimSpace (ati_ToStatus input);
                uploadUpdate = oneOf (art_Status artifact) [ArtifactStatusPending, ArtifactStatusUploading, ArtifactStatusFailed]
                  \<and> oneOf toStatus [ArtifactStatusUploading, ArtifactStatusReady, ArtifactStatusFailed];
                deliveryUpdate = art_Status artifact = ArtifactStatusDelivering
                  \<and> oneOf toStatus [ArtifactStatusDelivered, ArtifactStatusDeliveryFailed]
            in if \<not> uploadUpdate \<and> \<not> deliveryUpdate
               then Inl (errors_New ''artifact content can only change during upload or delivery completion'')
               else applyArtifactContentUpdate artifact content)
       (\<lambda>artifact. prepareArtifactTransition eventRandom outboxRandom artifact (ati_ToStatus input) (ati_Reason input) transitionedAt)"

definition TransitionArtifact ::
  "string \<Rightarrow> string \<Rightarrow> ArtifactTransitionInput \<Rightarrow> gotime \<Rightarrow> MemoryRepository
     \<Rightarrow> (Artifact \<times> bool \<times> go_error option) \<times> MemoryRepository" where
  "TransitionArtifact eventRandom outboxRandom input transitionedAt r =
     (case map_of (artifacts r) (TrimSpace (ati_ArtifactID input)) of
        None \<Rightarrow> ((zero_Artifact, False, None), r)
      | Some artifact \<Rightarrow>
          if art_StatusVersion artifact \<noteq> ati_ExpectedVersion input then ((artifact, False, None), r)
          else (case prepareArtifactRepositoryTransition eventRandom outboxRandom artifact input transitionedAt of
              Inl err \<Rightarrow> ((zero_Artifact, False, Some err), r)
            | Inr (updated, event, outbox) \<Rightarrow>
                (case check_artifact_records event outbox r of
                   Some err \<Rightarrow> ((zero_Artifact, False, Some err), r)
                 | None \<Rightarrow> ((updated, True, None), write_artifact (art_ID updated) updated event outbox r))))"

section \<open>Lists\<close>

definition artifactMatchesQuery :: "Artifact \<Rightarrow> ArtifactQuery \<Rightarrow> bool" where
  "artifactMatchesQuery artifact query =
     (let search = ToLower (TrimSpace (aq_Search query))
      in if (case aq_Owner query of None \<Rightarrow> False | Some owner \<Rightarrow> \<not> artifactOwnerMatches artifact owner) then False
         else if \<not> field_matches (aq_ProfileScope query) (art_ProfileScope artifact) then False
         else if \<not> field_matches (aq_TenantID query) (art_TenantID artifact) then False
         else if search \<noteq> [] \<and> \<not> Contains (ToLower (art_ID artifact)) search
           \<and> \<not> Contains (ToLower (art_OperationID artifact)) search \<and> \<not> Contains (ToLower (art_JobID artifact)) search
           \<and> \<not> Contains (ToLower (art_AttemptID artifact)) search then False
         else if (case aq_RetainBefore query of None \<Rightarrow> False | Some before \<Rightarrow> art_RetainUntil artifact > before) then False
         else field_matches (aq_OperationID query) (art_OperationID artifact) \<and> field_matches (aq_JobID query) (art_JobID artifact)
           \<and> field_matches (aq_AttemptID query) (art_AttemptID artifact)
           \<and> field_matches (aq_SourceArtifactID query) (art_SourceArtifactID artifact)
           \<and> field_matches (aq_Role query) (art_Role artifact) \<and> field_matches (aq_Policy query) (art_Policy artifact)
           \<and> field_matches (aq_Status query) (art_Status artifact))"

definition artifact_order :: "Artifact \<Rightarrow> Artifact \<Rightarrow> bool" where
  "artifact_order a b = (if art_CreatedAt a = art_CreatedAt b then art_ID a > art_ID b else art_CreatedAt a > art_CreatedAt b)"

definition sortArtifacts :: "Artifact list \<Rightarrow> Artifact list" where
  "sortArtifacts xs = sort_slice artifact_order xs"

definition artifactQueryLimit :: "int \<Rightarrow> int" where
  "artifactQueryLimit limit = (if limit \<le> 0 \<or> limit > 100 then 100 else limit)"

definition paginateArtifacts :: "Artifact list \<Rightarrow> int \<Rightarrow> int \<Rightarrow> Artifact list" where
  "paginateArtifacts xs limit0 offset0 =
     (let offset = nonNegative offset0
      in if offset \<ge> int (length xs) then []
         else
           let limit = artifactQueryLimit limit0;
               end = min (offset + limit) (int (length xs))
           in drop (nat offset) (take (nat end) xs))"

definition QueryArtifacts :: "ArtifactQuery \<Rightarrow> MemoryRepository \<Rightarrow> Artifact list" where
  "QueryArtifacts query r =
     paginateArtifacts (sortArtifacts (filter (\<lambda>artifact. artifactMatchesQuery artifact query) (mvalues (artifacts r))))
       (aq_Limit query) (aq_Offset query)"

definition artifact_event_order :: "ArtifactEvent \<Rightarrow> ArtifactEvent \<Rightarrow> bool" where
  "artifact_event_order a b =
     (if artev_Version a = artev_Version b then artev_CreatedAt a < artev_CreatedAt b else artev_Version a < artev_Version b)"

definition sortArtifactEvents :: "ArtifactEvent list \<Rightarrow> ArtifactEvent list" where
  "sortArtifactEvents events = sort_slice artifact_event_order events"

definition ListArtifactEvents :: "string \<Rightarrow> MemoryRepository \<Rightarrow> ArtifactEvent list" where
  "ListArtifactEvents artifactID r =
     sortArtifactEvents (filter (\<lambda>event. TrimSpace artifactID = [] \<or> artev_ArtifactID event = TrimSpace artifactID)
       (mvalues (artifactEvents r)))"

section \<open>The administration\<close>

definition ErrArtifactAdminQueryInvalid :: go_error where
  "ErrArtifactAdminQueryInvalid = errors_New ''invalid artifact admin query''"

record ArtifactSummary =
  asum_Total :: int
  asum_SizeBytes :: int
  asum_ByStatus :: "(string, int) gmap"

definition newArtifactSummary :: ArtifactSummary where
  "newArtifactSummary = \<lparr>asum_Total = 0, asum_SizeBytes = 0, asum_ByStatus = []\<rparr>"

fun summarize_artifacts :: "ArtifactQuery \<Rightarrow> Artifact list \<Rightarrow> ArtifactSummary \<Rightarrow> ArtifactSummary" where
  "summarize_artifacts query [] summary = summary"
| "summarize_artifacts query (artifact # xs) summary =
     (if \<not> artifactMatchesQuery artifact query then summarize_artifacts query xs summary
      else summarize_artifacts query xs (summary\<lparr>asum_Total := asum_Total summary + 1,
        asum_SizeBytes := wrap64 (asum_SizeBytes summary + art_SizeBytes artifact),
        asum_ByStatus := mput (art_Status artifact)
          ((case map_of (asum_ByStatus summary) (art_Status artifact) of None \<Rightarrow> 0 | Some n \<Rightarrow> n) + 1) (asum_ByStatus summary)\<rparr>))"

definition SummarizeArtifacts :: "ArtifactQuery \<Rightarrow> MemoryRepository \<Rightarrow> ArtifactSummary" where
  "SummarizeArtifacts query r = summarize_artifacts (query\<lparr>aq_Limit := 0, aq_Offset := 0\<rparr>) (mvalues (artifacts r)) newArtifactSummary"

definition validArtifactStatus :: "string \<Rightarrow> bool" where
  "validArtifactStatus status = oneOf status [ArtifactStatusPending, ArtifactStatusUploading, ArtifactStatusReady, ArtifactStatusFailed,
     ArtifactStatusDelivering, ArtifactStatusDelivered, ArtifactStatusDeliveryFailed, ArtifactStatusDeleteRequested,
     ArtifactStatusDeleting, ArtifactStatusDeleted, ArtifactStatusDeleteFailed, ArtifactStatusExpired]"

definition validateArtifactAdminQuery :: "ArtifactQuery \<Rightarrow> go_error option" where
  "validateArtifactAdminQuery query =
     (if TrimSpace (aq_Role query) \<noteq> [] \<and> \<not> validArtifactRole (TrimSpace (aq_Role query)) then Some ErrArtifactAdminQueryInvalid
      else if TrimSpace (aq_Policy query) \<noteq> [] \<and> \<not> validArtifactPolicy (TrimSpace (aq_Policy query)) then Some ErrArtifactAdminQueryInvalid
      else if TrimSpace (aq_Status query) \<noteq> [] \<and> \<not> validArtifactStatus (TrimSpace (aq_Status query)) then Some ErrArtifactAdminQueryInvalid
      else if aq_Offset query < 0 \<or> aq_Limit query < 0 then Some ErrArtifactAdminQueryInvalid
      else None)"

definition ArtifactSummaryAdmin :: "ArtifactQuery \<Rightarrow> MemoryRepository \<Rightarrow> go_error + ArtifactSummary" where
  "ArtifactSummaryAdmin query r =
     (case validateArtifactAdminQuery query of
        Some err \<Rightarrow> Inl err
      | None \<Rightarrow> Inr (SummarizeArtifacts (query\<lparr>aq_Limit := 0, aq_Offset := 0\<rparr>) r))"

end
