(* ===== verification/Store_Contract.thy ===== *)
theory Store_Contract
  imports Artifact_Store
begin

text \<open>
  The contract of the interface \<open>ArtifactStore\<close>: a store is a map from keys to contents, of which a write replaces one entry as a whole
  or none. It is stated for the keys of the service, which end in \<open>/content\<close>; the store in memory and the store on the local
  disk satisfy it, the latter whatever calls of the operating system fail.
\<close>

definition content_key :: "string \<Rightarrow> bool" where
  "content_key key \<longleftrightarrow> validArtifactStoreKey key \<and> (\<exists>ident. key = ident @ ''/content'')"

locale artifact_store =
  fixes content :: "'s \<Rightarrow> string \<Rightarrow> string option"
    and put :: "string \<Rightarrow> io_Reader option \<Rightarrow> int \<Rightarrow> 's \<Rightarrow> (int \<times> go_error option) \<times> 's"
    and read :: "string \<Rightarrow> ArtifactByteRange option \<Rightarrow> 's \<Rightarrow> (go_error + ArtifactRead) \<times> 's"
    and delete :: "string \<Rightarrow> 's \<Rightarrow> go_error option \<times> 's"
  assumes put_ok: "content_key key \<Longrightarrow> put key body bytes s = ((n, None), s') \<Longrightarrow>
      \<exists>data. body = Some (data, None) \<and> n = int (length data) \<and> (bytes < 0 \<or> n = bytes) \<and> content s' = (content s)(key \<mapsto> data)"
    and put_failed: "content_key key \<Longrightarrow> put key body bytes s = ((n, Some err), s') \<Longrightarrow> content s' = content s"
    and read_ok: "content_key key \<Longrightarrow> read key rng s = (Inr opened, s') \<Longrightarrow> \<exists>data. content s key = Some data \<and> read_range data rng = Inr opened"
    and read_only: "content_key key \<Longrightarrow> read key rng s = (r, s') \<Longrightarrow> content s' = content s"
    and delete_ok: "content_key key \<Longrightarrow> delete key s = (None, s') \<Longrightarrow> content s' = (content s)(key := None)"
    and delete_failed: "content_key key \<Longrightarrow> delete key s = (Some err, s') \<Longrightarrow> content s' = content s"

section \<open>Sequences of calls\<close>

datatype store_call =
    CallPut string "io_Reader option" int
  | CallOpen string "ArtifactByteRange option"
  | CallDelete string

datatype store_reply =
    ReplyPut int "go_error option"
  | ReplyOpen "go_error + ArtifactRead"
  | ReplyDelete "go_error option"

fun call_key :: "store_call \<Rightarrow> string" where
  "call_key (CallPut key body bytes) = key"
| "call_key (CallOpen key rng) = key"
| "call_key (CallDelete key) = key"

text \<open>What a reply may be when the store is this map, and the map after the call.\<close>

fun map_allows :: "store_call \<Rightarrow> store_reply \<Rightarrow> (string \<Rightarrow> string option) \<Rightarrow> bool" where
  "map_allows (CallPut key body bytes) (ReplyPut n None) M \<longleftrightarrow>
     (\<exists>data. body = Some (data, None) \<and> n = int (length data) \<and> (bytes < 0 \<or> n = bytes))"
| "map_allows (CallPut key body bytes) (ReplyPut n (Some err)) M \<longleftrightarrow> True"
| "map_allows (CallOpen key rng) (ReplyOpen (Inr opened)) M \<longleftrightarrow> (\<exists>data. M key = Some data \<and> read_range data rng = Inr opened)"
| "map_allows (CallOpen key rng) (ReplyOpen (Inl err)) M \<longleftrightarrow> True"
| "map_allows (CallDelete key) (ReplyDelete err) M \<longleftrightarrow> True"
| "map_allows call reply M \<longleftrightarrow> False"

fun map_after :: "store_call \<Rightarrow> store_reply \<Rightarrow> (string \<Rightarrow> string option) \<Rightarrow> string \<Rightarrow> string option" where
  "map_after (CallPut key (Some (data, end)) bytes) (ReplyPut n None) M = M(key \<mapsto> data)"
| "map_after (CallDelete key) (ReplyDelete None) M = M(key := None)"
| "map_after call reply M = M"

fun map_run :: "store_call list \<Rightarrow> store_reply list \<Rightarrow> (string \<Rightarrow> string option) \<Rightarrow> (string \<Rightarrow> string option) option" where
  "map_run [] [] M = Some M"
| "map_run (call # calls) (reply # replies) M = (if map_allows call reply M then map_run calls replies (map_after call reply M) else None)"
| "map_run calls replies M = None"

type_synonym 's store_put = "string \<Rightarrow> io_Reader option \<Rightarrow> int \<Rightarrow> 's \<Rightarrow> (int \<times> go_error option) \<times> 's"
type_synonym 's store_open = "string \<Rightarrow> ArtifactByteRange option \<Rightarrow> 's \<Rightarrow> (go_error + ArtifactRead) \<times> 's"
type_synonym 's store_delete = "string \<Rightarrow> 's \<Rightarrow> go_error option \<times> 's"

fun serve :: "'s store_put \<Rightarrow> 's store_open \<Rightarrow> 's store_delete \<Rightarrow> store_call \<Rightarrow> 's \<Rightarrow> store_reply \<times> 's" where
  "serve put read delete (CallPut key body bytes) s = (case put key body bytes s of ((n, err), s') \<Rightarrow> (ReplyPut n err, s'))"
| "serve put read delete (CallOpen key rng) s = (case read key rng s of (r, s') \<Rightarrow> (ReplyOpen r, s'))"
| "serve put read delete (CallDelete key) s = (case delete key s of (err, s') \<Rightarrow> (ReplyDelete err, s'))"

fun serve_all :: "'s store_put \<Rightarrow> 's store_open \<Rightarrow> 's store_delete \<Rightarrow> store_call list \<Rightarrow> 's \<Rightarrow> store_reply list \<times> 's" where
  "serve_all put read delete [] s = ([], s)"
| "serve_all put read delete (call # calls) s =
     (case serve put read delete call s of (reply, s') \<Rightarrow>
        case serve_all put read delete calls s' of (replies, s'') \<Rightarrow> (reply # replies, s''))"

context artifact_store
begin

lemma serve_map:
  assumes "content_key (call_key call)" "serve put read delete call s = (reply, s')"
  shows "map_allows call reply (content s) \<and> content s' = map_after call reply (content s)"
proof (cases call)
  case (CallPut key body bytes)
  then obtain n err where p: "put key body bytes s = ((n, err), s')" "reply = ReplyPut n err"
    using assms(2) by (auto split: prod.splits)
  show ?thesis using CallPut p put_ok [of key body bytes s n s'] put_failed [of key body bytes s n _ s'] assms(1)
    by (cases err) auto
next
  case (CallOpen key rng)
  then obtain r where r: "read key rng s = (r, s')" "reply = ReplyOpen r" using assms(2) by (auto split: prod.splits)
  show ?thesis using CallOpen r read_ok [of key rng s _ s'] read_only [of key rng s r s'] assms(1) by (cases r) auto
next
  case (CallDelete key)
  then obtain err where e: "delete key s = (err, s')" "reply = ReplyDelete err" using assms(2) by (auto split: prod.splits)
  show ?thesis using CallDelete e delete_ok [of key s s'] delete_failed [of key s _ s'] assms(1) by (cases err) auto
qed

lemma serve_all_map:
  "\<forall>call \<in> set calls. content_key (call_key call) \<Longrightarrow> serve_all put read delete calls s = (replies, s')
    \<Longrightarrow> map_run calls replies (content s) = Some (content s')"
proof (induction calls arbitrary: s replies)
  case (Cons call calls)
  obtain reply t where t: "serve put read delete call s = (reply, t)" by (cases "serve put read delete call s")
  obtain rest where "serve_all put read delete calls t = (rest, s')" "replies = reply # rest"
    using Cons.prems(2) t by (auto split: prod.splits)
  then show ?case using Cons.IH [of t rest] Cons.prems(1) serve_map [OF _ t] by simp
qed simp

end

section \<open>The stores of the program\<close>

definition memory_content :: "MemoryArtifactStore \<Rightarrow> string \<Rightarrow> string option" where
  "memory_content s = map_of (mem_objects s)"

interpretation memory: artifact_store memory_content memory_Put memory_Open memory_Delete
proof (unfold_locales, goal_cases)
  case 1
  then show ?case
    by (auto simp: memory_Put_def validateArtifactStoreWrite_def memory_content_def split: option.splits prod.splits if_splits)
qed (auto simp: memory_Put_def memory_Open_def memory_Delete_def memory_content_def content_key_def map_of_mdelete
    split: option.splits prod.splits if_splits)

text \<open>The files of the store on the local disk, through the paths of the keys.\<close>

definition local_content :: "string \<Rightarrow> local_disk \<Rightarrow> string \<Rightarrow> string option" where
  "local_content root disk key = (if content_key key then map_of (disk_files disk) (objectPath root key) else None)"

lemma valid_key_parts:
  assumes "validArtifactStoreKey key"
  shows "\<forall>part \<in> set (split_slash key). proper_part part"
  using assms by (intro clean_relative_parts) (auto simp: validArtifactStoreKey_def)

lemma objectPath_valid: "validArtifactStoreKey key \<Longrightarrow> objectPath root key = join_root root @ key"
  by (simp add: objectPath_def join_proper valid_key_parts)

lemma content_path_inject:
  "content_key key \<Longrightarrow> content_key key' \<Longrightarrow> objectPath root key = objectPath root key' \<longleftrightarrow> key = key'"
  by (auto simp: content_key_def objectPath_valid)

lemma nat_digits_last: "last (nat_digits n) \<noteq> CHR ''t'' \<and> nat_digits n \<noteq> []"
proof -
  have "(char_of (48 + m) :: char) \<noteq> CHR ''t''" if "m < 10" for m :: nat
  proof
    assume "(char_of (48 + m) :: char) = CHR ''t''"
    then have "of_char (char_of (48 + m) :: char) = (of_char (CHR ''t'') :: nat)" by (rule arg_cong)
    then show False using that by simp
  qed
  then show ?thesis by (cases "n < 10") (simp_all add: nat_digits.simps [of n])
qed

lemma temporary_not_content: "content_key key \<Longrightarrow> temporary_name target n \<noteq> objectPath root key"
proof
  assume "content_key key" and eq: "temporary_name target n = objectPath root key"
  then obtain ident where key: "objectPath root key = join_root root @ ident @ ''/content''"
    by (auto simp: content_key_def objectPath_valid)
  have "last (temporary_name target n) \<noteq> CHR ''t''"
    using nat_digits_last [of n] by (simp add: temporary_name_def)
  then show False unfolding eq key by simp
qed

lemma next_results_files: "next_results disk = (os, disk') \<Longrightarrow> disk_files disk' = disk_files disk"
  by (auto simp: next_results_def split: list.splits)

lemma local_content_cong: "disk_files disk' = disk_files disk \<Longrightarrow> local_content root disk' = local_content root disk"
  by (simp add: local_content_def fun_eq_iff)

lemma local_content_temporary:
  "local_content root (disk\<lparr>disk_files := mdelete (temporary_name target n) files\<rparr>) = local_content root (disk\<lparr>disk_files := files\<rparr>)"
  "local_content root (disk\<lparr>disk_files := mput (temporary_name target n) data files\<rparr>) = local_content root (disk\<lparr>disk_files := files\<rparr>)"
  by (auto simp: local_content_def fun_eq_iff map_of_mdelete temporary_not_content temporary_not_content [symmetric])

lemma local_content_put:
  "content_key key \<Longrightarrow> local_content root (disk\<lparr>disk_files := mput (objectPath root key) data files\<rparr>)
     = (local_content root (disk\<lparr>disk_files := files\<rparr>))(key \<mapsto> data)"
  by (auto simp: local_content_def fun_eq_iff content_path_inject)

lemma local_content_delete:
  "content_key key \<Longrightarrow> local_content root (disk\<lparr>disk_files := mdelete (objectPath root key) files\<rparr>)
     = (local_content root (disk\<lparr>disk_files := files\<rparr>))(key := None)"
  by (auto simp: local_content_def fun_eq_iff content_path_inject map_of_mdelete)

lemma fill_temporary_ok:
  "fill_temporary os body bytes = (data, None) \<Longrightarrow> body = (data, None) \<and> (bytes < 0 \<or> int (length data) = bytes)"
  by (auto simp: fill_temporary_def split: option.splits prod.splits if_splits)

lemma local_Put_content:
  assumes "content_key key" "local_Put root key body bytes disk = ((n, err), disk')"
  shows "(err = None \<longrightarrow> (\<exists>data. body = Some (data, None) \<and> n = int (length data) \<and> (bytes < 0 \<or> n = bytes)
      \<and> local_content root disk' = (local_content root disk)(key \<mapsto> data)))
    \<and> (err \<noteq> None \<longrightarrow> local_content root disk' = local_content root disk)"
proof (cases "validateArtifactStoreWrite key body bytes")
  case None
  then obtain reader where body: "body = Some reader"
    by (cases body) (simp_all add: validateArtifactStoreWrite_def split: if_splits)
  obtain os disk1 where step: "next_results disk = (os, disk1)" by (cases "next_results disk")
  have same: "local_content root disk1 = local_content root disk"
    by (intro local_content_cong next_results_files [OF step])
  obtain data filled where fill: "fill_temporary os reader bytes = (data, filled)" by (cases "fill_temporary os reader bytes")
  note simps = local_Put_def None [unfolded body] step body fill Let_def
  consider e where "os_MkdirAll os = Some e" | e where "os_MkdirAll os = None" "os_CreateTemp os = Inl e"
    | m where "os_MkdirAll os = None" "os_CreateTemp os = Inr m"
    by (cases "os_MkdirAll os"; cases "os_CreateTemp os") auto
  then show ?thesis
  proof cases
    case 3
    show ?thesis
    proof (cases filled)
      case None
      then have "disk' = disk1\<lparr>disk_files := mput (objectPath root key) data (mdelete (temporary_name (objectPath root key) m) (disk_files disk1))\<rparr>"
        "err = None" "n = int (length data)" using assms(2) 3 by (simp_all add: simps)
      then show ?thesis using fill_temporary_ok [OF fill [unfolded None]] body same
        by (simp add: local_content_put [OF assms(1)] local_content_temporary)
    next
      case (Some e)
      then show ?thesis using assms(2) 3 same by (auto simp: simps local_content_temporary)
    qed
  qed (use assms(2) same in \<open>auto simp: simps\<close>)
next
  case (Some e)
  then show ?thesis using assms(2) by (auto simp: local_Put_def)
qed

lemma local_Open_content:
  assumes "content_key key" "local_Open root key rng disk = (r, disk')"
  shows "local_content root disk' = local_content root disk
    \<and> (\<forall>opened. r = Inr opened \<longrightarrow> (\<exists>data. local_content root disk key = Some data \<and> read_range data rng = Inr opened))"
proof -
  obtain os disk1 where step: "next_results disk = (os, disk1)" by (cases "next_results disk")
  note files = next_results_files [OF step]
  have "disk' = disk1" using assms step by (auto simp: local_Open_def content_key_def)
  then have "local_content root disk' = local_content root disk" using local_content_cong [OF files] by simp
  then show ?thesis using assms step files
    by (auto simp: local_Open_def local_content_def content_key_def split: option.splits sum.splits)
qed

lemma local_Delete_content:
  assumes "content_key key" "local_Delete root key disk = (err, disk')"
  shows "local_content root disk' = (if err = None then (local_content root disk)(key := None) else local_content root disk)"
proof -
  obtain os disk1 where step: "next_results disk = (os, disk1)" by (cases "next_results disk")
  have same: "local_content root disk1 = local_content root disk"
    by (intro local_content_cong next_results_files [OF step])
  have valid: "validArtifactStoreKey key" using assms(1) by (simp add: content_key_def)
  show ?thesis
  proof (cases "mhas (disk_files disk1) (objectPath root key)")
    case False
    then have "local_content root disk1 key = None" by (simp add: local_content_def mhas_def)
    then have "(local_content root disk1)(key := None) = local_content root disk1" by (simp add: fun_upd_idem)
    moreover have "err = None" "disk' = disk1" using False assms(2) valid by (auto simp: local_Delete_def step)
    ultimately show ?thesis using same by simp
  next
    case True
    then show ?thesis using assms(2) valid same local_content_delete [OF assms(1), of root "disk_files disk1" disk1]
      by (auto simp: local_Delete_def step split: option.splits)
  qed
qed

interpretation local_store: artifact_store "local_content root" "local_Put root" "local_Open root" "local_Delete root" for root
proof (unfold_locales, goal_cases)
  case (1 key body bytes s n s')
  from local_Put_content [OF this] show ?case by simp
next
  case (2 key body bytes s n err s')
  from local_Put_content [OF this] show ?case by simp
next
  case (3 key s rng opened s')
  from local_Open_content [OF this] show ?case by simp
next
  case (4 key s rng r s')
  from local_Open_content [OF this] show ?case by simp
next
  case (5 key s s')
  from local_Delete_content [OF this] show ?case by simp
next
  case (6 key s err s')
  from local_Delete_content [OF this] show ?case by simp
qed

section \<open>The properties of the stores\<close>

text \<open>
  C33. A key cannot leave the root of the local store: for a root that is a clean absolute path other than \<open>/\<close>, the file of a
  key that \<open>validArtifactStoreKey\<close> accepts is the root followed by a slash and the key, no part of the key is empty, \<open>.\<close> or
  \<open>..\<close>, and two keys never share a file.
\<close>

theorem store_key_confined:
  assumes "path_Clean root = root" "HasPrefix root ''/''" "root \<noteq> ''/''"
    and "validArtifactStoreKey key" "validArtifactStoreKey other"
  shows "objectPath root key = root @ ''/'' @ key
    \<and> (\<forall>part \<in> set (split_slash key). part \<noteq> [] \<and> part \<noteq> ''.'' \<and> part \<noteq> ''..'')
    \<and> (objectPath root other = objectPath root key \<longrightarrow> other = key)"
  using valid_key_parts [OF assms(4)]
  by (auto simp: objectPath_valid assms join_root_clean proper_part_def)

lemma demo_keys: "path_Clean ''/data/artifacts'' = ''/data/artifacts''" "validArtifactStoreKey ''artifact_1/content''"
    "validArtifactStoreKey ''artifact_2/content''" "\<not> validArtifactStoreKey ''artifact_1/../content''"
    "\<not> validArtifactStoreKey ''../content''"
  by code_simp+

theorem store_key_confined_witness:
  "objectPath ''/data/artifacts'' ''artifact_1/content'' = ''/data/artifacts/artifact_1/content''
    \<and> objectPath ''/data/artifacts'' ''artifact_2/content'' \<noteq> objectPath ''/data/artifacts'' ''artifact_1/content''"
  using store_key_confined [OF demo_keys(1) _ _ demo_keys(2) demo_keys(3)] by auto

text \<open>
  C13. The stores are maps: run any calls on content keys, on the store in memory and on the store of the local disk with any failures of
  the operating system. The replies are those of a map from keys to contents in which each successful write puts the whole content read,
  each failed one leaves the map as it was, each successful deletion removes the key, and each successful read gives the requested range
  of what the map holds; the store ends with the contents of that map.
\<close>

theorem stores_refine_map:
  assumes "\<forall>call \<in> set calls. content_key (call_key call)"
    and "serve_all memory_Put memory_Open memory_Delete calls s = (replies, s')"
    and "serve_all (local_Put root) (local_Open root) (local_Delete root) calls disk = (replies', disk')"
  shows "map_run calls replies (memory_content s) = Some (memory_content s')
    \<and> map_run calls replies' (local_content root disk) = Some (local_content root disk')"
  using memory.serve_all_map [OF assms(1,2)] local_store.serve_all_map [OF assms(1,3)] by simp

definition demo_calls :: "store_call list" where
  "demo_calls = [CallPut ''artifact_1/content'' (Some (''abcdef'', None)) (-1), CallPut ''artifact_1/content'' (Some (''xy'', None)) 3,
     CallOpen ''artifact_1/content'' (Some \<lparr>range_Offset = 2, range_Length = 3\<rparr>), CallDelete ''artifact_1/content'',
     CallOpen ''artifact_1/content'' None]"

lemma demo_calls_content: "\<forall>call \<in> set demo_calls. content_key (call_key call)"
proof -
  have "content_key ''artifact_1/content''" using demo_keys(2) unfolding content_key_def
    by (intro conjI exI [of _ "''artifact_1''"]) simp_all
  then show ?thesis by (simp add: demo_calls_def)
qed

definition demo_replies :: "store_reply list" where
  "demo_replies = [ReplyPut 6 None, ReplyPut 0 (Some ErrArtifactIntegrity),
     ReplyOpen (Inr \<lparr>read_Body = ''cde'', read_Offset = 2, read_SizeBytes = 3, read_TotalBytes = 6\<rparr>), ReplyDelete None,
     ReplyOpen (Inl ErrArtifactUnavailable)]"

lemma demo_served:
  "serve_all memory_Put memory_Open memory_Delete demo_calls NewMemoryArtifactStore = (demo_replies, NewMemoryArtifactStore)"
  "serve_all (local_Put ''/data'') (local_Open ''/data'') (local_Delete ''/data'') demo_calls \<lparr>disk_files = [], disk_results = []\<rparr>
     = (demo_replies, \<lparr>disk_files = [], disk_results = []\<rparr>)"
  by code_simp+

theorem stores_refine_map_witness:
  "map_run demo_calls demo_replies Map.empty = Some Map.empty"
  using stores_refine_map [OF demo_calls_content demo_served] by (simp add: memory_content_def NewMemoryArtifactStore_def)

end
