(* ===== verification/Artifact_Service.thy ===== *)
theory Artifact_Service
  imports Artifact_Repo Store_Contract
begin

text \<open>
  The service operations on artifacts (\<open>artifact_service.go\<close>, \<open>artifact_proxy.go\<close>): creation with content, the heartbeat of a
  write, reads, retention and the deletion worker. They run on a world: the repository, the states of the content stores, the clock
  (one reading for each call of \<open>nowUTC\<close>), the random identifiers, and the number of heartbeats during each write to come. The
  content stores and the proxies of providers are arbitrary functions on the state of the stores. A heartbeat touches only the
  repository and the store only its own state, so the heartbeats of a write are taken after it.
\<close>

section \<open>The world\<close>

record 'w ArtifactStore =
  store_Put :: "'w store_put"
  store_Open :: "'w store_open"
  store_Delete :: "'w store_delete"
  store_Reads :: "string \<Rightarrow> io_Reader option \<Rightarrow> int \<Rightarrow> 'w \<Rightarrow> nat" \<comment> \<open>the bytes that a write takes from its reader\<close>

record ArtifactProxyRequest =
  pr_ArtifactID :: string
  pr_OperationID :: string
  pr_JobID :: string
  pr_AttemptID :: string
  pr_ProviderID :: string
  pr_ProviderAccountID :: string
  pr_ProviderTaskID :: string
  pr_ProviderRequestID :: string
  pr_ProviderReference :: string
  pr_Role :: string
  pr_MediaType :: string
  pr_ExpectedSizeBytes :: int
  pr_ExpectedSHA256 :: string
  pr_Owner :: ArtifactOwner

text \<open>What a proxy returns, with a flag that says whether there is a body.\<close>

type_synonym 'w ArtifactProxy = "ArtifactProxyRequest \<Rightarrow> ArtifactByteRange option \<Rightarrow> 'w \<Rightarrow> (go_error + bool \<times> ArtifactRead) \<times> 'w"

record 'w ArtifactService =
  svc_artifactStores :: "(string, 'w ArtifactStore) gmap"
  svc_artifactPrimaryDriver :: string
  svc_artifactProxies :: "(string, 'w ArtifactProxy) gmap"

record 'w artifact_world =
  w_repo :: MemoryRepository
  w_stores :: 'w
  w_clock :: "nat \<Rightarrow> gotime"
  w_ticks :: nat
  w_random :: "nat \<Rightarrow> string"
  w_draws :: nat
  w_beats :: "nat list"

definition nowUTC :: "'w artifact_world \<Rightarrow> gotime \<times> 'w artifact_world" where
  "nowUTC w = (w_clock w (w_ticks w), w\<lparr>w_ticks := Suc (w_ticks w)\<rparr>)"

definition randomID :: "'w artifact_world \<Rightarrow> string \<times> 'w artifact_world" where
  "randomID w = (w_random w (w_draws w), w\<lparr>w_draws := Suc (w_draws w)\<rparr>)"

definition next_beats :: "'w artifact_world \<Rightarrow> nat \<times> 'w artifact_world" where
  "next_beats w = (case w_beats w of [] \<Rightarrow> (0, w) | n # later \<Rightarrow> (n, w\<lparr>w_beats := later\<rparr>))"

section \<open>Stores and proxies\<close>

definition SetArtifactStore :: "string \<Rightarrow> 'w ArtifactStore option \<Rightarrow> 'w ArtifactService \<Rightarrow> go_error option \<times> 'w ArtifactService" where
  "SetArtifactStore driver0 store s =
     (case store of
        None \<Rightarrow> (Some (errors_New ''artifact store is required''), s)
      | Some store \<Rightarrow>
          let driver = TrimSpace driver0
          in if \<not> oneOf driver [ArtifactStoreDriverMemory, ArtifactStoreDriverLocal, ArtifactStoreDriverS3, ArtifactStoreDriverOSS]
             then (Some (errors_New ''artifact store driver is not supported''), s)
             else (None, s\<lparr>svc_artifactStores := mput driver store (svc_artifactStores s), svc_artifactPrimaryDriver := driver\<rparr>))"

definition artifactStore :: "'w ArtifactService \<Rightarrow> string \<Rightarrow> 'w ArtifactStore option" where
  "artifactStore s driver = map_of (svc_artifactStores s) (TrimSpace driver)"

definition primaryArtifactStoreDriver :: "'w ArtifactService \<Rightarrow> string \<times> bool" where
  "primaryArtifactStoreDriver s =
     (let driver = TrimSpace (svc_artifactPrimaryDriver s)
      in (driver, driver \<noteq> [] \<and> mhas (svc_artifactStores s) driver))"

definition ErrArtifactProxyRequired :: go_error where
  "ErrArtifactProxyRequired = errors_New ''artifact provider proxy is required''"
definition ErrArtifactProxyInvalid :: go_error where
  "ErrArtifactProxyInvalid = errors_New ''artifact provider proxy is invalid''"

definition SetArtifactProxy :: "string \<Rightarrow> 'w ArtifactProxy option \<Rightarrow> 'w ArtifactService \<Rightarrow> go_error option \<times> 'w ArtifactService" where
  "SetArtifactProxy providerID proxy s =
     (case proxy of
        None \<Rightarrow> (Some ErrArtifactProxyInvalid, s)
      | Some proxy \<Rightarrow>
          if TrimSpace providerID = [] then (Some ErrArtifactProxyInvalid, s)
          else (None, s\<lparr>svc_artifactProxies := mput (TrimSpace providerID) proxy (svc_artifactProxies s)\<rparr>))"

definition artifactProxy :: "'w ArtifactService \<Rightarrow> string \<Rightarrow> 'w ArtifactProxy option" where
  "artifactProxy s providerID = map_of (svc_artifactProxies s) (TrimSpace providerID)"

section \<open>Transitions\<close>

text \<open>The call of \<open>TransitionArtifact\<close> on the repository, with the clock and the random identifiers.\<close>

definition repo_transition :: "ArtifactTransitionInput \<Rightarrow> 'w artifact_world \<Rightarrow> (Artifact \<times> bool \<times> go_error option) \<times> 'w artifact_world" where
  "repo_transition input w =
     (case nowUTC w of (now, w) \<Rightarrow> case randomID w of (eventRandom, w) \<Rightarrow> case randomID w of (outboxRandom, w) \<Rightarrow>
        case TransitionArtifact eventRandom outboxRandom input now (w_repo w) of (result, r) \<Rightarrow> (result, w\<lparr>w_repo := r\<rparr>))"

definition transitionArtifact ::
  "Artifact \<Rightarrow> string \<Rightarrow> string \<Rightarrow> ArtifactContentUpdate option \<Rightarrow> 'w artifact_world \<Rightarrow> (Artifact \<times> go_error option) \<times> 'w artifact_world" where
  "transitionArtifact artifact toStatus reason content w =
     (case repo_transition \<lparr>ati_ArtifactID = art_ID artifact, ati_ExpectedVersion = art_StatusVersion artifact, ati_ToStatus = toStatus,
        ati_Reason = reason, ati_Content = content\<rparr> w of
        ((updated, changed, err), w) \<Rightarrow>
          (case err of
             Some err \<Rightarrow> ((zero_Artifact, Some err), w)
           | None \<Rightarrow> if \<not> changed then ((updated, Some ErrArtifactStateConflict), w) else ((updated, None), w)))"

text \<open>The ticks of a heartbeat: each confirms the status of the artifact it saw last; the first that fails ends it.\<close>

fun heartbeat :: "nat \<Rightarrow> string \<Rightarrow> string \<Rightarrow> Artifact \<Rightarrow> 'w artifact_world \<Rightarrow> (Artifact \<times> go_error option) \<times> 'w artifact_world" where
  "heartbeat 0 status reason artifact w = ((artifact, None), w)"
| "heartbeat (Suc n) status reason artifact w =
     (case repo_transition \<lparr>ati_ArtifactID = art_ID artifact, ati_ExpectedVersion = art_StatusVersion artifact, ati_ToStatus = status,
        ati_Reason = reason, ati_Content = None\<rparr> w of
        ((updated, changed, err), w) \<Rightarrow>
          (case err of
             Some err \<Rightarrow> ((artifact, Some err), w)
           | None \<Rightarrow> if \<not> changed then ((artifact, Some ErrArtifactStateConflict), w) else heartbeat n status reason updated w))"

section \<open>Creation\<close>

record ArtifactCreateInput =
  aci_ID :: string
  aci_OperationID :: string
  aci_JobID :: string
  aci_AttemptID :: string
  aci_SourceArtifactID :: string
  aci_Role :: string
  aci_Policy :: string
  aci_MediaType :: string
  aci_StoreDriver :: string
  aci_ExternalReference :: string
  aci_ExpectedSizeBytes :: int
  aci_ExpectedSHA256 :: string
  aci_MaxBytes :: int
  aci_RetainUntil :: gotime
  aci_Pending :: bool

definition resolveArtifactPolicyAndReferences :: "AIOperation \<Rightarrow> ArtifactCreateInput \<Rightarrow> MemoryRepository \<Rightarrow> go_error + string" where
  "resolveArtifactPolicyAndReferences operation input r =
     (let policy = artifactPolicySnapshot (op_ArtifactPolicy operation);
          requestedPolicy = TrimSpace (aci_Policy input);
          owner = artifactOwnerFromOperation operation;
          job = FindAIJob (TrimSpace (aci_JobID input)) r;
          attempt = FindAIAttempt (TrimSpace (aci_AttemptID input)) r;
          source = FindArtifact (TrimSpace (aci_SourceArtifactID input)) r
      in if requestedPolicy \<noteq> [] \<and> requestedPolicy \<noteq> policy
         then Inl (errors_New ''artifact policy must match the operation policy snapshot'')
         else if TrimSpace (aci_JobID input) \<noteq> []
           \<and> (case job of None \<Rightarrow> True | Some job \<Rightarrow> job_OperationID job \<noteq> op_ID operation \<or> \<not> aiJobOwnerMatches job owner)
         then Inl ErrArtifactNotFound
         else if TrimSpace (aci_JobID input) \<noteq> [] \<and> (case job of None \<Rightarrow> False | Some job \<Rightarrow> job_ArtifactPolicy job \<noteq> policy)
         then Inl (errors_New ''artifact policy snapshots do not match'')
         else if TrimSpace (aci_AttemptID input) \<noteq> []
           \<and> (case attempt of None \<Rightarrow> True | Some attempt \<Rightarrow> att_OperationID attempt \<noteq> op_ID operation)
         then Inl ErrArtifactNotFound
         else if TrimSpace (aci_SourceArtifactID input) \<noteq> []
           \<and> (case source of None \<Rightarrow> True | Some source \<Rightarrow> \<not> artifactOwnerMatches source owner)
         then Inl ErrArtifactNotFound
         else if \<not> validArtifactPolicy policy then Inl (errors_New ''artifact policy is required'')
         else Inr policy)"

definition validateArtifactCreateInput :: "ArtifactCreateInput \<Rightarrow> io_Reader option \<Rightarrow> gotime \<Rightarrow> go_error option" where
  "validateArtifactCreateInput input body now =
     (let driver = TrimSpace (aci_StoreDriver input)
      in if \<not> validArtifactRole (TrimSpace (aci_Role input)) \<or> aci_ExpectedSizeBytes input < -1 \<or> aci_MaxBytes input < 0
         then Some (errors_New ''invalid artifact create input'')
         else if aci_RetainUntil input \<noteq> 0 \<and> \<not> aci_RetainUntil input > now
         then Some (errors_New ''artifact retain_until must be in the future'')
         else if body = None then
           (if aci_Pending input then
              (if aci_Role input \<noteq> ArtifactRoleInput \<or> driver \<noteq> ArtifactStoreDriverNone
               then Some (errors_New ''pending upload must be an input artifact without a content store'') else None)
            else if driver \<noteq> [] \<and> driver \<noteq> ArtifactStoreDriverNone
            then Some (errors_New ''metadata artifact cannot select a content store'')
            else if \<not> oneOf (TrimSpace (aci_Role input)) [ArtifactRoleMetadata, ArtifactRoleProviderReference]
              \<and> \<not> oneOf (aci_Policy input) [GatewayArtifactPolicyMetadataOnly, GatewayArtifactPolicyProxyOnly, GatewayArtifactPolicyCustomerSink]
            then Some ErrArtifactStoreRequired
            else if aci_Role input = ArtifactRoleProviderReference \<and> TrimSpace (aci_ExternalReference input) = []
            then Some (errors_New ''provider reference artifact requires an external reference'')
            else None)
         else if oneOf (aci_Policy input) [GatewayArtifactPolicyMetadataOnly, GatewayArtifactPolicyProxyOnly]
         then Some (errors_New ''artifact policy does not permit retained content'')
         else if \<not> oneOf driver [ArtifactStoreDriverMemory, ArtifactStoreDriverLocal, ArtifactStoreDriverS3, ArtifactStoreDriverOSS]
         then Some ErrArtifactStoreRequired else None)"

definition is_artifact_char :: "char \<Rightarrow> bool" where
  "is_artifact_char c \<longleftrightarrow> is_lower_or_digit c \<or> (65 \<le> byte_of c \<and> byte_of c \<le> 90) \<or> c = CHR ''_'' \<or> c = CHR ''-''"

definition validArtifactID :: "string \<Rightarrow> bool" where
  "validArtifactID ident \<longleftrightarrow> HasPrefix ident ''artifact_'' \<and> \<not> length ident > 128 \<and> list_all is_artifact_char ident"

definition new_artifact :: "AIOperation \<Rightarrow> ArtifactCreateInput \<Rightarrow> string \<Rightarrow> gotime \<Rightarrow> Artifact" where
  "new_artifact operation input ident now = zero_Artifact
     \<lparr>art_ID := ident, art_OperationID := op_ID operation, art_JobID := TrimSpace (aci_JobID input),
      art_AttemptID := TrimSpace (aci_AttemptID input), art_SourceArtifactID := TrimSpace (aci_SourceArtifactID input),
      art_ProfileScope := op_ProfileScope operation, art_TenantID := op_TenantID operation, art_IntegrationID := op_IntegrationID operation,
      art_PrincipalType := op_PrincipalType operation, art_PrincipalID := op_PrincipalID operation,
      art_ExternalSubjectReference := op_ExternalSubjectReference operation, art_Role := TrimSpace (aci_Role input),
      art_Policy := aci_Policy input, art_Status := ArtifactStatusPending, art_StatusVersion := 1,
      art_MediaType := TrimSpace (aci_MediaType input), art_StoreDriver := ArtifactStoreDriverNone,
      art_ExternalReference := TrimSpace (aci_ExternalReference input),
      art_RetainUntil := (if aci_RetainUntil input = 0 then now + ArtifactDefaultTTL else aci_RetainUntil input),
      art_CreatedAt := now, art_UpdatedAt := now\<rparr>"

definition new_artifact_id :: "ArtifactCreateInput \<Rightarrow> 'w artifact_world \<Rightarrow> string \<times> 'w artifact_world" where
  "new_artifact_id input w =
     (if TrimSpace (aci_ID input) = [] then (case randomID w of (ident, w) \<Rightarrow> (''artifact_'' @ ident, w)) else (TrimSpace (aci_ID input), w))"

text \<open>What both creations do: resolve the references, validate, and store the pending artifact with its first event.\<close>

definition create_pending ::
  "ArtifactCreateInput \<Rightarrow> io_Reader option \<Rightarrow> 'w artifact_world \<Rightarrow> (go_error + ArtifactCreateInput \<times> Artifact) \<times> 'w artifact_world" where
  "create_pending input body w =
     (case FindAIOperation (TrimSpace (aci_OperationID input)) (w_repo w) of
        None \<Rightarrow> (Inl ErrArtifactNotFound, w)
      | Some operation \<Rightarrow>
          (case resolveArtifactPolicyAndReferences operation input (w_repo w) of
             Inl err \<Rightarrow> (Inl err, w)
           | Inr policy \<Rightarrow>
               let input = input\<lparr>aci_Policy := policy\<rparr>
               in (case nowUTC w of (validationTime, w) \<Rightarrow>
                    (case validateArtifactCreateInput input body validationTime of
                       Some err \<Rightarrow> (Inl err, w)
                     | None \<Rightarrow>
                         (case nowUTC w of (now, w) \<Rightarrow>
                           (case new_artifact_id input w of
                              (artifactID, w) \<Rightarrow>
                                if \<not> validArtifactID artifactID then (Inl (errors_New ''invalid artifact id''), w)
                                else (let artifact = new_artifact operation input artifactID now
                                      in (case randomID w of (eventRandom, w) \<Rightarrow> case randomID w of (outboxRandom, w) \<Rightarrow>
                                           (case newArtifactEventRecords eventRandom outboxRandom artifact [] [] now of
                                              Inl err \<Rightarrow> (Inl err, w)
                                            | Inr (event, outbox) \<Rightarrow>
                                                (case CreateArtifact artifact event outbox (w_repo w) of
                                                   (Some err, r) \<Rightarrow> (Inl err, w\<lparr>w_repo := r\<rparr>)
                                                 | (None, r) \<Rightarrow> (Inr (input, artifact), w\<lparr>w_repo := r\<rparr>)))))))))))"

definition CreatePendingArtifact :: "ArtifactCreateInput \<Rightarrow> 'w artifact_world \<Rightarrow> (go_error + Artifact) \<times> 'w artifact_world" where
  "CreatePendingArtifact input w =
     (case create_pending (input\<lparr>aci_Pending := True, aci_StoreDriver := ArtifactStoreDriverNone\<rparr>) None w of
        (Inl err, w) \<Rightarrow> (Inl err, w)
      | (Inr (_, artifact), w) \<Rightarrow> (Inr artifact, w))"

text \<open>\<open>io.LimitReader\<close>: at most \<open>n\<close> bytes, after which the input ends without looking further.\<close>

definition LimitReader :: "io_Reader \<Rightarrow> int \<Rightarrow> io_Reader" where
  "LimitReader body n =
     (if n \<le> 0 then ([], None) else if int (length (fst body)) \<ge> n then (take (nat n) (fst body), None) else body)"

definition verifyArtifactContent :: "ArtifactCreateInput \<Rightarrow> int \<Rightarrow> string \<Rightarrow> int \<Rightarrow> go_error option" where
  "verifyArtifactContent input actualSize actualSHA maxBytes =
     (let expectedSHA = ToLower (TrimSpace (aci_ExpectedSHA256 input))
      in if actualSize > maxBytes then Some ErrArtifactTooLarge
         else if aci_ExpectedSizeBytes input > 0 \<and> actualSize \<noteq> aci_ExpectedSizeBytes input then Some ErrArtifactIntegrity
         else if expectedSHA \<noteq> [] \<and> expectedSHA \<noteq> actualSHA then Some ErrArtifactIntegrity
         else None)"

definition artifactFailureReason :: "go_error option \<Rightarrow> go_error option \<Rightarrow> string" where
  "artifactFailureReason storeErr verificationErr =
     (if (case verificationErr of None \<Rightarrow> False | Some err \<Rightarrow> errors_Is err ErrArtifactTooLarge) then ''too_large''
      else if verificationErr \<noteq> None then ''integrity_failed''
      else if storeErr \<noteq> None then ''store_write_failed''
      else ''artifact_failed'')"

definition writeArtifactContent ::
  "Artifact \<Rightarrow> ArtifactCreateInput \<Rightarrow> io_Reader \<Rightarrow> 'w ArtifactStore \<Rightarrow> 'w artifact_world \<Rightarrow> (Artifact \<times> go_error option) \<times> 'w artifact_world" where
  "writeArtifactContent uploading input body store w =
     (let storeKey = art_StoreKey uploading;
          driver = art_StoreDriver uploading;
          maxBytes = (if aci_MaxBytes input \<le> 0 then ArtifactDefaultMaxBytes else aci_MaxBytes input);
          reader = LimitReader body (wrap64 (maxBytes + 1));
          consumed = take (store_Reads store storeKey (Some reader) (-1) (w_stores w)) (fst reader);
          actualSize = int (length consumed);
          actualSHA = sha256_hex consumed
      in case store_Put store storeKey (Some reader) (-1) (w_stores w) of ((_, storeErr), stores) \<Rightarrow>
         case next_beats (w\<lparr>w_stores := stores\<rparr>) of (beats, w) \<Rightarrow>
         case heartbeat beats ArtifactStatusUploading ''ingest_heartbeat'' uploading w of ((uploading, heartbeatErr), w) \<Rightarrow>
           (case heartbeatErr of
              Some err \<Rightarrow> ((zero_Artifact, Some (errors_Join storeErr err)), w)
            | None \<Rightarrow>
                let content = \<lparr>upd_MediaType = TrimSpace (aci_MediaType input), upd_SizeBytes = actualSize, upd_SHA256 = actualSHA,
                      upd_StoreDriver = driver, upd_StoreKey = storeKey, upd_ExternalReference = TrimSpace (aci_ExternalReference input)\<rparr>;
                    verificationErr = verifyArtifactContent input actualSize actualSHA maxBytes
                in if storeErr \<noteq> None \<or> verificationErr \<noteq> None then
                     (case store_Delete store storeKey (w_stores w) of (_, stores) \<Rightarrow>
                      (case transitionArtifact uploading ArtifactStatusFailed (artifactFailureReason storeErr verificationErr) (Some content)
                         (w\<lparr>w_stores := stores\<rparr>) of
                         ((failed, Some err), w) \<Rightarrow> ((zero_Artifact, Some err), w)
                       | ((failed, None), w) \<Rightarrow> ((failed, if verificationErr \<noteq> None then verificationErr else storeErr), w)))
                   else transitionArtifact uploading ArtifactStatusReady [] (Some content) w))"

definition claim_content :: "Artifact \<Rightarrow> ArtifactCreateInput \<Rightarrow> string \<Rightarrow> string \<Rightarrow> 'w artifact_world \<Rightarrow> (Artifact \<times> go_error option) \<times> 'w artifact_world" where
  "claim_content artifact input driver reason w =
     transitionArtifact artifact ArtifactStatusUploading reason
       (Some \<lparr>upd_MediaType = TrimSpace (aci_MediaType input), upd_SizeBytes = 0, upd_SHA256 = [], upd_StoreDriver = driver,
         upd_StoreKey = art_ID artifact @ ''/content'', upd_ExternalReference = TrimSpace (aci_ExternalReference input)\<rparr>) w"

definition storeArtifactContent ::
  "'w ArtifactService \<Rightarrow> Artifact \<Rightarrow> ArtifactCreateInput \<Rightarrow> io_Reader \<Rightarrow> 'w artifact_world \<Rightarrow> (Artifact \<times> go_error option) \<times> 'w artifact_world" where
  "storeArtifactContent s artifact input body w =
     (case artifactStore s (TrimSpace (aci_StoreDriver input)) of
        None \<Rightarrow>
          (case transitionArtifact artifact ArtifactStatusFailed ''store_unavailable'' None w of
             ((failed, _), w) \<Rightarrow> ((failed, Some ErrArtifactStoreRequired), w))
      | Some store \<Rightarrow>
          (case claim_content artifact input (TrimSpace (aci_StoreDriver input)) [] w of
             ((_, Some err), w) \<Rightarrow> ((zero_Artifact, Some err), w)
           | ((uploading, None), w) \<Rightarrow> writeArtifactContent uploading input body store w))"

definition artifactIngestLease :: duration where "artifactIngestLease = 120 * 10 ^ 9"

definition resumeArtifactContent ::
  "'w ArtifactService \<Rightarrow> Artifact \<Rightarrow> ArtifactCreateInput \<Rightarrow> io_Reader option \<Rightarrow> 'w artifact_world \<Rightarrow> (Artifact \<times> go_error option) \<times> 'w artifact_world" where
  "resumeArtifactContent s artifact input body w =
     (case body of
        None \<Rightarrow> ((zero_Artifact, Some (errors_New ''artifact content reader is required'')), w)
      | Some body \<Rightarrow>
          if oneOf (art_Status artifact) [ArtifactStatusReady, ArtifactStatusDelivered] then ((artifact, None), w)
          else if \<not> oneOf (art_Status artifact) [ArtifactStatusPending, ArtifactStatusUploading, ArtifactStatusFailed]
          then ((zero_Artifact, Some ErrArtifactUnavailable), w)
          else (case (if art_Status artifact = ArtifactStatusUploading
                      then (case nowUTC w of (now, w) \<Rightarrow> (art_UpdatedAt artifact > now - artifactIngestLease, w)) else (False, w)) of
              (True, w) \<Rightarrow> ((zero_Artifact, Some ErrArtifactIngestInProgress), w)
            | (False, w) \<Rightarrow>
                let driver = (if art_StoreDriver artifact \<noteq> ArtifactStoreDriverNone \<and> TrimSpace (art_StoreDriver artifact) \<noteq> []
                      then art_StoreDriver artifact else TrimSpace (aci_StoreDriver input))
                in (case artifactStore s driver of
                      None \<Rightarrow> ((zero_Artifact, Some ErrArtifactStoreRequired), w)
                    | Some store \<Rightarrow>
                        (case claim_content artifact input driver ''ingest_claimed'' w of
                           ((_, Some err), w) \<Rightarrow> ((zero_Artifact, Some err), w)
                         | ((uploading, None), w) \<Rightarrow> writeArtifactContent uploading (input\<lparr>aci_StoreDriver := driver\<rparr>) body store w))))"

definition CreateArtifactFromReader ::
  "'w ArtifactService \<Rightarrow> ArtifactCreateInput \<Rightarrow> io_Reader option \<Rightarrow> 'w artifact_world \<Rightarrow> (Artifact \<times> go_error option) \<times> 'w artifact_world" where
  "CreateArtifactFromReader s input body w =
     (case create_pending input body w of
        (Inl err, w) \<Rightarrow> ((zero_Artifact, Some err), w)
      | (Inr (input, artifact), w) \<Rightarrow>
          (case body of
             None \<Rightarrow>
               transitionArtifact artifact ArtifactStatusReady []
                 (Some \<lparr>upd_MediaType = art_MediaType artifact, upd_SizeBytes = nonNegativeInt64 (aci_ExpectedSizeBytes input),
                   upd_SHA256 = ToLower (TrimSpace (aci_ExpectedSHA256 input)), upd_StoreDriver = ArtifactStoreDriverNone, upd_StoreKey = [],
                   upd_ExternalReference = art_ExternalReference artifact\<rparr>) w
           | Some body \<Rightarrow> storeArtifactContent s artifact input body w))"

section \<open>Reads\<close>

record CanonicalLimits =
  lim_QPSLimit :: int
  lim_RPMLimit :: int
  lim_TPMLimit :: int
  lim_ConcurrencyLimit :: int
  lim_MonthlyTokenLimit :: int
  lim_MonthlyBudgetMicros :: int
  lim_MonthlyImageLimit :: int
  lim_MonthlyVideoSecondsLimit :: int
  lim_MonthlyAudioSecondsLimit :: int

record CanonicalAuthContext =
  auth_CredentialSource :: string
  auth_CredentialID :: string
  auth_CredentialFingerprint :: string
  auth_IntegrationID :: string
  auth_ProfileScope :: string
  auth_TenantID :: string
  auth_PrincipalType :: string
  auth_PrincipalID :: string
  auth_ExternalSubjectReference :: string
  auth_PolicyID :: string
  auth_PolicyVersion :: int
  auth_Scopes :: "string list"
  auth_AllowedModels :: "string list"
  auth_AllowedModalities :: "string list"
  auth_AllowedOperations :: "string list"
  auth_AllowedCIDRs :: "string list"
  auth_Limits :: CanonicalLimits
  auth_LanePolicy :: string
  auth_ArtifactPolicy :: string
  auth_ArtifactSinkID :: string

definition aiJobOwnerFromAuth :: "CanonicalAuthContext \<Rightarrow> AIJobOwner" where
  "aiJobOwnerFromAuth auth =
     \<lparr>owner_ProfileScope = TrimSpace (auth_ProfileScope auth), owner_TenantID = TrimSpace (auth_TenantID auth),
      owner_IntegrationID = TrimSpace (auth_IntegrationID auth), owner_PrincipalType = TrimSpace (auth_PrincipalType auth),
      owner_PrincipalID = TrimSpace (auth_PrincipalID auth),
      owner_ExternalSubjectReference = TrimSpace (auth_ExternalSubjectReference auth)\<rparr>"

definition artifactOwnerFromJob :: "AIJob \<Rightarrow> ArtifactOwner" where
  "artifactOwnerFromJob job =
     \<lparr>owner_ProfileScope = job_ProfileScope job, owner_TenantID = job_TenantID job, owner_IntegrationID = job_IntegrationID job,
      owner_PrincipalType = job_PrincipalType job, owner_PrincipalID = job_PrincipalID job,
      owner_ExternalSubjectReference = job_ExternalSubjectReference job\<rparr>"

definition artifactOwnerFromOperationLikeArtifact :: "Artifact \<Rightarrow> AIJobOwner" where
  "artifactOwnerFromOperationLikeArtifact artifact =
     \<lparr>owner_ProfileScope = art_ProfileScope artifact, owner_TenantID = art_TenantID artifact,
      owner_IntegrationID = art_IntegrationID artifact, owner_PrincipalType = art_PrincipalType artifact,
      owner_PrincipalID = art_PrincipalID artifact, owner_ExternalSubjectReference = art_ExternalSubjectReference artifact\<rparr>"

definition ArtifactForAuth :: "CanonicalAuthContext \<Rightarrow> string \<Rightarrow> MemoryRepository \<Rightarrow> Artifact option" where
  "ArtifactForAuth auth ident r = FindOwnedArtifact (TrimSpace ident) (aiJobOwnerFromAuth auth) r"

definition zero_ArtifactQuery :: ArtifactQuery where
  "zero_ArtifactQuery = \<lparr>aq_Owner = None, aq_ProfileScope = [], aq_TenantID = [], aq_Search = [], aq_OperationID = [], aq_JobID = [],
     aq_AttemptID = [], aq_SourceArtifactID = [], aq_Role = [], aq_Policy = [], aq_Status = [], aq_RetainBefore = None, aq_Limit = 0,
     aq_Offset = 0\<rparr>"

definition ArtifactsForJobAndAuth :: "CanonicalAuthContext \<Rightarrow> string \<Rightarrow> MemoryRepository \<Rightarrow> Artifact list option" where
  "ArtifactsForJobAndAuth auth jobID r =
     (let owner = aiJobOwnerFromAuth auth
      in case FindOwnedAIJob (TrimSpace jobID) owner r of
           None \<Rightarrow> None
         | Some job \<Rightarrow> Some (QueryArtifacts (zero_ArtifactQuery\<lparr>aq_Owner := Some owner, aq_JobID := TrimSpace jobID, aq_Limit := 100\<rparr>) r))"

definition validateArtifactProxyRead :: "Artifact \<Rightarrow> ArtifactByteRange option \<Rightarrow> bool \<times> ArtifactRead \<Rightarrow> go_error option" where
  "validateArtifactProxyRead artifact requested read =
     (case read of (body, opened) \<Rightarrow>
        if \<not> body \<or> read_TotalBytes opened < 0 \<or> read_Offset opened < 0 \<or> read_SizeBytes opened < 0 then Some ErrArtifactIntegrity
        else if art_SizeBytes artifact > 0 \<and> read_TotalBytes opened \<noteq> art_SizeBytes artifact then Some ErrArtifactIntegrity
        else (case normalizeArtifactByteRange (read_TotalBytes opened) requested of
            Inl err \<Rightarrow> Some ErrArtifactIntegrity
          | Inr (expectedOffset, expectedLength) \<Rightarrow>
              if read_Offset opened \<noteq> expectedOffset \<or> read_SizeBytes opened \<noteq> expectedLength then Some ErrArtifactIntegrity else None))"

definition openProxiedArtifact ::
  "'w ArtifactService \<Rightarrow> Artifact \<Rightarrow> ArtifactByteRange option \<Rightarrow> 'w artifact_world \<Rightarrow> (go_error + ArtifactRead) \<times> 'w artifact_world" where
  "openProxiedArtifact s artifact byteRange w =
     (case (if art_Status artifact \<noteq> ArtifactStatusReady then (True, w)
            else (case nowUTC w of (now, w) \<Rightarrow> (\<not> art_RetainUntil artifact > now \<or> TrimSpace (art_ExternalReference artifact) = [], w))) of
        (True, w) \<Rightarrow> (Inl ErrArtifactUnavailable, w)
      | (False, w) \<Rightarrow>
          (case FindAIJob (art_JobID artifact) (w_repo w) of
             None \<Rightarrow> (Inl ErrArtifactUnavailable, w)
           | Some job \<Rightarrow>
               if \<not> aiJobOwnerMatches job (artifactOwnerFromOperationLikeArtifact artifact) then (Inl ErrArtifactUnavailable, w)
               else (case FindAIAttempt (art_AttemptID artifact) (w_repo w) of
                   None \<Rightarrow> (Inl ErrArtifactUnavailable, w)
                 | Some attempt \<Rightarrow>
                     if att_OperationID attempt \<noteq> art_OperationID artifact then (Inl ErrArtifactUnavailable, w)
                     else (case artifactProxy s (att_ProviderID attempt) of
                         None \<Rightarrow> (Inl ErrArtifactProxyRequired, w)
                       | Some proxy \<Rightarrow>
                           let request = \<lparr>pr_ArtifactID = art_ID artifact, pr_OperationID = art_OperationID artifact,
                                 pr_JobID = art_JobID artifact, pr_AttemptID = art_AttemptID artifact,
                                 pr_ProviderID = att_ProviderID attempt, pr_ProviderAccountID = att_ProviderAccountID attempt,
                                 pr_ProviderTaskID = att_ProviderTaskID attempt, pr_ProviderRequestID = att_ProviderRequestID attempt,
                                 pr_ProviderReference = art_ExternalReference artifact, pr_Role = art_Role artifact,
                                 pr_MediaType = art_MediaType artifact, pr_ExpectedSizeBytes = art_SizeBytes artifact,
                                 pr_ExpectedSHA256 = art_SHA256 artifact, pr_Owner = artifactOwnerFromJob job\<rparr>
                           in (case proxy request byteRange (w_stores w) of
                                 (Inl err, stores) \<Rightarrow> (Inl err, w\<lparr>w_stores := stores\<rparr>)
                               | (Inr (body, opened), stores) \<Rightarrow>
                                   (case validateArtifactProxyRead artifact byteRange (body, opened) of
                                      Some err \<Rightarrow> (Inl err, w\<lparr>w_stores := stores\<rparr>)
                                    | None \<Rightarrow>
                                        (Inr (opened\<lparr>read_Body := fst (LimitReader (read_Body opened, None) (read_SizeBytes opened))\<rparr>),
                                         w\<lparr>w_stores := stores\<rparr>)))))))"

text \<open>\<open>None\<close> when the owner has no such artifact, else the artifact and what was opened.\<close>

definition OpenArtifactForAuth ::
  "'w ArtifactService \<Rightarrow> CanonicalAuthContext \<Rightarrow> string \<Rightarrow> ArtifactByteRange option \<Rightarrow> 'w artifact_world
     \<Rightarrow> (Artifact \<times> (go_error + ArtifactRead)) option \<times> 'w artifact_world" where
  "OpenArtifactForAuth s auth ident byteRange w =
     (case ArtifactForAuth auth ident (w_repo w) of
        None \<Rightarrow> (None, w)
      | Some artifact \<Rightarrow>
          if art_Policy artifact = GatewayArtifactPolicyProxyOnly
          then (case openProxiedArtifact s artifact byteRange w of (opened, w) \<Rightarrow> (Some (artifact, opened), w))
          else (case nowUTC w of (now, w) \<Rightarrow>
            if \<not> artifactDownloadable artifact now then (Some (artifact, Inl ErrArtifactUnavailable), w)
            else (case artifactStore s (art_StoreDriver artifact) of
                None \<Rightarrow> (Some (artifact, Inl ErrArtifactStoreRequired), w)
              | Some store \<Rightarrow>
                  (case store_Open store (art_StoreKey artifact) byteRange (w_stores w) of
                     (opened, stores) \<Rightarrow> (Some (artifact, opened), w\<lparr>w_stores := stores\<rparr>)))))"

section \<open>Deletion and retention\<close>

definition RequestArtifactDeletionForAuth ::
  "CanonicalAuthContext \<Rightarrow> string \<Rightarrow> 'w artifact_world \<Rightarrow> (Artifact \<times> go_error option) option \<times> 'w artifact_world" where
  "RequestArtifactDeletionForAuth auth ident w =
     (case ArtifactForAuth auth ident (w_repo w) of
        None \<Rightarrow> (None, w)
      | Some artifact \<Rightarrow>
          if oneOf (art_Status artifact) [ArtifactStatusDeleteRequested, ArtifactStatusDeleting, ArtifactStatusDeleted, ArtifactStatusDeleteFailed]
          then (Some (artifact, None), w)
          else (case transitionArtifact artifact ArtifactStatusDeleteRequested ''client_requested'' None w of (result, w) \<Rightarrow> (Some result, w)))"

text \<open>
  The loops end with how many artifacts were processed, whether the caller returns now, and the error it returns.
\<close>

type_synonym progress = "int \<times> bool \<times> go_error option"

fun retain_artifacts :: "int \<Rightarrow> Artifact list \<Rightarrow> int \<Rightarrow> 'w artifact_world \<Rightarrow> progress \<times> 'w artifact_world" where
  "retain_artifacts limit [] processed w = ((processed, False, None), w)"
| "retain_artifacts limit (artifact # xs) processed w =
     (let toStatus = (if oneOf (art_Status artifact) [ArtifactStatusPending, ArtifactStatusUploading, ArtifactStatusFailed]
            then ArtifactStatusDeleteRequested else ArtifactStatusExpired)
      in (case transitionArtifact artifact toStatus ''retention_expired'' None w of
            ((_, err), w) \<Rightarrow>
              if (case err of None \<Rightarrow> False | Some err \<Rightarrow> \<not> errors_Is err ErrArtifactStateConflict) then ((processed, True, err), w)
              else (let processed = (if err = None then processed + 1 else processed)
                    in if processed \<ge> limit then ((processed, True, None), w) else retain_artifacts limit xs processed w)))"

fun retain_statuses :: "gotime \<Rightarrow> int \<Rightarrow> string list \<Rightarrow> int \<Rightarrow> 'w artifact_world \<Rightarrow> (int \<times> go_error option) \<times> 'w artifact_world" where
  "retain_statuses now limit [] processed w = ((processed, None), w)"
| "retain_statuses now limit (status # statuses) processed w =
     (case retain_artifacts limit (QueryArtifacts (zero_ArtifactQuery\<lparr>aq_Status := status, aq_RetainBefore := Some now,
          aq_Limit := limit - processed\<rparr>) (w_repo w)) processed w of
        ((processed, returned, err), w) \<Rightarrow> if returned then ((processed, err), w) else retain_statuses now limit statuses processed w)"

definition RunArtifactRetentionOnce :: "int \<Rightarrow> 'w artifact_world \<Rightarrow> (int \<times> go_error option) \<times> 'w artifact_world" where
  "RunArtifactRetentionOnce limit w =
     (if limit \<le> 0 then ((0, None), w)
      else (case nowUTC w of (now, w) \<Rightarrow>
        retain_statuses now limit [ArtifactStatusReady, ArtifactStatusDelivered, ArtifactStatusDeliveryFailed, ArtifactStatusPending,
          ArtifactStatusUploading, ArtifactStatusFailed] 0 w))"

definition deleteArtifactContent :: "'w ArtifactService \<Rightarrow> Artifact \<Rightarrow> 'w \<Rightarrow> go_error option \<times> 'w" where
  "deleteArtifactContent s artifact stores =
     (if art_StoreDriver artifact = ArtifactStoreDriverNone \<or> TrimSpace (art_StoreKey artifact) = [] then (None, stores)
      else (case artifactStore s (art_StoreDriver artifact) of
          None \<Rightarrow> (Some ErrArtifactStoreRequired, stores)
        | Some store \<Rightarrow> store_Delete store (art_StoreKey artifact) stores))"

definition is_conflict :: "go_error option \<Rightarrow> bool" where
  "is_conflict err = (case err of None \<Rightarrow> False | Some err \<Rightarrow> errors_Is err ErrArtifactStateConflict)"

text \<open>The claim of one candidate, by way of \<open>delete_requested\<close> when it is expired.\<close>

definition claim_deletion :: "Artifact \<Rightarrow> 'w artifact_world \<Rightarrow> (Artifact \<times> go_error option) \<times> 'w artifact_world" where
  "claim_deletion candidate w =
     (case (if art_Status candidate = ArtifactStatusExpired
            then transitionArtifact candidate ArtifactStatusDeleteRequested ''retention_cleanup'' None w else ((candidate, None), w)) of
        ((candidate, Some err), w) \<Rightarrow> ((candidate, Some err), w)
      | ((candidate, None), w) \<Rightarrow> transitionArtifact candidate ArtifactStatusDeleting ''worker_claimed'' None w)"

fun delete_artifacts :: "'w ArtifactService \<Rightarrow> int \<Rightarrow> Artifact list \<Rightarrow> int \<Rightarrow> 'w artifact_world \<Rightarrow> progress \<times> 'w artifact_world" where
  "delete_artifacts s limit [] processed w = ((processed, False, None), w)"
| "delete_artifacts s limit (candidate # xs) processed w =
     (case claim_deletion candidate w of
        ((deleting, Some err), w) \<Rightarrow>
          if is_conflict (Some err) then delete_artifacts s limit xs processed w else ((processed, True, Some err), w)
      | ((deleting, None), w) \<Rightarrow>
          (case deleteArtifactContent s deleting (w_stores w) of
             (deleteErr, stores) \<Rightarrow>
               let toStatus = (if deleteErr \<noteq> None then ArtifactStatusDeleteFailed else ArtifactStatusDeleted);
                   reason = (if deleteErr \<noteq> None then ''store_delete_failed'' else [])
               in (case transitionArtifact deleting toStatus reason None (w\<lparr>w_stores := stores\<rparr>) of
                     ((_, err), w) \<Rightarrow>
                       if err \<noteq> None \<and> \<not> is_conflict err then ((processed, True, err), w)
                       else (case deleteErr of
                           Some err \<Rightarrow> ((processed + 1, True, Some (errors_Prefix (''delete artifact '' @ art_ID deleting) err)), w)
                         | None \<Rightarrow> if processed + 1 \<ge> limit then ((processed + 1, True, None), w)
                             else delete_artifacts s limit xs (processed + 1) w))))"

fun delete_statuses :: "'w ArtifactService \<Rightarrow> int \<Rightarrow> string list \<Rightarrow> int \<Rightarrow> 'w artifact_world \<Rightarrow> (int \<times> go_error option) \<times> 'w artifact_world" where
  "delete_statuses s limit [] processed w = ((processed, None), w)"
| "delete_statuses s limit (status # statuses) processed w =
     (case delete_artifacts s limit (QueryArtifacts (zero_ArtifactQuery\<lparr>aq_Status := status, aq_Limit := limit - processed\<rparr>) (w_repo w))
          processed w of
        ((processed, returned, err), w) \<Rightarrow> if returned then ((processed, err), w) else delete_statuses s limit statuses processed w)"

definition RunArtifactDeletionWorkerOnce :: "'w ArtifactService \<Rightarrow> int \<Rightarrow> 'w artifact_world \<Rightarrow> (int \<times> go_error option) \<times> 'w artifact_world" where
  "RunArtifactDeletionWorkerOnce s limit w =
     (if limit \<le> 0 then ((0, None), w)
      else delete_statuses s limit [ArtifactStatusDeleteRequested, ArtifactStatusDeleteFailed, ArtifactStatusExpired] 0 w)"

definition ArtifactEvents :: "string \<Rightarrow> MemoryRepository \<Rightarrow> ArtifactEvent list" where
  "ArtifactEvents artifactID r = ListArtifactEvents (TrimSpace artifactID) r"

end
