(* ===== verification/Artifact_Log.thy ===== *)
theory Artifact_Log
  imports Artifact_Repo Event_Log Versioned_Store
begin

text \<open>
  What the methods on artifacts guarantee: the event log of an artifact is its complete history, its identity, owner and policy never
  change, its fields fit its status, and a deleted artifact has no content and never changes again.
\<close>

section \<open>One change of an artifact\<close>

definition legal_artifact_event :: "ArtifactEvent \<Rightarrow> bool" where
  "legal_artifact_event e \<longleftrightarrow> artifactStatusTransitionAllowed (artev_FromStatus e) (artev_ToStatus e)"

definition artifact_owner :: "Artifact \<Rightarrow> ArtifactOwner" where
  "artifact_owner a =
     \<lparr>owner_ProfileScope = art_ProfileScope a, owner_TenantID = art_TenantID a, owner_IntegrationID = art_IntegrationID a,
      owner_PrincipalType = art_PrincipalType a, owner_PrincipalID = art_PrincipalID a,
      owner_ExternalSubjectReference = art_ExternalSubjectReference a\<rparr>"

lemma artifactOwnerMatches_iff: "artifactOwnerMatches a owner \<longleftrightarrow> artifact_owner a = owner"
  by (cases owner) (auto simp: artifactOwnerMatches_def artifact_owner_def)

text \<open>What identifies an artifact and whom it belongs to.\<close>

definition same_artifact :: "Artifact \<Rightarrow> Artifact \<Rightarrow> bool" where
  "same_artifact a b \<longleftrightarrow> art_ID a = art_ID b \<and> art_OperationID a = art_OperationID b \<and> art_JobID a = art_JobID b
     \<and> art_AttemptID a = art_AttemptID b \<and> art_SourceArtifactID a = art_SourceArtifactID b
     \<and> artifact_owner a = artifact_owner b
     \<and> art_Role a = art_Role b \<and> art_Policy a = art_Policy b \<and> art_RetainUntil a = art_RetainUntil b
     \<and> art_CreatedAt a = art_CreatedAt b"

lemma same_artifact_refl [simp]: "same_artifact a a"
  by (simp add: same_artifact_def)

lemma same_artifact_trans: "same_artifact a b \<Longrightarrow> same_artifact b c \<Longrightarrow> same_artifact a c"
  by (simp add: same_artifact_def)

definition content_of :: "Artifact \<Rightarrow> string \<times> int \<times> string \<times> string \<times> string \<times> string" where
  "content_of a = (art_MediaType a, art_SizeBytes a, art_SHA256 a, art_StoreDriver a, art_StoreKey a, art_ExternalReference a)"

lemma applyArtifactContentUpdate_Inr:
  assumes "applyArtifactContentUpdate a update = Inr b"
  shows "same_artifact a b \<and> art_Status b = art_Status a \<and> art_StatusVersion b = art_StatusVersion a \<and> art_ErrorType b = art_ErrorType a
    \<and> art_ReadyAt b = art_ReadyAt a \<and> art_DeliveredAt b = art_DeliveredAt a \<and> art_DeletedAt b = art_DeletedAt a
    \<and> art_UpdatedAt b = art_UpdatedAt a \<and> 0 \<le> art_SizeBytes b
    \<and> (if art_StoreDriver b = ArtifactStoreDriverNone then art_StoreKey b = []
       else art_StoreDriver b \<in> {ArtifactStoreDriverMemory, ArtifactStoreDriverLocal, ArtifactStoreDriverS3, ArtifactStoreDriverOSS}
         \<and> validArtifactStoreKey (art_StoreKey b))"
proof -
  have b: "b = a\<lparr>art_MediaType := TrimSpace (upd_MediaType update), art_SizeBytes := upd_SizeBytes update,
      art_SHA256 := ToLower (TrimSpace (upd_SHA256 update)), art_StoreDriver := TrimSpace (upd_StoreDriver update),
      art_StoreKey := TrimSpace (upd_StoreKey update), art_ExternalReference := TrimSpace (upd_ExternalReference update)\<rparr>"
    using assms by (simp add: applyArtifactContentUpdate_def Let_def split: if_splits)
  have "0 \<le> upd_SizeBytes update
    \<and> oneOf (TrimSpace (upd_StoreDriver update)) [ArtifactStoreDriverNone, ArtifactStoreDriverMemory, ArtifactStoreDriverLocal, ArtifactStoreDriverS3, ArtifactStoreDriverOSS]
    \<and> (TrimSpace (upd_StoreDriver update) = ArtifactStoreDriverNone \<longrightarrow> TrimSpace (upd_StoreKey update) = [])
    \<and> (TrimSpace (upd_StoreDriver update) = ArtifactStoreDriverNone \<or> validArtifactStoreKey (TrimSpace (upd_StoreKey update)))"
    using assms by (simp add: applyArtifactContentUpdate_def Let_def not_less split: if_splits)
  then show ?thesis unfolding b by (auto simp: same_artifact_def artifact_owner_def)
qed

lemma newArtifactEventRecords_Inr:
  assumes "newArtifactEventRecords er orr a from reason at = Inr (e, ob)"
  shows "artev_ArtifactID e = art_ID a \<and> artev_Version e = art_StatusVersion a \<and> artev_FromStatus e = from
    \<and> artev_ToStatus e = art_Status a \<and> artev_ID e = ''artifact_event_'' @ er"
  using assms by (auto simp: newArtifactEventRecords_def Let_def split: if_splits)

lemma transition_artifact_fields [simp]:
  "art_Status (transition_artifact a to reason at) = to"
  "art_StatusVersion (transition_artifact a to reason at) = art_StatusVersion a + 1"
  "same_artifact a (transition_artifact a to reason at)"
  "art_MediaType (transition_artifact a to reason at) = art_MediaType a"
  "art_SizeBytes (transition_artifact a to reason at) = art_SizeBytes a"
  "art_SHA256 (transition_artifact a to reason at) = art_SHA256 a"
  "art_StoreDriver (transition_artifact a to reason at) = art_StoreDriver a"
  "art_StoreKey (transition_artifact a to reason at) = (if to = ArtifactStatusDeleted then [] else art_StoreKey a)"
  "art_ExternalReference (transition_artifact a to reason at) = (if to = ArtifactStatusDeleted then [] else art_ExternalReference a)"
  "art_ReadyAt (transition_artifact a to reason at) = (if to = ArtifactStatusReady then Some at else art_ReadyAt a)"
  "art_DeliveredAt (transition_artifact a to reason at) = (if to = ArtifactStatusDelivered then Some at else art_DeliveredAt a)"
  "art_DeletedAt (transition_artifact a to reason at) = (if to = ArtifactStatusDeleted then Some at else art_DeletedAt a)"
  "art_ErrorType (transition_artifact a to reason at)
     = (if oneOf to [ArtifactStatusFailed, ArtifactStatusDeliveryFailed, ArtifactStatusDeleteFailed] then TrimSpace reason else [])"
  by (simp_all add: transition_artifact_def Let_def same_artifact_def artifact_owner_def)

text \<open>The content may change while the artifact is uploaded or delivered.\<close>

definition takes_content :: "string \<Rightarrow> string \<Rightarrow> bool" where
  "takes_content from to \<longleftrightarrow>
     from \<in> {ArtifactStatusPending, ArtifactStatusUploading, ArtifactStatusFailed}
       \<and> to \<in> {ArtifactStatusUploading, ArtifactStatusReady, ArtifactStatusFailed}
     \<or> from = ArtifactStatusDelivering \<and> to \<in> {ArtifactStatusDelivered, ArtifactStatusDeliveryFailed}"

lemma prepare_Inr:
  assumes "prepareArtifactRepositoryTransition er orr a input at = Inr (b, e, ob)"
  obtains a' to where "to = TrimSpace (ati_ToStatus input)" "artifactStatusTransitionAllowed (art_Status a) to"
    "(case ati_Content input of None \<Rightarrow> a' = a
      | Some update \<Rightarrow> takes_content (art_Status a) to \<and> applyArtifactContentUpdate a update = Inr a')"
    "b = transition_artifact a' to (ati_Reason input) at"
    "newArtifactEventRecords er orr b (art_Status a) (ati_Reason input) at = Inr (e, ob)"
proof (cases "ati_Content input")
  case None
  with assms show ?thesis
    by (intro that [of "TrimSpace (ati_ToStatus input)" a])
      (auto simp: prepareArtifactRepositoryTransition_def prepareArtifactTransition_def Let_def split: if_splits)
next
  case (Some update)
  then obtain a' where a': "applyArtifactContentUpdate a update = Inr a'" "takes_content (art_Status a) (TrimSpace (ati_ToStatus input))"
    "prepareArtifactTransition er orr a' (ati_ToStatus input) (ati_Reason input) at = Inr (b, e, ob)"
    using assms by (auto simp: prepareArtifactRepositoryTransition_def Let_def takes_content_def split: if_splits)
  with Some applyArtifactContentUpdate_Inr [OF a'(1)] show ?thesis
    by (intro that [of "TrimSpace (ati_ToStatus input)" a']) (auto simp: prepareArtifactTransition_def Let_def split: if_splits)
qed

definition artifact_moves :: "Artifact \<Rightarrow> Artifact \<Rightarrow> ArtifactEvent \<Rightarrow> bool" where
  "artifact_moves a b e \<longleftrightarrow> same_artifact a b \<and> art_StatusVersion b = art_StatusVersion a + 1
     \<and> artev_ArtifactID e = art_ID a \<and> artev_Version e = art_StatusVersion b \<and> artev_FromStatus e = art_Status a
     \<and> artev_ToStatus e = art_Status b \<and> artifactStatusTransitionAllowed (art_Status a) (art_Status b)"

lemma artifact_prepare_moves:
  assumes "prepareArtifactRepositoryTransition er orr a input at = Inr (b, e, ob)"
  shows "artifact_moves a b e" and "art_Status b = TrimSpace (ati_ToStatus input)"
    and "\<not> takes_content (art_Status a) (art_Status b) \<Longrightarrow> content_of b = content_of a \<or> art_Status b = ArtifactStatusDeleted"
proof -
  obtain a' to where p: "to = TrimSpace (ati_ToStatus input)" "artifactStatusTransitionAllowed (art_Status a) to"
    "(case ati_Content input of None \<Rightarrow> a' = a
      | Some update \<Rightarrow> takes_content (art_Status a) to \<and> applyArtifactContentUpdate a update = Inr a')"
    "b = transition_artifact a' to (ati_Reason input) at"
    "newArtifactEventRecords er orr b (art_Status a) (ati_Reason input) at = Inr (e, ob)"
    using prepare_Inr [OF assms] .
  have same: "same_artifact a a' \<and> art_StatusVersion a' = art_StatusVersion a"
    using p(3) applyArtifactContentUpdate_Inr by (auto split: option.splits)
  then have "same_artifact a b" using p(4) same_artifact_trans transition_artifact_fields(3) by blast
  then show "artifact_moves a b e" using newArtifactEventRecords_Inr [OF p(5)] same p(2,4)
    by (simp add: artifact_moves_def same_artifact_def)
  show "art_Status b = TrimSpace (ati_ToStatus input)" using p by simp
  show "\<not> takes_content (art_Status a) (art_Status b) \<Longrightarrow> content_of b = content_of a \<or> art_Status b = ArtifactStatusDeleted"
    using p(3,4) by (auto simp: content_of_def split: option.splits)
qed

lemma TransitionArtifact_cases:
  assumes "TransitionArtifact er orr input at r = ((a', changed, err), r')"
  shows "if changed then err = None \<and> (\<exists>a e ob. map_of (artifacts r) (TrimSpace (ati_ArtifactID input)) = Some a
        \<and> art_StatusVersion a = ati_ExpectedVersion input
        \<and> prepareArtifactRepositoryTransition er orr a input at = Inr (a', e, ob) \<and> check_artifact_records e ob r = None
        \<and> r' = write_artifact (art_ID a') a' e ob r)
      else r' = r"
  using assms by (auto simp: TransitionArtifact_def split: option.splits if_splits sum.splits)

section \<open>The invariant\<close>

definition artifact_events :: "MemoryRepository \<Rightarrow> ArtifactEvent set" where
  "artifact_events r = set (mvalues (artifactEvents r))"

interpretation artifact_log: event_log "\<lambda>r. map_of (artifacts r)" artifact_events art_StatusVersion art_Status artev_ArtifactID
    artev_Version artev_FromStatus artev_ToStatus legal_artifact_event "\<lambda>e r. \<not> mhas (artifactEvents r) (artev_ID e)"
    "\<lambda>ob k a e r. write_artifact k a e ob r"
  by unfold_locales (auto simp: write_artifact_def artifact_events_def mvalues_mput_fresh mhas_def)

definition was_ready :: "string set" where
  "was_ready = {ArtifactStatusReady, ArtifactStatusDelivering, ArtifactStatusDelivered, ArtifactStatusDeliveryFailed, ArtifactStatusExpired}"

text \<open>The fields of an artifact fit each other.\<close>

definition artifact_ok :: "Artifact \<Rightarrow> bool" where
  "artifact_ok a \<longleftrightarrow> validArtifactStatus (art_Status a) \<and> 1 \<le> art_StatusVersion a \<and> validArtifactRole (art_Role a)
     \<and> validArtifactPolicy (art_Policy a) \<and> 0 \<le> art_SizeBytes a \<and> art_RetainUntil a \<noteq> 0 \<and> art_CreatedAt a \<noteq> 0
     \<and> (art_Status a = ArtifactStatusDeleted \<longrightarrow> art_StoreKey a = [] \<and> art_ExternalReference a = [] \<and> art_DeletedAt a \<noteq> None)
     \<and> (art_Status a \<in> was_ready \<longrightarrow> art_ReadyAt a \<noteq> None)
     \<and> (art_Status a = ArtifactStatusDelivered \<longrightarrow> art_DeliveredAt a \<noteq> None)"

text \<open>An artifact belongs to the owner of its operation and has the policy of its operation.\<close>

definition artifact_owned :: "MemoryRepository \<Rightarrow> Artifact \<Rightarrow> bool" where
  "artifact_owned r a \<longleftrightarrow> (\<exists>operation. map_of (aiOperations r) (art_OperationID a) = Some operation
     \<and> artifact_owner a = artifactOwnerFromOperation operation \<and> art_Policy a = artifactPolicySnapshot (op_ArtifactPolicy operation))"

definition artifacts_ok :: "MemoryRepository \<Rightarrow> bool" where
  "artifacts_ok r \<longleftrightarrow> keyed art_ID (artifacts r) \<and> keyed artev_ID (artifactEvents r) \<and> artifact_log.complete r
     \<and> (\<forall>k a. map_of (artifacts r) k = Some a \<longrightarrow> artifact_ok a \<and> artifact_owned r a)"

definition operations_kept :: "MemoryRepository \<Rightarrow> MemoryRepository \<Rightarrow> bool" where
  "operations_kept r r' \<longleftrightarrow> (\<forall>k operation. map_of (aiOperations r) k = Some operation \<longrightarrow>
     (\<exists>operation'. map_of (aiOperations r') k = Some operation'
       \<and> artifactOwnerFromOperation operation' = artifactOwnerFromOperation operation
       \<and> op_ArtifactPolicy operation' = op_ArtifactPolicy operation))"

text \<open>The methods on artifacts, and any method on the other data, which keeps the owners and policies of the operations.\<close>

inductive artifact_step :: "MemoryRepository \<Rightarrow> MemoryRepository \<Rightarrow> bool" where
  artifact_create: "CreateArtifact a e ob r = (err, r') \<Longrightarrow> artifact_step r r'"
| artifact_transition: "TransitionArtifact er orr input at r = (res, r') \<Longrightarrow> artifact_step r r'"
| artifact_other: "artifacts r' = artifacts r \<Longrightarrow> artifactEvents r' = artifactEvents r \<Longrightarrow> operations_kept r r' \<Longrightarrow> artifact_step r r'"

inductive_cases artifact_stepE: "artifact_step r r'"

lemma artifact_ok_content:
  assumes "artifact_ok a" "applyArtifactContentUpdate a update = Inr b" "art_Status a \<noteq> ArtifactStatusDeleted"
  shows "artifact_ok b"
  using assms(1,3) applyArtifactContentUpdate_Inr [OF assms(2)] by (auto simp: artifact_ok_def same_artifact_def split: if_splits)

lemma transition_allowed_valid: "artifactStatusTransitionAllowed from to \<Longrightarrow> validArtifactStatus to"
  by (auto simp: artifactStatusTransitionAllowed_def validArtifactStatus_def split: if_splits)

lemma transition_allowed_ready:
  "artifactStatusTransitionAllowed from to \<Longrightarrow> to \<in> was_ready \<Longrightarrow> to = ArtifactStatusReady \<or> from \<in> was_ready"
  by (auto simp: artifactStatusTransitionAllowed_def was_ready_def split: if_splits)

lemma Deleted_final: "\<not> artifactStatusTransitionAllowed ArtifactStatusDeleted to"
  by (simp add: artifactStatusTransitionAllowed_def)

lemma artifact_ok_transition:
  assumes ok: "artifact_ok a" and to: "artifactStatusTransitionAllowed (art_Status a) to"
  shows "artifact_ok (transition_artifact a to reason at)"
proof -
  let ?b = "transition_artifact a to reason at"
  have same: "art_Role ?b = art_Role a" "art_Policy ?b = art_Policy a" "art_RetainUntil ?b = art_RetainUntil a"
      "art_CreatedAt ?b = art_CreatedAt a"
    by (simp_all add: transition_artifact_def Let_def)
  show ?thesis unfolding artifact_ok_def
  proof (intro conjI impI)
    show "validArtifactStatus (art_Status ?b)" using transition_allowed_valid [OF to] by simp
    show "art_ReadyAt ?b \<noteq> None" if "art_Status ?b \<in> was_ready"
      using transition_allowed_ready [OF to] that ok by (auto simp: artifact_ok_def)
  qed (use ok in \<open>simp_all add: same artifact_ok_def\<close>)
qed

lemma artifact_owned_same: "same_artifact a b \<Longrightarrow> aiOperations r' = aiOperations r \<Longrightarrow> artifact_owned r a \<Longrightarrow> artifact_owned r' b"
  by (simp add: same_artifact_def artifact_owned_def)

lemma prepare_ok:
  assumes "artifact_ok a" "prepareArtifactRepositoryTransition er orr a input at = Inr (b, e, ob)"
  shows "artifact_ok b"
proof -
  obtain a' to where p: "to = TrimSpace (ati_ToStatus input)" "artifactStatusTransitionAllowed (art_Status a) to"
    "(case ati_Content input of None \<Rightarrow> a' = a
      | Some update \<Rightarrow> takes_content (art_Status a) to \<and> applyArtifactContentUpdate a update = Inr a')"
    "b = transition_artifact a' to (ati_Reason input) at"
    "newArtifactEventRecords er orr b (art_Status a) (ati_Reason input) at = Inr (e, ob)"
    using prepare_Inr [OF assms(2)] .
  have "art_Status a \<noteq> ArtifactStatusDeleted" using p(2) Deleted_final by metis
  then have "artifact_ok a'" using assms(1) p(3) artifact_ok_content by (auto split: option.splits)
  moreover have "art_Status a' = art_Status a" using p(3) applyArtifactContentUpdate_Inr by (auto split: option.splits)
  ultimately show ?thesis using p(2,4) artifact_ok_transition by simp
qed

lemma write_artifact_maps [simp]:
  "map_of (artifacts (write_artifact k a e ob r)) = (map_of (artifacts r))(k \<mapsto> a)"
  "aiOperations (write_artifact k a e ob r) = aiOperations r"
  by (simp_all add: write_artifact_def)

lemma check_artifact_records_None: "check_artifact_records e ob r = None \<Longrightarrow> \<not> mhas (artifactEvents r) (artev_ID e)"
  by (simp add: check_artifact_records_def split: if_splits)

lemma write_keyed:
  assumes "keyed art_ID (artifacts r)" "keyed artev_ID (artifactEvents r)"
  shows "keyed art_ID (artifacts (write_artifact (art_ID a) a e ob r)) \<and> keyed artev_ID (artifactEvents (write_artifact (art_ID a) a e ob r))"
  using assms by (auto simp: write_artifact_def)

lemma artifact_create_ok:
  assumes ok: "artifacts_ok r" and c: "CreateArtifact a e ob r = (err, r')"
  shows "artifacts_ok r'"
proof (cases err)
  case None
  have v: "validateArtifactAdmission a e ob = None" "validateMemoryArtifactReferences r a = None" "\<not> mhas (artifacts r) (art_ID a)"
    "check_artifact_records e ob r = None" and r': "r' = write_artifact (art_ID a) a e ob r"
    using c None by (auto simp: CreateArtifact_def split: option.splits if_splits)
  have unused: "\<not> mhas (artifactEvents r) (artev_ID e)" using check_artifact_records_None [OF v(4)] .
  have "artifact_ok a" using v(1)
    by (auto simp: validateArtifactAdmission_def artifact_ok_def validArtifactStatus_def was_ready_def split: if_splits)
  moreover have "artifact_owned r' a" using v(2)
    by (auto simp: r' validateMemoryArtifactReferences_def artifact_owned_def artifactOwnerMatches_iff Let_def split: option.splits if_splits)
  moreover have "artifact_log.complete r'"
    unfolding r' using ok v(1,3) unused by (intro artifact_log.store_complete)
      (auto simp: artifacts_ok_def validateArtifactAdmission_def mhas_def split: if_splits option.splits)
  ultimately show ?thesis using ok write_keyed [of r a e ob] by (auto simp: artifacts_ok_def r' artifact_owned_def)
next
  case (Some e)
  then show ?thesis using ok c by (auto simp: CreateArtifact_def split: option.splits if_splits)
qed

lemma artifact_transition_ok:
  assumes ok: "artifacts_ok r" and t: "TransitionArtifact er orr input at r = ((a', changed, err), r')"
  shows "artifacts_ok r'"
proof (cases changed)
  case True
  then obtain a e ob where a: "map_of (artifacts r) (TrimSpace (ati_ArtifactID input)) = Some a"
    "prepareArtifactRepositoryTransition er orr a input at = Inr (a', e, ob)" "check_artifact_records e ob r = None"
    and r': "r' = write_artifact (art_ID a') a' e ob r"
    using TransitionArtifact_cases [OF t] by auto
  note move = artifact_prepare_moves(1) [OF a(2)]
  have keys: "keyed art_ID (artifacts r)" "keyed artev_ID (artifactEvents r)" using ok by (simp_all add: artifacts_ok_def)
  then have id: "map_of (artifacts r) (art_ID a') = Some a" using keyed_lookup [OF keys(1) a(1)] a(1) move
    by (simp add: artifact_moves_def same_artifact_def)
  have "artifact_log.complete r'" unfolding r' using ok move id a(3)
    by (intro artifact_log.store_complete)
      (auto simp: artifacts_ok_def artifact_moves_def same_artifact_def legal_artifact_event_def check_artifact_records_None)
  moreover have "artifact_ok a'" using ok a(1) prepare_ok [OF _ a(2)] by (auto simp: artifacts_ok_def)
  moreover have "artifact_owned r' a'" using ok a(1) move artifact_owned_same [of a a' r' r]
    by (simp add: artifacts_ok_def r' artifact_moves_def)
  ultimately show ?thesis using ok write_keyed [OF keys, of a' e ob] by (auto simp: artifacts_ok_def r' artifact_owned_def)
next
  case False
  then show ?thesis using TransitionArtifact_cases [OF t] ok by simp
qed

lemma artifact_step_ok: "artifact_step r r' \<Longrightarrow> artifacts_ok r \<Longrightarrow> artifacts_ok r'"
proof (erule artifact_stepE)
  fix er orr input at and res :: "Artifact \<times> bool \<times> go_error option"
  assume "artifacts_ok r" "TransitionArtifact er orr input at r = (res, r')"
  then show "artifacts_ok r'" using artifact_transition_ok by (cases res) auto
next
  assume "artifacts_ok r" "artifacts r' = artifacts r" "artifactEvents r' = artifactEvents r" "operations_kept r r'"
  then show "artifacts_ok r'" unfolding artifacts_ok_def artifact_events_def artifact_owned_def operations_kept_def by (metis (no_types))
qed (rule artifact_create_ok)

section \<open>Runs\<close>

lemma artifact_run_ok: "artifact_step\<^sup>*\<^sup>* r r' \<Longrightarrow> artifacts_ok r \<Longrightarrow> artifacts_ok r'"
  by (induction rule: rtranclp_induct) (auto intro: artifact_step_ok)

lemma artifacts_new: "artifacts_ok NewMemoryRepository"
  by (simp add: artifacts_ok_def complete_log_def artifact_events_def NewMemoryRepository_def mvalues_def)

text \<open>The statuses after which the content of an artifact is not written any more.\<close>

definition sealed :: "string set" where
  "sealed = {ArtifactStatusDelivered, ArtifactStatusExpired, ArtifactStatusDeleteRequested, ArtifactStatusDeleting,
     ArtifactStatusDeleteFailed, ArtifactStatusDeleted}"

definition artifact_later :: "Artifact \<Rightarrow> Artifact \<Rightarrow> bool" where
  "artifact_later a b \<longleftrightarrow> same_artifact a b \<and> art_StatusVersion a \<le> art_StatusVersion b
     \<and> (art_StatusVersion b = art_StatusVersion a \<or> art_Status a = ArtifactStatusDeleted \<longrightarrow> b = a)
     \<and> (art_Status a \<in> sealed \<longrightarrow> art_Status b \<in> sealed \<and> (art_Status b \<noteq> ArtifactStatusDeleted \<longrightarrow> content_of b = content_of a))"

lemma artifact_later_refl [simp]: "artifact_later a a"
  by (simp add: artifact_later_def)

lemma artifact_later_trans: "artifact_later a b \<Longrightarrow> artifact_later b c \<Longrightarrow> artifact_later a c"
  unfolding artifact_later_def by (auto intro: same_artifact_trans)

lemma sealed_step: "artifactStatusTransitionAllowed from to \<Longrightarrow> from \<in> sealed \<Longrightarrow> to \<in> sealed \<and> \<not> takes_content from to"
  by (auto simp: artifactStatusTransitionAllowed_def sealed_def takes_content_def split: if_splits)

lemma prepare_later:
  assumes "prepareArtifactRepositoryTransition er orr a input at = Inr (b, e, ob)"
  shows "artifact_later a b"
proof -
  note move = artifact_prepare_moves(1) [OF assms]
  then have "artifactStatusTransitionAllowed (art_Status a) (art_Status b)" by (simp add: artifact_moves_def)
  from sealed_step [OF this] Deleted_final this artifact_prepare_moves(3) [OF assms] move show ?thesis
    by (auto simp: artifact_later_def artifact_moves_def)
qed

lemma artifact_step_later:
  assumes "artifact_step r r'" "artifacts_ok r" "map_of (artifacts r) k = Some a"
  shows "\<exists>b. map_of (artifacts r') k = Some b \<and> artifact_later a b"
  using assms(1)
proof (rule artifact_stepE)
  fix x e ob err assume c: "CreateArtifact x e ob r = (err, r')"
  then have "r' = r \<or> \<not> mhas (artifacts r) (art_ID x) \<and> r' = write_artifact (art_ID x) x e ob r"
    by (auto simp: CreateArtifact_def split: option.splits if_splits)
  then show ?thesis using assms(3) by (auto simp: mhas_def)
next
  fix er orr input at and res :: "Artifact \<times> bool \<times> go_error option"
  assume t: "TransitionArtifact er orr input at r = (res, r')"
  obtain a' changed err where res: "res = (a', changed, err)" by (cases res) auto
  show ?thesis
  proof (cases changed)
    case True
    then obtain a0 e ob where m: "map_of (artifacts r) (TrimSpace (ati_ArtifactID input)) = Some a0"
      "prepareArtifactRepositoryTransition er orr a0 input at = Inr (a', e, ob)" "r' = write_artifact (art_ID a') a' e ob r"
      using TransitionArtifact_cases [OF t [unfolded res]] by auto
    have keys: "keyed art_ID (artifacts r)" using assms(2) by (simp add: artifacts_ok_def)
    note later = prepare_later [OF m(2)]
    then have "art_ID a' = art_ID a0" by (simp add: artifact_later_def same_artifact_def)
    then show ?thesis using keyed_lookup [OF keys m(1)] keyed_lookup [OF keys assms(3)] assms(3) m later
      by (cases "k = art_ID a0") auto
  next
    case False
    then show ?thesis using TransitionArtifact_cases [OF t [unfolded res]] assms(3) by simp
  qed
qed (use assms(3) in simp)

lemma artifact_run_later:
  assumes "artifact_step\<^sup>*\<^sup>* r r'" "artifacts_ok r" "map_of (artifacts r) k = Some a"
  shows "\<exists>b. map_of (artifacts r') k = Some b \<and> artifact_later a b"
  using assms
proof (induction rule: rtranclp_induct)
  case (step s t)
  then obtain b where "map_of (artifacts s) k = Some b" "artifact_later a b" by auto
  moreover have "artifacts_ok s" using step artifact_run_ok by blast
  ultimately show ?case using artifact_step_later [OF step(2)] artifact_later_trans by blast
qed auto

section \<open>The properties of artifacts\<close>

lemma artifact_events_log:
  assumes "artifacts_ok r" "TrimSpace i = i" "i \<noteq> []"
  shows "set (ListArtifactEvents i r) = {e \<in> artifact_events r. artev_ArtifactID e = i}"
    and "distinct (ListArtifactEvents i r)" and "sorted (map artev_Version (ListArtifactEvents i r))"
proof -
  have unique: "e = f" if "e \<in> artifact_events r" "f \<in> artifact_events r" "artev_ArtifactID e = artev_ArtifactID f"
    "artev_Version e = artev_Version f" for e f
    using artifact_log.event_unique [of r e f] assms(1) that by (simp add: artifacts_ok_def)
  have order: "artifact_event_order x y \<longleftrightarrow> artev_Version x < artev_Version y"
    if "x \<in> set (mvalues (artifactEvents r))" "y \<in> set (mvalues (artifactEvents r))"
      "i = [] \<or> artev_ArtifactID x = i" "i = [] \<or> artev_ArtifactID y = i" for x y
    using unique [of x y] that assms(3) by (auto simp: artifact_event_order_def artifact_events_def)
  have keys: "keyed artev_ID (artifactEvents r)" using assms(1) by (simp add: artifacts_ok_def)
  note log = listing_sorted [where P = "\<lambda>e. i = [] \<or> artev_ArtifactID e = i" and eobject = artev_ArtifactID and k = i
      and ever = artev_Version and before = artifact_event_order, OF keys _ order refl]
  show "set (ListArtifactEvents i r) = {e \<in> artifact_events r. artev_ArtifactID e = i}"
    "distinct (ListArtifactEvents i r)" "sorted (map artev_Version (ListArtifactEvents i r))"
    using log assms(2,3) by (simp_all add: ListArtifactEvents_def sortArtifactEvents_def artifact_events_def)
qed

text \<open>
  C12. The event log of an artifact is its complete history: after any run from the empty repository, \<open>ListArtifactEvents\<close> lists the
  events of the versions 1, 2, up to the version of the artifact; each starts from the status in which the one before ended and is a move
  of the state machine, and the last ends in the status of the artifact.
\<close>

theorem artifact_event_log_complete:
  assumes "artifact_step\<^sup>*\<^sup>* NewMemoryRepository r" "map_of (artifacts r) i = Some a" "TrimSpace i = i" "i \<noteq> []"
  shows "let log = ListArtifactEvents i r in map artev_Version log = [1..art_StatusVersion a] \<and> log \<noteq> []
    \<and> artev_ToStatus (last log) = art_Status a
    \<and> (\<forall>n. Suc n < length log \<longrightarrow> artev_FromStatus (log ! Suc n) = artev_ToStatus (log ! n) \<and> legal_artifact_event (log ! Suc n))"
proof -
  have ok: "artifacts_ok r" using artifact_run_ok [OF assms(1) artifacts_new] .
  then have "artifact_log.complete r" by (simp add: artifacts_ok_def)
  from artifact_log.listing_history [OF this assms(2) artifact_events_log [OF ok assms(3,4)]] show ?thesis unfolding Let_def .
qed

text \<open>
  The fields of every artifact fit its status, whatever methods run: the status, role and policy are ones the program knows, the size
  is not negative, an artifact that was ready has the time at which it became so, a delivered one the time of delivery, and a deleted one has
  no store key and no external reference. An artifact has the owner and the policy of its operation. What the policy allows to be stored
  is not checked by the methods of the repository but by the creation in the service.
\<close>

lemma artifacts_well_formed:
  assumes "artifact_step\<^sup>*\<^sup>* NewMemoryRepository r" "map_of (artifacts r) i = Some a"
  shows "artifact_ok a \<and> artifact_owned r a"
  using artifact_run_ok [OF assms(1) artifacts_new] assms(2) by (auto simp: artifacts_ok_def)

text \<open>
  C29. What an artifact is and whom it belongs to never changes: along any further run it keeps its identifiers, owner, role, policy and
  retention, its version does not fall and changes with every change, from the delivered, expired and deletion statuses its content is not
  written again, and once it is deleted nothing of it changes.
\<close>

theorem artifact_identity_kept:
  assumes "artifact_step\<^sup>*\<^sup>* NewMemoryRepository r" "artifact_step\<^sup>*\<^sup>* r r'" "map_of (artifacts r) i = Some a"
  shows "\<exists>b. map_of (artifacts r') i = Some b \<and> same_artifact a b \<and> art_StatusVersion a \<le> art_StatusVersion b
    \<and> (art_StatusVersion b = art_StatusVersion a \<or> art_Status a = ArtifactStatusDeleted \<longrightarrow> b = a)
    \<and> (art_Status a \<in> sealed \<longrightarrow> art_Status b \<in> sealed \<and> (art_Status b \<noteq> ArtifactStatusDeleted \<longrightarrow> content_of b = content_of a))"
  using artifact_run_later [OF assms(2) artifact_run_ok [OF assms(1) artifacts_new] assms(3)] by (simp add: artifact_later_def)

section \<open>The transition as an update guarded by the version\<close>

lemma TransitionArtifact_changed:
  assumes "artifacts_ok r" "TransitionArtifact er orr input at r = ((b, True, err), r')"
  shows "\<exists>a. map_of (artifacts r) (TrimSpace (ati_ArtifactID input)) = Some a \<and> art_StatusVersion a = ati_ExpectedVersion input
    \<and> artifact_later a b \<and> art_StatusVersion b = art_StatusVersion a + 1
    \<and> artifactStatusTransitionAllowed (art_Status a) (art_Status b) \<and> art_Status b = TrimSpace (ati_ToStatus input)
    \<and> map_of (artifacts r') = (map_of (artifacts r))(TrimSpace (ati_ArtifactID input) \<mapsto> b)"
proof -
  obtain a e ob where a: "map_of (artifacts r) (TrimSpace (ati_ArtifactID input)) = Some a" "art_StatusVersion a = ati_ExpectedVersion input"
    "prepareArtifactRepositoryTransition er orr a input at = Inr (b, e, ob)" "r' = write_artifact (art_ID b) b e ob r"
    using TransitionArtifact_cases [OF assms(2)] by auto
  have "keyed art_ID (artifacts r)" using assms(1) by (simp add: artifacts_ok_def)
  from keyed_lookup [OF this a(1)] a prepare_later [OF a(3)] artifact_prepare_moves(1,2) [OF a(3)] show ?thesis
    by (simp add: artifact_moves_def same_artifact_def)
qed

interpretation artifact_versions: versioned_store artifacts_ok "\<lambda>r k. FindArtifact k r" art_StatusVersion
    "\<lambda>k n (er, orr, to, reason, update, at) r. case TransitionArtifact er orr \<lparr>ati_ArtifactID = k, ati_ExpectedVersion = n,
       ati_ToStatus = to, ati_Reason = reason, ati_Content = update\<rparr> at r of ((a, changed, err), r') \<Rightarrow> (changed, r')"
proof (unfold_locales, goal_cases)
  case (1 r k n x r')
  then show ?case by (auto split: prod.splits dest: TransitionArtifact_cases)
next
  case (2 r k n x r')
  then show ?case by (auto split: prod.splits dest: artifact_transition_ok)
next
  case (3 r k n x r')
  then obtain er orr to reason update at a err where t: "TransitionArtifact er orr \<lparr>ati_ArtifactID = k, ati_ExpectedVersion = n,
       ati_ToStatus = to, ati_Reason = reason, ati_Content = update\<rparr> at r = ((a, True, err), r')" by (auto split: prod.splits)
  from TransitionArtifact_changed [OF 3(1) this] 3(2) t show ?case by (auto simp: FindArtifact_def)
next
  case (4 r k n x r' j)
  then obtain er orr to reason update at a err where t: "TransitionArtifact er orr \<lparr>ati_ArtifactID = k, ati_ExpectedVersion = n,
       ati_ToStatus = to, ati_Reason = reason, ati_Content = update\<rparr> at r = ((a, True, err), r')" by (auto split: prod.splits)
  from TransitionArtifact_changed [OF 4(1) this] 4(2,3) t show ?case by (auto simp: FindArtifact_def)
next
  case (5 r k n x r' j)
  then obtain er orr to reason update at a err where t: "TransitionArtifact er orr \<lparr>ati_ArtifactID = k, ati_ExpectedVersion = n,
       ati_ToStatus = to, ati_Reason = reason, ati_Content = update\<rparr> at r = ((a, True, err), r')" by (auto split: prod.splits)
  obtain b where b: "map_of (artifacts r) (TrimSpace k) = Some b" "map_of (artifacts r') = (map_of (artifacts r))(TrimSpace k \<mapsto> a)"
    using TransitionArtifact_changed [OF 5(1) t] by auto
  have keys: "keyed art_ID (artifacts r)" using 5(1) by (simp add: artifacts_ok_def)
  have "map_of (artifacts r) (TrimSpace j) = Some b" using 5(3) b(1) by (simp add: FindArtifact_def)
  then have "TrimSpace j = TrimSpace k" using keyed_lookup [OF keys b(1)] keyed_lookup [OF keys] by auto
  then show ?case by (simp add: FindArtifact_def)
qed

section \<open>Witnesses\<close>

definition demo_operation_repo :: MemoryRepository where
  "demo_operation_repo = NewMemoryRepository\<lparr>aiOperations := [(''op_1'', zero_AIOperation\<lparr>op_ID := ''op_1'', op_TenantID := ''t1'',
     op_ArtifactPolicy := GatewayArtifactPolicyManaged\<rparr>)]\<rparr>"

definition demo_artifact :: Artifact where
  "demo_artifact = zero_Artifact\<lparr>art_ID := ''artifact_1'', art_OperationID := ''op_1'', art_TenantID := ''t1'', art_Role := ArtifactRoleFinal,
     art_Policy := GatewayArtifactPolicyManaged, art_Status := ArtifactStatusPending, art_StatusVersion := 1,
     art_StoreDriver := ArtifactStoreDriverNone, art_RetainUntil := 100, art_CreatedAt := 1, art_UpdatedAt := 1\<rparr>"

definition demo_artifact_records :: "ArtifactEvent \<times> TransactionalOutboxEvent" where
  "demo_artifact_records = (case newArtifactEventRecords ''e1'' ''o1'' demo_artifact [] [] 1 of Inr records \<Rightarrow> records)"

definition demo_created :: MemoryRepository where
  "demo_created = snd (CreateArtifact demo_artifact (fst demo_artifact_records) (snd demo_artifact_records) demo_operation_repo)"

definition demo_upload :: ArtifactTransitionInput where
  "demo_upload = \<lparr>ati_ArtifactID = ''artifact_1'', ati_ExpectedVersion = 1, ati_ToStatus = ArtifactStatusReady, ati_Reason = [],
     ati_Content = Some \<lparr>upd_MediaType = ''image/png'', upd_SizeBytes = 6, upd_SHA256 = ''AB'', upd_StoreDriver = ArtifactStoreDriverMemory,
       upd_StoreKey = ''artifact_1/content'', upd_ExternalReference = []\<rparr>\<rparr>"

definition demo_uploaded :: MemoryRepository where
  "demo_uploaded = snd (TransitionArtifact ''e2'' ''o2'' demo_upload 2 demo_created)"

definition demo_ready :: Artifact where
  "demo_ready = demo_artifact\<lparr>art_Status := ArtifactStatusReady, art_StatusVersion := 2, art_MediaType := ''image/png'', art_SizeBytes := 6,
     art_SHA256 := ''ab'', art_StoreDriver := ArtifactStoreDriverMemory, art_StoreKey := ''artifact_1/content'', art_UpdatedAt := 2,
     art_ReadyAt := Some 2\<rparr>"

lemma demo_uploaded_artifact: "map_of (artifacts demo_created) ''artifact_1'' = Some demo_artifact"
    "map_of (artifacts demo_uploaded) ''artifact_1'' = Some demo_ready"
  by code_simp+

lemma demo_steps: "artifact_step\<^sup>*\<^sup>* NewMemoryRepository demo_created" "artifact_step\<^sup>*\<^sup>* demo_created demo_uploaded"
proof -
  have "artifact_step NewMemoryRepository demo_operation_repo"
    by (rule artifact_other) (simp_all add: demo_operation_repo_def NewMemoryRepository_def operations_kept_def)
  moreover have "artifact_step demo_operation_repo demo_created"
    by (rule artifact_create [of demo_artifact "fst demo_artifact_records" "snd demo_artifact_records" _ "fst (CreateArtifact demo_artifact
        (fst demo_artifact_records) (snd demo_artifact_records) demo_operation_repo)"])
      (simp_all add: demo_created_def demo_artifact_def zero_Artifact_def)
  ultimately show "artifact_step\<^sup>*\<^sup>* NewMemoryRepository demo_created" by simp
  have "artifact_step demo_created demo_uploaded"
    by (rule artifact_transition [of "''e2''" "''o2''" demo_upload 2 _ "fst (TransitionArtifact ''e2'' ''o2'' demo_upload 2 demo_created)"])
      (simp add: demo_uploaded_def)
  then show "artifact_step\<^sup>*\<^sup>* demo_created demo_uploaded" by simp
qed

lemmas demo_run = rtranclp_trans [OF demo_steps]

lemma demo_artifact_id: "TrimSpace ''artifact_1'' = ''artifact_1''"
  by code_simp

theorem artifact_event_log_complete_witness:
  "map artev_Version (ListArtifactEvents ''artifact_1'' demo_uploaded) = [1, 2]
    \<and> artev_FromStatus (ListArtifactEvents ''artifact_1'' demo_uploaded ! 1) = artev_ToStatus (ListArtifactEvents ''artifact_1'' demo_uploaded ! 0)"
proof -
  have "[1..art_StatusVersion demo_ready] = [1, 2]" by (simp add: demo_ready_def upto_rec1)
  with artifact_event_log_complete [OF demo_run demo_uploaded_artifact(2) demo_artifact_id] show ?thesis
    by (simp add: Let_def) (metis One_nat_def length_map length_Cons lessI list.size(3))
qed

lemma artifacts_well_formed_witness: "artifact_ok demo_ready \<and> artifact_owned demo_uploaded demo_ready"
  using artifacts_well_formed [OF demo_run demo_uploaded_artifact(2)] .

theorem artifact_identity_kept_witness: "same_artifact demo_artifact demo_ready"
  using artifact_identity_kept [OF demo_steps demo_uploaded_artifact(1)] demo_uploaded_artifact(2) by auto

end
