(* ===== verification/Artifact_Content.thy ===== *)
theory Artifact_Content
  imports Artifact_Service Artifact_Log
begin

text \<open>
  What the service promises about contents: an artifact that was created with content serves exactly that content to its owner and to
  nobody else, whatever store of the contract holds it.
\<close>

section \<open>Stores that say what they read\<close>

locale content_store = artifact_store +
  fixes reads :: "string \<Rightarrow> io_Reader option \<Rightarrow> int \<Rightarrow> 's \<Rightarrow> nat"
  assumes reads_all: "content_key key \<Longrightarrow> put key (Some (data, None)) bytes s = ((n, None), s') \<Longrightarrow> reads key (Some (data, None)) bytes s = length data"
begin

abbreviation backend :: "'s ArtifactStore" where
  "backend \<equiv> \<lparr>store_Put = put, store_Open = read, store_Delete = delete, store_Reads = reads\<rparr>"

end

definition memory_Reads :: "string \<Rightarrow> io_Reader option \<Rightarrow> int \<Rightarrow> MemoryArtifactStore \<Rightarrow> nat" where
  "memory_Reads key body bytes s = (if validateArtifactStoreWrite key body bytes = None then length (fst (the body)) else 0)"

definition local_Reads :: "string \<Rightarrow> string \<Rightarrow> io_Reader option \<Rightarrow> int \<Rightarrow> local_disk \<Rightarrow> nat" where
  "local_Reads root key body bytes disk =
     (if validateArtifactStoreWrite key body bytes \<noteq> None then 0
      else (let os = fst (next_results disk)
            in if os_MkdirAll os \<noteq> None \<or> (\<exists>err. os_CreateTemp os = Inl err) \<or> os_Chmod os \<noteq> None then 0
               else (case os_Copy os of Some (n, err) \<Rightarrow> min n (length (fst (the body))) | None \<Rightarrow> length (fst (the body)))))"

interpretation memory: content_store memory_content memory_Put memory_Open memory_Delete memory_Reads
  by unfold_locales (auto simp: memory_Put_def memory_Reads_def split: option.splits)

interpretation local_store: content_store "local_content root" "local_Put root" "local_Open root" "local_Delete root" "local_Reads root" for root
proof unfold_locales
  fix key data bytes disk n disk'
  assume "local_Put root key (Some (data, None)) bytes disk = ((n, None), disk')"
  then show "local_Reads root key (Some (data, None)) bytes disk = length data"
    by (auto simp: local_Put_def local_Reads_def fill_temporary_def Let_def split: option.splits prod.splits sum.splits if_splits)
qed

section \<open>Identifiers and keys\<close>

lemma byte_of_consts: "byte_of (CHR ''_'') = 95" "byte_of (CHR ''-'') = 45" "byte_of (CHR ''/'') = 47" "byte_of (CHR ''a'') = 97"
    "byte_of (CHR ''t'') = 116" "byte_of (CHR 0x00) = 0" "byte_of (CHR 0x0D) = 13" "byte_of (CHR 0x0A) = 10" "byte_of (CHR 0x5C) = 92"
  by code_simp+

lemma artifact_char_byte:
  assumes "is_artifact_char c"
  shows "45 \<le> byte_of c \<and> byte_of c \<noteq> 47 \<and> byte_of c < 128 \<and> byte_of c \<noteq> 92"
proof -
  consider "97 \<le> byte_of c \<and> byte_of c \<le> 122" | "48 \<le> byte_of c \<and> byte_of c \<le> 57" | "65 \<le> byte_of c \<and> byte_of c \<le> 90"
    | "byte_of c = 95" | "byte_of c = 45"
    using assms by (auto simp: is_artifact_char_def is_lower_or_digit_def byte_of_consts)
  then show ?thesis by cases simp_all
qed

lemma artifact_char_plain: "is_artifact_char c \<Longrightarrow> plain_char c"
  using artifact_char_byte [of c] by (simp add: plain_char_def)

lemma validArtifactID_trimmed: "validArtifactID ident \<Longrightarrow> TrimSpace ident = ident \<and> ident \<noteq> []"
proof -
  assume v: "validArtifactID ident"
  then have nonempty: "ident \<noteq> []" by (auto simp: validArtifactID_def)
  then have "plain_char (hd ident)" "plain_char (last ident)"
    using v by (auto simp: validArtifactID_def list_all_iff intro: artifact_char_plain)
  then show ?thesis using nonempty TrimSpace_plain by simp
qed

lemma validArtifactID_chars:
  assumes "validArtifactID ident" "c \<in> set ident"
  shows "c \<notin> {CHR ''/'', CHR 0x00, CHR 0x0D, CHR 0x0A, CHR 0x5C}"
proof -
  have "is_artifact_char c" using assms by (auto simp: validArtifactID_def list_all_iff)
  from artifact_char_byte [OF this] byte_of_consts show ?thesis by auto
qed

lemma validArtifactID_proper:
  assumes "validArtifactID ident"
  shows "proper_part ident"
proof -
  obtain rest where ident: "ident = ''artifact_'' @ rest" using assms by (auto simp: validArtifactID_def HasPrefix_iff)
  have "ident \<noteq> [] \<and> ident \<noteq> ''.'' \<and> ident \<noteq> ''..''" unfolding ident by simp
  then show ?thesis using validArtifactID_chars [OF assms] by (auto simp: proper_part_def)
qed

lemma clean_proper_path:
  assumes "\<forall>part \<in> set (split_slash p). proper_part part" "\<not> HasPrefix p ''/''"
  shows "path_Clean p = p"
proof -
  have "clean_parts p = split_slash p" unfolding clean_parts_def using clean_proper [OF assms(1)] by simp
  then show ?thesis using assms(2) by (simp add: path_Clean_def join_split)
qed

lemma content_key_id:
  assumes "validArtifactID ident"
  shows "content_key (ident @ ''/content'')" "TrimSpace (ident @ ''/content'') = ident @ ''/content''"
proof -
  let ?key = "ident @ ''/content''"
  have "proper_part ''content''" by (simp add: proper_part_def)
  note proper = validArtifactID_proper [OF assms] this
  obtain rest where ident: "ident = CHR ''a'' # rest" using assms by (auto simp: validArtifactID_def HasPrefix_iff)
  have "split_slash ?key = split_slash ident @ split_slash ''content''" using split_slash_append [of ident "''content''"] by simp
  also have "split_slash ident = [ident]" using proper(1) by (intro split_slash_part) (simp add: proper_part_def)
  also have "split_slash ''content'' = [''content'']" by simp
  finally have parts: "\<forall>part \<in> set (split_slash ?key). proper_part part" using proper by simp
  have relative: "\<not> HasPrefix ?key ''/''" "\<not> HasPrefix ?key ''../''" "?key \<noteq> ''.''" "?key \<noteq> ''..''" "?key \<noteq> []"
    unfolding ident by simp_all
  have clean: "path_Clean ?key = ?key" using clean_proper_path [OF parts relative(1)] .
  have "c \<notin> {CHR 0x00, CHR 0x0D, CHR 0x0A, CHR 0x5C}" if "c \<in> set ?key" for c
    using that validArtifactID_chars [OF assms, of c] by auto
  then have "\<not> ContainsAny ?key [CHR 0x00, CHR 0x0D, CHR 0x0A, CHR 0x5C]" unfolding ContainsAny_def list_ex_iff by auto
  then have "validArtifactStoreKey ?key" using relative unfolding validArtifactStoreKey_def clean by blast
  then show "content_key ?key" by (auto simp: content_key_def)
  show "TrimSpace ?key = ?key" by (rule TrimSpace_plain) (simp_all add: ident plain_char_def byte_of_consts)
qed

section \<open>Transitions in the world\<close>

text \<open>The artifact of this identifier becomes \<open>b\<close>, and nothing else of the world that matters changes.\<close>

definition updates :: "'w artifact_world \<Rightarrow> string \<Rightarrow> Artifact \<Rightarrow> 'w artifact_world \<Rightarrow> bool" where
  "updates w ident b w' \<longleftrightarrow> artifacts_ok (w_repo w') \<and> map_of (artifacts (w_repo w')) = (map_of (artifacts (w_repo w)))(ident \<mapsto> b)
     \<and> w_stores w' = w_stores w \<and> aiOperations (w_repo w') = aiOperations (w_repo w)"

lemma repo_transition_run:
  assumes "repo_transition input w = ((b, changed, err), w')"
  obtains er orr at where "TransitionArtifact er orr input at (w_repo w) = ((b, changed, err), w_repo w')" "w_stores w' = w_stores w"
  using assms by (auto simp: repo_transition_def nowUTC_def randomID_def split: prod.splits)

lemma repo_transition_changed:
  assumes ok: "artifacts_ok (w_repo w)" and t: "repo_transition input w = ((b, True, err), w')"
  shows "err = None \<and> updates w (TrimSpace (ati_ArtifactID input)) b w'
    \<and> (\<exists>er orr at a e ob. map_of (artifacts (w_repo w)) (TrimSpace (ati_ArtifactID input)) = Some a
         \<and> art_StatusVersion a = ati_ExpectedVersion input \<and> prepareArtifactRepositoryTransition er orr a input at = Inr (b, e, ob))"
proof -
  obtain er orr at where r: "TransitionArtifact er orr input at (w_repo w) = ((b, True, err), w_repo w')" "w_stores w' = w_stores w"
    using repo_transition_run [OF t] .
  have "aiOperations (w_repo w') = aiOperations (w_repo w)" using TransitionArtifact_cases [OF r(1)] by auto
  then have "err = None \<and> updates w (TrimSpace (ati_ArtifactID input)) b w'"
    using TransitionArtifact_cases [OF r(1)] TransitionArtifact_changed [OF ok r(1)] artifact_transition_ok [OF ok r(1)] r(2)
    by (auto simp: updates_def)
  moreover obtain a e ob where "map_of (artifacts (w_repo w)) (TrimSpace (ati_ArtifactID input)) = Some a"
    "art_StatusVersion a = ati_ExpectedVersion input" "prepareArtifactRepositoryTransition er orr a input at = Inr (b, e, ob)"
    using TransitionArtifact_cases [OF r(1)] by auto
  ultimately show ?thesis by blast
qed

lemma prepare_content:
  assumes "prepareArtifactRepositoryTransition er orr a input at = Inr (b, e, ob)" "ati_Content input = Some u"
  shows "same_artifact a b \<and> art_Status b = TrimSpace (ati_ToStatus input) \<and> art_StatusVersion b = art_StatusVersion a + 1
    \<and> content_of b = (TrimSpace (upd_MediaType u), upd_SizeBytes u, ToLower (TrimSpace (upd_SHA256 u)), TrimSpace (upd_StoreDriver u),
        TrimSpace (upd_StoreKey u), TrimSpace (upd_ExternalReference u))"
proof -
  obtain a' to where p: "to = TrimSpace (ati_ToStatus input)" "artifactStatusTransitionAllowed (art_Status a) to"
    "(case ati_Content input of None \<Rightarrow> a' = a
      | Some update \<Rightarrow> takes_content (art_Status a) to \<and> applyArtifactContentUpdate a update = Inr a')"
    "b = transition_artifact a' to (ati_Reason input) at"
    "newArtifactEventRecords er orr b (art_Status a) (ati_Reason input) at = Inr (e, ob)"
    using prepare_Inr [OF assms(1)] .
  have a': "applyArtifactContentUpdate a u = Inr a'" "to \<noteq> ArtifactStatusDeleted"
    using p(3) assms(2) by (auto simp: takes_content_def)
  have "content_of a' = (TrimSpace (upd_MediaType u), upd_SizeBytes u, ToLower (TrimSpace (upd_SHA256 u)), TrimSpace (upd_StoreDriver u),
      TrimSpace (upd_StoreKey u), TrimSpace (upd_ExternalReference u))"
    using a'(1) by (auto simp: applyArtifactContentUpdate_def Let_def content_of_def split: if_splits)
  then have "content_of b = (TrimSpace (upd_MediaType u), upd_SizeBytes u, ToLower (TrimSpace (upd_SHA256 u)), TrimSpace (upd_StoreDriver u),
      TrimSpace (upd_StoreKey u), TrimSpace (upd_ExternalReference u))" using p(4) a'(2) by (simp add: content_of_def)
  then show ?thesis using artifact_prepare_moves(1,2) [OF assms(1)] by (simp add: artifact_moves_def)
qed

lemma transitionArtifact_ok:
  assumes "artifacts_ok (w_repo w)" "transitionArtifact a to reason content w = ((b, None), w')"
  shows "updates w (TrimSpace (art_ID a)) b w'
    \<and> (\<exists>er orr at a0 e ob. map_of (artifacts (w_repo w)) (TrimSpace (art_ID a)) = Some a0 \<and> art_StatusVersion a0 = art_StatusVersion a
      \<and> prepareArtifactRepositoryTransition er orr a0 \<lparr>ati_ArtifactID = art_ID a, ati_ExpectedVersion = art_StatusVersion a,
          ati_ToStatus = to, ati_Reason = reason, ati_Content = content\<rparr> at = Inr (b, e, ob))"
proof -
  let ?input = "\<lparr>ati_ArtifactID = art_ID a, ati_ExpectedVersion = art_StatusVersion a, ati_ToStatus = to, ati_Reason = reason, ati_Content = content\<rparr>"
  obtain changed err where t: "repo_transition ?input w = ((b, changed, err), w')" and changed: "changed"
    using assms(2) by (auto simp: transitionArtifact_def split: prod.splits option.splits if_splits)
  from repo_transition_changed [OF assms(1) t [unfolded eqTrueI [OF changed]]] show ?thesis by auto
qed

lemma heartbeat_ok:
  assumes "artifacts_ok (w_repo w)" "map_of (artifacts (w_repo w)) (TrimSpace (art_ID a)) = Some a"
    "heartbeat n status reason a w = ((b, None), w')" "status \<notin> {ArtifactStatusDeleted}" "TrimSpace status = status"
    "art_Status a = status"
  shows "updates w (TrimSpace (art_ID a)) b w' \<and> same_artifact a b \<and> content_of b = content_of a \<and> art_Status b = status"
  using assms
proof (induction n arbitrary: a w)
  case 0
  then show ?case by (auto simp: updates_def fun_upd_idem)
next
  case (Suc n)
  let ?input = "\<lparr>ati_ArtifactID = art_ID a, ati_ExpectedVersion = art_StatusVersion a, ati_ToStatus = status, ati_Reason = reason, ati_Content = None\<rparr>"
  obtain res w1 where res: "repo_transition ?input w = (res, w1)" by (cases "repo_transition ?input w")
  obtain c changed err where "res = (c, changed, err)" by (cases res)
  with res have t: "repo_transition ?input w = ((c, changed, err), w1)" by simp
  have changed: "changed" and rest: "heartbeat n status reason c w1 = ((b, None), w')"
    using Suc.prems(3) by (auto simp: t split: option.splits if_splits)
  note u = repo_transition_changed [OF Suc.prems(1) t [unfolded eqTrueI [OF changed]]]
  then obtain er orr at e ob where p: "prepareArtifactRepositoryTransition er orr a ?input at = Inr (c, e, ob)"
    using Suc.prems(2) by auto
  have c: "same_artifact a c" "art_Status c = status" using artifact_prepare_moves(1,2) [OF p] Suc.prems(5) by (simp_all add: artifact_moves_def)
  have "content_of c = content_of a" using p Suc.prems(4,5)
    by (auto simp: prepareArtifactRepositoryTransition_def prepareArtifactTransition_def Let_def content_of_def split: if_splits)
  moreover have "updates w1 (TrimSpace (art_ID c)) b w' \<and> same_artifact c b \<and> content_of b = content_of c \<and> art_Status b = status"
    using Suc.IH [OF _ _ rest Suc.prems(4,5) c(2)] u c(1) by (simp add: updates_def same_artifact_def)
  ultimately show ?case using u c(1) same_artifact_trans by (auto simp: updates_def same_artifact_def)
qed

section \<open>Writing content\<close>

lemma ToLower_hex [simp]: "ToLower (sha256_hex s) = sha256_hex s"
  using sha256_hex_normal(1) [of s] by simp

definition max_bytes :: "ArtifactCreateInput \<Rightarrow> int" where
  "max_bytes input = (if aci_MaxBytes input \<le> 0 then ArtifactDefaultMaxBytes else aci_MaxBytes input)"

text \<open>What a successful write leaves: the artifact is ready, and its fields and the store say what the reader delivered.\<close>

definition written :: "Artifact \<Rightarrow> ArtifactCreateInput \<Rightarrow> string \<Rightarrow> 'w artifact_world \<Rightarrow> Artifact \<Rightarrow> 'w artifact_world \<Rightarrow> bool" where
  "written a input data w b w' \<longleftrightarrow> artifacts_ok (w_repo w') \<and> map_of (artifacts (w_repo w')) (art_ID a) = Some b \<and> same_artifact a b
     \<and> art_Status b = ArtifactStatusReady \<and> art_SizeBytes b = int (length data) \<and> art_SHA256 b = sha256_hex data
     \<and> art_StoreDriver b = TrimSpace (art_StoreDriver a) \<and> art_StoreKey b = art_StoreKey a
     \<and> verifyArtifactContent input (int (length data)) (sha256_hex data) (max_bytes input) = None"

context content_store
begin

lemma write_content:
  assumes ok: "artifacts_ok (w_repo w)" and a: "map_of (artifacts (w_repo w)) (art_ID a) = Some a" "validArtifactID (art_ID a)"
    "art_StoreKey a = art_ID a @ ''/content''" "art_Status a = ArtifactStatusUploading"
    and run: "writeArtifactContent a input body backend w = ((b, None), w')"
  shows "\<exists>data. LimitReader body (wrap64 (max_bytes input + 1)) = (data, None) \<and> written a input data w b w'
    \<and> content (w_stores w') = (content (w_stores w))(art_StoreKey a \<mapsto> data)"
proof -
  let ?key = "art_StoreKey a"
  note trimmed = validArtifactID_trimmed [OF a(2)]
  note key = content_key_id [OF a(2), folded a(3)]
  let ?reader = "LimitReader body (wrap64 (max_bytes input + 1))"
  let ?consumed = "take (reads ?key (Some ?reader) (-1) (w_stores w)) (fst ?reader)"
  obtain n storeErr stores where put: "put ?key (Some ?reader) (-1) (w_stores w) = ((n, storeErr), stores)" by (metis prod.collapse)
  obtain beats w1 where beats: "next_beats (w\<lparr>w_stores := stores\<rparr>) = (beats, w1)" by (cases "next_beats (w\<lparr>w_stores := stores\<rparr>)")
  have w1: "w_repo w1 = w_repo w" "w_stores w1 = stores" using beats by (auto simp: next_beats_def split: list.splits)
  obtain c heartbeatErr w2 where heart: "heartbeat beats ArtifactStatusUploading ''ingest_heartbeat'' a w1 = ((c, heartbeatErr), w2)"
    by (metis prod.collapse)
  let ?content = "\<lparr>upd_MediaType = TrimSpace (aci_MediaType input), upd_SizeBytes = int (length ?consumed), upd_SHA256 = sha256_hex ?consumed,
      upd_StoreDriver = art_StoreDriver a, upd_StoreKey = ?key, upd_ExternalReference = TrimSpace (aci_ExternalReference input)\<rparr>"
  let ?verify = "verifyArtifactContent input (int (length ?consumed)) (sha256_hex ?consumed) (max_bytes input)"
  have result: "heartbeatErr = None \<and> storeErr = None \<and> ?verify = None
    \<and> transitionArtifact c ArtifactStatusReady [] (Some ?content) w2 = ((b, None), w')"
    using run unfolding writeArtifactContent_def Let_def max_bytes_def [symmetric]
    by (auto simp: put beats heart split: option.splits if_splits prod.splits)
  obtain data where data: "?reader = (data, None)" "content stores = (content (w_stores w))(?key \<mapsto> data)"
    using put_ok [OF key(1) put [unfolded conjunct1 [OF conjunct2 [OF result]]]] by auto
  have consumed: "?consumed = data"
    using reads_all [OF key(1) put [unfolded conjunct1 [OF conjunct2 [OF result]] data(1)]] by (simp add: data(1))
  have uploading: "TrimSpace ArtifactStatusUploading = ArtifactStatusUploading" "TrimSpace ArtifactStatusReady = ArtifactStatusReady"
    by code_simp+
  have ok1: "artifacts_ok (w_repo w1)" "map_of (artifacts (w_repo w1)) (TrimSpace (art_ID a)) = Some a" using ok a(1) w1 trimmed by simp_all
  have c: "updates w1 (art_ID a) c w2 \<and> same_artifact a c \<and> content_of c = content_of a"
    using heartbeat_ok [OF ok1, of beats ArtifactStatusUploading "''ingest_heartbeat''" c w2] heart result a(4) uploading trimmed by simp
  then have id: "art_ID c = art_ID a" by (simp add: same_artifact_def)
  have ok2: "artifacts_ok (w_repo w2)" "map_of (artifacts (w_repo w2)) (art_ID a) = Some c" using c by (simp_all add: updates_def)
  obtain er orr at e ob where p: "updates w2 (art_ID a) b w'"
    "prepareArtifactRepositoryTransition er orr c \<lparr>ati_ArtifactID = art_ID c, ati_ExpectedVersion = art_StatusVersion c,
       ati_ToStatus = ArtifactStatusReady, ati_Reason = [], ati_Content = Some ?content\<rparr> at = Inr (b, e, ob)"
    using transitionArtifact_ok [OF ok2(1) conjunct2 [OF conjunct2 [OF conjunct2 [OF result]]]] ok2(2) id trimmed by auto
  have fields: "same_artifact c b \<and> art_Status b = ArtifactStatusReady \<and> art_SizeBytes b = int (length data)
      \<and> art_SHA256 b = sha256_hex data \<and> art_StoreDriver b = TrimSpace (art_StoreDriver a) \<and> art_StoreKey b = ?key"
    using prepare_content [OF p(2), of ?content] uploading(2) key(2)
    unfolding consumed ArtifactTransitionInput.simps ArtifactContentUpdate.simps by (simp add: content_of_def a(3))
  have "written a input data w b w'" using p(1) fields c conjunct1 [OF conjunct2 [OF conjunct2 [OF result]]]
    unfolding written_def consumed by (auto simp: updates_def intro: same_artifact_trans)
  moreover have "content (w_stores w') = (content (w_stores w))(?key \<mapsto> data)" using p(1) c w1 data(2) by (simp add: updates_def)
  ultimately show ?thesis using data(1) by blast
qed

end

section \<open>Creation with content\<close>

lemma new_id_policy: "new_artifact_id (input\<lparr>aci_Policy := policy\<rparr>) w = new_artifact_id input w"
  by (simp add: new_artifact_id_def)

lemma verify_policy: "verifyArtifactContent (input\<lparr>aci_Policy := policy\<rparr>) = verifyArtifactContent input"
proof -
  have "aci_ExpectedSHA256 (input\<lparr>aci_Policy := policy\<rparr>) = aci_ExpectedSHA256 input"
    "aci_ExpectedSizeBytes (input\<lparr>aci_Policy := policy\<rparr>) = aci_ExpectedSizeBytes input" by simp_all
  then show ?thesis unfolding verifyArtifactContent_def by (simp only:)
qed

lemma stored_result:
  "(case (err, r) of (Some err, r) \<Rightarrow> (Inl err, f r) | (None, r) \<Rightarrow> (Inr v, f r)) = (Inr v', w') \<Longrightarrow> err = None \<and> v = v' \<and> f r = w'"
  by (cases err) simp_all

lemma create_pending_ok:
  assumes ok: "artifacts_ok (w_repo w)" and run: "create_pending input body w = (Inr (input', a), w')"
  shows "updates w (art_ID a) a w' \<and> map_of (artifacts (w_repo w)) (art_ID a) = None \<and> validArtifactID (art_ID a)
    \<and> art_Status a = ArtifactStatusPending \<and> input' = input\<lparr>aci_Policy := art_Policy a\<rparr>
    \<and> (\<exists>t. validateArtifactCreateInput input' body t = None) \<and> art_StatusVersion a = 1"
proof -
  obtain operation policy where op: "FindAIOperation (TrimSpace (aci_OperationID input)) (w_repo w) = Some operation"
    "resolveArtifactPolicyAndReferences operation input (w_repo w) = Inr policy"
    using run by (auto simp: create_pending_def split: option.splits sum.splits)
  obtain t w1 where t: "nowUTC w = (t, w1)" by (cases "nowUTC w")
  obtain now w2 where now: "nowUTC w1 = (now, w2)" by (cases "nowUTC w1")
  obtain ident w3 where name: "new_artifact_id input w2 = (ident, w3)" by (cases "new_artifact_id input w2")
  obtain e1 w4 where e1: "randomID w3 = (e1, w4)" by (cases "randomID w3")
  obtain o1 w5 where o1: "randomID w4 = (o1, w5)" by (cases "randomID w4")
  have repos: "w_repo w5 = w_repo w" "w_stores w5 = w_stores w"
    using t now name e1 o1 by (auto simp: nowUTC_def randomID_def new_artifact_id_def split: if_splits)
  let ?input = "input\<lparr>aci_Policy := policy\<rparr>"
  let ?a = "new_artifact operation ?input ident now"
  have run': "validateArtifactCreateInput ?input body t = None \<and> validArtifactID ident \<and>
    (case newArtifactEventRecords e1 o1 ?a [] [] now of
       Inl err \<Rightarrow> (Inl err, w5)
     | Inr (event, outbox) \<Rightarrow>
         (case CreateArtifact ?a event outbox (w_repo w5) of
            (Some err, r) \<Rightarrow> (Inl err, w5\<lparr>w_repo := r\<rparr>)
          | (None, r) \<Rightarrow> (Inr (?input, ?a), w5\<lparr>w_repo := r\<rparr>))) = (Inr (input', a), w')"
    using run unfolding create_pending_def
    by (simp add: op t now e1 o1 name new_id_policy Let_def split: option.splits if_splits)
  obtain event outbox where records: "newArtifactEventRecords e1 o1 ?a [] [] now = Inr (event, outbox)"
    using run' by (cases "newArtifactEventRecords e1 o1 ?a [] [] now") auto
  obtain err r where cr: "CreateArtifact ?a event outbox (w_repo w) = (err, r)" by (cases "CreateArtifact ?a event outbox (w_repo w)")
  have "(case (err, r) of (Some err, r) \<Rightarrow> (Inl err, w5\<lparr>w_repo := r\<rparr>) | (None, r) \<Rightarrow> (Inr (?input, ?a), w5\<lparr>w_repo := r\<rparr>)) = (Inr (input', a), w')"
    using conjunct2 [OF conjunct2 [OF run']] unfolding records sum.case prod.case repos(1) cr .
  from stored_result [OF this] have "err = None \<and> ?input = input' \<and> ?a = a \<and> w5\<lparr>w_repo := r\<rparr> = w'" by blast
  then have c: "CreateArtifact ?a event outbox (w_repo w) = (None, r)" "input' = ?input" "a = ?a" "w' = w5\<lparr>w_repo := r\<rparr>"
    using cr by blast+
  have r: "r = write_artifact (art_ID a) a event outbox (w_repo w)" "map_of (artifacts (w_repo w)) (art_ID a) = None"
    using c(1) [folded c(3)] by (auto simp: CreateArtifact_def mhas_def split: option.splits if_splits)
  have fields: "art_ID a = ident" "art_Status a = ArtifactStatusPending" "art_Policy a = policy"
    "art_StatusVersion a = 1"
    using c(3) by (simp_all add: new_artifact_def zero_Artifact_def)
  have "artifacts_ok r" using artifact_create_ok [OF ok c(1) [folded c(3)]] .
  then show ?thesis using run' r fields c(2,4) repos by (auto simp: updates_def)
qed

lemma Uploading_trimmed: "TrimSpace ArtifactStatusUploading = ArtifactStatusUploading"
  by code_simp

lemma claim_content_ok:
  assumes "artifacts_ok (w_repo w)" "map_of (artifacts (w_repo w)) (art_ID a) = Some a" "validArtifactID (art_ID a)"
    "claim_content a input driver reason w = ((b, None), w')"
  shows "updates w (art_ID a) b w' \<and> same_artifact a b \<and> art_Status b = ArtifactStatusUploading
    \<and> art_StoreDriver b = TrimSpace driver \<and> art_StoreKey b = art_ID a @ ''/content''"
proof -
  let ?u = "\<lparr>upd_MediaType = TrimSpace (aci_MediaType input), upd_SizeBytes = 0, upd_SHA256 = [], upd_StoreDriver = driver,
         upd_StoreKey = art_ID a @ ''/content'', upd_ExternalReference = TrimSpace (aci_ExternalReference input)\<rparr>"
  note trimmed = validArtifactID_trimmed [OF assms(3)]
  obtain er orr at e ob where p: "updates w (art_ID a) b w'"
    "prepareArtifactRepositoryTransition er orr a \<lparr>ati_ArtifactID = art_ID a, ati_ExpectedVersion = art_StatusVersion a,
       ati_ToStatus = ArtifactStatusUploading, ati_Reason = reason, ati_Content = Some ?u\<rparr> at = Inr (b, e, ob)"
    using transitionArtifact_ok [OF assms(1) assms(4) [unfolded claim_content_def]] assms(2) trimmed by auto
  then show ?thesis using prepare_content [OF p(2), of ?u] content_key_id(2) [OF assms(3)] Uploading_trimmed
    by (simp add: content_of_def)
qed

context content_store
begin

lemma create_content:
  assumes ok: "artifacts_ok (w_repo w)" and store: "artifactStore s (TrimSpace (aci_StoreDriver input)) = Some backend"
    and run: "CreateArtifactFromReader s input (Some body) w = ((b, None), w')"
  shows "\<exists>data. LimitReader body (wrap64 (max_bytes input + 1)) = (data, None) \<and> artifacts_ok (w_repo w')
    \<and> map_of (artifacts (w_repo w')) (art_ID b) = Some b \<and> validArtifactID (art_ID b) \<and> art_Status b = ArtifactStatusReady
    \<and> art_SizeBytes b = int (length data) \<and> art_SHA256 b = sha256_hex data \<and> art_StoreDriver b = TrimSpace (aci_StoreDriver input)
    \<and> art_StoreKey b = art_ID b @ ''/content''
    \<and> art_Policy b \<notin> {GatewayArtifactPolicyMetadataOnly, GatewayArtifactPolicyProxyOnly}
    \<and> TrimSpace (aci_StoreDriver input) \<noteq> ArtifactStoreDriverNone
    \<and> verifyArtifactContent input (int (length data)) (sha256_hex data) (max_bytes input) = None
    \<and> content (w_stores w') = (content (w_stores w))(art_StoreKey b \<mapsto> data)"
proof -
  obtain input' a w1 where c: "create_pending input (Some body) w = (Inr (input', a), w1)"
    and st: "storeArtifactContent s a input' body w1 = ((b, None), w')"
    using run by (auto simp: CreateArtifactFromReader_def split: sum.splits prod.splits)
  note p = create_pending_ok [OF ok c]
  have driver: "aci_StoreDriver input' = aci_StoreDriver input" using p by simp
  obtain u w2 where claim: "claim_content a input' (TrimSpace (aci_StoreDriver input)) [] w1 = ((u, None), w2)"
    and wr: "writeArtifactContent u input' body backend w2 = ((b, None), w')"
    using st store by (auto simp: storeArtifactContent_def driver split: option.splits prod.splits)
  have ok1: "artifacts_ok (w_repo w1)" "map_of (artifacts (w_repo w1)) (art_ID a) = Some a" using p by (simp_all add: updates_def)
  note u = claim_content_ok [OF ok1 conjunct1 [OF conjunct2 [OF conjunct2 [OF p]]] claim]
  then have id: "art_ID u = art_ID a" by (simp add: same_artifact_def)
  obtain data where w: "LimitReader body (wrap64 (max_bytes input' + 1)) = (data, None)" "written u input' data w2 b w'"
    "content (w_stores w') = (content (w_stores w2))(art_StoreKey u \<mapsto> data)"
    using write_content [OF _ _ _ _ _ wr] u p id by (auto simp: updates_def)
  have max: "max_bytes input' = max_bytes input" using p by (simp add: max_bytes_def)
  have verify: "verifyArtifactContent input' = verifyArtifactContent input" using p by (simp add: verify_policy)
  obtain t where v: "validateArtifactCreateInput (input\<lparr>aci_Policy := art_Policy a\<rparr>) (Some body) t = None" using p by auto
  have policy: "art_Policy a \<notin> {GatewayArtifactPolicyMetadataOnly, GatewayArtifactPolicyProxyOnly}"
    "TrimSpace (aci_StoreDriver input) \<noteq> ArtifactStoreDriverNone"
    using v by (auto simp: validateArtifactCreateInput_def Let_def cp_consts split: if_splits)
  have same: "art_ID b = art_ID a" "art_Policy b = art_Policy a" using w(2) u by (auto simp: written_def same_artifact_def)
  show ?thesis
    using w u policy same conjunct1 [OF conjunct2 [OF conjunct2 [OF p]]] conjunct1 [OF p]
    by (intro exI [of _ data]) (auto simp: max verify written_def id updates_def)
qed

lemma open_content:
  assumes "map_of (artifacts r) (art_ID b) = Some b" "validArtifactID (art_ID b)" "art_Status b = ArtifactStatusReady"
    "art_StoreKey b = art_ID b @ ''/content''" "art_Policy b \<noteq> GatewayArtifactPolicyProxyOnly" "art_StoreDriver b \<noteq> ArtifactStoreDriverNone"
    "artifactStore s (art_StoreDriver b) = Some backend" "w_repo w = r"
  shows "fst (OpenArtifactForAuth s auth (art_ID b) rng w)
    = (if aiJobOwnerFromAuth auth \<noteq> artifact_owner b then None
       else Some (b, if art_RetainUntil b > w_clock w (w_ticks w) then fst (read (art_StoreKey b) rng (w_stores w))
         else Inl ErrArtifactUnavailable))"
proof -
  note trimmed = validArtifactID_trimmed [OF assms(2)]
  have key: "TrimSpace (art_StoreKey b) \<noteq> []" using content_key_id(2) [OF assms(2)] by (simp add: assms(4))
  have find: "ArtifactForAuth auth (art_ID b) (w_repo w) = (if aiJobOwnerFromAuth auth \<noteq> artifact_owner b then None else Some b)"
    using assms(1,8) trimmed by (auto simp: ArtifactForAuth_def FindOwnedArtifact_def artifactOwnerMatches_iff)
  show ?thesis using assms(3,5,6,7) key
    by (simp add: OpenArtifactForAuth_def find nowUTC_def artifactDownloadable_def split: prod.splits)
qed

end

section \<open>The properties\<close>

definition memory_backend :: "MemoryArtifactStore ArtifactStore" where
  "memory_backend = \<lparr>store_Put = memory_Put, store_Open = memory_Open, store_Delete = memory_Delete, store_Reads = memory_Reads\<rparr>"

definition local_backend :: "string \<Rightarrow> local_disk ArtifactStore" where
  "local_backend root = \<lparr>store_Put = local_Put root, store_Open = local_Open root, store_Delete = local_Delete root,
     store_Reads = local_Reads root\<rparr>"

lemma LimitReader_whole:
  assumes "0 < m" "m < MaxInt64" "LimitReader body (wrap64 (m + 1)) = (data, None)" "int (length data) \<le> m"
  shows "body = (data, None)"
proof -
  have "wrap64 (m + 1) = m + 1" using assms(1,2) by (intro wrap64_id) (simp add: in64_def MinInt64_def MaxInt64_def)
  then show ?thesis using assms by (auto simp: LimitReader_def split: if_splits)
qed

lemma LimitReader_overflow: "LimitReader body (wrap64 (MaxInt64 + 1)) = ([], None)"
proof -
  have "wrap64 (MaxInt64 + 1) \<le> 0" by code_simp
  then show ?thesis by (simp add: LimitReader_def)
qed

lemma verified_size: "verifyArtifactContent input n sha m = None \<Longrightarrow> n \<le> m"
  by (auto simp: verifyArtifactContent_def Let_def split: if_splits)

text \<open>
  C11. Content comes back as it was stored, to its owner only: a creation from a reader that succeeds with the store in memory has read the
  whole input, within the size limit and with the size and digest that the caller expects, and records its size and SHA-256; then a
  read by the owner of the operation gives the requested range of exactly that content until the retention ends, and a read by any other
  caller finds no artifact. This holds with any number of heartbeats during the write.
\<close>

theorem created_content_is_served:
  assumes "artifact_step\<^sup>*\<^sup>* NewMemoryRepository (w_repo w)" "artifactStore s (TrimSpace (aci_StoreDriver input)) = Some memory_backend"
    and "aci_MaxBytes input < MaxInt64" "CreateArtifactFromReader s input (Some (data, readErr)) w = ((b, None), w')"
  shows "readErr = None \<and> art_Status b = ArtifactStatusReady \<and> art_SizeBytes b = int (length data) \<and> art_SHA256 b = sha256_hex data
    \<and> verifyArtifactContent input (int (length data)) (sha256_hex data) (max_bytes input) = None
    \<and> (\<forall>auth rng. fst (OpenArtifactForAuth s auth (art_ID b) rng w')
        = (if aiJobOwnerFromAuth auth \<noteq> artifact_owner b then None
           else Some (b, if art_RetainUntil b > w_clock w' (w_ticks w') then read_range data rng else Inl ErrArtifactUnavailable)))"
proof -
  have ok: "artifacts_ok (w_repo w)" using artifact_run_ok [OF assms(1) artifacts_new] .
  from memory.create_content [OF ok assms(2) [unfolded memory_backend_def] assms(4)] obtain content
    where c: "LimitReader (data, readErr) (wrap64 (max_bytes input + 1)) = (content, None)"
    and b: "map_of (artifacts (w_repo w')) (art_ID b) = Some b" "validArtifactID (art_ID b)" "art_Status b = ArtifactStatusReady"
      "art_StoreKey b = art_ID b @ ''/content''" "art_Policy b \<noteq> GatewayArtifactPolicyProxyOnly" "art_StoreDriver b \<noteq> ArtifactStoreDriverNone"
      "art_StoreDriver b = TrimSpace (aci_StoreDriver input)"
    and fields: "art_SizeBytes b = int (length content)" "art_SHA256 b = sha256_hex content"
      "verifyArtifactContent input (int (length content)) (sha256_hex content) (max_bytes input) = None"
      "memory_content (w_stores w') = (memory_content (w_stores w))(art_StoreKey b \<mapsto> content)"
    by auto
  have "0 < max_bytes input \<and> max_bytes input < MaxInt64"
    using assms(3) by (simp add: max_bytes_def ArtifactDefaultMaxBytes_def MaxInt64_def)
  then have data: "content = data" "readErr = None" using LimitReader_whole [OF _ _ c] verified_size [OF fields(3)] by auto
  have read: "fst (memory_Open (art_StoreKey b) rng (w_stores w')) = read_range data rng" for rng
    using fields(4) content_key_id(1) [OF b(2)] by (simp add: memory_Open_def memory_content_def data b(4) content_key_def)
  have store: "artifactStore s (art_StoreDriver b) = Some memory.backend" using assms(2) b(7) by (simp add: memory_backend_def)
  from memory.open_content [OF b(1-6) store refl] read fields b(3) data show ?thesis by simp
qed

text \<open>
  The limit of a write overflows at the largest 64-bit value: with \<open>MaxBytes\<close> set to it, the reader is limited to a negative
  number of bytes, so the creation reads nothing and, where it succeeds, reports a ready artifact of size 0, whatever the input holds.
\<close>

lemma largest_limit_reads_nothing:
  assumes "artifact_step\<^sup>*\<^sup>* NewMemoryRepository (w_repo w)" "artifactStore s (TrimSpace (aci_StoreDriver input)) = Some memory_backend"
    and "aci_MaxBytes input = MaxInt64" "CreateArtifactFromReader s input (Some body) w = ((b, None), w')"
  shows "art_Status b = ArtifactStatusReady \<and> art_SizeBytes b = 0 \<and> memory_content (w_stores w') (art_StoreKey b) = Some []"
proof -
  have ok: "artifacts_ok (w_repo w)" using artifact_run_ok [OF assms(1) artifacts_new] .
  have "max_bytes input = MaxInt64" using assms(3) by (simp add: max_bytes_def MaxInt64_def)
  with memory.create_content [OF ok assms(2) [unfolded memory_backend_def] assms(4)] LimitReader_overflow [of body]
  show ?thesis by auto
qed

section \<open>Witnesses\<close>

definition demo_service :: "MemoryArtifactStore ArtifactService" where
  "demo_service = snd (SetArtifactStore ArtifactStoreDriverMemory (Some memory_backend)
     \<lparr>svc_artifactStores = [], svc_artifactPrimaryDriver = [], svc_artifactProxies = []\<rparr>)"

definition demo_world :: "MemoryArtifactStore artifact_world" where
  "demo_world = \<lparr>w_repo = demo_operation_repo, w_stores = NewMemoryArtifactStore, w_clock = (\<lambda>n. 10 + int n), w_ticks = 0,
     w_random = (\<lambda>n. nat_digits n), w_draws = 0, w_beats = [1]\<rparr>"

definition demo_input :: "int \<Rightarrow> ArtifactCreateInput" where
  "demo_input maxBytes = \<lparr>aci_ID = ''artifact_1'', aci_OperationID = ''op_1'', aci_JobID = [], aci_AttemptID = [], aci_SourceArtifactID = [],
     aci_Role = ArtifactRoleFinal, aci_Policy = [], aci_MediaType = ''image/png'', aci_StoreDriver = ArtifactStoreDriverMemory,
     aci_ExternalReference = [], aci_ExpectedSizeBytes = -1, aci_ExpectedSHA256 = [], aci_MaxBytes = maxBytes, aci_RetainUntil = 0,
     aci_Pending = False\<rparr>"

text \<open>Whether a transition succeeds does not depend on the digest, so the witnesses need not compute it.\<close>

abbreviation with_digest :: "string \<Rightarrow> Artifact \<Rightarrow> Artifact" where
  "with_digest y b \<equiv> b\<lparr>art_SHA256 := y\<rparr>"

lemma apply_digest:
  "applyArtifactContentUpdate a (u\<lparr>upd_SHA256 := x\<rparr>) = map_sum id (with_digest (ToLower (TrimSpace x))) (applyArtifactContentUpdate a u)"
  by (simp add: applyArtifactContentUpdate_def Let_def)

lemma records_digest: "newArtifactEventRecords er orr (with_digest y b) = newArtifactEventRecords er orr b"
proof -
  have "art_ID (with_digest y b) = art_ID b" "art_StatusVersion (with_digest y b) = art_StatusVersion b"
    "art_Status (with_digest y b) = art_Status b" by simp_all
  then show ?thesis unfolding newArtifactEventRecords_def by (simp only:)
qed

lemma transition_artifact_digest: "transition_artifact (with_digest y b) to reason at = with_digest y (transition_artifact b to reason at)"
  by (simp add: transition_artifact_def Let_def)

lemma prepare_digest:
  "prepareArtifactTransition er orr (with_digest y b) to reason at
   = map_sum id (\<lambda>(c, e, ob). (with_digest y c, e, ob)) (prepareArtifactTransition er orr b to reason at)"
proof (cases "newArtifactEventRecords er orr (transition_artifact b (TrimSpace to) reason at) (art_Status b) reason at")
  case (Inl err)
  then show ?thesis
    by (simp add: prepareArtifactTransition_def Let_def transition_artifact_digest records_digest)
next
  case (Inr records)
  then show ?thesis
    by (cases records) (simp add: prepareArtifactTransition_def Let_def transition_artifact_digest records_digest)
qed

lemma prepare_update_digest:
  assumes "prepareArtifactRepositoryTransition er orr a (input\<lparr>ati_Content := Some u\<rparr>) at = Inr (b, e, ob)"
  shows "\<exists>y. prepareArtifactRepositoryTransition er orr a (input\<lparr>ati_Content := Some (u\<lparr>upd_SHA256 := x\<rparr>)\<rparr>) at = Inr (with_digest y b, e, ob)"
proof -
  let ?takes = "oneOf (art_Status a) [ArtifactStatusPending, ArtifactStatusUploading, ArtifactStatusFailed]
      \<and> oneOf (TrimSpace (ati_ToStatus input)) [ArtifactStatusUploading, ArtifactStatusReady, ArtifactStatusFailed]
    \<or> art_Status a = ArtifactStatusDelivering \<and> oneOf (TrimSpace (ati_ToStatus input)) [ArtifactStatusDelivered, ArtifactStatusDeliveryFailed]"
  obtain a' where a': "?takes" "applyArtifactContentUpdate a u = Inr a'"
    "prepareArtifactTransition er orr a' (ati_ToStatus input) (ati_Reason input) at = Inr (b, e, ob)"
    using assms by (auto simp: prepareArtifactRepositoryTransition_def Let_def split: if_splits)
  then have "prepareArtifactRepositoryTransition er orr a (input\<lparr>ati_Content := Some (u\<lparr>upd_SHA256 := x\<rparr>)\<rparr>) at
    = prepareArtifactTransition er orr (with_digest (ToLower (TrimSpace x)) a') (ati_ToStatus input) (ati_Reason input) at"
    by (auto simp: prepareArtifactRepositoryTransition_def Let_def apply_digest)
  then show ?thesis using a'(3) by (auto simp: prepare_digest)
qed

lemma transition_digest:
  assumes "transitionArtifact a to reason (Some u) w = ((b, None), w')"
  shows "\<exists>y w''. transitionArtifact a to reason (Some (u\<lparr>upd_SHA256 := x\<rparr>)) w = ((with_digest y b, None), w'')"
proof -
  let ?input = "\<lparr>ati_ArtifactID = art_ID a, ati_ExpectedVersion = art_StatusVersion a, ati_ToStatus = to, ati_Reason = reason, ati_Content = None\<rparr>"
  obtain now w1 where now: "nowUTC w = (now, w1)" by (cases "nowUTC w")
  obtain er w2 where er: "randomID w1 = (er, w2)" by (cases "randomID w1")
  obtain orr w3 where orr: "randomID w2 = (orr, w3)" by (cases "randomID w2")
  obtain r' where t: "TransitionArtifact er orr (?input\<lparr>ati_Content := Some u\<rparr>) now (w_repo w3) = ((b, True, None), r')"
    using assms by (auto simp: transitionArtifact_def repo_transition_def now er orr split: prod.splits option.splits if_splits)
  from TransitionArtifact_cases [OF this] obtain a0 e ob where a0: "map_of (artifacts (w_repo w3)) (TrimSpace (art_ID a)) = Some a0"
    "art_StatusVersion a0 = art_StatusVersion a"
    "prepareArtifactRepositoryTransition er orr a0 (?input\<lparr>ati_Content := Some u\<rparr>) now = Inr (b, e, ob)"
    "check_artifact_records e ob (w_repo w3) = None" by auto
  from prepare_update_digest [OF a0(3)] obtain y where
    "prepareArtifactRepositoryTransition er orr a0 (?input\<lparr>ati_Content := Some (u\<lparr>upd_SHA256 := x\<rparr>)\<rparr>) now = Inr (with_digest y b, e, ob)" by blast
  then have "TransitionArtifact er orr (?input\<lparr>ati_Content := Some (u\<lparr>upd_SHA256 := x\<rparr>)\<rparr>) now (w_repo w3)
    = ((with_digest y b, True, None), write_artifact (art_ID b) (with_digest y b) e ob (w_repo w3))"
    using a0 by (simp add: TransitionArtifact_def)
  then show ?thesis by (auto simp: transitionArtifact_def repo_transition_def now er orr)
qed

text \<open>A creation of \<open>abc\<close> with one heartbeat succeeds when its stages do.\<close>

definition demo_upload_update :: "ArtifactCreateInput \<Rightarrow> Artifact \<Rightarrow> string \<Rightarrow> ArtifactContentUpdate" where
  "demo_upload_update i u consumed = \<lparr>upd_MediaType = TrimSpace (aci_MediaType i), upd_SizeBytes = int (length consumed), upd_SHA256 = [],
     upd_StoreDriver = art_StoreDriver u, upd_StoreKey = art_StoreKey u, upd_ExternalReference = TrimSpace (aci_ExternalReference i)\<rparr>"

definition demo_stages :: "int \<Rightarrow> bool" where
  "demo_stages m \<longleftrightarrow>
     (case create_pending (demo_input m) (Some (''abc'', None)) demo_world of
        (Inl err, w1) \<Rightarrow> False
      | (Inr (i, a), w1) \<Rightarrow>
          aci_ExpectedSHA256 i = [] \<and> aci_ExpectedSizeBytes i = -1 \<and> aci_StoreDriver i = ArtifactStoreDriverMemory
          \<and> (case claim_content a i ArtifactStoreDriverMemory [] w1 of ((u, err), w2) \<Rightarrow> err = None
            \<and> (case LimitReader (''abc'', None) (wrap64 (max_bytes i + 1)) of reader \<Rightarrow>
                case take (memory_Reads (art_StoreKey u) (Some reader) (-1) (w_stores w2)) (fst reader) of consumed \<Rightarrow>
                int (length consumed) \<le> max_bytes i
                \<and> (case memory_Put (art_StoreKey u) (Some reader) (-1) (w_stores w2) of ((n, err), stores) \<Rightarrow> err = None
                  \<and> (case next_beats (w2\<lparr>w_stores := stores\<rparr>) of (beats, w3) \<Rightarrow>
                      case heartbeat beats ArtifactStatusUploading ''ingest_heartbeat'' u w3 of ((c, err), w4) \<Rightarrow> err = None
                      \<and> snd (fst (transitionArtifact c ArtifactStatusReady [] (Some (demo_upload_update i u consumed)) w4)) = None)))))"

lemma demo_stages_ok: "demo_stages 0" "demo_stages MaxInt64"
  by code_simp+

lemma Memory_trimmed: "TrimSpace ArtifactStoreDriverMemory = ArtifactStoreDriverMemory"
  by code_simp

lemma demo_store: "artifactStore demo_service ArtifactStoreDriverMemory = Some memory_backend"
  by (simp add: artifactStore_def demo_service_def SetArtifactStore_def Let_def Memory_trimmed)

lemma demo_runs:
  assumes "demo_stages m"
  shows "\<exists>b w'. CreateArtifactFromReader demo_service (demo_input m) (Some (''abc'', None)) demo_world = ((b, None), w')"
proof -
  obtain i a w1 where pending: "create_pending (demo_input m) (Some (''abc'', None)) demo_world = (Inr (i, a), w1)"
    using assms by (auto simp: demo_stages_def split: prod.splits sum.splits)
  note stages = assms [unfolded demo_stages_def pending prod.case sum.case]
  obtain u err1 w2 where claim: "claim_content a i ArtifactStoreDriverMemory [] w1 = ((u, err1), w2)" by (metis prod.collapse)
  note stages = stages [unfolded claim prod.case]
  let ?reader = "LimitReader (''abc'', None) (wrap64 (max_bytes i + 1))"
  let ?consumed = "take (memory_Reads (art_StoreKey u) (Some ?reader) (-1) (w_stores w2)) (fst ?reader)"
  obtain n err2 stores where put: "memory_Put (art_StoreKey u) (Some ?reader) (-1) (w_stores w2) = ((n, err2), stores)" by (metis prod.collapse)
  note stages = stages [unfolded put prod.case]
  obtain beats w3 where beats: "next_beats (w2\<lparr>w_stores := stores\<rparr>) = (beats, w3)" by (metis prod.collapse)
  note stages = stages [unfolded beats prod.case]
  obtain c err3 w4 where heart: "heartbeat beats ArtifactStatusUploading ''ingest_heartbeat'' u w3 = ((c, err3), w4)" by (metis prod.collapse)
  note stages = stages [unfolded heart prod.case]
  have verify: "verifyArtifactContent i (int (length ?consumed)) sha (max_bytes i) = None" for sha
    using stages by (simp add: verifyArtifactContent_def ToLower_def)
  obtain b0 w0 where "transitionArtifact c ArtifactStatusReady [] (Some (demo_upload_update i u ?consumed)) w4 = ((b0, None), w0)"
    using stages by (metis prod.collapse)
  from transition_digest [OF this, of "sha256_hex ?consumed"] obtain b w' where final: "transitionArtifact c ArtifactStatusReady []
      (Some ((demo_upload_update i u ?consumed)\<lparr>upd_SHA256 := sha256_hex ?consumed\<rparr>)) w4 = ((b, None), w')" by blast
  have "writeArtifactContent u i (''abc'', None) memory_backend w2 = ((b, None), w')"
    using stages final unfolding writeArtifactContent_def Let_def max_bytes_def [symmetric] memory_backend_def
    by (simp add: put beats heart verify demo_upload_update_def del: length_take)
  then have "CreateArtifactFromReader demo_service (demo_input m) (Some (''abc'', None)) demo_world = ((b, None), w')"
    using stages demo_store by (simp add: CreateArtifactFromReader_def pending storeArtifactContent_def claim Memory_trimmed)
  then show ?thesis by blast
qed

lemma demo_reachable: "artifact_step\<^sup>*\<^sup>* NewMemoryRepository (w_repo demo_world)"
proof -
  have "artifact_step NewMemoryRepository demo_operation_repo"
    by (rule artifact_other) (simp_all add: demo_operation_repo_def NewMemoryRepository_def operations_kept_def)
  then show ?thesis by (simp add: demo_world_def)
qed

lemma demo_driver: "artifactStore demo_service (TrimSpace (aci_StoreDriver (demo_input m))) = Some memory_backend"
  using demo_store by (simp add: demo_input_def Memory_trimmed)

theorem created_content_is_served_witness:
  "\<exists>b w'. CreateArtifactFromReader demo_service (demo_input 0) (Some (''abc'', None)) demo_world = ((b, None), w') \<and> art_SizeBytes b = 3
    \<and> (\<forall>auth. aiJobOwnerFromAuth auth \<noteq> artifact_owner b \<longrightarrow> fst (OpenArtifactForAuth demo_service auth (art_ID b) None w') = None)"
proof -
  obtain b w' where run: "CreateArtifactFromReader demo_service (demo_input 0) (Some (''abc'', None)) demo_world = ((b, None), w')"
    using demo_runs [OF demo_stages_ok(1)] by blast
  have "aci_MaxBytes (demo_input 0) < MaxInt64" by (simp add: demo_input_def MaxInt64_def)
  from created_content_is_served [OF demo_reachable demo_driver this run] run show ?thesis by auto
qed

lemma largest_limit_reads_nothing_witness:
  "\<exists>b w'. CreateArtifactFromReader demo_service (demo_input MaxInt64) (Some (''abc'', None)) demo_world = ((b, None), w')
    \<and> art_Status b = ArtifactStatusReady \<and> art_SizeBytes b = 0"
proof -
  obtain b w' where run: "CreateArtifactFromReader demo_service (demo_input MaxInt64) (Some (''abc'', None)) demo_world = ((b, None), w')"
    using demo_runs [OF demo_stages_ok(2)] by blast
  have "aci_MaxBytes (demo_input MaxInt64) = MaxInt64" by (simp add: demo_input_def)
  from largest_limit_reads_nothing [OF demo_reachable demo_driver this run] run show ?thesis by blast
qed

end
