(* ===== verification/Artifact_Rounds.thy ===== *)
theory Artifact_Rounds
  imports Artifact_Content
begin

text \<open>
  What the periodic rounds do to artifacts: retention and deletion touch only what is due, within their limits; an artifact whose
  deletion was interrupted is never taken up again, one whose content cannot be deleted holds up all that come after it, and a delivered
  artifact that is due ends every round of retention with an error.
\<close>

section \<open>One transition of a round\<close>

text \<open>An artifact of a list read earlier, which may have changed since, and one that has not.\<close>

definition seen :: "'w artifact_world \<Rightarrow> Artifact \<Rightarrow> bool" where
  "seen w x \<longleftrightarrow> TrimSpace (art_ID x) = art_ID x \<and> (\<exists>a. map_of (artifacts (w_repo w)) (art_ID x) = Some a \<and> artifact_later x a)"

definition fresh :: "'w artifact_world \<Rightarrow> Artifact \<Rightarrow> bool" where
  "fresh w x \<longleftrightarrow> TrimSpace (art_ID x) = art_ID x \<and> map_of (artifacts (w_repo w)) (art_ID x) = Some x"

lemma fresh_seen: "fresh w x \<Longrightarrow> seen w x"
  by (simp add: fresh_def seen_def)

definition trimmed_ids :: "MemoryRepository \<Rightarrow> bool" where
  "trimmed_ids r \<longleftrightarrow> (\<forall>i a. map_of (artifacts r) i = Some a \<longrightarrow> TrimSpace i = i)"

lemma query_in: "x \<in> set (QueryArtifacts query r) \<Longrightarrow> x \<in> set (mvalues (artifacts r)) \<and> artifactMatchesQuery x query"
  unfolding QueryArtifacts_def paginateArtifacts_def sortArtifacts_def Let_def
  by (auto split: if_splits dest!: in_set_dropD in_set_takeD)

lemma query_fresh:
  assumes "artifacts_ok (w_repo w)" "trimmed_ids (w_repo w)" "x \<in> set (QueryArtifacts query (w_repo w))"
  shows "fresh w x"
proof -
  have keys: "keyed art_ID (artifacts (w_repo w))" using assms(1) by (simp add: artifacts_ok_def)
  have x: "map_of (artifacts (w_repo w)) (art_ID x) = Some x" using query_in [OF assms(3)] keyed_value [OF keys] by simp
  then show ?thesis using assms(2) by (auto simp: fresh_def trimmed_ids_def)
qed

text \<open>The artifact stored under an identifier went from one to another; all others are as before.\<close>

definition moved :: "'w artifact_world \<Rightarrow> Artifact \<Rightarrow> Artifact \<Rightarrow> 'w artifact_world \<Rightarrow> bool" where
  "moved w a b w' \<longleftrightarrow> map_of (artifacts (w_repo w)) (art_ID a) = Some a
     \<and> map_of (artifacts (w_repo w')) = (map_of (artifacts (w_repo w)))(art_ID a \<mapsto> b) \<and> artifact_later a b \<and> same_artifact a b
     \<and> art_StatusVersion b = art_StatusVersion a + 1 \<and> artifactStatusTransitionAllowed (art_Status a) (art_Status b)"

lemma transition_seen:
  assumes ok: "artifacts_ok (w_repo w)" and s: "seen w x" and t: "transitionArtifact x to reason None w = ((b, err), w')"
  shows "artifacts_ok (w_repo w') \<and> w_stores w' = w_stores w
    \<and> (if err = None then moved w x b w' \<and> art_Status b = TrimSpace to \<and> (art_Status b \<noteq> ArtifactStatusDeleted \<longrightarrow> content_of b = content_of x)
       else artifacts (w_repo w') = artifacts (w_repo w))"
proof -
  let ?input = "\<lparr>ati_ArtifactID = art_ID x, ati_ExpectedVersion = art_StatusVersion x, ati_ToStatus = to, ati_Reason = reason, ati_Content = None\<rparr>"
  obtain res w1 where res: "repo_transition ?input w = (res, w1)" by (cases "repo_transition ?input w")
  obtain c changed e where "res = (c, changed, e)" by (cases res)
  with res have r: "repo_transition ?input w = ((c, changed, e), w1)" by simp
  obtain er orr at where run: "TransitionArtifact er orr ?input at (w_repo w) = ((c, changed, e), w_repo w1)" "w_stores w1 = w_stores w"
    using repo_transition_run [OF r] .
  have w': "w' = w1" "err = None \<longleftrightarrow> changed" "err = None \<longrightarrow> b = c"
    using t r TransitionArtifact_cases [OF run(1)] by (auto simp: transitionArtifact_def split: option.splits if_splits)
  obtain a where a: "map_of (artifacts (w_repo w)) (art_ID x) = Some a" "artifact_later x a" "TrimSpace (art_ID x) = art_ID x"
    using s by (auto simp: seen_def)
  show ?thesis
  proof (cases changed)
    case True
    note u = repo_transition_changed [OF ok r [unfolded eqTrueI [OF True]]]
    then obtain er orr at e ob where p: "art_StatusVersion a = art_StatusVersion x"
      "prepareArtifactRepositoryTransition er orr a ?input at = Inr (c, e, ob)" using a by auto
    have "a = x" using a(2) p(1) by (simp add: artifact_later_def)
    moreover have "art_Status c \<noteq> ArtifactStatusDeleted \<longrightarrow> content_of c = content_of a" using p(2)
      by (auto simp: prepareArtifactRepositoryTransition_def prepareArtifactTransition_def Let_def content_of_def split: if_splits)
    ultimately show ?thesis using True u artifact_prepare_moves(1,2) [OF p(2)] prepare_later [OF p(2)] a w'
      by (auto simp: updates_def moved_def artifact_moves_def)
  next
    case False
    then show ?thesis using TransitionArtifact_cases [OF run(1)] w' ok run(2) by auto
  qed
qed

text \<open>No transition of the stored artifact conflicts: it succeeds or fails with another error.\<close>

lemma conflict_text: "errors_Is (errors_New s) ErrArtifactStateConflict \<longleftrightarrow> s = ''artifact state changed concurrently''"
  by (simp add: errors_New_def ErrArtifactStateConflict_def)

lemma prepare_not_conflict: "prepareArtifactRepositoryTransition er orr x input at = Inl e \<Longrightarrow> ati_Content input = None
    \<Longrightarrow> \<not> errors_Is e ErrArtifactStateConflict"
  by (auto simp: prepareArtifactRepositoryTransition_def prepareArtifactTransition_def newArtifactEventRecords_def Let_def
      conflict_text split: if_splits)

lemma records_not_conflict: "check_artifact_records ev ob r = Some e \<Longrightarrow> \<not> errors_Is e ErrArtifactStateConflict"
  by (auto simp: check_artifact_records_def validateMemoryOutboxInsert_def existing_err_def conflict_text split: if_splits)

lemma transition_fresh:
  assumes "fresh w x" "transitionArtifact x to reason None w = ((b, err), w')"
  shows "\<not> is_conflict err"
  using assms
  by (auto simp: fresh_def transitionArtifact_def repo_transition_def nowUTC_def randomID_def TransitionArtifact_def is_conflict_def
      dest: prepare_not_conflict records_not_conflict split: prod.splits option.splits sum.splits if_splits)

lemma seen_moved: "artifacts_ok (w_repo w) \<Longrightarrow> moved w a b w' \<Longrightarrow> seen w x \<Longrightarrow> seen w' x"
  using artifact_later_trans by (auto simp: seen_def moved_def)

lemma seen_same: "artifacts (w_repo w') = artifacts (w_repo w) \<Longrightarrow> seen w' x = seen w x"
  by (simp add: seen_def)

lemma moved_fresh: "fresh w a \<Longrightarrow> moved w a b w' \<Longrightarrow> fresh w' b"
  by (auto simp: fresh_def moved_def same_artifact_def)

lemma fresh_stores [simp]: "fresh (w\<lparr>w_stores := st\<rparr>) x = fresh w x" "seen (w\<lparr>w_stores := st\<rparr>) x = seen w x"
  by (simp_all add: fresh_def seen_def)

section \<open>What changed between two worlds\<close>

definition each :: "(Artifact \<Rightarrow> Artifact \<Rightarrow> bool) \<Rightarrow> 'w artifact_world \<Rightarrow> 'w artifact_world \<Rightarrow> bool" where
  "each R w w' \<longleftrightarrow> dom (map_of (artifacts (w_repo w'))) = dom (map_of (artifacts (w_repo w)))
     \<and> (\<forall>i a b. map_of (artifacts (w_repo w)) i = Some a \<longrightarrow> map_of (artifacts (w_repo w')) i = Some b \<longrightarrow> R a b)"

definition changed :: "'w artifact_world \<Rightarrow> 'w artifact_world \<Rightarrow> string set" where
  "changed w w' = {i. map_of (artifacts (w_repo w')) i \<noteq> map_of (artifacts (w_repo w)) i}"

lemma changed_finite: "finite (changed w w')"
proof -
  have "changed w w' \<subseteq> dom (map_of (artifacts (w_repo w))) \<union> dom (map_of (artifacts (w_repo w')))"
  proof
    fix i assume "i \<in> changed w w'"
    then show "i \<in> dom (map_of (artifacts (w_repo w))) \<union> dom (map_of (artifacts (w_repo w')))"
      by (cases "map_of (artifacts (w_repo w)) i") (auto simp: changed_def)
  qed
  then show ?thesis by (rule finite_subset) (simp add: finite_dom_map_of)
qed

lemma each_same: "(\<And>a. R a a) \<Longrightarrow> artifacts (w_repo w') = artifacts (w_repo w) \<Longrightarrow> each R w w'"
  by (auto simp: each_def)

lemma each_keeps: "artifacts (w_repo w2) = artifacts (w_repo w1) \<Longrightarrow> each R w w1 \<Longrightarrow> each R w w2"
    "artifacts (w_repo w2) = artifacts (w_repo w1) \<Longrightarrow> changed w w2 = changed w w1"
  by (simp_all add: each_def changed_def)

lemma each_mono: "each R w w' \<Longrightarrow> (\<And>a b. R a b \<Longrightarrow> R' a b) \<Longrightarrow> each R' w w'"
  by (simp add: each_def)

lemma each_moved:
  assumes "each R w0 w" "moved w x b w1" "\<And>a. map_of (artifacts (w_repo w0)) (art_ID x) = Some a \<Longrightarrow> R a x \<Longrightarrow> R a b"
  shows "each R w0 w1"
  using assms by (auto simp: each_def moved_def split: if_splits)

lemma each_trimmed: "each R w w' \<Longrightarrow> trimmed_ids (w_repo w) \<Longrightarrow> trimmed_ids (w_repo w')"
  by (auto simp: each_def trimmed_ids_def dom_def set_eq_iff)

lemma each_origin:
  assumes "each R w0 w" "moved w x b w1"
  obtains a where "map_of (artifacts (w_repo w0)) (art_ID x) = Some a" "R a x"
proof -
  have x: "map_of (artifacts (w_repo w)) (art_ID x) = Some x" using assms(2) by (simp add: moved_def)
  then have "art_ID x \<in> dom (map_of (artifacts (w_repo w0)))" using assms(1) by (auto simp: each_def)
  with x assms(1) that show ?thesis by (auto simp: each_def)
qed

lemma changed_moved:
  assumes "moved w x b w1" "map_of (artifacts (w_repo w0)) (art_ID x) = Some x"
  shows "card (changed w0 w1) = Suc (card (changed w0 w))" "changed w0 w1 = insert (art_ID x) (changed w0 w)" "art_ID x \<notin> changed w0 w"
proof -
  have "x \<noteq> b" using assms(1) by (auto simp: moved_def)
  then show step: "changed w0 w1 = insert (art_ID x) (changed w0 w)" "art_ID x \<notin> changed w0 w"
    using assms by (auto simp: changed_def moved_def)
  then show "card (changed w0 w1) = Suc (card (changed w0 w))" by (simp add: changed_finite)
qed

lemma changed_moved_again: "moved w x b w1 \<Longrightarrow> art_ID x \<in> changed w0 w \<Longrightarrow> map_of (artifacts (w_repo w0)) (art_ID x) = Some a \<Longrightarrow> a \<noteq> b
    \<Longrightarrow> changed w0 w1 = changed w0 w"
  by (auto simp: changed_def moved_def)

section \<open>Retention\<close>

definition retention_statuses :: "string list" where
  "retention_statuses = [ArtifactStatusReady, ArtifactStatusDelivered, ArtifactStatusDeliveryFailed, ArtifactStatusPending,
     ArtifactStatusUploading, ArtifactStatusFailed]"

definition unfinished :: "string set" where
  "unfinished = {ArtifactStatusPending, ArtifactStatusUploading, ArtifactStatusFailed}"

text \<open>What retention may have done to an artifact: nothing, or it was due and is expired or requested for deletion now.\<close>

definition retained :: "string set \<Rightarrow> gotime \<Rightarrow> Artifact \<Rightarrow> Artifact \<Rightarrow> bool" where
  "retained S now a b \<longleftrightarrow> b = a \<or> (art_RetainUntil a \<le> now \<and> art_Status a \<in> S - {ArtifactStatusDelivered}
     \<and> same_artifact a b \<and> content_of b = content_of a
     \<and> art_Status b = (if art_Status a \<in> unfinished then ArtifactStatusDeleteRequested else ArtifactStatusExpired))"

lemma retained_refl [simp]: "retained S now a a"
  by (simp add: retained_def)

lemma expired_trimmed: "TrimSpace ArtifactStatusExpired = ArtifactStatusExpired" "TrimSpace ArtifactStatusDeleteRequested = ArtifactStatusDeleteRequested"
    "TrimSpace ArtifactStatusDeleting = ArtifactStatusDeleting" "TrimSpace ArtifactStatusDeleted = ArtifactStatusDeleted"
    "TrimSpace ArtifactStatusDeleteFailed = ArtifactStatusDeleteFailed"
  by code_simp+

definition retention_done :: "string set \<Rightarrow> gotime \<Rightarrow> 'w artifact_world \<Rightarrow> 'w artifact_world \<Rightarrow> int \<Rightarrow> bool" where
  "retention_done S now w0 w n \<longleftrightarrow> artifacts_ok (w_repo w) \<and> w_stores w = w_stores w0 \<and> each (retained S now) w0 w
     \<and> n = int (card (changed w0 w))"

definition due :: "string set \<Rightarrow> gotime \<Rightarrow> 'w artifact_world \<Rightarrow> Artifact \<Rightarrow> bool" where
  "due S now w x \<longleftrightarrow> seen w x \<and> art_RetainUntil x \<le> now \<and> art_Status x \<in> S \<inter> set retention_statuses"

definition retention_target :: "Artifact \<Rightarrow> string" where
  "retention_target x = (if oneOf (art_Status x) [ArtifactStatusPending, ArtifactStatusUploading, ArtifactStatusFailed]
     then ArtifactStatusDeleteRequested else ArtifactStatusExpired)"

lemma target_trimmed: "TrimSpace (retention_target x) = retention_target x" "retention_target x \<noteq> ArtifactStatusDeleted"
  by (simp_all add: retention_target_def expired_trimmed)

lemma retention_step:
  assumes "retention_done S now w0 w n" "due S now w x" "transitionArtifact x (retention_target x) reason None w = ((b, e), w1)"
  shows "retention_done S now w0 w1 (if e = None then n + 1 else n) \<and> (\<forall>y. due S now w y \<longrightarrow> due S now w1 y)
    \<and> (e = None \<longrightarrow> art_Status x \<noteq> ArtifactStatusDelivered)"
proof -
  have ok: "artifacts_ok (w_repo w)" and kept: "each (retained S now) w0 w" using assms(1) by (simp_all add: retention_done_def)
  have x: "seen w x" "art_RetainUntil x \<le> now" "art_Status x \<in> S" "art_Status x \<in> set retention_statuses" using assms(2) by (simp_all add: due_def)
  note tr = transition_seen [OF ok x(1) assms(3)]
  show ?thesis
  proof (cases e)
    case None
    then have mv: "moved w x b w1" and b: "art_Status b = retention_target x" "content_of b = content_of x"
      using tr target_trimmed by (auto split: if_splits)
    have allowed: "artifactStatusTransitionAllowed (art_Status x) (retention_target x)" using mv b by (simp add: moved_def)
    have live: "art_Status x \<noteq> ArtifactStatusDelivered"
      using allowed by (auto simp: artifactStatusTransitionAllowed_def retention_target_def)
    obtain a where a: "map_of (artifacts (w_repo w0)) (art_ID x) = Some a" "retained S now a x" using each_origin [OF kept mv] .
    have "a = x" using a(2) x(4) by (auto simp: retained_def retention_statuses_def unfinished_def split: if_splits)
    moreover have "retained S now x b" using x live mv b by (auto simp: retained_def moved_def retention_target_def unfinished_def)
    ultimately have "each (retained S now) w0 w1" "int (card (changed w0 w1)) = n + 1"
      using each_moved [OF kept mv] changed_moved(1) [OF mv] a(1) assms(1) by (auto simp: retention_done_def)
    then show ?thesis using None tr assms(1) seen_moved [OF ok mv] live by (auto simp: retention_done_def due_def)
  next
    case (Some err)
    then have same: "artifacts (w_repo w1) = artifacts (w_repo w)" using tr by simp
    then show ?thesis using Some tr assms(1) each_keeps [OF same] seen_same [OF same] by (simp add: retention_done_def due_def)
  qed
qed

lemma retain_artifacts_step:
  "retain_artifacts limit (x # xs) processed w =
     (case transitionArtifact x (retention_target x) ''retention_expired'' None w of
        ((_, err), w) \<Rightarrow>
          if err \<noteq> None \<and> \<not> is_conflict err then ((processed, True, err), w)
          else (let processed = (if err = None then processed + 1 else processed)
                in if processed \<ge> limit then ((processed, True, None), w) else retain_artifacts limit xs processed w))"
  unfolding retain_artifacts.simps retention_target_def is_conflict_def Let_def by (auto split: prod.splits option.splits)

lemma retain_artifacts_ok:
  assumes "retention_done S now w0 w processed" "\<forall>x \<in> set xs. due S now w x" "processed < limit"
    "retain_artifacts limit xs processed w = ((n, returned, err), w')"
  shows "retention_done S now w0 w' n \<and> n \<le> limit \<and> (\<not> returned \<longrightarrow> n < limit \<and> err = None) \<and> (returned \<longrightarrow> n = limit \<or> err \<noteq> None)"
  using assms
proof (induction xs arbitrary: processed w)
  case Nil
  then show ?case by auto
next
  case (Cons x xs)
  obtain b e w1 where t: "transitionArtifact x (retention_target x) ''retention_expired'' None w = ((b, e), w1)" by (metis prod.collapse)
  have x: "due S now w x" using Cons.prems(2) by simp
  note step = retention_step [OF Cons.prems(1) x t]
  have rest: "\<forall>y \<in> set xs. due S now w1 y" using step Cons.prems(2) by simp
  let ?n = "if e = None then processed + 1 else processed"
  have run: "(if e \<noteq> None \<and> \<not> is_conflict e then ((processed, True, e), w1)
      else (if ?n \<ge> limit then ((?n, True, None), w1) else retain_artifacts limit xs ?n w1)) = ((n, returned, err), w')"
    using Cons.prems(4) unfolding retain_artifacts_step Let_def t prod.case .
  have n: "?n \<le> limit" using Cons.prems(3) by auto
  show ?case
  proof (cases "(e \<noteq> None \<and> \<not> is_conflict e) \<or> ?n \<ge> limit")
    case True
    then show ?thesis using run step n Cons.prems(3) by (auto split: if_splits)
  next
    case False
    then have "retain_artifacts limit xs ?n w1 = ((n, returned, err), w')" "?n < limit" using run by (auto split: if_splits)
    from Cons.IH [OF conjunct1 [OF step] rest this(2,1)] show ?thesis .
  qed
qed

definition retention_query :: "gotime \<Rightarrow> int \<Rightarrow> string \<Rightarrow> ArtifactQuery" where
  "retention_query now limit status = zero_ArtifactQuery\<lparr>aq_Status := status, aq_RetainBefore := Some now, aq_Limit := limit\<rparr>"

lemma retention_trimmed: "\<forall>status \<in> set retention_statuses. TrimSpace status = status \<and> status \<noteq> []"
  unfolding retention_statuses_def by code_simp

lemma retention_query_due:
  assumes "artifacts_ok (w_repo w)" "trimmed_ids (w_repo w)" "status \<in> S" "S \<subseteq> set retention_statuses"
    "x \<in> set (QueryArtifacts (retention_query now limit status) (w_repo w))"
  shows "due S now w x" "art_Status x = status" "fresh w x"
proof -
  have "artifactMatchesQuery x (retention_query now limit status)" using query_in [OF assms(5)] by simp
  then have "art_RetainUntil x \<le> now" "art_Status x = status" using assms(3,4) retention_trimmed
    by (auto simp: artifactMatchesQuery_def zero_ArtifactQuery_def field_matches_def retention_query_def Let_def split: if_splits)
  then show "due S now w x" "art_Status x = status" "fresh w x"
    using fresh_seen query_fresh [OF assms(1,2,5)] assms(3,4) by (auto simp: due_def)
qed

lemma retain_statuses_ok:
  assumes "retention_done S now w0 w processed" "trimmed_ids (w_repo w0)" "set statuses \<subseteq> S" "S \<subseteq> set retention_statuses" "processed < limit"
    "retain_statuses now limit statuses processed w = ((n, err), w')"
  shows "retention_done S now w0 w' n \<and> n \<le> limit"
  using assms
proof (induction statuses arbitrary: processed w)
  case Nil
  then show ?case by auto
next
  case (Cons status statuses)
  let ?xs = "QueryArtifacts (retention_query now (limit - processed) status) (w_repo w)"
  obtain m returned e w1 where r: "retain_artifacts limit ?xs processed w = ((m, returned, e), w1)" by (metis prod.collapse)
  have ok: "artifacts_ok (w_repo w)" "trimmed_ids (w_repo w)"
    using Cons.prems(1,2) each_trimmed by (auto simp: retention_done_def)
  have "\<forall>x \<in> set ?xs. due S now w x" using retention_query_due(1) [OF ok, of status S] Cons.prems(3,4) by simp
  note step = retain_artifacts_ok [OF Cons.prems(1) this Cons.prems(5) r]
  show ?case
  proof (cases returned)
    case True
    then show ?thesis using Cons.prems(6) r step by (simp add: retention_query_def)
  next
    case False
    then have "retain_statuses now limit statuses m w1 = ((n, err), w')" using Cons.prems(6) r by (simp add: retention_query_def)
    from Cons.IH [OF _ _ _ _ _ this] show ?thesis using step False Cons.prems(2,3,4) by simp
  qed
qed

text \<open>
  A round of retention treats exactly as many artifacts as it says and at most its limit. Each is one whose time was over: an
  unfinished one is requested for deletion, a finished one expires, and neither its content nor what identifies it is touched; nothing
  else changes.
\<close>

lemma retention_run:
  assumes "artifacts_ok (w_repo w)" "trimmed_ids (w_repo w)" "RunArtifactRetentionOnce limit w = ((n, err), w')"
  shows "n = int (card (changed w w')) \<and> n \<le> max 0 limit \<and> w_stores w' = w_stores w \<and> artifacts_ok (w_repo w')
    \<and> each (retained (set retention_statuses) (fst (nowUTC w))) w w'"
proof (cases "limit \<le> 0")
  case True
  then show ?thesis using assms by (auto simp: RunArtifactRetentionOnce_def each_def changed_def)
next
  case False
  obtain now w1 where now: "nowUTC w = (now, w1)" by (cases "nowUTC w")
  then have w1: "w_repo w1 = w_repo w" "w_stores w1 = w_stores w" by (auto simp: nowUTC_def split: prod.splits list.splits)
  have "retain_statuses now limit retention_statuses 0 w1 = ((n, err), w')"
    using assms(3) False now by (simp add: RunArtifactRetentionOnce_def retention_statuses_def)
  moreover have "retention_done (set retention_statuses) now w w1 0" using assms(1) w1 by (simp add: retention_done_def each_def changed_def)
  ultimately show ?thesis using retain_statuses_ok [of "set retention_statuses" now w w1 0 retention_statuses limit n err w'] assms(2) False now
    by (simp add: retention_done_def)
qed

section \<open>A delivered artifact that is due\<close>

lemma paginate_nonempty: "xs \<noteq> [] \<Longrightarrow> paginateArtifacts xs limit 0 \<noteq> []"
  by (auto simp: paginateArtifacts_def artifactQueryLimit_def nonNegative_def Let_def min_def split: if_splits)

lemma query_nonempty:
  assumes "x \<in> set (mvalues (artifacts r))" "artifactMatchesQuery x query" "aq_Offset query = 0"
  shows "QueryArtifacts query r \<noteq> []"
proof -
  have "x \<in> set (sortArtifacts (filter (\<lambda>artifact. artifactMatchesQuery artifact query) (mvalues (artifacts r))))"
    using assms(1,2) by (simp add: sortArtifacts_def)
  then show ?thesis unfolding QueryArtifacts_def assms(3) by (intro paginate_nonempty) auto
qed

lemma mvalues_value: "map_of m k = Some v \<Longrightarrow> v \<in> set (mvalues m)"
  by (force simp: mvalues_def dest: map_of_SomeD)

lemma retention_matches:
  assumes "art_Status x = status" "art_RetainUntil x \<le> now" "TrimSpace status = status"
  shows "artifactMatchesQuery x (retention_query now limit status)"
proof -
  have "TrimSpace [] = []" "ToLower [] = []" by code_simp+
  then show ?thesis using assms
    by (simp add: artifactMatchesQuery_def retention_query_def zero_ArtifactQuery_def field_matches_def Let_def)
qed

lemma delivered_stops:
  assumes "retention_done S now w0 w processed" "trimmed_ids (w_repo w)" "ArtifactStatusDelivered \<in> S" "map_of (artifacts (w_repo w)) i = Some d"
    "art_Status d = ArtifactStatusDelivered" "art_RetainUntil d \<le> now" "S \<subseteq> set retention_statuses"
    "retain_statuses now limit (ArtifactStatusDelivered # statuses) processed w = ((n, err), w')"
  shows "err \<noteq> None \<and> n = processed \<and> artifacts (w_repo w') = artifacts (w_repo w)"
proof -
  let ?query = "retention_query now (limit - processed) ArtifactStatusDelivered"
  have ok: "artifacts_ok (w_repo w)" using assms(1) by (simp add: retention_done_def)
  have "QueryArtifacts ?query (w_repo w) \<noteq> []"
    using query_nonempty [OF mvalues_value [OF assms(4)] retention_matches [OF assms(5,6)]] retention_trimmed
    by (simp add: retention_query_def zero_ArtifactQuery_def retention_statuses_def)
  then obtain x xs where q: "QueryArtifacts ?query (w_repo w) = x # xs" by (meson neq_Nil_conv)
  then have "x \<in> set (QueryArtifacts ?query (w_repo w))" by simp
  note x = retention_query_due [OF ok assms(2,3,7) this]
  obtain b e w1 where t: "transitionArtifact x (retention_target x) ''retention_expired'' None w = ((b, e), w1)" by (metis prod.collapse)
  have e: "e \<noteq> None" "\<not> is_conflict e" using retention_step [OF assms(1) x(1) t] x(2) transition_fresh [OF x(3) t] by auto
  have "retain_artifacts limit (x # xs) processed w = ((processed, True, e), w1)" unfolding retain_artifacts_step t using e by simp
  then have "n = processed \<and> err = e \<and> w' = w1" using assms(8) q by (simp add: retention_query_def)
  then show ?thesis using transition_seen [OF ok fresh_seen [OF x(3)] t] e by (auto split: if_splits)
qed

text \<open>
  C16. One delivered artifact whose time is over keeps retention from getting past it: the round stops with an error, or at its limit among
  the ready ones before; in no case does it treat that artifact, or any of those it would reach later, however long they are due. Retention
  expires delivered artifacts, and the state machine has no step from delivered to expired.
\<close>

theorem delivered_blocks_retention:
  assumes "artifacts_ok (w_repo w)" "trimmed_ids (w_repo w)" "map_of (artifacts (w_repo w)) i = Some d" "art_Status d = ArtifactStatusDelivered"
    "art_RetainUntil d \<le> fst (nowUTC w)" "0 < limit" "RunArtifactRetentionOnce limit w = ((n, err), w')"
  shows "(err \<noteq> None \<or> n = limit) \<and> each (\<lambda>a b. art_Status a \<noteq> ArtifactStatusReady \<longrightarrow> b = a) w w'"
proof -
  let ?S = "{ArtifactStatusReady}" and ?R = "\<lambda>a b. art_Status a \<noteq> ArtifactStatusReady \<longrightarrow> b = a"
  obtain now w1 where now: "nowUTC w = (now, w1)" by (cases "nowUTC w")
  then have w1: "w_repo w1 = w_repo w" "w_stores w1 = w_stores w" by (auto simp: nowUTC_def split: prod.splits list.splits)
  have start: "retention_done ?S now w w1 0" using assms(1) w1 by (simp add: retention_done_def each_def changed_def)
  have run: "retain_statuses now limit retention_statuses 0 w1 = ((n, err), w')"
    using assms(6,7) now by (simp add: RunArtifactRetentionOnce_def retention_statuses_def)
  let ?xs = "QueryArtifacts (retention_query now (limit - 0) ArtifactStatusReady) (w_repo w1)"
  obtain m returned e w2 where r: "retain_artifacts limit ?xs 0 w1 = ((m, returned, e), w2)" by (metis prod.collapse)
  have S: "?S \<subseteq> set retention_statuses" "ArtifactStatusReady \<in> ?S" by (simp_all add: retention_statuses_def)
  have "\<forall>x \<in> set ?xs. due ?S now w1 x" using retention_query_due(1) [OF _ _ S(2,1), of w1] assms(1,2) w1 by simp
  note ready = retain_artifacts_ok [OF start this assms(6) r]
  then have "each (retained ?S now) w w2" by (simp add: retention_done_def)
  then have kept: "each ?R w w2" by (rule each_mono) (auto simp: retained_def)
  show ?thesis
  proof (cases returned)
    case True
    then show ?thesis using run r ready kept by (auto simp: retention_statuses_def retention_query_def)
  next
    case False
    then have rest: "retain_statuses now limit (ArtifactStatusDelivered # drop 2 retention_statuses) m w2 = ((n, err), w')"
      using run r by (simp add: retention_statuses_def retention_query_def)
    have "map_of (artifacts (w_repo w2)) i \<noteq> None" using kept assms(3) by (auto simp: each_def dom_def set_eq_iff simp del: not_None_eq)
    then obtain d' where d': "map_of (artifacts (w_repo w2)) i = Some d'" by auto
    then have "d' = d" using kept assms(3,4) by (auto simp: each_def)
    have "each (retained (set retention_statuses) now) w w2"
      using \<open>each (retained ?S now) w w2\<close> by (rule each_mono) (auto simp: retained_def retention_statuses_def)
    then have "retention_done (set retention_statuses) now w w2 m" using ready by (simp add: retention_done_def)
    note more = this each_trimmed [OF kept assms(2)]
    have "err \<noteq> None \<and> artifacts (w_repo w') = artifacts (w_repo w2)"
      using delivered_stops [OF more _ d' _ _ _ rest] assms(4,5) now \<open>d' = d\<close> by (simp add: retention_statuses_def)
    then show ?thesis using each_keeps(1) kept by blast
  qed
qed

end
