(* ===== verification/Artifact_Deletion.thy ===== *)
theory Artifact_Deletion
  imports Artifact_Rounds
begin

text \<open>
  What a round of the deletion worker does: it deletes requested artifacts and their contents within its limit; an artifact whose deletion
  was interrupted is never taken up again, and one whose content cannot be deleted holds up all that come after it.
\<close>

section \<open>One candidate\<close>

definition deletion_statuses :: "string list" where
  "deletion_statuses = [ArtifactStatusDeleteRequested, ArtifactStatusDeleteFailed, ArtifactStatusExpired]"

text \<open>The artifact went to \<open>b\<close> by one or more transitions; all others are as before.\<close>

definition placed :: "'w artifact_world \<Rightarrow> Artifact \<Rightarrow> Artifact \<Rightarrow> 'w artifact_world \<Rightarrow> bool" where
  "placed w x b w' \<longleftrightarrow> artifacts_ok (w_repo w') \<and> map_of (artifacts (w_repo w')) = (map_of (artifacts (w_repo w)))(art_ID x \<mapsto> b)
     \<and> same_artifact x b \<and> art_StatusVersion x < art_StatusVersion b"

lemma placed_trans: "placed w x b w1 \<Longrightarrow> placed w1 b c w2 \<Longrightarrow> placed w x c w2"
  by (auto simp: placed_def same_artifact_def)

lemma placed_stores: "placed (w\<lparr>w_stores := st\<rparr>) x b w' = placed w x b w'"
  by (simp add: placed_def)

lemma transition_placed:
  assumes "artifacts_ok (w_repo w)" "fresh w x" "transitionArtifact x to reason None w = ((b, err), w')" "TrimSpace to = to"
  shows "artifacts_ok (w_repo w') \<and> w_stores w' = w_stores w \<and> \<not> is_conflict err
    \<and> (if err = None then placed w x b w' \<and> fresh w' b \<and> art_Status b = to \<and> (to \<noteq> ArtifactStatusDeleted \<longrightarrow> content_of b = content_of x)
       else artifacts (w_repo w') = artifacts (w_repo w))"
  using transition_seen [OF assms(1) fresh_seen [OF assms(2)] assms(3)] transition_fresh [OF assms(2,3)] moved_fresh [OF assms(2)] assms(4)
  by (auto simp: placed_def moved_def)

lemma claim_fresh:
  assumes ok: "artifacts_ok (w_repo w)" and x: "fresh w x" and c: "claim_deletion x w = ((d, err), w')"
  shows "artifacts_ok (w_repo w') \<and> w_stores w' = w_stores w \<and> \<not> is_conflict err
    \<and> (if err = None then placed w x d w' \<and> fresh w' d \<and> art_Status d = ArtifactStatusDeleting \<and> content_of d = content_of x
       else artifacts (w_repo w') = artifacts (w_repo w) \<or> (\<exists>b. placed w x b w' \<and> art_Status b = ArtifactStatusDeleteRequested))"
proof (cases "art_Status x = ArtifactStatusExpired")
  case True
  obtain b e w1 where t: "transitionArtifact x ArtifactStatusDeleteRequested ''retention_cleanup'' None w = ((b, e), w1)" by (metis prod.collapse)
  note first = transition_placed [OF ok x t expired_trimmed(2)]
  show ?thesis
  proof (cases e)
    case None
    then have t2: "transitionArtifact b ArtifactStatusDeleting ''worker_claimed'' None w1 = ((d, err), w')"
      using c True t by (simp add: claim_deletion_def)
    have b: "artifacts_ok (w_repo w1)" "fresh w1 b" using first None by simp_all
    note second = transition_placed [OF b t2 expired_trimmed(3)]
    show ?thesis
    proof (cases "err = None")
      case True
      then show ?thesis using first second None placed_trans [of w x b w1 d w'] by auto
    next
      case False
      then have "placed w x b w'" using first second None by (auto simp: placed_def)
      then show ?thesis using first second None False by auto
    qed
  next
    case (Some error)
    then have "d = b" "err = e" "w' = w1" using c True t by (auto simp: claim_deletion_def)
    then show ?thesis using first Some by simp
  qed
next
  case False
  then have "transitionArtifact x ArtifactStatusDeleting ''worker_claimed'' None w = ((d, err), w')" using c by (simp add: claim_deletion_def)
  from transition_placed [OF ok x this expired_trimmed(3)] show ?thesis by (auto split: if_splits)
qed

section \<open>A round\<close>

text \<open>
  What the worker may have done to an artifact, and what it has done when no error occurred. Of the contents, \<open>cleaned\<close> is what a
  successful deletion achieves and no other deletion undoes.
\<close>

definition unlinked :: "Artifact \<Rightarrow> Artifact \<Rightarrow> bool" where
  "unlinked a b \<longleftrightarrow> b = a \<or> (art_Status a \<in> set deletion_statuses \<and> same_artifact a b
     \<and> art_Status b \<in> {ArtifactStatusDeleteRequested, ArtifactStatusDeleting, ArtifactStatusDeleted, ArtifactStatusDeleteFailed})"

definition deleted :: "(Artifact \<Rightarrow> 'w \<Rightarrow> bool) \<Rightarrow> 'w artifact_world \<Rightarrow> 'w artifact_world \<Rightarrow> bool" where
  "deleted cleaned w w' \<longleftrightarrow> (\<forall>i \<in> changed w w'. \<forall>a b. map_of (artifacts (w_repo w)) i = Some a \<longrightarrow> map_of (artifacts (w_repo w')) i = Some b
     \<longrightarrow> art_Status b = ArtifactStatusDeleted \<and> cleaned a (w_stores w'))"

definition cleans :: "'w ArtifactService \<Rightarrow> (Artifact \<Rightarrow> bool) \<Rightarrow> (Artifact \<Rightarrow> 'w \<Rightarrow> bool) \<Rightarrow> bool" where
  "cleans s good cleaned \<longleftrightarrow> (\<forall>a d st err st'. content_of d = content_of a \<longrightarrow> good a \<longrightarrow> deleteArtifactContent s d st = (err, st')
     \<longrightarrow> (err = None \<longrightarrow> cleaned a st') \<and> (\<forall>other. good other \<longrightarrow> cleaned other st \<longrightarrow> cleaned other st'))"

definition deletion_done :: "(Artifact \<Rightarrow> bool) \<Rightarrow> (Artifact \<Rightarrow> 'w \<Rightarrow> bool) \<Rightarrow> 'w artifact_world \<Rightarrow> 'w artifact_world \<Rightarrow> int \<Rightarrow> bool" where
  "deletion_done good cleaned w0 w n \<longleftrightarrow> artifacts_ok (w_repo w) \<and> each unlinked w0 w \<and> n = int (card (changed w0 w)) \<and> deleted cleaned w0 w
     \<and> (\<forall>i a. map_of (artifacts (w_repo w0)) i = Some a \<longrightarrow> good a)"

definition deletion_failed :: "'w artifact_world \<Rightarrow> 'w artifact_world \<Rightarrow> int \<Rightarrow> bool" where
  "deletion_failed w0 w n \<longleftrightarrow> artifacts_ok (w_repo w) \<and> each unlinked w0 w \<and> n \<le> int (card (changed w0 w)) \<and> int (card (changed w0 w)) \<le> n + 1"

definition pending_deletion :: "'w artifact_world \<Rightarrow> Artifact \<Rightarrow> bool" where
  "pending_deletion w x \<longleftrightarrow> fresh w x \<and> art_Status x \<in> set deletion_statuses"

lemma deletedD:
  assumes "deletion_done good cleaned w0 w n" "map_of (artifacts (w_repo w0)) i = Some a" "map_of (artifacts (w_repo w)) i = Some b" "a \<noteq> b"
  shows "art_Status b = ArtifactStatusDeleted \<and> cleaned a (w_stores w)"
proof -
  have "i \<in> changed w0 w" using assms(2-4) by (simp add: changed_def)
  then show ?thesis using assms(1-3) unfolding deletion_done_def deleted_def by blast
qed

lemma each_value:
  assumes "each R w0 w" "map_of (artifacts (w_repo w)) i = Some x"
  obtains a where "map_of (artifacts (w_repo w0)) i = Some a" "R a x"
proof -
  have "i \<in> dom (map_of (artifacts (w_repo w0)))" using assms unfolding each_def by (metis domI)
  then obtain a where "map_of (artifacts (w_repo w0)) i = Some a" by blast
  with assms that show ?thesis unfolding each_def by blast
qed

lemma pending_origin:
  assumes "deletion_done good cleaned w0 w n" "pending_deletion w x"
  shows "map_of (artifacts (w_repo w0)) (art_ID x) = Some x"
proof -
  have x: "map_of (artifacts (w_repo w)) (art_ID x) = Some x" using assms(2) by (simp add: pending_deletion_def fresh_def)
  have "each unlinked w0 w" using assms(1) by (simp add: deletion_done_def)
  from each_value [OF this x] obtain a where a: "map_of (artifacts (w_repo w0)) (art_ID x) = Some a" .
  have "art_Status x \<noteq> ArtifactStatusDeleted" using assms(2) by (auto simp: pending_deletion_def deletion_statuses_def)
  then show ?thesis using deletedD [OF assms(1) a x] a by blast
qed

text \<open>A candidate is placed anew: one more artifact has changed.\<close>

lemma placed_changed:
  assumes "placed w x b w'" "map_of (artifacts (w_repo w0)) (art_ID x) = Some x" "map_of (artifacts (w_repo w)) (art_ID x) = Some x"
  shows "card (changed w0 w') = Suc (card (changed w0 w))" "changed w0 w' = insert (art_ID x) (changed w0 w)"
proof -
  have "x \<noteq> b" using assms(1) by (auto simp: placed_def)
  then have step: "changed w0 w' = insert (art_ID x) (changed w0 w)" "art_ID x \<notin> changed w0 w"
    using assms by (auto simp: changed_def placed_def)
  then show "card (changed w0 w') = Suc (card (changed w0 w))" by (simp add: changed_finite)
  from step(1) show "changed w0 w' = insert (art_ID x) (changed w0 w)" .
qed

lemma placed_each:
  assumes "each unlinked w0 w" "placed w x b w'" "map_of (artifacts (w_repo w0)) (art_ID x) = Some x" "art_Status x \<in> set deletion_statuses"
    "art_Status b \<in> {ArtifactStatusDeleteRequested, ArtifactStatusDeleting, ArtifactStatusDeleted, ArtifactStatusDeleteFailed}"
  shows "each unlinked w0 w'"
proof -
  have "unlinked x b" using assms(2,4,5) by (auto simp: unlinked_def placed_def)
  then show ?thesis using assms(1,2,3) by (auto simp: each_def placed_def split: if_splits)
qed

lemma placed_failed:
  assumes "deletion_done good cleaned w0 w n" "pending_deletion w x" "placed w x b w'"
    "art_Status b \<in> {ArtifactStatusDeleteRequested, ArtifactStatusDeleting, ArtifactStatusDeleted, ArtifactStatusDeleteFailed}"
  shows "deletion_failed w0 w' n" "int (card (changed w0 w')) = n + 1"
proof -
  have x: "map_of (artifacts (w_repo w)) (art_ID x) = Some x" "art_Status x \<in> set deletion_statuses"
    using assms(2) by (simp_all add: pending_deletion_def fresh_def)
  note origin = pending_origin [OF assms(1,2)]
  have "each unlinked w0 w'" using placed_each [OF _ assms(3) origin x(2) assms(4)] assms(1) by (simp add: deletion_done_def)
  moreover show n: "int (card (changed w0 w')) = n + 1" using placed_changed(1) [OF assms(3) origin x(1)] assms(1) by (simp add: deletion_done_def)
  ultimately show "deletion_failed w0 w' n" using assms(3) by (simp add: deletion_failed_def placed_def)
qed

lemma placed_deleted:
  assumes "deletion_done good cleaned w0 w n" "pending_deletion w x" "placed w x b w'" "art_Status b = ArtifactStatusDeleted"
    "cleaned x (w_stores w')" "\<And>a. good a \<Longrightarrow> cleaned a (w_stores w) \<Longrightarrow> cleaned a (w_stores w')"
  shows "deletion_done good cleaned w0 w' (n + 1)"
proof -
  have x: "map_of (artifacts (w_repo w)) (art_ID x) = Some x" using assms(2) by (simp add: pending_deletion_def fresh_def)
  note origin = pending_origin [OF assms(1,2)]
  have "art_Status c = ArtifactStatusDeleted \<and> cleaned a (w_stores w')"
    if i: "i \<in> changed w0 w'" "map_of (artifacts (w_repo w0)) i = Some a" "map_of (artifacts (w_repo w')) i = Some c" for i a c
  proof (cases "i = art_ID x")
    case True
    then show ?thesis using i assms(3,4,5) origin by (simp add: placed_def)
  next
    case False
    then have "map_of (artifacts (w_repo w)) i = Some c" "i \<in> changed w0 w"
      using i assms(3) placed_changed(2) [OF assms(3) origin x] by (simp_all add: placed_def)
    then have "art_Status c = ArtifactStatusDeleted \<and> cleaned a (w_stores w)" using deletedD [OF assms(1) i(2)] i(2) by (auto simp: changed_def)
    moreover have "good a" using assms(1) i(2) unfolding deletion_done_def by blast
    ultimately show ?thesis using assms(6) by blast
  qed
  then have "deleted cleaned w0 w'" unfolding deleted_def by blast
  then show ?thesis using placed_failed [OF assms(1,2,3)] assms(1,4) by (simp add: deletion_done_def deletion_failed_def)
qed

lemma pending_placed:
  assumes "pending_deletion w y" "placed w x b w'" "art_ID y \<noteq> art_ID x"
  shows "pending_deletion w' y"
  using assms by (simp add: pending_deletion_def fresh_def placed_def)

lemma delete_artifacts_ok:
  assumes "cleans s good cleaned" "deletion_done good cleaned w0 w (base + processed)" "\<forall>x \<in> set xs. pending_deletion w x" "distinct (map art_ID xs)"
    "processed < limit" "delete_artifacts s limit xs processed w = ((n, returned, err), w')"
  shows "n \<le> limit \<and> (if err = None then deletion_done good cleaned w0 w' (base + n) else deletion_failed w0 w' (base + n))
    \<and> (\<not> returned \<longrightarrow> n < limit \<and> err = None)"
  using assms(2-)
proof (induction xs arbitrary: processed w)
  case Nil
  then show ?case by auto
next
  case (Cons x xs)
  have x: "pending_deletion w x" "fresh w x" using Cons.prems(2) by (simp_all add: pending_deletion_def)
  have ok: "artifacts_ok (w_repo w)" using Cons.prems(1) by (simp add: deletion_done_def)
  obtain d cerr w1 where c: "claim_deletion x w = ((d, cerr), w1)" by (metis prod.collapse)
  note claim = claim_fresh [OF ok x(2) c]
  show ?case
  proof (cases cerr)
    case (Some e)
    then have run: "n = processed" "returned" "err = cerr" "w' = w1" using Cons.prems(5) c claim by auto
    have "deletion_failed w0 w1 (base + processed)"
    proof (cases "artifacts (w_repo w1) = artifacts (w_repo w)")
      case True
      then show ?thesis using Cons.prems(1) claim each_keeps [OF True] by (simp add: deletion_failed_def deletion_done_def)
    next
      case False
      then show ?thesis using claim Some placed_failed(1) [OF Cons.prems(1) x(1)] by auto
    qed
    then show ?thesis using run Some Cons.prems(4) by simp
  next
    case None
    then have d: "artifacts_ok (w_repo w1)" "w_stores w1 = w_stores w" "placed w x d w1" "fresh w1 d" "art_Status d = ArtifactStatusDeleting"
      "content_of d = content_of x" using claim by simp_all
    obtain derr st where del: "deleteArtifactContent s d (w_stores w1) = (derr, st)" by (metis prod.collapse)
    define to where "to = (if derr \<noteq> None then ArtifactStatusDeleteFailed else ArtifactStatusDeleted)"
    define reason where "reason = (if derr \<noteq> None then ''store_delete_failed'' else [])"
    obtain b terr w2 where t: "transitionArtifact d to reason None (w1\<lparr>w_stores := st\<rparr>) = ((b, terr), w2)" by (metis prod.collapse)
    have "fresh (w1\<lparr>w_stores := st\<rparr>) d" "TrimSpace to = to" using d(4) by (simp_all add: to_def expired_trimmed)
    note last = transition_placed [OF _ this(1) t this(2)]
    have run: "(if terr \<noteq> None \<and> \<not> is_conflict terr then ((processed, True, terr), w2)
        else (case derr of Some err \<Rightarrow> ((processed + 1, True, Some (errors_Prefix (''delete artifact '' @ art_ID d) err)), w2)
          | None \<Rightarrow> if processed + 1 \<ge> limit then ((processed + 1, True, None), w2) else delete_artifacts s limit xs (processed + 1) w2))
        = ((n, returned, err), w')"
      using Cons.prems(5) unfolding delete_artifacts.simps c None Let_def prod.case option.case del to_def [symmetric] reason_def [symmetric] t .
    show ?thesis
    proof (cases terr)
      case (Some e)
      then have "n = processed" "returned" "err = terr" "w' = w2" using run last d(1) by auto
      moreover have "placed w x d w2" using last d(1,3) Some by (auto simp: placed_def)
      then have "deletion_failed w0 w2 (base + processed)" using placed_failed(1) [OF Cons.prems(1) x(1)] d(5) by simp
      ultimately show ?thesis using Some Cons.prems(4) by simp
    next
      case none: None
      then have b: "placed w1 d b w2" "art_Status b = to" "w_stores w2 = st" using last d(1) by (simp_all add: placed_stores)
      note whole = placed_trans [OF d(3) b(1)]
      show ?thesis
      proof (cases derr)
        case (Some e)
        then have "n = processed + 1" "returned" "err \<noteq> None" "w' = w2" using run none by auto
        moreover have "deletion_failed w0 w2 (base + (processed + 1))"
          using placed_failed [OF Cons.prems(1) x(1) whole] b(2) Some by (simp add: to_def deletion_failed_def)
        ultimately show ?thesis using Cons.prems(4) by auto
      next
        case ok2: None
        have good: "good x" using pending_origin [OF Cons.prems(1) x(1)] Cons.prems(1) by (auto simp: deletion_done_def)
        have clean: "cleaned x st" "\<And>a. good a \<Longrightarrow> cleaned a (w_stores w) \<Longrightarrow> cleaned a st"
          using assms(1) [unfolded cleans_def, rule_format, OF d(6) good del] ok2 d(2) by auto
        have step: "deletion_done good cleaned w0 w2 (base + (processed + 1))"
          using placed_deleted [OF Cons.prems(1) x(1) whole] b(2,3) ok2 clean by (simp add: to_def add.assoc)
        have rest: "\<forall>y \<in> set xs. pending_deletion w2 y"
          using Cons.prems(2,3) pending_placed [OF _ whole] by (auto simp: image_iff)
        show ?thesis
        proof (cases "processed + 1 \<ge> limit")
          case True
          then show ?thesis using run none ok2 step Cons.prems(4) by simp
        next
          case False
          then have "delete_artifacts s limit xs (processed + 1) w2 = ((n, returned, err), w')" using run none ok2 by simp
          from Cons.IH [OF step rest _ _ this] Cons.prems(3) False show ?thesis by simp
        qed
      qed
    qed
  qed
qed

definition status_query :: "string \<Rightarrow> int \<Rightarrow> ArtifactQuery" where
  "status_query status limit = zero_ArtifactQuery\<lparr>aq_Status := status, aq_Limit := limit\<rparr>"

lemma deletion_trimmed: "\<forall>status \<in> set deletion_statuses. TrimSpace status = status \<and> status \<noteq> []"
  unfolding deletion_statuses_def by code_simp

lemma query_distinct:
  assumes "artifacts_ok r"
  shows "distinct (map art_ID (QueryArtifacts query r))"
proof -
  have "distinct (map art_ID (mvalues (artifacts r)))" using assms keyed_distinct by (auto simp: artifacts_ok_def)
  then have "distinct (map art_ID (filter (\<lambda>artifact. artifactMatchesQuery artifact query) (mvalues (artifacts r))))"
    by (rule distinct_map_filter)
  then have "distinct (map art_ID (sortArtifacts (filter (\<lambda>artifact. artifactMatchesQuery artifact query) (mvalues (artifacts r)))))"
    unfolding sortArtifacts_def by (metis mset_map mset_sort_slice mset_eq_imp_distinct_iff)
  then show ?thesis unfolding QueryArtifacts_def paginateArtifacts_def Let_def
    by (auto simp: drop_map [symmetric] take_map [symmetric])
qed

lemma query_pending:
  assumes "artifacts_ok (w_repo w)" "trimmed_ids (w_repo w)" "status \<in> set deletion_statuses"
  shows "\<forall>x \<in> set (QueryArtifacts (status_query status limit) (w_repo w)). pending_deletion w x \<and> art_Status x = status"
proof
  fix x assume x: "x \<in> set (QueryArtifacts (status_query status limit) (w_repo w))"
  have "art_Status x = status" using query_in [OF x] deletion_trimmed assms(3)
    by (auto simp: artifactMatchesQuery_def zero_ArtifactQuery_def field_matches_def status_query_def Let_def split: if_splits)
  then show "pending_deletion w x \<and> art_Status x = status" using query_fresh [OF assms(1,2) x] assms(3) by (simp add: pending_deletion_def)
qed

lemma delete_statuses_ok:
  assumes "cleans s good cleaned" "deletion_done good cleaned w0 w (base + processed)" "trimmed_ids (w_repo w0)" "set statuses \<subseteq> set deletion_statuses"
    "processed < limit" "delete_statuses s limit statuses processed w = ((n, err), w')"
  shows "n \<le> limit \<and> (if err = None then deletion_done good cleaned w0 w' (base + n) else deletion_failed w0 w' (base + n))"
  using assms(2-)
proof (induction statuses arbitrary: processed w)
  case Nil
  then show ?case by auto
next
  case (Cons status statuses)
  let ?xs = "QueryArtifacts (status_query status (limit - processed)) (w_repo w)"
  obtain m returned e w1 where r: "delete_artifacts s limit ?xs processed w = ((m, returned, e), w1)" by (metis prod.collapse)
  have ok: "artifacts_ok (w_repo w)" "trimmed_ids (w_repo w)" using Cons.prems(1,2) each_trimmed by (auto simp: deletion_done_def)
  have "\<forall>x \<in> set ?xs. pending_deletion w x" using query_pending [OF ok, of status] Cons.prems(3) by simp
  note step = delete_artifacts_ok [OF assms(1) Cons.prems(1) this query_distinct [OF ok(1)] Cons.prems(4) r]
  show ?case
  proof (cases returned)
    case True
    then show ?thesis using Cons.prems(5) r step by (auto simp: status_query_def split: if_splits)
  next
    case False
    then have "delete_statuses s limit statuses m w1 = ((n, err), w')" using Cons.prems(5) r by (simp add: status_query_def)
    from Cons.IH [OF _ _ _ _ this] show ?thesis using step False Cons.prems(2,3) by simp
  qed
qed

lemma deletion_start: "artifacts_ok (w_repo w) \<Longrightarrow> \<forall>i a. map_of (artifacts (w_repo w)) i = Some a \<longrightarrow> good a \<Longrightarrow> deletion_done good cleaned w w 0"
  by (simp add: deletion_done_def each_def changed_def deleted_def unlinked_def)

lemma deletion_again:
  assumes "cleans s good cleaned" "deletion_done good cleaned w0 w base" "trimmed_ids (w_repo w0)"
    "RunArtifactDeletionWorkerOnce s limit w = ((n, err), w')"
  shows "n \<le> max 0 limit \<and> (if err = None then deletion_done good cleaned w0 w' (base + n) else deletion_failed w0 w' (base + n))"
proof (cases "limit \<le> 0")
  case True
  then show ?thesis using assms(2,4) by (auto simp: RunArtifactDeletionWorkerOnce_def)
next
  case False
  then have "delete_statuses s limit deletion_statuses 0 w = ((n, err), w')"
    using assms(4) by (simp add: RunArtifactDeletionWorkerOnce_def deletion_statuses_def)
  from delete_statuses_ok [OF assms(1) _ assms(3) _ _ this, of base] assms(2) False show ?thesis by simp
qed

lemma deletion_run:
  assumes "cleans s good cleaned" "artifacts_ok (w_repo w)" "trimmed_ids (w_repo w)" "\<forall>i a. map_of (artifacts (w_repo w)) i = Some a \<longrightarrow> good a"
    "RunArtifactDeletionWorkerOnce s limit w = ((n, err), w')"
  shows "n \<le> max 0 limit \<and> (if err = None then deletion_done good cleaned w w' n else deletion_failed w w' n)"
  using deletion_again [OF assms(1) deletion_start [OF assms(2,4)] assms(3,5)] by (cases err) simp_all

lemma cleans_nothing: "cleans s (\<lambda>_. True) (\<lambda>_ _. True)"
  by (simp add: cleans_def)

text \<open>
  A round of the deletion worker, whatever its stores and proxies answer, treats at most its limit of artifacts, changes only requested,
  failed and expired ones, and leaves each of them the same artifact in one of the deletion statuses. Without an error, exactly the artifacts
  it counted have changed, and all of them are deleted; with one, at most one more has.
\<close>

lemma deletion_round:
  assumes "artifacts_ok (w_repo w)" "trimmed_ids (w_repo w)" "RunArtifactDeletionWorkerOnce s limit w = ((n, err), w')"
  shows "n \<le> max 0 limit \<and> artifacts_ok (w_repo w') \<and> each unlinked w w' \<and> n \<le> int (card (changed w w')) \<and> int (card (changed w w')) \<le> n + 1
    \<and> (err = None \<longrightarrow> int (card (changed w w')) = n \<and> (\<forall>i \<in> changed w w'. \<forall>a b. map_of (artifacts (w_repo w)) i = Some a \<longrightarrow>
         map_of (artifacts (w_repo w')) i = Some b \<longrightarrow> art_Status b = ArtifactStatusDeleted))"
  using deletion_run [OF cleans_nothing assms(1,2) _ assms(3)]
  by (cases "err = None") (auto simp: deletion_done_def deletion_failed_def deleted_def)

section \<open>The queue drains\<close>

lemma delete_artifacts_mono: "delete_artifacts s limit xs processed w = ((n, returned, err), w') \<Longrightarrow> processed \<le> n"
proof (induction xs arbitrary: processed w)
  case (Cons x xs)
  then show ?case unfolding delete_artifacts.simps Let_def
    by (fastforce split: prod.splits option.splits if_splits dest: Cons.IH)
qed simp

lemma delete_artifacts_error: "delete_artifacts s limit xs processed w = ((n, False, err), w') \<Longrightarrow> err = None"
proof (induction xs arbitrary: processed w)
  case (Cons x xs)
  then show ?case unfolding delete_artifacts.simps Let_def by (auto split: prod.splits option.splits if_splits dest: Cons.IH)
qed simp

lemma delete_statuses_mono: "delete_statuses s limit statuses processed w = ((n, err), w') \<Longrightarrow> processed \<le> n"
proof (induction statuses arbitrary: processed w)
  case (Cons status statuses)
  then show ?case by (auto split: prod.splits if_splits dest!: delete_artifacts_mono) (fastforce dest: Cons.IH)
qed simp

lemma delete_first_counts:
  assumes "artifacts_ok (w_repo w)" "fresh w x" "delete_artifacts s limit (x # xs) processed w = ((n, returned, None), w')"
  shows "processed + 1 \<le> n"
proof -
  obtain d cerr w1 where c: "claim_deletion x w = ((d, cerr), w1)" by (metis prod.collapse)
  note claim = claim_fresh [OF assms(1,2) c]
  have "cerr = None" using assms(3) c claim by (cases cerr) (auto split: if_splits)
  then show ?thesis using assms(3) c unfolding delete_artifacts.simps Let_def
    by (auto split: prod.splits option.splits if_splits dest: delete_artifacts_mono)
qed

lemma query_matches_status:
  assumes "art_Status x = status" "status \<in> set deletion_statuses"
  shows "artifactMatchesQuery x (status_query status limit)"
proof -
  have "TrimSpace [] = []" "ToLower [] = []" by code_simp+
  then show ?thesis using assms deletion_trimmed
    by (simp add: artifactMatchesQuery_def status_query_def zero_ArtifactQuery_def field_matches_def Let_def)
qed

lemma delete_statuses_counts:
  assumes "artifacts_ok (w_repo w)" "trimmed_ids (w_repo w)" "set statuses \<subseteq> set deletion_statuses"
    "map_of (artifacts (w_repo w)) i = Some a" "art_Status a \<in> set statuses"
    "delete_statuses s limit statuses processed w = ((n, None), w')"
  shows "processed + 1 \<le> n"
  using assms(3,5,6)
proof (induction statuses)
  case (Cons status statuses)
  let ?xs = "QueryArtifacts (status_query status (limit - processed)) (w_repo w)"
  show ?case
  proof (cases ?xs)
    case Nil
    have "art_Status a \<noteq> status"
    proof
      assume "art_Status a = status"
      then have "?xs \<noteq> []" using query_nonempty [OF mvalues_value [OF assms(4)] query_matches_status] Cons.prems(1)
        by (simp add: status_query_def zero_ArtifactQuery_def)
      with Nil show False by simp
    qed
    then show ?thesis using Cons Nil by (simp add: status_query_def)
  next
    case (Cons x xs)
    then have "fresh w x" using query_fresh [OF assms(1,2), of x "status_query status (limit - processed)"] by simp
    moreover obtain m returned e w1 where r: "delete_artifacts s limit ?xs processed w = ((m, returned, e), w1)" by (metis prod.collapse)
    moreover have run: "(if returned then ((m, e), w1) else delete_statuses s limit statuses m w1) = ((n, None), w')"
      using \<open>delete_statuses s limit (status # statuses) processed w = ((n, None), w')\<close> r by (simp add: status_query_def)
    ultimately have first: "e = None \<Longrightarrow> processed + 1 \<le> m" using delete_first_counts [OF assms(1)] Cons by metis
    show ?thesis
    proof (cases returned)
      case True
      then show ?thesis using run first by simp
    next
      case False
      then have "processed + 1 \<le> m"
        using first delete_artifacts_error r False by (metis (full_types))
      then show ?thesis using run False delete_statuses_mono by fastforce
    qed
  qed
qed simp

definition awaiting_deletion :: "MemoryRepository \<Rightarrow> string set" where
  "awaiting_deletion r = {i. \<exists>a. map_of (artifacts r) i = Some a \<and> art_Status a \<in> set deletion_statuses}"

fun deletion_rounds :: "'w ArtifactService \<Rightarrow> int \<Rightarrow> nat \<Rightarrow> 'w artifact_world \<Rightarrow> go_error option \<times> 'w artifact_world" where
  "deletion_rounds s limit 0 w = (None, w)"
| "deletion_rounds s limit (Suc k) w =
     (case RunArtifactDeletionWorkerOnce s limit w of ((_, Some err), w) \<Rightarrow> (Some err, w) | ((_, None), w) \<Rightarrow> deletion_rounds s limit k w)"

lemma round_shrinks:
  assumes "artifacts_ok (w_repo w)" "trimmed_ids (w_repo w)" "0 < limit" "RunArtifactDeletionWorkerOnce s limit w = ((n, None), w')"
  shows "awaiting_deletion (w_repo w') \<subseteq> awaiting_deletion (w_repo w)"
    "awaiting_deletion (w_repo w) \<noteq> {} \<Longrightarrow> card (awaiting_deletion (w_repo w')) < card (awaiting_deletion (w_repo w))"
proof -
  note round = deletion_round [OF assms(1,2,4)]
  have each: "each unlinked w w'" using round by simp
  have deleted: "art_Status b = ArtifactStatusDeleted" if b: "i \<in> changed w w'" "map_of (artifacts (w_repo w')) i = Some b" for i b
  proof -
    obtain a where "map_of (artifacts (w_repo w)) i = Some a" using each_value [OF each b(2)] by blast
    then show ?thesis using round b by blast
  qed
  have final: "ArtifactStatusDeleted \<notin> set deletion_statuses" by (simp add: deletion_statuses_def)
  have sub: "awaiting_deletion (w_repo w') \<subseteq> awaiting_deletion (w_repo w) - changed w w'"
  proof
    fix i assume "i \<in> awaiting_deletion (w_repo w')"
    then obtain b where b: "map_of (artifacts (w_repo w')) i = Some b" "art_Status b \<in> set deletion_statuses"
      by (auto simp: awaiting_deletion_def)
    then have same: "i \<notin> changed w w'" using deleted final by metis
    then have "map_of (artifacts (w_repo w)) i = Some b" using b(1) unfolding changed_def by simp
    then show "i \<in> awaiting_deletion (w_repo w) - changed w w'" using same b(2) by (auto simp: awaiting_deletion_def)
  qed
  then show "awaiting_deletion (w_repo w') \<subseteq> awaiting_deletion (w_repo w)" by blast
  assume "awaiting_deletion (w_repo w) \<noteq> {}"
  then obtain i a where a: "map_of (artifacts (w_repo w)) i = Some a" "art_Status a \<in> set deletion_statuses" by (auto simp: awaiting_deletion_def)
  have "delete_statuses s limit deletion_statuses 0 w = ((n, None), w')"
    using assms(3,4) by (simp add: RunArtifactDeletionWorkerOnce_def deletion_statuses_def)
  from delete_statuses_counts [OF assms(1,2) subset_refl a this] have "1 \<le> n" by simp
  then have "card (changed w w') \<noteq> 0" using round by simp
  then obtain j where j: "j \<in> changed w w'" by fastforce
  have "j \<in> awaiting_deletion (w_repo w)"
  proof (cases "map_of (artifacts (w_repo w')) j")
    case None
    then have "map_of (artifacts (w_repo w)) j = None" using each unfolding each_def by (metis domIff)
    then show ?thesis using None j by (simp add: changed_def)
  next
    case (Some b)
    from each_value [OF each Some] obtain a where "map_of (artifacts (w_repo w)) j = Some a" "unlinked a b" by blast
    then show ?thesis using Some j by (auto simp: awaiting_deletion_def changed_def unlinked_def)
  qed
  then have "awaiting_deletion (w_repo w') \<subset> awaiting_deletion (w_repo w)" using sub j by blast
  moreover have "finite (awaiting_deletion (w_repo w))"
    by (rule finite_subset [of _ "dom (map_of (artifacts (w_repo w)))"]) (auto simp: awaiting_deletion_def finite_dom_map_of)
  ultimately show "card (awaiting_deletion (w_repo w')) < card (awaiting_deletion (w_repo w))" by (rule psubset_card_mono [rotated])
qed

text \<open>
  As long as no round fails, the deletion worker comes to an end: with as many rounds as there are artifacts that await deletion, none
  is left, whatever the positive limit of a round is.
\<close>

lemma queue_drains:
  assumes "artifacts_ok (w_repo w)" "trimmed_ids (w_repo w)" "0 < limit" "card (awaiting_deletion (w_repo w)) \<le> k"
    "deletion_rounds s limit k w = (None, w')"
  shows "awaiting_deletion (w_repo w') = {}"
  using assms(1,2,4,5)
proof (induction k arbitrary: w)
  case 0
  have "finite (awaiting_deletion (w_repo w))"
    by (rule finite_subset [of _ "dom (map_of (artifacts (w_repo w)))"]) (auto simp: awaiting_deletion_def finite_dom_map_of)
  with 0 show ?case by simp
next
  case (Suc k)
  then obtain n w1 where r: "RunArtifactDeletionWorkerOnce s limit w = ((n, None), w1)" "deletion_rounds s limit k w1 = (None, w')"
    by (auto split: prod.splits option.splits)
  note round = deletion_round [OF Suc.prems(1,2) r(1)]
  have "trimmed_ids (w_repo w1)" using round each_trimmed Suc.prems(2) by blast
  moreover have "card (awaiting_deletion (w_repo w1)) \<le> k"
  proof (cases "awaiting_deletion (w_repo w) = {}")
    case True
    then show ?thesis using round_shrinks(1) [OF Suc.prems(1,2) assms(3) r(1)] by simp
  next
    case False
    then show ?thesis using round_shrinks(2) [OF Suc.prems(1,2) assms(3) r(1)] Suc.prems(3) by simp
  qed
  ultimately show ?case using Suc.IH r(2) round by blast
qed

lemma rounds_done:
  assumes "cleans s good cleaned" "trimmed_ids (w_repo w0)" "deletion_done good cleaned w0 w base" "deletion_rounds s limit k w = (None, w')"
  shows "\<exists>n. deletion_done good cleaned w0 w' n"
  using assms(3,4)
proof (induction k arbitrary: w base)
  case (Suc k)
  then obtain n w1 where r: "RunArtifactDeletionWorkerOnce s limit w = ((n, None), w1)" "deletion_rounds s limit k w1 = (None, w')"
    by (auto split: prod.splits option.splits)
  then show ?case using Suc.IH deletion_again [OF assms(1) Suc.prems(1) assms(2) r(1)] by auto
qed auto

section \<open>Contents\<close>

definition service_keys :: "MemoryRepository \<Rightarrow> bool" where
  "service_keys r \<longleftrightarrow> (\<forall>i a. map_of (artifacts r) i = Some a \<longrightarrow> art_StoreKey a = [] \<or> content_key (art_StoreKey a))"

context content_store
begin

lemma cleans_backend:
  assumes "\<And>driver store. artifactStore s driver = Some store \<Longrightarrow> store = backend"
  shows "cleans s (\<lambda>a. art_StoreKey a = [] \<or> content_key (art_StoreKey a))
    (\<lambda>a st. art_StoreDriver a = ArtifactStoreDriverNone \<or> TrimSpace (art_StoreKey a) = [] \<or> content st (art_StoreKey a) = None)"
  unfolding cleans_def
proof (intro allI impI)
  fix a d st err st'
  assume a: "content_of d = content_of a" "art_StoreKey a = [] \<or> content_key (art_StoreKey a)" "deleteArtifactContent s d st = (err, st')"
  then have fields: "art_StoreDriver d = art_StoreDriver a" "art_StoreKey d = art_StoreKey a" by (simp_all add: content_of_def)
  consider "art_StoreDriver a = ArtifactStoreDriverNone \<or> TrimSpace (art_StoreKey a) = []" "err = None" "st' = st" | "err \<noteq> None" "st' = st"
    | "art_StoreKey a \<noteq> []" "delete (art_StoreKey a) st = (err, st')"
  proof (cases "art_StoreDriver a = ArtifactStoreDriverNone \<or> TrimSpace (art_StoreKey a) = []")
    case True
    then show ?thesis using a(3) fields that(1) by (auto simp: deleteArtifactContent_def)
  next
    case False
    have "TrimSpace [] = []" by code_simp
    then have key: "art_StoreKey a \<noteq> []" using False by auto
    show ?thesis
    proof (cases "artifactStore s (art_StoreDriver a)")
      case None
      then show ?thesis using a(3) fields that(2) False by (auto simp: deleteArtifactContent_def)
    next
      case (Some store)
      from assms [OF this] Some show ?thesis using a(3) fields that(3) False key by (simp add: deleteArtifactContent_def)
    qed
  qed
  then have "(err = None \<longrightarrow> art_StoreDriver a = ArtifactStoreDriverNone \<or> TrimSpace (art_StoreKey a) = [] \<or> content st' (art_StoreKey a) = None)
    \<and> (\<forall>key. content st key = None \<longrightarrow> content st' key = None)"
  proof cases
    case 3
    then have "content_key (art_StoreKey a)" using a(2) by simp
    then show ?thesis using 3 delete_ok delete_failed by (cases err) auto
  qed auto
  then show "(err = None \<longrightarrow> art_StoreDriver a = ArtifactStoreDriverNone \<or> TrimSpace (art_StoreKey a) = [] \<or> content st' (art_StoreKey a) = None)
    \<and> (\<forall>other. art_StoreKey other = [] \<or> content_key (art_StoreKey other) \<longrightarrow>
        art_StoreDriver other = ArtifactStoreDriverNone \<or> TrimSpace (art_StoreKey other) = [] \<or> content st (art_StoreKey other) = None \<longrightarrow>
        art_StoreDriver other = ArtifactStoreDriverNone \<or> TrimSpace (art_StoreKey other) = [] \<or> content st' (art_StoreKey other) = None)"
    by auto
qed

end

text \<open>
  A round of the deletion worker that ends without an error has removed the contents of the artifacts it deleted: over the store in
  memory, no content is stored any more under the key such an artifact had.
\<close>

lemma deletion_removes_contents:
  assumes "artifacts_ok (w_repo w)" "trimmed_ids (w_repo w)" "service_keys (w_repo w)"
    "\<And>driver store. artifactStore s driver = Some store \<Longrightarrow> store = memory_backend"
    "RunArtifactDeletionWorkerOnce s limit w = ((n, None), w')" "map_of (artifacts (w_repo w)) i = Some a" "i \<in> changed w w'"
    "art_StoreDriver a \<noteq> ArtifactStoreDriverNone" "TrimSpace (art_StoreKey a) \<noteq> []"
  shows "memory_content (w_stores w') (art_StoreKey a) = None"
proof -
  let ?good = "\<lambda>a. art_StoreKey a = [] \<or> content_key (art_StoreKey a)"
  let ?cleaned = "\<lambda>a st. art_StoreDriver a = ArtifactStoreDriverNone \<or> TrimSpace (art_StoreKey a) = [] \<or> memory_content st (art_StoreKey a) = None"
  have "cleans s ?good ?cleaned" using memory.cleans_backend assms(4) by (simp add: memory_backend_def)
  from deletion_run [OF this assms(1,2) assms(3) [unfolded service_keys_def] assms(5)]
  have "deletion_done ?good ?cleaned w w' n" by simp
  then have "deleted ?cleaned w w'" "each unlinked w w'" by (simp_all add: deletion_done_def)
  moreover obtain b where "map_of (artifacts (w_repo w')) i = Some b"
    using \<open>each unlinked w w'\<close> assms(6) unfolding each_def by (metis domD domI)
  ultimately show ?thesis using assms(6-9) unfolding deleted_def by blast
qed

text \<open>
  C17. As long as no round fails, the deletion worker deletes everything that awaits deletion: over the store in memory, after as many rounds
  as there are artifacts whose deletion was requested, has failed or that expired (whatever the positive limit of a round), every one of
  these artifacts is \<open>deleted\<close>, is otherwise the same artifact, and no content is stored under its key any more. Every other artifact is
  unchanged, and no artifact has been lost or added.
\<close>

theorem deletion_drains:
  assumes "artifacts_ok (w_repo w)" "trimmed_ids (w_repo w)" "service_keys (w_repo w)"
    "\<forall>driver store. artifactStore s driver = Some store \<longrightarrow> store = memory_backend"
    "0 < limit" "card (awaiting_deletion (w_repo w)) \<le> k" "deletion_rounds s limit k w = (None, w')"
  shows "dom (map_of (artifacts (w_repo w'))) = dom (map_of (artifacts (w_repo w)))
    \<and> (\<forall>i a. map_of (artifacts (w_repo w)) i = Some a \<longrightarrow>
         (if art_Status a \<in> {ArtifactStatusDeleteRequested, ArtifactStatusDeleteFailed, ArtifactStatusExpired}
          then \<exists>b. map_of (artifacts (w_repo w')) i = Some b \<and> art_Status b = ArtifactStatusDeleted \<and> same_artifact a b
            \<and> (art_StoreDriver a = ArtifactStoreDriverNone \<or> TrimSpace (art_StoreKey a) = [] \<or> memory_content (w_stores w') (art_StoreKey a) = None)
          else map_of (artifacts (w_repo w')) i = Some a))"
proof (intro conjI allI impI)
  let ?good = "\<lambda>a. art_StoreKey a = [] \<or> content_key (art_StoreKey a)"
  let ?cleaned = "\<lambda>a st. art_StoreDriver a = ArtifactStoreDriverNone \<or> TrimSpace (art_StoreKey a) = [] \<or> memory_content st (art_StoreKey a) = None"
  have "cleans s ?good ?cleaned" using memory.cleans_backend assms(4) by (simp add: memory_backend_def)
  from rounds_done [OF this assms(2) deletion_start [OF assms(1) assms(3) [unfolded service_keys_def]] assms(7)]
  obtain n where run: "deletion_done ?good ?cleaned w w' n" by blast
  then have each: "each unlinked w w'" by (simp add: deletion_done_def)
  then show "dom (map_of (artifacts (w_repo w'))) = dom (map_of (artifacts (w_repo w)))" by (simp add: each_def)
  have drained: "awaiting_deletion (w_repo w') = {}" using queue_drains [OF assms(1,2,5,6,7)] .
  fix i a assume a: "map_of (artifacts (w_repo w)) i = Some a"
  obtain b where b: "map_of (artifacts (w_repo w')) i = Some b" using each a unfolding each_def by (metis domD domI)
  then have un: "unlinked a b" using each a by (auto simp: each_def)
  show "if art_Status a \<in> {ArtifactStatusDeleteRequested, ArtifactStatusDeleteFailed, ArtifactStatusExpired}
      then \<exists>b. map_of (artifacts (w_repo w')) i = Some b \<and> art_Status b = ArtifactStatusDeleted \<and> same_artifact a b \<and> ?cleaned a (w_stores w')
      else map_of (artifacts (w_repo w')) i = Some a"
  proof (cases "art_Status a \<in> set deletion_statuses")
    case True
    then have "a \<noteq> b" using drained b by (auto simp: awaiting_deletion_def)
    then show ?thesis using deletedD [OF run a b] un b by (simp add: unlinked_def deletion_statuses_def)
  next
    case False
    then show ?thesis using un b by (simp add: unlinked_def deletion_statuses_def)
  qed
qed

section \<open>Deletions that never come to an end\<close>

text \<open>Everything that deletes: the two rounds and the requests of the clients.\<close>

inductive cleanup_step :: "'w ArtifactService \<Rightarrow> 'w artifact_world \<Rightarrow> 'w artifact_world \<Rightarrow> bool" for s where
  cleanup_retention: "RunArtifactRetentionOnce limit w = (res, w') \<Longrightarrow> cleanup_step s w w'"
| cleanup_deletion: "RunArtifactDeletionWorkerOnce s limit w = (res, w') \<Longrightarrow> cleanup_step s w w'"
| cleanup_request: "RequestArtifactDeletionForAuth auth ident w = (res, w') \<Longrightarrow> cleanup_step s w w'"

lemma request_keeps:
  assumes "artifacts_ok (w_repo w)" "trimmed_ids (w_repo w)" "RequestArtifactDeletionForAuth auth ident w = (res, w')"
  shows "artifacts_ok (w_repo w') \<and> each (\<lambda>a b. art_Status a = ArtifactStatusDeleting \<longrightarrow> b = a) w w'"
proof (cases "w' = w")
  case True
  then show ?thesis using assms(1) by (simp add: each_def)
next
  case False
  then obtain x where x: "ArtifactForAuth auth ident (w_repo w) = Some x" "art_Status x \<noteq> ArtifactStatusDeleting"
    "\<exists>r. transitionArtifact x ArtifactStatusDeleteRequested ''client_requested'' None w = (r, w')"
    using assms(3) by (auto simp: RequestArtifactDeletionForAuth_def split: option.splits prod.splits if_splits)
  obtain i where "map_of (artifacts (w_repo w)) i = Some x"
    using x(1) by (auto simp: ArtifactForAuth_def FindOwnedArtifact_def Let_def split: option.splits if_splits)
  then have fresh: "fresh w x" using assms(1,2) keyed_lookup by (fastforce simp: artifacts_ok_def fresh_def trimmed_ids_def)
  obtain b e where t: "transitionArtifact x ArtifactStatusDeleteRequested ''client_requested'' None w = ((b, e), w')" using x(3) by auto
  note step = transition_placed [OF assms(1) fresh t expired_trimmed(2)]
  show ?thesis
  proof (cases e)
    case None
    then have "placed w x b w'" using step by simp
    then show ?thesis using step fresh x(2) by (auto simp: each_def placed_def fresh_def split: if_splits)
  next
    case (Some error)
    then show ?thesis using step by (auto simp: each_def)
  qed
qed

lemma cleanup_keeps:
  assumes "artifacts_ok (w_repo w)" "trimmed_ids (w_repo w)" "cleanup_step s w w'"
  shows "artifacts_ok (w_repo w') \<and> trimmed_ids (w_repo w') \<and> each (\<lambda>a b. art_Status a = ArtifactStatusDeleting \<longrightarrow> b = a) w w'"
proof -
  have "artifacts_ok (w_repo w') \<and> each (\<lambda>a b. art_Status a = ArtifactStatusDeleting \<longrightarrow> b = a) w w'"
    using assms(3)
  proof cases
    case (cleanup_retention limit res)
    then obtain n err where "RunArtifactRetentionOnce limit w = ((n, err), w')" by (cases res) auto
    note round = retention_run [OF assms(1,2) this]
    then have "each (retained (set retention_statuses) (fst (nowUTC w))) w w'" by blast
    then have "each (\<lambda>a b. art_Status a = ArtifactStatusDeleting \<longrightarrow> b = a) w w'"
      by (rule each_mono) (auto simp: retained_def retention_statuses_def)
    with round show ?thesis by blast
  next
    case (cleanup_deletion limit res)
    then obtain n err where "RunArtifactDeletionWorkerOnce s limit w = ((n, err), w')" by (cases res) auto
    note round = deletion_round [OF assms(1,2) this]
    then have "each unlinked w w'" by blast
    then have "each (\<lambda>a b. art_Status a = ArtifactStatusDeleting \<longrightarrow> b = a) w w'"
      by (rule each_mono) (auto simp: unlinked_def deletion_statuses_def)
    with round show ?thesis by blast
  next
    case (cleanup_request auth ident res)
    then show ?thesis using request_keeps [OF assms(1,2)] by blast
  qed
  then show ?thesis using each_trimmed assms(2) by blast
qed

text \<open>
  An artifact that is left in \<open>deleting\<close>, because the worker stopped between its claim and the end of the deletion, is never taken up
  again: no sequence of rounds and of requests by clients changes it, so its content is never removed.
\<close>

lemma deleting_is_stuck:
  assumes "artifacts_ok (w_repo w)" "trimmed_ids (w_repo w)" "(cleanup_step s)\<^sup>*\<^sup>* w w'" "map_of (artifacts (w_repo w)) i = Some a"
    "art_Status a = ArtifactStatusDeleting"
  shows "map_of (artifacts (w_repo w')) i = Some a"
proof -
  have "artifacts_ok (w_repo w') \<and> trimmed_ids (w_repo w') \<and> map_of (artifacts (w_repo w')) i = Some a"
    using assms(3)
  proof (induction rule: rtranclp_induct)
    case base
    then show ?case using assms by simp
  next
    case (step w1 w2)
    then have kept: "artifacts_ok (w_repo w2)" "trimmed_ids (w_repo w2)" "each (\<lambda>a b. art_Status a = ArtifactStatusDeleting \<longrightarrow> b = a) w1 w2"
      using cleanup_keeps [of w1 s w2] by simp_all
    then obtain b where "map_of (artifacts (w_repo w2)) i = Some b" using step.IH unfolding each_def by (metis domD domI)
    then show ?case using kept step.IH assms(5) by (auto simp: each_def)
  qed
  then show ?thesis by blast
qed

lemma delete_first:
  assumes "artifacts_ok (w_repo w)" "pending_deletion w x" "\<And>d st. content_of d = content_of x \<Longrightarrow> fst (deleteArtifactContent s d st) \<noteq> None"
    "delete_artifacts s limit (x # xs) processed w = ((n, returned, err), w')"
  shows "returned \<and> err \<noteq> None \<and> changed w w' \<subseteq> {art_ID x}"
proof -
  have fresh: "fresh w x" using assms(2) by (simp add: pending_deletion_def)
  obtain d cerr w1 where c: "claim_deletion x w = ((d, cerr), w1)" by (metis prod.collapse)
  note claim = claim_fresh [OF assms(1) fresh c]
  show ?thesis
  proof (cases cerr)
    case (Some e)
    then have "returned \<and> err = cerr \<and> w' = w1" using assms(4) c claim by auto
    moreover have "changed w w1 \<subseteq> {art_ID x}" using claim Some by (auto simp: changed_def placed_def split: if_splits)
    ultimately show ?thesis using Some by simp
  next
    case None
    then have d: "artifacts_ok (w_repo w1)" "placed w x d w1" "fresh w1 d" "content_of d = content_of x" using claim by simp_all
    obtain e st where del: "deleteArtifactContent s d (w_stores w1) = (Some e, st)" using assms(3) [OF d(4)]
      by (metis option.exhaust prod.collapse)
    obtain b terr w2 where t: "transitionArtifact d ArtifactStatusDeleteFailed ''store_delete_failed'' None (w1\<lparr>w_stores := st\<rparr>) = ((b, terr), w2)"
      by (metis prod.collapse)
    have "fresh (w1\<lparr>w_stores := st\<rparr>) d" using d(3) by simp
    note last = transition_placed [OF _ this t expired_trimmed(5)]
    have "returned \<and> err \<noteq> None \<and> w' = w2" using assms(4) c None del t by (auto split: if_splits)
    moreover have "changed w w2 \<subseteq> {art_ID x}"
    proof (cases terr)
      case (Some err)
      then show ?thesis using last d(1,2) by (auto simp: changed_def placed_def)
    next
      case none: None
      then have "placed w1 d b w2" using last d(1) by (simp add: placed_stores)
      from placed_trans [OF d(2) this] show ?thesis by (auto simp: changed_def placed_def)
    qed
    ultimately show ?thesis by simp
  qed
qed

text \<open>
  A deletion that fails holds up every other one: as long as nothing is requested, the newest artifact whose deletion failed before is
  tried first, and when its store is not configured any more the round ends there with an error. It changes no other artifact, so the
  older failures and all the expired artifacts stay as they are.
\<close>

lemma failed_deletion_blocks:
  assumes "artifacts_ok (w_repo w)" "trimmed_ids (w_repo w)" "0 < limit"
    "QueryArtifacts (status_query ArtifactStatusDeleteRequested limit) (w_repo w) = []"
    "QueryArtifacts (status_query ArtifactStatusDeleteFailed limit) (w_repo w) = x # xs"
    "art_StoreDriver x \<noteq> ArtifactStoreDriverNone" "TrimSpace (art_StoreKey x) \<noteq> []" "artifactStore s (art_StoreDriver x) = None"
    "RunArtifactDeletionWorkerOnce s limit w = ((n, err), w')"
  shows "err \<noteq> None \<and> changed w w' \<subseteq> {art_ID x}"
proof -
  have "pending_deletion w x" using query_pending [OF assms(1,2), of ArtifactStatusDeleteFailed limit] assms(5) by (simp add: deletion_statuses_def)
  moreover have "fst (deleteArtifactContent s d st) \<noteq> None" if "content_of d = content_of x" for d st
    using that assms(6-8) by (simp add: deleteArtifactContent_def content_of_def)
  moreover obtain m returned e w1 where r: "delete_artifacts s limit (x # xs) 0 w = ((m, returned, e), w1)" by (metis prod.collapse)
  ultimately have "returned \<and> e \<noteq> None \<and> changed w w1 \<subseteq> {art_ID x}" using delete_first [OF assms(1)] by blast
  then show ?thesis using assms(3-5,9) r by (simp add: RunArtifactDeletionWorkerOnce_def status_query_def)
qed

section \<open>Witnesses\<close>

fun demo_moves :: "(string \<times> int \<times> string) list \<Rightarrow> MemoryRepository \<Rightarrow> MemoryRepository" where
  "demo_moves [] r = r"
| "demo_moves ((i, n, to) # moves) r = demo_moves moves (snd (TransitionArtifact (i @ to) (i @ to)
     \<lparr>ati_ArtifactID = i, ati_ExpectedVersion = n, ati_ToStatus = to, ati_Reason = [], ati_Content = None\<rparr> n r))"

lemma demo_moves_run: "artifact_step\<^sup>*\<^sup>* r (demo_moves moves r)"
proof (induction moves r rule: demo_moves.induct)
  case (2 i n to moves r)
  let ?input = "\<lparr>ati_ArtifactID = i, ati_ExpectedVersion = n, ati_ToStatus = to, ati_Reason = [], ati_Content = None\<rparr>"
  have "artifact_step r (snd (TransitionArtifact (i @ to) (i @ to) ?input n r))"
    by (rule artifact_transition [of "i @ to" "i @ to" ?input n r "fst (TransitionArtifact (i @ to) (i @ to) ?input n r)"]) simp
  then show ?case using 2 by (metis converse_rtranclp_into_rtranclp demo_moves.simps(2))
qed simp

definition demo_second_repo :: MemoryRepository where
  "demo_second_repo = (let a = demo_artifact\<lparr>art_ID := ''artifact_2''\<rparr>
     in case newArtifactEventRecords ''e3'' ''o3'' a [] [] 1 of Inr (e, ob) \<Rightarrow> snd (CreateArtifact a e ob demo_uploaded) | Inl _ \<Rightarrow> demo_uploaded)"

lemma demo_second_run: "artifact_step\<^sup>*\<^sup>* demo_uploaded demo_second_repo"
proof -
  let ?a = "demo_artifact\<lparr>art_ID := ''artifact_2''\<rparr>"
  obtain e ob where rec: "newArtifactEventRecords ''e3'' ''o3'' ?a [] [] 1 = Inr (e, ob) \<or> demo_second_repo = demo_uploaded"
    by (cases "newArtifactEventRecords ''e3'' ''o3'' ?a [] [] 1") (auto simp: demo_second_repo_def Let_def)
  have "artifact_step demo_uploaded (snd (CreateArtifact ?a e ob demo_uploaded))"
    by (rule artifact_create [of ?a e ob _ "fst (CreateArtifact ?a e ob demo_uploaded)"]) (simp_all add: demo_artifact_def zero_Artifact_def)
  then show ?thesis using rec by (auto simp: demo_second_repo_def Let_def)
qed

definition demo_at :: "MemoryRepository \<Rightarrow> MemoryArtifactStore artifact_world" where
  "demo_at r = \<lparr>w_repo = r, w_stores = snd (memory_Put ''artifact_1/content'' (Some (''abcdef'', None)) 6 NewMemoryArtifactStore),
     w_clock = (\<lambda>n. 200 + int n), w_ticks = 0, w_random = (\<lambda>n. ''r'' @ nat_digits n), w_draws = 0, w_beats = []\<rparr>"

definition demo_delivered_repo :: MemoryRepository where
  "demo_delivered_repo = demo_moves [(''artifact_1'', 2, ArtifactStatusDelivering), (''artifact_1'', 3, ArtifactStatusDelivered)] demo_uploaded"

definition demo_requested_repo :: MemoryRepository where
  "demo_requested_repo = demo_moves [(''artifact_1'', 2, ArtifactStatusDeleteRequested)] demo_uploaded"

definition demo_deleting_repo :: MemoryRepository where
  "demo_deleting_repo = demo_moves [(''artifact_1'', 3, ArtifactStatusDeleting)] demo_requested_repo"

definition demo_failing_repo :: MemoryRepository where
  "demo_failing_repo = demo_moves [(''artifact_1'', 2, ArtifactStatusDeleteRequested), (''artifact_1'', 3, ArtifactStatusDeleting),
     (''artifact_1'', 4, ArtifactStatusDeleteFailed), (''artifact_2'', 1, ArtifactStatusReady), (''artifact_2'', 2, ArtifactStatusExpired)]
     demo_second_repo"

lemma demo_rounds_ok: "artifacts_ok demo_created" "artifacts_ok demo_delivered_repo" "artifacts_ok demo_requested_repo"
    "artifacts_ok demo_deleting_repo" "artifacts_ok demo_failing_repo"
proof -
  have run: "artifact_step\<^sup>*\<^sup>* NewMemoryRepository r \<Longrightarrow> artifacts_ok r" for r using artifact_run_ok artifacts_new by blast
  show "artifacts_ok demo_created" using run demo_steps(1) by blast
  have uploaded: "artifacts_ok demo_uploaded" using run demo_run by blast
  then have second: "artifacts_ok demo_second_repo" using artifact_run_ok demo_second_run by blast
  have moves: "artifacts_ok r \<Longrightarrow> artifacts_ok (demo_moves moves r)" for moves r using artifact_run_ok demo_moves_run by blast
  show "artifacts_ok demo_delivered_repo" "artifacts_ok demo_requested_repo" "artifacts_ok demo_deleting_repo" "artifacts_ok demo_failing_repo"
    using moves uploaded second by (simp_all add: demo_delivered_repo_def demo_requested_repo_def demo_deleting_repo_def demo_failing_repo_def del: demo_moves.simps)
qed

lemma create_trimmed: "CreateArtifact a e ob r = (err, r') \<Longrightarrow> TrimSpace (art_ID a) = art_ID a \<Longrightarrow> trimmed_ids r \<Longrightarrow> trimmed_ids r'"
  by (auto simp: CreateArtifact_def trimmed_ids_def write_artifact_def split: option.splits if_splits)

lemma transition_trimmed:
  assumes "artifacts_ok r" "trimmed_ids r" "TransitionArtifact er orr input at r = (res, r')"
  shows "trimmed_ids r'"
proof -
  obtain a changed err where res: "res = (a, changed, err)" by (cases res)
  show ?thesis
  proof (cases changed)
    case True
    then show ?thesis using TransitionArtifact_changed [OF assms(1)] assms(2,3) res by (fastforce simp: trimmed_ids_def split: if_splits)
  next
    case False
    then show ?thesis using TransitionArtifact_cases [OF assms(3) [unfolded res]] assms(2) by simp
  qed
qed

lemma demo_moves_trimmed: "artifacts_ok r \<Longrightarrow> trimmed_ids r \<Longrightarrow> trimmed_ids (demo_moves moves r)"
proof (induction moves r rule: demo_moves.induct)
  case (2 i n to moves r)
  let ?input = "\<lparr>ati_ArtifactID = i, ati_ExpectedVersion = n, ati_ToStatus = to, ati_Reason = [], ati_Content = None\<rparr>"
  obtain a changed err r' where t: "TransitionArtifact (i @ to) (i @ to) ?input n r = ((a, changed, err), r')" by (metis prod.collapse)
  from 2 t artifact_transition_ok [OF 2(2) t] transition_trimmed [OF 2(2,3) t] show ?case by simp
qed simp

lemma demo_rounds_trimmed: "trimmed_ids demo_created" "trimmed_ids demo_delivered_repo" "trimmed_ids demo_requested_repo"
    "trimmed_ids demo_deleting_repo" "trimmed_ids demo_failing_repo"
proof -
  have "map fst (artifacts demo_created) = [''artifact_1'']" by code_simp
  then show created: "trimmed_ids demo_created" by (auto simp: trimmed_ids_def demo_artifact_id dest!: map_of_SomeD)
  have uploaded: "trimmed_ids demo_uploaded"
    using transition_trimmed [OF demo_rounds_ok(1) created] unfolding demo_uploaded_def by (metis prod.collapse)
  have two: "TrimSpace ''artifact_2'' = ''artifact_2''" by code_simp
  have ok: "artifacts_ok demo_uploaded" using artifact_run_ok [OF demo_run artifacts_new] .
  then have second: "artifacts_ok demo_second_repo" using artifact_run_ok demo_second_run by blast
  have "trimmed_ids demo_second_repo" using uploaded create_trimmed two
    by (auto simp: demo_second_repo_def Let_def split: sum.splits prod.splits intro: create_trimmed [OF prod.collapse [symmetric]])
  then show "trimmed_ids demo_delivered_repo" "trimmed_ids demo_requested_repo" "trimmed_ids demo_deleting_repo" "trimmed_ids demo_failing_repo"
    using demo_moves_trimmed ok second uploaded demo_rounds_ok(3)
    by (simp_all add: demo_delivered_repo_def demo_requested_repo_def demo_deleting_repo_def demo_failing_repo_def del: demo_moves.simps)
qed

lemma retention_run_witness:
  "\<exists>w'. RunArtifactRetentionOnce 10 (demo_at demo_created) = ((1, None), w') \<and> card (changed (demo_at demo_created) w') = 1"
proof -
  have run: "fst (RunArtifactRetentionOnce 10 (demo_at demo_created)) = (1, None)" by code_simp
  obtain w' where w': "RunArtifactRetentionOnce 10 (demo_at demo_created) = ((1, None), w')" using run by (metis prod.collapse)
  have "artifacts_ok (w_repo (demo_at demo_created))" "trimmed_ids (w_repo (demo_at demo_created))"
    using demo_rounds_ok(1) demo_rounds_trimmed(1) by (simp_all add: demo_at_def)
  from retention_run [OF this w'] w' show ?thesis by auto
qed

theorem delivered_blocks_retention_witness:
  "\<exists>n err w'. RunArtifactRetentionOnce 10 (demo_at demo_delivered_repo) = ((n, Some err), w') \<and> n = 0
    \<and> each (\<lambda>a b. art_Status a \<noteq> ArtifactStatusReady \<longrightarrow> b = a) (demo_at demo_delivered_repo) w'"
proof -
  obtain d where d: "map_of (artifacts demo_delivered_repo) ''artifact_1'' = Some d" "art_Status d = ArtifactStatusDelivered" "art_RetainUntil d \<le> 200"
  proof -
    have "map_option (\<lambda>d. (art_Status d, art_RetainUntil d)) (map_of (artifacts demo_delivered_repo) ''artifact_1'')
        = Some (ArtifactStatusDelivered, 100)" by code_simp
    then show thesis using that by auto
  qed
  have run: "fst (fst (RunArtifactRetentionOnce 10 (demo_at demo_delivered_repo))) = 0" by code_simp
  then obtain err w' where w': "RunArtifactRetentionOnce 10 (demo_at demo_delivered_repo) = ((0, err), w')" by (metis prod.collapse)
  have "artifacts_ok (w_repo (demo_at demo_delivered_repo))" "trimmed_ids (w_repo (demo_at demo_delivered_repo))"
    using demo_rounds_ok(2) demo_rounds_trimmed(2) by (simp_all add: demo_at_def)
  from delivered_blocks_retention [OF this _ d(2) _ _ w'] d(1,3) have "err \<noteq> None"
    "each (\<lambda>a b. art_Status a \<noteq> ArtifactStatusReady \<longrightarrow> b = a) (demo_at demo_delivered_repo) w'"
    by (auto simp: demo_at_def nowUTC_def)
  with w' show ?thesis by auto
qed

lemma demo_only_store: "artifactStore demo_service driver = Some store \<Longrightarrow> store = memory_backend"
  by (auto simp: artifactStore_def demo_service_def SetArtifactStore_def Memory_trimmed split: if_splits)

lemma demo_drivers: "ArtifactStoreDriverMemory \<noteq> ArtifactStoreDriverNone"
  by code_simp

lemma demo_key: "content_key ''artifact_1/content''" "TrimSpace ''artifact_1/content'' = ''artifact_1/content''"
proof -
  have "validArtifactID ''artifact_1''" by code_simp
  from content_key_id [OF this] show "content_key ''artifact_1/content''" "TrimSpace ''artifact_1/content'' = ''artifact_1/content''" by simp_all
qed

lemma deletion_removes_contents_witness:
  "\<exists>w'. RunArtifactDeletionWorkerOnce demo_service 10 (demo_at demo_requested_repo) = ((1, None), w')
    \<and> memory_content (w_stores (demo_at demo_requested_repo)) ''artifact_1/content'' = Some ''abcdef''
    \<and> memory_content (w_stores w') ''artifact_1/content'' = None"
proof -
  let ?w = "demo_at demo_requested_repo"
  have run: "fst (RunArtifactDeletionWorkerOnce demo_service 10 ?w) = (1, None)" by code_simp
  obtain w' where w': "RunArtifactDeletionWorkerOnce demo_service 10 ?w = ((1, None), w')" using run by (metis prod.collapse)
  have repo: "map (\<lambda>(i, a). (i, art_StoreDriver a, art_StoreKey a)) (artifacts demo_requested_repo)
      = [(''artifact_1'', ArtifactStoreDriverMemory, ''artifact_1/content'')]" by code_simp
  then obtain a where a: "artifacts demo_requested_repo = [(''artifact_1'', a)]" "art_StoreDriver a = ArtifactStoreDriverMemory"
    "art_StoreKey a = ''artifact_1/content''" by (auto simp: map_eq_Cons_conv)
  have w: "w_repo ?w = demo_requested_repo" by (simp add: demo_at_def)
  have hyps: "artifacts_ok (w_repo ?w)" "trimmed_ids (w_repo ?w)" using demo_rounds_ok(3) demo_rounds_trimmed(3) by (simp_all add: w)
  have keys: "service_keys (w_repo ?w)" unfolding service_keys_def w a(1) by (simp add: a(3) demo_key(1))
  have "card (changed ?w w') = 1" using deletion_run [OF cleans_nothing hyps(1,2) _ w'] by (simp add: deletion_done_def)
  moreover have "each unlinked ?w w'" using deletion_run [OF cleans_nothing hyps(1,2) _ w'] by (simp add: deletion_done_def)
  then have "dom (map_of (artifacts (w_repo w'))) = {''artifact_1''}" using a(1) by (simp add: each_def w)
  then have "map_of (artifacts (w_repo w')) i = None" if "i \<noteq> ''artifact_1''" for i using that by (metis domIff singletonD)
  then have "changed ?w w' \<subseteq> {''artifact_1''}" using a(1) by (auto simp: changed_def w split: if_splits)
  ultimately have changed: "''artifact_1'' \<in> changed ?w w'" by (metis card.empty subset_singletonD insertI1 zero_neq_one)
  have stored: "map_of (artifacts (w_repo ?w)) ''artifact_1'' = Some a" using a(1) w by simp
  have "memory_content (w_stores w') (art_StoreKey a) = None"
    by (rule deletion_removes_contents [OF hyps keys demo_only_store w' stored changed]) (simp_all add: a demo_key demo_drivers)
  moreover have "memory_content (w_stores ?w) ''artifact_1/content'' = Some ''abcdef''" by code_simp
  ultimately show ?thesis using w' a(3) by simp
qed

lemma deleting_is_stuck_witness:
  "\<exists>a. map_of (artifacts demo_deleting_repo) ''artifact_1'' = Some a \<and> art_Status a = ArtifactStatusDeleting
    \<and> (\<forall>w'. (cleanup_step demo_service)\<^sup>*\<^sup>* (demo_at demo_deleting_repo) w' \<longrightarrow> map_of (artifacts (w_repo w')) ''artifact_1'' = Some a)"
proof -
  have "map_option art_Status (map_of (artifacts demo_deleting_repo) ''artifact_1'') = Some ArtifactStatusDeleting" by code_simp
  then obtain a where a: "map_of (artifacts demo_deleting_repo) ''artifact_1'' = Some a" "art_Status a = ArtifactStatusDeleting" by auto
  have w: "w_repo (demo_at demo_deleting_repo) = demo_deleting_repo" by (simp add: demo_at_def)
  have "artifacts_ok (w_repo (demo_at demo_deleting_repo))" "trimmed_ids (w_repo (demo_at demo_deleting_repo))"
    using demo_rounds_ok(4) demo_rounds_trimmed(4) by (simp_all add: w)
  from deleting_is_stuck [OF this _ _ a(2)] a show ?thesis by (simp add: w)
qed

definition demo_bare_service :: "MemoryArtifactStore ArtifactService" where
  "demo_bare_service = \<lparr>svc_artifactStores = [], svc_artifactPrimaryDriver = [], svc_artifactProxies = []\<rparr>"

theorem failed_deletion_blocks_witness:
  "\<exists>n err w'. RunArtifactDeletionWorkerOnce demo_bare_service 10 (demo_at demo_failing_repo) = ((n, Some err), w')
    \<and> changed (demo_at demo_failing_repo) w' \<subseteq> {''artifact_1''}
    \<and> map_option art_Status (map_of (artifacts demo_failing_repo) ''artifact_2'') = Some ArtifactStatusExpired"
proof -
  let ?w = "demo_at demo_failing_repo"
  have w: "w_repo ?w = demo_failing_repo" by (simp add: demo_at_def)
  obtain n err w' where run: "RunArtifactDeletionWorkerOnce demo_bare_service 10 ?w = ((n, err), w')" by (metis prod.collapse)
  have queries: "QueryArtifacts (status_query ArtifactStatusDeleteRequested 10) (w_repo ?w) = []"
    "map (\<lambda>x. (art_ID x, art_StoreDriver x, art_StoreKey x)) (QueryArtifacts (status_query ArtifactStatusDeleteFailed 10) (w_repo ?w))
      = [(''artifact_1'', ArtifactStoreDriverMemory, ''artifact_1/content'')]"
    "map_option art_Status (map_of (artifacts demo_failing_repo) ''artifact_2'') = Some ArtifactStatusExpired"
    by code_simp+
  then obtain x where x: "QueryArtifacts (status_query ArtifactStatusDeleteFailed 10) (w_repo ?w) = [x]"
    "art_ID x = ''artifact_1''" "art_StoreDriver x = ArtifactStoreDriverMemory" "art_StoreKey x = ''artifact_1/content''"
    by (auto simp: map_eq_Cons_conv)
  have "artifacts_ok (w_repo ?w)" "trimmed_ids (w_repo ?w)" using demo_rounds_ok(5) demo_rounds_trimmed(5) by (simp_all add: w)
  from failed_deletion_blocks [OF this _ queries(1) x(1) _ _ _ run] x(2-4) demo_key(2) demo_drivers
  have "err \<noteq> None" "changed ?w w' \<subseteq> {''artifact_1''}" by (simp_all add: artifactStore_def demo_bare_service_def)
  with run queries(3) show ?thesis by auto
qed

theorem deletion_drains_witness:
  "\<exists>a w' b. deletion_rounds demo_service 10 1 (demo_at demo_requested_repo) = (None, w')
    \<and> map_of (artifacts demo_requested_repo) ''artifact_1'' = Some a \<and> art_Status a = ArtifactStatusDeleteRequested
    \<and> memory_content (w_stores (demo_at demo_requested_repo)) (art_StoreKey a) = Some ''abcdef''
    \<and> map_of (artifacts (w_repo w')) ''artifact_1'' = Some b \<and> art_Status b = ArtifactStatusDeleted
    \<and> memory_content (w_stores w') (art_StoreKey a) = None"
proof -
  let ?w = "demo_at demo_requested_repo"
  have w: "w_repo ?w = demo_requested_repo" by (simp add: demo_at_def)
  have "fst (RunArtifactDeletionWorkerOnce demo_service 10 ?w) = (1, None)" by code_simp
  then obtain w' where run: "deletion_rounds demo_service 10 1 ?w = (None, w')"
    by (cases "RunArtifactDeletionWorkerOnce demo_service 10 ?w") auto
  have "map (\<lambda>(i, a). (i, art_Status a, art_StoreDriver a, art_StoreKey a)) (artifacts demo_requested_repo)
      = [(''artifact_1'', ArtifactStatusDeleteRequested, ArtifactStoreDriverMemory, ''artifact_1/content'')]" by code_simp
  then obtain a where a: "artifacts demo_requested_repo = [(''artifact_1'', a)]" "art_Status a = ArtifactStatusDeleteRequested"
    "art_StoreDriver a = ArtifactStoreDriverMemory" "art_StoreKey a = ''artifact_1/content''"
    by (auto simp: map_eq_Cons_conv)
  then have one: "awaiting_deletion demo_requested_repo = {''artifact_1''}"
    by (auto simp: awaiting_deletion_def deletion_statuses_def split: if_splits)
  have hyps: "artifacts_ok (w_repo ?w)" "trimmed_ids (w_repo ?w)" using demo_rounds_ok(3) demo_rounds_trimmed(3) by (simp_all add: w)
  have keys: "service_keys (w_repo ?w)" unfolding service_keys_def w a(1) by (simp add: a(4) demo_key(1))
  have only: "\<forall>driver store. artifactStore demo_service driver = Some store \<longrightarrow> store = memory_backend" using demo_only_store by blast
  have stored: "map_of (artifacts (w_repo ?w)) ''artifact_1'' = Some a" using a(1) w by simp
  have "0 < (10::int)" "card (awaiting_deletion (w_repo ?w)) \<le> 1" using one w by simp_all
  from conjunct2 [OF deletion_drains [OF hyps keys only this run], rule_format, OF stored]
  obtain b where "map_of (artifacts (w_repo w')) ''artifact_1'' = Some b" "art_Status b = ArtifactStatusDeleted"
    "memory_content (w_stores w') (art_StoreKey a) = None" using a(2-4) demo_key(2) demo_drivers by (auto simp: demo_at_def)
  moreover have "memory_content (w_stores ?w) ''artifact_1/content'' = Some ''abcdef''" by code_simp
  ultimately show ?thesis using run stored a w by auto
qed

end
