(* ===== verification/Routing_Model.thy ===== *)
theory Routing_Model
  imports CP_Model
begin

text \<open>
  The data of the choice between providers: the bindings of customers and sessions to providers, the evidence on effective prices, the
  decisions to switch from one provider account to another, and the health of the billing evidence. The type variable \<open>'f\<close> stands for
  \<open>float64\<close>: what is proved holds for every arithmetic of floating point numbers.
\<close>

named_theorems routing_consts \<open>the string constants of affinity, effective pricing and billing health\<close>

section \<open>Constants\<close>

definition ProcurementCostConfidenceExact :: string where
  [routing_consts]: "ProcurementCostConfidenceExact = ''exact''"
definition ProcurementCostConfidenceDerived :: string where
  [routing_consts]: "ProcurementCostConfidenceDerived = ''derived''"
definition ProcurementCostConfidenceEstimated :: string where
  [routing_consts]: "ProcurementCostConfidenceEstimated = ''estimated''"
definition ProcurementCostConfidenceUnallocated :: string where
  [routing_consts]: "ProcurementCostConfidenceUnallocated = ''unallocated''"
definition ProcurementCostConfidenceUnknown :: string where
  [routing_consts]: "ProcurementCostConfidenceUnknown = ''unknown''"
definition CacheSupportUnknown :: string where
  [routing_consts]: "CacheSupportUnknown = ''unknown''"
definition CacheSupportClaimed :: string where
  [routing_consts]: "CacheSupportClaimed = ''claimed''"
definition CacheSupportAccepted :: string where
  [routing_consts]: "CacheSupportAccepted = ''accepted''"
definition CacheSupportObserved :: string where
  [routing_consts]: "CacheSupportObserved = ''observed''"
definition CacheSupportBilledVerified :: string where
  [routing_consts]: "CacheSupportBilledVerified = ''billed_verified''"
definition CacheSupportDegraded :: string where
  [routing_consts]: "CacheSupportDegraded = ''degraded''"
definition CacheSupportUnsupported :: string where
  [routing_consts]: "CacheSupportUnsupported = ''unsupported''"
definition PoolAffinityUnknown :: string where
  [routing_consts]: "PoolAffinityUnknown = ''unknown''"
definition PoolAffinityVerified :: string where
  [routing_consts]: "PoolAffinityVerified = ''verified''"
definition PoolAffinityProbable :: string where
  [routing_consts]: "PoolAffinityProbable = ''probable''"
definition PoolAffinityOpaque :: string where
  [routing_consts]: "PoolAffinityOpaque = ''opaque''"
definition PoolAffinityFragmented :: string where
  [routing_consts]: "PoolAffinityFragmented = ''fragmented''"
definition AffinityTransportNone :: string where
  [routing_consts]: "AffinityTransportNone = ''none''"
definition AffinityTransportHeader :: string where
  [routing_consts]: "AffinityTransportHeader = ''header''"
definition AffinityTransportBody :: string where
  [routing_consts]: "AffinityTransportBody = ''body''"
definition CacheControlModePassthrough :: string where
  [routing_consts]: "CacheControlModePassthrough = ''passthrough_if_present''"
definition CacheControlModePromptCacheKey :: string where
  [routing_consts]: "CacheControlModePromptCacheKey = ''prompt_cache_key''"
definition EffectivePricingModeObserveOnly :: string where
  [routing_consts]: "EffectivePricingModeObserveOnly = ''observe_only''"
definition EffectivePricingModeRecommend :: string where
  [routing_consts]: "EffectivePricingModeRecommend = ''recommend''"
definition EffectivePricingModeCanary :: string where
  [routing_consts]: "EffectivePricingModeCanary = ''canary''"
definition EffectivePricingModeBalanced :: string where
  [routing_consts]: "EffectivePricingModeBalanced = ''balanced''"
definition EffectivePricingModeCostFirst :: string where
  [routing_consts]: "EffectivePricingModeCostFirst = ''cost_first''"
definition EffectivePricingModeFixedRoute :: string where
  [routing_consts]: "EffectivePricingModeFixedRoute = ''fixed_route''"
definition EffectivePricingDecisionHold :: string where
  [routing_consts]: "EffectivePricingDecisionHold = ''hold''"
definition EffectivePricingDecisionRecommended :: string where
  [routing_consts]: "EffectivePricingDecisionRecommended = ''recommended''"
definition EffectivePricingDecisionCanary :: string where
  [routing_consts]: "EffectivePricingDecisionCanary = ''canary''"
definition EffectivePricingDecisionActive :: string where
  [routing_consts]: "EffectivePricingDecisionActive = ''active''"
definition EffectivePricingDecisionRolledBack :: string where
  [routing_consts]: "EffectivePricingDecisionRolledBack = ''rolled_back''"
definition EffectivePricingDecisionDegraded :: string where
  [routing_consts]: "EffectivePricingDecisionDegraded = ''degraded''"
definition EffectivePricingDecisionEmergencyFailover :: string where
  [routing_consts]: "EffectivePricingDecisionEmergencyFailover = ''emergency_failover''"
definition EffectivePricingEvaluationHealthy :: string where
  [routing_consts]: "EffectivePricingEvaluationHealthy = ''healthy''"
definition EffectivePricingEvaluationDegraded :: string where
  [routing_consts]: "EffectivePricingEvaluationDegraded = ''degraded''"
definition EffectivePricingEvaluationInconclusive :: string where
  [routing_consts]: "EffectivePricingEvaluationInconclusive = ''inconclusive''"
definition AffinityBindingSupplier :: string where
  [routing_consts]: "AffinityBindingSupplier = ''supplier''"
definition AffinityBindingAccount :: string where
  [routing_consts]: "AffinityBindingAccount = ''account''"
definition ProviderBillingSourceObserveOnly :: string where
  [routing_consts]: "ProviderBillingSourceObserveOnly = ''observe_only''"
definition ProviderBillingSourceActive :: string where
  [routing_consts]: "ProviderBillingSourceActive = ''active''"
definition ProviderBillingSourceDisabled :: string where
  [routing_consts]: "ProviderBillingSourceDisabled = ''disabled''"
definition ProviderBillingRoutingHealthHealthy :: string where
  [routing_consts]: "ProviderBillingRoutingHealthHealthy = ''healthy''"
definition ProviderBillingRoutingHealthDegraded :: string where
  [routing_consts]: "ProviderBillingRoutingHealthDegraded = ''degraded''"
definition ProviderBillingRoutingHealthBlocked :: string where
  [routing_consts]: "ProviderBillingRoutingHealthBlocked = ''blocked''"
definition ProviderBillingRoutingHealthObserveOnly :: string where
  [routing_consts]: "ProviderBillingRoutingHealthObserveOnly = ''observe_only''"
definition ProviderBillingRoutingHealthDisabled :: string where
  [routing_consts]: "ProviderBillingRoutingHealthDisabled = ''disabled''"
definition ProviderBalanceKindWallet :: string where
  [routing_consts]: "ProviderBalanceKindWallet = ''wallet_balance''"
definition ProviderBalanceKindKeyQuota :: string where
  [routing_consts]: "ProviderBalanceKindKeyQuota = ''api_key_quota_remaining''"
definition ProviderBalanceKindSubscription :: string where
  [routing_consts]: "ProviderBalanceKindSubscription = ''subscription_period_remaining''"
definition ProviderBillingReasonKeyInvalid :: string where
  [routing_consts]: "ProviderBillingReasonKeyInvalid = ''provider_billing_key_invalid''"
definition ProviderBillingReasonAuthRejected :: string where
  [routing_consts]: "ProviderBillingReasonAuthRejected = ''provider_billing_auth_rejected''"
definition ProviderBillingReasonKeyQuotaExhausted :: string where
  [routing_consts]: "ProviderBillingReasonKeyQuotaExhausted = ''provider_billing_key_quota_exhausted''"
definition ProviderBillingReasonSubscriptionExhausted :: string where
  [routing_consts]: "ProviderBillingReasonSubscriptionExhausted = ''provider_billing_subscription_exhausted''"
definition ProviderBillingReasonSyncUnhealthy :: string where
  [routing_consts]: "ProviderBillingReasonSyncUnhealthy = ''provider_billing_sync_unhealthy''"
definition ProviderBillingReasonEvidenceStale :: string where
  [routing_consts]: "ProviderBillingReasonEvidenceStale = ''provider_billing_evidence_stale''"
definition ProviderBillingReasonEvidenceMissing :: string where
  [routing_consts]: "ProviderBillingReasonEvidenceMissing = ''provider_billing_evidence_missing''"
definition ProviderBillingReasonSourceObserveOnly :: string where
  [routing_consts]: "ProviderBillingReasonSourceObserveOnly = ''provider_billing_source_observe_only''"
definition ProviderBillingReasonSourceDisabled :: string where
  [routing_consts]: "ProviderBillingReasonSourceDisabled = ''provider_billing_source_disabled''"

definition defaultEffectivePricingPolicyID :: string where
  "defaultEffectivePricingPolicyID = ''default''"

lemma decision_status_distinct [simp]:
  "EffectivePricingDecisionHold \<noteq> EffectivePricingDecisionRecommended"
  "EffectivePricingDecisionHold \<noteq> EffectivePricingDecisionCanary"
  "EffectivePricingDecisionHold \<noteq> EffectivePricingDecisionActive"
  "EffectivePricingDecisionHold \<noteq> EffectivePricingDecisionRolledBack"
  "EffectivePricingDecisionHold \<noteq> EffectivePricingDecisionDegraded"
  "EffectivePricingDecisionHold \<noteq> EffectivePricingDecisionEmergencyFailover"
  "EffectivePricingDecisionRecommended \<noteq> EffectivePricingDecisionHold"
  "EffectivePricingDecisionRecommended \<noteq> EffectivePricingDecisionCanary"
  "EffectivePricingDecisionRecommended \<noteq> EffectivePricingDecisionActive"
  "EffectivePricingDecisionRecommended \<noteq> EffectivePricingDecisionRolledBack"
  "EffectivePricingDecisionRecommended \<noteq> EffectivePricingDecisionDegraded"
  "EffectivePricingDecisionRecommended \<noteq> EffectivePricingDecisionEmergencyFailover"
  "EffectivePricingDecisionCanary \<noteq> EffectivePricingDecisionHold"
  "EffectivePricingDecisionCanary \<noteq> EffectivePricingDecisionRecommended"
  "EffectivePricingDecisionCanary \<noteq> EffectivePricingDecisionActive"
  "EffectivePricingDecisionCanary \<noteq> EffectivePricingDecisionRolledBack"
  "EffectivePricingDecisionCanary \<noteq> EffectivePricingDecisionDegraded"
  "EffectivePricingDecisionCanary \<noteq> EffectivePricingDecisionEmergencyFailover"
  "EffectivePricingDecisionActive \<noteq> EffectivePricingDecisionHold"
  "EffectivePricingDecisionActive \<noteq> EffectivePricingDecisionRecommended"
  "EffectivePricingDecisionActive \<noteq> EffectivePricingDecisionCanary"
  "EffectivePricingDecisionActive \<noteq> EffectivePricingDecisionRolledBack"
  "EffectivePricingDecisionActive \<noteq> EffectivePricingDecisionDegraded"
  "EffectivePricingDecisionActive \<noteq> EffectivePricingDecisionEmergencyFailover"
  "EffectivePricingDecisionRolledBack \<noteq> EffectivePricingDecisionHold"
  "EffectivePricingDecisionRolledBack \<noteq> EffectivePricingDecisionRecommended"
  "EffectivePricingDecisionRolledBack \<noteq> EffectivePricingDecisionCanary"
  "EffectivePricingDecisionRolledBack \<noteq> EffectivePricingDecisionActive"
  "EffectivePricingDecisionRolledBack \<noteq> EffectivePricingDecisionDegraded"
  "EffectivePricingDecisionRolledBack \<noteq> EffectivePricingDecisionEmergencyFailover"
  "EffectivePricingDecisionDegraded \<noteq> EffectivePricingDecisionHold"
  "EffectivePricingDecisionDegraded \<noteq> EffectivePricingDecisionRecommended"
  "EffectivePricingDecisionDegraded \<noteq> EffectivePricingDecisionCanary"
  "EffectivePricingDecisionDegraded \<noteq> EffectivePricingDecisionActive"
  "EffectivePricingDecisionDegraded \<noteq> EffectivePricingDecisionRolledBack"
  "EffectivePricingDecisionDegraded \<noteq> EffectivePricingDecisionEmergencyFailover"
  "EffectivePricingDecisionEmergencyFailover \<noteq> EffectivePricingDecisionHold"
  "EffectivePricingDecisionEmergencyFailover \<noteq> EffectivePricingDecisionRecommended"
  "EffectivePricingDecisionEmergencyFailover \<noteq> EffectivePricingDecisionCanary"
  "EffectivePricingDecisionEmergencyFailover \<noteq> EffectivePricingDecisionActive"
  "EffectivePricingDecisionEmergencyFailover \<noteq> EffectivePricingDecisionRolledBack"
  "EffectivePricingDecisionEmergencyFailover \<noteq> EffectivePricingDecisionDegraded"
  by (simp_all add: routing_consts)

lemma verdict_distinct [simp]:
  "EffectivePricingEvaluationHealthy \<noteq> EffectivePricingEvaluationDegraded"
  "EffectivePricingEvaluationHealthy \<noteq> EffectivePricingEvaluationInconclusive"
  "EffectivePricingEvaluationDegraded \<noteq> EffectivePricingEvaluationHealthy"
  "EffectivePricingEvaluationDegraded \<noteq> EffectivePricingEvaluationInconclusive"
  "EffectivePricingEvaluationInconclusive \<noteq> EffectivePricingEvaluationHealthy"
  "EffectivePricingEvaluationInconclusive \<noteq> EffectivePricingEvaluationDegraded"
  by (simp_all add: routing_consts)

lemma affinity_kind_distinct [simp]:
  "AffinityBindingSupplier \<noteq> AffinityBindingAccount"
  "AffinityBindingAccount \<noteq> AffinityBindingSupplier"
  by (simp_all add: routing_consts)

section \<open>Records\<close>

record RoutingAffinityBinding =
  aff_ScopeKey :: string
  aff_Kind :: string
  aff_ProviderID :: string
  aff_ProviderAccountID :: string
  aff_RouteID :: string
  aff_Model :: string
  aff_Protocol :: string
  aff_PolicyVersion :: int
  aff_CreatedAt :: gotime
  aff_LastReusedAt :: gotime
  aff_ExpiresAt :: gotime

definition zero_RoutingAffinityBinding :: RoutingAffinityBinding where
  "zero_RoutingAffinityBinding =
     \<lparr>aff_ScopeKey = [], aff_Kind = [], aff_ProviderID = [], aff_ProviderAccountID = [], aff_RouteID = [], aff_Model = [],
      aff_Protocol = [], aff_PolicyVersion = 0, aff_CreatedAt = 0, aff_LastReusedAt = 0, aff_ExpiresAt = 0\<rparr>"

record 'f ProviderCacheCapability =
  cap_ID :: string
  cap_ProviderAccountID :: string
  cap_UpstreamModel :: string
  cap_Protocol :: string
  cap_SupportStatus :: string
  cap_PoolAffinityGrade :: string
  cap_AffinityTransport :: string
  cap_AffinityField :: string
  cap_CacheControlMode :: string
  cap_UsageSchema :: string
  cap_MetricsCoverage :: 'f
  cap_EligibleRequestHitRate :: 'f
  cap_CacheTokenHitRate :: 'f
  cap_CacheWriteReadRatio :: 'f
  cap_AffinityConsistencyRate :: 'f
  cap_BillingConsistencyRate :: 'f
  cap_ProductionSampleCount :: int
  cap_ProbeSampleCount :: int
  cap_DegradedReason :: string
  cap_LastObservedAt :: "gotime option"
  cap_LastVerifiedAt :: "gotime option"
  cap_CreatedAt :: gotime
  cap_UpdatedAt :: gotime

record 'f EffectivePricingPolicy =
  pol_ID :: string
  pol_Mode :: string
  pol_WindowHours :: int
  pol_MinSampleCount :: int
  pol_MinMetricsCoverage :: 'f
  pol_MinBillingConsistency :: 'f
  pol_MinCostImprovement :: 'f
  pol_MinCacheHitRateImprovement :: 'f
  pol_MinAffinityImprovement :: 'f
  pol_MaxCacheTiebreakCostRegression :: 'f
  pol_MaxErrorRateRegression :: 'f
  pol_MaxP95LatencyRegression :: 'f
  pol_CanaryPercent :: int
  pol_SupplierAffinityTTLSeconds :: int
  pol_AccountAffinityTTLSeconds :: int
  pol_AutomaticActionsEnabled :: bool
  pol_EvaluationIntervalMinutes :: int
  pol_PromotionWindowCount :: int
  pol_DegradationWindowCount :: int
  pol_ProbeEnabled :: bool
  pol_ProbeDailyTokenBudget :: int
  pol_ProbeDailyCostBudgetMicros :: int
  pol_ProbeCooldownSeconds :: int
  pol_UpdatedBy :: string
  pol_CreatedAt :: gotime
  pol_UpdatedAt :: gotime

definition zero_EffectivePricingPolicy :: "'f \<Rightarrow> 'f EffectivePricingPolicy" where
  "zero_EffectivePricingPolicy z =
     \<lparr>pol_ID = [], pol_Mode = [], pol_WindowHours = 0, pol_MinSampleCount = 0, pol_MinMetricsCoverage = z,
      pol_MinBillingConsistency = z, pol_MinCostImprovement = z, pol_MinCacheHitRateImprovement = z,
      pol_MinAffinityImprovement = z, pol_MaxCacheTiebreakCostRegression = z, pol_MaxErrorRateRegression = z,
      pol_MaxP95LatencyRegression = z, pol_CanaryPercent = 0, pol_SupplierAffinityTTLSeconds = 0,
      pol_AccountAffinityTTLSeconds = 0, pol_AutomaticActionsEnabled = False, pol_EvaluationIntervalMinutes = 0,
      pol_PromotionWindowCount = 0, pol_DegradationWindowCount = 0, pol_ProbeEnabled = False, pol_ProbeDailyTokenBudget = 0,
      pol_ProbeDailyCostBudgetMicros = 0, pol_ProbeCooldownSeconds = 0, pol_UpdatedBy = [], pol_CreatedAt = 0,
      pol_UpdatedAt = 0\<rparr>"

record 'f EffectivePriceSnapshot =
  eps_ID :: string
  eps_ProviderID :: string
  eps_ProviderAccountID :: string
  eps_UpstreamModel :: string
  eps_Protocol :: string
  eps_Currency :: string
  eps_EffectiveCostMicrosPer1M :: int
  eps_EffectiveMultiplier :: 'f
  eps_QuotedMultiplier :: 'f
  eps_CacheTokenHitRate :: 'f
  eps_MetricsCoverage :: 'f
  eps_BillingConsistencyRate :: 'f
  eps_RequestCount :: int
  eps_CostConfidence :: string
  eps_PriceID :: string
  eps_WindowStart :: gotime
  eps_WindowEnd :: gotime
  eps_ExpiresAt :: gotime
  eps_CreatedAt :: gotime

record 'f EffectivePricingDecision =
  epd_ID :: string
  epd_Model :: string
  epd_UpstreamModel :: string
  epd_Protocol :: string
  epd_CurrentProviderAccountID :: string
  epd_CandidateProviderAccountID :: string
  epd_CurrentSnapshotID :: string
  epd_CandidateSnapshotID :: string
  epd_CurrentCostMicrosPer1M :: int
  epd_CandidateCostMicrosPer1M :: int
  epd_CostImprovement :: 'f
  epd_Status :: string
  epd_ReasonCodes :: "string list"
  epd_CanaryPercent :: int
  epd_SampleCount :: int
  epd_Confidence :: string
  epd_HealthyWindowCount :: int
  epd_DegradedWindowCount :: int
  epd_LastEvaluationID :: string
  epd_LastEvaluationVerdict :: string
  epd_LastEvaluationReasonCodes :: "string list"
  epd_LastEvaluatedWindowEnd :: "gotime option"
  epd_MonitoringStartedAt :: "gotime option"
  epd_LastHealthyAt :: "gotime option"
  epd_LastAutomaticAction :: string
  epd_CreatedBy :: string
  epd_CreatedAt :: gotime
  epd_UpdatedAt :: gotime

definition zero_EffectivePricingDecision :: "'f \<Rightarrow> 'f EffectivePricingDecision" where
  "zero_EffectivePricingDecision z =
     \<lparr>epd_ID = [], epd_Model = [], epd_UpstreamModel = [], epd_Protocol = [], epd_CurrentProviderAccountID = [],
      epd_CandidateProviderAccountID = [], epd_CurrentSnapshotID = [], epd_CandidateSnapshotID = [],
      epd_CurrentCostMicrosPer1M = 0, epd_CandidateCostMicrosPer1M = 0, epd_CostImprovement = z, epd_Status = [],
      epd_ReasonCodes = [], epd_CanaryPercent = 0, epd_SampleCount = 0, epd_Confidence = [], epd_HealthyWindowCount = 0,
      epd_DegradedWindowCount = 0, epd_LastEvaluationID = [], epd_LastEvaluationVerdict = [], epd_LastEvaluationReasonCodes = [],
      epd_LastEvaluatedWindowEnd = None, epd_MonitoringStartedAt = None, epd_LastHealthyAt = None, epd_LastAutomaticAction = [],
      epd_CreatedBy = [], epd_CreatedAt = 0, epd_UpdatedAt = 0\<rparr>"

record 'f EffectivePricingDecisionEvaluation =
  epw_ID :: string
  epw_DecisionID :: string
  epw_WindowStart :: gotime
  epw_WindowEnd :: gotime
  epw_Verdict :: string
  epw_ReasonCodes :: "string list"
  epw_CurrentSnapshotID :: string
  epw_CandidateSnapshotID :: string
  epw_CurrentRequestCount :: int
  epw_CandidateRequestCount :: int
  epw_CurrentCostMicrosPer1M :: int
  epw_CandidateCostMicrosPer1M :: int
  epw_CostImprovement :: 'f
  epw_CurrentCacheTokenHitRate :: 'f
  epw_CandidateCacheTokenHitRate :: 'f
  epw_CurrentCacheSavingsRate :: 'f
  epw_CandidateCacheSavingsRate :: 'f
  epw_CurrentAffinityConsistencyRate :: 'f
  epw_CandidateAffinityConsistencyRate :: 'f
  epw_CurrentErrorRate :: 'f
  epw_CandidateErrorRate :: 'f
  epw_CurrentP95LatencyMS :: int
  epw_CandidateP95LatencyMS :: int
  epw_CurrentMetricsCoverage :: 'f
  epw_CandidateMetricsCoverage :: 'f
  epw_CurrentBillingConsistencyRate :: 'f
  epw_CandidateBillingConsistencyRate :: 'f
  epw_AutomaticAction :: string
  epw_CreatedAt :: gotime

definition zero_EffectivePricingDecisionEvaluation :: "'f \<Rightarrow> 'f EffectivePricingDecisionEvaluation" where
  "zero_EffectivePricingDecisionEvaluation z =
     \<lparr>epw_ID = [], epw_DecisionID = [], epw_WindowStart = 0, epw_WindowEnd = 0, epw_Verdict = [], epw_ReasonCodes = [],
      epw_CurrentSnapshotID = [], epw_CandidateSnapshotID = [], epw_CurrentRequestCount = 0, epw_CandidateRequestCount = 0,
      epw_CurrentCostMicrosPer1M = 0, epw_CandidateCostMicrosPer1M = 0, epw_CostImprovement = z,
      epw_CurrentCacheTokenHitRate = z, epw_CandidateCacheTokenHitRate = z, epw_CurrentCacheSavingsRate = z,
      epw_CandidateCacheSavingsRate = z, epw_CurrentAffinityConsistencyRate = z, epw_CandidateAffinityConsistencyRate = z,
      epw_CurrentErrorRate = z, epw_CandidateErrorRate = z, epw_CurrentP95LatencyMS = 0, epw_CandidateP95LatencyMS = 0,
      epw_CurrentMetricsCoverage = z, epw_CandidateMetricsCoverage = z, epw_CurrentBillingConsistencyRate = z,
      epw_CandidateBillingConsistencyRate = z, epw_AutomaticAction = [], epw_CreatedAt = 0\<rparr>"

record 'f EffectivePricingDecisionEvaluationCommit =
  epc_Evaluation :: "'f EffectivePricingDecisionEvaluation"
  epc_Decision :: "'f EffectivePricingDecision"
  epc_ExpectedStatus :: string
  epc_ExpectedUpdatedAt :: gotime
  epc_CurrentSnapshot :: "'f EffectivePriceSnapshot option"
  epc_CandidateSnapshot :: "'f EffectivePriceSnapshot option"
  epc_Audit :: "AuditLog option"

record EffectivePricingDecisionActionRequest =
  act_Action :: string
  act_CanaryPercent :: int

record EffectivePricingReportQuery =
  repq_Model :: string
  repq_Protocol :: string
  repq_WindowHours :: int

record ProviderBillingRoutingHealth =
  bh_SourceStatus :: string
  bh_Status :: string
  bh_HardBlocked :: bool
  bh_EconomicSwitchEligible :: bool
  bh_ReasonCodes :: "string list"
  bh_EvaluatedAt :: gotime
  bh_EvidenceObservedAt :: "gotime option"
  bh_EvidenceStaleAfterSeconds :: int

definition zero_ProviderBillingRoutingHealth :: ProviderBillingRoutingHealth where
  "zero_ProviderBillingRoutingHealth =
     \<lparr>bh_SourceStatus = [], bh_Status = [], bh_HardBlocked = False, bh_EconomicSwitchEligible = False,
      bh_ReasonCodes = [], bh_EvaluatedAt = 0, bh_EvidenceObservedAt = None, bh_EvidenceStaleAfterSeconds = 0\<rparr>"

record 'f EffectivePricingReportRow =
  row_ProviderID :: string
  row_ProviderName :: string
  row_ProviderAccountID :: string
  row_ProviderAccountName :: string
  row_UpstreamModel :: string
  row_Protocol :: string
  row_Currency :: string
  row_CostAvailable :: bool
  row_UncachedInputMicrosPer1MTokens :: int
  row_CacheReadMicrosPer1MTokens :: int
  row_CacheWrite5mMicrosPer1MTokens :: int
  row_CacheWrite1hMicrosPer1MTokens :: int
  row_OutputMicrosPer1MTokens :: int
  row_RequestMicros :: int
  row_ReferenceInputMicrosPer1MTokens :: int
  row_ReferenceOutputMicrosPer1MTokens :: int
  row_RechargeMultiplier :: 'f
  row_QuotedMultiplier :: 'f
  row_BilledMultiplier :: 'f
  row_EffectiveMultiplier :: 'f
  row_EffectiveCostMicrosPer1M :: int
  row_UncachedCostMicrosPer1M :: int
  row_CacheSavingsMicrosPer1M :: int
  row_CacheSavingsRate :: 'f
  row_CacheEconomicsAvailable :: bool
  row_RequestCount :: int
  row_ErrorRate :: 'f
  row_P95LatencyMS :: int
  row_MetricsCoverage :: 'f
  row_EligibleRequestHitRate :: 'f
  row_CacheTokenHitRate :: 'f
  row_CacheWriteReadRatio :: 'f
  row_BillingConsistencyRate :: 'f
  row_AffinityConsistencyRate :: 'f
  row_CacheSupportStatus :: string
  row_PoolAffinityGrade :: string
  row_CostConfidence :: string
  row_PriceID :: string
  row_ProviderBillingRoutingHealth :: "ProviderBillingRoutingHealth option"
  row_Recommendation :: string
  row_ReasonCodes :: "string list"

record 'f EffectivePricingReport =
  rep_WindowStart :: gotime
  rep_WindowEnd :: gotime
  rep_Policy :: "'f EffectivePricingPolicy"
  rep_Rows :: "'f EffectivePricingReportRow list"
  rep_Decisions :: "'f EffectivePricingDecision list"

record ProviderBillingSourceCapabilities =
  bcap_UsageCostLines :: bool
  bcap_AggregateUsage :: bool
  bcap_Balance :: bool
  bcap_IncrementalSync :: bool
  bcap_PriceFeed :: bool

record ProviderBillingSource =
  bs_ID :: string
  bs_ProviderID :: string
  bs_ProviderAccountID :: string
  bs_AdapterID :: string
  bs_Status :: string
  bs_AutomaticSyncEnabled :: bool
  bs_SyncIntervalSeconds :: int
  bs_Cursor :: string
  bs_Capabilities :: ProviderBillingSourceCapabilities
  bs_DetectionStatus :: string
  bs_ContractVersion :: string
  bs_EvidenceHash :: string
  bs_Warnings :: "string list"
  bs_NextSyncAt :: "gotime option"
  bs_LastSyncStartedAt :: "gotime option"
  bs_LastSyncCompletedAt :: "gotime option"
  bs_LastSuccessAt :: "gotime option"
  bs_ConsecutiveFailures :: int
  bs_LastErrorCode :: string
  bs_LeaseToken :: string
  bs_LeaseExpiresAt :: "gotime option"
  bs_Version :: int
  bs_CreatedBy :: string
  bs_UpdatedBy :: string
  bs_CreatedAt :: gotime
  bs_UpdatedAt :: gotime
  bs_RoutingHealth :: "ProviderBillingRoutingHealth option"

record ProviderBalanceSnapshotRecord =
  bal_ID :: string
  bal_SourceID :: string
  bal_SyncRunID :: string
  bal_ProviderAccountID :: string
  bal_Kind :: string
  bal_AmountMicros :: int
  bal_Unlimited :: bool
  bal_Currency :: string
  bal_EvidenceHash :: string
  bal_ObservedAt :: gotime
  bal_CreatedAt :: gotime

record 'f GatewayProvider =
  gp_AttemptID :: string
  gp_ID :: string
  gp_Name :: string
  gp_Type :: string
  gp_BaseURL :: string
  gp_APIKey :: string
  gp_AuthType :: string
  gp_AdapterConfig :: "(string, string) gmap"
  gp_AdapterID :: string
  gp_AccountID :: string
  gp_AccountName :: string
  gp_Concurrency :: int
  gp_GatewayModelID :: string
  gp_RequestedModel :: string
  gp_UpstreamModel :: string
  gp_UpstreamFormat :: string
  gp_RouteID :: string
  gp_RouteGroup :: string
  gp_RoutePriority :: int
  gp_RouteWeight :: int
  gp_AccountWeight :: int
  gp_RPMLimit :: int
  gp_TPMLimit :: int
  gp_CircuitState :: string
  gp_CircuitProbe :: bool
  gp_Headroom :: 'f
  gp_StickyEnabled :: bool
  gp_StickyTTLSeconds :: int
  gp_Source :: string
  gp_SelectionReason :: string

record GatewayAffinityInput =
  gai_TenantID :: string
  gai_PrincipalID :: string
  gai_CredentialID :: string
  gai_Model :: string
  gai_Protocol :: string
  gai_RouteGroup :: string
  gai_StickyKey :: string
  gai_PolicyVersion :: int

record GatewayUpstreamAffinity =
  gua_HeaderName :: string
  gua_BodyField :: string
  gua_Value :: string
  gua_PromptCacheKey :: bool

definition zero_GatewayUpstreamAffinity :: GatewayUpstreamAffinity where
  "zero_GatewayUpstreamAffinity =
     \<lparr>gua_HeaderName = [], gua_BodyField = [], gua_Value = [], gua_PromptCacheKey = False\<rparr>"

text \<open>The fields of the repository that these operations use and no other modelled operation does.\<close>

record 'f pricing_maps =
  providerCacheCapabilities :: "(string, 'f ProviderCacheCapability) gmap"
  effectivePricingPolicies :: "(string, 'f EffectivePricingPolicy) gmap"
  effectivePriceSnapshots :: "(string, 'f EffectivePriceSnapshot) gmap"
  effectivePricingDecisions :: "(string, 'f EffectivePricingDecision) gmap"
  effectivePricingEvaluations :: "(string, 'f EffectivePricingDecisionEvaluation) gmap"
  routingAffinityBindings :: "(string, RoutingAffinityBinding) gmap"
  providerBillingSources :: "(string, ProviderBillingSource) gmap"
  providerBalanceSnapshots :: "(string, ProviderBalanceSnapshotRecord) gmap"
  pricingAuditLogs :: "(string, AuditLog) gmap"

definition new_pricing_maps :: "'f pricing_maps" where
  "new_pricing_maps = \<lparr>providerCacheCapabilities = [], effectivePricingPolicies = [], effectivePriceSnapshots = [],
     effectivePricingDecisions = [], effectivePricingEvaluations = [], routingAffinityBindings = [],
     providerBillingSources = [], providerBalanceSnapshots = [], pricingAuditLogs = []\<rparr>"

end
