(* ===== verification/Routing_Affinity.thy ===== *)
theory Routing_Affinity
  imports Routing_Model
begin

text \<open>
  Affinity (\<open>gateway_affinity.go\<close>, \<open>routing_affinity_coordinator.go\<close>): a customer stays with the provider, and a session with the
  provider account, that served it last, as long as the binding lasts and the provider is still a candidate. Bindings are stored under a
  keyed hash of their scope. A coordinator over several instances is optional and a parameter; when it fails, the repository decides.
\<close>

section \<open>HMAC-SHA256\<close>

definition hmac_block :: "string \<Rightarrow> string" where
  "hmac_block key =
     (let key = (if length key > 64 then map char_of (sha256 key) else key) in key @ replicate (64 - length key) (CHR 0x00))"

definition hmac_sha256 :: "string \<Rightarrow> string \<Rightarrow> nat list" where
  "hmac_sha256 key message =
     (let pad = (\<lambda>b. map (\<lambda>c. char_of (byte_of c XOR b)) (hmac_block key))
      in sha256 (pad 92 @ map char_of (sha256 (pad 54 @ message))))"

section \<open>Scope keys\<close>

record 'c RoutingAffinityCoordinator =
  coord_Find :: "string \<Rightarrow> 'c \<Rightarrow> (go_error + RoutingAffinityBinding option) \<times> 'c"
  coord_Claim :: "RoutingAffinityBinding \<Rightarrow> duration \<Rightarrow> 'c \<Rightarrow> (go_error + RoutingAffinityBinding \<times> bool) \<times> 'c"
  coord_Refresh :: "RoutingAffinityBinding \<Rightarrow> duration \<Rightarrow> 'c \<Rightarrow> (go_error + bool) \<times> 'c"

text \<open>The part of the service that affinity uses, and what it changes.\<close>

record 'c AffinityService =
  svc_secretKey :: string
  svc_routingAffinityCoordinator :: "'c RoutingAffinityCoordinator option"

record ('f, 'c) routing_world =
  rw_maps :: "'f pricing_maps"
  rw_coordinator :: 'c

definition affinity_principal :: "GatewayAffinityInput \<Rightarrow> string" where
  "affinity_principal input =
     (let principalID = TrimSpace (gai_PrincipalID input) in if principalID = [] then TrimSpace (gai_CredentialID input) else principalID)"

definition affinity_identity :: "string \<Rightarrow> GatewayAffinityInput \<Rightarrow> string" where
  "affinity_identity kind input =
     (if kind = AffinityBindingAccount
      then strings_Join [kind, gai_CredentialID input, gai_Model input, gai_Protocol input, gai_RouteGroup input, gai_StickyKey input,
             Itoa (gai_PolicyVersion input)] NUL
      else strings_Join [kind, gai_TenantID input, affinity_principal input, gai_Model input, gai_Protocol input, gai_RouteGroup input,
             Itoa (gai_PolicyVersion input)] NUL)"

definition gatewayAffinityScopeKey :: "string \<Rightarrow> string \<Rightarrow> GatewayAffinityInput \<Rightarrow> string" where
  "gatewayAffinityScopeKey secretKey kind input = ''affinity_'' @ hex_encode (hmac_sha256 secretKey (affinity_identity kind input))"

definition GatewayEffectivePricingCohortKey :: "string \<Rightarrow> GatewayAffinityInput \<Rightarrow> string" where
  "GatewayEffectivePricingCohortKey secretKey input = gatewayAffinityScopeKey secretKey AffinityBindingSupplier input"

section \<open>Bindings of the repository\<close>

definition FindRoutingAffinityBinding :: "string \<Rightarrow> gotime \<Rightarrow> 'f pricing_maps \<Rightarrow> RoutingAffinityBinding option \<times> 'f pricing_maps" where
  "FindRoutingAffinityBinding scopeKey now r =
     (case map_of (routingAffinityBindings r) scopeKey of
        None \<Rightarrow> (None, r)
      | Some binding \<Rightarrow>
          if \<not> now < aff_ExpiresAt binding then (None, r\<lparr>routingAffinityBindings := mdelete scopeKey (routingAffinityBindings r)\<rparr>)
          else (Some binding, r))"

definition SaveRoutingAffinityBinding :: "RoutingAffinityBinding \<Rightarrow> 'f pricing_maps \<Rightarrow> 'f pricing_maps" where
  "SaveRoutingAffinityBinding binding r =
     r\<lparr>routingAffinityBindings := mput (aff_ScopeKey binding) binding (routingAffinityBindings r)\<rparr>"

definition DeleteRoutingAffinityBinding :: "string \<Rightarrow> 'f pricing_maps \<Rightarrow> 'f pricing_maps" where
  "DeleteRoutingAffinityBinding scopeKey r = r\<lparr>routingAffinityBindings := mdelete scopeKey (routingAffinityBindings r)\<rparr>"

definition GetEffectivePricingPolicy :: "'f pricing_maps \<Rightarrow> 'f EffectivePricingPolicy option" where
  "GetEffectivePricingPolicy r = map_of (effectivePricingPolicies r) defaultEffectivePricingPolicyID"

fun find_capability :: "string \<Rightarrow> string \<Rightarrow> string \<Rightarrow> 'f ProviderCacheCapability list \<Rightarrow> 'f ProviderCacheCapability option" where
  "find_capability accountID model protocol [] = None"
| "find_capability accountID model protocol (capability # xs) =
     (if cap_ProviderAccountID capability = accountID \<and> cap_UpstreamModel capability = model \<and> cap_Protocol capability = protocol
      then Some capability else find_capability accountID model protocol xs)"

definition FindProviderCacheCapability :: "string \<Rightarrow> string \<Rightarrow> string \<Rightarrow> 'f pricing_maps \<Rightarrow> 'f ProviderCacheCapability option" where
  "FindProviderCacheCapability accountID model protocol r = find_capability accountID model protocol (mvalues (providerCacheCapabilities r))"

section \<open>Bindings of the service\<close>

definition defaultSupplierAffinityTTL :: duration where "defaultSupplierAffinityTTL = 24 * Hour"
definition defaultAccountAffinityTTL :: duration where "defaultAccountAffinityTTL = 30 * Minute"

definition gatewayAffinityTTLs :: "'f pricing_maps \<Rightarrow> duration \<times> duration" where
  "gatewayAffinityTTLs r =
     (case GetEffectivePricingPolicy r of
        None \<Rightarrow> (defaultSupplierAffinityTTL, defaultAccountAffinityTTL)
      | Some policy \<Rightarrow>
          (if pol_SupplierAffinityTTLSeconds policy > 0 then wrap64 (pol_SupplierAffinityTTLSeconds policy * Second) else defaultSupplierAffinityTTL,
           if pol_AccountAffinityTTLSeconds policy > 0 then wrap64 (pol_AccountAffinityTTLSeconds policy * Second) else defaultAccountAffinityTTL))"

definition find_in_repo :: "string \<Rightarrow> gotime \<Rightarrow> ('f, 'c) routing_world \<Rightarrow> RoutingAffinityBinding option \<times> ('f, 'c) routing_world" where
  "find_in_repo scopeKey now w =
     (case FindRoutingAffinityBinding scopeKey now (rw_maps w) of (found, r) \<Rightarrow> (found, w\<lparr>rw_maps := r\<rparr>))"

definition findRoutingAffinityBinding ::
  "'c AffinityService \<Rightarrow> string \<Rightarrow> gotime \<Rightarrow> ('f, 'c) routing_world \<Rightarrow> RoutingAffinityBinding option \<times> ('f, 'c) routing_world" where
  "findRoutingAffinityBinding s scopeKey now w =
     (case svc_routingAffinityCoordinator s of
        None \<Rightarrow> find_in_repo scopeKey now w
      | Some coordinator \<Rightarrow>
          (case coord_Find coordinator scopeKey (rw_coordinator w) of
             (Inr (Some binding), c) \<Rightarrow>
               if aff_ExpiresAt binding > now then (Some binding, w\<lparr>rw_coordinator := c\<rparr>)
               else find_in_repo scopeKey now (w\<lparr>rw_coordinator := c\<rparr>)
           | (_, c) \<Rightarrow> find_in_repo scopeKey now (w\<lparr>rw_coordinator := c\<rparr>)))"

definition save_in_repo :: "RoutingAffinityBinding \<Rightarrow> ('f, 'c) routing_world \<Rightarrow> ('f, 'c) routing_world" where
  "save_in_repo binding w = w\<lparr>rw_maps := SaveRoutingAffinityBinding binding (rw_maps w)\<rparr>"

text \<open>The binding that holds now: the one claimed, or an earlier one of the coordinator.\<close>

definition claimRoutingAffinityBinding ::
  "'c AffinityService \<Rightarrow> RoutingAffinityBinding \<Rightarrow> duration \<Rightarrow> ('f, 'c) routing_world \<Rightarrow> RoutingAffinityBinding \<times> ('f, 'c) routing_world" where
  "claimRoutingAffinityBinding s binding ttl w =
     (case svc_routingAffinityCoordinator s of
        None \<Rightarrow> (binding, save_in_repo binding w)
      | Some coordinator \<Rightarrow>
          (case coord_Claim coordinator binding ttl (rw_coordinator w) of
             (Inr (winner, _), c) \<Rightarrow> (winner, save_in_repo winner (w\<lparr>rw_coordinator := c\<rparr>))
           | (Inl _, c) \<Rightarrow> (binding, save_in_repo binding (w\<lparr>rw_coordinator := c\<rparr>))))"

definition refreshRoutingAffinityBinding ::
  "'c AffinityService \<Rightarrow> RoutingAffinityBinding \<Rightarrow> duration \<Rightarrow> ('f, 'c) routing_world \<Rightarrow> ('f, 'c) routing_world" where
  "refreshRoutingAffinityBinding s binding ttl w =
     (case svc_routingAffinityCoordinator s of
        None \<Rightarrow> save_in_repo binding w
      | Some coordinator \<Rightarrow>
          (case coord_Refresh coordinator binding ttl (rw_coordinator w) of
             (Inr refreshed, c) \<Rightarrow>
               if \<not> refreshed then w\<lparr>rw_coordinator := c\<rparr> else save_in_repo binding (w\<lparr>rw_coordinator := c\<rparr>)
           | (Inl _, c) \<Rightarrow> save_in_repo binding (w\<lparr>rw_coordinator := c\<rparr>)))"

definition validRoutingAffinityBinding :: "RoutingAffinityBinding \<Rightarrow> duration \<Rightarrow> bool" where
  "validRoutingAffinityBinding binding ttl =
     (if ttl \<le> 0 \<or> TrimSpace (aff_ScopeKey binding) = [] \<or> TrimSpace (aff_Kind binding) = [] \<or> TrimSpace (aff_ProviderID binding) = [] then False
      else if \<not> oneOf (aff_Kind binding) [AffinityBindingSupplier, AffinityBindingAccount] \<or> TrimSpace (aff_Model binding) = []
        \<or> TrimSpace (aff_Protocol binding) = [] then False
      else if aff_Kind binding = AffinityBindingAccount
        \<and> (TrimSpace (aff_ProviderAccountID binding) = [] \<or> TrimSpace (aff_RouteID binding) = []) then False
      else True)"

definition sameRoutingAffinityOwner :: "RoutingAffinityBinding \<Rightarrow> RoutingAffinityBinding \<Rightarrow> bool" where
  "sameRoutingAffinityOwner left right \<longleftrightarrow> aff_Kind left = aff_Kind right \<and> aff_ProviderID left = aff_ProviderID right
     \<and> aff_ProviderAccountID left = aff_ProviderAccountID right \<and> aff_RouteID left = aff_RouteID right \<and> aff_Model left = aff_Model right
     \<and> aff_Protocol left = aff_Protocol right \<and> aff_PolicyVersion left = aff_PolicyVersion right"

section \<open>The order of the candidates\<close>

definition appendSelectionReason :: "string \<Rightarrow> string \<Rightarrow> string" where
  "appendSelectionReason current reason = (if TrimSpace current = [] then reason else TrimSpace current @ ''; '' @ reason)"

definition select_candidate_first :: "string \<Rightarrow> 'f GatewayProvider list \<Rightarrow> 'f GatewayProvider \<Rightarrow> 'f GatewayProvider list \<Rightarrow> 'f GatewayProvider list" where
  "select_candidate_first reason earlier candidate later =
     candidate\<lparr>gp_SelectionReason := appendSelectionReason (gp_SelectionReason candidate) reason\<rparr> # rev earlier @ later"

definition binding_admits :: "RoutingAffinityBinding \<Rightarrow> bool \<Rightarrow> 'f GatewayProvider \<Rightarrow> bool" where
  "binding_admits binding requireAccount candidate \<longleftrightarrow> gp_ID candidate = aff_ProviderID binding
     \<and> \<not> (requireAccount \<and> (\<not> gp_StickyEnabled candidate \<or> gp_AccountID candidate \<noteq> aff_ProviderAccountID binding
          \<or> gp_RouteID candidate \<noteq> aff_RouteID binding))"

text \<open>The search with the candidates already passed, last first.\<close>

fun first_admitted :: "('f GatewayProvider \<Rightarrow> bool) \<Rightarrow> string \<Rightarrow> 'f GatewayProvider list \<Rightarrow> 'f GatewayProvider list \<Rightarrow> 'f GatewayProvider list option" where
  "first_admitted admits reason earlier [] = None"
| "first_admitted admits reason earlier (candidate # later) =
     (if admits candidate then Some (select_candidate_first reason earlier candidate later)
      else first_admitted admits reason (candidate # earlier) later)"

definition preferBoundGatewayCandidate ::
  "'f GatewayProvider list \<Rightarrow> RoutingAffinityBinding \<Rightarrow> bool \<Rightarrow> string \<Rightarrow> 'f GatewayProvider list \<times> bool" where
  "preferBoundGatewayCandidate candidates binding requireAccount reason =
     (case first_admitted (binding_admits binding requireAccount) reason [] candidates of None \<Rightarrow> (candidates, False) | Some out \<Rightarrow> (out, True))"

definition prefer_by ::
  "'c AffinityService \<Rightarrow> string \<Rightarrow> bool \<Rightarrow> string \<Rightarrow> duration \<Rightarrow> gotime \<Rightarrow> 'f GatewayProvider list \<Rightarrow> ('f, 'c) routing_world
     \<Rightarrow> 'f GatewayProvider list option \<times> ('f, 'c) routing_world" where
  "prefer_by s key requireAccount reason ttl now candidates w =
     (case findRoutingAffinityBinding s key now w of
        (None, w) \<Rightarrow> (None, w)
      | (Some binding, w) \<Rightarrow>
          (case preferBoundGatewayCandidate candidates binding requireAccount reason of
             (_, False) \<Rightarrow> (None, w)
           | (preferred, True) \<Rightarrow>
               (Some preferred, refreshRoutingAffinityBinding s (binding\<lparr>aff_LastReusedAt := now, aff_ExpiresAt := now + ttl\<rparr>) ttl w)))"

definition PreferGatewayCandidatesWithAffinity ::
  "'c AffinityService \<Rightarrow> GatewayAffinityInput \<Rightarrow> gotime \<Rightarrow> 'f GatewayProvider list \<Rightarrow> ('f, 'c) routing_world
     \<Rightarrow> 'f GatewayProvider list \<times> ('f, 'c) routing_world" where
  "PreferGatewayCandidatesWithAffinity s input now candidates w =
     (if length candidates < 2 then (candidates, w)
      else case gatewayAffinityTTLs (rw_maps w) of (supplierTTL, accountTTL) \<Rightarrow>
        (case (if TrimSpace (gai_StickyKey input) \<noteq> []
               then prefer_by s (gatewayAffinityScopeKey (svc_secretKey s) AffinityBindingAccount input) True
                 ''session account affinity reused'' accountTTL now candidates w
               else (None, w)) of
           (Some preferred, w) \<Rightarrow> (preferred, w)
         | (None, w) \<Rightarrow>
             (case prefer_by s (gatewayAffinityScopeKey (svc_secretKey s) AffinityBindingSupplier input) False
                ''customer supplier affinity reused'' supplierTTL now candidates w of
                (Some preferred, w) \<Rightarrow> (preferred, w)
              | (None, w) \<Rightarrow> (candidates, w))))"

definition supplier_binding :: "string \<Rightarrow> GatewayAffinityInput \<Rightarrow> 'f GatewayProvider \<Rightarrow> duration \<Rightarrow> gotime \<Rightarrow> RoutingAffinityBinding" where
  "supplier_binding secretKey input provider ttl now = zero_RoutingAffinityBinding
     \<lparr>aff_ScopeKey := gatewayAffinityScopeKey secretKey AffinityBindingSupplier input, aff_Kind := AffinityBindingSupplier,
      aff_ProviderID := gp_ID provider, aff_Model := TrimSpace (gai_Model input), aff_Protocol := TrimSpace (gai_Protocol input),
      aff_PolicyVersion := gai_PolicyVersion input, aff_CreatedAt := now, aff_LastReusedAt := now, aff_ExpiresAt := now + ttl\<rparr>"

definition account_binding :: "string \<Rightarrow> GatewayAffinityInput \<Rightarrow> 'f GatewayProvider \<Rightarrow> duration \<Rightarrow> gotime \<Rightarrow> RoutingAffinityBinding" where
  "account_binding secretKey input provider ttl now =
     \<lparr>aff_ScopeKey = gatewayAffinityScopeKey secretKey AffinityBindingAccount input, aff_Kind = AffinityBindingAccount,
      aff_ProviderID = gp_ID provider, aff_ProviderAccountID = gp_AccountID provider, aff_RouteID = gp_RouteID provider,
      aff_Model = TrimSpace (gai_Model input), aff_Protocol = TrimSpace (gai_Protocol input), aff_PolicyVersion = gai_PolicyVersion input,
      aff_CreatedAt = now, aff_LastReusedAt = now, aff_ExpiresAt = now + ttl\<rparr>"

definition BindGatewayCandidateAffinity ::
  "'c AffinityService \<Rightarrow> GatewayAffinityInput \<Rightarrow> 'f GatewayProvider \<Rightarrow> gotime \<Rightarrow> ('f, 'c) routing_world \<Rightarrow> ('f, 'c) routing_world" where
  "BindGatewayCandidateAffinity s input provider now w =
     (if TrimSpace (gp_ID provider) = [] then w
      else case gatewayAffinityTTLs (rw_maps w) of (supplierTTL, accountTTL) \<Rightarrow>
        (case claimRoutingAffinityBinding s (supplier_binding (svc_secretKey s) input provider supplierTTL now) supplierTTL w of
           (winner, w) \<Rightarrow>
             if aff_ProviderID winner \<noteq> gp_ID provider then w
             else if TrimSpace (gai_StickyKey input) = [] \<or> \<not> gp_StickyEnabled provider \<or> TrimSpace (gp_AccountID provider) = []
               \<or> TrimSpace (gp_RouteID provider) = [] then w
             else (let ttl = (if gp_StickyTTLSeconds provider > 0 then wrap64 (gp_StickyTTLSeconds provider * Second) else accountTTL)
                   in snd (claimRoutingAffinityBinding s (account_binding (svc_secretKey s) input provider ttl now) ttl w))))"

section \<open>The affinity passed on to the provider\<close>

definition is_affinity_field_char :: "char \<Rightarrow> bool" where
  "is_affinity_field_char c \<longleftrightarrow> is_lower_or_digit c \<or> (65 \<le> byte_of c \<and> byte_of c \<le> 90) \<or> c = CHR ''-'' \<or> c = CHR ''_''"

definition validCacheAffinityField :: "string \<Rightarrow> string \<Rightarrow> bool" where
  "validCacheAffinityField value transport =
     (if value = [] \<or> length value > 128 then False
      else if \<not> list_all is_affinity_field_char value then False
      else if transport = AffinityTransportHeader
      then \<not> oneOf (ToLower value) [''authorization'', ''content-type'', ''accept'', ''x-api-key'', ''x-goog-api-key'']
      else \<not> oneOf (ToLower value) [''model'', ''messages'', ''stream'', ''max_tokens'', ''max_completion_tokens'', ''tools'', ''tool_choice''])"

definition gatewayUpstreamAffinityValue :: "string \<Rightarrow> GatewayAffinityInput \<Rightarrow> 'f GatewayProvider \<Rightarrow> string" where
  "gatewayUpstreamAffinityValue secretKey input provider =
     ''ar_'' @ hex_encode (take 24 (hmac_sha256 secretKey (strings_Join
       [''upstream_cache'', gai_TenantID input, affinity_principal input, gai_CredentialID input, gai_Model input, gai_Protocol input,
        gai_RouteGroup input, gai_StickyKey input, Itoa (gai_PolicyVersion input), gp_ID provider, gp_AccountID provider,
        gp_UpstreamModel provider] NUL)))"

definition ResolveGatewayUpstreamAffinity ::
  "string \<Rightarrow> GatewayAffinityInput \<Rightarrow> 'f GatewayProvider \<Rightarrow> 'f pricing_maps \<Rightarrow> GatewayUpstreamAffinity option" where
  "ResolveGatewayUpstreamAffinity secretKey input provider r =
     (if TrimSpace (gai_StickyKey input) = [] \<or> TrimSpace (gp_AccountID provider) = [] \<or> TrimSpace (gp_UpstreamModel provider) = [] then None
      else case FindProviderCacheCapability (gp_AccountID provider) (gp_UpstreamModel provider) (gai_Protocol input) r of
        None \<Rightarrow> None
      | Some capability \<Rightarrow>
          if \<not> oneOf (cap_SupportStatus capability) [CacheSupportAccepted, CacheSupportObserved, CacheSupportBilledVerified] then None
          else if cap_AffinityTransport capability \<noteq> AffinityTransportNone
            \<and> \<not> validCacheAffinityField (cap_AffinityField capability) (cap_AffinityTransport capability) then None
          else if \<not> oneOf (cap_CacheControlMode capability) [[], CacheControlModePassthrough, CacheControlModePromptCacheKey] then None
          else (let instruction = zero_GatewayUpstreamAffinity
                      \<lparr>gua_Value := gatewayUpstreamAffinityValue secretKey input provider,
                       gua_PromptCacheKey := (cap_CacheControlMode capability = CacheControlModePromptCacheKey)\<rparr>;
                    instruction = (if cap_AffinityTransport capability = AffinityTransportHeader
                      then instruction\<lparr>gua_HeaderName := cap_AffinityField capability\<rparr>
                      else if cap_AffinityTransport capability = AffinityTransportBody
                      then instruction\<lparr>gua_BodyField := cap_AffinityField capability\<rparr> else instruction)
                in if gua_HeaderName instruction = [] \<and> gua_BodyField instruction = [] \<and> \<not> gua_PromptCacheKey instruction then None
                   else Some instruction))"

end
