(* ===== verification/Routing_Health.thy ===== *)
theory Routing_Health
  imports Routing_Model
begin

text \<open>
  The health of the billing evidence of a provider account (\<open>provider_billing_routing_health.go\<close>), which decides whether traffic may be
  switched to the account for its price, and the reads of the repository it rests on (\<open>provider_billing_sync_repository.go\<close>).
\<close>

section \<open>Lists of reason codes\<close>

fun clean_items :: "string list \<Rightarrow> string list \<Rightarrow> string list" where
  "clean_items out [] = out"
| "clean_items out (value # items) =
     (let item = TrimSpace value
      in if item = [] then clean_items out items
         else if item \<in> set out then clean_items out items
         else clean_items (out @ [item]) items)"

definition cleanStringList :: "string list \<Rightarrow> string list" where
  "cleanStringList items = sort_slice (<) (clean_items [] items)"

lemma set_clean_items: "set (clean_items out items) = set out \<union> {TrimSpace v |v. v \<in> set items \<and> TrimSpace v \<noteq> []}"
  by (induction out items rule: clean_items.induct) (auto simp: Let_def)

lemma set_cleanStringList [simp]: "set (cleanStringList items) = {TrimSpace v |v. v \<in> set items \<and> TrimSpace v \<noteq> []}"
  by (simp add: cleanStringList_def set_clean_items)

lemma cleanStringList_Nil [simp]: "cleanStringList [] = []"
  by (simp add: cleanStringList_def)

lemma clean_items_empty: "clean_items out items = [] \<longleftrightarrow> out = [] \<and> (\<forall>v \<in> set items. TrimSpace v = [])"
  by (induction out items rule: clean_items.induct) (auto simp: Let_def)

lemma sort_slice_empty [simp]: "sort_slice lt xs = [] \<longleftrightarrow> xs = []"
  by (metis length_0_conv length_sort_slice)

lemma cleanStringList_empty: "cleanStringList items = [] \<longleftrightarrow> (\<forall>v \<in> set items. TrimSpace v = [])"
  by (simp add: cleanStringList_def clean_items_empty)

lemma distinct_clean_items: "distinct out \<Longrightarrow> distinct (clean_items out items)"
  by (induction out items rule: clean_items.induct) (auto simp: Let_def)

lemma distinct_sort_slice: "distinct (sort_slice lt xs) \<longleftrightarrow> distinct xs"
  by (metis mset_sort_slice mset_eq_imp_distinct_iff)

lemma distinct_cleanStringList [simp]: "distinct (cleanStringList items)"
  by (simp add: cleanStringList_def distinct_sort_slice distinct_clean_items)

section \<open>Reads of the repository\<close>

definition ListProviderBillingSources :: "'f pricing_maps \<Rightarrow> ProviderBillingSource list" where
  "ListProviderBillingSources r = sort_slice (\<lambda>a b. bs_ID a < bs_ID b) (mvalues (providerBillingSources r))"

definition later_balance :: "ProviderBalanceSnapshotRecord \<Rightarrow> ProviderBalanceSnapshotRecord \<Rightarrow> bool" where
  "later_balance snapshot current \<longleftrightarrow> bal_ObservedAt snapshot > bal_ObservedAt current
     \<or> bal_ObservedAt snapshot = bal_ObservedAt current \<and> bal_ID snapshot > bal_ID current"

definition keep_latest ::
  "(string, ProviderBalanceSnapshotRecord) gmap \<Rightarrow> ProviderBalanceSnapshotRecord \<Rightarrow> (string, ProviderBalanceSnapshotRecord) gmap" where
  "keep_latest latestBySource snapshot =
     (case map_of latestBySource (bal_SourceID snapshot) of
        None \<Rightarrow> mput (bal_SourceID snapshot) snapshot latestBySource
      | Some current \<Rightarrow>
          if later_balance snapshot current then mput (bal_SourceID snapshot) snapshot latestBySource else latestBySource)"

definition ListLatestProviderBalanceSnapshots :: "'f pricing_maps \<Rightarrow> ProviderBalanceSnapshotRecord list" where
  "ListLatestProviderBalanceSnapshots r =
     sort_slice (\<lambda>a b. bal_SourceID a < bal_SourceID b) (mvalues (foldl keep_latest [] (mvalues (providerBalanceSnapshots r))))"

section \<open>Health\<close>

definition providerBillingRoutingFailureThreshold :: int where
  "providerBillingRoutingFailureThreshold = 3"

definition providerBillingMinimumStaleAfter :: duration where
  "providerBillingMinimumStaleAfter = 6 * Hour"

definition providerBillingContains :: "string list \<Rightarrow> string \<Rightarrow> bool" where
  "providerBillingContains items target \<longleftrightarrow> list_ex (\<lambda>value. TrimSpace value = target) items"

definition health_stale_after :: "ProviderBillingSource \<Rightarrow> duration" where
  "health_stale_after source =
     (let staleAfter = wrap64 (wrap64 (bs_SyncIntervalSeconds source * 2) * Second)
      in if staleAfter < providerBillingMinimumStaleAfter then providerBillingMinimumStaleAfter else staleAfter)"

text \<open>The reasons that block the account, and those that only lower its standing.\<close>

definition health_blocks :: "ProviderBillingSource \<Rightarrow> ProviderBalanceSnapshotRecord option \<Rightarrow> string list" where
  "health_blocks source balance =
     (if providerBillingContains (bs_Warnings source) ''account_key_reported_invalid'' then [ProviderBillingReasonKeyInvalid] else [])
     @ (if bs_LastErrorCode source = ''upstream_auth_rejected'' then [ProviderBillingReasonAuthRejected] else [])
     @ (case balance of
          None \<Rightarrow> []
        | Some b \<Rightarrow>
            if \<not> bal_AmountMicros b \<le> 0 then []
            else if bal_Kind b = ProviderBalanceKindKeyQuota then [ProviderBillingReasonKeyQuotaExhausted]
            else if bal_Kind b = ProviderBalanceKindSubscription
            then (if \<not> bal_Unlimited b then [ProviderBillingReasonSubscriptionExhausted] else [])
            else [])"

definition health_doubts :: "ProviderBillingSource \<Rightarrow> gotime \<Rightarrow> string list" where
  "health_doubts source now =
     (if bs_ConsecutiveFailures source \<ge> providerBillingRoutingFailureThreshold then [ProviderBillingReasonSyncUnhealthy] else [])
     @ (case bs_LastSuccessAt source of
          None \<Rightarrow> [ProviderBillingReasonEvidenceMissing]
        | Some at \<Rightarrow> if time_Sub now at > health_stale_after source then [ProviderBillingReasonEvidenceStale] else [])"

definition health_observed :: "ProviderBillingSource \<Rightarrow> ProviderBalanceSnapshotRecord option \<Rightarrow> gotime option" where
  "health_observed source balance =
     (case balance of
        None \<Rightarrow> bs_LastSuccessAt source
      | Some b \<Rightarrow>
          (case bs_LastSuccessAt source of
             None \<Rightarrow> Some (bal_ObservedAt b)
           | Some at \<Rightarrow> if bal_ObservedAt b > at then Some (bal_ObservedAt b) else Some at))"

definition providerBillingRoutingHealth ::
  "ProviderBillingSource \<Rightarrow> ProviderBalanceSnapshotRecord option \<Rightarrow> gotime \<Rightarrow> ProviderBillingRoutingHealth" where
  "providerBillingRoutingHealth source balance now =
     (let health = zero_ProviderBillingRoutingHealth
            \<lparr>bh_SourceStatus := bs_Status source, bh_EconomicSwitchEligible := False, bh_EvaluatedAt := now,
             bh_EvidenceStaleAfterSeconds := quot64 (health_stale_after source) Second\<rparr>
      in if bs_Status source = ProviderBillingSourceObserveOnly
         then health\<lparr>bh_Status := ProviderBillingRoutingHealthObserveOnly, bh_ReasonCodes := [ProviderBillingReasonSourceObserveOnly]\<rparr>
         else if bs_Status source = ProviderBillingSourceDisabled
         then health\<lparr>bh_Status := ProviderBillingRoutingHealthDisabled, bh_ReasonCodes := [ProviderBillingReasonSourceDisabled]\<rparr>
         else
           let health = health\<lparr>bh_Status := ProviderBillingRoutingHealthHealthy, bh_EconomicSwitchEligible := True,
                 bh_EvidenceObservedAt := health_observed source balance,
                 bh_HardBlocked := (health_blocks source balance \<noteq> []),
                 bh_ReasonCodes := cleanStringList (health_blocks source balance @ health_doubts source now)\<rparr>
           in if bh_HardBlocked health
              then health\<lparr>bh_Status := ProviderBillingRoutingHealthBlocked, bh_EconomicSwitchEligible := False\<rparr>
              else if bh_ReasonCodes health \<noteq> []
              then health\<lparr>bh_Status := ProviderBillingRoutingHealthDegraded, bh_EconomicSwitchEligible := False\<rparr>
              else health)"

definition providerBillingRoutingHealthForSources ::
  "ProviderBillingSource list \<Rightarrow> gotime \<Rightarrow> 'f pricing_maps \<Rightarrow> (string, ProviderBillingRoutingHealth) gmap" where
  "providerBillingRoutingHealthForSources sources now r =
     (let balanceBySource = foldl (\<lambda>m b. mput (bal_SourceID b) b m) [] (ListLatestProviderBalanceSnapshots r)
      in foldl (\<lambda>m source. mput (bs_ProviderAccountID source)
           (providerBillingRoutingHealth source (map_of balanceBySource (bs_ID source)) now) m) [] sources)"

definition providerBillingRoutingHealthByAccount :: "gotime \<Rightarrow> 'f pricing_maps \<Rightarrow> (string, ProviderBillingRoutingHealth) gmap" where
  "providerBillingRoutingHealthByAccount now r = providerBillingRoutingHealthForSources (ListProviderBillingSources r) now r"

definition enrichProviderBillingSources :: "ProviderBillingSource list \<Rightarrow> gotime \<Rightarrow> 'f pricing_maps \<Rightarrow> ProviderBillingSource list" where
  "enrichProviderBillingSources sources now r =
     (let healthByAccount = providerBillingRoutingHealthForSources sources now r
      in map (\<lambda>source. case map_of healthByAccount (bs_ProviderAccountID source) of
           None \<Rightarrow> source | Some health \<Rightarrow> source\<lparr>bs_RoutingHealth := Some health\<rparr>) sources)"

section \<open>Which accounts may be switched to\<close>

lemma reasons_trimmed [simp]:
  "TrimSpace ProviderBillingReasonKeyInvalid = ProviderBillingReasonKeyInvalid"
  "TrimSpace ProviderBillingReasonAuthRejected = ProviderBillingReasonAuthRejected"
  "TrimSpace ProviderBillingReasonKeyQuotaExhausted = ProviderBillingReasonKeyQuotaExhausted"
  "TrimSpace ProviderBillingReasonSubscriptionExhausted = ProviderBillingReasonSubscriptionExhausted"
  "TrimSpace ProviderBillingReasonSyncUnhealthy = ProviderBillingReasonSyncUnhealthy"
  "TrimSpace ProviderBillingReasonEvidenceStale = ProviderBillingReasonEvidenceStale"
  "TrimSpace ProviderBillingReasonEvidenceMissing = ProviderBillingReasonEvidenceMissing"
  by (simp_all add: routing_consts) (code_simp+)

lemma reasons_not_empty [simp]:
  "ProviderBillingReasonKeyInvalid \<noteq> []" "ProviderBillingReasonAuthRejected \<noteq> []" "ProviderBillingReasonKeyQuotaExhausted \<noteq> []"
  "ProviderBillingReasonSubscriptionExhausted \<noteq> []" "ProviderBillingReasonSyncUnhealthy \<noteq> []"
  "ProviderBillingReasonEvidenceStale \<noteq> []" "ProviderBillingReasonEvidenceMissing \<noteq> []"
  by (simp_all add: routing_consts)

lemma blocks_are_reasons: "v \<in> set (health_blocks source balance) \<Longrightarrow> TrimSpace v = v \<and> v \<noteq> []"
  by (auto simp: health_blocks_def split: option.splits if_splits)

lemma doubts_are_reasons: "v \<in> set (health_doubts source now) \<Longrightarrow> TrimSpace v = v \<and> v \<noteq> []"
  by (auto simp: health_doubts_def split: option.splits if_splits)

lemma no_reasons: "\<forall>v \<in> set xs. TrimSpace v = v \<and> v \<noteq> [] \<Longrightarrow> cleanStringList xs = [] \<longleftrightarrow> xs = []"
  by (cases xs) (auto simp: cleanStringList_empty)

lemma health_reasons_empty:
  "cleanStringList (health_blocks source balance @ health_doubts source now) = []
     \<longleftrightarrow> health_blocks source balance = [] \<and> health_doubts source now = []"
proof -
  have "\<forall>v \<in> set (health_blocks source balance @ health_doubts source now). TrimSpace v = v \<and> v \<noteq> []"
    unfolding set_append using blocks_are_reasons doubts_are_reasons by blast
  from no_reasons [OF this] show ?thesis by simp
qed

lemma doubts_reasons_empty: "cleanStringList (health_doubts source now) = [] \<longleftrightarrow> health_doubts source now = []"
  using doubts_are_reasons by (intro no_reasons) blast

text \<open>
  An account may be switched to for its price exactly when its billing source is in use, the evidence is recent and nothing speaks
  against the account.
\<close>

lemma switch_eligible_iff:
  "bh_EconomicSwitchEligible (providerBillingRoutingHealth source balance now) \<longleftrightarrow>
     bs_Status source \<noteq> ProviderBillingSourceObserveOnly \<and> bs_Status source \<noteq> ProviderBillingSourceDisabled
     \<and> health_blocks source balance = [] \<and> health_doubts source now = []"
  by (auto simp: providerBillingRoutingHealth_def Let_def health_reasons_empty doubts_reasons_empty)

end
