(* ===== verification/Pricing_Policy.thy ===== *)
theory Pricing_Policy
  imports Routing_Affinity Routing_Health
begin

text \<open>
  The policy of effective pricing (\<open>effective_pricing_service.go\<close>), which says how long affinity lasts, what evidence a switch of
  provider needs and when the monitor acts by itself. The arithmetic of \<open>float64\<close> is a parameter.
\<close>

section \<open>Floating point numbers, clock and identifiers\<close>

record 'f float_ops =
  f_of_int :: "int \<Rightarrow> 'f" \<comment> \<open>\<open>float64(n)\<close>\<close>
  f_decimal :: "int \<Rightarrow> nat \<Rightarrow> 'f" \<comment> \<open>the literal \<open>n\<close> with \<open>k\<close> decimals\<close>
  f_sub :: "'f \<Rightarrow> 'f \<Rightarrow> 'f"
  f_div :: "'f \<Rightarrow> 'f \<Rightarrow> 'f"
  f_neg :: "'f \<Rightarrow> 'f"
  f_less :: "'f \<Rightarrow> 'f \<Rightarrow> bool"
  f_leq :: "'f \<Rightarrow> 'f \<Rightarrow> bool"
  f_eq :: "'f \<Rightarrow> 'f \<Rightarrow> bool"
  f_mul :: "'f \<Rightarrow> 'f \<Rightarrow> 'f"
  f_round :: "'f \<Rightarrow> int" \<comment> \<open>\<open>int64(math.Round(x))\<close>\<close>
  f_ceil :: "'f \<Rightarrow> int" \<comment> \<open>\<open>int(math.Ceil(x))\<close>\<close>
  f_is_nan :: "'f \<Rightarrow> bool"
  f_is_inf :: "'f \<Rightarrow> bool"

text \<open>What the clock and the random source give during one operation.\<close>

record pricing_env =
  env_policyNow :: gotime
  env_reportNow :: gotime
  env_healthNow :: gotime
  env_canaryNow :: gotime
  env_now :: gotime
  env_auditNow :: gotime
  env_decisionID :: string
  env_evaluationID :: string
  env_currentID :: string
  env_candidateID :: string
  env_auditID :: string

section \<open>Audit\<close>

definition newAuditLog :: "pricing_env \<Rightarrow> string \<Rightarrow> string \<Rightarrow> string \<Rightarrow> string \<Rightarrow> string \<Rightarrow> AuditLog" where
  "newAuditLog env actor action resourceType resourceID summary = zero_AuditLog
     \<lparr>audit_ID := ''audit_'' @ env_auditID env, audit_Actor := (if TrimSpace actor = [] then ''local-admin'' else actor),
      audit_Action := action, audit_ResourceType := resourceType, audit_ResourceID := resourceID, audit_Summary := summary,
      audit_CreatedAt := env_auditNow env\<rparr>"

definition AddPricingAuditLog :: "AuditLog \<Rightarrow> 'f pricing_maps \<Rightarrow> 'f pricing_maps" where
  "AddPricingAuditLog event r = r\<lparr>pricingAuditLogs := mput (audit_ID event) event (pricingAuditLogs r)\<rparr>"

section \<open>The policy\<close>

record 'f EffectivePricingPolicyRequest =
  prq_Mode :: string
  prq_WindowHours :: int
  prq_MinSampleCount :: int
  prq_MinMetricsCoverage :: 'f
  prq_MinBillingConsistency :: 'f
  prq_MinCostImprovement :: 'f
  prq_MinCacheHitRateImprovement :: 'f
  prq_MinAffinityImprovement :: 'f
  prq_MaxCacheTiebreakCostRegression :: 'f
  prq_MaxErrorRateRegression :: 'f
  prq_MaxP95LatencyRegression :: 'f
  prq_CanaryPercent :: int
  prq_SupplierAffinityTTLSeconds :: int
  prq_AccountAffinityTTLSeconds :: int
  prq_AutomaticActionsEnabled :: bool
  prq_EvaluationIntervalMinutes :: int
  prq_PromotionWindowCount :: int
  prq_DegradationWindowCount :: int
  prq_ProbeEnabled :: bool
  prq_ProbeDailyTokenBudget :: int
  prq_ProbeDailyCostBudgetMicros :: int
  prq_ProbeCooldownSeconds :: int

definition SaveEffectivePricingPolicy :: "'f EffectivePricingPolicy \<Rightarrow> 'f pricing_maps \<Rightarrow> 'f pricing_maps" where
  "SaveEffectivePricingPolicy policy r = r\<lparr>effectivePricingPolicies := mput (pol_ID policy) policy (effectivePricingPolicies r)\<rparr>"

definition defaultEffectivePricingPolicy :: "'f float_ops \<Rightarrow> gotime \<Rightarrow> 'f EffectivePricingPolicy" where
  "defaultEffectivePricingPolicy fl now = zero_EffectivePricingPolicy (f_of_int fl 0)
     \<lparr>pol_ID := defaultEffectivePricingPolicyID, pol_Mode := EffectivePricingModeObserveOnly, pol_WindowHours := 24,
      pol_MinSampleCount := 200, pol_MinMetricsCoverage := f_decimal fl 8 1, pol_MinBillingConsistency := f_decimal fl 95 2,
      pol_MinCostImprovement := f_decimal fl 8 2, pol_MinCacheHitRateImprovement := f_decimal fl 10 2,
      pol_MinAffinityImprovement := f_decimal fl 10 2, pol_MaxCacheTiebreakCostRegression := f_decimal fl 2 2,
      pol_MaxErrorRateRegression := f_decimal fl 5 3, pol_MaxP95LatencyRegression := f_decimal fl 2 1, pol_CanaryPercent := 5,
      pol_SupplierAffinityTTLSeconds := quot64 defaultSupplierAffinityTTL Second,
      pol_AccountAffinityTTLSeconds := quot64 defaultAccountAffinityTTL Second,
      pol_EvaluationIntervalMinutes := 60, pol_PromotionWindowCount := 3, pol_DegradationWindowCount := 2,
      pol_ProbeDailyTokenBudget := 100000, pol_ProbeDailyCostBudgetMicros := 10000000, pol_ProbeCooldownSeconds := 3600,
      pol_CreatedAt := now, pol_UpdatedAt := now\<rparr>"

definition EffectivePricingPolicyOf :: "'f float_ops \<Rightarrow> pricing_env \<Rightarrow> 'f pricing_maps \<Rightarrow> 'f EffectivePricingPolicy" where
  "EffectivePricingPolicyOf fl env r =
     (case GetEffectivePricingPolicy r of Some policy \<Rightarrow> policy | None \<Rightarrow> defaultEffectivePricingPolicy fl (env_policyNow env))"

text \<open>Fields left at zero take their default before the request is checked.\<close>

definition with_policy_defaults :: "'f float_ops \<Rightarrow> 'f EffectivePricingPolicyRequest \<Rightarrow> 'f EffectivePricingPolicyRequest" where
  "with_policy_defaults fl request =
     (let zero = f_of_int fl 0 in request
       \<lparr>prq_MinCacheHitRateImprovement :=
          (if f_eq fl (prq_MinCacheHitRateImprovement request) zero then f_decimal fl 10 2 else prq_MinCacheHitRateImprovement request),
        prq_MinAffinityImprovement :=
          (if f_eq fl (prq_MinAffinityImprovement request) zero then f_decimal fl 10 2 else prq_MinAffinityImprovement request),
        prq_EvaluationIntervalMinutes :=
          (if prq_EvaluationIntervalMinutes request = 0 then 60 else prq_EvaluationIntervalMinutes request),
        prq_PromotionWindowCount := (if prq_PromotionWindowCount request = 0 then 3 else prq_PromotionWindowCount request),
        prq_DegradationWindowCount := (if prq_DegradationWindowCount request = 0 then 2 else prq_DegradationWindowCount request)\<rparr>)"

definition policy_ratios :: "'f EffectivePricingPolicyRequest \<Rightarrow> 'f list" where
  "policy_ratios request = [prq_MinMetricsCoverage request, prq_MinBillingConsistency request, prq_MinCostImprovement request,
     prq_MinCacheHitRateImprovement request, prq_MinAffinityImprovement request, prq_MaxCacheTiebreakCostRegression request,
     prq_MaxErrorRateRegression request, prq_MaxP95LatencyRegression request]"

definition policy_request_error :: "'f float_ops \<Rightarrow> 'f EffectivePricingPolicyRequest \<Rightarrow> go_error option" where
  "policy_request_error fl request =
     (if \<not> oneOf (prq_Mode request) [EffectivePricingModeObserveOnly, EffectivePricingModeRecommend, EffectivePricingModeCanary,
           EffectivePricingModeBalanced, EffectivePricingModeCostFirst, EffectivePricingModeFixedRoute]
      then Some (errors_New ''invalid effective pricing mode'')
      else if prq_WindowHours request < 1 \<or> prq_WindowHours request > 24 * 30 \<or> prq_MinSampleCount request < 1
        \<or> prq_CanaryPercent request < 1 \<or> prq_CanaryPercent request > 100
      then Some (errors_New ''invalid effective pricing window, sample count, or canary percent'')
      else if list_ex (\<lambda>ratio. f_less fl ratio (f_of_int fl 0) \<or> f_less fl (f_of_int fl 1) ratio) (policy_ratios request)
      then Some (errors_New ''effective pricing ratios must be between 0 and 1'')
      else if prq_SupplierAffinityTTLSeconds request < 1 \<or> prq_AccountAffinityTTLSeconds request < 1
        \<or> prq_ProbeDailyTokenBudget request < 0 \<or> prq_ProbeDailyCostBudgetMicros request < 0 \<or> prq_ProbeCooldownSeconds request < 0
      then Some (errors_New ''invalid affinity or probe limits'')
      else if prq_EvaluationIntervalMinutes request < 1 \<or> prq_EvaluationIntervalMinutes request > 24 * 60
        \<or> prq_PromotionWindowCount request < 1 \<or> prq_PromotionWindowCount request > 24
        \<or> prq_DegradationWindowCount request < 1 \<or> prq_DegradationWindowCount request > 24
      then Some (errors_New ''invalid effective pricing evaluation interval or consecutive window count'')
      else None)"

definition policy_of_request ::
  "'f EffectivePricingPolicyRequest \<Rightarrow> string \<Rightarrow> gotime \<Rightarrow> gotime \<Rightarrow> 'f EffectivePricingPolicy" where
  "policy_of_request request actor createdAt now =
     \<lparr>pol_ID = defaultEffectivePricingPolicyID, pol_Mode = prq_Mode request, pol_WindowHours = prq_WindowHours request,
      pol_MinSampleCount = prq_MinSampleCount request, pol_MinMetricsCoverage = prq_MinMetricsCoverage request,
      pol_MinBillingConsistency = prq_MinBillingConsistency request, pol_MinCostImprovement = prq_MinCostImprovement request,
      pol_MinCacheHitRateImprovement = prq_MinCacheHitRateImprovement request,
      pol_MinAffinityImprovement = prq_MinAffinityImprovement request,
      pol_MaxCacheTiebreakCostRegression = prq_MaxCacheTiebreakCostRegression request,
      pol_MaxErrorRateRegression = prq_MaxErrorRateRegression request,
      pol_MaxP95LatencyRegression = prq_MaxP95LatencyRegression request, pol_CanaryPercent = prq_CanaryPercent request,
      pol_SupplierAffinityTTLSeconds = prq_SupplierAffinityTTLSeconds request,
      pol_AccountAffinityTTLSeconds = prq_AccountAffinityTTLSeconds request,
      pol_AutomaticActionsEnabled = prq_AutomaticActionsEnabled request,
      pol_EvaluationIntervalMinutes = prq_EvaluationIntervalMinutes request,
      pol_PromotionWindowCount = prq_PromotionWindowCount request, pol_DegradationWindowCount = prq_DegradationWindowCount request,
      pol_ProbeEnabled = prq_ProbeEnabled request, pol_ProbeDailyTokenBudget = prq_ProbeDailyTokenBudget request,
      pol_ProbeDailyCostBudgetMicros = prq_ProbeDailyCostBudgetMicros request,
      pol_ProbeCooldownSeconds = prq_ProbeCooldownSeconds request, pol_UpdatedBy = actor, pol_CreatedAt = createdAt,
      pol_UpdatedAt = now\<rparr>"

definition UpdateEffectivePricingPolicy ::
  "'f float_ops \<Rightarrow> pricing_env \<Rightarrow> string \<Rightarrow> 'f EffectivePricingPolicyRequest \<Rightarrow> 'f pricing_maps
     \<Rightarrow> (go_error + 'f EffectivePricingPolicy) \<times> 'f pricing_maps" where
  "UpdateEffectivePricingPolicy fl env actor request0 r =
     (let request = with_policy_defaults fl request0
      in case policy_request_error fl request of
           Some err \<Rightarrow> (Inl err, r)
         | None \<Rightarrow>
             let now = env_now env;
                 createdAt = (case GetEffectivePricingPolicy r of None \<Rightarrow> now | Some existing \<Rightarrow> pol_CreatedAt existing);
                 policy = policy_of_request request actor createdAt now;
                 r = SaveEffectivePricingPolicy policy r;
                 r = AddPricingAuditLog (newAuditLog env actor ''update'' ''effective_pricing_policy'' (pol_ID policy)
                       (''Updated effective pricing policy mode to '' @ pol_Mode policy)) r
             in (Inr policy, r))"

section \<open>A policy in use is within its bounds\<close>

definition bounded_policy :: "'f EffectivePricingPolicy \<Rightarrow> bool" where
  "bounded_policy policy \<longleftrightarrow> pol_ID policy = defaultEffectivePricingPolicyID
     \<and> 1 \<le> pol_WindowHours policy \<and> pol_WindowHours policy \<le> 720 \<and> 1 \<le> pol_MinSampleCount policy
     \<and> 1 \<le> pol_CanaryPercent policy \<and> pol_CanaryPercent policy \<le> 100
     \<and> 1 \<le> pol_SupplierAffinityTTLSeconds policy \<and> 1 \<le> pol_AccountAffinityTTLSeconds policy
     \<and> 1 \<le> pol_EvaluationIntervalMinutes policy \<and> pol_EvaluationIntervalMinutes policy \<le> 1440
     \<and> 1 \<le> pol_PromotionWindowCount policy \<and> pol_PromotionWindowCount policy \<le> 24
     \<and> 1 \<le> pol_DegradationWindowCount policy \<and> pol_DegradationWindowCount policy \<le> 24"

definition policies_bounded :: "'f pricing_maps \<Rightarrow> bool" where
  "policies_bounded r \<longleftrightarrow> (\<forall>k policy. map_of (effectivePricingPolicies r) k = Some policy \<longrightarrow> bounded_policy policy)"

lemma accepted_request_bounded:
  "policy_request_error fl request = None \<Longrightarrow> bounded_policy (policy_of_request request actor createdAt now)"
  by (simp add: policy_request_error_def bounded_policy_def policy_of_request_def split: if_splits)

lemma saved_policy_bounded:
  assumes "policies_bounded r" "bounded_policy policy"
  shows "policies_bounded (AddPricingAuditLog event (SaveEffectivePricingPolicy policy r))"
  using assms by (simp add: policies_bounded_def AddPricingAuditLog_def SaveEffectivePricingPolicy_def)

lemma update_policy_bounded:
  assumes "policies_bounded r"
  shows "policies_bounded (snd (UpdateEffectivePricingPolicy fl env actor request r))"
proof (cases "policy_request_error fl (with_policy_defaults fl request)")
  case None
  show ?thesis unfolding UpdateEffectivePricingPolicy_def Let_def None option.case snd_conv
    by (intro saved_policy_bounded assms accepted_request_bounded [OF None])
next
  case (Some err)
  with assms show ?thesis by (simp add: UpdateEffectivePricingPolicy_def)
qed

lemma bounded_policy_in_use: "policies_bounded r \<Longrightarrow> bounded_policy (EffectivePricingPolicyOf fl env r)"
  by (auto simp: EffectivePricingPolicyOf_def policies_bounded_def GetEffectivePricingPolicy_def bounded_policy_def
      defaultEffectivePricingPolicy_def defaultSupplierAffinityTTL_def defaultAccountAffinityTTL_def split: option.split)

text \<open>An arithmetic on integers, for the examples.\<close>

definition ex_fl :: "int float_ops" where
  "ex_fl = \<lparr>f_of_int = (\<lambda>n. n), f_decimal = (\<lambda>n k. 0), f_sub = (-), f_div = (\<lambda>a b. a), f_neg = uminus, f_less = (<), f_leq = (\<le>), f_eq = (=),
     f_mul = (*), f_round = (\<lambda>a. a), f_ceil = (\<lambda>a. a), f_is_nan = (\<lambda>a. False), f_is_inf = (\<lambda>a. False)\<rparr>"

end
