(* ===== verification/Pricing_Switch.thy ===== *)
theory Pricing_Switch
  imports Pricing_Policy
begin

text \<open>
  Decisions to move traffic from one provider account to a cheaper one (\<open>effective_pricing_decision.go\<close>): a decision is evaluated from
  the report of a window, approved for a share of the customers (the canary), activated, rolled back or held; a canary or active
  decision puts the candidate account first. The report of a window (\<open>effectivePricingReportForWindow\<close>) is a parameter: any function
  of the query, the policy, the window and the repository. It writes only to the cache capabilities.
\<close>

section \<open>Snapshots and decisions of the repository\<close>

definition ListEffectivePriceSnapshots :: "'f pricing_maps \<Rightarrow> 'f EffectivePriceSnapshot list" where
  "ListEffectivePriceSnapshots r = sort_slice
     (\<lambda>a b. if eps_ProviderAccountID a = eps_ProviderAccountID b then eps_CreatedAt a > eps_CreatedAt b
            else eps_ProviderAccountID a < eps_ProviderAccountID b) (mvalues (effectivePriceSnapshots r))"

definition SaveEffectivePriceSnapshot :: "'f EffectivePriceSnapshot \<Rightarrow> 'f pricing_maps \<Rightarrow> 'f pricing_maps" where
  "SaveEffectivePriceSnapshot snapshot r = r\<lparr>effectivePriceSnapshots := mput (eps_ID snapshot) snapshot (effectivePriceSnapshots r)\<rparr>"

definition list_decisions :: "'f pricing_maps \<Rightarrow> 'f EffectivePricingDecision list" where
  "list_decisions r = sort_slice (\<lambda>a b. epd_UpdatedAt a > epd_UpdatedAt b) (mvalues (effectivePricingDecisions r))"

definition SaveEffectivePricingDecision :: "'f EffectivePricingDecision \<Rightarrow> 'f pricing_maps \<Rightarrow> 'f pricing_maps" where
  "SaveEffectivePricingDecision decision r =
     r\<lparr>effectivePricingDecisions := mput (epd_ID decision) decision (effectivePricingDecisions r)\<rparr>"

definition decision_unchanged :: "string \<Rightarrow> string \<Rightarrow> gotime \<Rightarrow> 'f pricing_maps \<Rightarrow> bool" where
  "decision_unchanged ident expectedStatus expectedUpdatedAt r =
     (case map_of (effectivePricingDecisions r) ident of
        None \<Rightarrow> False
      | Some current \<Rightarrow> \<not> (epd_Status current \<noteq> expectedStatus \<or> epd_UpdatedAt current \<noteq> expectedUpdatedAt))"

definition UpdateEffectivePricingDecision ::
  "'f EffectivePricingDecision \<Rightarrow> string \<Rightarrow> gotime \<Rightarrow> 'f pricing_maps \<Rightarrow> bool \<times> 'f pricing_maps" where
  "UpdateEffectivePricingDecision decision expectedStatus expectedUpdatedAt r =
     (if \<not> decision_unchanged (epd_ID decision) expectedStatus expectedUpdatedAt r then (False, r)
      else (True, SaveEffectivePricingDecision decision r))"

text \<open>The service shows a decision with the upstream model of its candidate snapshot.\<close>

definition with_snapshot_model :: "(string, 'f EffectivePriceSnapshot) gmap \<Rightarrow> 'f EffectivePricingDecision \<Rightarrow> 'f EffectivePricingDecision" where
  "with_snapshot_model snapshotByID decision =
     (case map_of snapshotByID (epd_CandidateSnapshotID decision) of
        None \<Rightarrow> decision | Some snapshot \<Rightarrow> decision\<lparr>epd_UpstreamModel := eps_UpstreamModel snapshot\<rparr>)"

definition ListEffectivePricingDecisions :: "'f pricing_maps \<Rightarrow> 'f EffectivePricingDecision list" where
  "ListEffectivePricingDecisions r =
     (let snapshotByID = foldl (\<lambda>m snapshot. mput (eps_ID snapshot) snapshot m) [] (ListEffectivePriceSnapshots r)
      in map (with_snapshot_model snapshotByID) (list_decisions r))"

definition effectivePricingDecisionByID :: "string \<Rightarrow> 'f pricing_maps \<Rightarrow> go_error + 'f EffectivePricingDecision" where
  "effectivePricingDecisionByID ident r =
     (case find (\<lambda>decision. epd_ID decision = TrimSpace ident) (ListEffectivePricingDecisions r) of
        Some decision \<Rightarrow> Inr decision
      | None \<Rightarrow> Inl (errors_New (''effective pricing decision '' @ go_quote (TrimSpace ident) @ '' not found'')))"

section \<open>The evidence for a switch\<close>

record 'f effectivePricingCandidateAssessment =
  asm_CostImprovement :: 'f
  asm_ReasonCodes :: "string list"
  asm_Eligible :: bool

fun effectivePricingReportRow ::
  "'f EffectivePricingReportRow list \<Rightarrow> string \<Rightarrow> string \<Rightarrow> string \<Rightarrow> 'f EffectivePricingReportRow option" where
  "effectivePricingReportRow [] accountID upstreamModel protocol = None"
| "effectivePricingReportRow (row # rows) accountID upstreamModel protocol =
     (if row_ProviderAccountID row = accountID \<and> row_UpstreamModel row = upstreamModel \<and> row_Protocol row = protocol then Some row
      else effectivePricingReportRow rows accountID upstreamModel protocol)"

definition effectivePricingDecisionBlockingReasons :: "string list \<Rightarrow> string list" where
  "effectivePricingDecisionBlockingReasons reasons = filter (\<lambda>reason. reason \<noteq> ''higher_effective_cost'') reasons"

definition effectivePricingQualityRegressionReasons ::
  "'f float_ops \<Rightarrow> 'f EffectivePricingReportRow \<Rightarrow> 'f EffectivePricingReportRow \<Rightarrow> 'f EffectivePricingPolicy \<Rightarrow> string list" where
  "effectivePricingQualityRegressionReasons fl current candidate policy =
     (let reasons = (if f_less fl (pol_MaxErrorRateRegression policy) (f_sub fl (row_ErrorRate candidate) (row_ErrorRate current))
                     then [''error_rate_regression_exceeded''] else [])
      in if pol_Mode policy = EffectivePricingModeCostFirst then reasons
         else if row_P95LatencyMS current \<le> 0 \<or> row_P95LatencyMS candidate \<le> 0 then reasons @ [''p95_latency_evidence_missing'']
         else let regression = f_div fl (f_of_int fl (wrap64 (row_P95LatencyMS candidate - row_P95LatencyMS current)))
                                        (f_of_int fl (row_P95LatencyMS current))
              in if f_less fl (pol_MaxP95LatencyRegression policy) regression
                 then reasons @ [''p95_latency_regression_exceeded''] else reasons)"

definition cost_improvement :: "'f float_ops \<Rightarrow> 'f EffectivePricingReportRow \<Rightarrow> 'f EffectivePricingReportRow \<Rightarrow> 'f" where
  "cost_improvement fl current candidate =
     f_div fl (f_of_int fl (wrap64 (row_EffectiveCostMicrosPer1M current - row_EffectiveCostMicrosPer1M candidate)))
       (f_of_int fl (row_EffectiveCostMicrosPer1M current))"

definition cost_threshold_met ::
  "'f float_ops \<Rightarrow> 'f EffectivePricingReportRow \<Rightarrow> 'f EffectivePricingReportRow \<Rightarrow> 'f EffectivePricingPolicy \<Rightarrow> bool" where
  "cost_threshold_met fl current candidate policy = f_leq fl (pol_MinCostImprovement policy) (cost_improvement fl current candidate)"

definition cache_evidence_improved ::
  "'f float_ops \<Rightarrow> 'f EffectivePricingReportRow \<Rightarrow> 'f EffectivePricingReportRow \<Rightarrow> 'f EffectivePricingPolicy \<Rightarrow> bool" where
  "cache_evidence_improved fl current candidate policy \<longleftrightarrow>
     row_CacheEconomicsAvailable current \<and> row_CacheEconomicsAvailable candidate
     \<and> oneOf (row_CacheSupportStatus candidate) [CacheSupportObserved, CacheSupportBilledVerified]
     \<and> f_leq fl (pol_MinCacheHitRateImprovement policy) (f_sub fl (row_CacheTokenHitRate candidate) (row_CacheTokenHitRate current))
     \<and> f_less fl (f_of_int fl 0) (f_sub fl (row_CacheSavingsRate candidate) (row_CacheSavingsRate current))"

definition affinity_evidence_improved ::
  "'f float_ops \<Rightarrow> 'f EffectivePricingReportRow \<Rightarrow> 'f EffectivePricingReportRow \<Rightarrow> 'f EffectivePricingPolicy \<Rightarrow> bool" where
  "affinity_evidence_improved fl current candidate policy \<longleftrightarrow>
     oneOf (row_PoolAffinityGrade candidate) [PoolAffinityProbable, PoolAffinityVerified]
     \<and> f_leq fl (pol_MinAffinityImprovement policy)
         (f_sub fl (row_AffinityConsistencyRate candidate) (row_AffinityConsistencyRate current))"

definition cache_tiebreaker_met ::
  "'f float_ops \<Rightarrow> 'f EffectivePricingReportRow \<Rightarrow> 'f EffectivePricingReportRow \<Rightarrow> 'f EffectivePricingPolicy \<Rightarrow> bool" where
  "cache_tiebreaker_met fl current candidate policy \<longleftrightarrow>
     \<not> cost_threshold_met fl current candidate policy
     \<and> f_leq fl (f_neg fl (pol_MaxCacheTiebreakCostRegression policy)) (cost_improvement fl current candidate)
     \<and> f_leq fl (pol_MinMetricsCoverage policy) (row_MetricsCoverage candidate)
     \<and> (cache_evidence_improved fl current candidate policy \<or> affinity_evidence_improved fl current candidate policy)"

definition blocking_reasons ::
  "'f float_ops \<Rightarrow> 'f EffectivePricingReportRow \<Rightarrow> 'f EffectivePricingReportRow \<Rightarrow> 'f EffectivePricingPolicy \<Rightarrow> string list" where
  "blocking_reasons fl current candidate policy =
     effectivePricingDecisionBlockingReasons (row_ReasonCodes candidate)
     @ effectivePricingQualityRegressionReasons fl current candidate policy
     @ (if \<not> cache_tiebreaker_met fl current candidate policy \<and> \<not> cost_threshold_met fl current candidate policy
        then ''cost_improvement_below_threshold''
          # (if \<not> cache_evidence_improved fl current candidate policy \<and> \<not> affinity_evidence_improved fl current candidate policy
             then ''cache_quality_improvement_below_threshold''
               # (if \<not> row_CacheEconomicsAvailable current \<or> \<not> row_CacheEconomicsAvailable candidate
                  then [''cache_economics_evidence_missing''] else [])
             else [])
        else [])
     @ (if f_less fl (row_BillingConsistencyRate candidate) (pol_MinBillingConsistency policy) then [''billing_consistency_low''] else [])
     @ (if \<not> oneOf (row_CostConfidence candidate) [ProcurementCostConfidenceExact, ProcurementCostConfidenceDerived]
        then [''automatic_switch_confidence_low''] else [])"

definition assessEffectivePricingCandidate ::
  "'f float_ops \<Rightarrow> 'f EffectivePricingReportRow \<Rightarrow> 'f EffectivePricingReportRow \<Rightarrow> 'f EffectivePricingPolicy
     \<Rightarrow> 'f effectivePricingCandidateAssessment" where
  "assessEffectivePricingCandidate fl current candidate policy =
     (let blockingReasons = blocking_reasons fl current candidate policy;
          decisionReasons = (if blockingReasons = [] \<and> cache_tiebreaker_met fl current candidate policy
                             then [''cache_quality_tiebreaker''] else [])
      in \<lparr>asm_CostImprovement = cost_improvement fl current candidate,
          asm_ReasonCodes = cleanStringList (decisionReasons @ blockingReasons),
          asm_Eligible = (blockingReasons = [])\<rparr>)"

definition cost_evidence :: "'f EffectivePricingReportRow \<Rightarrow> 'f EffectivePricingReportRow \<Rightarrow> bool" where
  "cost_evidence current candidate \<longleftrightarrow> \<not> (\<not> row_CostAvailable current \<or> \<not> row_CostAvailable candidate
     \<or> row_EffectiveCostMicrosPer1M current \<le> 0 \<or> row_EffectiveCostMicrosPer1M candidate < 0)"

definition effectivePriceSnapshotFromReportRow ::
  "string \<Rightarrow> 'f EffectivePricingReportRow \<Rightarrow> 'f EffectivePricingReport \<Rightarrow> gotime \<Rightarrow> 'f EffectivePriceSnapshot" where
  "effectivePriceSnapshotFromReportRow random row report now =
     \<lparr>eps_ID = ''eps_'' @ random, eps_ProviderID = row_ProviderID row, eps_ProviderAccountID = row_ProviderAccountID row,
      eps_UpstreamModel = row_UpstreamModel row, eps_Protocol = row_Protocol row, eps_Currency = row_Currency row,
      eps_EffectiveCostMicrosPer1M = row_EffectiveCostMicrosPer1M row, eps_EffectiveMultiplier = row_EffectiveMultiplier row,
      eps_QuotedMultiplier = row_QuotedMultiplier row, eps_CacheTokenHitRate = row_CacheTokenHitRate row,
      eps_MetricsCoverage = row_MetricsCoverage row, eps_BillingConsistencyRate = row_BillingConsistencyRate row,
      eps_RequestCount = row_RequestCount row, eps_CostConfidence = row_CostConfidence row, eps_PriceID = row_PriceID row,
      eps_WindowStart = rep_WindowStart report, eps_WindowEnd = rep_WindowEnd report, eps_ExpiresAt = now + Hour,
      eps_CreatedAt = now\<rparr>"

section \<open>Reports\<close>

type_synonym 'f window_report =
  "EffectivePricingReportQuery \<Rightarrow> 'f EffectivePricingPolicy \<Rightarrow> gotime \<Rightarrow> gotime \<Rightarrow> 'f pricing_maps
     \<Rightarrow> (go_error + 'f EffectivePricingReport) \<times> (string, 'f ProviderCacheCapability) gmap"

definition run_report ::
  "'f window_report \<Rightarrow> EffectivePricingReportQuery \<Rightarrow> 'f EffectivePricingPolicy \<Rightarrow> gotime \<Rightarrow> gotime \<Rightarrow> 'f pricing_maps
     \<Rightarrow> (go_error + 'f EffectivePricingReport) \<times> 'f pricing_maps" where
  "run_report rep query policy start stop r =
     (case rep query policy start stop r of (res, capabilities) \<Rightarrow> (res, r\<lparr>providerCacheCapabilities := capabilities\<rparr>))"

definition EffectivePricingReportOf ::
  "'f float_ops \<Rightarrow> 'f window_report \<Rightarrow> pricing_env \<Rightarrow> EffectivePricingReportQuery \<Rightarrow> 'f pricing_maps
     \<Rightarrow> (go_error + 'f EffectivePricingReport) \<times> 'f pricing_maps" where
  "EffectivePricingReportOf fl rep env query r =
     (let policy = EffectivePricingPolicyOf fl env r;
          windowHours = (if repq_WindowHours query \<le> 0 then pol_WindowHours policy else repq_WindowHours query)
      in if windowHours < 1 \<or> windowHours > 24 * 30 then (Inl (errors_New ''window_hours must be between 1 and 720''), r)
         else let windowEnd = env_reportNow env
              in run_report rep query policy (windowEnd - windowHours * Hour) windowEnd r)"

section \<open>Evaluation of a decision\<close>

record EffectivePricingDecisionEvaluationRequest =
  erq_Model :: string
  erq_UpstreamModel :: string
  erq_Protocol :: string
  erq_CurrentProviderAccountID :: string
  erq_CandidateProviderAccountID :: string

definition trim_evaluation_request :: "EffectivePricingDecisionEvaluationRequest \<Rightarrow> EffectivePricingDecisionEvaluationRequest" where
  "trim_evaluation_request q =
     \<lparr>erq_Model = TrimSpace (erq_Model q), erq_UpstreamModel = TrimSpace (erq_UpstreamModel q),
      erq_Protocol = TrimSpace (erq_Protocol q), erq_CurrentProviderAccountID = TrimSpace (erq_CurrentProviderAccountID q),
      erq_CandidateProviderAccountID = TrimSpace (erq_CandidateProviderAccountID q)\<rparr>"

definition evaluated_decision ::
  "'f float_ops \<Rightarrow> pricing_env \<Rightarrow> string \<Rightarrow> EffectivePricingDecisionEvaluationRequest \<Rightarrow> 'f EffectivePricingReport
     \<Rightarrow> 'f EffectivePricingReportRow \<Rightarrow> 'f EffectivePricingReportRow \<Rightarrow> 'f EffectivePricingDecision" where
  "evaluated_decision fl env actor request report current candidate =
     (let assessment = assessEffectivePricingCandidate fl current candidate (rep_Policy report) in
      zero_EffectivePricingDecision (f_of_int fl 0)
       \<lparr>epd_ID := ''epd_'' @ env_decisionID env, epd_Model := erq_Model request, epd_UpstreamModel := erq_UpstreamModel request,
        epd_Protocol := erq_Protocol request, epd_CurrentProviderAccountID := erq_CurrentProviderAccountID request,
        epd_CandidateProviderAccountID := erq_CandidateProviderAccountID request,
        epd_CurrentSnapshotID := ''eps_'' @ env_currentID env, epd_CandidateSnapshotID := ''eps_'' @ env_candidateID env,
        epd_CurrentCostMicrosPer1M := row_EffectiveCostMicrosPer1M current,
        epd_CandidateCostMicrosPer1M := row_EffectiveCostMicrosPer1M candidate,
        epd_CostImprovement := asm_CostImprovement assessment,
        epd_Status := (if asm_Eligible assessment then EffectivePricingDecisionRecommended else EffectivePricingDecisionHold),
        epd_ReasonCodes := asm_ReasonCodes assessment, epd_CanaryPercent := pol_CanaryPercent (rep_Policy report),
        epd_SampleCount := row_RequestCount candidate, epd_Confidence := row_CostConfidence candidate, epd_CreatedBy := actor,
        epd_CreatedAt := env_now env, epd_UpdatedAt := env_now env\<rparr>)"

definition save_evaluated ::
  "'f float_ops \<Rightarrow> pricing_env \<Rightarrow> string \<Rightarrow> EffectivePricingDecisionEvaluationRequest \<Rightarrow> 'f EffectivePricingReport
     \<Rightarrow> 'f pricing_maps \<Rightarrow> (go_error + 'f EffectivePricingDecision) \<times> 'f pricing_maps" where
  "save_evaluated fl env actor request report r =
     (case (effectivePricingReportRow (rep_Rows report) (erq_CurrentProviderAccountID request) (erq_UpstreamModel request) (erq_Protocol request),
            effectivePricingReportRow (rep_Rows report) (erq_CandidateProviderAccountID request) (erq_UpstreamModel request) (erq_Protocol request)) of
        (Some current, Some candidate) \<Rightarrow>
          if \<not> cost_evidence current candidate
          then (Inl (errors_New ''current and candidate accounts require effective cost evidence''), r)
          else
            let decision = evaluated_decision fl env actor request report current candidate;
                r = SaveEffectivePriceSnapshot (effectivePriceSnapshotFromReportRow (env_currentID env) current report (env_now env)) r;
                r = SaveEffectivePriceSnapshot (effectivePriceSnapshotFromReportRow (env_candidateID env) candidate report (env_now env)) r;
                r = SaveEffectivePricingDecision decision r;
                r = AddPricingAuditLog (newAuditLog env actor ''evaluate'' ''effective_pricing_decision'' (epd_ID decision)
                      (''Evaluated provider switch from '' @ epd_CurrentProviderAccountID decision @ '' to ''
                       @ epd_CandidateProviderAccountID decision @ '' with status '' @ epd_Status decision)) r
            in (Inr decision, r)
      | _ \<Rightarrow> (Inl (errors_New ''current and candidate accounts must both have comparable usage''), r))"

definition EvaluateEffectivePricingDecision ::
  "'f float_ops \<Rightarrow> 'f window_report \<Rightarrow> pricing_env \<Rightarrow> string \<Rightarrow> EffectivePricingDecisionEvaluationRequest \<Rightarrow> 'f pricing_maps
     \<Rightarrow> (go_error + 'f EffectivePricingDecision) \<times> 'f pricing_maps" where
  "EvaluateEffectivePricingDecision fl rep env actor request0 r =
     (let request = trim_evaluation_request request0 in
      if erq_Model request = [] \<or> erq_UpstreamModel request = [] \<or> erq_Protocol request = [] \<or> erq_CurrentProviderAccountID request = []
        \<or> erq_CandidateProviderAccountID request = [] \<or> erq_CurrentProviderAccountID request = erq_CandidateProviderAccountID request
      then (Inl (errors_New
        ''model, upstream_model, protocol, and distinct current/candidate provider accounts are required''), r)
      else case EffectivePricingReportOf fl rep env
             \<lparr>repq_Model = erq_UpstreamModel request, repq_Protocol = erq_Protocol request, repq_WindowHours = 0\<rparr> r of
          (Inl err, r) \<Rightarrow> (Inl err, r)
        | (Inr report, r) \<Rightarrow> save_evaluated fl env actor request report r)"

section \<open>Actions on a decision\<close>

definition start_canary :: "pricing_env \<Rightarrow> 'f EffectivePricingDecision \<Rightarrow> 'f EffectivePricingDecision" where
  "start_canary env decision = decision
     \<lparr>epd_Status := EffectivePricingDecisionCanary, epd_HealthyWindowCount := 0, epd_DegradedWindowCount := 0,
      epd_LastEvaluationID := [], epd_LastEvaluationVerdict := [], epd_LastEvaluationReasonCodes := [],
      epd_LastEvaluatedWindowEnd := Some (env_canaryNow env), epd_MonitoringStartedAt := Some (env_canaryNow env),
      epd_LastHealthyAt := None, epd_LastAutomaticAction := []\<rparr>"

definition act_on :: "pricing_env \<Rightarrow> string \<Rightarrow> int \<Rightarrow> 'f EffectivePricingDecision \<Rightarrow> go_error + 'f EffectivePricingDecision" where
  "act_on env action canaryPercent decision =
     (if action = ''approve_canary'' then
        (if epd_Status decision \<noteq> EffectivePricingDecisionRecommended
         then Inl (errors_New ''only recommended decisions can start canary'')
         else if \<not> oneOf (epd_Confidence decision) [ProcurementCostConfidenceExact, ProcurementCostConfidenceDerived]
         then Inl (errors_New ''canary requires exact or derived cost confidence'')
         else if canaryPercent > 0 then
           (if canaryPercent > 100 then Inl (errors_New ''canary_percent must be between 1 and 100'')
            else Inr (start_canary env (decision\<lparr>epd_CanaryPercent := canaryPercent\<rparr>)))
         else Inr (start_canary env decision))
      else if action = ''activate'' then
        (if epd_Status decision \<noteq> EffectivePricingDecisionCanary
         then Inl (errors_New ''only canary decisions can become active'')
         else Inr (decision\<lparr>epd_Status := EffectivePricingDecisionActive\<rparr>))
      else if action = ''rollback'' then
        (if \<not> oneOf (epd_Status decision)
              [EffectivePricingDecisionCanary, EffectivePricingDecisionActive, EffectivePricingDecisionDegraded]
         then Inl (errors_New ''decision cannot be rolled back from its current status'')
         else Inr (decision\<lparr>epd_Status := EffectivePricingDecisionRolledBack\<rparr>))
      else if action = ''hold'' then Inr (decision\<lparr>epd_Status := EffectivePricingDecisionHold\<rparr>)
      else Inl (errors_New ''invalid decision action''))"

definition economic_block :: "(string, ProviderBillingRoutingHealth) gmap \<Rightarrow> string \<Rightarrow> ProviderBillingRoutingHealth option" where
  "economic_block healthByAccount accountID =
     (case map_of healthByAccount accountID of
        None \<Rightarrow> None
      | Some health \<Rightarrow> if \<not> bh_EconomicSwitchEligible health then Some health else None)"

text \<open>The action on a decision as it was read, and on the one of an identifier.\<close>

definition act_on_read ::
  "pricing_env \<Rightarrow> string \<Rightarrow> 'f EffectivePricingDecision \<Rightarrow> EffectivePricingDecisionActionRequest \<Rightarrow> 'f pricing_maps
     \<Rightarrow> (go_error + 'f EffectivePricingDecision) \<times> 'f pricing_maps" where
  "act_on_read env actor decision request r =
     (let action = TrimSpace (act_Action request);
          blocked = (if oneOf action [''approve_canary'', ''activate'']
            then economic_block (providerBillingRoutingHealthByAccount (env_healthNow env) r) (epd_CandidateProviderAccountID decision)
            else None)
      in (case blocked of
            Some health \<Rightarrow> (Inl (errors_New (''candidate provider billing health does not allow economic switching: ''
              @ strings_Join (bh_ReasonCodes health) '','')), r)
          | None \<Rightarrow>
              (case act_on env action (act_CanaryPercent request) decision of
                 Inl err \<Rightarrow> (Inl err, r)
               | Inr acted \<Rightarrow>
                   (let acted = acted\<lparr>epd_UpdatedAt := env_now env\<rparr>
                    in case UpdateEffectivePricingDecision acted (epd_Status decision) (epd_UpdatedAt decision) r of
                         (False, r) \<Rightarrow> (Inl (errors_New
                           ''effective pricing decision changed; reload before applying the action''), r)
                       | (True, r) \<Rightarrow>
                           (Inr acted, AddPricingAuditLog (newAuditLog env actor action ''effective_pricing_decision'' (epd_ID acted)
                             (''Effective pricing decision changed to '' @ epd_Status acted)) r)))))"

definition ActOnEffectivePricingDecision ::
  "pricing_env \<Rightarrow> string \<Rightarrow> string \<Rightarrow> EffectivePricingDecisionActionRequest \<Rightarrow> 'f pricing_maps
     \<Rightarrow> (go_error + 'f EffectivePricingDecision) \<times> 'f pricing_maps" where
  "ActOnEffectivePricingDecision env actor ident request r =
     (case effectivePricingDecisionByID ident r of
        Inl err \<Rightarrow> (Inl err, r)
      | Inr decision \<Rightarrow> act_on_read env actor decision request r)"

section \<open>The order of the candidates\<close>

definition hex_value :: "char \<Rightarrow> nat option" where
  "hex_value c =
     (let b = byte_of c in
      if 48 \<le> b \<and> b \<le> 57 then Some (b - 48)
      else if 97 \<le> b \<and> b \<le> 102 then Some (b - 87)
      else if 65 \<le> b \<and> b \<le> 70 then Some (b - 55) else None)"

fun hex_number :: "nat \<Rightarrow> string \<Rightarrow> nat option" where
  "hex_number n [] = Some n"
| "hex_number n (c # s) = (case hex_value c of None \<Rightarrow> None | Some d \<Rightarrow> hex_number (16 * n + d) s)"

text \<open>\<open>strconv.ParseUint(s, 16, 64)\<close>\<close>

definition ParseUint16 :: "string \<Rightarrow> nat option" where
  "ParseUint16 s =
     (if s = [] then None
      else case hex_number 0 s of None \<Rightarrow> None | Some n \<Rightarrow> if n < 18446744073709551616 then Some n else None)"

definition canary_input :: "string \<Rightarrow> string \<Rightarrow> GatewayAffinityInput" where
  "canary_input decisionID cohortKey =
     \<lparr>gai_TenantID = [], gai_PrincipalID = [], gai_CredentialID = decisionID, gai_Model = [], gai_Protocol = [], gai_RouteGroup = [],
      gai_StickyKey = cohortKey, gai_PolicyVersion = 0\<rparr>"

definition inEffectivePricingCanary :: "string \<Rightarrow> string \<Rightarrow> string \<Rightarrow> int \<Rightarrow> bool" where
  "inEffectivePricingCanary secret decisionID cohortKey percent =
     (if percent \<le> 0 \<or> TrimSpace cohortKey = [] then False
      else if percent \<ge> 100 then True
      else let key = gatewayAffinityScopeKey secret AffinityBindingAccount (canary_input decisionID cohortKey)
           in case ParseUint16 (drop (length key - 16) key) of
                None \<Rightarrow> False | Some number \<Rightarrow> int (number mod 10000) < percent * 100)"

definition decision_applies :: "string \<Rightarrow> string \<Rightarrow> string \<Rightarrow> string \<Rightarrow> 'f EffectivePricingDecision \<Rightarrow> bool" where
  "decision_applies secretKey model protocol cohortKey decision \<longleftrightarrow>
     \<not> (epd_Model decision \<noteq> model \<or> epd_Protocol decision \<noteq> protocol
        \<or> \<not> oneOf (epd_Status decision) [EffectivePricingDecisionCanary, EffectivePricingDecisionActive])
     \<and> \<not> (epd_Status decision = EffectivePricingDecisionCanary
        \<and> \<not> inEffectivePricingCanary secretKey (epd_ID decision) cohortKey (epd_CanaryPercent decision))"

definition decision_admits ::
  "(string, ProviderBillingRoutingHealth) gmap \<Rightarrow> 'f EffectivePricingDecision \<Rightarrow> 'f GatewayProvider \<Rightarrow> bool" where
  "decision_admits healthByAccount decision candidate \<longleftrightarrow>
     \<not> gp_AccountID candidate \<noteq> epd_CandidateProviderAccountID decision
     \<and> \<not> economic_block healthByAccount (gp_AccountID candidate) \<noteq> None"

fun order_by_decisions ::
  "('f EffectivePricingDecision \<Rightarrow> bool) \<Rightarrow> (string, ProviderBillingRoutingHealth) gmap \<Rightarrow> 'f EffectivePricingDecision list
     \<Rightarrow> 'f GatewayProvider list \<Rightarrow> 'f GatewayProvider list" where
  "order_by_decisions applies healthByAccount [] candidates = candidates"
| "order_by_decisions applies healthByAccount (decision # decisions) candidates =
     (if \<not> applies decision then order_by_decisions applies healthByAccount decisions candidates
      else case first_admitted (decision_admits healthByAccount decision)
             (''effective pricing '' @ epd_Status decision @ '' decision '' @ epd_ID decision) [] candidates of
             Some out \<Rightarrow> out
           | None \<Rightarrow> order_by_decisions applies healthByAccount decisions candidates)"

definition OrderGatewayCandidatesByEffectivePricing ::
  "string \<Rightarrow> gotime \<Rightarrow> string \<Rightarrow> string \<Rightarrow> string \<Rightarrow> 'f GatewayProvider list \<Rightarrow> 'f pricing_maps \<Rightarrow> 'f GatewayProvider list" where
  "OrderGatewayCandidatesByEffectivePricing secretKey now model protocol cohortKey candidates r =
     (if length candidates < 2 then candidates
      else order_by_decisions (decision_applies secretKey model protocol cohortKey) (providerBillingRoutingHealthByAccount now r)
             (list_decisions r) candidates)"

end
