(* ===== verification/Pricing_Monitor.thy ===== *)
theory Pricing_Monitor
  imports Pricing_Switch
begin

text \<open>
  The monitor of canary and active decisions (\<open>effective_pricing_monitor.go\<close>): for each, it evaluates at most one completed window,
  counts consecutive healthy and degraded windows, and, where the policy allows it, activates a canary or rolls a decision back. The
  evaluation and the new decision are committed together, if the decision has not changed and the window was not evaluated before.
\<close>

section \<open>Evaluations of the repository\<close>

definition ListEffectivePricingDecisionEvaluations ::
  "string \<Rightarrow> int \<Rightarrow> 'f pricing_maps \<Rightarrow> 'f EffectivePricingDecisionEvaluation list" where
  "ListEffectivePricingDecisionEvaluations decisionID0 limit0 r =
     (let decisionID = TrimSpace decisionID0;
          limit = (if limit0 \<le> 0 \<or> limit0 > 1000 then 100 else limit0);
          out = sort_slice (\<lambda>a b. epw_WindowEnd a > epw_WindowEnd b)
            (filter (\<lambda>evaluation. \<not> (decisionID \<noteq> [] \<and> epw_DecisionID evaluation \<noteq> decisionID)) (mvalues (effectivePricingEvaluations r)))
      in if int (length out) > limit then take (nat limit) out else out)"

definition ListDecisionEvaluations ::
  "string \<Rightarrow> int \<Rightarrow> 'f pricing_maps \<Rightarrow> go_error + 'f EffectivePricingDecisionEvaluation list" where
  "ListDecisionEvaluations decisionID limit r =
     (if TrimSpace decisionID = [] then Inl (errors_New ''effective pricing decision id is required'')
      else Inr (ListEffectivePricingDecisionEvaluations (TrimSpace decisionID) limit r))"

definition save_snapshot_opt :: "'f EffectivePriceSnapshot option \<Rightarrow> 'f pricing_maps \<Rightarrow> 'f pricing_maps" where
  "save_snapshot_opt snapshot r = (case snapshot of None \<Rightarrow> r | Some s \<Rightarrow> SaveEffectivePriceSnapshot s r)"

definition window_evaluated :: "string \<Rightarrow> gotime \<Rightarrow> 'f pricing_maps \<Rightarrow> bool" where
  "window_evaluated decisionID windowEnd r \<longleftrightarrow>
     list_ex (\<lambda>evaluation. epw_DecisionID evaluation = decisionID \<and> epw_WindowEnd evaluation = windowEnd) (mvalues (effectivePricingEvaluations r))"

definition CommitEffectivePricingDecisionEvaluation ::
  "'f EffectivePricingDecisionEvaluationCommit \<Rightarrow> 'f pricing_maps \<Rightarrow> bool \<times> 'f pricing_maps" where
  "CommitEffectivePricingDecisionEvaluation commit r =
     (let decision = epc_Decision commit; evaluation = epc_Evaluation commit in
      if \<not> decision_unchanged (epd_ID decision) (epc_ExpectedStatus commit) (epc_ExpectedUpdatedAt commit) r then (False, r)
      else if window_evaluated (epw_DecisionID evaluation) (epw_WindowEnd evaluation) r then (False, r)
      else
        let r = save_snapshot_opt (epc_CurrentSnapshot commit) r;
            r = save_snapshot_opt (epc_CandidateSnapshot commit) r;
            r = r\<lparr>effectivePricingEvaluations := mput (epw_ID evaluation) evaluation (effectivePricingEvaluations r)\<rparr>;
            r = SaveEffectivePricingDecision decision r;
            r = (case epc_Audit commit of None \<Rightarrow> r | Some event \<Rightarrow> AddPricingAuditLog event r)
        in (True, r))"

section \<open>The verdict on a window\<close>

definition effectivePricingReasonsProveDegradation :: "string list \<Rightarrow> bool" where
  "effectivePricingReasonsProveDegradation reasons = list_ex (\<lambda>reason. \<not> oneOf reason
     [''insufficient_sample'', ''cache_metrics_coverage_low'', ''cost_confidence_low'', ''automatic_switch_confidence_low'',
      ''p95_latency_evidence_missing'', ''cache_economics_evidence_missing'', ''current_usage_evidence_missing'',
      ''candidate_usage_evidence_missing'', ''effective_cost_evidence_missing'', ProviderBillingReasonSyncUnhealthy,
      ProviderBillingReasonEvidenceStale, ProviderBillingReasonEvidenceMissing, ProviderBillingReasonSourceObserveOnly,
      ProviderBillingReasonSourceDisabled]) reasons"

definition automaticEffectivePricingActionsAllowed :: "'f EffectivePricingPolicy \<Rightarrow> bool" where
  "automaticEffectivePricingActionsAllowed policy \<longleftrightarrow> pol_AutomaticActionsEnabled policy
     \<and> oneOf (pol_Mode policy) [EffectivePricingModeCanary, EffectivePricingModeBalanced, EffectivePricingModeCostFirst]"

text \<open>The verdict, the reasons and the cost improvement, from the rows of the current and the candidate account.\<close>

definition window_verdict ::
  "'f float_ops \<Rightarrow> 'f EffectivePricingPolicy \<Rightarrow> 'f EffectivePricingReportRow option \<Rightarrow> 'f EffectivePricingReportRow option
     \<Rightarrow> string \<times> string list \<times> 'f" where
  "window_verdict fl policy current candidate =
     (case (current, candidate) of
        (Some cur, Some cand) \<Rightarrow>
          if \<not> cost_evidence cur cand
          then (EffectivePricingEvaluationInconclusive, cleanStringList [''effective_cost_evidence_missing''], f_of_int fl 0)
          else (let assessment = assessEffectivePricingCandidate fl cur cand policy
                in (if asm_Eligible assessment then EffectivePricingEvaluationHealthy
                    else if effectivePricingReasonsProveDegradation (asm_ReasonCodes assessment) then EffectivePricingEvaluationDegraded
                    else EffectivePricingEvaluationInconclusive,
                    cleanStringList (asm_ReasonCodes assessment), asm_CostImprovement assessment))
      | _ \<Rightarrow> (EffectivePricingEvaluationInconclusive,
              cleanStringList ((if current = None then [''current_usage_evidence_missing''] else [])
                @ (if candidate = None then [''candidate_usage_evidence_missing''] else [])), f_of_int fl 0))"

text \<open>A row that is missing reads as zero.\<close>

definition zero_row :: "'f \<Rightarrow> 'f EffectivePricingReportRow" where
  "zero_row z =
     \<lparr>row_ProviderID = [], row_ProviderName = [], row_ProviderAccountID = [], row_ProviderAccountName = [], row_UpstreamModel = [],
      row_Protocol = [], row_Currency = [], row_CostAvailable = False, row_UncachedInputMicrosPer1MTokens = 0,
      row_CacheReadMicrosPer1MTokens = 0, row_CacheWrite5mMicrosPer1MTokens = 0, row_CacheWrite1hMicrosPer1MTokens = 0,
      row_OutputMicrosPer1MTokens = 0, row_RequestMicros = 0, row_ReferenceInputMicrosPer1MTokens = 0,
      row_ReferenceOutputMicrosPer1MTokens = 0, row_RechargeMultiplier = z, row_QuotedMultiplier = z, row_BilledMultiplier = z,
      row_EffectiveMultiplier = z, row_EffectiveCostMicrosPer1M = 0, row_UncachedCostMicrosPer1M = 0, row_CacheSavingsMicrosPer1M = 0,
      row_CacheSavingsRate = z, row_CacheEconomicsAvailable = False, row_RequestCount = 0, row_ErrorRate = z, row_P95LatencyMS = 0,
      row_MetricsCoverage = z, row_EligibleRequestHitRate = z, row_CacheTokenHitRate = z, row_CacheWriteReadRatio = z,
      row_BillingConsistencyRate = z, row_AffinityConsistencyRate = z, row_CacheSupportStatus = [], row_PoolAffinityGrade = [],
      row_CostConfidence = [], row_PriceID = [], row_ProviderBillingRoutingHealth = None, row_Recommendation = [],
      row_ReasonCodes = []\<rparr>"

definition row_or_zero :: "'f float_ops \<Rightarrow> 'f EffectivePricingReportRow option \<Rightarrow> 'f EffectivePricingReportRow" where
  "row_or_zero fl row = (case row of Some r \<Rightarrow> r | None \<Rightarrow> zero_row (f_of_int fl 0))"

section \<open>The counters and the automatic action\<close>

definition count_window ::
  "'f EffectivePricingPolicy \<Rightarrow> string \<Rightarrow> gotime \<Rightarrow> 'f EffectivePricingDecision \<Rightarrow> 'f EffectivePricingDecision" where
  "count_window policy verdict now decision =
     (if verdict = EffectivePricingEvaluationHealthy then decision
        \<lparr>epd_HealthyWindowCount := min (epd_HealthyWindowCount decision + 1) (max (pol_PromotionWindowCount policy) 1),
         epd_DegradedWindowCount := 0, epd_LastHealthyAt := Some now\<rparr>
      else if verdict = EffectivePricingEvaluationDegraded then decision
        \<lparr>epd_DegradedWindowCount := min (epd_DegradedWindowCount decision + 1) (max (pol_DegradationWindowCount policy) 1),
         epd_HealthyWindowCount := 0\<rparr>
      else decision\<lparr>epd_HealthyWindowCount := 0, epd_DegradedWindowCount := 0\<rparr>)"

text \<open>The action for a decision in a status, with the counters of the window included.\<close>

definition automatic_action :: "'f EffectivePricingPolicy \<Rightarrow> string \<Rightarrow> string \<Rightarrow> 'f EffectivePricingDecision \<Rightarrow> string" where
  "automatic_action policy status verdict counted =
     (if \<not> automaticEffectivePricingActionsAllowed policy then []
      else if status = EffectivePricingDecisionCanary \<and> verdict = EffectivePricingEvaluationHealthy
        \<and> epd_HealthyWindowCount counted \<ge> pol_PromotionWindowCount policy then ''activate''
      else if oneOf status [EffectivePricingDecisionCanary, EffectivePricingDecisionActive]
        \<and> verdict = EffectivePricingEvaluationDegraded \<and> epd_DegradedWindowCount counted \<ge> pol_DegradationWindowCount policy then ''rollback''
      else [])"

definition apply_action :: "string \<Rightarrow> 'f EffectivePricingDecision \<Rightarrow> 'f EffectivePricingDecision" where
  "apply_action action decision =
     (if action = ''activate'' then decision\<lparr>epd_Status := EffectivePricingDecisionActive, epd_LastAutomaticAction := ''activate''\<rparr>
      else if action = ''rollback'' then decision\<lparr>epd_Status := EffectivePricingDecisionRolledBack, epd_LastAutomaticAction := ''rollback''\<rparr>
      else decision)"

section \<open>The evaluation of a window\<close>

definition monitoring_started :: "'f EffectivePricingDecision \<Rightarrow> gotime" where
  "monitoring_started decision = (case epd_MonitoringStartedAt decision of Some at \<Rightarrow> at | None \<Rightarrow> epd_UpdatedAt decision)"

definition window_due :: "'f EffectivePricingDecision \<Rightarrow> gotime \<Rightarrow> bool" where
  "window_due decision windowEnd \<longleftrightarrow> \<not> (\<not> windowEnd > monitoring_started decision
     \<or> (case epd_LastEvaluatedWindowEnd decision of None \<Rightarrow> False | Some evaluated \<Rightarrow> \<not> windowEnd > evaluated))"

definition window_start :: "'f EffectivePricingPolicy \<Rightarrow> 'f EffectivePricingDecision \<Rightarrow> gotime \<Rightarrow> gotime" where
  "window_start policy decision windowEnd =
     (let start = windowEnd + wrap64 (wrap64 (- pol_WindowHours policy) * Hour)
      in if monitoring_started decision > start then monitoring_started decision else start)"

definition evaluation_record ::
  "'f float_ops \<Rightarrow> pricing_env \<Rightarrow> 'f EffectivePricingDecision \<Rightarrow> gotime \<Rightarrow> gotime \<Rightarrow> string \<times> string list \<times> 'f
     \<Rightarrow> 'f EffectivePricingReportRow option \<Rightarrow> 'f EffectivePricingReportRow option \<Rightarrow> 'f EffectivePricingDecisionEvaluation" where
  "evaluation_record fl env decision windowStart windowEnd v currentRow candidateRow =
     (case v of (verdict, reasons, improvement) \<Rightarrow>
      let current = row_or_zero fl currentRow; candidate = row_or_zero fl candidateRow in
      zero_EffectivePricingDecisionEvaluation (f_of_int fl 0)
       \<lparr>epw_ID := ''epw_'' @ env_evaluationID env, epw_DecisionID := epd_ID decision, epw_WindowStart := windowStart,
        epw_WindowEnd := windowEnd, epw_Verdict := verdict, epw_ReasonCodes := reasons,
        epw_CurrentRequestCount := row_RequestCount current, epw_CandidateRequestCount := row_RequestCount candidate,
        epw_CurrentCostMicrosPer1M := row_EffectiveCostMicrosPer1M current,
        epw_CandidateCostMicrosPer1M := row_EffectiveCostMicrosPer1M candidate, epw_CostImprovement := improvement,
        epw_CurrentCacheTokenHitRate := row_CacheTokenHitRate current, epw_CandidateCacheTokenHitRate := row_CacheTokenHitRate candidate,
        epw_CurrentCacheSavingsRate := row_CacheSavingsRate current, epw_CandidateCacheSavingsRate := row_CacheSavingsRate candidate,
        epw_CurrentAffinityConsistencyRate := row_AffinityConsistencyRate current,
        epw_CandidateAffinityConsistencyRate := row_AffinityConsistencyRate candidate,
        epw_CurrentErrorRate := row_ErrorRate current, epw_CandidateErrorRate := row_ErrorRate candidate,
        epw_CurrentP95LatencyMS := row_P95LatencyMS current, epw_CandidateP95LatencyMS := row_P95LatencyMS candidate,
        epw_CurrentMetricsCoverage := row_MetricsCoverage current, epw_CandidateMetricsCoverage := row_MetricsCoverage candidate,
        epw_CurrentBillingConsistencyRate := row_BillingConsistencyRate current,
        epw_CandidateBillingConsistencyRate := row_BillingConsistencyRate candidate, epw_CreatedAt := env_now env\<rparr>)"

text \<open>The decision with the evidence of the window, before the counters.\<close>

definition note_window ::
  "pricing_env \<Rightarrow> gotime \<Rightarrow> string \<times> string list \<times> 'f \<Rightarrow> 'f EffectivePricingReportRow option \<Rightarrow> 'f EffectivePricingReportRow option
     \<Rightarrow> 'f EffectivePricingDecision \<Rightarrow> 'f EffectivePricingDecision" where
  "note_window env windowEnd v currentRow candidateRow decision =
     (case v of (verdict, reasons, improvement) \<Rightarrow>
      let noted = decision\<lparr>epd_LastEvaluationID := ''epw_'' @ env_evaluationID env, epd_LastEvaluationVerdict := verdict,
             epd_LastEvaluationReasonCodes := reasons, epd_LastEvaluatedWindowEnd := Some windowEnd,
             epd_MonitoringStartedAt := Some (monitoring_started decision)\<rparr>;
          noted = (case candidateRow of None \<Rightarrow> noted
            | Some candidate \<Rightarrow> noted\<lparr>epd_CandidateCostMicrosPer1M := row_EffectiveCostMicrosPer1M candidate,
                epd_SampleCount := row_RequestCount candidate, epd_Confidence := row_CostConfidence candidate\<rparr>);
          noted = (case currentRow of None \<Rightarrow> noted
            | Some current \<Rightarrow> noted\<lparr>epd_CurrentCostMicrosPer1M := row_EffectiveCostMicrosPer1M current\<rparr>)
      in noted\<lparr>epd_CostImprovement := improvement\<rparr>)"

definition note_snapshots ::
  "pricing_env \<Rightarrow> 'f EffectivePricingReportRow option \<Rightarrow> 'f EffectivePricingReportRow option \<Rightarrow> 'f EffectivePricingDecision
     \<Rightarrow> 'f EffectivePricingDecision" where
  "note_snapshots env currentRow candidateRow decision =
     (let decision = (if currentRow = None then decision else decision\<lparr>epd_CurrentSnapshotID := ''eps_'' @ env_currentID env\<rparr>);
          decision = (if candidateRow = None then decision else decision\<lparr>epd_CandidateSnapshotID := ''eps_'' @ env_candidateID env\<rparr>)
      in decision\<lparr>epd_UpdatedAt := env_now env\<rparr>)"

definition action_audit :: "pricing_env \<Rightarrow> string \<Rightarrow> string \<Rightarrow> 'f EffectivePricingDecision \<Rightarrow> AuditLog option" where
  "action_audit env actor action decision =
     (if action = [] then None
      else Some (newAuditLog env actor (''automatic_'' @ action) ''effective_pricing_decision'' (epd_ID decision)
        (''Automatic effective pricing '' @ action @ '' after '' @ Itoa (epd_HealthyWindowCount decision) @ '' healthy and ''
         @ Itoa (epd_DegradedWindowCount decision) @ '' degraded windows'')))"

definition window_commit ::
  "'f float_ops \<Rightarrow> pricing_env \<Rightarrow> string \<Rightarrow> 'f EffectivePricingPolicy \<Rightarrow> 'f EffectivePricingDecision \<Rightarrow> gotime
     \<Rightarrow> 'f EffectivePricingReport \<Rightarrow> 'f EffectivePricingDecisionEvaluationCommit" where
  "window_commit fl env actor policy decision windowEnd report =
     (let current = effectivePricingReportRow (rep_Rows report) (epd_CurrentProviderAccountID decision)
            (epd_UpstreamModel decision) (epd_Protocol decision);
          candidate = effectivePricingReportRow (rep_Rows report) (epd_CandidateProviderAccountID decision)
            (epd_UpstreamModel decision) (epd_Protocol decision);
          v = window_verdict fl policy current candidate;
          counted = count_window policy (fst v) (env_now env) (note_window env windowEnd v current candidate decision);
          action = automatic_action policy (epd_Status decision) (fst v) counted;
          evaluation = (evaluation_record fl env decision (window_start policy decision windowEnd) windowEnd v current candidate)
            \<lparr>epw_AutomaticAction := action,
             epw_CurrentSnapshotID := (if current = None then [] else ''eps_'' @ env_currentID env),
             epw_CandidateSnapshotID := (if candidate = None then [] else ''eps_'' @ env_candidateID env)\<rparr>
      in \<lparr>epc_Evaluation = evaluation,
          epc_Decision = note_snapshots env current candidate (apply_action action counted),
          epc_ExpectedStatus = epd_Status decision, epc_ExpectedUpdatedAt = epd_UpdatedAt decision,
          epc_CurrentSnapshot = map_option (\<lambda>row. effectivePriceSnapshotFromReportRow (env_currentID env) row report (env_now env)) current,
          epc_CandidateSnapshot = map_option (\<lambda>row. effectivePriceSnapshotFromReportRow (env_candidateID env) row report (env_now env)) candidate,
          epc_Audit = action_audit env actor action counted\<rparr>)"

definition evaluateEffectivePricingDecisionWindow ::
  "'f float_ops \<Rightarrow> 'f window_report \<Rightarrow> pricing_env \<Rightarrow> string \<Rightarrow> 'f EffectivePricingPolicy \<Rightarrow> 'f EffectivePricingDecision \<Rightarrow> gotime
     \<Rightarrow> 'f pricing_maps \<Rightarrow> (go_error + 'f EffectivePricingDecisionEvaluation option) \<times> 'f pricing_maps" where
  "evaluateEffectivePricingDecisionWindow fl rep env actor policy decision windowEnd r =
     (if \<not> window_due decision windowEnd then (Inr None, r)
      else case run_report rep \<lparr>repq_Model = epd_UpstreamModel decision, repq_Protocol = epd_Protocol decision,
             repq_WindowHours = pol_WindowHours policy\<rparr> policy (window_start policy decision windowEnd) windowEnd r of
          (Inl err, r) \<Rightarrow> (Inl err, r)
        | (Inr report, r) \<Rightarrow>
            let commit = window_commit fl env actor policy decision windowEnd report
            in case CommitEffectivePricingDecisionEvaluation commit r of
                 (applied, r) \<Rightarrow> (Inr (if applied then Some (epc_Evaluation commit) else None), r))"

text \<open>\<open>Time.Truncate\<close>: down to a multiple of the interval since the zero time.\<close>

definition time_Truncate :: "gotime \<Rightarrow> duration \<Rightarrow> gotime" where
  "time_Truncate t interval = (if interval \<le> 0 then t else t - t mod interval)"

definition evaluation_interval :: "'f EffectivePricingPolicy \<Rightarrow> duration" where
  "evaluation_interval policy =
     (let interval = wrap64 (pol_EvaluationIntervalMinutes policy * Minute) in if interval \<le> 0 then Hour else interval)"

fun evaluate_windows ::
  "'f float_ops \<Rightarrow> 'f window_report \<Rightarrow> (string \<Rightarrow> pricing_env) \<Rightarrow> string \<Rightarrow> 'f EffectivePricingPolicy \<Rightarrow> gotime
     \<Rightarrow> 'f EffectivePricingDecision list \<Rightarrow> 'f EffectivePricingDecisionEvaluation list \<Rightarrow> go_error option \<Rightarrow> 'f pricing_maps
     \<Rightarrow> ('f EffectivePricingDecisionEvaluation list \<times> go_error option) \<times> 'f pricing_maps" where
  "evaluate_windows fl rep envs actor policy windowEnd [] evaluations joined r = ((evaluations, joined), r)"
| "evaluate_windows fl rep envs actor policy windowEnd (decision # decisions) evaluations joined r =
     (if \<not> oneOf (epd_Status decision) [EffectivePricingDecisionCanary, EffectivePricingDecisionActive]
      then evaluate_windows fl rep envs actor policy windowEnd decisions evaluations joined r
      else case evaluateEffectivePricingDecisionWindow fl rep (envs (epd_ID decision)) actor policy decision windowEnd r of
             (Inl err, r) \<Rightarrow> evaluate_windows fl rep envs actor policy windowEnd decisions evaluations
               (Some (errors_Join joined (errors_Prefix (''decision '' @ epd_ID decision) err))) r
           | (Inr None, r) \<Rightarrow> evaluate_windows fl rep envs actor policy windowEnd decisions evaluations joined r
           | (Inr (Some evaluation), r) \<Rightarrow>
               evaluate_windows fl rep envs actor policy windowEnd decisions (evaluations @ [evaluation]) joined r)"

definition EvaluateEffectivePricingDecisionWindows ::
  "'f float_ops \<Rightarrow> 'f window_report \<Rightarrow> (string \<Rightarrow> pricing_env) \<Rightarrow> gotime \<Rightarrow> pricing_env \<Rightarrow> string \<Rightarrow> 'f pricing_maps
     \<Rightarrow> ('f EffectivePricingDecisionEvaluation list \<times> go_error option) \<times> 'f pricing_maps" where
  "EvaluateEffectivePricingDecisionWindows fl rep envs now env actor r =
     (let policy = EffectivePricingPolicyOf fl env r
      in evaluate_windows fl rep envs actor policy (time_Truncate now (evaluation_interval policy)) (ListEffectivePricingDecisions r) [] None r)"

end
