(* ===== verification/Pricing_Windows.thy ===== *)
theory Pricing_Windows
  imports Pricing_Monitor
begin

text \<open>
  Decisions under interleaving: instances of the monitor and operators read decisions and write back later, against a repository that
  others have changed since. What holds of every reachable state: no window of a decision is evaluated twice, a decision is activated by
  the monitor only after the required number of healthy windows in a row, and a decision that was held or rolled back stays so. Each
  write moves the clock on and draws an identifier that is not in use.
\<close>

section \<open>Runs\<close>

record 'f pricing_run =
  run_maps :: "'f pricing_maps"
  run_reads :: "'f EffectivePricingDecision set" \<comment> \<open>the decisions that have been read\<close>
  run_clock :: gotime

inductive pricing_step :: "'f float_ops \<Rightarrow> 'f pricing_run \<Rightarrow> 'f pricing_run \<Rightarrow> bool" for fl where
  read_decisions:
    "pricing_step fl s (s\<lparr>run_reads := run_reads s \<union> set (ListEffectivePricingDecisions (run_maps s))\<rparr>)"
| evaluate_candidate:
    "\<lbrakk>run_clock s < env_now env;
      map_of (effectivePricingDecisions (run_maps s)) (''epd_'' @ env_decisionID env) = None;
      EvaluateEffectivePricingDecision fl rep env actor request (run_maps s) = (res, r)\<rbrakk>
     \<Longrightarrow> pricing_step fl s (s\<lparr>run_maps := r, run_clock := env_now env\<rparr>)"
| evaluate_window:
    "\<lbrakk>run_clock s < env_now env; decision \<in> run_reads s;
      epd_Status decision \<in> {EffectivePricingDecisionCanary, EffectivePricingDecisionActive};
      map_of (effectivePricingEvaluations (run_maps s)) (''epw_'' @ env_evaluationID env) = None;
      evaluateEffectivePricingDecisionWindow fl rep env actor policy decision windowEnd (run_maps s) = (out, r)\<rbrakk>
     \<Longrightarrow> pricing_step fl s (s\<lparr>run_maps := r, run_clock := env_now env\<rparr>)"
| act_on_decision:
    "\<lbrakk>run_clock s < env_now env; decision \<in> run_reads s; act_on_read env actor decision action (run_maps s) = (res, r)\<rbrakk>
     \<Longrightarrow> pricing_step fl s (s\<lparr>run_maps := r, run_clock := env_now env\<rparr>)"
| update_policy:
    "UpdateEffectivePricingPolicy fl env actor prq (run_maps s) = (upd, r) \<Longrightarrow> pricing_step fl s (s\<lparr>run_maps := r\<rparr>)"
| other_changes:
    "pricing_step fl s (s\<lparr>run_maps := (run_maps s)
       \<lparr>providerBillingSources := sources, providerBalanceSnapshots := balances, routingAffinityBindings := bindings\<rparr>\<rparr>)"

inductive_cases pricing_stepE: "pricing_step fl s s'"

definition pricing_start :: "gotime \<Rightarrow> 'f pricing_run" where
  "pricing_start t = \<lparr>run_maps = new_pricing_maps, run_reads = {}, run_clock = t\<rparr>"

section \<open>What a write is\<close>

text \<open>Every operation either leaves the decisions and the evaluations, or writes one decision that nobody changed since it was read.\<close>

abbreviation decisions_of :: "'f pricing_run \<Rightarrow> (string, 'f EffectivePricingDecision) gmap" where
  "decisions_of s \<equiv> effectivePricingDecisions (run_maps s)"

abbreviation evaluations_of :: "'f pricing_run \<Rightarrow> (string, 'f EffectivePricingDecisionEvaluation) gmap" where
  "evaluations_of s \<equiv> effectivePricingEvaluations (run_maps s)"

lemma maps_of_writes [simp]:
  "effectivePricingDecisions (AddPricingAuditLog event r) = effectivePricingDecisions r"
  "effectivePricingEvaluations (AddPricingAuditLog event r) = effectivePricingEvaluations r"
  "effectivePricingDecisions (SaveEffectivePriceSnapshot snapshot r) = effectivePricingDecisions r"
  "effectivePricingEvaluations (SaveEffectivePriceSnapshot snapshot r) = effectivePricingEvaluations r"
  "effectivePricingDecisions (SaveEffectivePricingDecision decision r) = mput (epd_ID decision) decision (effectivePricingDecisions r)"
  "effectivePricingEvaluations (SaveEffectivePricingDecision decision r) = effectivePricingEvaluations r"
  "effectivePricingDecisions (SaveEffectivePricingPolicy policy r) = effectivePricingDecisions r"
  "effectivePricingEvaluations (SaveEffectivePricingPolicy policy r) = effectivePricingEvaluations r"
  by (simp_all add: AddPricingAuditLog_def SaveEffectivePriceSnapshot_def SaveEffectivePricingDecision_def SaveEffectivePricingPolicy_def)

lemma maps_of_snapshot_opt [simp]:
  "effectivePricingDecisions (save_snapshot_opt snapshot r) = effectivePricingDecisions r"
  "effectivePricingEvaluations (save_snapshot_opt snapshot r) = effectivePricingEvaluations r"
  by (simp_all add: save_snapshot_opt_def split: option.split)

lemma maps_of_report:
  assumes "run_report rep query policy start stop r = (res, r')"
  shows "effectivePricingDecisions r' = effectivePricingDecisions r" "effectivePricingEvaluations r' = effectivePricingEvaluations r"
  using assms by (auto simp: run_report_def split: prod.splits)

lemma maps_of_policy:
  assumes "UpdateEffectivePricingPolicy fl env actor prq r = (res, r')"
  shows "effectivePricingDecisions r' = effectivePricingDecisions r" "effectivePricingEvaluations r' = effectivePricingEvaluations r"
  using assms by (auto simp: UpdateEffectivePricingPolicy_def Let_def split: option.splits)

text \<open>The decision that a step writes: a new one, one acted on, or one with a window evaluated.\<close>

lemma evaluated_decision_new [simp]:
  "epd_ID (evaluated_decision fl env actor request report current candidate) = ''epd_'' @ env_decisionID env"
  "epd_UpdatedAt (evaluated_decision fl env actor request report current candidate) = env_now env"
  "epd_HealthyWindowCount (evaluated_decision fl env actor request report current candidate) = 0"
  "epd_Status (evaluated_decision fl env actor request report current candidate)
     \<in> {EffectivePricingDecisionRecommended, EffectivePricingDecisionHold}"
  by (simp_all add: evaluated_decision_def Let_def zero_EffectivePricingDecision_def)

lemma save_evaluated_maps:
  assumes "save_evaluated fl env actor request report r = (res, r')"
  shows "effectivePricingEvaluations r' = effectivePricingEvaluations r
     \<and> (effectivePricingDecisions r' = effectivePricingDecisions r
        \<or> (\<exists>current candidate. let d = evaluated_decision fl env actor request report current candidate in
             effectivePricingDecisions r' = mput (epd_ID d) d (effectivePricingDecisions r)))"
proof (cases "effectivePricingReportRow (rep_Rows report) (erq_CurrentProviderAccountID request) (erq_UpstreamModel request) (erq_Protocol request)")
  case None
  with assms show ?thesis by (simp add: save_evaluated_def)
next
  case current: (Some current)
  show ?thesis
  proof (cases "effectivePricingReportRow (rep_Rows report) (erq_CandidateProviderAccountID request) (erq_UpstreamModel request) (erq_Protocol request)")
    case None
    with assms current show ?thesis by (simp add: save_evaluated_def)
  next
    case (Some candidate)
    show ?thesis
    proof (cases "cost_evidence current candidate")
      case True
      let ?d = "evaluated_decision fl env actor request report current candidate"
      have "effectivePricingDecisions r' = mput (epd_ID ?d) ?d (effectivePricingDecisions r)"
        "effectivePricingEvaluations r' = effectivePricingEvaluations r"
        using assms current Some True by (auto simp: save_evaluated_def Let_def)
      then show ?thesis unfolding Let_def by blast
    next
      case False
      with assms current Some show ?thesis by (simp add: save_evaluated_def)
    qed
  qed
qed

lemma evaluate_candidate_maps:
  assumes "EvaluateEffectivePricingDecision fl rep env actor request r = (res, r')"
  shows "effectivePricingEvaluations r' = effectivePricingEvaluations r
     \<and> (effectivePricingDecisions r' = effectivePricingDecisions r
        \<or> (\<exists>d. effectivePricingDecisions r' = mput (''epd_'' @ env_decisionID env) d (effectivePricingDecisions r)
             \<and> epd_ID d = ''epd_'' @ env_decisionID env \<and> epd_UpdatedAt d = env_now env \<and> epd_HealthyWindowCount d = 0
             \<and> epd_Status d \<in> {EffectivePricingDecisionRecommended, EffectivePricingDecisionHold}))"
proof (cases "EffectivePricingReportOf fl rep env \<lparr>repq_Model = erq_UpstreamModel (trim_evaluation_request request),
    repq_Protocol = erq_Protocol (trim_evaluation_request request), repq_WindowHours = 0\<rparr> r")
  case (Pair rres r1)
  then have r1: "effectivePricingDecisions r1 = effectivePricingDecisions r" "effectivePricingEvaluations r1 = effectivePricingEvaluations r"
    by (auto simp: EffectivePricingReportOf_def Let_def dest: maps_of_report split: if_splits)
  show ?thesis
  proof (cases "r' = r \<or> r' = r1")
    case True
    with r1 show ?thesis by auto
  next
    case False
    with assms Pair obtain report where "save_evaluated fl env actor (trim_evaluation_request request) report r1 = (res, r')"
      by (auto simp: EvaluateEffectivePricingDecision_def Let_def split: if_splits sum.splits)
    from save_evaluated_maps [OF this] r1 show ?thesis unfolding Let_def by (metis evaluated_decision_new)
  qed
qed

lemma update_decision_maps:
  assumes "UpdateEffectivePricingDecision decision status at r = (updated, r')"
  shows "if updated then decision_unchanged (epd_ID decision) status at r \<and> r' = SaveEffectivePricingDecision decision r else r' = r"
  using assms by (auto simp: UpdateEffectivePricingDecision_def split: if_splits)

lemma act_on_read_maps:
  assumes "act_on_read env actor decision request r = (res, r')"
  shows "effectivePricingEvaluations r' = effectivePricingEvaluations r
     \<and> (effectivePricingDecisions r' = effectivePricingDecisions r
        \<or> (\<exists>acted. act_on env (TrimSpace (act_Action request)) (act_CanaryPercent request) decision = Inr acted
             \<and> decision_unchanged (epd_ID acted) (epd_Status decision) (epd_UpdatedAt decision) r
             \<and> effectivePricingDecisions r' = mput (epd_ID acted) (acted\<lparr>epd_UpdatedAt := env_now env\<rparr>) (effectivePricingDecisions r)))"
  using assms unfolding act_on_read_def Let_def
  by (auto simp: UpdateEffectivePricingDecision_def split: option.splits sum.splits if_splits)

lemma commit_maps:
  assumes "CommitEffectivePricingDecisionEvaluation commit r = (applied, r')"
  shows "if applied then
       decision_unchanged (epd_ID (epc_Decision commit)) (epc_ExpectedStatus commit) (epc_ExpectedUpdatedAt commit) r
       \<and> \<not> window_evaluated (epw_DecisionID (epc_Evaluation commit)) (epw_WindowEnd (epc_Evaluation commit)) r
       \<and> effectivePricingDecisions r' = mput (epd_ID (epc_Decision commit)) (epc_Decision commit) (effectivePricingDecisions r)
       \<and> effectivePricingEvaluations r'
           = mput (epw_ID (epc_Evaluation commit)) (epc_Evaluation commit) (effectivePricingEvaluations r)
     else r' = r"
  using assms unfolding CommitEffectivePricingDecisionEvaluation_def Let_def
  by (auto split: option.splits if_splits)

lemma window_commit_fields [simp]:
  "epc_ExpectedStatus (window_commit fl env actor policy decision windowEnd report) = epd_Status decision"
  "epc_ExpectedUpdatedAt (window_commit fl env actor policy decision windowEnd report) = epd_UpdatedAt decision"
  by (simp_all add: window_commit_def Let_def)

lemma note_window_fields [simp]:
  "epd_ID (note_window env windowEnd v current candidate d) = epd_ID d"
  "epd_Status (note_window env windowEnd v current candidate d) = epd_Status d"
  "epd_HealthyWindowCount (note_window env windowEnd v current candidate d) = epd_HealthyWindowCount d"
  "epd_DegradedWindowCount (note_window env windowEnd v current candidate d) = epd_DegradedWindowCount d"
  "epd_LastEvaluatedWindowEnd (note_window env windowEnd v current candidate d) = Some windowEnd"
  by (simp_all add: note_window_def Let_def split: prod.split option.split)

lemma note_snapshots_fields [simp]:
  "epd_ID (note_snapshots env current candidate d) = epd_ID d"
  "epd_Status (note_snapshots env current candidate d) = epd_Status d"
  "epd_HealthyWindowCount (note_snapshots env current candidate d) = epd_HealthyWindowCount d"
  "epd_LastEvaluatedWindowEnd (note_snapshots env current candidate d) = epd_LastEvaluatedWindowEnd d"
  "epd_UpdatedAt (note_snapshots env current candidate d) = env_now env"
  by (simp_all add: note_snapshots_def Let_def)

lemma apply_action_fields [simp]:
  "epd_ID (apply_action action d) = epd_ID d"
  "epd_HealthyWindowCount (apply_action action d) = epd_HealthyWindowCount d"
  "epd_LastEvaluatedWindowEnd (apply_action action d) = epd_LastEvaluatedWindowEnd d"
  by (simp_all add: apply_action_def)

lemma count_window_fields [simp]:
  "epd_ID (count_window policy verdict now d) = epd_ID d"
  "epd_Status (count_window policy verdict now d) = epd_Status d"
  "epd_LastEvaluatedWindowEnd (count_window policy verdict now d) = epd_LastEvaluatedWindowEnd d"
  by (simp_all add: count_window_def)

lemma evaluation_record_fields [simp]:
  "epw_ID (evaluation_record fl env d start windowEnd v current candidate) = ''epw_'' @ env_evaluationID env"
  "epw_DecisionID (evaluation_record fl env d start windowEnd v current candidate) = epd_ID d"
  "epw_WindowEnd (evaluation_record fl env d start windowEnd v current candidate) = windowEnd"
  "epw_Verdict (evaluation_record fl env d start windowEnd v current candidate) = fst v"
  by (simp_all add: evaluation_record_def Let_def split: prod.split)

lemma window_commit_evaluation [simp]:
  "epw_ID (epc_Evaluation (window_commit fl env actor policy d windowEnd report)) = ''epw_'' @ env_evaluationID env"
  "epw_DecisionID (epc_Evaluation (window_commit fl env actor policy d windowEnd report)) = epd_ID d"
  "epw_WindowEnd (epc_Evaluation (window_commit fl env actor policy d windowEnd report)) = windowEnd"
  by (simp_all add: window_commit_def Let_def)

lemma window_commit_decision [simp]:
  "epd_ID (epc_Decision (window_commit fl env actor policy d windowEnd report)) = epd_ID d"
  "epd_UpdatedAt (epc_Decision (window_commit fl env actor policy d windowEnd report)) = env_now env"
  "epd_LastEvaluatedWindowEnd (epc_Decision (window_commit fl env actor policy d windowEnd report)) = Some windowEnd"
  by (simp_all add: window_commit_def Let_def)

text \<open>The counter of healthy windows and the action go with the verdict.\<close>

lemma window_commit_count:
  assumes "c = window_commit fl env actor policy d windowEnd report"
  shows "epd_HealthyWindowCount (epc_Decision c)
     = (if epw_Verdict (epc_Evaluation c) = EffectivePricingEvaluationHealthy
        then min (epd_HealthyWindowCount d + 1) (max (pol_PromotionWindowCount policy) 1) else 0)"
  by (simp add: assms window_commit_def Let_def count_window_def)

lemma window_commit_activates:
  assumes "c = window_commit fl env actor policy d windowEnd report" "epw_AutomaticAction (epc_Evaluation c) = ''activate''"
  shows "epw_Verdict (epc_Evaluation c) = EffectivePricingEvaluationHealthy
     \<and> pol_PromotionWindowCount policy \<le> epd_HealthyWindowCount (epc_Decision c)"
  using assms(2) by (auto simp: assms(1) window_commit_def Let_def automatic_action_def split: if_splits)

lemma window_commit_status:
  "epd_Status (epc_Decision (window_commit fl env actor policy d windowEnd report))
     \<in> {epd_Status d, EffectivePricingDecisionActive, EffectivePricingDecisionRolledBack}"
  by (simp add: window_commit_def Let_def apply_action_def)

lemma evaluate_window_maps:
  assumes "evaluateEffectivePricingDecisionWindow fl rep env actor policy decision windowEnd r = (out, r')"
  shows "effectivePricingDecisions r' = effectivePricingDecisions r \<and> effectivePricingEvaluations r' = effectivePricingEvaluations r
       \<and> (\<forall>e. out \<noteq> Inr (Some e))
     \<or> (\<exists>report. let commit = window_commit fl env actor policy decision windowEnd report in
          window_due decision windowEnd \<and> out = Inr (Some (epc_Evaluation commit))
          \<and> decision_unchanged (epd_ID decision) (epd_Status decision) (epd_UpdatedAt decision) r
          \<and> \<not> window_evaluated (epd_ID decision) windowEnd r
          \<and> effectivePricingDecisions r' = mput (epd_ID decision) (epc_Decision commit) (effectivePricingDecisions r)
          \<and> effectivePricingEvaluations r' = mput (''epw_'' @ env_evaluationID env) (epc_Evaluation commit) (effectivePricingEvaluations r))"
proof (cases "window_due decision windowEnd")
  case False
  with assms show ?thesis by (auto simp: evaluateEffectivePricingDecisionWindow_def)
next
  case due: True
  obtain rres r1 where report: "run_report rep \<lparr>repq_Model = epd_UpstreamModel decision, repq_Protocol = epd_Protocol decision,
      repq_WindowHours = pol_WindowHours policy\<rparr> policy (window_start policy decision windowEnd) windowEnd r = (rres, r1)"
    by fastforce
  note r1 = maps_of_report [OF report]
  show ?thesis
  proof (cases rres)
    case (Inl err)
    with assms due report r1 show ?thesis by (auto simp: evaluateEffectivePricingDecisionWindow_def)
  next
    case (Inr rp)
    define c where "c = window_commit fl env actor policy decision windowEnd rp"
    obtain applied r2 where commit: "CommitEffectivePricingDecisionEvaluation c r1 = (applied, r2)" by fastforce
    have out: "out = Inr (if applied then Some (epc_Evaluation c) else None)" "r' = r2"
      using assms due report Inr commit by (auto simp: evaluateEffectivePricingDecisionWindow_def Let_def simp flip: c_def)
    from commit_maps [OF commit] r1 out due show ?thesis
      by (cases applied) (auto simp: c_def decision_unchanged_def window_evaluated_def Let_def intro!: exI [of _ rp])
  qed
qed

section \<open>Healthy windows in a row\<close>

text \<open>The windows after some instant were all healthy, and there are at least \<open>n\<close> of them.\<close>

definition healthy_run :: "'f EffectivePricingDecisionEvaluation set \<Rightarrow> int \<Rightarrow> bool" where
  "healthy_run E n \<longleftrightarrow> (\<exists>since. (\<forall>e \<in> E. epw_WindowEnd e > since \<longrightarrow> epw_Verdict e = EffectivePricingEvaluationHealthy)
     \<and> n \<le> int (card {e \<in> E. epw_WindowEnd e > since}))"

lemma healthy_run_mono: "healthy_run E m \<Longrightarrow> n \<le> m \<Longrightarrow> healthy_run E n"
  unfolding healthy_run_def by (meson order_trans)

lemma healthy_run_zero:
  assumes "finite E" shows "healthy_run E 0"
proof -
  have "\<forall>e \<in> E. epw_WindowEnd e \<le> Max (insert 0 (epw_WindowEnd ` E))" using assms by simp
  then show ?thesis unfolding healthy_run_def by (intro exI [of _ "Max (insert 0 (epw_WindowEnd ` E))"]) (auto simp: not_less)
qed

lemma healthy_run_extend:
  assumes E: "finite E" "healthy_run E n" and new: "\<forall>x \<in> E. epw_WindowEnd x < epw_WindowEnd e"
    and healthy: "epw_Verdict e = EffectivePricingEvaluationHealthy"
  shows "healthy_run (insert e E) (n + 1)"
proof (cases "n \<le> 0")
  case True
  have "{x \<in> insert e E. epw_WindowEnd x > epw_WindowEnd e - 1} = {e}" using new by force
  with True new healthy show ?thesis
    unfolding healthy_run_def by (intro exI [of _ "epw_WindowEnd e - 1"]) force
next
  case False
  from E(2) obtain since where since: "\<forall>x \<in> E. epw_WindowEnd x > since \<longrightarrow> epw_Verdict x = EffectivePricingEvaluationHealthy"
    "n \<le> int (card {x \<in> E. epw_WindowEnd x > since})" by (auto simp: healthy_run_def)
  have "{x \<in> E. epw_WindowEnd x > since} \<noteq> {}"
  proof
    assume "{x \<in> E. epw_WindowEnd x > since} = {}"
    with since(2) False show False by simp
  qed
  then have "since < epw_WindowEnd e" using new by force
  then have "{x \<in> insert e E. epw_WindowEnd x > since} = insert e {x \<in> E. epw_WindowEnd x > since}" by auto
  moreover have "e \<notin> {x \<in> E. epw_WindowEnd x > since}" using new by auto
  ultimately have "card {x \<in> insert e E. epw_WindowEnd x > since} = Suc (card {x \<in> E. epw_WindowEnd x > since})"
    using E(1) by simp
  with since healthy show ?thesis unfolding healthy_run_def by (intro exI [of _ since]) auto
qed

section \<open>The invariant\<close>

definition decision_trail :: "'f EffectivePricingDecision \<Rightarrow> 'f EffectivePricingDecisionEvaluation set \<Rightarrow> bool" where
  "decision_trail d E \<longleftrightarrow> healthy_run E (epd_HealthyWindowCount d)
     \<and> (E \<noteq> {} \<longrightarrow> epd_Status d \<noteq> EffectivePricingDecisionRecommended)
     \<and> (\<forall>e \<in> E. \<exists>w. epd_LastEvaluatedWindowEnd d = Some w \<and> epw_WindowEnd e \<le> w)"

definition evaluations_for :: "string \<Rightarrow> 'f pricing_run \<Rightarrow> 'f EffectivePricingDecisionEvaluation set" where
  "evaluations_for ident s = {e \<in> set (mvalues (evaluations_of s)). epw_DecisionID e = ident}"

lemma finite_evaluations_for [simp]: "finite (evaluations_for ident s)"
  by (simp add: evaluations_for_def)

text \<open>The same decision, but for the upstream model, which a read takes from the snapshot.\<close>

definition same_decision :: "'f EffectivePricingDecision \<Rightarrow> 'f EffectivePricingDecision \<Rightarrow> bool" where
  "same_decision c d \<longleftrightarrow> c\<lparr>epd_UpstreamModel := []\<rparr> = d\<lparr>epd_UpstreamModel := []\<rparr>"

definition windows_unique :: "'f pricing_run \<Rightarrow> bool" where
  "windows_unique s \<longleftrightarrow> inj_on (\<lambda>e. (epw_DecisionID e, epw_WindowEnd e)) (set (mvalues (evaluations_of s)))"

definition reads_fresh :: "'f pricing_run \<Rightarrow> bool" where
  "reads_fresh s \<longleftrightarrow> (\<forall>d \<in> run_reads s. epd_UpdatedAt d \<le> run_clock s
     \<and> (\<exists>c. map_of (decisions_of s) (epd_ID d) = Some c \<and> (epd_UpdatedAt c = epd_UpdatedAt d \<longrightarrow> same_decision c d)))"

definition pricing_ok :: "'f pricing_run \<Rightarrow> bool" where
  "pricing_ok s \<longleftrightarrow> keyed epd_ID (decisions_of s) \<and> keyed epw_ID (evaluations_of s) \<and> windows_unique s \<and> reads_fresh s
     \<and> (\<forall>e \<in> set (mvalues (evaluations_of s)). map_of (decisions_of s) (epw_DecisionID e) \<noteq> None)
     \<and> (\<forall>ident d. map_of (decisions_of s) ident = Some d \<longrightarrow>
           epd_UpdatedAt d \<le> run_clock s \<and> decision_trail d (evaluations_for ident s))"

lemma start_ok: "pricing_ok (pricing_start t)"
  by (simp add: pricing_ok_def pricing_start_def new_pricing_maps_def windows_unique_def reads_fresh_def mvalues_def)

lemma same_decision_fields:
  assumes "same_decision c d"
  shows "epd_ID c = epd_ID d" "epd_Status c = epd_Status d" "epd_UpdatedAt c = epd_UpdatedAt d"
    "epd_HealthyWindowCount c = epd_HealthyWindowCount d" "epd_LastEvaluatedWindowEnd c = epd_LastEvaluatedWindowEnd d"
proof -
  note eq = assms [unfolded same_decision_def]
  show "epd_ID c = epd_ID d" using arg_cong [OF eq, of epd_ID] by simp
  show "epd_Status c = epd_Status d" using arg_cong [OF eq, of epd_Status] by simp
  show "epd_UpdatedAt c = epd_UpdatedAt d" using arg_cong [OF eq, of epd_UpdatedAt] by simp
  show "epd_HealthyWindowCount c = epd_HealthyWindowCount d" using arg_cong [OF eq, of epd_HealthyWindowCount] by simp
  show "epd_LastEvaluatedWindowEnd c = epd_LastEvaluatedWindowEnd d" using arg_cong [OF eq, of epd_LastEvaluatedWindowEnd] by simp
qed

lemma keep_ok:
  assumes ok: "pricing_ok s" and same: "decisions_of s' = decisions_of s" "evaluations_of s' = evaluations_of s"
    and clock: "run_clock s \<le> run_clock s'" and reads: "run_reads s' = run_reads s"
  shows "pricing_ok s'"
  using ok clock unfolding pricing_ok_def windows_unique_def reads_fresh_def evaluations_for_def same reads
  by (meson order_trans)

lemma write_ok:
  assumes ok: "pricing_ok s" and d: "decisions_of s' = mput ident d (decisions_of s)" "epd_ID d = ident" "epd_UpdatedAt d = run_clock s'"
    and clock: "run_clock s < run_clock s'" and reads: "run_reads s' = run_reads s"
    and evals: "keyed epw_ID (evaluations_of s')" "windows_unique s'"
      "\<forall>e \<in> set (mvalues (evaluations_of s')). e \<in> set (mvalues (evaluations_of s)) \<or> epw_DecisionID e = ident"
      "set (mvalues (evaluations_of s)) \<subseteq> set (mvalues (evaluations_of s'))"
    and trail: "decision_trail d (evaluations_for ident s')"
  shows "pricing_ok s'"
  unfolding pricing_ok_def
proof (intro conjI allI impI ballI)
  note ok' = ok [unfolded pricing_ok_def]
  have lookup: "map_of (decisions_of s') = (map_of (decisions_of s))(ident \<mapsto> d)" by (simp add: d(1))
  show "keyed epd_ID (decisions_of s')" using ok' d by (auto intro: keyed_mput)
  show "keyed epw_ID (evaluations_of s')" "windows_unique s'" using evals by simp_all
  show "reads_fresh s'" unfolding reads_fresh_def reads
  proof (intro ballI conjI)
    fix x assume "x \<in> run_reads s"
    with ok' obtain c where c: "epd_UpdatedAt x \<le> run_clock s" "map_of (decisions_of s) (epd_ID x) = Some c"
      "epd_UpdatedAt c = epd_UpdatedAt x \<longrightarrow> same_decision c x" unfolding reads_fresh_def by blast
    show "epd_UpdatedAt x \<le> run_clock s'" using c(1) clock by simp
    show "\<exists>c. map_of (decisions_of s') (epd_ID x) = Some c \<and> (epd_UpdatedAt c = epd_UpdatedAt x \<longrightarrow> same_decision c x)"
      using c clock d(3) by (cases "epd_ID x = ident") (auto simp: lookup)
  qed
  show "map_of (decisions_of s') (epw_DecisionID e) \<noteq> None" if "e \<in> set (mvalues (evaluations_of s'))" for e
    using that evals(3) ok' by (auto simp: lookup)
  fix j x assume x: "map_of (decisions_of s') j = Some x"
  show "epd_UpdatedAt x \<le> run_clock s'" using x ok' clock d(3) by (cases "j = ident") (force simp: lookup)+
  show "decision_trail x (evaluations_for j s')"
  proof (cases "j = ident")
    case True
    with x trail show ?thesis by (simp add: lookup)
  next
    case False
    then have "evaluations_for j s' = evaluations_for j s" using evals(3,4) by (auto simp: evaluations_for_def)
    with False x ok' show ?thesis by (simp add: lookup)
  qed
qed

text \<open>What the write of a decision that was read finds: the decision as it was read.\<close>

lemma unchanged_since_read:
  assumes "pricing_ok s" "d \<in> run_reads s" "decision_unchanged (epd_ID d) (epd_Status d) (epd_UpdatedAt d) (run_maps s)"
  obtains c where "map_of (decisions_of s) (epd_ID d) = Some c" "same_decision c d"
  using assms by (auto simp: pricing_ok_def reads_fresh_def decision_unchanged_def split: option.splits)

lemma unchanged_trail:
  assumes "pricing_ok s" "d \<in> run_reads s" "decision_unchanged (epd_ID d) (epd_Status d) (epd_UpdatedAt d) (run_maps s)"
  shows "decision_trail d (evaluations_for (epd_ID d) s)"
proof -
  obtain c where c: "map_of (decisions_of s) (epd_ID d) = Some c" "same_decision c d" by (rule unchanged_since_read [OF assms])
  with assms(1) have "decision_trail c (evaluations_for (epd_ID d) s)" by (simp add: pricing_ok_def)
  then show ?thesis using same_decision_fields [OF c(2)] by (simp add: decision_trail_def)
qed

section \<open>The invariant holds in every reachable state\<close>

lemma act_on_trail:
  assumes "act_on env action percent d = Inr acted" "decision_trail d E"
  shows "decision_trail (acted\<lparr>epd_UpdatedAt := t\<rparr>) E \<and> epd_ID acted = epd_ID d"
  using assms healthy_run_zero [of "{}"]
  by (auto simp: act_on_def start_canary_def decision_trail_def split: if_splits)

lemma commit_trail:
  assumes c: "c = window_commit fl env actor policy d windowEnd report" and due: "window_due d windowEnd"
    and E: "finite E" "decision_trail d E" and status: "epd_Status d \<in> {EffectivePricingDecisionCanary, EffectivePricingDecisionActive}"
  shows "decision_trail (epc_Decision c) (insert (epc_Evaluation c) E)"
  unfolding decision_trail_def
proof (intro conjI impI ballI)
  have last_before: "\<forall>x \<in> E. epw_WindowEnd x < windowEnd"
    using E(2) due by (auto simp: decision_trail_def window_due_def split: option.splits)
  show "healthy_run (insert (epc_Evaluation c) E) (epd_HealthyWindowCount (epc_Decision c))"
  proof (cases "epw_Verdict (epc_Evaluation c) = EffectivePricingEvaluationHealthy")
    case True
    have "healthy_run (insert (epc_Evaluation c) E) (epd_HealthyWindowCount d + 1)"
      using E last_before True by (intro healthy_run_extend) (simp_all add: decision_trail_def c)
    then show ?thesis using window_commit_count [OF c] True by (auto intro: healthy_run_mono)
  next
    case False
    then show ?thesis using window_commit_count [OF c] E(1) by (simp add: healthy_run_zero)
  qed
  show "epd_Status (epc_Decision c) \<noteq> EffectivePricingDecisionRecommended"
    using window_commit_status [of fl env actor policy d windowEnd report] status by (auto simp: c)
  show "\<exists>w. epd_LastEvaluatedWindowEnd (epc_Decision c) = Some w \<and> epw_WindowEnd e \<le> w"
    if "e \<in> insert (epc_Evaluation c) E" for e
    using that last_before by (auto simp: c)
qed

lemma new_decision_trail:
  assumes "pricing_ok s" "map_of (decisions_of s) ident = None" "epd_HealthyWindowCount d = 0"
  shows "decision_trail d (evaluations_for ident s)"
proof -
  have "evaluations_for ident s = {}" using assms(1,2) by (auto simp: evaluations_for_def pricing_ok_def)
  with assms(3) show ?thesis by (simp add: decision_trail_def healthy_run_zero)
qed

lemma windows_unique_commit:
  assumes "windows_unique s" "\<not> window_evaluated (epw_DecisionID e) (epw_WindowEnd e) (run_maps s)"
    and "set (mvalues (evaluations_of s')) = insert e (set (mvalues (evaluations_of s)))"
  shows "windows_unique s'"
  using assms unfolding windows_unique_def window_evaluated_def list_ex_iff by (auto simp: inj_on_insert) 

lemma write_same_evaluations:
  assumes "pricing_ok s" "decisions_of s' = mput ident d (decisions_of s)" "epd_ID d = ident" "epd_UpdatedAt d = run_clock s'"
    "run_clock s < run_clock s'" "run_reads s' = run_reads s" "evaluations_of s' = evaluations_of s"
    "decision_trail d (evaluations_for ident s)"
  shows "pricing_ok s'"
  using assms by (intro write_ok [of s s' ident d]) (auto simp: pricing_ok_def windows_unique_def evaluations_for_def)

lemma window_ok:
  assumes ok: "pricing_ok s" and clock: "run_clock s < env_now env" and read: "decision \<in> run_reads s"
    and status: "epd_Status decision \<in> {EffectivePricingDecisionCanary, EffectivePricingDecisionActive}"
    and fresh: "map_of (evaluations_of s) (''epw_'' @ env_evaluationID env) = None"
    and step: "evaluateEffectivePricingDecisionWindow fl rep env actor policy decision windowEnd (run_maps s) = (out, r)"
  shows "pricing_ok (s\<lparr>run_maps := r, run_clock := env_now env\<rparr>)"
  using evaluate_window_maps [OF step] unfolding Let_def
proof (elim disjE exE conjE)
  assume "effectivePricingDecisions r = decisions_of s" "effectivePricingEvaluations r = evaluations_of s"
  then show ?thesis by (intro keep_ok [OF ok]) (use clock in simp_all)
next
  fix report
  define c where "c = window_commit fl env actor policy decision windowEnd report"
  assume due: "window_due decision windowEnd"
    and unchanged: "decision_unchanged (epd_ID decision) (epd_Status decision) (epd_UpdatedAt decision) (run_maps s)"
    and unseen: "\<not> window_evaluated (epd_ID decision) windowEnd (run_maps s)"
    and maps: "effectivePricingDecisions r = mput (epd_ID decision)
        (epc_Decision (window_commit fl env actor policy decision windowEnd report)) (decisions_of s)"
      "effectivePricingEvaluations r = mput (''epw_'' @ env_evaluationID env)
        (epc_Evaluation (window_commit fl env actor policy decision windowEnd report)) (evaluations_of s)"
  note maps = maps [folded c_def]
  let ?s = "s\<lparr>run_maps := r, run_clock := env_now env\<rparr>"
  have vals: "set (mvalues (evaluations_of ?s)) = insert (epc_Evaluation c) (set (mvalues (evaluations_of s)))"
    using fresh maps(2) by (simp add: mvalues_mput_fresh)
  have evals: "evaluations_for (epd_ID decision) ?s = insert (epc_Evaluation c) (evaluations_for (epd_ID decision) s)"
    using vals by (auto simp: evaluations_for_def c_def)
  have trail: "decision_trail (epc_Decision c) (evaluations_for (epd_ID decision) ?s)"
    unfolding evals by (rule commit_trail [OF c_def due _ unchanged_trail [OF ok read unchanged] status]) simp
  have "windows_unique ?s"
    using ok unseen by (intro windows_unique_commit [OF _ _ vals]) (simp_all add: pricing_ok_def c_def)
  moreover have "keyed epw_ID (evaluations_of ?s)" using ok maps(2) by (auto simp: pricing_ok_def c_def intro: keyed_mput)
  moreover have "decisions_of ?s = mput (epd_ID decision) (epc_Decision c) (decisions_of s)" using maps(1) by simp
  moreover have "\<forall>e \<in> set (mvalues (evaluations_of ?s)). e \<in> set (mvalues (evaluations_of s)) \<or> epw_DecisionID e = epd_ID decision"
    unfolding vals by (simp add: c_def)
  moreover have "set (mvalues (evaluations_of s)) \<subseteq> set (mvalues (evaluations_of ?s))" unfolding vals by blast
  ultimately show ?thesis
    using trail by (intro write_ok [OF ok, of ?s "epd_ID decision" "epc_Decision c"]) (simp_all add: c_def clock)
qed

lemma act_ok:
  assumes ok: "pricing_ok s" and clock: "run_clock s < env_now env" and read: "decision \<in> run_reads s"
    and step: "act_on_read env actor decision action (run_maps s) = (res, r)"
  shows "pricing_ok (s\<lparr>run_maps := r, run_clock := env_now env\<rparr>)"
  using act_on_read_maps [OF step]
proof (elim conjE disjE exE)
  assume "effectivePricingDecisions r = decisions_of s" "effectivePricingEvaluations r = evaluations_of s"
  then show ?thesis by (intro keep_ok [OF ok]) (use clock in simp_all)
next
  fix acted
  assume acted: "act_on env (TrimSpace (act_Action action)) (act_CanaryPercent action) decision = Inr acted"
    and unchanged: "decision_unchanged (epd_ID acted) (epd_Status decision) (epd_UpdatedAt decision) (run_maps s)"
    and maps: "effectivePricingDecisions r = mput (epd_ID acted) (acted\<lparr>epd_UpdatedAt := env_now env\<rparr>) (decisions_of s)"
      "effectivePricingEvaluations r = evaluations_of s"
  have same: "epd_ID acted = epd_ID decision" using acted by (auto simp: act_on_def start_canary_def split: if_splits)
  have "decision_trail (acted\<lparr>epd_UpdatedAt := env_now env\<rparr>) (evaluations_for (epd_ID decision) s)"
    using act_on_trail [OF acted unchanged_trail [OF ok read unchanged [unfolded same]]] by simp
  with ok clock maps same show ?thesis
    by (intro write_same_evaluations [OF ok, of _ "epd_ID decision" "acted\<lparr>epd_UpdatedAt := env_now env\<rparr>"]) simp_all
qed

lemma candidate_ok:
  assumes ok: "pricing_ok s" and clock: "run_clock s < env_now env"
    and fresh: "map_of (decisions_of s) (''epd_'' @ env_decisionID env) = None"
    and step: "EvaluateEffectivePricingDecision fl rep env actor request (run_maps s) = (res, r)"
  shows "pricing_ok (s\<lparr>run_maps := r, run_clock := env_now env\<rparr>)"
  using evaluate_candidate_maps [OF step]
proof (elim conjE disjE exE)
  assume "effectivePricingDecisions r = decisions_of s" "effectivePricingEvaluations r = evaluations_of s"
  then show ?thesis by (intro keep_ok [OF ok]) (use clock in simp_all)
next
  fix d
  assume "effectivePricingEvaluations r = evaluations_of s"
    "effectivePricingDecisions r = mput (''epd_'' @ env_decisionID env) d (decisions_of s)"
    "epd_ID d = ''epd_'' @ env_decisionID env" "epd_UpdatedAt d = env_now env" "epd_HealthyWindowCount d = 0"
  with ok clock fresh show ?thesis
    by (intro write_same_evaluations [OF ok, of _ "''epd_'' @ env_decisionID env" d]) (simp_all add: new_decision_trail)
qed

lemma step_ok:
  assumes "pricing_step fl s s'" "pricing_ok s"
  shows "pricing_ok s'"
  using assms
proof (cases rule: pricing_step.cases)
  case read_decisions
  have "\<exists>c. map_of (decisions_of s) (epd_ID d) = Some c \<and> epd_UpdatedAt d \<le> run_clock s \<and> same_decision c d"
    if "d \<in> set (ListEffectivePricingDecisions (run_maps s))" for d
  proof -
    from that obtain c m where c: "c \<in> set (mvalues (decisions_of s))" "d = with_snapshot_model m c"
      by (auto simp: ListEffectivePricingDecisions_def list_decisions_def Let_def)
    then have "map_of (decisions_of s) (epd_ID c) = Some c" using assms(2) by (simp add: pricing_ok_def keyed_value)
    moreover from this have "epd_UpdatedAt c \<le> run_clock s" using assms(2) unfolding pricing_ok_def by blast
    ultimately show ?thesis using c(2) by (auto simp: with_snapshot_model_def same_decision_def split: option.splits)
  qed
  then have "reads_fresh (s\<lparr>run_reads := run_reads s \<union> set (ListEffectivePricingDecisions (run_maps s))\<rparr>)"
    using assms(2) unfolding pricing_ok_def reads_fresh_def by fastforce
  with assms(2) read_decisions show ?thesis by (simp add: pricing_ok_def windows_unique_def evaluations_for_def)
next
  case (evaluate_candidate env rep actor request res r)
  then show ?thesis using candidate_ok [OF assms(2)] by simp
next
  case (evaluate_window env decision rep actor policy windowEnd out r)
  then show ?thesis using window_ok [OF assms(2)] by simp
next
  case (act_on_decision env decision actor action res r)
  then show ?thesis using act_ok [OF assms(2)] by simp
next
  case (update_policy env actor prq upd r)
  with maps_of_policy [OF update_policy(2)] show ?thesis by (intro keep_ok [OF assms(2)]) simp_all
next
  case (other_changes sources balances bindings)
  then show ?thesis by (intro keep_ok [OF assms(2)]) simp_all
qed

lemma reachable_ok:
  assumes "(pricing_step fl)\<^sup>*\<^sup>* (pricing_start t) s"
  shows "pricing_ok s"
  using assms by (induction rule: rtranclp_induct) (simp_all add: start_ok step_ok)


section \<open>A decision that was stopped stays stopped\<close>

definition stopped :: "'f EffectivePricingDecision \<Rightarrow> bool" where
  "stopped d \<longleftrightarrow> epd_Status d \<in> {EffectivePricingDecisionHold, EffectivePricingDecisionRolledBack}"

lemma unchanged_status:
  "decision_unchanged ident status at r \<Longrightarrow> \<exists>c. map_of (effectivePricingDecisions r) ident = Some c \<and> epd_Status c = status"
  by (auto simp: decision_unchanged_def split: option.splits)

lemma act_on_stopped:
  assumes "act_on env action percent d = Inr acted" "stopped d"
  shows "stopped acted"
  using assms by (auto simp: act_on_def stopped_def split: if_splits)

lemma stopped_step:
  assumes step: "pricing_step fl s s'" and d: "map_of (decisions_of s) ident = Some d" "stopped d"
  shows "\<exists>d'. map_of (decisions_of s') ident = Some d' \<and> stopped d'"
  using step
proof (cases rule: pricing_step.cases)
  case (evaluate_candidate env rep actor request res r)
  with evaluate_candidate_maps [OF evaluate_candidate(4)] d show ?thesis by (cases "ident = ''epd_'' @ env_decisionID env") auto
next
  case (evaluate_window env decision rep actor policy windowEnd out r)
  from evaluate_window_maps [OF evaluate_window(6)] show ?thesis unfolding Let_def
  proof (elim disjE exE conjE)
    fix report
    assume "decision_unchanged (epd_ID decision) (epd_Status decision) (epd_UpdatedAt decision) (run_maps s)"
      and maps: "effectivePricingDecisions r = mput (epd_ID decision)
        (epc_Decision (window_commit fl env actor policy decision windowEnd report)) (decisions_of s)"
    with unchanged_status d evaluate_window(4) have "ident \<noteq> epd_ID decision" by (fastforce simp: stopped_def)
    with maps d evaluate_window(1) show ?thesis by simp
  qed (use d evaluate_window(1) in simp)
next
  case (act_on_decision env decision actor action res r)
  from act_on_read_maps [OF act_on_decision(4)] show ?thesis
  proof (elim conjE disjE exE)
    fix acted
    assume acted: "act_on env (TrimSpace (act_Action action)) (act_CanaryPercent action) decision = Inr acted"
      and unchanged: "decision_unchanged (epd_ID acted) (epd_Status decision) (epd_UpdatedAt decision) (run_maps s)"
      and maps: "effectivePricingDecisions r = mput (epd_ID acted) (acted\<lparr>epd_UpdatedAt := env_now env\<rparr>) (decisions_of s)"
    show ?thesis
    proof (cases "ident = epd_ID acted")
      case True
      with unchanged_status [OF unchanged] d have "stopped decision" by (auto simp: stopped_def)
      with act_on_stopped [OF acted] maps True act_on_decision(1) show ?thesis by (auto simp: stopped_def)
    qed (use maps d act_on_decision(1) in simp)
  qed (use d act_on_decision(1) in simp)
next
  case (update_policy env actor prq upd r)
  with maps_of_policy [OF update_policy(2)] d show ?thesis by simp
qed (use d in simp_all)

section \<open>Properties\<close>

text \<open>
  C14. However the monitor's instances and the operators interleave, no completed window of a decision is evaluated twice.
\<close>

theorem windows_evaluated_once:
  assumes "(pricing_step fl)\<^sup>*\<^sup>* (pricing_start t) s"
    and "map_of (evaluations_of s) k = Some a" "map_of (evaluations_of s) l = Some b"
    and "epw_DecisionID a = epw_DecisionID b" "epw_WindowEnd a = epw_WindowEnd b"
  shows "k = l"
proof -
  note ok = reachable_ok [OF assms(1), unfolded pricing_ok_def windows_unique_def]
  have "a = b" using ok assms(2-5) by (auto dest!: map_of_Some_mvalues inj_onD)
  with ok assms(2,3) show ?thesis by (metis keyed_lookup)
qed

text \<open>
  C15. The monitor activates a canary by itself only when at least as many windows in a row as the policy asks for were healthy:
  the last windows evaluated of that decision, all of them different, with none between that was not.
\<close>

theorem promotion_needs_healthy_windows:
  assumes "(pricing_step fl)\<^sup>*\<^sup>* (pricing_start t) s"
    and "run_clock s < env_now env" "decision \<in> run_reads s"
    and "epd_Status decision \<in> {EffectivePricingDecisionCanary, EffectivePricingDecisionActive}"
    and "map_of (evaluations_of s) (''epw_'' @ env_evaluationID env) = None"
    and "evaluateEffectivePricingDecisionWindow fl rep env actor policy decision windowEnd (run_maps s) = (Inr (Some e), r)"
    and "epw_AutomaticAction e = ''activate''"
  shows "\<exists>since. let S = {x \<in> set (mvalues (effectivePricingEvaluations r)). epw_DecisionID x = epd_ID decision \<and> epw_WindowEnd x > since}
     in (\<forall>x \<in> S. epw_Verdict x = EffectivePricingEvaluationHealthy) \<and> inj_on epw_WindowEnd S
        \<and> pol_PromotionWindowCount policy \<le> int (card S)"
proof -
  let ?s = "s\<lparr>run_maps := r, run_clock := env_now env\<rparr>"
  have ok: "pricing_ok ?s" by (rule window_ok [OF reachable_ok [OF assms(1)] assms(2-6)])
  from evaluate_window_maps [OF assms(6)] obtain report where
    d: "map_of (decisions_of ?s) (epd_ID decision) = Some (epc_Decision (window_commit fl env actor policy decision windowEnd report))"
    and e: "e = epc_Evaluation (window_commit fl env actor policy decision windowEnd report)" by (auto simp: Let_def)
  have "pol_PromotionWindowCount policy \<le> epd_HealthyWindowCount (epc_Decision (window_commit fl env actor policy decision windowEnd report))"
    using window_commit_activates [OF refl] assms(7) unfolding e by blast
  moreover have "decision_trail (epc_Decision (window_commit fl env actor policy decision windowEnd report)) (evaluations_for (epd_ID decision) ?s)"
    using ok d unfolding pricing_ok_def by blast
  ultimately have "healthy_run (evaluations_for (epd_ID decision) ?s) (pol_PromotionWindowCount policy)"
    unfolding decision_trail_def by (blast intro: healthy_run_mono)
  moreover have "inj_on epw_WindowEnd {x \<in> evaluations_for (epd_ID decision) ?s. epw_WindowEnd x > since}" for since
    using ok unfolding pricing_ok_def windows_unique_def by (auto simp: inj_on_def evaluations_for_def)
  ultimately show ?thesis
    unfolding healthy_run_def by (auto simp: evaluations_for_def Let_def)
qed

text \<open>
  C18. A decision that was held or rolled back, by an operator or by the monitor, never takes traffic again: no later step of anyone
  gives it another status, whatever they read before.
\<close>

theorem stopped_decision_stays_stopped:
  assumes "(pricing_step fl)\<^sup>*\<^sup>* s s'" "map_of (decisions_of s) ident = Some d"
    and "epd_Status d \<in> {EffectivePricingDecisionHold, EffectivePricingDecisionRolledBack}"
  shows "\<exists>d'. map_of (decisions_of s') ident = Some d'
     \<and> epd_Status d' \<in> {EffectivePricingDecisionHold, EffectivePricingDecisionRolledBack}"
proof -
  have "\<exists>d'. map_of (decisions_of s') ident = Some d' \<and> stopped d'"
    using assms(1)
  proof (induction rule: rtranclp_induct)
    case base
    then show ?case using assms(2,3) by (simp add: stopped_def)
  next
    case (step y z)
    then show ?case using stopped_step by blast
  qed
  then show ?thesis by (simp add: stopped_def)
qed

section \<open>An example\<close>

text \<open>A cheaper account, found in the report of every window, becomes a canary and is activated after one healthy window.\<close>

definition ex_row :: "string \<Rightarrow> int \<Rightarrow> int EffectivePricingReportRow" where
  "ex_row account cost = (zero_row 0)\<lparr>row_ProviderAccountID := account, row_UpstreamModel := ''m'', row_Protocol := ''p'',
     row_CostAvailable := True, row_EffectiveCostMicrosPer1M := cost, row_P95LatencyMS := 10,
     row_CostConfidence := ProcurementCostConfidenceExact\<rparr>"

definition ex_rep :: "int window_report" where
  "ex_rep query policy start stop r = (Inr \<lparr>rep_WindowStart = start, rep_WindowEnd = stop, rep_Policy = policy,
     rep_Rows = [ex_row ''a'' 100, ex_row ''b'' 50], rep_Decisions = []\<rparr>, [])"

definition ex_env :: "int \<Rightarrow> pricing_env" where
  "ex_env t = \<lparr>env_policyNow = t, env_reportNow = t, env_healthNow = t, env_canaryNow = t, env_now = t, env_auditNow = t,
     env_decisionID = ''1'', env_evaluationID = ''2'', env_currentID = ''3'', env_candidateID = ''4'', env_auditID = ''5''\<rparr>"

definition ex_policy :: "int EffectivePricingPolicy" where
  "ex_policy = (defaultEffectivePricingPolicy ex_fl 0)\<lparr>pol_Mode := EffectivePricingModeCanary, pol_AutomaticActionsEnabled := True,
     pol_PromotionWindowCount := 1\<rparr>"

definition ex_read :: "int pricing_run \<Rightarrow> int pricing_run" where
  "ex_read s = s\<lparr>run_reads := run_reads s \<union> set (ListEffectivePricingDecisions (run_maps s))\<rparr>"

definition ex_write :: "int \<Rightarrow> int pricing_maps \<Rightarrow> int pricing_run \<Rightarrow> int pricing_run" where
  "ex_write t r s = s\<lparr>run_maps := r, run_clock := t\<rparr>"

definition ex_1 :: "int pricing_run" where
  "ex_1 = (let s = pricing_start 0 in ex_read (ex_write 1 (snd (EvaluateEffectivePricingDecision ex_fl ex_rep (ex_env 1) ''op''
     \<lparr>erq_Model = ''m'', erq_UpstreamModel = ''m'', erq_Protocol = ''p'', erq_CurrentProviderAccountID = ''a'',
      erq_CandidateProviderAccountID = ''b''\<rparr> (run_maps s))) s))"

definition ex_decision :: "int pricing_run \<Rightarrow> int EffectivePricingDecision" where
  "ex_decision s = hd (ListEffectivePricingDecisions (run_maps s))"

definition ex_2 :: "int pricing_run" where
  "ex_2 = ex_read (ex_write 2 (snd (act_on_read (ex_env 2) ''op'' (ex_decision ex_1)
     \<lparr>act_Action = ''approve_canary'', act_CanaryPercent = 10\<rparr> (run_maps ex_1))) ex_1)"

definition ex_window :: "(go_error + int EffectivePricingDecisionEvaluation option) \<times> int pricing_maps" where
  "ex_window = evaluateEffectivePricingDecisionWindow ex_fl ex_rep (ex_env 9) ''monitor'' ex_policy (ex_decision ex_2) 5 (run_maps ex_2)"

definition ex_3 :: "int pricing_run" where
  "ex_3 = ex_write 9 (snd ex_window) ex_2"

lemma ex_read_step: "pricing_step fl s (ex_read s)"
  unfolding ex_read_def by (rule pricing_step.read_decisions)

lemma ex_reads: "s = ex_read s0 \<Longrightarrow> ListEffectivePricingDecisions (run_maps s) \<noteq> [] \<Longrightarrow> ex_decision s \<in> run_reads s"
  by (simp add: ex_decision_def ex_read_def)

lemma ex_values:
  "map_of (decisions_of (pricing_start 0 :: int pricing_run)) (''epd_'' @ env_decisionID (ex_env 1)) = None"
  "ListEffectivePricingDecisions (run_maps ex_1) \<noteq> []" "ListEffectivePricingDecisions (run_maps ex_2) \<noteq> []"
  "epd_Status (ex_decision ex_2) = EffectivePricingDecisionCanary"
  "map_of (evaluations_of ex_2) (''epw_'' @ env_evaluationID (ex_env 9)) = None"
  "run_clock ex_1 = 1" "run_clock ex_2 = 2"
  by code_simp+

lemma ex_write_env: "ex_write t r s = s\<lparr>run_maps := r, run_clock := env_now (ex_env t)\<rparr>"
  by (simp add: ex_write_def ex_env_def)

lemma ex_clock: "run_clock s < t \<Longrightarrow> run_clock s < env_now (ex_env t)"
  by (simp add: ex_env_def)

lemma ex_reach_1: "(pricing_step ex_fl)\<^sup>*\<^sup>* (pricing_start 0) ex_1"
proof -
  let ?q = "\<lparr>erq_Model = ''m'', erq_UpstreamModel = ''m'', erq_Protocol = ''p'', erq_CurrentProviderAccountID = ''a'',
      erq_CandidateProviderAccountID = ''b''\<rparr>"
  let ?r = "snd (EvaluateEffectivePricingDecision ex_fl ex_rep (ex_env 1) ''op'' ?q (run_maps (pricing_start 0)))"
  have "pricing_step ex_fl (pricing_start 0) (ex_write 1 ?r (pricing_start 0))" unfolding ex_write_env
    by (rule pricing_step.evaluate_candidate [OF _ ex_values(1) prod.collapse [symmetric]]) (simp add: pricing_start_def ex_env_def)
  then show ?thesis unfolding ex_1_def Let_def using ex_read_step by (meson converse_rtranclp_into_rtranclp r_into_rtranclp)
qed

lemma ex_reach_2: "(pricing_step ex_fl)\<^sup>*\<^sup>* (pricing_start 0) ex_2"
proof -
  have "ex_decision ex_1 \<in> run_reads ex_1"
    by (rule ex_reads [OF ex_1_def [unfolded Let_def] ex_values(2)])
  then have "pricing_step ex_fl ex_1 (ex_write 2 (snd (act_on_read (ex_env 2) ''op'' (ex_decision ex_1)
      \<lparr>act_Action = ''approve_canary'', act_CanaryPercent = 10\<rparr> (run_maps ex_1))) ex_1)" unfolding ex_write_env
    by (intro pricing_step.act_on_decision [OF _ _ prod.collapse [symmetric]]) (simp_all add: ex_values ex_env_def)
  with ex_reach_1 show ?thesis unfolding ex_2_def using ex_read_step by (meson rtranclp.rtrancl_into_rtrancl)
qed

lemma ex_read_2: "ex_decision ex_2 \<in> run_reads ex_2"
  by (rule ex_reads [OF ex_2_def ex_values(3)])

lemma ex_reach_3: "(pricing_step ex_fl)\<^sup>*\<^sup>* (pricing_start 0) ex_3"
proof -
  have "pricing_step ex_fl ex_2 ex_3" unfolding ex_3_def ex_write_env ex_window_def
    by (rule pricing_step.evaluate_window [OF _ ex_read_2 _ ex_values(5) prod.collapse [symmetric]]) (simp_all add: ex_values ex_env_def)
  with ex_reach_2 show ?thesis by (rule rtranclp.rtrancl_into_rtrancl)
qed

definition ex_evaluation :: "int EffectivePricingDecisionEvaluation" where
  "ex_evaluation = (case fst ex_window of Inr (Some e) \<Rightarrow> e | _ \<Rightarrow> zero_EffectivePricingDecisionEvaluation 0)"

lemma ex_activated:
  "(case fst ex_window of Inr (Some e) \<Rightarrow> True | _ \<Rightarrow> False) \<and> epw_AutomaticAction ex_evaluation = ''activate''"
  "map_of (evaluations_of ex_3) ''epw_2'' = Some ex_evaluation"
  by code_simp+

theorem windows_evaluated_once_witness:
  "{l. \<exists>b. map_of (evaluations_of ex_3) l = Some b \<and> epw_DecisionID b = epw_DecisionID ex_evaluation
       \<and> epw_WindowEnd b = epw_WindowEnd ex_evaluation} = {''epw_2''}"
  (is "?S = _")
proof -
  have "l = ''epw_2''" if l: "l \<in> ?S" for l
  proof -
    from l obtain b where b: "map_of (evaluations_of ex_3) l = Some b" "epw_DecisionID b = epw_DecisionID ex_evaluation"
      "epw_WindowEnd b = epw_WindowEnd ex_evaluation" by blast
    show ?thesis by (rule windows_evaluated_once [OF ex_reach_3 b(1) ex_activated(2) b(2,3)])
  qed
  moreover have "''epw_2'' \<in> ?S" using ex_activated(2) by blast
  ultimately show ?thesis by blast
qed

theorem promotion_needs_healthy_windows_witness:
  "\<exists>since. let S = {x \<in> set (mvalues (effectivePricingEvaluations (snd ex_window))).
        epw_DecisionID x = epd_ID (ex_decision ex_2) \<and> epw_WindowEnd x > since}
     in (\<forall>x \<in> S. epw_Verdict x = EffectivePricingEvaluationHealthy) \<and> inj_on epw_WindowEnd S \<and> 1 \<le> int (card S)"
proof -
  have "fst ex_window = Inr (Some ex_evaluation)"
    using ex_activated(1) by (auto simp: ex_evaluation_def split: sum.splits option.splits)
  then have "evaluateEffectivePricingDecisionWindow ex_fl ex_rep (ex_env 9) ''monitor'' ex_policy (ex_decision ex_2) 5 (run_maps ex_2)
      = (Inr (Some ex_evaluation), snd ex_window)" by (metis ex_window_def prod.collapse)
  from promotion_needs_healthy_windows [OF ex_reach_2 _ ex_read_2 _ ex_values(5) this] ex_activated(1)
  show ?thesis by (simp add: ex_values ex_env_def ex_policy_def)
qed

theorem stopped_decision_stays_stopped_witness:
  "\<exists>d'. map_of (decisions_of (ex_read (ex_2\<lparr>run_maps := SaveEffectivePricingDecision
       ((ex_decision ex_2)\<lparr>epd_Status := EffectivePricingDecisionHold\<rparr>) (run_maps ex_2)\<rparr>))) (epd_ID (ex_decision ex_2)) = Some d'
     \<and> epd_Status d' \<in> {EffectivePricingDecisionHold, EffectivePricingDecisionRolledBack}"
  by (rule stopped_decision_stays_stopped [OF r_into_rtranclp [of "pricing_step ex_fl", OF ex_read_step],
      where d = "(ex_decision ex_2)\<lparr>epd_Status := EffectivePricingDecisionHold\<rparr>"]) simp_all

end
