(* ===== verification/Pricing_Report.thy ===== *)
theory Pricing_Report
  imports Pricing_Switch AI_Job_Repo
begin

text \<open>
  The report of effective prices for a window (\<open>effective_pricing_service.go\<close>, \<open>effective_pricing_usage.go\<close>,
  \<open>effective_pricing_repository.go\<close>): usage is summed per account, model and protocol, priced by the procurement price in force,
  compared with what the provider billed, and recommended by the policy. The sums wrap as \<open>int64\<close> does.
\<close>

section \<open>Prices, billing lines and usage\<close>

record 'f ProcurementPrice =
  pp_ID :: string
  pp_ProviderID :: string
  pp_ProviderAccountID :: string
  pp_UpstreamModel :: string
  pp_Protocol :: string
  pp_Currency :: string
  pp_UncachedInputMicrosPer1MTokens :: int
  pp_CacheReadMicrosPer1MTokens :: int
  pp_CacheWrite5mMicrosPer1MTokens :: int
  pp_CacheWrite1hMicrosPer1MTokens :: int
  pp_OutputMicrosPer1MTokens :: int
  pp_RequestMicros :: int
  pp_ReferenceInputMicrosPer1MTokens :: int
  pp_ReferenceOutputMicrosPer1MTokens :: int
  pp_QuotedMultiplier :: 'f
  pp_RechargeMultiplier :: 'f
  pp_SourceKind :: string
  pp_SourceReference :: string
  pp_EvidenceHash :: string
  pp_Confidence :: string
  pp_Status :: string
  pp_EffectiveFrom :: gotime
  pp_ExpiresAt :: "gotime option"
  pp_CreatedAt :: gotime
  pp_UpdatedAt :: gotime

definition zero_ProcurementPrice :: "'f \<Rightarrow> 'f ProcurementPrice" where
  "zero_ProcurementPrice z =
     \<lparr>pp_ID = [], pp_ProviderID = [], pp_ProviderAccountID = [], pp_UpstreamModel = [], pp_Protocol = [], pp_Currency = [],
      pp_UncachedInputMicrosPer1MTokens = 0, pp_CacheReadMicrosPer1MTokens = 0, pp_CacheWrite5mMicrosPer1MTokens = 0,
      pp_CacheWrite1hMicrosPer1MTokens = 0, pp_OutputMicrosPer1MTokens = 0, pp_RequestMicros = 0,
      pp_ReferenceInputMicrosPer1MTokens = 0, pp_ReferenceOutputMicrosPer1MTokens = 0, pp_QuotedMultiplier = z,
      pp_RechargeMultiplier = z, pp_SourceKind = [], pp_SourceReference = [], pp_EvidenceHash = [], pp_Confidence = [],
      pp_Status = [], pp_EffectiveFrom = 0, pp_ExpiresAt = None, pp_CreatedAt = 0, pp_UpdatedAt = 0\<rparr>"

definition ProcurementPriceStatusActive :: string where
  "ProcurementPriceStatusActive = ''active''"
definition ProcurementPriceStatusDisabled :: string where
  "ProcurementPriceStatusDisabled = ''disabled''"
definition BillingReconciliationPending :: string where
  "BillingReconciliationPending = ''pending''"
definition BillingReconciliationMatched :: string where
  "BillingReconciliationMatched = ''matched''"
definition BillingReconciliationAmbiguous :: string where
  "BillingReconciliationAmbiguous = ''ambiguous''"
definition BillingReconciliationUnallocated :: string where
  "BillingReconciliationUnallocated = ''unallocated''"

record ProviderBillingLine =
  line_ID :: string
  line_ProviderID :: string
  line_ProviderAccountID :: string
  line_ExternalLineID :: string
  line_ExternalRequestID :: string
  line_UsageRecordID :: string
  line_UpstreamModel :: string
  line_Currency :: string
  line_AmountMicros :: int
  line_InputCostMicros :: "int option"
  line_OutputCostMicros :: "int option"
  line_CacheReadCostMicros :: "int option"
  line_CacheWriteCostMicros :: "int option"
  line_SourceKind :: string
  line_Confidence :: string
  line_ReconciliationStatus :: string
  line_RawPayloadHash :: string
  line_UsageStartedAt :: "gotime option"
  line_UsageEndedAt :: "gotime option"
  line_CreatedAt :: gotime
  line_UpdatedAt :: gotime

record EffectivePricingUsageAggregate =
  agg_ProviderID :: string
  agg_ProviderAccountID :: string
  agg_UpstreamModel :: string
  agg_Protocol :: string
  agg_RequestCount :: int
  agg_SuccessfulRequestCount :: int
  agg_ErrorCount :: int
  agg_CacheMetricsRequestCount :: int
  agg_CacheHitRequestCount :: int
  agg_TotalInputTokens :: int
  agg_UncachedInputTokens :: int
  agg_CacheReadTokens :: int
  agg_CacheWrite5mTokens :: int
  agg_CacheWrite1hTokens :: int
  agg_OutputTokens :: int
  agg_ProcurementCostMicros :: int
  agg_ProcurementCostRecordCount :: int
  agg_LatencyTotalMS :: int
  agg_P95LatencyMS :: int
  agg_LastCacheObservedAt :: "gotime option"

record 'f ProviderCacheProductionMetrics =
  pm_ID :: string
  pm_ProviderAccountID :: string
  pm_UpstreamModel :: string
  pm_Protocol :: string
  pm_MetricsCoverage :: 'f
  pm_EligibleRequestHitRate :: 'f
  pm_CacheTokenHitRate :: 'f
  pm_CacheWriteReadRatio :: 'f
  pm_BillingConsistencyRate :: 'f
  pm_ProductionSampleCount :: int
  pm_MetricsObserved :: bool
  pm_CacheActivityObserved :: bool
  pm_ObservedAt :: gotime

text \<open>
  What a report reads besides the maps of effective pricing. The names are those of the providers and accounts by identifier.
\<close>

record 'f report_sources =
  src_usageRecords :: "(string, UsageRecord) gmap"
  src_providerNames :: "(string, string) gmap"
  src_accountNames :: "(string, string) gmap"
  src_procurementPrices :: "(string, 'f ProcurementPrice) gmap"
  src_providerBillingLines :: "(string, ProviderBillingLine) gmap"

section \<open>Reads of the repository\<close>

definition ListProcurementPrices :: "'f report_sources \<Rightarrow> 'f ProcurementPrice list" where
  "ListProcurementPrices src = sort_slice
     (\<lambda>a b. if pp_ProviderAccountID a = pp_ProviderAccountID b
            then (if pp_UpstreamModel a = pp_UpstreamModel b then pp_EffectiveFrom a > pp_EffectiveFrom b
                  else pp_UpstreamModel a < pp_UpstreamModel b)
            else pp_ProviderAccountID a < pp_ProviderAccountID b) (mvalues (src_procurementPrices src))"

definition SaveProcurementPrice :: "'f ProcurementPrice \<Rightarrow> 'f report_sources \<Rightarrow> 'f report_sources" where
  "SaveProcurementPrice price src = src\<lparr>src_procurementPrices := mput (pp_ID price) price (src_procurementPrices src)\<rparr>"

definition ListProviderBillingLines :: "'f report_sources \<Rightarrow> ProviderBillingLine list" where
  "ListProviderBillingLines src = sort_slice (\<lambda>a b. line_CreatedAt a > line_CreatedAt b) (mvalues (src_providerBillingLines src))"

definition SaveProviderBillingLine :: "ProviderBillingLine \<Rightarrow> 'f report_sources \<Rightarrow> 'f report_sources" where
  "SaveProviderBillingLine line src = src\<lparr>src_providerBillingLines := mput (line_ID line) line (src_providerBillingLines src)\<rparr>"

definition SaveProviderBillingLineAndReconcileUsage ::
  "ProviderBillingLine \<Rightarrow> UsageRecord \<Rightarrow> 'f report_sources \<Rightarrow> go_error option \<times> 'f report_sources" where
  "SaveProviderBillingLineAndReconcileUsage line usage src =
     (if \<not> mhas (src_usageRecords src) (usage_ID usage) then (Some (errors_New ''usage record not found''), src)
      else (None, src\<lparr>src_providerBillingLines := mput (line_ID line) line (src_providerBillingLines src),
                      src_usageRecords := mput (usage_ID usage) usage (src_usageRecords src)\<rparr>))"

definition ListProviderCacheCapabilities :: "'f pricing_maps \<Rightarrow> 'f ProviderCacheCapability list" where
  "ListProviderCacheCapabilities r = sort_slice
     (\<lambda>a b. if cap_ProviderAccountID a = cap_ProviderAccountID b then cap_UpstreamModel a < cap_UpstreamModel b
            else cap_ProviderAccountID a < cap_ProviderAccountID b) (mvalues (providerCacheCapabilities r))"

definition SaveProviderCacheCapability :: "'f ProviderCacheCapability \<Rightarrow> 'f pricing_maps \<Rightarrow> 'f pricing_maps" where
  "SaveProviderCacheCapability capability r =
     r\<lparr>providerCacheCapabilities := mput (cap_ID capability) capability (providerCacheCapabilities r)\<rparr>"

section \<open>The usage of a window\<close>

definition valueOr :: "int option \<Rightarrow> int \<Rightarrow> int" where
  "valueOr v fallback = (case v of None \<Rightarrow> fallback | Some n \<Rightarrow> n)"

text \<open>\<open>sorted[index]\<close> out of range panics.\<close>

definition nearestRankPercentile :: "'f float_ops \<Rightarrow> int list \<Rightarrow> 'f \<Rightarrow> go_error + int" where
  "nearestRankPercentile fl latencies percentile =
     (if latencies = [] \<or> f_leq fl percentile (f_of_int fl 0) \<or> f_less fl (f_of_int fl 1) percentile then Inr 0
      else let sorted_list = sort_slice (<) latencies;
               index = f_ceil fl (f_mul fl percentile (f_of_int fl (int (length sorted_list)))) - 1;
               index = (if index < 0 then 0 else index)
           in if nat index < length sorted_list then Inr (sorted_list ! nat index) else Inl (Panic ''index out of range''))"

definition new_aggregate :: "UsageRecord \<Rightarrow> EffectivePricingUsageAggregate" where
  "new_aggregate u =
     \<lparr>agg_ProviderID = usage_ProviderID u, agg_ProviderAccountID = usage_ProviderAccountID u, agg_UpstreamModel = usage_UpstreamModel u,
      agg_Protocol = usage_Protocol u, agg_RequestCount = 0, agg_SuccessfulRequestCount = 0, agg_ErrorCount = 0,
      agg_CacheMetricsRequestCount = 0, agg_CacheHitRequestCount = 0, agg_TotalInputTokens = 0, agg_UncachedInputTokens = 0,
      agg_CacheReadTokens = 0, agg_CacheWrite5mTokens = 0, agg_CacheWrite1hTokens = 0, agg_OutputTokens = 0,
      agg_ProcurementCostMicros = 0, agg_ProcurementCostRecordCount = 0, agg_LatencyTotalMS = 0, agg_P95LatencyMS = 0,
      agg_LastCacheObservedAt = None\<rparr>"

definition usage_failed :: "UsageRecord \<Rightarrow> bool" where
  "usage_failed u \<longleftrightarrow> usage_ErrorType u \<noteq> [] \<or> usage_Status u = ''error'' \<or> usage_Status u = ''upstream_error''"

definition add_usage :: "UsageRecord \<Rightarrow> EffectivePricingUsageAggregate \<Rightarrow> EffectivePricingUsageAggregate" where
  "add_usage u a =
     (let a = a\<lparr>agg_RequestCount := agg_RequestCount a + 1\<rparr>;
          a = (if usage_failed u then a\<lparr>agg_ErrorCount := agg_ErrorCount a + 1\<rparr>
               else a\<lparr>agg_SuccessfulRequestCount := agg_SuccessfulRequestCount a + 1\<rparr>);
          a = (if \<not> usage_failed u \<and> usage_CacheFieldsPresent u then a
                 \<lparr>agg_CacheMetricsRequestCount := agg_CacheMetricsRequestCount a + 1,
                  agg_CacheHitRequestCount := agg_CacheHitRequestCount a + (if valueOr (usage_CacheReadTokens u) 0 > 0 then 1 else 0),
                  agg_LastCacheObservedAt := (case agg_LastCacheObservedAt a of
                      None \<Rightarrow> Some (usage_CreatedAt u)
                    | Some at \<Rightarrow> if usage_CreatedAt u > at then Some (usage_CreatedAt u) else Some at)\<rparr>
               else a);
          a = a\<lparr>agg_TotalInputTokens := wrap64 (agg_TotalInputTokens a + valueOr (usage_TotalInputTokens u) (usage_InputTokens u)),
            agg_UncachedInputTokens := wrap64 (agg_UncachedInputTokens a + valueOr (usage_UncachedInputTokens u) 0),
            agg_CacheReadTokens := wrap64 (agg_CacheReadTokens a + valueOr (usage_CacheReadTokens u) 0),
            agg_CacheWrite5mTokens := wrap64 (agg_CacheWrite5mTokens a + valueOr (usage_CacheWrite5mTokens u) 0),
            agg_CacheWrite1hTokens := wrap64 (agg_CacheWrite1hTokens a + valueOr (usage_CacheWrite1hTokens u) 0),
            agg_OutputTokens := wrap64 (agg_OutputTokens a + usage_OutputTokens u),
            agg_LatencyTotalMS := wrap64 (agg_LatencyTotalMS a + usage_LatencyMS u)\<rparr>
      in case usage_ProcurementCostMicros u of
           None \<Rightarrow> a
         | Some cost \<Rightarrow> a\<lparr>agg_ProcurementCostMicros := wrap64 (agg_ProcurementCostMicros a + cost),
                          agg_ProcurementCostRecordCount := agg_ProcurementCostRecordCount a + 1\<rparr>)"

definition effectivePricingKey :: "string \<Rightarrow> string \<Rightarrow> string \<Rightarrow> string" where
  "effectivePricingKey accountID model protocol = accountID @ NUL @ model @ NUL @ protocol"

definition usage_key :: "UsageRecord \<Rightarrow> string" where
  "usage_key u = usage_ProviderAccountID u @ NUL @ usage_UpstreamModel u @ NUL @ usage_Protocol u"

definition usage_in_window :: "gotime \<Rightarrow> gotime \<Rightarrow> UsageRecord \<Rightarrow> bool" where
  "usage_in_window start stop u \<longleftrightarrow>
     \<not> ((start \<noteq> 0 \<and> usage_CreatedAt u < start) \<or> (stop \<noteq> 0 \<and> usage_CreatedAt u > stop) \<or> usage_ProviderAccountID u = [])"

definition summarize_one ::
  "UsageRecord \<Rightarrow> (string, EffectivePricingUsageAggregate \<times> int list) gmap \<Rightarrow> (string, EffectivePricingUsageAggregate \<times> int list) gmap" where
  "summarize_one u byKey =
     (case (case map_of byKey (usage_key u) of None \<Rightarrow> (new_aggregate u, []) | Some entry \<Rightarrow> entry) of (aggregate, latencies) \<Rightarrow>
        mput (usage_key u)
          (add_usage u aggregate, if \<not> usage_failed u \<and> usage_LatencyMS u > 0 then latencies @ [usage_LatencyMS u] else latencies) byKey)"

fun with_percentiles ::
  "'f float_ops \<Rightarrow> (EffectivePricingUsageAggregate \<times> int list) list \<Rightarrow> go_error + EffectivePricingUsageAggregate list" where
  "with_percentiles fl [] = Inr []"
| "with_percentiles fl ((aggregate, latencies) # entries) =
     and_then (nearestRankPercentile fl latencies (f_decimal fl 95 2)) (\<lambda>p95.
     and_then (with_percentiles fl entries) (\<lambda>rest. Inr (aggregate\<lparr>agg_P95LatencyMS := p95\<rparr> # rest)))"

definition SummarizeEffectivePricingUsage ::
  "'f float_ops \<Rightarrow> 'f report_sources \<Rightarrow> gotime \<Rightarrow> gotime \<Rightarrow> go_error + EffectivePricingUsageAggregate list" where
  "SummarizeEffectivePricingUsage fl src start stop =
     and_then (with_percentiles fl (mvalues (foldl (\<lambda>byKey u. summarize_one u byKey) []
       (filter (usage_in_window start stop) (mvalues (src_usageRecords src))))))
     (\<lambda>out. Inr (sort_slice (\<lambda>a b. if agg_ProviderAccountID a = agg_ProviderAccountID b then agg_UpstreamModel a < agg_UpstreamModel b
                             else agg_ProviderAccountID a < agg_ProviderAccountID b) out))"

section \<open>The price in force\<close>

definition price_applies :: "string \<Rightarrow> string \<Rightarrow> string \<Rightarrow> string \<Rightarrow> gotime \<Rightarrow> 'f ProcurementPrice \<Rightarrow> bool" where
  "price_applies providerID accountID model protocol at price \<longleftrightarrow>
     \<not> (pp_Status price \<noteq> ProcurementPriceStatusActive \<or> pp_ProviderAccountID price \<noteq> TrimSpace accountID
        \<or> pp_UpstreamModel price \<noteq> TrimSpace model \<or> pp_Protocol price \<noteq> TrimSpace protocol)
     \<and> \<not> (TrimSpace providerID \<noteq> [] \<and> pp_ProviderID price \<noteq> TrimSpace providerID)
     \<and> \<not> (pp_EffectiveFrom price > at \<or> (case pp_ExpiresAt price of None \<Rightarrow> False | Some expires \<Rightarrow> \<not> expires > at))"

fun select_price :: "('f ProcurementPrice \<Rightarrow> bool) \<Rightarrow> 'f ProcurementPrice option \<Rightarrow> 'f ProcurementPrice list \<Rightarrow> 'f ProcurementPrice option" where
  "select_price applies selected [] = selected"
| "select_price applies selected (price # prices) =
     (if \<not> applies price then select_price applies selected prices
      else case selected of
             None \<Rightarrow> select_price applies (Some price) prices
           | Some chosen \<Rightarrow>
               select_price applies (if pp_EffectiveFrom price > pp_EffectiveFrom chosen then Some price else selected) prices)"

definition activeProcurementPrice ::
  "'f ProcurementPrice list \<Rightarrow> string \<Rightarrow> string \<Rightarrow> string \<Rightarrow> string \<Rightarrow> gotime \<Rightarrow> 'f ProcurementPrice option" where
  "activeProcurementPrice prices providerID accountID model protocol at =
     select_price (price_applies providerID accountID model protocol at) None prices"

section \<open>Costs\<close>

definition tokenCostMicros :: "int \<Rightarrow> int \<Rightarrow> int option" where
  "tokenCostMicros tokens microsPerMillion =
     (if tokens < 0 \<or> microsPerMillion < 0 then None
      else if tokens = 0 \<or> microsPerMillion = 0 then Some 0
      else if tokens > quot64 MaxInt64 microsPerMillion then None
      else let product = wrap64 (tokens * microsPerMillion)
           in if product > MaxInt64 - 500000 then None else Some (quot64 (wrap64 (product + 500000)) 1000000))"

definition normalizedRechargeMultiplier :: "'f float_ops \<Rightarrow> 'f \<Rightarrow> 'f" where
  "normalizedRechargeMultiplier fl multiplier = (if f_leq fl multiplier (f_of_int fl 0) then f_of_int fl 1 else multiplier)"

definition applyRechargeMultiplier :: "'f float_ops \<Rightarrow> int \<Rightarrow> 'f \<Rightarrow> int option" where
  "applyRechargeMultiplier fl costMicros multiplier =
     (if costMicros < 0 then None
      else let adjusted = f_mul fl (f_of_int fl costMicros) (normalizedRechargeMultiplier fl multiplier)
           in if f_is_nan fl adjusted \<or> f_is_inf fl adjusted \<or> f_less fl (f_of_int fl MaxInt64) adjusted then None
              else Some (f_round fl adjusted))"

definition scaledTokenCost :: "'f float_ops \<Rightarrow> int \<Rightarrow> int \<Rightarrow> int" where
  "scaledTokenCost fl tokens rate =
     (if tokens \<le> 0 \<or> rate \<le> 0 then 0
      else f_round fl (f_div fl (f_mul fl (f_of_int fl tokens) (f_of_int fl rate)) (f_of_int fl 1000000)))"

definition scaledSignedPerMillion :: "'f float_ops \<Rightarrow> int \<Rightarrow> int \<Rightarrow> int" where
  "scaledSignedPerMillion fl costMicros tokens =
     (if tokens \<le> 0 then 0
      else f_round fl (f_div fl (f_mul fl (f_of_int fl costMicros) (f_of_int fl 1000000)) (f_of_int fl tokens)))"

definition scaledPerMillion :: "'f float_ops \<Rightarrow> int \<Rightarrow> int \<Rightarrow> int" where
  "scaledPerMillion fl costMicros tokens =
     (if costMicros \<le> 0 \<or> tokens \<le> 0 then 0
      else f_round fl (f_div fl (f_mul fl (f_of_int fl costMicros) (f_of_int fl 1000000)) (f_of_int fl tokens)))"

definition safeRatio :: "'f float_ops \<Rightarrow> int \<Rightarrow> int \<Rightarrow> 'f" where
  "safeRatio fl numerator denominator =
     (if denominator \<le> 0 then f_of_int fl 0 else f_div fl (f_of_int fl numerator) (f_of_int fl denominator))"

text \<open>The components of a cost: tokens and their rate.\<close>

definition aggregate_components :: "EffectivePricingUsageAggregate \<Rightarrow> 'f ProcurementPrice \<Rightarrow> (int \<times> int) list" where
  "aggregate_components a price =
     [(agg_UncachedInputTokens a, pp_UncachedInputMicrosPer1MTokens price), (agg_CacheReadTokens a, pp_CacheReadMicrosPer1MTokens price),
      (agg_CacheWrite5mTokens a, pp_CacheWrite5mMicrosPer1MTokens price), (agg_CacheWrite1hTokens a, pp_CacheWrite1hMicrosPer1MTokens price),
      (agg_OutputTokens a, pp_OutputMicrosPer1MTokens price)]"

definition effectiveAggregateCost ::
  "'f float_ops \<Rightarrow> EffectivePricingUsageAggregate \<Rightarrow> 'f ProcurementPrice \<Rightarrow> bool \<Rightarrow> int \<times> string" where
  "effectiveAggregateCost fl a price hasPrice =
     (if agg_ProcurementCostRecordCount a = agg_RequestCount a \<and> agg_RequestCount a > 0
      then (agg_ProcurementCostMicros a,
            if pp_Confidence price = [] then ProcurementCostConfidenceDerived else pp_Confidence price)
      else if \<not> hasPrice then (agg_ProcurementCostMicros a, ProcurementCostConfidenceUnknown)
      else let cost = foldl (\<lambda>cost (tokens, rate). wrap64 (cost + scaledTokenCost fl tokens rate))
                 (wrap64 (pp_RequestMicros price * agg_RequestCount a)) (aggregate_components a price)
           in case applyRechargeMultiplier fl cost (pp_RechargeMultiplier price) of
                None \<Rightarrow> (0, ProcurementCostConfidenceUnknown)
              | Some adjusted \<Rightarrow>
                  (adjusted, if pp_Confidence price = [] then ProcurementCostConfidenceEstimated else pp_Confidence price))"

definition aggregateReferenceCost :: "'f float_ops \<Rightarrow> EffectivePricingUsageAggregate \<Rightarrow> 'f ProcurementPrice \<Rightarrow> bool \<Rightarrow> int" where
  "aggregateReferenceCost fl a price hasPrice =
     (if \<not> hasPrice then 0
      else wrap64 (scaledTokenCost fl (agg_TotalInputTokens a) (pp_ReferenceInputMicrosPer1MTokens price)
        + scaledTokenCost fl (agg_OutputTokens a) (pp_ReferenceOutputMicrosPer1MTokens price)))"

definition aggregateCacheEconomics ::
  "'f float_ops \<Rightarrow> EffectivePricingUsageAggregate \<Rightarrow> 'f ProcurementPrice \<Rightarrow> bool \<Rightarrow> int \<times> int \<times> 'f \<times> bool" where
  "aggregateCacheEconomics fl a price hasPrice =
     (let zero = f_of_int fl 0;
          tokenCount = wrap64 (agg_TotalInputTokens a + agg_OutputTokens a);
          uncachedRate = pp_UncachedInputMicrosPer1MTokens price
      in if \<not> hasPrice \<or> tokenCount \<le> 0 \<or> agg_TotalInputTokens a \<le> 0 \<or> uncachedRate \<le> 0 then (0, 0, zero, False)
         else case applyRechargeMultiplier fl (scaledTokenCost fl (agg_TotalInputTokens a) uncachedRate) (pp_RechargeMultiplier price) of
           None \<Rightarrow> (0, 0, zero, False)
         | Some uncachedInputCost \<Rightarrow>
         (case applyRechargeMultiplier fl (wrap64 (wrap64 (wrap64 (pp_RequestMicros price * agg_RequestCount a)
             + scaledTokenCost fl (agg_TotalInputTokens a) uncachedRate)
             + scaledTokenCost fl (agg_OutputTokens a) (pp_OutputMicrosPer1MTokens price))) (pp_RechargeMultiplier price) of
           None \<Rightarrow> (0, 0, zero, False)
         | Some uncachedRequestCost \<Rightarrow>
             let uncachedCostPer1M = scaledPerMillion fl uncachedRequestCost tokenCount;
                 componentTokens = wrap64 (wrap64 (wrap64 (agg_UncachedInputTokens a + agg_CacheReadTokens a) + agg_CacheWrite5mTokens a)
                   + agg_CacheWrite1hTokens a)
             in if agg_CacheMetricsRequestCount a \<le> 0 \<or> componentTokens \<noteq> agg_TotalInputTokens a then (uncachedCostPer1M, 0, zero, False)
                else case applyRechargeMultiplier fl
                    (foldl (\<lambda>cost (tokens, rate). wrap64 (cost + scaledTokenCost fl tokens rate)) 0 (take 4 (aggregate_components a price)))
                    (pp_RechargeMultiplier price) of
                  None \<Rightarrow> (uncachedCostPer1M, 0, zero, False)
                | Some modeledInputCost \<Rightarrow>
                    let savings = wrap64 (uncachedInputCost - modeledInputCost)
                    in (uncachedCostPer1M, scaledSignedPerMillion fl savings tokenCount,
                        f_div fl (f_of_int fl savings) (f_of_int fl uncachedInputCost), True)))"

definition line_matches :: "EffectivePricingUsageAggregate \<Rightarrow> gotime \<Rightarrow> gotime \<Rightarrow> ProviderBillingLine \<Rightarrow> bool" where
  "line_matches a start stop line \<longleftrightarrow>
     \<not> (line_ProviderAccountID line \<noteq> agg_ProviderAccountID a
        \<or> (line_UpstreamModel line \<noteq> [] \<and> line_UpstreamModel line \<noteq> agg_UpstreamModel a)
        \<or> line_ReconciliationStatus line \<noteq> BillingReconciliationMatched)
     \<and> (let observedAt = (case line_UsageStartedAt line of None \<Rightarrow> line_CreatedAt line | Some at \<Rightarrow> at)
        in \<not> (observedAt < start \<or> observedAt > stop))"

definition matchingBillingCost ::
  "ProviderBillingLine list \<Rightarrow> EffectivePricingUsageAggregate \<Rightarrow> gotime \<Rightarrow> gotime \<Rightarrow> int \<times> int" where
  "matchingBillingCost lines a start stop =
     (let matching = filter (line_matches a start stop) lines
      in (foldl (\<lambda>amount line. wrap64 (amount + line_AmountMicros line)) 0 matching, int (length matching)))"

section \<open>Cache metrics of production traffic\<close>

definition zero_ProviderCacheCapability :: "'f \<Rightarrow> 'f ProviderCacheCapability" where
  "zero_ProviderCacheCapability z =
     \<lparr>cap_ID = [], cap_ProviderAccountID = [], cap_UpstreamModel = [], cap_Protocol = [], cap_SupportStatus = [],
      cap_PoolAffinityGrade = [], cap_AffinityTransport = [], cap_AffinityField = [], cap_CacheControlMode = [], cap_UsageSchema = [],
      cap_MetricsCoverage = z, cap_EligibleRequestHitRate = z, cap_CacheTokenHitRate = z, cap_CacheWriteReadRatio = z,
      cap_AffinityConsistencyRate = z, cap_BillingConsistencyRate = z, cap_ProductionSampleCount = 0, cap_ProbeSampleCount = 0,
      cap_DegradedReason = [], cap_LastObservedAt = None, cap_LastVerifiedAt = None, cap_CreatedAt = 0, cap_UpdatedAt = 0\<rparr>"

definition applyProviderCacheProductionMetrics ::
  "'f float_ops \<Rightarrow> 'f ProviderCacheCapability \<Rightarrow> 'f ProviderCacheProductionMetrics \<Rightarrow> 'f ProviderCacheCapability" where
  "applyProviderCacheProductionMetrics fl capability0 metrics =
     (let capability = (if cap_ID capability0 = [] then (zero_ProviderCacheCapability (f_of_int fl 0))
            \<lparr>cap_ID := pm_ID metrics, cap_ProviderAccountID := pm_ProviderAccountID metrics, cap_UpstreamModel := pm_UpstreamModel metrics,
             cap_Protocol := pm_Protocol metrics, cap_SupportStatus := CacheSupportUnknown, cap_PoolAffinityGrade := PoolAffinityUnknown,
             cap_AffinityTransport := AffinityTransportNone, cap_CacheControlMode := ''passthrough_if_present'',
             cap_UsageSchema := ''auto'', cap_CreatedAt := pm_ObservedAt metrics\<rparr> else capability0);
          capability = capability
            \<lparr>cap_MetricsCoverage := pm_MetricsCoverage metrics, cap_EligibleRequestHitRate := pm_EligibleRequestHitRate metrics,
             cap_CacheTokenHitRate := pm_CacheTokenHitRate metrics, cap_CacheWriteReadRatio := pm_CacheWriteReadRatio metrics,
             cap_BillingConsistencyRate := pm_BillingConsistencyRate metrics,
             cap_ProductionSampleCount := pm_ProductionSampleCount metrics, cap_UpdatedAt := pm_ObservedAt metrics\<rparr>
      in if pm_MetricsObserved metrics
         then let capability = capability\<lparr>cap_LastObservedAt := Some (pm_ObservedAt metrics)\<rparr>
              in if pm_CacheActivityObserved metrics
                   \<and> oneOf (cap_SupportStatus capability) [CacheSupportUnknown, CacheSupportClaimed, CacheSupportAccepted]
                 then capability\<lparr>cap_SupportStatus := CacheSupportObserved\<rparr>
                 else if \<not> pm_CacheActivityObserved metrics \<and> oneOf (cap_SupportStatus capability) [CacheSupportUnknown, CacheSupportClaimed]
                 then capability\<lparr>cap_SupportStatus := CacheSupportAccepted\<rparr>
                 else capability
         else capability)"

type_synonym 'f capability_map = "(string, 'f ProviderCacheCapability) gmap"

definition UpsertProviderCacheProductionMetrics ::
  "'f float_ops \<Rightarrow> 'f ProviderCacheProductionMetrics \<Rightarrow> 'f capability_map \<Rightarrow> 'f capability_map" where
  "UpsertProviderCacheProductionMetrics fl metrics capabilities =
     (let current = (case map_of capabilities (pm_ID metrics) of None \<Rightarrow> zero_ProviderCacheCapability (f_of_int fl 0) | Some c \<Rightarrow> c)
      in mput (pm_ID metrics) (applyProviderCacheProductionMetrics fl current metrics) capabilities)"

section \<open>Recommendations\<close>

definition effectivePricingRecommendation ::
  "'f float_ops \<Rightarrow> 'f EffectivePricingReportRow \<Rightarrow> 'f EffectivePricingPolicy \<Rightarrow> string \<times> string list" where
  "effectivePricingRecommendation fl row policy =
     (let health_reasons = (case row_ProviderBillingRoutingHealth row of
            None \<Rightarrow> [] | Some health \<Rightarrow> if \<not> bh_EconomicSwitchEligible health then bh_ReasonCodes health else []);
          blocked = (case row_ProviderBillingRoutingHealth row of
            None \<Rightarrow> False | Some health \<Rightarrow> \<not> bh_EconomicSwitchEligible health \<and> bh_HardBlocked health)
      in if blocked then (''reduce_weight'', cleanStringList health_reasons)
         else
           let reasons = health_reasons
                 @ (if row_RequestCount row < pol_MinSampleCount policy then [''insufficient_sample''] else [])
                 @ (if f_less fl (row_MetricsCoverage row) (pol_MinMetricsCoverage policy) then [''cache_metrics_coverage_low''] else [])
                 @ (if \<not> oneOf (row_CostConfidence row)
                       [ProcurementCostConfidenceExact, ProcurementCostConfidenceDerived, ProcurementCostConfidenceEstimated]
                    then [''cost_confidence_low''] else [])
           in if row_CacheSupportStatus row = CacheSupportDegraded \<or> row_PoolAffinityGrade row = PoolAffinityFragmented
              then (''reduce_weight'', reasons @ [''cache_or_pool_degraded''])
              else if reasons \<noteq> [] then (''observe'', cleanStringList reasons)
              else (''eligible'', []))"

section \<open>Rows\<close>

definition report_confidence :: "string \<Rightarrow> int \<Rightarrow> EffectivePricingUsageAggregate \<Rightarrow> string" where
  "report_confidence confidence billingMatches a =
     (if billingMatches = agg_RequestCount a \<and> agg_RequestCount a > 0 then ProcurementCostConfidenceExact
      else if billingMatches > 0 then ProcurementCostConfidenceDerived else confidence)"

definition capability_id :: "EffectivePricingUsageAggregate \<Rightarrow> string" where
  "capability_id a = ''cachecap_'' @ prefix_str (hashAPIKey
     (effectivePricingKey (agg_ProviderAccountID a) (agg_UpstreamModel a) (agg_Protocol a))) 24"

definition production_metrics ::
  "'f float_ops \<Rightarrow> EffectivePricingUsageAggregate \<Rightarrow> 'f ProviderCacheCapability \<Rightarrow> int \<Rightarrow> gotime \<Rightarrow> 'f ProviderCacheProductionMetrics" where
  "production_metrics fl a capability billingMatches windowEnd =
     \<lparr>pm_ID = capability_id a, pm_ProviderAccountID = agg_ProviderAccountID a, pm_UpstreamModel = agg_UpstreamModel a,
      pm_Protocol = agg_Protocol a, pm_MetricsCoverage = safeRatio fl (agg_CacheMetricsRequestCount a) (agg_SuccessfulRequestCount a),
      pm_EligibleRequestHitRate = safeRatio fl (agg_CacheHitRequestCount a) (agg_CacheMetricsRequestCount a),
      pm_CacheTokenHitRate = safeRatio fl (agg_CacheReadTokens a) (agg_TotalInputTokens a),
      pm_CacheWriteReadRatio = safeRatio fl (wrap64 (agg_CacheWrite5mTokens a + agg_CacheWrite1hTokens a)) (agg_CacheReadTokens a),
      pm_BillingConsistencyRate = (if f_less fl (f_of_int fl 0) (cap_BillingConsistencyRate capability)
        then cap_BillingConsistencyRate capability else safeRatio fl billingMatches (agg_RequestCount a)),
      pm_ProductionSampleCount = agg_RequestCount a, pm_MetricsObserved = (agg_CacheMetricsRequestCount a > 0),
      pm_CacheActivityObserved =
        (wrap64 (wrap64 (agg_CacheReadTokens a + agg_CacheWrite5mTokens a) + agg_CacheWrite1hTokens a) > 0),
      pm_ObservedAt = (case agg_LastCacheObservedAt a of None \<Rightarrow> windowEnd | Some at \<Rightarrow> at)\<rparr>"

definition report_row ::
  "'f float_ops \<Rightarrow> 'f report_sources \<Rightarrow> EffectivePricingUsageAggregate \<Rightarrow> 'f ProcurementPrice option \<Rightarrow> int \<times> int
     \<Rightarrow> 'f ProviderCacheProductionMetrics \<Rightarrow> 'f ProviderCacheCapability \<Rightarrow> ProviderBillingRoutingHealth option
     \<Rightarrow> 'f EffectivePricingReportRow" where
  "report_row fl src a price_found billing metrics capability health =
     (let zero = f_of_int fl 0;
          hasPrice = (price_found \<noteq> None);
          price = (case price_found of None \<Rightarrow> zero_ProcurementPrice zero | Some p \<Rightarrow> p);
          (costMicros, confidence) = effectiveAggregateCost fl a price hasPrice;
          (uncachedCost, savings, savingsRate, economics) = aggregateCacheEconomics fl a price hasPrice;
          referenceCost = aggregateReferenceCost fl a price hasPrice
      in \<lparr>row_ProviderID = agg_ProviderID a,
          row_ProviderName = (case map_of (src_providerNames src) (agg_ProviderID a) of None \<Rightarrow> [] | Some n \<Rightarrow> n),
          row_ProviderAccountID = agg_ProviderAccountID a,
          row_ProviderAccountName = (case map_of (src_accountNames src) (agg_ProviderAccountID a) of None \<Rightarrow> [] | Some n \<Rightarrow> n),
          row_UpstreamModel = agg_UpstreamModel a, row_Protocol = agg_Protocol a,
          row_Currency = (if pp_Currency price = [] then ''USD'' else pp_Currency price),
          row_CostAvailable = (hasPrice \<or> agg_RequestCount a > 0 \<and> agg_ProcurementCostRecordCount a = agg_RequestCount a),
          row_UncachedInputMicrosPer1MTokens = pp_UncachedInputMicrosPer1MTokens price,
          row_CacheReadMicrosPer1MTokens = pp_CacheReadMicrosPer1MTokens price,
          row_CacheWrite5mMicrosPer1MTokens = pp_CacheWrite5mMicrosPer1MTokens price,
          row_CacheWrite1hMicrosPer1MTokens = pp_CacheWrite1hMicrosPer1MTokens price,
          row_OutputMicrosPer1MTokens = pp_OutputMicrosPer1MTokens price, row_RequestMicros = pp_RequestMicros price,
          row_ReferenceInputMicrosPer1MTokens = pp_ReferenceInputMicrosPer1MTokens price,
          row_ReferenceOutputMicrosPer1MTokens = pp_ReferenceOutputMicrosPer1MTokens price,
          row_RechargeMultiplier = normalizedRechargeMultiplier fl (pp_RechargeMultiplier price),
          row_QuotedMultiplier = pp_QuotedMultiplier price, row_BilledMultiplier = safeRatio fl (fst billing) referenceCost,
          row_EffectiveMultiplier = safeRatio fl costMicros referenceCost,
          row_EffectiveCostMicrosPer1M = scaledPerMillion fl costMicros (wrap64 (agg_TotalInputTokens a + agg_OutputTokens a)),
          row_UncachedCostMicrosPer1M = uncachedCost, row_CacheSavingsMicrosPer1M = savings, row_CacheSavingsRate = savingsRate,
          row_CacheEconomicsAvailable = economics, row_RequestCount = agg_RequestCount a,
          row_ErrorRate = safeRatio fl (agg_ErrorCount a) (agg_RequestCount a), row_P95LatencyMS = agg_P95LatencyMS a,
          row_MetricsCoverage = pm_MetricsCoverage metrics, row_EligibleRequestHitRate = pm_EligibleRequestHitRate metrics,
          row_CacheTokenHitRate = pm_CacheTokenHitRate metrics, row_CacheWriteReadRatio = pm_CacheWriteReadRatio metrics,
          row_BillingConsistencyRate = pm_BillingConsistencyRate metrics,
          row_AffinityConsistencyRate = cap_AffinityConsistencyRate capability,
          row_CacheSupportStatus = (if cap_SupportStatus capability = [] then CacheSupportUnknown else cap_SupportStatus capability),
          row_PoolAffinityGrade = (if cap_PoolAffinityGrade capability = [] then PoolAffinityUnknown else cap_PoolAffinityGrade capability),
          row_CostConfidence = report_confidence confidence (snd billing) a, row_PriceID = pp_ID price,
          row_ProviderBillingRoutingHealth = health, row_Recommendation = [], row_ReasonCodes = []\<rparr>)"

definition with_recommendation ::
  "'f float_ops \<Rightarrow> 'f EffectivePricingPolicy \<Rightarrow> 'f EffectivePricingReportRow \<Rightarrow> 'f EffectivePricingReportRow" where
  "with_recommendation fl policy row =
     (case effectivePricingRecommendation fl row policy of (recommendation, reasons) \<Rightarrow>
        row\<lparr>row_Recommendation := recommendation, row_ReasonCodes := reasons\<rparr>)"

definition aggregate_wanted :: "EffectivePricingReportQuery \<Rightarrow> EffectivePricingUsageAggregate \<Rightarrow> bool" where
  "aggregate_wanted query a \<longleftrightarrow>
     \<not> (TrimSpace (repq_Model query) \<noteq> [] \<and> agg_UpstreamModel a \<noteq> TrimSpace (repq_Model query))
     \<and> \<not> (TrimSpace (repq_Protocol query) \<noteq> [] \<and> agg_Protocol a \<noteq> TrimSpace (repq_Protocol query))"

text \<open>One row for each aggregate; the metrics go to the capability map, the capabilities read are those before the report.\<close>

fun report_rows ::
  "'f float_ops \<Rightarrow> 'f report_sources \<Rightarrow> 'f EffectivePricingPolicy \<Rightarrow> (string, ProviderBillingRoutingHealth) gmap
     \<Rightarrow> 'f capability_map \<Rightarrow> gotime \<Rightarrow> gotime \<Rightarrow> EffectivePricingUsageAggregate list \<Rightarrow> 'f capability_map
     \<Rightarrow> 'f EffectivePricingReportRow list \<times> 'f capability_map" where
  "report_rows fl src policy health capabilityByKey start stop [] capabilities = ([], capabilities)"
| "report_rows fl src policy health capabilityByKey start stop (a # aggregates) capabilities =
     (let price = activeProcurementPrice (ListProcurementPrices src) (agg_ProviderID a) (agg_ProviderAccountID a) (agg_UpstreamModel a)
                    (agg_Protocol a) stop;
          billing = matchingBillingCost (ListProviderBillingLines src) a start stop;
          capability = (case map_of capabilityByKey (effectivePricingKey (agg_ProviderAccountID a) (agg_UpstreamModel a) (agg_Protocol a)) of
             None \<Rightarrow> zero_ProviderCacheCapability (f_of_int fl 0) | Some c \<Rightarrow> c);
          metrics = production_metrics fl a capability (snd billing) stop;
          capability = applyProviderCacheProductionMetrics fl capability metrics;
          row = with_recommendation fl policy
            (report_row fl src a price billing metrics capability (map_of health (agg_ProviderAccountID a)))
      in case report_rows fl src policy health capabilityByKey start stop aggregates
                (UpsertProviderCacheProductionMetrics fl metrics capabilities) of
           (rows, capabilities) \<Rightarrow> (row # rows, capabilities))"

section \<open>The report\<close>

definition cheaper_row :: "'f EffectivePricingReportRow \<Rightarrow> 'f EffectivePricingReportRow \<Rightarrow> bool" where
  "cheaper_row x y =
     (if \<not> row_CostAvailable x then False
      else if \<not> row_CostAvailable y then True
      else row_EffectiveCostMicrosPer1M x < row_EffectiveCostMicrosPer1M y)"

fun label_rows :: "nat \<Rightarrow> 'f EffectivePricingReportRow list \<Rightarrow> 'f EffectivePricingReportRow list" where
  "label_rows index [] = []"
| "label_rows index (row # rows) =
     (if row_Recommendation row = ''eligible''
      then (if index = 0 then row\<lparr>row_Recommendation := ''preferred''\<rparr>
            else row\<lparr>row_Recommendation := ''higher_effective_cost'', row_ReasonCodes := row_ReasonCodes row @ [''higher_effective_cost'']\<rparr>)
      else row) # label_rows (Suc index) rows"

definition decision_wanted :: "EffectivePricingReportQuery \<Rightarrow> 'f EffectivePricingDecision \<Rightarrow> bool" where
  "decision_wanted query decision \<longleftrightarrow> (repq_Model query = [] \<or> epd_UpstreamModel decision = repq_Model query)
     \<and> (repq_Protocol query = [] \<or> epd_Protocol decision = repq_Protocol query)"

definition effectivePricingReportForWindow :: "'f float_ops \<Rightarrow> 'f report_sources \<Rightarrow> 'f window_report" where
  "effectivePricingReportForWindow fl src query policy start stop r =
     (case SummarizeEffectivePricingUsage fl src start stop of
        Inl err \<Rightarrow> (Inl err, providerCacheCapabilities r)
      | Inr aggregates \<Rightarrow>
          let health = providerBillingRoutingHealthByAccount stop r;
              capabilityByKey = foldl (\<lambda>m c. mput (effectivePricingKey (cap_ProviderAccountID c) (cap_UpstreamModel c) (cap_Protocol c)) c m)
                [] (ListProviderCacheCapabilities r)
          in case report_rows fl src policy health capabilityByKey start stop (filter (aggregate_wanted query) aggregates)
                    (providerCacheCapabilities r) of
               (rows, capabilities) \<Rightarrow>
                 (Inr \<lparr>rep_WindowStart = start, rep_WindowEnd = stop, rep_Policy = policy,
                       rep_Rows = label_rows 0 (sort_slice cheaper_row rows),
                       rep_Decisions = filter (decision_wanted query) (ListEffectivePricingDecisions r)\<rparr>, capabilities))"

section \<open>The cheapest account is the preferred one\<close>

interpretation cheaper: comparison "cheaper_row :: 'f EffectivePricingReportRow \<Rightarrow> 'f EffectivePricingReportRow \<Rightarrow> bool"
  by unfold_locales (auto simp: cheaper_row_def split: if_splits)

lemma label_rows_nth:
  assumes "i < length rows"
  shows "label_rows k rows ! i =
    (let row = rows ! i in
     if row_Recommendation row = ''eligible''
     then (if k + i = 0 then row\<lparr>row_Recommendation := ''preferred''\<rparr>
           else row\<lparr>row_Recommendation := ''higher_effective_cost'', row_ReasonCodes := row_ReasonCodes row @ [''higher_effective_cost'']\<rparr>)
     else row)"
  using assms
proof (induction k rows arbitrary: i rule: label_rows.induct)
  case (2 index row rows)
  then show ?case by (cases i) (simp_all add: Let_def)
qed simp

lemma length_label_rows [simp]: "length (label_rows k rows) = length rows"
  by (induction k rows rule: label_rows.induct) auto

text \<open>What the policy asks of an account before it recommends it.\<close>

definition row_in_good_standing :: "'f float_ops \<Rightarrow> 'f EffectivePricingPolicy \<Rightarrow> 'f EffectivePricingReportRow \<Rightarrow> bool" where
  "row_in_good_standing fl policy row \<longleftrightarrow> pol_MinSampleCount policy \<le> row_RequestCount row
     \<and> \<not> f_less fl (row_MetricsCoverage row) (pol_MinMetricsCoverage policy)
     \<and> row_CostConfidence row \<in> {ProcurementCostConfidenceExact, ProcurementCostConfidenceDerived, ProcurementCostConfidenceEstimated}
     \<and> row_CacheSupportStatus row \<noteq> CacheSupportDegraded \<and> row_PoolAffinityGrade row \<noteq> PoolAffinityFragmented
     \<and> (\<forall>health. row_ProviderBillingRoutingHealth row = Some health \<longrightarrow>
          bh_EconomicSwitchEligible health \<or> \<not> bh_HardBlocked health \<and> bh_ReasonCodes health = [])"

lemma recommendation_eligible:
  assumes "fst (effectivePricingRecommendation fl row policy) = ''eligible''"
  shows "row_in_good_standing fl policy row"
  using assms unfolding effectivePricingRecommendation_def row_in_good_standing_def Let_def
  by (cases "row_ProviderBillingRoutingHealth row") (simp_all split: if_splits)

lemma recommendation_not_preferred: "fst (effectivePricingRecommendation fl row policy) \<noteq> ''preferred''"
  by (simp add: effectivePricingRecommendation_def Let_def)

lemma with_recommendation_eligible:
  "row_Recommendation (with_recommendation fl policy row) = ''eligible'' \<Longrightarrow> row_in_good_standing fl policy (with_recommendation fl policy row)"
  using recommendation_eligible [of fl row policy]
  by (simp add: with_recommendation_def row_in_good_standing_def split: prod.splits)

lemma with_recommendation_not_preferred: "row_Recommendation (with_recommendation fl policy row) \<noteq> ''preferred''"
  by (cases "effectivePricingRecommendation fl row policy")
    (use recommendation_not_preferred [of fl row policy] in \<open>simp add: with_recommendation_def\<close>)

lemma report_rows_recommended:
  "report_rows fl src policy health capabilityByKey start stop aggregates capabilities = (rows, capabilities')
     \<Longrightarrow> set rows \<subseteq> range (with_recommendation fl policy)"
proof (induction aggregates arbitrary: capabilities rows)
  case Nil
  then show ?case by simp
next
  case (Cons a aggregates)
  from Cons.prems obtain row0 rest capabilities1 where "rows = with_recommendation fl policy row0 # rest"
    "report_rows fl src policy health capabilityByKey start stop aggregates capabilities1 = (rest, capabilities')"
    by (simp add: Let_def split: prod.splits) blast
  with Cons.IH show ?case by auto
qed

lemma standing_label [simp]:
  "row_in_good_standing fl policy (row\<lparr>row_Recommendation := x\<rparr>) = row_in_good_standing fl policy row"
  by (simp add: row_in_good_standing_def)

lemma cheaper_row_label [simp]:
  "cheaper_row (row\<lparr>row_Recommendation := x, row_ReasonCodes := y\<rparr>) other = cheaper_row row other"
  "cheaper_row other (row\<lparr>row_Recommendation := x, row_ReasonCodes := y\<rparr>) = cheaper_row other row"
  "cheaper_row (row\<lparr>row_Recommendation := x\<rparr>) other = cheaper_row row other"
  "cheaper_row other (row\<lparr>row_Recommendation := x\<rparr>) = cheaper_row other row"
  by (simp_all add: cheaper_row_def)

lemma label_rows_cheaper:
  "i < length rows \<Longrightarrow> j < length rows \<Longrightarrow> cheaper_row (label_rows k rows ! i) (label_rows k rows ! j) = cheaper_row (rows ! i) (rows ! j)"
  by (simp add: label_rows_nth Let_def)

text \<open>
  C27. A report prefers at most one account, its first: its cost is known if that of any account with usage in the window is, none of
  these is cheaper, and it has the sample, the metrics, the cost confidence and the standing that the policy asks for.
\<close>

theorem preferred_is_cheapest:
  assumes "effectivePricingReportForWindow fl src query policy start stop r = (Inr report, capabilities)"
    and "i < length (rep_Rows report)" "row_Recommendation (rep_Rows report ! i) = ''preferred''"
  shows "i = 0 \<and> (\<forall>row \<in> set (rep_Rows report). row_CostAvailable row \<longrightarrow> row_CostAvailable (rep_Rows report ! i)
       \<and> row_EffectiveCostMicrosPer1M (rep_Rows report ! i) \<le> row_EffectiveCostMicrosPer1M row)
     \<and> row_in_good_standing fl policy (rep_Rows report ! i)"
proof -
  from assms(1) obtain aggregates health capabilityByKey rows where
    rows: "report_rows fl src policy health capabilityByKey start stop aggregates (providerCacheCapabilities r) = (rows, capabilities)"
    and report: "rep_Rows report = label_rows 0 (sort_slice cheaper_row rows)"
    by (auto simp: effectivePricingReportForWindow_def Let_def split: sum.splits prod.splits)
  define sorted_rows where "sorted_rows = sort_slice cheaper_row rows"
  have i: "i < length sorted_rows" using assms(2) by (simp add: report sorted_rows_def)
  have "sorted_rows ! i \<in> set rows" using i by (metis nth_mem set_sort_slice sorted_rows_def)
  then obtain row0 where row0: "sorted_rows ! i = with_recommendation fl policy row0" using report_rows_recommended [OF rows] by blast
  have label: "row_Recommendation (sorted_rows ! i) = ''eligible'' \<and> i = 0"
    using assms(3) i with_recommendation_not_preferred [of fl policy row0]
    by (auto simp: report label_rows_nth Let_def row0 simp flip: sorted_rows_def split: if_splits)
  have "row_in_good_standing fl policy (sorted_rows ! i)"
    using label with_recommendation_eligible [of fl policy row0] unfolding row0 by blast
  then have good: "row_in_good_standing fl policy (rep_Rows report ! i)"
    using label i by (simp add: report label_rows_nth Let_def flip: sorted_rows_def)
  have "\<not> cheaper_row row (rep_Rows report ! i)" if "row \<in> set (rep_Rows report)" for row
  proof -
    from that obtain j where j: "j < length sorted_rows" "row = label_rows 0 sorted_rows ! j"
      by (auto simp: in_set_conv_nth report sorted_rows_def)
    have "\<not> cheaper_row (sorted_rows ! j) (sorted_rows ! 0)"
      using cheaper.sort_sorted [of rows] j(1) cheaper.cmp_irrefl [of "sorted_rows ! 0"]
      by (cases j) (auto simp: sorted_wrt_iff_nth_less simp flip: sorted_rows_def)
    then show ?thesis using j i label by (simp add: report label_rows_cheaper flip: sorted_rows_def)
  qed
  with label good show ?thesis by (fastforce simp: cheaper_row_def split: if_splits)
qed

section \<open>An example\<close>

definition ex_usage :: UsageRecord where
  "ex_usage = zero_UsageRecord\<lparr>usage_ID := ''u'', usage_ProviderAccountID := ''a'', usage_UpstreamModel := ''m'', usage_Protocol := ''p'',
     usage_ProcurementCostMicros := Some 7, usage_InputTokens := 100, usage_CreatedAt := 5\<rparr>"

definition ex_sources :: "int report_sources" where
  "ex_sources = \<lparr>src_usageRecords = [(''u'', ex_usage)], src_providerNames = [], src_accountNames = [], src_procurementPrices = [],
     src_providerBillingLines = []\<rparr>"

definition ex_query :: EffectivePricingReportQuery where
  "ex_query = \<lparr>repq_Model = [], repq_Protocol = [], repq_WindowHours = 0\<rparr>"

definition ex_report_policy :: "int EffectivePricingPolicy" where
  "ex_report_policy = (zero_EffectivePricingPolicy 0)\<lparr>pol_MinSampleCount := 1\<rparr>"

lemma ex_summary:
  "SummarizeEffectivePricingUsage ex_fl ex_sources 1 9 = Inr [(add_usage ex_usage (new_aggregate ex_usage))\<lparr>agg_P95LatencyMS := 0\<rparr>]"
  by (simp add: SummarizeEffectivePricingUsage_def ex_sources_def usage_in_window_def ex_usage_def zero_UsageRecord_def mvalues_def
      summarize_one_def usage_failed_def nearestRankPercentile_def)

definition ex_aggregate :: EffectivePricingUsageAggregate where
  "ex_aggregate = (add_usage ex_usage (new_aggregate ex_usage))\<lparr>agg_P95LatencyMS := 0\<rparr>"

lemma ex_aggregate_fields:
  "agg_ProviderID ex_aggregate = []" "agg_ProviderAccountID ex_aggregate = ''a''" "agg_UpstreamModel ex_aggregate = ''m''"
  "agg_Protocol ex_aggregate = ''p''" "agg_RequestCount ex_aggregate = 1" "agg_SuccessfulRequestCount ex_aggregate = 1"
  "agg_CacheMetricsRequestCount ex_aggregate = 0" "agg_ProcurementCostRecordCount ex_aggregate = 1"
  "agg_ProcurementCostMicros ex_aggregate = 7" "agg_LastCacheObservedAt ex_aggregate = None"
  by (code_simp)+

lemma report_row_fields:
  "row_RequestCount (report_row fl src a price billing metrics capability health) = agg_RequestCount a"
  "row_MetricsCoverage (report_row fl src a price billing metrics capability health) = pm_MetricsCoverage metrics"
  "row_CacheSupportStatus (report_row fl src a price billing metrics capability health)
     = (if cap_SupportStatus capability = [] then CacheSupportUnknown else cap_SupportStatus capability)"
  "row_PoolAffinityGrade (report_row fl src a price billing metrics capability health)
     = (if cap_PoolAffinityGrade capability = [] then PoolAffinityUnknown else cap_PoolAffinityGrade capability)"
  "row_ProviderBillingRoutingHealth (report_row fl src a price billing metrics capability health) = health"
  "row_CostConfidence (report_row fl src a None billing metrics capability health)
     = report_confidence (snd (effectiveAggregateCost fl a (zero_ProcurementPrice (f_of_int fl 0)) False)) (snd billing) a"
  by (simp_all add: report_row_def Let_def split: prod.split)

lemma ex_row_eligible:
  assumes "metrics = production_metrics ex_fl ex_aggregate (zero_ProviderCacheCapability 0) 0 9"
  shows "row_Recommendation (with_recommendation ex_fl ex_report_policy (report_row ex_fl ex_sources ex_aggregate None (0, 0) metrics
    (applyProviderCacheProductionMetrics ex_fl (zero_ProviderCacheCapability 0) metrics) None)) = ''eligible''"
proof -
  have metrics: "pm_MetricsCoverage metrics = 0" "\<not> pm_MetricsObserved metrics"
    by (simp_all add: assms production_metrics_def ex_aggregate_fields safeRatio_def ex_fl_def)
  define capability where "capability = applyProviderCacheProductionMetrics ex_fl (zero_ProviderCacheCapability 0) metrics"
  have capability: "cap_SupportStatus capability = CacheSupportUnknown" "cap_PoolAffinityGrade capability = PoolAffinityUnknown"
    using metrics(2) by (simp_all add: capability_def applyProviderCacheProductionMetrics_def zero_ProviderCacheCapability_def)
  have "report_confidence (snd (effectiveAggregateCost ex_fl ex_aggregate (zero_ProcurementPrice (f_of_int ex_fl 0)) False)) 0 ex_aggregate
      = ProcurementCostConfidenceDerived"
    by (simp add: report_confidence_def effectiveAggregateCost_def ex_aggregate_fields zero_ProcurementPrice_def)
  then have "fst (effectivePricingRecommendation ex_fl (report_row ex_fl ex_sources ex_aggregate None (0, 0) metrics capability None) ex_report_policy)
      = ''eligible''"
    by (simp add: effectivePricingRecommendation_def report_row_fields capability metrics ex_aggregate_fields ex_report_policy_def
        zero_EffectivePricingPolicy_def ex_fl_def routing_consts)
  then show ?thesis
    by (cases "effectivePricingRecommendation ex_fl (report_row ex_fl ex_sources ex_aggregate None (0, 0) metrics capability None) ex_report_policy")
      (simp add: with_recommendation_def capability_def)
qed

theorem preferred_is_cheapest_witness:
  "\<exists>report capabilities. effectivePricingReportForWindow ex_fl ex_sources ex_query ex_report_policy 1 9 new_pricing_maps = (Inr report, capabilities)
     \<and> length (rep_Rows report) = 1 \<and> row_in_good_standing ex_fl ex_report_policy (rep_Rows report ! 0)"
proof -
  have empty: "mvalues (src_procurementPrices ex_sources) = []" "mvalues (src_providerBillingLines ex_sources) = []"
    "mvalues (providerCacheCapabilities new_pricing_maps) = []" "mvalues (effectivePricingDecisions new_pricing_maps) = []"
    "providerBillingRoutingHealthByAccount 9 new_pricing_maps = []" "f_of_int ex_fl 0 = 0"
    by (simp_all add: mvalues_def new_pricing_maps_def ex_sources_def providerBillingRoutingHealthByAccount_def
        providerBillingRoutingHealthForSources_def ListProviderBillingSources_def ex_fl_def)
  have wanted: "aggregate_wanted ex_query ex_aggregate" by (simp add: aggregate_wanted_def ex_query_def)
  obtain report capabilities where run:
    "effectivePricingReportForWindow ex_fl ex_sources ex_query ex_report_policy 1 9 new_pricing_maps = (Inr report, capabilities)"
    "length (rep_Rows report) = 1" "row_Recommendation (rep_Rows report ! 0) = ''preferred''"
    by (simp add: effectivePricingReportForWindow_def ex_summary ListProviderCacheCapabilities_def empty wanted ListProcurementPrices_def
        ListProviderBillingLines_def activeProcurementPrice_def matchingBillingCost_def ex_row_eligible Let_def
        flip: ex_aggregate_def)
  from preferred_is_cheapest [OF run(1), of 0] run show ?thesis by auto
qed

end
