(* ===== verification/Cache_Probe.thy ===== *)
theory Cache_Probe
  imports Pricing_Report
begin

text \<open>
  The cost of a request by the procurement price in force (\<open>effective_pricing_usage.go\<close>), the probes of a provider's prompt cache
  (\<open>effective_pricing_probe.go\<close>) with the budget they are reserved against (\<open>effective_pricing_repository.go\<close>), and the capabilities an
  operator declares (\<open>effective_pricing_service.go\<close>). The requests that a probe sends to the provider are not modelled: a probe is its
  reservation, the observations of its three phases, and what follows from them.
\<close>

section \<open>The cost of a request\<close>

text \<open>Letter case, for ASCII; other bytes are kept.\<close>

definition upper_byte :: "char \<Rightarrow> char" where
  "upper_byte c = (let b = byte_of c in if 97 \<le> b \<and> b \<le> 122 then char_of (b - 32) else c)"

definition ToUpper :: "string \<Rightarrow> string" where
  "ToUpper s = map upper_byte s"

record procurement_usage =
  pu_ProviderID :: string
  pu_ProviderAccountID :: string
  pu_UpstreamModel :: string
  pu_Protocol :: string
  pu_InputTokens :: int
  pu_OutputTokens :: int
  pu_TotalInputTokens :: "int option"
  pu_UncachedInputTokens :: "int option"
  pu_CacheReadTokens :: "int option"
  pu_CacheWrite5mTokens :: "int option"
  pu_CacheWrite1hTokens :: "int option"
  pu_CacheFieldsPresent :: bool

record gatewayProcurementCostEstimate =
  gce_CostMicros :: int
  gce_Currency :: string
  gce_Source :: string
  gce_Confidence :: string
  gce_PriceID :: string

definition procurement_components :: "procurement_usage \<Rightarrow> 'f ProcurementPrice \<Rightarrow> (int \<times> int) list" where
  "procurement_components input price =
     (let total = (case pu_TotalInputTokens input of None \<Rightarrow> nonNegative (pu_InputTokens input) | Some n \<Rightarrow> nonNegative n);
          cached = (\<lambda>field fallback. if pu_CacheFieldsPresent input
            then (case field of None \<Rightarrow> fallback | Some n \<Rightarrow> nonNegative n) else fallback)
      in [(cached (pu_UncachedInputTokens input) total, pp_UncachedInputMicrosPer1MTokens price),
          (cached (pu_CacheReadTokens input) 0, pp_CacheReadMicrosPer1MTokens price),
          (cached (pu_CacheWrite5mTokens input) 0, pp_CacheWrite5mMicrosPer1MTokens price),
          (cached (pu_CacheWrite1hTokens input) 0, pp_CacheWrite1hMicrosPer1MTokens price),
          (nonNegative (pu_OutputTokens input), pp_OutputMicrosPer1MTokens price)])"

fun sum_token_costs :: "int \<Rightarrow> (int \<times> int) list \<Rightarrow> int option" where
  "sum_token_costs costMicros [] = Some costMicros"
| "sum_token_costs costMicros ((tokens, rate) # components) =
     (case tokenCostMicros tokens rate of
        None \<Rightarrow> None
      | Some cost \<Rightarrow>
          if cost > wrap64 (MaxInt64 - costMicros) then None else sum_token_costs (wrap64 (costMicros + cost)) components)"

definition estimateGatewayProcurementCost ::
  "'f float_ops \<Rightarrow> 'f report_sources \<Rightarrow> procurement_usage \<Rightarrow> gotime \<Rightarrow> gatewayProcurementCostEstimate option" where
  "estimateGatewayProcurementCost fl src input at =
     (if TrimSpace (pu_ProviderAccountID input) = [] \<or> TrimSpace (pu_UpstreamModel input) = [] \<or> TrimSpace (pu_Protocol input) = [] then None
      else case activeProcurementPrice (ListProcurementPrices src) (pu_ProviderID input) (pu_ProviderAccountID input)
             (pu_UpstreamModel input) (pu_Protocol input) at of
        None \<Rightarrow> None
      | Some price \<Rightarrow>
          (case sum_token_costs (pp_RequestMicros price) (procurement_components input price) of
             None \<Rightarrow> None
           | Some costMicros \<Rightarrow>
               (case applyRechargeMultiplier fl costMicros (pp_RechargeMultiplier price) of
                  None \<Rightarrow> None
                | Some adjusted \<Rightarrow>
                    (let confidence = TrimSpace (pp_Confidence price); currency = ToUpper (TrimSpace (pp_Currency price))
                     in Some \<lparr>gce_CostMicros = adjusted, gce_Currency = (if currency = [] then ''USD'' else currency),
                              gce_Source = ''procurement_price'',
                              gce_Confidence = (if confidence = [] then ProcurementCostConfidenceEstimated else confidence),
                              gce_PriceID = pp_ID price\<rparr>))))"

section \<open>Probe runs\<close>

record ProviderCacheProbeRun =
  run_ID :: string
  run_ProviderID :: string
  run_ProviderAccountID :: string
  run_UpstreamModel :: string
  run_Protocol :: string
  run_ProbeSeriesID :: string
  run_SessionHash :: string
  run_PrefixFingerprint :: string
  run_PrefixTokens :: int
  run_WarmCacheReadTokens :: int
  run_WarmCacheWriteTokens :: int
  run_WarmTTFTMS :: int
  run_WarmUpstreamRequestID :: string
  run_ReuseCacheReadTokens :: int
  run_ReuseCacheWriteTokens :: int
  run_ReuseTTFTMS :: int
  run_ReuseUpstreamRequestID :: string
  run_ControlCacheReadTokens :: int
  run_ControlCacheWriteTokens :: int
  run_ControlTTFTMS :: int
  run_ControlUpstreamRequestID :: string
  run_CacheFieldsPresent :: bool
  run_EstimatedCostMicros :: int
  run_Status :: string
  run_FailureReason :: string
  run_StartedAt :: gotime
  run_FinishedAt :: gotime

definition CacheProbeStatusRunning :: string where
  "CacheProbeStatusRunning = ''running''"
definition CacheProbeStatusSucceeded :: string where
  "CacheProbeStatusSucceeded = ''succeeded''"
definition CacheProbeStatusFailed :: string where
  "CacheProbeStatusFailed = ''failed''"
definition CacheProbeStatusSkipped :: string where
  "CacheProbeStatusSkipped = ''skipped''"

record CacheProbeReservationLimits =
  lim_DayStart :: gotime
  lim_Now :: gotime
  lim_Cooldown :: duration
  lim_StaleAfter :: duration
  lim_DailyTokenBudget :: int
  lim_DailyCostBudgetMicros :: int

type_synonym probe_runs = "(string, ProviderCacheProbeRun) gmap"

text \<open>The pass over the runs: a reason to refuse, or the tokens and the cost reserved today.\<close>

fun scan_runs ::
  "ProviderCacheProbeRun \<Rightarrow> CacheProbeReservationLimits \<Rightarrow> int \<Rightarrow> int \<Rightarrow> ProviderCacheProbeRun list \<Rightarrow> string + int \<times> int" where
  "scan_runs run limits tokens cost [] = Inr (tokens, cost)"
| "scan_runs run limits tokens cost (current # runs) =
     (if run_Status current = CacheProbeStatusSkipped then scan_runs run limits tokens cost runs
      else if run_Status current = CacheProbeStatusRunning \<and> run_StartedAt current > lim_Now limits - lim_StaleAfter limits
      then Inl ''probe_concurrency_limit''
      else
        let today = \<not> run_StartedAt current < lim_DayStart limits;
            tokens = (if today then wrap64 (tokens + wrap64 (run_PrefixTokens current * 3)) else tokens);
            cost = (if today then wrap64 (cost + run_EstimatedCostMicros current) else cost)
        in if run_ProviderAccountID current = run_ProviderAccountID run \<and> run_UpstreamModel current = run_UpstreamModel run
              \<and> run_Protocol current = run_Protocol run \<and> run_StartedAt current > lim_Now limits - lim_Cooldown limits
           then Inl ''probe_cooldown_active''
           else scan_runs run limits tokens cost runs)"

definition ReserveProviderCacheProbeRun ::
  "ProviderCacheProbeRun \<Rightarrow> CacheProbeReservationLimits \<Rightarrow> probe_runs \<Rightarrow> (bool \<times> string) \<times> probe_runs" where
  "ReserveProviderCacheProbeRun run limits runs =
     (case scan_runs run limits 0 0 (mvalues runs) of
        Inl reason \<Rightarrow> ((False, reason), runs)
      | Inr (reservedTokens, reservedCost) \<Rightarrow>
          if lim_DailyTokenBudget limits \<le> 0
            \<or> run_PrefixTokens run > quot64 (wrap64 (lim_DailyTokenBudget limits - reservedTokens)) 3
          then ((False, ''probe_daily_token_budget_exceeded''), runs)
          else if lim_DailyCostBudgetMicros limits \<le> 0
            \<or> run_EstimatedCostMicros run > wrap64 (lim_DailyCostBudgetMicros limits - reservedCost)
          then ((False, ''probe_daily_cost_budget_exceeded''), runs)
          else ((True, []), mput (run_ID run) run runs))"

definition SaveProviderCacheProbeRun :: "ProviderCacheProbeRun \<Rightarrow> probe_runs \<Rightarrow> probe_runs" where
  "SaveProviderCacheProbeRun run runs = mput (run_ID run) run runs"

definition ListProviderCacheProbeRuns :: "int \<Rightarrow> probe_runs \<Rightarrow> ProviderCacheProbeRun list" where
  "ListProviderCacheProbeRuns limit0 runs =
     (let limit = (if limit0 \<le> 0 then 100 else if limit0 > 500 then 500 else limit0);
          out = sort_slice (\<lambda>a b. run_StartedAt a > run_StartedAt b) (mvalues runs)
      in if int (length out) > limit then take (nat limit) out else out)"

section \<open>The phases of a probe\<close>

record cacheProbePhaseObservation =
  obs_CacheFieldsPresent :: bool
  obs_CacheReadTokens :: "int option"
  obs_CacheWrite5mTokens :: "int option"
  obs_CacheWrite1hTokens :: "int option"
  obs_ttftMS :: int
  obs_upstreamRequestID :: string
  obs_costMicros :: int

definition applyCacheProbePhaseObservation ::
  "string \<Rightarrow> cacheProbePhaseObservation \<Rightarrow> ProviderCacheProbeRun \<Rightarrow> ProviderCacheProbeRun" where
  "applyCacheProbePhaseObservation phase observation run =
     (let readTokens = valueOr (obs_CacheReadTokens observation) 0;
          writeTokens = wrap64 (valueOr (obs_CacheWrite5mTokens observation) 0 + valueOr (obs_CacheWrite1hTokens observation) 0)
      in if phase = ''warm'' then run\<lparr>run_WarmCacheReadTokens := readTokens, run_WarmCacheWriteTokens := writeTokens,
             run_WarmTTFTMS := obs_ttftMS observation, run_WarmUpstreamRequestID := obs_upstreamRequestID observation\<rparr>
         else if phase = ''reuse'' then run\<lparr>run_ReuseCacheReadTokens := readTokens, run_ReuseCacheWriteTokens := writeTokens,
             run_ReuseTTFTMS := obs_ttftMS observation, run_ReuseUpstreamRequestID := obs_upstreamRequestID observation\<rparr>
         else if phase = ''negative_control'' then run\<lparr>run_ControlCacheReadTokens := readTokens, run_ControlCacheWriteTokens := writeTokens,
             run_ControlTTFTMS := obs_ttftMS observation, run_ControlUpstreamRequestID := obs_upstreamRequestID observation\<rparr>
         else run)"

definition classifyCacheProbe ::
  "cacheProbePhaseObservation \<Rightarrow> cacheProbePhaseObservation \<Rightarrow> cacheProbePhaseObservation \<Rightarrow> string \<times> string" where
  "classifyCacheProbe warm reuse control =
     (if \<not> obs_CacheFieldsPresent warm \<or> \<not> obs_CacheFieldsPresent reuse \<or> \<not> obs_CacheFieldsPresent control
      then (CacheProbeStatusFailed, ''cache_usage_fields_missing'')
      else let warmRead = valueOr (obs_CacheReadTokens warm) 0;
               reuseRead = valueOr (obs_CacheReadTokens reuse) 0;
               controlRead = valueOr (obs_CacheReadTokens control) 0
           in if reuseRead \<le> 0 \<or> reuseRead \<le> warmRead then (CacheProbeStatusFailed, ''cache_reuse_not_observed'')
              else if controlRead \<ge> reuseRead then (CacheProbeStatusFailed, ''negative_control_not_distinct'')
              else (CacheProbeStatusSucceeded, []))"

definition cacheProbeFailureIsCapabilityEvidence :: "string \<Rightarrow> bool" where
  "cacheProbeFailureIsCapabilityEvidence reason =
     oneOf reason [''cache_usage_fields_missing'', ''cache_reuse_not_observed'', ''negative_control_not_distinct'']"

text \<open>
  The phases in their order, each giving an error or an observation: the run as it is saved, and the observations when all phases were
  made within the confirmed cost.
\<close>

fun run_phases ::
  "(string \<Rightarrow> string + cacheProbePhaseObservation) \<Rightarrow> int \<Rightarrow> gotime \<Rightarrow> string list \<Rightarrow> int \<Rightarrow> cacheProbePhaseObservation list
     \<Rightarrow> ProviderCacheProbeRun \<Rightarrow> ProviderCacheProbeRun \<times> (int \<times> cacheProbePhaseObservation list) option" where
  "run_phases phase maxCost finishedAt [] actualCost completed run = (run, Some (actualCost, completed))"
| "run_phases phase maxCost finishedAt (name # names) actualCost completed run =
     (case phase name of
        Inl err \<Rightarrow> (run\<lparr>run_Status := CacheProbeStatusFailed, run_FailureReason := name @ '': '' @ err, run_FinishedAt := finishedAt\<rparr>, None)
      | Inr observation \<Rightarrow>
          let actualCost = wrap64 (actualCost + obs_costMicros observation);
              run = applyCacheProbePhaseObservation name observation run
          in if actualCost > maxCost
             then (run\<lparr>run_Status := CacheProbeStatusFailed, run_FailureReason := ''confirmed_cost_ceiling_exceeded'',
                      run_FinishedAt := finishedAt\<rparr>, None)
             else run_phases phase maxCost finishedAt names actualCost (completed @ [observation]) run)"

definition finished_probe ::
  "(string \<Rightarrow> string + cacheProbePhaseObservation) \<Rightarrow> int \<Rightarrow> gotime \<Rightarrow> ProviderCacheProbeRun \<Rightarrow> ProviderCacheProbeRun \<times> bool" where
  "finished_probe phase maxCost finishedAt run =
     (case run_phases phase maxCost finishedAt [''warm'', ''reuse'', ''negative_control''] 0 [] run of
        (run, None) \<Rightarrow> (run, False)
      | (run, Some (actualCost, completed)) \<Rightarrow>
          (let verdict = classifyCacheProbe (completed ! 0) (completed ! 1) (completed ! 2)
           in (run\<lparr>run_EstimatedCostMicros := (if actualCost > 0 then actualCost else run_EstimatedCostMicros run),
                  run_CacheFieldsPresent := (obs_CacheFieldsPresent (completed ! 0) \<or> obs_CacheFieldsPresent (completed ! 1)
                    \<or> obs_CacheFieldsPresent (completed ! 2)),
                  run_Status := fst verdict, run_FailureReason := snd verdict, run_FinishedAt := finishedAt\<rparr>, True)))"

section \<open>What the probes say of a capability\<close>

record probe_counts =
  pc_completed :: int
  pc_succeeded :: int
  pc_consecutiveSuccesses :: int
  pc_consecutiveFailures :: int
  pc_countingSuccesses :: bool
  pc_countingFailures :: bool

definition probe_succeeded :: "ProviderCacheProbeRun \<Rightarrow> bool" where
  "probe_succeeded run \<longleftrightarrow> run_Status run = CacheProbeStatusSucceeded"

definition probe_disproved :: "ProviderCacheProbeRun \<Rightarrow> bool" where
  "probe_disproved run \<longleftrightarrow> run_Status run = CacheProbeStatusFailed \<and> cacheProbeFailureIsCapabilityEvidence (run_FailureReason run)"

definition count_probe :: "ProviderCacheProbeRun \<Rightarrow> probe_counts \<Rightarrow> probe_counts" where
  "count_probe current c =
     (if \<not> probe_succeeded current \<and> \<not> probe_disproved current then c
      else c\<lparr>pc_completed := pc_completed c + 1,
             pc_succeeded := pc_succeeded c + (if probe_succeeded current then 1 else 0),
             pc_consecutiveSuccesses := pc_consecutiveSuccesses c + (if pc_countingSuccesses c \<and> probe_succeeded current then 1 else 0),
             pc_countingSuccesses := (pc_countingSuccesses c \<and> probe_succeeded current),
             pc_consecutiveFailures := pc_consecutiveFailures c + (if pc_countingFailures c \<and> probe_disproved current then 1 else 0),
             pc_countingFailures := (pc_countingFailures c \<and> probe_disproved current)\<rparr>)"

definition same_series :: "ProviderCacheProbeRun \<Rightarrow> ProviderCacheProbeRun \<Rightarrow> bool" where
  "same_series run current \<longleftrightarrow> run_ProviderAccountID current = run_ProviderAccountID run
     \<and> run_UpstreamModel current = run_UpstreamModel run \<and> run_Protocol current = run_Protocol run"

definition zero_counts :: probe_counts where
  "zero_counts = \<lparr>pc_completed = 0, pc_succeeded = 0, pc_consecutiveSuccesses = 0, pc_consecutiveFailures = 0,
     pc_countingSuccesses = True, pc_countingFailures = True\<rparr>"

definition count_probes :: "ProviderCacheProbeRun \<Rightarrow> ProviderCacheProbeRun list \<Rightarrow> probe_counts" where
  "count_probes run runs = foldl (\<lambda>c current. count_probe current c) zero_counts (filter (same_series run) runs)"

text \<open>The schema of the protocols of \<open>gatewaycore\<close>, by their names.\<close>

definition probeUsageSchema :: "string \<Rightarrow> string" where
  "probeUsageSchema protocol =
     (if protocol = ''anthropic_messages'' then ''normalized_anthropic''
      else if protocol = ''gemini_generate_content'' then ''normalized_gemini'' else ''normalized_openai'')"

definition probed_capability ::
  "'f float_ops \<Rightarrow> 'f ProviderCacheCapability \<Rightarrow> ProviderCacheProbeRun \<Rightarrow> probe_runs \<Rightarrow> gotime \<Rightarrow> 'f ProviderCacheCapability" where
  "probed_capability fl capability run runs now =
     (let c = count_probes run (ListProviderCacheProbeRuns 500 runs);
          capability = capability\<lparr>cap_ProbeSampleCount := pc_completed c,
            cap_AffinityConsistencyRate := safeRatio fl (pc_succeeded c) (pc_completed c), cap_UpdatedAt := now\<rparr>;
          capability = (if run_CacheFieldsPresent run then capability\<lparr>cap_LastObservedAt := Some now\<rparr> else capability);
          capability =
            (if run_Status run = CacheProbeStatusSucceeded then capability
               \<lparr>cap_SupportStatus := (if cap_SupportStatus capability \<noteq> CacheSupportBilledVerified then CacheSupportObserved
                  else cap_SupportStatus capability),
                cap_PoolAffinityGrade := (if pc_consecutiveSuccesses c \<ge> 3 then PoolAffinityVerified else PoolAffinityProbable),
                cap_DegradedReason := [], cap_LastVerifiedAt := Some now\<rparr>
             else if pc_consecutiveFailures c \<ge> 3 then
               (if run_FailureReason run = ''cache_usage_fields_missing'' then capability
                  \<lparr>cap_DegradedReason := run_FailureReason run,
                   cap_SupportStatus := (if oneOf (cap_SupportStatus capability)
                       [CacheSupportObserved, CacheSupportBilledVerified, CacheSupportDegraded]
                     then CacheSupportDegraded else CacheSupportUnsupported),
                   cap_PoolAffinityGrade := PoolAffinityOpaque\<rparr>
                else capability\<lparr>cap_DegradedReason := run_FailureReason run, cap_SupportStatus := CacheSupportDegraded,
                   cap_PoolAffinityGrade := PoolAffinityFragmented\<rparr>)
             else if run_CacheFieldsPresent run \<and> cap_SupportStatus capability = CacheSupportUnknown
             then capability\<lparr>cap_SupportStatus := CacheSupportAccepted\<rparr>
             else capability)
      in if cap_UsageSchema capability = [] \<or> cap_UsageSchema capability = ''auto''
         then capability\<lparr>cap_UsageSchema := probeUsageSchema (run_Protocol run)\<rparr> else capability)"

definition updateProviderCacheCapabilityFromProbe ::
  "'f float_ops \<Rightarrow> 'f ProviderCacheCapability \<Rightarrow> ProviderCacheProbeRun \<Rightarrow> probe_runs \<Rightarrow> gotime \<Rightarrow> 'f pricing_maps \<Rightarrow> 'f pricing_maps" where
  "updateProviderCacheCapabilityFromProbe fl capability run runs now r =
     SaveProviderCacheCapability (probed_capability fl capability run runs now) r"

text \<open>A probe that is not run is saved as skipped, with its audit event.\<close>

definition skipProviderCacheProbe ::
  "pricing_env \<Rightarrow> string \<Rightarrow> ProviderCacheProbeRun \<Rightarrow> string \<Rightarrow> probe_runs \<Rightarrow> ProviderCacheProbeRun \<times> AuditLog \<times> probe_runs" where
  "skipProviderCacheProbe env actor run reason runs =
     (let skipped = run\<lparr>run_Status := CacheProbeStatusSkipped,
            run_FailureReason := (if TrimSpace reason = [] then ''probe_not_reserved'' else TrimSpace reason), run_FinishedAt := env_now env\<rparr>
      in (skipped,
          newAuditLog env actor ''skip'' ''provider_cache_probe'' (run_ID skipped)
            (''Skipped cache probe for account '' @ run_ProviderAccountID skipped @ '': '' @ run_FailureReason skipped),
          SaveProviderCacheProbeRun skipped runs))"

section \<open>Exact costs\<close>

lemma quotient_less: "0 < r \<Longrightarrow> m div r < t \<longleftrightarrow> m < t * (r::int)"
proof -
  assume r: "0 < r"
  define q e where "q = m div r" and "e = m mod r"
  have m: "m = r * q + e" "0 \<le> e" "e < r" using r by (simp_all add: q_def e_def)
  show ?thesis unfolding q_def [symmetric]
  proof (cases "q < t")
    case True
    then have "r * (q + 1) \<le> r * t" using r by (intro mult_left_mono) simp_all
    with True m show "q < t \<longleftrightarrow> m < t * r" by (simp add: algebra_simps)
  next
    case False
    then have "t * r \<le> q * r" using r by (intro mult_right_mono) simp_all
    then have "\<not> m < t * r" using m by (simp only: mult.commute [of r q])
    with False show "q < t \<longleftrightarrow> m < t * r" by simp
  qed
qed

lemma token_cost_exact:
  "tokenCostMicros t r = (if t < 0 \<or> r < 0 \<or> t * r > MaxInt64 - 500000 then None else Some ((t * r + 500000) div 1000000))"
proof (cases "0 < t \<and> 0 < r")
  case False
  then have "t < 0 \<or> r < 0 \<or> t = 0 \<or> r = 0" by auto
  then show ?thesis by (elim disjE) (simp_all add: tokenCostMicros_def MaxInt64_def)
next
  case True
  have check: "quot64 MaxInt64 r < t \<longleftrightarrow> MaxInt64 < t * r"
  proof -
    have "quot64 MaxInt64 r = MaxInt64 div r" by (rule quot64_nonneg) (use True in \<open>simp_all add: MaxInt64_def\<close>)
    then show ?thesis using True by (simp add: quotient_less)
  qed
  have nonneg: "0 \<le> t * r" using True by simp
  show ?thesis
  proof (cases "MaxInt64 < t * r")
    case over: True
    then show ?thesis using True check by (simp add: tokenCostMicros_def)
  next
    case False
    with nonneg have wrap: "wrap64 (t * r) = t * r" by (intro wrap64_id) (simp add: int64_defs)
    have "wrap64 (t * r + 500000) = t * r + 500000" if "t * r \<le> MaxInt64 - 500000"
      using that nonneg by (intro wrap64_id) (simp add: int64_defs)
    moreover have "quot64 (t * r + 500000) 1000000 = (t * r + 500000) div 1000000" using nonneg by simp
    ultimately show ?thesis using True False by (simp add: tokenCostMicros_def check wrap del: quot64_nonneg)
  qed
qed

text \<open>The costs of the components, each rounded half up to a micro.\<close>

definition exact_token_costs :: "(int \<times> int) list \<Rightarrow> int" where
  "exact_token_costs components = sum_list (map (\<lambda>(tokens, rate). (tokens * rate + 500000) div 1000000) components)"

lemma sum_token_costs_exact:
  assumes "sum_token_costs c components = Some amount" "0 \<le> c" "c \<le> MaxInt64"
  shows "amount = c + exact_token_costs components \<and> amount \<le> MaxInt64 \<and> c \<le> amount"
  using assms
proof (induction c components rule: sum_token_costs.induct)
  case (2 costMicros tokens rate components)
  from 2(2) obtain cost where cost: "tokenCostMicros tokens rate = Some cost" "\<not> cost > wrap64 (MaxInt64 - costMicros)"
    "sum_token_costs (wrap64 (costMicros + cost)) components = Some amount"
    by (auto split: option.splits if_splits)
  have eq: "cost = (tokens * rate + 500000) div 1000000" "0 \<le> cost"
    using cost(1) by (auto simp: token_cost_exact pos_imp_zdiv_nonneg_iff split: if_splits)
  have "wrap64 (MaxInt64 - costMicros) = MaxInt64 - costMicros" using 2(3,4) by (intro wrap64_id) (simp add: int64_defs)
  then have fits: "costMicros + cost \<le> MaxInt64" using cost(2) by simp
  then have wrap: "wrap64 (costMicros + cost) = costMicros + cost" using 2(3) eq(2) by (intro wrap64_id) (simp add: int64_defs)
  have "amount = (costMicros + cost) + exact_token_costs components \<and> amount \<le> MaxInt64 \<and> costMicros + cost \<le> amount"
    using 2(1) [OF cost(1,2)] cost(3) fits 2(3) eq(2) by (simp add: wrap)
  then show ?case using eq by (simp add: exact_token_costs_def)
qed (simp add: exact_token_costs_def)

lemma sum_token_costs_products:
  "sum_token_costs c components = Some amount \<Longrightarrow> \<forall>(tokens, rate) \<in> set components. tokens * rate \<le> MaxInt64 - 500000"
  by (induction c components rule: sum_token_costs.induct) (auto simp: token_cost_exact split: option.splits if_splits)

section \<open>The daily budget of tokens\<close>

text \<open>The tokens that the runs of a day were reserved for; a skipped run reserves none.\<close>

definition counts_today :: "gotime \<Rightarrow> ProviderCacheProbeRun \<Rightarrow> bool" where
  "counts_today dayStart run \<longleftrightarrow> run_Status run \<noteq> CacheProbeStatusSkipped \<and> \<not> run_StartedAt run < dayStart"

definition run_tokens :: "gotime \<Rightarrow> ProviderCacheProbeRun \<Rightarrow> int" where
  "run_tokens dayStart run = (if counts_today dayStart run then run_PrefixTokens run * 3 else 0)"

definition tokens_today :: "gotime \<Rightarrow> probe_runs \<Rightarrow> int" where
  "tokens_today dayStart runs = msum (run_tokens dayStart) runs"

definition probes_ok :: "probe_runs \<Rightarrow> bool" where
  "probes_ok runs \<longleftrightarrow> wf_gmap runs \<and> (\<forall>run \<in> set (mvalues runs). 0 \<le> run_PrefixTokens run)"

text \<open>
  What happens to the runs on a day: a run is reserved against the budget of the day, a run that was not reserved is saved as skipped,
  and a reserved run is saved with what was observed of it, its tokens and its start unchanged.
\<close>

inductive probe_step :: "gotime \<Rightarrow> int \<Rightarrow> probe_runs \<Rightarrow> probe_runs \<Rightarrow> bool" for dayStart budget where
  reserve:
    "\<lbrakk>lim_DayStart limits = dayStart; lim_DailyTokenBudget limits = budget; map_of runs (run_ID run) = None;
      0 \<le> run_PrefixTokens run; ReserveProviderCacheProbeRun run limits runs = (res, runs')\<rbrakk> \<Longrightarrow> probe_step dayStart budget runs runs'"
| skip:
    "\<lbrakk>map_of runs (run_ID run) = None; 0 \<le> run_PrefixTokens run;
      skipProviderCacheProbe env actor run reason runs = (skipped, event, runs')\<rbrakk> \<Longrightarrow> probe_step dayStart budget runs runs'"
| save_result:
    "\<lbrakk>map_of runs (run_ID run) = Some old; run_PrefixTokens run = run_PrefixTokens old; run_StartedAt run = run_StartedAt old;
      run_Status old \<noteq> CacheProbeStatusSkipped\<rbrakk> \<Longrightarrow> probe_step dayStart budget runs (SaveProviderCacheProbeRun run runs)"

lemma scan_tokens:
  assumes "scan_runs run limits tokens cost runs = Inr (reserved, reservedCost)"
    and "0 \<le> tokens" "tokens + sum_list (map (run_tokens (lim_DayStart limits)) runs) \<le> MaxInt64"
    and "\<forall>current \<in> set runs. 0 \<le> run_PrefixTokens current"
  shows "reserved = tokens + sum_list (map (run_tokens (lim_DayStart limits)) runs)"
  using assms
proof (induction run limits tokens cost runs rule: scan_runs.induct)
  case (2 run limits tokens cost current runs)
  let ?rest = "sum_list (map (run_tokens (lim_DayStart limits)) runs)"
  have rest: "0 \<le> ?rest" using 2(6) by (intro sum_list_nonneg) (auto simp: run_tokens_def)
  show ?case
  proof (cases "run_Status current = CacheProbeStatusSkipped")
    case True
    with 2 show ?thesis by (simp add: run_tokens_def counts_today_def)
  next
    case False
    define counted where "counted = (if \<not> run_StartedAt current < lim_DayStart limits
      then wrap64 (tokens + wrap64 (run_PrefixTokens current * 3)) else tokens)"
    define counted_cost where "counted_cost = (if \<not> run_StartedAt current < lim_DayStart limits
      then wrap64 (cost + run_EstimatedCostMicros current) else cost)"
    have scan: "scan_runs run limits counted counted_cost runs = Inr (reserved, reservedCost)"
      "\<not> (run_Status current = CacheProbeStatusRunning \<and> run_StartedAt current > lim_Now limits - lim_StaleAfter limits)"
      "\<not> (run_ProviderAccountID current = run_ProviderAccountID run \<and> run_UpstreamModel current = run_UpstreamModel run
          \<and> run_Protocol current = run_Protocol run \<and> run_StartedAt current > lim_Now limits - lim_Cooldown limits)"
      using 2(3) False by (auto simp: Let_def counted_def counted_cost_def split: if_splits)
    have counted: "counted = tokens + run_tokens (lim_DayStart limits) current"
    proof (cases "run_StartedAt current < lim_DayStart limits")
      case True
      then show ?thesis by (simp add: counted_def run_tokens_def counts_today_def)
    next
      case today: False
      have "tokens + run_tokens (lim_DayStart limits) current \<le> MaxInt64" using 2(5) rest by simp
      then have "0 \<le> run_PrefixTokens current" "tokens + run_PrefixTokens current * 3 \<le> MaxInt64"
        using 2(6) today False by (simp_all add: run_tokens_def counts_today_def)
      then have "wrap64 (run_PrefixTokens current * 3) = run_PrefixTokens current * 3"
        "wrap64 (tokens + run_PrefixTokens current * 3) = tokens + run_PrefixTokens current * 3"
        using 2(4) by (intro wrap64_id; simp add: int64_defs)+
      with today False show ?thesis by (simp add: counted_def run_tokens_def counts_today_def)
    qed
    have "0 \<le> run_tokens (lim_DayStart limits) current" using 2(6) by (simp add: run_tokens_def)
    then have "reserved = counted + ?rest"
      using 2(2) [OF False _ refl counted_def [simplified] counted_cost_def [simplified]] scan 2(4-6) counted by simp
    then show ?thesis by (simp add: counted)
  qed
qed simp

lemma reserve_within_budget:
  assumes ok: "probes_ok runs" "tokens_today (lim_DayStart limits) runs \<le> lim_DailyTokenBudget limits"
    and budget: "lim_DailyTokenBudget limits \<le> MaxInt64" and fresh: "map_of runs (run_ID run) = None" "0 \<le> run_PrefixTokens run"
    and step: "ReserveProviderCacheProbeRun run limits runs = ((reserved, reason), runs')"
  shows "tokens_today (lim_DayStart limits) runs' \<le> lim_DailyTokenBudget limits \<and> probes_ok runs'"
proof (cases reserved)
  case False
  with step ok show ?thesis
    by (auto simp: ReserveProviderCacheProbeRun_def split: sum.splits prod.splits if_splits)
next
  case True
  with step obtain tokens cost where scan: "scan_runs run limits 0 0 (mvalues runs) = Inr (tokens, cost)"
    and check: "\<not> run_PrefixTokens run > quot64 (wrap64 (lim_DailyTokenBudget limits - tokens)) 3" "runs' = mput (run_ID run) run runs"
    by (auto simp: ReserveProviderCacheProbeRun_def split: sum.splits prod.splits if_splits)
  have tokens: "tokens = tokens_today (lim_DayStart limits) runs"
    using scan_tokens [OF scan] ok budget by (simp add: tokens_today_def msum_def probes_ok_def)
  have nonneg: "0 \<le> tokens" unfolding tokens tokens_today_def msum_def using ok(1)
    by (intro sum_list_nonneg) (auto simp: run_tokens_def probes_ok_def)
  with ok(2) budget have "wrap64 (lim_DailyTokenBudget limits - tokens) = lim_DailyTokenBudget limits - tokens"
    by (intro wrap64_id) (simp add: tokens int64_defs)
  then have "run_PrefixTokens run \<le> (lim_DailyTokenBudget limits - tokens) div 3" using check(1) ok(2) by (simp add: tokens)
  then have "tokens + run_PrefixTokens run * 3 \<le> lim_DailyTokenBudget limits" by linarith
  moreover have "tokens_today (lim_DayStart limits) runs' = tokens + run_tokens (lim_DayStart limits) run"
    using fresh(1) by (simp add: tokens tokens_today_def check(2) msum_mput_fresh)
  moreover have "probes_ok runs'" using ok(1) fresh by (auto simp: probes_ok_def check(2) mvalues_mput_fresh)
  ultimately show ?thesis using fresh(2) ok(2) by (simp add: run_tokens_def tokens)
qed

lemma probe_step_kept:
  assumes "probe_step dayStart budget runs runs'" "probes_ok runs" "tokens_today dayStart runs \<le> budget" "budget \<le> MaxInt64"
  shows "probes_ok runs' \<and> tokens_today dayStart runs' \<le> budget"
  using assms(1)
proof cases
  case (reserve limits run res)
  with reserve_within_budget [of runs limits run "fst res" "snd res" runs'] assms(2-4) show ?thesis by simp
next
  case (skip run env actor reason skipped event)
  then have "runs' = mput (run_ID run) skipped runs" "run_Status skipped = CacheProbeStatusSkipped" "run_PrefixTokens skipped = run_PrefixTokens run"
    by (auto simp: skipProviderCacheProbe_def SaveProviderCacheProbeRun_def Let_def)
  with skip assms(2,3) show ?thesis
    by (auto simp: probes_ok_def mvalues_mput_fresh tokens_today_def msum_mput_fresh run_tokens_def counts_today_def)
next
  case (save_result run old)
  have wf: "wf_gmap runs" using assms(2) by (simp add: probes_ok_def)
  have old: "0 \<le> run_PrefixTokens old" using assms(2) save_result(2) by (auto simp: probes_ok_def dest: map_of_Some_mvalues)
  have "run_tokens dayStart run \<le> run_tokens dayStart old"
    using save_result old by (simp add: run_tokens_def counts_today_def)
  then have "tokens_today dayStart runs' \<le> budget"
    using assms(3) wf save_result(1,2) by (simp add: tokens_today_def SaveProviderCacheProbeRun_def msum_mput_some)
  moreover have "probes_ok runs'"
    using assms(2) wf save_result(1,3) old
    by (auto simp: probes_ok_def SaveProviderCacheProbeRun_def set_mvalues_mput dest: map_of_Some_mvalues)
  ultimately show ?thesis by simp
qed

interpretation probes: bounded_resource "probe_step dayStart budget" "\<lambda>runs. probes_ok runs \<and> budget \<le> MaxInt64" "tokens_today dayStart" budget
  for dayStart budget
  by unfold_locales (blast dest: probe_step_kept)+

section \<open>Properties\<close>

text \<open>
  The cost of a request by the procurement price, before the recharge multiplier, is exact: the fee of the request plus the cost of
  each kind of token rounded half up to a micro, never with an overflow; a product that is too large gives no estimate instead.
\<close>

lemma procurement_cost_exact:
  assumes "sum_token_costs (pp_RequestMicros price) (procurement_components input price) = Some amount"
    and "0 \<le> pp_RequestMicros price" "pp_RequestMicros price \<le> MaxInt64"
  shows "amount = pp_RequestMicros price + exact_token_costs (procurement_components input price)
     \<and> pp_RequestMicros price \<le> amount \<and> amount \<le> MaxInt64
     \<and> (\<forall>(tokens, rate) \<in> set (procurement_components input price). tokens * rate \<le> MaxInt64 - 500000)"
  using sum_token_costs_exact [OF assms] sum_token_costs_products [OF assms(1)] by simp

text \<open>
  C34. The tokens that cache probes reserve on a day never exceed the budget of the day, whatever probes are reserved, refused, skipped
  and finished, and however they turn out.
\<close>

theorem probe_tokens_within_budget:
  assumes "(probe_step dayStart budget)\<^sup>*\<^sup>* [] runs" "0 \<le> budget" "budget \<le> MaxInt64"
  shows "tokens_today dayStart runs \<le> budget"
proof -
  have "probes_ok [] \<and> budget \<le> MaxInt64" "tokens_today dayStart [] \<le> budget"
    using assms(2,3) by (simp_all add: probes_ok_def mvalues_def tokens_today_def)
  from probes.run_bounded [OF assms(1) this] show ?thesis by simp
qed

section \<open>An example\<close>

definition ex_input :: procurement_usage where
  "ex_input = \<lparr>pu_ProviderID = [], pu_ProviderAccountID = ''a'', pu_UpstreamModel = ''m'', pu_Protocol = ''p'', pu_InputTokens = 1500,
     pu_OutputTokens = 500, pu_TotalInputTokens = None, pu_UncachedInputTokens = None, pu_CacheReadTokens = None,
     pu_CacheWrite5mTokens = None, pu_CacheWrite1hTokens = None, pu_CacheFieldsPresent = False\<rparr>"

definition ex_price :: "int ProcurementPrice" where
  "ex_price = (zero_ProcurementPrice 0)\<lparr>pp_RequestMicros := 10, pp_UncachedInputMicrosPer1MTokens := 1000, pp_OutputMicrosPer1MTokens := 3000\<rparr>"

lemma procurement_cost_exact_example:
  "sum_token_costs (pp_RequestMicros ex_price) (procurement_components ex_input ex_price) = Some 14 \<and> (14::int) \<le> MaxInt64
     \<and> 14 = pp_RequestMicros ex_price + exact_token_costs (procurement_components ex_input ex_price)"
proof -
  have run: "sum_token_costs (pp_RequestMicros ex_price) (procurement_components ex_input ex_price) = Some 14" by code_simp
  have fee: "0 \<le> pp_RequestMicros ex_price" "pp_RequestMicros ex_price \<le> MaxInt64"
    by (simp_all add: ex_price_def MaxInt64_def)
  from procurement_cost_exact [OF run fee] run show ?thesis by blast
qed

definition ex_run :: "string \<Rightarrow> gotime \<Rightarrow> ProviderCacheProbeRun" where
  "ex_run ident at =
     \<lparr>run_ID = ident, run_ProviderID = [], run_ProviderAccountID = ident, run_UpstreamModel = ''m'', run_Protocol = ''p'',
      run_ProbeSeriesID = [], run_SessionHash = [], run_PrefixFingerprint = [], run_PrefixTokens = 300, run_WarmCacheReadTokens = 0,
      run_WarmCacheWriteTokens = 0, run_WarmTTFTMS = 0, run_WarmUpstreamRequestID = [], run_ReuseCacheReadTokens = 0,
      run_ReuseCacheWriteTokens = 0, run_ReuseTTFTMS = 0, run_ReuseUpstreamRequestID = [], run_ControlCacheReadTokens = 0,
      run_ControlCacheWriteTokens = 0, run_ControlTTFTMS = 0, run_ControlUpstreamRequestID = [], run_CacheFieldsPresent = False,
      run_EstimatedCostMicros = 5, run_Status = CacheProbeStatusRunning, run_FailureReason = [], run_StartedAt = at, run_FinishedAt = at\<rparr>"

definition ex_limits :: "gotime \<Rightarrow> CacheProbeReservationLimits" where
  "ex_limits now = \<lparr>lim_DayStart = 0, lim_Now = now, lim_Cooldown = 60, lim_StaleAfter = 2, lim_DailyTokenBudget = 1000,
     lim_DailyCostBudgetMicros = 1000\<rparr>"

text \<open>The second probe of the day would exceed the budget of 1000 tokens and is refused.\<close>

lemma ex_reservations:
  "ReserveProviderCacheProbeRun (ex_run ''x'' 10) (ex_limits 10) [] = ((True, []), [(''x'', ex_run ''x'' 10)])"
  "ReserveProviderCacheProbeRun (ex_run ''y'' 20) (ex_limits 20) [(''x'', ex_run ''x'' 10)]
     = ((False, ''probe_daily_token_budget_exceeded''), [(''x'', ex_run ''x'' 10)])"
  by code_simp+

theorem probe_tokens_within_budget_witness: "tokens_today 0 [(''x'', ex_run ''x'' 10)] \<le> 1000"
proof (rule probe_tokens_within_budget)
  have "probe_step 0 1000 [] [(''x'', ex_run ''x'' 10)]"
    by (rule probe_step.reserve [OF _ _ _ _ ex_reservations(1)]) (simp_all add: ex_limits_def ex_run_def)
  moreover have "probe_step 0 1000 [(''x'', ex_run ''x'' 10)] [(''x'', ex_run ''x'' 10)]"
    by (rule probe_step.reserve [OF _ _ _ _ ex_reservations(2)]) (simp_all add: ex_limits_def ex_run_def)
  ultimately show "(probe_step 0 1000)\<^sup>*\<^sup>* [] [(''x'', ex_run ''x'' 10)]" by (meson converse_rtranclp_into_rtranclp r_into_rtranclp)
qed (simp_all add: MaxInt64_def)

end
