(* ===== verification/Routing_Choice.thy ===== *)
theory Routing_Choice
  imports Pricing_Switch
begin

text \<open>
  What the choice of a provider guarantees: candidates are only reordered, a candidate is put first for its price only under a decision
  that is in force and with healthy billing evidence, the share of a canary only grows with its percentage, and a session stays with
  its account as long as it comes back in time.
\<close>

section \<open>Reordering\<close>

abbreviation unmarked :: "'f GatewayProvider \<Rightarrow> 'f GatewayProvider" where
  "unmarked candidate \<equiv> candidate\<lparr>gp_SelectionReason := []\<rparr>"

definition reordered :: "'f GatewayProvider list \<Rightarrow> 'f GatewayProvider list \<Rightarrow> bool" where
  "reordered out candidates \<longleftrightarrow> mset (map unmarked out) = mset (map unmarked candidates)"

lemma reordered_refl [simp]: "reordered xs xs"
  by (simp add: reordered_def)

lemma reordered_trans: "reordered xs ys \<Longrightarrow> reordered ys zs \<Longrightarrow> reordered xs zs"
  by (simp add: reordered_def)

lemma unmarked_marked [simp]: "unmarked (candidate\<lparr>gp_SelectionReason := reason\<rparr>) = unmarked candidate"
  by simp

text \<open>What the search for an admitted candidate gives: the first of them, marked, before the others in their order.\<close>

lemma first_admitted_Some:
  assumes "first_admitted admits reason earlier candidates = Some out" "\<forall>c \<in> set earlier. \<not> admits c"
  obtains before chosen later where "candidates = before @ chosen # later" "admits chosen" "\<forall>c \<in> set before. \<not> admits c"
    "out = chosen\<lparr>gp_SelectionReason := appendSelectionReason (gp_SelectionReason chosen) reason\<rparr> # rev earlier @ before @ later"
  using assms
proof (induction admits reason earlier candidates arbitrary: thesis rule: first_admitted.induct)
  case (2 admits reason earlier candidate later)
  show ?case
  proof (cases "admits candidate")
    case True
    with 2(3) have "out = candidate\<lparr>gp_SelectionReason := appendSelectionReason (gp_SelectionReason candidate) reason\<rparr> # rev earlier @ [] @ later"
      by (simp add: select_candidate_first_def)
    then show ?thesis by (rule 2(2) [of "[]" candidate later, rotated 3]) (use True in simp_all)
  next
    case False
    with 2(3,4) have next_found: "first_admitted admits reason (candidate # earlier) later = Some out" "\<forall>c \<in> set (candidate # earlier). \<not> admits c"
      by simp_all
    from 2(1) [OF False _ next_found] obtain before chosen rest where *: "later = before @ chosen # rest" "admits chosen"
      "\<forall>c \<in> set before. \<not> admits c"
      "out = chosen\<lparr>gp_SelectionReason := appendSelectionReason (gp_SelectionReason chosen) reason\<rparr> # rev (candidate # earlier) @ before @ rest"
      by blast
    show ?thesis by (rule 2(2) [of "candidate # before" chosen rest]) (use * False in simp_all)
  qed
qed simp

lemma first_admitted_None: "first_admitted admits reason earlier candidates = None \<longleftrightarrow> (\<forall>c \<in> set candidates. \<not> admits c)"
  by (induction admits reason earlier candidates rule: first_admitted.induct) auto

lemma first_admitted_reordered:
  assumes "first_admitted admits reason [] candidates = Some out" shows "reordered out candidates"
proof -
  from assms obtain before chosen later where "candidates = before @ chosen # later"
    "out = chosen\<lparr>gp_SelectionReason := appendSelectionReason (gp_SelectionReason chosen) reason\<rparr> # rev [] @ before @ later"
    by (rule first_admitted_Some) simp
  then show ?thesis by (simp add: reordered_def)
qed

lemma order_by_decisions_reordered: "reordered (order_by_decisions applies health decisions candidates) candidates"
  by (induction applies health decisions candidates rule: order_by_decisions.induct)
    (auto split: option.split dest: first_admitted_reordered)

lemma preferBound_reordered:
  assumes "preferBoundGatewayCandidate candidates binding requireAccount reason = (out, found)" shows "reordered out candidates"
  using assms by (auto simp: preferBoundGatewayCandidate_def split: option.splits dest: first_admitted_reordered)

lemma prefer_by_reordered:
  assumes "prefer_by s key requireAccount reason ttl now candidates w = (Some out, w')" shows "reordered out candidates"
  using assms by (auto simp: prefer_by_def split: prod.splits option.splits bool.splits dest: preferBound_reordered)

lemma prefer_reordered:
  "reordered (fst (PreferGatewayCandidatesWithAffinity s input now candidates w)) candidates"
  by (auto simp: PreferGatewayCandidatesWithAffinity_def split: prod.splits option.splits if_splits dest: prefer_by_reordered)

section \<open>Decisions in force\<close>

lemma economic_block_None:
  "economic_block health account = None \<longleftrightarrow> (\<forall>h. map_of health account = Some h \<longrightarrow> bh_EconomicSwitchEligible h)"
  by (auto simp: economic_block_def split: option.splits)

lemma order_by_decisions_justified:
  assumes "order_by_decisions applies health decisions candidates \<noteq> candidates"
  shows "\<exists>decision \<in> set decisions. applies decision
     \<and> gp_AccountID (hd (order_by_decisions applies health decisions candidates)) = epd_CandidateProviderAccountID decision
     \<and> economic_block health (epd_CandidateProviderAccountID decision) = None"
  using assms
proof (induction applies health decisions candidates rule: order_by_decisions.induct)
  case (2 applies health decision decisions candidates)
  show ?case
  proof (cases "applies decision")
    case applies: True
    show ?thesis
    proof (cases "first_admitted (decision_admits health decision)
        (''effective pricing '' @ epd_Status decision @ '' decision '' @ epd_ID decision) [] candidates")
      case None
      with 2 applies show ?thesis by auto
    next
      case (Some out)
      then obtain before chosen later where "decision_admits health decision chosen"
        "out = chosen\<lparr>gp_SelectionReason := appendSelectionReason (gp_SelectionReason chosen)
           (''effective pricing '' @ epd_Status decision @ '' decision '' @ epd_ID decision)\<rparr> # rev [] @ before @ later"
        by (rule first_admitted_Some) simp
      with applies Some show ?thesis by (auto simp: decision_admits_def)
    qed
  next
    case False
    with 2 show ?thesis by simp
  qed
qed simp

section \<open>The canary\<close>

text \<open>
  The canary only grows: a customer in the share of a decision stays in it when the percentage is raised.
\<close>

lemma canary_mono:
  assumes "inEffectivePricingCanary secret decisionID cohortKey p" "p \<le> q"
  shows "inEffectivePricingCanary secret decisionID cohortKey q"
  using assms by (auto simp: inEffectivePricingCanary_def Let_def split: if_splits option.splits)

section \<open>Sessions\<close>

text \<open>The session of the input is bound to the account until an instant.\<close>

definition bound_until :: "string \<Rightarrow> GatewayAffinityInput \<Rightarrow> 'f GatewayProvider \<Rightarrow> gotime \<Rightarrow> ('f, 'c) routing_world \<Rightarrow> bool" where
  "bound_until secretKey input provider until w \<longleftrightarrow>
     (\<exists>b. map_of (routingAffinityBindings (rw_maps w)) (gatewayAffinityScopeKey secretKey AffinityBindingAccount input) = Some b
        \<and> aff_ScopeKey b = gatewayAffinityScopeKey secretKey AffinityBindingAccount input
        \<and> aff_ProviderID b = gp_ID provider \<and> aff_ProviderAccountID b = gp_AccountID provider \<and> aff_RouteID b = gp_RouteID provider
        \<and> aff_ExpiresAt b = until)"

definition account_ttl :: "('f, 'c) routing_world \<Rightarrow> duration" where
  "account_ttl w = snd (gatewayAffinityTTLs (rw_maps w))"

definition bind_ttl :: "'f GatewayProvider \<Rightarrow> ('f, 'c) routing_world \<Rightarrow> duration" where
  "bind_ttl provider w = (if gp_StickyTTLSeconds provider > 0 then wrap64 (gp_StickyTTLSeconds provider * Second) else account_ttl w)"

definition sticky_provider :: "'f GatewayProvider \<Rightarrow> bool" where
  "sticky_provider provider \<longleftrightarrow> TrimSpace (gp_ID provider) \<noteq> [] \<and> gp_StickyEnabled provider \<and> TrimSpace (gp_AccountID provider) \<noteq> []
     \<and> TrimSpace (gp_RouteID provider) \<noteq> []"

definition offers :: "'f GatewayProvider \<Rightarrow> 'f GatewayProvider list \<Rightarrow> bool" where
  "offers provider candidates \<longleftrightarrow> 2 \<le> length candidates \<and> (\<exists>c \<in> set candidates. gp_ID c = gp_ID provider
     \<and> gp_AccountID c = gp_AccountID provider \<and> gp_RouteID c = gp_RouteID provider \<and> gp_StickyEnabled c)"

definition same_account :: "'f GatewayProvider \<Rightarrow> 'f GatewayProvider \<Rightarrow> bool" where
  "same_account c provider \<longleftrightarrow> gp_ID c = gp_ID provider \<and> gp_AccountID c = gp_AccountID provider \<and> gp_RouteID c = gp_RouteID provider"

lemma ttls_unchanged [simp]:
  "gatewayAffinityTTLs (SaveRoutingAffinityBinding b r) = gatewayAffinityTTLs r"
  "account_ttl (save_in_repo b w) = account_ttl w"
  by (simp_all add: gatewayAffinityTTLs_def GetEffectivePricingPolicy_def SaveRoutingAffinityBinding_def account_ttl_def save_in_repo_def)

lemma bind_binds:
  assumes "svc_routingAffinityCoordinator s = None" "TrimSpace (gai_StickyKey input) \<noteq> []" "sticky_provider provider"
  shows "bound_until (svc_secretKey s) input provider (now + bind_ttl provider w) (BindGatewayCandidateAffinity s input provider now w)
     \<and> account_ttl (BindGatewayCandidateAffinity s input provider now w) = account_ttl w"
  using assms
  by (simp add: BindGatewayCandidateAffinity_def sticky_provider_def claimRoutingAffinityBinding_def bound_until_def bind_ttl_def
      supplier_binding_def account_binding_def account_ttl_def Let_def save_in_repo_def SaveRoutingAffinityBinding_def
      gatewayAffinityTTLs_def GetEffectivePricingPolicy_def split: prod.split option.split)

lemma prefer_keeps:
  assumes "svc_routingAffinityCoordinator s = None" "TrimSpace (gai_StickyKey input) \<noteq> []"
    and bound: "bound_until (svc_secretKey s) input provider until w" "now < until" and offer: "offers provider candidates"
    and run: "PreferGatewayCandidatesWithAffinity s input now candidates w = (out, w')"
  shows "same_account (hd out) provider \<and> bound_until (svc_secretKey s) input provider (now + account_ttl w) w' \<and> account_ttl w' = account_ttl w"
proof -
  let ?key = "gatewayAffinityScopeKey (svc_secretKey s) AffinityBindingAccount input"
  from bound(1) obtain b where b: "map_of (routingAffinityBindings (rw_maps w)) ?key = Some b" "aff_ScopeKey b = ?key"
    "aff_ProviderID b = gp_ID provider" "aff_ProviderAccountID b = gp_AccountID provider" "aff_RouteID b = gp_RouteID provider"
    "aff_ExpiresAt b = until" unfolding bound_until_def by blast
  have find: "findRoutingAffinityBinding s ?key now w = (Some b, w)"
    using assms(1) b bound(2) by (simp add: findRoutingAffinityBinding_def find_in_repo_def FindRoutingAffinityBinding_def)
  have admits: "binding_admits b True c \<longleftrightarrow> same_account c provider \<and> gp_StickyEnabled c" for c
    by (auto simp: binding_admits_def same_account_def b)
  have "\<not> (\<forall>c \<in> set candidates. \<not> binding_admits b True c)" using offer unfolding offers_def admits same_account_def by blast
  then obtain preferred where preferred: "first_admitted (binding_admits b True) ''session account affinity reused'' [] candidates = Some preferred"
    using first_admitted_None [of "binding_admits b True" "''session account affinity reused''" "[]" candidates] by auto
  then obtain before chosen later where chosen: "binding_admits b True chosen"
    "preferred = chosen\<lparr>gp_SelectionReason := appendSelectionReason (gp_SelectionReason chosen) ''session account affinity reused''\<rparr>
       # rev [] @ before @ later" by (rule first_admitted_Some) simp
  let ?b = "b\<lparr>aff_LastReusedAt := now, aff_ExpiresAt := now + account_ttl w\<rparr>"
  have reused: "prefer_by s ?key True ''session account affinity reused'' (account_ttl w) now candidates w = (Some preferred, save_in_repo ?b w)"
    using assms(1) by (simp add: prefer_by_def find preferBoundGatewayCandidate_def preferred refreshRoutingAffinityBinding_def)
  have "out = preferred \<and> w' = save_in_repo ?b w"
    using run reused assms(2) offer
    by (simp add: PreferGatewayCandidatesWithAffinity_def offers_def account_ttl_def split: prod.splits)
  with chosen b show ?thesis
    by (simp add: admits same_account_def bound_until_def save_in_repo_def SaveRoutingAffinityBinding_def account_ttl_def
        gatewayAffinityTTLs_def GetEffectivePricingPolicy_def)
qed

text \<open>What happens in a session, in any order: its requests choose a candidate, and a provider that has served one is bound.\<close>

datatype 'f session_event = Asked gotime "'f GatewayProvider list" | Served gotime "'f GatewayProvider"

fun session_step :: "'c AffinityService \<Rightarrow> GatewayAffinityInput \<Rightarrow> 'f session_event \<Rightarrow> ('f, 'c) routing_world \<Rightarrow> ('f, 'c) routing_world" where
  "session_step s input (Asked now candidates) w = snd (PreferGatewayCandidatesWithAffinity s input now candidates w)"
| "session_step s input (Served now provider) w = BindGatewayCandidateAffinity s input provider now w"

definition session_after ::
  "'c AffinityService \<Rightarrow> GatewayAffinityInput \<Rightarrow> 'f session_event list \<Rightarrow> ('f, 'c) routing_world \<Rightarrow> ('f, 'c) routing_world" where
  "session_after s input events w = fold (session_step s input) events w"

text \<open>
  The account that holds the session, and until when: the last sticky account that served it, for its own sticky time or that of the
  policy, extended by the time of the policy with every request that finds it. \<open>separate\<close> says that the two scope keys of the session do
  not collide.
\<close>

fun holder_step ::
  "duration \<Rightarrow> bool \<Rightarrow> 'f session_event \<Rightarrow> ('f GatewayProvider \<times> gotime) option \<Rightarrow> ('f GatewayProvider \<times> gotime) option" where
  "holder_step ttl separate (Asked now candidates) None = None"
| "holder_step ttl separate (Asked now candidates) (Some (provider, until)) =
     (if \<not> now < until then None
      else if offers provider candidates then Some (provider, now + ttl)
      else if length candidates < 2 \<or> separate then Some (provider, until) else None)"
| "holder_step ttl separate (Served now provider) holder =
     (if sticky_provider provider
      then Some (provider, now + (if gp_StickyTTLSeconds provider > 0 then wrap64 (gp_StickyTTLSeconds provider * Second) else ttl))
      else if TrimSpace (gp_ID provider) = [] \<or> separate then holder else None)"

definition session_holder :: "duration \<Rightarrow> bool \<Rightarrow> 'f session_event list \<Rightarrow> ('f GatewayProvider \<times> gotime) option" where
  "session_holder ttl separate events = fold (holder_step ttl separate) events None"

definition keys_separate :: "string \<Rightarrow> GatewayAffinityInput \<Rightarrow> bool" where
  "keys_separate secretKey input \<longleftrightarrow>
     gatewayAffinityScopeKey secretKey AffinityBindingSupplier input \<noteq> gatewayAffinityScopeKey secretKey AffinityBindingAccount input"

definition bindings_keyed :: "('f, 'c) routing_world \<Rightarrow> bool" where
  "bindings_keyed w \<longleftrightarrow> keyed aff_ScopeKey (routingAffinityBindings (rw_maps w))"

text \<open>Without a coordinator, an operation on the binding of one key leaves the bindings of the other keys and the times of the policy.\<close>

definition binding_frame :: "string set \<Rightarrow> ('f, 'c) routing_world \<Rightarrow> ('f, 'c) routing_world \<Rightarrow> bool" where
  "binding_frame ks w w' \<longleftrightarrow> bindings_keyed w' \<and> account_ttl w' = account_ttl w
     \<and> (\<forall>k. k \<notin> ks \<longrightarrow> map_of (routingAffinityBindings (rw_maps w')) k = map_of (routingAffinityBindings (rw_maps w)) k)"

lemma binding_frame_refl: "bindings_keyed w \<Longrightarrow> binding_frame ks w w"
  by (simp add: binding_frame_def)

lemma binding_frame_trans: "binding_frame ks w w1 \<Longrightarrow> binding_frame ks' w1 w2 \<Longrightarrow> binding_frame (ks \<union> ks') w w2"
  by (simp add: binding_frame_def)

lemma save_frame: "bindings_keyed w \<Longrightarrow> binding_frame {aff_ScopeKey b} w (save_in_repo b w)"
  by (auto simp: binding_frame_def bindings_keyed_def) (auto simp: save_in_repo_def SaveRoutingAffinityBinding_def)

lemma find_frame:
  assumes "svc_routingAffinityCoordinator s = None" "bindings_keyed w" "findRoutingAffinityBinding s key now w = (found, w')"
  shows "binding_frame {key} w w' \<and> (\<forall>b. found = Some b \<longrightarrow> aff_ScopeKey b = key)"
  using assms keyed_lookup [of aff_ScopeKey "routingAffinityBindings (rw_maps w)" key]
  by (auto simp: findRoutingAffinityBinding_def find_in_repo_def FindRoutingAffinityBinding_def binding_frame_def bindings_keyed_def
      account_ttl_def gatewayAffinityTTLs_def GetEffectivePricingPolicy_def map_of_mdelete split: option.splits if_splits)

lemma prefer_by_frame:
  assumes "svc_routingAffinityCoordinator s = None" "bindings_keyed w" "prefer_by s key require reason ttl now candidates w = (found, w')"
  shows "binding_frame {key} w w'"
proof -
  obtain b w1 where f: "findRoutingAffinityBinding s key now w = (b, w1)" by fastforce
  note first = find_frame [OF assms(1,2) f]
  then have keyed: "bindings_keyed w1" by (simp add: binding_frame_def)
  show ?thesis
  proof (cases b)
    case None
    then show ?thesis using first assms(3) f by (simp add: prefer_by_def)
  next
    case (Some binding)
    then consider "w' = w1" | "w' = save_in_repo (binding\<lparr>aff_LastReusedAt := now, aff_ExpiresAt := now + ttl\<rparr>) w1"
      using assms(1,3) f by (auto simp: prefer_by_def refreshRoutingAffinityBinding_def split: prod.splits bool.splits)
    then show ?thesis
    proof cases
      case 2
      have "binding_frame {key} w1 w'" using save_frame [OF keyed, of "binding\<lparr>aff_LastReusedAt := now, aff_ExpiresAt := now + ttl\<rparr>"] 2 first Some
        by simp
      then show ?thesis using binding_frame_trans first by fastforce
    qed (use first in simp)
  qed
qed

lemma prefer_frame:
  assumes "svc_routingAffinityCoordinator s = None" "bindings_keyed w"
  shows "binding_frame {gatewayAffinityScopeKey (svc_secretKey s) AffinityBindingSupplier input,
       gatewayAffinityScopeKey (svc_secretKey s) AffinityBindingAccount input} w (snd (PreferGatewayCandidatesWithAffinity s input now candidates w))"
proof -
  let ?a = "gatewayAffinityScopeKey (svc_secretKey s) AffinityBindingAccount input"
  let ?s = "gatewayAffinityScopeKey (svc_secretKey s) AffinityBindingSupplier input"
  have mono: "binding_frame {?a} w v \<Longrightarrow> binding_frame {?s, ?a} w v" for v by (auto simp: binding_frame_def)
  have both: "binding_frame {?a} w v \<Longrightarrow> binding_frame {?s} v u \<Longrightarrow> binding_frame {?s, ?a} w u" for v u by (auto simp: binding_frame_def)
  show ?thesis
  proof (cases "length candidates < 2")
    case True
    then show ?thesis using assms(2) by (simp add: PreferGatewayCandidatesWithAffinity_def binding_frame_refl)
  next
    case False
    obtain sttl attl where ttls: "gatewayAffinityTTLs (rw_maps w) = (sttl, attl)" by fastforce
    obtain o1 w1 where first: "(if TrimSpace (gai_StickyKey input) \<noteq> []
        then prefer_by s ?a True ''session account affinity reused'' attl now candidates w else (None, w)) = (o1, w1)" by fastforce
    then have f1: "binding_frame {?a} w w1"
      using prefer_by_frame [OF assms] binding_frame_refl [OF assms(2)] by (auto split: if_splits)
    then have keyed: "bindings_keyed w1" by (simp add: binding_frame_def)
    obtain o2 w2 where second: "prefer_by s ?s False ''customer supplier affinity reused'' sttl now candidates w1 = (o2, w2)" by fastforce
    note f2 = prefer_by_frame [OF assms(1) keyed second]
    have "snd (PreferGatewayCandidatesWithAffinity s input now candidates w) = (if o1 = None then w2 else w1)"
      using False ttls first second by (auto simp: PreferGatewayCandidatesWithAffinity_def split: option.splits)
    then show ?thesis using mono [OF f1] both [OF f1 f2] by simp
  qed
qed

text \<open>A request that does not find the holder among its candidates leaves its binding.\<close>

lemma prefer_passes:
  assumes "svc_routingAffinityCoordinator s = None" "bindings_keyed w" "bound_until (svc_secretKey s) input provider until w" "now < until"
    and "\<not> offers provider candidates" "length candidates < 2 \<or> keys_separate (svc_secretKey s) input"
  shows "bound_until (svc_secretKey s) input provider until (snd (PreferGatewayCandidatesWithAffinity s input now candidates w))"
proof (cases "length candidates < 2")
  case True
  then show ?thesis using assms(3) by (simp add: PreferGatewayCandidatesWithAffinity_def)
next
  case False
  let ?a = "gatewayAffinityScopeKey (svc_secretKey s) AffinityBindingAccount input"
  let ?s = "gatewayAffinityScopeKey (svc_secretKey s) AffinityBindingSupplier input"
  obtain sttl attl where ttls: "gatewayAffinityTTLs (rw_maps w) = (sttl, attl)" by fastforce
  from assms(3) obtain b where b: "map_of (routingAffinityBindings (rw_maps w)) ?a = Some b" "aff_ScopeKey b = ?a"
    "aff_ProviderID b = gp_ID provider" "aff_ProviderAccountID b = gp_AccountID provider" "aff_RouteID b = gp_RouteID provider"
    "aff_ExpiresAt b = until" unfolding bound_until_def by blast
  have find: "findRoutingAffinityBinding s ?a now w = (Some b, w)"
    using assms(1,4) b by (simp add: findRoutingAffinityBinding_def find_in_repo_def FindRoutingAffinityBinding_def)
  have "\<forall>c \<in> set candidates. \<not> binding_admits b True c" using assms(5) False by (auto simp: offers_def binding_admits_def b)
  then have "first_admitted (binding_admits b True) ''session account affinity reused'' [] candidates = None"
    using first_admitted_None by blast
  then have none: "prefer_by s ?a True ''session account affinity reused'' attl now candidates w = (None, w)"
    by (simp add: prefer_by_def find preferBoundGatewayCandidate_def)
  obtain o2 w2 where second: "prefer_by s ?s False ''customer supplier affinity reused'' sttl now candidates w = (o2, w2)" by fastforce
  have "snd (PreferGatewayCandidatesWithAffinity s input now candidates w) = w2"
    using False ttls none second by (auto simp: PreferGatewayCandidatesWithAffinity_def split: option.splits if_splits)
  moreover have "binding_frame {?s} w w2" using prefer_by_frame [OF assms(1,2) second] .
  ultimately show ?thesis using assms(3,6) False by (auto simp: bound_until_def binding_frame_def keys_separate_def)
qed

lemma bind_frame:
  fixes w :: "('f, 'c) routing_world"
  assumes "svc_routingAffinityCoordinator s = None" "bindings_keyed w"
  shows "bindings_keyed (BindGatewayCandidateAffinity s input provider now w)
    \<and> account_ttl (BindGatewayCandidateAffinity s input provider now w) = account_ttl w"
proof -
  have "bindings_keyed (save_in_repo b v) \<and> account_ttl (save_in_repo b v) = account_ttl v" if "bindings_keyed v" for b and v :: "('f, 'c) routing_world"
    using save_frame [OF that] by (simp add: binding_frame_def)
  then show ?thesis using assms by (simp add: BindGatewayCandidateAffinity_def claimRoutingAffinityBinding_def Let_def split: prod.split)
qed

lemma bind_passes:
  assumes "svc_routingAffinityCoordinator s = None" "TrimSpace (gai_StickyKey input) \<noteq> []" "bindings_keyed w"
    and "bound_until (svc_secretKey s) input holder until w" "\<not> sticky_provider provider"
    and "TrimSpace (gp_ID provider) = [] \<or> keys_separate (svc_secretKey s) input"
  shows "bound_until (svc_secretKey s) input holder until (BindGatewayCandidateAffinity s input provider now w)"
proof (cases "TrimSpace (gp_ID provider) = []")
  case True
  then show ?thesis using assms(4) by (simp add: BindGatewayCandidateAffinity_def)
next
  case False
  obtain sttl attl where ttls: "gatewayAffinityTTLs (rw_maps w) = (sttl, attl)" by fastforce
  let ?b = "supplier_binding (svc_secretKey s) input provider sttl now"
  have "BindGatewayCandidateAffinity s input provider now w = save_in_repo ?b w"
    using False assms(1,2,5) ttls by (auto simp: BindGatewayCandidateAffinity_def claimRoutingAffinityBinding_def sticky_provider_def supplier_binding_def)
  moreover have "binding_frame {aff_ScopeKey ?b} w (save_in_repo ?b w)" by (rule save_frame [OF assms(3)])
  ultimately show ?thesis using assms(4,6) False by (auto simp: bound_until_def binding_frame_def keys_separate_def supplier_binding_def)
qed

text \<open>The holder is what is bound, after any events.\<close>

lemma holder_bound:
  assumes "svc_routingAffinityCoordinator s = None" "TrimSpace (gai_StickyKey input) \<noteq> []"
    and "bindings_keyed w" "\<And>p t. holder = Some (p, t) \<Longrightarrow> bound_until (svc_secretKey s) input p t w"
  shows "bindings_keyed (session_step s input event w) \<and> account_ttl (session_step s input event w) = account_ttl w
    \<and> (\<forall>p t. holder_step (account_ttl w) (keys_separate (svc_secretKey s) input) event holder = Some (p, t)
        \<longrightarrow> bound_until (svc_secretKey s) input p t (session_step s input event w))"
proof (cases event)
  case (Asked now candidates)
  obtain out w' where run: "PreferGatewayCandidatesWithAffinity s input now candidates w = (out, w')" by fastforce
  have "bindings_keyed w' \<and> account_ttl w' = account_ttl w"
    using prefer_frame [OF assms(1,3), of input now candidates] run by (simp add: binding_frame_def)
  moreover have "bound_until (svc_secretKey s) input p t w'"
    if step: "holder_step (account_ttl w) (keys_separate (svc_secretKey s) input) event holder = Some (p, t)" for p t
  proof -
    obtain p0 t0 where h: "holder = Some (p0, t0)" using step Asked by (cases holder) auto
    note bound = assms(4) [OF h]
    show ?thesis
    proof (cases "offers p0 candidates")
      case True
      then have "now < t0" "p = p0" "t = now + account_ttl w" using step Asked h by (auto split: if_splits)
      then show ?thesis using prefer_keeps [OF assms(1,2) bound _ True run] by simp
    next
      case False
      then have "now < t0" "p = p0" "t = t0" "length candidates < 2 \<or> keys_separate (svc_secretKey s) input"
        using step Asked h by (auto split: if_splits)
      then show ?thesis using prefer_passes [OF assms(1,3) bound _ False, of now] run by simp
    qed
  qed
  ultimately show ?thesis using Asked run by simp
next
  case (Served now provider)
  have "bound_until (svc_secretKey s) input p t (BindGatewayCandidateAffinity s input provider now w)"
    if step: "holder_step (account_ttl w) (keys_separate (svc_secretKey s) input) event holder = Some (p, t)" for p t
  proof (cases "sticky_provider provider")
    case True
    then have "p = provider" "t = now + bind_ttl provider w" using step Served by (auto simp: bind_ttl_def)
    then show ?thesis using bind_binds [OF assms(1,2) True] by simp
  next
    case False
    then have "holder = Some (p, t)" "TrimSpace (gp_ID provider) = [] \<or> keys_separate (svc_secretKey s) input"
      using step Served by (auto split: if_splits)
    then show ?thesis using bind_passes [OF assms(1-3) assms(4) False] by blast
  qed
  then show ?thesis using bind_frame [OF assms(1,3)] Served by simp
qed

lemma session_bound:
  assumes "svc_routingAffinityCoordinator s = None" "TrimSpace (gai_StickyKey input) \<noteq> []"
    and "bindings_keyed w" "\<And>p t. holder = Some (p, t) \<Longrightarrow> bound_until (svc_secretKey s) input p t w"
    and "fold (holder_step (account_ttl w) (keys_separate (svc_secretKey s) input)) events holder = Some (p, t)"
  shows "bound_until (svc_secretKey s) input p t (session_after s input events w)"
  using assms(3-5)
proof (induction events arbitrary: w holder)
  case (Cons event events)
  note step = holder_bound [OF assms(1,2) Cons.prems(1,2), where event = event]
  have "bound_until (svc_secretKey s) input p t (session_after s input events (session_step s input event w))"
    by (rule Cons.IH [of _ "holder_step (account_ttl w) (keys_separate (svc_secretKey s) input) event holder"])
      (use step Cons.prems(3) in simp_all)
  then show ?case by (simp add: session_after_def)
qed (simp add: session_after_def)

section \<open>Properties\<close>

text \<open>
  Neither effective pricing nor affinity drops, adds or changes a candidate: both only reorder the candidates, and mark the one
  they put first with the reason. The gateway applies them one after the other.
\<close>

lemma candidates_only_reordered:
  "reordered (OrderGatewayCandidatesByEffectivePricing secretKey now model protocol cohortKey candidates r) candidates
   \<and> reordered (fst (PreferGatewayCandidatesWithAffinity s input now
     (OrderGatewayCandidatesByEffectivePricing secretKey now model protocol cohortKey candidates r) w)) candidates"
proof
  show order: "reordered (OrderGatewayCandidatesByEffectivePricing secretKey now model protocol cohortKey candidates r) candidates"
    by (simp add: OrderGatewayCandidatesByEffectivePricing_def order_by_decisions_reordered)
  show "reordered (fst (PreferGatewayCandidatesWithAffinity s input now
      (OrderGatewayCandidatesByEffectivePricing secretKey now model protocol cohortKey candidates r) w)) candidates"
    by (rule reordered_trans [OF prefer_reordered order])
qed

text \<open>
  C19. When effective pricing changes the order, the account it puts first is the candidate of a decision on this model and protocol that
  is active, or in canary with this customer in its share, and the billing evidence of the account allows the switch.
\<close>

theorem price_order_is_justified:
  assumes "OrderGatewayCandidatesByEffectivePricing secretKey now model protocol cohortKey candidates r \<noteq> candidates"
  shows "\<exists>decision \<in> set (mvalues (effectivePricingDecisions r)).
     epd_Model decision = model \<and> epd_Protocol decision = protocol
     \<and> gp_AccountID (hd (OrderGatewayCandidatesByEffectivePricing secretKey now model protocol cohortKey candidates r))
         = epd_CandidateProviderAccountID decision
     \<and> (epd_Status decision = EffectivePricingDecisionActive
        \<or> epd_Status decision = EffectivePricingDecisionCanary
          \<and> inEffectivePricingCanary secretKey (epd_ID decision) cohortKey (epd_CanaryPercent decision))
     \<and> (\<forall>health. map_of (providerBillingRoutingHealthByAccount now r) (epd_CandidateProviderAccountID decision) = Some health
          \<longrightarrow> bh_EconomicSwitchEligible health)"
proof -
  let ?out = "order_by_decisions (decision_applies secretKey model protocol cohortKey) (providerBillingRoutingHealthByAccount now r)
      (list_decisions r) candidates"
  have out: "OrderGatewayCandidatesByEffectivePricing secretKey now model protocol cohortKey candidates r = ?out" "?out \<noteq> candidates"
    using assms by (auto simp: OrderGatewayCandidatesByEffectivePricing_def split: if_splits)
  from order_by_decisions_justified [OF out(2)] obtain decision where "decision \<in> set (list_decisions r)"
    "decision_applies secretKey model protocol cohortKey decision" "gp_AccountID (hd ?out) = epd_CandidateProviderAccountID decision"
    "economic_block (providerBillingRoutingHealthByAccount now r) (epd_CandidateProviderAccountID decision) = None" by blast
  then show ?thesis unfolding out(1)
    by (intro bexI [of _ decision]) (auto simp: decision_applies_def economic_block_None list_decisions_def)
qed

text \<open>
  C26. A session stays with its account, as long as no coordinator of several instances is configured and the policy does not change: in
  whatever order the session asks and is served, a request that comes before the time of its holder is over, and has the holder among several
  candidates, is sent to the holder first. The holder is the last sticky account that served the session, bound for the sticky time of its route, or
  of the policy; each request that finds it extends this to the time of the policy from then on, each further success binds anew.
\<close>

theorem session_stays_with_account:
  assumes "svc_routingAffinityCoordinator s = None" "TrimSpace (gai_StickyKey input) \<noteq> []" "bindings_keyed w"
    and "session_holder (account_ttl w) (keys_separate (svc_secretKey s) input) before = Some (provider, until)"
    and "now < until" "offers provider candidates"
  shows "same_account (hd (fst (PreferGatewayCandidatesWithAffinity s input now candidates (session_after s input before w)))) provider"
proof -
  have "bound_until (svc_secretKey s) input provider until (session_after s input before w)"
    using assms(4) by (intro session_bound [OF assms(1-3), of None]) (simp_all add: session_holder_def)
  then show ?thesis using prefer_keeps [OF assms(1,2) _ assms(5,6) prod.collapse [symmetric]] by simp
qed

section \<open>An example\<close>

definition ex_gp :: "string \<Rightarrow> int GatewayProvider" where
  "ex_gp account =
     \<lparr>gp_AttemptID = [], gp_ID = ''prov'', gp_Name = [], gp_Type = [], gp_BaseURL = [], gp_APIKey = [], gp_AuthType = [],
      gp_AdapterConfig = [], gp_AdapterID = [], gp_AccountID = account, gp_AccountName = [], gp_Concurrency = 0, gp_GatewayModelID = [],
      gp_RequestedModel = [], gp_UpstreamModel = ''m'', gp_UpstreamFormat = [], gp_RouteID = ''r'', gp_RouteGroup = [],
      gp_RoutePriority = 0, gp_RouteWeight = 0, gp_AccountWeight = 0, gp_RPMLimit = 0, gp_TPMLimit = 0, gp_CircuitState = [],
      gp_CircuitProbe = False, gp_Headroom = 0, gp_StickyEnabled = True, gp_StickyTTLSeconds = 10, gp_Source = [],
      gp_SelectionReason = []\<rparr>"

definition ex_candidates :: "int GatewayProvider list" where
  "ex_candidates = [ex_gp ''a'', ex_gp ''b'']"

definition ex_prices :: "int pricing_maps" where
  "ex_prices = SaveEffectivePricingDecision ((zero_EffectivePricingDecision 0)\<lparr>epd_ID := ''d'', epd_Model := ''m'', epd_Protocol := ''p'',
     epd_CandidateProviderAccountID := ''b'', epd_Status := EffectivePricingDecisionActive\<rparr>) new_pricing_maps"

theorem price_order_is_justified_witness:
  "\<exists>decision \<in> set (mvalues (effectivePricingDecisions ex_prices)). epd_Model decision = ''m'' \<and> epd_Protocol decision = ''p''
     \<and> gp_AccountID (hd (OrderGatewayCandidatesByEffectivePricing [] 0 ''m'' ''p'' ''c'' ex_candidates ex_prices))
         = epd_CandidateProviderAccountID decision"
proof -
  have "map gp_AccountID (OrderGatewayCandidatesByEffectivePricing [] 0 ''m'' ''p'' ''c'' ex_candidates ex_prices) = [''b'', ''a'']"
    by code_simp
  then have "OrderGatewayCandidatesByEffectivePricing [] 0 ''m'' ''p'' ''c'' ex_candidates ex_prices \<noteq> ex_candidates"
    by (auto simp: ex_candidates_def ex_gp_def)
  from price_order_is_justified [OF this] show ?thesis by blast
qed

lemma canary_mono_witness: "inEffectivePricingCanary ''secret'' ''d'' ''customer'' 120"
proof (rule canary_mono)
  have "TrimSpace ''customer'' \<noteq> []" by code_simp
  then show "inEffectivePricingCanary ''secret'' ''d'' ''customer'' 100" by (simp add: inEffectivePricingCanary_def)
qed simp

definition ex_session :: GatewayAffinityInput where
  "ex_session = (canary_input ''cred'' ''session'')"

definition ex_service :: "unit AffinityService" where
  "ex_service = \<lparr>svc_secretKey = ''secret'', svc_routingAffinityCoordinator = None\<rparr>"

definition ex_world :: "(int, unit) routing_world" where
  "ex_world = \<lparr>rw_maps = new_pricing_maps, rw_coordinator = ()\<rparr>"

definition ex_events :: "int session_event list" where
  "ex_events = [Served 0 (ex_gp ''b''), Asked (5 * Second) ex_candidates, Served (6 * Second) (ex_gp ''b''),
     Asked (10 * Second) ex_candidates]"

text \<open>The route binds for ten seconds, the policy for half an hour: the last request extends the binding to the time of the policy.\<close>

lemma ex_session_facts:
  "TrimSpace (gai_StickyKey ex_session) \<noteq> []" "offers (ex_gp ''b'') ex_candidates" "bindings_keyed ex_world"
  "session_holder (account_ttl ex_world) separate ex_events = Some (ex_gp ''b'', 10 * Second + 30 * Minute)"
proof -
  show "TrimSpace (gai_StickyKey ex_session) \<noteq> []" by code_simp
  show offer: "offers (ex_gp ''b'') ex_candidates" by code_simp
  show "bindings_keyed ex_world" by (simp add: bindings_keyed_def ex_world_def new_pricing_maps_def)
  have ttl: "account_ttl ex_world = 30 * Minute" and sticky: "sticky_provider (ex_gp ''b'')" by code_simp+
  have "gp_StickyTTLSeconds (ex_gp ''b'') = 10" by (simp add: ex_gp_def)
  moreover have "wrap64 (10 * Second) = 10 * Second" "(0::int) < 5 * Second" "5 * Second < (10 * Second :: int)" "10 * Second < (16 * Second :: int)"
    by code_simp+
  ultimately show "session_holder (account_ttl ex_world) separate ex_events = Some (ex_gp ''b'', 10 * Second + 30 * Minute)"
    using offer ttl sticky by (simp add: session_holder_def ex_events_def)
qed

theorem session_stays_with_account_witness:
  "same_account (hd (fst (PreferGatewayCandidatesWithAffinity ex_service ex_session (20 * Minute) ex_candidates
     (session_after ex_service ex_session ex_events ex_world)))) (ex_gp ''b'')"
proof (rule session_stays_with_account)
  show "20 * Minute < (10 * Second + 30 * Minute :: int)" by code_simp
  show "svc_routingAffinityCoordinator ex_service = None" by (simp add: ex_service_def)
qed (fact ex_session_facts)+

end
