(* ===== verification/Dispatch_Service.thy ===== *)
theory Dispatch_Service
  imports Operation_Repo Routing_Model
begin

text \<open>
  The dispatch of an attempt to its provider (\<open>operation_service.go\<close>, \<open>provider_dispatch.go\<close>): the intent is stored before the provider
  is asked, the submission is recorded before the call, the task of the provider is bound to the attempt, and what was not answered is
  reconciled. A service method reads the attempt and writes it back later with the version it read; its part after the read has a name of
  its own (\<open>..._read\<close>), for the interleavings. The provider and the decoding of JSON are parameters.
\<close>

section \<open>Values\<close>

definition ErrAIAttemptRequiresReconciliation :: go_error where
  "ErrAIAttemptRequiresReconciliation = errors_New ''ai attempt requires provider reconciliation''"

definition ProviderDispatchOutcomeAccepted :: string where
  "ProviderDispatchOutcomeAccepted = ''accepted''"
definition ProviderDispatchOutcomeUnknown :: string where
  "ProviderDispatchOutcomeUnknown = ''unknown''"
definition ProviderDispatchOutcomeProvenNotCreated :: string where
  "ProviderDispatchOutcomeProvenNotCreated = ''proven_not_created''"
definition providerDispatchDefaultReconcileDelay :: duration where
  "providerDispatchDefaultReconcileDelay = Minute"

record ProviderDispatchIntent =
  pdi_Version :: int
  pdi_AttemptID :: string
  pdi_OperationID :: string
  pdi_DispatchKey :: string
  pdi_RequestFingerprint :: string
  pdi_ProviderID :: string
  pdi_ProviderAccountID :: string
  pdi_ProviderAdapterID :: string
  pdi_RouteID :: string
  pdi_UpstreamModel :: string

record ProviderDispatchCommand =
  pdc_Intent :: ProviderDispatchIntent
  pdc_Payload :: string

record ProviderProgressObservation =
  ppo_Sequence :: int
  ppo_Percent :: "int option"
  ppo_Stage :: string

record ProviderOutputDescriptor =
  pod_OutputID :: string
  pod_Role :: string
  pod_MediaType :: string
  pod_ExpectedSizeBytes :: int
  pod_ExpectedSHA256 :: string
  pod_ProviderReference :: string
  pod_PersistentReference :: bool

record ProviderBillingObservation =
  pbo_Status :: string
  pbo_ProcurementCostMicros :: "int option"
  pbo_Currency :: string
  pbo_Source :: string
  pbo_Confidence :: string
  pbo_PriceID :: string
  pbo_ProviderBillingLineID :: string

record ProviderDispatchResult =
  pdr_Outcome :: string
  pdr_Task :: ProviderTaskReference
  pdr_Progress :: "ProviderProgressObservation option"
  pdr_Outputs :: "ProviderOutputDescriptor list"
  pdr_UsageDimensions :: UsageDimensions
  pdr_Billing :: ProviderBillingObservation
  pdr_ReconcileAfter :: gotime

definition zero_ProviderDispatchResult :: ProviderDispatchResult where
  "zero_ProviderDispatchResult =
     \<lparr>pdr_Outcome = [], pdr_Task = zero_ProviderTaskReference, pdr_Progress = None, pdr_Outputs = [], pdr_UsageDimensions = [],
      pdr_Billing = \<lparr>pbo_Status = [], pbo_ProcurementCostMicros = None, pbo_Currency = [], pbo_Source = [], pbo_Confidence = [],
        pbo_PriceID = [], pbo_ProviderBillingLineID = []\<rparr>, pdr_ReconcileAfter = 0\<rparr>"

text \<open>\<open>json.Marshal\<close> of an intent.\<close>

definition intent_json :: "ProviderDispatchIntent \<Rightarrow> string" where
  "intent_json intent = json_object
     [(''version'', Itoa (pdi_Version intent)), (''attempt_id'', json_string (pdi_AttemptID intent)),
      (''operation_id'', json_string (pdi_OperationID intent)), (''dispatch_key'', json_string (pdi_DispatchKey intent)),
      (''request_fingerprint'', json_string (pdi_RequestFingerprint intent)), (''provider_id'', json_string (pdi_ProviderID intent)),
      (''provider_account_id'', json_string (pdi_ProviderAccountID intent)),
      (''provider_adapter_id'', json_string (pdi_ProviderAdapterID intent)), (''route_id'', json_string (pdi_RouteID intent)),
      (''upstream_model'', json_string (pdi_UpstreamModel intent))]"

text \<open>\<open>errors.Join\<close> of errors some of which may be absent; the wrapped error kept is the first.\<close>

definition errors_Joins :: "go_error option list \<Rightarrow> go_error option" where
  "errors_Joins errs = (let present = List.map_filter id errs in
     if present = [] then None else Some (ForeignError (strings_Join (map go_error_text present) NL) (Some (hd present))))"

text \<open>What the clock and the random source give to one method, in the order of their use.\<close>

record dispatch_env =
  de_random :: string
  de_terminal :: gotime
  de_delay :: gotime
  de_now :: gotime
  de_completed :: gotime

section \<open>The status of a task of the provider\<close>

definition canonicalProviderTaskStatus :: "string \<Rightarrow> string" where
  "canonicalProviderTaskStatus status =
     (let s = ToLower (TrimSpace status)
      in if s = ''completed'' then ''succeeded'' else if s = ''error'' then ''failed'' else if s = ''cancelled'' then ''canceled'' else s)"

definition providerTaskStatusRank :: "string \<Rightarrow> int" where
  "providerTaskStatusRank status =
     (let s = canonicalProviderTaskStatus status
      in if s \<in> {''succeeded'', ''failed'', ''canceled''} then 4 else if s = ''processing'' then 3 else if s = ''running'' then 2
         else if s \<in> {''queued'', ''accepted''} then 1 else 0)"

definition providerTaskStatusStale :: "string \<Rightarrow> string \<Rightarrow> bool" where
  "providerTaskStatusStale current0 next0 =
     (let current = canonicalProviderTaskStatus current0; nxt = canonicalProviderTaskStatus next0
      in if current = [] \<or> nxt = [] \<or> current = nxt then False
         else if current = ''unknown'' then False
         else if nxt = ''unknown'' then True
         else if providerTaskStatusRank current = 4 then True
         else providerTaskStatusRank nxt < providerTaskStatusRank current)"

definition isDurableProviderTerminalStatus :: "string \<Rightarrow> bool" where
  "isDurableProviderTerminalStatus status =
     oneOf status [''succeeded'', ''completed'', ''failed'', ''error'', ''canceled'', ''cancelled'']"

section \<open>Begin and prepare\<close>

definition sameAIAttemptProvider :: "AIAttempt \<Rightarrow> AIAttempt \<Rightarrow> bool" where
  "sameAIAttemptProvider left right \<longleftrightarrow> att_OperationID left = att_OperationID right \<and> att_AttemptNumber left = att_AttemptNumber right
     \<and> att_ProviderID left = att_ProviderID right \<and> att_ProviderAccountID left = att_ProviderAccountID right
     \<and> att_RouteID left = att_RouteID right \<and> att_UpstreamModel left = att_UpstreamModel right"

definition new_attempt :: "dispatch_env \<Rightarrow> string \<Rightarrow> int \<Rightarrow> 'f GatewayProvider \<Rightarrow> AIAttempt" where
  "new_attempt env operationID attemptNumber provider =
     (let ident = ''attempt_'' @ de_random env in zero_AIAttempt
       \<lparr>att_ID := ident, att_OperationID := TrimSpace operationID, att_AttemptNumber := attemptNumber, att_ProviderID := gp_ID provider,
        att_ProviderAccountID := gp_AccountID provider, att_ProviderAdapterID := gp_AdapterID provider, att_RouteID := gp_RouteID provider,
        att_UpstreamModel := gp_UpstreamModel provider, att_Status := AIAttemptStatusRunning, att_DispatchState := AIAttemptDispatchPending,
        att_CreatedAt := de_now env, att_UpdatedAt := de_now env, att_DispatchKey := ident\<rparr>)"

definition BeginAIAttempt ::
  "dispatch_env \<Rightarrow> string \<Rightarrow> int \<Rightarrow> 'f GatewayProvider \<Rightarrow> MemoryRepository \<Rightarrow> (go_error + AIAttempt) \<times> MemoryRepository" where
  "BeginAIAttempt env operationID attemptNumber provider r =
     (if TrimSpace operationID = [] \<or> attemptNumber \<le> 0
      then (Inl (errors_New ''operation id and positive attempt number are required''), r)
      else let attempt = new_attempt env operationID attemptNumber provider
           in case CreateOrGetAIAttempt attempt r of
                ((stored, created, Some err), r) \<Rightarrow> (Inl err, r)
              | ((stored, created, None), r) \<Rightarrow>
                  if \<not> created \<and> \<not> sameAIAttemptProvider stored attempt then (Inl ErrAIAttemptDispatchConflict, r) else (Inr stored, r))"

definition dispatch_intent :: "AIAttempt \<Rightarrow> AIOperation \<Rightarrow> ProviderDispatchIntent" where
  "dispatch_intent attempt operation =
     \<lparr>pdi_Version = 1, pdi_AttemptID = att_ID attempt, pdi_OperationID = att_OperationID attempt, pdi_DispatchKey = att_DispatchKey attempt,
      pdi_RequestFingerprint = op_RequestFingerprint operation, pdi_ProviderID = att_ProviderID attempt,
      pdi_ProviderAccountID = att_ProviderAccountID attempt, pdi_ProviderAdapterID = att_ProviderAdapterID attempt,
      pdi_RouteID = att_RouteID attempt, pdi_UpstreamModel = att_UpstreamModel attempt\<rparr>"

type_synonym attempt_update = "(AIAttempt \<times> bool \<times> go_error option) \<times> MemoryRepository"

definition prepare_read :: "gotime \<Rightarrow> AIAttempt \<Rightarrow> AIOperation \<Rightarrow> MemoryRepository \<Rightarrow> attempt_update" where
  "prepare_read now attempt operation r =
     (let payload = intent_json (dispatch_intent attempt operation)
      in if att_DispatchState attempt \<noteq> AIAttemptDispatchPending \<or> att_DispatchIntentJSON attempt \<noteq> []
         then (if att_DispatchIntentJSON attempt = payload then ((attempt, False, None), r)
               else ((zero_AIAttempt, False, Some ErrAIAttemptDispatchConflict), r))
         else if att_Status attempt \<noteq> AIAttemptStatusRunning
         then ((zero_AIAttempt, False, Some ErrAIAttemptDispatchState), r)
         else
           let requested = attempt\<lparr>att_DispatchState := AIAttemptDispatchPrepared, att_DispatchIntentJSON := payload, att_UpdatedAt := now\<rparr>
           in case UpdateAIAttemptDispatch requested (att_DispatchVersion attempt) r of
                ((updated, changed, Some err), r) \<Rightarrow> ((zero_AIAttempt, False, Some err), r)
              | ((updated, changed, None), r) \<Rightarrow>
                  if \<not> changed then
                    (if att_DispatchIntentJSON updated = payload \<and> att_DispatchKey updated = att_DispatchKey attempt
                        \<and> att_DispatchState updated \<noteq> AIAttemptDispatchPending
                     then ((updated, False, None), r) else ((updated, False, Some ErrAIAttemptDispatchState), r))
                  else ((updated, True, None), r))"

definition PrepareAIAttemptDispatch :: "dispatch_env \<Rightarrow> string \<Rightarrow> MemoryRepository \<Rightarrow> attempt_update" where
  "PrepareAIAttemptDispatch env attemptID r =
     (case FindAIAttempt (TrimSpace attemptID) r of
        None \<Rightarrow> ((zero_AIAttempt, False, Some ErrAIAttemptNotFound), r)
      | Some attempt \<Rightarrow>
          (case FindAIOperation (att_OperationID attempt) r of
             None \<Rightarrow> ((zero_AIAttempt, False, Some (existing_err ''ai operation'' (att_OperationID attempt) ''not found'')), r)
           | Some operation \<Rightarrow> prepare_read (de_now env) attempt operation r))"

section \<open>Submission, task and reconciliation\<close>

definition updateAIAttemptDispatch :: "AIAttempt \<Rightarrow> int \<Rightarrow> MemoryRepository \<Rightarrow> attempt_update" where
  "updateAIAttemptDispatch requested expectedVersion r =
     (case UpdateAIAttemptDispatch requested expectedVersion r of
        ((updated, changed, Some err), r) \<Rightarrow> ((zero_AIAttempt, False, Some err), r)
      | ((updated, changed, None), r) \<Rightarrow>
          if \<not> changed then ((updated, False, Some ErrAIAttemptDispatchState), r) else ((updated, True, None), r))"

text \<open>Every method on a known attempt begins with the same read.\<close>

definition with_attempt :: "string \<Rightarrow> (AIAttempt \<Rightarrow> MemoryRepository \<Rightarrow> attempt_update) \<Rightarrow> MemoryRepository \<Rightarrow> attempt_update" where
  "with_attempt attemptID act r =
     (case FindAIAttempt (TrimSpace attemptID) r of
        None \<Rightarrow> ((zero_AIAttempt, False, Some ErrAIAttemptNotFound), r) | Some attempt \<Rightarrow> act attempt r)"

definition or_now :: "gotime \<Rightarrow> gotime \<Rightarrow> gotime" where
  "or_now at now = (if at = 0 then now else at)"

definition submit_read :: "gotime \<Rightarrow> int \<Rightarrow> gotime \<Rightarrow> AIAttempt \<Rightarrow> MemoryRepository \<Rightarrow> attempt_update" where
  "submit_read now expectedVersion reconcileAfter attempt r =
     (if oneOf (att_DispatchState attempt) [AIAttemptDispatchSubmitted, AIAttemptDispatchAccepted, AIAttemptDispatchUnknown]
         \<and> att_DispatchSubmittedAt attempt \<noteq> None
      then ((attempt, False, None), r)
      else if att_DispatchState attempt \<noteq> AIAttemptDispatchPrepared \<or> att_DispatchVersion attempt \<noteq> expectedVersion
      then ((attempt, False, Some ErrAIAttemptDispatchState), r)
      else updateAIAttemptDispatch (attempt\<lparr>att_DispatchState := AIAttemptDispatchSubmitted, att_DispatchSubmittedAt := Some now,
             att_ReconcileAfter := Some (or_now reconcileAfter now), att_UpdatedAt := now\<rparr>) expectedVersion r)"

definition MarkAIAttemptDispatchSubmitted :: "dispatch_env \<Rightarrow> string \<Rightarrow> int \<Rightarrow> gotime \<Rightarrow> MemoryRepository \<Rightarrow> attempt_update" where
  "MarkAIAttemptDispatchSubmitted env attemptID expectedVersion reconcileAfter =
     with_attempt attemptID (submit_read (de_now env) expectedVersion reconcileAfter)"

definition trim_reference :: "ProviderTaskReference \<Rightarrow> ProviderTaskReference" where
  "trim_reference reference = reference\<lparr>task_ProviderTaskID := TrimSpace (task_ProviderTaskID reference),
     task_ProviderRequestID := TrimSpace (task_ProviderRequestID reference), task_Status := TrimSpace (task_Status reference)\<rparr>"

definition bind_read :: "gotime \<Rightarrow> int \<Rightarrow> ProviderTaskReference \<Rightarrow> gotime \<Rightarrow> AIAttempt \<Rightarrow> MemoryRepository \<Rightarrow> attempt_update" where
  "bind_read now expectedVersion reference reconcileAfter attempt r =
     (if att_ProviderTaskID attempt \<noteq> [] \<and> (att_ProviderTaskID attempt \<noteq> task_ProviderTaskID reference
           \<or> att_ProviderRequestID attempt \<noteq> task_ProviderRequestID reference)
      then ((attempt, False, Some ErrAIAttemptDispatchConflict), r)
      else if att_ProviderTaskID attempt \<noteq> [] \<and> (providerTaskStatusStale (att_ProviderTaskStatus attempt) (task_Status reference)
           \<or> att_DispatchState attempt \<noteq> AIAttemptDispatchUnknown)
      then ((attempt, False, None), r)
      else if \<not> oneOf (att_DispatchState attempt) [AIAttemptDispatchSubmitted, AIAttemptDispatchUnknown]
           \<or> att_DispatchVersion attempt \<noteq> expectedVersion
      then ((attempt, False, Some ErrAIAttemptDispatchState), r)
      else updateAIAttemptDispatch (attempt\<lparr>att_DispatchState := AIAttemptDispatchAccepted,
             att_ProviderTaskID := task_ProviderTaskID reference, att_ProviderRequestID := task_ProviderRequestID reference,
             att_ProviderTaskStatus := (if task_Status reference = [] then ''accepted'' else task_Status reference),
             att_ProviderAcceptedAt := Some (or_now (task_AcceptedAt reference) now), att_LastReconciledAt := Some now,
             att_ReconcileAfter := Some (or_now reconcileAfter now), att_UpdatedAt := now\<rparr>) expectedVersion r)"

definition BindAIAttemptProviderTask ::
  "dispatch_env \<Rightarrow> string \<Rightarrow> int \<Rightarrow> ProviderTaskReference \<Rightarrow> gotime \<Rightarrow> MemoryRepository \<Rightarrow> attempt_update" where
  "BindAIAttemptProviderTask env attemptID expectedVersion reference0 reconcileAfter r =
     (let reference = trim_reference reference0
      in if task_ProviderTaskID reference = [] then ((zero_AIAttempt, False, Some (errors_New ''provider task id is required'')), r)
         else with_attempt attemptID (bind_read (de_now env) expectedVersion reference reconcileAfter) r)"

definition unknown_read :: "gotime \<Rightarrow> int \<Rightarrow> gotime \<Rightarrow> AIAttempt \<Rightarrow> MemoryRepository \<Rightarrow> attempt_update" where
  "unknown_read now expectedVersion reconcileAfter attempt r =
     (if att_DispatchState attempt = AIAttemptDispatchUnknown then ((attempt, False, None), r)
      else if \<not> oneOf (att_DispatchState attempt) [AIAttemptDispatchSubmitted, AIAttemptDispatchAccepted]
           \<or> att_DispatchVersion attempt \<noteq> expectedVersion
      then ((attempt, False, Some ErrAIAttemptDispatchState), r)
      else updateAIAttemptDispatch (attempt\<lparr>att_DispatchState := AIAttemptDispatchUnknown, att_ProviderTaskStatus := ''unknown'',
             att_LastReconciledAt := Some now, att_ReconcileAfter := Some (or_now reconcileAfter now), att_UpdatedAt := now\<rparr>)
             expectedVersion r)"

definition MarkAIAttemptDispatchUnknown :: "dispatch_env \<Rightarrow> string \<Rightarrow> int \<Rightarrow> gotime \<Rightarrow> MemoryRepository \<Rightarrow> attempt_update" where
  "MarkAIAttemptDispatchUnknown env attemptID expectedVersion reconcileAfter =
     with_attempt attemptID (unknown_read (de_now env) expectedVersion reconcileAfter)"

definition record_read :: "gotime \<Rightarrow> int \<Rightarrow> string \<Rightarrow> gotime \<Rightarrow> AIAttempt \<Rightarrow> MemoryRepository \<Rightarrow> attempt_update" where
  "record_read now expectedVersion providerStatus reconcileAfter attempt r =
     (if \<not> oneOf (att_DispatchState attempt) [AIAttemptDispatchSubmitted, AIAttemptDispatchAccepted, AIAttemptDispatchUnknown]
           \<or> att_DispatchVersion attempt \<noteq> expectedVersion
      then ((attempt, False, Some ErrAIAttemptDispatchState), r)
      else if providerTaskStatusStale (att_ProviderTaskStatus attempt) providerStatus then ((attempt, False, None), r)
      else updateAIAttemptDispatch (attempt\<lparr>att_ProviderTaskStatus := TrimSpace providerStatus, att_LastReconciledAt := Some now,
             att_ReconcileAfter := Some (or_now reconcileAfter now), att_UpdatedAt := now\<rparr>) expectedVersion r)"

definition RecordAIAttemptReconciliation ::
  "dispatch_env \<Rightarrow> string \<Rightarrow> int \<Rightarrow> string \<Rightarrow> gotime \<Rightarrow> MemoryRepository \<Rightarrow> attempt_update" where
  "RecordAIAttemptReconciliation env attemptID expectedVersion providerStatus reconcileAfter =
     with_attempt attemptID (record_read (de_now env) expectedVersion providerStatus reconcileAfter)"

definition CompleteAttempt :: "gotime \<Rightarrow> string \<Rightarrow> string \<Rightarrow> string \<Rightarrow> MemoryRepository \<Rightarrow> go_error option \<times> MemoryRepository" where
  "CompleteAttempt now attemptID status errorType r =
     (if \<not> oneOf status [AIAttemptStatusSucceeded, AIAttemptStatusFailed, AIAttemptStatusSkipped, AIAttemptStatusCanceled]
      then (Some (errors_New ''invalid ai attempt terminal status''), r)
      else case CompleteAIAttempt (TrimSpace attemptID) status (TrimSpace errorType) now r of
             (updated, r) \<Rightarrow> (if \<not> updated then Some (errors_New ''ai attempt is not running'') else None, r))"

text \<open>The proof that the provider did not create the task: first the dispatch state, then the end of the attempt.\<close>

definition prove_read :: "gotime \<Rightarrow> int \<Rightarrow> AIAttempt \<Rightarrow> MemoryRepository \<Rightarrow> attempt_update" where
  "prove_read now expectedVersion attempt r =
     (if att_ProviderTaskID attempt \<noteq> [] then ((attempt, False, Some ErrAIAttemptDispatchConflict), r)
      else if att_DispatchState attempt = AIAttemptDispatchProvenNotCreated then ((attempt, False, None), r)
      else if \<not> oneOf (att_DispatchState attempt) [AIAttemptDispatchPrepared, AIAttemptDispatchSubmitted, AIAttemptDispatchUnknown]
           \<or> att_DispatchVersion attempt \<noteq> expectedVersion
      then ((attempt, False, Some ErrAIAttemptDispatchState), r)
      else updateAIAttemptDispatch (attempt\<lparr>att_DispatchState := AIAttemptDispatchProvenNotCreated,
             att_ProviderTaskStatus := AIAttemptDispatchProvenNotCreated, att_LastReconciledAt := Some now, att_ReconcileAfter := None,
             att_UpdatedAt := now\<rparr>) expectedVersion r)"

definition ProveAIAttemptNotCreated :: "dispatch_env \<Rightarrow> string \<Rightarrow> int \<Rightarrow> MemoryRepository \<Rightarrow> attempt_update" where
  "ProveAIAttemptNotCreated env attemptID expectedVersion r =
     (case with_attempt attemptID (prove_read (de_now env) expectedVersion) r of
        ((attempt, changed, Some err), r) \<Rightarrow> ((attempt, False, Some err), r)
      | ((attempt, changed, None), r) \<Rightarrow>
          if att_Status attempt = AIAttemptStatusRunning
          then (case CompleteAttempt (de_completed env) (att_ID attempt) AIAttemptStatusSkipped AIAttemptDispatchProvenNotCreated r of
                  (Some err, r) \<Rightarrow> ((attempt, changed, Some err), r)
                | (None, r) \<Rightarrow> ((case FindAIAttempt (att_ID attempt) r of None \<Rightarrow> zero_AIAttempt | Some a \<Rightarrow> a, changed, None), r))
          else ((attempt, changed, None), r))"

section \<open>One dispatch, one reconciliation\<close>

definition providerDispatchIntentFromAttempt ::
  "(string \<Rightarrow> go_error + ProviderDispatchIntent) \<Rightarrow> AIAttempt \<Rightarrow> go_error + ProviderDispatchIntent" where
  "providerDispatchIntentFromAttempt decode attempt =
     (case decode (att_DispatchIntentJSON attempt) of
        Inl err \<Rightarrow> Inl (errors_Prefix ''decode provider dispatch intent'' err)
      | Inr intent \<Rightarrow>
          if pdi_Version intent \<noteq> 1 \<or> pdi_AttemptID intent \<noteq> att_ID attempt \<or> pdi_OperationID intent \<noteq> att_OperationID attempt
            \<or> pdi_DispatchKey intent \<noteq> att_DispatchKey attempt \<or> pdi_ProviderID intent \<noteq> att_ProviderID attempt
            \<or> pdi_ProviderAccountID intent \<noteq> att_ProviderAccountID attempt \<or> pdi_RouteID intent \<noteq> att_RouteID attempt
            \<or> pdi_UpstreamModel intent \<noteq> att_UpstreamModel attempt \<or> pdi_RequestFingerprint intent = []
          then Inl ErrAIAttemptDispatchConflict
          else if pdi_ProviderAdapterID intent \<noteq> att_ProviderAdapterID attempt then Inl ErrAIAttemptDispatchConflict
          else Inr intent)"

definition next_reconciliation :: "dispatch_env \<Rightarrow> ProviderDispatchResult \<Rightarrow> gotime" where
  "next_reconciliation env result =
     (let nxt = (if pdr_Outcome result = ProviderDispatchOutcomeAccepted
                   \<and> isDurableProviderTerminalStatus (ToLower (TrimSpace (task_Status (pdr_Task result))))
                 then de_terminal env else pdr_ReconcileAfter result)
      in if nxt = 0 then de_delay env + providerDispatchDefaultReconcileDelay else nxt)"

text \<open>The first two methods that a result leads to use the clock of \<open>env\<close>, a third one \<open>env2\<close>.\<close>

definition resolveProviderDispatchResult ::
  "dispatch_env \<Rightarrow> dispatch_env \<Rightarrow> AIAttempt \<Rightarrow> ProviderDispatchResult \<Rightarrow> MemoryRepository \<Rightarrow> (AIAttempt \<times> go_error option) \<times> MemoryRepository" where
  "resolveProviderDispatchResult env env2 attempt result r =
     (let nxt = next_reconciliation env result; ident = att_ID attempt; version = att_DispatchVersion attempt;
          unknown = (\<lambda>more. case MarkAIAttemptDispatchUnknown env ident version nxt r of
            ((updated, _, err), r) \<Rightarrow> ((updated, errors_Joins (Some ErrAIAttemptRequiresReconciliation # more @ [err])), r))
      in if pdr_Outcome result = ProviderDispatchOutcomeAccepted then
           (if task_ProviderTaskID (pdr_Task result) = []
            then unknown [Some (errors_New ''accepted provider dispatch result requires a task id'')]
            else case BindAIAttemptProviderTask env ident version (pdr_Task result) nxt r of
                   ((updated, changed, err), r) \<Rightarrow>
                     if err \<noteq> None \<or> changed then ((updated, err), r)
                     else (case RecordAIAttemptReconciliation env2 ident (att_DispatchVersion updated) (task_Status (pdr_Task result)) nxt r of
                             ((updated, _, err), r) \<Rightarrow> ((updated, err), r)))
         else if pdr_Outcome result = ProviderDispatchOutcomeProvenNotCreated then
           (case ProveAIAttemptNotCreated env ident version r of ((updated, _, err), r) \<Rightarrow> ((updated, err), r))
         else if pdr_Outcome result = ProviderDispatchOutcomeUnknown \<or> pdr_Outcome result = [] then
           (if att_DispatchState attempt = AIAttemptDispatchUnknown
            then (case RecordAIAttemptReconciliation env ident version ''unknown'' nxt r of
                    ((updated, _, err), r) \<Rightarrow> ((updated, errors_Joins [Some ErrAIAttemptRequiresReconciliation, err]), r))
            else unknown [])
         else unknown [Some (errors_New (''invalid provider dispatch outcome '' @ go_quote (pdr_Outcome result)))])"

definition resolved ::
  "ProviderDispatchResult \<Rightarrow> go_error option \<Rightarrow> (AIAttempt \<times> go_error option) \<times> MemoryRepository
     \<Rightarrow> (AIAttempt \<times> ProviderDispatchResult \<times> go_error option) \<times> MemoryRepository" where
  "resolved result providerErr out =
     (case out of ((updated, resolveErr), r) \<Rightarrow>
        ((updated, result,
          (if providerErr \<noteq> None then errors_Joins [Some ErrAIAttemptRequiresReconciliation, providerErr, resolveErr] else resolveErr)), r))"

text \<open>The result comes with the command that the provider was given, if it was asked.\<close>

definition ExecuteAIAttemptDispatch ::
  "(string \<Rightarrow> go_error + ProviderDispatchIntent) \<Rightarrow> (nat \<Rightarrow> dispatch_env)
     \<Rightarrow> (ProviderDispatchCommand \<Rightarrow> ProviderDispatchResult \<times> go_error option) option \<Rightarrow> string \<Rightarrow> string \<Rightarrow> MemoryRepository
     \<Rightarrow> (AIAttempt \<times> ProviderDispatchResult \<times> go_error option) \<times> ProviderDispatchCommand option \<times> MemoryRepository" where
  "ExecuteAIAttemptDispatch decode envs executor attemptID payload r =
     (case executor of
        None \<Rightarrow> ((zero_AIAttempt, zero_ProviderDispatchResult, Some (errors_New ''provider dispatch executor is required'')), None, r)
      | Some dispatch \<Rightarrow>
          (case PrepareAIAttemptDispatch (envs 0) attemptID r of
             ((_, _, Some err), r) \<Rightarrow> ((zero_AIAttempt, zero_ProviderDispatchResult, Some err), None, r)
           | ((prepared, _, None), r) \<Rightarrow>
               (case providerDispatchIntentFromAttempt decode prepared of
                  Inl err \<Rightarrow> ((prepared, zero_ProviderDispatchResult, Some err), None, r)
                | Inr intent \<Rightarrow>
                    (case MarkAIAttemptDispatchSubmitted (envs 1) (att_ID prepared) (att_DispatchVersion prepared)
                            (de_delay (envs 1) + providerDispatchDefaultReconcileDelay) r of
                       ((submitted, _, Some err), r) \<Rightarrow> ((submitted, zero_ProviderDispatchResult, Some err), None, r)
                     | ((submitted, False, None), r) \<Rightarrow>
                         ((submitted, zero_ProviderDispatchResult, Some ErrAIAttemptRequiresReconciliation), None, r)
                     | ((submitted, True, None), r) \<Rightarrow>
                         (let command = \<lparr>pdc_Intent = intent, pdc_Payload = payload\<rparr>
                          in case dispatch command of (result, dispatchErr) \<Rightarrow>
                               case resolved result dispatchErr (resolveProviderDispatchResult (envs 2) (envs 3) submitted result r) of
                                 (out, r) \<Rightarrow> (out, Some command, r))))))"

definition attempt_reference :: "AIAttempt \<Rightarrow> ProviderTaskReference" where
  "attempt_reference attempt =
     \<lparr>task_ProviderTaskID = att_ProviderTaskID attempt, task_ProviderRequestID = att_ProviderRequestID attempt,
      task_Status = att_ProviderTaskStatus attempt,
      task_AcceptedAt = (case att_ProviderAcceptedAt attempt of None \<Rightarrow> 0 | Some at \<Rightarrow> at)\<rparr>"

definition ReconcileAIAttemptDispatch ::
  "(string \<Rightarrow> go_error + ProviderDispatchIntent) \<Rightarrow> (nat \<Rightarrow> dispatch_env)
     \<Rightarrow> (ProviderDispatchIntent \<Rightarrow> ProviderTaskReference \<Rightarrow> ProviderDispatchResult \<times> go_error option) option \<Rightarrow> string \<Rightarrow> MemoryRepository
     \<Rightarrow> (AIAttempt \<times> ProviderDispatchResult \<times> go_error option) \<times> MemoryRepository" where
  "ReconcileAIAttemptDispatch decode envs reconciler attemptID r =
     (case reconciler of
        None \<Rightarrow> ((zero_AIAttempt, zero_ProviderDispatchResult, Some (errors_New ''provider task reconciler is required'')), r)
      | Some reconcile \<Rightarrow>
          (case FindAIAttempt (TrimSpace attemptID) r of
             None \<Rightarrow> ((zero_AIAttempt, zero_ProviderDispatchResult, Some ErrAIAttemptNotFound), r)
           | Some attempt \<Rightarrow>
               if \<not> oneOf (att_DispatchState attempt) [AIAttemptDispatchSubmitted, AIAttemptDispatchAccepted, AIAttemptDispatchUnknown]
               then ((attempt, zero_ProviderDispatchResult, Some ErrAIAttemptDispatchState), r)
               else (case providerDispatchIntentFromAttempt decode attempt of
                       Inl err \<Rightarrow> ((attempt, zero_ProviderDispatchResult, Some err), r)
                     | Inr intent \<Rightarrow>
                         (case reconcile intent (attempt_reference attempt) of (result, reconcileErr) \<Rightarrow>
                            resolved result reconcileErr (resolveProviderDispatchResult (envs 0) (envs 1) attempt result r)))))"

end
