(* ===== verification/Dispatch_Once.thy ===== *)
theory Dispatch_Once
  imports Dispatch_Service
begin

text \<open>
  Dispatch under interleaving: any number of workers read attempts, and write what the service decides on what they read, in any order;
  operations and attempts are created, attempts complete and reconciliations are scheduled in between. Whatever the order, a provider
  is asked at most once for an attempt, and what it answered stays with the attempt.
\<close>

section \<open>Runs\<close>

text \<open>
  The repository, the attempts that workers have read so far, the operations they have read with the keys they asked for, and the
  attempts for which a provider was asked.
\<close>

record dispatch_run =
  dr_repo :: MemoryRepository
  dr_reads :: "AIAttempt set"
  dr_operations :: "(string \<times> AIOperation) set"
  dr_sent :: "string list"

text \<open>
  A worker asks the provider when, and only when, its submission was stored. Whatever else happens in the repository leaves the
  attempts alone and keeps the operations with their fingerprints.
\<close>

definition fingerprints_kept :: "MemoryRepository \<Rightarrow> MemoryRepository \<Rightarrow> bool" where
  "fingerprints_kept r r' \<longleftrightarrow> (\<forall>k operation. map_of (aiOperations r) k = Some operation \<longrightarrow>
     (\<exists>operation'. map_of (aiOperations r') k = Some operation' \<and> op_RequestFingerprint operation' = op_RequestFingerprint operation))"

inductive dispatch_step :: "dispatch_run \<Rightarrow> dispatch_run \<Rightarrow> bool" where
  read_attempt: "FindAIAttempt ident (dr_repo d) = Some a \<Longrightarrow> dispatch_step d (d\<lparr>dr_reads := insert a (dr_reads d)\<rparr>)"
| read_operation: "FindAIOperation ident (dr_repo d) = Some operation
    \<Longrightarrow> dispatch_step d (d\<lparr>dr_operations := insert (ident, operation) (dr_operations d)\<rparr>)"
| begin_attempt: "BeginAIAttempt env operationID n (provider :: unit GatewayProvider) (dr_repo d) = (result, r') \<Longrightarrow> dispatch_step d (d\<lparr>dr_repo := r'\<rparr>)"
| prepare: "a \<in> dr_reads d \<Longrightarrow> (att_OperationID a, operation) \<in> dr_operations d
    \<Longrightarrow> prepare_read now a operation (dr_repo d) = (result, r') \<Longrightarrow> dispatch_step d (d\<lparr>dr_repo := r'\<rparr>)"
| submit: "a \<in> dr_reads d \<Longrightarrow> submit_read now version at a (dr_repo d) = ((updated, changed, err), r')
    \<Longrightarrow> dispatch_step d (d\<lparr>dr_repo := r', dr_sent := (if changed then att_ID a # dr_sent d else dr_sent d)\<rparr>)"
| bind: "a \<in> dr_reads d \<Longrightarrow> task_ProviderTaskID reference \<noteq> []
    \<Longrightarrow> bind_read now version reference at a (dr_repo d) = (result, r') \<Longrightarrow> dispatch_step d (d\<lparr>dr_repo := r'\<rparr>)"
| unknown: "a \<in> dr_reads d \<Longrightarrow> unknown_read now version at a (dr_repo d) = (result, r') \<Longrightarrow> dispatch_step d (d\<lparr>dr_repo := r'\<rparr>)"
| record_status: "a \<in> dr_reads d \<Longrightarrow> record_read now version status at a (dr_repo d) = (result, r')
    \<Longrightarrow> dispatch_step d (d\<lparr>dr_repo := r'\<rparr>)"
| prove: "a \<in> dr_reads d \<Longrightarrow> prove_read now version a (dr_repo d) = (result, r') \<Longrightarrow> dispatch_step d (d\<lparr>dr_repo := r'\<rparr>)"
| complete: "CompleteAttempt now ident status errorType (dr_repo d) = (err, r') \<Longrightarrow> dispatch_step d (d\<lparr>dr_repo := r'\<rparr>)"
| schedule: "ScheduleAIAttemptReconciliation ident version at audit (dr_repo d) = (result, r') \<Longrightarrow> dispatch_step d (d\<lparr>dr_repo := r'\<rparr>)"
| retry_delivery: "a \<in> dr_reads d
    \<Longrightarrow> ScheduleArtifactDeliveryRetry artifactID (a\<lparr>att_ReconcileAfter := Some now, att_UpdatedAt := now\<rparr>) (att_DispatchVersion a) audit
          (dr_repo d) = (result, r')
    \<Longrightarrow> dispatch_step d (d\<lparr>dr_repo := r'\<rparr>)"
| other: "aiAttempts r' = aiAttempts (dr_repo d) \<Longrightarrow> fingerprints_kept (dr_repo d) r' \<Longrightarrow> dispatch_step d (d\<lparr>dr_repo := r'\<rparr>)"

section \<open>One attempt\<close>

text \<open>What the state of an attempt says of its submission and its task.\<close>

definition dispatch_ok :: "AIAttempt \<Rightarrow> bool" where
  "dispatch_ok a \<longleftrightarrow>
     (att_DispatchState a = AIAttemptDispatchPending \<longrightarrow> att_DispatchIntentJSON a = [] \<and> att_DispatchSubmittedAt a = None)
     \<and> (att_DispatchState a = AIAttemptDispatchPrepared \<longrightarrow> att_DispatchSubmittedAt a = None)
     \<and> (oneOf (att_DispatchState a) [AIAttemptDispatchSubmitted, AIAttemptDispatchAccepted, AIAttemptDispatchUnknown]
          \<longrightarrow> att_DispatchSubmittedAt a \<noteq> None)
     \<and> oneOf (att_DispatchState a) [AIAttemptDispatchPending, AIAttemptDispatchPrepared, AIAttemptDispatchSubmitted,
          AIAttemptDispatchAccepted, AIAttemptDispatchUnknown, AIAttemptDispatchProvenNotCreated]
     \<and> (att_ProviderTaskID a \<noteq> [] \<longrightarrow> oneOf (att_DispatchState a) [AIAttemptDispatchAccepted, AIAttemptDispatchUnknown])"

definition same_dispatch :: "AIAttempt \<Rightarrow> AIAttempt \<Rightarrow> bool" where
  "same_dispatch a b \<longleftrightarrow> att_DispatchState a = att_DispatchState b \<and> att_DispatchIntentJSON a = att_DispatchIntentJSON b
     \<and> att_DispatchSubmittedAt a = att_DispatchSubmittedAt b \<and> att_ProviderTaskID a = att_ProviderTaskID b
     \<and> att_ProviderRequestID a = att_ProviderRequestID b"

text \<open>How an attempt may go on: what was decided stays, and nothing changes after its end.\<close>

definition same_identity :: "AIAttempt \<Rightarrow> AIAttempt \<Rightarrow> bool" where
  "same_identity a b \<longleftrightarrow> att_ID a = att_ID b \<and> sameAIAttemptProvider a b \<and> att_ProviderAdapterID a = att_ProviderAdapterID b
     \<and> att_DispatchKey a = att_DispatchKey b"

definition decided_kept :: "AIAttempt \<Rightarrow> AIAttempt \<Rightarrow> bool" where
  "decided_kept a b \<longleftrightarrow> (att_DispatchIntentJSON a \<noteq> [] \<longrightarrow> att_DispatchIntentJSON b = att_DispatchIntentJSON a)
     \<and> (att_DispatchSubmittedAt a \<noteq> None \<longrightarrow> att_DispatchSubmittedAt b = att_DispatchSubmittedAt a)
     \<and> (att_ProviderTaskID a \<noteq> [] \<longrightarrow> att_ProviderTaskID b = att_ProviderTaskID a \<and> att_ProviderRequestID b = att_ProviderRequestID a)"

definition goes_on :: "AIAttempt \<Rightarrow> AIAttempt \<Rightarrow> bool" where
  "goes_on a b \<longleftrightarrow> same_identity a b \<and> decided_kept a b
     \<and> att_DispatchVersion a \<le> att_DispatchVersion b \<and> (att_DispatchVersion a = att_DispatchVersion b \<longrightarrow> same_dispatch a b)
     \<and> (att_Status a \<noteq> AIAttemptStatusRunning \<longrightarrow> b = a)"

lemma same_refl [simp]: "same_identity a a" "decided_kept a a" "same_dispatch a a" "goes_on a a"
  by (simp_all add: goes_on_def same_identity_def decided_kept_def same_dispatch_def sameAIAttemptProvider_def)

lemma same_identity_trans: "same_identity a b \<Longrightarrow> same_identity b c \<Longrightarrow> same_identity a c"
  by (simp add: same_identity_def sameAIAttemptProvider_def)

lemma decided_kept_trans: "decided_kept a b \<Longrightarrow> decided_kept b c \<Longrightarrow> decided_kept a c"
  unfolding decided_kept_def by metis

lemma same_dispatch_trans: "same_dispatch a b \<Longrightarrow> same_dispatch b c \<Longrightarrow> same_dispatch a c"
  by (simp add: same_dispatch_def)

lemma goes_on_trans:
  assumes ab: "goes_on a b" and bc: "goes_on b c"
  shows "goes_on a c"
proof -
  have "same_dispatch a c" if "att_DispatchVersion a = att_DispatchVersion c"
    using ab bc that by (force simp: goes_on_def intro: same_dispatch_trans)
  moreover have "c = a" if "att_Status a \<noteq> AIAttemptStatusRunning"
    using ab bc that unfolding goes_on_def by metis
  moreover have "same_identity a c" "decided_kept a c" "att_DispatchVersion a \<le> att_DispatchVersion c"
    using ab bc by (auto simp: goes_on_def intro: same_identity_trans decided_kept_trans)
  ultimately show ?thesis by (simp add: goes_on_def)
qed

lemma goes_on_fields: "goes_on a b \<Longrightarrow> att_ProviderAccountID b = att_ProviderAccountID a
    \<and> (att_DispatchIntentJSON a \<noteq> [] \<longrightarrow> att_DispatchIntentJSON b = att_DispatchIntentJSON a)
    \<and> (att_DispatchSubmittedAt a \<noteq> None \<longrightarrow> att_DispatchSubmittedAt b = att_DispatchSubmittedAt a)
    \<and> (att_ProviderTaskID a \<noteq> [] \<longrightarrow> att_ProviderTaskID b = att_ProviderTaskID a \<and> att_ProviderRequestID b = att_ProviderRequestID a)
    \<and> (att_Status a \<noteq> AIAttemptStatusRunning \<longrightarrow> b = a)"
  by (simp add: goes_on_def decided_kept_def same_identity_def sameAIAttemptProvider_def)

text \<open>The intent of an attempt is the one its operation and its provider determine.\<close>

definition intent_ok :: "MemoryRepository \<Rightarrow> AIAttempt \<Rightarrow> bool" where
  "intent_ok r a \<longleftrightarrow> (att_DispatchIntentJSON a \<noteq> [] \<longrightarrow> (\<exists>operation. map_of (aiOperations r) (att_OperationID a) = Some operation
     \<and> att_DispatchIntentJSON a = intent_json (dispatch_intent a operation)))"

lemma dispatch_intent_cong:
  "\<lbrakk>same_identity a b; op_RequestFingerprint p = op_RequestFingerprint q\<rbrakk>
   \<Longrightarrow> dispatch_intent a p = dispatch_intent b q"
  by (simp add: dispatch_intent_def same_identity_def sameAIAttemptProvider_def)

lemma intent_ok_kept: "fingerprints_kept r r' \<Longrightarrow> intent_ok r a \<Longrightarrow> intent_ok r' a"
  unfolding intent_ok_def fingerprints_kept_def dispatch_intent_def by metis

lemma fingerprints_kept_refl [simp]: "aiOperations r' = aiOperations r \<Longrightarrow> fingerprints_kept r r'"
  by (simp add: fingerprints_kept_def)

section \<open>The invariant\<close>

definition attempts_inv :: "string list \<Rightarrow> MemoryRepository \<Rightarrow> bool" where
  "attempts_inv sent r \<longleftrightarrow> keyed att_ID (aiAttempts r)
     \<and> (\<forall>k a. map_of (aiAttempts r) k = Some a \<longrightarrow> dispatch_ok a \<and> intent_ok r a \<and> (k \<in> set sent \<longleftrightarrow> att_DispatchSubmittedAt a \<noteq> None))
     \<and> (\<forall>k j a b. map_of (aiAttempts r) k = Some a \<longrightarrow> map_of (aiAttempts r) j = Some b \<longrightarrow> att_ProviderTaskID a \<noteq> []
          \<longrightarrow> att_ProviderTaskID b = att_ProviderTaskID a \<longrightarrow> att_ProviderAccountID b = att_ProviderAccountID a \<longrightarrow> k = j)
     \<and> (\<forall>k \<in> set sent. mhas (aiAttempts r) k) \<and> distinct sent"

definition reads_inv :: "AIAttempt set \<Rightarrow> MemoryRepository \<Rightarrow> bool" where
  "reads_inv reads r \<longleftrightarrow> (\<forall>a \<in> reads. dispatch_ok a \<and> (\<exists>c. map_of (aiAttempts r) (att_ID a) = Some c \<and> goes_on a c))"

definition operations_inv :: "(string \<times> AIOperation) set \<Rightarrow> MemoryRepository \<Rightarrow> bool" where
  "operations_inv read r \<longleftrightarrow> (\<forall>(k, operation) \<in> read. \<exists>current. map_of (aiOperations r) k = Some current
     \<and> op_RequestFingerprint current = op_RequestFingerprint operation)"

definition dispatch_inv :: "dispatch_run \<Rightarrow> bool" where
  "dispatch_inv d \<longleftrightarrow> attempts_inv (dr_sent d) (dr_repo d) \<and> reads_inv (dr_reads d) (dr_repo d)
     \<and> operations_inv (dr_operations d) (dr_repo d)"

definition attempts_go_on :: "MemoryRepository \<Rightarrow> MemoryRepository \<Rightarrow> bool" where
  "attempts_go_on r r' \<longleftrightarrow> (\<forall>k a. map_of (aiAttempts r) k = Some a \<longrightarrow> (\<exists>b. map_of (aiAttempts r') k = Some b \<and> goes_on a b))"

lemma attempts_go_on_refl [simp]: "aiAttempts r' = aiAttempts r \<Longrightarrow> attempts_go_on r r'"
  by (simp add: attempts_go_on_def)

lemma attempts_go_on_trans: "attempts_go_on r r' \<Longrightarrow> attempts_go_on r' r'' \<Longrightarrow> attempts_go_on r r''"
  unfolding attempts_go_on_def using goes_on_trans by blast

lemma operations_inv_kept: "operations_inv read r \<Longrightarrow> fingerprints_kept r r' \<Longrightarrow> operations_inv read r'"
  unfolding operations_inv_def fingerprints_kept_def by fastforce

lemma reads_inv_go_on: "reads_inv reads r \<Longrightarrow> attempts_go_on r r' \<Longrightarrow> reads_inv reads r'"
  unfolding reads_inv_def attempts_go_on_def using goes_on_trans by blast

lemma attempts_inv_lookup:
  assumes "attempts_inv sent r" "map_of (aiAttempts r) k = Some a"
  shows "att_ID a = k" "dispatch_ok a" "intent_ok r a" "k \<in> set sent \<longleftrightarrow> att_DispatchSubmittedAt a \<noteq> None"
  using assms keyed_lookup [of att_ID "aiAttempts r"] unfolding attempts_inv_def by blast+

lemma attempts_inv_same:
  "\<lbrakk>attempts_inv sent r; aiAttempts r' = aiAttempts r; fingerprints_kept r r'\<rbrakk> \<Longrightarrow> attempts_inv sent r'"
  unfolding attempts_inv_def using intent_ok_kept [of r r'] by simp

text \<open>An attempt is replaced by one it may go on as; \<open>sent\<close> grows when it is submitted.\<close>

lemma attempts_inv_put:
  assumes inv: "attempts_inv sent r" and a: "map_of (aiAttempts r) k = Some a" and on: "goes_on a b" and ok: "dispatch_ok b" "intent_ok r b"
    and task: "\<And>j c. \<lbrakk>map_of (aiAttempts r) j = Some c; j \<noteq> k; att_ProviderTaskID c = att_ProviderTaskID b;
        att_ProviderAccountID c = att_ProviderAccountID b\<rbrakk> \<Longrightarrow> att_ProviderTaskID b = []"
    and r': "aiAttempts r' = mput k b (aiAttempts r)" "aiOperations r' = aiOperations r"
    and sent': "sent' = (if att_DispatchSubmittedAt a = att_DispatchSubmittedAt b then sent else k # sent)"
  shows "attempts_inv sent' r' \<and> attempts_go_on r r'"
proof -
  note look = attempts_inv_lookup [OF inv]
  have bk: "att_ID b = k" using on look(1) [OF a] by (simp add: goes_on_def same_identity_def)
  have sub: "k \<in> set sent \<longleftrightarrow> att_DispatchSubmittedAt a \<noteq> None" using look(4) [OF a] .
  have sb: "att_DispatchSubmittedAt a \<noteq> att_DispatchSubmittedAt b \<Longrightarrow> att_DispatchSubmittedAt a = None \<and> att_DispatchSubmittedAt b \<noteq> None"
    using on by (auto simp: goes_on_def decided_kept_def)
  have "attempts_inv sent' r'"
    unfolding attempts_inv_def
  proof (intro conjI)
    show "keyed att_ID (aiAttempts r')" using inv bk by (auto simp: attempts_inv_def r')
    have "dispatch_ok c \<and> intent_ok r' c \<and> (j \<in> set sent' \<longleftrightarrow> att_DispatchSubmittedAt c \<noteq> None)"
      if "map_of (aiAttempts r') j = Some c" for j c
    proof (cases "j = k")
      case True
      then have "c = b" using that by (simp add: r')
      then show ?thesis using ok True sub sb r'(2) by (auto simp: sent' intent_ok_def)
    next
      case False
      then have "map_of (aiAttempts r) j = Some c" using that by (simp add: r')
      then show ?thesis using look(2-4) [of j c] False r'(2) by (auto simp: sent' intent_ok_def)
    qed
    then show "\<forall>j c. map_of (aiAttempts r') j = Some c \<longrightarrow> dispatch_ok c \<and> intent_ok r' c \<and> (j \<in> set sent' \<longleftrightarrow> att_DispatchSubmittedAt c \<noteq> None)"
      by blast
    show "\<forall>i j c e. map_of (aiAttempts r') i = Some c \<longrightarrow> map_of (aiAttempts r') j = Some e \<longrightarrow> att_ProviderTaskID c \<noteq> []
          \<longrightarrow> att_ProviderTaskID e = att_ProviderTaskID c \<longrightarrow> att_ProviderAccountID e = att_ProviderAccountID c \<longrightarrow> i = j"
    proof (intro allI impI)
      fix i j c e
      assume c: "map_of (aiAttempts r') i = Some c" and e: "map_of (aiAttempts r') j = Some e" and t: "att_ProviderTaskID c \<noteq> []"
        "att_ProviderTaskID e = att_ProviderTaskID c" "att_ProviderAccountID e = att_ProviderAccountID c"
      consider "i = k" "j = k" | "i = k" "j \<noteq> k" | "i \<noteq> k" "j = k" | "i \<noteq> k" "j \<noteq> k" by blast
      then show "i = j"
      proof cases
        case 2
        then show ?thesis using c e t task [of j e] by (simp add: r')
      next
        case 3
        then show ?thesis using c e t task [of i c] by (simp add: r')
      next
        case 4
        then have "map_of (aiAttempts r) i = Some c" "map_of (aiAttempts r) j = Some e" using c e by (simp_all add: r')
        then show ?thesis using inv t unfolding attempts_inv_def by blast
      qed simp
    qed
    show "\<forall>j \<in> set sent'. mhas (aiAttempts r') j" using inv by (auto simp: attempts_inv_def r' sent')
    show "distinct sent'" using inv sub sb by (auto simp: attempts_inv_def sent')
  qed
  moreover have "attempts_go_on r r'" using a on by (auto simp: attempts_go_on_def r')
  ultimately show ?thesis by simp
qed

section \<open>The steps keep the invariant\<close>

text \<open>What a worker may ask for on what it read.\<close>

definition update_of :: "MemoryRepository \<Rightarrow> AIAttempt \<Rightarrow> AIAttempt \<Rightarrow> bool" where
  "update_of r a q \<longleftrightarrow> same_identity a q \<and> decided_kept a q \<and> dispatch_ok q
     \<and> (att_DispatchIntentJSON q = att_DispatchIntentJSON a \<or>
        (\<exists>operation. map_of (aiOperations r) (att_OperationID a) = Some operation
           \<and> att_DispatchIntentJSON q = intent_json (dispatch_intent a operation)))"

lemma update_cases:
  assumes "attempts_inv sent r" "map_of (aiAttempts r) (att_ID q) = Some c" "UpdateAIAttemptDispatch q n r = ((u, changed, err), r')"
  shows "if changed then att_DispatchVersion c = n \<and> att_Status c = AIAttemptStatusRunning
      \<and> u = applyAIAttemptDispatchUpdate c q \<and> err = None
      \<and> r' = r\<lparr>aiAttempts := mput (att_ID q) (applyAIAttemptDispatchUpdate c q) (aiAttempts r)\<rparr>
      \<and> (\<forall>j e. map_of (aiAttempts r) j = Some e \<longrightarrow> j \<noteq> att_ID q \<longrightarrow> att_ProviderTaskID e = att_ProviderTaskID q
           \<longrightarrow> att_ProviderAccountID e = att_ProviderAccountID q \<longrightarrow> att_ProviderTaskID q = [])
    else r' = r"
proof -
  have id: "att_ID c = att_ID q" using attempts_inv_lookup(1) [OF assms(1,2)] .
  have "att_ID e \<noteq> att_ID q \<and> e \<in> set (mvalues (aiAttempts r))" if "map_of (aiAttempts r) j = Some e" "j \<noteq> att_ID q" for j e
    using attempts_inv_lookup(1) [OF assms(1) that(1)] that map_of_Some_mvalues by metis
  then show ?thesis using assms(2,3) id
    by (simp add: UpdateAIAttemptDispatch_def attempt_at_def mhas_def Let_def list_ex_iff split: if_splits) metis+
qed

lemma update_read_inv:
  assumes inv: "attempts_inv sent r" and c: "map_of (aiAttempts r) (att_ID a) = Some c" and on: "goes_on a c" and q: "update_of r a q"
    and up: "UpdateAIAttemptDispatch q (att_DispatchVersion a) r = ((u, changed, err), r')"
  shows "attempts_inv (if changed \<and> att_DispatchSubmittedAt q \<noteq> att_DispatchSubmittedAt a then att_ID a # sent else sent) r'
    \<and> attempts_go_on r r'"
proof (cases changed)
  case False
  have "att_ID q = att_ID a" using q by (simp add: update_of_def same_identity_def)
  then show ?thesis using update_cases [OF inv _ up] c False inv by simp
next
  case True
  define b where "b = applyAIAttemptDispatchUpdate c q"
  have id: "att_ID q = att_ID a" using q by (simp add: update_of_def same_identity_def)
  have v: "att_DispatchVersion c = att_DispatchVersion a" and run: "att_Status c = AIAttemptStatusRunning"
    and r': "r' = r\<lparr>aiAttempts := mput (att_ID a) b (aiAttempts r)\<rparr>"
    and uniq: "\<And>j e. map_of (aiAttempts r) j = Some e \<Longrightarrow> j \<noteq> att_ID a \<Longrightarrow> att_ProviderTaskID e = att_ProviderTaskID q
      \<Longrightarrow> att_ProviderAccountID e = att_ProviderAccountID q \<Longrightarrow> att_ProviderTaskID q = []"
    using update_cases [OF inv _ up, of c] c True id by (simp_all add: b_def)
  have same: "same_dispatch a c" and ident: "same_identity a c" using on v by (simp_all add: goes_on_def)
  have cq: "same_identity c q" using ident q by (simp add: update_of_def same_identity_def sameAIAttemptProvider_def)
  have idb: "same_identity c b" using cq by (simp add: b_def same_identity_def sameAIAttemptProvider_def applyAIAttemptDispatchUpdate_def)
  have fields: "att_DispatchState b = att_DispatchState q" "att_DispatchIntentJSON b = att_DispatchIntentJSON q"
    "att_DispatchSubmittedAt b = att_DispatchSubmittedAt q" "att_ProviderTaskID b = att_ProviderTaskID q"
    "att_ProviderRequestID b = att_ProviderRequestID q" "att_DispatchVersion b = att_DispatchVersion c + 1"
    by (simp_all add: b_def applyAIAttemptDispatchUpdate_def)
  have ok: "dispatch_ok b" using q fields by (simp add: update_of_def dispatch_ok_def)
  have kept: "decided_kept c b" using q same fields by (simp add: update_of_def same_dispatch_def decided_kept_def)
  have onb: "goes_on c b" using idb kept run fields by (simp add: goes_on_def)
  have intent: "intent_ok r b"
  proof (cases "att_DispatchIntentJSON q = att_DispatchIntentJSON a")
    case True
    then have "att_DispatchIntentJSON b = att_DispatchIntentJSON c" using fields same by (simp add: same_dispatch_def)
    moreover have "dispatch_intent b operation = dispatch_intent c operation" for operation
      by (rule dispatch_intent_cong) (use idb in \<open>simp_all add: same_identity_def sameAIAttemptProvider_def\<close>)
    moreover have "att_OperationID b = att_OperationID c" using idb by (simp add: same_identity_def sameAIAttemptProvider_def)
    ultimately show ?thesis using attempts_inv_lookup(3) [OF inv c] by (simp add: intent_ok_def)
  next
    case False
    have ab: "same_identity a b" using ident idb by (rule same_identity_trans)
    then have "dispatch_intent b operation = dispatch_intent a operation" for operation
      by (intro dispatch_intent_cong) (simp_all add: same_identity_def sameAIAttemptProvider_def)
    moreover have "att_OperationID b = att_OperationID a" using ab by (simp add: same_identity_def sameAIAttemptProvider_def)
    ultimately show ?thesis using q False fields by (simp add: update_of_def intent_ok_def)
  qed
  have acc: "att_ProviderAccountID b = att_ProviderAccountID q" using idb cq by (simp add: same_identity_def sameAIAttemptProvider_def)
  have sub: "att_DispatchSubmittedAt c = att_DispatchSubmittedAt a" using same by (simp add: same_dispatch_def)
  show ?thesis
  proof (rule attempts_inv_put [OF inv c onb ok intent])
    fix j e
    assume "map_of (aiAttempts r) j = Some e" "j \<noteq> att_ID a" "att_ProviderTaskID e = att_ProviderTaskID b"
      "att_ProviderAccountID e = att_ProviderAccountID b"
    then show "att_ProviderTaskID b = []" using uniq [of j e] fields acc by simp
  qed (use True sub fields in \<open>auto simp: r'\<close>)
qed

text \<open>What each part of the service after the read asks for.\<close>

definition asks :: "AIAttempt \<Rightarrow> MemoryRepository \<Rightarrow> attempt_update \<Rightarrow> bool" where
  "asks a r out \<longleftrightarrow> snd out = r \<or> (\<exists>q. update_of r a q \<and> att_DispatchSubmittedAt q = att_DispatchSubmittedAt a
     \<and> snd out = snd (UpdateAIAttemptDispatch q (att_DispatchVersion a) r))"

lemma asks_same [simp]: "asks a r (u, r)"
  by (simp add: asks_def)

lemma asks_if: "(c \<Longrightarrow> asks a r x) \<Longrightarrow> (\<not> c \<Longrightarrow> asks a r y) \<Longrightarrow> asks a r (if c then x else y)"
  by simp

lemma snd_update: "snd (updateAIAttemptDispatch q n r) = snd (UpdateAIAttemptDispatch q n r)"
  by (simp add: updateAIAttemptDispatch_def split: prod.splits option.splits)

lemma asks_update:
  assumes "n = att_DispatchVersion a" "update_of r a q" "att_DispatchSubmittedAt q = att_DispatchSubmittedAt a"
  shows "asks a r (updateAIAttemptDispatch q n r)"
  using assms by (auto simp: asks_def snd_update)

lemma asks_inv:
  assumes "attempts_inv sent r" "reads_inv reads r" "a \<in> reads" "asks a r (result, r')"
  shows "attempts_inv sent r' \<and> attempts_go_on r r'"
proof -
  obtain c where c: "map_of (aiAttempts r) (att_ID a) = Some c" "goes_on a c" using assms(2,3) by (auto simp: reads_inv_def)
  from assms(4) consider "r' = r" | q u ch e where "update_of r a q" "att_DispatchSubmittedAt q = att_DispatchSubmittedAt a"
      "UpdateAIAttemptDispatch q (att_DispatchVersion a) r = ((u, ch, e), r')"
    by (auto simp: asks_def) (metis prod.collapse)
  then show ?thesis
  proof cases
    case 1
    then show ?thesis using assms(1) by simp
  next
    case 2
    then show ?thesis using update_read_inv [OF assms(1) c 2(1,3)] by simp
  qed
qed

lemmas ask_simps = update_of_def same_identity_def sameAIAttemptProvider_def decided_kept_def dispatch_ok_def cp_consts

lemma prepare_asks:
  assumes "dispatch_ok a" "operations_inv read r" "(att_OperationID a, operation) \<in> read"
  shows "asks a r (prepare_read now a operation r)"
proof -
  define q where "q = a\<lparr>att_DispatchState := AIAttemptDispatchPrepared, att_DispatchIntentJSON := intent_json (dispatch_intent a operation),
    att_UpdatedAt := now\<rparr>"
  obtain current where current: "map_of (aiOperations r) (att_OperationID a) = Some current"
    "op_RequestFingerprint current = op_RequestFingerprint operation" using assms(2,3) unfolding operations_inv_def by blast
  then have same: "dispatch_intent a operation = dispatch_intent a current" by (intro dispatch_intent_cong) simp_all
  show ?thesis
  proof (cases "att_DispatchState a = AIAttemptDispatchPending \<and> att_DispatchIntentJSON a = [] \<and> att_Status a = AIAttemptStatusRunning")
    case False
    then show ?thesis by (auto simp: prepare_read_def Let_def)
  next
    case True
    then have "update_of r a q" "att_DispatchSubmittedAt q = att_DispatchSubmittedAt a"
      using assms(1) current same by (auto simp: q_def ask_simps)
    moreover have "snd (prepare_read now a operation r) = snd (UpdateAIAttemptDispatch q (att_DispatchVersion a) r)"
      using True unfolding q_def by (simp add: prepare_read_def Let_def split: prod.splits option.splits)
    ultimately show ?thesis by (auto simp: asks_def)
  qed
qed

lemma bind_asks:
  assumes "dispatch_ok a" "task_ProviderTaskID reference \<noteq> []"
  shows "asks a r (bind_read now version reference at a r)"
  unfolding bind_read_def
  by (intro asks_if asks_same asks_update; use assms in \<open>simp add: ask_simps; metis\<close>)

lemma unknown_asks:
  assumes "dispatch_ok a"
  shows "asks a r (unknown_read now version at a r)"
  unfolding unknown_read_def
  by (intro asks_if asks_same asks_update) (use assms in \<open>simp_all add: ask_simps split: if_splits\<close>)

lemma record_asks:
  assumes "dispatch_ok a"
  shows "asks a r (record_read now version status at a r)"
  unfolding record_read_def
  by (intro asks_if asks_same asks_update) (use assms in \<open>simp_all add: ask_simps split: if_splits\<close>)

lemma prove_asks:
  assumes "dispatch_ok a"
  shows "asks a r (prove_read now version a r)"
  unfolding prove_read_def
  by (intro asks_if asks_same asks_update) (use assms in \<open>simp_all add: ask_simps split: if_splits\<close>)

text \<open>An attempt is replaced by one of the same dispatch.\<close>

lemma attempts_inv_replace:
  assumes inv: "attempts_inv sent r" and c: "map_of (aiAttempts r) k = Some c"
    and b: "same_identity c b" "same_dispatch c b" "att_Status c = AIAttemptStatusRunning" "att_DispatchVersion c \<le> att_DispatchVersion b"
    and r': "aiAttempts r' = mput k b (aiAttempts r)" "aiOperations r' = aiOperations r"
  shows "attempts_inv sent r' \<and> attempts_go_on r r'"
proof (rule attempts_inv_put [OF inv c _ _ _ _ r'])
  have fields: "att_ProviderAccountID b = att_ProviderAccountID c" "att_OperationID b = att_OperationID c"
    using b(1) by (simp_all add: same_identity_def sameAIAttemptProvider_def)
  have "dispatch_intent b operation = dispatch_intent c operation" for operation
    by (rule dispatch_intent_cong) (use b(1) in \<open>simp_all add: same_identity_def sameAIAttemptProvider_def\<close>)
  then show "intent_ok r b" using attempts_inv_lookup(3) [OF inv c] b(2) fields by (simp add: intent_ok_def same_dispatch_def)
  show "goes_on c b" using b by (simp add: goes_on_def same_dispatch_def decided_kept_def)
  show "dispatch_ok b" using attempts_inv_lookup(2) [OF inv c] b(2) by (simp add: dispatch_ok_def same_dispatch_def)
  show "sent = (if att_DispatchSubmittedAt c = att_DispatchSubmittedAt b then sent else k # sent)" using b(2) by (simp add: same_dispatch_def)
  show "att_ProviderTaskID b = []" if "map_of (aiAttempts r) j = Some e" "j \<noteq> k" "att_ProviderTaskID e = att_ProviderTaskID b"
    "att_ProviderAccountID e = att_ProviderAccountID b" for j e
  proof (rule ccontr)
    assume "att_ProviderTaskID b \<noteq> []"
    then have "att_ProviderTaskID c \<noteq> [] \<and> att_ProviderTaskID e = att_ProviderTaskID c \<and> att_ProviderAccountID e = att_ProviderAccountID c"
      using that b(2) fields by (simp add: same_dispatch_def)
    then have "k = j" using inv c that(1) unfolding attempts_inv_def by blast
    then show False using that(2) by simp
  qed
qed

lemma complete_inv:
  assumes inv: "attempts_inv sent r" and out: "CompleteAttempt now ident status errorType r = (err, r')"
  shows "attempts_inv sent r' \<and> attempts_go_on r r' \<and> aiOperations r' = aiOperations r"
proof (cases "r' = r")
  case True
  then show ?thesis using inv by simp
next
  case False
  then obtain c where c: "map_of (aiAttempts r) (TrimSpace ident) = Some c" "att_Status c = AIAttemptStatusRunning"
    and r': "r' = r\<lparr>aiAttempts := mput (TrimSpace ident) (c\<lparr>att_Status := status, att_ErrorType := TrimSpace errorType,
      att_UpdatedAt := now, att_CompletedAt := Some now\<rparr>) (aiAttempts r)\<rparr>"
    using out by (auto simp: CompleteAttempt_def CompleteAIAttempt_def split: if_splits option.splits)
  show ?thesis
    using attempts_inv_replace [OF inv c(1), of "c\<lparr>att_Status := status, att_ErrorType := TrimSpace errorType,
      att_UpdatedAt := now, att_CompletedAt := Some now\<rparr>" r'] c(2)
    by (simp add: r' same_identity_def same_dispatch_def sameAIAttemptProvider_def)
qed

lemma schedule_inv:
  assumes inv: "attempts_inv sent r" and out: "ScheduleAIAttemptReconciliation ident version at audit r = (result, r')"
  shows "attempts_inv sent r' \<and> attempts_go_on r r' \<and> aiOperations r' = aiOperations r"
proof (cases "r' = r")
  case True
  then show ?thesis using inv by simp
next
  case False
  then obtain c where c: "map_of (aiAttempts r) (TrimSpace ident) = Some c" "att_Status c = AIAttemptStatusRunning"
    and id: "r' = r\<lparr>aiAttempts := mput (att_ID c) (applyAIAttemptDispatchUpdate c (c\<lparr>att_ReconcileAfter := Some at, att_UpdatedAt := at\<rparr>))
        (aiAttempts r), auditLogs := mput (audit_ID audit) audit (auditLogs r)\<rparr>"
    using out by (auto simp: ScheduleAIAttemptReconciliation_def attempt_at_def mhas_def Let_def split: if_splits)
  show ?thesis
    using attempts_inv_replace [OF inv c(1), of "applyAIAttemptDispatchUpdate c (c\<lparr>att_ReconcileAfter := Some at, att_UpdatedAt := at\<rparr>)" r']
      c(2) attempts_inv_lookup(1) [OF inv c(1)]
    by (simp add: id same_identity_def same_dispatch_def sameAIAttemptProvider_def applyAIAttemptDispatchUpdate_def)
qed

lemma retry_inv:
  assumes inv: "attempts_inv sent r" and c: "map_of (aiAttempts r) (att_ID a) = Some c" "goes_on a c"
    and out: "ScheduleArtifactDeliveryRetry artifactID (a\<lparr>att_ReconcileAfter := Some now, att_UpdatedAt := now\<rparr>) (att_DispatchVersion a)
      audit r = (result, r')"
  shows "attempts_inv sent r' \<and> attempts_go_on r r' \<and> aiOperations r' = aiOperations r"
proof (cases "r' = r")
  case True
  then show ?thesis using inv by simp
next
  case False
  define b where "b = applyAIAttemptDispatchUpdate c (a\<lparr>att_ReconcileAfter := Some now, att_UpdatedAt := now\<rparr>)"
  have r': "r' = r\<lparr>aiAttempts := mput (att_ID a) b (aiAttempts r), auditLogs := mput (audit_ID audit) audit (auditLogs r)\<rparr>"
    and v: "att_Status c = AIAttemptStatusRunning" "att_DispatchVersion c = att_DispatchVersion a"
    using out c(1) False attempts_inv_lookup(1) [OF inv c(1)]
    by (auto simp: ScheduleArtifactDeliveryRetry_def attempt_at_def mhas_def Let_def b_def split: if_splits)
  have "same_dispatch a c" "same_identity a c" using c(2) v by (simp_all add: goes_on_def)
  then have "same_dispatch c b" "same_identity c b"
    by (auto simp: b_def same_identity_def same_dispatch_def sameAIAttemptProvider_def applyAIAttemptDispatchUpdate_def)
  then show ?thesis using attempts_inv_replace [OF inv c(1), of b r'] v(1) by (simp add: r') (simp add: b_def)
qed

lemma begin_inv:
  assumes inv: "attempts_inv sent r" and out: "BeginAIAttempt env operationID n provider r = (result, r')"
  shows "attempts_inv sent r' \<and> attempts_go_on r r' \<and> aiOperations r' = aiOperations r"
proof -
  define b where "b = new_attempt env operationID n provider"
  have norm: "normalizeAIAttempt b = b" by (simp add: b_def new_attempt_def normalizeAIAttempt_def Let_def cp_consts)
  have fields: "att_DispatchState b = AIAttemptDispatchPending" "att_DispatchIntentJSON b = []" "att_DispatchSubmittedAt b = None"
    "att_ProviderTaskID b = []" by (simp_all add: b_def new_attempt_def Let_def zero_AIAttempt_def)
  obtain stored created err where create: "CreateOrGetAIAttempt b r = ((stored, created, err), snd (CreateOrGetAIAttempt b r))"
    by (metis prod.collapse)
  have "r' = r \<or> r' = snd (CreateOrGetAIAttempt b r)"
    using out unfolding BeginAIAttempt_def Let_def b_def [symmetric]
    by (subst (asm) create) (simp split: if_splits option.splits)
  moreover have "snd (CreateOrGetAIAttempt b r) = r \<or> \<not> mhas (aiAttempts r) (att_ID b)
      \<and> snd (CreateOrGetAIAttempt b r) = r\<lparr>aiAttempts := mput (att_ID b) b (aiAttempts r)\<rparr>"
    unfolding CreateOrGetAIAttempt_def norm Let_def by (simp split: option.split)
  ultimately consider "r' = r" | "\<not> mhas (aiAttempts r) (att_ID b)" "r' = r\<lparr>aiAttempts := mput (att_ID b) b (aiAttempts r)\<rparr>"
    by auto
  then show ?thesis
  proof cases
    case 1
    then show ?thesis using inv by simp
  next
    case 2
    have fresh: "att_ID b \<notin> set sent" "map_of (aiAttempts r) (att_ID b) = None" using inv 2(1) by (auto simp: attempts_inv_def mhas_def)
    have ok: "dispatch_ok b" "intent_ok r' b" by (simp_all add: fields dispatch_ok_def intent_ok_def cp_consts)
    have at: "map_of (aiAttempts r') = (map_of (aiAttempts r))(att_ID b \<mapsto> b)" by (simp add: 2(2))
    have "attempts_inv sent r'"
      unfolding attempts_inv_def
    proof (intro conjI)
      show "keyed att_ID (aiAttempts r')" using inv by (auto simp: attempts_inv_def 2(2))
      have old: "intent_ok r' c" if "intent_ok r c" for c using that by (simp add: intent_ok_def 2(2))
      show "\<forall>k c. map_of (aiAttempts r') k = Some c \<longrightarrow> dispatch_ok c \<and> intent_ok r' c \<and> (k \<in> set sent \<longleftrightarrow> att_DispatchSubmittedAt c \<noteq> None)"
        using attempts_inv_lookup(2-4) [OF inv] old ok fresh(1) fields(3) unfolding at by (auto split: if_splits)
      show "\<forall>k j c e. map_of (aiAttempts r') k = Some c \<longrightarrow> map_of (aiAttempts r') j = Some e \<longrightarrow> att_ProviderTaskID c \<noteq> []
          \<longrightarrow> att_ProviderTaskID e = att_ProviderTaskID c \<longrightarrow> att_ProviderAccountID e = att_ProviderAccountID c \<longrightarrow> k = j"
      proof (intro allI impI)
        fix k j c e
        assume c: "map_of (aiAttempts r') k = Some c" and e: "map_of (aiAttempts r') j = Some e" and t: "att_ProviderTaskID c \<noteq> []"
          "att_ProviderTaskID e = att_ProviderTaskID c" "att_ProviderAccountID e = att_ProviderAccountID c"
        have "k \<noteq> att_ID b" "j \<noteq> att_ID b" using c e t fields(4) by (auto simp: at)
        then have "map_of (aiAttempts r) k = Some c" "map_of (aiAttempts r) j = Some e" using c e by (simp_all add: at)
        then show "k = j" using inv t unfolding attempts_inv_def by blast
      qed
      show "\<forall>j \<in> set sent. mhas (aiAttempts r') j" "distinct sent" using inv by (auto simp: attempts_inv_def 2(2))
    qed
    moreover have "attempts_go_on r r'" using fresh(2) by (auto simp: attempts_go_on_def at intro: exI [where x = "_ :: AIAttempt"])
    ultimately show ?thesis by (simp add: 2(2))
  qed
qed

lemma submit_inv:
  assumes inv: "attempts_inv sent r" and c: "map_of (aiAttempts r) (att_ID a) = Some c" "goes_on a c" and ok: "dispatch_ok a"
    and out: "submit_read now version at a r = ((updated, changed, err), r')"
  shows "attempts_inv (if changed then att_ID a # sent else sent) r' \<and> attempts_go_on r r' \<and> aiOperations r' = aiOperations r"
proof (cases "att_DispatchState a = AIAttemptDispatchPrepared \<and> att_DispatchVersion a = version")
  case False
  then have "r' = r" "\<not> changed" using out by (auto simp: submit_read_def split: if_splits)
  then show ?thesis using inv by simp
next
  case True
  define q where "q = a\<lparr>att_DispatchState := AIAttemptDispatchSubmitted, att_DispatchSubmittedAt := Some now,
    att_ReconcileAfter := Some (or_now at now), att_UpdatedAt := now\<rparr>"
  have none: "att_DispatchSubmittedAt a = None" using ok True by (simp add: dispatch_ok_def)
  have up: "update_of r a q" using ok True none by (auto simp: q_def ask_simps)
  obtain u ch e s' where sv: "UpdateAIAttemptDispatch q (att_DispatchVersion a) r = ((u, ch, e), s')" by (metis prod.collapse)
  have "e = None" if "ch" using update_cases [OF inv _ sv, of c] c(1) that by (simp add: q_def)
  then have "r' = s' \<and> changed = ch"
    using out True none sv unfolding submit_read_def updateAIAttemptDispatch_def q_def
    by (cases ch; cases e) (simp_all split: if_splits)
  moreover have "aiOperations s' = aiOperations r" using update_cases [OF inv _ sv, of c] c(1) by (cases ch) (simp_all add: q_def)
  ultimately show ?thesis using update_read_inv [OF inv c up sv] none by (simp add: q_def)
qed

lemma repo_step:
  assumes "dispatch_inv d" "attempts_inv sent r \<and> attempts_go_on (dr_repo d) r \<and> aiOperations r = aiOperations (dr_repo d)"
  shows "dispatch_inv (d\<lparr>dr_repo := r, dr_sent := sent\<rparr>) \<and> attempts_go_on (dr_repo d) r"
  using assms reads_inv_go_on operations_inv_kept [of _ "dr_repo d" r] by (auto simp: dispatch_inv_def)

lemma asks_operations: "asks a r (result, r') \<Longrightarrow> aiOperations r' = aiOperations r"
  by (auto simp: asks_def UpdateAIAttemptDispatch_def Let_def)

lemma read_inv:
  assumes "dispatch_inv d" "a \<in> dr_reads d"
  obtains c where "dispatch_ok a" "map_of (aiAttempts (dr_repo d)) (att_ID a) = Some c" "goes_on a c"
  using assms by (auto simp: dispatch_inv_def reads_inv_def)

lemma write_step:
  assumes "dispatch_inv d" "attempts_inv (dr_sent d) r \<and> attempts_go_on (dr_repo d) r \<and> aiOperations r = aiOperations (dr_repo d)"
  shows "dispatch_inv (d\<lparr>dr_repo := r\<rparr>) \<and> attempts_go_on (dr_repo d) r"
  using repo_step [OF assms] by simp

lemma ask_step:
  assumes "dispatch_inv d" "a \<in> dr_reads d" "asks a (dr_repo d) (result, r)"
  shows "dispatch_inv (d\<lparr>dr_repo := r\<rparr>) \<and> attempts_go_on (dr_repo d) r"
proof -
  have "attempts_inv (dr_sent d) (dr_repo d)" "reads_inv (dr_reads d) (dr_repo d)" using assms(1) by (simp_all add: dispatch_inv_def)
  then show ?thesis using write_step [OF assms(1)] asks_inv [OF _ _ assms(2,3)] asks_operations [OF assms(3)] by blast
qed

lemma dispatch_step_inv:
  assumes "dispatch_step d d'" "dispatch_inv d"
  shows "dispatch_inv d' \<and> attempts_go_on (dr_repo d) (dr_repo d')"
  using assms
proof (induction rule: dispatch_step.induct)
  case (read_attempt ident d a)
  then have a: "map_of (aiAttempts (dr_repo d)) (TrimSpace ident) = Some a" by (simp add: FindAIAttempt_def)
  have inv: "attempts_inv (dr_sent d) (dr_repo d)" using read_attempt(2) by (simp add: dispatch_inv_def)
  show ?case using attempts_inv_lookup(1,2) [OF inv a] a read_attempt(2) by (simp add: dispatch_inv_def reads_inv_def)
next
  case (read_operation ident d operation)
  then show ?case by (simp add: dispatch_inv_def operations_inv_def FindAIOperation_def)
next
  case (begin_attempt env operationID n provider d result r')
  then show ?case using write_step [OF begin_attempt(2)] begin_inv [OF _ begin_attempt(1), of "dr_sent d"] by (simp add: dispatch_inv_def)
next
  case (prepare a d operation now result r')
  obtain c where "dispatch_ok a" using read_inv [OF prepare(4,1)] .
  then have "asks a (dr_repo d) (result, r')"
    using prepare_asks [of a "dr_operations d" "dr_repo d" operation now] prepare(2-4) by (simp add: dispatch_inv_def)
  then show ?case using ask_step [OF prepare(4,1)] by simp
next
  case (submit a d now version at updated changed err r')
  obtain c where c: "dispatch_ok a" "map_of (aiAttempts (dr_repo d)) (att_ID a) = Some c" "goes_on a c" using read_inv [OF submit(3,1)] .
  have "attempts_inv (dr_sent d) (dr_repo d)" using submit(3) by (simp add: dispatch_inv_def)
  then show ?case using repo_step [OF submit(3) submit_inv [OF _ c(2,3,1) submit(2)]] by simp
next
  case (bind a d reference now version at result r')
  obtain c where "dispatch_ok a" using read_inv [OF bind(4,1)] .
  then have "asks a (dr_repo d) (result, r')" using bind_asks [OF _ bind(2), of a "dr_repo d"] bind(3) by metis
  then show ?case using ask_step [OF bind(4,1)] by simp
next
  case (unknown a d now version at result r')
  obtain c where "dispatch_ok a" using read_inv [OF unknown(3,1)] .
  then have "asks a (dr_repo d) (result, r')" using unknown_asks [of a "dr_repo d"] unknown(2) by metis
  then show ?case using ask_step [OF unknown(3,1)] by simp
next
  case (record_status a d now version status at result r')
  obtain c where "dispatch_ok a" using read_inv [OF record_status(3,1)] .
  then have "asks a (dr_repo d) (result, r')" using record_asks [of a "dr_repo d"] record_status(2) by metis
  then show ?case using ask_step [OF record_status(3,1)] by simp
next
  case (prove a d now version result r')
  obtain c where "dispatch_ok a" using read_inv [OF prove(3,1)] .
  then have "asks a (dr_repo d) (result, r')" using prove_asks [of a "dr_repo d"] prove(2) by metis
  then show ?case using ask_step [OF prove(3,1)] by simp
next
  case (complete now ident status errorType d err r')
  then show ?case using write_step [OF complete(2)] complete_inv [OF _ complete(1), of "dr_sent d"] by (simp add: dispatch_inv_def)
next
  case (schedule ident version at audit d result r')
  then show ?case using write_step [OF schedule(2)] schedule_inv [OF _ schedule(1), of "dr_sent d"] by (simp add: dispatch_inv_def)
next
  case (retry_delivery a d artifactID now audit result r')
  obtain c where c: "map_of (aiAttempts (dr_repo d)) (att_ID a) = Some c" "goes_on a c" using read_inv [OF retry_delivery(3,1)] .
  then show ?case using write_step [OF retry_delivery(3)] retry_inv [OF _ c retry_delivery(2), of "dr_sent d"] retry_delivery(3)
    by (simp add: dispatch_inv_def)
next
  case (other r' d)
  have "attempts_inv (dr_sent d) r'" "operations_inv (dr_operations d) r'" "attempts_go_on (dr_repo d) r'"
    using other attempts_inv_same operations_inv_kept by (auto simp: dispatch_inv_def)
  then show ?case using other(3) reads_inv_go_on by (auto simp: dispatch_inv_def)
qed

lemma dispatch_run_inv:
  assumes "dispatch_step\<^sup>*\<^sup>* d d'" "dispatch_inv d"
  shows "dispatch_inv d' \<and> attempts_go_on (dr_repo d) (dr_repo d')"
  using assms
proof (induction rule: rtranclp_induct)
  case (step d1 d2)
  then show ?case using dispatch_step_inv [OF step(2)] attempts_go_on_trans by blast
qed simp

section \<open>The service methods are runs\<close>

definition quiet :: "dispatch_run \<Rightarrow> MemoryRepository \<Rightarrow> bool" where
  "quiet d r \<longleftrightarrow> (\<exists>d'. dispatch_step\<^sup>*\<^sup>* d d' \<and> dr_repo d' = r \<and> dr_sent d' = dr_sent d)"

lemma quiet_refl [simp, intro]: "quiet d (dr_repo d)"
  by (auto simp: quiet_def)

lemma quiet_step: "dispatch_step d d' \<Longrightarrow> dr_sent d' = dr_sent d \<Longrightarrow> quiet d' r \<Longrightarrow> quiet d r"
  unfolding quiet_def by (metis converse_rtranclp_into_rtranclp)

lemma quiet_then:
  assumes "quiet d r" "\<And>d'. dispatch_step\<^sup>*\<^sup>* d d' \<Longrightarrow> dr_repo d' = r \<Longrightarrow> quiet d' r'"
  shows "quiet d r'"
proof -
  obtain d1 where d1: "dispatch_step\<^sup>*\<^sup>* d d1" "dr_repo d1 = r" "dr_sent d1 = dr_sent d" using assms(1) by (auto simp: quiet_def)
  then obtain d2 where "dispatch_step\<^sup>*\<^sup>* d1 d2" "dr_repo d2 = r'" "dr_sent d2 = dr_sent d1" using assms(2) [of d1] by (auto simp: quiet_def)
  then show ?thesis using d1 unfolding quiet_def by (metis rtranclp_trans)
qed

lemma quiet_write: "dispatch_step d (d\<lparr>dr_repo := r\<rparr>) \<Longrightarrow> quiet d r"
  by (rule quiet_step [where d' = "d\<lparr>dr_repo := r\<rparr>"]) (auto simp: quiet_def)

lemma quiet_read:
  assumes "FindAIAttempt ident (dr_repo d) = Some a" "quiet (d\<lparr>dr_reads := insert a (dr_reads d)\<rparr>) r"
  shows "quiet d r"
  using quiet_step [OF dispatch_step.read_attempt [OF assms(1)]] assms(2) by simp

lemma with_attempt_quiet:
  assumes out: "with_attempt ident act (dr_repo d) = (result, r)"
    and act: "\<And>d a result r. a \<in> dr_reads d \<Longrightarrow> act a (dr_repo d) = (result, r) \<Longrightarrow> dispatch_step d (d\<lparr>dr_repo := r\<rparr>)"
  shows "quiet d r"
proof (cases "FindAIAttempt (TrimSpace ident) (dr_repo d)")
  case None
  then show ?thesis using out by (auto simp: with_attempt_def)
next
  case (Some a)
  then have "act a (dr_repo d) = (result, r)" using out by (simp add: with_attempt_def)
  then have "quiet (d\<lparr>dr_reads := insert a (dr_reads d)\<rparr>) r"
    by (intro quiet_write act [where a = a and result = result]) simp_all
  then show ?thesis by (rule quiet_read [OF Some])
qed

lemma bind_quiet: "BindAIAttemptProviderTask env ident version reference at (dr_repo d) = (result, r) \<Longrightarrow> quiet d r"
  by (auto simp: BindAIAttemptProviderTask_def Let_def split: if_splits elim!: with_attempt_quiet intro: dispatch_step.bind)

lemma unknown_quiet: "MarkAIAttemptDispatchUnknown env ident version at (dr_repo d) = (result, r) \<Longrightarrow> quiet d r"
  unfolding MarkAIAttemptDispatchUnknown_def by (erule with_attempt_quiet) (rule dispatch_step.unknown)

lemma record_quiet: "RecordAIAttemptReconciliation env ident version status at (dr_repo d) = (result, r) \<Longrightarrow> quiet d r"
  unfolding RecordAIAttemptReconciliation_def by (erule with_attempt_quiet) (rule dispatch_step.record_status)

lemma complete_quiet: "CompleteAttempt now ident status errorType (dr_repo d) = (err, r) \<Longrightarrow> quiet d r"
  by (rule quiet_write, rule dispatch_step.complete)

lemma prove_quiet:
  assumes "ProveAIAttemptNotCreated env ident version (dr_repo d) = (result, r)"
  shows "quiet d r"
proof -
  obtain a changed err r1 where w: "with_attempt ident (prove_read (de_now env) version) (dr_repo d) = ((a, changed, err), r1)"
    by (metis prod.collapse)
  have q: "quiet d r1" by (rule with_attempt_quiet [OF w]) (rule dispatch_step.prove)
  have "quiet d1 r" if "dr_repo d1 = r1" for d1
    using assms w that complete_quiet [of _ _ _ _ d1]
    by (auto simp: ProveAIAttemptNotCreated_def split: option.splits if_splits prod.splits)
  then show ?thesis using quiet_then [OF q] by blast
qed

lemma resolve_quiet:
  assumes "resolveProviderDispatchResult env env2 a result (dr_repo d) = (out, r)"
  shows "quiet d r"
proof -
  define nxt where "nxt = next_reconciliation env result"
  obtain u1 c1 e1 r1 where unknown: "MarkAIAttemptDispatchUnknown env (att_ID a) (att_DispatchVersion a) nxt (dr_repo d) = ((u1, c1, e1), r1)"
    by (metis prod.collapse)
  obtain u2 c2 e2 r2 where bound: "BindAIAttemptProviderTask env (att_ID a) (att_DispatchVersion a) (pdr_Task result) nxt (dr_repo d) = ((u2, c2, e2), r2)"
    by (metis prod.collapse)
  obtain u3 c3 e3 r3 where recd: "RecordAIAttemptReconciliation env2 (att_ID a) (att_DispatchVersion u2) (task_Status (pdr_Task result)) nxt r2 = ((u3, c3, e3), r3)"
    by (metis prod.collapse)
  obtain u4 c4 e4 r4 where prove: "ProveAIAttemptNotCreated env (att_ID a) (att_DispatchVersion a) (dr_repo d) = ((u4, c4, e4), r4)"
    by (metis prod.collapse)
  obtain u5 c5 e5 r5 where status: "RecordAIAttemptReconciliation env (att_ID a) (att_DispatchVersion a) ''unknown'' nxt (dr_repo d) = ((u5, c5, e5), r5)"
    by (metis prod.collapse)
  have "quiet d r3" by (rule quiet_then [OF bind_quiet [OF bound]]) (use recd in \<open>auto intro: record_quiet\<close>)
  moreover have "r \<in> {r1, r2, r3, r4, r5}" using assms
    by (simp add: resolveProviderDispatchResult_def Let_def unknown bound recd prove status nxt_def [symmetric] split: if_splits)
  ultimately show ?thesis using unknown_quiet [OF unknown] bind_quiet [OF bound] prove_quiet [OF prove] record_quiet [OF status] by auto
qed

lemma prepare_quiet:
  assumes "PrepareAIAttemptDispatch env ident (dr_repo d) = (result, r)"
  shows "quiet d r"
proof (cases "FindAIAttempt (TrimSpace ident) (dr_repo d)")
  case None
  then show ?thesis using assms by (auto simp: PrepareAIAttemptDispatch_def)
next
  case a: (Some a)
  show ?thesis
  proof (cases "FindAIOperation (att_OperationID a) (dr_repo d)")
    case None
    then show ?thesis using assms a by (auto simp: PrepareAIAttemptDispatch_def)
  next
    case (Some operation)
    define d1 where "d1 = d\<lparr>dr_reads := insert a (dr_reads d)\<rparr>"
    define d2 where "d2 = d1\<lparr>dr_operations := insert (att_OperationID a, operation) (dr_operations d)\<rparr>"
    have "prepare_read (de_now env) a operation (dr_repo d2) = (result, r)"
      using assms a Some by (simp add: PrepareAIAttemptDispatch_def d1_def d2_def)
    then have "quiet d2 r" by (intro quiet_write dispatch_step.prepare [of a]) (simp_all add: d1_def d2_def)
    moreover have "dispatch_step d1 d2" using dispatch_step.read_operation [of "att_OperationID a" d1 operation] Some by (simp add: d1_def d2_def)
    ultimately have "quiet d1 r" by (intro quiet_step [of d1 d2]) (simp_all add: d2_def)
    then show ?thesis unfolding d1_def by (rule quiet_read [OF a])
  qed
qed

lemma prepared_id:
  assumes inv: "attempts_inv sent r" and out: "PrepareAIAttemptDispatch env ident r = ((p, changed, None), r')"
  shows "att_ID p = TrimSpace ident"
proof -
  obtain a operation where a: "FindAIAttempt (TrimSpace ident) r = Some a"
    and read: "prepare_read (de_now env) a operation r = ((p, changed, None), r')"
    using out by (auto simp: PrepareAIAttemptDispatch_def split: option.splits)
  have at: "map_of (aiAttempts r) (TrimSpace ident) = Some a" using a by (simp add: FindAIAttempt_def)
  have id: "att_ID a = TrimSpace ident" using attempts_inv_lookup(1) [OF inv at] .
  have "att_ID u = TrimSpace ident" if "UpdateAIAttemptDispatch q n r = ((u, ch, e), s)" "att_ID q = att_ID a" for q n u ch e s
    using that at id by (auto simp: UpdateAIAttemptDispatch_def attempt_at_def mhas_def Let_def split: if_splits)
  then show ?thesis using read id
    by (auto simp: prepare_read_def Let_def split: if_splits prod.splits option.splits)
qed

lemma submitted_run:
  assumes inv: "attempts_inv (dr_sent d) (dr_repo d)" and out: "MarkAIAttemptDispatchSubmitted env ident version at (dr_repo d) = ((u, changed, err), r)"
  shows "\<exists>d'. dispatch_step\<^sup>*\<^sup>* d d' \<and> dr_repo d' = r \<and> dr_sent d' = (if changed then TrimSpace ident # dr_sent d else dr_sent d)"
proof (cases "FindAIAttempt (TrimSpace ident) (dr_repo d)")
  case None
  then have "r = dr_repo d" "\<not> changed" using out by (auto simp: MarkAIAttemptDispatchSubmitted_def with_attempt_def)
  then show ?thesis by auto
next
  case (Some a)
  define d1 where "d1 = d\<lparr>dr_reads := insert a (dr_reads d)\<rparr>"
  have id: "att_ID a = TrimSpace ident" using attempts_inv_lookup(1) [OF inv, of "TrimSpace ident" a] Some by (simp add: FindAIAttempt_def)
  have s1: "dispatch_step d d1" unfolding d1_def by (rule dispatch_step.read_attempt [OF Some])
  have "submit_read (de_now env) version at a (dr_repo d1) = ((u, changed, err), r)"
    using out Some by (simp add: MarkAIAttemptDispatchSubmitted_def with_attempt_def d1_def)
  then have "dispatch_step d1 (d1\<lparr>dr_repo := r, dr_sent := (if changed then att_ID a # dr_sent d1 else dr_sent d1)\<rparr>)"
    by (intro dispatch_step.submit) (simp_all add: d1_def)
  then have "dispatch_step\<^sup>*\<^sup>* d (d1\<lparr>dr_repo := r, dr_sent := (if changed then att_ID a # dr_sent d1 else dr_sent d1)\<rparr>)" using s1 by simp
  moreover have "dr_sent d1 = dr_sent d" by (simp add: d1_def)
  ultimately show ?thesis using id
    by (intro exI [where x = "d1\<lparr>dr_repo := r, dr_sent := (if changed then att_ID a # dr_sent d1 else dr_sent d1)\<rparr>"]) simp
qed

lemma submitted_no_error: "MarkAIAttemptDispatchSubmitted env ident version at r = ((u, True, err), r') \<Longrightarrow> err = None"
  by (auto simp: MarkAIAttemptDispatchSubmitted_def with_attempt_def submit_read_def updateAIAttemptDispatch_def
    split: if_splits option.splits prod.splits)

lemma submitted_attempt:
  assumes "MarkAIAttemptDispatchSubmitted env ident version at r = ((u, True, err), r')" "attempts_inv sent r"
  shows "map_of (aiAttempts r') (TrimSpace ident) = Some u \<and> att_DispatchSubmittedAt u \<noteq> None"
proof -
  obtain a where a: "FindAIAttempt (TrimSpace ident) r = Some a" and read: "submit_read (de_now env) version at a r = ((u, True, err), r')"
    using assms(1) by (auto simp: MarkAIAttemptDispatchSubmitted_def with_attempt_def split: option.splits)
  have at: "map_of (aiAttempts r) (TrimSpace ident) = Some a" using a by (simp add: FindAIAttempt_def)
  have id: "att_ID a = TrimSpace ident" using attempts_inv_lookup(1) [OF assms(2) at] .
  show ?thesis using read at id
    by (auto simp: submit_read_def updateAIAttemptDispatch_def UpdateAIAttemptDispatch_def attempt_at_def mhas_def Let_def
      applyAIAttemptDispatchUpdate_def split: if_splits)
qed

text \<open>What an execution does: the run it is, and what it gave to the provider.\<close>

definition asked :: "ProviderDispatchCommand option \<Rightarrow> string list" where
  "asked command = (case command of None \<Rightarrow> [] | Some c \<Rightarrow> [pdi_AttemptID (pdc_Intent c)])"

lemma execute_run:
  assumes inv: "dispatch_inv d" and out: "ExecuteAIAttemptDispatch decode envs (Some dispatch) ident payload (dr_repo d) = (res, command, r)"
  shows "\<exists>d'. dispatch_step\<^sup>*\<^sup>* d d' \<and> dr_repo d' = r \<and> dr_sent d' = asked command @ dr_sent d"
    and "command = Some c \<Longrightarrow> pdi_AttemptID (pdc_Intent c) = TrimSpace ident \<and> pdc_Payload c = payload"
proof -
  obtain p ch e r1 where p: "PrepareAIAttemptDispatch (envs 0) ident (dr_repo d) = ((p, ch, e), r1)" by (metis prod.collapse)
  obtain d1 where d1: "dispatch_step\<^sup>*\<^sup>* d d1" "dr_repo d1 = r1" "dr_sent d1 = dr_sent d" using prepare_quiet [OF p] by (auto simp: quiet_def)
  have inv1: "attempts_inv (dr_sent d1) (dr_repo d1)" using dispatch_run_inv [OF d1(1) inv] by (simp add: dispatch_inv_def)
  have idp: "att_ID p = TrimSpace ident" if "e = None"
    using prepared_id [OF _ p [unfolded that], of "dr_sent d"] inv by (simp add: dispatch_inv_def)
  define mark where "mark = MarkAIAttemptDispatchSubmitted (envs 1) (att_ID p) (att_DispatchVersion p)
      (de_delay (envs 1) + providerDispatchDefaultReconcileDelay) r1"
  obtain u changed err r2 where m: "mark = ((u, changed, err), r2)" by (metis prod.collapse)
  then obtain d2 where d2: "dispatch_step\<^sup>*\<^sup>* d1 d2" "dr_repo d2 = r2"
      "dr_sent d2 = (if changed then TrimSpace (att_ID p) # dr_sent d1 else dr_sent d1)"
    using submitted_run [OF inv1] d1(2) unfolding mark_def by metis
  have unfolded: "e = None \<and> (\<exists>intent. providerDispatchIntentFromAttempt decode p = Inr intent \<and>
        (if changed then command = Some \<lparr>pdc_Intent = intent, pdc_Payload = payload\<rparr>
           \<and> r = snd (resolveProviderDispatchResult (envs 2) (envs 3) u (fst (dispatch \<lparr>pdc_Intent = intent, pdc_Payload = payload\<rparr>)) r2)
         else command = None \<and> r = r2)) \<or> command = None \<and> r = r1"
  proof (cases "e = None \<and> (\<exists>intent. providerDispatchIntentFromAttempt decode p = Inr intent)")
    case False
    then show ?thesis using out p
      by (cases e; cases "providerDispatchIntentFromAttempt decode p") (auto simp: ExecuteAIAttemptDispatch_def)
  next
    case True
    then obtain intent where i: "e = None" "providerDispatchIntentFromAttempt decode p = Inr intent" by blast
    obtain result derr where dr: "dispatch \<lparr>pdc_Intent = intent, pdc_Payload = payload\<rparr> = (result, derr)" by (metis prod.collapse)
    obtain res' r' where rs: "resolveProviderDispatchResult (envs 2) (envs 3) u result r2 = (res', r')" by (metis prod.collapse)
    have "changed \<Longrightarrow> err = None" using m submitted_no_error unfolding mark_def by metis
    then show ?thesis using out p i m dr rs
      by (cases err; cases changed) (auto simp: ExecuteAIAttemptDispatch_def mark_def resolved_def Let_def split: prod.splits)
  qed
  have intent: "pdi_AttemptID intent = TrimSpace ident" if "e = None" "providerDispatchIntentFromAttempt decode p = Inr intent" for intent
    using that idp by (auto simp: providerDispatchIntentFromAttempt_def split: sum.splits if_splits)
  show "command = Some c \<Longrightarrow> pdi_AttemptID (pdc_Intent c) = TrimSpace ident \<and> pdc_Payload c = payload" for c
    using unfolded intent by (auto split: if_splits)
  from unfolded consider "command = None" "r = r1" | "e = None" "\<not> changed" "command = None" "r = r2"
    | intent result where "e = None" "providerDispatchIntentFromAttempt decode p = Inr intent" "changed"
        "command = Some \<lparr>pdc_Intent = intent, pdc_Payload = payload\<rparr>"
        "r = snd (resolveProviderDispatchResult (envs 2) (envs 3) u result r2)"
    by (auto split: if_splits)
  then show "\<exists>d'. dispatch_step\<^sup>*\<^sup>* d d' \<and> dr_repo d' = r \<and> dr_sent d' = asked command @ dr_sent d"
  proof cases
    case 1
    then show ?thesis using d1 by (auto simp: asked_def)
  next
    case 2
    then show ?thesis using d1 d2 rtranclp_trans [OF d1(1) d2(1)] by (auto simp: asked_def)
  next
    case (3 intent result)
    have "quiet d2 r" using resolve_quiet [of "envs 2" "envs 3" u result d2] 3(5) d2(2) by (metis prod.collapse)
    then obtain d3 where d3: "dispatch_step\<^sup>*\<^sup>* d2 d3" "dr_repo d3 = r" "dr_sent d3 = dr_sent d2" by (auto simp: quiet_def)
    have "dispatch_step\<^sup>*\<^sup>* d d3" using d1(1) d2(1) d3(1) by (meson rtranclp_trans)
    moreover have "dr_sent d3 = asked command @ dr_sent d"
      using d3(3) d2(3) d1(3) 3 intent [OF 3(1,2)] idp [OF 3(1)] by (simp add: asked_def)
    ultimately show ?thesis using d3(2) by blast
  qed
qed

lemma reconcile_quiet:
  assumes "ReconcileAIAttemptDispatch decode envs reconciler ident (dr_repo d) = (out, r)"
  shows "quiet d r"
proof -
  have "r = dr_repo d \<or> (\<exists>env env2 a result res. resolveProviderDispatchResult env env2 a result (dr_repo d) = (res, r))"
    using assms by (fastforce simp: ReconcileAIAttemptDispatch_def resolved_def split: option.splits sum.splits prod.splits if_splits)
  then show ?thesis using resolve_quiet by auto
qed

text \<open>The repository's own operations on operations keep the fingerprints.\<close>

lemma operation_steps:
  shows "dispatch_step d (d\<lparr>dr_repo := snd (CreateAIOperation operation (dr_repo d))\<rparr>)"
    and "dispatch_step d (d\<lparr>dr_repo := snd (MarkAIOperationRunning k t (dr_repo d))\<rparr>)"
    and "dispatch_step d (d\<lparr>dr_repo := snd (CompleteAIOperation k status errorType t (dr_repo d))\<rparr>)"
  by (rule dispatch_step.other; auto simp: CreateAIOperation_def MarkAIOperationRunning_def CompleteAIOperation_def fingerprints_kept_def mhas_def Let_def
      split: option.splits)+

definition dispatch_start :: dispatch_run where
  "dispatch_start = \<lparr>dr_repo = NewMemoryRepository, dr_reads = {}, dr_operations = {}, dr_sent = []\<rparr>"

definition dispatch_reachable :: "dispatch_run \<Rightarrow> bool" where
  "dispatch_reachable d \<longleftrightarrow> dispatch_step\<^sup>*\<^sup>* dispatch_start d"

lemma dispatch_reachable_inv: "dispatch_reachable d \<Longrightarrow> dispatch_inv d"
proof -
  have "dispatch_inv dispatch_start"
    by (simp add: dispatch_inv_def dispatch_start_def attempts_inv_def reads_inv_def operations_inv_def NewMemoryRepository_def)
  then show "dispatch_reachable d \<Longrightarrow> dispatch_inv d" using dispatch_run_inv unfolding dispatch_reachable_def by blast
qed

lemma dispatch_reachable_run: "dispatch_reachable d \<Longrightarrow> dispatch_step\<^sup>*\<^sup>* d d' \<Longrightarrow> dispatch_reachable d'"
  unfolding dispatch_reachable_def by (rule rtranclp_trans)

lemma sent_due:
  assumes "dispatch_inv d" "k \<in> set (dr_sent d)"
  shows "\<exists>a. map_of (aiAttempts (dr_repo d)) k = Some a \<and> att_DispatchSubmittedAt a \<noteq> None
    \<and> (att_Status a = AIAttemptStatusRunning \<longrightarrow> att_DispatchState a \<noteq> AIAttemptDispatchProvenNotCreated
        \<longrightarrow> (\<exists>t. \<forall>now \<ge> t. aiAttemptDueForReconciliation a now))"
proof -
  have inv: "attempts_inv (dr_sent d) (dr_repo d)" using assms(1) by (simp add: dispatch_inv_def)
  then obtain a where a: "map_of (aiAttempts (dr_repo d)) k = Some a" using assms(2) unfolding attempts_inv_def mhas_def by blast
  have sub: "att_DispatchSubmittedAt a \<noteq> None" using attempts_inv_lookup(4) [OF inv a] assms(2) by blast
  have "\<exists>t. \<forall>now \<ge> t. aiAttemptDueForReconciliation a now"
    if "att_Status a = AIAttemptStatusRunning" "att_DispatchState a \<noteq> AIAttemptDispatchProvenNotCreated"
  proof (intro exI [where x = "aiAttemptReconciliationTime a"] allI impI)
    fix now
    assume "aiAttemptReconciliationTime a \<le> now"
    then show "aiAttemptDueForReconciliation a now" using attempts_inv_lookup(2) [OF inv a] sub that
      by (auto simp: dispatch_ok_def aiAttemptDueForReconciliation_def aiAttemptReconciliationTime_def split: option.splits)
  qed
  then show ?thesis using a sub by blast
qed

text \<open>An attempt that is pending is given to its provider.\<close>

lemma update_running:
  assumes "keyed att_ID (aiAttempts r)" "map_of (aiAttempts r) (att_ID q) = Some c" "att_Status c = AIAttemptStatusRunning" "att_ProviderTaskID q = []"
  shows "UpdateAIAttemptDispatch q (att_DispatchVersion c) r = ((applyAIAttemptDispatchUpdate c q, True, None),
    r\<lparr>aiAttempts := mput (att_ID q) (applyAIAttemptDispatchUpdate c q) (aiAttempts r)\<rparr>)"
  using assms keyed_lookup [OF assms(1,2)] by (simp add: UpdateAIAttemptDispatch_def attempt_at_def mhas_def Let_def)

lemma pending_asks:
  assumes inv: "attempts_inv sent r" and a: "map_of (aiAttempts r) (TrimSpace ident) = Some a" "att_DispatchState a = AIAttemptDispatchPending"
      "att_Status a = AIAttemptStatusRunning"
    and operation: "map_of (aiOperations r) (att_OperationID a) = Some operation" "op_RequestFingerprint operation \<noteq> []"
    and decode: "decode (intent_json (dispatch_intent a operation)) = Inr (dispatch_intent a operation)"
    and out: "ExecuteAIAttemptDispatch decode envs (Some dispatch) ident payload r = (res, command, r')"
  shows "command = Some \<lparr>pdc_Intent = dispatch_intent a operation, pdc_Payload = payload\<rparr>"
proof -
  have ok: "att_DispatchIntentJSON a = []" "att_ProviderTaskID a = []"
    using attempts_inv_lookup(2) [OF inv a(1)] a(2) by (auto simp: dispatch_ok_def cp_consts)
  have id: "att_ID a = TrimSpace ident" using attempts_inv_lookup(1) [OF inv a(1)] .
  have keyed: "keyed att_ID (aiAttempts r)" using inv by (simp add: attempts_inv_def)
  define q where "q = a\<lparr>att_DispatchState := AIAttemptDispatchPrepared, att_DispatchIntentJSON := intent_json (dispatch_intent a operation),
    att_UpdatedAt := de_now (envs 0)\<rparr>"
  define p where "p = applyAIAttemptDispatchUpdate a q"
  define r1 where "r1 = r\<lparr>aiAttempts := mput (TrimSpace ident) p (aiAttempts r)\<rparr>"
  have prep: "PrepareAIAttemptDispatch (envs 0) ident r = ((p, True, None), r1)"
    using update_running [OF keyed, of q a] a operation ok id
    by (simp add: PrepareAIAttemptDispatch_def FindAIAttempt_def FindAIOperation_def prepare_read_def Let_def p_def r1_def q_def)
  have p: "att_ID p = TrimSpace ident" "att_DispatchState p = AIAttemptDispatchPrepared" "att_Status p = AIAttemptStatusRunning"
    "att_ProviderTaskID p = []" "providerDispatchIntentFromAttempt decode p = Inr (dispatch_intent a operation)"
    using id a(3) ok decode operation(2)
    by (simp_all add: p_def q_def applyAIAttemptDispatchUpdate_def providerDispatchIntentFromAttempt_def dispatch_intent_def)
  have at: "map_of (aiAttempts r1) (TrimSpace ident) = Some p" and keyed1: "keyed att_ID (aiAttempts r1)"
    using keyed p(1) by (auto simp: r1_def)
  obtain u r2 where mark: "MarkAIAttemptDispatchSubmitted (envs 1) (att_ID p) (att_DispatchVersion p)
      (de_delay (envs 1) + providerDispatchDefaultReconcileDelay) r1 = ((u, True, None), r2)"
    using update_running [OF keyed1, of _ p] at p
    by (simp add: MarkAIAttemptDispatchSubmitted_def with_attempt_def FindAIAttempt_def submit_read_def updateAIAttemptDispatch_def cp_consts)
  show ?thesis using out prep p(5) mark
    by (simp add: ExecuteAIAttemptDispatch_def Let_def split: prod.splits)
qed

section \<open>Properties\<close>

text \<open>
  C7. A provider is asked at most once for an attempt, whatever the workers do: along every interleaving of reads and writes of the
  dispatch service from the empty repository, no attempt is given to a provider twice; one that was given is stored as submitted, and
  it ends, is proven not created, or is due for reconciliation from some time on. \<open>ExecuteAIAttemptDispatch\<close> is such a run from any of
  these states: it asks the provider only for an attempt that was not given before, under that attempt's id and with the payload of the
  caller, whatever the provider answers, and it does ask for a running attempt still pending whose operation is known.
\<close>

theorem provider_called_once:
  assumes "dispatch_reachable d"
    and "ExecuteAIAttemptDispatch decode envs (Some dispatch) ident payload (dr_repo d) = (result, command, r)"
  shows "distinct (dr_sent d)
    \<and> (\<forall>k \<in> set (dr_sent d). \<exists>a. map_of (aiAttempts (dr_repo d)) k = Some a \<and> att_DispatchSubmittedAt a \<noteq> None
        \<and> (att_Status a = AIAttemptStatusRunning \<longrightarrow> att_DispatchState a \<noteq> AIAttemptDispatchProvenNotCreated
            \<longrightarrow> (\<exists>t. \<forall>now \<ge> t. aiAttemptDueForReconciliation a now)))
    \<and> (\<exists>d'. dispatch_step\<^sup>*\<^sup>* d d' \<and> dr_repo d' = r
        \<and> dr_sent d' = (case command of None \<Rightarrow> dr_sent d | Some c \<Rightarrow> pdi_AttemptID (pdc_Intent c) # dr_sent d))
    \<and> (\<forall>c. command = Some c \<longrightarrow> pdi_AttemptID (pdc_Intent c) = TrimSpace ident \<and> pdc_Payload c = payload
        \<and> TrimSpace ident \<notin> set (dr_sent d)
        \<and> (\<exists>a. map_of (aiAttempts r) (TrimSpace ident) = Some a \<and> att_DispatchSubmittedAt a \<noteq> None))
    \<and> (\<forall>a operation. map_of (aiAttempts (dr_repo d)) (TrimSpace ident) = Some a \<longrightarrow> att_DispatchState a = AIAttemptDispatchPending
        \<longrightarrow> att_Status a = AIAttemptStatusRunning \<longrightarrow> map_of (aiOperations (dr_repo d)) (att_OperationID a) = Some operation
        \<longrightarrow> op_RequestFingerprint operation \<noteq> []
        \<longrightarrow> decode (intent_json (dispatch_intent a operation)) = Inr (dispatch_intent a operation)
        \<longrightarrow> command = Some \<lparr>pdc_Intent = dispatch_intent a operation, pdc_Payload = payload\<rparr>)"
proof -
  have inv: "dispatch_inv d" using dispatch_reachable_inv [OF assms(1)] .
  have attempts: "attempts_inv (dr_sent d) (dr_repo d)" using inv by (simp add: dispatch_inv_def)
  obtain d' where d': "dispatch_step\<^sup>*\<^sup>* d d'" "dr_repo d' = r" "dr_sent d' = asked command @ dr_sent d"
    using execute_run(1) [OF inv assms(2)] by blast
  have attempts': "attempts_inv (asked command @ dr_sent d) r"
    using dispatch_reachable_inv [OF dispatch_reachable_run [OF assms(1) d'(1)]] d'(2,3) by (simp add: dispatch_inv_def)
  have asks: "pdi_AttemptID (pdc_Intent c) = TrimSpace ident \<and> pdc_Payload c = payload \<and> TrimSpace ident \<notin> set (dr_sent d)
      \<and> (\<exists>a. map_of (aiAttempts r) (TrimSpace ident) = Some a \<and> att_DispatchSubmittedAt a \<noteq> None)" if c: "command = Some c" for c
  proof -
    have id: "pdi_AttemptID (pdc_Intent c) = TrimSpace ident" "pdc_Payload c = payload" using execute_run(2) [OF inv assms(2) c] by simp_all
    then obtain a where "map_of (aiAttempts r) (TrimSpace ident) = Some a"
      using attempts' c by (auto simp: attempts_inv_def asked_def mhas_def)
    moreover have "TrimSpace ident \<notin> set (dr_sent d)" using attempts' c id by (simp add: attempts_inv_def asked_def)
    moreover have "TrimSpace ident \<in> set (asked command @ dr_sent d)" using c id by (simp add: asked_def)
    ultimately show ?thesis using id attempts_inv_lookup(4) [OF attempts'] by blast
  qed
  have "dr_sent d' = (case command of None \<Rightarrow> dr_sent d | Some c \<Rightarrow> pdi_AttemptID (pdc_Intent c) # dr_sent d)"
    using d'(3) by (simp add: asked_def split: option.splits)
  then show ?thesis
    using attempts d'(1,2) asks sent_due [OF inv] pending_asks [OF attempts _ _ _ _ _ _ assms(2)] unfolding attempts_inv_def by blast
qed

text \<open>An operation with one pending attempt, dispatched twice.\<close>

definition demo_env :: dispatch_env where
  "demo_env = \<lparr>de_random = ''1'', de_terminal = 7, de_delay = 7, de_now = 7, de_completed = 7\<rparr>"

definition demo_dispatched_operation :: AIOperation where
  "demo_dispatched_operation = demo_operation\<lparr>op_RequestFingerprint := ''fp''\<rparr>"

definition demo_operations :: MemoryRepository where
  "demo_operations = NewMemoryRepository\<lparr>aiOperations := [(''op_1'', demo_dispatched_operation)]\<rparr>"

definition demo_provider :: "unit GatewayProvider" where
  "demo_provider = \<lparr>gp_AttemptID = [], gp_ID = ''p'', gp_Name = [], gp_Type = [], gp_BaseURL = [], gp_APIKey = [], gp_AuthType = [],
     gp_AdapterConfig = [], gp_AdapterID = ''ad'', gp_AccountID = ''acc'', gp_AccountName = [], gp_Concurrency = 0, gp_GatewayModelID = [],
     gp_RequestedModel = [], gp_UpstreamModel = ''m'', gp_UpstreamFormat = [], gp_RouteID = ''rt'', gp_RouteGroup = [], gp_RoutePriority = 0,
     gp_RouteWeight = 0, gp_AccountWeight = 0, gp_RPMLimit = 0, gp_TPMLimit = 0, gp_CircuitState = [], gp_CircuitProbe = False,
     gp_Headroom = (), gp_StickyEnabled = False, gp_StickyTTLSeconds = 0, gp_Source = [], gp_SelectionReason = []\<rparr>"

definition demo_pending :: dispatch_run where
  "demo_pending = dispatch_start\<lparr>dr_repo := snd (BeginAIAttempt demo_env ''op_1'' 1 demo_provider demo_operations)\<rparr>"

definition demo_pending_attempt :: AIAttempt where
  "demo_pending_attempt = new_attempt demo_env ''op_1'' 1 demo_provider"

definition demo_decode :: "string \<Rightarrow> go_error + ProviderDispatchIntent" where
  "demo_decode json = (let intent = dispatch_intent demo_pending_attempt demo_dispatched_operation
     in if json = intent_json intent then Inr intent else Inl (errors_New ''invalid JSON''))"

definition demo_answer :: "ProviderDispatchCommand \<Rightarrow> ProviderDispatchResult \<times> go_error option" where
  "demo_answer command = (zero_ProviderDispatchResult\<lparr>pdr_Outcome := ProviderDispatchOutcomeAccepted,
     pdr_Task := zero_ProviderTaskReference\<lparr>task_ProviderTaskID := ''task_1''\<rparr>\<rparr>, None)"

lemma demo_pending_reachable: "dispatch_reachable demo_pending"
proof -
  have "dispatch_step dispatch_start (dispatch_start\<lparr>dr_repo := demo_operations\<rparr>)"
    by (rule dispatch_step.other) (simp_all add: demo_operations_def dispatch_start_def fingerprints_kept_def NewMemoryRepository_def)
  moreover have "dispatch_step (dispatch_start\<lparr>dr_repo := demo_operations\<rparr>) demo_pending"
    using dispatch_step.begin_attempt [of demo_env "''op_1''" 1 demo_provider "dispatch_start\<lparr>dr_repo := demo_operations\<rparr>"
      "fst (BeginAIAttempt demo_env ''op_1'' 1 demo_provider demo_operations)"
      "snd (BeginAIAttempt demo_env ''op_1'' 1 demo_provider demo_operations)"]
    by (simp add: demo_pending_def)
  ultimately show ?thesis unfolding dispatch_reachable_def by (meson r_into_rtranclp rtranclp.rtrancl_into_rtrancl)
qed

lemma demo_pending_fields:
  "map_of (aiAttempts (dr_repo demo_pending)) (TrimSpace ''attempt_1'') = Some demo_pending_attempt"
  "map_of (aiOperations (dr_repo demo_pending)) (att_OperationID demo_pending_attempt) = Some demo_dispatched_operation"
  "att_DispatchState demo_pending_attempt = AIAttemptDispatchPending" "att_Status demo_pending_attempt = AIAttemptStatusRunning"
  "op_RequestFingerprint demo_dispatched_operation \<noteq> []"
proof -
  have "BeginAIAttempt demo_env ''op_1'' 1 demo_provider demo_operations
      = (Inr demo_pending_attempt, demo_operations\<lparr>aiAttempts := [(''attempt_1'', demo_pending_attempt)]\<rparr>)" by code_simp
  then show "map_of (aiAttempts (dr_repo demo_pending)) (TrimSpace ''attempt_1'') = Some demo_pending_attempt"
    "map_of (aiOperations (dr_repo demo_pending)) (att_OperationID demo_pending_attempt) = Some demo_dispatched_operation"
    unfolding demo_pending_def by (simp, code_simp)+
qed code_simp+

theorem provider_called_once_witness:
  "case ExecuteAIAttemptDispatch demo_decode (\<lambda>_. demo_env) (Some demo_answer) ''attempt_1'' ''body'' (dr_repo demo_pending) of
     (_, command, r) \<Rightarrow> command = Some \<lparr>pdc_Intent = dispatch_intent demo_pending_attempt demo_dispatched_operation, pdc_Payload = ''body''\<rparr>
       \<and> fst (snd (ExecuteAIAttemptDispatch demo_decode (\<lambda>_. demo_env) (Some demo_answer) ''attempt_1'' ''body'' r)) = None"
proof -
  let ?run = "ExecuteAIAttemptDispatch demo_decode (\<lambda>_. demo_env) (Some demo_answer) ''attempt_1'' ''body''"
  obtain result command r where first: "?run (dr_repo demo_pending) = (result, command, r)" by (metis prod.collapse)
  obtain result' command' r' where second: "?run r = (result', command', r')" by (metis prod.collapse)
  have decode: "demo_decode (intent_json (dispatch_intent demo_pending_attempt demo_dispatched_operation))
      = Inr (dispatch_intent demo_pending_attempt demo_dispatched_operation)" by (simp add: demo_decode_def Let_def)
  note once = provider_called_once [OF demo_pending_reachable first]
  have command: "command = Some \<lparr>pdc_Intent = dispatch_intent demo_pending_attempt demo_dispatched_operation, pdc_Payload = ''body''\<rparr>"
    using once demo_pending_fields decode by blast
  from once obtain d' where d': "dispatch_step\<^sup>*\<^sup>* demo_pending d'" "dr_repo d' = r" "TrimSpace ''attempt_1'' \<in> set (dr_sent d')"
    using command by auto
  have "command' = None"
    using provider_called_once [OF dispatch_reachable_run [OF demo_pending_reachable d'(1)], of demo_decode "\<lambda>_. demo_env" demo_answer
      "''attempt_1''" "''body''" result' command' r'] second d'(2,3) by (metis option.exhaust)
  then show ?thesis using first second command by simp
qed

text \<open>
  C30. What was decided for an attempt stays: along every interleaving of the dispatch service, an attempt keeps its intent once it has
  one, its submission time once it is submitted, and the provider's task, request and account once a task is bound; after its end it
  does not change at all. A stored intent is always the one that the attempt's operation and provider determine, no task of a
  provider account belongs to two attempts, and a reconciliation is such a run in which no provider is asked to create anything.
\<close>

theorem bound_task_kept:
  assumes "dispatch_reachable d" "dispatch_step\<^sup>*\<^sup>* d d'"
  shows "(\<forall>k a. map_of (aiAttempts (dr_repo d)) k = Some a \<longrightarrow> (\<exists>b. map_of (aiAttempts (dr_repo d')) k = Some b
        \<and> att_ProviderAccountID b = att_ProviderAccountID a
        \<and> (att_DispatchIntentJSON a \<noteq> [] \<longrightarrow> att_DispatchIntentJSON b = att_DispatchIntentJSON a)
        \<and> (att_DispatchSubmittedAt a \<noteq> None \<longrightarrow> att_DispatchSubmittedAt b = att_DispatchSubmittedAt a)
        \<and> (att_ProviderTaskID a \<noteq> [] \<longrightarrow> att_ProviderTaskID b = att_ProviderTaskID a \<and> att_ProviderRequestID b = att_ProviderRequestID a)
        \<and> (att_Status a \<noteq> AIAttemptStatusRunning \<longrightarrow> b = a)))
    \<and> (\<forall>k a. map_of (aiAttempts (dr_repo d')) k = Some a \<longrightarrow> att_DispatchIntentJSON a \<noteq> []
        \<longrightarrow> (\<exists>operation. map_of (aiOperations (dr_repo d')) (att_OperationID a) = Some operation
              \<and> att_DispatchIntentJSON a = intent_json (dispatch_intent a operation)))
    \<and> (\<forall>k j a b. map_of (aiAttempts (dr_repo d')) k = Some a \<longrightarrow> map_of (aiAttempts (dr_repo d')) j = Some b
        \<longrightarrow> att_ProviderTaskID a \<noteq> [] \<longrightarrow> att_ProviderTaskID b = att_ProviderTaskID a
        \<longrightarrow> att_ProviderAccountID b = att_ProviderAccountID a \<longrightarrow> k = j)
    \<and> (\<forall>decode envs reconciler ident out r. ReconcileAIAttemptDispatch decode envs reconciler ident (dr_repo d') = (out, r)
        \<longrightarrow> (\<exists>d''. dispatch_step\<^sup>*\<^sup>* d' d'' \<and> dr_repo d'' = r \<and> dr_sent d'' = dr_sent d'))"
proof (intro conjI)
  have inv: "attempts_inv (dr_sent d') (dr_repo d')" and on: "attempts_go_on (dr_repo d) (dr_repo d')"
    using dispatch_run_inv [OF assms(2) dispatch_reachable_inv [OF assms(1)]] by (simp_all add: dispatch_inv_def)
  show "\<forall>k a. map_of (aiAttempts (dr_repo d)) k = Some a \<longrightarrow> (\<exists>b. map_of (aiAttempts (dr_repo d')) k = Some b
        \<and> att_ProviderAccountID b = att_ProviderAccountID a
        \<and> (att_DispatchIntentJSON a \<noteq> [] \<longrightarrow> att_DispatchIntentJSON b = att_DispatchIntentJSON a)
        \<and> (att_DispatchSubmittedAt a \<noteq> None \<longrightarrow> att_DispatchSubmittedAt b = att_DispatchSubmittedAt a)
        \<and> (att_ProviderTaskID a \<noteq> [] \<longrightarrow> att_ProviderTaskID b = att_ProviderTaskID a \<and> att_ProviderRequestID b = att_ProviderRequestID a)
        \<and> (att_Status a \<noteq> AIAttemptStatusRunning \<longrightarrow> b = a))"
  proof (intro allI impI)
    fix k a
    assume "map_of (aiAttempts (dr_repo d)) k = Some a"
    then obtain b where "map_of (aiAttempts (dr_repo d')) k = Some b" "goes_on a b" using on unfolding attempts_go_on_def by blast
    then show "\<exists>b. map_of (aiAttempts (dr_repo d')) k = Some b
        \<and> att_ProviderAccountID b = att_ProviderAccountID a
        \<and> (att_DispatchIntentJSON a \<noteq> [] \<longrightarrow> att_DispatchIntentJSON b = att_DispatchIntentJSON a)
        \<and> (att_DispatchSubmittedAt a \<noteq> None \<longrightarrow> att_DispatchSubmittedAt b = att_DispatchSubmittedAt a)
        \<and> (att_ProviderTaskID a \<noteq> [] \<longrightarrow> att_ProviderTaskID b = att_ProviderTaskID a \<and> att_ProviderRequestID b = att_ProviderRequestID a)
        \<and> (att_Status a \<noteq> AIAttemptStatusRunning \<longrightarrow> b = a)"
      using goes_on_fields by (intro exI conjI) blast+
  qed
  show "\<forall>k a. map_of (aiAttempts (dr_repo d')) k = Some a \<longrightarrow> att_DispatchIntentJSON a \<noteq> []
        \<longrightarrow> (\<exists>operation. map_of (aiOperations (dr_repo d')) (att_OperationID a) = Some operation
              \<and> att_DispatchIntentJSON a = intent_json (dispatch_intent a operation))"
    using attempts_inv_lookup(3) [OF inv] unfolding intent_ok_def by blast
  show "\<forall>k j a b. map_of (aiAttempts (dr_repo d')) k = Some a \<longrightarrow> map_of (aiAttempts (dr_repo d')) j = Some b
        \<longrightarrow> att_ProviderTaskID a \<noteq> [] \<longrightarrow> att_ProviderTaskID b = att_ProviderTaskID a
        \<longrightarrow> att_ProviderAccountID b = att_ProviderAccountID a \<longrightarrow> k = j"
    using inv unfolding attempts_inv_def by blast
  show "\<forall>decode envs reconciler ident out r. ReconcileAIAttemptDispatch decode envs reconciler ident (dr_repo d') = (out, r)
        \<longrightarrow> (\<exists>d''. dispatch_step\<^sup>*\<^sup>* d' d'' \<and> dr_repo d'' = r \<and> dr_sent d'' = dr_sent d')"
    using reconcile_quiet unfolding quiet_def by blast
qed

text \<open>The attempt is given to its provider and the task bound; the worker that read it before it was prepared finds nothing to overwrite.\<close>

definition demo_bound :: MemoryRepository where
  "demo_bound = snd (snd (ExecuteAIAttemptDispatch demo_decode (\<lambda>_. demo_env) (Some demo_answer) ''attempt_1'' ''body'' (dr_repo demo_pending)))"

lemma demo_bound_task: "map_option att_ProviderTaskID (map_of (aiAttempts demo_bound) ''attempt_1'') = Some ''task_1''"
  by code_simp

theorem bound_task_kept_witness:
  "\<exists>d a. dr_repo d = demo_bound \<and> dispatch_reachable d \<and> map_of (aiAttempts demo_bound) ''attempt_1'' = Some a
     \<and> (\<forall>d'. dispatch_step\<^sup>*\<^sup>* d d' \<longrightarrow> (\<exists>b. map_of (aiAttempts (dr_repo d')) ''attempt_1'' = Some b \<and> att_ProviderTaskID b = ''task_1''
          \<and> att_ProviderAccountID b = ''acc''))"
proof -
  have "ExecuteAIAttemptDispatch demo_decode (\<lambda>_. demo_env) (Some demo_answer) ''attempt_1'' ''body'' (dr_repo demo_pending)
      = (fst (ExecuteAIAttemptDispatch demo_decode (\<lambda>_. demo_env) (Some demo_answer) ''attempt_1'' ''body'' (dr_repo demo_pending)),
         fst (snd (ExecuteAIAttemptDispatch demo_decode (\<lambda>_. demo_env) (Some demo_answer) ''attempt_1'' ''body'' (dr_repo demo_pending))),
         demo_bound)" by (simp add: demo_bound_def)
  from execute_run(1) [OF dispatch_reachable_inv [OF demo_pending_reachable] this]
  obtain d where d: "dispatch_step\<^sup>*\<^sup>* demo_pending d" "dr_repo d = demo_bound" by blast
  obtain a where a: "map_of (aiAttempts demo_bound) ''attempt_1'' = Some a" "att_ProviderTaskID a = ''task_1''"
    using demo_bound_task by auto
  have acc: "map_option att_ProviderAccountID (map_of (aiAttempts demo_bound) ''attempt_1'') = Some ''acc''" by code_simp
  have reach: "dispatch_reachable d" by (rule dispatch_reachable_run [OF demo_pending_reachable d(1)])
  have "\<exists>b. map_of (aiAttempts (dr_repo d')) ''attempt_1'' = Some b \<and> att_ProviderTaskID b = ''task_1'' \<and> att_ProviderAccountID b = ''acc''"
    if run: "dispatch_step\<^sup>*\<^sup>* d d'" for d'
  proof -
    have at: "map_of (aiAttempts (dr_repo d)) ''attempt_1'' = Some a" using a(1) d(2) by simp
    obtain b where b: "map_of (aiAttempts (dr_repo d')) ''attempt_1'' = Some b" "att_ProviderAccountID b = att_ProviderAccountID a"
      "att_ProviderTaskID a \<noteq> [] \<longrightarrow> att_ProviderTaskID b = att_ProviderTaskID a"
      using conjunct1 [OF bound_task_kept [OF reach run]] at by blast
    then show ?thesis using a(2) acc a(1) by simp
  qed
  then show ?thesis using d(2) reach a(1) by blast
qed

end
