(* ===== verification/Spec2Isabelle.thy ===== *)
theory Spec2Isabelle
  imports Pricing_Evaluate Provider_Capacity AI_Job_Claims Ready_Fair Delivery_Lease Settlement_Once Outbox_Order Artifact_Deletion
    Pricing_Windows Cache_Probe Routing_Choice Dispatch_Once
begin

text \<open>
  A verification library of the backend of AsterRouter, an AI gateway: \<open>backend/internal/pricing\<close>, the language in which prices are
  written, and the core of \<open>backend/internal/controlplane\<close>, which admits, meters, charges and queues the requests.

  The program. A request becomes an operation. It is admitted against the budget and the quotas of its credential by a billing hold, and against
  the capacity of the provider account that serves it. A direct request runs at once, as attempts at providers; a durable one becomes a job,
  which waits in a fair queue, is claimed under a lease by the scheduler, goes through the delivery queue to a worker, and is fenced when the
  worker loses it. The usage of a finished operation is metered in dimensions and priced by a rule, and its settlement stores the usage record, the ledger
  entries and the outbox events together and ends the hold. Whatever others must learn of leaves through the transactional outbox.

  The theories, from the bottom:
  \<^item> \<open>Go_Strings\<close>, \<open>Go_Encoding\<close>, \<open>Go_Prelude\<close>: what the code uses of Go and its standard library (strings as bytes, the white space of
    \<open>TrimSpace\<close>, \<open>strconv.Quote\<close>, SHA-256, JSON, 64-bit integers, instants and the calendar, maps, \<open>sort.Slice\<close>), with the lemmas the
    components share. Two contracts are stated there as locales: \<open>comparison\<close>, the comparison function of a sort, and
    \<open>bounded_resource\<close>, the admission check on a shared resource.
  \<^item> \<open>Versioned_Store\<close>: the contract of an update guarded by an expected version, interpreted on the updates of attempts, the transitions of
    holds and the transitions of jobs.
  \<^item> \<open>Pricing_Types\<close>, \<open>Pricing_Money\<close>, \<open>Pricing_Compile\<close>, \<open>Pricing_Evaluate\<close>: the package \<open>pricing\<close>, file by file. The parser, the compiler and the
    virtual machine of the library \<open>expr\<close> are parameters; what is proved of prices holds for every behaviour of them.
  \<^item> \<open>CP_Base\<close>, \<open>CP_Model\<close>: the errors of the control plane, its records, and the repository \<open>MemoryRepository\<close> as a record of maps.
  \<^item> \<open>Usage_Dimension\<close>: \<open>usage_dimension.go\<close>. \<open>Provider_Capacity\<close>: \<open>provider_capacity.go\<close>.
  \<^item> \<open>Operation_Repo\<close>: operations and attempts in \<open>operation_repository.go\<close>. \<open>Billing_Hold\<close>: \<open>billing_hold.go\<close> and
    \<open>billing_hold_repository.go\<close>. \<open>Usage_Settlement\<close> and \<open>Settlement_Once\<close>: the settlement in \<open>operation_repository.go\<close>, the model and what it
    guarantees.
  \<^item> \<open>AI_Job_Model\<close>, \<open>AI_Job_Fair\<close>, \<open>AI_Job_Repo\<close>: \<open>ai_job_model.go\<close>, \<open>ai_job_admission.go\<close>, \<open>ai_job_fair_queue.go\<close>, \<open>ai_job_repository.go\<close>
    and the query part of \<open>ai_job_admin.go\<close>. \<open>AI_Job_Trail\<close> and \<open>AI_Job_Claims\<close> hold what they guarantee together.
  \<^item> \<open>Delivery_Queue\<close>, \<open>Delivery_Lease\<close>: \<open>ai_job_delivery_queue.go\<close>. \<open>Outbox\<close>, \<open>Outbox_Order\<close>: the outbox in \<open>operation_repository.go\<close> and
    \<open>transactional_outbox.go\<close>.

  Conventions. A Go struct is a record whose fields carry a prefix of the struct's name; a method of the repository takes the
  repository last and returns it, updated, with its results; an error is a value of \<open>go_error\<close>, either the left side of a sum or an option in the
  result; a read of a missing key gives the zero record where Go does. A status is the string constant of the code. An instant is the number
  of nanoseconds since the zero time, which is 0. A map is an association list, and a loop over a map visits it in the order of the list: what is
  proved for every list holds for every order. A mutex is held by a whole method, so methods are the atomic steps of an interleaving; the compile
  cache, which releases its lock while it compiles, has two steps. Clocks, random identifiers and tokens, contexts and the decoding of JSON
  are arguments. 64-bit sums of amounts wrap (\<open>wrap64\<close>); version, attempt and fence counters are unbounded here.

  Bounds and fuel. The evaluator runs an interaction tree of the virtual machine, so no fuel is needed; the other loops are structural recursions or
  functions with a measure. The only bounded walks are those of the code (AST nodes and depth, lines of a price, cache capacity).

  What the lemmas show, by group: arithmetic is exact or refused (\<open>Pricing_Money\<close>); the compiler admits the language and nothing else and the cache is
  transparent (\<open>Pricing_Compile\<close>); a price is the sum of lines each of which recomputes (\<open>Pricing_Evaluate\<close>); capacity, budget and quotas are never
  exceeded along any run, and the one way the budget check can be passed by overflow (\<open>Provider_Capacity\<close>, \<open>Billing_Hold\<close>); a settlement happens once and
  the hold ends with what was charged (\<open>Settlement_Once\<close>); the event log of a job is its whole history, versions count the changes, fences and
  leases exclude (\<open>AI_Job_Trail\<close>, \<open>AI_Job_Claims\<close>, \<open>Delivery_Lease\<close>, \<open>Outbox_Order\<close>); the ranking is fair and depends on no order (\<open>AI_Job_Fair\<close>).

  Not modelled: the SQL of the Postgres repositories and the Redis adapters, which answer for their own atomicity; HTTP handlers, configuration and
  process start (\<open>server\<close>, \<open>appcmd\<close>, \<open>config\<close>, \<open>httpx\<close>); the protocol parsers of \<open>gatewaycore\<close>; the provider plugins and the operator; identity, portal
  and notification services, which are mostly storage; the loops that only wait on a ticker and call a modelled step; the web frontend.
\<close>

end
